(* ===== verification/Prelude.thy ===== *)
theory Prelude
  imports Main "HOL-Library.Word" "HOL-Library.Sublist"
begin

text \<open>
  Shared vocabulary of the development.

  \<^item> Time: an \<open>Instant\<close> of the code is a number of nanoseconds since an arbitrary
    origin; \<open>now.duration_since(earlier)\<close> saturates at zero in Rust, as subtraction on
    \<^typ>\<open>nat\<close> does.
  \<^item> Strings: a Rust \<open>str\<close> is the list of its UTF-8 bytes.
  \<^item> Keyed tables: every \<open>HashMap\<close> of the code is an association list with distinct keys.
    The order of the list stands for the iteration order of the map, which Rust leaves
    open: a property proved for every list holds for every iteration order.
  \<^item> Decimal and hexadecimal printing and parsing, as \<open>format!\<close>, \<open>str::parse\<close> and
    \<open>from_str_radix\<close> do them.
\<close>

named_theorems kv_simps \<open>rewriting of keyed-table operations\<close>
named_theorems step_inv \<open>preservation of a component invariant by one operation\<close>

type_synonym instant = nat
type_synonym duration = nat
type_synonym u32 = "32 word"
type_synonym u64 = "64 word"
type_synonym usize = "64 word"
type_synonym ('k, 'v) kv = "('k \<times> 'v) list"

abbreviation nanos_per_sec :: nat where
  "nanos_per_sec \<equiv> 1000000000"

definition secs :: "nat \<Rightarrow> duration" where
  "secs n = n * nanos_per_sec"


section \<open>Keyed tables\<close>

abbreviation kv_get :: "('k, 'v) kv \<Rightarrow> 'k \<Rightarrow> 'v option" where
  "kv_get \<equiv> map_of"

definition kv_has :: "('k, 'v) kv \<Rightarrow> 'k \<Rightarrow> bool" where
  "kv_has m k = (map_of m k \<noteq> None)"

fun kv_put :: "'k \<Rightarrow> 'v \<Rightarrow> ('k, 'v) kv \<Rightarrow> ('k, 'v) kv" where
  "kv_put k v [] = [(k, v)]"
| "kv_put k v ((k', v') # m) = (if k = k' then (k, v) # m else (k', v') # kv_put k v m)"

definition kv_del :: "'k \<Rightarrow> ('k, 'v) kv \<Rightarrow> ('k, 'v) kv" where
  "kv_del k m = filter (\<lambda>e. fst e \<noteq> k) m"

definition kv_retain :: "('k \<Rightarrow> 'v \<Rightarrow> bool) \<Rightarrow> ('k, 'v) kv \<Rightarrow> ('k, 'v) kv" where
  "kv_retain P m = filter (\<lambda>e. P (fst e) (snd e)) m"

definition kv_keys :: "('k, 'v) kv \<Rightarrow> 'k list" where
  "kv_keys m = map fst m"

definition kv_wf :: "('k, 'v) kv \<Rightarrow> bool" where
  "kv_wf m = distinct (map fst m)"

lemma kv_get_put [simp, kv_simps]:
  "kv_get (kv_put k v m) k' = (if k' = k then Some v else kv_get m k')"
  by (induction m) auto

lemma kv_keys_put [kv_simps]: "fst ` set (kv_put k v m) = insert k (fst ` set m)"
  by (induction k v m rule: kv_put.induct) auto

lemma set_kv_put: "x \<in> set (kv_put k v m) \<Longrightarrow> x = (k, v) \<or> x \<in> set m"
  by (induction k v m rule: kv_put.induct) (auto split: if_splits)

lemma kv_wf_Nil [simp]: "kv_wf []"
  by (simp add: kv_wf_def)

lemma kv_wf_put [simp, intro]: "kv_wf m \<Longrightarrow> kv_wf (kv_put k v m)"
  by (induction k v m rule: kv_put.induct) (auto simp: kv_wf_def kv_keys_put)

lemma kv_wf_filter [simp]: "kv_wf m \<Longrightarrow> kv_wf (filter P m)"
  by (induction m) (auto simp: kv_wf_def)

lemma kv_wf_del [simp, intro]: "kv_wf m \<Longrightarrow> kv_wf (kv_del k m)"
  by (simp add: kv_del_def kv_wf_filter)

lemma kv_wf_retain [simp, intro]: "kv_wf m \<Longrightarrow> kv_wf (kv_retain P m)"
  by (simp add: kv_retain_def kv_wf_filter)

lemma kv_get_del [simp, kv_simps]:
  "kv_get (kv_del k m) k' = (if k' = k then None else kv_get m k')"
  by (induction m) (auto simp: kv_del_def)

lemma kv_get_retain [kv_simps]:
  "kv_wf m \<Longrightarrow> kv_get (kv_retain P m) k =
     (case kv_get m k of Some v \<Rightarrow> if P k v then Some v else None | None \<Rightarrow> None)"
proof (induction m)
  case Nil
  then show ?case by (simp add: kv_retain_def)
next
  case (Cons e m)
  obtain k' v' where e: "e = (k', v')" by (cases e)
  from Cons.prems e have "k' \<notin> fst ` set m" "kv_wf m" by (auto simp: kv_wf_def)
  moreover from \<open>k' \<notin> fst ` set m\<close> have "kv_get m k' = None"
    by (simp add: map_of_eq_None_iff)
  ultimately show ?case using Cons.IH e by (auto simp: kv_retain_def split: option.splits)
qed

lemma kv_get_retain_Some:
  "kv_wf m \<Longrightarrow> kv_get (kv_retain P m) k = Some v \<longleftrightarrow> kv_get m k = Some v \<and> P k v"
  by (auto simp: kv_get_retain split: option.splits)

lemma kv_get_retain_None:
  "kv_wf m \<Longrightarrow> kv_get (kv_retain P m) k = None \<longleftrightarrow>
     (\<forall>v. kv_get m k = Some v \<longrightarrow> \<not> P k v)"
  by (auto simp: kv_get_retain split: option.splits)

lemma kv_get_in: "kv_get m k = Some v \<Longrightarrow> (k, v) \<in> set m"
  by (rule map_of_SomeD)

lemma kv_in_get: "kv_wf m \<Longrightarrow> (k, v) \<in> set m \<longleftrightarrow> kv_get m k = Some v"
  by (auto simp: kv_wf_def intro: map_of_is_SomeI map_of_SomeD)

lemma kv_has_get: "kv_has m k \<longleftrightarrow> (\<exists>v. kv_get m k = Some v)"
  by (auto simp: kv_has_def)

lemma kv_has_keys: "kv_has m k \<longleftrightarrow> k \<in> set (kv_keys m)"
  by (simp add: kv_has_def kv_keys_def map_of_eq_None_iff)

lemma kv_has_Nil [simp]: "\<not> kv_has [] k"
  by (simp add: kv_has_def)

lemma kv_has_put [simp, kv_simps]: "kv_has (kv_put k v m) k' \<longleftrightarrow> k' = k \<or> kv_has m k'"
  by (auto simp: kv_has_def)

lemma kv_has_del [simp, kv_simps]: "kv_has (kv_del k m) k' \<longleftrightarrow> k' \<noteq> k \<and> kv_has m k'"
  by (auto simp: kv_has_def)

lemma kv_has_retain [kv_simps]:
  "kv_wf m \<Longrightarrow> kv_has (kv_retain P m) k \<longleftrightarrow> (\<exists>v. kv_get m k = Some v \<and> P k v)"
  by (auto simp: kv_has_get kv_get_retain_Some)

lemma kv_has_retain_imp: "kv_has (kv_retain P m) k \<Longrightarrow> kv_has m k"
  by (auto simp: kv_has_keys kv_keys_def kv_retain_def)

lemma length_kv_retain: "length (kv_retain P m) \<le> length m"
  by (simp add: kv_retain_def)

lemma kv_retain_count:
  "length m - length (kv_retain P m) = length (filter (\<lambda>e. \<not> P (fst e) (snd e)) m)"
  using sum_length_filter_compl [of "\<lambda>e. P (fst e) (snd e)" m] by (simp add: kv_retain_def)


section \<open>Strings\<close>

definition starts_with :: "string \<Rightarrow> string \<Rightarrow> bool" where
  "starts_with s p = prefix p s"

definition ends_with :: "string \<Rightarrow> string \<Rightarrow> bool" where
  "ends_with s p = suffix p s"

fun str_contains :: "string \<Rightarrow> string \<Rightarrow> bool" where
  "str_contains [] p = (p = [])"
| "str_contains (c # s) p = (prefix p (c # s) \<or> str_contains s p)"

definition strip_prefix :: "string \<Rightarrow> string \<Rightarrow> string option" where
  "strip_prefix p s = (if prefix p s then Some (drop (length p) s) else None)"

fun split_once :: "char \<Rightarrow> string \<Rightarrow> (string \<times> string) option" where
  "split_once d [] = None"
| "split_once d (c # s) =
     (if c = d then Some ([], s)
      else map_option (\<lambda>ab. (c # fst ab, snd ab)) (split_once d s))"

lemma split_once_append [simp]:
  "d \<notin> set a \<Longrightarrow> split_once d (a @ d # b) = Some (a, b)"
  by (induction a) auto

lemma split_once_Some: "split_once d s = Some (a, b) \<Longrightarrow> s = a @ d # b \<and> d \<notin> set a"
  by (induction s arbitrary: a) (auto split: if_splits)

lemma strip_prefix_append [simp]: "strip_prefix p (p @ s) = Some s"
  by (simp add: strip_prefix_def)

lemma strip_prefix_Some: "strip_prefix p s = Some r \<longleftrightarrow> s = p @ r"
  by (auto simp: strip_prefix_def prefix_def)

end
