(* ===== verification/Text_Format.thy ===== *)
theory Text_Format
  imports Prelude
begin

text \<open>
  Printing and parsing of numbers and the string operations of the Rust standard library
  that the components use: \<open>to_string\<close> and \<open>{:08x}\<close>, \<open>str::parse\<close> and
  \<open>from_str_radix\<close> on unsigned integers (with their optional leading plus sign and
  their overflow check), \<open>chars().count()\<close> and \<open>chars().take(n)\<close> on UTF-8 bytes, \<open>trim\<close>
  and \<open>to_ascii_lowercase\<close>.
\<close>

section \<open>Digits\<close>

definition digit_char :: "nat \<Rightarrow> char" where
  "digit_char d = (if d < 10 then char_of (48 + d) else char_of (87 + d))"

definition char_digit :: "nat \<Rightarrow> char \<Rightarrow> nat option" where
  "char_digit r c =
     (let n = of_char c :: nat;
          d = (if 48 \<le> n \<and> n \<le> 57 then Some (n - 48)
               else if 97 \<le> n \<and> n \<le> 122 then Some (n - 87)
               else if 65 \<le> n \<and> n \<le> 90 then Some (n - 55)
               else None)
      in case d of Some v \<Rightarrow> if v < r then Some v else None | None \<Rightarrow> None)"

function to_radix :: "nat \<Rightarrow> nat \<Rightarrow> nat list" where
  "to_radix r n = (if r < 2 \<or> n < r then [n] else to_radix r (n div r) @ [n mod r])"
  by pat_completeness auto
termination
  by (relation "measure snd") auto

declare to_radix.simps [simp del]

definition show_dec :: "nat \<Rightarrow> string" where
  "show_dec n = map digit_char (to_radix 10 n)"

definition show_hex08 :: "u32 \<Rightarrow> string" where
  "show_hex08 w =
     (let ds = map digit_char (to_radix 16 (unat w))
      in replicate (8 - length ds) (CHR ''0'') @ ds)"

fun parse_acc :: "nat \<Rightarrow> nat \<Rightarrow> string \<Rightarrow> nat option" where
  "parse_acc r a [] = Some a"
| "parse_acc r a (c # s) =
     (case char_digit r c of None \<Rightarrow> None | Some d \<Rightarrow> parse_acc r (a * r + d) s)"

definition parse_unsigned :: "nat \<Rightarrow> nat \<Rightarrow> string \<Rightarrow> nat option" where
  "parse_unsigned r bound s =
     (if s = [] then None
      else
        let body = (if hd s = CHR ''+'' \<and> tl s \<noteq> [] then tl s else s)
        in case parse_acc r 0 body of
             None \<Rightarrow> None
           | Some v \<Rightarrow> if v < bound then Some v else None)"

definition from_radix :: "nat \<Rightarrow> nat list \<Rightarrow> nat" where
  "from_radix r = foldl (\<lambda>a d. a * r + d) 0"

lemma char_digit_digit_char:
  "d < r \<Longrightarrow> r \<le> 16 \<Longrightarrow> char_digit r (digit_char d) = Some d"
  by (auto simp: char_digit_def digit_char_def Let_def)

lemma of_char_digit_char:
  "d < 16 \<Longrightarrow> of_char (digit_char d) = (if d < 10 then 48 + d else 87 + d)"
  by (simp add: digit_char_def)

lemma digit_char_ne:
  assumes "d < 16"
  shows "digit_char d \<noteq> CHR '':''" "digit_char d \<noteq> CHR ''+''"
proof -
  have "of_char (digit_char d) \<noteq> (58::nat)" "of_char (digit_char d) \<noteq> (43::nat)"
    using assms by (simp_all add: of_char_digit_char)
  then show "digit_char d \<noteq> CHR '':''" "digit_char d \<noteq> CHR ''+''" by auto
qed

lemma digit_char_0: "digit_char 0 = CHR ''0''"
  by code_simp

lemma unat_u32_less: "unat (w::u32) < 4294967296"
  using unsigned_less [of w, where ?'a = nat] by simp

lemma unat_u64_less: "unat (w::u64) < 18446744073709551616"
  using unsigned_less [of w, where ?'a = nat] by simp

lemma to_radix_digits: "2 \<le> r \<Longrightarrow> d \<in> set (to_radix r n) \<Longrightarrow> d < r"
proof (induction r n rule: to_radix.induct)
  case (1 r n)
  then show ?case by (subst (asm) to_radix.simps) (auto split: if_splits)
qed

lemma to_radix_ne: "to_radix r n \<noteq> []"
  by (subst to_radix.simps) simp

lemma from_to_radix: "2 \<le> r \<Longrightarrow> from_radix r (to_radix r n) = n"
proof (induction r n rule: to_radix.induct)
  case (1 r n)
  show ?case
  proof (cases "n < r")
    case True
    then show ?thesis by (subst to_radix.simps) (simp add: from_radix_def)
  next
    case False
    with 1 have "from_radix r (to_radix r (n div r)) = n div r" by simp
    with False \<open>2 \<le> r\<close> show ?thesis
      by (subst to_radix.simps) (simp add: from_radix_def)
  qed
qed

lemma parse_acc_digits:
  "r \<le> 16 \<Longrightarrow> \<forall>d \<in> set ds. d < r \<Longrightarrow>
     parse_acc r a (map digit_char ds) = Some (foldl (\<lambda>a d. a * r + d) a ds)"
  by (induction ds arbitrary: a) (auto simp: char_digit_digit_char)

lemma to_radix_length: "2 \<le> r \<Longrightarrow> n < r ^ Suc k \<Longrightarrow> length (to_radix r n) \<le> Suc k"
proof (induction k arbitrary: n)
  case 0
  then show ?case by (subst to_radix.simps) simp
next
  case (Suc k)
  show ?case
  proof (cases "n < r")
    case True
    then show ?thesis by (subst to_radix.simps) simp
  next
    case False
    from Suc.prems have "n div r < r ^ Suc k"
      by (simp add: less_mult_imp_div_less mult.commute)
    from Suc.IH [OF Suc.prems(1) this] False Suc.prems(1) show ?thesis
      by (subst to_radix.simps) simp
  qed
qed

lemma parse_unsigned_digits:
  assumes "ds \<noteq> []" "\<forall>d \<in> set ds. d < r" "2 \<le> r" "r \<le> 16" "from_radix r ds < bound"
  shows "parse_unsigned r bound (map digit_char ds) = Some (from_radix r ds)"
proof -
  from assms(1) obtain d ds' where ds: "ds = d # ds'" by (cases ds) auto
  with assms have "digit_char d \<noteq> CHR ''+''" using digit_char_ne [of d] by auto
  moreover have "parse_acc r 0 (map digit_char ds) = Some (from_radix r ds)"
    using assms by (simp add: parse_acc_digits from_radix_def)
  ultimately show ?thesis using ds assms(5) by (simp add: parse_unsigned_def)
qed

lemma parse_show_dec: "n < bound \<Longrightarrow> parse_unsigned 10 bound (show_dec n) = Some n"
  by (simp add: show_dec_def parse_unsigned_digits to_radix_ne to_radix_digits from_to_radix)

lemma from_radix_zeros: "from_radix r (replicate k 0 @ ds) = from_radix r ds"
  by (induction k) (simp_all add: from_radix_def)

lemma show_hex08_digits:
  "show_hex08 w =
     map digit_char (replicate (8 - length (to_radix 16 (unat w))) 0 @ to_radix 16 (unat w))"
  by (simp add: show_hex08_def Let_def digit_char_0)

lemma length_show_hex08 [simp]: "length (show_hex08 w) = 8"
proof -
  have "unat w < 16 ^ Suc 7" using unat_u32_less [of w] by simp
  then have "length (to_radix 16 (unat w)) \<le> 8" using to_radix_length [of 16 "unat w" 7] by simp
  then show ?thesis by (simp add: show_hex08_def Let_def)
qed

lemma parse_show_hex08:
  "parse_unsigned 16 (2 ^ 32) (show_hex08 w) = Some (unat w)"
proof -
  let ?ds = "replicate (8 - length (to_radix 16 (unat w))) 0 @ to_radix 16 (unat w)"
  have "from_radix 16 ?ds = unat w" by (simp add: from_radix_zeros from_to_radix)
  moreover have "unat w < 2 ^ 32" using unat_u32_less [of w] by simp
  moreover have "\<forall>d \<in> set ?ds. d < 16" by (auto simp: to_radix_digits)
  ultimately show ?thesis
    unfolding show_hex08_digits by (subst parse_unsigned_digits) (simp_all add: to_radix_ne)
qed

lemma show_hex08_no_colon: "CHR '':'' \<notin> set (show_hex08 w)"
proof
  let ?ds = "replicate (8 - length (to_radix 16 (unat w))) 0 @ to_radix 16 (unat w)"
  assume "CHR '':'' \<in> set (show_hex08 w)"
  then obtain d where "d \<in> set ?ds" "digit_char d = CHR '':''"
    unfolding show_hex08_digits by fastforce
  moreover from \<open>d \<in> set ?ds\<close> have "d < 16" by (auto simp: to_radix_digits)
  ultimately show False using digit_char_ne by blast
qed

lemma show_dec_ne: "show_dec n \<noteq> []"
  by (simp add: show_dec_def to_radix_ne)


section \<open>UTF-8 text\<close>

definition byte_of :: "char \<Rightarrow> nat" where
  "byte_of c = of_char c"

definition is_cont_byte :: "char \<Rightarrow> bool" where
  "is_cont_byte c = (128 \<le> byte_of c \<and> byte_of c < 192)"

definition chars_count :: "string \<Rightarrow> nat" where
  "chars_count s = length (filter (\<lambda>c. \<not> is_cont_byte c) s)"

fun chars_take :: "nat \<Rightarrow> string \<Rightarrow> string" where
  "chars_take n [] = []"
| "chars_take n (c # s) =
     (if is_cont_byte c then c # chars_take n s
      else case n of 0 \<Rightarrow> [] | Suc m \<Rightarrow> c # chars_take m s)"

definition is_char_boundary :: "string \<Rightarrow> nat \<Rightarrow> bool" where
  "is_char_boundary s i = (i = length s \<or> (i < length s \<and> \<not> is_cont_byte (s ! i)))"

definition bytes :: "nat list \<Rightarrow> string" where
  "bytes = map char_of"

text \<open>The encodings of the Unicode White\_Space characters, which \<open>trim\<close> removes.\<close>

definition white_space :: "string list" where
  "white_space =
     map (\<lambda>n. bytes [n]) [9, 10, 11, 12, 13, 32]
     @ [bytes [194, 133], bytes [194, 160], bytes [225, 154, 128]]
     @ map (\<lambda>n. bytes [226, 128, n]) [128, 129, 130, 131, 132, 133, 134, 135, 136, 137, 138, 168, 169, 175]
     @ [bytes [226, 129, 159], bytes [227, 128, 128]]"

function strip_white :: "string \<Rightarrow> string" where
  "strip_white s =
     (case find (\<lambda>w. w \<noteq> [] \<and> prefix w s) white_space of
        None \<Rightarrow> s | Some w \<Rightarrow> strip_white (drop (length w) s))"
  by pat_completeness auto
termination
  by (relation "measure length") (auto simp: find_Some_iff prefix_def)

function strip_white_end :: "string \<Rightarrow> string" where
  "strip_white_end s =
     (case find (\<lambda>w. w \<noteq> [] \<and> suffix w s) white_space of
        None \<Rightarrow> s | Some w \<Rightarrow> strip_white_end (take (length s - length w) s))"
  by pat_completeness auto
termination
  by (relation "measure length") (auto simp: find_Some_iff suffix_def)

declare strip_white.simps [simp del] strip_white_end.simps [simp del]

definition trim :: "string \<Rightarrow> string" where
  "trim s = strip_white_end (strip_white s)"

definition to_ascii_lowercase :: "string \<Rightarrow> string" where
  "to_ascii_lowercase =
     map (\<lambda>c. if 65 \<le> byte_of c \<and> byte_of c \<le> 90 then char_of (byte_of c + 32) else c)"

lemma chars_count_take: "chars_count (chars_take n s) \<le> n"
  by (induction n s rule: chars_take.induct) (auto simp: chars_count_def split: nat.splits)

lemma chars_take_prefix: "prefix (chars_take n s) s"
  by (induction n s rule: chars_take.induct) (auto split: nat.splits)

lemma chars_take_all: "chars_count s \<le> n \<Longrightarrow> chars_take n s = s"
  by (induction n s rule: chars_take.induct) (auto simp: chars_count_def split: nat.splits if_splits)

end
