(* ===== verification/ElementToken.thy ===== *)
theory ElementToken
  imports Text_Format
begin

text \<open>
  Model of \<open>cua-driver-core/src/element_token.rs\<close>: the process-wide registry of window
  snapshots, the opaque element tokens minted for them, their resolution, and the
  validation of the element arguments of a tool call. The dispatch runtime scope, a task
  local of the code, is an argument of the operations.
\<close>

section \<open>State\<close>

record snapshot_entry =
  snapshot_id :: u32
  window_id :: u32
  element_index_capacity :: usize

record token_registry =
  by_runtime_and_pid :: "(string \<times> int, snapshot_entry list) kv"
  snapshot_counter :: u32

definition LRU_CAP_PER_PID :: nat where
  "LRU_CAP_PER_PID = 8"

definition STALE_TOKEN_ERROR :: string where
  "STALE_TOKEN_ERROR = ''element_token is stale; call get_window_state again to refresh''"

definition FOREIGN_TOKEN_ERROR :: string where
  "FOREIGN_TOKEN_ERROR = ''element_token belongs to another runtime generation''"

definition INVALID_TOKEN_ERROR :: string where
  "INVALID_TOKEN_ERROR = ''element_token has invalid format''"

definition new_registry :: token_registry where
  "new_registry = \<lparr>by_runtime_and_pid = [], snapshot_counter = 1\<rparr>"

definition current_runtime_scope :: "string option \<Rightarrow> string" where
  "current_runtime_scope dispatch = (case dispatch of Some s \<Rightarrow> s | None \<Rightarrow> ''legacy'')"


section \<open>Token text\<close>

definition format_token :: "u32 \<Rightarrow> usize \<Rightarrow> string" where
  "format_token sid idx = ''s'' @ show_hex08 sid @ '':'' @ show_dec (unat idx)"

definition parse_token :: "string \<Rightarrow> (u32 \<times> usize) option" where
  "parse_token token =
     (case strip_prefix ''s'' token of
        None \<Rightarrow> None
      | Some body \<Rightarrow>
          (case split_once (CHR '':'') body of
             None \<Rightarrow> None
           | Some (hex, idx) \<Rightarrow>
               if length hex \<noteq> 8 then None
               else
                 (case parse_unsigned 16 (2 ^ 32) hex of
                    None \<Rightarrow> None
                  | Some sid \<Rightarrow>
                      (case parse_unsigned 10 (2 ^ 64) idx of
                         None \<Rightarrow> None
                       | Some i \<Rightarrow> Some (of_nat sid, of_nat i)))))"

definition parse_snapshot_handle :: "string \<Rightarrow> u32 option" where
  "parse_snapshot_handle handle =
     (case strip_prefix ''s'' handle of
        None \<Rightarrow> None
      | Some hex \<Rightarrow>
          if length hex \<noteq> 8 \<or> CHR '':'' \<in> set hex then None
          else map_option of_nat (parse_unsigned 16 (2 ^ 32) hex))"


section \<open>Registry operations\<close>

definition mint_snapshot_id :: "token_registry \<Rightarrow> token_registry \<times> u32" where
  "mint_snapshot_id r =
     (r\<lparr>snapshot_counter := snapshot_counter r + 1\<rparr>, snapshot_counter r)"

text \<open>The eviction loop \<open>while lane.len() > CAP { lane.remove(0) }\<close>.\<close>

fun evict_oldest :: "snapshot_entry list \<Rightarrow> snapshot_entry list" where
  "evict_oldest [] = []"
| "evict_oldest (e # lane) =
     (if LRU_CAP_PER_PID < length (e # lane) then evict_oldest lane else e # lane)"

definition lane_of :: "token_registry \<Rightarrow> string \<Rightarrow> int \<Rightarrow> snapshot_entry list" where
  "lane_of r scope pid =
     (case kv_get (by_runtime_and_pid r) (scope, pid) of Some l \<Rightarrow> l | None \<Rightarrow> [])"

definition push_snapshot ::
    "snapshot_entry \<Rightarrow> snapshot_entry list \<Rightarrow> snapshot_entry list" where
  "push_snapshot e lane =
     evict_oldest (filter (\<lambda>x. window_id x \<noteq> window_id e) lane @ [e])"

definition register_snapshot ::
    "string \<Rightarrow> int \<Rightarrow> u32 \<Rightarrow> usize \<Rightarrow> token_registry \<Rightarrow> token_registry \<times> u32" where
  "register_snapshot scope pid wid capacity r =
     (let (r1, i) = mint_snapshot_id r;
          lane = lane_of r1 scope pid;
          entry = \<lparr>snapshot_id = i, window_id = wid, element_index_capacity = capacity\<rparr>
      in (r1\<lparr>by_runtime_and_pid :=
               kv_put (scope, pid) (push_snapshot entry lane) (by_runtime_and_pid r1)\<rparr>, i))"

definition belongs_to_another_runtime :: "token_registry \<Rightarrow> string \<Rightarrow> int \<Rightarrow> u32 \<Rightarrow> bool" where
  "belongs_to_another_runtime r scope pid sid =
     list_ex (\<lambda>((s, p), lane). s \<noteq> scope \<and> p = pid \<and> list_ex (\<lambda>e. snapshot_id e = sid) lane)
       (by_runtime_and_pid r)"

definition index_out_of_range :: "usize \<Rightarrow> usize \<Rightarrow> string" where
  "index_out_of_range idx capacity =
     ''element_token element_index '' @ show_dec (unat idx)
     @ '' out of range (snapshot index capacity '' @ show_dec (unat capacity) @ '')''"

definition resolve_with_snapshot ::
    "string \<Rightarrow> int \<Rightarrow> string \<Rightarrow> token_registry \<Rightarrow> string + (u32 \<times> u32 \<times> usize)" where
  "resolve_with_snapshot scope pid token r =
     (case parse_token token of
        None \<Rightarrow> Inl INVALID_TOKEN_ERROR
      | Some (sid, idx) \<Rightarrow>
          (let missing = (if belongs_to_another_runtime r scope pid sid
                          then FOREIGN_TOKEN_ERROR else STALE_TOKEN_ERROR)
           in case kv_get (by_runtime_and_pid r) (scope, pid) of
                None \<Rightarrow> Inl missing
              | Some lane \<Rightarrow>
                  (case find (\<lambda>e. snapshot_id e = sid) lane of
                     None \<Rightarrow> Inl missing
                   | Some e \<Rightarrow>
                       if element_index_capacity e \<le> idx
                       then Inl (index_out_of_range idx (element_index_capacity e))
                       else Inr (snapshot_id e, window_id e, idx))))"

definition resolve :: "string \<Rightarrow> int \<Rightarrow> string \<Rightarrow> token_registry \<Rightarrow> string + (u32 \<times> usize)" where
  "resolve scope pid token r =
     (case resolve_with_snapshot scope pid token r of
        Inl e \<Rightarrow> Inl e
      | Inr (sid, wid, idx) \<Rightarrow> Inr (wid, idx))"

definition clear_runtime_scope :: "string \<Rightarrow> token_registry \<Rightarrow> token_registry \<times> nat" where
  "clear_runtime_scope scope r =
     (let before = length (by_runtime_and_pid r);
          kept = kv_retain (\<lambda>k _. fst k \<noteq> scope) (by_runtime_and_pid r)
      in (r\<lparr>by_runtime_and_pid := kept\<rparr>, before - length kept))"


section \<open>Element arguments of a tool call\<close>

datatype resolved_element =
    NoElement
  | Element (el_window: "u32 option") (el_index: usize) (el_snapshot: u32) (via_token: bool)

fun resolved_snapshot_id :: "resolved_element \<Rightarrow> u32 option" where
  "resolved_snapshot_id (Element _ _ sid _) = Some sid"
| "resolved_snapshot_id NoElement = None"

text \<open>A structured refusal is its code and its message.\<close>

type_synonym refusal = "string \<times> string"

definition resolve_token ::
    "string \<Rightarrow> int \<Rightarrow> token_registry \<Rightarrow> string \<Rightarrow> refusal + (u32 \<times> u32 \<times> usize)" where
  "resolve_token scope pid r tok =
     (case resolve_with_snapshot scope pid tok r of
        Inr x \<Rightarrow> Inr x
      | Inl message \<Rightarrow>
          Inl (if str_contains message ''another runtime generation'' then ''generation_mismatch''
               else if message = STALE_TOKEN_ERROR then ''stale_element_token''
               else ''invalid_element_token'', message))"

definition resolve_element_args ::
    "string \<Rightarrow> int \<Rightarrow> usize option \<Rightarrow> string option \<Rightarrow> string option \<Rightarrow> u64 option \<Rightarrow> string
     \<Rightarrow> token_registry \<Rightarrow> refusal + resolved_element" where
  "resolve_element_args scope pid idx_opt tok_opt snap_opt arg_wid tool r =
     (case (idx_opt, tok_opt, snap_opt) of
        (None, None, None) \<Rightarrow> Inr NoElement
      | (None, None, Some _) \<Rightarrow>
          Inl (''element_index_required'', tool @ '': snapshot_id requires element_index'')
      | (Some _, None, None) \<Rightarrow>
          Inl (''snapshot_id_required'',
               tool @ '': bare element_index is not accepted; pass element_token, or snapshot_id together with element_index'')
      | (Some idx, None, Some handle) \<Rightarrow>
          (case parse_snapshot_handle handle of
             None \<Rightarrow> Inl (''invalid_snapshot_id'', tool @ '': snapshot_id has invalid format'')
           | Some sid \<Rightarrow>
               (case resolve_token scope pid r (format_token sid idx) of
                  Inl e \<Rightarrow> Inl e
                | Inr (rsid, wid, ridx) \<Rightarrow>
                    (case arg_wid of
                       Some w \<Rightarrow>
                         if w \<noteq> ucast wid
                         then Inl (''conflicting_element_target'',
                                   tool @ '': snapshot belongs to window_id '' @ show_dec (unat wid)
                                   @ '', not '' @ show_dec (unat w))
                         else Inr (Element (Some wid) ridx rsid False)
                     | None \<Rightarrow> Inr (Element (Some wid) ridx rsid False))))
      | (_, Some tok, _) \<Rightarrow>
          (case resolve_token scope pid r tok of
             Inl e \<Rightarrow> Inl e
           | Inr (rsid, wid, idx) \<Rightarrow>
               if (case idx_opt of Some i \<Rightarrow> i \<noteq> idx | None \<Rightarrow> False)
                  \<or> (case arg_wid of Some w \<Rightarrow> w \<noteq> ucast wid | None \<Rightarrow> False)
                  \<or> (case snap_opt of
                        Some h \<Rightarrow> parse_snapshot_handle h \<noteq> map_option fst (parse_token tok)
                      | None \<Rightarrow> False)
               then Inl (''conflicting_element_target'',
                         tool @ '': element_token conflicts with element_index, snapshot_id, or window_id'')
               else Inr (Element (Some wid) idx rsid True)))"


section \<open>Invariants\<close>

text \<open>Every lane is bounded by the cap and holds at most one snapshot per window.\<close>

definition lane_ok :: "snapshot_entry list \<Rightarrow> bool" where
  "lane_ok lane = (length lane \<le> LRU_CAP_PER_PID \<and> distinct (map window_id lane))"

definition registry_ok :: "token_registry \<Rightarrow> bool" where
  "registry_ok r =
     (kv_wf (by_runtime_and_pid r) \<and> (\<forall>kl \<in> set (by_runtime_and_pid r). lane_ok (snd kl)))"

text \<open>Before the 32-bit counter wraps, every retained id is smaller than the counter and no
  lane holds an id twice.\<close>

definition ids_fresh :: "token_registry \<Rightarrow> bool" where
  "ids_fresh r =
     (kv_wf (by_runtime_and_pid r) \<and>
      (\<forall>kl \<in> set (by_runtime_and_pid r).
         (\<forall>e \<in> set (snd kl). 0 < snapshot_id e \<and> snapshot_id e < snapshot_counter r)
         \<and> distinct (map snapshot_id (snd kl))))"

text \<open>The specification of a lane after a registration: the newest eight of the entries of the
  other windows followed by the new one.\<close>

definition newest :: "nat \<Rightarrow> 'a list \<Rightarrow> 'a list" where
  "newest n xs = drop (length xs - n) xs"

text \<open>The states a process can reach: any sequence of registrations and runtime teardowns.\<close>

datatype registry_op =
    Register string int u32 usize
  | ClearScope string

fun registry_step :: "registry_op \<Rightarrow> token_registry \<Rightarrow> token_registry" where
  "registry_step (Register scope pid wid cap) r = fst (register_snapshot scope pid wid cap r)"
| "registry_step (ClearScope scope) r = fst (clear_runtime_scope scope r)"

fun registry_run :: "registry_op list \<Rightarrow> token_registry" where
  "registry_run [] = new_registry"
| "registry_run (x # xs) = registry_step x (registry_run xs)"

fun registrations :: "registry_op list \<Rightarrow> nat" where
  "registrations [] = 0"
| "registrations (Register _ _ _ _ # xs) = Suc (registrations xs)"
| "registrations (ClearScope _ # xs) = registrations xs"

text \<open>\<open>registry_run\<close> takes the most recent operation first.\<close>


section \<open>Lemmas\<close>

lemma evict_oldest_newest: "evict_oldest lane = newest LRU_CAP_PER_PID lane"
  by (induction lane) (auto simp: newest_def Suc_diff_le)

lemma set_newest: "set (newest n xs) \<subseteq> set xs"
  by (simp add: newest_def set_drop_subset)

lemma length_newest: "length (newest n xs) \<le> n"
  by (simp add: newest_def)

lemma newest_snoc: "0 < n \<Longrightarrow> newest n (xs @ [x]) = newest (n - 1) xs @ [x]"
  by (auto simp: newest_def)

lemma distinct_map_filter_snoc:
  "distinct (map window_id lane) \<Longrightarrow>
   distinct (map window_id (filter (\<lambda>x. window_id x \<noteq> window_id e) lane @ [e]))"
  by (auto simp: distinct_map_filter)

lemma distinct_map_newest: "distinct (map f xs) \<Longrightarrow> distinct (map f (newest n xs))"
  by (simp add: newest_def flip: drop_map)

lemma lane_ok_push: "lane_ok lane \<Longrightarrow> lane_ok (push_snapshot e lane)"
proof -
  assume "lane_ok lane"
  then have "distinct (map window_id (filter (\<lambda>x. window_id x \<noteq> window_id e) lane @ [e]))"
    by (intro distinct_map_filter_snoc) (simp add: lane_ok_def)
  then show ?thesis
    by (simp add: lane_ok_def push_snapshot_def evict_oldest_newest length_newest distinct_map_newest)
qed

lemma push_snapshot_eq:
  "push_snapshot e lane = newest 7 (filter (\<lambda>x. window_id x \<noteq> window_id e) lane) @ [e]"
  by (simp add: push_snapshot_def evict_oldest_newest LRU_CAP_PER_PID_def newest_snoc)

lemma set_push_snapshotD:
  assumes "x \<in> set (push_snapshot e lane)"
  shows "x = e \<or> (x \<in> set lane \<and> window_id x \<noteq> window_id e)"
proof -
  from assms have "x = e \<or> x \<in> set (newest 7 (filter (\<lambda>x. window_id x \<noteq> window_id e) lane))"
    by (auto simp: push_snapshot_eq)
  then show ?thesis using subsetD [OF set_newest] by fastforce
qed

lemma lane_of_Nil_ok [simp]: "lane_ok []"
  by (simp add: lane_ok_def)

lemma registry_ok_lane: "registry_ok r \<Longrightarrow> lane_ok (lane_of r scope pid)"
  by (fastforce simp: registry_ok_def lane_of_def split: option.splits dest: kv_get_in)

lemma register_snapshot_eq:
  "register_snapshot scope pid wid cap r =
     (r\<lparr>snapshot_counter := snapshot_counter r + 1,
        by_runtime_and_pid :=
          kv_put (scope, pid)
            (push_snapshot \<lparr>snapshot_id = snapshot_counter r, window_id = wid,
                            element_index_capacity = cap\<rparr> (lane_of r scope pid))
            (by_runtime_and_pid r)\<rparr>, snapshot_counter r)"
  by (simp add: register_snapshot_def mint_snapshot_id_def lane_of_def)

lemma lane_of_register:
  "lane_of (fst (register_snapshot scope pid wid cap r)) scope' pid' =
     (if (scope', pid') = (scope, pid)
      then push_snapshot \<lparr>snapshot_id = snapshot_counter r, window_id = wid,
                          element_index_capacity = cap\<rparr> (lane_of r scope pid)
      else lane_of r scope' pid')"
  by (simp add: register_snapshot_eq lane_of_def)

lemma registry_ok_register:
  "registry_ok r \<Longrightarrow> registry_ok (fst (register_snapshot scope pid wid cap r))"
  using lane_ok_push [OF registry_ok_lane]
  by (fastforce simp: register_snapshot_eq registry_ok_def dest: set_kv_put)

lemma lane_of_mem:
  assumes "e \<in> set (lane_of r scope pid)"
  shows "\<exists>kl \<in> set (by_runtime_and_pid r). e \<in> set (snd kl)"
proof (cases "kv_get (by_runtime_and_pid r) (scope, pid)")
  case None
  with assms show ?thesis by (simp add: lane_of_def)
next
  case (Some lane)
  with assms have "e \<in> set lane" by (simp add: lane_of_def)
  with kv_get_in [OF Some] show ?thesis by force
qed

lemma ids_fresh_lane:
  "ids_fresh r \<Longrightarrow> e \<in> set (lane_of r scope pid) \<Longrightarrow>
     0 < snapshot_id e \<and> snapshot_id e < snapshot_counter r"
  unfolding ids_fresh_def using lane_of_mem by blast

lemma ids_fresh_distinct: "ids_fresh r \<Longrightarrow> distinct (map snapshot_id (lane_of r scope pid))"
  by (fastforce simp: ids_fresh_def lane_of_def split: option.splits dest: kv_get_in)

lemma ids_fresh_push:
  assumes "ids_fresh r" "0 < snapshot_counter r"
  shows "distinct (map snapshot_id (push_snapshot
           \<lparr>snapshot_id = snapshot_counter r, window_id = wid, element_index_capacity = cap\<rparr>
           (lane_of r scope pid)))"
    and "e \<in> set (push_snapshot
           \<lparr>snapshot_id = snapshot_counter r, window_id = wid, element_index_capacity = cap\<rparr>
           (lane_of r scope pid)) \<Longrightarrow> 0 < snapshot_id e \<and> snapshot_id e \<le> snapshot_counter r"
proof -
  let ?old = "newest 7 (filter (\<lambda>x. window_id x \<noteq> wid) (lane_of r scope pid))"
  have old: "e \<in> set ?old \<Longrightarrow> 0 < snapshot_id e \<and> snapshot_id e < snapshot_counter r" for e
    using ids_fresh_lane [OF assms(1)] set_newest by fastforce
  have "distinct (map snapshot_id ?old)"
    by (intro distinct_map_newest distinct_map_filter ids_fresh_distinct assms(1))
  then show "distinct (map snapshot_id (push_snapshot
           \<lparr>snapshot_id = snapshot_counter r, window_id = wid, element_index_capacity = cap\<rparr>
           (lane_of r scope pid)))"
    using old by (fastforce simp: push_snapshot_eq)
  show "e \<in> set (push_snapshot
           \<lparr>snapshot_id = snapshot_counter r, window_id = wid, element_index_capacity = cap\<rparr>
           (lane_of r scope pid)) \<Longrightarrow> 0 < snapshot_id e \<and> snapshot_id e \<le> snapshot_counter r"
    using old assms(2) by (fastforce simp: push_snapshot_eq)
qed

lemma word_less_inc: "w < w + 1 \<longleftrightarrow> w + 1 \<noteq> (0::u32)"
proof (cases "unat w + 1 < 2 ^ 32")
  case True
  then have "unat (w + 1) = unat w + 1" by (simp add: unat_word_ariths)
  then show ?thesis by (metis add_is_0 less_add_one one_neq_zero unat_0 word_less_nat_alt)
next
  case False
  with unat_u32_less [of w] have "unat w + 1 = 2 ^ 32" by simp
  then have "unat (w + 1) = 0" by (simp add: unat_word_ariths)
  then show ?thesis by (simp add: unsigned_eq_0_iff)
qed

lemma ids_fresh_register:
  assumes "ids_fresh r" "0 < snapshot_counter r" "snapshot_counter r + 1 \<noteq> 0"
  shows "ids_fresh (fst (register_snapshot scope pid wid cap r))"
proof -
  let ?c = "snapshot_counter r"
  have c: "?c < ?c + 1" using assms(3) by (simp add: word_less_inc)
  have "0 < snapshot_id e \<and> snapshot_id e < ?c + 1" if "0 < snapshot_id e \<and> snapshot_id e \<le> ?c" for e
    using that c by auto
  moreover have "0 < snapshot_id e \<and> snapshot_id e < ?c + 1"
    if "kl \<in> set (by_runtime_and_pid r)" "e \<in> set (snd kl)" for kl e
    using that assms(1) c unfolding ids_fresh_def by fastforce
  ultimately show ?thesis
    using ids_fresh_push [OF assms(1,2), where wid = wid and cap = cap and scope = scope and pid = pid] assms(1)
    by (fastforce simp: ids_fresh_def register_snapshot_eq dest!: set_kv_put)
qed

lemma parse_format_token [simp]: "parse_token (format_token sid idx) = Some (sid, idx)"
proof -
  have "parse_unsigned 10 (2 ^ 64) (show_dec (unat idx)) = Some (unat idx)"
    using unat_u64_less [of idx] by (simp add: parse_show_dec)
  moreover have "strip_prefix ''s'' (format_token sid idx)
      = Some (show_hex08 sid @ CHR '':'' # show_dec (unat idx))"
    by (simp add: format_token_def strip_prefix_def)
  ultimately show ?thesis
    using parse_show_hex08 [of sid]
    by (simp add: parse_token_def show_hex08_no_colon split_once_append)
qed

lemma find_id_new:
  assumes "\<forall>e \<in> set xs. snapshot_id e \<noteq> snapshot_id n"
  shows "find (\<lambda>e. snapshot_id e = snapshot_id n) (xs @ [n]) = Some n"
  using assms by (induction xs) auto

lemma find_SomeD: "find P xs = Some x \<Longrightarrow> x \<in> set xs \<and> P x"
  by (auto simp: find_Some_iff)

lemma find_NoneD: "find P xs = None \<longleftrightarrow> (\<forall>x \<in> set xs. \<not> P x)"
  by (induction xs) auto


lemma clear_scope_simps [simp]:
  "by_runtime_and_pid (fst (clear_runtime_scope scope r)) =
     kv_retain (\<lambda>k _. fst k \<noteq> scope) (by_runtime_and_pid r)"
  "snapshot_counter (fst (clear_runtime_scope scope r)) = snapshot_counter r"
  by (simp_all add: clear_runtime_scope_def Let_def)

lemma registry_ok_clear: "registry_ok r \<Longrightarrow> registry_ok (fst (clear_runtime_scope scope r))"
  by (auto simp: registry_ok_def kv_retain_def)

lemma ids_fresh_clear: "ids_fresh r \<Longrightarrow> ids_fresh (fst (clear_runtime_scope scope r))"
  by (auto simp: ids_fresh_def kv_retain_def)

lemma counter_run: "snapshot_counter (registry_run xs) = of_nat (Suc (registrations xs))"
  by (induction xs rule: registrations.induct)
     (simp_all add: new_registry_def register_snapshot_eq algebra_simps)

lemma registry_ok_run: "registry_ok (registry_run xs)"
proof (induction xs)
  case Nil
  then show ?case by (simp add: registry_ok_def new_registry_def)
next
  case (Cons x xs)
  then show ?case by (cases x) (simp_all add: registry_ok_register registry_ok_clear)
qed

lemma of_nat_u32_pos:
  assumes "0 < n" "n < 4294967296"
  shows "(of_nat n :: u32) \<noteq> 0"
proof
  assume "(of_nat n :: u32) = 0"
  then have "unat (of_nat n :: u32) = 0" by simp
  with assms show False by (simp add: unsigned_of_nat take_bit_eq_mod)
qed

lemma ids_fresh_run: "registrations xs < 4294967295 \<Longrightarrow> ids_fresh (registry_run xs)"
proof (induction xs)
  case Nil
  then show ?case by (simp add: ids_fresh_def new_registry_def)
next
  case (Cons x xs)
  show ?case
  proof (cases x)
    case (Register scope pid wid cap)
    with Cons.prems have n: "Suc (Suc (registrations xs)) < 4294967296" by simp
    have "snapshot_counter (registry_run xs) \<noteq> 0"
      unfolding counter_run using n by (intro of_nat_u32_pos) simp_all
    moreover have "snapshot_counter (registry_run xs) + 1 \<noteq> 0"
      using of_nat_u32_pos [OF _ n] by (simp add: counter_run add.commute)
    ultimately show ?thesis
      using Cons Register by (simp add: ids_fresh_register word_gt_0)
  next
    case (ClearScope scope)
    with Cons show ?thesis by (simp add: ids_fresh_clear)
  qed
qed

lemma resolve_InrD:
  assumes "resolve_with_snapshot scope pid token r = Inr (sid, wid, idx)"
  shows "parse_token token = Some (sid, idx)"
    and "\<exists>e \<in> set (lane_of r scope pid). snapshot_id e = sid \<and> window_id e = wid
           \<and> idx < element_index_capacity e"
  using assms
  by (auto simp: resolve_with_snapshot_def lane_of_def Let_def not_le
      split: option.splits if_splits prod.splits dest!: find_SomeD)


lemma resolve_InrI:
  assumes "parse_token token = Some (sid, idx)"
    and "find (\<lambda>e. snapshot_id e = sid) (lane_of r scope pid) = Some e"
    and "idx < element_index_capacity e"
  shows "resolve_with_snapshot scope pid token r = Inr (sid, window_id e, idx)"
proof -
  from assms(2) obtain lane where "kv_get (by_runtime_and_pid r) (scope, pid) = Some lane"
    and "find (\<lambda>e. snapshot_id e = sid) lane = Some e"
    by (auto simp: lane_of_def split: option.splits)
  with assms(1,3) find_SomeD [OF assms(2)] show ?thesis
    by (simp add: resolve_with_snapshot_def Let_def)
qed

lemma resolve_missing:
  assumes "parse_token token = Some (sid, idx)"
    and "\<forall>e \<in> set (lane_of r scope pid). snapshot_id e \<noteq> sid"
  shows "resolve_with_snapshot scope pid token r \<in> {Inl STALE_TOKEN_ERROR, Inl FOREIGN_TOKEN_ERROR}"
  using assms
  by (auto simp: resolve_with_snapshot_def lane_of_def Let_def find_NoneD
      split: option.splits if_splits dest!: find_SomeD)

lemma find_by_id:
  assumes "distinct (map snapshot_id lane)" "e \<in> set lane"
  shows "find (\<lambda>x. snapshot_id x = snapshot_id e) lane = Some e"
  using assms by (induction lane) auto

lemma same_id_same_entry:
  assumes "distinct (map snapshot_id lane)" "e \<in> set lane" "e' \<in> set lane"
    "snapshot_id e = snapshot_id e'"
  shows "e = e'"
  using assms by (metis find_by_id option.inject)


lemma lane_without_id:
  assumes fresh: "ids_fresh r" and e: "e \<in> set (lane_of r scope pid)"
    "snapshot_id e = sid" "window_id e = wid"
  shows "\<forall>x \<in> set (lane_of (fst (register_snapshot scope pid wid cap r)) scope pid).
           snapshot_id x \<noteq> sid"
proof
  fix x assume "x \<in> set (lane_of (fst (register_snapshot scope pid wid cap r)) scope pid)"
  then have "x = \<lparr>snapshot_id = snapshot_counter r, window_id = wid, element_index_capacity = cap\<rparr>
      \<or> (x \<in> set (lane_of r scope pid) \<and> window_id x \<noteq> wid)"
    by (simp add: lane_of_register) (drule set_push_snapshotD, simp)
  then show "snapshot_id x \<noteq> sid"
  proof
    assume "x = \<lparr>snapshot_id = snapshot_counter r, window_id = wid, element_index_capacity = cap\<rparr>"
    with ids_fresh_lane [OF fresh e(1)] e(2) show ?thesis by auto
  next
    assume "x \<in> set (lane_of r scope pid) \<and> window_id x \<noteq> wid"
    then show ?thesis
      using same_id_same_entry [OF ids_fresh_distinct [OF fresh] e(1)] e(2,3) by blast
  qed
qed


lemma newest_all: "length xs \<le> n \<Longrightarrow> newest n xs = xs"
  by (simp add: newest_def)

lemma find_append:
  "find P (xs @ ys) = (case find P xs of None \<Rightarrow> find P ys | Some x \<Rightarrow> Some x)"
  by (induction xs) auto

lemma parse_handle_format: "parse_snapshot_handle (take 9 (format_token sid idx)) = Some sid"
proof -
  have "take 9 (format_token sid idx) = ''s'' @ show_hex08 sid" by (simp add: format_token_def)
  then show ?thesis
    using parse_show_hex08 [of sid]
    by (simp add: parse_snapshot_handle_def strip_prefix_def show_hex08_no_colon)
qed


section \<open>Properties\<close>

text \<open>In every reachable state of the registry each (runtime, pid) lane holds at most
  \<open>LRU_CAP_PER_PID\<close> snapshots and at most one per window; and until the 32-bit counter
  wraps, every retained id is below the counter, non-zero and unique in its lane, so no live
  token can alias a newer snapshot.\<close>

theorem registry_invariant:
  "registry_ok (registry_run ops)
   \<and> (registrations ops < 2 ^ 32 - 1 \<longrightarrow> ids_fresh (registry_run ops))"
  by (simp add: registry_ok_run ids_fresh_run)

theorem registry_invariant_witness:
  "ids_fresh (registry_run [Register ''a'' 7 3 2, ClearScope ''b'', Register ''b'' 7 3 1])
   \<and> registrations [Register ''a'' 7 3 2, ClearScope ''b'', Register ''b'' 7 3 1] < 2 ^ 32 - 1"
  using registry_invariant [of "[Register ''a'' 7 3 2, ClearScope ''b'', Register ''b'' 7 3 1]"]
  by simp

text \<open>A token formatted from the id that a registration returned resolves, in the
  registering runtime and pid, to exactly that snapshot, its window and the index, for every
  index below the recorded capacity.\<close>

theorem minted_token_resolves:
  assumes "registrations ops < 2 ^ 32 - 2" and "idx < cap"
    and "register_snapshot scope pid wid cap (registry_run ops) = (r', i)"
  shows "resolve_with_snapshot scope pid (format_token i idx) r' = Inr (i, wid, idx)"
proof -
  let ?e = "\<lparr>snapshot_id = i, window_id = wid, element_index_capacity = cap\<rparr>"
  from assms(3) have r': "r' = registry_run (Register scope pid wid cap # ops)"
    and i: "i = snapshot_counter (registry_run ops)"
    by (auto simp: register_snapshot_eq)
  have "ids_fresh r'" unfolding r' using assms(1) by (intro ids_fresh_run) simp
  then have "distinct (map snapshot_id (lane_of r' scope pid))" by (rule ids_fresh_distinct)
  moreover have "?e \<in> set (lane_of r' scope pid)"
    by (simp add: r' i lane_of_register push_snapshot_eq)
  ultimately have "find (\<lambda>x. snapshot_id x = i) (lane_of r' scope pid) = Some ?e"
    using find_by_id by fastforce
  from resolve_InrI [OF parse_format_token this] assms(2) show ?thesis by simp
qed

theorem minted_token_resolves_witness:
  "resolve_with_snapshot ''a'' 7 (format_token 1 4)
     (fst (register_snapshot ''a'' 7 9 5 (registry_run []))) = Inr (1, 9, 4)"
  by (rule minted_token_resolves [where cap = 5 and ops = "[]"])
     (simp_all add: register_snapshot_eq new_registry_def)

text \<open>Taking a new snapshot of a window invalidates every token of an older snapshot of
  the same window: what resolved before now fails with the explicit stale (or foreign
  generation) error, it never resolves to another element.\<close>

theorem new_snapshot_invalidates_window:
  assumes "registrations ops < 2 ^ 32 - 1"
    and "resolve_with_snapshot scope pid tok (registry_run ops) = Inr (sid, wid, idx)"
  shows "resolve_with_snapshot scope pid tok
           (fst (register_snapshot scope pid wid cap (registry_run ops)))
         \<in> {Inl STALE_TOKEN_ERROR, Inl FOREIGN_TOKEN_ERROR}"
proof -
  have fresh: "ids_fresh (registry_run ops)" using assms(1) by (intro ids_fresh_run) simp
  from resolve_InrD(2) [OF assms(2)] obtain e where e: "e \<in> set (lane_of (registry_run ops) scope pid)"
    "snapshot_id e = sid" "window_id e = wid" by blast
  show ?thesis
    using resolve_missing [OF resolve_InrD(1) [OF assms(2)] lane_without_id [OF fresh e]] .
qed

theorem new_snapshot_invalidates_window_witness:
  "resolve_with_snapshot ''a'' 7 (format_token 1 4)
     (fst (register_snapshot ''a'' 7 9 2 (registry_run [Register ''a'' 7 9 5])))
   \<in> {Inl STALE_TOKEN_ERROR, Inl FOREIGN_TOKEN_ERROR}"
proof (rule new_snapshot_invalidates_window)
  show "resolve_with_snapshot ''a'' 7 (format_token 1 4) (registry_run [Register ''a'' 7 9 5])
      = Inr (1, 9, 4)"
    by (simp add: resolve_with_snapshot_def register_snapshot_eq new_registry_def
        push_snapshot_eq newest_def lane_of_def)
qed simp


text \<open>Within a lane that is not full, snapshots of other windows survive a registration:
  their tokens keep resolving to the same snapshot, window and index.\<close>

theorem register_keeps_other_windows:
  assumes "registrations ops < 2 ^ 32 - 1"
    and "resolve_with_snapshot scope pid tok (registry_run ops) = Inr (sid, w, idx)"
    and "w \<noteq> wid" and "length (lane_of (registry_run ops) scope pid) < LRU_CAP_PER_PID"
  shows "resolve_with_snapshot scope pid tok
           (fst (register_snapshot scope pid wid cap (registry_run ops))) = Inr (sid, w, idx)"
proof -
  let ?r = "registry_run ops" and ?r' = "registry_run (Register scope pid wid cap # ops)"
  let ?new = "\<lparr>snapshot_id = snapshot_counter ?r, window_id = wid, element_index_capacity = cap\<rparr>"
  have fresh: "ids_fresh ?r" using assms(1) by (intro ids_fresh_run) simp
  from resolve_InrD(2) [OF assms(2)] obtain e where e: "e \<in> set (lane_of ?r scope pid)"
    "snapshot_id e = sid" "window_id e = w" "idx < element_index_capacity e" by blast
  have id: "snapshot_counter ?r \<noteq> sid" using ids_fresh_lane [OF fresh e(1)] e(2) by auto
  have "find (\<lambda>x. snapshot_id x = sid) (filter (\<lambda>x. window_id x \<noteq> wid) (lane_of ?r scope pid)) = Some e"
    using find_by_id [OF distinct_map_filter [OF ids_fresh_distinct [OF fresh]]] e assms(3)
    by fastforce
  moreover have "length (filter (\<lambda>x. window_id x \<noteq> wid) (lane_of ?r scope pid)) \<le> 7"
    using assms(4) length_filter_le [of "\<lambda>x. window_id x \<noteq> wid" "lane_of ?r scope pid"]
    unfolding LRU_CAP_PER_PID_def by linarith
  ultimately have "find (\<lambda>x. snapshot_id x = sid) (lane_of ?r' scope pid) = Some e"
    by (simp add: lane_of_register push_snapshot_eq newest_all find_append)
  from resolve_InrI [OF resolve_InrD(1) [OF assms(2)] this e(4)] e(3) show ?thesis by simp
qed

theorem register_keeps_other_windows_witness:
  "resolve_with_snapshot ''a'' 7 (format_token 1 4)
     (fst (register_snapshot ''a'' 7 8 2 (registry_run [Register ''a'' 7 9 5]))) = Inr (1, 9, 4)"
proof (rule register_keeps_other_windows)
  show "resolve_with_snapshot ''a'' 7 (format_token 1 4) (registry_run [Register ''a'' 7 9 5])
      = Inr (1, 9, 4)"
    and "length (lane_of (registry_run [Register ''a'' 7 9 5]) ''a'' 7) < LRU_CAP_PER_PID"
    by (simp_all add: resolve_with_snapshot_def register_snapshot_eq new_registry_def
        push_snapshot_eq newest_def lane_of_def LRU_CAP_PER_PID_def)
qed simp_all


text \<open>Element arguments resolve only through the registry and only when every field the
  caller supplied names the same element: a bare index never resolves, a token or a snapshot
  handle names the snapshot that was found, and a supplied index or window equals the
  resolved one.\<close>

theorem resolve_element_args_sound:
  assumes "resolve_element_args scope pid idx_opt tok_opt snap_opt arg_wid tool r
             = Inr (Element w idx sid via)"
  shows "\<exists>wid tok. w = Some wid
           \<and> resolve_with_snapshot scope pid tok r = Inr (sid, wid, idx)
           \<and> (case tok_opt of Some t \<Rightarrow> via \<and> tok = t | None \<Rightarrow> \<not> via \<and> idx_opt = Some idx)
           \<and> idx_opt \<in> {None, Some idx} \<and> arg_wid \<in> {None, Some (ucast wid)}
           \<and> (tok_opt = None \<longrightarrow> snap_opt \<noteq> None)
           \<and> (\<forall>h. snap_opt = Some h \<longrightarrow> parse_snapshot_handle h = Some sid)"
proof (cases tok_opt)
  case None
  with assms show ?thesis
    by (fastforce simp: resolve_element_args_def resolve_token_def
        split: option.splits sum.splits if_splits prod.splits dest: resolve_InrD(1))
next
  case (Some t)
  with assms obtain wid where
    w: "w = Some wid" "via" "resolve_with_snapshot scope pid t r = Inr (sid, wid, idx)"
    and c: "idx_opt \<in> {None, Some idx}" "arg_wid \<in> {None, Some (ucast wid)}"
      "\<forall>h. snap_opt = Some h \<longrightarrow> parse_snapshot_handle h = map_option fst (parse_token t)"
    by (auto simp: resolve_element_args_def resolve_token_def
        split: option.splits sum.splits if_splits prod.splits)
  from resolve_InrD(1) [OF w(3)] have "parse_token t = Some (sid, idx)" .
  with w c Some show ?thesis by auto
qed

theorem resolve_element_args_sound_witness:
  "\<exists>wid tok. resolve_with_snapshot ''a'' 7 tok (registry_run [Register ''a'' 7 9 5]) = Inr (1, wid, 4)"
proof -
  have "resolve_element_args ''a'' 7 (Some 4) None (Some (take 9 (format_token 1 4))) (Some 9) ''click''
      (registry_run [Register ''a'' 7 9 5]) = Inr (Element (Some 9) 4 1 False)"
    by (simp add: resolve_element_args_def resolve_token_def parse_handle_format
        resolve_with_snapshot_def register_snapshot_eq new_registry_def
        push_snapshot_eq newest_def lane_of_def)
  from resolve_element_args_sound [OF this] show ?thesis by blast
qed

text \<open>The token text: formatting then parsing gives back the full 32-bit snapshot id and
  the index, the first nine bytes are the snapshot handle, and a token is ten bytes longer
  than its decimal index.\<close>

theorem token_text_roundtrip:
  "parse_token (format_token sid idx) = Some (sid, idx)
   \<and> parse_snapshot_handle (take 9 (format_token sid idx)) = Some sid
   \<and> length (format_token sid idx) = 10 + length (show_dec (unat idx))"
  by (simp add: parse_handle_format) (simp add: format_token_def)

end
