(* ===== verification/Json.thy ===== *)
theory Json
  imports Complex_Main Prelude
begin

text \<open>
  The values of \<open>serde_json\<close> that tool arguments and attested resources are made of, and
  the accessors the driver uses on them. Numbers have the three representations of
  \<open>serde_json::Number\<close>. An object is the list of its entries in key order
  (\<open>serde_json\<close> is built without \<open>preserve_order\<close>, so its map is a \<open>BTreeMap\<close>).
\<close>

datatype jnum = PosInt nat | NegInt int | JFloat rat

datatype json =
    JNull
  | JBool bool
  | JNum jnum
  | JStr string
  | JArr "json list"
  | JObj "(string \<times> json) list"

fun as_object :: "json \<Rightarrow> (string \<times> json) list option" where
  "as_object (JObj m) = Some m"
| "as_object _ = None"

fun as_array :: "json \<Rightarrow> json list option" where
  "as_array (JArr xs) = Some xs"
| "as_array _ = None"

fun as_str :: "json \<Rightarrow> string option" where
  "as_str (JStr s) = Some s"
| "as_str _ = None"

fun as_bool :: "json \<Rightarrow> bool option" where
  "as_bool (JBool b) = Some b"
| "as_bool _ = None"

fun as_i64 :: "json \<Rightarrow> int option" where
  "as_i64 (JNum (PosInt n)) = (if n \<le> 9223372036854775807 then Some (int n) else None)"
| "as_i64 (JNum (NegInt i)) = Some i"
| "as_i64 _ = None"

fun as_u64 :: "json \<Rightarrow> nat option" where
  "as_u64 (JNum (PosInt n)) = Some n"
| "as_u64 _ = None"

fun is_number :: "json \<Rightarrow> bool" where
  "is_number (JNum _) = True"
| "is_number _ = False"

fun is_null :: "json \<Rightarrow> bool" where
  "is_null JNull = True"
| "is_null _ = False"

fun json_get :: "json \<Rightarrow> string \<Rightarrow> json option" where
  "json_get (JObj m) k = map_of m k"
| "json_get _ k = None"

text \<open>\<open>Value::pointer\<close> on a path of object keys.\<close>

fun json_pointer :: "json \<Rightarrow> string list \<Rightarrow> json option" where
  "json_pointer v [] = Some v"
| "json_pointer v (k # ks) =
     (case json_get v k of None \<Rightarrow> None | Some w \<Rightarrow> json_pointer w ks)"

text \<open>\<open>args.get(key).and_then(Value::as_str)\<close> and its variants.\<close>

definition get_str :: "json \<Rightarrow> string \<Rightarrow> string option" where
  "get_str v k = Option.bind (json_get v k) as_str"

definition get_bool :: "json \<Rightarrow> string \<Rightarrow> bool option" where
  "get_bool v k = Option.bind (json_get v k) as_bool"

definition get_i64 :: "json \<Rightarrow> string \<Rightarrow> int option" where
  "get_i64 v k = Option.bind (json_get v k) as_i64"

definition get_u64 :: "json \<Rightarrow> string \<Rightarrow> nat option" where
  "get_u64 v k = Option.bind (json_get v k) as_u64"

definition pointer_str :: "json \<Rightarrow> string list \<Rightarrow> string option" where
  "pointer_str v ks = Option.bind (json_pointer v ks) as_str"

text \<open>Indexing with \<open>value[key]\<close> yields \<open>Null\<close> for an absent key.\<close>

definition json_index :: "json \<Rightarrow> string \<Rightarrow> json" where
  "json_index v k = (case json_get v k of None \<Rightarrow> JNull | Some w \<Rightarrow> w)"

text \<open>\<open>tool_args::sanitize_reserved_args\<close>: drop the top-level keys that start with an
  underscore.\<close>

definition sanitize_reserved_args :: "json \<Rightarrow> json" where
  "sanitize_reserved_args v =
     (case v of JObj m \<Rightarrow> JObj (kv_retain (\<lambda>k _. \<not> starts_with k ''_'') m) | _ \<Rightarrow> v)"

lemmas json_access = get_str_def get_bool_def get_i64_def get_u64_def pointer_str_def

lemma sanitize_idem: "sanitize_reserved_args (sanitize_reserved_args v) = sanitize_reserved_args v"
  by (cases v) (simp_all add: sanitize_reserved_args_def kv_retain_def)

lemma json_get_sanitize:
  "json_get (sanitize_reserved_args v) k = (if starts_with k ''_'' then None else json_get v k)"
proof (cases v)
  case (JObj m)
  have "map_of (filter (\<lambda>e. \<not> starts_with (fst e) ''_'') m) k =
          (if starts_with k ''_'' then None else map_of m k)"
    by (induction m) auto
  with JObj show ?thesis by (simp add: sanitize_reserved_args_def kv_retain_def)
qed (simp_all add: sanitize_reserved_args_def)

end
