(* ===== verification/CaptureScope.thy ===== *)
theory CaptureScope
  imports Json Text_Format
begin

text \<open>
  Model of \<open>cua-driver-core/src/capture_scope.rs\<close>: the per-session capture policy, its
  one-way escalation to the desktop, and the modality check of every tool call. The policy
  registry is a keyed table; whether a session has ended is asked of the session component
  (\<open>session::is_session_ended\<close>), so the operations take that answer as an argument and the
  locale \<open>session_tombstones\<close> states what the session component promises about it.
\<close>

section \<open>Policy state\<close>

datatype capture_policy = Auto | Window | Desktop

datatype effective_scope = EffWindow | EffDesktop

datatype escalation_reason =
    AxTreePixelMismatch
  | BackgroundDeliveryFailed
  | ForegroundIneffective
  | NoWindowTarget
  | OtherReason

record session_capture_scope =
  policy :: capture_policy
  desktop_unlocked :: bool
  escalation_reason :: "escalation_reason option"
  escalation_detail :: "string option"

type_synonym scope_registry = "(string, session_capture_scope) kv"

definition capture_scope_parse :: "string \<Rightarrow> capture_policy option" where
  "capture_scope_parse v =
     (if v = ''auto'' then Some Auto
      else if v = ''window'' then Some Window
      else if v = ''desktop'' then Some Desktop
      else None)"

definition escalation_reason_parse :: "string \<Rightarrow> escalation_reason option" where
  "escalation_reason_parse v =
     (if v = ''ax_tree_pixel_mismatch'' then Some AxTreePixelMismatch
      else if v = ''background_delivery_failed'' then Some BackgroundDeliveryFailed
      else if v = ''foreground_ineffective'' then Some ForegroundIneffective
      else if v = ''no_window_target'' then Some NoWindowTarget
      else if v = ''other'' then Some OtherReason
      else None)"

definition new_capture_scope :: "capture_policy \<Rightarrow> session_capture_scope" where
  "new_capture_scope p =
     \<lparr>policy = p, desktop_unlocked = (p = Desktop),
      escalation_reason = None, escalation_detail = None\<rparr>"

definition effective_scope :: "session_capture_scope \<Rightarrow> effective_scope" where
  "effective_scope st =
     (case policy st of
        Desktop \<Rightarrow> EffDesktop
      | Window \<Rightarrow> EffWindow
      | Auto \<Rightarrow> if desktop_unlocked st then EffDesktop else EffWindow)"

record session_state_output =
  out_session :: string
  out_capture_scope :: capture_policy
  out_effective_scope :: effective_scope
  out_desktop_capture_authorized :: bool
  out_desktop_unlocked :: bool
  out_escalation_reason :: "escalation_reason option"
  out_escalation_detail :: "string option"

definition scope_output :: "session_capture_scope \<Rightarrow> string \<Rightarrow> session_state_output" where
  "scope_output st session =
     \<lparr>out_session = session, out_capture_scope = policy st,
      out_effective_scope = effective_scope st,
      out_desktop_capture_authorized = desktop_unlocked st,
      out_desktop_unlocked = desktop_unlocked st,
      out_escalation_reason = escalation_reason st,
      out_escalation_detail = escalation_detail st\<rparr>"


section \<open>Registry operations\<close>

datatype bind_error = BindEnded | Conflict (existing: capture_policy) (requested: capture_policy)

definition bind_session ::
    "bool \<Rightarrow> string \<Rightarrow> capture_policy option \<Rightarrow> scope_registry
     \<Rightarrow> scope_registry \<times> (bind_error + (session_capture_scope \<times> bool))" where
  "bind_session ended session req reg =
     (if ended then (reg, Inl BindEnded)
      else case kv_get reg session of
        Some st \<Rightarrow>
          (case req of
             Some p \<Rightarrow>
               if policy st \<noteq> p then (reg, Inl (Conflict (policy st) p))
               else (reg, Inr (st, False))
           | None \<Rightarrow> (reg, Inr (st, False)))
      | None \<Rightarrow>
          (let st = new_capture_scope (case req of Some p \<Rightarrow> p | None \<Rightarrow> Auto)
           in (kv_put session st reg, Inr (st, True))))"

definition get_session :: "string \<Rightarrow> scope_registry \<Rightarrow> session_capture_scope option" where
  "get_session session reg = kv_get reg session"

definition clear_session :: "string \<Rightarrow> scope_registry \<Rightarrow> scope_registry" where
  "clear_session session reg = kv_del session reg"

definition clear_sessions_with_prefix :: "string \<Rightarrow> scope_registry \<Rightarrow> scope_registry \<times> nat" where
  "clear_sessions_with_prefix p reg =
     (let kept = kv_retain (\<lambda>s _. \<not> starts_with s p) reg
      in (kept, length reg - length kept))"

datatype escalate_error = EscEnded | NotStarted | WindowStrict | DesktopAlreadyActive

definition escalate_session ::
    "bool \<Rightarrow> string \<Rightarrow> escalation_reason \<Rightarrow> string option \<Rightarrow> scope_registry
     \<Rightarrow> scope_registry \<times> (escalate_error + session_capture_scope)" where
  "escalate_session ended session reason detail reg =
     (if ended then (reg, Inl EscEnded)
      else case kv_get reg session of
        None \<Rightarrow> (reg, Inl NotStarted)
      | Some st \<Rightarrow>
          if desktop_unlocked st then (reg, Inl DesktopAlreadyActive)
          else (case policy st of
                  Window \<Rightarrow> (reg, Inl WindowStrict)
                | Desktop \<Rightarrow> (reg, Inl DesktopAlreadyActive)
                | Auto \<Rightarrow>
                    (let st' = st\<lparr>desktop_unlocked := True,
                                  escalation_reason := Some reason,
                                  escalation_detail := map_option (chars_take 200) detail\<rparr>
                     in (kv_put session st' reg, Inr st'))))"


section \<open>The modality check\<close>

datatype tool_scope = ToolWindow | ToolDesktop | ToolUnscoped

definition is_scoped_action :: "string \<Rightarrow> bool" where
  "is_scoped_action tool =
     (tool \<in> set [''click'', ''double_click'', ''right_click'', ''scroll'', ''drag'',
        ''mouse_drag'', ''parallel_mouse_drag'', ''move_cursor'', ''type_text'',
        ''type_text_chars'', ''press_key'', ''hotkey'', ''set_value'', ''present_window'',
        ''begin_foreground_segment'', ''end_foreground_segment'', ''prepare_dialog'',
        ''prepare_observation''])"

definition tool_scope :: "string \<Rightarrow> json \<Rightarrow> tool_scope" where
  "tool_scope tool args =
     (if tool \<in> set [''get_desktop_state'', ''get_screen_size'', ''get_cursor_position'']
      then ToolDesktop
      else if tool \<in> set [''get_window_state'', ''verify_state'', ''get_accessibility_tree'',
                ''get_app_state'', ''screenshot'', ''screenshot_compat'', ''zoom'', ''page'']
              \<or> tool = ''get_browser_state''
              \<or> (starts_with tool ''browser_''
                 \<and> tool \<notin> set [''browser_prepare'', ''browser_download''])
      then ToolWindow
      else if tool \<in> set [''mouse_button_down'', ''mouse_button_up''] then ToolWindow
      else if is_scoped_action tool then
        (let explicit_desktop = (get_str args ''scope'' = Some ''desktop'');
             has_window_target =
               (json_get args ''pid'' \<noteq> None \<or> json_get args ''window_id'' \<noteq> None
                \<or> json_get args ''element_index'' \<noteq> None \<or> json_get args ''element_token'' \<noteq> None)
         in if explicit_desktop \<and> \<not> has_window_target then ToolDesktop else ToolWindow)
      else ToolUnscoped)"

datatype violation_code = DesktopEscalationRequired | DesktopScopeDisabled | WindowScopeDisabled

definition violation_code_str :: "violation_code \<Rightarrow> string" where
  "violation_code_str c =
     (case c of
        DesktopEscalationRequired \<Rightarrow> ''desktop_escalation_required''
      | DesktopScopeDisabled \<Rightarrow> ''desktop_scope_disabled''
      | WindowScopeDisabled \<Rightarrow> ''window_scope_disabled'')"

record scope_violation =
  v_code :: violation_code
  v_message :: string
  v_state :: session_capture_scope

definition quoted :: "string \<Rightarrow> string" where
  "quoted s = [CHR 0x27] @ s @ [CHR 0x27]"

definition escalation_required_message :: "string \<Rightarrow> string \<Rightarrow> string" where
  "escalation_required_message tool session =
     ''desktop-scope tool '' @ quoted tool
     @ '' requires desktop capture authorization for auto session '' @ quoted session
     @ ''; this is separate from the host lock-screen state. Exhaust the window action ladder, verify each attempt, then call escalate_session''"

definition desktop_disabled_message :: "string \<Rightarrow> string \<Rightarrow> string" where
  "desktop_disabled_message tool session =
     ''desktop-scope tool '' @ quoted tool @ '' is disabled for strict window session '' @ quoted session"

definition window_disabled_message :: "capture_policy \<Rightarrow> string \<Rightarrow> string \<Rightarrow> string" where
  "window_disabled_message p tool session =
     (if p = Auto then
        ''window-scope tool '' @ quoted tool
        @ '' is disabled because escalation to desktop scope is permanent for session '' @ quoted session
        @ ''; to recover, call end_session for session '' @ quoted session
        @ '', then call start_session with a new session id''
      else
        ''window-scope tool '' @ quoted tool @ '' is disabled while session '' @ quoted session
        @ '' is in desktop scope'')"

definition lifecycle_tools :: "string list" where
  "lifecycle_tools = [''start_session'', ''end_session'', ''escalate_session'', ''get_session'',
     ''list_sessions'', ''get_session_state'']"

text \<open>The public session label a call names, when it is not anonymous.\<close>

definition named_session :: "json \<Rightarrow> string option" where
  "named_session args =
     (case get_str args ''session'' of
        None \<Rightarrow> None
      | Some s \<Rightarrow> if s \<noteq> [] \<and> s \<noteq> ''default'' then Some s else None)"

text \<open>A button release that can neither retarget nor reposition.\<close>

definition bare_release :: "string \<Rightarrow> json \<Rightarrow> bool" where
  "bare_release tool args =
     (tool = ''mouse_button_up''
      \<and> (\<forall>key \<in> set [''pid'', ''window_id'', ''x'', ''y'', ''from_zoom''].
            case json_get args key of None \<Rightarrow> True | Some v \<Rightarrow> is_null v))"

definition enforce_tool :: "string \<Rightarrow> json \<Rightarrow> scope_registry \<Rightarrow> scope_violation + unit" where
  "enforce_tool tool args reg =
     (if tool \<in> set lifecycle_tools then Inr ()
      else case named_session args of
        None \<Rightarrow> Inr ()
      | Some session \<Rightarrow>
          (case get_session session reg of
             None \<Rightarrow> Inr ()
           | Some st \<Rightarrow>
               (case (effective_scope st, tool_scope tool args) of
                  (_, ToolUnscoped) \<Rightarrow> Inr ()
                | (EffWindow, ToolWindow) \<Rightarrow> Inr ()
                | (EffDesktop, ToolDesktop) \<Rightarrow> Inr ()
                | (EffWindow, ToolDesktop) \<Rightarrow>
                    if policy st = Auto then
                      Inl \<lparr>v_code = DesktopEscalationRequired,
                           v_message = escalation_required_message tool session, v_state = st\<rparr>
                    else
                      Inl \<lparr>v_code = DesktopScopeDisabled,
                           v_message = desktop_disabled_message tool session, v_state = st\<rparr>
                | (EffDesktop, ToolWindow) \<Rightarrow>
                    if policy st = Auto \<and> bare_release tool args then Inr ()
                    else
                      Inl \<lparr>v_code = WindowScopeDisabled,
                           v_message = window_disabled_message (policy st) tool session,
                           v_state = st\<rparr>)))"


section \<open>Histories of a registry\<close>

text \<open>What the rest of the driver does to the registry: the arguments of \<open>Bind\<close> and
  \<open>Escalate\<close> carry the answer of the tombstone check made under the lock.\<close>

datatype scope_op =
    Bind bool string "capture_policy option"
  | Escalate bool string escalation_reason "string option"
  | Clear string
  | ClearPrefix string

fun scope_step :: "scope_op \<Rightarrow> scope_registry \<Rightarrow> scope_registry" where
  "scope_step (Bind ended s req) reg = fst (bind_session ended s req reg)"
| "scope_step (Escalate ended s why detail) reg = fst (escalate_session ended s why detail reg)"
| "scope_step (Clear s) reg = clear_session s reg"
| "scope_step (ClearPrefix p) reg = fst (clear_sessions_with_prefix p reg)"

definition scope_run :: "scope_op list \<Rightarrow> scope_registry \<Rightarrow> scope_registry" where
  "scope_run = fold scope_step"

fun clears :: "scope_op \<Rightarrow> string \<Rightarrow> bool" where
  "clears (Clear s) session = (s = session)"
| "clears (ClearPrefix p) session = starts_with session p"
| "clears _ session = False"

text \<open>Well-formedness of one session's state: strict policies never change modality, and
  an auto session is unlocked exactly when a reason was recorded.\<close>

definition scope_ok :: "session_capture_scope \<Rightarrow> bool" where
  "scope_ok st =
     ((case policy st of
         Desktop \<Rightarrow> desktop_unlocked st \<and> escalation_reason st = None
       | Window \<Rightarrow> \<not> desktop_unlocked st \<and> escalation_reason st = None
       | Auto \<Rightarrow> desktop_unlocked st = (escalation_reason st \<noteq> None))
      \<and> (case escalation_detail st of
            None \<Rightarrow> True
          | Some d \<Rightarrow> escalation_reason st \<noteq> None \<and> chars_count d \<le> 200))"

definition scopes_ok :: "scope_registry \<Rightarrow> bool" where
  "scopes_ok reg = (kv_wf reg \<and> (\<forall>s st. kv_get reg s = Some st \<longrightarrow> scope_ok st))"


section \<open>Contract with the session component\<close>

text \<open>The session component promises that an ended session stays ended under every
  operation that does not explicitly revive it. What the capture-scope operations rely on
  follows: a late call on a dead id can neither bind nor unlock anything.\<close>

locale session_tombstones =
  fixes is_ended :: "'s \<Rightarrow> string \<Rightarrow> bool"
    and step :: "'op \<Rightarrow> 's \<Rightarrow> 's"
    and revives :: "'op \<Rightarrow> string \<Rightarrow> bool"
  assumes step_keeps_tombstone:
    "is_ended s sid \<Longrightarrow> \<not> revives op sid \<Longrightarrow> is_ended (step op s) sid"
begin

lemma run_keeps_tombstone:
  "is_ended s sid \<Longrightarrow> \<forall>op \<in> set ops. \<not> revives op sid \<Longrightarrow> is_ended (fold step ops s) sid"
  by (induction ops arbitrary: s) (auto intro: step_keeps_tombstone)

lemma late_escalation_refused:
  assumes "is_ended s sid" and "\<forall>op \<in> set ops. \<not> revives op sid"
  shows "escalate_session (is_ended (fold step ops s) sid) sid why detail reg = (reg, Inl EscEnded)"
  using run_keeps_tombstone [OF assms] by (simp add: escalate_session_def)

lemma late_bind_refused:
  assumes "is_ended s sid" and "\<forall>op \<in> set ops. \<not> revives op sid"
  shows "bind_session (is_ended (fold step ops s) sid) sid req reg = (reg, Inl BindEnded)"
  using run_keeps_tombstone [OF assms] by (simp add: bind_session_def)

end


section \<open>Lemmas\<close>

lemma scope_ok_new [simp]: "scope_ok (new_capture_scope p)"
  by (cases p) (simp_all add: scope_ok_def new_capture_scope_def)

lemma scopes_ok_put: "scopes_ok reg \<Longrightarrow> scope_ok st \<Longrightarrow> scopes_ok (kv_put s st reg)"
  by (auto simp: scopes_ok_def)

lemma scopes_ok_bind: "scopes_ok reg \<Longrightarrow> scopes_ok (fst (bind_session e s req reg))"
  by (auto simp: bind_session_def Let_def scopes_ok_put split: option.splits)

lemma scope_ok_escalated:
  "scope_ok st \<Longrightarrow> policy st = Auto \<Longrightarrow>
   scope_ok (st\<lparr>desktop_unlocked := True, escalation_reason := Some why,
              escalation_detail := map_option (chars_take 200) detail\<rparr>)"
  by (cases detail) (simp_all add: scope_ok_def chars_count_take)

lemma scopes_ok_escalate:
  "scopes_ok reg \<Longrightarrow> scopes_ok (fst (escalate_session e s why detail reg))"
  by (auto simp: escalate_session_def Let_def scopes_ok_def
      split: option.splits capture_policy.splits intro: scope_ok_escalated)

lemma scopes_ok_step: "scopes_ok reg \<Longrightarrow> scopes_ok (scope_step x reg)"
proof (cases x)
  case (Clear s)
  then show "scopes_ok reg \<Longrightarrow> ?thesis" by (auto simp: scopes_ok_def clear_session_def)
next
  case (ClearPrefix p)
  then show "scopes_ok reg \<Longrightarrow> ?thesis"
    by (auto simp: scopes_ok_def clear_sessions_with_prefix_def Let_def kv_get_retain_Some)
qed (simp_all add: scopes_ok_bind scopes_ok_escalate)

lemma scopes_ok_run: "scopes_ok reg \<Longrightarrow> scopes_ok (scope_run xs reg)"
  unfolding scope_run_def by (induction xs arbitrary: reg) (auto intro: scopes_ok_step)

lemma scopes_ok_Nil [simp]: "scopes_ok []"
  by (simp add: scopes_ok_def)

text \<open>A step that does not clear a session keeps its policy and never relocks it.\<close>

lemma step_one_way:
  assumes "scopes_ok reg" "kv_get reg s = Some st" "\<not> clears x s"
  shows "\<exists>st'. kv_get (scope_step x reg) s = Some st' \<and> policy st' = policy st
           \<and> (desktop_unlocked st \<longrightarrow> st' = st)"
  using assms
  by (cases x)
     (auto simp: bind_session_def escalate_session_def clear_session_def scopes_ok_def Let_def
        clear_sessions_with_prefix_def kv_get_retain_Some split: option.splits capture_policy.splits)

lemma run_one_way:
  assumes "scopes_ok reg" "kv_get reg s = Some st" "\<forall>x \<in> set xs. \<not> clears x s"
  shows "\<exists>st'. kv_get (scope_run xs reg) s = Some st' \<and> policy st' = policy st
           \<and> (desktop_unlocked st \<longrightarrow> st' = st)"
  using assms
proof (induction xs arbitrary: reg st)
  case Nil
  then show ?case by (simp add: scope_run_def)
next
  case (Cons x xs)
  from Cons.prems step_one_way [of reg s st x] obtain st1 where
    st1: "kv_get (scope_step x reg) s = Some st1" "policy st1 = policy st"
      "desktop_unlocked st \<longrightarrow> st1 = st" by auto
  have "scopes_ok (scope_step x reg)" using Cons.prems(1) by (rule scopes_ok_step)
  from Cons.IH [OF this st1(1)] Cons.prems(3) st1(2,3) show ?case
    by (auto simp: scope_run_def)
qed

lemma enforce_named:
  "tool \<notin> set lifecycle_tools \<Longrightarrow> named_session args = Some s \<Longrightarrow> get_session s reg = Some st \<Longrightarrow>
   enforce_tool tool args reg =
     (case (effective_scope st, tool_scope tool args) of
        (_, ToolUnscoped) \<Rightarrow> Inr ()
      | (EffWindow, ToolWindow) \<Rightarrow> Inr ()
      | (EffDesktop, ToolDesktop) \<Rightarrow> Inr ()
      | (EffWindow, ToolDesktop) \<Rightarrow>
          if policy st = Auto then
            Inl \<lparr>v_code = DesktopEscalationRequired,
                 v_message = escalation_required_message tool s, v_state = st\<rparr>
          else
            Inl \<lparr>v_code = DesktopScopeDisabled,
                 v_message = desktop_disabled_message tool s, v_state = st\<rparr>
      | (EffDesktop, ToolWindow) \<Rightarrow>
          if policy st = Auto \<and> bare_release tool args then Inr ()
          else
            Inl \<lparr>v_code = WindowScopeDisabled,
                 v_message = window_disabled_message (policy st) tool s, v_state = st\<rparr>)"
  by (simp add: enforce_tool_def)


section \<open>Properties\<close>

text \<open>In every history of the registry each session state is consistent: a strict window
  session is never unlocked, a strict desktop session always is, an auto session is unlocked
  exactly when an escalation reason was recorded, and a recorded detail has at most 200
  characters.\<close>

theorem capture_states_consistent:
  "scopes_ok (scope_run ops [])"
  by (rule scopes_ok_run) simp

text \<open>C38. Escalation is one-way: once a session reaches the desktop, no sequence of binds,
  escalations and clears of other sessions changes its state at all, and its policy is never
  rebound to another one.\<close>

theorem escalation_is_permanent:
  assumes "get_session s (scope_run ops []) = Some st"
    and "\<forall>x \<in> set later. \<not> clears x s"
  shows "\<exists>st'. get_session s (scope_run (ops @ later) []) = Some st' \<and> policy st' = policy st
           \<and> (effective_scope st = EffDesktop \<longrightarrow> st' = st)"
proof -
  have ok: "scopes_ok (scope_run ops [])" by (rule scopes_ok_run) simp
  have "scope_ok st" using ok assms(1) by (auto simp: scopes_ok_def get_session_def)
  then have "effective_scope st = EffDesktop \<longrightarrow> desktop_unlocked st"
    by (auto simp: effective_scope_def scope_ok_def split: capture_policy.splits if_splits)
  with run_one_way [OF ok _ assms(2), of st] assms(1) show ?thesis
    by (auto simp: scope_run_def get_session_def)
qed

theorem escalation_is_permanent_witness:
  "\<exists>st'. get_session ''a''
       (scope_run ([Bind False ''a'' None, Escalate False ''a'' NoWindowTarget None]
                   @ [Bind False ''a'' None, Clear ''b'']) []) = Some st'
     \<and> policy st' = Auto \<and> desktop_unlocked st'"
proof -
  let ?st = "\<lparr>policy = Auto, desktop_unlocked = True, escalation_reason = Some NoWindowTarget,
              escalation_detail = None\<rparr>"
  have "get_session ''a''
      (scope_run [Bind False ''a'' None, Escalate False ''a'' NoWindowTarget None] []) = Some ?st"
    by (simp add: scope_run_def get_session_def bind_session_def escalate_session_def
        new_capture_scope_def Let_def)
  from escalation_is_permanent [OF this, of "[Bind False ''a'' None, Clear ''b'']"]
  show ?thesis by (auto simp: effective_scope_def)
qed

text \<open>A desktop-scope call of a named session is admitted only when the session declared
  the desktop policy, or an escalation with a recorded reason has succeeded for it; a strict
  window session is refused in every history.\<close>

theorem desktop_admission_needs_authority:
  assumes "tool \<notin> set lifecycle_tools" and "named_session args = Some s"
    and "get_session s (scope_run ops []) = Some st" and "tool_scope tool args = ToolDesktop"
  shows "enforce_tool tool args (scope_run ops []) = Inr () \<longleftrightarrow>
           policy st = Desktop \<or> (policy st = Auto \<and> escalation_reason st \<noteq> None)"
proof -
  have "scope_ok st" using scopes_ok_run [of "[]" ops] assms(3)
    by (auto simp: scopes_ok_def get_session_def)
  then show ?thesis
    unfolding enforce_named [OF assms(1-3)] assms(4)
    by (auto simp: scope_ok_def effective_scope_def split: capture_policy.splits effective_scope.splits if_splits)
qed

theorem desktop_admission_needs_authority_witness:
  "enforce_tool ''get_screen_size'' (JObj [(''session'', JStr ''a'')])
     (scope_run [Bind False ''a'' (Some Window), Escalate False ''a'' NoWindowTarget None] []) \<noteq> Inr ()"
proof -
  have "get_session ''a''
      (scope_run [Bind False ''a'' (Some Window), Escalate False ''a'' NoWindowTarget None] [])
      = Some (new_capture_scope Window)"
    by (simp add: scope_run_def get_session_def bind_session_def escalate_session_def
        new_capture_scope_def Let_def)
  from desktop_admission_needs_authority
      [where tool = "''get_screen_size''" and args = "JObj [(''session'', JStr ''a'')]", OF _ _ this]
  show ?thesis
    by (simp add: lifecycle_tools_def named_session_def get_str_def tool_scope_def new_capture_scope_def)
qed

end
