(* ===== verification/SessionState.thy ===== *)
theory SessionState
  imports CaptureScope "HOL-Library.Char_ord" "HOL-Library.List_Lexorder"
    "HOL-Library.Product_Lexorder"
begin

text \<open>
  The state of \<open>cua-driver-core/src/session.rs\<close> and its critical sections. The process-wide
  tables (\<open>LIFECYCLE_RECORDS\<close>, \<open>ENDED_SESSIONS\<close>, \<open>SESSION_ACTIVITY\<close>,
  \<open>SESSION_CLEANUP_PROGRESS\<close>, the hook registries, the suspended runtime scopes and the
  capture-scope registry that a session end clears) are the fields of one record. Every
  definition of this theory is one region of code executed under the locks it takes;
  \<open>SessionLifecycle\<close> composes them into the public operations and \<open>SessionRaces\<close>
  interleaves them. The task-local transport capability, the clock and the platform
  callbacks are arguments.
\<close>

section \<open>Data\<close>

datatype session_end_reason = Explicit | IdleTimeout | ProcessExit | UnknownReason

datatype capture_modality = ModalityWindow | ModalityDesktop

datatype session_transport = Cli | Daemon | McpStdio | McpHttp

datatype session_client_kind = CliClient | Direct | Mcp | PythonSdk | TypescriptSdk

datatype cursor_theme_category = ThemeDefault | ThemeCustom | ThemeUnknown

record cursor_outcome =
  observed :: bool
  enabled :: bool
  visible :: bool
  theme :: cursor_theme_category
  motion_customized :: bool
  active_cursor_count :: nat

record transport_owner =
  owner_id :: string
  live :: bool

record lifecycle_record =
  public_label :: "string option"
  implicit :: bool
  owner_transport :: string
  transport :: session_transport
  client_kind :: session_client_kind
  started_at :: instant
  idle_ttl :: "duration option"
  in_flight :: nat
  pending_end :: "session_end_reason option"

record cleanup_failure =
  failed_hook :: string
  failure_error :: string

record cleanup_report =
  complete :: bool
  in_progress :: bool
  failures :: "cleanup_failure list"

record cleanup_progress =
  hooks :: "(nat \<times> string) list"
  completed :: "nat list"
  last_failures :: "cleanup_failure list"
  running :: bool

record session_state =
  records :: "(string, lifecycle_record) kv"
  ended :: "(string, string option) kv"
  activity :: "(string, instant) kv"
  cleanup :: "(string, cleanup_progress) kv"
  end_hooks :: "(nat, string) kv"
  next_end_hook_id :: nat
  revive_hooks :: "nat list"
  suspended :: "string list"
  scopes :: scope_registry
  has_observer :: bool
  ended_notices :: "(string \<times> session_end_reason \<times> cursor_outcome option) list"

definition init_session_state :: session_state where
  "init_session_state =
     \<lparr>records = [], ended = [], activity = [], cleanup = [], end_hooks = [],
      next_end_hook_id = 1, revive_hooks = [], suspended = [], scopes = [],
      has_observer = False, ended_notices = []\<rparr>"

text \<open>The outcome of one cleanup callback: \<open>Ok\<close>, an error, or a caught panic.\<close>

datatype hook_result = HookOk | HookError string | HookPanic

text \<open>The platform's side: what each cleanup hook does when run for a session, and what each
  registered cursor reader reports for it.\<close>

record host =
  run_hook :: "nat \<Rightarrow> string \<Rightarrow> hook_result"
  cursor_readers :: "string \<Rightarrow> (nat \<times> cursor_outcome) list"

datatype session_error =
    SessionHasEnded
  | OwnerHasEnded
  | NotAvailable
  | SessionIsEnding
  | CleanupIncomplete

definition DEFAULT_SESSION_IDLE_TTL :: duration where
  "DEFAULT_SESSION_IDLE_TTL = secs (5 * 60)"

definition is_trackable :: "string \<Rightarrow> bool" where
  "is_trackable sid = (sid \<noteq> [] \<and> sid \<noteq> ''default'')"


section \<open>Pure classification helpers\<close>

definition infer_transport_metadata :: "string \<Rightarrow> session_transport \<times> session_client_kind" where
  "infer_transport_metadata owner =
     (if str_contains owner '':http-'' then (McpHttp, Mcp)
      else if str_contains owner '':mcp-'' then (McpStdio, Mcp)
      else if str_contains owner '':cli-'' then (Cli, CliClient)
      else (Daemon, Direct))"

definition bounded_cursor_outcome ::
    "bool \<Rightarrow> bool \<Rightarrow> bool \<Rightarrow> string option \<Rightarrow> bool \<Rightarrow> nat \<Rightarrow> cursor_outcome" where
  "bounded_cursor_outcome obs en vis theme_id motion n =
     \<lparr>observed = obs, enabled = (obs \<and> en), visible = (obs \<and> en \<and> vis),
      theme =
        (if \<not> obs then ThemeUnknown
         else case map_option trim theme_id of
           None \<Rightarrow> ThemeDefault
         | Some t \<Rightarrow> if t = [] \<or> t = ''cua.default'' then ThemeDefault else ThemeCustom),
      motion_customized = (obs \<and> motion), active_cursor_count = n\<rparr>"

definition modality_of_word :: "string \<Rightarrow> capture_modality option" where
  "modality_of_word w =
     (if w = ''window'' then Some ModalityWindow
      else if w = ''desktop'' then Some ModalityDesktop
      else None)"

definition capture_modality_for :: "string \<Rightarrow> json \<Rightarrow> capture_modality option" where
  "capture_modality_for tool args =
     (case pointer_str args [''target'', ''kind''] of
        Some kind \<Rightarrow> modality_of_word kind
      | None \<Rightarrow>
          (case get_str args ''scope'' of
             Some scope \<Rightarrow> modality_of_word scope
           | None \<Rightarrow>
               if (case json_get args ''pid'' of Some v \<Rightarrow> is_number v | None \<Rightarrow> False)
                  \<or> (case json_get args ''window_id'' of Some v \<Rightarrow> is_number v | None \<Rightarrow> False)
               then Some ModalityWindow
               else if tool = ''get_window_state'' then Some ModalityWindow
               else if tool \<in> set [''get_desktop_state'', ''get_screen_size'', ''get_cursor_position'']
               then Some ModalityDesktop
               else None))"

definition is_ascii_hexdigit :: "char \<Rightarrow> bool" where
  "is_ascii_hexdigit c = (char_digit 16 c \<noteq> None)"

definition public_session_label :: "string \<Rightarrow> string" where
  "public_session_label sid =
     (case strip_prefix ''__cua_runtime_'' sid of
        None \<Rightarrow> sid
      | Some rest \<Rightarrow>
          (case split_once (CHR '':'') rest of
             None \<Rightarrow> sid
           | Some (scope, public) \<Rightarrow>
               if length scope = 32 \<and> list_all is_ascii_hexdigit scope then public else sid))"


section \<open>Transport capabilities\<close>

definition new_transport_owner :: "string \<Rightarrow> transport_owner" where
  "new_transport_owner o_id = \<lparr>owner_id = o_id, live = True\<rparr>"

definition owner_admit :: "transport_owner \<Rightarrow> string \<Rightarrow> session_error + unit" where
  "owner_admit own ot =
     (if \<not> live own then Inl OwnerHasEnded
      else if owner_id own \<noteq> ot then Inl NotAvailable
      else Inr ())"

text \<open>Admission with the task-local capability, absent for direct in-process callers.\<close>

definition admission :: "transport_owner option \<Rightarrow> string \<Rightarrow> session_error + unit" where
  "admission cur ot = (case cur of None \<Rightarrow> Inr () | Some own \<Rightarrow> owner_admit own ot)"

definition current_transport_owner_for :: "transport_owner option \<Rightarrow> string \<Rightarrow> transport_owner option" where
  "current_transport_owner_for cur ot =
     (case cur of
        None \<Rightarrow> None
      | Some own \<Rightarrow> (case owner_admit own ot of Inr _ \<Rightarrow> Some own | Inl _ \<Rightarrow> None))"


section \<open>Critical sections\<close>

definition is_session_ended :: "session_state \<Rightarrow> string \<Rightarrow> bool" where
  "is_session_ended s sid = kv_has (ended s) sid"

definition is_session_ending_or_ended :: "session_state \<Rightarrow> string \<Rightarrow> bool" where
  "is_session_ending_or_ended s sid =
     (kv_has (ended s) sid
      \<or> (case kv_get (records s) sid of Some r \<Rightarrow> pending_end r \<noteq> None | None \<Rightarrow> False))"

definition fresh_record ::
    "string option \<Rightarrow> string \<Rightarrow> bool \<Rightarrow> session_transport \<Rightarrow> session_client_kind \<Rightarrow> instant
     \<Rightarrow> duration option \<Rightarrow> lifecycle_record" where
  "fresh_record label ot impl tr ck now ttl =
     \<lparr>public_label = label, implicit = impl, owner_transport = ot, transport = tr,
      client_kind = ck, started_at = now, idle_ttl = ttl, in_flight = 0, pending_end = None\<rparr>"

definition override_ttl :: "duration option \<Rightarrow> lifecycle_record \<Rightarrow> lifecycle_record" where
  "override_ttl ttl r = (if ttl \<noteq> None then r\<lparr>idle_ttl := ttl\<rparr> else r)"

text \<open>\<open>begin_session_dispatch_inner\<close>: success is an admitted dispatch guard for the id.\<close>

definition begin_session_dispatch ::
    "transport_owner option \<Rightarrow> string \<Rightarrow> string option \<Rightarrow> string \<Rightarrow> bool \<Rightarrow> session_transport
     \<Rightarrow> session_client_kind \<Rightarrow> duration option \<Rightarrow> instant \<Rightarrow> session_state
     \<Rightarrow> session_error + session_state" where
  "begin_session_dispatch cur sid label ot impl tr ck ttl now s =
     (if \<not> is_trackable sid then Inl SessionHasEnded
      else case admission cur ot of
        Inl e \<Rightarrow> Inl e
      | Inr _ \<Rightarrow>
          if kv_has (ended s) sid then Inl SessionHasEnded
          else
            (let r = (case kv_get (records s) sid of
                        Some r \<Rightarrow> r
                      | None \<Rightarrow> fresh_record label ot impl tr ck now ttl)
             in if owner_transport r \<noteq> ot then Inl NotAvailable
                else if pending_end r \<noteq> None then Inl SessionIsEnding
                else
                  (let r' = override_ttl ttl r
                   in Inr (s\<lparr>records := kv_put sid (r'\<lparr>in_flight := Suc (in_flight r')\<rparr>) (records s),
                             activity := kv_put sid now (activity s)\<rparr>))))"

text \<open>The locked part of dropping a dispatch guard: the end that raced the call, if this was
  the last guard.\<close>

definition guard_release ::
    "string \<Rightarrow> instant \<Rightarrow> session_state \<Rightarrow> session_state \<times> session_end_reason option" where
  "guard_release sid now s =
     (case kv_get (records s) sid of
        None \<Rightarrow> (s, None)
      | Some r \<Rightarrow>
          (let n = in_flight r - 1;
               pending = (if n = 0 then pending_end r else None);
               r' = r\<lparr>in_flight := n, pending_end := (if n = 0 then None else pending_end r)\<rparr>
           in (s\<lparr>records := kv_put sid r' (records s), activity := kv_put sid now (activity s)\<rparr>,
               pending)))"

definition activate_session ::
    "transport_owner option \<Rightarrow> string \<Rightarrow> string option \<Rightarrow> string \<Rightarrow> bool \<Rightarrow> session_transport
     \<Rightarrow> session_client_kind \<Rightarrow> duration option \<Rightarrow> instant \<Rightarrow> session_state
     \<Rightarrow> session_error + session_state" where
  "activate_session cur sid label ot impl tr ck ttl now s =
     (case admission cur ot of
        Inl e \<Rightarrow> Inl e
      | Inr _ \<Rightarrow>
          (case kv_get (records s) sid of
             Some r \<Rightarrow>
               if owner_transport r \<noteq> ot then Inl NotAvailable
               else if pending_end r \<noteq> None then Inl SessionIsEnding
               else Inr (s\<lparr>records := kv_put sid (override_ttl ttl r) (records s),
                           activity := kv_put sid now (activity s)\<rparr>)
           | None \<Rightarrow>
               Inr (s\<lparr>records := kv_put sid (fresh_record label ot impl tr ck now ttl) (records s),
                      activity := kv_put sid now (activity s)\<rparr>)))"

text \<open>Who may revive a tombstone: its recorded owner, or, for a tombstone without owner, only
  the caller whose identity is the id itself. The result says whether there is one.\<close>

definition tombstone_check :: "session_state \<Rightarrow> string \<Rightarrow> string \<Rightarrow> session_error + bool" where
  "tombstone_check s sid ot =
     (case kv_get (ended s) sid of
        Some (Some own) \<Rightarrow> if own \<noteq> ot then Inl NotAvailable else Inr True
      | Some None \<Rightarrow> if ot \<noteq> sid then Inl NotAvailable else Inr True
      | None \<Rightarrow> Inr False)"

text \<open>The second critical section of \<open>activate_or_revive_session_for_owner\<close>.\<close>

definition bind_or_revive ::
    "transport_owner option \<Rightarrow> string \<Rightarrow> string option \<Rightarrow> string \<Rightarrow> bool \<Rightarrow> session_transport
     \<Rightarrow> session_client_kind \<Rightarrow> duration option \<Rightarrow> instant \<Rightarrow> session_state
     \<Rightarrow> session_error + (session_state \<times> bool)" where
  "bind_or_revive cur sid label ot impl tr ck ttl now s =
     (case admission cur ot of
        Inl e \<Rightarrow> Inl e
      | Inr _ \<Rightarrow>
          (case tombstone_check s sid ot of
             Inl e \<Rightarrow> Inl e
           | Inr revived \<Rightarrow>
               (let bound =
                  (case kv_get (records s) sid of
                     Some r \<Rightarrow>
                       if owner_transport r \<noteq> ot \<or> pending_end r \<noteq> None then Inl NotAvailable
                       else Inr (kv_put sid (override_ttl ttl r) (records s))
                   | None \<Rightarrow> Inr (kv_put sid (fresh_record label ot impl tr ck now ttl) (records s)))
                in case bound of
                     Inl e \<Rightarrow> Inl e
                   | Inr recs \<Rightarrow>
                       Inr (s\<lparr>records := recs,
                              ended := (if revived then kv_del sid (ended s) else ended s),
                              activity := kv_put sid now (activity s)\<rparr>, revived))))"

definition mark_session_ended :: "string \<Rightarrow> string option \<Rightarrow> session_state \<Rightarrow> session_state \<times> bool" where
  "mark_session_ended sid owner s =
     (let record_owner = map_option owner_transport (kv_get (records s) sid);
          s1 = s\<lparr>activity := kv_del sid (activity s), records := kv_del sid (records s)\<rparr>
      in if kv_has (ended s) sid then (s1, False)
         else (s1\<lparr>ended := kv_put sid (case owner of Some own \<Rightarrow> Some own | None \<Rightarrow> record_owner)
                             (ended s)\<rparr>, True))"

definition initialize_session_cleanup :: "string \<Rightarrow> session_state \<Rightarrow> session_state" where
  "initialize_session_cleanup sid s =
     s\<lparr>scopes := clear_session sid (scopes s),
       cleanup := kv_put sid \<lparr>hooks = sort_key fst (end_hooks s), completed = [],
                              last_failures = [], running = False\<rparr> (cleanup s)\<rparr>"

definition done_report :: cleanup_report where
  "done_report = \<lparr>complete = True, in_progress = False, failures = []\<rparr>"

text \<open>The two critical sections of \<open>retry_session_cleanup\<close>, around the callbacks.\<close>

definition retry_begin ::
    "string \<Rightarrow> session_state \<Rightarrow> session_state \<times> (cleanup_report + (nat \<times> string) list)" where
  "retry_begin sid s =
     (case kv_get (cleanup s) sid of
        None \<Rightarrow> (s, Inl done_report)
      | Some p \<Rightarrow>
          if running p then
            (s, Inl \<lparr>complete = False, in_progress = True, failures = last_failures p\<rparr>)
          else
            (s\<lparr>cleanup := kv_put sid (p\<lparr>running := True\<rparr>) (cleanup s)\<rparr>,
             Inr (filter (\<lambda>h. fst h \<notin> set (completed p)) (hooks p))))"

fun run_cleanup_hooks ::
    "host \<Rightarrow> string \<Rightarrow> (nat \<times> string) list \<Rightarrow> nat list \<times> cleanup_failure list" where
  "run_cleanup_hooks h sid [] = ([], [])"
| "run_cleanup_hooks h sid ((i, name) # work) =
     (let (ok, bad) = run_cleanup_hooks h sid work
      in case run_hook h i sid of
           HookOk \<Rightarrow> (i # ok, bad)
         | HookError e \<Rightarrow> (ok, \<lparr>failed_hook = name, failure_error = e\<rparr> # bad)
         | HookPanic \<Rightarrow>
             (ok, \<lparr>failed_hook = name, failure_error = ''cleanup hook panicked''\<rparr> # bad))"

definition set_extend :: "nat list \<Rightarrow> nat list \<Rightarrow> nat list" where
  "set_extend xs ys = xs @ filter (\<lambda>y. y \<notin> set xs) (remdups ys)"

definition retry_finish ::
    "string \<Rightarrow> nat list \<Rightarrow> cleanup_failure list \<Rightarrow> session_state \<Rightarrow> session_state \<times> cleanup_report" where
  "retry_finish sid successes bad s =
     (case kv_get (cleanup s) sid of
        None \<Rightarrow> (s, done_report)
      | Some p \<Rightarrow>
          (let p' = p\<lparr>completed := set_extend (completed p) successes,
                      last_failures := bad, running := False\<rparr>;
               all_done = (length (completed p') = length (hooks p'))
           in (s\<lparr>cleanup := (if all_done then kv_del sid (cleanup s)
                             else kv_put sid p' (cleanup s))\<rparr>,
               \<lparr>complete = all_done, in_progress = False, failures = bad\<rparr>)))"

definition session_cleanup_status :: "string \<Rightarrow> session_state \<Rightarrow> cleanup_report" where
  "session_cleanup_status sid s =
     (case kv_get (cleanup s) sid of
        None \<Rightarrow> done_report
      | Some p \<Rightarrow>
          \<lparr>complete = (length (completed p) = length (hooks p)), in_progress = running p,
           failures = last_failures p\<rparr>)"

text \<open>The locked part of \<open>end_session_with_reason\<close>: defer while a dispatch is in flight.\<close>

definition defer_end :: "string \<Rightarrow> session_end_reason \<Rightarrow> session_state \<Rightarrow> session_state \<times> bool" where
  "defer_end sid reason s =
     (case kv_get (records s) sid of
        Some r \<Rightarrow>
          if 0 < in_flight r then
            (s\<lparr>records := kv_put sid
                 (r\<lparr>pending_end := (case pending_end r of Some p \<Rightarrow> Some p | None \<Rightarrow> Some reason)\<rparr>)
                 (records s)\<rparr>, True)
          else (s, False)
      | None \<Rightarrow> (s, False))"

text \<open>The cursor outcome reported for an ended session: the first reader, in registration
  order, that observed a cursor, else the first report.\<close>

definition read_cursor_outcome :: "(nat \<times> cursor_outcome) list \<Rightarrow> cursor_outcome option" where
  "read_cursor_outcome readers =
     (let reports = map snd (sort_key fst readers)
      in case find observed reports of
           Some c \<Rightarrow> Some c
         | None \<Rightarrow> (case reports of [] \<Rightarrow> None | c # _ \<Rightarrow> Some c))"

definition notify_ended ::
    "string \<Rightarrow> session_end_reason \<Rightarrow> cursor_outcome option \<Rightarrow> session_state \<Rightarrow> session_state" where
  "notify_ended sid reason cursor s =
     (if has_observer s
      then s\<lparr>ended_notices := ended_notices s @ [(public_session_label sid, reason, cursor)]\<rparr>
      else s)"

end
