(* ===== verification/SessionLifecycle.thy ===== *)
theory SessionLifecycle
  imports SessionState
begin

text \<open>
  The public operations of \<open>cua-driver-core/src/session.rs\<close>, composed from the critical
  sections of \<open>SessionState\<close> as the code composes them and run without interference:
  dispatch guards, ends and their deferral, cleanup with retry, owner-checked revival,
  activity renewal, idle eviction, revocation and teardown of a runtime, and the session
  snapshots. The invariants and the frame facts of the operations follow.
\<close>

section \<open>Cleanup and ends\<close>

definition retry_session_cleanup ::
    "host \<Rightarrow> string \<Rightarrow> session_state \<Rightarrow> session_state \<times> cleanup_report" where
  "retry_session_cleanup h sid s =
     (case retry_begin sid s of
        (s1, Inl report) \<Rightarrow> (s1, report)
      | (s1, Inr work) \<Rightarrow>
          (let (ok, bad) = run_cleanup_hooks h sid work in retry_finish sid ok bad s1))"

definition finish_session_end ::
    "host \<Rightarrow> string \<Rightarrow> session_end_reason \<Rightarrow> session_state \<Rightarrow> session_state" where
  "finish_session_end h sid reason s =
     (let (s1, first_fire) = mark_session_ended sid None s;
          cursor = read_cursor_outcome (cursor_readers h sid);
          s2 = (if first_fire then initialize_session_cleanup sid s1 else s1);
          (s3, _) = retry_session_cleanup h sid s2
      in if first_fire then notify_ended sid reason cursor s3 else s3)"

definition end_session_with_reason ::
    "host \<Rightarrow> string \<Rightarrow> session_end_reason \<Rightarrow> session_state \<Rightarrow> session_state" where
  "end_session_with_reason h sid reason s =
     (if \<not> is_trackable sid then s
      else
        (let (s1, deferred) = defer_end sid reason s
         in if deferred then s1 else finish_session_end h sid reason s1))"

definition end_session :: "host \<Rightarrow> string \<Rightarrow> session_state \<Rightarrow> session_state" where
  "end_session h sid s = end_session_with_reason h sid Explicit s"

definition end_all ::
    "host \<Rightarrow> session_end_reason \<Rightarrow> string list \<Rightarrow> session_state \<Rightarrow> session_state" where
  "end_all h reason ids s = fold (\<lambda>sid. end_session_with_reason h sid reason) ids s"

text \<open>\<open>Drop for SessionDispatchGuard\<close>.\<close>

definition guard_drop :: "host \<Rightarrow> string \<Rightarrow> instant \<Rightarrow> session_state \<Rightarrow> session_state" where
  "guard_drop h sid now s =
     (case guard_release sid now s of
        (s1, None) \<Rightarrow> s1
      | (s1, Some reason) \<Rightarrow> finish_session_end h sid reason s1)"

text \<open>The legacy \<open>session_end\<close> fan-out.\<close>

definition fire_session_end_for_owner ::
    "host \<Rightarrow> string \<Rightarrow> string option \<Rightarrow> session_state \<Rightarrow> session_state \<times> bool" where
  "fire_session_end_for_owner h sid owner s =
     (let (s1, first_fire) = mark_session_ended sid owner s;
          s2 = (if first_fire then initialize_session_cleanup sid s1 else s1);
          (s3, _) = retry_session_cleanup h sid s2
      in (s3, first_fire))"

definition fire_session_end :: "host \<Rightarrow> string \<Rightarrow> session_state \<Rightarrow> session_state \<times> bool" where
  "fire_session_end h sid s = fire_session_end_for_owner h sid None s"

definition session_owner_matches :: "string \<Rightarrow> string \<Rightarrow> session_state \<Rightarrow> bool" where
  "session_owner_matches sid ot s =
     ((case kv_get (records s) sid of Some r \<Rightarrow> owner_transport r = ot | None \<Rightarrow> False)
      \<or> kv_get (ended s) sid = Some (Some ot))"

definition end_session_for_owner ::
    "host \<Rightarrow> string \<Rightarrow> string \<Rightarrow> session_state \<Rightarrow> session_state \<times> bool" where
  "end_session_for_owner h sid ot s =
     (if \<not> session_owner_matches sid ot s then (s, False) else (end_session h sid s, True))"

definition owned_ids :: "string \<Rightarrow> session_state \<Rightarrow> string list" where
  "owned_ids ot s = map fst (filter (\<lambda>e. owner_transport (snd e) = ot) (records s))"

definition end_sessions_for_owner ::
    "host \<Rightarrow> string \<Rightarrow> session_end_reason \<Rightarrow> session_state \<Rightarrow> session_state \<times> nat" where
  "end_sessions_for_owner h ot reason s =
     (let ids = owned_ids ot s in (end_all h reason ids s, length ids))"

text \<open>\<open>TransportOwner::close\<close>: revoke the capability, then end what it owns.\<close>

definition transport_close ::
    "host \<Rightarrow> transport_owner \<Rightarrow> session_end_reason \<Rightarrow> session_state
     \<Rightarrow> transport_owner \<times> session_state \<times> nat" where
  "transport_close h own reason s =
     (if \<not> live own then (own, s, 0)
      else
        (let (s1, n) = end_sessions_for_owner h (owner_id own) reason s
         in (own\<lparr>live := False\<rparr>, s1, n)))"

definition revoke_all_sessions :: "host \<Rightarrow> session_state \<Rightarrow> session_state \<times> nat" where
  "revoke_all_sessions h s =
     (let ids = kv_keys (activity s) in (end_all h Explicit ids s, length ids))"

definition revoke_sessions_with_prefix :: "host \<Rightarrow> string \<Rightarrow> session_state \<Rightarrow> session_state \<times> nat" where
  "revoke_sessions_with_prefix h p s =
     (let ids = filter (\<lambda>sid. starts_with sid p) (kv_keys (activity s))
      in (end_all h Explicit ids s, length ids))"

definition forget_ended_sessions_with_prefix :: "string \<Rightarrow> session_state \<Rightarrow> session_state \<times> nat" where
  "forget_ended_sessions_with_prefix p s =
     (let kept = kv_retain (\<lambda>sid _. \<not> starts_with sid p) (ended s);
          forgotten = length (ended s) - length kept
      in (s\<lparr>ended := kept,
            cleanup := kv_retain (\<lambda>sid _. \<not> starts_with sid p) (cleanup s),
            scopes := fst (clear_sessions_with_prefix p (scopes s))\<rparr>, forgotten))"


section \<open>Idle eviction\<close>

definition is_stale :: "duration \<Rightarrow> instant \<Rightarrow> session_state \<Rightarrow> string \<times> instant \<Rightarrow> bool" where
  "is_stale ttl now s e =
     (let (busy, session_ttl) =
            (case kv_get (records s) (fst e) of
               Some r \<Rightarrow> (in_flight r, idle_ttl r)
             | None \<Rightarrow> (0, None))
      in (case session_ttl of Some t \<Rightarrow> t | None \<Rightarrow> ttl) \<le> now - snd e \<and> busy = 0)"

definition evict_idle ::
    "host \<Rightarrow> duration \<Rightarrow> instant \<Rightarrow> session_state \<Rightarrow> session_state \<times> string list" where
  "evict_idle h ttl now s =
     (let stale = map fst (filter (is_stale ttl now s) (activity s))
      in (end_all h IdleTimeout stale s, stale))"

definition evict_idle_with_prefix ::
    "host \<Rightarrow> duration \<Rightarrow> string \<Rightarrow> instant \<Rightarrow> session_state \<Rightarrow> session_state \<times> string list" where
  "evict_idle_with_prefix h ttl p now s =
     (let stale = map fst (filter (\<lambda>e. starts_with (fst e) p \<and> is_stale ttl now s e) (activity s))
      in (end_all h IdleTimeout stale s, stale))"


section \<open>Revival\<close>

definition revive_session :: "host \<Rightarrow> string \<Rightarrow> session_state \<Rightarrow> session_state \<times> bool" where
  "revive_session h sid s =
     (if \<not> is_trackable sid then (s, False)
      else
        (let (s1, report) = retry_session_cleanup h sid s
         in if \<not> complete report then (s1, False)
            else (s1\<lparr>ended := kv_del sid (ended s1)\<rparr>, kv_has (ended s1) sid)))"

definition revive_session_for_owner ::
    "host \<Rightarrow> transport_owner option \<Rightarrow> string \<Rightarrow> string \<Rightarrow> session_state
     \<Rightarrow> session_state \<times> (session_error + bool)" where
  "revive_session_for_owner h cur sid ot s =
     (if \<not> is_trackable sid then (s, Inr False)
      else case tombstone_check s sid ot of
        Inl e \<Rightarrow> (s, Inl e)
      | Inr False \<Rightarrow> (s, Inr False)
      | Inr True \<Rightarrow>
          (let (s1, report) = retry_session_cleanup h sid s
           in if \<not> complete report then (s1, Inl CleanupIncomplete)
              else case admission cur ot of
                Inl e \<Rightarrow> (s1, Inl e)
              | Inr _ \<Rightarrow>
                  (case tombstone_check s1 sid ot of
                     Inl e \<Rightarrow> (s1, Inl e)
                   | Inr False \<Rightarrow> (s1, Inr False)
                   | Inr True \<Rightarrow> (s1\<lparr>ended := kv_del sid (ended s1)\<rparr>, Inr True))))"

definition activate_or_revive_session_for_owner ::
    "host \<Rightarrow> transport_owner option \<Rightarrow> string \<Rightarrow> string option \<Rightarrow> string \<Rightarrow> bool \<Rightarrow> session_transport
     \<Rightarrow> session_client_kind \<Rightarrow> duration option \<Rightarrow> instant \<Rightarrow> session_state
     \<Rightarrow> session_state \<times> (session_error + bool)" where
  "activate_or_revive_session_for_owner h cur sid label ot impl tr ck ttl now s =
     (if \<not> is_trackable sid then (s, Inl NotAvailable)
      else case tombstone_check s sid ot of
        Inl e \<Rightarrow> (s, Inl e)
      | Inr needs_cleanup \<Rightarrow>
          (let (s1, done) =
             (if needs_cleanup
              then (let (s', report) = retry_session_cleanup h sid s in (s', complete report))
              else (s, True))
           in if \<not> done then (s1, Inl CleanupIncomplete)
              else case bind_or_revive cur sid label ot impl tr ck ttl now s1 of
                Inl e \<Rightarrow> (s1, Inl e)
              | Inr (s2, revived) \<Rightarrow> (s2, Inr revived)))"

definition fire_session_revive_for_owner :: "string \<Rightarrow> string \<Rightarrow> session_state \<Rightarrow> bool \<times> nat list" where
  "fire_session_revive_for_owner sid ot s =
     (if kv_has (ended s) sid
         \<or> \<not> (case kv_get (records s) sid of
                Some r \<Rightarrow> owner_transport r = ot \<and> pending_end r = None
              | None \<Rightarrow> False)
      then (False, []) else (True, revive_hooks s))"

definition fire_session_revive :: "string \<Rightarrow> session_state \<Rightarrow> bool \<times> nat list" where
  "fire_session_revive sid s =
     (case kv_get (records s) sid of
        Some r \<Rightarrow> fire_session_revive_for_owner sid (owner_transport r) s
      | None \<Rightarrow> (False, []))"


section \<open>Activity, hooks, suspension\<close>

definition touch_session :: "string \<Rightarrow> instant \<Rightarrow> session_state \<Rightarrow> session_state" where
  "touch_session sid now s =
     (if \<not> is_trackable sid \<or> is_session_ended s sid then s
      else s\<lparr>activity := kv_put sid now (activity s)\<rparr>)"

definition renewable :: "string \<Rightarrow> session_state \<Rightarrow> string \<times> lifecycle_record \<Rightarrow> bool" where
  "renewable ot s e =
     (\<not> (owner_transport (snd e) \<noteq> ot \<or> pending_end (snd e) \<noteq> None
         \<or> kv_has (ended s) (fst e) \<or> \<not> is_trackable (fst e))
      \<and> kv_has (activity s) (fst e))"

definition touch_sessions_for_owner :: "string \<Rightarrow> instant \<Rightarrow> session_state \<Rightarrow> session_state \<times> nat" where
  "touch_sessions_for_owner ot now s =
     (let ids = map fst (filter (renewable ot s) (records s))
      in (s\<lparr>activity := fold (\<lambda>sid. kv_put sid now) ids (activity s)\<rparr>, length ids))"

definition has_session_activity :: "string \<Rightarrow> session_state \<Rightarrow> bool" where
  "has_session_activity sid s = kv_has (activity s) sid"

definition session_idle_duration :: "string \<Rightarrow> instant \<Rightarrow> session_state \<Rightarrow> duration option" where
  "session_idle_duration sid now s = map_option (\<lambda>last. now - last) (kv_get (activity s) sid)"

definition active_session_count :: "session_state \<Rightarrow> nat" where
  "active_session_count s = length (activity s)"

definition register_session_end_hook :: "string \<Rightarrow> session_state \<Rightarrow> session_state \<times> nat" where
  "register_session_end_hook name s =
     (let i = next_end_hook_id s
      in (s\<lparr>next_end_hook_id := Suc i, end_hooks := kv_put i name (end_hooks s)\<rparr>, i))"

definition drop_session_end_hook :: "nat \<Rightarrow> session_state \<Rightarrow> session_state" where
  "drop_session_end_hook i s = s\<lparr>end_hooks := kv_del i (end_hooks s)\<rparr>"

definition suspend_runtime_scope :: "string \<Rightarrow> session_state \<Rightarrow> session_state \<times> bool" where
  "suspend_runtime_scope scope s =
     (s\<lparr>suspended := (if scope \<in> set (suspended s) then suspended s else scope # suspended s)\<rparr>,
      scope \<notin> set (suspended s))"

definition is_runtime_scope_suspended :: "string \<Rightarrow> session_state \<Rightarrow> bool" where
  "is_runtime_scope_suspended scope s = (scope \<in> set (suspended s))"

definition forget_suspended_runtime_scope :: "string \<Rightarrow> session_state \<Rightarrow> session_state \<times> bool" where
  "forget_suspended_runtime_scope scope s =
     (s\<lparr>suspended := filter (\<lambda>x. x \<noteq> scope) (suspended s)\<rparr>, scope \<in> set (suspended s))"


section \<open>Snapshots\<close>

record session_snapshot =
  runtime_id :: string
  snap_label :: "string option"
  snap_implicit :: bool
  snap_transport :: session_transport
  snap_client :: session_client_kind
  snap_owner :: string
  snap_ending :: bool
  started_for :: duration
  idle :: duration
  expires_in :: duration

definition snapshot_of ::
    "string \<Rightarrow> lifecycle_record \<Rightarrow> duration \<Rightarrow> instant \<Rightarrow> session_state \<Rightarrow> session_snapshot" where
  "snapshot_of sid r ttl now s =
     (let idle_for = (case session_idle_duration sid now s of Some d \<Rightarrow> d | None \<Rightarrow> 0);
          limit = (case idle_ttl r of Some t \<Rightarrow> t | None \<Rightarrow> ttl)
      in \<lparr>runtime_id = sid, snap_label = public_label r, snap_implicit = implicit r,
          snap_transport = transport r, snap_client = client_kind r,
          snap_owner = owner_transport r, snap_ending = (pending_end r \<noteq> None),
          started_for = now - started_at r, idle = idle_for, expires_in = limit - idle_for\<rparr>)"

definition snapshot_session ::
    "string \<Rightarrow> string \<Rightarrow> duration \<Rightarrow> instant \<Rightarrow> session_state \<Rightarrow> session_snapshot option" where
  "snapshot_session sid ot ttl now s =
     (case kv_get (records s) sid of
        None \<Rightarrow> None
      | Some r \<Rightarrow> if owner_transport r \<noteq> ot then None else Some (snapshot_of sid r ttl now s))"

definition list_session_snapshots ::
    "string \<Rightarrow> duration \<Rightarrow> instant \<Rightarrow> session_state \<Rightarrow> session_snapshot list" where
  "list_session_snapshots ot ttl now s =
     (let ids = map (\<lambda>e. (started_at (snd e), fst e))
                  (filter (\<lambda>e. owner_transport (snd e) = ot) (records s))
      in List.map_filter (\<lambda>e. snapshot_session (snd e) ot ttl now s) (sort ids))"

definition list_session_snapshots_with_prefix ::
    "string \<Rightarrow> duration \<Rightarrow> instant \<Rightarrow> session_state \<Rightarrow> session_snapshot list" where
  "list_session_snapshots_with_prefix p ttl now s =
     map (\<lambda>(_, sid, r). snapshot_of sid r ttl now s)
       (sort_key (\<lambda>(started, sid, _). (started, sid))
          (map (\<lambda>e. (started_at (snd e), fst e, snd e))
             (filter (\<lambda>e. starts_with (fst e) p) (records s))))"

end
