(* ===== verification/SessionHistory.thy ===== *)
theory SessionHistory
  imports SessionLifecycle
begin

text \<open>
  Histories of the session component: one constructor per public operation of
  \<open>cua-driver-core/src/session.rs\<close>, the step it makes and the run of a list of them, each
  with the platform's behaviour at that moment. The lemmas describe what the composed
  operations do to each table and show that every operation keeps the invariant
  \<open>session_ok\<close>; the properties of \<open>SessionProps\<close> rest on them.
\<close>

section \<open>Histories\<close>

text \<open>One operation of the session component with its arguments; \<open>binding\<close> collects the
  arguments the three binding entry points share.\<close>

record binding =
  b_capability :: "transport_owner option"
  b_label :: "string option"
  b_owner :: string
  b_implicit :: bool
  b_transport :: session_transport
  b_client :: session_client_kind
  b_ttl :: "duration option"
  b_now :: instant

datatype session_op =
    BeginDispatch string binding
  | GuardDrop string instant
  | Activate string binding
  | ActivateOrRevive string binding
  | EndWithReason string session_end_reason
  | FireEnd string "string option"
  | EndForOwner string string
  | EndAllForOwner string session_end_reason
  | RevokeAll
  | RevokePrefix string
  | ForgetEnded string
  | EvictIdle duration instant
  | EvictIdlePrefix duration string instant
  | RetryCleanup string
  | Revive string
  | ReviveForOwner string string "transport_owner option"
  | Touch string instant
  | TouchOwner string instant
  | RegisterHook string
  | DropHook nat
  | Suspend string
  | ForgetSuspended string

definition or_same :: "session_state \<Rightarrow> session_error + session_state \<Rightarrow> session_state" where
  "or_same s res = (case res of Inl _ \<Rightarrow> s | Inr s' \<Rightarrow> s')"

definition begin_op :: "string \<Rightarrow> binding \<Rightarrow> session_state \<Rightarrow> session_error + session_state" where
  "begin_op sid b s =
     begin_session_dispatch (b_capability b) sid (b_label b) (b_owner b) (b_implicit b)
       (b_transport b) (b_client b) (b_ttl b) (b_now b) s"

definition activate_op :: "string \<Rightarrow> binding \<Rightarrow> session_state \<Rightarrow> session_error + session_state" where
  "activate_op sid b s =
     activate_session (b_capability b) sid (b_label b) (b_owner b) (b_implicit b)
       (b_transport b) (b_client b) (b_ttl b) (b_now b) s"

definition activate_or_revive_op ::
    "host \<Rightarrow> string \<Rightarrow> binding \<Rightarrow> session_state \<Rightarrow> session_state \<times> (session_error + bool)" where
  "activate_or_revive_op h sid b s =
     activate_or_revive_session_for_owner h (b_capability b) sid (b_label b) (b_owner b)
       (b_implicit b) (b_transport b) (b_client b) (b_ttl b) (b_now b) s"

fun session_step :: "host \<Rightarrow> session_op \<Rightarrow> session_state \<Rightarrow> session_state" where
  "session_step h (BeginDispatch sid b) s = or_same s (begin_op sid b s)"
| "session_step h (GuardDrop sid now) s = guard_drop h sid now s"
| "session_step h (Activate sid b) s = or_same s (activate_op sid b s)"
| "session_step h (ActivateOrRevive sid b) s = fst (activate_or_revive_op h sid b s)"
| "session_step h (EndWithReason sid why) s = end_session_with_reason h sid why s"
| "session_step h (FireEnd sid own) s = fst (fire_session_end_for_owner h sid own s)"
| "session_step h (EndForOwner sid ot) s = fst (end_session_for_owner h sid ot s)"
| "session_step h (EndAllForOwner ot why) s = fst (end_sessions_for_owner h ot why s)"
| "session_step h RevokeAll s = fst (revoke_all_sessions h s)"
| "session_step h (RevokePrefix p) s = fst (revoke_sessions_with_prefix h p s)"
| "session_step h (ForgetEnded p) s = fst (forget_ended_sessions_with_prefix p s)"
| "session_step h (EvictIdle ttl now) s = fst (evict_idle h ttl now s)"
| "session_step h (EvictIdlePrefix ttl p now) s = fst (evict_idle_with_prefix h ttl p now s)"
| "session_step h (RetryCleanup sid) s = fst (retry_session_cleanup h sid s)"
| "session_step h (Revive sid) s = fst (revive_session h sid s)"
| "session_step h (ReviveForOwner sid ot cur) s = fst (revive_session_for_owner h cur sid ot s)"
| "session_step h (Touch sid now) s = touch_session sid now s"
| "session_step h (TouchOwner ot now) s = fst (touch_sessions_for_owner ot now s)"
| "session_step h (RegisterHook name) s = fst (register_session_end_hook name s)"
| "session_step h (DropHook i) s = drop_session_end_hook i s"
| "session_step h (Suspend scope) s = fst (suspend_runtime_scope scope s)"
| "session_step h (ForgetSuspended scope) s = fst (forget_suspended_runtime_scope scope s)"

text \<open>A history gives each operation the platform's behaviour at that moment.\<close>

definition session_run :: "(host \<times> session_op) list \<Rightarrow> session_state \<Rightarrow> session_state" where
  "session_run = fold (\<lambda>(h, x). session_step h x)"


section \<open>Algebra of keyed tables and cleanup\<close>

lemma kv_put_put: "kv_put k v (kv_put k w m) = kv_put k v m"
  by (induction k w m rule: kv_put.induct) auto

lemma kv_del_put: "kv_del k (kv_put k w m) = kv_del k m"
  by (induction k w m rule: kv_put.induct) (auto simp: kv_del_def)

lemma distinct_set_extend: "distinct xs \<Longrightarrow> distinct (set_extend xs ys)"
  by (auto simp: set_extend_def)

lemma set_set_extend [simp]: "set (set_extend xs ys) = set xs \<union> set ys"
  by (auto simp: set_extend_def)

definition todo_hooks :: "cleanup_progress \<Rightarrow> (nat \<times> string) list" where
  "todo_hooks p = filter (\<lambda>h. fst h \<notin> set (completed p)) (hooks p)"

definition retried :: "host \<Rightarrow> string \<Rightarrow> cleanup_progress \<Rightarrow> cleanup_progress" where
  "retried h sid p =
     p\<lparr>completed := set_extend (completed p) (fst (run_cleanup_hooks h sid (todo_hooks p))),
       last_failures := snd (run_cleanup_hooks h sid (todo_hooks p)), running := False\<rparr>"

definition all_completed :: "cleanup_progress \<Rightarrow> bool" where
  "all_completed p = (length (completed p) = length (hooks p))"

lemma retry_eq:
  "retry_session_cleanup h sid s =
     (case kv_get (cleanup s) sid of
        None \<Rightarrow> (s, done_report)
      | Some p \<Rightarrow>
          if running p then
            (s, \<lparr>complete = False, in_progress = True, failures = last_failures p\<rparr>)
          else
            (s\<lparr>cleanup := (if all_completed (retried h sid p) then kv_del sid (cleanup s)
                           else kv_put sid (retried h sid p) (cleanup s))\<rparr>,
             \<lparr>complete = all_completed (retried h sid p), in_progress = False,
              failures = last_failures (retried h sid p)\<rparr>))"
  by (auto simp: retry_session_cleanup_def retry_begin_def retry_finish_def Let_def
      kv_put_put kv_del_put retried_def todo_hooks_def all_completed_def
      split: option.splits prod.splits)

lemma fst_run_cleanup_hooks:
  "fst (run_cleanup_hooks h sid work) = map fst (filter (\<lambda>w. run_hook h (fst w) sid = HookOk) work)"
  by (induction work) (auto simp: split_beta Let_def split: hook_result.splits)


section \<open>Projections of the composed operations\<close>

lemma retry_frame [simp]:
  "records (fst (retry_session_cleanup h sid s)) = records s"
  "ended (fst (retry_session_cleanup h sid s)) = ended s"
  "activity (fst (retry_session_cleanup h sid s)) = activity s"
  "end_hooks (fst (retry_session_cleanup h sid s)) = end_hooks s"
  "scopes (fst (retry_session_cleanup h sid s)) = scopes s"
  "suspended (fst (retry_session_cleanup h sid s)) = suspended s"
  "has_observer (fst (retry_session_cleanup h sid s)) = has_observer s"
  "ended_notices (fst (retry_session_cleanup h sid s)) = ended_notices s"
  "next_end_hook_id (fst (retry_session_cleanup h sid s)) = next_end_hook_id s"
  "sid' \<noteq> sid \<Longrightarrow>
     kv_get (cleanup (fst (retry_session_cleanup h sid s))) sid' = kv_get (cleanup s) sid'"
  by (auto simp: retry_eq split: option.splits)

lemma finish_simps [simp]:
  "records (finish_session_end h sid reason s) = kv_del sid (records s)"
  "activity (finish_session_end h sid reason s) = kv_del sid (activity s)"
  "ended (finish_session_end h sid reason s) =
     (if kv_has (ended s) sid then ended s
      else kv_put sid (map_option owner_transport (kv_get (records s) sid)) (ended s))"
  "scopes (finish_session_end h sid reason s) =
     (if kv_has (ended s) sid then scopes s else clear_session sid (scopes s))"
  "end_hooks (finish_session_end h sid reason s) = end_hooks s"
  "has_observer (finish_session_end h sid reason s) = has_observer s"
  "next_end_hook_id (finish_session_end h sid reason s) = next_end_hook_id s"
  "sid' \<noteq> sid \<Longrightarrow>
     kv_get (cleanup (finish_session_end h sid reason s)) sid' = kv_get (cleanup s) sid'"
  by (simp_all add: finish_session_end_def mark_session_ended_def initialize_session_cleanup_def
      notify_ended_def Let_def split_beta)

lemma fire_simps [simp]:
  "records (fst (fire_session_end_for_owner h sid own s)) = kv_del sid (records s)"
  "activity (fst (fire_session_end_for_owner h sid own s)) = kv_del sid (activity s)"
  "ended (fst (fire_session_end_for_owner h sid own s)) =
     (if kv_has (ended s) sid then ended s
      else kv_put sid (case own of Some w \<Rightarrow> Some w
                       | None \<Rightarrow> map_option owner_transport (kv_get (records s) sid)) (ended s))"
  "end_hooks (fst (fire_session_end_for_owner h sid own s)) = end_hooks s"
  by (simp_all add: fire_session_end_for_owner_def mark_session_ended_def
      initialize_session_cleanup_def Let_def split_beta)


section \<open>The invariant\<close>

definition record_ok :: "lifecycle_record \<Rightarrow> bool" where
  "record_ok r = (pending_end r \<noteq> None \<longrightarrow> 0 < in_flight r)"

definition progress_ok :: "cleanup_progress \<Rightarrow> bool" where
  "progress_ok p =
     (distinct (map fst (hooks p)) \<and> distinct (completed p)
      \<and> set (completed p) \<subseteq> set (map fst (hooks p)) \<and> \<not> running p)"

definition tables_ok :: "session_state \<Rightarrow> bool" where
  "tables_ok s =
     (kv_wf (records s) \<and> kv_wf (ended s) \<and> kv_wf (activity s) \<and> kv_wf (cleanup s)
      \<and> kv_wf (end_hooks s))"

definition records_ok :: "session_state \<Rightarrow> bool" where
  "records_ok s =
     (\<forall>sid r. kv_get (records s) sid = Some r \<longrightarrow> kv_has (activity s) sid \<and> record_ok r)"

definition cleanup_ok :: "session_state \<Rightarrow> bool" where
  "cleanup_ok s =
     (\<forall>sid p. kv_get (cleanup s) sid = Some p \<longrightarrow>
        kv_has (ended s) sid \<and> progress_ok p \<and> \<not> all_completed p)"

definition session_ok :: "session_state \<Rightarrow> bool" where
  "session_ok s = (tables_ok s \<and> records_ok s \<and> cleanup_ok s)"

lemmas session_ok_defs = session_ok_def tables_ok_def records_ok_def cleanup_ok_def

lemma todo_hooks_ids: "set (map fst (todo_hooks p)) \<subseteq> set (map fst (hooks p))"
  by (auto simp: todo_hooks_def)

lemma progress_ok_retried: "progress_ok p \<Longrightarrow> progress_ok (retried h sid p)"
  by (auto simp: progress_ok_def retried_def fst_run_cleanup_hooks distinct_set_extend todo_hooks_def)

lemma kv_wf_retry:
  "kv_wf (cleanup s) \<Longrightarrow> kv_wf (cleanup (fst (retry_session_cleanup h sid s)))"
  by (auto simp: retry_eq split: option.splits)

lemma retry_entry:
  "kv_get (cleanup (fst (retry_session_cleanup h sid s))) sid =
     (case kv_get (cleanup s) sid of
        None \<Rightarrow> None
      | Some p \<Rightarrow> if running p then Some p
                  else if all_completed (retried h sid p) then None else Some (retried h sid p))"
  by (auto simp: retry_eq split: option.splits)

lemma retry_complete:
  "complete (snd (retry_session_cleanup h sid s)) \<longleftrightarrow>
     kv_get (cleanup (fst (retry_session_cleanup h sid s))) sid = None"
  by (auto simp: retry_eq done_report_def split: option.splits)

text \<open>After a retry only the retried id needs a look; the others keep their entry.\<close>

lemma cleanup_ok_retry:
  assumes "\<And>sid' p. kv_get (cleanup s) sid' = Some p \<Longrightarrow> kv_has (ended s) sid' \<and> progress_ok p"
    and "\<And>sid' p. sid' \<noteq> sid \<Longrightarrow> kv_get (cleanup s) sid' = Some p \<Longrightarrow> \<not> all_completed p"
  shows "cleanup_ok (fst (retry_session_cleanup h sid s))"
  unfolding cleanup_ok_def
proof (intro allI impI)
  fix sid' p
  assume p: "kv_get (cleanup (fst (retry_session_cleanup h sid s))) sid' = Some p"
  show "kv_has (ended (fst (retry_session_cleanup h sid s))) sid' \<and> progress_ok p \<and> \<not> all_completed p"
  proof (cases "sid' = sid")
    case True
    from p obtain q where q: "kv_get (cleanup s) sid = Some q"
      and pq: "(if running q then Some q else if all_completed (retried h sid q) then None
            else Some (retried h sid q)) = Some p"
      by (auto simp: True retry_entry split: option.splits)
    from assms(1) [OF q] have "kv_has (ended s) sid" "progress_ok q" by auto
    moreover from \<open>progress_ok q\<close> have "\<not> running q" by (simp add: progress_ok_def)
    ultimately show ?thesis using pq
      by (auto simp: True progress_ok_retried split: if_splits)
  next
    case False
    with p have "kv_get (cleanup s) sid' = Some p" by simp
    with assms False show ?thesis by auto
  qed
qed

lemma session_ok_retry [step_inv]:
  "session_ok s \<Longrightarrow> session_ok (fst (retry_session_cleanup h sid s))"
  using cleanup_ok_retry [of s sid h]
  by (simp add: session_ok_def tables_ok_def records_ok_def kv_wf_retry cleanup_ok_def)

lemma session_ok_put_record [step_inv]:
  "session_ok s \<Longrightarrow> record_ok r \<Longrightarrow>
   session_ok (s\<lparr>records := kv_put sid r (records s), activity := kv_put sid now (activity s)\<rparr>)"
  by (auto simp: session_ok_defs)

lemma progress_ok_fresh:
  "kv_wf hs \<Longrightarrow>
   progress_ok \<lparr>hooks = sort_key fst hs, completed = [], last_failures = [], running = False\<rparr>"
  by (simp add: progress_ok_def kv_wf_def distinct_map inj_on_def)

lemma mark_init_facts:
  fixes sid own
  assumes "session_ok s"
  defines "m \<equiv> mark_session_ended sid own s"
  defines "s' \<equiv> (if snd m then initialize_session_cleanup sid (fst m) else fst m)"
  shows "tables_ok s'" "records_ok s'"
    "\<And>sid' p. kv_get (cleanup s') sid' = Some p \<Longrightarrow> kv_has (ended s') sid' \<and> progress_ok p"
    "\<And>sid' p. sid' \<noteq> sid \<Longrightarrow> kv_get (cleanup s') sid' = Some p \<Longrightarrow> \<not> all_completed p"
  using assms(1) unfolding s'_def m_def
  by (auto simp: session_ok_defs mark_session_ended_def initialize_session_cleanup_def Let_def
      progress_ok_fresh split: if_splits)

lemma session_ok_mark_retry:
  fixes sid own
  assumes "session_ok s"
  defines "m \<equiv> mark_session_ended sid own s"
  shows "session_ok (fst (retry_session_cleanup h sid
           (if snd m then initialize_session_cleanup sid (fst m) else fst m)))"
proof -
  note facts = mark_init_facts [OF assms(1), where sid = sid and own = own, folded m_def]
  show ?thesis unfolding session_ok_def
    using cleanup_ok_retry [OF facts(3,4)] facts(1,2)
    by (auto simp: tables_ok_def records_ok_def kv_wf_retry)
qed

lemma session_ok_notify [simp]: "session_ok (notify_ended sid why c s) = session_ok s"
  by (simp add: notify_ended_def session_ok_defs)

lemma session_ok_finish [step_inv]: "session_ok s \<Longrightarrow> session_ok (finish_session_end h sid why s)"
  using session_ok_mark_retry [where s = s and own = None and sid = sid and h = h]
  by (simp add: finish_session_end_def Let_def split_beta split: if_splits)

lemma session_ok_fire [step_inv]:
  "session_ok s \<Longrightarrow> session_ok (fst (fire_session_end_for_owner h sid own s))"
  using session_ok_mark_retry [where s = s and own = own and sid = sid and h = h]
  by (simp add: fire_session_end_for_owner_def Let_def split_beta split: if_splits)


lemma session_ok_defer [step_inv]: "session_ok s \<Longrightarrow> session_ok (fst (defer_end sid why s))"
  by (auto simp: defer_end_def session_ok_defs record_ok_def split: option.splits)

lemma session_ok_end [step_inv]: "session_ok s \<Longrightarrow> session_ok (end_session_with_reason h sid why s)"
  using session_ok_defer [of s sid why] session_ok_finish
  by (auto simp: end_session_with_reason_def Let_def split_beta)

lemma session_ok_end_all [step_inv]: "session_ok s \<Longrightarrow> session_ok (end_all h why ids s)"
  unfolding end_all_def by (induction ids arbitrary: s) (auto intro: step_inv)

lemma session_ok_guard_release [step_inv]:
  "session_ok s \<Longrightarrow> session_ok (fst (guard_release sid now s))"
  by (auto simp: guard_release_def Let_def session_ok_defs record_ok_def split: option.splits)

lemma session_ok_guard_drop [step_inv]: "session_ok s \<Longrightarrow> session_ok (guard_drop h sid now s)"
  using session_ok_guard_release [of s sid now] session_ok_finish
  by (auto simp: guard_drop_def split: prod.splits option.splits)

lemma record_ok_simps [simp]:
  "record_ok (fresh_record label ot impl tr ck now ttl)"
  "pending_end (override_ttl ttl r) = pending_end r"
  "in_flight (override_ttl ttl r) = in_flight r"
  "owner_transport (override_ttl ttl r) = owner_transport r"
  "pending_end (fresh_record label ot impl tr ck now ttl) = None"
  "in_flight (fresh_record label ot impl tr ck now ttl) = 0"
  "owner_transport (fresh_record label ot impl tr ck now ttl) = ot"
  by (simp_all add: record_ok_def fresh_record_def override_ttl_def)

text \<open>A successful admission, spelled out once.\<close>

lemma begin_op_Inr:
  "begin_op sid b s = Inr s' \<longleftrightarrow>
     is_trackable sid \<and> (\<exists>u. admission (b_capability b) (b_owner b) = Inr u)
     \<and> \<not> kv_has (ended s) sid
     \<and> (\<exists>r. r = (case kv_get (records s) sid of Some r \<Rightarrow> r
                | None \<Rightarrow> fresh_record (b_label b) (b_owner b) (b_implicit b) (b_transport b)
                            (b_client b) (b_now b) (b_ttl b))
          \<and> owner_transport r = b_owner b \<and> pending_end r = None
          \<and> s' = s\<lparr>records := kv_put sid
                     ((override_ttl (b_ttl b) r)\<lparr>in_flight := Suc (in_flight r)\<rparr>) (records s),
                   activity := kv_put sid (b_now b) (activity s)\<rparr>)"
  unfolding begin_op_def begin_session_dispatch_def
  by (cases "admission (b_capability b) (b_owner b)")
     (simp_all add: Let_def split: sum.splits, metis)

lemma activate_op_Inr:
  "activate_op sid b s = Inr s' \<Longrightarrow>
     \<exists>r. s' = s\<lparr>records := kv_put sid r (records s), activity := kv_put sid (b_now b) (activity s)\<rparr>
       \<and> owner_transport r = b_owner b \<and> pending_end r = None
       \<and> in_flight r = (case kv_get (records s) sid of Some q \<Rightarrow> in_flight q | None \<Rightarrow> 0)
       \<and> (case kv_get (records s) sid of
            Some q \<Rightarrow> owner_transport q = b_owner b \<and> pending_end q = None | None \<Rightarrow> True)"
  by (auto simp: activate_op_def activate_session_def
      split: sum.splits option.splits if_splits)

lemma bind_or_revive_Inr:
  "bind_or_revive cur sid label ot impl tr ck ttl now s = Inr (s', revived) \<Longrightarrow>
     tombstone_check s sid ot = Inr revived \<and> (\<exists>u. admission cur ot = Inr u) \<and>
     (\<exists>r. s' = s\<lparr>records := kv_put sid r (records s),
                ended := (if revived then kv_del sid (ended s) else ended s),
                activity := kv_put sid now (activity s)\<rparr>
       \<and> owner_transport r = ot \<and> pending_end r = None
       \<and> in_flight r = (case kv_get (records s) sid of Some q \<Rightarrow> in_flight q | None \<Rightarrow> 0)
       \<and> (case kv_get (records s) sid of
            Some q \<Rightarrow> owner_transport q = ot \<and> pending_end q = None | None \<Rightarrow> True))"
  by (auto simp: bind_or_revive_def Let_def split: sum.splits option.splits if_splits)

lemma tombstone_check_Inr:
  "tombstone_check s sid ot = Inr b \<Longrightarrow>
     b = kv_has (ended s) sid
     \<and> (b \<longrightarrow> kv_get (ended s) sid = Some (Some ot) \<or> (kv_get (ended s) sid = Some None \<and> ot = sid))"
  by (auto simp: tombstone_check_def kv_has_def split: option.splits if_splits)

lemma session_ok_begin [step_inv]: "session_ok s \<Longrightarrow> session_ok (or_same s (begin_op sid b s))"
  by (cases "begin_op sid b s")
     (auto simp: or_same_def record_ok_def dest!: begin_op_Inr [THEN iffD1] intro!: step_inv)

lemma session_ok_activate [step_inv]:
  "session_ok s \<Longrightarrow> session_ok (or_same s (activate_op sid b s))"
  by (cases "activate_op sid b s")
     (auto simp: or_same_def record_ok_def dest!: activate_op_Inr intro!: step_inv)

lemma session_ok_clear_tombstone:
  "session_ok s \<Longrightarrow> kv_get (cleanup s) sid = None \<Longrightarrow> session_ok (s\<lparr>ended := kv_del sid (ended s)\<rparr>)"
  by (auto simp: session_ok_defs)

lemma session_ok_bind_or_revive:
  assumes "session_ok s" and "kv_has (ended s) sid \<Longrightarrow> kv_get (cleanup s) sid = None"
    and "bind_or_revive cur sid label ot impl tr ck ttl now s = Inr (s', revived)"
  shows "session_ok s'"
proof -
  from bind_or_revive_Inr [OF assms(3)] obtain r where
    rev: "tombstone_check s sid ot = Inr revived" and pe: "pending_end r = None"
    and s': "s' = s\<lparr>records := kv_put sid r (records s),
                ended := (if revived then kv_del sid (ended s) else ended s),
                activity := kv_put sid now (activity s)\<rparr>" by auto
  let ?t = "if revived then s\<lparr>ended := kv_del sid (ended s)\<rparr> else s"
  have "session_ok ?t"
    using assms(1,2) tombstone_check_Inr [OF rev] by (auto intro: session_ok_clear_tombstone)
  from session_ok_put_record [OF this, of r sid now] pe show ?thesis
    unfolding s' by (auto simp: record_ok_def session_ok_defs split: if_splits)
qed

text \<open>The state in which \<open>activate_or_revive\<close> takes its second lock.\<close>

definition ready_state :: "host \<Rightarrow> string \<Rightarrow> session_state \<Rightarrow> session_state" where
  "ready_state h sid s =
     (if kv_has (ended s) sid then fst (retry_session_cleanup h sid s) else s)"

lemma ready_state_frame [simp]:
  "records (ready_state h sid s) = records s"
  "ended (ready_state h sid s) = ended s"
  "activity (ready_state h sid s) = activity s"
  "session_ok s \<Longrightarrow> session_ok (ready_state h sid s)"
  by (simp_all add: ready_state_def step_inv)

lemma activate_or_revive_shape:
  assumes "activate_or_revive_op h sid b s = (s', res)"
  shows "((\<exists>e. res = Inl e) \<and> s' \<in> {s, ready_state h sid s})
    \<or> (\<exists>revived. res = Inr revived \<and> is_trackable sid
        \<and> (kv_has (ended s) sid \<longrightarrow> kv_get (cleanup (ready_state h sid s)) sid = None)
        \<and> bind_or_revive (b_capability b) sid (b_label b) (b_owner b) (b_implicit b)
            (b_transport b) (b_client b) (b_ttl b) (b_now b) (ready_state h sid s)
          = Inr (s', revived))"
proof (cases "is_trackable sid")
  case False
  with assms show ?thesis
    by (auto simp: activate_or_revive_op_def activate_or_revive_session_for_owner_def)
next
  case True
  show ?thesis
  proof (cases "tombstone_check s sid (b_owner b)")
    case (Inl e)
    have "activate_or_revive_op h sid b s = (s, Inl e)"
      by (simp add: activate_or_revive_op_def activate_or_revive_session_for_owner_def True Inl)
    with assms have "s' = s" "res = Inl e" by simp_all
    then show ?thesis by blast
  next
    case (Inr t)
    from tombstone_check_Inr [OF Inr] have t: "t = kv_has (ended s) sid" by simp
    have complete_iff: "complete (snd (retry_session_cleanup h sid s)) \<longleftrightarrow>
       kv_get (cleanup (fst (retry_session_cleanup h sid s))) sid = None" by (rule retry_complete)
    let ?B = "bind_or_revive (b_capability b) sid (b_label b) (b_owner b) (b_implicit b)
            (b_transport b) (b_client b) (b_ttl b) (b_now b) (ready_state h sid s)"
    have op: "activate_or_revive_op h sid b s =
       (if kv_has (ended s) sid \<and> kv_get (cleanup (ready_state h sid s)) sid \<noteq> None
        then (ready_state h sid s, Inl CleanupIncomplete)
        else case ?B of Inl e \<Rightarrow> (ready_state h sid s, Inl e) | Inr (s2, rv) \<Rightarrow> (s2, Inr rv))"
      using complete_iff
      by (cases "retry_session_cleanup h sid s"; cases "kv_has (ended s) sid")
         (simp_all add: activate_or_revive_op_def activate_or_revive_session_for_owner_def Let_def
            ready_state_def True Inr t split: sum.splits)
    show ?thesis
    proof (cases "kv_has (ended s) sid \<and> kv_get (cleanup (ready_state h sid s)) sid \<noteq> None")
      case True
      with op assms show ?thesis by simp
    next
      case False
      show ?thesis
      proof (cases ?B)
        case (Inl e)
        with op False assms show ?thesis by auto
      next
        case (Inr sr)
        obtain s2 rv where sr: "sr = (s2, rv)" by (cases sr)
        have "s' = s2" "res = Inr rv" using op False assms by (auto simp: Inr sr)
        with Inr sr False \<open>is_trackable sid\<close> show ?thesis by auto
      qed
    qed
  qed
qed

lemma session_ok_activate_or_revive [step_inv]:
  assumes "session_ok s"
  shows "session_ok (fst (activate_or_revive_op h sid b s))"
proof (cases "activate_or_revive_op h sid b s")
  case (Pair s' res)
  have r: "session_ok (ready_state h sid s)" using assms by simp
  from activate_or_revive_shape [OF Pair] show ?thesis
  proof (elim disjE conjE exE)
    assume "s' \<in> {s, ready_state h sid s}"
    with assms r show ?thesis by (auto simp: Pair)
  next
    fix revived
    assume c: "kv_has (ended s) sid \<longrightarrow> kv_get (cleanup (ready_state h sid s)) sid = None"
      and b: "bind_or_revive (b_capability b) sid (b_label b) (b_owner b) (b_implicit b)
            (b_transport b) (b_client b) (b_ttl b) (b_now b) (ready_state h sid s)
          = Inr (s', revived)"
    from session_ok_bind_or_revive [OF r _ b] c show ?thesis by (simp add: Pair)
  qed
qed

lemma session_ok_revive [step_inv]:
  assumes "session_ok s" shows "session_ok (fst (revive_session h sid s))"
proof -
  have "session_ok (fst (retry_session_cleanup h sid s))" using assms by (rule step_inv)
  from session_ok_clear_tombstone [OF this, of sid] this assms show ?thesis
    by (auto simp: revive_session_def Let_def split_beta retry_complete)
qed

lemma session_ok_revive_for_owner [step_inv]:
  assumes "session_ok s" shows "session_ok (fst (revive_session_for_owner h cur sid ot s))"
proof -
  have r: "session_ok (fst (retry_session_cleanup h sid s))" using assms by (rule step_inv)
  note c = session_ok_clear_tombstone [OF r, of sid]
  show ?thesis
    using r c assms
    by (auto simp: revive_session_for_owner_def Let_def split_beta retry_complete
        split: sum.splits bool.splits)
qed

lemma kv_put_many:
  "kv_get (fold (\<lambda>k. kv_put k v) ks m) k = (if k \<in> set ks then Some v else kv_get m k)"
  by (induction ks arbitrary: m) auto

lemma kv_wf_put_many: "kv_wf m \<Longrightarrow> kv_wf (fold (\<lambda>k. kv_put k v) ks m)"
  by (induction ks arbitrary: m) auto

lemma session_ok_touch [step_inv]: "session_ok s \<Longrightarrow> session_ok (touch_session sid now s)"
  by (auto simp: touch_session_def session_ok_defs)

lemma session_ok_touch_owner [step_inv]:
  "session_ok s \<Longrightarrow> session_ok (fst (touch_sessions_for_owner ot now s))"
  by (auto simp: touch_sessions_for_owner_def Let_def session_ok_defs kv_wf_put_many kv_has_def kv_put_many)

lemma session_ok_forget [step_inv]:
  "session_ok s \<Longrightarrow> session_ok (fst (forget_ended_sessions_with_prefix p s))"
  by (auto simp: forget_ended_sessions_with_prefix_def Let_def session_ok_defs kv_get_retain_Some
      kv_has_retain kv_has_get)

lemma session_ok_small [step_inv]:
  "session_ok s \<Longrightarrow> session_ok (fst (register_session_end_hook name s))"
  "session_ok s \<Longrightarrow> session_ok (drop_session_end_hook i s)"
  "session_ok s \<Longrightarrow> session_ok (fst (suspend_runtime_scope scope s))"
  "session_ok s \<Longrightarrow> session_ok (fst (forget_suspended_runtime_scope scope s))"
  by (auto simp: register_session_end_hook_def drop_session_end_hook_def suspend_runtime_scope_def
      forget_suspended_runtime_scope_def Let_def session_ok_defs)

lemma bulk_ends:
  "fst (end_session_for_owner h sid ot s) =
     (if session_owner_matches sid ot s then end_session_with_reason h sid Explicit s else s)"
  "fst (end_sessions_for_owner h ot why s) = end_all h why (owned_ids ot s) s"
  "fst (revoke_all_sessions h s) = end_all h Explicit (kv_keys (activity s)) s"
  "fst (revoke_sessions_with_prefix h p s) =
     end_all h Explicit (filter (\<lambda>sid. starts_with sid p) (kv_keys (activity s))) s"
  "fst (evict_idle h ttl now s) =
     end_all h IdleTimeout (map fst (filter (is_stale ttl now s) (activity s))) s"
  "fst (evict_idle_with_prefix h ttl p now s) =
     end_all h IdleTimeout
       (map fst (filter (\<lambda>e. starts_with (fst e) p \<and> is_stale ttl now s e) (activity s))) s"
  by (simp_all add: end_session_for_owner_def end_session_def end_sessions_for_owner_def
      revoke_all_sessions_def revoke_sessions_with_prefix_def evict_idle_def
      evict_idle_with_prefix_def Let_def)

lemma session_ok_step: "session_ok s \<Longrightarrow> session_ok (session_step h x s)"
  by (cases x) (simp_all add: bulk_ends step_inv)

lemma session_ok_run: "session_ok s \<Longrightarrow> session_ok (session_run ops s)"
  unfolding session_run_def by (induction ops arbitrary: s) (auto intro: session_ok_step)

lemma session_ok_init [simp]: "session_ok init_session_state"
  by (simp add: session_ok_defs init_session_state_def)

end
