(* ===== verification/SessionProps.thy ===== *)
theory SessionProps
  imports SessionHistory
begin

text \<open>
  What \<open>cua-driver-core/src/session.rs\<close> guarantees over histories of its operations: ended
  sessions stay ended for everyone but their owner, a live dispatch guard keeps its session
  alive and a deferred end runs when the last one is dropped, idle eviction is exact, the
  owner-scoped operations touch only their owner's sessions, a closed transport admits
  nothing, and cleanup runs every hook until it has succeeded exactly once.
\<close>

section \<open>Tombstones\<close>

text \<open>Which operations may clear the tombstone of an id whose recorded owner is \<open>own\<close>: the
  unauthenticated legacy revival, a revival presented by that owner, and forgetting a runtime.\<close>

definition owner_may_revive :: "string option \<Rightarrow> string \<Rightarrow> string \<Rightarrow> bool" where
  "owner_may_revive own sid ot = (case own of Some w \<Rightarrow> w = ot | None \<Rightarrow> ot = sid)"

fun may_clear :: "session_op \<Rightarrow> string \<Rightarrow> string option \<Rightarrow> bool" where
  "may_clear (Revive x) sid own = (x = sid)"
| "may_clear (ReviveForOwner x ot cur) sid own = (x = sid \<and> owner_may_revive own sid ot)"
| "may_clear (ActivateOrRevive x b) sid own = (x = sid \<and> owner_may_revive own sid (b_owner b))"
| "may_clear (ForgetEnded p) sid own = starts_with sid p"
| "may_clear _ sid own = False"

lemma kv_get_retain_key:
  "kv_get (kv_retain (\<lambda>k _. P k) m) k = (if P k then kv_get m k else None)"
  by (induction m) (auto simp: kv_retain_def)

lemma ended_defer [simp]: "ended (fst (defer_end sid why s)) = ended s"
  by (auto simp: defer_end_def split: option.splits)

lemma ended_end_keeps:
  "kv_get (ended s) sid = Some own \<Longrightarrow>
   kv_get (ended (end_session_with_reason h x why s)) sid = Some own"
  by (auto simp: end_session_with_reason_def Let_def split_beta kv_has_def)

lemma ended_end_all_keeps:
  "kv_get (ended s) sid = Some own \<Longrightarrow> kv_get (ended (end_all h why ids s)) sid = Some own"
  unfolding end_all_def by (induction ids arbitrary: s) (auto intro: ended_end_keeps)

lemma ended_guard_drop_keeps:
  "kv_get (ended s) sid = Some own \<Longrightarrow> kv_get (ended (guard_drop h x now s)) sid = Some own"
  by (auto simp: guard_drop_def guard_release_def Let_def kv_has_def split: option.splits prod.splits)

lemma ended_begin [simp]: "ended (or_same s (begin_op x b s)) = ended s"
  by (cases "begin_op x b s") (auto simp: or_same_def dest!: begin_op_Inr [THEN iffD1])

lemma ended_activate [simp]: "ended (or_same s (activate_op x b s)) = ended s"
  by (cases "activate_op x b s") (auto simp: or_same_def dest!: activate_op_Inr)

lemma ended_revive_for_owner:
  assumes "kv_get (ended s) sid = Some own" "\<not> (x = sid \<and> owner_may_revive own sid ot)"
  shows "kv_get (ended (fst (revive_session_for_owner h cur x ot s))) sid = Some own"
proof (cases "x = sid")
  case True
  with assms have "tombstone_check s x ot = Inl NotAvailable"
    by (auto simp: tombstone_check_def owner_may_revive_def split: option.splits)
  with assms(1) show ?thesis by (simp add: revive_session_for_owner_def)
next
  case False
  with assms(1) show ?thesis
    by (auto simp: revive_session_for_owner_def Let_def split_beta split: sum.splits bool.splits)
qed

lemma ended_activate_or_revive:
  assumes "kv_get (ended s) sid = Some own" "\<not> (x = sid \<and> owner_may_revive own sid (b_owner b))"
  shows "kv_get (ended (fst (activate_or_revive_op h x b s))) sid = Some own"
proof (cases "activate_or_revive_op h x b s")
  case (Pair s' res)
  from activate_or_revive_shape [OF Pair] show ?thesis
  proof (elim disjE conjE exE)
    assume "s' \<in> {s, ready_state h x s}"
    with assms(1) show ?thesis by (auto simp: Pair)
  next
    fix revived
    assume b: "bind_or_revive (b_capability b) x (b_label b) (b_owner b) (b_implicit b)
            (b_transport b) (b_client b) (b_ttl b) (b_now b) (ready_state h x s)
          = Inr (s', revived)"
    from bind_or_revive_Inr [OF b] have
      t: "tombstone_check (ready_state h x s) x (b_owner b) = Inr revived"
      and e: "ended s' = (if revived then kv_del x (ended s) else ended s)" by auto
    have "\<not> (x = sid \<and> revived)"
      using tombstone_check_Inr [OF t] assms by (auto simp: owner_may_revive_def)
    with assms(1) e show ?thesis by (auto simp: Pair)
  qed
qed

lemma ended_step_keeps:
  assumes "kv_get (ended s) sid = Some own" "\<not> may_clear x sid own"
  shows "kv_get (ended (session_step h x s)) sid = Some own"
  using assms
proof (cases x)
  case (ForgetEnded p)
  with assms show ?thesis
    by (simp add: forget_ended_sessions_with_prefix_def Let_def kv_get_retain_key)
next
  case (Revive y)
  with assms show ?thesis by (auto simp: revive_session_def Let_def split_beta)
next
  case (FireEnd y w)
  with assms show ?thesis by (auto simp: kv_has_def)
qed (auto simp: bulk_ends ended_end_keeps ended_end_all_keeps ended_guard_drop_keeps
      ended_revive_for_owner ended_activate_or_revive touch_session_def Let_def
      touch_sessions_for_owner_def register_session_end_hook_def drop_session_end_hook_def
      suspend_runtime_scope_def forget_suspended_runtime_scope_def)

lemma ended_run_keeps:
  assumes "kv_get (ended s) sid = Some own" "\<forall>(h, x) \<in> set ops. \<not> may_clear x sid own"
  shows "kv_get (ended (session_run ops s)) sid = Some own"
  using assms unfolding session_run_def
  by (induction ops arbitrary: s) (auto simp: ended_step_keeps)

text \<open>The session component keeps its side of the contract of the capture-scope registry.\<close>

fun clears_tombstone :: "host \<times> session_op \<Rightarrow> string \<Rightarrow> bool" where
  "clears_tombstone (h, x) sid = (\<exists>own. may_clear x sid own)"

interpretation tombstones: session_tombstones
  is_session_ended "\<lambda>(h, x). session_step h x" clears_tombstone
proof
  fix s sid and hx :: "host \<times> session_op"
  assume e: "is_session_ended s sid" and c: "\<not> clears_tombstone hx sid"
  obtain h x where hx: "hx = (h, x)" by (cases hx)
  from e obtain own where "kv_get (ended s) sid = Some own"
    by (auto simp: is_session_ended_def kv_has_get)
  from ended_step_keeps [OF this, of x h] c show "is_session_ended ((case hx of (h, x) \<Rightarrow> session_step h x) s) sid"
    by (auto simp: hx is_session_ended_def kv_has_get)
qed


definition quiet_host :: host where
  "quiet_host = \<lparr>run_hook = \<lambda>_ _. HookOk, cursor_readers = \<lambda>_. []\<rparr>"

definition plain_binding :: "string \<Rightarrow> instant \<Rightarrow> binding" where
  "plain_binding ot now =
     \<lparr>b_capability = None, b_label = None, b_owner = ot, b_implicit = False,
      b_transport = Daemon, b_client = Direct, b_ttl = None, b_now = now\<rparr>"


text \<open>A late call on a dead session unlocks nothing: when the session component reports an
  id as ended, the capture-scope registry refuses to bind or escalate it after any history of
  session operations that does not revive the id.\<close>

theorem dead_session_cannot_escalate:
  assumes "is_session_ended s sid" and "\<forall>x \<in> set ops. \<not> clears_tombstone x sid"
  shows "escalate_session (is_session_ended (session_run ops s) sid) sid why detail reg
           = (reg, Inl EscEnded)
         \<and> bind_session (is_session_ended (session_run ops s) sid) sid req reg
           = (reg, Inl BindEnded)"
  unfolding session_run_def
  using tombstones.late_escalation_refused [OF assms] tombstones.late_bind_refused [OF assms] by simp

theorem dead_session_cannot_escalate_witness:
  "escalate_session
     (is_session_ended
        (session_run [(quiet_host, Revive ''b''), (quiet_host, FireEnd ''a'' None)]
           (init_session_state\<lparr>ended := [(''a'', None)]\<rparr>)) ''a'')
     ''a'' NoWindowTarget None [(''a'', new_capture_scope Auto)]
   = ([(''a'', new_capture_scope Auto)], Inl EscEnded)"
  using dead_session_cannot_escalate
      [where s = "init_session_state\<lparr>ended := [(''a'', None)]\<rparr>" and sid = "''a''"
        and ops = "[(quiet_host, Revive ''b''), (quiet_host, FireEnd ''a'' None)]"
        and why = NoWindowTarget and detail = None and reg = "[(''a'', new_capture_scope Auto)]"]
  by (simp add: is_session_ended_def kv_has_def)


section \<open>Dispatch guards\<close>

text \<open>The guards that are alive, one entry per guard, beside the state they belong to.\<close>

type_synonym guarded = "string list \<times> session_state"

definition guarded_step :: "host \<Rightarrow> session_op \<Rightarrow> guarded \<Rightarrow> guarded" where
  "guarded_step h x gs =
     (let held = fst gs; s = snd gs
      in case x of
        BeginDispatch sid b \<Rightarrow>
          (case begin_op sid b s of Inl _ \<Rightarrow> gs | Inr s' \<Rightarrow> (sid # held, s'))
      | GuardDrop sid now \<Rightarrow>
          if sid \<in> set held then (remove1 sid held, guard_drop h sid now s) else gs
      | _ \<Rightarrow> (held, session_step h x s))"

definition guarded_run :: "(host \<times> session_op) list \<Rightarrow> guarded \<Rightarrow> guarded" where
  "guarded_run = fold (\<lambda>(h, x). guarded_step h x)"

text \<open>The two legacy entry points that bypass the lifecycle table's protection.\<close>

fun is_legacy :: "session_op \<Rightarrow> bool" where
  "is_legacy (FireEnd sid own) = True"
| "is_legacy (Activate sid b) = True"
| "is_legacy _ = False"

fun is_guard_op :: "session_op \<Rightarrow> bool" where
  "is_guard_op (BeginDispatch sid b) = True"
| "is_guard_op (GuardDrop sid now) = True"
| "is_guard_op _ = False"

definition flight :: "session_state \<Rightarrow> string \<Rightarrow> nat" where
  "flight s sid = (case kv_get (records s) sid of Some r \<Rightarrow> in_flight r | None \<Rightarrow> 0)"

definition apart :: "session_state \<Rightarrow> bool" where
  "apart s = (\<forall>sid. kv_has (records s) sid \<longrightarrow> \<not> kv_has (ended s) sid)"

lemma flight_end [simp]: "flight (end_session_with_reason h x why s) sid = flight s sid"
  by (auto simp: flight_def end_session_with_reason_def defer_end_def Let_def split: option.splits)

lemma flight_end_all [simp]: "flight (end_all h why ids s) sid = flight s sid"
  unfolding end_all_def by (induction ids arbitrary: s) auto

lemma apart_end: "apart s \<Longrightarrow> apart (end_session_with_reason h x why s)"
  by (auto simp: apart_def end_session_with_reason_def defer_end_def Let_def kv_has_get split: option.splits)

lemma apart_end_all: "apart s \<Longrightarrow> apart (end_all h why ids s)"
  unfolding end_all_def by (induction ids arbitrary: s) (auto intro: apart_end)

lemma bind_or_revive_guards:
  assumes "bind_or_revive cur x label ot impl tr ck ttl now s = Inr (s', revived)"
  shows "flight s' sid = flight s sid" "apart s \<Longrightarrow> apart s'"
proof -
  from bind_or_revive_Inr [OF assms] obtain r where
    t: "tombstone_check s x ot = Inr revived"
    and s': "s' = s\<lparr>records := kv_put x r (records s),
                ended := (if revived then kv_del x (ended s) else ended s),
                activity := kv_put x now (activity s)\<rparr>"
    and n: "in_flight r = (case kv_get (records s) x of Some q \<Rightarrow> in_flight q | None \<Rightarrow> 0)" by auto
  from n show "flight s' sid = flight s sid" by (auto simp: s' flight_def)
  from tombstone_check_Inr [OF t] show "apart s \<Longrightarrow> apart s'" by (auto simp: s' apart_def)
qed

lemma activate_or_revive_guards:
  "flight (fst (activate_or_revive_op h x b s)) sid = flight s sid"
  "apart s \<Longrightarrow> apart (fst (activate_or_revive_op h x b s))"
proof -
  obtain s' res where p: "activate_or_revive_op h x b s = (s', res)" by fastforce
  have f: "flight (ready_state h x s) sid = flight s sid" by (simp add: flight_def)
  have a: "apart (ready_state h x s) = apart s" by (simp add: apart_def)
  have "flight s' sid = flight s sid \<and> (apart s \<longrightarrow> apart s')"
    using activate_or_revive_shape [OF p]
  proof (elim disjE conjE exE)
    assume "s' \<in> {s, ready_state h x s}"
    with f a show ?thesis by auto
  next
    fix revived
    assume "bind_or_revive (b_capability b) x (b_label b) (b_owner b) (b_implicit b)
        (b_transport b) (b_client b) (b_ttl b) (b_now b) (ready_state h x s) = Inr (s', revived)"
    from bind_or_revive_guards [OF this] f a show ?thesis by simp
  qed
  with p show "flight (fst (activate_or_revive_op h x b s)) sid = flight s sid"
    "apart s \<Longrightarrow> apart (fst (activate_or_revive_op h x b s))" by simp_all
qed

lemma revive_guards:
  "flight (fst (revive_session h x s)) sid = flight s sid"
  "apart s \<Longrightarrow> apart (fst (revive_session h x s))"
  by (auto simp: revive_session_def Let_def split_beta flight_def apart_def)

lemma revive_for_owner_guards:
  "records (fst (revive_session_for_owner h cur x ot s)) = records s"
  "kv_has (ended (fst (revive_session_for_owner h cur x ot s))) sid \<Longrightarrow> kv_has (ended s) sid"
  by (auto simp: revive_session_for_owner_def Let_def split_beta split: sum.splits bool.splits if_splits)

lemma flight_same: "records s' = records s \<Longrightarrow> flight s' sid = flight s sid"
  by (simp add: flight_def)

lemma apart_same:
  "apart s \<Longrightarrow> records s' = records s \<Longrightarrow> (\<And>sid. kv_has (ended s') sid \<Longrightarrow> kv_has (ended s) sid) \<Longrightarrow>
   apart s'"
  by (auto simp: apart_def)

lemma small_steps_frame:
  "records (fst (forget_ended_sessions_with_prefix p s)) = records s"
  "records (touch_session y now s) = records s"
  "records (fst (touch_sessions_for_owner ot now s)) = records s"
  "records (fst (register_session_end_hook name s)) = records s"
  "records (drop_session_end_hook i s) = records s"
  "records (fst (suspend_runtime_scope scope s)) = records s"
  "records (fst (forget_suspended_runtime_scope scope s)) = records s"
  "kv_has (ended (fst (forget_ended_sessions_with_prefix p s))) sid \<Longrightarrow> kv_has (ended s) sid"
  "ended (touch_session y now s) = ended s"
  "ended (fst (touch_sessions_for_owner ot now s)) = ended s"
  "ended (fst (register_session_end_hook name s)) = ended s"
  "ended (drop_session_end_hook i s) = ended s"
  "ended (fst (suspend_runtime_scope scope s)) = ended s"
  "ended (fst (forget_suspended_runtime_scope scope s)) = ended s"
  by (auto simp: forget_ended_sessions_with_prefix_def Let_def touch_session_def
      touch_sessions_for_owner_def register_session_end_hook_def drop_session_end_hook_def
      suspend_runtime_scope_def forget_suspended_runtime_scope_def dest: kv_has_retain_imp)

lemmas same_records =
  small_steps_frame(1-7) revive_for_owner_guards(1) retry_frame(1)

lemmas flight_same_records = same_records [THEN flight_same]

lemma apart_same_tables: "apart s \<Longrightarrow> records s' = records s \<Longrightarrow> ended s' = ended s \<Longrightarrow> apart s'"
  by (simp add: apart_def)

lemma apart_small_steps:
  assumes "apart s"
  shows "apart (fst (forget_ended_sessions_with_prefix p s))"
    and "apart (touch_session y now s)"
    and "apart (fst (touch_sessions_for_owner ot now s))"
    and "apart (fst (register_session_end_hook name s))"
    and "apart (drop_session_end_hook i s)"
    and "apart (fst (suspend_runtime_scope scope s))"
    and "apart (fst (forget_suspended_runtime_scope scope s))"
    and "apart (fst (revive_session_for_owner h cur y ot s))"
    and "apart (fst (retry_session_cleanup h y s))"
proof -
  show "apart (fst (forget_ended_sessions_with_prefix p s))"
    by (rule apart_same [OF assms small_steps_frame(1)]) (rule small_steps_frame(8))
  show "apart (fst (revive_session_for_owner h cur y ot s))"
    by (rule apart_same [OF assms revive_for_owner_guards(1)]) (rule revive_for_owner_guards(2))
qed (rule apart_same_tables [OF assms], (simp add: same_records small_steps_frame(9-14))+)+

lemma plain_step_flight:
  assumes "\<not> is_legacy x" "\<not> is_guard_op x"
  shows "flight (session_step h x s) sid = flight s sid"
  using assms
  by (cases x)
     (simp_all add: bulk_ends activate_or_revive_guards(1) revive_guards(1) flight_same_records)

lemma plain_step_apart:
  assumes "\<not> is_legacy x" "\<not> is_guard_op x"
    and "apart s"
  shows "apart (session_step h x s)"
  using assms
  by (cases x)
     (simp_all add: bulk_ends apart_end apart_end_all activate_or_revive_guards(2)
        revive_guards(2) apart_small_steps)

lemma begin_guards:
  assumes "begin_op x b s = Inr s'"
  shows "flight s' sid = flight s sid + (if sid = x then 1 else 0)" "apart s \<Longrightarrow> apart s'"
  using assms by (auto simp: begin_op_Inr flight_def apart_def split: option.splits)

lemma guard_drop_guards:
  assumes "0 < flight s x"
  shows "flight (guard_drop h x now s) sid = flight s sid - (if sid = x then 1 else 0)"
    "apart s \<Longrightarrow> apart (guard_drop h x now s)"
  using assms
  by (auto simp: guard_drop_def guard_release_def Let_def flight_def apart_def kv_has_get
      split: option.splits prod.splits if_splits)

definition guards_exact :: "guarded \<Rightarrow> bool" where
  "guards_exact gs =
     (session_ok (snd gs) \<and> apart (snd gs) \<and> (\<forall>sid. flight (snd gs) sid = count_list (fst gs) sid))"

lemma count_list_remove1:
  "count_list (remove1 x xs) y = count_list xs y - (if y = x then 1 else 0)"
  by (induction xs) (auto simp: count_list_0_iff)

lemma guards_exact_step:
  assumes "guards_exact gs" "\<not> is_legacy x"
  shows "guards_exact (guarded_step h x gs)"
proof (cases "is_guard_op x")
  case True
  then consider sid b where "x = BeginDispatch sid b" | sid now where "x = GuardDrop sid now"
    by (cases x) auto
  then show ?thesis
  proof cases
    fix sid b assume x: "x = BeginDispatch sid b"
    show ?thesis
    proof (cases "begin_op sid b (snd gs)")
      case (Inr s')
      from session_ok_begin [of "snd gs" sid b] begin_guards [OF Inr] assms(1)
      show ?thesis by (auto simp: x guarded_step_def Let_def Inr guards_exact_def or_same_def)
    qed (use assms(1) in \<open>simp add: x guarded_step_def Let_def\<close>)
  next
    fix sid now assume x: "x = GuardDrop sid now"
    show ?thesis
    proof (cases "sid \<in> set (fst gs)")
      case True
      then have "0 < flight (snd gs) sid" using assms(1)
        by (auto simp: guards_exact_def count_list_0_iff intro: gr0I)
      from guard_drop_guards [OF this] assms(1) True show ?thesis
        by (auto simp: x guarded_step_def Let_def guards_exact_def count_list_remove1
            session_ok_guard_drop)
    qed (use assms(1) in \<open>simp add: x guarded_step_def Let_def\<close>)
  qed
next
  case False
  then have "guarded_step h x gs = (fst gs, session_step h x (snd gs))"
    by (cases x) (auto simp: guarded_step_def Let_def)
  with plain_step_flight [OF assms(2)] plain_step_apart [OF assms(2)] False assms(1) show ?thesis
    by (auto simp: guards_exact_def session_ok_step)
qed

lemma guards_exact_run:
  "guards_exact gs \<Longrightarrow> \<forall>(h, x) \<in> set ops. \<not> is_legacy x \<Longrightarrow> guards_exact (guarded_run ops gs)"
proof (induction ops arbitrary: gs)
  case (Cons hx ops)
  obtain h x where "hx = (h, x)" by (cases hx)
  with Cons.IH [of "guarded_step h x gs"] guards_exact_step [OF Cons.prems(1), of x h] Cons.prems(2)
  show ?case by (simp add: guarded_run_def)
qed (simp add: guarded_run_def)

lemma guards_exact_init: "guards_exact ([], init_session_state)"
  by (simp add: guards_exact_def apart_def flight_def) (simp add: init_session_state_def)

text \<open>C8. The in-flight count is exact and a guard keeps its session alive: in every history of
  operations (apart from the two legacy entry points), a session for which a dispatch guard is
  alive still has its lifecycle record and its activity entry, is not ended, and its record
  counts exactly the guards alive. Explicit ends, idle eviction, revocation and transport
  teardown in that history were deferred or refused for it.\<close>

theorem live_guard_keeps_session:
  assumes "\<forall>(h, x) \<in> set ops. \<not> is_legacy x"
    and "sid \<in> set (fst (guarded_run ops ([], init_session_state)))"
  shows "\<exists>r. kv_get (records (snd (guarded_run ops ([], init_session_state)))) sid = Some r
    \<and> in_flight r = count_list (fst (guarded_run ops ([], init_session_state))) sid
    \<and> \<not> is_session_ended (snd (guarded_run ops ([], init_session_state))) sid
    \<and> has_session_activity sid (snd (guarded_run ops ([], init_session_state)))"
proof -
  let ?gs = "guarded_run ops ([], init_session_state)"
  have g: "guards_exact ?gs" using guards_exact_init assms(1) by (rule guards_exact_run)
  then have f: "flight (snd ?gs) sid = count_list (fst ?gs) sid" by (simp add: guards_exact_def)
  with assms(2) have "flight (snd ?gs) sid \<noteq> 0" by (simp add: count_list_0_iff)
  then obtain r where r: "kv_get (records (snd ?gs)) sid = Some r"
    by (auto simp: flight_def split: option.splits)
  with g f show ?thesis
    by (auto simp: guards_exact_def apart_def session_ok_def records_ok_def flight_def
        is_session_ended_def has_session_activity_def kv_has_get)
qed

theorem live_guard_keeps_session_witness:
  "\<not> is_session_ended
     (snd (guarded_run
        [(quiet_host, BeginDispatch ''a'' (plain_binding ''me'' 1)),
         (quiet_host, EndWithReason ''a'' Explicit), (quiet_host, EvictIdle 5 1000)]
        ([], init_session_state))) ''a''"
proof -
  let ?ops = "[(quiet_host, BeginDispatch ''a'' (plain_binding ''me'' 1)),
         (quiet_host, EndWithReason ''a'' Explicit), (quiet_host, EvictIdle 5 1000)]"
  have "''a'' \<in> set (fst (guarded_run ?ops ([], init_session_state)))"
    by (simp add: guarded_run_def guarded_step_def Let_def begin_op_def begin_session_dispatch_def
        is_trackable_def plain_binding_def admission_def init_session_state_def fresh_record_def)
  from live_guard_keeps_session [OF _ this] show ?thesis by auto
qed


section \<open>Deferred ends\<close>

lemma end_pending:
  assumes "kv_get (records s) sid = Some r" "0 < in_flight r" "is_trackable sid"
  shows "end_session_with_reason h sid why s =
     s\<lparr>records := kv_put sid
          (r\<lparr>pending_end := (case pending_end r of Some p \<Rightarrow> Some p | None \<Rightarrow> Some why)\<rparr>) (records s)\<rparr>"
  using assms by (simp add: end_session_with_reason_def defer_end_def)

lemma first_reason_kept:
  fixes h whys
  assumes "kv_get (records s) sid = Some r" "0 < in_flight r" "is_trackable sid"
    and "pending_end r = Some why"
  defines "s' \<equiv> fold (\<lambda>w. end_session_with_reason h sid w) whys s"
  shows "kv_get (records s') sid = Some r \<and> ended s' = ended s
    \<and> ended_notices s' = ended_notices s \<and> has_observer s' = has_observer s"
  using assms(1-4) unfolding s'_def
proof (induction whys arbitrary: s)
  case (Cons w whys)
  let ?t = "end_session_with_reason h sid w s"
  have "kv_get (records ?t) sid = Some r" "ended ?t = ended s"
    "ended_notices ?t = ended_notices s" "has_observer ?t = has_observer s"
    using end_pending [OF Cons.prems(1-3), of h w] Cons.prems(4) by simp_all
  with Cons.IH [of ?t] Cons.prems show ?case by simp
qed simp

lemma early_drops:
  fixes h
  assumes "kv_get (records s) sid = Some r" "in_flight r = Suc n" "length ticks \<le> n"
  defines "s' \<equiv> fold (guard_drop h sid) ticks s"
  shows "kv_get (records s') sid = Some (r\<lparr>in_flight := Suc n - length ticks\<rparr>)
    \<and> ended s' = ended s \<and> ended_notices s' = ended_notices s \<and> has_observer s' = has_observer s"
  using assms(1-3) unfolding s'_def
proof (induction ticks arbitrary: s r n)
  case (Cons t ticks)
  then obtain m where n: "n = Suc m" by (cases n) auto
  let ?d = "guard_drop h sid t s"
  have d: "kv_get (records ?d) sid = Some (r\<lparr>in_flight := n\<rparr>)" "ended ?d = ended s"
    "ended_notices ?d = ended_notices s" "has_observer ?d = has_observer s"
    using Cons.prems(1,2) by (simp_all add: guard_drop_def guard_release_def n)
  with Cons.IH [of ?d "r\<lparr>in_flight := n\<rparr>" m] Cons.prems(3) show ?case by (simp add: n)
qed simp

lemma last_drop:
  assumes "kv_get (records s) sid = Some r" "in_flight r = 1" "pending_end r = Some why"
  shows "guard_drop h sid now s =
     finish_session_end h sid why (fst (guard_release sid now s))"
  using assms by (simp add: guard_drop_def guard_release_def)

lemma finish_notice:
  "has_observer s \<Longrightarrow> \<not> kv_has (ended s) sid \<Longrightarrow>
   ended_notices (finish_session_end h sid why s) =
     ended_notices s @ [(public_session_label sid, why, read_cursor_outcome (cursor_readers h sid))]"
  by (simp add: finish_session_end_def mark_session_ended_def notify_ended_def Let_def split_beta
      initialize_session_cleanup_def)

text \<open>An end that races calls in flight is deferred and runs exactly once, for the reason
  given first: while any of the session's guards is alive the session is not ended, its record
  stays and new calls are refused as ending, however many further ends are requested; dropping
  the last guard ends it, removes its record and reports the first reason to the observer.\<close>

theorem deferred_end_runs_with_last_guard:
  fixes h why whys
  assumes "kv_get (records s) sid = Some r" "in_flight r = Suc (length ticks)"
    and "pending_end r = None" "is_trackable sid" "\<not> is_session_ended s sid"
    and "has_observer s"
  defines "waiting \<equiv> fold (guard_drop h sid) ticks
             (fold (\<lambda>w. end_session_with_reason h sid w) (why # whys) s)"
  shows "\<not> is_session_ended waiting sid
    \<and> begin_op sid (plain_binding (owner_transport r) now) waiting = Inl SessionIsEnding
    \<and> ended_notices waiting = ended_notices s
    \<and> is_session_ended (guard_drop h sid now waiting) sid
    \<and> kv_get (records (guard_drop h sid now waiting)) sid = None
    \<and> ended_notices (guard_drop h sid now waiting) =
        ended_notices s @ [(public_session_label sid, why, read_cursor_outcome (cursor_readers h sid))]"
proof -
  let ?p = "r\<lparr>pending_end := Some why\<rparr>"
  let ?s1 = "end_session_with_reason h sid why s"
  have s1: "kv_get (records ?s1) sid = Some ?p" "ended ?s1 = ended s"
    "ended_notices ?s1 = ended_notices s" "has_observer ?s1"
    using end_pending [OF assms(1) _ assms(4), of h why] assms(2,3,6) by simp_all
  let ?s2 = "fold (\<lambda>w. end_session_with_reason h sid w) (why # whys) s"
  have s2: "kv_get (records ?s2) sid = Some ?p" "ended ?s2 = ended s"
    "ended_notices ?s2 = ended_notices s" "has_observer ?s2"
    using first_reason_kept [OF s1(1) _ assms(4), of why h whys] assms(2) s1 by simp_all
  let ?q = "?p\<lparr>in_flight := 1\<rparr>"
  have w: "kv_get (records waiting) sid = Some ?q" "ended waiting = ended s"
    "ended_notices waiting = ended_notices s" "has_observer waiting"
    using early_drops [OF s2(1), of "length ticks" ticks h] assms(2) s2 by (simp_all add: waiting_def)
  have live: "\<not> kv_has (ended waiting) sid" using assms(5) w(2) by (simp add: is_session_ended_def)
  have drop: "guard_drop h sid now waiting =
      finish_session_end h sid why (fst (guard_release sid now waiting))"
    using last_drop [OF w(1)] by simp
  have rel: "ended (fst (guard_release sid now waiting)) = ended waiting"
    "ended_notices (fst (guard_release sid now waiting)) = ended_notices waiting"
    "has_observer (fst (guard_release sid now waiting))"
    using w(1,4) by (simp_all add: guard_release_def)
  have "begin_op sid (plain_binding (owner_transport r) now) waiting = Inl SessionIsEnding"
    using w(1) live assms(4)
    by (simp add: begin_op_def begin_session_dispatch_def plain_binding_def admission_def)
  then show ?thesis
    using live w(3) rel finish_notice [of "fst (guard_release sid now waiting)" sid h why]
    by (simp add: drop is_session_ended_def)
qed

definition two_call_session :: session_state where
  "two_call_session =
     init_session_state\<lparr>records := [(''a'', (fresh_record None ''me'' False Daemon Direct 0 None)
                                       \<lparr>in_flight := 2\<rparr>)],
                        activity := [(''a'', 0)], has_observer := True\<rparr>"

theorem deferred_end_runs_with_last_guard_witness:
  "ended_notices (guard_drop quiet_host ''a'' 4
     (fold (guard_drop quiet_host ''a'') [3]
        (fold (\<lambda>w. end_session_with_reason quiet_host ''a'' w) [Explicit, IdleTimeout]
           two_call_session)))
   = [(''a'', Explicit, None)]"
  using deferred_end_runs_with_last_guard
      [where s = two_call_session and sid = "''a''" and h = quiet_host and why = Explicit
        and whys = "[IdleTimeout]" and ticks = "[3]" and now = 4]
  by (simp add: two_call_session_def init_session_state_def fresh_record_def is_trackable_def
      is_session_ended_def public_session_label_def strip_prefix_def quiet_host_def
      read_cursor_outcome_def)


section \<open>Bulk ends and eviction\<close>

lemma end_other [simp]:
  assumes "x \<noteq> sid"
  shows "kv_get (records (end_session_with_reason h x why s)) sid = kv_get (records s) sid"
    "kv_get (activity (end_session_with_reason h x why s)) sid = kv_get (activity s) sid"
    "kv_get (ended (end_session_with_reason h x why s)) sid = kv_get (ended s) sid"
  using assms
  by (auto simp: end_session_with_reason_def defer_end_def Let_def kv_has_get split: option.splits)

lemma end_all_other:
  assumes "sid \<notin> set ids"
  shows "kv_get (records (end_all h why ids s)) sid = kv_get (records s) sid
    \<and> kv_get (activity (end_all h why ids s)) sid = kv_get (activity s) sid
    \<and> kv_get (ended (end_all h why ids s)) sid = kv_get (ended s) sid"
  using assms unfolding end_all_def by (induction ids arbitrary: s) auto

definition gone :: "session_state \<Rightarrow> string \<Rightarrow> bool" where
  "gone s sid =
     (kv_has (ended s) sid \<and> \<not> kv_has (records s) sid \<and> \<not> kv_has (activity s) sid)"

lemma gone_end_self:
  "flight s sid = 0 \<Longrightarrow> is_trackable sid \<Longrightarrow> gone (end_session_with_reason h sid why s) sid"
  by (auto simp: gone_def flight_def end_session_with_reason_def defer_end_def Let_def kv_has_get
      split: option.splits)

lemma gone_end: "gone s sid \<Longrightarrow> gone (end_session_with_reason h x why s) sid"
  by (cases "x = sid")
     (auto simp: gone_def end_session_with_reason_def defer_end_def Let_def kv_has_get
      split: option.splits)

lemma gone_end_all: "gone s sid \<Longrightarrow> gone (end_all h why ids s) sid"
  unfolding end_all_def by (induction ids arbitrary: s) (auto intro: gone_end)

lemma end_all_gone:
  assumes "sid \<in> set ids" "flight s sid = 0" "is_trackable sid"
  shows "gone (end_all h why ids s) sid"
  using assms
proof (induction ids arbitrary: s)
  case (Cons x ids)
  show ?case
  proof (cases "x = sid")
    case True
    then show ?thesis using gone_end_all [OF gone_end_self] Cons.prems by (simp add: end_all_def)
  next
    case False
    with Cons show ?thesis by (simp add: end_all_def)
  qed
qed simp

text \<open>Ids with calls in flight are marked as ending instead.\<close>

definition ending :: "session_state \<Rightarrow> string \<Rightarrow> bool" where
  "ending s sid = (\<exists>r. kv_get (records s) sid = Some r \<and> pending_end r \<noteq> None \<and> 0 < in_flight r)"

lemma ending_end_self:
  "0 < flight s sid \<Longrightarrow> is_trackable sid \<Longrightarrow> ending (end_session_with_reason h sid why s) sid"
  by (auto simp: ending_def flight_def end_session_with_reason_def defer_end_def Let_def
      split: option.splits)

lemma ending_end: "ending s sid \<Longrightarrow> ending (end_session_with_reason h x why s) sid"
  by (cases "x = sid")
     (auto simp: ending_def end_session_with_reason_def defer_end_def Let_def split: option.splits)

lemma ending_end_all: "ending s sid \<Longrightarrow> ending (end_all h why ids s) sid"
  unfolding end_all_def by (induction ids arbitrary: s) (auto intro: ending_end)

lemma end_all_ending:
  assumes "sid \<in> set ids" "0 < flight s sid" "is_trackable sid"
  shows "ending (end_all h why ids s) sid"
  using assms
proof (induction ids arbitrary: s)
  case (Cons x ids)
  show ?case
  proof (cases "x = sid")
    case True
    then show ?thesis using ending_end_all [OF ending_end_self] Cons.prems by (simp add: end_all_def)
  next
    case False
    with Cons show ?thesis by (simp add: end_all_def)
  qed
qed simp

lemma is_stale_iff:
  "is_stale ttl now s (sid, seen) \<longleftrightarrow>
     (case kv_get (records s) sid of
        Some r \<Rightarrow> (case idle_ttl r of Some t \<Rightarrow> t | None \<Rightarrow> ttl) | None \<Rightarrow> ttl) \<le> now - seen
     \<and> flight s sid = 0"
  by (auto simp: is_stale_def flight_def Let_def split: option.splits)

text \<open>The session's own limit, or the sweep's default.\<close>

definition idle_limit :: "duration \<Rightarrow> session_state \<Rightarrow> string \<Rightarrow> duration" where
  "idle_limit ttl s sid =
     (case kv_get (records s) sid of
        Some r \<Rightarrow> (case idle_ttl r of Some t \<Rightarrow> t | None \<Rightarrow> ttl) | None \<Rightarrow> ttl)"

text \<open>Idle eviction is exact: in every reachable state a sweep reports, without
  duplicates, precisely the sessions that have been idle for at least their own limit (the
  default when they declared none) and have no call in flight; each of them is ended with no
  record and no activity left, and every other session keeps its record, its last activity
  and its tombstone as they were.\<close>

theorem idle_eviction_is_exact:
  assumes "s = session_run ops init_session_state"
  shows "distinct (snd (evict_idle h ttl now s))
    \<and> (\<forall>sid. sid \<in> set (snd (evict_idle h ttl now s)) \<longleftrightarrow>
          (\<exists>seen. kv_get (activity s) sid = Some seen \<and> idle_limit ttl s sid \<le> now - seen)
          \<and> flight s sid = 0)
    \<and> (\<forall>sid. sid \<in> set (snd (evict_idle h ttl now s)) \<and> is_trackable sid \<longrightarrow>
          gone (fst (evict_idle h ttl now s)) sid)
    \<and> (\<forall>sid. sid \<notin> set (snd (evict_idle h ttl now s)) \<longrightarrow>
          kv_get (records (fst (evict_idle h ttl now s))) sid = kv_get (records s) sid
          \<and> kv_get (activity (fst (evict_idle h ttl now s))) sid = kv_get (activity s) sid
          \<and> kv_get (ended (fst (evict_idle h ttl now s))) sid = kv_get (ended s) sid)"
proof -
  let ?ids = "map fst (filter (is_stale ttl now s) (activity s))"
  have wf: "kv_wf (activity s)" using session_ok_run [OF session_ok_init, of ops]
    by (simp add: assms session_ok_def tables_ok_def)
  have ids: "snd (evict_idle h ttl now s) = ?ids" by (simp add: evict_idle_def Let_def)
  have mem: "sid \<in> set ?ids \<longleftrightarrow>
      (\<exists>seen. kv_get (activity s) sid = Some seen \<and> idle_limit ttl s sid \<le> now - seen)
      \<and> flight s sid = 0" for sid
    by (force simp: idle_limit_def is_stale_iff kv_in_get [OF wf, symmetric])
  have "distinct ?ids" using kv_wf_filter [OF wf, of "is_stale ttl now s"] by (simp add: kv_wf_def)
  then show ?thesis
    using mem end_all_gone [of _ ?ids s h IdleTimeout] end_all_other [of _ ?ids h IdleTimeout s]
    unfolding ids bulk_ends by blast
qed

theorem idle_eviction_is_exact_witness:
  "gone (fst (evict_idle quiet_host 10 100
      (session_run [(quiet_host, Touch ''a'' 50), (quiet_host, Touch ''b'' 95)] init_session_state))) ''a''"
proof -
  let ?s = "session_run [(quiet_host, Touch ''a'' 50), (quiet_host, Touch ''b'' 95)] init_session_state"
  have s: "?s = init_session_state\<lparr>activity := [(''a'', 50), (''b'', 95)]\<rparr>"
    by (simp add: session_run_def touch_session_def is_trackable_def is_session_ended_def
        init_session_state_def)
  have "kv_get (activity ?s) ''a'' = Some 50 \<and> idle_limit 10 ?s ''a'' \<le> 100 - 50 \<and> flight ?s ''a'' = 0"
    unfolding s by (simp add: idle_limit_def flight_def init_session_state_def)
  with idle_eviction_is_exact [OF refl, where h = quiet_host and ttl = 10 and now = 100
        and ops = "[(quiet_host, Touch ''a'' 50), (quiet_host, Touch ''b'' 95)]"]
  show ?thesis by (auto simp: is_trackable_def)
qed


section \<open>Owners and transports\<close>

lemma owned_ids_iff:
  "kv_wf (records s) \<Longrightarrow>
   sid \<in> set (owned_ids ot s) \<longleftrightarrow> (\<exists>r. kv_get (records s) sid = Some r \<and> owner_transport r = ot)"
  by (force simp: owned_ids_def kv_in_get [symmetric])

lemma stopped_cases:
  assumes "sid \<in> set ids" "is_trackable sid"
  shows "gone (end_all h why ids s) sid \<or> ending (end_all h why ids s) sid"
  using end_all_gone [OF assms(1) _ assms(2), of s h why]
    end_all_ending [OF assms(1) _ assms(2), of s h why]
  by (cases "flight s sid") auto

lemma map_filter_owner:
  "set (list_session_snapshots ot ttl now s) \<subseteq> {x. snap_owner x = ot}"
  by (auto simp: list_session_snapshots_def Let_def List.map_filter_def snapshot_session_def
      snapshot_of_def split: option.splits if_splits)

text \<open>Owner-scoped operations stay within their owner: ending one owner's sessions leaves
  every session of another owner, and every id without a record, exactly as it was, ends or
  defers all of its own, and counts them; ending a session of somebody else by name does
  nothing at all; and the session listing shows the owner nothing but its own sessions.\<close>

theorem owner_operations_are_isolated:
  assumes "s = session_run ops init_session_state"
  shows "(\<forall>sid. (\<forall>r. kv_get (records s) sid = Some r \<longrightarrow> owner_transport r \<noteq> ot) \<longrightarrow>
            kv_get (records (fst (end_sessions_for_owner h ot why s))) sid = kv_get (records s) sid
            \<and> kv_get (activity (fst (end_sessions_for_owner h ot why s))) sid = kv_get (activity s) sid
            \<and> kv_get (ended (fst (end_sessions_for_owner h ot why s))) sid = kv_get (ended s) sid)
    \<and> (\<forall>sid r. kv_get (records s) sid = Some r \<and> owner_transport r = ot \<and> is_trackable sid \<longrightarrow>
            gone (fst (end_sessions_for_owner h ot why s)) sid
            \<or> ending (fst (end_sessions_for_owner h ot why s)) sid)
    \<and> snd (end_sessions_for_owner h ot why s)
        = card {sid. \<exists>r. kv_get (records s) sid = Some r \<and> owner_transport r = ot}
    \<and> (\<forall>sid. \<not> session_owner_matches sid ot s \<longrightarrow> end_session_for_owner h sid ot s = (s, False))
    \<and> (\<forall>x \<in> set (list_session_snapshots ot ttl now s). snap_owner x = ot)"
proof -
  have wf: "kv_wf (records s)" using session_ok_run [OF session_ok_init, of ops]
    by (simp add: assms session_ok_def tables_ok_def)
  note own = owned_ids_iff [OF wf, where ot = ot]
  have "distinct (owned_ids ot s)"
    using kv_wf_filter [OF wf, of "\<lambda>e. owner_transport (snd e) = ot"]
    by (simp add: owned_ids_def kv_wf_def)
  moreover have "set (owned_ids ot s) = {sid. \<exists>r. kv_get (records s) sid = Some r \<and> owner_transport r = ot}"
    using own by blast
  ultimately have count: "snd (end_sessions_for_owner h ot why s)
        = card {sid. \<exists>r. kv_get (records s) sid = Some r \<and> owner_transport r = ot}"
    by (simp add: end_sessions_for_owner_def Let_def distinct_card [symmetric])
  show ?thesis
    using own end_all_other [of _ "owned_ids ot s" h why s] stopped_cases [of _ "owned_ids ot s" h why s]
      map_filter_owner [of ot ttl now s] count
    unfolding bulk_ends by (auto simp: end_session_for_owner_def)
qed

definition two_owners :: "(host \<times> session_op) list" where
  "two_owners =
     [(quiet_host, ActivateOrRevive ''a'' (plain_binding ''me'' 1)),
      (quiet_host, ActivateOrRevive ''b'' (plain_binding ''you'' 2))]"

lemma two_owners_state:
  "session_run two_owners init_session_state =
     init_session_state\<lparr>records := [(''a'', fresh_record None ''me'' False Daemon Direct 1 None),
                                    (''b'', fresh_record None ''you'' False Daemon Direct 2 None)],
                        activity := [(''a'', 1), (''b'', 2)]\<rparr>"
  by (simp add: session_run_def two_owners_def activate_or_revive_op_def plain_binding_def
      activate_or_revive_session_for_owner_def is_trackable_def tombstone_check_def Let_def
      bind_or_revive_def admission_def init_session_state_def)

theorem owner_operations_are_isolated_witness:
  "kv_get (records (fst (end_sessions_for_owner quiet_host ''me'' ProcessExit
      (session_run two_owners init_session_state)))) ''b''
   = Some (fresh_record None ''you'' False Daemon Direct 2 None)"
  using owner_operations_are_isolated
    [OF refl, where h = quiet_host and ot = "''me''" and why = ProcessExit and ops = two_owners]
  by (simp add: two_owners_state fresh_record_def)

text \<open>Closing a transport revokes it for good: it ends or defers every session the transport
  owns, a second close does nothing, and afterwards no request that runs under the shut
  capability is admitted, neither a dispatch nor a binding nor a revival, for any session and
  any owner name it may present, in any later state.\<close>

theorem closed_transport_admits_nothing:
  fixes h why
  assumes "s = session_run ops init_session_state" "live own"
  defines "shut \<equiv> fst (transport_close h own why s)"
    and "after \<equiv> fst (snd (transport_close h own why s))"
  shows "(\<forall>sid r. kv_get (records s) sid = Some r \<and> owner_transport r = owner_id own
             \<and> is_trackable sid \<longrightarrow> gone after sid \<or> ending after sid)
    \<and> transport_close h' shut why' later = (shut, later, 0)
    \<and> current_transport_owner_for (Some shut) ot = None
    \<and> (b_capability b = Some shut \<longrightarrow>
         (\<forall>s'. begin_op sid b later \<noteq> Inr s') \<and> (\<forall>s'. activate_op sid b later \<noteq> Inr s')
         \<and> (\<forall>s' r. activate_or_revive_op h sid b later \<noteq> (s', Inr r)))"
proof -
  have wf: "kv_wf (records s)" using session_ok_run [OF session_ok_init, of ops]
    by (simp add: assms(1) session_ok_def tables_ok_def)
  have shut: "shut = own\<lparr>live := False\<rparr>"
    and after: "after = end_all h why (owned_ids (owner_id own) s) s"
    using assms(2) by (simp_all add: shut_def after_def transport_close_def
        end_sessions_for_owner_def Let_def split_beta)
  have no: "admission (Some shut) w = Inl OwnerHasEnded" for w
    by (simp add: shut admission_def owner_admit_def)
  have "activate_or_revive_op h sid b later \<noteq> (s', Inr r)" if "b_capability b = Some shut" for s' r
  proof
    assume "activate_or_revive_op h sid b later = (s', Inr r)"
    from activate_or_revive_shape [OF this] bind_or_revive_Inr no that show False by fastforce
  qed
  moreover have "begin_op sid b later \<noteq> Inr s'" "activate_op sid b later \<noteq> Inr s'"
    if "b_capability b = Some shut" for s'
    using no that by (auto simp: begin_op_Inr activate_op_def activate_session_def)
  ultimately show ?thesis
    using owned_ids_iff [OF wf] stopped_cases [of _ "owned_ids (owner_id own) s" h why s] no
    by (auto simp: after transport_close_def shut current_transport_owner_for_def owner_admit_def)
qed

theorem closed_transport_admits_nothing_witness:
  "gone (fst (snd (transport_close quiet_host (new_transport_owner ''me'') ProcessExit
      (session_run two_owners init_session_state)))) ''a''
   \<or> ending (fst (snd (transport_close quiet_host (new_transport_owner ''me'') ProcessExit
      (session_run two_owners init_session_state)))) ''a''"
  using closed_transport_admits_nothing
    [OF refl, where own = "new_transport_owner ''me''" and h = quiet_host and why = ProcessExit
      and ops = two_owners and ot = "''me''" and b = "plain_binding ''me'' 1" and sid = "''a''"
      and h' = quiet_host and why' = ProcessExit and later = init_session_state]
  by (simp add: two_owners_state fresh_record_def new_transport_owner_def is_trackable_def)


section \<open>Cleanup\<close>

text \<open>The callbacks that report success over a sequence of retries of one session's cleanup, in
  order, each retry with the behaviour the platform then has.\<close>

fun successful_runs :: "string \<Rightarrow> host list \<Rightarrow> session_state \<Rightarrow> nat list" where
  "successful_runs sid [] s = []"
| "successful_runs sid (h # hs) s =
     (case retry_begin sid s of
        (s1, Inl report) \<Rightarrow> []
      | (s1, Inr work) \<Rightarrow> fst (run_cleanup_hooks h sid work))
     @ successful_runs sid hs (fst (retry_session_cleanup h sid s))"

definition retry_all :: "string \<Rightarrow> host list \<Rightarrow> session_state \<Rightarrow> session_state" where
  "retry_all sid hs s = fold (\<lambda>h s. fst (retry_session_cleanup h sid s)) hs s"

lemma successful_runs_step:
  "successful_runs sid (h # hs) s =
     (case kv_get (cleanup s) sid of
        Some p \<Rightarrow> if running p then [] else fst (run_cleanup_hooks h sid (todo_hooks p))
      | None \<Rightarrow> []) @ successful_runs sid hs (fst (retry_session_cleanup h sid s))"
  by (simp add: retry_begin_def todo_hooks_def split: option.splits)

lemma successful_runs_none: "kv_get (cleanup s) sid = None \<Longrightarrow> successful_runs sid hs s = []"
proof (induction hs arbitrary: s)
  case (Cons h hs)
  from Cons.prems have "retry_session_cleanup h sid s = (s, done_report)" by (simp add: retry_eq)
  with Cons show ?case by (simp add: retry_begin_def)
qed simp

lemma retry_all_none: "kv_get (cleanup s) sid = None \<Longrightarrow> retry_all sid hs s = s"
proof (induction hs)
  case (Cons h hs)
  from Cons.prems have "retry_session_cleanup h sid s = (s, done_report)" by (simp add: retry_eq)
  with Cons show ?case by (simp add: retry_all_def)
qed (simp add: retry_all_def)

lemma progress_done_iff:
  assumes "progress_ok p"
  shows "all_completed p \<longleftrightarrow> set (completed p) = set (map fst (hooks p))"
proof -
  have "distinct (completed p)" "distinct (map fst (hooks p))"
    "set (completed p) \<subseteq> set (map fst (hooks p))" using assms by (auto simp: progress_ok_def)
  then show ?thesis unfolding all_completed_def
    using card_subset_eq [of "set (map fst (hooks p))" "set (completed p)"]
    by (metis List.finite_set distinct_card length_map)
qed

lemma retried_facts:
  fixes h sid
  assumes "progress_ok p"
  defines "new \<equiv> fst (run_cleanup_hooks h sid (todo_hooks p))"
  shows "distinct new" "set new \<inter> set (completed p) = {}"
    "set (completed (retried h sid p)) = set (completed p) \<union> set new"
    "hooks (retried h sid p) = hooks p"
  using assms by (auto simp: new_def fst_run_cleanup_hooks todo_hooks_def retried_def progress_ok_def
      distinct_map inj_on_def)

lemma cleanup_trace:
  assumes "kv_get (cleanup s) sid = Some p" "progress_ok p"
  shows "distinct (successful_runs sid hs s)
    \<and> set (successful_runs sid hs s) \<inter> set (completed p) = {}
    \<and> set (successful_runs sid hs s) \<subseteq> set (map fst (hooks p))
    \<and> (case kv_get (cleanup (retry_all sid hs s)) sid of
         None \<Rightarrow> hs \<noteq> [] \<and> set (completed p) \<union> set (successful_runs sid hs s) = set (map fst (hooks p))
       | Some q \<Rightarrow> hooks q = hooks p \<and> progress_ok q
           \<and> set (completed q) = set (completed p) \<union> set (successful_runs sid hs s)
           \<and> (hs \<noteq> [] \<longrightarrow> \<not> all_completed q))"
  using assms
proof (induction hs arbitrary: s p)
  case Nil
  then show ?case by (simp add: retry_all_def)
next
  case (Cons h hs)
  let ?new = "fst (run_cleanup_hooks h sid (todo_hooks p))"
  let ?s1 = "fst (retry_session_cleanup h sid s)"
  have run: "\<not> running p" using Cons.prems(2) by (simp add: progress_ok_def)
  have tr: "successful_runs sid (h # hs) s = ?new @ successful_runs sid hs ?s1"
    using Cons.prems(1) run by (simp add: successful_runs_step del: successful_runs.simps)
  have new: "set ?new \<subseteq> set (map fst (hooks p))"
    by (auto simp: fst_run_cleanup_hooks todo_hooks_def)
  note facts = retried_facts [OF Cons.prems(2), of h sid]
  have pr: "progress_ok (retried h sid p)" using Cons.prems(2) by (rule progress_ok_retried)
  have fin: "retry_all sid (h # hs) s = retry_all sid hs ?s1" by (simp add: retry_all_def)
  show ?case
  proof (cases "all_completed (retried h sid p)")
    case True
    then have none: "kv_get (cleanup ?s1) sid = None"
      using Cons.prems(1) run by (simp add: retry_entry)
    from True progress_done_iff [OF pr] facts
    have "set (completed p) \<union> set ?new = set (map fst (hooks p))" by simp
    then show ?thesis unfolding tr fin
      using facts new none by (simp add: successful_runs_none retry_all_none)
  next
    case False
    then have some: "kv_get (cleanup ?s1) sid = Some (retried h sid p)"
      using Cons.prems(1) run by (simp add: retry_entry)
    let ?R = "successful_runs sid hs ?s1"
    note ih = Cons.IH [OF some pr, unfolded facts(3,4)]
    have d: "distinct (?new @ ?R)" "set (?new @ ?R) \<inter> set (completed p) = {}"
      "set (?new @ ?R) \<subseteq> set (map fst (hooks p))"
      using ih facts(1,2) new by auto
    show ?thesis
    proof (cases "kv_get (cleanup (retry_all sid hs ?s1)) sid")
      case None
      with ih have "set (completed p) \<union> set ?new \<union> set ?R = set (map fst (hooks p))" by simp
      with d None show ?thesis unfolding tr fin by (simp add: Un_assoc)
    next
      case (Some q)
      have "\<not> all_completed q"
      proof (cases "hs = []")
        case True
        with Some some False show ?thesis by (simp add: retry_all_def)
      qed (use ih Some in simp)
      with d Some ih show ?thesis unfolding tr fin by (simp add: Un_assoc)
    qed
  qed
qed

text \<open>Every cleanup hook of an ended session succeeds at most once, whatever fails or panics
  in between: over any sequence of retries no hook that has succeeded is called again, only
  hooks captured when the session ended are called, and the progress entry disappears, which
  is what the report calls complete, exactly when every captured hook has succeeded.\<close>

theorem cleanup_runs_each_hook_once:
  assumes "s = session_run ops init_session_state" "kv_get (cleanup s) sid = Some p"
    and "hs \<noteq> []"
  shows "distinct (completed p @ successful_runs sid hs s)
    \<and> set (successful_runs sid hs s) \<subseteq> set (map fst (hooks p))
    \<and> (complete (session_cleanup_status sid (retry_all sid hs s))
         \<longleftrightarrow> set (completed p) \<union> set (successful_runs sid hs s) = set (map fst (hooks p)))
    \<and> (complete (session_cleanup_status sid (retry_all sid hs s))
         \<longleftrightarrow> kv_get (cleanup (retry_all sid hs s)) sid = None)"
proof -
  have "cleanup_ok s" using session_ok_run [OF session_ok_init, of ops]
    by (simp add: assms(1) session_ok_def)
  with assms(2) have p: "progress_ok p" by (auto simp: cleanup_ok_def)
  let ?R = "successful_runs sid hs s"
  let ?s' = "retry_all sid hs s"
  note tr = cleanup_trace [OF assms(2) p, of hs]
  have status: "complete (session_cleanup_status sid ?s') \<and> kv_get (cleanup ?s') sid = None
      \<and> set (completed p) \<union> set ?R = set (map fst (hooks p))
    \<or> \<not> complete (session_cleanup_status sid ?s') \<and> kv_get (cleanup ?s') sid \<noteq> None
      \<and> set (completed p) \<union> set ?R \<noteq> set (map fst (hooks p))"
  proof (cases "kv_get (cleanup ?s') sid")
    case None
    with tr show ?thesis by (simp add: session_cleanup_status_def done_report_def)
  next
    case (Some q)
    with tr assms(3) have q: "progress_ok q" "\<not> all_completed q" "hooks q = hooks p"
      "set (completed q) = set (completed p) \<union> set ?R" by simp_all
    with progress_done_iff [OF q(1)] have "set (completed p) \<union> set ?R \<noteq> set (map fst (hooks p))" by simp
    with Some q(2) show ?thesis by (simp add: session_cleanup_status_def all_completed_def)
  qed
  have "distinct (completed p @ ?R)" using tr p by (simp add: progress_ok_def Int_commute)
  with status tr show ?thesis by blast
qed

definition failing_host :: host where
  "failing_host = \<lparr>run_hook = \<lambda>i _. if i = 2 then HookPanic else HookOk, cursor_readers = \<lambda>_. []\<rparr>"

definition failed_cleanup_ops :: "(host \<times> session_op) list" where
  "failed_cleanup_ops =
     [(quiet_host, RegisterHook ''r''), (quiet_host, RegisterHook ''c''),
      (failing_host, FireEnd ''a'' None)]"

definition half_done :: cleanup_progress where
  "half_done = \<lparr>hooks = [(1, ''r''), (2, ''c'')], completed = [1],
     last_failures = [\<lparr>failed_hook = ''c'', failure_error = ''cleanup hook panicked''\<rparr>],
     running = False\<rparr>"

lemma retry_to_half_done:
  "kv_get (cleanup s) ''a'' = Some \<lparr>hooks = [(1, ''r''), (2, ''c'')], completed = [],
      last_failures = [], running = False\<rparr> \<Longrightarrow>
   kv_get (cleanup (fst (retry_session_cleanup failing_host ''a'' s))) ''a'' = Some half_done"
  by (simp add: retry_entry retried_def todo_hooks_def all_completed_def failing_host_def
      set_extend_def half_done_def)

lemma failed_cleanup_state:
  "kv_get (cleanup (session_run failed_cleanup_ops init_session_state)) ''a'' = Some half_done"
proof -
  let ?s2 = "init_session_state\<lparr>next_end_hook_id := 3, end_hooks := [(1, ''r''), (2, ''c'')]\<rparr>"
  let ?s3 = "initialize_session_cleanup ''a'' (fst (mark_session_ended ''a'' None ?s2))"
  have "session_run failed_cleanup_ops init_session_state =
      fst (fire_session_end_for_owner failing_host ''a'' None ?s2)"
    by (simp add: session_run_def register_session_end_hook_def init_session_state_def
        failed_cleanup_ops_def numeral_eq_Suc)
  moreover have "fst (fire_session_end_for_owner failing_host ''a'' None ?s2) =
      fst (retry_session_cleanup failing_host ''a'' ?s3)"
    by (simp add: fire_session_end_for_owner_def mark_session_ended_def init_session_state_def
        Let_def split_beta)
  moreover have "kv_get (cleanup ?s3) ''a'' = Some \<lparr>hooks = [(1, ''r''), (2, ''c'')], completed = [],
      last_failures = [], running = False\<rparr>"
    by (simp add: initialize_session_cleanup_def mark_session_ended_def init_session_state_def)
  ultimately show ?thesis by (simp only: retry_to_half_done)
qed

lemma half_done_trace:
  "kv_get (cleanup s) ''a'' = Some half_done \<Longrightarrow>
   successful_runs ''a'' [failing_host, quiet_host] s = [2]"
  by (simp add: successful_runs_step retry_entry retried_def all_completed_def todo_hooks_def
      failing_host_def quiet_host_def set_extend_def half_done_def del: successful_runs.simps(2))

theorem cleanup_runs_each_hook_once_witness:
  "complete (session_cleanup_status ''a'' (retry_all ''a'' [failing_host, quiet_host]
     (session_run failed_cleanup_ops init_session_state)))"
proof -
  have "set (completed half_done) \<union> set [2] = set (map fst (hooks half_done))"
    by (auto simp: half_done_def)
  with cleanup_runs_each_hook_once
      [OF refl failed_cleanup_state, where hs = "[failing_host, quiet_host]"]
  show ?thesis by (simp only: half_done_trace [OF failed_cleanup_state]) simp
qed

end
