(* ===== verification/SessionRaces.thy ===== *)
theory SessionRaces
  imports SessionProps
begin

text \<open>
  The operations of \<open>cua-driver-core/src/session.rs\<close> as other threads see them. A session end
  is not one critical section: \<open>end_session_with_reason\<close> decides under the lifecycle lock
  whether to defer, releases it, and \<open>finish_session_end\<close> later takes the locks again to
  write the tombstone and drop the record; dropping a dispatch guard has the same two halves.
  The step relation below interleaves those halves with admissions. What finishing does after
  the tombstone is written only concerns the id's cleanup entry, capture scope and observer,
  which no other step reads, so it stays one step.
\<close>

section \<open>Interleavings\<close>

record race =
  sess :: session_state
  held :: "string list"
  closing :: "(string \<times> session_end_reason) list"

inductive race_step :: "race \<Rightarrow> race \<Rightarrow> bool" where
  Admit: "begin_op sid b (sess c) = Inr s' \<Longrightarrow>
    race_step c (c\<lparr>sess := s', held := sid # held c\<rparr>)"
| Release: "sid \<in> set (held c) \<Longrightarrow> guard_release sid now (sess c) = (s', pend) \<Longrightarrow>
    race_step c (c\<lparr>sess := s', held := remove1 sid (held c),
                   closing := (case pend of None \<Rightarrow> closing c | Some why \<Rightarrow> (sid, why) # closing c)\<rparr>)"
| Check: "is_trackable sid \<Longrightarrow> defer_end sid why (sess c) = (s', deferred) \<Longrightarrow>
    race_step c (c\<lparr>sess := s',
                   closing := (if deferred then closing c else (sid, why) # closing c)\<rparr>)"
| Finish: "(sid, why) \<in> set (closing c) \<Longrightarrow>
    race_step c (c\<lparr>sess := finish_session_end h sid why (sess c),
                   closing := remove1 (sid, why) (closing c)\<rparr>)"

definition race_init :: race where
  "race_init = \<lparr>sess = init_session_state, held = [], closing = []\<rparr>"

inductive race_reach :: "race \<Rightarrow> bool" where
  Start: "race_reach race_init"
| Next: "race_reach c \<Longrightarrow> race_step c c' \<Longrightarrow> race_reach c'"

definition race_ok :: "race \<Rightarrow> bool" where
  "race_ok c =
     (apart (sess c)
      \<and> (\<forall>sid. \<not> kv_has (ended (sess c)) sid \<longrightarrow> flight (sess c) sid = count_list (held c) sid))"

lemma release_facts:
  assumes "guard_release sid now s = (s', pend)"
  shows "ended s' = ended s" "apart s \<Longrightarrow> apart s'"
    "flight s' x = flight s x - (if x = sid then 1 else 0)"
  using assms
  by (auto simp: guard_release_def Let_def apart_def flight_def kv_has_def
      split: option.splits if_splits)

lemma defer_facts:
  assumes "defer_end sid why s = (s', d)"
  shows "ended s' = ended s" "apart s \<Longrightarrow> apart s'" "flight s' x = flight s x"
  using assms
  by (auto simp: defer_end_def apart_def flight_def kv_has_get split: option.splits if_splits)

lemma finish_facts:
  "kv_has (ended (finish_session_end h sid why s)) x \<longleftrightarrow> x = sid \<or> kv_has (ended s) x"
  "apart s \<Longrightarrow> apart (finish_session_end h sid why s)"
  "x \<noteq> sid \<Longrightarrow> flight (finish_session_end h sid why s) x = flight s x"
  by (auto simp: apart_def flight_def)

lemma race_ok_step:
  assumes "race_ok c" "race_step c c'"
  shows "race_ok c'"
  using assms(2)
proof (cases rule: race_step.cases)
  case (Admit sid b s')
  from begin_guards [OF Admit(2)] assms(1) Admit(2) show ?thesis
    by (auto simp: Admit(1) race_ok_def begin_op_Inr)
next
  case (Release sid now s' pend)
  from release_facts [OF Release(3)] assms(1) show ?thesis
    by (auto simp: Release(1) race_ok_def count_list_remove1)
next
  case (Check sid why s' deferred)
  from defer_facts [OF Check(3)] assms(1) show ?thesis by (auto simp: Check(1) race_ok_def)
next
  case (Finish sid why h)
  from assms(1) finish_facts show ?thesis by (auto simp: Finish(1) race_ok_def)
qed

lemma race_ok_reach: "race_reach c \<Longrightarrow> race_ok c"
proof (induction rule: race_reach.induct)
  case Start
  show ?case
    by (simp add: race_ok_def race_init_def init_session_state_def apart_def flight_def)
qed (rule race_ok_step)

text \<open>C9. Under every interleaving of admissions, guard drops and the two halves of session ends
  the guard accounting is never wrong for a living session: while an alive guard's session is
  not ended its record exists and counts exactly the guards alive; once it is ended there is
  no record, dropping the leftover guard changes nothing, and no new call is admitted.\<close>

theorem guard_accounting_under_interleaving:
  assumes "race_reach c" "sid \<in> set (held c)"
  shows "(if is_session_ended (sess c) sid
          then guard_release sid now (sess c) = (sess c, None) \<and> (\<forall>s'. begin_op sid b (sess c) \<noteq> Inr s')
          else \<exists>r. kv_get (records (sess c)) sid = Some r \<and> in_flight r = count_list (held c) sid)"
proof (cases "is_session_ended (sess c) sid")
  case True
  with race_ok_reach [OF assms(1)] have "kv_get (records (sess c)) sid = None"
    by (auto simp: race_ok_def apart_def is_session_ended_def kv_has_def)
  with True show ?thesis by (auto simp: guard_release_def begin_op_Inr is_session_ended_def)
next
  case False
  with race_ok_reach [OF assms(1)] have f: "flight (sess c) sid = count_list (held c) sid"
    by (simp add: race_ok_def is_session_ended_def)
  with assms(2) have "flight (sess c) sid \<noteq> 0" by (simp add: count_list_0_iff)
  with f False show ?thesis by (auto simp: flight_def split: option.splits)
qed

section \<open>The window between the check and the end\<close>

text \<open>The sweep decides that the idle session \<open>a\<close> may go, a new call is admitted, and the sweep
  then ends the session under it.\<close>

definition idle_a :: session_state where
  "idle_a = init_session_state\<lparr>
     records := [(''a'', fresh_record None ''me'' False Daemon Direct 1 None)],
     activity := [(''a'', 2)]\<rparr>"

definition busy_a :: session_state where
  "busy_a = init_session_state\<lparr>
     records := [(''a'', (fresh_record None ''me'' False Daemon Direct 1 None)\<lparr>in_flight := 1\<rparr>)],
     activity := [(''a'', 3)]\<rparr>"

definition doomed_race :: race where
  "doomed_race =
     \<lparr>sess = finish_session_end quiet_host ''a'' IdleTimeout busy_a, held = [''a''], closing = []\<rparr>"

lemma idle_a_reach: "race_reach \<lparr>sess = idle_a, held = [], closing = []\<rparr>"
proof -
  let ?s1 = "init_session_state\<lparr>
     records := [(''a'', (fresh_record None ''me'' False Daemon Direct 1 None)\<lparr>in_flight := 1\<rparr>)],
     activity := [(''a'', 1)]\<rparr>"
  have a: "begin_op ''a'' (plain_binding ''me'' 1) (sess race_init) = Inr ?s1"
    by (simp add: begin_op_def begin_session_dispatch_def is_trackable_def plain_binding_def
        admission_def race_init_def init_session_state_def fresh_record_def override_ttl_def)
  let ?c1 = "race_init\<lparr>sess := ?s1, held := [''a'']\<rparr>"
  have "race_reach ?c1" using race_reach.Next [OF race_reach.Start race_step.Admit [OF a]]
    by (simp add: race_init_def)
  moreover have "guard_release ''a'' 2 (sess ?c1) = (idle_a, None)"
    by (simp add: guard_release_def idle_a_def race_init_def init_session_state_def fresh_record_def)
  ultimately have "race_reach (?c1\<lparr>sess := idle_a, held := remove1 ''a'' (held ?c1),
      closing := (case None of None \<Rightarrow> closing ?c1 | Some why \<Rightarrow> (''a'', why) # closing ?c1)\<rparr>)"
    by (intro race_reach.Next [OF _ race_step.Release]) simp_all
  then show ?thesis by (simp add: race_init_def)
qed

lemma doomed_race_reach: "race_reach doomed_race"
proof -
  let ?c0 = "\<lparr>sess = idle_a, held = [], closing = []\<rparr>"
  let ?c1 = "\<lparr>sess = idle_a, held = [], closing = [(''a'', IdleTimeout)]\<rparr>"
  let ?c2 = "\<lparr>sess = busy_a, held = [''a''], closing = [(''a'', IdleTimeout)]\<rparr>"
  have "defer_end ''a'' IdleTimeout (sess ?c0) = (idle_a, False)"
    by (simp add: defer_end_def idle_a_def fresh_record_def)
  from race_step.Check [OF _ this] have "race_step ?c0 ?c1" by (simp add: is_trackable_def)
  then have r1: "race_reach ?c1" using idle_a_reach race_reach.Next by blast
  have "begin_op ''a'' (plain_binding ''me'' 3) (sess ?c1) = Inr busy_a"
    by (simp add: begin_op_def begin_session_dispatch_def is_trackable_def plain_binding_def
        admission_def idle_a_def busy_a_def init_session_state_def fresh_record_def override_ttl_def)
  from race_step.Admit [OF this] have "race_step ?c1 ?c2" by simp
  then have r2: "race_reach ?c2" using r1 race_reach.Next by blast
  have "race_step ?c2 doomed_race"
    using race_step.Finish [of "''a''" IdleTimeout ?c2 quiet_host] by (simp add: doomed_race_def)
  then show ?thesis using r2 race_reach.Next by blast
qed

theorem guard_accounting_under_interleaving_witness:
  "guard_release ''a'' 9 (sess doomed_race) = (sess doomed_race, None)"
proof -
  have "is_session_ended (sess doomed_race) ''a''"
    by (simp add: doomed_race_def is_session_ended_def)
  moreover have "''a'' \<in> set (held doomed_race)" by (simp add: doomed_race_def)
  ultimately show ?thesis
    using guard_accounting_under_interleaving [OF doomed_race_reach, of "''a''" 9 "plain_binding ''me'' 1"]
    by simp
qed

text \<open>Between the two halves of an end the guard does not protect its session: there is an
  interleaving in which a call is admitted after the idle sweep found the session free and
  before it finished ending it, so a session is ended while a dispatch guard for it is alive,
  although the same operations run one after the other never do that.\<close>

theorem end_can_overtake_an_admitted_call:
  "\<exists>c. race_reach c \<and> ''a'' \<in> set (held c) \<and> is_session_ended (sess c) ''a''
       \<and> kv_get (records (sess c)) ''a'' = None"
  using doomed_race_reach
  by (intro exI [of _ doomed_race]) (simp add: doomed_race_def is_session_ended_def)

end
