(* ===== verification/Authorization.thy ===== *)
theory Authorization
  imports Json Text_Format
begin

text \<open>
  Model of \<open>cua-driver-core/src/authorization.rs\<close>: permission modes and their startup
  configuration, the inventory of enforcement adapters and the behaviour each has in each
  mode, the mapping of one call to the adapters that compose it, the reviewed risk of a tool
  and of one exact call, and the hard invariants. The admission of a call, which needs the
  policy layers, the manifest and the authorization context, is in \<open>Admission\<close>.
  Environment variables and the process id are arguments.
\<close>

section \<open>Modes\<close>

datatype permission_mode = Standard | Bounded | Unrestricted

definition mode_as_str :: "permission_mode \<Rightarrow> string" where
  "mode_as_str m =
     (case m of Standard \<Rightarrow> ''standard'' | Bounded \<Rightarrow> ''bounded'' | Unrestricted \<Rightarrow> ''unrestricted'')"

datatype risk_class = R0 | R1 | R2 | R3 | R4 | Unclassified

definition risk_as_str :: "risk_class \<Rightarrow> string" where
  "risk_as_str c =
     (case c of R0 \<Rightarrow> ''r0'' | R1 \<Rightarrow> ''r1'' | R2 \<Rightarrow> ''r2'' | R3 \<Rightarrow> ''r3'' | R4 \<Rightarrow> ''r4''
      | Unclassified \<Rightarrow> ''unclassified'')"

text \<open>The derived order of the Rust enumeration.\<close>

fun risk_rank :: "risk_class \<Rightarrow> nat" where
  "risk_rank R0 = 0"
| "risk_rank R1 = 1"
| "risk_rank R2 = 2"
| "risk_rank R3 = 3"
| "risk_rank R4 = 4"
| "risk_rank Unclassified = 5"

lemma risk_rank_inject: "risk_rank a = risk_rank b \<longleftrightarrow> a = b"
  by (cases a; cases b) simp_all

instantiation risk_class :: linorder
begin

definition less_eq_risk_class :: "risk_class \<Rightarrow> risk_class \<Rightarrow> bool" where
  "less_eq_risk_class a b = (risk_rank a \<le> risk_rank b)"

definition less_risk_class :: "risk_class \<Rightarrow> risk_class \<Rightarrow> bool" where
  "less_risk_class a b = (risk_rank a < risk_rank b)"

instance
  by standard (auto simp: less_eq_risk_class_def less_risk_class_def risk_rank_inject)

end

lemmas risk_le = less_eq_risk_class_def less_risk_class_def

datatype risk_enforcement = Active | MetadataOnly | NotExposed

record adapter_enforcement =
  in_standard :: risk_enforcement
  in_bounded :: risk_enforcement
  in_unrestricted :: risk_enforcement

definition uniform :: "risk_enforcement \<Rightarrow> adapter_enforcement" where
  "uniform st = \<lparr>in_standard = st, in_bounded = st, in_unrestricted = st\<rparr>"

definition enforcement_for_mode :: "adapter_enforcement \<Rightarrow> permission_mode \<Rightarrow> risk_enforcement" where
  "enforcement_for_mode e m =
     (case m of Standard \<Rightarrow> in_standard e | Bounded \<Rightarrow> in_bounded e
      | Unrestricted \<Rightarrow> in_unrestricted e)"

datatype mode_behavior = Allow | Deny | RequireGrant | AllowWithoutGrant

datatype adapter_profile_behavior =
    Routine
  | GrantInStandard
  | BoundedOrUnrestricted
  | UnrestrictedOnly
  | AlwaysDenied

fun behavior_for_mode :: "adapter_profile_behavior \<Rightarrow> permission_mode \<Rightarrow> mode_behavior" where
  "behavior_for_mode Routine Standard = Allow"
| "behavior_for_mode Routine Unrestricted = Allow"
| "behavior_for_mode Routine Bounded = AllowWithoutGrant"
| "behavior_for_mode GrantInStandard Standard = RequireGrant"
| "behavior_for_mode GrantInStandard Bounded = AllowWithoutGrant"
| "behavior_for_mode GrantInStandard Unrestricted = Allow"
| "behavior_for_mode BoundedOrUnrestricted Standard = Deny"
| "behavior_for_mode BoundedOrUnrestricted Bounded = AllowWithoutGrant"
| "behavior_for_mode BoundedOrUnrestricted Unrestricted = Allow"
| "behavior_for_mode UnrestrictedOnly Unrestricted = Allow"
| "behavior_for_mode UnrestrictedOnly Standard = Deny"
| "behavior_for_mode UnrestrictedOnly Bounded = Deny"
| "behavior_for_mode AlwaysDenied _ = Deny"


section \<open>The adapter inventory\<close>

record adapter =
  adapter_id :: string
  operations :: "string list"
  adapter_state :: risk_enforcement
  adapter_risk :: risk_class
  resource_kind :: string
  scope_keys :: "string list"
  grant_type :: "string option"
  idle_ttl_seconds :: "nat option"
  absolute_ttl_seconds :: "nat option"
  authorization_requirement :: string
  revocation_triggers :: "string list"
  refusal_code :: "string option"
  authorization_source :: string
  enforcement_by_mode :: adapter_enforcement
  profile_behavior :: adapter_profile_behavior

definition EXISTING_PROFILE_OPERATIONS :: "string list" where
  "EXISTING_PROFILE_OPERATIONS =
     [''browser_prepare[strategy.kind=existing_profile]'']"

definition ISOLATED_BROWSER_OPERATIONS :: "string list" where
  "ISOLATED_BROWSER_OPERATIONS =
     [''browser_prepare[profile.mode=isolated]'']"

definition ISOLATED_BROWSER_SCOPE_KEYS :: "string list" where
  "ISOLATED_BROWSER_SCOPE_KEYS =
     [''daemon_generation'', ''public_session'', ''transport_session'', ''pid'',
      ''profile_mode'', ''profile_name'', ''permission_mode'', ''managed_policy_sha256'',
      ''user_policy_sha256'']"

definition EXISTING_PROFILE_SCOPE_KEYS :: "string list" where
  "EXISTING_PROFILE_SCOPE_KEYS =
     [''daemon_generation'', ''public_session'', ''transport_session'', ''pid'',
      ''window_id'', ''process_fingerprint'', ''browser_product'', ''endpoint_owner'',
      ''permission_mode'', ''managed_policy_sha256'', ''user_policy_sha256'']"

definition EXISTING_PROFILE_REVOCATION :: "string list" where
  "EXISTING_PROFILE_REVOCATION =
     [''session_end'', ''idle_expiry'', ''absolute_expiry'', ''policy_change'',
      ''process_identity_change'', ''endpoint_identity_change'', ''daemon_restart'',
      ''reconnect_budget_exhaustion'']"

definition PRIVATE_OBSERVATION_OPERATIONS :: "string list" where
  "PRIVATE_OBSERVATION_OPERATIONS =
     [''get_desktop_state'', ''get_accessibility_tree'', ''get_window_state'',
      ''verify_state'', ''list_apps'', ''list_windows'', ''debug_window_info'',
      ''get_browser_state'', ''browser_dialog[action=inspect]'',
      ''page[action=get_text|query_dom]'', ''escalate_session'', ''zoom'', ''start_recording'']"

definition PRIVATE_OBSERVATION_SCOPE_KEYS :: "string list" where
  "PRIVATE_OBSERVATION_SCOPE_KEYS =
     [''daemon_generation'', ''public_session'', ''pid'', ''process_fingerprint'',
      ''window_id'', ''display_generation'', ''capture_scope'', ''permission_mode'',
      ''managed_policy_sha256'', ''user_policy_sha256'']"

definition COMPUTER_HISTORY_OPERATIONS :: "string list" where
  "COMPUTER_HISTORY_OPERATIONS =
     [''history_status'', ''history_query'']"

definition COMPUTER_HISTORY_SCOPE_KEYS :: "string list" where
  "COMPUTER_HISTORY_SCOPE_KEYS =
     [''daemon_generation'', ''public_session'', ''operation'', ''permission_mode'',
      ''managed_policy_sha256'', ''user_policy_sha256'']"

definition DESKTOP_INPUT_OPERATIONS :: "string list" where
  "DESKTOP_INPUT_OPERATIONS =
     [''click'', ''double_click'', ''right_click'', ''drag'', ''scroll'', ''move_cursor'',
      ''mouse_button_down'', ''mouse_button_up'', ''mouse_drag'', ''parallel_mouse_drag'',
      ''replay_trajectory'', ''type_text'', ''type_text_chars'', ''press_key'', ''hotkey'',
      ''set_value'', ''bring_to_front'', ''present_window'', ''set_window_frame'',
      ''begin_foreground_segment'', ''end_foreground_segment'', ''prepare_dialog'',
      ''prepare_observation'']"

definition DESKTOP_INPUT_SCOPE_KEYS :: "string list" where
  "DESKTOP_INPUT_SCOPE_KEYS =
     [''daemon_generation'', ''public_session'', ''pid'', ''process_fingerprint'',
      ''window_id'', ''display_generation'', ''delivery_mode_ceiling'', ''permission_mode'',
      ''managed_policy_sha256'', ''user_policy_sha256'']"

definition FILE_TRANSFER_OPERATIONS :: "string list" where
  "FILE_TRANSFER_OPERATIONS =
     [''browser_set_input_files'', ''browser_download'',
      ''get_desktop_state[with_file_output]'', ''get_window_state[with_file_output]'',
      ''start_recording'', ''stop_recording'', ''replay_trajectory'', ''install_ffmpeg'']"

definition FILE_TRANSFER_SCOPE_KEYS :: "string list" where
  "FILE_TRANSFER_SCOPE_KEYS =
     [''daemon_generation'', ''public_session'', ''browser_binding'', ''tab'',
      ''canonical_path'', ''destination_class'', ''direction'', ''permission_mode'',
      ''managed_policy_sha256'', ''user_policy_sha256'']"

definition CONSEQUENTIAL_OPERATIONS :: "string list" where
  "CONSEQUENTIAL_OPERATIONS =
     [''browser_dialog[action=accept|dismiss]'']"

definition CONSEQUENTIAL_SCOPE_KEYS :: "string list" where
  "CONSEQUENTIAL_SCOPE_KEYS =
     [''daemon_generation'', ''public_session'', ''browser_binding'', ''tab'', ''origin'',
      ''action_kind'', ''permission_mode'', ''managed_policy_sha256'', ''user_policy_sha256'']"

definition UNBOUNDED_SCRIPT_OPERATIONS :: "string list" where
  "UNBOUNDED_SCRIPT_OPERATIONS =
     [''page[action=execute_javascript|click_element|insert_text|type_keystrokes|enable_javascript_apple_events]'']"

definition LEGACY_PAGE_MUTATING_ACTIONS :: "string list" where
  "LEGACY_PAGE_MUTATING_ACTIONS =
     [''execute_javascript'', ''click_element'', ''insert_text'', ''type_keystrokes'',
      ''enable_javascript_apple_events'']"

definition BROWSER_BOUND_INPUT_OPERATIONS :: "string list" where
  "BROWSER_BOUND_INPUT_OPERATIONS =
     [''browser_navigate'', ''browser_click'', ''browser_type'', ''browser_pointer'']"

definition BROWSER_BOUND_INPUT_SCOPE_KEYS :: "string list" where
  "BROWSER_BOUND_INPUT_SCOPE_KEYS =
     [''daemon_generation'', ''public_session'', ''browser_binding'', ''tab'', ''origin'',
      ''permission_mode'', ''managed_policy_sha256'', ''user_policy_sha256'']"

definition PROCESS_CONTROL_OPERATIONS :: "string list" where
  "PROCESS_CONTROL_OPERATIONS =
     [''kill_app'']"

definition PROCESS_CONTROL_SCOPE_KEYS :: "string list" where
  "PROCESS_CONTROL_SCOPE_KEYS =
     [''daemon_generation'', ''public_session'', ''pid'', ''process_fingerprint'',
      ''permission_mode'', ''managed_policy_sha256'', ''user_policy_sha256'']"

definition OS_PERMISSION_PROMPT_OPERATIONS :: "string list" where
  "OS_PERMISSION_PROMPT_OPERATIONS =
     [''check_permissions[prompt=true]'']"

definition DRIVER_CONFIGURATION_OPERATIONS :: "string list" where
  "DRIVER_CONFIGURATION_OPERATIONS =
     [''set_config'']"

definition SESSION_REVOCATION :: "string list" where
  "SESSION_REVOCATION =
     [''session_end'', ''expiry'', ''policy_change'', ''resource_identity_change'',
      ''daemon_restart'']"

definition adapter_browser_prepare_isolated :: adapter where
  "adapter_browser_prepare_isolated =
     \<lparr>adapter_id = ''browser_prepare.isolated'', operations = ISOLATED_BROWSER_OPERATIONS, adapter_state = Active,
      adapter_risk = R1, resource_kind = ''driver_owned_browser_profile'',
      scope_keys = ISOLATED_BROWSER_SCOPE_KEYS, grant_type = None,
      idle_ttl_seconds = None, absolute_ttl_seconds = None,
      authorization_requirement = ''profile_behavior_and_optional_capability_manifest'',
      revocation_triggers = SESSION_REVOCATION, refusal_code = Some ''authorization_required'',
      authorization_source =
        ''built_in_standard; unattended_bounded_profile; trusted_unrestricted_mode; optional_capability_manifest_ceiling'',
      enforcement_by_mode = uniform Active, profile_behavior = Routine\<rparr>"

definition adapter_browser_prepare_existing_profile :: adapter where
  "adapter_browser_prepare_existing_profile =
     \<lparr>adapter_id = ''browser_prepare.existing_profile'', operations = EXISTING_PROFILE_OPERATIONS, adapter_state = Active,
      adapter_risk = R2, resource_kind = ''existing_browser_profile'',
      scope_keys = EXISTING_PROFILE_SCOPE_KEYS, grant_type = Some ''existing_profile_session_grant'',
      idle_ttl_seconds = Some (30 * 60), absolute_ttl_seconds = Some (8 * 60 * 60),
      authorization_requirement = ''profile_approval_behavior_and_optional_capability_manifest'',
      revocation_triggers = EXISTING_PROFILE_REVOCATION, refusal_code = Some ''browser_consent_required'',
      authorization_source =
        ''launch_grant_or_authorization_host_in_standard; unattended_in_bounded; trusted_launch_acknowledgement_in_unrestricted; optional_capability_manifest_ceiling'',
      enforcement_by_mode = uniform Active, profile_behavior = GrantInStandard\<rparr>"

definition adapter_private_observation :: adapter where
  "adapter_private_observation =
     \<lparr>adapter_id = ''private_observation'', operations = PRIVATE_OBSERVATION_OPERATIONS, adapter_state = Active,
      adapter_risk = R2, resource_kind = ''user_window_or_display_observation'',
      scope_keys = PRIVATE_OBSERVATION_SCOPE_KEYS, grant_type = Some ''protected_resource_grant'',
      idle_ttl_seconds = Some (30 * 60), absolute_ttl_seconds = Some (8 * 60 * 60),
      authorization_requirement = ''profile_behavior_and_optional_capability_manifest'',
      revocation_triggers = SESSION_REVOCATION, refusal_code = Some ''authorization_required'',
      authorization_source =
        ''built_in_standard; unattended_bounded_profile; trusted_unrestricted_mode; optional_capability_manifest_ceiling'',
      enforcement_by_mode = uniform Active, profile_behavior = Routine\<rparr>"

definition adapter_computer_history :: adapter where
  "adapter_computer_history =
     \<lparr>adapter_id = ''computer_history'', operations = COMPUTER_HISTORY_OPERATIONS, adapter_state = Active,
      adapter_risk = R2, resource_kind = ''computer_history_metadata'',
      scope_keys = COMPUTER_HISTORY_SCOPE_KEYS, grant_type = Some ''protected_resource_grant'',
      idle_ttl_seconds = Some (30 * 60), absolute_ttl_seconds = Some (8 * 60 * 60),
      authorization_requirement = ''explicit_standard_grant_or_approved_capability_manifest'',
      revocation_triggers = SESSION_REVOCATION, refusal_code = Some ''authorization_required'',
      authorization_source =
        ''authorization_host_in_standard; approved_capability_manifest_in_bounded; trusted_unrestricted_mode'',
      enforcement_by_mode = uniform Active, profile_behavior = GrantInStandard\<rparr>"

definition adapter_desktop_input :: adapter where
  "adapter_desktop_input =
     \<lparr>adapter_id = ''desktop_input'', operations = DESKTOP_INPUT_OPERATIONS, adapter_state = Active,
      adapter_risk = R1, resource_kind = ''user_window_or_display_input'',
      scope_keys = DESKTOP_INPUT_SCOPE_KEYS, grant_type = Some ''protected_resource_grant'',
      idle_ttl_seconds = Some (30 * 60), absolute_ttl_seconds = Some (8 * 60 * 60),
      authorization_requirement = ''profile_behavior_and_optional_capability_manifest'',
      revocation_triggers = SESSION_REVOCATION, refusal_code = Some ''authorization_required'',
      authorization_source =
        ''built_in_standard; unattended_bounded_profile; trusted_unrestricted_mode; optional_capability_manifest_ceiling'',
      enforcement_by_mode = uniform Active, profile_behavior = Routine\<rparr>"

definition adapter_file_transfer_and_output :: adapter where
  "adapter_file_transfer_and_output =
     \<lparr>adapter_id = ''file_transfer_and_output'', operations = FILE_TRANSFER_OPERATIONS, adapter_state = Active,
      adapter_risk = R3, resource_kind = ''canonical_file_path_and_destination'',
      scope_keys = FILE_TRANSFER_SCOPE_KEYS, grant_type = Some ''protected_resource_grant'',
      idle_ttl_seconds = Some (30 * 60), absolute_ttl_seconds = Some (8 * 60 * 60),
      authorization_requirement = ''profile_behavior_and_optional_capability_manifest'',
      revocation_triggers = SESSION_REVOCATION, refusal_code = Some ''authorization_required'',
      authorization_source =
        ''built_in_standard; unattended_bounded_profile; trusted_unrestricted_mode; optional_capability_manifest_ceiling'',
      enforcement_by_mode = uniform Active, profile_behavior = Routine\<rparr>"

definition adapter_browser_consequential_action :: adapter where
  "adapter_browser_consequential_action =
     \<lparr>adapter_id = ''browser_consequential_action'', operations = CONSEQUENTIAL_OPERATIONS, adapter_state = Active,
      adapter_risk = R3, resource_kind = ''typed_browser_consequential_action'',
      scope_keys = CONSEQUENTIAL_SCOPE_KEYS, grant_type = Some ''protected_resource_grant'',
      idle_ttl_seconds = Some (5 * 60), absolute_ttl_seconds = Some (30 * 60),
      authorization_requirement = ''profile_behavior_and_optional_capability_manifest'',
      revocation_triggers = SESSION_REVOCATION, refusal_code = Some ''authorization_required'',
      authorization_source =
        ''built_in_standard; unattended_bounded_profile; trusted_unrestricted_mode; optional_capability_manifest_ceiling'',
      enforcement_by_mode = uniform Active, profile_behavior = Routine\<rparr>"

definition adapter_browser_unbounded_script :: adapter where
  "adapter_browser_unbounded_script =
     \<lparr>adapter_id = ''browser_unbounded_script'', operations = UNBOUNDED_SCRIPT_OPERATIONS, adapter_state = Active,
      adapter_risk = R3, resource_kind = ''unbounded_authenticated_page_script'',
      scope_keys = [], grant_type = Some ''trusted_launch_mode_gate'',
      idle_ttl_seconds = None, absolute_ttl_seconds = None,
      authorization_requirement = ''not_grantable_in_standard_or_bounded'',
      revocation_triggers = [], refusal_code = Some ''unbounded_operation_requires_unrestricted'',
      authorization_source =
        ''unrestricted_mode_with_trusted_launch_time_risk_acknowledgement'',
      enforcement_by_mode = uniform Active, profile_behavior = UnrestrictedOnly\<rparr>"

definition adapter_browser_bound_input :: adapter where
  "adapter_browser_bound_input =
     \<lparr>adapter_id = ''browser_bound_input'', operations = BROWSER_BOUND_INPUT_OPERATIONS, adapter_state = Active,
      adapter_risk = R2, resource_kind = ''authenticated_browser_binding_and_tab_input'',
      scope_keys = BROWSER_BOUND_INPUT_SCOPE_KEYS, grant_type = Some ''protected_resource_grant'',
      idle_ttl_seconds = Some (30 * 60), absolute_ttl_seconds = Some (8 * 60 * 60),
      authorization_requirement = ''profile_behavior_and_optional_capability_manifest'',
      revocation_triggers = SESSION_REVOCATION, refusal_code = Some ''authorization_required'',
      authorization_source =
        ''built_in_standard; unattended_bounded_profile; trusted_unrestricted_mode; optional_capability_manifest_ceiling'',
      enforcement_by_mode = uniform Active, profile_behavior = Routine\<rparr>"

definition adapter_process_control :: adapter where
  "adapter_process_control =
     \<lparr>adapter_id = ''process_control'', operations = PROCESS_CONTROL_OPERATIONS, adapter_state = Active,
      adapter_risk = R3, resource_kind = ''exact_process_termination'',
      scope_keys = PROCESS_CONTROL_SCOPE_KEYS, grant_type = Some ''protected_resource_grant'',
      idle_ttl_seconds = Some (2 * 60), absolute_ttl_seconds = Some (10 * 60),
      authorization_requirement = ''driver_ownership_in_standard; unattended_in_bounded; optional_capability_manifest'',
      revocation_triggers = SESSION_REVOCATION, refusal_code = Some ''authorization_required'',
      authorization_source =
        ''driver_ownership_in_standard; unattended_bounded_profile; trusted_unrestricted_mode; optional_capability_manifest_ceiling'',
      enforcement_by_mode = uniform Active, profile_behavior = BoundedOrUnrestricted\<rparr>"

definition adapter_os_permission_prompt :: adapter where
  "adapter_os_permission_prompt =
     \<lparr>adapter_id = ''os_permission_prompt'', operations = OS_PERMISSION_PROMPT_OPERATIONS, adapter_state = Active,
      adapter_risk = R2, resource_kind = ''operating_system_permission_prompt'',
      scope_keys = [''daemon_generation'', ''permission_mode''], grant_type = None,
      idle_ttl_seconds = None, absolute_ttl_seconds = None,
      authorization_requirement = ''never_agent_controllable'',
      revocation_triggers = [], refusal_code = Some ''os_permission_prompt_requires_trusted_host'',
      authorization_source =
        ''trusted_host_setup_outside_the_agent_tool_path'',
      enforcement_by_mode = uniform Active, profile_behavior = AlwaysDenied\<rparr>"

definition adapter_driver_configuration :: adapter where
  "adapter_driver_configuration =
     \<lparr>adapter_id = ''driver_configuration'', operations = DRIVER_CONFIGURATION_OPERATIONS, adapter_state = Active,
      adapter_risk = R2, resource_kind = ''persistent_driver_configuration'',
      scope_keys = [''daemon_generation'', ''permission_mode'', ''managed_policy_sha256'',
        ''user_policy_sha256''], grant_type = Some ''protected_resource_grant'',
      idle_ttl_seconds = Some (5 * 60), absolute_ttl_seconds = Some (30 * 60),
      authorization_requirement = ''profile_behavior_and_optional_capability_manifest'',
      revocation_triggers = SESSION_REVOCATION, refusal_code = Some ''authorization_required'',
      authorization_source =
        ''built_in_standard; unattended_bounded_profile; trusted_unrestricted_mode; optional_capability_manifest_ceiling'',
      enforcement_by_mode = uniform Active, profile_behavior = Routine\<rparr>"

definition adapter_clipboard :: adapter where
  "adapter_clipboard =
     \<lparr>adapter_id = ''clipboard'', operations = [''clipboard_read'', ''clipboard_write''], adapter_state = Active,
      adapter_risk = R2, resource_kind = ''system_clipboard'',
      scope_keys = [''daemon_generation'', ''public_session'', ''operation'', ''content_kind'',
        ''permission_mode'', ''managed_policy_sha256'', ''user_policy_sha256''], grant_type = Some ''protected_resource_grant'',
      idle_ttl_seconds = Some (30 * 60), absolute_ttl_seconds = Some (8 * 60 * 60),
      authorization_requirement = ''profile_behavior_and_optional_capability_manifest'',
      revocation_triggers = SESSION_REVOCATION, refusal_code = Some ''authorization_required'',
      authorization_source =
        ''built_in_standard; unattended_bounded_profile; trusted_unrestricted_mode; optional_capability_manifest_ceiling'',
      enforcement_by_mode = uniform Active, profile_behavior = Routine\<rparr>"

definition adapter_devices :: adapter where
  "adapter_devices =
     \<lparr>adapter_id = ''devices'', operations = [''microphone'', ''camera''], adapter_state = NotExposed,
      adapter_risk = Unclassified, resource_kind = ''device_capture'',
      scope_keys = [], grant_type = None,
      idle_ttl_seconds = None, absolute_ttl_seconds = None,
      authorization_requirement = ''required_before_exposure'',
      revocation_triggers = [], refusal_code = None,
      authorization_source =
        ''capability_not_exposed'',
      enforcement_by_mode = uniform NotExposed, profile_behavior = AlwaysDenied\<rparr>"

definition adapter_shell_and_network :: adapter where
  "adapter_shell_and_network =
     \<lparr>adapter_id = ''shell_and_network'', operations = [''generic_shell'', ''generic_network''], adapter_state = NotExposed,
      adapter_risk = Unclassified, resource_kind = ''open_ended_external_capability'',
      scope_keys = [], grant_type = None,
      idle_ttl_seconds = None, absolute_ttl_seconds = None,
      authorization_requirement = ''required_before_exposure'',
      revocation_triggers = [], refusal_code = None,
      authorization_source =
        ''capability_not_exposed'',
      enforcement_by_mode = uniform NotExposed, profile_behavior = AlwaysDenied\<rparr>"

definition ENFORCEMENT_ADAPTERS :: "adapter list" where
  "ENFORCEMENT_ADAPTERS =
     [adapter_browser_prepare_isolated, adapter_browser_prepare_existing_profile,
      adapter_private_observation, adapter_computer_history, adapter_desktop_input,
      adapter_file_transfer_and_output, adapter_browser_consequential_action,
      adapter_browser_unbounded_script, adapter_browser_bound_input, adapter_process_control,
      adapter_os_permission_prompt, adapter_driver_configuration, adapter_clipboard,
      adapter_devices, adapter_shell_and_network]"
definition find_adapter :: "string \<Rightarrow> adapter option" where
  "find_adapter i = find (\<lambda>a. adapter_id a = i) ENFORCEMENT_ADAPTERS"

definition adapter_ids_with_state :: "risk_enforcement \<Rightarrow> string list" where
  "adapter_ids_with_state st = map adapter_id (filter (\<lambda>a. adapter_state a = st) ENFORCEMENT_ADAPTERS)"

definition adapter_ids_with_state_for_mode :: "permission_mode \<Rightarrow> risk_enforcement \<Rightarrow> string list" where
  "adapter_ids_with_state_for_mode m st =
     map adapter_id
       (filter (\<lambda>a. enforcement_for_mode (enforcement_by_mode a) m = st) ENFORCEMENT_ADAPTERS)"


section \<open>The adapters of one call\<close>

definition writes_screenshot :: "string \<Rightarrow> json \<Rightarrow> bool" where
  "writes_screenshot tool args =
     (tool \<in> set [''get_desktop_state'', ''get_window_state'']
      \<and> (case get_str args ''screenshot_out_file'' of Some path \<Rightarrow> path \<noteq> [] | None \<Rightarrow> False))"

definition clipboard_file :: "json \<Rightarrow> bool" where
  "clipboard_file args = (get_str args ''image_path'' \<noteq> None \<or> get_str args ''file_path'' \<noteq> None)"

definition add_id :: "bool \<Rightarrow> string \<Rightarrow> string list \<Rightarrow> string list" where
  "add_id c i ids = (if c \<and> i \<notin> set ids then ids @ [i] else ids)"

definition observes :: "string \<Rightarrow> json \<Rightarrow> bool" where
  "observes tool args =
     (tool \<in> set [''get_desktop_state'', ''get_accessibility_tree'', ''get_window_state'',
        ''verify_state'', ''list_apps'', ''list_windows'', ''debug_window_info'',
        ''get_browser_state'', ''escalate_session'', ''zoom'', ''start_recording'']
      \<or> (tool = ''page''
         \<and> get_str args ''action'' \<in> set [Some ''get_text'', Some ''query_dom''])
      \<or> (tool = ''browser_dialog'' \<and> get_str args ''action'' = Some ''inspect''))"

definition transfers_files :: "string \<Rightarrow> json \<Rightarrow> bool" where
  "transfers_files tool args =
     (tool \<in> set [''browser_set_input_files'', ''browser_download'', ''start_recording'',
        ''stop_recording'', ''replay_trajectory'']
      \<or> writes_screenshot tool args
      \<or> (tool = ''clipboard_write'' \<and> clipboard_file args)
      \<or> (tool = ''install_ffmpeg'' \<and> get_bool args ''confirm'' = Some True))"

definition adapter_ids_for_call :: "string \<Rightarrow> json \<Rightarrow> string list" where
  "adapter_ids_for_call tool args =
     (let existing = (tool = ''browser_prepare''
            \<and> pointer_str args [''strategy'', ''kind''] = Some ''existing_profile'');
          isolated = (\<not> existing \<and> tool = ''browser_prepare''
            \<and> pointer_str args [''profile'', ''mode'']
                \<in> set [Some ''isolated_new'', Some ''isolated_named''])
      in fold (\<lambda>(c, i). add_id c i)
           [(existing, ''browser_prepare.existing_profile''),
            (isolated, ''browser_prepare.isolated''),
            (observes tool args, ''private_observation''),
            (tool \<in> set [''history_status'', ''history_query''], ''computer_history''),
            (tool \<in> set DESKTOP_INPUT_OPERATIONS, ''desktop_input''),
            (tool \<in> set [''clipboard_read'', ''clipboard_write''], ''clipboard''),
            (transfers_files tool args, ''file_transfer_and_output''),
            (tool = ''browser_dialog''
               \<and> get_str args ''action'' \<in> set [Some ''accept'', Some ''dismiss''],
             ''browser_consequential_action''),
            (tool = ''page''
               \<and> (case get_str args ''action'' of
                     Some a \<Rightarrow> a \<in> set LEGACY_PAGE_MUTATING_ACTIONS | None \<Rightarrow> False),
             ''browser_unbounded_script''),
            (tool \<in> set BROWSER_BOUND_INPUT_OPERATIONS, ''browser_bound_input''),
            (tool \<in> set PROCESS_CONTROL_OPERATIONS, ''process_control''),
            (tool = ''check_permissions'' \<and> get_bool args ''prompt'' = Some True,
             ''os_permission_prompt''),
            (tool \<in> set DRIVER_CONFIGURATION_OPERATIONS, ''driver_configuration'')] [])"

text \<open>\<open>None\<close> stands for the panic of the code's \<open>expect\<close> on an undeclared adapter.\<close>

definition enforcement_adapters_for_call :: "string \<Rightarrow> json \<Rightarrow> adapter list option" where
  "enforcement_adapters_for_call tool args =
     those (map find_adapter (adapter_ids_for_call tool args))"


section \<open>Reviewed risk\<close>

record risk_assessment =
  risk :: risk_class
  enforcement :: risk_enforcement
  operation_sensitive :: bool

definition selector_matches :: "string \<Rightarrow> string \<Rightarrow> bool" where
  "selector_matches tool sel =
     (sel = tool
      \<or> (case strip_prefix tool sel of Some rest \<Rightarrow> starts_with rest ''['' | None \<Rightarrow> False))"

definition advertised_enforcement_for :: "string \<Rightarrow> risk_enforcement" where
  "advertised_enforcement_for tool =
     (if \<exists>a \<in> set ENFORCEMENT_ADAPTERS.
           adapter_state a = Active \<and> (\<exists>sel \<in> set (operations a). selector_matches tool sel)
      then Active else MetadataOnly)"

definition R0_TOOLS :: "string list" where
  "R0_TOOLS =
     [''get_screen_size'', ''get_cursor_position'', ''get_config'', ''get_session'',
      ''list_sessions'', ''get_session_state'', ''get_agent_cursor_state'',
      ''get_recording_state'', ''check_for_update'', ''health_report'', ''probe'']"

definition R1_TOOLS :: "string list" where
  "R1_TOOLS =
     [''click'', ''double_click'', ''right_click'', ''drag'', ''scroll'', ''move_cursor'',
      ''mouse_button_down'', ''mouse_button_up'', ''mouse_drag'', ''parallel_mouse_drag'',
      ''type_text'', ''type_text_chars'', ''press_key'', ''hotkey'', ''set_value'',
      ''invoke_menu'', ''launch_app'', ''bring_to_front'', ''present_window'',
      ''set_window_frame'', ''begin_foreground_segment'', ''end_foreground_segment'',
      ''prepare_dialog'', ''prepare_observation'', ''start_session'', ''end_session'',
      ''set_agent_cursor_enabled'', ''set_agent_cursor_motion'', ''set_agent_cursor_theme'',
      ''clipboard_write'']"

definition R2_TOOLS :: "string list" where
  "R2_TOOLS =
     [''zoom'', ''clipboard_read'', ''list_apps'', ''list_windows'', ''debug_window_info'',
      ''check_permissions'', ''get_accessibility_tree'', ''verify_state'', ''set_config'',
      ''escalate_session'', ''start_recording'', ''get_browser_state'', ''browser_prepare'',
      ''browser_navigate'', ''browser_click'', ''browser_type'', ''browser_pointer'',
      ''history_status'', ''history_query'']"

definition R3_TOOLS :: "string list" where
  "R3_TOOLS =
     [''get_desktop_state'', ''get_window_state'', ''kill_app'', ''stop_recording'',
      ''replay_trajectory'', ''install_ffmpeg'', ''page'', ''browser_dialog'',
      ''browser_set_input_files'', ''browser_download'']"

definition advertised_class :: "string \<Rightarrow> risk_class" where
  "advertised_class tool =
     (if tool \<in> set R0_TOOLS then R0
      else if tool \<in> set R1_TOOLS then R1
      else if tool \<in> set R2_TOOLS then R2
      else if tool \<in> set R3_TOOLS then R3
      else Unclassified)"

definition advertised_risk_for :: "string \<Rightarrow> risk_assessment" where
  "advertised_risk_for tool =
     \<lparr>risk = advertised_class tool, enforcement = advertised_enforcement_for tool,
      operation_sensitive = (advertised_class tool \<in> set [R2, R3, R4])\<rparr>"

definition sensitive :: "risk_class \<Rightarrow> risk_enforcement \<Rightarrow> risk_assessment" where
  "sensitive c e = \<lparr>risk = c, enforcement = e, operation_sensitive = True\<rparr>"

definition classify_tool_call :: "string \<Rightarrow> json \<Rightarrow> risk_assessment" where
  "classify_tool_call tool args =
     (let action = get_str args ''action'';
          prompt = (get_bool args ''prompt'' = Some True);
          confirmed = (get_bool args ''confirm'' = Some True)
      in if tool = ''browser_prepare'' then
           sensitive (if pointer_str args [''strategy'', ''kind''] = Some ''existing_profile''
                      then R2 else R1) Active
         else if tool = ''browser_dialog'' then
           sensitive (if action = Some ''inspect'' then R2 else R3) MetadataOnly
         else if tool = ''page'' then
           (if action \<in> set [Some ''get_text'', Some ''query_dom'']
            then sensitive R2 Active else sensitive R3 MetadataOnly)
         else if tool \<in> set [''get_desktop_state'', ''get_window_state''] then
           sensitive (if writes_screenshot tool args then R3 else R2) Active
         else if tool = ''verify_state'' then sensitive R2 Active
         else if tool \<in> set [''get_accessibility_tree'', ''list_apps'', ''list_windows'',
                   ''debug_window_info'', ''get_browser_state'', ''escalate_session'', ''zoom'',
                   ''clipboard_read''] then sensitive R2 Active
         else if tool \<in> set [''history_status'', ''history_query''] then sensitive R2 Active
         else if tool = ''check_permissions'' then
           \<lparr>risk = (if prompt then R2 else R0), enforcement = MetadataOnly,
            operation_sensitive = prompt\<rparr>
         else if tool \<in> set [''browser_set_input_files'', ''browser_download'',
                   ''start_recording'', ''stop_recording'', ''replay_trajectory''] then
           sensitive R3 Active
         else if tool = ''clipboard_write'' then
           sensitive (if clipboard_file args then R3 else R1) Active
         else if tool = ''install_ffmpeg'' then
           \<lparr>risk = (if confirmed then R3 else R0),
            enforcement = (if confirmed then Active else MetadataOnly),
            operation_sensitive = confirmed\<rparr>
         else if tool \<in> set DESKTOP_INPUT_OPERATIONS \<and> tool \<noteq> ''replay_trajectory'' then
           (advertised_risk_for tool)\<lparr>enforcement := Active\<rparr>
         else advertised_risk_for tool)"


section \<open>Hard invariants\<close>

datatype authorization_error =
    AuthDenied string
  | AuthEvaluation string
  | AuthLoading string

definition process_targeting_tool :: "string \<Rightarrow> bool" where
  "process_targeting_tool tool =
     (tool \<in> set [''click'', ''double_click'', ''right_click'', ''drag'', ''scroll'',
        ''type_text'', ''type_text_chars'', ''press_key'', ''hotkey'', ''set_value'',
        ''kill_app'', ''bring_to_front'', ''present_window'', ''begin_foreground_segment'',
        ''end_foreground_segment'', ''prepare_dialog'', ''prepare_observation'',
        ''get_accessibility_tree'', ''get_window_state'', ''verify_state'', ''page'',
        ''browser_prepare''])"

definition enforce_hard_invariants ::
    "int \<Rightarrow> string \<Rightarrow> json \<Rightarrow> authorization_error + unit" where
  "enforce_hard_invariants own_pid tool args =
     (if process_targeting_tool tool \<and> get_i64 args ''pid'' = Some own_pid
      then Inl (AuthDenied
        ''Cua Driver refuses operations that target its own authorization process'')
      else Inr ())"


section \<open>Startup configuration\<close>

datatype permission_mode_error =
    UnknownMode string
  | MissingDangerAcknowledgement
  | UnexpectedDangerAcknowledgement
  | MissingSessionPolicy
  | MissingSessionPolicyApproval
  | UnexpectedSessionPolicy
  | UnrestrictedDisabled

definition mode_of_name :: "string \<Rightarrow> permission_mode option" where
  "mode_of_name s =
     (if s = ''standard'' then Some Standard
      else if s \<in> set [''bounded'', ''autonomous''] then Some Bounded
      else if s \<in> set [''unrestricted'', ''yolo''] then Some Unrestricted
      else None)"

definition parse_permission_mode ::
    "string option \<Rightarrow> bool \<Rightarrow> permission_mode_error + permission_mode" where
  "parse_permission_mode configured bypass =
     (let name = (case configured of Some s \<Rightarrow> s | None \<Rightarrow> ''standard'')
      in case mode_of_name name of
           None \<Rightarrow> Inl (UnknownMode name)
         | Some m \<Rightarrow>
             (case (m, bypass) of
                (Unrestricted, False) \<Rightarrow> Inl MissingDangerAcknowledgement
              | (Standard, True) \<Rightarrow> Inl UnexpectedDangerAcknowledgement
              | (Bounded, True) \<Rightarrow> Inl UnexpectedDangerAcknowledgement
              | _ \<Rightarrow> Inr m))"

text \<open>The process environment: the value of each variable that is set.\<close>

type_synonym environment = "string \<Rightarrow> string option"

definition env_flag :: "environment \<Rightarrow> string \<Rightarrow> bool" where
  "env_flag env name =
     (case env name of
        None \<Rightarrow> False
      | Some v \<Rightarrow> to_ascii_lowercase (trim v) \<in> set [''1'', ''true'', ''yes'', ''on''])"

definition configured_permission_mode :: "environment \<Rightarrow> permission_mode_error + permission_mode" where
  "configured_permission_mode env =
     parse_permission_mode (env ''CUA_DRIVER_PERMISSION_MODE'')
       (env_flag env ''CUA_DRIVER_DANGEROUSLY_BYPASS_APPROVALS'')"

datatype launch_grant_error = EmptyGrant | UnknownGrant string | GrantsAlreadyConfigured

fun normalize_grants :: "string list \<Rightarrow> launch_grant_error + string list" where
  "normalize_grants [] = Inr []"
| "normalize_grants (g # gs) =
     (let t = trim g
      in if t \<in> set [''existing-profile'', ''existing_profile''] then
           map_sum (\<lambda>e. e) (\<lambda>rest. List.insert ''existing_profile'' rest) (normalize_grants gs)
         else if t = [] then Inl EmptyGrant
         else Inl (UnknownGrant t))"

text \<open>The process-wide cell is set at most once.\<close>

definition configure_launch_grants ::
    "string list \<Rightarrow> string list option \<Rightarrow> string list option \<times> (launch_grant_error + unit)" where
  "configure_launch_grants grants cell =
     (case normalize_grants grants of
        Inl e \<Rightarrow> (cell, Inl e)
      | Inr gs \<Rightarrow>
          (case cell of
             Some _ \<Rightarrow> (cell, Inl GrantsAlreadyConfigured)
           | None \<Rightarrow> (Some gs, Inr ())))"

definition launch_grant_enabled :: "string \<Rightarrow> string list option \<Rightarrow> bool" where
  "launch_grant_enabled g cell = (case cell of Some gs \<Rightarrow> g \<in> set gs | None \<Rightarrow> False)"


section \<open>Lemmas\<close>

lemmas adapter_defs =
  adapter_browser_prepare_isolated_def adapter_browser_prepare_existing_profile_def
  adapter_private_observation_def adapter_computer_history_def adapter_desktop_input_def
  adapter_file_transfer_and_output_def adapter_browser_consequential_action_def
  adapter_browser_unbounded_script_def adapter_browser_bound_input_def
  adapter_process_control_def adapter_os_permission_prompt_def
  adapter_driver_configuration_def adapter_clipboard_def adapter_devices_def
  adapter_shell_and_network_def

text \<open>The columns of the inventory the decisions read.\<close>

lemma adapter_ids:
  "map adapter_id ENFORCEMENT_ADAPTERS =
     [''browser_prepare.isolated'', ''browser_prepare.existing_profile'', ''private_observation'',
      ''computer_history'', ''desktop_input'', ''file_transfer_and_output'',
      ''browser_consequential_action'', ''browser_unbounded_script'', ''browser_bound_input'',
      ''process_control'', ''os_permission_prompt'', ''driver_configuration'', ''clipboard'',
      ''devices'', ''shell_and_network'']"
  by (simp add: ENFORCEMENT_ADAPTERS_def adapter_defs)

lemma adapter_columns [simp]:
  "adapter_id adapter_browser_prepare_isolated = ''browser_prepare.isolated''"
  "adapter_id adapter_browser_prepare_existing_profile = ''browser_prepare.existing_profile''"
  "adapter_id adapter_private_observation = ''private_observation''"
  "adapter_id adapter_computer_history = ''computer_history''"
  "adapter_id adapter_desktop_input = ''desktop_input''"
  "adapter_id adapter_file_transfer_and_output = ''file_transfer_and_output''"
  "adapter_id adapter_browser_consequential_action = ''browser_consequential_action''"
  "adapter_id adapter_browser_unbounded_script = ''browser_unbounded_script''"
  "adapter_id adapter_browser_bound_input = ''browser_bound_input''"
  "adapter_id adapter_process_control = ''process_control''"
  "adapter_id adapter_os_permission_prompt = ''os_permission_prompt''"
  "adapter_id adapter_driver_configuration = ''driver_configuration''"
  "adapter_id adapter_clipboard = ''clipboard''"
  "adapter_id adapter_devices = ''devices''"
  "adapter_id adapter_shell_and_network = ''shell_and_network''"
  by (simp_all add: adapter_defs)

lemma adapter_states [simp]:
  "adapter_state adapter_browser_prepare_isolated = Active"
  "adapter_state adapter_browser_prepare_existing_profile = Active"
  "adapter_state adapter_private_observation = Active"
  "adapter_state adapter_computer_history = Active"
  "adapter_state adapter_desktop_input = Active"
  "adapter_state adapter_file_transfer_and_output = Active"
  "adapter_state adapter_browser_consequential_action = Active"
  "adapter_state adapter_browser_unbounded_script = Active"
  "adapter_state adapter_browser_bound_input = Active"
  "adapter_state adapter_process_control = Active"
  "adapter_state adapter_os_permission_prompt = Active"
  "adapter_state adapter_driver_configuration = Active"
  "adapter_state adapter_clipboard = Active"
  "adapter_state adapter_devices = NotExposed"
  "adapter_state adapter_shell_and_network = NotExposed"
  by (simp_all add: adapter_defs)

lemma adapter_risks [simp]:
  "adapter_risk adapter_browser_prepare_isolated = R1"
  "adapter_risk adapter_browser_prepare_existing_profile = R2"
  "adapter_risk adapter_private_observation = R2"
  "adapter_risk adapter_computer_history = R2"
  "adapter_risk adapter_desktop_input = R1"
  "adapter_risk adapter_file_transfer_and_output = R3"
  "adapter_risk adapter_browser_consequential_action = R3"
  "adapter_risk adapter_browser_unbounded_script = R3"
  "adapter_risk adapter_browser_bound_input = R2"
  "adapter_risk adapter_process_control = R3"
  "adapter_risk adapter_os_permission_prompt = R2"
  "adapter_risk adapter_driver_configuration = R2"
  "adapter_risk adapter_clipboard = R2"
  "adapter_risk adapter_devices = Unclassified"
  "adapter_risk adapter_shell_and_network = Unclassified"
  by (simp_all add: adapter_defs)

lemma adapter_behaviors [simp]:
  "profile_behavior adapter_browser_prepare_isolated = Routine"
  "profile_behavior adapter_browser_prepare_existing_profile = GrantInStandard"
  "profile_behavior adapter_private_observation = Routine"
  "profile_behavior adapter_computer_history = GrantInStandard"
  "profile_behavior adapter_desktop_input = Routine"
  "profile_behavior adapter_file_transfer_and_output = Routine"
  "profile_behavior adapter_browser_consequential_action = Routine"
  "profile_behavior adapter_browser_unbounded_script = UnrestrictedOnly"
  "profile_behavior adapter_browser_bound_input = Routine"
  "profile_behavior adapter_process_control = BoundedOrUnrestricted"
  "profile_behavior adapter_os_permission_prompt = AlwaysDenied"
  "profile_behavior adapter_driver_configuration = Routine"
  "profile_behavior adapter_clipboard = Routine"
  "profile_behavior adapter_devices = AlwaysDenied"
  "profile_behavior adapter_shell_and_network = AlwaysDenied"
  by (simp_all add: adapter_defs)

lemma find_adapter_declared:
  "find_adapter ''browser_prepare.isolated'' = Some adapter_browser_prepare_isolated"
  "find_adapter ''browser_prepare.existing_profile'' = Some adapter_browser_prepare_existing_profile"
  "find_adapter ''private_observation'' = Some adapter_private_observation"
  "find_adapter ''computer_history'' = Some adapter_computer_history"
  "find_adapter ''desktop_input'' = Some adapter_desktop_input"
  "find_adapter ''file_transfer_and_output'' = Some adapter_file_transfer_and_output"
  "find_adapter ''browser_consequential_action'' = Some adapter_browser_consequential_action"
  "find_adapter ''browser_unbounded_script'' = Some adapter_browser_unbounded_script"
  "find_adapter ''browser_bound_input'' = Some adapter_browser_bound_input"
  "find_adapter ''process_control'' = Some adapter_process_control"
  "find_adapter ''os_permission_prompt'' = Some adapter_os_permission_prompt"
  "find_adapter ''driver_configuration'' = Some adapter_driver_configuration"
  "find_adapter ''clipboard'' = Some adapter_clipboard"
  "find_adapter ''devices'' = Some adapter_devices"
  "find_adapter ''shell_and_network'' = Some adapter_shell_and_network"
  by (simp_all add: find_adapter_def ENFORCEMENT_ADAPTERS_def)

lemma find_adapter_Some: "find_adapter i = Some a \<Longrightarrow> a \<in> set ENFORCEMENT_ADAPTERS \<and> adapter_id a = i"
  by (auto simp: find_adapter_def find_Some_iff)

lemma set_add_id [simp]: "set (add_id c i ids) = (if c then insert i (set ids) else set ids)"
  by (auto simp: add_id_def)

lemma distinct_add_id [simp]: "distinct ids \<Longrightarrow> distinct (add_id c i ids)"
  by (auto simp: add_id_def)

lemma set_fold_add_id:
  "set (fold (\<lambda>(c, i). add_id c i) xs ids) = set ids \<union> {i. (True, i) \<in> set xs}"
  by (induction xs arbitrary: ids) (auto split: if_splits)

lemma distinct_fold_add_id:
  "distinct ids \<Longrightarrow> distinct (fold (\<lambda>(c, i). add_id c i) xs ids)"
proof (induction xs arbitrary: ids)
  case (Cons x xs)
  then show ?case by (cases x) simp
qed simp

lemma distinct_adapter_ids_for_call: "distinct (adapter_ids_for_call tool args)"
  unfolding adapter_ids_for_call_def Let_def by (rule distinct_fold_add_id) simp

definition prepares_existing :: "string \<Rightarrow> json \<Rightarrow> bool" where
  "prepares_existing tool args =
     (tool = ''browser_prepare'' \<and> pointer_str args [''strategy'', ''kind''] = Some ''existing_profile'')"

lemma chosen_Cons: "(True, i) \<in> set ((c, j) # xs) \<longleftrightarrow> (i = j \<and> c) \<or> (True, i) \<in> set xs"
  by auto

lemma nil_member: "x \<in> set [] \<longleftrightarrow> False"
  by simp

text \<open>When a call is composed of an adapter.\<close>

lemma adapter_ids_for_call_iff:
  "i \<in> set (adapter_ids_for_call tool args) \<longleftrightarrow>
     (i = ''browser_prepare.existing_profile'' \<and> prepares_existing tool args)
   \<or> (i = ''browser_prepare.isolated'' \<and> \<not> prepares_existing tool args \<and> tool = ''browser_prepare''
        \<and> pointer_str args [''profile'', ''mode''] \<in> set [Some ''isolated_new'', Some ''isolated_named''])
   \<or> (i = ''private_observation'' \<and> observes tool args)
   \<or> (i = ''computer_history'' \<and> tool \<in> set [''history_status'', ''history_query''])
   \<or> (i = ''desktop_input'' \<and> tool \<in> set DESKTOP_INPUT_OPERATIONS)
   \<or> (i = ''clipboard'' \<and> tool \<in> set [''clipboard_read'', ''clipboard_write''])
   \<or> (i = ''file_transfer_and_output'' \<and> transfers_files tool args)
   \<or> (i = ''browser_consequential_action'' \<and> tool = ''browser_dialog''
        \<and> get_str args ''action'' \<in> set [Some ''accept'', Some ''dismiss''])
   \<or> (i = ''browser_unbounded_script'' \<and> tool = ''page''
        \<and> (case get_str args ''action'' of
              Some a \<Rightarrow> a \<in> set LEGACY_PAGE_MUTATING_ACTIONS | None \<Rightarrow> False))
   \<or> (i = ''browser_bound_input'' \<and> tool \<in> set BROWSER_BOUND_INPUT_OPERATIONS)
   \<or> (i = ''process_control'' \<and> tool \<in> set PROCESS_CONTROL_OPERATIONS)
   \<or> (i = ''os_permission_prompt'' \<and> tool = ''check_permissions'' \<and> get_bool args ''prompt'' = Some True)
   \<or> (i = ''driver_configuration'' \<and> tool \<in> set DRIVER_CONFIGURATION_OPERATIONS)"
  unfolding adapter_ids_for_call_def Let_def set_fold_add_id prepares_existing_def
  by (simp only: chosen_Cons nil_member mem_Collect_eq Un_iff simp_thms)

lemma adapter_ids_declared:
  "i \<in> set (adapter_ids_for_call tool args) \<Longrightarrow>
   \<exists>a. find_adapter i = Some a \<and> adapter_state a = Active"
  unfolding adapter_ids_for_call_iff
  by (elim disjE conjE; hypsubst; simp only: find_adapter_declared option.inject ex_simps
      adapter_states simp_thms)


lemma those_map_Some: "list_all (\<lambda>x. f x \<noteq> None) xs \<Longrightarrow> those (map f xs) = Some (map (the \<circ> f) xs)"
  by (induction xs) auto

lemma call_adapters_eq:
  "enforcement_adapters_for_call tool args =
     Some (map (the \<circ> find_adapter) (adapter_ids_for_call tool args))"
  unfolding enforcement_adapters_for_call_def
  by (rule those_map_Some) (auto simp: list_all_iff dest: adapter_ids_declared)

lemma call_adapter_ids:
  "map adapter_id (map (the \<circ> find_adapter) (adapter_ids_for_call tool args)) =
     adapter_ids_for_call tool args"
  by (auto intro!: map_idI dest!: adapter_ids_declared dest: find_adapter_Some)

lemmas tool_table_defs = R0_TOOLS_def R1_TOOLS_def R2_TOOLS_def R3_TOOLS_def

lemma advertised_special:
  "advertised_class ''browser_prepare'' = R2" "advertised_class ''browser_dialog'' = R3"
  "advertised_class ''page'' = R3" "advertised_class ''get_desktop_state'' = R3"
  "advertised_class ''get_window_state'' = R3" "advertised_class ''verify_state'' = R2"
  "advertised_class ''get_accessibility_tree'' = R2" "advertised_class ''list_apps'' = R2"
  "advertised_class ''list_windows'' = R2" "advertised_class ''debug_window_info'' = R2"
  "advertised_class ''get_browser_state'' = R2" "advertised_class ''escalate_session'' = R2"
  "advertised_class ''zoom'' = R2" "advertised_class ''clipboard_read'' = R2"
  "advertised_class ''history_status'' = R2" "advertised_class ''history_query'' = R2"
  "advertised_class ''check_permissions'' = R2" "advertised_class ''browser_set_input_files'' = R3"
  "advertised_class ''browser_download'' = R3" "advertised_class ''start_recording'' = R2"
  "advertised_class ''stop_recording'' = R3" "advertised_class ''replay_trajectory'' = R3"
  "advertised_class ''clipboard_write'' = R1" "advertised_class ''install_ffmpeg'' = R3"
  by (simp_all add: advertised_class_def tool_table_defs)

definition special_tools :: "string list" where
  "special_tools =
     [''browser_prepare'', ''browser_dialog'', ''page'', ''get_desktop_state'', ''get_window_state'',
      ''verify_state'', ''get_accessibility_tree'', ''list_apps'', ''list_windows'',
      ''debug_window_info'', ''get_browser_state'', ''escalate_session'', ''zoom'',
      ''clipboard_read'', ''history_status'', ''history_query'', ''check_permissions'',
      ''browser_set_input_files'', ''browser_download'', ''start_recording'', ''stop_recording'',
      ''replay_trajectory'', ''clipboard_write'', ''install_ffmpeg'']"

lemma classify_plain:
  "tool \<notin> set special_tools \<Longrightarrow> risk (classify_tool_call tool args) = advertised_class tool"
  by (simp add: classify_tool_call_def special_tools_def advertised_risk_for_def Let_def)

lemma classify_special:
  "risk (classify_tool_call ''browser_prepare'' args) =
     (if prepares_existing ''browser_prepare'' args then R2 else R1)"
  "risk (classify_tool_call ''browser_dialog'' args) =
     (if get_str args ''action'' = Some ''inspect'' then R2 else R3)"
  "risk (classify_tool_call ''page'' args) =
     (if get_str args ''action'' \<in> {Some ''get_text'', Some ''query_dom''} then R2 else R3)"
  "risk (classify_tool_call ''get_desktop_state'' args) =
     (if writes_screenshot ''get_desktop_state'' args then R3 else R2)"
  "risk (classify_tool_call ''get_window_state'' args) =
     (if writes_screenshot ''get_window_state'' args then R3 else R2)"
  "risk (classify_tool_call ''verify_state'' args) = R2"
  "risk (classify_tool_call ''get_accessibility_tree'' args) = R2"
  "risk (classify_tool_call ''list_apps'' args) = R2"
  "risk (classify_tool_call ''list_windows'' args) = R2"
  "risk (classify_tool_call ''debug_window_info'' args) = R2"
  "risk (classify_tool_call ''get_browser_state'' args) = R2"
  "risk (classify_tool_call ''escalate_session'' args) = R2"
  "risk (classify_tool_call ''zoom'' args) = R2"
  "risk (classify_tool_call ''clipboard_read'' args) = R2"
  "risk (classify_tool_call ''history_status'' args) = R2"
  "risk (classify_tool_call ''history_query'' args) = R2"
  "risk (classify_tool_call ''check_permissions'' args) =
     (if get_bool args ''prompt'' = Some True then R2 else R0)"
  "risk (classify_tool_call ''browser_set_input_files'' args) = R3"
  "risk (classify_tool_call ''browser_download'' args) = R3"
  "risk (classify_tool_call ''start_recording'' args) = R3"
  "risk (classify_tool_call ''stop_recording'' args) = R3"
  "risk (classify_tool_call ''replay_trajectory'' args) = R3"
  "risk (classify_tool_call ''clipboard_write'' args) = (if clipboard_file args then R3 else R1)"
  "risk (classify_tool_call ''install_ffmpeg'' args) =
     (if get_bool args ''confirm'' = Some True then R3 else R0)"
  by (simp_all add: classify_tool_call_def sensitive_def prepares_existing_def Let_def)

lemma special_cases:
  assumes "\<And>t. t \<notin> set special_tools \<Longrightarrow> P t"
    and "list_all P special_tools"
  shows "P t"
  using assms by (cases "t \<in> set special_tools") (auto simp: list_all_iff)

lemma risk_order_simps [simp]:
  "(R0 :: risk_class) \<le> c" "c \<le> (R0 :: risk_class) \<longleftrightarrow> c = R0"
  "(R1 :: risk_class) \<le> R1" "(R1 :: risk_class) \<le> R2" "(R1 :: risk_class) \<le> R3"
  "(R2 :: risk_class) \<le> R2" "(R2 :: risk_class) \<le> R3" "(R3 :: risk_class) \<le> R3"
  "\<not> (R2 :: risk_class) \<le> R1" "\<not> (R3 :: risk_class) \<le> R1" "\<not> (R3 :: risk_class) \<le> R2"
  by (cases c; simp add: risk_le)+

lemma classify_unclassified:
  "risk (classify_tool_call tool args) = Unclassified \<longleftrightarrow> advertised_class tool = Unclassified"
proof (rule special_cases [of "\<lambda>t. risk (classify_tool_call t args) = Unclassified \<longleftrightarrow> advertised_class t = Unclassified"])
  show "list_all (\<lambda>t. risk (classify_tool_call t args) = Unclassified \<longleftrightarrow> advertised_class t = Unclassified) special_tools"
    unfolding special_tools_def
    by (simp only: list.pred_inject classify_special advertised_special) simp
qed (simp add: classify_plain)

lemma classify_le_advertised:
  assumes "tool \<noteq> ''start_recording''" "tool \<noteq> ''clipboard_write''"
  shows "risk (classify_tool_call tool args) \<le> advertised_class tool"
proof -
  let ?P = "\<lambda>t. t \<noteq> ''start_recording'' \<longrightarrow> t \<noteq> ''clipboard_write'' \<longrightarrow>
     risk (classify_tool_call t args) \<le> advertised_class t"
  have "?P tool"
  proof (rule special_cases [of ?P])
    show "list_all ?P special_tools"
      unfolding special_tools_def
      by (simp only: list.pred_inject classify_special advertised_special) simp
  qed (simp add: classify_plain)
  with assms show ?thesis by simp
qed


lemma observes_risk: "observes tool args \<Longrightarrow> R2 \<le> risk (classify_tool_call tool args)"
  unfolding observes_def
  by (elim disjE conjE; (simp only: list.set insert_iff empty_iff simp_thms)?; (elim disjE)?;
      simp add: classify_special)

lemma transfers_risk: "transfers_files tool args \<Longrightarrow> R3 \<le> risk (classify_tool_call tool args)"
  unfolding transfers_files_def
proof (elim disjE)
  assume "writes_screenshot tool args"
  then show ?thesis by (auto simp: writes_screenshot_def [of tool] classify_special writes_screenshot_def)
qed (auto simp: classify_special)

lemma desktop_input_classes:
  "list_all (\<lambda>t. t = ''replay_trajectory'' \<or> (t \<notin> set special_tools \<and> advertised_class t = R1))
     DESKTOP_INPUT_OPERATIONS"
  unfolding DESKTOP_INPUT_OPERATIONS_def
  by (simp add: special_tools_def advertised_class_def tool_table_defs)

lemma desktop_input_risk:
  "tool \<in> set DESKTOP_INPUT_OPERATIONS \<Longrightarrow> R1 \<le> risk (classify_tool_call tool args)"
  using desktop_input_classes by (auto simp: list_all_iff classify_special classify_plain)

lemma bound_input_classes:
  "list_all (\<lambda>t. t \<notin> set special_tools \<and> advertised_class t = R2) BROWSER_BOUND_INPUT_OPERATIONS"
  "list_all (\<lambda>t. t \<notin> set special_tools \<and> advertised_class t = R3) PROCESS_CONTROL_OPERATIONS"
  "list_all (\<lambda>t. t \<notin> set special_tools \<and> advertised_class t = R2) DRIVER_CONFIGURATION_OPERATIONS"
  unfolding BROWSER_BOUND_INPUT_OPERATIONS_def PROCESS_CONTROL_OPERATIONS_def
    DRIVER_CONFIGURATION_OPERATIONS_def
  by (simp_all add: special_tools_def advertised_class_def tool_table_defs)

lemma plain_list_risk:
  "list_all (\<lambda>t. t \<notin> set special_tools \<and> advertised_class t = c) ts \<Longrightarrow> tool \<in> set ts \<Longrightarrow>
   risk (classify_tool_call tool args) = c"
  by (auto simp: list_all_iff classify_plain)

lemma page_action_disjoint:
  "(case get_str args ''action'' of Some a \<Rightarrow> a \<in> set LEGACY_PAGE_MUTATING_ACTIONS | None \<Rightarrow> False) \<Longrightarrow>
   get_str args ''action'' \<notin> {Some ''get_text'', Some ''query_dom''}"
  by (auto simp: LEGACY_PAGE_MUTATING_ACTIONS_def split: option.splits)

lemma adapter_risk_covered:
  assumes "i \<in> set (adapter_ids_for_call tool args)" "i \<noteq> ''clipboard''"
  shows "adapter_risk (the (find_adapter i)) \<le> risk (classify_tool_call tool args)"
  using assms(1) [unfolded adapter_ids_for_call_iff]
proof (elim disjE conjE)
  assume "i = ''browser_unbounded_script''" "tool = ''page''"
    "case get_str args ''action'' of Some a \<Rightarrow> a \<in> set LEGACY_PAGE_MUTATING_ACTIONS | None \<Rightarrow> False"
  then show ?thesis using page_action_disjoint [of args]
    by (simp add: find_adapter_declared classify_special)
next
  assume "i = ''browser_prepare.existing_profile''" "prepares_existing tool args"
  then show ?thesis
    by (simp add: find_adapter_declared prepares_existing_def classify_special)
next
  assume "i = ''clipboard''"
  with assms(2) show ?thesis by simp
next
  assume "i = ''browser_bound_input''" "tool \<in> set BROWSER_BOUND_INPUT_OPERATIONS"
  then show ?thesis
    by (simp add: find_adapter_declared plain_list_risk [OF bound_input_classes(1)])
next
  assume "i = ''process_control''" "tool \<in> set PROCESS_CONTROL_OPERATIONS"
  then show ?thesis
    by (simp add: find_adapter_declared plain_list_risk [OF bound_input_classes(2)])
next
  assume "i = ''driver_configuration''" "tool \<in> set DRIVER_CONFIGURATION_OPERATIONS"
  then show ?thesis
    by (simp add: find_adapter_declared plain_list_risk [OF bound_input_classes(3)])
next
  assume "i = ''private_observation''" "observes tool args"
  then show ?thesis by (simp add: find_adapter_declared observes_risk)
next
  assume "i = ''desktop_input''" "tool \<in> set DESKTOP_INPUT_OPERATIONS"
  then show ?thesis by (simp add: find_adapter_declared desktop_input_risk)
next
  assume "i = ''file_transfer_and_output''" "transfers_files tool args"
  then show ?thesis by (simp add: find_adapter_declared transfers_risk)
qed (auto simp: find_adapter_declared classify_special)



section \<open>Properties\<close>

text \<open>C10. Every call composes declared, active adapters, each at most once, so the lookup of the
  adapter table never panics; and apart from the clipboard each composed adapter's reviewed
  risk is at most the risk the exact call is classified with, so no adapter of a call is hidden
  behind a lower risk class.\<close>

theorem call_risk_covers_adapters:
  "\<exists>as. enforcement_adapters_for_call tool args = Some as
     \<and> map adapter_id as = adapter_ids_for_call tool args \<and> distinct (map adapter_id as)
     \<and> list_all (\<lambda>a. find_adapter (adapter_id a) = Some a \<and> adapter_state a = Active) as
     \<and> list_all (\<lambda>a. adapter_id a = ''clipboard''
                    \<or> adapter_risk a \<le> risk (classify_tool_call tool args)) as"
proof -
  define ids where "ids = adapter_ids_for_call tool args"
  define r where "r = risk (classify_tool_call tool args)"
  have fact: "\<exists>a. find_adapter i = Some a \<and> adapter_id a = i \<and> adapter_state a = Active
      \<and> (i = ''clipboard'' \<or> adapter_risk a \<le> r)" if i: "i \<in> set ids" for i
  proof -
    from adapter_ids_declared [OF i [unfolded ids_def]] obtain a where
      a: "find_adapter i = Some a" "adapter_state a = Active" by blast
    from find_adapter_Some [OF a(1)] adapter_risk_covered [OF i [unfolded ids_def]] a
    have "adapter_id a = i" "i = ''clipboard'' \<or> adapter_risk a \<le> r" by (auto simp: r_def)
    with a show ?thesis by blast
  qed
  have "list_all (\<lambda>a. find_adapter (adapter_id a) = Some a \<and> adapter_state a = Active)
      (map (the \<circ> find_adapter) ids)"
    "list_all (\<lambda>a. adapter_id a = ''clipboard'' \<or> adapter_risk a \<le> r) (map (the \<circ> find_adapter) ids)"
    unfolding list.pred_map list_all_iff using fact by force+
  with call_adapters_eq [of tool args] call_adapter_ids [of tool args]
    distinct_adapter_ids_for_call [of tool args]
  show ?thesis unfolding ids_def [symmetric] r_def [symmetric] by auto
qed

text \<open>Whether a call is refused as unreviewed depends on the tool name alone, never on its
  arguments; and the risk advertised for a tool bounds the risk of each of its calls, except
  for the two tools whose calls can exceed it: \<open>start_recording\<close>, advertised R2 but always
  classified R3, and \<open>clipboard_write\<close>, advertised R1 but R3 for a file.\<close>

theorem advertised_risk_bounds_calls:
  "(risk (classify_tool_call tool args) = Unclassified \<longleftrightarrow>
      tool \<notin> set (R0_TOOLS @ R1_TOOLS @ R2_TOOLS @ R3_TOOLS))
   \<and> (risk (classify_tool_call tool args) \<le> risk (advertised_risk_for tool)
      \<or> tool = ''start_recording'' \<or> (tool = ''clipboard_write'' \<and> clipboard_file args))
   \<and> risk (advertised_risk_for ''start_recording'') < risk (classify_tool_call ''start_recording'' args)"
proof -
  have "advertised_class tool = Unclassified \<longleftrightarrow>
      tool \<notin> set (R0_TOOLS @ R1_TOOLS @ R2_TOOLS @ R3_TOOLS)"
    by (simp add: advertised_class_def)
  moreover have "risk (classify_tool_call tool args) \<le> advertised_class tool
      \<or> tool = ''start_recording'' \<or> (tool = ''clipboard_write'' \<and> clipboard_file args)"
    using classify_le_advertised [of tool args]
    by (cases "tool = ''clipboard_write''") (auto simp: classify_special advertised_special)
  ultimately show ?thesis
    by (simp add: advertised_risk_for_def classify_unclassified classify_special advertised_special risk_le)
qed

text \<open>The permission mode comes from trusted startup configuration and nothing else:
  unrestricted needs both its name and the bypass acknowledgement, the acknowledgement is
  refused with any other mode, and an unset mode is standard.\<close>

theorem mode_needs_matching_acknowledgement:
  "(configured_permission_mode env = Inr Unrestricted \<longleftrightarrow>
      env ''CUA_DRIVER_PERMISSION_MODE'' \<in> {Some ''unrestricted'', Some ''yolo''}
      \<and> env_flag env ''CUA_DRIVER_DANGEROUSLY_BYPASS_APPROVALS'')
   \<and> (configured_permission_mode env = Inr Bounded \<longleftrightarrow>
      env ''CUA_DRIVER_PERMISSION_MODE'' \<in> {Some ''bounded'', Some ''autonomous''}
      \<and> \<not> env_flag env ''CUA_DRIVER_DANGEROUSLY_BYPASS_APPROVALS'')
   \<and> (configured_permission_mode env = Inr Standard \<longleftrightarrow>
      env ''CUA_DRIVER_PERMISSION_MODE'' \<in> {None, Some ''standard''}
      \<and> \<not> env_flag env ''CUA_DRIVER_DANGEROUSLY_BYPASS_APPROVALS'')"
  by (cases "env ''CUA_DRIVER_PERMISSION_MODE''";
      cases "env_flag env ''CUA_DRIVER_DANGEROUSLY_BYPASS_APPROVALS''")
     (simp_all add: configured_permission_mode_def parse_permission_mode_def Let_def mode_of_name_def)

end
