(* ===== verification/Policy.thy ===== *)
theory Policy
  imports Authorization
begin

text \<open>
  Model of \<open>cua-driver-core/src/policy.rs\<close>: the compilation and evaluation of a YAML
  permission policy, the Rego engine as a parameter, the intersection of the managed and the
  user layer, listing, the loading of a configured layer and the digest that binds a policy's
  files to its grants. The regular-expression library (\<open>regex_new\<close>, \<open>regex_match\<close>), the Rego
  engine (\<open>rego_eval\<close>) and SHA-256 are parameters; the parsed YAML document is the argument
  of the compilation. Argument numbers are compared as the IEEE double that \<open>as_f64\<close> yields.
\<close>

section \<open>Numbers as doubles\<close>

datatype f64 = Fin rat | PosInf | NegInf | NaN

fun f64_less :: "f64 \<Rightarrow> f64 \<Rightarrow> bool" where
  "f64_less (Fin a) (Fin b) = (a < b)"
| "f64_less NaN _ = False"
| "f64_less _ NaN = False"
| "f64_less PosInf _ = False"
| "f64_less _ PosInf = True"
| "f64_less _ NegInf = False"
| "f64_less NegInf _ = True"

fun bit_size :: "nat \<Rightarrow> nat" where
  "bit_size n = (if n = 0 then 0 else Suc (bit_size (n div 2)))"

declare bit_size.simps [simp del]

text \<open>Rounding of an integer to 53 significant bits, ties to even.\<close>

definition round_nat :: "nat \<Rightarrow> nat" where
  "round_nat n =
     (let e = bit_size n - 53; q = n div 2 ^ e; r = n mod 2 ^ e
      in (if 2 ^ e < 2 * r \<or> (2 ^ e = 2 * r \<and> odd q) then q + 1 else q) * 2 ^ e)"

fun as_f64 :: "json \<Rightarrow> f64 option" where
  "as_f64 (JNum (PosInt n)) = Some (Fin (of_nat (round_nat n)))"
| "as_f64 (JNum (NegInt i)) = Some (Fin (- of_nat (round_nat (nat (- i)))))"
| "as_f64 (JNum (JFloat r)) = Some (Fin r)"
| "as_f64 _ = None"


section \<open>YAML policies\<close>

record raw_constraint =
  raw_min :: "f64 option"
  raw_max :: "f64 option"
  raw_max_length :: "nat option"
  raw_pattern :: "string option"
  raw_allowed :: "json list option"

record raw_rule =
  raw_tool :: string
  raw_constraints :: "(string \<times> raw_constraint) list"

datatype raw_allow_entry = AllowTool string | AllowRule raw_rule

datatype raw_allow =
    AllowDetailed "string list" "raw_rule list"
  | AllowEntries "raw_allow_entry list"

datatype raw_deny = DenyDetailed "string list" | DenyTools "string list"

record raw_policy =
  raw_allow_section :: raw_allow
  raw_deny_section :: raw_deny

record 're constraint =
  c_min :: "f64 option"
  c_max :: "f64 option"
  c_max_length :: "nat option"
  c_pattern :: "'re option"
  c_allowed :: "json list option"

record 're yaml_rule =
  rule_tool :: string
  constraints :: "(string \<times> 're constraint) list"

record 're yaml_policy =
  allowed_tools :: "string list"
  rules :: "'re yaml_rule list"
  denied_tools :: "string list"

fun allow_tools :: "raw_allow_entry list \<Rightarrow> string list" where
  "allow_tools [] = []"
| "allow_tools (AllowTool t # es) = t # allow_tools es"
| "allow_tools (AllowRule r # es) = allow_tools es"

fun allow_rules :: "raw_allow_entry list \<Rightarrow> raw_rule list" where
  "allow_rules [] = []"
| "allow_rules (AllowTool t # es) = allow_rules es"
| "allow_rules (AllowRule r # es) = r # allow_rules es"

fun into_parts :: "raw_allow \<Rightarrow> string list \<times> raw_rule list" where
  "into_parts (AllowDetailed tools rs) = (tools, rs)"
| "into_parts (AllowEntries es) = (allow_tools es, allow_rules es)"

fun into_tools :: "raw_deny \<Rightarrow> string list" where
  "into_tools (DenyDetailed tools) = tools"
| "into_tools (DenyTools tools) = tools"

datatype policy_load_error =
    EmptyToolName
  | EmptyRuleTool
  | NoCheck
  | MinAboveMax
  | InvalidPattern

definition constraint_compile ::
    "(string \<Rightarrow> 're option) \<Rightarrow> raw_constraint \<Rightarrow> policy_load_error + 're constraint" where
  "constraint_compile regex_new raw =
     (if raw_min raw = None \<and> raw_max raw = None \<and> raw_max_length raw = None
         \<and> raw_pattern raw = None \<and> raw_allowed raw = None then Inl NoCheck
      else if (case (raw_min raw, raw_max raw) of
                 (Some lo, Some hi) \<Rightarrow> f64_less hi lo | _ \<Rightarrow> False) then Inl MinAboveMax
      else
        (let done = (\<lambda>p. Inr \<lparr>c_min = raw_min raw, c_max = raw_max raw,
                              c_max_length = raw_max_length raw, c_pattern = p,
                              c_allowed = raw_allowed raw\<rparr>)
         in case raw_pattern raw of
              None \<Rightarrow> done None
            | Some src \<Rightarrow>
                (case regex_new src of None \<Rightarrow> Inl InvalidPattern | Some re \<Rightarrow> done (Some re))))"

fun compile_constraints ::
    "(string \<Rightarrow> 're option) \<Rightarrow> (string \<times> raw_constraint) list
     \<Rightarrow> policy_load_error + (string \<times> 're constraint) list" where
  "compile_constraints regex_new [] = Inr []"
| "compile_constraints regex_new ((arg, raw) # cs) =
     (case constraint_compile regex_new raw of
        Inl e \<Rightarrow> Inl e
      | Inr c \<Rightarrow> map_sum id (\<lambda>cs'. (arg, c) # cs') (compile_constraints regex_new cs))"

definition rule_compile ::
    "(string \<Rightarrow> 're option) \<Rightarrow> raw_rule \<Rightarrow> policy_load_error + 're yaml_rule" where
  "rule_compile regex_new raw =
     (if trim (raw_tool raw) = [] then Inl EmptyRuleTool
      else map_sum id (\<lambda>cs. \<lparr>rule_tool = raw_tool raw, constraints = cs\<rparr>)
             (compile_constraints regex_new (raw_constraints raw)))"

fun compile_rules ::
    "(string \<Rightarrow> 're option) \<Rightarrow> raw_rule list \<Rightarrow> policy_load_error + 're yaml_rule list" where
  "compile_rules regex_new [] = Inr []"
| "compile_rules regex_new (raw # rs) =
     (case rule_compile regex_new raw of
        Inl e \<Rightarrow> Inl e
      | Inr r \<Rightarrow> map_sum id (\<lambda>rs'. r # rs') (compile_rules regex_new rs))"

definition yaml_from_doc ::
    "(string \<Rightarrow> 're option) \<Rightarrow> raw_policy \<Rightarrow> policy_load_error + 're yaml_policy" where
  "yaml_from_doc regex_new doc =
     (let (tools, raw_rules) = into_parts (raw_allow_section doc);
          denied = into_tools (raw_deny_section doc)
      in if \<exists>t \<in> set (tools @ denied). trim t = [] then Inl EmptyToolName
         else map_sum id
                (\<lambda>rs. \<lparr>allowed_tools = tools, rules = rs, denied_tools = denied\<rparr>)
                (compile_rules regex_new raw_rules))"

datatype constraint_failure =
    ArgsNotObject
  | MissingArgument string
  | NotANumber string
  | BelowMin string
  | AboveMax string
  | NotAString string
  | TooLong string
  | PatternMismatch string
  | NotInAllowed string

definition check_range :: "string \<Rightarrow> 're constraint \<Rightarrow> json \<Rightarrow> constraint_failure option" where
  "check_range arg c v =
     (if c_min c = None \<and> c_max c = None then None
      else case as_f64 v of
        None \<Rightarrow> Some (NotANumber arg)
      | Some x \<Rightarrow>
          if (case c_min c of Some lo \<Rightarrow> f64_less x lo | None \<Rightarrow> False) then Some (BelowMin arg)
          else if (case c_max c of Some hi \<Rightarrow> f64_less hi x | None \<Rightarrow> False) then Some (AboveMax arg)
          else None)"

definition check_text ::
    "('re \<Rightarrow> string \<Rightarrow> bool) \<Rightarrow> string \<Rightarrow> 're constraint \<Rightarrow> json \<Rightarrow> constraint_failure option" where
  "check_text regex_match arg c v =
     (if c_max_length c = None \<and> c_pattern c = None then None
      else case as_str v of
        None \<Rightarrow> Some (NotAString arg)
      | Some text \<Rightarrow>
          if (case c_max_length c of Some n \<Rightarrow> n < chars_count text | None \<Rightarrow> False)
          then Some (TooLong arg)
          else if (case c_pattern c of Some re \<Rightarrow> \<not> regex_match re text | None \<Rightarrow> False)
          then Some (PatternMismatch arg)
          else None)"

definition check_allowed :: "string \<Rightarrow> 're constraint \<Rightarrow> json \<Rightarrow> constraint_failure option" where
  "check_allowed arg c v =
     (case c_allowed c of
        None \<Rightarrow> None
      | Some vs \<Rightarrow> if v \<notin> set vs then Some (NotInAllowed arg) else None)"

definition constraint_matches ::
    "('re \<Rightarrow> string \<Rightarrow> bool) \<Rightarrow> string \<Rightarrow> 're constraint \<Rightarrow> json \<Rightarrow> constraint_failure option" where
  "constraint_matches regex_match arg c v =
     (case check_range arg c v of
        Some f \<Rightarrow> Some f
      | None \<Rightarrow>
          (case check_text regex_match arg c v of
             Some f \<Rightarrow> Some f
           | None \<Rightarrow> check_allowed arg c v))"

fun match_constraints ::
    "('re \<Rightarrow> string \<Rightarrow> bool) \<Rightarrow> (string \<times> 're constraint) list \<Rightarrow> (string \<times> json) list
     \<Rightarrow> constraint_failure option" where
  "match_constraints regex_match [] obj = None"
| "match_constraints regex_match ((arg, c) # cs) obj =
     (case map_of obj arg of
        None \<Rightarrow> Some (MissingArgument arg)
      | Some v \<Rightarrow>
          (case constraint_matches regex_match arg c v of
             Some f \<Rightarrow> Some f
           | None \<Rightarrow> match_constraints regex_match cs obj))"

definition rule_matches ::
    "('re \<Rightarrow> string \<Rightarrow> bool) \<Rightarrow> 're yaml_rule \<Rightarrow> json \<Rightarrow> constraint_failure option" where
  "rule_matches regex_match rule args =
     (case as_object args of
        None \<Rightarrow> Some ArgsNotObject
      | Some obj \<Rightarrow> match_constraints regex_match (constraints rule) obj)"

datatype deny_reason =
    ExplicitlyDenied string
  | NotAllowedByYaml string
  | ConstraintsNotSatisfied string "constraint_failure list"
  | NotAllowedByRego string

datatype policy_decision = PolicyAllow | PolicyDeny deny_reason | PolicyError string

fun try_rules ::
    "('re \<Rightarrow> string \<Rightarrow> bool) \<Rightarrow> string \<Rightarrow> json \<Rightarrow> 're yaml_rule list \<Rightarrow> constraint_failure list
     \<Rightarrow> policy_decision" where
  "try_rules regex_match tool args [] fs = PolicyDeny (ConstraintsNotSatisfied tool fs)"
| "try_rules regex_match tool args (r # rs) fs =
     (case rule_matches regex_match r args of
        None \<Rightarrow> PolicyAllow
      | Some f \<Rightarrow> try_rules regex_match tool args rs (fs @ [f]))"

definition yaml_evaluate ::
    "('re \<Rightarrow> string \<Rightarrow> bool) \<Rightarrow> 're yaml_policy \<Rightarrow> string \<Rightarrow> json \<Rightarrow> policy_decision" where
  "yaml_evaluate regex_match p tool args =
     (if tool \<in> set (denied_tools p) then PolicyDeny (ExplicitlyDenied tool)
      else if tool \<in> set (allowed_tools p) then PolicyAllow
      else
        (let matching = filter (\<lambda>r. rule_tool r = tool) (rules p)
         in if matching = [] then PolicyDeny (NotAllowedByYaml tool)
            else try_rules regex_match tool args matching []))"

definition yaml_listable :: "'re yaml_policy \<Rightarrow> string \<Rightarrow> bool" where
  "yaml_listable p tool =
     (tool \<notin> set (denied_tools p)
      \<and> (tool \<in> set (allowed_tools p) \<or> (\<exists>r \<in> set (rules p). rule_tool r = tool)))"


section \<open>Engines and layers\<close>

text \<open>What evaluating \<open>data.cua.policy.allow\<close> yields for a tool and its arguments.\<close>

datatype rego_value = RegoBool bool | RegoUndefined | RegoOther string | RegoFailed string

datatype ('re, 'rego) policy_engine = Yaml "'re yaml_policy" | Rego 'rego

record ('re, 'rego) engines =
  regex_match :: "'re \<Rightarrow> string \<Rightarrow> bool"
  rego_eval :: "'rego \<Rightarrow> string \<Rightarrow> json \<Rightarrow> rego_value"

definition canonical_tool_name :: "string \<Rightarrow> string" where
  "canonical_tool_name tool = (if tool = ''type_text_chars'' then ''type_text'' else tool)"

definition rego_evaluate ::
    "('rego \<Rightarrow> string \<Rightarrow> json \<Rightarrow> rego_value) \<Rightarrow> 'rego \<Rightarrow> string \<Rightarrow> json \<Rightarrow> policy_decision" where
  "rego_evaluate ev r tool args =
     (case ev r tool args of
        RegoBool True \<Rightarrow> PolicyAllow
      | RegoBool False \<Rightarrow> PolicyDeny (NotAllowedByRego tool)
      | RegoUndefined \<Rightarrow> PolicyDeny (NotAllowedByRego tool)
      | RegoOther v \<Rightarrow> PolicyError v
      | RegoFailed e \<Rightarrow> PolicyError e)"

definition engine_evaluate ::
    "('re, 'rego) engines \<Rightarrow> ('re, 'rego) policy_engine \<Rightarrow> string \<Rightarrow> json \<Rightarrow> policy_decision" where
  "engine_evaluate en p tool args =
     (let t = canonical_tool_name tool; clean = sanitize_reserved_args args
      in case p of
           Yaml y \<Rightarrow> yaml_evaluate (regex_match en) y t clean
         | Rego r \<Rightarrow> rego_evaluate (rego_eval en) r t clean)"

definition is_potentially_listable ::
    "('re, 'rego) engines \<Rightarrow> ('re, 'rego) policy_engine \<Rightarrow> string \<Rightarrow> bool" where
  "is_potentially_listable en p tool =
     (let t = canonical_tool_name tool
      in case p of
           Yaml y \<Rightarrow> yaml_listable y t
         | Rego r \<Rightarrow> rego_evaluate (rego_eval en) r t (JObj []) = PolicyAllow)"

datatype layer_error = LayerDenied string deny_reason | LayerError string string

fun authorize_policy_layers ::
    "('re, 'rego) engines \<Rightarrow> string \<Rightarrow> json \<Rightarrow> (string \<times> ('re, 'rego) policy_engine) list
     \<Rightarrow> layer_error + unit" where
  "authorize_policy_layers en tool args [] = Inr ()"
| "authorize_policy_layers en tool args ((name, p) # layers) =
     (case engine_evaluate en p tool args of
        PolicyAllow \<Rightarrow> authorize_policy_layers en tool args layers
      | PolicyDeny reason \<Rightarrow> Inl (LayerDenied name reason)
      | PolicyError msg \<Rightarrow> Inl (LayerError name msg))"

text \<open>The frozen result of loading one configured layer.\<close>

type_synonym ('re, 'rego) layer = "string + (('re, 'rego) policy_engine \<times> string) option"

datatype policy_refusal = PolicyLoading string | PolicyLayer layer_error

definition authorize_policy ::
    "('re, 'rego) engines \<Rightarrow> ('re, 'rego) layer \<Rightarrow> ('re, 'rego) layer \<Rightarrow> string \<Rightarrow> json
     \<Rightarrow> policy_refusal + unit" where
  "authorize_policy en managed user tool args =
     (case managed of
        Inl msg \<Rightarrow> Inl (PolicyLoading (''managed policy: '' @ msg))
      | Inr m \<Rightarrow>
          (case user of
             Inl msg \<Rightarrow> Inl (PolicyLoading (''user policy: '' @ msg))
           | Inr u \<Rightarrow>
               map_sum PolicyLayer id
                 (authorize_policy_layers en tool args
                    ((case m of Some (p, _) \<Rightarrow> [(''managed'', p)] | None \<Rightarrow> [])
                     @ (case u of Some (p, _) \<Rightarrow> [(''user'', p)] | None \<Rightarrow> [])))))"

definition is_tool_listable ::
    "('re, 'rego) engines \<Rightarrow> ('re, 'rego) layer \<Rightarrow> ('re, 'rego) layer \<Rightarrow> string \<Rightarrow> bool" where
  "is_tool_listable en managed user tool =
     (case (managed, user) of
        (Inl _, _) \<Rightarrow> True
      | (_, Inl _) \<Rightarrow> True
      | (Inr m, Inr u) \<Rightarrow>
          list_all (\<lambda>(p, _). is_potentially_listable en p tool)
            ((case m of Some l \<Rightarrow> [l] | None \<Rightarrow> []) @ (case u of Some l \<Rightarrow> [l] | None \<Rightarrow> [])))"

definition validate_configured_policy ::
    "('re, 'rego) layer \<Rightarrow> ('re, 'rego) layer \<Rightarrow> policy_refusal + unit" where
  "validate_configured_policy managed user =
     (case managed of
        Inl msg \<Rightarrow> Inl (PolicyLoading (''managed policy: '' @ msg))
      | Inr _ \<Rightarrow>
          (case user of
             Inl msg \<Rightarrow> Inl (PolicyLoading (''user policy: '' @ msg))
           | Inr _ \<Rightarrow> Inr ()))"

definition layer_sha256 :: "('re, 'rego) layer \<Rightarrow> string + string option" where
  "layer_sha256 l = map_sum id (map_option snd) l"


section \<open>Loading a configured layer\<close>

text \<open>What the filesystem says about the configured path, read in the order of the code: the
  digest before the load, the loaded engine and the digest after it.\<close>

record ('re, 'rego) policy_path =
  path_exists :: bool
  hash_before :: "string + string"
  loaded :: "string + ('re, 'rego) policy_engine option"
  hash_after :: "string + string"

definition load_configured_layer ::
    "('re, 'rego) policy_path option \<Rightarrow> ('re, 'rego) layer" where
  "load_configured_layer path =
     (case path of
        None \<Rightarrow> Inr None
      | Some f \<Rightarrow>
          if \<not> path_exists f then Inl ''configured permission policy path does not exist''
          else case hash_before f of
            Inl e \<Rightarrow> Inl e
          | Inr before \<Rightarrow>
              (case loaded f of
                 Inl e \<Rightarrow> Inl e
               | Inr None \<Rightarrow> Inr None
               | Inr (Some p) \<Rightarrow>
                   (case hash_after f of
                      Inl e \<Rightarrow> Inl e
                    | Inr after \<Rightarrow>
                        if before \<noteq> after
                        then Inl ''configured permission policy changed while it was being loaded''
                        else Inr (Some (p, after)))))"

definition be64 :: "nat \<Rightarrow> string" where
  "be64 n = map (\<lambda>i. char_of (n div 256 ^ i mod 256)) [7, 6, 5, 4, 3, 2, 1, 0]"

text \<open>The bytes \<open>policy_sha256\<close> feeds to SHA-256 for files given by name and content.\<close>

definition file_frame :: "string \<times> string \<Rightarrow> string" where
  "file_frame f = be64 (length (fst f)) @ fst f @ be64 (length (snd f)) @ snd f"

definition policy_digest_input :: "(string \<times> string) list \<Rightarrow> string" where
  "policy_digest_input files = ''cua-driver-policy-v1'' @ [CHR 0x00] @ concat (map file_frame files)"

definition policy_sha256 :: "(string \<Rightarrow> string) \<Rightarrow> (string \<times> string) list \<Rightarrow> string" where
  "policy_sha256 sha256_hex files = sha256_hex (policy_digest_input files)"


section \<open>Lemmas\<close>

lemma layers_allow:
  "authorize_policy_layers en tool args layers = Inr () \<longleftrightarrow>
     list_all (\<lambda>(n, p). engine_evaluate en p tool args = PolicyAllow) layers"
  by (induction layers) (auto split: policy_decision.splits)

lemma map_sum_Inr: "map_sum f id x = Inr () \<longleftrightarrow> x = Inr ()"
  by (cases x) auto

lemma authorize_policy_iff:
  "authorize_policy en managed user tool args = Inr () \<longleftrightarrow>
     (\<exists>m u. managed = Inr m \<and> user = Inr u
        \<and> (case m of Some (p, _) \<Rightarrow> engine_evaluate en p tool args = PolicyAllow | None \<Rightarrow> True)
        \<and> (case u of Some (p, _) \<Rightarrow> engine_evaluate en p tool args = PolicyAllow | None \<Rightarrow> True))"
  by (auto simp: authorize_policy_def layers_allow map_sum_Inr split: sum.splits option.splits)

lemma try_rules_allow:
  "try_rules rm tool args rs fs = PolicyAllow \<longleftrightarrow> (\<exists>r \<in> set rs. rule_matches rm r args = None)"
  by (induction rs arbitrary: fs) (auto split: option.splits)

lemma yaml_allow_iff:
  "yaml_evaluate rm y t args = PolicyAllow \<longleftrightarrow>
     t \<notin> set (denied_tools y)
     \<and> (t \<in> set (allowed_tools y)
        \<or> (\<exists>r \<in> set (rules y). rule_tool r = t \<and> rule_matches rm r args = None))"
  by (auto simp: yaml_evaluate_def Let_def try_rules_allow filter_empty_conv)

lemma match_constraints_iff:
  "match_constraints rm cs obj = None \<longleftrightarrow>
     (\<forall>(arg, c) \<in> set cs. \<exists>v. map_of obj arg = Some v \<and> constraint_matches rm arg c v = None)"
  by (induction rm cs obj rule: match_constraints.induct) (auto split: option.splits)

lemma engine_evaluate_sanitized:
  "engine_evaluate en p tool (sanitize_reserved_args args) = engine_evaluate en p tool args"
  by (simp add: engine_evaluate_def sanitize_idem)

lemma length_be64 [simp]: "length (be64 n) = 8"
  by (simp add: be64_def)

lemma digits_determine:
  fixes m n b :: nat
  assumes "\<And>i. i < k \<Longrightarrow> m div b ^ i mod b = n div b ^ i mod b"
  shows "m mod b ^ k = n mod b ^ k"
  using assms
proof (induction k)
  case (Suc k)
  have step: "x mod b ^ Suc k = b ^ k * (x div b ^ k mod b) + x mod b ^ k" for x :: nat
    using mod_mult2_eq [of x "b ^ k" b] by (simp only: power_Suc2)
  have "m mod b ^ k = n mod b ^ k" by (rule Suc.IH) (rule Suc.prems, simp)
  moreover have "m div b ^ k mod b = n div b ^ k mod b" by (rule Suc.prems) simp
  ultimately show ?case by (simp only: step)
qed simp

lemma be64_digit:
  assumes "be64 m = be64 n" "i \<in> set [7, 6, 5, 4, 3, 2, 1, 0 :: nat]"
  shows "m div 256 ^ i mod 256 = n div 256 ^ i mod 256"
proof -
  have "\<forall>i \<in> set [7, 6, 5, 4, 3, 2, 1, 0 :: nat].
      (char_of (m div 256 ^ i mod 256) :: char) = char_of (n div 256 ^ i mod 256)"
    using assms(1) unfolding be64_def map_eq_conv .
  then have "(char_of (m div 256 ^ i mod 256) :: char) = char_of (n div 256 ^ i mod 256)"
    using assms(2) by (rule bspec)
  from arg_cong [OF this, where f = "of_char :: char \<Rightarrow> nat"] show ?thesis
    by (simp only: of_char_of mod_mod_trivial)
qed

lemma below_8: "i < 8 \<Longrightarrow> i \<in> set [7, 6, 5, 4, 3, 2, 1, 0 :: nat]"
  by (simp, presburger)

lemma be64_inj:
  assumes "m < 18446744073709551616" "n < 18446744073709551616" "be64 m = be64 n"
  shows "m = n"
proof -
  have "m mod 256 ^ 8 = n mod 256 ^ 8"
    by (rule digits_determine) (rule be64_digit [OF assms(3) below_8])
  moreover have "(256 :: nat) ^ 8 = 18446744073709551616" by simp
  ultimately show ?thesis using assms(1,2) by (simp only: mod_less)
qed

lemma frame_inj:
  assumes "file_frame f @ xs = file_frame g @ ys"
    and "length (fst f) < 18446744073709551616" "length (snd f) < 18446744073709551616"
    and "length (fst g) < 18446744073709551616" "length (snd g) < 18446744073709551616"
  shows "f = g \<and> xs = ys"
proof -
  have "be64 (length (fst f)) = be64 (length (fst g))"
    and rest: "fst f @ be64 (length (snd f)) @ snd f @ xs = fst g @ be64 (length (snd g)) @ snd g @ ys"
    using assms(1) by (simp_all add: file_frame_def append_eq_append_conv)
  with assms have "length (fst f) = length (fst g)" by (blast intro: be64_inj)
  with rest have n: "fst f = fst g"
    and rest2: "be64 (length (snd f)) @ snd f @ xs = be64 (length (snd g)) @ snd g @ ys" by simp_all
  then have "be64 (length (snd f)) = be64 (length (snd g))" by (simp add: append_eq_append_conv)
  with assms have "length (snd f) = length (snd g)" by (blast intro: be64_inj)
  with rest2 have "snd f = snd g" "xs = ys" by (simp_all add: append_eq_append_conv)
  with n show ?thesis by (simp add: prod_eq_iff)
qed

definition framable :: "(string \<times> string) list \<Rightarrow> bool" where
  "framable fs =
     list_all (\<lambda>f. length (fst f) < 18446744073709551616 \<and> length (snd f) < 18446744073709551616) fs"

lemma frames_inj:
  "concat (map file_frame fs) = concat (map file_frame gs) \<Longrightarrow> framable fs \<Longrightarrow> framable gs \<Longrightarrow> fs = gs"
proof (induction fs arbitrary: gs)
  case Nil
  then show ?case by (cases gs) (auto simp: file_frame_def be64_def)
next
  case (Cons f fs)
  show ?case
  proof (cases gs)
    case Nil
    with Cons.prems show ?thesis by (simp add: file_frame_def be64_def)
  next
    case (Cons g gs')
    with Cons.prems frame_inj [of f "concat (map file_frame fs)" g "concat (map file_frame gs')"]
    have "f = g" "concat (map file_frame fs) = concat (map file_frame gs')"
      by (auto simp: framable_def)
    with Cons.IH [of gs'] Cons.prems Cons show ?thesis by (auto simp: framable_def)
  qed
qed


section \<open>Properties\<close>

text \<open>C11. The managed and the user layer intersect: a call passes exactly when it passes each
  layer alone, so a user policy can never widen the administrator's ceiling; a layer that
  failed to load refuses every call; and the driver's own underscore arguments never reach a
  policy.\<close>

theorem policy_layers_intersect:
  "(authorize_policy en managed user tool args = Inr () \<longleftrightarrow>
      authorize_policy en managed (Inr None) tool args = Inr ()
      \<and> authorize_policy en (Inr None) user tool args = Inr ())
   \<and> authorize_policy en (Inl msg) user tool args \<noteq> Inr ()
   \<and> authorize_policy en managed (Inl msg) tool args \<noteq> Inr ()
   \<and> (authorize_policy en managed user tool (sanitize_reserved_args args) = Inr () \<longleftrightarrow>
      authorize_policy en managed user tool args = Inr ())"
  unfolding authorize_policy_iff engine_evaluate_sanitized by auto

text \<open>A YAML policy allows a call exactly when its tool, under the canonical name, is not
  denied and is either listed or has a rule all of whose constrained arguments are present
  and satisfy their constraint; denial takes precedence over both. Every call that a YAML
  policy allows is of a tool it also lists.\<close>

theorem yaml_policy_decision:
  "(engine_evaluate en (Yaml y) tool args = PolicyAllow \<longleftrightarrow>
      canonical_tool_name tool \<notin> set (denied_tools y)
      \<and> (canonical_tool_name tool \<in> set (allowed_tools y)
         \<or> list_ex (\<lambda>r. rule_tool r = canonical_tool_name tool
              \<and> (\<exists>obj. sanitize_reserved_args args = JObj obj
                   \<and> list_all (\<lambda>(arg, c). \<exists>v. map_of obj arg = Some v
                                \<and> constraint_matches (regex_match en) arg c v = None)
                       (constraints r))) (rules y)))
   \<and> (engine_evaluate en (Yaml y) tool args = PolicyAllow \<longleftrightarrow>
      is_potentially_listable en (Yaml y) tool \<and> engine_evaluate en (Yaml y) tool args = PolicyAllow)"
proof -
  have obj: "rule_matches rm r a = None \<longleftrightarrow>
      (\<exists>obj. a = JObj obj \<and> list_all (\<lambda>(arg, c). \<exists>v. map_of obj arg = Some v
              \<and> constraint_matches rm arg c v = None) (constraints r))" for rm and r :: "'a yaml_rule" and a
    by (cases a) (simp_all add: rule_matches_def match_constraints_iff list_all_iff)
  show ?thesis
    by (auto simp: engine_evaluate_def Let_def yaml_allow_iff obj is_potentially_listable_def
        yaml_listable_def list_ex_iff)
qed

text \<open>The alias of a tool is canonicalised in the call but not in the policy: an entry that
  denies \<open>type_text_chars\<close> in a YAML policy denies nothing, neither the alias nor the tool it
  stands for, so a policy that allows \<open>type_text\<close> and denies the alias admits every call of
  the alias.\<close>

theorem denied_alias_is_ineffective:
  "engine_evaluate en
     (Yaml \<lparr>allowed_tools = [''type_text''], rules = rs, denied_tools = [''type_text_chars'']\<rparr>)
     ''type_text_chars'' args = PolicyAllow"
  by (simp add: engine_evaluate_def canonical_tool_name_def yaml_evaluate_def)

text \<open>The digest that binds grants to a policy identifies its files: two lists of files,
  with names and contents shorter than 2^64 bytes, give SHA-256 the same input only if they
  are the same names and contents in the same order, so no regrouping of bytes between names
  and contents goes unnoticed.\<close>

theorem policy_digest_input_injective:
  assumes "framable fs" "framable gs" "policy_digest_input fs = policy_digest_input gs"
  shows "fs = gs"
  using frames_inj [OF _ assms(1,2)] assms(3) by (simp add: policy_digest_input_def)

theorem policy_digest_input_injective_witness:
  "policy_digest_input [(''a.rego'', ''bc'')] \<noteq> policy_digest_input [(''a.regob'', ''c'')]"
  using policy_digest_input_injective [where fs = "[(''a.rego'', ''bc'')]" and gs = "[(''a.regob'', ''c'')]"]
  by (auto simp: framable_def)

end
