(* ===== verification/Leases.thy ===== *)
theory Leases
  imports Prelude
begin

text \<open>
  The interface of an idle lease: a state with an optional idle limit and the moment of its
  last committed use, and attempts that either only check the lease or commit a use of it.
  The capability manifest and the authorization context both provide it.
\<close>

locale idle_lease =
  fixes limit :: "'s \<Rightarrow> duration option"
    and last_use :: "'s \<Rightarrow> instant"
    and over :: "duration \<Rightarrow> duration \<Rightarrow> bool"
    and attempt :: "bool \<Rightarrow> 't \<Rightarrow> 's \<Rightarrow> 's \<times> bool"
    and clock_of :: "'t \<Rightarrow> instant"
  assumes over_mono: "over d x \<Longrightarrow> x \<le> y \<Longrightarrow> over d y"
    and attempt_limit: "limit (fst (attempt b t s)) = limit s"
    and attempt_last: "last_use (fst (attempt b t s)) =
          (if b \<and> snd (attempt b t s) \<and> limit s \<noteq> None then clock_of t else last_use s)"
    and attempt_ok: "snd (attempt b t s) \<Longrightarrow> limit s = Some d \<Longrightarrow> \<not> over d (clock_of t - last_use s)"
begin

text \<open>The outcomes of a sequence of attempts.\<close>

fun outcomes :: "(bool \<times> 't) list \<Rightarrow> 's \<Rightarrow> bool list" where
  "outcomes [] s = []"
| "outcomes ((b, t) # ops) s = snd (attempt b t s) # outcomes ops (fst (attempt b t s))"

definition run :: "(bool \<times> 't) list \<Rightarrow> 's \<Rightarrow> 's" where
  "run ops s = fold (\<lambda>(b, t) s. fst (attempt b t s)) ops s"

lemma run_limit: "limit (run ops s) = limit s"
  unfolding run_def by (induction ops arbitrary: s) (auto simp: attempt_limit)

lemma lapsed_refused:
  assumes "limit s = Some d" "over d (clock_of t0 - last_use s)" "clock_of t0 \<le> clock_of t"
  shows "\<not> snd (attempt b t s)"
proof
  assume "snd (attempt b t s)"
  from attempt_ok [OF this assms(1)] have "\<not> over d (clock_of t - last_use s)" .
  with assms(2,3) show False using over_mono diff_le_mono by blast
qed

text \<open>A lapse is terminal: whatever is attempted afterwards is refused.\<close>

lemma lapse_is_terminal:
  assumes "limit s = Some d" "over d (clock_of t0 - last_use s)"
    and "\<forall>(b, t) \<in> set ops. clock_of t0 \<le> clock_of t"
  shows "outcomes ops s = replicate (length ops) False"
  using assms
proof (induction ops arbitrary: s)
  case (Cons op ops)
  obtain b t where op: "op = (b, t)" by (cases op)
  have no: "\<not> snd (attempt b t s)"
    using lapsed_refused [OF Cons.prems(1,2)] Cons.prems(3) op by simp
  have "limit (fst (attempt b t s)) = Some d"
    "over d (clock_of t0 - last_use (fst (attempt b t s)))"
    using Cons.prems(1,2) no by (simp_all add: attempt_limit attempt_last)
  with Cons.IH [of "fst (attempt b t s)"] Cons.prems(3) no op show ?case by simp
qed simp

text \<open>A committed use is within the limit of the previous one, and is the next reference.\<close>

lemma commit_renews:
  assumes "limit s = Some d" "snd (attempt True t s)"
  shows "\<not> over d (clock_of t - last_use s) \<and> last_use (fst (attempt True t s)) = clock_of t"
  using attempt_ok [OF assms(2,1)] attempt_last [of True t s] assms by simp

lemma check_does_not_renew: "last_use (fst (attempt False t s)) = last_use s"
  by (simp add: attempt_last)

end

end
