(* ===== verification/SessionManifest.thy ===== *)
theory SessionManifest
  imports Authorization Leases
begin

text \<open>
  Model of \<open>cua-driver-core/src/session_manifest.rs\<close>: the raw manifest document and its
  validation, the decision for a tool, the resource checks of each adapter, and the absolute
  and idle lifetime. The YAML parser, the URL parser, SHA-256, the filesystem and the clocks
  are arguments; sets are lists without duplicates; paths are Unix paths.
\<close>

section \<open>Paths\<close>

datatype component = RootDir | CurDir | ParentDir | Normal string

fun split_on :: "char \<Rightarrow> string \<Rightarrow> string list" where
  "split_on d [] = [[]]"
| "split_on d (c # s) =
     (if c = d then [] # split_on d s
      else case split_on d s of [] \<Rightarrow> [[c]] | w # ws \<Rightarrow> (c # w) # ws)"

definition component_of :: "string \<Rightarrow> component" where
  "component_of s = (if s = ''..'' then ParentDir else Normal s)"

text \<open>\<open>Path::components\<close>: separators and \<open>.\<close> components collapse, except a leading \<open>.\<close>.\<close>

definition path_components :: "string \<Rightarrow> component list" where
  "path_components s =
     (let parts = split_on (CHR ''/'') s;
          names = map component_of (filter (\<lambda>p. p \<noteq> [] \<and> p \<noteq> ''.'') parts)
      in if starts_with s ''/'' then RootDir # names
         else if parts \<noteq> [] \<and> hd parts = ''.'' then CurDir # names
         else names)"

definition is_absolute :: "string \<Rightarrow> bool" where
  "is_absolute s = starts_with s ''/''"

definition path_parent :: "component list \<Rightarrow> component list option" where
  "path_parent p = (if p = [] \<or> last p = RootDir then None else Some (butlast p))"

definition path_file_name :: "component list \<Rightarrow> string option" where
  "path_file_name p = (if p = [] then None else case last p of Normal n \<Rightarrow> Some n | _ \<Rightarrow> None)"

fun component_str :: "component \<Rightarrow> string" where
  "component_str RootDir = []"
| "component_str CurDir = ''.''"
| "component_str ParentDir = ''..''"
| "component_str (Normal n) = n"

fun join_slash :: "string list \<Rightarrow> string" where
  "join_slash [] = []"
| "join_slash [w] = w"
| "join_slash (w # ws) = w @ ''/'' @ join_slash ws"

definition path_str :: "component list \<Rightarrow> string" where
  "path_str p = (if p = [RootDir] then ''/'' else join_slash (map component_str p))"


section \<open>Manifest\<close>

datatype manifest_decision = ManifestAllow | ManifestDeny | ManifestAsk | Undeclared

datatype termination_grant = TerminateDeny | DriverLaunched | TerminateAny

record application_grant =
  app_bundle_id :: "string option"
  app_executable :: "string option"
  app_launch :: bool
  all_windows :: bool
  app_terminate :: termination_grant

record path_grant =
  root :: "component list"
  recursive :: bool

record session_manifest =
  m_version :: nat
  m_sha256 :: string
  m_expires_unix_ms :: "nat option"
  m_idle_timeout :: "duration option"
  m_allow :: "string list"
  m_deny :: "string list"
  m_ask :: "string list"
  existing_profiles :: "(int \<times> nat) list"
  existing_profile_kind :: bool
  browser_origins :: "string list"
  applications :: "application_grant list"
  desktop_applications :: "int list"
  desktop_windows :: "(int \<times> nat) list"
  desktop_display :: bool
  readable_paths :: "string list"
  writable_paths :: "string list"
  readable_roots :: "path_grant list"
  writable_roots :: "path_grant list"
  terminable_pids :: "int list"
  configuration_changes :: "(string \<times> json) list"
  computer_history_operations :: "string list"
  m_last_dispatch :: instant
  m_idle_expired :: bool

definition manifest_canonical_tool_name :: "string \<Rightarrow> string" where
  "manifest_canonical_tool_name tool = (if tool = ''type_text_chars'' then ''type_text'' else tool)"

definition decision :: "session_manifest \<Rightarrow> string \<Rightarrow> manifest_decision" where
  "decision m tool =
     (let t = manifest_canonical_tool_name tool
      in if t \<in> set (m_deny m) then ManifestDeny
         else if t \<in> set (m_ask m) then ManifestAsk
         else if t \<in> set (m_allow m) then ManifestAllow
         else Undeclared)"

definition manifest_counts :: "session_manifest \<Rightarrow> nat \<times> nat \<times> nat" where
  "manifest_counts m = (length (m_allow m), length (m_deny m), length (m_ask m))"


section \<open>Origins\<close>

record url =
  url_scheme :: string
  url_host :: "string option"
  url_port :: "nat option"

type_synonym url_parser = "string \<Rightarrow> url option"

datatype origin_error = InvalidUrl | NotHttp | NoHost

definition canonical_origin :: "url_parser \<Rightarrow> string \<Rightarrow> origin_error + string" where
  "canonical_origin parse_url raw =
     (let v = trim raw
      in if v = ''about:blank'' then Inr v
         else case parse_url v of
           None \<Rightarrow> Inl InvalidUrl
         | Some u \<Rightarrow>
             if url_scheme u \<notin> set [''http'', ''https''] then Inl NotHttp
             else (case url_host u of
                     None \<Rightarrow> Inl NoHost
                   | Some h \<Rightarrow>
                       Inr (url_scheme u @ ''://'' @ h
                            @ (case url_port u of Some p \<Rightarrow> '':'' @ show_dec p | None \<Rightarrow> []))))"


section \<open>Resource checks\<close>

datatype resource_refusal =
    MissingField string
  | OriginInvalid origin_error
  | OriginOutside
  | ProfileOutside int nat
  | WindowOutside int nat
  | ApplicationOutside int
  | ProcessOutside int
  | DisplayOutside
  | HistoryOutside string
  | ConfigurationOutside string
  | PathOutside
  | KindOutside string string

definition ok_if :: "bool \<Rightarrow> resource_refusal \<Rightarrow> resource_refusal + unit" where
  "ok_if b e = (if b then Inr () else Inl e)"

definition authorize_browser_url ::
    "url_parser \<Rightarrow> session_manifest \<Rightarrow> string \<Rightarrow> resource_refusal + unit" where
  "authorize_browser_url parse_url m raw =
     (case canonical_origin parse_url raw of
        Inl e \<Rightarrow> Inl (OriginInvalid e)
      | Inr origin \<Rightarrow> ok_if (origin \<in> set (browser_origins m)) OriginOutside)"

definition authorize_call ::
    "url_parser \<Rightarrow> session_manifest \<Rightarrow> string \<Rightarrow> json \<Rightarrow> resource_refusal + unit" where
  "authorize_call parse_url m tool args =
     (if tool = ''browser_prepare''
         \<and> pointer_str args [''strategy'', ''kind''] = Some ''existing_profile'' then
        (case get_i64 args ''pid'' of
           None \<Rightarrow> Inl (MissingField ''pid'')
         | Some pid \<Rightarrow>
             (case get_u64 args ''window_id'' of
                None \<Rightarrow> Inl (MissingField ''window_id'')
              | Some w \<Rightarrow>
                  if \<not> existing_profile_kind m \<and> (pid, w) \<notin> set (existing_profiles m)
                  then Inl (ProfileOutside pid w) else Inr ()))
      else if tool = ''browser_navigate'' then
        (case get_str args ''url'' of
           None \<Rightarrow> Inl (MissingField ''url'')
         | Some url \<Rightarrow> authorize_browser_url parse_url m url)
      else Inr ())"

definition opt_eq :: "'a option \<Rightarrow> 'a option \<Rightarrow> bool" where
  "opt_eq a b = (case (a, b) of (Some x, Some y) \<Rightarrow> x = y | _ \<Rightarrow> False)"

definition resource_executable :: "json \<Rightarrow> string option" where
  "resource_executable res =
     Option.bind
       (case json_pointer res [''fingerprint'', ''executable''] of
          Some v \<Rightarrow> Some v
        | None \<Rightarrow>
            (case json_get res ''executable'' of
               Some v \<Rightarrow> Some v
             | None \<Rightarrow> json_get res ''launch_path''))
       as_str"

definition resource_matches_application :: "session_manifest \<Rightarrow> json \<Rightarrow> bool \<Rightarrow> bool" where
  "resource_matches_application m res require_all_windows =
     (\<exists>a \<in> set (applications m).
        (\<not> require_all_windows \<or> all_windows a)
        \<and> (opt_eq (app_bundle_id a) (get_str res ''bundle_id'')
           \<or> opt_eq (app_executable a) (resource_executable res)))"

definition authorize_desktop_window :: "session_manifest \<Rightarrow> json \<Rightarrow> resource_refusal + unit" where
  "authorize_desktop_window m res =
     (case get_i64 res ''pid'' of
        None \<Rightarrow> Inl (MissingField ''pid'')
      | Some pid \<Rightarrow>
          (case get_u64 res ''window_id'' of
             None \<Rightarrow> Inl (MissingField ''window_id'')
           | Some w \<Rightarrow>
               ok_if ((pid, w) \<in> set (desktop_windows m) \<or> (pid, w) \<in> set (existing_profiles m)
                      \<or> resource_matches_application m res True)
                 (WindowOutside pid w)))"

definition authorize_desktop_application :: "session_manifest \<Rightarrow> json \<Rightarrow> resource_refusal + unit" where
  "authorize_desktop_application m res =
     (case get_i64 res ''pid'' of
        None \<Rightarrow> Inl (MissingField ''pid'')
      | Some pid \<Rightarrow>
          ok_if (pid \<in> set (desktop_applications m)
                 \<or> (\<exists>p \<in> set (existing_profiles m). fst p = pid)
                 \<or> resource_matches_application m res False)
            (ApplicationOutside pid))"

definition authorize_resource_origin :: "session_manifest \<Rightarrow> json \<Rightarrow> resource_refusal + unit" where
  "authorize_resource_origin m res =
     (case get_str res ''live_origin'' of
        None \<Rightarrow> Inl (MissingField ''live_origin'')
      | Some origin \<Rightarrow> ok_if (origin \<in> set (browser_origins m)) OriginOutside)"

definition path_allowed :: "string \<Rightarrow> string list \<Rightarrow> path_grant list \<Rightarrow> bool" where
  "path_allowed path exact roots =
     (path \<in> set exact
      \<or> (let candidate = path_components path
         in \<exists>g \<in> set roots.
              candidate = root g
              \<or> (if recursive g then prefix (root g) candidate
                 else path_parent candidate = Some (root g))))"

definition all_paths_allowed :: "json \<Rightarrow> string list \<Rightarrow> path_grant list \<Rightarrow> bool" where
  "all_paths_allowed vs exact roots =
     (case as_array vs of
        None \<Rightarrow> False
      | Some xs \<Rightarrow>
          xs \<noteq> []
          \<and> list_all (\<lambda>v. case as_str v of Some p \<Rightarrow> path_allowed p exact roots | None \<Rightarrow> False) xs)"

definition authorize_exact_path ::
    "json \<Rightarrow> string \<Rightarrow> string list \<Rightarrow> path_grant list \<Rightarrow> resource_refusal + unit" where
  "authorize_exact_path res key exact roots =
     (case get_str res key of
        None \<Rightarrow> Inl (MissingField key)
      | Some p \<Rightarrow> ok_if (path_allowed p exact roots) PathOutside)"

definition authorize_file_resource ::
    "session_manifest \<Rightarrow> string \<Rightarrow> json \<Rightarrow> resource_refusal + unit" where
  "authorize_file_resource m kind res =
     (if kind = ''browser_upload'' then
        ok_if (all_paths_allowed (json_index res ''canonical_paths'')
                 (readable_paths m) (readable_roots m)) PathOutside
      else if kind = ''trajectory_replay'' then
        authorize_exact_path res ''canonical_source_directory'' (readable_paths m) (readable_roots m)
      else if kind = ''browser_download'' then
        authorize_exact_path res ''canonical_destination_root'' (writable_paths m) (writable_roots m)
      else if kind = ''screenshot_output'' then
        authorize_exact_path res ''canonical_output_path'' (writable_paths m) (writable_roots m)
      else if kind \<in> set [''recording_output'', ''recording_finalize''] then
        authorize_exact_path res ''canonical_output_directory'' (writable_paths m) (writable_roots m)
      else if kind = ''dependency_install'' then Inr ()
      else Inl (KindOutside ''file_transfer_and_output'' kind))"

definition terminates_application :: "session_manifest \<Rightarrow> json \<Rightarrow> bool" where
  "terminates_application m res =
     (let driver_owned = (get_bool res ''driver_owned'' = Some True)
      in \<exists>a \<in> set (applications m).
           opt_eq (app_executable a) (pointer_str res [''fingerprint'', ''executable''])
           \<and> (case app_terminate a of
                TerminateDeny \<Rightarrow> False
              | DriverLaunched \<Rightarrow> driver_owned
              | TerminateAny \<Rightarrow> True))"

definition authorize_process_control :: "session_manifest \<Rightarrow> json \<Rightarrow> resource_refusal + unit" where
  "authorize_process_control m res =
     (case Option.bind (json_pointer res [''fingerprint'', ''pid'']) as_i64 of
        None \<Rightarrow> Inl (MissingField ''pid'')
      | Some pid \<Rightarrow>
          ok_if (pid \<in> set (terminable_pids m) \<or> terminates_application m res) (ProcessOutside pid))"

fun check_changes :: "session_manifest \<Rightarrow> (string \<times> json) list \<Rightarrow> resource_refusal + unit" where
  "check_changes m [] = Inr ()"
| "check_changes m (kv # kvs) =
     (if kv \<notin> set (configuration_changes m) then Inl (ConfigurationOutside (fst kv))
      else check_changes m kvs)"

definition authorize_observation ::
    "session_manifest \<Rightarrow> string \<Rightarrow> json \<Rightarrow> resource_refusal + unit" where
  "authorize_observation m kind res =
     (if kind = ''window'' then authorize_desktop_window m res
      else if kind = ''application'' then authorize_desktop_application m res
      else if kind = ''display'' then ok_if (desktop_display m) DisplayOutside
      else if kind \<in> set [''browser_target'', ''authenticated_browser_tab''] then
        authorize_resource_origin m res
      else if kind = ''session_capture_scope'' then ok_if (desktop_display m) DisplayOutside
      else if kind = ''session_trajectory_recording'' then Inr ()
      else Inl (KindOutside ''private_observation'' kind))"

definition authorize_protected_resource ::
    "session_manifest \<Rightarrow> string \<Rightarrow> json \<Rightarrow> resource_refusal + unit" where
  "authorize_protected_resource m ad res =
     (case get_str res ''kind'' of
        None \<Rightarrow> Inl (MissingField ''kind'')
      | Some kind \<Rightarrow>
          if ad = ''computer_history'' then
            (if kind \<noteq> ''computer_history'' then Inl (KindOutside ad kind)
             else case get_str res ''operation'' of
                    None \<Rightarrow> Inl (MissingField ''operation'')
                  | Some op \<Rightarrow> ok_if (op \<in> set (computer_history_operations m)) (HistoryOutside op))
          else if ad = ''private_observation'' then authorize_observation m kind res
          else if ad = ''desktop_input'' then
            (if kind = ''window_input'' then authorize_desktop_window m res
             else if kind = ''application_input'' then authorize_desktop_application m res
             else if kind = ''display_input'' then ok_if (desktop_display m) DisplayOutside
             else Inl (KindOutside ad kind))
          else if ad = ''file_transfer_and_output'' then authorize_file_resource m kind res
          else if ad \<in> set [''browser_bound_input'', ''browser_consequential_action''] then
            authorize_resource_origin m res
          else if ad = ''process_control'' then authorize_process_control m res
          else if ad = ''driver_configuration'' then
            (case Option.bind (json_get res ''exact_changes'') as_object of
               None \<Rightarrow> Inl (MissingField ''exact_changes'')
             | Some changes \<Rightarrow> check_changes m changes)
          else Inl (KindOutside ad kind))"


section \<open>Lifetime\<close>

datatype lifetime_error = ManifestExpired | ManifestIdle | LifetimesRequired

definition manifest_is_expired :: "nat \<Rightarrow> session_manifest \<Rightarrow> bool" where
  "manifest_is_expired now_ms m =
     (case m_expires_unix_ms m of Some e \<Rightarrow> e < now_ms | None \<Rightarrow> False)"

text \<open>A moment: the wall clock in milliseconds and the monotonic clock.\<close>

record clock =
  unix_ms :: nat
  monotonic :: instant

definition check_lifetime ::
    "clock \<Rightarrow> session_manifest \<Rightarrow> session_manifest \<times> (lifetime_error + unit)" where
  "check_lifetime t m =
     (if manifest_is_expired (unix_ms t) m then (m, Inl ManifestExpired)
      else case m_idle_timeout m of
        None \<Rightarrow> (m, Inr ())
      | Some d \<Rightarrow>
          if m_idle_expired m then (m, Inl ManifestIdle)
          else if d < monotonic t - m_last_dispatch m then (m\<lparr>m_idle_expired := True\<rparr>, Inl ManifestIdle)
          else (m, Inr ()))"

definition manifest_commit ::
    "clock \<Rightarrow> session_manifest \<Rightarrow> session_manifest \<times> (lifetime_error + unit)" where
  "manifest_commit t m =
     (case check_lifetime t m of
        (m1, Inl e) \<Rightarrow> (m1, Inl e)
      | (m1, Inr _) \<Rightarrow>
          (case m_idle_timeout m1 of
             None \<Rightarrow> (m1, Inr ())
           | Some d \<Rightarrow>
               if d < monotonic t - m_last_dispatch m1
               then (m1\<lparr>m_idle_expired := True\<rparr>, Inl ManifestIdle)
               else (m1\<lparr>m_last_dispatch := monotonic t\<rparr>, Inr ())))"

definition validate_for_mode ::
    "clock \<Rightarrow> permission_mode \<Rightarrow> session_manifest \<Rightarrow> session_manifest \<times> (lifetime_error + unit)" where
  "validate_for_mode t mode m =
     (if mode = Bounded \<and> (m_expires_unix_ms m = None \<or> m_idle_timeout m = None)
      then (m, Inl LifetimesRequired)
      else check_lifetime t m)"


section \<open>The idle lease\<close>

definition manifest_attempt ::
    "bool \<Rightarrow> clock \<Rightarrow> session_manifest \<Rightarrow> session_manifest \<times> bool" where
  "manifest_attempt commits t m =
     map_prod id (\<lambda>r. r = Inr ()) (if commits then manifest_commit t m else check_lifetime t m)"

lemma check_lifetime_facts:
  "m_idle_timeout (fst (check_lifetime t m)) = m_idle_timeout m"
  "m_last_dispatch (fst (check_lifetime t m)) = m_last_dispatch m"
  by (cases "m_idle_timeout m"; simp add: check_lifetime_def)+

lemma check_lifetime_ok:
  "snd (check_lifetime t m) = Inr () \<longleftrightarrow>
     \<not> manifest_is_expired (unix_ms t) m
     \<and> (case m_idle_timeout m of
          None \<Rightarrow> True
        | Some d \<Rightarrow> \<not> m_idle_expired m \<and> monotonic t - m_last_dispatch m \<le> d)"
  by (cases "m_idle_timeout m") (simp_all add: check_lifetime_def linorder_not_less)

lemma check_lifetime_same: "snd (check_lifetime t m) = Inr () \<Longrightarrow> check_lifetime t m = (m, Inr ())"
  by (cases "m_idle_timeout m") (simp_all add: check_lifetime_def split: if_splits)

lemma manifest_commit_eq:
  "manifest_commit t m =
     (if snd (check_lifetime t m) = Inr ()
      then (if m_idle_timeout m = None then m else m\<lparr>m_last_dispatch := monotonic t\<rparr>, Inr ())
      else check_lifetime t m)"
proof (cases "snd (check_lifetime t m) = Inr ()")
  case True
  with check_lifetime_ok [of t m] check_lifetime_same [OF True] show ?thesis
    by (cases "m_idle_timeout m") (simp_all add: manifest_commit_def)
next
  case False
  then obtain m1 e where "check_lifetime t m = (m1, Inl e)"
    by (cases "check_lifetime t m"; cases "snd (check_lifetime t m)") auto
  then show ?thesis by (simp add: manifest_commit_def)
qed

interpretation manifest_lease: idle_lease
  m_idle_timeout m_last_dispatch "\<lambda>d x. d < x" manifest_attempt monotonic
proof
  fix d x y :: duration
  show "d < x \<Longrightarrow> x \<le> y \<Longrightarrow> d < y" by simp
next
  fix b t m
  show "m_idle_timeout (fst (manifest_attempt b t m)) = m_idle_timeout m"
    by (simp add: manifest_attempt_def manifest_commit_eq check_lifetime_facts)
next
  fix b t m
  show "m_last_dispatch (fst (manifest_attempt b t m)) =
      (if b \<and> snd (manifest_attempt b t m) \<and> m_idle_timeout m \<noteq> None then monotonic t
       else m_last_dispatch m)"
    by (auto simp: manifest_attempt_def manifest_commit_eq check_lifetime_facts)
next
  fix b t and m :: session_manifest and d
  assume "snd (manifest_attempt b t m)" "m_idle_timeout m = Some d"
  then show "\<not> d < monotonic t - m_last_dispatch m"
    by (auto simp: manifest_attempt_def manifest_commit_eq check_lifetime_ok split: if_splits)
qed

section \<open>Lemmas\<close>

text \<open>A manifest that declares no resource at all.\<close>

definition no_resources :: "session_manifest \<Rightarrow> bool" where
  "no_resources m =
     (existing_profiles m = [] \<and> \<not> existing_profile_kind m \<and> browser_origins m = []
      \<and> applications m = [] \<and> desktop_applications m = [] \<and> desktop_windows m = []
      \<and> \<not> desktop_display m \<and> readable_paths m = [] \<and> writable_paths m = []
      \<and> readable_roots m = [] \<and> writable_roots m = [] \<and> terminable_pids m = []
      \<and> configuration_changes m = [] \<and> computer_history_operations m = [])"

lemma no_resources_paths:
  "\<not> path_allowed p [] []" "\<not> all_paths_allowed v [] []"
  "authorize_exact_path res key [] [] \<noteq> Inr ()"
proof -
  show p: "\<not> path_allowed p [] []" for p by (simp add: path_allowed_def)
  show "\<not> all_paths_allowed v [] []"
  proof
    assume "all_paths_allowed v [] []"
    then obtain xs where "xs \<noteq> []"
      "list_all (\<lambda>v. case as_str v of Some p \<Rightarrow> path_allowed p [] [] | None \<Rightarrow> False) xs"
      by (auto simp: all_paths_allowed_def split: option.splits)
    with p show False by (cases xs) (auto split: option.splits)
  qed
  show "authorize_exact_path res key [] [] \<noteq> Inr ()"
    using p by (simp add: authorize_exact_path_def ok_if_def split: option.splits)
qed

lemma no_resources_refused:
  assumes "no_resources m"
  shows "authorize_desktop_window m res \<noteq> Inr ()" "authorize_desktop_application m res \<noteq> Inr ()"
    "authorize_resource_origin m res \<noteq> Inr ()" "authorize_process_control m res \<noteq> Inr ()"
    "authorize_file_resource m kind res = Inr () \<longleftrightarrow> kind = ''dependency_install''"
    "authorize_observation m kind res = Inr () \<longleftrightarrow> kind = ''session_trajectory_recording''"
    "check_changes m kvs = Inr () \<longleftrightarrow> kvs = []"
proof -
  note none = assms [unfolded no_resources_def]
  show w: "authorize_desktop_window m res \<noteq> Inr ()"
    using none by (simp add: authorize_desktop_window_def ok_if_def resource_matches_application_def
        split: option.splits)
  show a: "authorize_desktop_application m res \<noteq> Inr ()"
    using none by (simp add: authorize_desktop_application_def ok_if_def
        resource_matches_application_def split: option.splits)
  show r: "authorize_resource_origin m res \<noteq> Inr ()"
    using none by (simp add: authorize_resource_origin_def ok_if_def split: option.splits)
  show "authorize_process_control m res \<noteq> Inr ()"
    using none by (simp add: authorize_process_control_def ok_if_def terminates_application_def
        split: option.splits)
  show "authorize_file_resource m kind res = Inr () \<longleftrightarrow> kind = ''dependency_install''"
    using none no_resources_paths
    by (cases "kind = ''dependency_install''") (simp_all add: authorize_file_resource_def ok_if_def)
  show "authorize_observation m kind res = Inr () \<longleftrightarrow> kind = ''session_trajectory_recording''"
    using none w a r
    by (cases "kind = ''session_trajectory_recording''") (simp_all add: authorize_observation_def ok_if_def)
  show "check_changes m kvs = Inr () \<longleftrightarrow> kvs = []"
    using none by (cases kvs) simp_all
qed

section \<open>Properties\<close>

text \<open>The manifest's idle lease is terminal: once more than the declared idle time has passed
  since the last committed dispatch, every later check and every later commit is refused, in
  any order and number, and a check on its own never extends the lease.\<close>

theorem manifest_idle_lapse_is_terminal:
  fixes m :: session_manifest and t0 :: clock
  assumes "m_idle_timeout m = Some d" "d < monotonic t0 - m_last_dispatch m"
    and "\<forall>(b, t) \<in> set ops. monotonic t0 \<le> monotonic t"
  shows "manifest_lease.outcomes ops m = replicate (length ops) False
    \<and> m_last_dispatch (fst (check_lifetime t1 m)) = m_last_dispatch m"
  using manifest_lease.lapse_is_terminal [OF assms] check_lifetime_facts(2) by simp


definition bare_manifest :: session_manifest where
  "bare_manifest =
     \<lparr>m_version = 3, m_sha256 = '''', m_expires_unix_ms = None, m_idle_timeout = Some 10,
      m_allow = [''list_apps''], m_deny = [], m_ask = [], existing_profiles = [],
      existing_profile_kind = False, browser_origins = [], applications = [],
      desktop_applications = [], desktop_windows = [], desktop_display = False,
      readable_paths = [], writable_paths = [], readable_roots = [], writable_roots = [],
      terminable_pids = [], configuration_changes = [], computer_history_operations = [],
      m_last_dispatch = 0, m_idle_expired = False\<rparr>"

theorem manifest_idle_lapse_is_terminal_witness:
  "manifest_lease.outcomes
     [(False, \<lparr>unix_ms = 0, monotonic = 11\<rparr>), (True, \<lparr>unix_ms = 0, monotonic = 12\<rparr>)] bare_manifest = [False, False]"
  using manifest_idle_lapse_is_terminal [of bare_manifest 10 "\<lparr>unix_ms = 0, monotonic = 11\<rparr>"
      "[(False, \<lparr>unix_ms = 0, monotonic = 11\<rparr>), (True, \<lparr>unix_ms = 0, monotonic = 12\<rparr>)]"]
  by (simp add: bare_manifest_def)


end
