(* ===== verification/ManifestLoad.thy ===== *)
theory ManifestLoad
  imports SessionManifest
begin

text \<open>
  Model of the loading half of \<open>cua-driver-core/src/session_manifest.rs\<close>: the raw document,
  the validation of every section in the order of \<open>load_manifest\<close>, the resolution of paths
  against the filesystem and the parsing of durations. Each error message of the code is a
  constructor. The bytes, the YAML parser's result, the URL parser, the filesystem, SHA-256
  and the two clocks are arguments.
\<close>

section \<open>The raw document\<close>

record raw_browser_profile =
  profile_kind :: string

record raw_application =
  raw_bundle_id :: "string option"
  raw_executable :: "string option"
  raw_launch :: bool
  raw_windows :: "string option"
  raw_terminate :: "string option"

record raw_window =
  w_pid :: int
  w_id :: nat

record raw_browser =
  rb_existing_profiles :: "raw_window list"
  rb_profiles :: "raw_browser_profile list"
  rb_origins :: "string list"

record raw_desktop =
  rd_applications :: "int list"
  rd_windows :: "raw_window list"
  rd_display :: bool

datatype raw_path = Exact string | Directory string bool

record raw_files =
  rf_read :: "raw_path list"
  rf_write :: "raw_path list"

record raw_change =
  change_key :: string
  change_value :: json

record raw_resources =
  rr_apps :: "raw_application list"
  rr_browser :: raw_browser
  rr_desktop :: raw_desktop
  rr_files :: raw_files
  rr_terminate :: "int list"
  rr_changes :: "raw_change list"
  rr_history :: "string list"

record raw_manifest =
  r_version :: nat
  r_mode :: "string option"
  r_expires_after :: "string option"
  r_idle_timeout :: "string option"
  r_resources :: raw_resources
  r_allow :: "string list"
  r_deny :: "string list"
  r_ask :: "string list option"

datatype duration_error = InvalidDuration | InvalidUnit | DurationPanic

datatype manifest_error =
    EmptyFile
  | ParseFailed string
  | UnsupportedVersion nat
  | LegacyModeNotBounded
  | ModeDeclared
  | LegacyLifetimesMissing
  | BadDuration duration_error
  | ExpiresOutOfRange
  | IdleOutOfRange
  | UnknownTool string string
  | RepeatedTool string string
  | AskUnsupported
  | ToolInTwoSets string
  | EmptyAllow
  | NonPositiveWindow string
  | RepeatedWindow string int nat
  | ProfilesNeedVersion2
  | UnsupportedProfileKind string
  | OriginError origin_error
  | OriginNotCanonical string
  | RepeatedOrigin string
  | NonPositivePid string
  | RepeatedPid string int
  | ApplicationsNeedVersion2
  | ApplicationIdentity
  | ExecutableNotAbsolute
  | PathUnresolved string
  | UnsupportedWindows string
  | UnsupportedTerminate string
  | RepeatedApplication
  | PathNotAbsolute string string
  | PathIsRoot string string
  | PathTrailingSeparator string string
  | RepeatedPath string string
  | DirectoryNeedsVersion2 string
  | RootNotDirectory string
  | RepeatedRoot string string
  | RetiredConfigKey
  | RepeatedChange string
  | HistoryNeedsVersion3
  | UnsupportedHistoryOperation string
  | RepeatedHistoryOperation string
  | OriginBypass string


section \<open>Durations\<close>

definition saturating_u64 :: "nat \<Rightarrow> nat" where
  "saturating_u64 n = min n (2 ^ 64 - 1)"

text \<open>\<open>split_at\<close> panics away from a character boundary.\<close>

definition parse_duration :: "string \<Rightarrow> duration_error + duration" where
  "parse_duration raw =
     (let v = trim raw
      in if length v < 2 then Inl InvalidDuration
         else if \<not> is_char_boundary v (length v - 1) then Inl DurationPanic
         else
           (let number = take (length v - 1) v; unit = drop (length v - 1) v
            in case parse_unsigned 10 (2 ^ 64) number of
                 None \<Rightarrow> Inl InvalidDuration
               | Some n \<Rightarrow>
                   if unit = ''s'' then Inr (secs n)
                   else if unit = ''m'' then Inr (secs (saturating_u64 (n * 60)))
                   else if unit = ''h'' then Inr (secs (saturating_u64 (n * 3600)))
                   else Inl InvalidUnit))"

definition parse_optional_duration :: "string option \<Rightarrow> manifest_error + duration option" where
  "parse_optional_duration raw =
     (case raw of
        None \<Rightarrow> Inr None
      | Some s \<Rightarrow> map_sum BadDuration Some (parse_duration s))"


section \<open>Sections of the document\<close>

text \<open>The loops that validate and collect: fail at the first bad element, in order.\<close>

fun collect :: "('a \<Rightarrow> 'b list \<Rightarrow> manifest_error + 'b) \<Rightarrow> 'a list \<Rightarrow> 'b list \<Rightarrow> manifest_error + 'b list" where
  "collect f [] acc = Inr acc"
| "collect f (x # xs) acc =
     (case f x acc of Inl e \<Rightarrow> Inl e | Inr y \<Rightarrow> collect f xs (acc @ [y]))"

definition check_header :: "raw_manifest \<Rightarrow> manifest_error + unit" where
  "check_header raw =
     (if r_version raw \<notin> set [1, 2, 3] then Inl (UnsupportedVersion (r_version raw))
      else if r_version raw < 3 \<and> r_mode raw \<notin> set [Some ''bounded'', Some ''autonomous''] then
        Inl LegacyModeNotBounded
      else if 3 \<le> r_version raw \<and> r_mode raw \<noteq> None then Inl ModeDeclared
      else if r_version raw < 3 \<and> (r_expires_after raw = None \<or> r_idle_timeout raw = None) then
        Inl LegacyLifetimesMissing
      else Inr ())"

definition check_lifetimes ::
    "raw_manifest \<Rightarrow> manifest_error + (duration option \<times> duration option)" where
  "check_lifetimes raw =
     (case parse_optional_duration (r_expires_after raw) of
        Inl e \<Rightarrow> Inl e
      | Inr expires \<Rightarrow>
          (case parse_optional_duration (r_idle_timeout raw) of
             Inl e \<Rightarrow> Inl e
           | Inr idle \<Rightarrow>
               if (case expires of Some d \<Rightarrow> d = 0 \<or> secs (24 * 60 * 60) < d | None \<Rightarrow> False) then
                 Inl ExpiresOutOfRange
               else if (case idle of
                          Some i \<Rightarrow> i = 0 \<or> (case expires of Some d \<Rightarrow> d < i | None \<Rightarrow> False)
                        | None \<Rightarrow> False) then
                 Inl IdleOutOfRange
               else Inr (expires, idle)))"

definition validate_tool :: "string \<Rightarrow> string \<Rightarrow> string list \<Rightarrow> manifest_error + string" where
  "validate_tool sect tool acc =
     (let t = manifest_canonical_tool_name (trim tool)
      in if t = [] \<or> advertised_class t = Unclassified then Inl (UnknownTool sect tool)
         else if t \<in> set acc then Inl (RepeatedTool sect t)
         else Inr t)"

definition validate_tools :: "string \<Rightarrow> string list \<Rightarrow> manifest_error + string list" where
  "validate_tools sect tools = collect (validate_tool sect) tools []"

text \<open>The three decision sets; legacy \<open>ask\<close> entries become denials.\<close>

definition decision_sets :: "raw_manifest \<Rightarrow> manifest_error + (string list \<times> string list)" where
  "decision_sets raw =
     (case validate_tools ''allow'' (r_allow raw) of
        Inl e \<Rightarrow> Inl e
      | Inr allow \<Rightarrow>
          (case validate_tools ''deny'' (r_deny raw) of
             Inl e \<Rightarrow> Inl e
           | Inr deny \<Rightarrow>
               (case (if r_version raw < 3
                      then validate_tools ''ask'' (case r_ask raw of Some a \<Rightarrow> a | None \<Rightarrow> [])
                      else if r_ask raw \<noteq> None then Inl AskUnsupported else Inr []) of
                  Inl e \<Rightarrow> Inl e
                | Inr ask \<Rightarrow>
                    (case collect (\<lambda>t acc. if t \<in> set acc then Inl (ToolInTwoSets t) else Inr t)
                            ask deny of
                       Inl e \<Rightarrow> Inl e
                     | Inr deny' \<Rightarrow>
                         if allow = [] then Inl EmptyAllow
                         else (case find (\<lambda>t. t \<in> set deny') allow of
                                 Some t \<Rightarrow> Inl (ToolInTwoSets t)
                               | None \<Rightarrow> Inr (allow, deny'))))))"

definition validate_window ::
    "string \<Rightarrow> raw_window \<Rightarrow> (int \<times> nat) list \<Rightarrow> manifest_error + (int \<times> nat)" where
  "validate_window sect w acc =
     (if w_pid w \<le> 0 \<or> w_id w = 0 then Inl (NonPositiveWindow sect)
      else if (w_pid w, w_id w) \<in> set acc then Inl (RepeatedWindow sect (w_pid w) (w_id w))
      else Inr (w_pid w, w_id w))"

fun existing_profile_declared :: "raw_browser_profile list \<Rightarrow> manifest_error + bool" where
  "existing_profile_declared [] = Inr False"
| "existing_profile_declared (p # ps) =
     (let k = trim (profile_kind p)
      in if k \<in> set [''isolated'', ''isolated_new''] then existing_profile_declared ps
         else if k = ''existing_profile'' then map_sum id (\<lambda>_. True) (existing_profile_declared ps)
         else Inl (UnsupportedProfileKind k))"

definition trim_end_slashes :: "string \<Rightarrow> string" where
  "trim_end_slashes s = rev (dropWhile (\<lambda>c. c = CHR ''/'') (rev s))"

definition validate_origin ::
    "url_parser \<Rightarrow> string \<Rightarrow> string list \<Rightarrow> manifest_error + string" where
  "validate_origin parse_url raw acc =
     (case canonical_origin parse_url raw of
        Inl e \<Rightarrow> Inl (OriginError e)
      | Inr origin \<Rightarrow>
          if origin \<noteq> trim_end_slashes (trim raw) then Inl (OriginNotCanonical raw)
          else if origin \<in> set acc then Inl (RepeatedOrigin origin)
          else Inr origin)"

definition validate_pid :: "string \<Rightarrow> int \<Rightarrow> int list \<Rightarrow> manifest_error + int" where
  "validate_pid sect pid acc =
     (if pid \<le> 0 then Inl (NonPositivePid sect)
      else if pid \<in> set acc then Inl (RepeatedPid sect pid)
      else Inr pid)"

definition validate_positive_pids :: "string \<Rightarrow> int list \<Rightarrow> manifest_error + int list" where
  "validate_positive_pids sect pids = collect (validate_pid sect) pids []"


section \<open>Paths on the filesystem\<close>

datatype lstat = LSymlink | LDirectory | LOther | LNotFound | LError string

record filesystem =
  fs_exists :: "component list \<Rightarrow> bool"
  fs_is_dir :: "component list \<Rightarrow> bool"
  fs_lstat :: "component list \<Rightarrow> lstat"
  fs_canonicalize :: "component list \<Rightarrow> string + component list"

text \<open>Walk up to the nearest existing ancestor, collecting the names below it.\<close>

function existing_ancestor ::
    "filesystem \<Rightarrow> component list \<Rightarrow> string list \<Rightarrow> string + (component list \<times> string list)" where
  "existing_ancestor fs p suff =
     (if fs_exists fs p then Inr (p, suff)
      else case fs_lstat fs p of
        LNotFound \<Rightarrow>
          (case path_file_name p of
             None \<Rightarrow> Inl ''path has no existing ancestor''
           | Some name \<Rightarrow>
               (case path_parent p of
                  None \<Rightarrow> Inl ''path has no existing ancestor''
                | Some parent \<Rightarrow> existing_ancestor fs parent (name # suff)))
      | LSymlink \<Rightarrow> Inl ''path contains a broken symbolic link''
      | LError e \<Rightarrow> Inl e
      | LDirectory \<Rightarrow> Inl ''path contains an unavailable filesystem entry''
      | LOther \<Rightarrow> Inl ''path contains an unavailable filesystem entry'')"
  by pat_completeness auto
termination
  by (relation "measure (\<lambda>(fs, p, suff). length p)")
     (auto simp: path_parent_def split: if_splits)

declare existing_ancestor.simps [simp del]

definition canonical_manifest_path :: "filesystem \<Rightarrow> component list \<Rightarrow> string + string" where
  "canonical_manifest_path fs p =
     (if fs_exists fs p then map_sum id path_str (fs_canonicalize fs p)
      else case existing_ancestor fs p [] of
        Inl e \<Rightarrow> Inl e
      | Inr (existing, suff) \<Rightarrow>
          (case fs_lstat fs existing of
             LError e \<Rightarrow> Inl e
           | LDirectory \<Rightarrow>
               (case fs_canonicalize fs existing of
                  Inl e \<Rightarrow> Inl e
                | Inr canonical \<Rightarrow>
                    if list_all (\<lambda>n. path_components n = [Normal n]) suff
                    then Inr (path_str (canonical @ map Normal suff))
                    else Inl ''path contains an unsafe component'')
           | LNotFound \<Rightarrow> Inl ''not found''
           | _ \<Rightarrow> Inl ''existing ancestor is not a directory''))"

definition validate_manifest_path :: "filesystem \<Rightarrow> string \<Rightarrow> string \<Rightarrow> manifest_error + string" where
  "validate_manifest_path fs sect raw =
     (let t = trim raw; p = path_components t
      in if \<not> is_absolute t \<or> ParentDir \<in> set p \<or> CurDir \<in> set p then Inl (PathNotAbsolute sect raw)
         else if path_parent p = None then Inl (PathIsRoot sect raw)
         else if 1 < length t \<and> (ends_with t ''/'' \<or> ends_with t [CHR 0x5C]) then
           Inl (PathTrailingSeparator sect raw)
         else case canonical_manifest_path fs p of
           Inl e \<Rightarrow> Inl (PathUnresolved e)
         | Inr c \<Rightarrow> Inr c)"

text \<open>One path resource at a time; exact paths go into a set, so repeats merge.\<close>

fun validate_path_resources ::
    "filesystem \<Rightarrow> string \<Rightarrow> nat \<Rightarrow> raw_path list \<Rightarrow> string list \<Rightarrow> path_grant list
     \<Rightarrow> manifest_error + (string list \<times> path_grant list)" where
  "validate_path_resources fs sect version [] exact roots = Inr (exact, roots)"
| "validate_path_resources fs sect version (Exact path # rs) exact roots =
     (case validate_manifest_path fs sect path of
        Inl e \<Rightarrow> Inl e
      | Inr c \<Rightarrow> validate_path_resources fs sect version rs (List.insert c exact) roots)"
| "validate_path_resources fs sect version (Directory dir rec # rs) exact roots =
     (if version < 2 then Inl (DirectoryNeedsVersion2 sect)
      else case validate_manifest_path fs sect dir of
        Inl e \<Rightarrow> Inl e
      | Inr c \<Rightarrow>
          (let rt = path_components c
           in if fs_exists fs rt \<and> \<not> fs_is_dir fs rt then Inl (RootNotDirectory sect)
              else if \<lparr>root = rt, recursive = rec\<rparr> \<in> set roots then Inl (RepeatedRoot sect c)
              else validate_path_resources fs sect version rs exact
                     (roots @ [\<lparr>root = rt, recursive = rec\<rparr>])))"


section \<open>Applications, configuration, history\<close>

definition nonempty_trim :: "string option \<Rightarrow> string option" where
  "nonempty_trim v =
     (case map_option trim v of Some s \<Rightarrow> if s = [] then None else Some s | None \<Rightarrow> None)"

definition terminate_of :: "string \<Rightarrow> termination_grant option" where
  "terminate_of s =
     (if s = ''deny'' then Some TerminateDeny
      else if s = ''driver_launched'' then Some DriverLaunched
      else if s = ''any'' then Some TerminateAny
      else None)"

definition validate_executable :: "filesystem \<Rightarrow> string option \<Rightarrow> manifest_error + string option" where
  "validate_executable fs ex =
     (case ex of
        None \<Rightarrow> Inr None
      | Some p \<Rightarrow>
          if \<not> is_absolute p then Inl ExecutableNotAbsolute
          else map_sum PathUnresolved Some (canonical_manifest_path fs (path_components p)))"

definition validate_application ::
    "filesystem \<Rightarrow> raw_application \<Rightarrow> application_grant list \<Rightarrow> manifest_error + application_grant" where
  "validate_application fs raw acc =
     (let bundle = nonempty_trim (raw_bundle_id raw); ex = nonempty_trim (raw_executable raw)
      in if (bundle \<noteq> None) = (ex \<noteq> None) then Inl ApplicationIdentity
         else case validate_executable fs ex of
           Inl e \<Rightarrow> Inl e
         | Inr exe \<Rightarrow>
             (let w = (case raw_windows raw of Some w \<Rightarrow> w | None \<Rightarrow> ''all'');
                  t = (case raw_terminate raw of Some t \<Rightarrow> t | None \<Rightarrow> ''deny'')
              in if w \<noteq> ''all'' then Inl (UnsupportedWindows w)
                 else case terminate_of t of
                   None \<Rightarrow> Inl (UnsupportedTerminate t)
                 | Some term \<Rightarrow>
                     if \<exists>a \<in> set acc. app_bundle_id a = bundle \<and> app_executable a = exe
                     then Inl RepeatedApplication
                     else Inr \<lparr>app_bundle_id = bundle, app_executable = exe,
                               app_launch = raw_launch raw, all_windows = True,
                               app_terminate = term\<rparr>))"

definition validate_change ::
    "raw_change \<Rightarrow> (string \<times> json) list \<Rightarrow> manifest_error + (string \<times> json)" where
  "validate_change c acc =
     (let k = trim (change_key c)
      in if k = [] \<or> k = ''capture_scope'' then Inl RetiredConfigKey
         else if (k, change_value c) \<in> set acc then Inl (RepeatedChange k)
         else Inr (k, change_value c))"

definition validate_history_operation :: "string \<Rightarrow> string list \<Rightarrow> manifest_error + string" where
  "validate_history_operation raw acc =
     (let t = trim raw
      in if t \<notin> set [''status'', ''query''] then Inl (UnsupportedHistoryOperation t)
         else if t \<in> set acc then Inl (RepeatedHistoryOperation t)
         else Inr t)"

definition ORIGIN_BYPASS_TOOLS :: "string list" where
  "ORIGIN_BYPASS_TOOLS =
     [''page'', ''click'', ''double_click'', ''right_click'', ''drag'', ''scroll'', ''type_text'',
      ''press_key'', ''hotkey'', ''set_value'', ''mouse_button_down'', ''mouse_button_up'',
      ''mouse_drag'', ''parallel_mouse_drag'', ''get_accessibility_tree'', ''get_window_state'',
      ''verify_state'', ''get_desktop_state'']"

definition check_origin_bypass :: "string list \<Rightarrow> string list \<Rightarrow> manifest_error + unit" where
  "check_origin_bypass origins allow =
     (if origins = [] then Inr ()
      else case find (\<lambda>t. t \<in> set allow) ORIGIN_BYPASS_TOOLS of
        Some t \<Rightarrow> Inl (OriginBypass t)
      | None \<Rightarrow> Inr ())"


section \<open>Loading\<close>

text \<open>The environment of one load.\<close>

record load_env =
  le_url :: url_parser
  le_fs :: filesystem
  le_sha256 :: "string \<Rightarrow> string"
  le_clock :: clock

abbreviation bind_err :: "'e + 'a \<Rightarrow> ('a \<Rightarrow> 'e + 'b) \<Rightarrow> 'e + 'b" where
  "bind_err x f \<equiv> (case x of Inl e \<Rightarrow> Inl e | Inr v \<Rightarrow> f v)"

definition load_browser ::
    "load_env \<Rightarrow> nat \<Rightarrow> raw_browser \<Rightarrow> manifest_error + ((int \<times> nat) list \<times> bool \<times> string list)" where
  "load_browser env version b =
     bind_err (collect (validate_window ''browser existing_profiles'') (rb_existing_profiles b) [])
       (\<lambda>profiles.
        if version = 1 \<and> rb_profiles b \<noteq> [] then Inl ProfilesNeedVersion2
        else bind_err (existing_profile_declared (rb_profiles b))
          (\<lambda>kind. bind_err (collect (validate_origin (le_url env)) (rb_origins b) [])
             (\<lambda>origins. Inr (profiles, kind, origins))))"

definition load_desktop ::
    "load_env \<Rightarrow> nat \<Rightarrow> raw_resources
     \<Rightarrow> manifest_error + (int list \<times> application_grant list \<times> (int \<times> nat) list)" where
  "load_desktop env version r =
     bind_err (validate_positive_pids ''desktop applications'' (rd_applications (rr_desktop r)))
       (\<lambda>pids.
        if version = 1 \<and> rr_apps r \<noteq> [] then Inl ApplicationsNeedVersion2
        else bind_err (collect (validate_application (le_fs env)) (rr_apps r) [])
          (\<lambda>apps. bind_err (collect (validate_window ''desktop windows'') (rd_windows (rr_desktop r)) [])
             (\<lambda>windows. Inr (pids, apps, windows))))"

definition load_rest ::
    "load_env \<Rightarrow> nat \<Rightarrow> raw_resources
     \<Rightarrow> manifest_error + ((string list \<times> path_grant list) \<times> (string list \<times> path_grant list)
          \<times> int list \<times> (string \<times> json) list \<times> string list)" where
  "load_rest env version r =
     bind_err (validate_path_resources (le_fs env) ''files.read'' version (rf_read (rr_files r)) [] [])
       (\<lambda>rd. bind_err
          (validate_path_resources (le_fs env) ''files.write'' version (rf_write (rr_files r)) [] [])
          (\<lambda>wr. bind_err (validate_positive_pids ''processes.terminate'' (rr_terminate r))
             (\<lambda>pids. bind_err (collect validate_change (rr_changes r) [])
                (\<lambda>changes.
                   if version < 3 \<and> rr_history r \<noteq> [] then Inl HistoryNeedsVersion3
                   else bind_err (collect validate_history_operation (rr_history r) [])
                     (\<lambda>history. Inr (rd, wr, pids, changes, history))))))"

definition manifest_digest :: "(string \<Rightarrow> string) \<Rightarrow> nat \<Rightarrow> string \<Rightarrow> string" where
  "manifest_digest sha version content =
     sha ((if version = 3 then ''cua-driver-capability-manifest'' else ''cua-driver-session-policy'')
          @ ''-v'' @ show_dec version @ [CHR 0x00] @ content)"

definition millis :: "duration \<Rightarrow> nat" where
  "millis d = d div 1000000"

definition load_manifest ::
    "load_env \<Rightarrow> string \<Rightarrow> string + raw_manifest \<Rightarrow> manifest_error + session_manifest" where
  "load_manifest env content parsed =
     (if content = [] then Inl EmptyFile
      else case parsed of
        Inl e \<Rightarrow> Inl (ParseFailed e)
      | Inr raw \<Rightarrow>
          bind_err (check_header raw)
            (\<lambda>_. bind_err (check_lifetimes raw)
              (\<lambda>(expires, idle). bind_err (decision_sets raw)
                (\<lambda>(allow, deny). bind_err (load_browser env (r_version raw) (rr_browser (r_resources raw)))
                  (\<lambda>(profiles, kind, origins). bind_err (load_desktop env (r_version raw) (r_resources raw))
                    (\<lambda>(pids, apps, windows). bind_err (load_rest env (r_version raw) (r_resources raw))
                      (\<lambda>(rd, wr, term, changes, history). bind_err (check_origin_bypass origins allow)
                        (\<lambda>_. Inr
                          \<lparr>m_version = r_version raw,
                           m_sha256 = manifest_digest (le_sha256 env) (r_version raw) content,
                           m_expires_unix_ms =
                             map_option (\<lambda>d. unix_ms (le_clock env) + millis d) expires,
                           m_idle_timeout = idle, m_allow = allow, m_deny = deny, m_ask = [],
                           existing_profiles = profiles, existing_profile_kind = kind,
                           browser_origins = origins, applications = apps,
                           desktop_applications = pids, desktop_windows = windows,
                           desktop_display = rd_display (rr_desktop (r_resources raw)),
                           readable_paths = fst rd, writable_paths = fst wr,
                           readable_roots = snd rd, writable_roots = snd wr,
                           terminable_pids = term, configuration_changes = changes,
                           computer_history_operations = history,
                           m_last_dispatch = monotonic (le_clock env), m_idle_expired = False\<rparr>))))))))"


section \<open>Selecting the manifest\<close>

definition capability_manifest_configured :: "environment \<Rightarrow> bool" where
  "capability_manifest_configured env =
     (env ''CUA_DRIVER_CAPABILITY_MANIFEST_FILE'' \<noteq> None \<or> env ''CUA_DRIVER_SESSION_POLICY_FILE'' \<noteq> None)"

definition capability_manifest_approved :: "environment \<Rightarrow> bool" where
  "capability_manifest_approved env =
     (env_flag env ''CUA_DRIVER_CAPABILITY_MANIFEST_APPROVED''
      \<or> env_flag env ''CUA_DRIVER_SESSION_POLICY_APPROVED'')"

text \<open>\<open>Inl\<close> is the conflict of the two variables.\<close>

definition configured_manifest_path :: "environment \<Rightarrow> unit + string option" where
  "configured_manifest_path env =
     (let cap = env ''CUA_DRIVER_CAPABILITY_MANIFEST_FILE'';
          legacy = env ''CUA_DRIVER_SESSION_POLICY_FILE''
      in if cap \<noteq> None \<and> legacy \<noteq> None \<and> cap \<noteq> legacy then Inl ()
         else Inr (if cap \<noteq> None then cap else legacy))"


section \<open>Lemmas\<close>

lemma collect_all:
  "collect f xs acc = Inr ys \<Longrightarrow> (\<And>x acc y. f x acc = Inr y \<Longrightarrow> P y) \<Longrightarrow> (\<forall>y \<in> set acc. P y) \<Longrightarrow>
   (\<forall>y \<in> set ys. P y)"
proof (induction f xs acc rule: collect.induct)
  case (2 f x xs acc)
  then show ?case by (cases "f x acc") auto
qed simp

lemma collect_distinct:
  "collect f xs acc = Inr ys \<Longrightarrow> (\<And>x acc y. f x acc = Inr y \<Longrightarrow> y \<notin> set acc) \<Longrightarrow> distinct acc \<Longrightarrow>
   distinct ys"
proof (induction f xs acc rule: collect.induct)
  case (2 f x xs acc)
  then show ?case by (cases "f x acc") auto
qed simp

lemma validate_tool_Inr:
  "validate_tool sect tool acc = Inr t \<Longrightarrow>
   t \<noteq> [] \<and> advertised_class t \<noteq> Unclassified \<and> t \<notin> set acc
   \<and> manifest_canonical_tool_name t = t"
  by (auto simp: validate_tool_def Let_def manifest_canonical_tool_name_def split: if_splits)

lemma validate_tools_Inr:
  assumes "validate_tools sect tools = Inr ts"
  shows "distinct ts" "\<forall>t \<in> set ts. advertised_class t \<noteq> Unclassified \<and> manifest_canonical_tool_name t = t"
proof -
  from assms have c: "collect (validate_tool sect) tools [] = Inr ts" by (simp add: validate_tools_def)
  show "distinct ts" by (rule collect_distinct [OF c]) (auto dest: validate_tool_Inr)
  show "\<forall>t \<in> set ts. advertised_class t \<noteq> Unclassified \<and> manifest_canonical_tool_name t = t"
    by (rule collect_all [OF c]) (auto dest: validate_tool_Inr)
qed

lemma decision_sets_Inr:
  assumes "decision_sets raw = Inr (allow, deny)"
  shows "allow \<noteq> [] \<and> distinct allow \<and> set allow \<inter> set deny = {}
    \<and> (\<forall>t \<in> set allow. advertised_class t \<noteq> Unclassified \<and> manifest_canonical_tool_name t = t)"
proof (cases "validate_tools ''allow'' (r_allow raw)")
  case (Inl e)
  with assms show ?thesis by (simp add: decision_sets_def)
next
  case (Inr al)
  with assms have al: "al = allow" "allow \<noteq> []" "find (\<lambda>t. t \<in> set deny) allow = None"
    by (auto simp: decision_sets_def split: sum.splits if_splits option.splits)
  with validate_tools_Inr [OF Inr] show ?thesis by (auto simp: find_None_iff)
qed

lemma parse_optional_None: "parse_optional_duration raw = Inr None \<longleftrightarrow> raw = None"
proof (cases raw)
  case (Some s)
  then show ?thesis by (cases "parse_duration s") (simp_all add: parse_optional_duration_def)
qed (simp add: parse_optional_duration_def)

lemma check_lifetimes_Inr:
  assumes "check_lifetimes raw = Inr (expires, idle)"
  shows "(case expires of Some d \<Rightarrow> 0 < d \<and> d \<le> secs (24 * 60 * 60) | None \<Rightarrow> True)
    \<and> (case idle of Some i \<Rightarrow> 0 < i | None \<Rightarrow> True)
    \<and> (r_expires_after raw \<noteq> None \<longrightarrow> expires \<noteq> None) \<and> (r_idle_timeout raw \<noteq> None \<longrightarrow> idle \<noteq> None)"
proof -
  from assms have "parse_optional_duration (r_expires_after raw) = Inr expires"
    "parse_optional_duration (r_idle_timeout raw) = Inr idle"
    and "(case expires of Some d \<Rightarrow> 0 < d \<and> d \<le> secs (24 * 60 * 60) | None \<Rightarrow> True)
      \<and> (case idle of Some i \<Rightarrow> 0 < i | None \<Rightarrow> True)"
    by (auto simp: check_lifetimes_def not_less split: sum.splits option.splits if_splits)
  with parse_optional_None [of "r_expires_after raw"] parse_optional_None [of "r_idle_timeout raw"]
  show ?thesis by auto
qed

lemma validate_pid_Inr: "validate_pid sect p acc = Inr q \<Longrightarrow> 0 < q"
  by (auto simp: validate_pid_def split: if_splits)

lemma validate_window_Inr: "validate_window sect w acc = Inr q \<Longrightarrow> 0 < fst q \<and> 0 < snd q"
  by (auto simp: validate_window_def split: if_splits)

lemma validated_pids: "validate_positive_pids sect pids = Inr ps \<Longrightarrow> \<forall>p \<in> set ps. 0 < p"
  unfolding validate_positive_pids_def
  by (erule collect_all) (auto dest: validate_pid_Inr)

lemma validated_windows:
  "collect (validate_window sect) ws [] = Inr ps \<Longrightarrow> \<forall>p \<in> set ps. 0 < fst p \<and> 0 < snd p"
  by (erule collect_all) (auto dest: validate_window_Inr)

lemma origin_bypass_Inr:
  "check_origin_bypass origins allow = Inr u \<Longrightarrow> origins = [] \<or> set ORIGIN_BYPASS_TOOLS \<inter> set allow = {}"
  by (auto simp: check_origin_bypass_def find_None_iff split: if_splits option.splits)

lemma load_desktop_Inr:
  assumes "load_desktop env v r = Inr (pids, apps, windows)"
  shows "(\<forall>p \<in> set pids. 0 < p) \<and> (\<forall>w \<in> set windows. 0 < fst w \<and> 0 < snd w)"
proof -
  from assms have "validate_positive_pids ''desktop applications'' (rd_applications (rr_desktop r)) = Inr pids"
    "collect (validate_window ''desktop windows'') (rd_windows (rr_desktop r)) [] = Inr windows"
    by (auto simp: load_desktop_def split: sum.splits if_splits)
  then show ?thesis using validated_pids validated_windows by blast
qed

lemma load_rest_Inr:
  assumes "load_rest env v r = Inr (rd, wr, pids, changes, history)"
  shows "\<forall>p \<in> set pids. 0 < p"
proof (cases "validate_positive_pids ''processes.terminate'' (rr_terminate r)")
  case (Inr ps)
  with assms have "ps = pids" by (auto simp: load_rest_def split: sum.splits if_splits)
  with validated_pids [OF Inr] show ?thesis by simp
next
  case (Inl e)
  with assms show ?thesis by (auto simp: load_rest_def split: sum.splits)
qed

lemma load_manifest_parts:
  assumes "load_manifest env content parsed = Inr m"
  obtains raw expires idle allow deny profiles kind origins pids apps windows rd wr kill changes history
  where "parsed = Inr raw" "check_header raw = Inr ()" "check_lifetimes raw = Inr (expires, idle)"
    "decision_sets raw = Inr (allow, deny)"
    "load_browser env (r_version raw) (rr_browser (r_resources raw)) = Inr (profiles, kind, origins)"
    "load_desktop env (r_version raw) (r_resources raw) = Inr (pids, apps, windows)"
    "load_rest env (r_version raw) (r_resources raw) = Inr (rd, wr, kill, changes, history)"
    "check_origin_bypass origins allow = Inr ()"
    "m_version m = r_version raw" "m_allow m = allow" "m_deny m = deny" "m_ask m = []"
    "m_expires_unix_ms m = map_option (\<lambda>d. unix_ms (le_clock env) + millis d) expires"
    "m_idle_timeout m = idle" "browser_origins m = origins" "desktop_applications m = pids"
    "desktop_windows m = windows" "terminable_pids m = kill"
    "m_last_dispatch m = monotonic (le_clock env)" "\<not> m_idle_expired m"
  using assms
  by (auto simp: load_manifest_def split: if_splits sum.splits prod.splits)


definition graphic :: "char \<Rightarrow> bool" where
  "graphic c = (32 < byte_of c \<and> byte_of c < 128)"

lemma white_space_ends: "list_all (\<lambda>w. w \<noteq> [] \<and> \<not> graphic (hd w) \<and> \<not> graphic (last w)) white_space"
  by (simp add: white_space_def bytes_def graphic_def byte_of_def)

lemma trim_graphic:
  assumes "s \<noteq> []" "graphic (hd s)" "graphic (last s)"
  shows "trim s = s"
proof -
  have "find (\<lambda>w. w \<noteq> [] \<and> prefix w s) white_space = None"
    using white_space_ends assms by (auto simp: find_None_iff list_all_iff prefix_def)
  then have "strip_white s = s" by (subst strip_white.simps) simp
  moreover have "find (\<lambda>w. w \<noteq> [] \<and> suffix w s) white_space = None"
    using white_space_ends assms by (auto simp: find_None_iff list_all_iff suffix_def)
  then have "strip_white_end s = s" by (subst strip_white_end.simps) simp
  ultimately show ?thesis by (simp add: trim_def)
qed

lemma graphic_digit: "d < 10 \<Longrightarrow> graphic (digit_char d)"
  by (simp add: graphic_def byte_of_def of_char_digit_char)

lemma graphic_show_dec: "graphic (hd (show_dec n))"
proof -
  have "hd (to_radix 10 n) \<in> set (to_radix 10 n)" using to_radix_ne by (rule hd_in_set)
  then have "hd (to_radix 10 n) < 10" by (rule to_radix_digits [rotated]) simp
  then show ?thesis using to_radix_ne by (simp add: show_dec_def hd_map graphic_digit)
qed

lemma parse_show_duration:
  assumes "n < 2 ^ 64" "graphic u"
  shows "parse_duration (show_dec n @ [u]) =
     (if u = CHR ''s'' then Inr (secs n)
      else if u = CHR ''m'' then Inr (secs (saturating_u64 (n * 60)))
      else if u = CHR ''h'' then Inr (secs (saturating_u64 (n * 3600)))
      else Inl InvalidUnit)"
proof -
  have ne: "show_dec n \<noteq> []" by (rule show_dec_ne)
  then have "trim (show_dec n @ [u]) = show_dec n @ [u]"
    using graphic_show_dec assms(2) by (intro trim_graphic) simp_all
  moreover have "\<not> is_cont_byte u" using assms(2) by (simp add: graphic_def is_cont_byte_def)
  moreover have "\<not> length (show_dec n @ [u]) < 2" using ne by (cases "show_dec n") simp_all
  ultimately show ?thesis
    using parse_show_dec [OF assms(1)]
    by (simp add: parse_duration_def Let_def is_char_boundary_def nth_append)
qed


section \<open>Properties\<close>


definition bare_raw :: raw_manifest where
  "bare_raw =
     \<lparr>r_version = 3, r_mode = None, r_expires_after = None, r_idle_timeout = None,
      r_resources =
        \<lparr>rr_apps = [],
         rr_browser = \<lparr>rb_existing_profiles = [], rb_profiles = [], rb_origins = []\<rparr>,
         rr_desktop = \<lparr>rd_applications = [42], rd_windows = [], rd_display = False\<rparr>,
         rr_files = \<lparr>rf_read = [], rf_write = []\<rparr>, rr_terminate = [], rr_changes = [],
         rr_history = []\<rparr>,
      r_allow = [''list_apps''], r_deny = [], r_ask = None\<rparr>"

definition plain_load_env :: load_env where
  "plain_load_env =
     \<lparr>le_url = (\<lambda>_. None),
      le_fs = \<lparr>fs_exists = \<lambda>_. False, fs_is_dir = \<lambda>_. False, fs_lstat = \<lambda>_. LNotFound,
               fs_canonicalize = Inr\<rparr>,
      le_sha256 = id, le_clock = \<lparr>unix_ms = 0, monotonic = 0\<rparr>\<rparr>"

lemma bare_raw_loads: "\<exists>m. load_manifest plain_load_env ''v'' (Inr bare_raw) = Inr m"
proof -
  have t: "trim ''list_apps'' = ''list_apps''" by (rule trim_graphic) (simp_all add: graphic_def byte_of_def)
  have "check_header bare_raw = Inr ()" by (simp add: check_header_def bare_raw_def)
  moreover have "check_lifetimes bare_raw = Inr (None, None)"
    by (simp add: check_lifetimes_def bare_raw_def parse_optional_duration_def)
  moreover have "decision_sets bare_raw = Inr ([''list_apps''], [])"
    by (simp add: decision_sets_def bare_raw_def validate_tools_def validate_tool_def t
        manifest_canonical_tool_name_def advertised_special)
  ultimately show ?thesis
    by (simp add: load_manifest_def bare_raw_def load_browser_def load_desktop_def load_rest_def
        validate_positive_pids_def validate_pid_def check_origin_bypass_def)
qed


text \<open>A duration is a decimal count and a unit: every count below 2^64 followed by \<open>s\<close>, \<open>m\<close> or
  \<open>h\<close> parses to that many seconds, saturating at 2^64 - 1 seconds, and any other ASCII unit is
  refused. A text whose last character takes more than one byte is split inside that character,
  which panics instead of returning the error.\<close>

theorem duration_parsing:
  assumes "n < 2 ^ 64" "graphic u"
  shows "parse_duration (show_dec n @ ''s'') = Inr (secs n)
    \<and> parse_duration (show_dec n @ ''m'') = Inr (secs (min (n * 60) (2 ^ 64 - 1)))
    \<and> parse_duration (show_dec n @ ''h'') = Inr (secs (min (n * 3600) (2 ^ 64 - 1)))
    \<and> (u \<in> set ''smh'' \<or> parse_duration (show_dec n @ [u]) = Inl InvalidUnit)
    \<and> parse_duration [CHR ''5'', CHR 0xC2, CHR 0xB5] = Inl DurationPanic"
proof -
  have t: "trim [CHR ''5'', CHR 0xC2, CHR 0xB5] = [CHR ''5'', CHR 0xC2, CHR 0xB5]" by code_simp
  have "parse_duration [CHR ''5'', CHR 0xC2, CHR 0xB5] = Inl DurationPanic"
    by (simp add: parse_duration_def t is_char_boundary_def is_cont_byte_def byte_of_def numeral_2_eq_2)
  moreover have "graphic (CHR ''s'')" "graphic (CHR ''m'')" "graphic (CHR ''h'')"
    by (simp_all add: graphic_def byte_of_def)
  ultimately show ?thesis
    using parse_show_duration [OF assms] parse_show_duration [OF assms(1), of "CHR ''s''"]
      parse_show_duration [OF assms(1), of "CHR ''m''"] parse_show_duration [OF assms(1), of "CHR ''h''"]
    by (simp add: saturating_u64_def)
qed

theorem duration_parsing_witness:
  "parse_duration (show_dec 90 @ ''m'') = Inr (secs 5400)"
  using duration_parsing [of 90 "CHR ''d''"] by (simp add: graphic_def byte_of_def)

end
