(* ===== verification/SessionAuthorization.thy ===== *)
theory SessionAuthorization
  imports ManifestLoad SessionState
begin

text \<open>
  Model of \<open>cua-driver-core/src/session_authorization.rs\<close>: the mode ceiling of a runtime, the
  immutable authorization contexts with their lifetimes, and the registry that binds them to
  authenticated connections. A context is shared (\<open>Arc\<close>) between the registry and the callers
  that resolved it, and a manifest between the contexts that carry it, so both live in stores
  and are named by their index: revoking or expiring one is seen through every handle. Fresh
  identifiers and the clocks are arguments; a daemon generation is the 32-digit text of its
  UUID.
\<close>

section \<open>Ceiling\<close>

datatype context_source = Process | TrustedHost

record mode_ceiling =
  allowed_modes :: "permission_mode list"
  unrestricted_acknowledged :: bool
  delegation_enabled :: bool
  max_session_ttl :: "duration option"
  max_idle_ttl :: "duration option"
  ceiling_user_sha256 :: "string option"
  ceiling_managed_sha256 :: "string option"

definition ceiling_process ::
    "permission_mode \<Rightarrow> string + string option \<Rightarrow> string + string option \<Rightarrow> string + mode_ceiling" where
  "ceiling_process mode user managed =
     bind_err user (\<lambda>u. bind_err managed (\<lambda>mg.
       Inr \<lparr>allowed_modes = [mode], unrestricted_acknowledged = (mode = Unrestricted),
            delegation_enabled = False, max_session_ttl = None, max_idle_ttl = None,
            ceiling_user_sha256 = u, ceiling_managed_sha256 = mg\<rparr>))"

definition for_trusted_sessions ::
    "permission_mode list \<Rightarrow> bool \<Rightarrow> duration \<Rightarrow> duration \<Rightarrow> string + string option
     \<Rightarrow> string + string option \<Rightarrow> string + mode_ceiling" where
  "for_trusted_sessions modes ack session_max idle_max user managed =
     (if modes = [] then Inl ''runtime authorization ceiling must allow at least one mode''
      else if session_max = 0 \<or> idle_max = 0 \<or> session_max < idle_max then
        Inl ''runtime authorization ceiling TTLs must be non-zero and idle TTL cannot exceed session TTL''
      else if Unrestricted \<in> set modes \<and> \<not> ack then
        Inl ''unrestricted runtime ceiling requires trusted launch-time acknowledgement''
      else bind_err user (\<lambda>u. bind_err managed (\<lambda>mg.
        Inr \<lparr>allowed_modes = remdups modes, unrestricted_acknowledged = ack,
             delegation_enabled = True, max_session_ttl = Some session_max,
             max_idle_ttl = Some idle_max, ceiling_user_sha256 = u, ceiling_managed_sha256 = mg\<rparr>)))"

definition ceiling_allows :: "mode_ceiling \<Rightarrow> permission_mode \<Rightarrow> bool" where
  "ceiling_allows c m =
     (m \<in> set (allowed_modes c) \<and> (m \<noteq> Unrestricted \<or> unrestricted_acknowledged c))"


section \<open>Contexts\<close>

record auth_context =
  daemon_generation :: string
  source :: context_source
  ctx_mode :: permission_mode
  ctx_public :: "string option"
  ctx_transport :: "string option"
  ctx_host :: "nat option"
  ctx_manifest :: "nat option"
  ctx_user_sha256 :: "string option"
  ctx_managed_sha256 :: "string option"
  ctx_expires_unix_ms :: "nat option"
  expires_at :: "instant option"
  ctx_idle_ttl :: "duration option"
  ctx_last_dispatch :: "instant option"
  ctx_idle_expired :: "bool option"
  revoked :: bool

definition runtime_session_key :: "auth_context \<Rightarrow> string \<Rightarrow> string" where
  "runtime_session_key c session = ''__cua_runtime_'' @ daemon_generation c @ '':'' @ session"

definition lifecycle_idle_ttl_override :: "auth_context \<Rightarrow> duration option" where
  "lifecycle_idle_ttl_override c = (if source c = TrustedHost then ctx_idle_ttl c else None)"

text \<open>\<open>is_expired\<close>, which also latches an idle lapse.\<close>

definition context_is_expired :: "clock \<Rightarrow> auth_context \<Rightarrow> auth_context \<times> bool" where
  "context_is_expired t c =
     (if revoked c then (c, True)
      else if (case expires_at c of Some e \<Rightarrow> e \<le> monotonic t | None \<Rightarrow> False) then (c, True)
      else case (ctx_idle_ttl c, ctx_last_dispatch c, ctx_idle_expired c) of
        (Some d, Some l, Some flag) \<Rightarrow>
          if flag then (c, True)
          else if d \<le> monotonic t - l then (c\<lparr>ctx_idle_expired := Some True\<rparr>, True)
          else (c, False)
      | _ \<Rightarrow> (c, False))"

datatype dispatch_error =
    ContextRevoked
  | ContextIdle
  | ContextExpired
  | ManifestLifetime lifetime_error

definition commit_context_dispatch ::
    "clock \<Rightarrow> auth_context \<Rightarrow> auth_context \<times> (dispatch_error + unit)" where
  "commit_context_dispatch t c =
     (if revoked c then (c, Inl ContextRevoked)
      else case (ctx_idle_ttl c, ctx_last_dispatch c, ctx_idle_expired c) of
        (Some d, Some l, Some flag) \<Rightarrow>
          if flag then (c, Inl ContextIdle)
          else if d < monotonic t - l then (c\<lparr>ctx_idle_expired := Some True\<rparr>, Inl ContextIdle)
          else (c\<lparr>ctx_last_dispatch := Some (monotonic t)\<rparr>, Inr ())
      | _ \<Rightarrow> (c, Inr ()))"

text \<open>\<open>commit_authorized_dispatch\<close> on a context and the manifest it carries.\<close>

definition commit_dispatch ::
    "clock \<Rightarrow> auth_context \<times> session_manifest option
     \<Rightarrow> (auth_context \<times> session_manifest option) \<times> (dispatch_error + unit)" where
  "commit_dispatch t cm =
     (case context_is_expired t (fst cm) of
        (c1, True) \<Rightarrow> ((c1, snd cm), Inl ContextExpired)
      | (c1, False) \<Rightarrow>
          (case snd cm of
             None \<Rightarrow> (case commit_context_dispatch t c1 of (c2, r) \<Rightarrow> ((c2, None), r))
           | Some m \<Rightarrow>
               (case check_lifetime t m of
                  (m1, Inl e) \<Rightarrow> ((c1, Some m1), Inl (ManifestLifetime e))
                | (m1, Inr _) \<Rightarrow>
                    (case commit_context_dispatch t c1 of
                       (c2, Inl e) \<Rightarrow> ((c2, Some m1), Inl e)
                     | (c2, Inr _) \<Rightarrow>
                         (case manifest_commit t m1 of
                            (m2, r) \<Rightarrow> ((c2, Some m2), map_sum ManifestLifetime id r))))))"


section \<open>Registry\<close>

record host_lease_proof =
  lease_id :: nat
  lease_generation :: string

record connection_proof =
  conn_id :: nat
  conn_generation :: string
  conn_host :: nat

record delegated_request =
  req_public :: string
  req_transport :: string
  req_mode :: permission_mode
  req_ttl :: duration
  req_idle_ttl :: duration
  req_manifest :: "nat option"

datatype session_authorization_error =
    DelegationDisabled
  | ModeOutsideCeiling
  | UnrestrictedNotAcknowledged
  | GenerationMismatch
  | HostLeaseMismatch
  | ConnectionAlreadyBound
  | SessionAlreadyBound
  | UnknownConnection
  | SessionMismatch
  | Expired
  | InvalidTtl
  | MissingBoundedManifest
  | InvalidManifest

record auth_registry =
  generation :: string
  ceiling :: mode_ceiling
  by_connection :: "(nat, nat) kv"
  contexts :: "auth_context list"
  manifests :: "session_manifest list"

definition trusted_in_process_binding ::
    "auth_registry \<Rightarrow> nat \<Rightarrow> nat \<Rightarrow> host_lease_proof \<times> connection_proof" where
  "trusted_in_process_binding r fresh_lease fresh_conn =
     (\<lparr>lease_id = fresh_lease, lease_generation = generation r\<rparr>,
      \<lparr>conn_id = fresh_conn, conn_generation = generation r, conn_host = fresh_lease\<rparr>)"

definition put_manifest :: "nat \<Rightarrow> session_manifest \<Rightarrow> auth_registry \<Rightarrow> auth_registry" where
  "put_manifest i m r = r\<lparr>manifests := (manifests r)[i := m]\<rparr>"

text \<open>The process-owned context; it is not bound to a connection.\<close>

definition process_context :: "auth_registry \<Rightarrow> permission_mode \<Rightarrow> nat option \<Rightarrow> auth_context" where
  "process_context r mode mref =
     \<lparr>daemon_generation = generation r, source = Process, ctx_mode = mode, ctx_public = None,
      ctx_transport = None, ctx_host = None, ctx_manifest = mref,
      ctx_user_sha256 = ceiling_user_sha256 (ceiling r),
      ctx_managed_sha256 = ceiling_managed_sha256 (ceiling r), ctx_expires_unix_ms = None,
      expires_at = None, ctx_idle_ttl = None, ctx_last_dispatch = None, ctx_idle_expired = None,
      revoked = False\<rparr>"

definition compatibility_context ::
    "clock \<Rightarrow> permission_mode \<Rightarrow> nat option \<Rightarrow> auth_registry \<Rightarrow> auth_registry \<times> (string + nat)" where
  "compatibility_context t mode mref r =
     (if \<not> ceiling_allows (ceiling r) mode then
        (r, Inl ''compatibility permission mode is outside the runtime ceiling'')
      else if mode = Bounded \<and> mref = None then
        (r, Inl ''bounded compatibility mode requires a capability manifest'')
      else
        (let (r1, valid) =
           (case mref of
              None \<Rightarrow> (r, True)
            | Some i \<Rightarrow>
                (case validate_for_mode t mode (manifests r ! i) of
                   (m, res) \<Rightarrow> (put_manifest i m r, res = Inr ())))
         in if \<not> valid then (r1, Inl ''manifest'')
            else (r1\<lparr>contexts := contexts r1 @ [process_context r1 mode mref]\<rparr>,
                  Inr (length (contexts r1)))))"

text \<open>Drop and revoke the bound contexts that have expired.\<close>

definition expire_context :: "clock \<Rightarrow> auth_context \<Rightarrow> auth_context" where
  "expire_context t c =
     (case context_is_expired t c of (c1, e) \<Rightarrow> if e then c1\<lparr>revoked := True\<rparr> else c1)"

definition sweep :: "clock \<Rightarrow> auth_registry \<Rightarrow> auth_registry" where
  "sweep t r =
     r\<lparr>by_connection :=
         kv_retain (\<lambda>_ i. \<not> snd (context_is_expired t (contexts r ! i))) (by_connection r),
       contexts :=
         map (\<lambda>i. if i \<in> snd ` set (by_connection r) then expire_context t (contexts r ! i)
                  else contexts r ! i) [0..<length (contexts r)]\<rparr>"

definition delegated_context ::
    "clock \<Rightarrow> auth_registry \<Rightarrow> host_lease_proof \<Rightarrow> delegated_request \<Rightarrow> auth_context" where
  "delegated_context t r host req =
     \<lparr>daemon_generation = generation r, source = TrustedHost, ctx_mode = req_mode req,
      ctx_public = Some (req_public req), ctx_transport = Some (req_transport req),
      ctx_host = Some (lease_id host), ctx_manifest = req_manifest req,
      ctx_user_sha256 = ceiling_user_sha256 (ceiling r),
      ctx_managed_sha256 = ceiling_managed_sha256 (ceiling r),
      ctx_expires_unix_ms = Some (unix_ms t + millis (req_ttl req)),
      expires_at = Some (monotonic t + req_ttl req), ctx_idle_ttl = Some (req_idle_ttl req),
      ctx_last_dispatch = Some (monotonic t), ctx_idle_expired = Some False, revoked = False\<rparr>"

definition invalid_ttl :: "mode_ceiling \<Rightarrow> delegated_request \<Rightarrow> bool" where
  "invalid_ttl c req =
     (req_ttl req = 0 \<or> req_idle_ttl req = 0
      \<or> (case max_session_ttl c of None \<Rightarrow> True | Some m \<Rightarrow> m < req_ttl req)
      \<or> (case max_idle_ttl c of None \<Rightarrow> True | Some m \<Rightarrow> m < req_idle_ttl req)
      \<or> req_ttl req < req_idle_ttl req)"

text \<open>The checks before the registry is locked, in the order of the code.\<close>

definition bind_refusal ::
    "auth_registry \<Rightarrow> host_lease_proof \<Rightarrow> connection_proof \<Rightarrow> delegated_request
     \<Rightarrow> session_authorization_error option" where
  "bind_refusal r host conn req =
     (if \<not> delegation_enabled (ceiling r) then Some DelegationDisabled
      else if lease_generation host \<noteq> generation r \<or> conn_generation conn \<noteq> generation r then
        Some GenerationMismatch
      else if conn_host conn \<noteq> lease_id host then Some HostLeaseMismatch
      else if req_mode req \<notin> set (allowed_modes (ceiling r)) then Some ModeOutsideCeiling
      else if req_mode req = Unrestricted \<and> \<not> unrestricted_acknowledged (ceiling r) then
        Some UnrestrictedNotAcknowledged
      else if invalid_ttl (ceiling r) req then Some InvalidTtl
      else if req_mode req = Bounded \<and> req_manifest req = None then Some MissingBoundedManifest
      else None)"

definition bind_delegated_session ::
    "clock \<Rightarrow> host_lease_proof \<Rightarrow> connection_proof \<Rightarrow> delegated_request \<Rightarrow> auth_registry
     \<Rightarrow> auth_registry \<times> (session_authorization_error + unit)" where
  "bind_delegated_session t host conn req r =
     (case bind_refusal r host conn req of
        Some e \<Rightarrow> (r, Inl e)
      | None \<Rightarrow>
          (let (r1, valid) =
             (case req_manifest req of
                None \<Rightarrow> (r, True)
              | Some i \<Rightarrow>
                  (case validate_for_mode t (req_mode req) (manifests r ! i) of
                     (m, res) \<Rightarrow> (put_manifest i m r, res = Inr ())))
           in if \<not> valid then (r1, Inl InvalidManifest)
              else
                (let r2 = sweep t r1
                 in if kv_has (by_connection r2) (conn_id conn) then (r2, Inl ConnectionAlreadyBound)
                    else if \<exists>e \<in> set (by_connection r2).
                              ctx_public (contexts r2 ! snd e) = Some (req_public req)
                              \<or> ctx_transport (contexts r2 ! snd e) = Some (req_transport req)
                    then (r2, Inl SessionAlreadyBound)
                    else
                      (r2\<lparr>contexts := contexts r2 @ [delegated_context t r2 host req],
                          by_connection := kv_put (conn_id conn) (length (contexts r2))
                                             (by_connection r2)\<rparr>, Inr ()))))"

definition resolve_delegated ::
    "clock \<Rightarrow> connection_proof \<Rightarrow> string \<Rightarrow> string \<Rightarrow> auth_registry
     \<Rightarrow> auth_registry \<times> (session_authorization_error + nat)" where
  "resolve_delegated t conn pub tr r =
     (if conn_generation conn \<noteq> generation r then (r, Inl GenerationMismatch)
      else case kv_get (by_connection r) (conn_id conn) of
        None \<Rightarrow> (r, Inl UnknownConnection)
      | Some i \<Rightarrow>
          if daemon_generation (contexts r ! i) \<noteq> generation r then (r, Inl GenerationMismatch)
          else (case context_is_expired t (contexts r ! i) of
            (c, True) \<Rightarrow>
              (r\<lparr>contexts := (contexts r)[i := c],
                 by_connection := kv_del (conn_id conn) (by_connection r)\<rparr>, Inl Expired)
          | (c, False) \<Rightarrow>
              if ctx_public c \<noteq> Some pub \<or> ctx_transport c \<noteq> Some tr
              then (r, Inl SessionMismatch) else (r, Inr i)))"

definition revoke_context :: "nat \<Rightarrow> auth_registry \<Rightarrow> auth_registry" where
  "revoke_context i r = r\<lparr>contexts := (contexts r)[i := (contexts r ! i)\<lparr>revoked := True\<rparr>]\<rparr>"

definition revoke_connection :: "connection_proof \<Rightarrow> auth_registry \<Rightarrow> auth_registry \<times> bool" where
  "revoke_connection conn r =
     (if conn_generation conn \<noteq> generation r then (r, False)
      else case kv_get (by_connection r) (conn_id conn) of
        None \<Rightarrow> (r, False)
      | Some i \<Rightarrow>
          (revoke_context i (r\<lparr>by_connection := kv_del (conn_id conn) (by_connection r)\<rparr>), True))"

definition revoke_host :: "host_lease_proof \<Rightarrow> auth_registry \<Rightarrow> auth_registry \<times> nat" where
  "revoke_host host r =
     (if lease_generation host \<noteq> generation r then (r, 0)
      else
        (let ours = (\<lambda>i. ctx_host (contexts r ! i) = Some (lease_id host));
             gone = map snd (filter (\<lambda>e. ours (snd e)) (by_connection r))
         in (fold revoke_context gone
               (r\<lparr>by_connection := kv_retain (\<lambda>_ i. \<not> ours i) (by_connection r)\<rparr>),
             length gone)))"

definition revoke_every :: "auth_registry \<Rightarrow> auth_registry \<times> nat" where
  "revoke_every r =
     (fold revoke_context (map snd (by_connection r)) (r\<lparr>by_connection := []\<rparr>),
      length (by_connection r))"

text \<open>A dispatch that commits on a handle held by a caller.\<close>

definition commit_handle ::
    "clock \<Rightarrow> nat \<Rightarrow> auth_registry \<Rightarrow> auth_registry \<times> (dispatch_error + unit)" where
  "commit_handle t i r =
     (let c = contexts r ! i
      in case ctx_manifest c of
           None \<Rightarrow>
             (case commit_dispatch t (c, None) of
                ((c', _), res) \<Rightarrow> (r\<lparr>contexts := (contexts r)[i := c']\<rparr>, res))
         | Some k \<Rightarrow>
             (case commit_dispatch t (c, Some (manifests r ! k)) of
                ((c', Some m), res) \<Rightarrow>
                  (r\<lparr>contexts := (contexts r)[i := c'], manifests := (manifests r)[k := m]\<rparr>, res)
              | ((c', None), res) \<Rightarrow> (r\<lparr>contexts := (contexts r)[i := c']\<rparr>, res)))"

definition handle_is_expired :: "clock \<Rightarrow> nat \<Rightarrow> auth_registry \<Rightarrow> auth_registry \<times> bool" where
  "handle_is_expired t i r =
     (case context_is_expired t (contexts r ! i) of
        (c, e) \<Rightarrow> (r\<lparr>contexts := (contexts r)[i := c]\<rparr>, e))"

end
