(* ===== verification/ContextHistory.thy ===== *)
theory ContextHistory
  imports SessionAuthorization
begin

text \<open>
  Histories of the registry of \<open>SessionAuthorization\<close>: its operations, and those of the handles
  its callers hold, as one step function; how an operation may change a context; and the
  invariant that every operation preserves.
\<close>


section \<open>Histories\<close>

text \<open>The operations of a registry and of the handles its callers hold.\<close>

datatype auth_op =
    AddManifest session_manifest
  | Compatibility clock permission_mode "nat option"
  | BindDelegated clock host_lease_proof connection_proof delegated_request
  | ResolveDelegated clock connection_proof string string
  | RevokeConnection connection_proof
  | RevokeHost host_lease_proof
  | RevokeAll
  | CommitHandle clock nat
  | CheckHandle clock nat

fun auth_step :: "auth_op \<Rightarrow> auth_registry \<Rightarrow> auth_registry" where
  "auth_step (AddManifest m) r = r\<lparr>manifests := manifests r @ [m]\<rparr>"
| "auth_step (Compatibility t mode mref) r = fst (compatibility_context t mode mref r)"
| "auth_step (BindDelegated t host conn req) r = fst (bind_delegated_session t host conn req r)"
| "auth_step (ResolveDelegated t conn pub tr) r = fst (resolve_delegated t conn pub tr r)"
| "auth_step (RevokeConnection conn) r = fst (revoke_connection conn r)"
| "auth_step (RevokeHost host) r = fst (revoke_host host r)"
| "auth_step RevokeAll r = fst (revoke_every r)"
| "auth_step (CommitHandle t i) r = fst (commit_handle t i r)"
| "auth_step (CheckHandle t i) r = fst (handle_is_expired t i r)"

definition auth_run :: "auth_op list \<Rightarrow> auth_registry \<Rightarrow> auth_registry" where
  "auth_run ops r = fold auth_step ops r"

definition new_auth_registry :: "string \<Rightarrow> mode_ceiling \<Rightarrow> auth_registry" where
  "new_auth_registry g c =
     \<lparr>generation = g, ceiling = c, by_connection = [], contexts = [], manifests = []\<rparr>"


section \<open>Frames\<close>

text \<open>A context without its lease: what no operation may change.\<close>

definition fixed_part :: "auth_context \<Rightarrow> auth_context" where
  "fixed_part c = c\<lparr>ctx_last_dispatch := None, ctx_idle_expired := None, revoked := False\<rparr>"

text \<open>How a context may change: its fixed part never, its revocation one way, the presence of
  its lease never.\<close>

definition ctx_evolves :: "auth_context \<Rightarrow> auth_context \<Rightarrow> bool" where
  "ctx_evolves c c' =
     (fixed_part c' = fixed_part c \<and> (revoked c \<longrightarrow> revoked c')
      \<and> (ctx_last_dispatch c' = None \<longleftrightarrow> ctx_last_dispatch c = None)
      \<and> (ctx_idle_expired c' = None \<longleftrightarrow> ctx_idle_expired c = None))"

lemma ctx_evolves_refl [simp, intro]: "ctx_evolves c c"
  by (simp add: ctx_evolves_def)

lemma ctx_evolves_trans: "ctx_evolves a b \<Longrightarrow> ctx_evolves b c \<Longrightarrow> ctx_evolves a c"
  by (simp add: ctx_evolves_def)

lemma fixed_part_fields:
  "daemon_generation (fixed_part c) = daemon_generation c" "source (fixed_part c) = source c"
  "ctx_mode (fixed_part c) = ctx_mode c" "ctx_public (fixed_part c) = ctx_public c"
  "ctx_transport (fixed_part c) = ctx_transport c" "ctx_host (fixed_part c) = ctx_host c"
  "ctx_manifest (fixed_part c) = ctx_manifest c" "ctx_idle_ttl (fixed_part c) = ctx_idle_ttl c"
  "expires_at (fixed_part c) = expires_at c"
  by (simp_all add: fixed_part_def)

lemma ctx_evolves_fields:
  assumes "ctx_evolves c c'"
  shows "daemon_generation c' = daemon_generation c" "source c' = source c" "ctx_mode c' = ctx_mode c"
    "ctx_public c' = ctx_public c" "ctx_transport c' = ctx_transport c" "ctx_host c' = ctx_host c"
    "ctx_manifest c' = ctx_manifest c" "ctx_idle_ttl c' = ctx_idle_ttl c" "expires_at c' = expires_at c"
  using assms fixed_part_fields [of c] fixed_part_fields [of c'] unfolding ctx_evolves_def by metis+

lemma expired_keeps:
  "revoked (fst (context_is_expired t c)) = revoked c"
  "ctx_last_dispatch (fst (context_is_expired t c)) = ctx_last_dispatch c"
  by (auto simp: context_is_expired_def split: option.splits)

lemma expired_evolves: "ctx_evolves c (fst (context_is_expired t c))"
  by (auto simp: context_is_expired_def ctx_evolves_def fixed_part_def split: option.splits)

lemma commit_context_keeps: "revoked (fst (commit_context_dispatch t c)) = revoked c"
  by (auto simp: commit_context_dispatch_def split: option.splits)

lemma commit_context_evolves: "ctx_evolves c (fst (commit_context_dispatch t c))"
  by (auto simp: commit_context_dispatch_def ctx_evolves_def fixed_part_def split: option.splits)

lemma expire_context_keeps: "ctx_evolves c (expire_context t c)"
  using expired_evolves [of c t]
  by (auto simp: expire_context_def ctx_evolves_def fixed_part_def split: prod.splits)

lemma expire_context_live: "\<not> snd (context_is_expired t c) \<Longrightarrow> expire_context t c = fst (context_is_expired t c)"
  by (auto simp: expire_context_def split: prod.splits)

lemma commit_dispatch_keeps:
  "revoked (fst (fst (commit_dispatch t (c, mo)))) = revoked c"
  "ctx_evolves c (fst (fst (commit_dispatch t (c, mo))))"
proof -
  obtain c1 e where x: "context_is_expired t c = (c1, e)" by (cases "context_is_expired t c")
  obtain c2 s where y: "commit_context_dispatch t c1 = (c2, s)" by (cases "commit_context_dispatch t c1")
  have c1: "revoked c1 = revoked c" "ctx_evolves c c1" using expired_keeps(1) [of t c] expired_evolves [of c t] x by simp_all
  have c2: "revoked c2 = revoked c1" "ctx_evolves c1 c2" using commit_context_keeps [of t c1] commit_context_evolves [of c1 t] y by simp_all
  have "fst (fst (commit_dispatch t (c, mo))) = c1 \<or> fst (fst (commit_dispatch t (c, mo))) = c2"
    using x y by (auto simp: commit_dispatch_def split: bool.splits option.splits prod.splits sum.splits)
  with c1 c2 ctx_evolves_trans [OF c1(2) c2(2)]
  show "revoked (fst (fst (commit_dispatch t (c, mo)))) = revoked c"
    "ctx_evolves c (fst (fst (commit_dispatch t (c, mo))))" by auto
qed

text \<open>How a registry may change.\<close>

definition reg_evolves :: "auth_registry \<Rightarrow> auth_registry \<Rightarrow> bool" where
  "reg_evolves r r' =
     (generation r' = generation r \<and> ceiling r' = ceiling r
      \<and> length (contexts r) \<le> length (contexts r')
      \<and> (\<forall>i < length (contexts r). ctx_evolves (contexts r ! i) (contexts r' ! i)))"

lemma reg_evolves_refl [simp, intro]: "reg_evolves r r"
  by (simp add: reg_evolves_def)

lemma reg_evolves_trans: "reg_evolves a b \<Longrightarrow> reg_evolves b c \<Longrightarrow> reg_evolves a c"
  unfolding reg_evolves_def by (auto dest: order_less_le_trans intro: ctx_evolves_trans)

lemma reg_evolves_update:
  "(i < length (contexts r) \<Longrightarrow> ctx_evolves (contexts r ! i) c) \<Longrightarrow> contexts r' = (contexts r)[i := c] \<Longrightarrow>
   generation r' = generation r \<Longrightarrow> ceiling r' = ceiling r \<Longrightarrow> reg_evolves r r'"
  by (cases "i < length (contexts r)") (auto simp: reg_evolves_def nth_list_update)

lemma reg_evolves_append:
  "contexts r' = contexts r @ cs \<Longrightarrow> generation r' = generation r \<Longrightarrow> ceiling r' = ceiling r \<Longrightarrow> reg_evolves r r'"
  by (auto simp: reg_evolves_def nth_append)

lemma put_manifest_facts [simp]:
  "generation (put_manifest i m r) = generation r" "ceiling (put_manifest i m r) = ceiling r"
  "contexts (put_manifest i m r) = contexts r" "by_connection (put_manifest i m r) = by_connection r"
  by (simp_all add: put_manifest_def)

lemma reg_evolves_same:
  "contexts r' = contexts r \<Longrightarrow> generation r' = generation r \<Longrightarrow> ceiling r' = ceiling r \<Longrightarrow> reg_evolves r r'"
  by (simp add: reg_evolves_def)

lemma sweep_facts:
  "generation (sweep t r) = generation r" "ceiling (sweep t r) = ceiling r"
  "length (contexts (sweep t r)) = length (contexts r)" "manifests (sweep t r) = manifests r"
  by (simp_all add: sweep_def)

lemma sweep_context:
  "i < length (contexts r) \<Longrightarrow> contexts (sweep t r) ! i =
     (if i \<in> snd ` set (by_connection r) then expire_context t (contexts r ! i) else contexts r ! i)"
  by (simp add: sweep_def)

lemma sweep_evolves: "reg_evolves r (sweep t r)"
  by (simp add: reg_evolves_def sweep_facts sweep_context expire_context_keeps)

lemma revoke_context_facts [simp]:
  "generation (revoke_context i r) = generation r" "ceiling (revoke_context i r) = ceiling r"
  "by_connection (revoke_context i r) = by_connection r" "manifests (revoke_context i r) = manifests r"
  "length (contexts (revoke_context i r)) = length (contexts r)"
  by (simp_all add: revoke_context_def)

lemma revoke_context_evolves: "reg_evolves r (revoke_context i r)"
  by (rule reg_evolves_update [of i r "(contexts r ! i)\<lparr>revoked := True\<rparr>"])
     (simp_all add: revoke_context_def ctx_evolves_def fixed_part_def)

lemma fold_revoke_facts:
  "generation (fold revoke_context is r) = generation r" "ceiling (fold revoke_context is r) = ceiling r"
  "by_connection (fold revoke_context is r) = by_connection r"
  "length (contexts (fold revoke_context is r)) = length (contexts r)"
  "reg_evolves r (fold revoke_context is r)"
proof (induction "is" arbitrary: r)
  case (Cons i "is")
  { case 1 then show ?case using Cons(1) by simp }
  { case 2 then show ?case using Cons(2) by simp }
  { case 3 then show ?case using Cons(3) by simp }
  { case 4 then show ?case using Cons(4) by simp }
  { case 5 then show ?case using Cons(5) [of "revoke_context i r"] revoke_context_evolves [of r i]
      reg_evolves_trans by auto }
qed simp_all

lemma fold_revoke_revokes:
  "i \<in> set is \<Longrightarrow> i < length (contexts r) \<Longrightarrow> revoked (contexts (fold revoke_context is r) ! i)"
proof (induction "is" arbitrary: r)
  case (Cons j "is")
  show ?case
  proof (cases "i = j")
    case True
    then have "revoked (contexts (revoke_context j r) ! i)" using Cons.prems by (simp add: revoke_context_def)
    then show ?thesis using fold_revoke_facts(5) [of "revoke_context j r" "is"] Cons.prems
      by (simp add: reg_evolves_def ctx_evolves_def)
  next
    case False
    then show ?thesis using Cons by simp
  qed
qed simp

lemma fold_revoke_others:
  "i \<notin> set is \<Longrightarrow> contexts (fold revoke_context is r) ! i = contexts r ! i"
  by (induction "is" arbitrary: r) (auto simp: revoke_context_def)


section \<open>Every operation evolves the registry\<close>

lemma compatibility_evolves: "reg_evolves r (fst (compatibility_context t mode mref r))"
proof -
  define r1 where "r1 = (case mref of None \<Rightarrow> r
    | Some i \<Rightarrow> put_manifest i (fst (validate_for_mode t mode (manifests r ! i))) r)"
  have r1: "contexts r1 = contexts r" "generation r1 = generation r" "ceiling r1 = ceiling r"
    by (auto simp: r1_def split: option.splits)
  have "fst (compatibility_context t mode mref r) = r
      \<or> fst (compatibility_context t mode mref r) = r1
      \<or> (\<exists>c. fst (compatibility_context t mode mref r) = r1\<lparr>contexts := contexts r1 @ [c]\<rparr>)"
    by (auto simp: compatibility_context_def r1_def split: option.splits prod.splits)
  then show ?thesis
    using r1 by (auto intro!: reg_evolves_same reg_evolves_append)
qed

lemma resolve_evolves: "reg_evolves r (fst (resolve_delegated t conn pub tr r))"
proof (cases "kv_get (by_connection r) (conn_id conn)")
  case (Some i)
  obtain c e where x: "context_is_expired t (contexts r ! i) = (c, e)"
    by (cases "context_is_expired t (contexts r ! i)")
  then have c: "ctx_evolves (contexts r ! i) c" using expired_evolves [of "contexts r ! i" t] by simp
  define r1 where "r1 = r\<lparr>contexts := (contexts r)[i := c],
    by_connection := kv_del (conn_id conn) (by_connection r)\<rparr>"
  have "reg_evolves r r1"
    using c by (intro reg_evolves_update [of i r c]) (simp_all add: r1_def)
  moreover have "fst (resolve_delegated t conn pub tr r) = r \<or> fst (resolve_delegated t conn pub tr r) = r1"
    using Some x by (auto simp: resolve_delegated_def r1_def split: bool.splits)
  ultimately show ?thesis by auto
qed (auto simp: resolve_delegated_def)

lemma commit_evolves: "reg_evolves r (fst (commit_handle t i r))"
proof -
  define mo where "mo = map_option (\<lambda>k. manifests r ! k) (ctx_manifest (contexts r ! i))"
  define c where "c = fst (fst (commit_dispatch t (contexts r ! i, mo)))"
  have "contexts (fst (commit_handle t i r)) = (contexts r)[i := c]
      \<and> generation (fst (commit_handle t i r)) = generation r \<and> ceiling (fst (commit_handle t i r)) = ceiling r"
    by (auto simp: commit_handle_def c_def mo_def Let_def split: option.splits prod.splits)
  moreover have "ctx_evolves (contexts r ! i) c" unfolding c_def by (rule commit_dispatch_keeps)
  ultimately show ?thesis by (intro reg_evolves_update [of i r c]) auto
qed

lemma check_evolves: "reg_evolves r (fst (handle_is_expired t i r))"
  by (rule reg_evolves_update [of i r "fst (context_is_expired t (contexts r ! i))"])
     (auto simp: handle_is_expired_def expired_evolves split: prod.splits)

definition validated :: "clock \<Rightarrow> delegated_request \<Rightarrow> auth_registry \<Rightarrow> auth_registry" where
  "validated t req r =
     (case req_manifest req of None \<Rightarrow> r
      | Some i \<Rightarrow> put_manifest i (fst (validate_for_mode t (req_mode req) (manifests r ! i))) r)"

lemma validated_facts [simp]:
  "generation (validated t req r) = generation r" "ceiling (validated t req r) = ceiling r"
  "contexts (validated t req r) = contexts r" "by_connection (validated t req r) = by_connection r"
  by (simp_all add: validated_def split: option.splits)

lemma bind_cases:
  obtains "fst (bind_delegated_session t host conn req r) = r"
    "snd (bind_delegated_session t host conn req r) \<noteq> Inr ()"
  | "fst (bind_delegated_session t host conn req r) = validated t req r"
    "snd (bind_delegated_session t host conn req r) \<noteq> Inr ()"
  | "fst (bind_delegated_session t host conn req r) = sweep t (validated t req r)"
    "snd (bind_delegated_session t host conn req r) \<noteq> Inr ()"
  | (bound) r2 where "r2 = sweep t (validated t req r)" "bind_refusal r host conn req = None"
    "\<not> kv_has (by_connection r2) (conn_id conn)"
    "\<forall>e \<in> set (by_connection r2). ctx_public (contexts r2 ! snd e) \<noteq> Some (req_public req)
       \<and> ctx_transport (contexts r2 ! snd e) \<noteq> Some (req_transport req)"
    "fst (bind_delegated_session t host conn req r) =
       r2\<lparr>contexts := contexts r2 @ [delegated_context t r2 host req],
          by_connection := kv_put (conn_id conn) (length (contexts r2)) (by_connection r2)\<rparr>"
    "snd (bind_delegated_session t host conn req r) = Inr ()"
proof (cases "bind_refusal r host conn req")
  case (Some e)
  with that(1) show thesis by (simp add: bind_delegated_session_def)
next
  case None
  note no = None
  define valid where "valid = (case req_manifest req of None \<Rightarrow> True
    | Some i \<Rightarrow> snd (validate_for_mode t (req_mode req) (manifests r ! i)) = Inr ())"
  define r2 where "r2 = sweep t (validated t req r)"
  define taken where "taken = (\<exists>e \<in> set (by_connection r2).
      ctx_public (contexts r2 ! snd e) = Some (req_public req)
      \<or> ctx_transport (contexts r2 ! snd e) = Some (req_transport req))"
  have pair: "(case req_manifest req of None \<Rightarrow> (r, True)
      | Some i \<Rightarrow> (case validate_for_mode t (req_mode req) (manifests r ! i) of
                     (m, res) \<Rightarrow> (put_manifest i m r, res = Inr ()))) = (validated t req r, valid)"
    by (auto simp: validated_def valid_def split: option.splits prod.splits)
  have b: "bind_delegated_session t host conn req r =
     (if \<not> valid then (validated t req r, Inl InvalidManifest)
      else if kv_has (by_connection r2) (conn_id conn) then (r2, Inl ConnectionAlreadyBound)
      else if taken then (r2, Inl SessionAlreadyBound)
      else (r2\<lparr>contexts := contexts r2 @ [delegated_context t r2 host req],
               by_connection := kv_put (conn_id conn) (length (contexts r2)) (by_connection r2)\<rparr>, Inr ()))"
    by (simp add: bind_delegated_session_def no pair Let_def r2_def taken_def)
  show thesis
  proof (cases "valid \<and> \<not> kv_has (by_connection r2) (conn_id conn) \<and> \<not> taken")
    case True
    with b no show thesis by (intro that(4) [OF r2_def]) (auto simp: taken_def)
  next
    case False
    with b that(2,3) show thesis unfolding r2_def by (auto split: if_splits)
  qed
qed

lemma bind_evolves: "reg_evolves r (fst (bind_delegated_session t host conn req r))"
proof -
  have v: "reg_evolves r (validated t req r)" by (rule reg_evolves_same) simp_all
  have sw: "reg_evolves r (sweep t (validated t req r))" by (rule reg_evolves_trans [OF v sweep_evolves])
  show ?thesis
  proof (cases rule: bind_cases [of t host conn req r])
    case (bound r2)
    have "reg_evolves r2 (fst (bind_delegated_session t host conn req r))"
      by (rule reg_evolves_append) (simp_all add: bound)
    with sw bound(1) show ?thesis by (auto intro: reg_evolves_trans)
  qed (use v sw in simp_all)
qed

lemma revoke_connection_evolves: "reg_evolves r (fst (revoke_connection conn r))"
proof -
  have "reg_evolves r (r\<lparr>by_connection := x\<rparr>)" for x by (rule reg_evolves_same) simp_all
  then show ?thesis
    by (auto simp: revoke_connection_def split: option.splits
        intro: reg_evolves_trans [OF _ revoke_context_evolves])
qed

lemma revoke_many_evolves:
  "reg_evolves r (fst (revoke_host host r))" "reg_evolves r (fst (revoke_every r))"
proof -
  have f: "reg_evolves r (fold revoke_context is (r\<lparr>by_connection := x\<rparr>))" for x "is"
    by (rule reg_evolves_trans [OF reg_evolves_same fold_revoke_facts(5)]) simp_all
  show "reg_evolves r (fst (revoke_host host r))" using f by (auto simp: revoke_host_def Let_def)
  show "reg_evolves r (fst (revoke_every r))" using f by (simp add: revoke_every_def)
qed

lemma auth_step_evolves: "reg_evolves r (auth_step op r)"
  by (cases op) (simp_all add: reg_evolves_same compatibility_evolves bind_evolves resolve_evolves
      revoke_connection_evolves revoke_many_evolves commit_evolves check_evolves)

lemma auth_run_evolves: "reg_evolves r (auth_run ops r)"
proof (induction ops arbitrary: r)
  case (Cons op ops)
  then show ?case using auth_step_evolves [of r op] by (auto simp: auth_run_def intro: reg_evolves_trans)
qed (simp add: auth_run_def)


section \<open>The invariant of the registry\<close>

definition bound_ok :: "auth_registry \<Rightarrow> auth_context \<Rightarrow> bool" where
  "bound_ok r c =
     (source c = TrustedHost \<and> ceiling_allows (ceiling r) (ctx_mode c)
      \<and> (ctx_mode c = Bounded \<longrightarrow> ctx_manifest c \<noteq> None)
      \<and> daemon_generation c = generation r \<and> ctx_public c \<noteq> None \<and> ctx_transport c \<noteq> None
      \<and> ctx_last_dispatch c \<noteq> None \<and> ctx_idle_expired c \<noteq> None \<and> expires_at c \<noteq> None
      \<and> (case (ctx_idle_ttl c, max_idle_ttl (ceiling r)) of
           (Some d, Some limit) \<Rightarrow> 0 < d \<and> d \<le> limit | _ \<Rightarrow> False))"

definition auth_ok :: "auth_registry \<Rightarrow> bool" where
  "auth_ok r =
     (kv_wf (by_connection r)
      \<and> distinct (map (\<lambda>e. ctx_public (contexts r ! snd e)) (by_connection r))
      \<and> distinct (map (\<lambda>e. ctx_transport (contexts r ! snd e)) (by_connection r))
      \<and> (\<forall>e \<in> set (by_connection r). snd e < length (contexts r)
           \<and> bound_ok r (contexts r ! snd e) \<and> \<not> revoked (contexts r ! snd e)))"

lemma bound_ok_evolves:
  "ctx_evolves c c' \<Longrightarrow> ceiling r' = ceiling r \<Longrightarrow> generation r' = generation r \<Longrightarrow> bound_ok r c \<Longrightarrow> bound_ok r' c'"
  using ctx_evolves_fields [of c c'] by (auto simp: bound_ok_def ctx_evolves_def)

lemma auth_ok_entry:
  assumes "auth_ok r" "(k, i) \<in> set (by_connection r)"
  shows "i < length (contexts r)" "bound_ok r (contexts r ! i)" "\<not> revoked (contexts r ! i)"
  using assms by (force simp: auth_ok_def)+

lemma auth_ok_get:
  "auth_ok r \<Longrightarrow> kv_get (by_connection r) k = Some i \<Longrightarrow>
     i < length (contexts r) \<and> bound_ok r (contexts r ! i) \<and> \<not> revoked (contexts r ! i)"
  using auth_ok_entry kv_get_in by metis

lemma auth_ok_indices: "auth_ok r \<Longrightarrow> distinct (map snd (by_connection r))"
  by (simp add: auth_ok_def distinct_map inj_on_def)

lemma auth_ok_same_index:
  "auth_ok r \<Longrightarrow> (k, i) \<in> set (by_connection r) \<Longrightarrow> (k', i) \<in> set (by_connection r) \<Longrightarrow> k = k'"
  using auth_ok_indices [of r] by (force simp: distinct_map inj_on_def)

lemma auth_ok_shrink:
  assumes ok: "auth_ok r" and ev: "reg_evolves r r'"
    and sub: "by_connection r' = filter P (by_connection r)"
    and live: "\<And>e. e \<in> set (by_connection r') \<Longrightarrow> \<not> revoked (contexts r' ! snd e)"
  shows "auth_ok r'"
proof -
  have e: "snd e < length (contexts r) \<and> ctx_evolves (contexts r ! snd e) (contexts r' ! snd e)"
    if "e \<in> set (by_connection r)" for e
    using ok ev that by (simp add: auth_ok_def reg_evolves_def)
  have same: "map (\<lambda>e. f (contexts r' ! snd e)) (filter P (by_connection r))
      = map (\<lambda>e. f (contexts r ! snd e)) (filter P (by_connection r))"
    if "\<And>c c'. ctx_evolves c c' \<Longrightarrow> f c' = f c" for f :: "auth_context \<Rightarrow> string option"
    using e that by simp
  have "distinct (map (\<lambda>e. ctx_public (contexts r' ! snd e)) (by_connection r'))"
    using ok same [of ctx_public] ctx_evolves_fields(4)
    by (simp add: sub auth_ok_def distinct_map_filter del: map_eq_conv)
  moreover have "distinct (map (\<lambda>e. ctx_transport (contexts r' ! snd e)) (by_connection r'))"
    using ok same [of ctx_transport] ctx_evolves_fields(5)
    by (simp add: sub auth_ok_def distinct_map_filter del: map_eq_conv)
  moreover have "snd e < length (contexts r') \<and> bound_ok r' (contexts r' ! snd e)"
    if "e \<in> set (by_connection r')" for e
  proof -
    from that sub have in_r: "e \<in> set (by_connection r)" by simp
    with ok have "bound_ok r (contexts r ! snd e)" by (simp add: auth_ok_def)
    with e [OF in_r] ev show ?thesis
      using bound_ok_evolves [of "contexts r ! snd e" "contexts r' ! snd e" r' r]
      by (simp add: reg_evolves_def)
  qed
  ultimately show ?thesis using ok live by (simp add: auth_ok_def sub)
qed

lemma auth_ok_unchanged:
  assumes "auth_ok r" "reg_evolves r r'" "by_connection r' = by_connection r"
    and "\<And>i. i < length (contexts r) \<Longrightarrow> revoked (contexts r' ! i) = revoked (contexts r ! i)"
  shows "auth_ok r'"
proof (rule auth_ok_shrink [OF assms(1,2), of "\<lambda>_. True"])
  fix e assume "e \<in> set (by_connection r')"
  with assms(1,3) have "snd e < length (contexts r)" "\<not> revoked (contexts r ! snd e)"
    by (simp_all add: auth_ok_def)
  with assms(4) show "\<not> revoked (contexts r' ! snd e)" by simp
qed (simp add: assms(3))

lemma sweep_ok:
  assumes "auth_ok r"
  shows "auth_ok (sweep t r)"
proof (rule auth_ok_shrink [OF assms sweep_evolves])
  show "by_connection (sweep t r) =
      filter (\<lambda>e. \<not> snd (context_is_expired t (contexts r ! snd e))) (by_connection r)"
    by (simp add: sweep_def kv_retain_def)
  fix e assume "e \<in> set (by_connection (sweep t r))"
  then have e: "e \<in> set (by_connection r)" "\<not> snd (context_is_expired t (contexts r ! snd e))"
    by (auto simp: sweep_def kv_retain_def)
  with assms have "snd e < length (contexts r)" "\<not> revoked (contexts r ! snd e)"
    by (simp_all add: auth_ok_def)
  with e show "\<not> revoked (contexts (sweep t r) ! snd e)"
    by (simp add: sweep_context expire_context_live expired_keeps)
qed

lemma kv_put_new: "\<not> kv_has m k \<Longrightarrow> kv_put k v m = m @ [(k, v)]"
proof (induction k v m rule: kv_put.induct)
  case (2 k v k' v' m)
  then show ?case by (auto simp: kv_has_def split: if_splits)
qed simp

lemma bind_ok:
  assumes ok: "auth_ok r"
  shows "auth_ok (fst (bind_delegated_session t host conn req r))"
proof -
  have v: "auth_ok (validated t req r)"
    by (rule auth_ok_unchanged [OF ok]) (simp_all add: reg_evolves_same)
  show ?thesis
  proof (cases rule: bind_cases [of t host conn req r])
    case (bound r2)
    define c where "c = delegated_context t r2 host req"
    let ?r = "fst (bind_delegated_session t host conn req r)"
    have ok2: "auth_ok r2" using bound(1) sweep_ok [OF v] by simp
    have g2: "generation r2 = generation r" "ceiling r2 = ceiling r" using bound(1) by (simp_all add: sweep_facts)
    have new: "by_connection ?r = by_connection r2 @ [(conn_id conn, length (contexts r2))]"
      "contexts ?r = contexts r2 @ [c]" "ceiling ?r = ceiling r2" "generation ?r = generation r2"
      using bound(3,5) by (simp_all add: kv_put_new c_def)
    have lim: "ceiling_allows (ceiling r) (req_mode req)" "req_mode req = Bounded \<longrightarrow> req_manifest req \<noteq> None"
      "\<not> invalid_ttl (ceiling r) req"
      using bound(2) by (auto simp: bind_refusal_def ceiling_allows_def split: if_splits)
    then have c: "bound_ok ?r c"
      using new g2 by (auto simp: bound_ok_def delegated_context_def invalid_ttl_def c_def split: option.splits)
    have cf: "ctx_public c = Some (req_public req)" "ctx_transport c = Some (req_transport req)" "\<not> revoked c"
      by (simp_all add: c_def delegated_context_def)
    have old: "snd e < length (contexts r2) \<and> bound_ok ?r (contexts r2 ! snd e) \<and> \<not> revoked (contexts r2 ! snd e)"
      if "e \<in> set (by_connection r2)" for e
      using ok2 that bound_ok_evolves [OF ctx_evolves_refl, of ?r r2] new by (simp add: auth_ok_def)
    have m: "map (\<lambda>e. f (contexts ?r ! snd e)) (by_connection ?r)
        = map (\<lambda>e. f (contexts r2 ! snd e)) (by_connection r2) @ [f c]"
      for f :: "auth_context \<Rightarrow> string option"
      using old unfolding new by (simp add: nth_append)
    have "distinct (map (\<lambda>e. ctx_public (contexts ?r ! snd e)) (by_connection ?r))"
      "distinct (map (\<lambda>e. ctx_transport (contexts ?r ! snd e)) (by_connection ?r))"
      using ok2 bound(4) unfolding m cf by (auto simp: auth_ok_def)
    moreover have "kv_wf (by_connection ?r)" using ok2 bound(5) by (simp add: auth_ok_def)
    moreover have "snd e < length (contexts ?r) \<and> bound_ok ?r (contexts ?r ! snd e)
        \<and> \<not> revoked (contexts ?r ! snd e)" if "e \<in> set (by_connection ?r)" for e
      using that old [of e] c cf(3) unfolding new(1,2) by (auto simp: nth_append)
    ultimately show ?thesis unfolding auth_ok_def by blast
  qed (use ok v sweep_ok [OF v] in simp_all)
qed

lemma compatibility_ok:
  assumes ok: "auth_ok r"
  shows "auth_ok (fst (compatibility_context t mode mref r))"
proof (rule auth_ok_unchanged [OF ok compatibility_evolves])
  define r' where "r' = fst (compatibility_context t mode mref r)"
  have "by_connection r' = by_connection r \<and> (\<exists>cs. contexts r' = contexts r @ cs)"
    by (auto simp: r'_def compatibility_context_def put_manifest_def split: option.splits prod.splits)
  then show "by_connection r' = by_connection r"
    "\<And>i. i < length (contexts r) \<Longrightarrow> revoked (contexts r' ! i) = revoked (contexts r ! i)"
    by (auto simp: nth_append)
qed

lemma resolve_ok:
  assumes ok: "auth_ok r"
  shows "auth_ok (fst (resolve_delegated t conn pub tr r))"
proof (cases "kv_get (by_connection r) (conn_id conn)")
  case (Some i)
  note i = auth_ok_get [OF ok Some]
  obtain c e where x: "context_is_expired t (contexts r ! i) = (c, e)"
    by (cases "context_is_expired t (contexts r ! i)")
  then have c: "ctx_evolves (contexts r ! i) c" "\<not> revoked c"
    using expired_evolves [of "contexts r ! i" t] expired_keeps(1) [of t "contexts r ! i"] i by simp_all
  define r1 where "r1 = r\<lparr>contexts := (contexts r)[i := c],
    by_connection := kv_del (conn_id conn) (by_connection r)\<rparr>"
  have "auth_ok r1"
  proof (rule auth_ok_shrink [OF ok])
    show "reg_evolves r r1" using c by (intro reg_evolves_update [of i r c]) (simp_all add: r1_def)
    show "by_connection r1 = filter (\<lambda>e. fst e \<noteq> conn_id conn) (by_connection r)"
      by (simp add: r1_def kv_del_def)
    fix e assume "e \<in> set (by_connection r1)"
    then have "e \<in> set (by_connection r)" by (simp add: r1_def kv_del_def)
    with ok c i show "\<not> revoked (contexts r1 ! snd e)"
      by (cases "snd e = i") (simp_all add: r1_def auth_ok_def)
  qed
  moreover have "fst (resolve_delegated t conn pub tr r) = r \<or> fst (resolve_delegated t conn pub tr r) = r1"
    using Some x by (auto simp: resolve_delegated_def r1_def split: bool.splits)
  ultimately show ?thesis using ok by auto
qed (use ok in \<open>auto simp: resolve_delegated_def\<close>)

lemma revoke_some_ok:
  assumes ok: "auth_ok r" and gone: "\<And>e. e \<in> set (by_connection r) \<Longrightarrow> P e \<Longrightarrow> snd e \<notin> set is"
    and r': "r' = fold revoke_context is (r\<lparr>by_connection := filter P (by_connection r)\<rparr>)"
  shows "auth_ok r'"
proof (rule auth_ok_shrink [OF ok])
  let ?r = "r\<lparr>by_connection := filter P (by_connection r)\<rparr>"
  show "reg_evolves r r'"
    unfolding r' by (rule reg_evolves_trans [OF reg_evolves_same fold_revoke_facts(5)]) simp_all
  show sub: "by_connection r' = filter P (by_connection r)" by (simp add: r' fold_revoke_facts)
  fix e assume "e \<in> set (by_connection r')"
  with sub have "e \<in> set (by_connection r)" "P e" by simp_all
  with gone ok show "\<not> revoked (contexts r' ! snd e)"
    by (simp add: r' fold_revoke_others auth_ok_def)
qed

lemma revoke_connection_ok:
  assumes ok: "auth_ok r"
  shows "auth_ok (fst (revoke_connection conn r))"
proof (cases "kv_get (by_connection r) (conn_id conn)")
  case (Some i)
  have "auth_ok (fold revoke_context [i] (r\<lparr>by_connection := filter (\<lambda>e. fst e \<noteq> conn_id conn) (by_connection r)\<rparr>))"
  proof (rule revoke_some_ok [OF ok _ refl])
    fix e assume "e \<in> set (by_connection r)" "fst e \<noteq> conn_id conn"
    then show "snd e \<notin> set [i]"
      using auth_ok_same_index [OF ok, of "fst e" i "conn_id conn"] kv_get_in [OF Some] by auto
  qed
  with Some ok show ?thesis by (auto simp: revoke_connection_def kv_del_def)
qed (use ok in \<open>simp add: revoke_connection_def\<close>)

lemma revoke_host_ok:
  assumes ok: "auth_ok r"
  shows "auth_ok (fst (revoke_host host r))"
proof -
  let ?ours = "\<lambda>i. ctx_host (contexts r ! i) = Some (lease_id host)"
  have "auth_ok (fold revoke_context (map snd (filter (\<lambda>e. ?ours (snd e)) (by_connection r)))
      (r\<lparr>by_connection := filter (\<lambda>e. \<not> ?ours (snd e)) (by_connection r)\<rparr>))"
    by (rule revoke_some_ok [OF ok _ refl]) auto
  with ok show ?thesis by (simp add: revoke_host_def Let_def kv_retain_def)
qed

lemma revoke_every_ok:
  assumes ok: "auth_ok r"
  shows "auth_ok (fst (revoke_every r))"
  using revoke_some_ok [OF ok, of "\<lambda>_. False"] by (simp add: revoke_every_def)

lemma revoked_update:
  "revoked c = revoked (cs ! i) \<Longrightarrow> j < length cs \<Longrightarrow> revoked (cs[i := c] ! j) = revoked (cs ! j)"
  by (cases "j = i") simp_all

lemma commit_ok:
  assumes ok: "auth_ok r"
  shows "auth_ok (fst (commit_handle t i r))"
proof (rule auth_ok_unchanged [OF ok commit_evolves])
  define mo where "mo = map_option (\<lambda>k. manifests r ! k) (ctx_manifest (contexts r ! i))"
  define c where "c = fst (fst (commit_dispatch t (contexts r ! i, mo)))"
  have "contexts (fst (commit_handle t i r)) = (contexts r)[i := c]
      \<and> by_connection (fst (commit_handle t i r)) = by_connection r"
    by (auto simp: commit_handle_def c_def mo_def Let_def split: option.splits prod.splits)
  moreover have "revoked c = revoked (contexts r ! i)" unfolding c_def by (rule commit_dispatch_keeps)
  ultimately show "by_connection (fst (commit_handle t i r)) = by_connection r"
    "\<And>j. j < length (contexts r) \<Longrightarrow> revoked (contexts (fst (commit_handle t i r)) ! j) = revoked (contexts r ! j)"
    by (simp_all add: revoked_update)
qed

lemma check_ok:
  assumes ok: "auth_ok r"
  shows "auth_ok (fst (handle_is_expired t i r))"
proof (rule auth_ok_unchanged [OF ok check_evolves])
  show "by_connection (fst (handle_is_expired t i r)) = by_connection r"
    by (simp add: handle_is_expired_def split: prod.splits)
  fix j assume "j < length (contexts r)"
  then show "revoked (contexts (fst (handle_is_expired t i r)) ! j) = revoked (contexts r ! j)"
    using expired_keeps(1) [of t "contexts r ! i"]
    by (cases "j = i") (auto simp: handle_is_expired_def split: prod.splits)
qed

lemma auth_step_ok: "auth_ok r \<Longrightarrow> auth_ok (auth_step op r)"
proof (cases op)
  case (AddManifest m)
  assume "auth_ok r"
  then show ?thesis by (rule auth_ok_unchanged) (simp_all add: AddManifest reg_evolves_same)
qed (simp_all add: compatibility_ok bind_ok resolve_ok revoke_connection_ok revoke_host_ok
    revoke_every_ok commit_ok check_ok)

lemma new_registry_ok: "auth_ok (new_auth_registry g c)"
  by (simp add: auth_ok_def new_auth_registry_def)

lemma auth_run_append: "auth_run (xs @ ys) r = auth_run ys (auth_run xs r)"
  by (simp add: auth_run_def)

lemma auth_run_ok: "auth_ok r \<Longrightarrow> auth_ok (auth_run ops r)"
  unfolding auth_run_def by (induction ops arbitrary: r) (auto intro: auth_step_ok)

lemma auth_run_frame:
  "ceiling (auth_run ops r) = ceiling r" "generation (auth_run ops r) = generation r"
  using auth_run_evolves [of r ops] by (simp_all add: reg_evolves_def)

end
