(* ===== verification/ContextProps.thy ===== *)
theory ContextProps
  imports ContextHistory
begin

text \<open>
  The properties of delegated authority: the ceiling as an invariant, terminal revocation, the
  agreement of binding and resolving, and the idle lease of a context, an interpretation of
  \<open>idle_lease\<close>.
\<close>


section \<open>The idle lease of a context\<close>

text \<open>Attempts on a context that carries no manifest: a commit, or a check.\<close>

definition context_attempt :: "bool \<Rightarrow> clock \<Rightarrow> auth_context \<Rightarrow> auth_context \<times> bool" where
  "context_attempt commits t c =
     (if commits then (case commit_dispatch t (c, None) of ((c', _), r) \<Rightarrow> (c', r = Inr ()))
      else (case context_is_expired t c of (c', e) \<Rightarrow> (c', \<not> e)))"

definition lease_limit :: "auth_context \<Rightarrow> duration option" where
  "lease_limit c =
     (if ctx_last_dispatch c = None \<or> ctx_idle_expired c = None then None else ctx_idle_ttl c)"

definition lease_last :: "auth_context \<Rightarrow> instant" where
  "lease_last c = (case ctx_last_dispatch c of Some l \<Rightarrow> l | None \<Rightarrow> 0)"

lemma lease_limit_evolves: "ctx_evolves c c' \<Longrightarrow> lease_limit c' = lease_limit c"
  using ctx_evolves_fields(8) [of c c'] by (simp add: lease_limit_def ctx_evolves_def)

lemma not_expired_lease:
  "\<not> snd (context_is_expired t c) \<Longrightarrow> fst (context_is_expired t c) = c \<and>
     (case lease_limit c of Some d \<Rightarrow> monotonic t - lease_last c < d | None \<Rightarrow> True)"
  by (cases "ctx_idle_ttl c"; cases "ctx_last_dispatch c"; cases "ctx_idle_expired c"; cases "expires_at c")
     (simp_all add: context_is_expired_def lease_limit_def lease_last_def not_le split: if_splits)

lemma commit_context_last:
  "ctx_last_dispatch (fst (commit_context_dispatch t c)) =
     (if snd (commit_context_dispatch t c) = Inr () \<and> lease_limit c \<noteq> None then Some (monotonic t)
      else ctx_last_dispatch c)"
  by (cases "ctx_idle_ttl c"; cases "ctx_last_dispatch c"; cases "ctx_idle_expired c")
     (simp_all add: commit_context_dispatch_def lease_limit_def)

lemma commit_dispatch_None:
  "commit_dispatch t (c, None) =
     (if snd (context_is_expired t c) then ((fst (context_is_expired t c), None), Inl ContextExpired)
      else ((fst (commit_context_dispatch t c), None), snd (commit_context_dispatch t c)))"
  using not_expired_lease [of t c]
  by (auto simp: commit_dispatch_def split: prod.splits bool.splits)

interpretation context_lease: idle_lease lease_limit lease_last "\<lambda>d x. d \<le> x" context_attempt monotonic
proof (unfold_locales)
  fix b t and c :: auth_context
  show "lease_limit (fst (context_attempt b t c)) = lease_limit c"
    using lease_limit_evolves [OF expired_evolves [of c t]] lease_limit_evolves [OF commit_context_evolves [of c t]]
    by (auto simp: context_attempt_def commit_dispatch_None split: prod.splits)
  show "lease_last (fst (context_attempt b t c)) =
      (if b \<and> snd (context_attempt b t c) \<and> lease_limit c \<noteq> None then monotonic t else lease_last c)"
    using commit_context_last [of t c] expired_keeps(2) [of t c]
    by (auto simp: context_attempt_def commit_dispatch_None lease_last_def split: prod.splits)
next
  fix b t and c :: auth_context and d
  assume "snd (context_attempt b t c)" "lease_limit c = Some d"
  then show "\<not> d \<le> monotonic t - lease_last c"
    using not_expired_lease [of t c]
    by (auto simp: context_attempt_def commit_dispatch_None not_le split: prod.splits if_splits)
qed auto

lemma commit_context_failed:
  "snd (commit_context_dispatch t c) \<noteq> Inr () \<Longrightarrow>
     ctx_last_dispatch (fst (commit_context_dispatch t c)) = ctx_last_dispatch c"
  by (simp add: commit_context_last)

lemma manifest_commit_after_check:
  "snd (check_lifetime t m) = Inr () \<Longrightarrow> snd (manifest_commit t (fst (check_lifetime t m))) = Inr ()"
  using check_lifetime_same [of t m] by (simp add: manifest_commit_eq)

lemma rejected_commit:
  assumes "snd (commit_dispatch t (c, mo)) \<noteq> Inr ()"
  shows "ctx_last_dispatch (fst (fst (commit_dispatch t (c, mo)))) = ctx_last_dispatch c
    \<and> map_option m_last_dispatch (snd (fst (commit_dispatch t (c, mo)))) = map_option m_last_dispatch mo"
proof (cases "snd (context_is_expired t c)")
  case True
  then show ?thesis using expired_keeps(2) [of t c]
    by (auto simp: commit_dispatch_def split: prod.splits bool.splits)
next
  case False
  then obtain ex: "context_is_expired t c = (c, False)"
    using not_expired_lease [of t c] by (metis prod.collapse)
  show ?thesis
  proof (cases mo)
    case None
    with assms False show ?thesis by (auto simp: commit_dispatch_None commit_context_failed)
  next
    case (Some m)
    obtain m1 r1 where ch: "check_lifetime t m = (m1, r1)" by (cases "check_lifetime t m")
    obtain c2 r2 where co: "commit_context_dispatch t c = (c2, r2)" by (cases "commit_context_dispatch t c")
    obtain m2 r3 where mc: "manifest_commit t m1 = (m2, r3)" by (cases "manifest_commit t m1")
    have m1: "m_last_dispatch m1 = m_last_dispatch m" using check_lifetime_facts(2) [of t m] ch by simp
    have "r1 = Inr () \<Longrightarrow> r3 = Inr ()" using manifest_commit_after_check [of t m] ch mc by simp
    moreover have "r2 \<noteq> Inr () \<Longrightarrow> ctx_last_dispatch c2 = ctx_last_dispatch c"
      using commit_context_failed [of t c] co by simp
    ultimately show ?thesis using assms ex ch co mc m1
      by (auto simp: commit_dispatch_def Some split: sum.splits)
  qed
qed


section \<open>Revocation\<close>

lemma revoked_expired: "revoked c \<Longrightarrow> context_is_expired t c = (c, True)"
  by (simp add: context_is_expired_def)

lemma revoked_commit: "revoked c \<Longrightarrow> snd (commit_dispatch t (c, mo)) = Inl ContextExpired"
  by (simp add: commit_dispatch_def revoked_expired)

lemma snd_commit_handle:
  "snd (commit_handle t i r) =
     snd (commit_dispatch t (contexts r ! i, map_option (\<lambda>k. manifests r ! k) (ctx_manifest (contexts r ! i))))"
  by (simp add: commit_handle_def Let_def split: option.split prod.split)

text \<open>The operations that revoke the context \<open>i\<close> bound to a connection.\<close>

definition revokes :: "auth_op \<Rightarrow> connection_proof \<Rightarrow> nat \<Rightarrow> auth_registry \<Rightarrow> bool" where
  "revokes op conn i r =
     (op = RevokeConnection conn \<and> conn_generation conn = generation r
      \<or> op = RevokeAll
      \<or> (\<exists>host. op = RevokeHost host \<and> lease_generation host = generation r
                \<and> ctx_host (contexts r ! i) = Some (lease_id host)))"

lemma revokes_revoked:
  assumes "auth_ok r" "kv_get (by_connection r) (conn_id conn) = Some i" "revokes op conn i r"
  shows "revoked (contexts (auth_step op r) ! i)"
proof -
  have i: "i < length (contexts r)" "(conn_id conn, i) \<in> set (by_connection r)"
    using auth_ok_get [OF assms(1,2)] kv_get_in [OF assms(2)] by simp_all
  have all: "revoked (contexts (fold revoke_context is (r\<lparr>by_connection := x\<rparr>)) ! i)" if "i \<in> set is" for "is" x
    using fold_revoke_revokes [OF that, of "r\<lparr>by_connection := x\<rparr>"] i by simp
  from assms(3) consider "op = RevokeConnection conn" "conn_generation conn = generation r"
    | "op = RevokeAll"
    | host where "op = RevokeHost host" "lease_generation host = generation r"
        "ctx_host (contexts r ! i) = Some (lease_id host)"
    by (auto simp: revokes_def)
  then show ?thesis
  proof cases
    case 1
    then show ?thesis using assms(2) i by (simp add: revoke_connection_def revoke_context_def)
  next
    case 2
    have "i \<in> set (map snd (by_connection r))" using i by force
    with 2 all show ?thesis by (simp add: revoke_every_def)
  next
    case (3 host)
    have "i \<in> set (map snd (filter (\<lambda>e. ctx_host (contexts r ! snd e) = Some (lease_id host)) (by_connection r)))"
      using i 3 by force
    with 3 all show ?thesis by (simp add: revoke_host_def Let_def)
  qed
qed

lemma revoked_forever:
  "i < length (contexts r) \<Longrightarrow> revoked (contexts r ! i) \<Longrightarrow> revoked (contexts (auth_run ops r) ! i)"
  using auth_run_evolves [of r ops] by (simp add: reg_evolves_def ctx_evolves_def)

lemma resolve_Inr:
  "snd (resolve_delegated t conn pub tr r) = Inr i \<Longrightarrow>
     kv_get (by_connection r) (conn_id conn) = Some i \<and> fst (resolve_delegated t conn pub tr r) = r
     \<and> \<not> snd (context_is_expired t (contexts r ! i))"
  by (auto simp: resolve_delegated_def split: if_splits option.splits prod.splits bool.splits)


section \<open>Examples\<close>

definition example_ceiling :: mode_ceiling where
  "example_ceiling =
     \<lparr>allowed_modes = [Standard, Bounded], unrestricted_acknowledged = False, delegation_enabled = True,
      max_session_ttl = Some (secs 600), max_idle_ttl = Some (secs 60),
      ceiling_user_sha256 = None, ceiling_managed_sha256 = None\<rparr>"

definition at_second :: "nat \<Rightarrow> clock" where
  "at_second n = \<lparr>unix_ms = 1000 * n, monotonic = secs n\<rparr>"

definition example_host :: host_lease_proof where
  "example_host = \<lparr>lease_id = 3, lease_generation = ''g''\<rparr>"

definition example_connection :: connection_proof where
  "example_connection = \<lparr>conn_id = 7, conn_generation = ''g'', conn_host = 3\<rparr>"

definition example_request :: delegated_request where
  "example_request =
     \<lparr>req_public = ''s'', req_transport = ''t'', req_mode = Standard, req_ttl = secs 300,
      req_idle_ttl = secs 30, req_manifest = None\<rparr>"

lemmas example_defs = example_ceiling_def at_second_def example_host_def example_connection_def
  example_request_def

lemma example_bind:
  "bind_delegated_session (at_second 5) example_host example_connection example_request
     (new_auth_registry ''g'' example_ceiling) =
   (\<lparr>generation = ''g'', ceiling = example_ceiling, by_connection = [(7, 0)],
     contexts = [delegated_context (at_second 5) (new_auth_registry ''g'' example_ceiling) example_host
                   example_request], manifests = []\<rparr>, Inr ())"
  by (simp add: bind_delegated_session_def bind_refusal_def invalid_ttl_def example_defs secs_def
      new_auth_registry_def sweep_def kv_retain_def delegated_context_def)


section \<open>Properties\<close>

text \<open>C6. Delegated authority stays within the ceiling: in every history of a runtime's registry
  the bound contexts are exactly as their ceiling allows, that is of an allowed mode,
  unrestricted only when acknowledged at launch, bounded only with a manifest, with an idle
  lease no longer than the ceiling's, minted by this daemon generation and not revoked; and no
  two connections share a public or a transport session.\<close>

theorem delegated_authority_within_ceiling:
  fixes ops g c
  defines "r \<equiv> auth_run ops (new_auth_registry g c)"
  shows "list_all (\<lambda>(k, i). i < length (contexts r)
      \<and> (let x = contexts r ! i
         in \<not> revoked x \<and> source x = TrustedHost \<and> daemon_generation x = g
            \<and> ctx_mode x \<in> set (allowed_modes c)
            \<and> (unrestricted_acknowledged c \<or> ctx_mode x \<in> {Standard, Bounded})
            \<and> (ctx_mode x, ctx_manifest x) \<noteq> (Bounded, None)
            \<and> (\<exists>d limit. ctx_idle_ttl x = Some d \<and> max_idle_ttl c = Some limit \<and> 0 < d \<and> d \<le> limit)))
      (by_connection r)
    \<and> distinct (map fst (by_connection r))
    \<and> distinct (map (\<lambda>e. ctx_public (contexts r ! snd e)) (by_connection r))
    \<and> distinct (map (\<lambda>e. ctx_transport (contexts r ! snd e)) (by_connection r))"
proof -
  have ok: "auth_ok r" unfolding r_def by (rule auth_run_ok [OF new_registry_ok])
  have cg: "ceiling r = c" "generation r = g" by (simp_all add: r_def auth_run_frame new_auth_registry_def)
  have "i < length (contexts r)
      \<and> (let x = contexts r ! i
         in \<not> revoked x \<and> source x = TrustedHost \<and> daemon_generation x = g
            \<and> ctx_mode x \<in> set (allowed_modes c)
            \<and> (unrestricted_acknowledged c \<or> ctx_mode x \<in> {Standard, Bounded})
            \<and> (ctx_mode x, ctx_manifest x) \<noteq> (Bounded, None)
            \<and> (\<exists>d limit. ctx_idle_ttl x = Some d \<and> max_idle_ttl c = Some limit \<and> 0 < d \<and> d \<le> limit))"
    if "(k, i) \<in> set (by_connection r)" for k i
    using auth_ok_entry [OF ok that] cg
    by (cases "ctx_mode (contexts r ! i)")
       (auto simp: bound_ok_def ceiling_allows_def Let_def split: option.splits)
  with ok show ?thesis by (auto simp: list_all_iff auth_ok_def kv_wf_def)
qed

text \<open>C4. Revocation is terminal and reaches the handles callers already hold: once the context
  of a connection is revoked, by its connection, by its host or with everything else, no later
  history makes it usable again: every commit through the handle fails, every check reports it
  expired, and no connection ever resolves to it.\<close>

theorem revocation_is_terminal:
  assumes "r = auth_run ops (new_auth_registry g c)"
    and "kv_get (by_connection r) (conn_id conn) = Some i"
    and "revokes op conn i r"
    and "r' = auth_run later (auth_step op r)"
  shows "snd (commit_handle t i r') = Inl ContextExpired \<and> snd (handle_is_expired t i r')
    \<and> snd (resolve_delegated t other pub tr r') \<noteq> Inr i"
proof -
  have ok: "auth_ok r" unfolding assms(1) by (rule auth_run_ok [OF new_registry_ok])
  have "i < length (contexts (auth_step op r))"
    using auth_ok_get [OF ok assms(2)] auth_step_evolves [of r op] by (simp add: reg_evolves_def)
  then have rev: "revoked (contexts r' ! i)"
    unfolding assms(4) by (rule revoked_forever) (rule revokes_revoked [OF ok assms(2,3)])
  then have "snd (resolve_delegated t other pub tr r') \<noteq> Inr i"
    using resolve_Inr [of t other pub tr r' i] by (auto simp: revoked_expired)
  moreover have "snd (commit_handle t i r') = Inl ContextExpired"
    using revoked_commit [OF rev] by (simp add: snd_commit_handle)
  ultimately show ?thesis using rev by (simp add: handle_is_expired_def revoked_expired)
qed

theorem revocation_is_terminal_witness:
  "snd (commit_handle (at_second 6) 0
     (auth_run [] (auth_step (RevokeHost example_host)
        (auth_run [BindDelegated (at_second 5) example_host example_connection example_request]
           (new_auth_registry ''g'' example_ceiling))))) = Inl ContextExpired"
  using revocation_is_terminal [OF refl, of
      "[BindDelegated (at_second 5) example_host example_connection example_request]"
      "''g''" example_ceiling example_connection 0 "RevokeHost example_host" _ "[]" "at_second 6"]
  by (simp add: auth_run_def example_bind revokes_def delegated_context_def)
     (simp add: example_defs)

text \<open>Binding and resolving agree: after a successful bind the connection resolves, for
  exactly the bound public and transport session, to a context of the requested mode and
  manifest that expires with the requested lifetime, as long as less than the idle time has
  passed; for any other labels it is refused as a mismatch, and a second bind of the connection
  is refused without disturbing it.\<close>

theorem bind_then_resolve:
  assumes "bind_delegated_session t host conn req (auth_run ops (new_auth_registry g c)) = (r, Inr ())"
    and "monotonic t' - monotonic t < req_idle_ttl req" and "monotonic t \<le> monotonic t'"
  shows "snd (resolve_delegated t' conn pub tr r) =
      (if pub = req_public req \<and> tr = req_transport req then Inr (length (contexts r) - 1)
       else Inl SessionMismatch)
    \<and> (let x = last (contexts r)
       in ctx_mode x = req_mode req \<and> ctx_manifest x = req_manifest req
          \<and> expires_at x = Some (monotonic t + req_ttl req) \<and> ctx_host x = Some (conn_host conn))
    \<and> snd (bind_delegated_session t' host conn req r) \<noteq> Inr ()"
proof -
  define r0 where "r0 = auth_run ops (new_auth_registry g c)"
  show ?thesis
  proof (cases rule: bind_cases [of t host conn req r0])
    case (bound r2)
    define x where "x = delegated_context t r2 host req"
    define n where "n = length (contexts r2)"
    have g2: "generation r2 = generation r0" using bound(1) by (simp add: sweep_facts)
    have r: "r = r2\<lparr>contexts := contexts r2 @ [x], by_connection := kv_put (conn_id conn) n (by_connection r2)\<rparr>"
      using bound(5) assms(1) by (simp add: r0_def x_def n_def)
    have ref: "conn_generation conn = generation r0" "conn_host conn = lease_id host" "\<not> invalid_ttl (ceiling r0) req"
      using bound(2) by (auto simp: bind_refusal_def split: if_splits)
    have "monotonic t' < monotonic t + req_ttl req"
      using ref(3) assms(2,3) by (auto simp: invalid_ttl_def)
    then have live: "context_is_expired t' x = (x, False)"
      using assms(2) by (simp add: context_is_expired_def x_def delegated_context_def)
    have res: "snd (resolve_delegated t' conn pub tr r) =
        (if pub = req_public req \<and> tr = req_transport req then Inr n else Inl SessionMismatch)"
      using ref(1) g2 live unfolding resolve_delegated_def
      by (simp add: r n_def) (auto simp: x_def delegated_context_def)
    have "snd (bind_delegated_session t' host conn req r) \<noteq> Inr ()"
    proof (cases rule: bind_cases [of t' host conn req r])
      case (bound r3)
      have "kv_get (by_connection r) (conn_id conn) = Some n" "contexts r ! n = x" by (simp_all add: r n_def)
      moreover have "kv_wf (by_connection r)"
        using bind_ok [OF auth_run_ok [OF new_registry_ok [of g c]], of t host conn req ops] assms(1)
        by (simp add: auth_ok_def)
      ultimately have "kv_has (by_connection (sweep t' (validated t' req r))) (conn_id conn)"
        using live by (simp add: sweep_def kv_has_retain)
      with bound show ?thesis by simp
    qed auto
    with res ref(2) show ?thesis
      by (simp add: r n_def Let_def) (simp add: x_def delegated_context_def)
  qed (use assms(1) in \<open>simp_all add: r0_def\<close>)
qed

definition example_bound :: auth_registry where
  "example_bound =
     \<lparr>generation = ''g'', ceiling = example_ceiling, by_connection = [(7, 0)],
      contexts = [delegated_context (at_second 5) (new_auth_registry ''g'' example_ceiling) example_host
                    example_request], manifests = []\<rparr>"

theorem bind_then_resolve_witness:
  "bind_delegated_session (at_second 5) example_host example_connection example_request
     (auth_run [] (new_auth_registry ''g'' example_ceiling)) = (example_bound, Inr ())
   \<and> snd (resolve_delegated (at_second 20) example_connection ''s'' ''t'' example_bound) = Inr 0"
proof -
  have b: "bind_delegated_session (at_second 5) example_host example_connection example_request
      (auth_run [] (new_auth_registry ''g'' example_ceiling)) = (example_bound, Inr ())"
    by (simp add: auth_run_def example_bind example_bound_def)
  have "monotonic (at_second 20) - monotonic (at_second 5) < req_idle_ttl example_request"
    "monotonic (at_second 5) \<le> monotonic (at_second 20)"
    by (simp_all add: example_defs secs_def)
  from bind_then_resolve [OF b this, of "''s''" "''t''"] b show ?thesis
    by (simp add: example_bound_def example_request_def)
qed

text \<open>A dispatch that is refused renews no lease, neither the context's nor its manifest's,
  and a lapsed context stays lapsed: once the idle time has passed since the last commit, every
  later check and commit is refused, in any order and number.\<close>

theorem refused_dispatch_renews_nothing:
  fixes t0 :: clock
  assumes "snd (commit_dispatch t (x, mo)) \<noteq> Inr ()"
    and "lease_limit x = Some d" "d \<le> monotonic t0 - lease_last x"
    and "\<forall>(b, t) \<in> set attempts. monotonic t0 \<le> monotonic t"
  shows "ctx_last_dispatch (fst (fst (commit_dispatch t (x, mo)))) = ctx_last_dispatch x
    \<and> map_option m_last_dispatch (snd (fst (commit_dispatch t (x, mo)))) = map_option m_last_dispatch mo
    \<and> context_lease.outcomes attempts x = replicate (length attempts) False"
  using rejected_commit [OF assms(1)] context_lease.lapse_is_terminal [OF assms(2-4)] by simp

theorem refused_dispatch_renews_nothing_witness:
  "context_lease.outcomes [(True, at_second 40), (False, at_second 41)]
     (delegated_context (at_second 5) (new_auth_registry ''g'' example_ceiling) example_host example_request)
   = [False, False]"
  using refused_dispatch_renews_nothing [of "at_second 40"
      "delegated_context (at_second 5) (new_auth_registry ''g'' example_ceiling) example_host example_request"
      None "secs 30" "at_second 36" "[(True, at_second 40), (False, at_second 41)]"]
  by (simp add: commit_dispatch_None context_is_expired_def lease_limit_def lease_last_def
      delegated_context_def example_defs secs_def)

end
