(* ===== verification/Admission.thy ===== *)
theory Admission
  imports Policy ContextProps
begin

text \<open>
  The admission of a tool call, \<open>authorize_tool_call_with_context\<close> of
  \<open>cua-driver-core/src/authorization.rs\<close>: the hard invariants, the lifetime of the authority
  context, the policy layers, the risk classification and the capability manifest, in this
  order; and \<open>validate_startup_authorization\<close>, the checks before an endpoint is bound.
\<close>

section \<open>Admission of a call\<close>

datatype admission_refusal =
    HardInvariant authorization_error
  | AuthorityExpired
  | RefusedByPolicy policy_refusal
  | UnreviewedTool
  | BoundedWithoutManifest
  | ManifestLifetimeRefused lifetime_error
  | ManifestCallRefused resource_refusal
  | ManifestDenies
  | OutsideManifest

text \<open>The manifest part: its lifetime for the mode, its decision on the tool, its check of the
  call.\<close>

definition admit_by_manifest ::
    "clock \<Rightarrow> url_parser \<Rightarrow> permission_mode \<Rightarrow> string \<Rightarrow> json \<Rightarrow> session_manifest
     \<Rightarrow> session_manifest \<times> (admission_refusal + unit)" where
  "admit_by_manifest t parse_url mode tool args m =
     (case validate_for_mode t mode m of
        (m1, Inl e) \<Rightarrow> (m1, Inl (ManifestLifetimeRefused e))
      | (m1, Inr _) \<Rightarrow>
          (m1, case decision m1 tool of
                 ManifestAllow \<Rightarrow> map_sum ManifestCallRefused id (authorize_call parse_url m1 tool args)
               | ManifestDeny \<Rightarrow> Inl ManifestDenies
               | ManifestAsk \<Rightarrow> Inl ManifestDenies
               | Undeclared \<Rightarrow> Inl OutsideManifest))"

definition authorize_tool_call ::
    "int \<Rightarrow> ('re, 'rego) engines \<Rightarrow> ('re, 'rego) layer \<Rightarrow> ('re, 'rego) layer \<Rightarrow> url_parser \<Rightarrow> clock
     \<Rightarrow> string \<Rightarrow> json \<Rightarrow> auth_context \<times> session_manifest option
     \<Rightarrow> (auth_context \<times> session_manifest option) \<times> (admission_refusal + risk_assessment)" where
  "authorize_tool_call own_pid en managed user parse_url t tool args cm =
     (case enforce_hard_invariants own_pid tool args of
        Inl e \<Rightarrow> (cm, Inl (HardInvariant e))
      | Inr _ \<Rightarrow>
          (case context_is_expired t (fst cm) of
             (c, True) \<Rightarrow> ((c, snd cm), Inl AuthorityExpired)
           | (c, False) \<Rightarrow>
               (case authorize_policy en managed user tool args of
                  Inl e \<Rightarrow> ((c, snd cm), Inl (RefusedByPolicy e))
                | Inr _ \<Rightarrow>
                    (let assessed = classify_tool_call tool args
                     in if risk assessed = Unclassified then ((c, snd cm), Inl UnreviewedTool)
                        else (case snd cm of
                          None \<Rightarrow>
                            ((c, None), if ctx_mode c = Bounded then Inl BoundedWithoutManifest
                                        else Inr assessed)
                        | Some m \<Rightarrow>
                            (case admit_by_manifest t parse_url (ctx_mode c) tool args m of
                               (m1, r) \<Rightarrow> ((c, Some m1), map_sum id (\<lambda>_. assessed) r)))))))"


section \<open>Startup\<close>

datatype startup_error =
    StartupPolicy policy_refusal
  | StartupMode permission_mode_error
  | StartupManifestConflict
  | StartupManifestInvalid manifest_error
  | StartupManifestLifetime lifetime_error

text \<open>\<open>load\<close> is the outcome of loading the manifest the environment names.\<close>

definition validate_startup_authorization ::
    "('re, 'rego) layer \<Rightarrow> ('re, 'rego) layer \<Rightarrow> environment \<Rightarrow> clock
     \<Rightarrow> (string \<Rightarrow> manifest_error + session_manifest) \<Rightarrow> startup_error + unit" where
  "validate_startup_authorization managed user env t load =
     (case validate_configured_policy managed user of
        Inl e \<Rightarrow> Inl (StartupPolicy e)
      | Inr _ \<Rightarrow>
          (case configured_permission_mode env of
             Inl e \<Rightarrow> Inl (StartupMode e)
           | Inr mode \<Rightarrow>
               if mode = Unrestricted \<and> env_flag env ''CUA_DRIVER_DISABLE_UNRESTRICTED'' then
                 Inl (StartupMode UnrestrictedDisabled)
               else if mode = Bounded \<and> \<not> capability_manifest_configured env then
                 Inl (StartupMode MissingSessionPolicy)
               else if capability_manifest_configured env \<and> \<not> capability_manifest_approved env then
                 Inl (StartupMode MissingSessionPolicyApproval)
               else if capability_manifest_approved env \<and> \<not> capability_manifest_configured env then
                 Inl (StartupMode UnexpectedSessionPolicy)
               else (case configured_manifest_path env of
                 Inl _ \<Rightarrow> Inl StartupManifestConflict
               | Inr None \<Rightarrow> Inr ()
               | Inr (Some path) \<Rightarrow>
                   (case load path of
                      Inl e \<Rightarrow> Inl (StartupManifestInvalid e)
                    | Inr m \<Rightarrow> map_sum StartupManifestLifetime id (snd (validate_for_mode t mode m))))))"


section \<open>Lemmas\<close>

lemma validate_for_mode_ok:
  "snd (validate_for_mode t mode m) = Inr () \<longleftrightarrow>
     snd (check_lifetime t m) = Inr ()
     \<and> \<not> (mode = Bounded \<and> (m_expires_unix_ms m = None \<or> m_idle_timeout m = None))"
  by (auto simp: validate_for_mode_def)

lemma validate_for_mode_same:
  "snd (validate_for_mode t mode m) = Inr () \<Longrightarrow> validate_for_mode t mode m = (m, Inr ())"
  using check_lifetime_same [of t m] by (auto simp: validate_for_mode_def split: if_splits)

lemma validate_for_mode_last:
  "m_last_dispatch (fst (validate_for_mode t mode m)) = m_last_dispatch m"
  by (simp add: validate_for_mode_def check_lifetime_facts)

lemma admit_by_manifest_ok:
  "snd (admit_by_manifest t parse_url mode tool args m) = Inr () \<longleftrightarrow>
     snd (validate_for_mode t mode m) = Inr () \<and> decision m tool = ManifestAllow
     \<and> authorize_call parse_url m tool args = Inr ()"
proof (cases "snd (validate_for_mode t mode m) = Inr ()")
  case True
  with validate_for_mode_same [OF True] show ?thesis
    by (cases "decision m tool"; cases "authorize_call parse_url m tool args")
       (simp_all add: admit_by_manifest_def)
next
  case False
  then obtain m1 e where "validate_for_mode t mode m = (m1, Inl e)"
    by (cases "validate_for_mode t mode m") (auto split: sum.splits elim: sumE)
  then show ?thesis by (simp add: admit_by_manifest_def)
qed

lemma admit_by_manifest_last:
  "m_last_dispatch (fst (admit_by_manifest t parse_url mode tool args m)) = m_last_dispatch m"
  using validate_for_mode_last [of t mode m]
  by (auto simp: admit_by_manifest_def split: prod.splits sum.splits)

lemma startup_manifest_path:
  "capability_manifest_configured env \<Longrightarrow> configured_manifest_path env \<noteq> Inr None"
  by (auto simp: capability_manifest_configured_def configured_manifest_path_def Let_def)


text \<open>What no use of a manifest changes.\<close>

definition fixed_manifest :: "session_manifest \<Rightarrow> session_manifest" where
  "fixed_manifest m = m\<lparr>m_last_dispatch := 0, m_idle_expired := False\<rparr>"

lemma fixed_manifest_fields:
  assumes "fixed_manifest m' = fixed_manifest m"
  shows "m_allow m' = m_allow m" "m_deny m' = m_deny m" "m_ask m' = m_ask m"
    "browser_origins m' = browser_origins m" "m_expires_unix_ms m' = m_expires_unix_ms m"
    "m_idle_timeout m' = m_idle_timeout m"
proof -
  have "f (fixed_manifest m') = f (fixed_manifest m)" for f :: "session_manifest \<Rightarrow> 'b" using assms by simp
  from this [of m_allow] this [of m_deny] this [of m_ask] this [of browser_origins]
    this [of m_expires_unix_ms] this [of m_idle_timeout]
  show "m_allow m' = m_allow m" "m_deny m' = m_deny m" "m_ask m' = m_ask m"
    "browser_origins m' = browser_origins m" "m_expires_unix_ms m' = m_expires_unix_ms m"
    "m_idle_timeout m' = m_idle_timeout m"
    by (simp_all add: fixed_manifest_def)
qed

lemma check_lifetime_fixed: "fixed_manifest (fst (check_lifetime t m)) = fixed_manifest m"
  by (cases "m_idle_timeout m") (simp_all add: check_lifetime_def fixed_manifest_def)

lemma manifest_attempt_fixed: "fixed_manifest (fst (manifest_attempt b t m)) = fixed_manifest m"
  using check_lifetime_fixed [of t m]
  by (simp add: manifest_attempt_def manifest_commit_eq) (simp add: fixed_manifest_def)

lemma manifest_run_fixed: "fixed_manifest (manifest_lease.run ops m) = fixed_manifest m"
  unfolding manifest_lease.run_def
  by (induction ops arbitrary: m) (auto simp: manifest_attempt_fixed)

lemma loaded_facts:
  assumes "load_manifest env content parsed = Inr m"
  shows "browser_origins m = [] \<or> set ORIGIN_BYPASS_TOOLS \<inter> set (m_allow m) = {}"
    "set (m_allow m) \<inter> set (m_deny m) = {}"
proof -
  obtain origins allow raw deny where
    "decision_sets raw = Inr (allow, deny)" "check_origin_bypass origins allow = Inr ()"
    "m_allow m = allow" "m_deny m = deny" "browser_origins m = origins"
    using assms by (rule load_manifest_parts) blast
  then show "browser_origins m = [] \<or> set ORIGIN_BYPASS_TOOLS \<inter> set (m_allow m) = {}"
    "set (m_allow m) \<inter> set (m_deny m) = {}"
    using decision_sets_Inr origin_bypass_Inr by blast+
qed

lemma authorize_tool_call_ok:
  "snd (authorize_tool_call own_pid en managed user parse_url t tool args (c, mo)) = Inr a \<longleftrightarrow>
     enforce_hard_invariants own_pid tool args = Inr () \<and> \<not> snd (context_is_expired t c)
     \<and> authorize_policy en managed user tool args = Inr ()
     \<and> a = classify_tool_call tool args \<and> risk a \<noteq> Unclassified
     \<and> (case mo of
          None \<Rightarrow> ctx_mode c \<noteq> Bounded
        | Some m \<Rightarrow> snd (admit_by_manifest t parse_url (ctx_mode c) tool args m) = Inr ())"
proof -
  obtain c1 e where x: "context_is_expired t c = (c1, e)" by (cases "context_is_expired t c")
  have c1: "ctx_mode c1 = ctx_mode c"
    using ctx_evolves_fields(3) [OF expired_evolves [of c t]] x by simp
  show ?thesis
  proof (cases "enforce_hard_invariants own_pid tool args = Inr () \<and> \<not> e
      \<and> authorize_policy en managed user tool args = Inr ()")
    case True
    then show ?thesis
    proof (cases mo)
      case (Some m)
      obtain m1 r where "admit_by_manifest t parse_url (ctx_mode c) tool args m = (m1, r)"
        by (cases "admit_by_manifest t parse_url (ctx_mode c) tool args m")
      with True x c1 Some show ?thesis
        by (cases r) (auto simp: authorize_tool_call_def Let_def)
    qed (use x c1 in \<open>auto simp: authorize_tool_call_def Let_def\<close>)
  next
    case False
    with x show ?thesis
      by (auto simp: authorize_tool_call_def split: sum.splits bool.splits)
  qed
qed

lemma authorize_tool_call_renews_nothing:
  "ctx_last_dispatch (fst (fst (authorize_tool_call own_pid en managed user parse_url t tool args (c, mo)))) =
     ctx_last_dispatch c"
  "map_option m_last_dispatch
     (snd (fst (authorize_tool_call own_pid en managed user parse_url t tool args (c, mo)))) =
     map_option m_last_dispatch mo"
proof -
  obtain c1 e where x: "context_is_expired t c = (c1, e)" by (cases "context_is_expired t c")
  have c1: "ctx_last_dispatch c1 = ctx_last_dispatch c" using expired_keeps(2) [of t c] x by simp
  define cm where "cm = fst (authorize_tool_call own_pid en managed user parse_url t tool args (c, mo))"
  have cm: "cm = (c, mo) \<or> cm = (c1, mo)
      \<or> (\<exists>m. mo = Some m \<and> cm = (c1, Some (fst (admit_by_manifest t parse_url (ctx_mode c1) tool args m))))"
  proof (cases "enforce_hard_invariants own_pid tool args")
    case (Inl e)
    then show ?thesis by (simp add: cm_def authorize_tool_call_def)
  next
    case (Inr u)
    note inv = Inr
    show ?thesis
    proof (cases "authorize_policy en managed user tool args")
      case (Inl e')
      with inv x show ?thesis by (cases e) (simp_all add: cm_def authorize_tool_call_def)
    next
      case (Inr u')
      with inv x show ?thesis
        by (cases e; cases mo; cases "risk (classify_tool_call tool args) = Unclassified")
           (simp_all add: cm_def authorize_tool_call_def Let_def split: prod.split)
    qed
  qed
  show "ctx_last_dispatch (fst (fst (authorize_tool_call own_pid en managed user parse_url t tool args (c, mo)))) =
      ctx_last_dispatch c"
    using cm c1 unfolding cm_def [symmetric] by auto
  show "map_option m_last_dispatch
      (snd (fst (authorize_tool_call own_pid en managed user parse_url t tool args (c, mo)))) =
      map_option m_last_dispatch mo"
    using cm unfolding cm_def [symmetric] by (auto simp: admit_by_manifest_last)
qed


definition plain_context :: auth_context where
  "plain_context = process_context (new_auth_registry ''g'' example_ceiling) Standard None"

definition plain_engines :: "(unit, unit) engines" where
  "plain_engines = \<lparr>regex_match = \<lambda>_ _. False, rego_eval = \<lambda>_ _ _. RegoUndefined\<rparr>"

lemma bare_raw_sets: "decision_sets bare_raw = Inr ([''list_apps''], [])"
proof -
  have "trim ''list_apps'' = ''list_apps''" by (rule trim_graphic) (simp_all add: graphic_def byte_of_def)
  then show ?thesis
    by (simp add: decision_sets_def bare_raw_def validate_tools_def validate_tool_def
        manifest_canonical_tool_name_def advertised_special)
qed


section \<open>Properties\<close>

text \<open>C3. A call is admitted exactly when it passes every gate: it does not target the driver's own
  process, its authority context is live, both policy layers allow it, its risk class was
  reviewed, and the manifest, which bounded mode cannot do without, is within its lifetimes,
  allows the tool and accepts the call. Admission reports the risk of the exact call, and
  whatever its outcome it renews neither the context's lease nor the manifest's.\<close>

theorem admission_requires_every_gate:
  "(snd (authorize_tool_call own_pid en managed user parse_url t tool args (c, mo)) = Inr a \<longleftrightarrow>
      enforce_hard_invariants own_pid tool args = Inr () \<and> \<not> snd (context_is_expired t c)
      \<and> authorize_policy en managed (Inr None) tool args = Inr ()
      \<and> authorize_policy en (Inr None) user tool args = Inr ()
      \<and> a = classify_tool_call tool args \<and> risk a \<noteq> Unclassified
      \<and> (case mo of
           None \<Rightarrow> ctx_mode c \<noteq> Bounded
         | Some m \<Rightarrow> snd (validate_for_mode t (ctx_mode c) m) = Inr () \<and> decision m tool = ManifestAllow
                     \<and> authorize_call parse_url m tool args = Inr ()))
   \<and> ctx_last_dispatch (fst (fst (authorize_tool_call own_pid en managed user parse_url t tool args (c, mo)))) =
      ctx_last_dispatch c
   \<and> map_option m_last_dispatch
       (snd (fst (authorize_tool_call own_pid en managed user parse_url t tool args (c, mo)))) =
      map_option m_last_dispatch mo"
proof -
  have "authorize_policy en managed user tool args = Inr () \<longleftrightarrow>
      authorize_policy en managed (Inr None) tool args = Inr ()
      \<and> authorize_policy en (Inr None) user tool args = Inr ()"
    unfolding authorize_policy_iff by auto
  then show ?thesis
    unfolding authorize_tool_call_ok admit_by_manifest_ok authorize_tool_call_renews_nothing by blast
qed

text \<open>Under a manifest that was loaded from its document, however it has been used since, an
  admitted call is of a tool the document allows and does not deny; once the document declares
  browser origins it is none of the tools that bypass the origin check, and a navigation goes
  to one of the declared origins; in bounded mode both lifetimes of the manifest are declared
  and running.\<close>

theorem admitted_call_is_within_loaded_manifest:
  assumes "load_manifest env content parsed = Inr m0" and "m = manifest_lease.run uses m0"
    and "snd (authorize_tool_call own_pid en managed user parse_url t tool args (c, Some m)) = Inr a"
  shows "manifest_canonical_tool_name tool \<in> set (m_allow m0)
    \<and> manifest_canonical_tool_name tool \<notin> set (m_deny m0)
    \<and> (browser_origins m0 = [] \<or> manifest_canonical_tool_name tool \<notin> set ORIGIN_BYPASS_TOOLS)
    \<and> (tool \<noteq> ''browser_navigate''
       \<or> (\<exists>u origin. get_str args ''url'' = Some u \<and> canonical_origin parse_url u = Inr origin
                     \<and> origin \<in> set (browser_origins m0)))
    \<and> (ctx_mode c \<noteq> Bounded \<or> m_expires_unix_ms m0 \<noteq> None \<and> m_idle_timeout m0 \<noteq> None)
    \<and> \<not> manifest_is_expired (unix_ms t) m0"
proof -
  note same = fixed_manifest_fields [OF manifest_run_fixed [of uses m0], folded assms(2)]
  note loaded = loaded_facts [OF assms(1)]
  from assms(3) have v: "snd (validate_for_mode t (ctx_mode c) m) = Inr ()"
    and d: "decision m tool = ManifestAllow" and call: "authorize_call parse_url m tool args = Inr ()"
    by (simp_all add: authorize_tool_call_ok admit_by_manifest_ok)
  from d have tool: "manifest_canonical_tool_name tool \<in> set (m_allow m0)"
    "manifest_canonical_tool_name tool \<notin> set (m_deny m0)"
    using same by (auto simp: decision_def Let_def split: if_splits)
  have nav: "\<exists>u origin. get_str args ''url'' = Some u \<and> canonical_origin parse_url u = Inr origin
      \<and> origin \<in> set (browser_origins m0)" if "tool = ''browser_navigate''"
    using call that same
    by (auto simp: authorize_call_def authorize_browser_url_def ok_if_def split: option.splits sum.splits if_splits)
  from v have "\<not> manifest_is_expired (unix_ms t) m0"
    and "ctx_mode c \<noteq> Bounded \<or> m_expires_unix_ms m0 \<noteq> None \<and> m_idle_timeout m0 \<noteq> None"
    using same by (auto simp: validate_for_mode_ok check_lifetime_ok manifest_is_expired_def)
  with tool nav loaded show ?thesis by blast
qed

theorem admitted_call_is_within_loaded_manifest_witness:
  "\<exists>m a. load_manifest plain_load_env ''v'' (Inr bare_raw) = Inr m
     \<and> snd (authorize_tool_call 1 plain_engines (Inr None) (Inr None) (\<lambda>_. None) (at_second 0) ''list_apps''
             (JObj []) (plain_context, Some m)) = Inr a
     \<and> ''list_apps'' \<in> set (m_allow m)"
proof -
  obtain m where m: "load_manifest plain_load_env ''v'' (Inr bare_raw) = Inr m" using bare_raw_loads by blast
  have m_def: "m_allow m = [''list_apps''] \<and> m_deny m = [] \<and> m_ask m = [] \<and> m_expires_unix_ms m = None
      \<and> m_idle_timeout m = None"
    using m bare_raw_sets
    by (simp add: load_manifest_def split: sum.splits prod.splits)
       (auto simp: bare_raw_def check_lifetimes_def parse_optional_duration_def)
  have run: "m = manifest_lease.run [] m" by (simp add: manifest_lease.run_def)
  have ok: "snd (authorize_tool_call 1 plain_engines (Inr None) (Inr None) (\<lambda>_. None) (at_second 0) ''list_apps''
      (JObj []) (plain_context, Some m)) = Inr (classify_tool_call ''list_apps'' (JObj []))"
    unfolding authorize_tool_call_ok admit_by_manifest_ok validate_for_mode_ok check_lifetime_ok
    using m_def
    by (simp add: enforce_hard_invariants_def process_targeting_tool_def context_is_expired_def plain_context_def
        process_context_def
        authorize_policy_iff classify_tool_call_def sensitive_def manifest_is_expired_def decision_def
        manifest_canonical_tool_name_def authorize_call_def)
  from admitted_call_is_within_loaded_manifest [OF m run ok] m ok show ?thesis
    by (auto simp: manifest_canonical_tool_name_def)
qed

text \<open>A daemon that starts is consistently authorized: unrestricted mode was named and
  acknowledged and is not disabled by the administrator; bounded mode has a configured and
  approved manifest, and any manifest that is configured was approved, loaded and is within its
  lifetimes, both of which bounded mode requires; an approval without a manifest, conflicting
  manifests and a policy that does not load stop the start.\<close>

theorem startup_is_consistently_authorized:
  assumes "validate_startup_authorization managed user env t load = Inr ()"
  shows "\<exists>mode. configured_permission_mode env = Inr mode
    \<and> (mode \<noteq> Unrestricted \<or> env_flag env ''CUA_DRIVER_DANGEROUSLY_BYPASS_APPROVALS''
         \<and> \<not> env_flag env ''CUA_DRIVER_DISABLE_UNRESTRICTED'')
    \<and> (capability_manifest_approved env \<longleftrightarrow> capability_manifest_configured env)
    \<and> (if capability_manifest_configured env
       then \<exists>path m. configured_manifest_path env = Inr (Some path) \<and> load path = Inr m
              \<and> snd (check_lifetime t m) = Inr ()
              \<and> (mode \<noteq> Bounded \<or> m_expires_unix_ms m \<noteq> None \<and> m_idle_timeout m \<noteq> None)
       else mode \<noteq> Bounded)
    \<and> (\<exists>ma us. managed = Inr ma \<and> user = Inr us)"
proof -
  from assms obtain mode where mode: "configured_permission_mode env = Inr mode"
    by (auto simp: validate_startup_authorization_def split: sum.splits)
  have layers: "\<exists>ma us. managed = Inr ma \<and> user = Inr us"
    using assms by (auto simp: validate_startup_authorization_def validate_configured_policy_def split: sum.splits)
  then have v: "validate_configured_policy managed user = Inr ()"
    by (auto simp: validate_configured_policy_def)
  have flags: "\<not> (mode = Unrestricted \<and> env_flag env ''CUA_DRIVER_DISABLE_UNRESTRICTED'')"
    "\<not> (mode = Bounded \<and> \<not> capability_manifest_configured env)"
    "capability_manifest_approved env \<longleftrightarrow> capability_manifest_configured env"
    using assms mode v by (auto simp: validate_startup_authorization_def split: if_splits)
  have ack: "mode \<noteq> Unrestricted \<or> env_flag env ''CUA_DRIVER_DANGEROUSLY_BYPASS_APPROVALS''"
    using mode by (auto simp: configured_permission_mode_def parse_permission_mode_def Let_def mode_of_name_def
        split: if_splits option.splits bool.splits permission_mode.splits)
  have man: "\<exists>path m. configured_manifest_path env = Inr (Some path) \<and> load path = Inr m
      \<and> snd (check_lifetime t m) = Inr ()
      \<and> (mode \<noteq> Bounded \<or> m_expires_unix_ms m \<noteq> None \<and> m_idle_timeout m \<noteq> None)"
    if "capability_manifest_configured env"
  proof -
    from assms mode v flags that startup_manifest_path [OF that] obtain path where
      p: "configured_manifest_path env = Inr (Some path)"
      by (cases "configured_manifest_path env") (auto simp: validate_startup_authorization_def split: option.splits)
    with assms mode v flags that obtain m where m: "load path = Inr m"
      by (cases "load path") (auto simp: validate_startup_authorization_def split: if_splits)
    with p assms mode v flags that have "map_sum StartupManifestLifetime id (snd (validate_for_mode t mode m)) = Inr ()"
      by (simp add: validate_startup_authorization_def split: if_splits)
    then have "snd (validate_for_mode t mode m) = Inr ()"
      by (cases "snd (validate_for_mode t mode m)") simp_all
    with p m show ?thesis unfolding validate_for_mode_ok by blast
  qed
  show ?thesis using mode flags ack man layers by (intro exI [of _ mode]) auto
qed

theorem startup_is_consistently_authorized_witness:
  "validate_startup_authorization (Inr None :: (unit, unit) layer) (Inr None :: (unit, unit) layer)
     (\<lambda>_. None) (at_second 0) (\<lambda>_. Inl EmptyFile) = Inr ()
   \<and> configured_permission_mode (\<lambda>_. None) \<noteq> Inr Bounded"
proof -
  have ok: "validate_startup_authorization (Inr None :: (unit, unit) layer) (Inr None :: (unit, unit) layer)
      (\<lambda>_. None) (at_second 0) (\<lambda>_. Inl EmptyFile) = Inr ()"
    by (simp add: validate_startup_authorization_def validate_configured_policy_def configured_permission_mode_def
        parse_permission_mode_def mode_of_name_def env_flag_def capability_manifest_configured_def
        capability_manifest_approved_def configured_manifest_path_def)
  from startup_is_consistently_authorized [OF ok] ok show ?thesis
    by (auto simp: capability_manifest_configured_def)
qed

end
