(* ===== verification/Consent.thy ===== *)
theory Consent
  imports ContextProps
begin

text \<open>
  Model of \<open>cua-driver-core/src/consent.rs\<close>: the approval broker that binds a decision of the
  host's provider to the digest of one exact request, and the per-runtime store of resource
  grants that \<open>ProtectedResourceGrants::authorize\<close> consults and fills. A grant shares its
  revocation flag with the clones handed out, so revoked grants are a list of identifiers in
  the store. \<open>sha\<close> stands for the SHA-256 of the serialized document, \<open>ask\<close> for the provider;
  clock readings, nonces and identifiers are arguments.
\<close>

section \<open>Requests\<close>

datatype consent_action = Accept | Decline | Cancel

record provider_decision =
  decided_action :: consent_action
  decided_digest :: string

record consent_request =
  nonce :: string
  request_generation :: u64
  request_daemon :: string
  request_mode :: permission_mode
  request_managed :: "string option"
  request_user :: "string option"
  operation :: string
  request_risk :: risk_class
  request_public :: string
  request_transport :: string
  request_resource :: json
  human_summary :: string
  request_expires_unix_ms :: nat
  request_digest :: string

datatype consent_error =
    Unavailable
  | Declined
  | Canceled
  | ProviderError string
  | DigestMismatch
  | ConsentExpired
  | BoundedResource resource_refusal
  | NoBoundedManifest
  | AdapterNotRegistered string
  | AdapterDenied string permission_mode

record broker =
  daemon_instance :: string
  next_generation :: u64
  provider :: "string option"

datatype provider_outcome =
    ProviderTimeout
  | ProviderFailed string
  | ProviderDecided provider_decision

definition DEFAULT_REQUEST_TTL :: duration where
  "DEFAULT_REQUEST_TTL = secs (2 * 60)"

definition json_option :: "string option \<Rightarrow> json" where
  "json_option v = (case v of Some s \<Rightarrow> JStr s | None \<Rightarrow> JNull)"

text \<open>The document that is hashed: every field of the request except the digest itself.\<close>

definition request_document :: "consent_request \<Rightarrow> json" where
  "request_document q =
     JObj [(''daemon_instance'', JStr (request_daemon q)),
           (''expires_unix_ms'', JNum (PosInt (request_expires_unix_ms q))),
           (''generation'', JNum (PosInt (unat (request_generation q)))),
           (''human_summary'', JStr (human_summary q)),
           (''managed_policy_sha256'', json_option (request_managed q)),
           (''nonce'', JStr (nonce q)),
           (''operation'', JStr (operation q)),
           (''permission_mode'', JStr (mode_as_str (request_mode q))),
           (''public_session'', JStr (request_public q)),
           (''resource'', request_resource q),
           (''risk_class'', JStr (risk_as_str (request_risk q))),
           (''schema'', JStr ''cua-protected-consent-request-v1''),
           (''transport_session'', JStr (request_transport q)),
           (''user_policy_sha256'', json_option (request_user q))]"

definition digest_request :: "(json \<Rightarrow> string) \<Rightarrow> consent_request \<Rightarrow> string" where
  "digest_request sha q = sha (request_document q)"

definition digest_resource :: "(json \<Rightarrow> string) \<Rightarrow> string \<Rightarrow> json \<Rightarrow> string" where
  "digest_resource sha ad resource = sha (JObj [(''adapter_id'', JStr ad), (''resource'', resource)])"

definition request_bound ::
    "(json \<Rightarrow> string) \<Rightarrow> nat \<Rightarrow> string \<Rightarrow> permission_mode \<Rightarrow> string \<Rightarrow> risk_class \<Rightarrow> string \<Rightarrow> string
     \<Rightarrow> json \<Rightarrow> string \<Rightarrow> string option \<Rightarrow> string option \<Rightarrow> broker \<Rightarrow> broker \<times> consent_request" where
  "request_bound sha now_ms fresh mode op rk pub tr res summary managed user b =
     (let q = \<lparr>nonce = fresh, request_generation = next_generation b, request_daemon = daemon_instance b,
               request_mode = mode, request_managed = managed, request_user = user, operation = op,
               request_risk = rk, request_public = pub, request_transport = tr,
               request_resource = res, human_summary = summary,
               request_expires_unix_ms = now_ms + millis DEFAULT_REQUEST_TTL, request_digest = []\<rparr>
      in (b\<lparr>next_generation := next_generation b + 1\<rparr>, q\<lparr>request_digest := digest_request sha q\<rparr>))"

text \<open>The time a provider has to answer.\<close>

definition remaining :: "nat \<Rightarrow> consent_request \<Rightarrow> consent_error + duration" where
  "remaining now_ms q =
     (if request_expires_unix_ms q < now_ms then Inl ConsentExpired
      else if min (request_expires_unix_ms q - now_ms) (2 ^ 64 - 1) = 0 then Inl ConsentExpired
      else Inr (1000000 * min (request_expires_unix_ms q - now_ms) (2 ^ 64 - 1)))"

record protected_grant =
  grant_id :: nat
  grant_provider :: string
  grant_request_digest :: string

text \<open>\<open>approve\<close>, with the wall clock at its three readings; \<open>ask\<close> is the provider's answer
  within the time it is given.\<close>

definition approve ::
    "(json \<Rightarrow> string) \<Rightarrow> (consent_request \<Rightarrow> duration \<Rightarrow> provider_outcome) \<Rightarrow> broker \<Rightarrow> consent_request
     \<Rightarrow> nat \<times> nat \<times> nat \<Rightarrow> nat \<Rightarrow> consent_error + protected_grant" where
  "approve sha ask b q ms fresh =
     (case ms of (entered, asked, answered) \<Rightarrow>
        (case provider b of
           None \<Rightarrow> Inl Unavailable
         | Some p \<Rightarrow>
             if request_expires_unix_ms q < entered then Inl ConsentExpired
             else if request_digest q \<noteq> digest_request sha q then Inl DigestMismatch
             else (case remaining asked q of
               Inl e \<Rightarrow> Inl e
             | Inr limit \<Rightarrow>
                 (case ask q limit of
                    ProviderTimeout \<Rightarrow> Inl (ProviderError ''request timed out'')
                  | ProviderFailed e \<Rightarrow> Inl (ProviderError e)
                  | ProviderDecided d \<Rightarrow>
                      if decided_digest d \<noteq> request_digest q then Inl DigestMismatch
                      else (case decided_action d of
                        Decline \<Rightarrow> Inl Declined
                      | Cancel \<Rightarrow> Inl Canceled
                      | Accept \<Rightarrow>
                          if request_expires_unix_ms q < answered then Inl ConsentExpired
                          else Inr \<lparr>grant_id = fresh, grant_provider = p,
                                    grant_request_digest = request_digest q\<rparr>)))))"


section \<open>The grant store\<close>

record resource_grant_key =
  key_runtime :: string
  key_public :: string
  key_transport :: string
  key_adapter :: string
  key_resource :: string

record resource_grant =
  rg_adapter :: string
  rg_resource :: string
  rg_protected :: protected_grant
  rg_mode :: permission_mode
  rg_managed :: "string option"
  rg_user :: "string option"
  rg_created_at :: instant
  rg_last_used_at :: instant
  rg_idle_ttl :: duration
  rg_absolute_ttl :: duration

record consent_store =
  consent_broker :: broker
  grants :: "(resource_grant_key, resource_grant) kv"
  revoked_grants :: "nat list"

definition is_live :: "consent_store \<Rightarrow> protected_grant \<Rightarrow> bool" where
  "is_live st g = (grant_id g \<notin> set (revoked_grants st))"

definition grant_expired :: "consent_store \<Rightarrow> instant \<Rightarrow> resource_grant \<Rightarrow> bool" where
  "grant_expired st now g =
     (\<not> is_live st (rg_protected g) \<or> rg_idle_ttl g \<le> now - rg_last_used_at g
      \<or> rg_absolute_ttl g \<le> now - rg_created_at g)"

definition revoke_grants :: "resource_grant list \<Rightarrow> consent_store \<Rightarrow> consent_store" where
  "revoke_grants gs st =
     st\<lparr>revoked_grants := map (\<lambda>g. grant_id (rg_protected g)) gs @ revoked_grants st\<rparr>"

definition public_session_of :: "auth_context \<Rightarrow> string option \<Rightarrow> string" where
  "public_session_of c lifecycle =
     (case ctx_public c of
        Some s \<Rightarrow> s
      | None \<Rightarrow> (case lifecycle of Some s \<Rightarrow> s | None \<Rightarrow> ''compatibility''))"

definition transport_session_of :: "auth_context \<Rightarrow> string option \<Rightarrow> string" where
  "transport_session_of c lifecycle =
     (case ctx_transport c of Some s \<Rightarrow> s | None \<Rightarrow> public_session_of c lifecycle)"

definition resource_grant_key_of :: "auth_context \<Rightarrow> string option \<Rightarrow> string \<Rightarrow> string \<Rightarrow> resource_grant_key" where
  "resource_grant_key_of c lifecycle ad digest =
     \<lparr>key_runtime = daemon_generation c,
      key_public = runtime_session_key c (public_session_of c lifecycle),
      key_transport = transport_session_of c lifecycle, key_adapter = ad, key_resource = digest\<rparr>"

definition grant_usable :: "consent_store \<Rightarrow> instant \<Rightarrow> auth_context \<Rightarrow> resource_grant \<Rightarrow> bool" where
  "grant_usable st now c g =
     (\<not> grant_expired st now g \<and> rg_mode g = ctx_mode c
      \<and> rg_managed g = ctx_managed_sha256 c \<and> rg_user g = ctx_user_sha256 c)"

definition lookup_grant ::
    "instant \<Rightarrow> resource_grant_key \<Rightarrow> auth_context \<Rightarrow> consent_store \<Rightarrow> consent_store \<times> resource_grant option" where
  "lookup_grant now k c st =
     (case kv_get (grants st) k of
        None \<Rightarrow> (st, None)
      | Some g \<Rightarrow>
          if \<not> grant_usable st now c g
          then (revoke_grants [g] (st\<lparr>grants := kv_del k (grants st)\<rparr>), None)
          else (let g' = g\<lparr>rg_last_used_at := now\<rparr>
                in (st\<lparr>grants := kv_put k g' (grants st)\<rparr>, Some g')))"

definition of_session :: "string \<Rightarrow> resource_grant_key \<Rightarrow> bool" where
  "of_session s k = (key_public k = s \<or> key_transport k = s)"

definition revoke_session :: "string \<Rightarrow> consent_store \<Rightarrow> consent_store \<times> protected_grant list" where
  "revoke_session s st =
     (let removed = map snd (filter (\<lambda>e. of_session s (fst e)) (grants st))
      in (revoke_grants removed (st\<lparr>grants := kv_retain (\<lambda>k _. \<not> of_session s k) (grants st)\<rparr>),
          map rg_protected removed))"

definition revoke_resource ::
    "(json \<Rightarrow> string) \<Rightarrow> auth_context \<Rightarrow> string option \<Rightarrow> string \<Rightarrow> json \<Rightarrow> consent_store
     \<Rightarrow> consent_store \<times> protected_grant option" where
  "revoke_resource sha c lifecycle ad resource st =
     (let k = resource_grant_key_of c lifecycle ad (digest_resource sha ad resource)
      in case kv_get (grants st) k of
           None \<Rightarrow> (st, None)
         | Some g \<Rightarrow> (revoke_grants [g] (st\<lparr>grants := kv_del k (grants st)\<rparr>), Some (rg_protected g)))"

text \<open>\<open>revoke_all\<close>; dropping the store does the same.\<close>

definition revoke_all_grants :: "consent_store \<Rightarrow> consent_store \<times> protected_grant list" where
  "revoke_all_grants st =
     (revoke_grants (map snd (grants st)) (st\<lparr>grants := []\<rparr>), map (\<lambda>e. rg_protected (snd e)) (grants st))"


section \<open>Authorizing a protected resource\<close>

text \<open>The checks before the store is consulted: the adapter, the manifest, the behaviour of the
  mode. \<open>Inr True\<close> means that a grant is required.\<close>

definition resource_behavior :: "permission_mode \<Rightarrow> adapter \<Rightarrow> json \<Rightarrow> mode_behavior" where
  "resource_behavior mode a resource =
     (if adapter_id a = ''process_control'' \<and> mode = Standard
         \<and> get_bool resource ''driver_owned'' = Some True then Allow
      else behavior_for_mode (profile_behavior a) mode)"

definition consent_gate ::
    "auth_context \<Rightarrow> session_manifest option \<Rightarrow> string \<Rightarrow> json \<Rightarrow> consent_error + bool" where
  "consent_gate c mo ad resource =
     (case find_adapter ad of
        None \<Rightarrow> Inl (AdapterNotRegistered ad)
      | Some a \<Rightarrow>
          (case (case mo of None \<Rightarrow> Inr () | Some m \<Rightarrow> authorize_protected_resource m ad resource) of
             Inl e \<Rightarrow> Inl (BoundedResource e)
           | Inr _ \<Rightarrow>
               (case resource_behavior (ctx_mode c) a resource of
                  Allow \<Rightarrow> Inr False
                | Deny \<Rightarrow> Inl (AdapterDenied ad (ctx_mode c))
                | AllowWithoutGrant \<Rightarrow> if mo = None then Inl NoBoundedManifest else Inr False
                | RequireGrant \<Rightarrow> Inr True)))"

record consent_call =
  call_adapter :: string
  call_risk :: risk_class
  call_lifecycle :: "string option"
  call_resource :: json
  call_summary :: string
  call_idle_ttl :: duration
  call_absolute_ttl :: duration

text \<open>The clock readings of one call, in order.\<close>

record consent_moments =
  at_lookup :: instant
  at_recheck :: instant
  at_request :: nat
  at_approve :: "nat \<times> nat \<times> nat"
  at_mint :: instant

definition call_key :: "(json \<Rightarrow> string) \<Rightarrow> auth_context \<Rightarrow> consent_call \<Rightarrow> resource_grant_key" where
  "call_key sha c q =
     resource_grant_key_of c (call_lifecycle q) (call_adapter q)
       (digest_resource sha (call_adapter q) (call_resource q))"

definition call_request ::
    "(json \<Rightarrow> string) \<Rightarrow> nat \<Rightarrow> string \<Rightarrow> auth_context \<Rightarrow> consent_call \<Rightarrow> broker \<Rightarrow> broker \<times> consent_request" where
  "call_request sha now_ms fresh c q b =
     request_bound sha now_ms fresh (ctx_mode c) (call_adapter q) (call_risk q)
       (public_session_of c (call_lifecycle q)) (transport_session_of c (call_lifecycle q))
       (call_resource q) (call_summary q) (ctx_managed_sha256 c) (ctx_user_sha256 c) b"

definition mint_grant ::
    "(json \<Rightarrow> string) \<Rightarrow> instant \<Rightarrow> auth_context \<Rightarrow> consent_call \<Rightarrow> protected_grant \<Rightarrow> resource_grant" where
  "mint_grant sha now c q p =
     \<lparr>rg_adapter = call_adapter q, rg_resource = digest_resource sha (call_adapter q) (call_resource q),
      rg_protected = p, rg_mode = ctx_mode c, rg_managed = ctx_managed_sha256 c,
      rg_user = ctx_user_sha256 c, rg_created_at = now, rg_last_used_at = now,
      rg_idle_ttl = call_idle_ttl q, rg_absolute_ttl = call_absolute_ttl q\<rparr>"

text \<open>The outcome of a call: an error, no grant needed, a grant, or the panic of the branch the
  code declares unreachable.\<close>

datatype consent_outcome =
    Refused consent_error
  | NotRequired
  | Granted resource_grant
  | Panicked

definition authorize_protected ::
    "(json \<Rightarrow> string) \<Rightarrow> (consent_request \<Rightarrow> duration \<Rightarrow> provider_outcome) \<Rightarrow> consent_moments \<Rightarrow> string \<Rightarrow> nat
     \<Rightarrow> auth_context \<Rightarrow> session_manifest option \<Rightarrow> consent_call \<Rightarrow> consent_store
     \<Rightarrow> consent_store \<times> consent_outcome" where
  "authorize_protected sha ask clk fresh_nonce fresh_id c mo q st =
     (case consent_gate c mo (call_adapter q) (call_resource q) of
        Inl e \<Rightarrow> (st, Refused e)
      | Inr False \<Rightarrow> (st, NotRequired)
      | Inr True \<Rightarrow>
          (let k = call_key sha c q
           in case lookup_grant (at_lookup clk) k c st of
                (st1, Some g) \<Rightarrow> (st1, Granted g)
              | (st1, None) \<Rightarrow>
                  (case lookup_grant (at_recheck clk) k c st1 of
                     (st2, Some g) \<Rightarrow> (st2, Granted g)
                   | (st2, None) \<Rightarrow>
                       (let (b, request) = call_request sha (at_request clk) fresh_nonce c q (consent_broker st2);
                            st3 = st2\<lparr>consent_broker := b\<rparr>
                        in if ctx_mode c \<noteq> Standard then (st3, Panicked)
                           else (case approve sha ask b request (at_approve clk) fresh_id of
                             Inl e \<Rightarrow> (st3, Refused e)
                           | Inr p \<Rightarrow>
                               (let g = mint_grant sha (at_mint clk) c q p
                                in (st3\<lparr>grants := kv_put k g (grants st3)\<rparr>, Granted g)))))))"


section \<open>Process ownership\<close>

record process_fingerprint =
  fp_pid :: int
  fp_start_time :: "nat option"
  fp_executable :: "string option"

definition fingerprint_matches :: "process_fingerprint \<Rightarrow> process_fingerprint \<Rightarrow> bool" where
  "fingerprint_matches a b =
     (fp_pid a = fp_pid b \<and> fp_start_time a = fp_start_time b
      \<and> (case (fp_executable a, fp_executable b) of (Some x, Some y) \<Rightarrow> x = y | _ \<Rightarrow> True))"

type_synonym ownership = "(string, (int, process_fingerprint) kv) kv"

definition mark_driver_owned_process :: "string \<Rightarrow> process_fingerprint \<Rightarrow> ownership \<Rightarrow> ownership" where
  "mark_driver_owned_process s f own =
     kv_put s (kv_put (fp_pid f) f (case kv_get own s of Some ps \<Rightarrow> ps | None \<Rightarrow> [])) own"

definition mark_driver_owned_pid :: "string \<Rightarrow> int \<Rightarrow> ownership \<Rightarrow> ownership" where
  "mark_driver_owned_pid s pid own =
     mark_driver_owned_process s \<lparr>fp_pid = pid, fp_start_time = None, fp_executable = None\<rparr> own"

definition is_driver_owned_pid :: "string \<Rightarrow> int \<Rightarrow> ownership \<Rightarrow> bool" where
  "is_driver_owned_pid s pid own =
     (case kv_get own s of Some ps \<Rightarrow> kv_has ps pid | None \<Rightarrow> False)"

definition reprove_driver_owned_process ::
    "string \<Rightarrow> process_fingerprint \<Rightarrow> ownership \<Rightarrow> ownership \<times> bool" where
  "reprove_driver_owned_process s current own =
     (case kv_get own s of
        None \<Rightarrow> (own, False)
      | Some ps \<Rightarrow>
          (let ok = (case kv_get ps (fp_pid current) of
                       Some recorded \<Rightarrow> fingerprint_matches recorded current | None \<Rightarrow> False);
               ps' = (if ok then ps else kv_del (fp_pid current) ps)
           in (if ps' = [] then kv_del s own else kv_put s ps' own, ok)))"

definition remove_owned_session :: "string \<Rightarrow> ownership \<Rightarrow> ownership" where
  "remove_owned_session s own = kv_del s own"

end
