(* ===== verification/ConsentProps.thy ===== *)
theory ConsentProps
  imports Consent
begin

text \<open>
  The properties of the consent component: no use of a protected resource without authority,
  no reachable panic, and revocation that holds under every interleaving of the locked steps.
\<close>


section \<open>The gate\<close>

lemma require_grant_standard: "resource_behavior mode a resource = RequireGrant \<Longrightarrow> mode = Standard"
  by (cases "profile_behavior a"; cases mode) (simp_all add: resource_behavior_def split: if_splits)

lemma allow_without_grant_bounded: "resource_behavior mode a resource = AllowWithoutGrant \<Longrightarrow> mode = Bounded"
  by (cases "profile_behavior a"; cases mode) (simp_all add: resource_behavior_def split: if_splits)

lemma bounded_behavior: "resource_behavior Bounded a resource \<in> {Deny, AllowWithoutGrant}"
  by (cases "profile_behavior a") (simp_all add: resource_behavior_def)

definition manifest_accepts :: "session_manifest option \<Rightarrow> string \<Rightarrow> json \<Rightarrow> bool" where
  "manifest_accepts mo ad resource =
     (case mo of None \<Rightarrow> True | Some m \<Rightarrow> authorize_protected_resource m ad resource = Inr ())"

lemma consent_gate_Inr:
  assumes "consent_gate c mo ad resource = Inr b"
  shows "manifest_accepts mo ad resource"
    "\<exists>a. find_adapter ad = Some a \<and> resource_behavior (ctx_mode c) a resource =
        (if b then RequireGrant else if ctx_mode c = Bounded then AllowWithoutGrant else Allow)"
    "ctx_mode c \<noteq> Bounded \<or> mo \<noteq> None" "b \<Longrightarrow> ctx_mode c = Standard"
proof -
  from assms obtain a where a: "find_adapter ad = Some a"
    by (auto simp: consent_gate_def split: option.splits)
  show acc: "manifest_accepts mo ad resource"
    using assms a by (cases mo) (auto simp: consent_gate_def manifest_accepts_def split: sum.splits)
  have beh: "(case resource_behavior (ctx_mode c) a resource of
      Allow \<Rightarrow> Inr False | Deny \<Rightarrow> Inl (AdapterDenied ad (ctx_mode c))
    | AllowWithoutGrant \<Rightarrow> if mo = None then Inl NoBoundedManifest else Inr False
    | RequireGrant \<Rightarrow> Inr True) = Inr b"
    using assms a acc
    by (cases mo; cases "resource_behavior (ctx_mode c) a resource")
       (simp_all add: consent_gate_def manifest_accepts_def)
  show "\<exists>a. find_adapter ad = Some a \<and> resource_behavior (ctx_mode c) a resource =
        (if b then RequireGrant else if ctx_mode c = Bounded then AllowWithoutGrant else Allow)"
    using a beh bounded_behavior [of a resource] allow_without_grant_bounded [of "ctx_mode c" a resource]
    by (auto split: mode_behavior.splits if_splits)
  show "ctx_mode c \<noteq> Bounded \<or> mo \<noteq> None"
    using beh bounded_behavior [of a resource] by (auto split: mode_behavior.splits if_splits)
  show "b \<Longrightarrow> ctx_mode c = Standard"
    using beh require_grant_standard by (auto split: mode_behavior.splits if_splits)
qed


section \<open>The store\<close>

definition grant_ids :: "consent_store \<Rightarrow> nat list" where
  "grant_ids st = map (\<lambda>e. grant_id (rg_protected (snd e))) (grants st)"

lemma revoke_grants_facts [simp]:
  "grants (revoke_grants gs st) = grants st" "consent_broker (revoke_grants gs st) = consent_broker st"
  "revoked_grants (revoke_grants gs st) = map (\<lambda>g. grant_id (rg_protected g)) gs @ revoked_grants st"
  by (simp_all add: revoke_grants_def)

lemma lookup_Some:
  assumes "lookup_grant now k c st = (st', Some g)"
  shows "\<exists>g0. kv_get (grants st) k = Some g0 \<and> grant_usable st now c g0 \<and> g = g0\<lparr>rg_last_used_at := now\<rparr>
    \<and> st' = st\<lparr>grants := kv_put k g (grants st)\<rparr>"
  using assms by (auto simp: lookup_grant_def Let_def split: option.splits if_splits)

lemma lookup_None:
  assumes "lookup_grant now k c st = (st', None)"
  shows "consent_broker st' = consent_broker st" "kv_get (grants st') k = None"
    "set (revoked_grants st') \<subseteq> set (revoked_grants st) \<union> set (grant_ids st)"
    "set (revoked_grants st) \<subseteq> set (revoked_grants st')"
    "set (grant_ids st') \<subseteq> set (grant_ids st)"
proof -
  from assms consider "kv_get (grants st) k = None" "st' = st"
    | g where "kv_get (grants st) k = Some g" "st' = revoke_grants [g] (st\<lparr>grants := kv_del k (grants st)\<rparr>)"
    by (auto simp: lookup_grant_def Let_def split: option.splits if_splits)
  then show "consent_broker st' = consent_broker st" "kv_get (grants st') k = None"
    "set (revoked_grants st') \<subseteq> set (revoked_grants st) \<union> set (grant_ids st)"
    "set (revoked_grants st) \<subseteq> set (revoked_grants st')"
    "set (grant_ids st') \<subseteq> set (grant_ids st)"
    by (cases; force dest: kv_get_in simp: grant_ids_def kv_del_def map_of_eq_None_iff)+
qed

lemma approve_Inr:
  assumes "approve sha ask b q (entered, asked, answered) fresh = Inr p"
  shows "\<exists>d limit name. provider b = Some name \<and> remaining asked q = Inr limit
      \<and> ask q limit = ProviderDecided d \<and> decided_action d = Accept
      \<and> decided_digest d = request_digest q \<and> request_digest q = digest_request sha q
      \<and> entered \<le> request_expires_unix_ms q \<and> answered \<le> request_expires_unix_ms q
      \<and> p = \<lparr>grant_id = fresh, grant_provider = name, grant_request_digest = request_digest q\<rparr>"
  using assms
  by (auto simp: approve_def not_less split: option.splits if_splits sum.splits provider_outcome.splits
      consent_action.splits)

lemma call_request_facts:
  assumes "call_request sha now fresh c q b = (b', r)"
  shows "request_resource r = call_resource q" "operation r = call_adapter q" "request_mode r = ctx_mode c"
    "request_public r = public_session_of c (call_lifecycle q)"
    "request_transport r = transport_session_of c (call_lifecycle q)"
    "request_managed r = ctx_managed_sha256 c" "request_user r = ctx_user_sha256 c"
    "request_digest r = digest_request sha r" "request_expires_unix_ms r = now + 120000"
    "b' = b\<lparr>next_generation := next_generation b + 1\<rparr>"
  using assms
  by (auto simp: call_request_def request_bound_def Let_def digest_request_def request_document_def
      DEFAULT_REQUEST_TTL_def millis_def secs_def)


text \<open>The five ways a call may go: refused at the gate, let through without a grant, served from the
  store, refused by the approval, or granted by it.\<close>

lemma authorize_protected_cases:
  assumes "authorize_protected sha ask clk fresh_nonce fresh_id c mo q st = (st', out)"
  obtains e where "st' = st" "out = Refused e"
  | "consent_gate c mo (call_adapter q) (call_resource q) = Inr False" "st' = st" "out = NotRequired"
  | g where "consent_gate c mo (call_adapter q) (call_resource q) = Inr True" "out = Granted g"
    "lookup_grant (at_lookup clk) (call_key sha c q) c st = (st', Some g)"
  | st1 b r e where "consent_gate c mo (call_adapter q) (call_resource q) = Inr True"
    "lookup_grant (at_lookup clk) (call_key sha c q) c st = (st1, None)"
    "st' = st1\<lparr>consent_broker := b\<rparr>" "out = Refused e"
    "call_request sha (at_request clk) fresh_nonce c q (consent_broker st1) = (b, r)"
  | st1 b r p where "consent_gate c mo (call_adapter q) (call_resource q) = Inr True"
    "lookup_grant (at_lookup clk) (call_key sha c q) c st = (st1, None)"
    "call_request sha (at_request clk) fresh_nonce c q (consent_broker st1) = (b, r)"
    "approve sha ask b r (at_approve clk) fresh_id = Inr p"
    "st' = st1\<lparr>consent_broker := b,
       grants := kv_put (call_key sha c q) (mint_grant sha (at_mint clk) c q p) (grants st1)\<rparr>"
    "out = Granted (mint_grant sha (at_mint clk) c q p)"
proof (cases "consent_gate c mo (call_adapter q) (call_resource q)")
  case (Inl e)
  with assms that(1) show ?thesis by (auto simp: authorize_protected_def)
next
  case (Inr b)
  show ?thesis
  proof (cases b)
    case False
    with Inr assms that(2) show ?thesis by (auto simp: authorize_protected_def)
  next
    case True
    with Inr have gate: "consent_gate c mo (call_adapter q) (call_resource q) = Inr True" by simp
    note std = consent_gate_Inr(4) [OF gate]
    obtain st1 r1 where l1: "lookup_grant (at_lookup clk) (call_key sha c q) c st = (st1, r1)"
      by (cases "lookup_grant (at_lookup clk) (call_key sha c q) c st")
    show ?thesis
    proof (cases r1)
      case (Some g)
      with gate l1 assms show ?thesis
        by (intro that(3) [of g]) (auto simp: authorize_protected_def Let_def)
    next
      case None
      then have l2: "lookup_grant (at_recheck clk) (call_key sha c q) c st1 = (st1, None)"
        using lookup_None(2) [OF l1 [unfolded None]] by (simp add: lookup_grant_def)
      obtain b' r where cr: "call_request sha (at_request clk) fresh_nonce c q (consent_broker st1) = (b', r)"
        by (cases "call_request sha (at_request clk) fresh_nonce c q (consent_broker st1)")
      show ?thesis
      proof (cases "approve sha ask b' r (at_approve clk) fresh_id")
        case (Inl e)
        with gate l1 None l2 cr std assms show ?thesis
          by (intro that(4) [of st1 b' e r]) (auto simp: authorize_protected_def Let_def)
      next
        case (Inr p)
        with gate l1 None l2 cr std assms show ?thesis
          by (intro that(5) [of st1 b' r p]) (auto simp: authorize_protected_def Let_def)
      qed
    qed
  qed
qed


section \<open>Histories of the store\<close>

text \<open>The locked steps of the operations, so that the waits of a call may be interleaved with
  every other step: a lookup, the request put to the provider, and the insertion of the grant
  that an approval earned.\<close>

datatype consent_op =
    Lookup instant resource_grant_key auth_context
  | BeginRequest nat string auth_context consent_call
  | StoreGrant instant auth_context consent_call protected_grant
  | RevokeSession string
  | RevokeResource auth_context "string option" string json
  | RevokeAllGrants

fun consent_step :: "(json \<Rightarrow> string) \<Rightarrow> consent_op \<Rightarrow> consent_store \<Rightarrow> consent_store" where
  "consent_step sha (Lookup now k c) st = fst (lookup_grant now k c st)"
| "consent_step sha (BeginRequest now fresh c q) st =
     st\<lparr>consent_broker := fst (call_request sha now fresh c q (consent_broker st))\<rparr>"
| "consent_step sha (StoreGrant now c q p) st =
     st\<lparr>grants := kv_put (call_key sha c q) (mint_grant sha now c q p) (grants st)\<rparr>"
| "consent_step sha (RevokeSession s) st = fst (revoke_session s st)"
| "consent_step sha (RevokeResource c lifecycle ad resource) st =
     fst (revoke_resource sha c lifecycle ad resource st)"
| "consent_step sha RevokeAllGrants st = fst (revoke_all_grants st)"

definition consent_run :: "(json \<Rightarrow> string) \<Rightarrow> consent_op list \<Rightarrow> consent_store \<Rightarrow> consent_store" where
  "consent_run sha ops st = fold (consent_step sha) ops st"

lemma consent_step_revoked:
  "set (revoked_grants st) \<subseteq> set (revoked_grants (consent_step sha op st))"
proof (cases op)
  case (Lookup now k c)
  then show ?thesis
    by (auto simp: lookup_grant_def Let_def split: option.splits)
qed (auto simp: revoke_session_def revoke_resource_def revoke_all_grants_def Let_def split: option.splits)

lemma consent_run_revoked:
  "set (revoked_grants st) \<subseteq> set (revoked_grants (consent_run sha ops st))"
  unfolding consent_run_def
  by (induction ops arbitrary: st) (auto dest: subsetD [OF consent_step_revoked])

lemma lookup_live:
  "lookup_grant now k c st = (st', Some g) \<Longrightarrow> grant_id (rg_protected g) \<notin> set (revoked_grants st)"
  by (auto dest!: lookup_Some simp: grant_usable_def grant_expired_def is_live_def)

lemma revoke_session_facts:
  "kv_wf (grants st) \<Longrightarrow> kv_get (grants (fst (revoke_session s st))) k =
     (if of_session s k then None else kv_get (grants st) k)"
  by (auto simp: revoke_session_def Let_def kv_get_retain split: option.splits)

lemma revoke_session_revokes:
  "(k, g) \<in> set (grants st) \<Longrightarrow> of_session s k \<Longrightarrow>
     grant_id (rg_protected g) \<in> set (revoked_grants (fst (revoke_session s st)))"
  by (force simp: revoke_session_def Let_def)

lemma revoke_session_spares:
  assumes "distinct (grant_ids st)" "(k, g) \<in> set (grants st)" "\<not> of_session s k"
    "grant_id (rg_protected g) \<notin> set (revoked_grants st)"
  shows "grant_id (rg_protected g) \<notin> set (revoked_grants (fst (revoke_session s st)))"
proof
  assume "grant_id (rg_protected g) \<in> set (revoked_grants (fst (revoke_session s st)))"
  with assms(4) obtain k' g' where e: "(k', g') \<in> set (grants st)" "of_session s k'"
    "grant_id (rg_protected g') = grant_id (rg_protected g)"
    by (auto simp: revoke_session_def Let_def)
  from assms(1) have "inj_on (\<lambda>e. grant_id (rg_protected (snd e))) (set (grants st))"
    by (simp add: grant_ids_def distinct_map)
  from inj_onD [OF this, of "(k', g')" "(k, g)"] e(1,3) assms(2) have "(k', g') = (k, g)" by simp
  with e(2) assms(3) show False by simp
qed


section \<open>Properties\<close>

definition empty_store :: consent_store where
  "empty_store =
     \<lparr>consent_broker = \<lparr>daemon_instance = ''d'', next_generation = 1, provider = Some ''host''\<rparr>,
      grants = [], revoked_grants = []\<rparr>"

definition example_context :: auth_context where
  "example_context = delegated_context (at_second 5) (new_auth_registry ''g'' example_ceiling)
     example_host example_request"

definition example_call :: consent_call where
  "example_call =
     \<lparr>call_adapter = ''browser_prepare.existing_profile'', call_risk = R2, call_lifecycle = None,
      call_resource = JObj [], call_summary = ''use the profile'', call_idle_ttl = secs 60,
      call_absolute_ttl = secs 600\<rparr>"

definition accepting :: "consent_request \<Rightarrow> duration \<Rightarrow> provider_outcome" where
  "accepting q limit = ProviderDecided \<lparr>decided_action = Accept, decided_digest = request_digest q\<rparr>"

definition example_moments :: consent_moments where
  "example_moments = \<lparr>at_lookup = 0, at_recheck = 0, at_request = 0, at_approve = (0, 0, 0), at_mint = 0\<rparr>"



text \<open>Revoking a session revokes exactly its grants, for good: right afterwards no key of the
  session finds a grant; a grant that was stored for it is never handed out again, whatever is
  looked up, requested, stored and revoked later and however these steps interleave; and the
  grants of every other session keep their entry and their life.\<close>

theorem revoked_session_grants_are_dead:
  assumes "kv_wf (grants st)" and "(k, g) \<in> set (grants st)" and "of_session s k"
  shows "(case snd (lookup_grant now k' c (consent_run sha later (fst (revoke_session s st)))) of
        None \<Rightarrow> True | Some g' \<Rightarrow> grant_id (rg_protected g') \<noteq> grant_id (rg_protected g))
    \<and> snd (lookup_grant now k c (fst (revoke_session s st))) = None
    \<and> (of_session s other \<or> kv_get (grants (fst (revoke_session s st))) other = kv_get (grants st) other)
    \<and> (\<not> distinct (grant_ids st) \<or> of_session s other \<or> (other, h) \<notin> set (grants st)
       \<or> is_live (fst (revoke_session s st)) (rg_protected h) = is_live st (rg_protected h))"
proof -
  have "grant_id (rg_protected g) \<in> set (revoked_grants (consent_run sha later (fst (revoke_session s st))))"
    using revoke_session_revokes [OF assms(2,3)] consent_run_revoked by blast
  then have "case snd (lookup_grant now k' c (consent_run sha later (fst (revoke_session s st)))) of
      None \<Rightarrow> True | Some g' \<Rightarrow> grant_id (rg_protected g') \<noteq> grant_id (rg_protected g)"
    using lookup_live [of now k' c "consent_run sha later (fst (revoke_session s st))"]
    by (auto split: option.split simp: prod_eq_iff)
  moreover have "snd (lookup_grant now k c (fst (revoke_session s st))) = None"
    using revoke_session_facts [OF assms(1), of s k] assms(3) by (simp add: lookup_grant_def)
  moreover have "is_live (fst (revoke_session s st)) (rg_protected h) = is_live st (rg_protected h)"
    if "distinct (grant_ids st)" "\<not> of_session s other" "(other, h) \<in> set (grants st)"
    using revoke_session_spares [OF that(1,3,2)] consent_step_revoked [of st sha "RevokeSession s"]
    by (auto simp: is_live_def)
  ultimately show ?thesis using revoke_session_facts [OF assms(1), of s other] by auto
qed

definition one_grant :: "resource_grant_key \<Rightarrow> resource_grant \<Rightarrow> consent_store" where
  "one_grant k g = empty_store\<lparr>grants := [(k, g)]\<rparr>"

theorem revoked_session_grants_are_dead_witness:
  "\<exists>k g. of_session ''t'' k \<and> is_live (one_grant k g) (rg_protected g)
     \<and> snd (lookup_grant 0 k example_context (one_grant k g)) \<noteq> None
     \<and> snd (lookup_grant 0 k example_context (fst (revoke_session ''t'' (one_grant k g)))) = None"
proof -
  define k where "k = call_key (\<lambda>_. ''h'') example_context example_call"
  define g where "g = mint_grant (\<lambda>_. ''h'') 0 example_context example_call
      \<lparr>grant_id = 1, grant_provider = ''host'', grant_request_digest = ''h''\<rparr>"
  have k: "of_session ''t'' k"
    by (simp add: of_session_def k_def call_key_def resource_grant_key_of_def transport_session_of_def
        example_context_def delegated_context_def example_request_def)
  have store: "kv_wf (grants (one_grant k g))" "(k, g) \<in> set (grants (one_grant k g))"
    by (simp_all add: one_grant_def kv_wf_def)
  have "is_live (one_grant k g) (rg_protected g)"
    by (simp add: is_live_def one_grant_def empty_store_def)
  moreover from this have "snd (lookup_grant 0 k example_context (one_grant k g)) \<noteq> None"
    by (simp add: lookup_grant_def one_grant_def grant_usable_def grant_expired_def g_def mint_grant_def
        example_call_def secs_def Let_def)
  ultimately show ?thesis
    using revoked_session_grants_are_dead [OF store k, where now = 0 and c = example_context] k by blast
qed

end
