(* ===== verification/ForegroundActivity.thy ===== *)
theory ForegroundActivity
  imports Text_Format
begin

text \<open>
  Model of \<open>cua-driver-core/src/foreground_activity.rs\<close>: the evidence that the person at the
  machine is idle, the lease one foreground episode takes on it, and the ledger of the controls
  an operation holds down. Times are milliseconds of the adapter's clock; the generation
  counters are machine words and wrap as \<open>wrapping_add\<close> does.
\<close>

definition IDLE_REQUIRED_MS :: nat where
  "IDLE_REQUIRED_MS = 5000"

definition MAX_HEARTBEAT_GAP_MS :: nat where
  "MAX_HEARTBEAT_GAP_MS = 250"

definition MAX_EPISODE_MS :: nat where
  "MAX_EPISODE_MS = 120000"

datatype input_source = OwnGenerated | Human | UnknownSource

datatype activity_state = UnknownActivity | Active | Idle

record activity_snapshot =
  reliable :: bool
  seen_state :: activity_state
  idle_ms :: nat
  seen_generation :: u64

record ordering_snapshot =
  ordered_activity :: activity_snapshot
  non_motion :: u64


section \<open>Activity\<close>

record activity =
  generation :: u64
  non_motion_generation :: u64
  coverage_since :: "nat option"
  last_heartbeat :: "nat option"
  last_external :: "(nat \<times> input_source) option"

definition new_activity :: activity where
  "new_activity = \<lparr>generation = 0, non_motion_generation = 0, coverage_since = None,
                   last_heartbeat = None, last_external = None\<rparr>"

definition invalidate :: "activity \<Rightarrow> activity" where
  "invalidate a =
     a\<lparr>generation := generation a + 1, non_motion_generation := non_motion_generation a + 1,
       coverage_since := None, last_heartbeat := None\<rparr>"

definition heartbeat_gap :: "nat \<Rightarrow> activity \<Rightarrow> bool" where
  "heartbeat_gap now a =
     (case last_heartbeat a of
        None \<Rightarrow> False
      | Some l \<Rightarrow> now < l \<or> MAX_HEARTBEAT_GAP_MS < now - l)"

definition health :: "nat \<Rightarrow> bool \<Rightarrow> activity \<Rightarrow> activity" where
  "health now rel a =
     (let a1 = (if \<not> rel \<or> heartbeat_gap now a then invalidate a else a);
          a2 = a1\<lparr>last_heartbeat := (if rel then Some now else None)\<rparr>
      in if rel \<and> coverage_since a2 = None then a2\<lparr>coverage_since := Some now\<rparr> else a2)"

definition record_event :: "nat \<Rightarrow> input_source \<Rightarrow> bool \<Rightarrow> activity \<Rightarrow> activity" where
  "record_event now src plain_motion a =
     (if src \<noteq> OwnGenerated
      then a\<lparr>generation := generation a + 1,
             non_motion_generation :=
               (if plain_motion then non_motion_generation a else non_motion_generation a + 1),
             last_external := Some (now, src)\<rparr>
      else a)"

definition input_event :: "nat \<Rightarrow> input_source \<Rightarrow> activity \<Rightarrow> activity" where
  "input_event now src a = record_event now src False a"

definition pointer_motion_event :: "nat \<Rightarrow> input_source \<Rightarrow> activity \<Rightarrow> activity" where
  "pointer_motion_event now src a = record_event now src True a"

definition unknown_snapshot :: "activity \<Rightarrow> activity_snapshot" where
  "unknown_snapshot a =
     \<lparr>reliable = False, seen_state = UnknownActivity, idle_ms = 0, seen_generation = generation a\<rparr>"

definition snapshot :: "nat \<Rightarrow> activity \<Rightarrow> activity_snapshot" where
  "snapshot now a =
     (case (coverage_since a, last_heartbeat a) of
        (Some since, Some l) \<Rightarrow>
          if now < l \<or> MAX_HEARTBEAT_GAP_MS < now - l \<or> now < since then unknown_snapshot a
          else (let quiet_since = (case last_external a of None \<Rightarrow> since | Some (t, _) \<Rightarrow> max t since);
                    idle = now - quiet_since;
                    st = (if IDLE_REQUIRED_MS \<le> idle then Idle
                          else case last_external a of
                                 Some (t, src) \<Rightarrow> if since \<le> t \<and> src = Human then Active else UnknownActivity
                               | None \<Rightarrow> UnknownActivity)
                in \<lparr>reliable = True, seen_state = st, idle_ms = idle, seen_generation = generation a\<rparr>)
      | _ \<Rightarrow> unknown_snapshot a)"

definition activity_permits :: "nat \<Rightarrow> u64 \<Rightarrow> activity \<Rightarrow> bool" where
  "activity_permits now gen a =
     (seen_state (snapshot now a) = Idle \<and> seen_generation (snapshot now a) = gen)"

definition ordering_snapshot_of :: "nat \<Rightarrow> activity \<Rightarrow> ordering_snapshot" where
  "ordering_snapshot_of now a =
     \<lparr>ordered_activity = snapshot now a, non_motion = non_motion_generation a\<rparr>"


section \<open>Episode leases\<close>

record episode_lease =
  lease_generation :: u64
  started_ms :: nat

definition lease_begin :: "nat \<Rightarrow> activity_snapshot \<Rightarrow> episode_lease option" where
  "lease_begin now s =
     (if reliable s \<and> seen_state s = Idle \<and> IDLE_REQUIRED_MS \<le> idle_ms s
      then Some \<lparr>lease_generation = seen_generation s, started_ms = now\<rparr> else None)"

definition lease_permits :: "episode_lease \<Rightarrow> nat \<Rightarrow> activity_snapshot \<Rightarrow> bool" where
  "lease_permits l now s =
     (started_ms l \<le> now \<and> now - started_ms l < MAX_EPISODE_MS \<and> reliable s
      \<and> seen_state s = Idle \<and> IDLE_REQUIRED_MS \<le> idle_ms s
      \<and> seen_generation s = lease_generation l)"


section \<open>Held controls\<close>

datatype input_control = Key "16 word" | Mouse "8 word"

type_synonym 'r pressed_inputs = "(input_control \<times> 'r) list"

definition press :: "input_control \<Rightarrow> 'r \<Rightarrow> 'r pressed_inputs \<Rightarrow> 'r pressed_inputs \<times> 'r option" where
  "press c r es = (if list_ex (\<lambda>e. fst e = c) es then (es, Some r) else (es @ [(c, r)], None))"

fun update_release :: "input_control \<Rightarrow> 'r \<Rightarrow> 'r pressed_inputs \<Rightarrow> 'r pressed_inputs" where
  "update_release c r [] = []"
| "update_release c r ((c', r') # es) =
     (if c' = c then (c', r) # es else (c', r') # update_release c r es)"

fun release :: "input_control \<Rightarrow> 'r pressed_inputs \<Rightarrow> 'r pressed_inputs \<times> 'r option" where
  "release c [] = ([], None)"
| "release c ((c', r') # es) =
     (if c' = c then (es, Some r') else case release c es of (es', r) \<Rightarrow> ((c', r') # es', r))"

definition drain_reversed :: "'r pressed_inputs \<Rightarrow> 'r pressed_inputs \<times> 'r list" where
  "drain_reversed es = ([], map snd (rev es))"


section \<open>Histories\<close>

text \<open>The reports of the platform adapter, each at its time.\<close>

datatype activity_op =
    Heartbeat nat bool
  | InputSeen nat input_source
  | PointerMoved nat input_source
  | CoverageLost nat

fun op_time :: "activity_op \<Rightarrow> nat" where
  "op_time (Heartbeat t _) = t"
| "op_time (InputSeen t _) = t"
| "op_time (PointerMoved t _) = t"
| "op_time (CoverageLost t) = t"

fun activity_step :: "activity_op \<Rightarrow> activity \<Rightarrow> activity" where
  "activity_step (Heartbeat t rel) a = health t rel a"
| "activity_step (InputSeen t src) a = input_event t src a"
| "activity_step (PointerMoved t src) a = pointer_motion_event t src a"
| "activity_step (CoverageLost t) a = invalidate a"

abbreviation activity_run :: "activity_op list \<Rightarrow> activity \<Rightarrow> activity" where
  "activity_run ops a \<equiv> fold activity_step ops a"

text \<open>What interrupts: input that is not the driver's own, and any loss of coverage.\<close>

fun interrupts :: "activity_op \<Rightarrow> activity \<Rightarrow> bool" where
  "interrupts (Heartbeat t rel) a = (\<not> rel \<or> heartbeat_gap t a)"
| "interrupts (InputSeen t src) a = (src \<noteq> OwnGenerated)"
| "interrupts (PointerMoved t src) a = (src \<noteq> OwnGenerated)"
| "interrupts (CoverageLost t) a = True"

lemmas activity_defs = health_def invalidate_def record_event_def input_event_def
  pointer_motion_event_def

lemma generation_step:
  "generation (activity_step op a) = generation a + (if interrupts op a then 1 else 0)"
  by (cases op) (simp_all add: activity_defs Let_def)

lemma snapshot_generation [simp]: "seen_generation (snapshot now a) = generation a"
  by (simp add: snapshot_def unknown_snapshot_def Let_def split: option.splits prod.splits)

lemma lease_begin_Some:
  "lease_begin now s = Some l \<longleftrightarrow>
     reliable s \<and> seen_state s = Idle \<and> IDLE_REQUIRED_MS \<le> idle_ms s
     \<and> l = \<lparr>lease_generation = seen_generation s, started_ms = now\<rparr>"
  by (auto simp: lease_begin_def)


section \<open>The interface of the evidence\<close>

text \<open>
  What a lease relies on: a counter that advances by one with every interruption and by nothing
  else. A lease that still sees its generation has then not been interrupted, as long as the
  counter cannot have gone round.
\<close>

locale interruption_counter =
  fixes step :: "'op \<Rightarrow> 's \<Rightarrow> 's"
    and counter :: "'s \<Rightarrow> u64"
    and interrupted :: "'op \<Rightarrow> 's \<Rightarrow> bool"
  assumes counter_step: "counter (step op s) = counter s + (if interrupted op s then 1 else 0)"
begin

fun interruptions :: "'op list \<Rightarrow> 's \<Rightarrow> nat" where
  "interruptions [] s = 0"
| "interruptions (op # ops) s = (if interrupted op s then 1 else 0) + interruptions ops (step op s)"

lemma counter_after: "counter (fold step ops s) = counter s + of_nat (interruptions ops s)"
  by (induction ops arbitrary: s) (simp_all add: counter_step)

lemma interruptions_le: "interruptions ops s \<le> length ops"
proof (induction ops arbitrary: s)
  case (Cons op ops)
  then show ?case using Cons.IH [of "step op s"] by (simp add: le_SucI)
qed simp

lemma same_counter:
  assumes "counter (fold step ops s) = counter s" "length ops < 2 ^ 64"
  shows "interruptions ops s = 0"
proof -
  have "interruptions ops s < 2 ^ 64" using interruptions_le [of ops s] assms(2) by simp
  moreover from assms(1) have "(of_nat (interruptions ops s) :: u64) = 0"
    by (simp add: counter_after)
  ultimately show ?thesis by (auto simp: word_of_nat_eq_0_iff dest: dvd_imp_le)
qed

lemma no_interruptions:
  assumes "interruptions (xs @ op # ys) s = 0"
  shows "\<not> interrupted op (fold step xs s)"
  using assms by (induction xs arbitrary: s) (auto split: if_splits)

end

interpretation activity_counter: interruption_counter activity_step generation interrupts
  by unfold_locales (rule generation_step)


section \<open>What idleness means\<close>

text \<open>An interruption at \<open>t\<close> is still on record: coverage began no earlier, or an external
  event at least as late is remembered.\<close>

definition remembers :: "nat \<Rightarrow> activity \<Rightarrow> bool" where
  "remembers t a =
     ((case coverage_since a of None \<Rightarrow> True | Some s \<Rightarrow> t \<le> s)
      \<or> (case last_external a of None \<Rightarrow> False | Some (t', _) \<Rightarrow> t \<le> t'))"

lemma interruption_remembered: "interrupts op a \<Longrightarrow> remembers (op_time op) (activity_step op a)"
  by (cases op) (auto simp: remembers_def activity_defs Let_def)

lemma remembers_step:
  "remembers t a \<Longrightarrow> t \<le> op_time op \<Longrightarrow> remembers t (activity_step op a)"
  by (cases op) (auto simp: remembers_def activity_defs Let_def split: option.splits)

lemma remembers_run:
  "remembers t a \<Longrightarrow> \<forall>op \<in> set ops. t \<le> op_time op \<Longrightarrow> remembers t (activity_run ops a)"
  by (induction ops arbitrary: a) (simp_all add: remembers_step)

lemma idle_snapshot_forgets:
  assumes "remembers t a" "seen_state (snapshot now a) = Idle"
  shows "t + IDLE_REQUIRED_MS \<le> now"
  using assms
  by (auto simp: remembers_def snapshot_def unknown_snapshot_def Let_def IDLE_REQUIRED_MS_def
           split: option.splits if_splits)

text \<open>An idle verdict means five quiet seconds: when the reports of the adapter arrive in
  the order of their times and the snapshot at \<open>now\<close> says idle, no report of the last
  \<open>IDLE_REQUIRED_MS\<close> milliseconds was input of a human or of an unknown source, an unreliable
  or late heartbeat, or a loss of coverage.\<close>

theorem idle_means_quiet:
  assumes "sorted (map op_time ops)"
    and "seen_state (snapshot now (activity_run ops new_activity)) = Idle"
    and "ops = xs @ op # ys" "now < op_time op + IDLE_REQUIRED_MS"
  shows "\<not> interrupts op (activity_run xs new_activity)"
proof
  let ?a = "activity_step op (activity_run xs new_activity)"
  assume "interrupts op (activity_run xs new_activity)"
  then have "remembers (op_time op) ?a" by (rule interruption_remembered)
  moreover have "\<forall>op' \<in> set ys. op_time op \<le> op_time op'"
    using assms(1,3) by (simp add: sorted_append)
  ultimately have "remembers (op_time op) (activity_run ys ?a)" by (rule remembers_run)
  with assms(2-4) show False by (auto dest: idle_snapshot_forgets)
qed

definition example_beats :: "nat \<Rightarrow> activity_op list" where
  "example_beats n = map (\<lambda>i. Heartbeat (i * 250) True) [0..<n]"

lemma example_beats_Suc: "example_beats (Suc n) = example_beats n @ [Heartbeat (n * 250) True]"
  by (simp add: example_beats_def)

lemma example_beats_sorted: "sorted (map op_time (example_beats n))"
  by (auto simp: example_beats_def sorted_iff_nth_mono)

lemma example_beats_run:
  "activity_run (example_beats (Suc n)) new_activity =
     \<lparr>generation = 0, non_motion_generation = 0, coverage_since = Some 0,
      last_heartbeat = Some (n * 250), last_external = None\<rparr>"
proof (induction n)
  case 0
  show ?case by (simp add: example_beats_def new_activity_def health_def heartbeat_gap_def)
next
  case (Suc n)
  then show ?case
    by (simp add: example_beats_Suc [of "Suc n"] health_def heartbeat_gap_def MAX_HEARTBEAT_GAP_MS_def)
qed

theorem idle_means_quiet_witness:
  "\<not> interrupts (Heartbeat 5000 True) (activity_run (example_beats 20) new_activity)"
proof -
  have beats: "example_beats 22 = example_beats 20 @ Heartbeat 5000 True # [Heartbeat 5250 True]"
    using example_beats_Suc [of 21] example_beats_Suc [of 20] by simp
  have "seen_state (snapshot 5300 (activity_run (example_beats 22) new_activity)) = Idle"
    using example_beats_run [of 21]
    by (simp add: snapshot_def MAX_HEARTBEAT_GAP_MS_def IDLE_REQUIRED_MS_def)
  from idle_means_quiet [OF example_beats_sorted this beats] show ?thesis
    by (simp add: IDLE_REQUIRED_MS_def)
qed

text \<open>The ledger of held controls: a control is held once, what is released is what its press
  (or a later update) stored, and a drain releases in the reverse order of the presses.\<close>

lemma press_distinct:
  "distinct (map fst es) \<Longrightarrow> distinct (map fst (fst (press c r es)))"
  by (auto simp: press_def list_ex_iff)

lemma press_then_drain:
  "snd (press c r es) = None \<Longrightarrow> snd (drain_reversed (fst (press c r es))) = r # snd (drain_reversed es)"
  by (simp add: press_def drain_reversed_def split: if_splits)

lemma press_then_release:
  "snd (press c r es) = None \<Longrightarrow> release c (fst (press c r es)) = (es, Some r)"
  by (induction es) (auto simp: press_def split: if_splits)

end
