(* ===== verification/BackgroundInput.thy ===== *)
theory BackgroundInput
  imports Json
begin

text \<open>
  Model of \<open>cua-driver-core/src/background_input.rs\<close>: the decision whether one background action
  may run against one exact window, and the capability report built from the same decision. The
  facts are what the platform shell gathered; the sentence of a refusal is left out, its code and
  its advice are kept.
\<close>

section \<open>Facts\<close>

record exact_window_target =
  target_pid :: int
  target_window_id :: nat

datatype window_ownership = SamePid | WindowNotFound | ForeignPid int

datatype element_ancestry =
    NotAddressed | ProvenDescendant | ProvenApplicationMenu | ProvenAttachedPopover
  | OutsideTargetWindow | Unproven

record background_facts =
  window_server :: window_ownership
  ax_window_present :: bool
  target_minimized :: "bool option"
  target_on_screen :: "bool option"
  app_hidden :: "bool option"
  competing_destinations :: nat
  fact_element :: element_ancestry

datatype background_action =
    AxSemantic | ApplicationMenuSemantic | AttachedPopoverSemantic | WindowPointer | InsertText | GenericKey

fun is_pid_keyboard :: "background_action \<Rightarrow> bool" where
  "is_pid_keyboard a = (a = InsertText \<or> a = GenericKey)"

definition WINDOW_NOT_FOUND :: string where
  "WINDOW_NOT_FOUND = ''window_not_found''"

definition OWNER_PID_MISMATCH :: string where
  "OWNER_PID_MISMATCH = ''owner_pid_mismatch''"

definition OFF_SPACE_OR_AX_UNRESOLVED :: string where
  "OFF_SPACE_OR_AX_UNRESOLVED = ''off_space_or_ax_unresolved''"

definition MINIMIZED_OR_HIDDEN :: string where
  "MINIMIZED_OR_HIDDEN = ''minimized_or_hidden_window''"

definition SAME_PID_KEYBOARD_AMBIGUITY :: string where
  "SAME_PID_KEYBOARD_AMBIGUITY = ''same_pid_keyboard_ambiguity''"

definition ELEMENT_OUTSIDE_TARGET_WINDOW :: string where
  "ELEMENT_OUTSIDE_TARGET_WINDOW = ''element_outside_target_window''"

record background_refusal =
  bg_code :: string
  bg_advice :: "string option"

record target_bound_verification =
  verified_window :: nat

definition accepts_evidence_from :: "target_bound_verification \<Rightarrow> nat option \<Rightarrow> bool" where
  "accepts_evidence_from v evidence = (evidence = Some (verified_window v))"

datatype background_decision = Execute target_bound_verification | RefuseBackground background_refusal

fun is_execute :: "background_decision \<Rightarrow> bool" where
  "is_execute (Execute _) = True"
| "is_execute (RefuseBackground _) = False"


section \<open>The decision\<close>

definition refuse_background :: "string \<Rightarrow> string option \<Rightarrow> background_decision" where
  "refuse_background c adv = RefuseBackground \<lparr>bg_code = c, bg_advice = adv\<rparr>"

fun addressed_target_proven :: "element_ancestry \<Rightarrow> background_action \<Rightarrow> bool" where
  "addressed_target_proven ProvenApplicationMenu ApplicationMenuSemantic = True"
| "addressed_target_proven ProvenAttachedPopover AttachedPopoverSemantic = True"
| "addressed_target_proven ProvenApplicationMenu _ = False"
| "addressed_target_proven _ ApplicationMenuSemantic = False"
| "addressed_target_proven ProvenAttachedPopover _ = False"
| "addressed_target_proven _ AttachedPopoverSemantic = False"
| "addressed_target_proven NotAddressed _ = True"
| "addressed_target_proven ProvenDescendant _ = True"
| "addressed_target_proven _ _ = False"

definition visibility_disproven :: "background_facts \<Rightarrow> bool" where
  "visibility_disproven f =
     (\<not> (target_minimized f = Some False \<and> app_hidden f = Some False \<and> target_on_screen f = Some True))"

definition decide_background_input ::
    "exact_window_target \<Rightarrow> background_facts \<Rightarrow> background_action \<Rightarrow> background_decision" where
  "decide_background_input t f a =
     (let execute = Execute \<lparr>verified_window = target_window_id t\<rparr>
      in case window_server f of
        WindowNotFound \<Rightarrow> refuse_background WINDOW_NOT_FOUND None
      | ForeignPid owner \<Rightarrow> refuse_background OWNER_PID_MISMATCH None
      | SamePid \<Rightarrow>
          if \<not> addressed_target_proven (fact_element f) a
          then refuse_background ELEMENT_OUTSIDE_TARGET_WINDOW (Some ''get_window_state'')
          else if \<not> ax_window_present f
          then refuse_background OFF_SPACE_OR_AX_UNRESOLVED (Some ''foreground'')
          else if a \<in> {AxSemantic, ApplicationMenuSemantic, AttachedPopoverSemantic} then execute
          else if a = WindowPointer
          then (if visibility_disproven f
                then refuse_background MINIMIZED_OR_HIDDEN (Some ''accessibility'') else execute)
          else (let advice = (if a = GenericKey then ''foreground'' else ''accessibility'')
                in if visibility_disproven f then refuse_background MINIMIZED_OR_HIDDEN (Some advice)
                   else if 0 < competing_destinations f
                   then refuse_background SAME_PID_KEYBOARD_AMBIGUITY (Some advice)
                   else execute))"


section \<open>The report\<close>

definition exact_window_status :: "background_facts \<Rightarrow> string" where
  "exact_window_status f =
     (case window_server f of
        WindowNotFound \<Rightarrow> ''not_found''
      | ForeignPid _ \<Rightarrow> ''owner_mismatch''
      | SamePid \<Rightarrow> if ax_window_present f then ''matched'' else ''ax_unresolved'')"

definition json_int :: "int \<Rightarrow> json" where
  "json_int i = JNum (if 0 \<le> i then PosInt (nat i) else NegInt i)"

definition json_flag :: "bool option \<Rightarrow> json" where
  "json_flag b = (case b of None \<Rightarrow> JNull | Some v \<Rightarrow> JBool v)"

definition route_entry ::
    "exact_window_target \<Rightarrow> background_facts \<Rightarrow> string \<Rightarrow> background_action \<Rightarrow> json" where
  "route_entry t f route a =
     (case decide_background_input t f a of
        Execute _ \<Rightarrow> JObj [(''route'', JStr route), (''status'', JStr ''available'')]
      | RefuseBackground r \<Rightarrow>
          JObj [(''reason'', JStr (bg_code r)), (''route'', JStr route), (''status'', JStr ''refused'')])"

definition background_input_capability_report ::
    "exact_window_target \<Rightarrow> background_facts \<Rightarrow> bool option \<Rightarrow> json" where
  "background_input_capability_report t f one_shot =
     JObj [(''exact_window'',
              JObj [(''pid'', json_int (target_pid t)),
                    (''status'', JStr (exact_window_status f)),
                    (''window_id'', JNum (PosInt (target_window_id t)))]),
           (''observation'',
              JObj [(''frame_freshness'', JStr ''unknown''),
                    (''one_shot_capture'',
                       JStr (case one_shot of Some True \<Rightarrow> ''available'' | Some False \<Rightarrow> ''unavailable''
                             | None \<Rightarrow> ''unknown''))]),
           (''routes'',
              JArr [route_entry t f ''accessibility'' AxSemantic,
                    route_entry t f ''window_pointer'' WindowPointer,
                    route_entry t f ''pid_keyboard'' GenericKey]),
           (''visibility'',
              JObj [(''app_hidden'', json_flag (app_hidden f)),
                    (''window_minimized'', json_flag (target_minimized f)),
                    (''window_on_screen'', json_flag (target_on_screen f))])]"


section \<open>Properties\<close>

text \<open>The state-policy matrix of the module's documentation, stated per route: what has to be
  known of the target before an action may run in the background.\<close>

definition element_reached_by :: "element_ancestry \<Rightarrow> background_action \<Rightarrow> bool" where
  "element_reached_by e a =
     (if a = ApplicationMenuSemantic then e = ProvenApplicationMenu
      else if a = AttachedPopoverSemantic then e = ProvenAttachedPopover
      else e = NotAddressed \<or> e = ProvenDescendant)"

definition seen_on_screen :: "background_facts \<Rightarrow> bool" where
  "seen_on_screen f =
     (target_minimized f = Some False \<and> app_hidden f = Some False \<and> target_on_screen f = Some True)"

definition route_proven :: "background_facts \<Rightarrow> background_action \<Rightarrow> bool" where
  "route_proven f a =
     (window_server f = SamePid \<and> ax_window_present f \<and> element_reached_by (fact_element f) a
      \<and> (a = WindowPointer \<or> is_pid_keyboard a \<longrightarrow> seen_on_screen f)
      \<and> (is_pid_keyboard a \<longrightarrow> competing_destinations f = 0))"

lemma addressed_target_reached: "addressed_target_proven e a = element_reached_by e a"
  by (cases e; cases a) (simp_all add: element_reached_by_def)

text \<open>One gathering knows more than another when it agrees on every fact the other knows.\<close>

definition less_known :: "'a option \<Rightarrow> 'a option \<Rightarrow> bool" where
  "less_known x y = (x = None \<or> x = y)"

definition knows_more :: "background_facts \<Rightarrow> background_facts \<Rightarrow> bool" where
  "knows_more f g =
     (window_server g = window_server f \<and> (ax_window_present f \<longrightarrow> ax_window_present g)
      \<and> less_known (target_minimized f) (target_minimized g)
      \<and> less_known (target_on_screen f) (target_on_screen g)
      \<and> less_known (app_hidden f) (app_hidden g)
      \<and> competing_destinations g \<le> competing_destinations f
      \<and> (fact_element f = fact_element g \<or> fact_element f = Unproven))"

lemma decide_matrix:
  "(route_proven f a \<longrightarrow> decide_background_input t f a = Execute \<lparr>verified_window = target_window_id t\<rparr>)
   \<and> is_execute (decide_background_input t f a) = route_proven f a"
  by (cases a)
     (auto simp: decide_background_input_def route_proven_def addressed_target_reached
        visibility_disproven_def seen_on_screen_def refuse_background_def Let_def
        split: window_ownership.splits)

lemma route_proven_mono: "knows_more f g \<Longrightarrow> route_proven f a \<Longrightarrow> route_proven g a"
  by (cases a)
     (auto simp: knows_more_def route_proven_def less_known_def seen_on_screen_def element_reached_by_def)

lemma decide_iff:
  "(decide_background_input t f a = Execute v)
     = (route_proven f a \<and> v = \<lparr>verified_window = target_window_id t\<rparr>)"
  using decide_matrix [of f a t] by (cases "decide_background_input t f a") (auto split: if_splits)

text \<open>What the report says of its routes.\<close>

definition reported_routes :: "json \<Rightarrow> (string option \<times> string option) list" where
  "reported_routes v =
     (case json_get v ''routes'' of
        Some (JArr rs) \<Rightarrow> map (\<lambda>r. (get_str r ''route'', get_str r ''status'')) rs
      | _ \<Rightarrow> [])"

definition availability :: "bool \<Rightarrow> string option" where
  "availability b = Some (if b then ''available'' else ''refused'')"

lemma route_entry_text:
  "get_str (route_entry t f n a) ''route'' = Some n"
  "get_str (route_entry t f n a) ''status'' = availability (route_proven f a)"
  using decide_matrix [of f a t]
  by (auto simp: route_entry_def get_str_def availability_def split: background_decision.splits if_splits)


definition example_facts :: background_facts where
  "example_facts = \<lparr>window_server = SamePid, ax_window_present = True, target_minimized = None,
     target_on_screen = Some True, app_hidden = Some False, competing_destinations = 1,
     fact_element = NotAddressed\<rparr>"


text \<open>A sibling window's state never confirms the requested action.\<close>

lemma sibling_evidence_rejected:
  "decide_background_input t f a = Execute v \<Longrightarrow> w \<noteq> target_window_id t \<Longrightarrow>
     \<not> accepts_evidence_from v (Some w) \<and> \<not> accepts_evidence_from v None"
  by (simp add: decide_iff accepts_evidence_from_def)

end
