(* ===== verification/ForegroundSegment.thy ===== *)
theory ForegroundSegment
  imports ForegroundActivity BackgroundInput
begin

text \<open>
  Model of \<open>cua-driver-core/src/foreground_segment.rs\<close>: the ownership and settlement rules of
  one batch of foreground calls. The identity of a segment's \<open>Arc\<close> is a number; a reservation
  carries it with its sequence number. The counters are bounded by the limits, and are natural
  numbers; the only addition the code checks is the one of the deadline, on 64 bits.
\<close>

section \<open>Data\<close>

definition MAX_SEGMENT_CALLS :: nat where
  "MAX_SEGMENT_CALLS = 64"

definition MAX_SEGMENT_STEPS :: nat where
  "MAX_SEGMENT_STEPS = 20"

definition MAX_SEGMENT_ID_BYTES :: nat where
  "MAX_SEGMENT_ID_BYTES = 128"

definition MAX_OWNER_COMPONENT_BYTES :: nat where
  "MAX_OWNER_COMPONENT_BYTES = 1024"

record segment_owner =
  runtime_scope :: string
  session_id :: string
  transport_session_id :: string

record segment_binding =
  bound_owner :: segment_owner
  bound_target :: exact_window_target
  bound_id :: string

record segment_limits =
  duration_ms :: nat
  max_calls :: nat
  max_steps :: nat

definition default_limits :: segment_limits where
  "default_limits =
     \<lparr>duration_ms = MAX_EPISODE_MS, max_calls = MAX_SEGMENT_CALLS, max_steps = MAX_SEGMENT_STEPS\<rparr>"

datatype segment_state = Open | Closing | Revoked | CleanupUnknown | Closed

datatype call_kind = Activation | Observation | Mutation

datatype cleanup = Confirmed | UnconfirmedCleanup

datatype segment_refusal =
    InvalidBinding | InvalidLimits | ActivityUnavailable | OwnerMismatch | TargetMismatch
  | IdMismatch | NotOpen segment_state | Busy | LeaseRevoked | CallLimit | StepLimit
  | ActivationAlreadyAttempted | ReservationMismatch | NotClosing | CleanupUnconfirmed

record reservation =
  res_instance :: nat
  res_sequence :: nat

record segment =
  seg_binding :: segment_binding
  seg_lease :: episode_lease
  seg_deadline :: nat
  seg_limits :: segment_limits
  seg_state :: segment_state
  seg_instance :: nat
  in_flight_call :: "nat option"
  calls_reserved :: nat
  steps_reserved :: nat


section \<open>Beginning\<close>

text \<open>\<open>char::is_control\<close> on the UTF-8 bytes: the C0 controls, delete, and the C1 controls,
  whose encoding is a byte \<open>C2\<close> followed by \<open>80\<close> to \<open>9F\<close>.\<close>

fun has_control :: "string \<Rightarrow> bool" where
  "has_control [] = False"
| "has_control (c # s) =
     (byte_of c < 32 \<or> byte_of c = 127
      \<or> (byte_of c = 194 \<and> (case s of [] \<Rightarrow> False | d # _ \<Rightarrow> 128 \<le> byte_of d \<and> byte_of d < 160))
      \<or> has_control s)"

definition bad_component :: "string \<Rightarrow> bool" where
  "bad_component p = (p = [] \<or> MAX_OWNER_COMPONENT_BYTES < length p \<or> has_control p)"

definition id_byte :: "char \<Rightarrow> bool" where
  "id_byte c =
     ((48 \<le> byte_of c \<and> byte_of c \<le> 57) \<or> (65 \<le> byte_of c \<and> byte_of c \<le> 90)
      \<or> (97 \<le> byte_of c \<and> byte_of c \<le> 122) \<or> c \<in> set ''_-.'')"

definition valid_binding :: "segment_binding \<Rightarrow> bool" where
  "valid_binding b =
     (let w = bound_owner b in
        \<not> (list_ex bad_component [runtime_scope w, session_id w, transport_session_id w]
           \<or> target_pid (bound_target b) \<le> 0 \<or> target_window_id (bound_target b) = 0
           \<or> bound_id b = [] \<or> MAX_SEGMENT_ID_BYTES < length (bound_id b)
           \<or> \<not> list_all id_byte (bound_id b)))"

definition valid_limits :: "segment_limits \<Rightarrow> bool" where
  "valid_limits l =
     (1 \<le> duration_ms l \<and> duration_ms l \<le> MAX_EPISODE_MS
      \<and> 1 \<le> max_calls l \<and> max_calls l \<le> MAX_SEGMENT_CALLS
      \<and> 1 \<le> max_steps l \<and> max_steps l \<le> MAX_SEGMENT_STEPS)"

text \<open>\<open>inst\<close> is the identity of the fresh \<open>Arc\<close>.\<close>

definition segment_begin ::
    "nat \<Rightarrow> segment_binding \<Rightarrow> nat \<Rightarrow> activity_snapshot \<Rightarrow> segment_limits \<Rightarrow> segment_refusal + segment" where
  "segment_begin inst b now s l =
     (if \<not> valid_binding b then Inl InvalidBinding
      else if \<not> valid_limits l then Inl InvalidLimits
      else if 2 ^ 64 \<le> now + duration_ms l then Inl InvalidLimits
      else case lease_begin now s of
        None \<Rightarrow> Inl ActivityUnavailable
      | Some lease \<Rightarrow>
          Inr \<lparr>seg_binding = b, seg_lease = lease, seg_deadline = now + duration_ms l, seg_limits = l,
               seg_state = Open, seg_instance = inst, in_flight_call = None, calls_reserved = 0,
               steps_reserved = 0\<rparr>)"


section \<open>Operations\<close>

definition binding_matches :: "segment_binding \<Rightarrow> segment \<Rightarrow> segment_refusal option" where
  "binding_matches b g =
     (if bound_owner b \<noteq> bound_owner (seg_binding g) then Some OwnerMismatch
      else if bound_target b \<noteq> bound_target (seg_binding g) then Some TargetMismatch
      else if bound_id b \<noteq> bound_id (seg_binding g) then Some IdMismatch
      else None)"

definition segment_check ::
    "segment_binding \<Rightarrow> nat \<Rightarrow> activity_snapshot \<Rightarrow> segment \<Rightarrow> segment \<times> segment_refusal option" where
  "segment_check b now s g =
     (case binding_matches b g of
        Some r \<Rightarrow> (g, Some r)
      | None \<Rightarrow>
          if seg_state g \<noteq> Open then (g, Some (NotOpen (seg_state g)))
          else if seg_deadline g \<le> now \<or> \<not> lease_permits (seg_lease g) now s
          then (g\<lparr>seg_state := Revoked\<rparr>, Some LeaseRevoked)
          else (g, None))"

definition reserve ::
    "segment_binding \<Rightarrow> nat \<Rightarrow> activity_snapshot \<Rightarrow> call_kind \<Rightarrow> segment
       \<Rightarrow> segment \<times> (segment_refusal + reservation)" where
  "reserve b now s kind g =
     (case segment_check b now s g of
        (g, Some r) \<Rightarrow> (g, Inl r)
      | (g, None) \<Rightarrow>
          if in_flight_call g \<noteq> None then (g, Inl Busy)
          else if kind = Activation \<and> calls_reserved g \<noteq> 0 then (g, Inl ActivationAlreadyAttempted)
          else if max_calls (seg_limits g) \<le> calls_reserved g
          then (g\<lparr>seg_state := Closing\<rparr>, Inl CallLimit)
          else if kind = Mutation \<and> max_steps (seg_limits g) \<le> steps_reserved g
          then (g\<lparr>seg_state := Closing\<rparr>, Inl StepLimit)
          else (let n = calls_reserved g + 1 in
                  (g\<lparr>calls_reserved := n,
                     steps_reserved := steps_reserved g + (if kind = Mutation then 1 else 0),
                     in_flight_call := Some n\<rparr>,
                   Inr \<lparr>res_instance = seg_instance g, res_sequence = n\<rparr>)))"

definition settle :: "reservation \<Rightarrow> segment \<Rightarrow> segment \<times> segment_refusal option" where
  "settle r g =
     (if res_instance r \<noteq> seg_instance g \<or> in_flight_call g \<noteq> Some (res_sequence r)
      then (g, Some ReservationMismatch)
      else (g\<lparr>in_flight_call := None\<rparr>, None))"

definition request_close :: "segment_binding \<Rightarrow> segment \<Rightarrow> segment \<times> segment_refusal option" where
  "request_close b g =
     (case binding_matches b g of
        Some r \<Rightarrow> (g, Some r)
      | None \<Rightarrow>
          (case seg_state g of
             Open \<Rightarrow> (g\<lparr>seg_state := Closing\<rparr>, None)
           | Closing \<Rightarrow> (g, None)
           | Revoked \<Rightarrow> (g, None)
           | CleanupUnknown \<Rightarrow> (g, Some CleanupUnconfirmed)
           | Closed \<Rightarrow> (g, Some (NotOpen Closed))))"

definition revoke :: "segment \<Rightarrow> segment" where
  "revoke g = (if seg_state g \<in> {Open, Closing} then g\<lparr>seg_state := Revoked\<rparr> else g)"

definition cleanup_allowed :: "segment \<Rightarrow> bool" where
  "cleanup_allowed g = (in_flight_call g = None \<and> seg_state g \<in> {Closing, Revoked})"

definition finish_cleanup :: "cleanup \<Rightarrow> segment \<Rightarrow> segment \<times> segment_refusal option" where
  "finish_cleanup c g =
     (if in_flight_call g \<noteq> None then (g, Some Busy)
      else if seg_state g = CleanupUnknown then (g, Some CleanupUnconfirmed)
      else if \<not> cleanup_allowed g then (g, Some NotClosing)
      else (g\<lparr>seg_state := (case c of Confirmed \<Rightarrow> Closed | UnconfirmedCleanup \<Rightarrow> CleanupUnknown)\<rparr>, None))"


section \<open>Histories of a segment and the activity it watches\<close>

text \<open>A foreground episode: reports of the adapter, and calls on the segment, whose snapshots
  are taken from the activity at the time of the call.\<close>

datatype fg_op =
    Sense activity_op
  | Check segment_binding nat
  | Reserve segment_binding nat call_kind
  | Settle reservation
  | RequestClose segment_binding
  | Revoke
  | FinishCleanup cleanup

type_synonym fg_state = "activity \<times> segment"

fun fg_step :: "fg_op \<Rightarrow> fg_state \<Rightarrow> fg_state" where
  "fg_step (Sense op) (a, g) = (activity_step op a, g)"
| "fg_step (Check b now) (a, g) = (a, fst (segment_check b now (snapshot now a) g))"
| "fg_step (Reserve b now kind) (a, g) = (a, fst (reserve b now (snapshot now a) kind g))"
| "fg_step (Settle r) (a, g) = (a, fst (settle r g))"
| "fg_step (RequestClose b) (a, g) = (a, fst (request_close b g))"
| "fg_step Revoke (a, g) = (a, revoke g)"
| "fg_step (FinishCleanup c) (a, g) = (a, fst (finish_cleanup c g))"

abbreviation fg_run :: "fg_op list \<Rightarrow> fg_state \<Rightarrow> fg_state" where
  "fg_run ops s \<equiv> fold fg_step ops s"

text \<open>The reservation an operation grants, and whether it settles one.\<close>

fun granted :: "fg_op \<Rightarrow> fg_state \<Rightarrow> reservation option" where
  "granted (Reserve b now kind) (a, g) =
     (case snd (reserve b now (snapshot now a) kind g) of Inr r \<Rightarrow> Some r | Inl _ \<Rightarrow> None)"
| "granted _ _ = None"

fun settles :: "fg_op \<Rightarrow> fg_state \<Rightarrow> bool" where
  "settles (Settle r) (a, g) = (snd (settle r g) = None)"
| "settles _ _ = False"

fun mutates :: "fg_op \<Rightarrow> bool" where
  "mutates (Reserve _ _ kind) = (kind = Mutation)"
| "mutates _ = False"

definition count :: "bool \<Rightarrow> nat" where
  "count b = (if b then 1 else 0)"

fun occurrences :: "(fg_op \<Rightarrow> fg_state \<Rightarrow> bool) \<Rightarrow> fg_op list \<Rightarrow> fg_state \<Rightarrow> nat" where
  "occurrences P [] s = 0"
| "occurrences P (op # ops) s = count (P op s) + occurrences P ops (fg_step op s)"

abbreviation grants :: "fg_op list \<Rightarrow> fg_state \<Rightarrow> nat" where
  "grants \<equiv> occurrences (\<lambda>op s. granted op s \<noteq> None)"

abbreviation mutation_grants :: "fg_op list \<Rightarrow> fg_state \<Rightarrow> nat" where
  "mutation_grants \<equiv> occurrences (\<lambda>op s. granted op s \<noteq> None \<and> mutates op)"

abbreviation settlements :: "fg_op list \<Rightarrow> fg_state \<Rightarrow> nat" where
  "settlements \<equiv> occurrences settles"


section \<open>Single steps\<close>

lemma binding_matches_None: "binding_matches b g = None \<longleftrightarrow> b = seg_binding g"
  by (auto simp: binding_matches_def)

lemma binding_matches_own [simp]: "binding_matches (seg_binding g) g = None"
  by (simp add: binding_matches_def)

lemma segment_begin_Inr:
  "segment_begin inst b now s l = Inr g \<longleftrightarrow>
     valid_binding b \<and> valid_limits l \<and> now + duration_ms l < 2 ^ 64
     \<and> (\<exists>lease. lease_begin now s = Some lease
          \<and> g = \<lparr>seg_binding = b, seg_lease = lease, seg_deadline = now + duration_ms l,
                 seg_limits = l, seg_state = Open, seg_instance = inst, in_flight_call = None,
                 calls_reserved = 0, steps_reserved = 0\<rparr>)"
  by (auto simp: segment_begin_def not_le split: option.splits)

definition live_for :: "segment_binding \<Rightarrow> nat \<Rightarrow> activity_snapshot \<Rightarrow> segment \<Rightarrow> bool" where
  "live_for b now s g =
     (b = seg_binding g \<and> seg_state g = Open \<and> now < seg_deadline g
      \<and> lease_permits (seg_lease g) now s)"

lemma segment_check_ok: "snd (segment_check b now s g) = None \<longleftrightarrow> live_for b now s g"
  by (auto simp: segment_check_def live_for_def binding_matches_None not_le
           split: option.splits if_splits)

lemma segment_check_cases:
  obtains "live_for b now s g" "segment_check b now s g = (g, None)"
  | r where "segment_check b now s g = (g, Some r)" "\<not> live_for b now s g"
  | "segment_check b now s g = (g\<lparr>seg_state := Revoked\<rparr>, Some LeaseRevoked)" "seg_state g = Open"
      "\<not> live_for b now s g"
  by (cases "live_for b now s g"; cases "binding_matches b g"; cases "seg_state g = Open")
     (auto simp: segment_check_def live_for_def binding_matches_None not_le)

text \<open>What a reservation needs beyond a live segment, and what it leaves.\<close>

definition room_for :: "call_kind \<Rightarrow> segment \<Rightarrow> bool" where
  "room_for kind g =
     (in_flight_call g = None \<and> (kind = Activation \<longrightarrow> calls_reserved g = 0)
      \<and> calls_reserved g < max_calls (seg_limits g)
      \<and> (kind = Mutation \<longrightarrow> steps_reserved g < max_steps (seg_limits g)))"

definition after_reserve :: "call_kind \<Rightarrow> segment \<Rightarrow> segment" where
  "after_reserve kind g =
     g\<lparr>calls_reserved := calls_reserved g + 1,
       steps_reserved := steps_reserved g + (if kind = Mutation then 1 else 0),
       in_flight_call := Some (calls_reserved g + 1)\<rparr>"

lemma reserve_cases:
  obtains "live_for b now s g" "room_for kind g"
      "reserve b now s kind g = (after_reserve kind g, Inr \<lparr>res_instance = seg_instance g,
         res_sequence = calls_reserved g + 1\<rparr>)"
  | st r where "reserve b now s kind g = (g\<lparr>seg_state := st\<rparr>, Inl r)"
      "st = seg_state g \<or> seg_state g = Open \<and> st \<in> {Closing, Revoked}"
      "\<not> (live_for b now s g \<and> room_for kind g)"
proof (cases "live_for b now s g")
  case True
  then have "segment_check b now s g = (g, None)" "seg_state g = Open"
    by (auto simp: segment_check_def live_for_def binding_matches_None)
  then have eq: "reserve b now s kind g =
      (if room_for kind g then (after_reserve kind g, Inr \<lparr>res_instance = seg_instance g,
         res_sequence = calls_reserved g + 1\<rparr>)
       else if in_flight_call g \<noteq> None then (g, Inl Busy)
       else if kind = Activation \<and> calls_reserved g \<noteq> 0 then (g, Inl ActivationAlreadyAttempted)
       else if max_calls (seg_limits g) \<le> calls_reserved g then (g\<lparr>seg_state := Closing\<rparr>, Inl CallLimit)
       else (g\<lparr>seg_state := Closing\<rparr>, Inl StepLimit))"
    by (simp add: reserve_def room_for_def after_reserve_def Let_def not_le)
  show ?thesis
  proof (cases "room_for kind g")
    case True
    with eq \<open>live_for b now s g\<close> show ?thesis by (intro that(1)) simp_all
  next
    case False
    with eq \<open>seg_state g = Open\<close> show ?thesis
      by (intro that(2) [of "seg_state (fst (reserve b now s kind g))" "projl (snd (reserve b now s kind g))"])
         simp_all
  qed
next
  case False
  then show ?thesis
    using that(2) [of "seg_state g"] that(2) [of Revoked]
    by (cases rule: segment_check_cases [of b now s g]) (auto simp: reserve_def)
qed

lemma granted_Some:
  "granted (Reserve b now kind) (a, g) = Some r \<longleftrightarrow>
     live_for b now (snapshot now a) g \<and> room_for kind g
     \<and> r = \<lparr>res_instance = seg_instance g, res_sequence = calls_reserved g + 1\<rparr>"
  by (cases rule: reserve_cases [where b = b and now = now and s = "snapshot now a" and kind = kind and g = g])
     auto

lemma granted_Reserve: "granted op s \<noteq> None \<Longrightarrow> \<exists>b now kind. op = Reserve b now kind"
  by (cases "(op, s)" rule: granted.cases) auto

text \<open>The lifecycle of a segment.\<close>

inductive lifecycle :: "segment_state \<Rightarrow> segment_state \<Rightarrow> bool" where
  stop: "lifecycle Open Closing"
| interrupt: "s \<in> {Open, Closing} \<Longrightarrow> lifecycle s Revoked"
| finish: "s \<in> {Closing, Revoked} \<Longrightarrow> s' \<in> {Closed, CleanupUnknown} \<Longrightarrow> lifecycle s s'"

code_pred lifecycle .

inductive_simps lifecycle_from [simp]:
  "lifecycle Open s" "lifecycle Closing s" "lifecycle Revoked s" "lifecycle CleanupUnknown s"
  "lifecycle Closed s"


text \<open>What an operation of a segment leaves alone, and how its counters move.\<close>

definition same_terms :: "segment \<Rightarrow> segment \<Rightarrow> bool" where
  "same_terms g h =
     (seg_binding h = seg_binding g \<and> seg_lease h = seg_lease g \<and> seg_deadline h = seg_deadline g
      \<and> seg_limits h = seg_limits g \<and> seg_instance h = seg_instance g)"

definition in_flight :: "segment \<Rightarrow> nat" where
  "in_flight g = (if in_flight_call g = None then 0 else 1)"

definition counters_ok :: "segment \<Rightarrow> bool" where
  "counters_ok g =
     (calls_reserved g \<le> max_calls (seg_limits g) \<and> steps_reserved g \<le> max_steps (seg_limits g)
      \<and> steps_reserved g \<le> calls_reserved g
      \<and> (\<forall>n. in_flight_call g = Some n \<longrightarrow> n = calls_reserved g \<and> 0 < n))"

lemma count_simps [simp]: "count True = 1" "count False = 0"
  by (simp_all add: count_def)

definition moves :: "segment \<Rightarrow> segment \<Rightarrow> nat \<Rightarrow> nat \<Rightarrow> nat \<Rightarrow> bool" where
  "moves g h gr mu se =
     (same_terms g h \<and> (counters_ok g \<longrightarrow> counters_ok h)
      \<and> calls_reserved h = calls_reserved g + gr \<and> steps_reserved h = steps_reserved g + mu
      \<and> in_flight h + se = in_flight g + gr)"

definition step_ok :: "segment \<Rightarrow> segment \<Rightarrow> nat \<Rightarrow> nat \<Rightarrow> nat \<Rightarrow> bool" where
  "step_ok g h gr mu se =
     (moves g h gr mu se \<and> (seg_state h = seg_state g \<or> lifecycle (seg_state g) (seg_state h)))"

lemma moves_trans: "moves g h a b c \<Longrightarrow> moves h k a' b' c' \<Longrightarrow> moves g k (a + a') (b + b') (c + c')"
  by (auto simp: moves_def same_terms_def)

lemmas step_ok_defs = step_ok_def moves_def same_terms_def in_flight_def counters_ok_def count_def

lemma step_ok_state:
  "st = seg_state g \<or> lifecycle (seg_state g) st \<Longrightarrow> step_ok g (g\<lparr>seg_state := st\<rparr>) 0 0 0"
  by (auto simp: step_ok_defs)

lemma step_ok_refl [simp]: "step_ok g g 0 0 0"
  by (simp add: step_ok_defs)

lemma step_ok_check: "step_ok g (fst (segment_check b now s g)) 0 0 0"
  by (cases rule: segment_check_cases [of b now s g]) (auto intro: step_ok_state)

lemma step_ok_after_reserve:
  "room_for kind g \<Longrightarrow> step_ok g (after_reserve kind g) 1 (count (kind = Mutation)) 0"
  by (auto simp: step_ok_defs room_for_def after_reserve_def)

lemma step_ok_settle: "step_ok g (fst (settle r g)) 0 0 (count (snd (settle r g) = None))"
  by (auto simp: settle_def step_ok_defs)

lemma step_ok_close: "step_ok g (fst (request_close b g)) 0 0 0"
  by (cases "seg_state g") (auto simp: request_close_def step_ok_state split: option.splits)

lemma step_ok_revoke: "step_ok g (revoke g) 0 0 0"
  by (cases "seg_state g") (auto simp: revoke_def step_ok_state)

lemma step_ok_cleanup: "step_ok g (fst (finish_cleanup c g)) 0 0 0"
  by (cases "seg_state g"; cases c) (auto simp: finish_cleanup_def cleanup_allowed_def step_ok_state)

lemma step_ok_fg:
  "step_ok (snd s) (snd (fg_step op s)) (count (granted op s \<noteq> None))
     (count (granted op s \<noteq> None \<and> mutates op)) (count (settles op s))"
proof -
  obtain a g where s: "s = (a, g)" by (cases s)
  show ?thesis
  proof (cases op)
    case (Reserve b now kind)
    then show ?thesis
      using step_ok_after_reserve [of kind g]
      by (cases rule: reserve_cases [of b now "snapshot now a" g kind])
         (auto simp: s count_def intro!: step_ok_state)
  qed (simp_all add: s step_ok_check step_ok_settle step_ok_close step_ok_revoke step_ok_cleanup)
qed

declare granted.simps(1) [simp del]

lemma fg_run_moves:
  "moves (snd s) (snd (fg_run ops s)) (grants ops s) (mutation_grants ops s) (settlements ops s)"
proof (induction ops arbitrary: s)
  case Nil
  show ?case by (simp add: moves_def same_terms_def)
next
  case (Cons op ops)
  from step_ok_fg [of s op] Cons.IH [of "fg_step op s"] show ?case
    by (auto simp: step_ok_def dest: moves_trans)
qed

lemma fg_run_lifecycle: "lifecycle\<^sup>*\<^sup>* (seg_state (snd s)) (seg_state (snd (fg_run ops s)))"
proof (induction ops arbitrary: s)
  case (Cons op ops)
  have "seg_state (snd (fg_step op s)) = seg_state (snd s)
        \<or> lifecycle (seg_state (snd s)) (seg_state (snd (fg_step op s)))"
    using step_ok_fg [of s op] by (simp add: step_ok_def)
  with Cons.IH [of "fg_step op s"] show ?case
    by (auto intro: converse_rtranclp_into_rtranclp)
qed simp

lemma not_open_forever:
  assumes "lifecycle\<^sup>*\<^sup>* s t" "s \<noteq> Open"
  shows "t \<noteq> Open"
  using assms by (induction rule: rtranclp_induct) (auto elim: lifecycle.cases)

lemma settled_forever:
  assumes "lifecycle\<^sup>*\<^sup>* s t" "s \<in> {Closed, CleanupUnknown}"
  shows "t = s"
  using assms by (induction rule: rtranclp_induct) (auto elim: lifecycle.cases)

lemma no_grant_unless_open: "seg_state (snd s) \<noteq> Open \<Longrightarrow> granted op s = None"
proof (rule ccontr)
  assume not_open: "seg_state (snd s) \<noteq> Open" and g: "granted op s \<noteq> None"
  from granted_Reserve [OF g] obtain b now kind where "op = Reserve b now kind" by blast
  moreover obtain a g where "s = (a, g)" by (cases s)
  ultimately show False using not_open g by (auto simp: granted_Some live_for_def)
qed

lemma no_grants_unless_open: "seg_state (snd s) \<noteq> Open \<Longrightarrow> grants ops s = 0"
proof (induction ops arbitrary: s)
  case (Cons op ops)
  from Cons.prems have "seg_state (snd (fg_step op s)) \<noteq> Open"
    using not_open_forever [OF fg_run_lifecycle [of s "[op]"]] by simp
  with Cons show ?case by (simp add: no_grant_unless_open)
qed simp

lemma sensed_activity:
  "fst (fg_run ops s) = activity_run (concat (map (\<lambda>op. case op of Sense x \<Rightarrow> [x] | _ \<Rightarrow> []) ops)) (fst s)"
proof (induction ops arbitrary: s)
  case (Cons op ops)
  obtain a g where "s = (a, g)" by (cases s)
  then show ?case using Cons.IH [of "fg_step op s"] by (cases op) simp_all
qed simp

lemma begin_run:
  assumes "segment_begin inst b t0 s l = Inr g0" "fg_run ops (a0, g0) = (a, g)"
  shows "seg_binding g = b \<and> seg_deadline g = t0 + duration_ms l \<and> seg_limits g = l
    \<and> lease_begin t0 s = Some (seg_lease g) \<and> counters_ok g \<and> valid_limits l
    \<and> calls_reserved g = grants ops (a0, g0) \<and> steps_reserved g = mutation_grants ops (a0, g0)
    \<and> in_flight g + settlements ops (a0, g0) = grants ops (a0, g0)"
proof -
  from assms(1) have "counters_ok g0" "calls_reserved g0 = 0" "steps_reserved g0 = 0" "in_flight g0 = 0"
    by (auto simp: segment_begin_Inr counters_ok_def in_flight_def)
  with assms fg_run_moves [of "(a0, g0)" ops] show ?thesis
    by (auto simp: segment_begin_Inr same_terms_def moves_def)
qed


lemma occurrences_append:
  "occurrences P (xs @ ys) s = occurrences P xs s + occurrences P ys (fg_run xs s)"
  by (induction xs arbitrary: s) simp_all

lemma closing_step:
  assumes "seg_state (snd (fg_step op s)) = Closed" "seg_state (snd s) \<noteq> Closed"
  shows "op = FinishCleanup Confirmed \<and> in_flight (snd s) = 0"
proof -
  obtain a g where s: "s = (a, g)" by (cases s)
  show ?thesis
  proof (cases op)
    case (Check b now)
    then show ?thesis
      using assms s by (cases rule: segment_check_cases [of b now "snapshot now a" g]) auto
  next
    case (Reserve b now kind)
    then show ?thesis
      using assms s
      by (cases rule: reserve_cases [of b now "snapshot now a" g kind]) (auto simp: after_reserve_def)
  next
    case (FinishCleanup c)
    then show ?thesis
      using assms s
      by (cases c) (auto simp: finish_cleanup_def cleanup_allowed_def in_flight_def split: if_splits)
  qed (use assms s in \<open>auto simp: settle_def request_close_def revoke_def
         split: if_splits option.splits segment_state.splits\<close>)
qed

section \<open>Properties\<close>

text \<open>A foreground segment is bounded and exclusive. Whatever is called on a segment after
  its begin, in whatever order, it grants at most the calls and mutations of its limits, which
  are at most 64 and 20; and of the calls granted at most one is unsettled, so no two native
  workers of one segment ever run together.\<close>

theorem segment_is_bounded_and_exclusive:
  assumes "segment_begin inst b t0 s l = Inr g0"
  shows "grants ops (a0, g0) \<le> max_calls l \<and> max_calls l \<le> 64
    \<and> mutation_grants ops (a0, g0) \<le> max_steps l \<and> max_steps l \<le> 20
    \<and> settlements ops (a0, g0) \<le> grants ops (a0, g0)
    \<and> grants ops (a0, g0) \<le> settlements ops (a0, g0) + 1"
proof -
  obtain a g where run: "fg_run ops (a0, g0) = (a, g)" by (cases "fg_run ops (a0, g0)")
  from begin_run [OF assms run] have "counters_ok g" "seg_limits g = l" "valid_limits l"
    "calls_reserved g = grants ops (a0, g0)" "steps_reserved g = mutation_grants ops (a0, g0)"
    "in_flight g + settlements ops (a0, g0) = grants ops (a0, g0)" by auto
  moreover have "in_flight g \<le> 1" by (simp add: in_flight_def)
  ultimately show ?thesis
    by (auto simp: counters_ok_def valid_limits_def MAX_SEGMENT_CALLS_def MAX_SEGMENT_STEPS_def)
qed

text \<open>A granted call acts for the same owner, on the same window, in the same idle period.
  When a segment that began at \<open>t0\<close> passes a check or grants a reservation at \<open>t\<close>, the caller's
  binding is the one frozen at the begin, \<open>t\<close> is within the segment's duration, and between the
  begin and that moment the adapter reported no input of a human or of an unknown source, no
  plain pointer move of theirs, and no gap in its coverage. (Fewer than \<open>2 ^ 64\<close> reports, so
  that the generation counter has not gone round.)\<close>

theorem granted_calls_are_undisturbed:
  assumes "segment_begin inst b t0 (snapshot t0 a0) l = Inr g0"
    and "fg_run ops (a0, g0) = (a, g)" "length ops < 2 ^ 64"
    and "snd (segment_check b' t (snapshot t a) g) = None
         \<or> granted (Reserve b' t kind) (a, g) \<noteq> None"
  shows "b' = b \<and> t0 \<le> t \<and> t < t0 + duration_ms l
    \<and> (\<forall>xs op ys. ops = xs @ Sense op # ys \<longrightarrow> \<not> interrupts op (fst (fg_run xs (a0, g0))))"
proof (intro conjI allI impI)
  from assms(4) have live: "live_for b' t (snapshot t a) g"
    by (auto simp: segment_check_ok granted_Some)
  from begin_run [OF assms(1,2)] have g: "seg_binding g = b" "seg_deadline g = t0 + duration_ms l"
    "lease_begin t0 (snapshot t0 a0) = Some (seg_lease g)" by auto
  from live g show "b' = b" "t < t0 + duration_ms l" by (auto simp: live_for_def)
  from live g show "t0 \<le> t" by (auto simp: live_for_def lease_permits_def lease_begin_Some)
  fix xs op ys
  assume ops: "ops = xs @ Sense op # ys"
  let ?sensed = "\<lambda>ops. concat (map (\<lambda>op. case op of Sense x \<Rightarrow> [x] | _ \<Rightarrow> []) ops)"
  have len: "length (?sensed os) \<le> length os" for os
    by (induction os) (auto split: fg_op.splits)
  have "generation (activity_run (?sensed ops) a0) = generation a0"
    using live g assms(2) sensed_activity [of ops "(a0, g0)"]
    by (auto simp: live_for_def lease_permits_def lease_begin_Some)
  with len [of ops] assms(3) have "activity_counter.interruptions (?sensed ops) a0 = 0"
    by (intro activity_counter.same_counter) simp_all
  then have "activity_counter.interruptions (?sensed xs @ op # ?sensed ys) a0 = 0"
    by (simp add: ops)
  then show "\<not> interrupts op (fst (fg_run xs (a0, g0)))"
    using activity_counter.no_interruptions by (simp add: sensed_activity)
qed


text \<open>Closed means confirmed. A segment that is closed in the end was closed by a confirmed
  cleanup, at a moment when every call it had granted was settled, and it granted none since.\<close>

theorem closed_means_confirmed_cleanup:
  assumes "segment_begin inst b t0 s l = Inr g0"
    and "seg_state (snd (fg_run ops (a0, g0))) = Closed"
  shows "\<exists>xs ys. ops = xs @ FinishCleanup Confirmed # ys
    \<and> settlements xs (a0, g0) = grants xs (a0, g0)
    \<and> grants ops (a0, g0) = grants xs (a0, g0)"
  using assms(2)
proof (induction ops rule: rev_induct)
  case Nil
  with assms(1) show ?case by (auto simp: segment_begin_Inr)
next
  case (snoc op ops)
  let ?s = "fg_run ops (a0, g0)"
  have no: "granted op ?s = None"
    if "seg_state (snd ?s) = Closed \<or> op = FinishCleanup Confirmed"
    using that no_grant_unless_open [of ?s op] by (auto simp: prod_eq_iff)
  show ?case
  proof (cases "seg_state (snd ?s) = Closed")
    case True
    with snoc.IH obtain xs ys where "ops = xs @ FinishCleanup Confirmed # ys"
      "settlements xs (a0, g0) = grants xs (a0, g0)" "grants ops (a0, g0) = grants xs (a0, g0)"
      by blast
    with no True show ?thesis
      by (intro exI [of _ xs] exI [of _ "ys @ [op]"]) (simp add: occurrences_append)
  next
    case False
    from closing_step [of op ?s] False snoc.prems
    have op: "op = FinishCleanup Confirmed" and "in_flight (snd ?s) = 0" by auto
    moreover obtain a g where "?s = (a, g)" by (cases ?s)
    ultimately have "settlements ops (a0, g0) = grants ops (a0, g0)"
      using begin_run [OF assms(1), of ops a0 a g] by auto
    with op no show ?thesis
      by (intro exI [of _ ops] exI [of _ "[]"]) (simp add: occurrences_append)
  qed
qed


section \<open>Examples\<close>

definition example_activity :: activity where
  "example_activity = \<lparr>generation = 7, non_motion_generation = 7, coverage_since = Some 0,
     last_heartbeat = Some 5250, last_external = None\<rparr>"

definition example_binding :: segment_binding where
  "example_binding =
     \<lparr>bound_owner = \<lparr>runtime_scope = ''r'', session_id = ''s'', transport_session_id = ''t''\<rparr>,
      bound_target = \<lparr>target_pid = 42, target_window_id = 7\<rparr>, bound_id = ''seg-a''\<rparr>"

definition example_segment :: segment where
  "example_segment =
     \<lparr>seg_binding = example_binding, seg_lease = \<lparr>lease_generation = 7, started_ms = 5300\<rparr>,
      seg_deadline = 125300, seg_limits = default_limits, seg_state = Open, seg_instance = 3,
      in_flight_call = None, calls_reserved = 0, steps_reserved = 0\<rparr>"

definition example_calls :: "fg_op list" where
  "example_calls =
     [Reserve example_binding 5310 Observation,
      Settle \<lparr>res_instance = 3, res_sequence = Suc 0\<rparr>]"

lemma example_lists:
  "list_all id_byte (bound_id example_binding)"
  "\<not> list_ex bad_component [runtime_scope (bound_owner example_binding),
     session_id (bound_owner example_binding), transport_session_id (bound_owner example_binding)]"
  by (simp_all add: example_binding_def id_byte_def byte_of_def bad_component_def
        MAX_OWNER_COMPONENT_BYTES_def)

lemma example_valid: "valid_binding example_binding" "valid_limits default_limits"
  using example_lists
  by (simp_all add: valid_binding_def Let_def example_binding_def MAX_SEGMENT_ID_BYTES_def
        valid_limits_def default_limits_def MAX_EPISODE_MS_def MAX_SEGMENT_CALLS_def
        MAX_SEGMENT_STEPS_def)

lemmas example_eval = example_calls_def example_segment_def example_activity_def reserve_def
  segment_check_def binding_matches_def lease_permits_def snapshot_def default_limits_def
  settle_def Let_def request_close_def finish_cleanup_def cleanup_allowed_def health_def
  heartbeat_gap_def MAX_HEARTBEAT_GAP_MS_def IDLE_REQUIRED_MS_def MAX_EPISODE_MS_def
  MAX_SEGMENT_CALLS_def MAX_SEGMENT_STEPS_def

lemma example_begin:
  "segment_begin 3 example_binding 5300 (snapshot 5300 example_activity) default_limits = Inr example_segment"
  using example_valid
  by (simp add: segment_begin_Inr lease_begin_def example_activity_def snapshot_def example_segment_def
        default_limits_def MAX_HEARTBEAT_GAP_MS_def IDLE_REQUIRED_MS_def MAX_EPISODE_MS_def)

theorem segment_is_bounded_and_exclusive_witness:
  "grants example_calls (example_activity, example_segment)
     \<le> settlements example_calls (example_activity, example_segment) + 1"
  using segment_is_bounded_and_exclusive [OF example_begin] by simp

lemma example_calls_run:
  "fg_run (example_calls @ [Sense (Heartbeat 5400 True)]) (example_activity, example_segment) =
     (example_activity\<lparr>last_heartbeat := Some 5400\<rparr>,
      example_segment\<lparr>calls_reserved := Suc 0\<rparr>)"
  by (simp add: example_eval)

lemma example_granted:
  "granted (Reserve example_binding 5420 Mutation)
     (example_activity\<lparr>last_heartbeat := Some 5400\<rparr>, example_segment\<lparr>calls_reserved := Suc 0\<rparr>) \<noteq> None"
  by (simp add: granted_Some live_for_def room_for_def example_eval)

theorem granted_calls_are_undisturbed_witness:
  "\<not> interrupts (Heartbeat 5400 True) (fst (fg_run example_calls (example_activity, example_segment)))"
proof -
  have "length (example_calls @ [Sense (Heartbeat 5400 True)]) < 2 ^ 64"
    by (simp add: example_calls_def)
  from granted_calls_are_undisturbed [OF example_begin example_calls_run this
      disjI2 [OF example_granted]]
  show ?thesis by blast
qed

theorem closed_means_confirmed_cleanup_witness:
  "\<exists>xs ys. example_calls @ [RequestClose example_binding, FinishCleanup Confirmed]
       = xs @ FinishCleanup Confirmed # ys
     \<and> settlements xs (example_activity, example_segment) = grants xs (example_activity, example_segment)"
proof -
  have "seg_state (snd (fg_run (example_calls @ [RequestClose example_binding, FinishCleanup Confirmed])
      (example_activity, example_segment))) = Closed"
    by (simp add: example_eval)
  from closed_means_confirmed_cleanup [OF example_begin this] show ?thesis by blast
qed


end
