(* ===== verification/BrowserGrants.thy ===== *)
theory BrowserGrants
  imports Consent
begin

text \<open>
  Model of \<open>cua-driver-core/src/browser/grant.rs\<close>: the daemon-memory grants for attaching to a
  user-owned browser profile, with their bounded reconnect budget and the duty to switch remote
  debugging off again, which is handed to another grant of the same browser process when its
  holder goes. The permission mode and the policy digests of the moment are arguments, and so
  are the revoked consents.
\<close>

section \<open>Grants\<close>

datatype browser_product =
    GoogleChrome | Chromium | MicrosoftEdge | Brave | Vivaldi | Opera | Arc | Electron | Firefox
  | Safari | OtherBrowser

definition GRANT_IDLE_TTL :: duration where
  "GRANT_IDLE_TTL = secs (30 * 60)"

definition GRANT_ABSOLUTE_TTL :: duration where
  "GRANT_ABSOLUTE_TTL = secs (8 * 60 * 60)"

definition MAX_RECONNECT_ATTEMPTS :: nat where
  "MAX_RECONNECT_ATTEMPTS = 3"

record profile_grant_key =
  gk_public :: string
  gk_transport :: string
  gk_pid :: int

record profile_grant =
  pg_public :: string
  pg_transport :: string
  pg_pid :: int
  pg_window :: nat
  pg_fingerprint :: process_fingerprint
  pg_browser :: string
  pg_product :: browser_product
  pg_endpoint :: string
  pg_generation :: nat
  pg_cleanup :: bool
  pg_attempts :: nat
  pg_consent :: "protected_grant option"
  pg_mode :: permission_mode
  pg_managed :: "string option"
  pg_user :: "string option"
  pg_created_at :: instant
  pg_last_used_at :: instant

type_synonym profile_grants = "(profile_grant_key, profile_grant) kv"

datatype grant_lookup = Missing | Live profile_grant | ExpiredGrant profile_grant

text \<open>What the process is configured for at the moment of a call.\<close>

record surroundings =
  mode_now :: "string + permission_mode"
  managed_now :: "string option"
  user_now :: "string option"
  revoked_now :: "nat list"

definition profile_grant_expired :: "surroundings \<Rightarrow> instant \<Rightarrow> profile_grant \<Rightarrow> bool" where
  "profile_grant_expired env now g =
     (GRANT_IDLE_TTL < now - pg_last_used_at g \<or> GRANT_ABSOLUTE_TTL < now - pg_created_at g
      \<or> (case pg_consent g of Some p \<Rightarrow> grant_id p \<in> set (revoked_now env) | None \<Rightarrow> False))"

definition authorization_context_matches :: "surroundings \<Rightarrow> profile_grant \<Rightarrow> bool" where
  "authorization_context_matches env g =
     (mode_now env = Inr (pg_mode g) \<and> managed_now env = pg_managed g \<and> user_now env = pg_user g)"

definition profile_key :: "string \<Rightarrow> string option \<Rightarrow> int \<Rightarrow> profile_grant_key" where
  "profile_key pub tr pid =
     \<lparr>gk_public = pub, gk_transport = (case tr of Some t \<Rightarrow> t | None \<Rightarrow> pub), gk_pid = pid\<rparr>"

text \<open>\<open>saturating_add(1)\<close> on \<open>u64\<close>.\<close>

definition next_profile_generation :: "nat \<Rightarrow> nat" where
  "next_profile_generation n = min (n + 1) (2 ^ 64 - 1)"

record mint_request =
  mint_public :: string
  mint_transport :: "string option"
  mint_pid :: int
  mint_window :: nat
  mint_fingerprint :: process_fingerprint
  mint_browser :: string
  mint_product :: browser_product
  mint_endpoint :: string
  mint_cleanup :: bool
  mint_consent :: "protected_grant option"

definition mint_key :: "mint_request \<Rightarrow> profile_grant_key" where
  "mint_key q = profile_key (mint_public q) (mint_transport q) (mint_pid q)"

definition mint :: "surroundings \<Rightarrow> instant \<Rightarrow> mint_request \<Rightarrow> profile_grants \<Rightarrow> profile_grants \<times> profile_grant" where
  "mint env now q gs =
     (let k = mint_key q;
          g = \<lparr>pg_public = mint_public q, pg_transport = gk_transport k, pg_pid = mint_pid q,
               pg_window = mint_window q, pg_fingerprint = mint_fingerprint q, pg_browser = mint_browser q,
               pg_product = mint_product q, pg_endpoint = mint_endpoint q,
               pg_generation = (case kv_get gs k of
                                  None \<Rightarrow> 1 | Some old \<Rightarrow> next_profile_generation (pg_generation old)),
               pg_cleanup = mint_cleanup q, pg_attempts = MAX_RECONNECT_ATTEMPTS,
               pg_consent = mint_consent q,
               pg_mode = (case mode_now env of Inr m \<Rightarrow> m | Inl _ \<Rightarrow> Standard),
               pg_managed = managed_now env, pg_user = user_now env, pg_created_at = now,
               pg_last_used_at = now\<rparr>
      in (kv_put k g gs, g))"

text \<open>Whether \<open>h\<close> can take over the cleanup duty of \<open>g\<close>.\<close>

definition succeeds :: "profile_grant \<Rightarrow> profile_grant \<Rightarrow> bool" where
  "succeeds g h =
     (pg_pid h = pg_pid g \<and> fingerprint_matches (pg_fingerprint h) (pg_fingerprint g)
      \<and> pg_product h = pg_product g)"

fun hand_over :: "profile_grant \<Rightarrow> profile_grants \<Rightarrow> profile_grants option" where
  "hand_over g [] = None"
| "hand_over g ((k, h) # gs) =
     (if succeeds g h then Some ((k, h\<lparr>pg_cleanup := True\<rparr>) # gs)
      else map_option (\<lambda>gs'. (k, h) # gs') (hand_over g gs))"

definition transfer_cleanup_ownership :: "profile_grants \<Rightarrow> profile_grant \<Rightarrow> profile_grants \<times> profile_grant" where
  "transfer_cleanup_ownership gs removed =
     (if \<not> pg_cleanup removed then (gs, removed)
      else case hand_over removed gs of
        None \<Rightarrow> (gs, removed)
      | Some gs' \<Rightarrow> (gs', removed\<lparr>pg_cleanup := False\<rparr>))"

definition lookup_profile ::
    "surroundings \<Rightarrow> instant \<Rightarrow> profile_grant_key \<Rightarrow> profile_grants \<Rightarrow> profile_grants \<times> grant_lookup" where
  "lookup_profile env now k gs =
     (case kv_get gs k of
        None \<Rightarrow> (gs, Missing)
      | Some g \<Rightarrow>
          if profile_grant_expired env now g \<or> \<not> authorization_context_matches env g
          then (case transfer_cleanup_ownership (kv_del k gs) g of (gs', g') \<Rightarrow> (gs', ExpiredGrant g'))
          else (let g' = g\<lparr>pg_last_used_at := now\<rparr> in (kv_put k g' gs, Live g')))"

definition revoke_profile :: "profile_grant_key \<Rightarrow> profile_grants \<Rightarrow> profile_grants \<times> profile_grant option" where
  "revoke_profile k gs =
     (case kv_get gs k of
        None \<Rightarrow> (gs, None)
      | Some g \<Rightarrow> (case transfer_cleanup_ownership (kv_del k gs) g of (gs', g') \<Rightarrow> (gs', Some g')))"

definition grant_of_session :: "string \<Rightarrow> profile_grant \<Rightarrow> bool" where
  "grant_of_session s g = (pg_public g = s \<or> pg_transport g = s)"

fun transfer_all :: "profile_grant list \<Rightarrow> profile_grants \<Rightarrow> profile_grants \<times> profile_grant list" where
  "transfer_all [] gs = (gs, [])"
| "transfer_all (g # rest) gs =
     (case transfer_cleanup_ownership gs g of
        (gs1, g') \<Rightarrow> (case transfer_all rest gs1 of (gs2, rest') \<Rightarrow> (gs2, g' # rest')))"

definition remove_profile_session :: "string \<Rightarrow> profile_grants \<Rightarrow> profile_grants \<times> profile_grant list" where
  "remove_profile_session s gs =
     transfer_all (map snd (filter (\<lambda>e. grant_of_session s (snd e)) gs))
       (kv_retain (\<lambda>_ g. \<not> grant_of_session s g) gs)"

datatype reconnect_refusal = ConsentRequired | ReconnectExhausted

definition bump_generation ::
    "instant \<Rightarrow> profile_grant_key \<Rightarrow> profile_grants \<Rightarrow> profile_grants \<times> (reconnect_refusal + nat)" where
  "bump_generation now k gs =
     (case kv_get gs k of
        None \<Rightarrow> (gs, Inl ConsentRequired)
      | Some g \<Rightarrow>
          if pg_attempts g = 0 then (gs, Inl ReconnectExhausted)
          else (let g' = g\<lparr>pg_attempts := pg_attempts g - 1,
                           pg_generation := next_profile_generation (pg_generation g),
                           pg_last_used_at := now\<rparr>
                in (kv_put k g' gs, Inr (pg_generation g'))))"


section \<open>Histories\<close>

datatype profile_op =
    Mint surroundings instant mint_request
  | LookupProfile surroundings instant profile_grant_key
  | RevokeProfile profile_grant_key
  | RemoveProfileSession string
  | BumpGeneration instant profile_grant_key

fun profile_step :: "profile_op \<Rightarrow> profile_grants \<Rightarrow> profile_grants" where
  "profile_step (Mint env now q) gs = fst (mint env now q gs)"
| "profile_step (LookupProfile env now k) gs = fst (lookup_profile env now k gs)"
| "profile_step (RevokeProfile k) gs = fst (revoke_profile k gs)"
| "profile_step (RemoveProfileSession s) gs = fst (remove_profile_session s gs)"
| "profile_step (BumpGeneration now k) gs = fst (bump_generation now k gs)"

text \<open>The number of reconnects of \<open>k\<close> that a history grants.\<close>

fun reconnects :: "profile_grant_key \<Rightarrow> profile_op list \<Rightarrow> profile_grants \<Rightarrow> nat" where
  "reconnects k [] gs = 0"
| "reconnects k (op # ops) gs =
     (case op of
        BumpGeneration now k' \<Rightarrow>
          if k' = k \<and> (\<exists>n. snd (bump_generation now k gs) = Inr n) then 1 else 0
      | _ \<Rightarrow> 0)
     + reconnects k ops (profile_step op gs)"

fun mints :: "profile_grant_key \<Rightarrow> profile_op \<Rightarrow> bool" where
  "mints k (Mint env now q) = (mint_key q = k)"
| "mints k _ = False"


section \<open>Lemmas\<close>

text \<open>A grant up to its cleanup duty.\<close>

definition same_but_duty :: "profile_grant \<Rightarrow> profile_grant \<Rightarrow> bool" where
  "same_but_duty g h = (h\<lparr>pg_cleanup := False\<rparr> = g\<lparr>pg_cleanup := False\<rparr> \<and> (pg_cleanup g \<longrightarrow> pg_cleanup h))"

lemma same_but_duty_refl [simp, intro]: "same_but_duty g g"
  by (simp add: same_but_duty_def)

lemma same_but_duty_trans: "same_but_duty a b \<Longrightarrow> same_but_duty b c \<Longrightarrow> same_but_duty a c"
  by (auto simp: same_but_duty_def)

lemma same_but_duty_fields:
  assumes "same_but_duty g h"
  shows "pg_attempts h = pg_attempts g" "pg_pid h = pg_pid g" "pg_product h = pg_product g"
    "pg_fingerprint h = pg_fingerprint g" "pg_generation h = pg_generation g"
proof -
  have e: "f (h\<lparr>pg_cleanup := False\<rparr>) = f (g\<lparr>pg_cleanup := False\<rparr>)" for f :: "profile_grant \<Rightarrow> 'b"
    using assms by (simp add: same_but_duty_def)
  from e [of pg_attempts] e [of pg_pid] e [of pg_product] e [of pg_fingerprint] e [of pg_generation]
  show "pg_attempts h = pg_attempts g" "pg_pid h = pg_pid g" "pg_product h = pg_product g"
    "pg_fingerprint h = pg_fingerprint g" "pg_generation h = pg_generation g" by simp_all
qed

text \<open>Two stores with the same grants up to duties, in the same order.\<close>

definition duties_moved :: "profile_grants \<Rightarrow> profile_grants \<Rightarrow> bool" where
  "duties_moved gs gs' = list_all2 (\<lambda>e e'. fst e' = fst e \<and> same_but_duty (snd e) (snd e')) gs gs'"

lemma duties_moved_refl [simp, intro]: "duties_moved gs gs"
  unfolding duties_moved_def by (rule list_all2_refl) simp

lemma duties_moved_trans:
  assumes "duties_moved a b" "duties_moved b c"
  shows "duties_moved a c"
  unfolding duties_moved_def
proof (rule list_all2_trans [OF _ assms [unfolded duties_moved_def]])
  fix x y z :: "profile_grant_key \<times> profile_grant"
  assume "fst y = fst x \<and> same_but_duty (snd x) (snd y)" "fst z = fst y \<and> same_but_duty (snd y) (snd z)"
  then show "fst z = fst x \<and> same_but_duty (snd x) (snd z)" using same_but_duty_trans by auto
qed

lemma duties_moved_keys: "duties_moved gs gs' \<Longrightarrow> map fst gs' = map fst gs"
  unfolding duties_moved_def by (induction rule: list_all2_induct) auto

lemma duties_moved_get:
  "duties_moved gs gs' \<Longrightarrow>
     (case kv_get gs k of None \<Rightarrow> kv_get gs' k = None
      | Some g \<Rightarrow> \<exists>g'. kv_get gs' k = Some g' \<and> same_but_duty g g')"
  unfolding duties_moved_def
  by (induction rule: list_all2_induct) (auto split: option.splits)

lemma hand_over_moved: "hand_over g gs = Some gs' \<Longrightarrow> duties_moved gs gs'"
  by (induction gs arbitrary: gs')
     (auto simp: duties_moved_def same_but_duty_def list_all2_refl split: if_splits)

lemma hand_over_holder:
  "hand_over g gs = Some gs' \<Longrightarrow> \<exists>(k, h) \<in> set gs'. succeeds g h \<and> pg_cleanup h"
  by (induction gs arbitrary: gs') (auto simp: succeeds_def split: if_splits)

lemma hand_over_None: "hand_over g gs = None \<longleftrightarrow> (\<forall>(k, h) \<in> set gs. \<not> succeeds g h)"
proof (induction gs)
  case (Cons e gs)
  then show ?case by (cases e; cases "hand_over g gs") auto
qed simp

lemma transfer_moved: "transfer_cleanup_ownership gs g = (gs', g') \<Longrightarrow> duties_moved gs gs'"
  by (auto simp: transfer_cleanup_ownership_def dest: hand_over_moved split: if_splits option.splits)

lemma transfer_all_moved: "transfer_all rs gs = (gs', rs') \<Longrightarrow> duties_moved gs gs'"
  by (induction rs arbitrary: gs gs' rs')
     (fastforce split: prod.splits dest: transfer_moved intro: duties_moved_trans)+


lemma duties_moved_successor:
  assumes "duties_moved gs gs'"
  shows "(\<exists>(k, h) \<in> set gs'. succeeds g h) \<longleftrightarrow> (\<exists>(k, h) \<in> set gs. succeeds g h)"
proof -
  have "succeeds g h' \<longleftrightarrow> succeeds g h" if "same_but_duty h h'" for h h'
    using same_but_duty_fields [OF that] by (simp add: succeeds_def)
  with assms show ?thesis
    unfolding duties_moved_def by (induction rule: list_all2_induct) (auto split: prod.splits)
qed

lemma duties_moved_in:
  assumes "duties_moved gs gs'" "(k, h) \<in> set gs"
  shows "\<exists>h'. (k, h') \<in> set gs' \<and> same_but_duty h h'"
  using assms unfolding duties_moved_def by (induction rule: list_all2_induct) auto

lemma duties_moved_holder:
  assumes "duties_moved gs gs'" "\<exists>(k, h) \<in> set gs. succeeds g h \<and> pg_cleanup h"
  shows "\<exists>(k, h) \<in> set gs'. succeeds g h \<and> pg_cleanup h"
proof -
  from assms(2) obtain k h where h: "(k, h) \<in> set gs" "succeeds g h" "pg_cleanup h" by blast
  from duties_moved_in [OF assms(1) h(1)] obtain h' where h': "(k, h') \<in> set gs'" "same_but_duty h h'" by blast
  with h same_but_duty_fields [OF h'(2)] show ?thesis by (auto simp: succeeds_def same_but_duty_def)
qed

text \<open>What happens to the duty of a removed grant \<open>g\<close>, returned as \<open>r\<close>.\<close>

definition duty_settled :: "profile_grants \<Rightarrow> profile_grant \<Rightarrow> profile_grant \<Rightarrow> bool" where
  "duty_settled gs g r =
     (if pg_cleanup r then r = g \<and> \<not> (\<exists>(k, h) \<in> set gs. succeeds g h)
      else r = g\<lparr>pg_cleanup := False\<rparr>
           \<and> (pg_cleanup g \<longrightarrow> (\<exists>(k, h) \<in> set gs. succeeds g h \<and> pg_cleanup h)))"

lemma duty_settled_moved: "duty_settled gs g r \<Longrightarrow> duties_moved gs gs' \<Longrightarrow> duty_settled gs' g r"
  using duties_moved_successor [of gs gs' g] duties_moved_holder [of gs gs' g]
  by (auto simp: duty_settled_def split: if_splits)

lemma transfer_settled:
  assumes "transfer_cleanup_ownership gs g = (gs', g')"
  shows "duty_settled gs' g g'"
proof (cases "pg_cleanup g")
  case True
  show ?thesis
  proof (cases "hand_over g gs")
    case None
    with True assms have "gs' = gs" "g' = g" by (simp_all add: transfer_cleanup_ownership_def)
    with True None show ?thesis by (auto simp: duty_settled_def hand_over_None)
  next
    case (Some gs1)
    with True assms have "gs' = gs1" "g' = g\<lparr>pg_cleanup := False\<rparr>" by (simp_all add: transfer_cleanup_ownership_def)
    with hand_over_holder [OF Some] show ?thesis by (auto simp: duty_settled_def)
  qed
next
  case False
  with assms have "g' = g" by (simp add: transfer_cleanup_ownership_def)
  with False show ?thesis by (simp add: duty_settled_def)
qed

lemma transfer_all_settled:
  "transfer_all rs gs = (gs', rs') \<Longrightarrow> list_all2 (duty_settled gs') rs rs'"
proof (induction rs arbitrary: gs gs' rs')
  case (Cons g rs)
  obtain gs1 g1 where t: "transfer_cleanup_ownership gs g = (gs1, g1)"
    by (cases "transfer_cleanup_ownership gs g")
  obtain gs2 rs2 where a: "transfer_all rs gs1 = (gs2, rs2)" by (cases "transfer_all rs gs1")
  have "duty_settled gs2 g g1"
    by (rule duty_settled_moved [OF transfer_settled [OF t] transfer_all_moved [OF a]])
  with Cons.IH [OF a] Cons.prems t a show ?case by auto
qed auto

definition attempts :: "profile_grant_key \<Rightarrow> profile_grants \<Rightarrow> nat" where
  "attempts k gs = (case kv_get gs k of None \<Rightarrow> 0 | Some g \<Rightarrow> pg_attempts g)"

lemma attempts_moved: "duties_moved gs gs' \<Longrightarrow> attempts k gs' = attempts k gs"
  using duties_moved_get [of gs gs' k] same_but_duty_fields(1)
  by (auto simp: attempts_def split: option.splits)

lemma attempts_del: "attempts k (kv_del k' gs) \<le> attempts k gs"
  by (simp add: attempts_def)

lemma attempts_retain: "kv_wf gs \<Longrightarrow> attempts k (kv_retain P gs) \<le> attempts k gs"
  by (auto simp: attempts_def kv_get_retain split: option.splits)

lemma kv_wf_moved: "duties_moved gs gs' \<Longrightarrow> kv_wf gs' = kv_wf gs"
  using duties_moved_keys [of gs gs'] by (simp add: kv_wf_def)

lemma revoke_profile_moved:
  "\<exists>gs0. duties_moved gs0 (fst (revoke_profile k gs)) \<and> (gs0 = gs \<or> gs0 = kv_del k gs)"
  by (auto simp: revoke_profile_def split: option.splits prod.splits dest: transfer_moved)

lemma lookup_profile_cases:
  "(\<exists>gs0. duties_moved gs0 (fst (lookup_profile env now k gs)) \<and> (gs0 = gs \<or> gs0 = kv_del k gs))
   \<or> (\<exists>g. kv_get gs k = Some g \<and> fst (lookup_profile env now k gs) = kv_put k (g\<lparr>pg_last_used_at := now\<rparr>) gs)"
proof (cases "kv_get gs k")
  case (Some g)
  obtain gs1 g1 where t: "transfer_cleanup_ownership (kv_del k gs) g = (gs1, g1)"
    by (cases "transfer_cleanup_ownership (kv_del k gs) g")
  show ?thesis using Some t transfer_moved [OF t]
    by (auto simp: lookup_profile_def Let_def)
qed (auto simp: lookup_profile_def)

lemma remove_session_moved:
  "duties_moved (kv_retain (\<lambda>_ g. \<not> grant_of_session s g) gs) (fst (remove_profile_session s gs))"
  by (metis remove_profile_session_def prod.collapse transfer_all_moved)

lemma profile_step_wf: "kv_wf gs \<Longrightarrow> kv_wf (profile_step op gs)"
proof (cases op)
  case (LookupProfile env now k)
  assume "kv_wf gs"
  then show ?thesis using lookup_profile_cases [of env now k gs] LookupProfile
    by (auto simp: kv_wf_moved)
next
  case (RevokeProfile k)
  assume "kv_wf gs"
  then show ?thesis using revoke_profile_moved [where k = k and gs = gs] RevokeProfile by (auto simp: kv_wf_moved)
next
  case (RemoveProfileSession s)
  assume "kv_wf gs"
  then show ?thesis using kv_wf_moved [OF remove_session_moved [of s gs]] RemoveProfileSession by simp
qed (auto simp: mint_def bump_generation_def Let_def split: option.splits)

lemma profile_step_attempts:
  assumes "kv_wf gs" "\<not> mints k op"
  shows "reconnects k [op] gs + attempts k (profile_step op gs) \<le> attempts k gs"
proof (cases op)
  case (Mint env now q)
  with assms show ?thesis by (simp add: mint_def Let_def attempts_def)
next
  case (LookupProfile env now k')
  have "attempts k (kv_put k' (g\<lparr>pg_last_used_at := now\<rparr>) gs) = attempts k gs" if "kv_get gs k' = Some g" for g
    using that by (simp add: attempts_def)
  then show ?thesis using lookup_profile_cases [of env now k' gs] LookupProfile attempts_del [where k = k and k' = k' and gs = gs]
    by (auto simp: attempts_moved)
next
  case (RevokeProfile k')
  then show ?thesis using revoke_profile_moved [where k = k' and gs = gs] attempts_del [where k = k and k' = k' and gs = gs]
    by (auto simp: attempts_moved)
next
  case (RemoveProfileSession s)
  then show ?thesis
    using attempts_moved [OF remove_session_moved [of s gs]] attempts_retain [OF assms(1)] by simp
next
  case (BumpGeneration now k')
  then show ?thesis
    by (auto simp: bump_generation_def Let_def attempts_def split: option.splits)
qed

lemma reconnects_budget:
  "kv_wf gs \<Longrightarrow> list_all (\<lambda>op. \<not> mints k op) ops \<Longrightarrow>
     reconnects k ops gs + attempts k (fold profile_step ops gs) \<le> attempts k gs"
proof (induction ops arbitrary: gs)
  case (Cons op ops)
  from Cons.IH [OF profile_step_wf [OF Cons.prems(1), of op]] Cons.prems
    profile_step_attempts [OF Cons.prems(1), of k op]
  show ?case by simp
qed simp


section \<open>Properties\<close>

definition example_mint :: mint_request where
  "example_mint =
     \<lparr>mint_public = ''s'', mint_transport = None, mint_pid = 7, mint_window = 1,
      mint_fingerprint = \<lparr>fp_pid = 7, fp_start_time = Some 1, fp_executable = None\<rparr>,
      mint_browser = ''chromium'', mint_product = Chromium, mint_endpoint = ''ws'', mint_cleanup = True,
      mint_consent = None\<rparr>"

definition calm :: surroundings where
  "calm = \<lparr>mode_now = Inr Standard, managed_now = None, user_now = None, revoked_now = []\<rparr>"

text \<open>Reconnects are bounded by consent: between two approvals of an attachment, whatever
  other grants do, its reconnect counter is bumped at most \<open>MAX_RECONNECT_ATTEMPTS\<close> times, the
  refusal of an exhausted budget changes nothing, and every bump that is granted strictly
  raises the generation until it saturates.\<close>

theorem reconnect_budget_is_bounded:
  assumes "kv_wf gs" and "list_all (\<lambda>op. \<not> mints (mint_key q) op) ops"
  shows "reconnects (mint_key q) ops (fst (mint env now q gs)) \<le> MAX_RECONNECT_ATTEMPTS
    \<and> (case snd (bump_generation t k gs) of
         Inl e \<Rightarrow> fst (bump_generation t k gs) = gs
       | Inr n \<Rightarrow> \<exists>g g'. kv_get gs k = Some g \<and> kv_get (fst (bump_generation t k gs)) k = Some g'
                   \<and> pg_generation g' = n \<and> (pg_generation g < n \<or> 2 ^ 64 - 1 \<le> pg_generation g)
                   \<and> pg_attempts g' + 1 = pg_attempts g)"
proof -
  have "attempts (mint_key q) (fst (mint env now q gs)) = MAX_RECONNECT_ATTEMPTS"
    by (simp add: mint_def Let_def attempts_def)
  moreover have "kv_wf (fst (mint env now q gs))" using assms(1) by (simp add: mint_def Let_def)
  ultimately have "reconnects (mint_key q) ops (fst (mint env now q gs)) \<le> MAX_RECONNECT_ATTEMPTS"
    using reconnects_budget [OF _ assms(2)] by fastforce
  then show ?thesis
    by (auto simp: bump_generation_def Let_def next_profile_generation_def split: option.splits)
qed

theorem reconnect_budget_is_bounded_witness:
  "reconnects (mint_key example_mint)
     [BumpGeneration 1 (mint_key example_mint), BumpGeneration 2 (mint_key example_mint),
      BumpGeneration 3 (mint_key example_mint), BumpGeneration 4 (mint_key example_mint)]
     (fst (mint calm 0 example_mint [])) \<le> 3"
  using reconnect_budget_is_bounded [where gs = "[]" and q = example_mint and env = calm and now = 0 and ops =
      "[BumpGeneration 1 (mint_key example_mint), BumpGeneration 2 (mint_key example_mint),
      BumpGeneration 3 (mint_key example_mint), BumpGeneration 4 (mint_key example_mint)]"]
  by (simp add: MAX_RECONNECT_ATTEMPTS_def)

text \<open>Remote debugging is switched off exactly when its last user goes: when the grants of a
  session are removed, the duty to switch it off again is neither lost nor doubled. Each removed
  grant that held the duty either comes back with it, and then no remaining grant is of the
  same browser process, or comes back without it because a remaining grant of the same process
  now holds it; removing changes nothing else about the remaining grants. Revoking a single
  grant settles its duty in the same way.\<close>

theorem cleanup_duty_is_conserved:
  assumes "remove_profile_session s gs = (gs', removed)"
  shows "list_all2 (\<lambda>g r. if pg_cleanup r then r = g \<and> list_all (\<lambda>(k, h). \<not> succeeds g h) gs'
        else r = g\<lparr>pg_cleanup := False\<rparr>
             \<and> (\<not> pg_cleanup g \<or> list_ex (\<lambda>(k, h). succeeds g h \<and> pg_cleanup h) gs'))
      (map snd (filter (\<lambda>e. grant_of_session s (snd e)) gs)) removed
    \<and> list_all2 (\<lambda>e e'. fst e' = fst e \<and> same_but_duty (snd e) (snd e'))
        (filter (\<lambda>e. \<not> grant_of_session s (snd e)) gs) gs'
    \<and> (case revoke_profile k gs of
         (gs1, None) \<Rightarrow> gs1 = gs \<and> kv_get gs k = None
       | (gs1, Some r) \<Rightarrow> (\<exists>g. kv_get gs k = Some g \<and> duty_settled gs1 g r))"
proof -
  from assms have t: "transfer_all (map snd (filter (\<lambda>e. grant_of_session s (snd e)) gs))
      (kv_retain (\<lambda>_ g. \<not> grant_of_session s g) gs) = (gs', removed)"
    by (simp add: remove_profile_session_def)
  have "duty_settled gs' = (\<lambda>g r. if pg_cleanup r then r = g \<and> list_all (\<lambda>(k, h). \<not> succeeds g h) gs'
        else r = g\<lparr>pg_cleanup := False\<rparr>
             \<and> (\<not> pg_cleanup g \<or> list_ex (\<lambda>(k, h). succeeds g h \<and> pg_cleanup h) gs'))"
    by (rule ext)+ (auto simp: duty_settled_def list_all_iff list_ex_iff)
  with transfer_all_settled [OF t] transfer_all_moved [OF t] show ?thesis
    by (auto simp: revoke_profile_def duties_moved_def kv_retain_def dest: transfer_settled
        split: option.splits prod.splits)
qed

theorem cleanup_duty_is_conserved_witness:
  "\<exists>gs' r. remove_profile_session ''s'' (fst (mint calm 0 example_mint [])) = (gs', [r]) \<and> pg_cleanup r"
proof -
  let ?g = "snd (mint calm 0 example_mint [])"
  have r: "remove_profile_session ''s'' (fst (mint calm 0 example_mint [])) = ([], [?g])"
    by (simp add: mint_def Let_def remove_profile_session_def kv_retain_def grant_of_session_def
        example_mint_def mint_key_def profile_key_def transfer_cleanup_ownership_def)
  from cleanup_duty_is_conserved [OF r] show ?thesis
    by (simp add: r) (simp add: mint_def Let_def example_mint_def)
qed

end
