(* ===== verification/BrowserStore.thy ===== *)
theory BrowserStore
  imports BrowserGrants
begin

text \<open>
  Model of \<open>cua-driver-core/src/browser/store.rs\<close>: the session-scoped capability store of
  browser targets, tabs, snapshots and page refs, and of the updates that
  \<open>browser/engine.rs\<close> makes to it. Fresh UUIDs are arguments; the process-global counter of
  snapshot ids is part of the state and wraps at 64 bits as \<open>fetch_add\<close> does. The semantic
  document a snapshot keeps is of a type \<open>'doc\<close> that the store never looks into.
\<close>

section \<open>Data\<close>

datatype browser_action_kind = Click | Type | Upload | Pointer | Scroll

fun action_kind_as_str :: "browser_action_kind \<Rightarrow> string" where
  "action_kind_as_str Click = ''click''"
| "action_kind_as_str Type = ''type''"
| "action_kind_as_str Upload = ''upload''"
| "action_kind_as_str Pointer = ''pointer''"
| "action_kind_as_str Scroll = ''scroll''"

datatype browser_visibility =
    InViewport | NearViewport | Offscreen | CssHidden | NoLayout | PageOccluded | UnknownVisibility

fun visibility_as_str :: "browser_visibility \<Rightarrow> string" where
  "visibility_as_str InViewport = ''in_viewport''"
| "visibility_as_str NearViewport = ''near_viewport''"
| "visibility_as_str Offscreen = ''offscreen''"
| "visibility_as_str CssHidden = ''css_hidden''"
| "visibility_as_str NoLayout = ''no_layout''"
| "visibility_as_str PageOccluded = ''page_occluded''"
| "visibility_as_str UnknownVisibility = ''unknown''"

datatype frame_kind = MainFrame | Iframe | Oopif

fun frame_kind_as_str :: "frame_kind \<Rightarrow> string" where
  "frame_kind_as_str MainFrame = ''main''"
| "frame_kind_as_str Iframe = ''iframe''"
| "frame_kind_as_str Oopif = ''oopif''"

record frame_identity =
  frame_id :: string
  loader_id :: string

record frame_ref =
  fr_kind :: frame_kind
  oopif_target_id :: "string option"
  fr_identity :: "frame_identity option"

definition main_unproven :: frame_ref where
  "main_unproven = \<lparr>fr_kind = MainFrame, oopif_target_id = None, fr_identity = None\<rparr>"

record ref_entry =
  backend_node_id :: int
  node_name :: string
  ref_label :: "string option"
  ref_actions :: "browser_action_kind list"
  ref_visibility :: "browser_visibility option"
  ref_semantic :: bool
  ref_frame :: frame_ref

record semantic_continuation =
  cont_offset :: nat
  cont_query :: "string option"
  cont_scope :: "int option"
  cont_oopif_supported :: bool
  cont_oopif_frames :: nat

record 'doc snapshot_record =
  snap_id :: nat
  snap_generation :: nat
  snap_url :: string
  snap_refs :: "(nat, ref_entry) kv"
  snap_semantic :: "'doc option"
  snap_root_identity :: "frame_identity option"
  snap_continuations :: "(string, semantic_continuation) kv"

record 'doc tab_record =
  tab_id :: string
  tab_cdp_target :: string
  tab_title :: string
  tab_url :: string
  tab_active :: "bool option"
  tab_generation :: nat
  tab_snapshots :: "(nat, 'doc snapshot_record) kv"

record rect =
  rect_x :: real
  rect_y :: real
  rect_width :: real
  rect_height :: real

datatype endpoint_transport = SpawnedExact | DevToolsActivePort | LegacyJsonVersion | EmbeddedDescendant

datatype endpoint_access =
    DriverOwned | ExistingProfileApproved | EmbeddedApplicationAccess | ExternalConsumerBrowser

datatype binding_quality = Exact | Heuristic

record 'doc target_record =
  target_id :: string
  target_pid :: int
  target_window :: nat
  ws_url :: string
  endpoint_owner_pid :: int
  target_transport :: endpoint_transport
  access_class :: endpoint_access
  target_generation :: nat
  transport_session :: "string option"
  target_fingerprint :: process_fingerprint
  native_title :: string
  native_bounds :: rect
  target_cdp :: string
  target_cdp_window :: "int option"
  quality :: binding_quality
  tabs :: "(string, 'doc tab_record) kv"

type_synonym 'doc session_targets = "(string, 'doc target_record) kv"

record 'doc browser_store =
  store_sessions :: "(string, 'doc session_targets) kv"
  next_snapshot_id :: nat

definition empty_browser_store :: "nat \<Rightarrow> 'doc browser_store" where
  "empty_browser_store n = \<lparr>store_sessions = [], next_snapshot_id = n\<rparr>"

datatype refusal_code =
    BrowserRouteUnavailable | BrowserRequiresSetup | BrowserBindingAmbiguous | BrowserBindingStale
  | BrowserWrongTargetRefused | BrowserTabRequired | BrowserTabNotFound | BrowserRefStale
  | BrowserInputTrustUnavailable | BrowserEndpointOwnerMismatch | BrowserConsentRequired
  | BrowserConsentRevoked | BrowserReconnectExhausted | BrowserInputIncomplete
  | BrowserActionUnavailable | BrowserOriginOutsideScope

fun refusal_as_str :: "refusal_code \<Rightarrow> string" where
  "refusal_as_str BrowserRouteUnavailable = ''browser_route_unavailable''"
| "refusal_as_str BrowserRequiresSetup = ''browser_requires_setup''"
| "refusal_as_str BrowserBindingAmbiguous = ''browser_binding_ambiguous''"
| "refusal_as_str BrowserBindingStale = ''browser_binding_stale''"
| "refusal_as_str BrowserWrongTargetRefused = ''browser_wrong_target_refused''"
| "refusal_as_str BrowserTabRequired = ''browser_tab_required''"
| "refusal_as_str BrowserTabNotFound = ''browser_tab_not_found''"
| "refusal_as_str BrowserRefStale = ''browser_ref_stale''"
| "refusal_as_str BrowserInputTrustUnavailable = ''browser_input_trust_unavailable''"
| "refusal_as_str BrowserEndpointOwnerMismatch = ''browser_endpoint_owner_mismatch''"
| "refusal_as_str BrowserConsentRequired = ''browser_consent_required''"
| "refusal_as_str BrowserConsentRevoked = ''browser_consent_revoked''"
| "refusal_as_str BrowserReconnectExhausted = ''browser_reconnect_exhausted''"
| "refusal_as_str BrowserInputIncomplete = ''browser_input_incomplete''"
| "refusal_as_str BrowserActionUnavailable = ''browser_action_unavailable''"
| "refusal_as_str BrowserOriginOutsideScope = ''browser_origin_outside_scope''"


section \<open>Page refs\<close>

definition all_digits :: "string \<Rightarrow> bool" where
  "all_digits s = list_all (\<lambda>c. 48 \<le> byte_of c \<and> byte_of c \<le> 57) s"

definition parse_ref :: "string \<Rightarrow> (nat \<times> nat) option" where
  "parse_ref external =
     (case strip_prefix ''p'' external of
        None \<Rightarrow> None
      | Some rest \<Rightarrow>
          (case split_once (CHR '':'') rest of
             None \<Rightarrow> None
           | Some (snap, idx) \<Rightarrow>
               if snap = [] \<or> idx = [] \<or> \<not> all_digits snap \<or> \<not> all_digits idx then None
               else (case (parse_unsigned 10 (2 ^ 64) snap, parse_unsigned 10 (2 ^ 32) idx) of
                       (Some n, Some i) \<Rightarrow> Some (n, i)
                     | _ \<Rightarrow> None)))"

definition format_ref :: "nat \<Rightarrow> nat \<Rightarrow> string" where
  "format_ref n i = ''p'' @ show_dec n @ '':'' @ show_dec i"


section \<open>The store\<close>

definition mint_page_snapshot_id :: "'doc browser_store \<Rightarrow> 'doc browser_store \<times> nat" where
  "mint_page_snapshot_id st =
     (st\<lparr>next_snapshot_id := (next_snapshot_id st + 1) mod 2 ^ 64\<rparr>, next_snapshot_id st)"

definition targets_of :: "string \<Rightarrow> 'doc browser_store \<Rightarrow> 'doc session_targets" where
  "targets_of s st = (case kv_get (store_sessions st) s of None \<Rightarrow> [] | Some ts \<Rightarrow> ts)"

text \<open>\<open>fresh\<close> is the text of the new UUID.\<close>

definition mint_target ::
    "string \<Rightarrow> string \<Rightarrow> 'doc target_record \<Rightarrow> 'doc browser_store \<Rightarrow> 'doc browser_store \<times> string" where
  "mint_target fresh s r st =
     (let i = ''bt-'' @ fresh in
        (st\<lparr>store_sessions :=
              kv_put s (kv_put i (r\<lparr>target_id := i\<rparr>) (targets_of s st)) (store_sessions st)\<rparr>, i))"

definition mint_tab_id :: "string \<Rightarrow> string" where
  "mint_tab_id fresh = ''tab-'' @ fresh"

definition get_target :: "string \<Rightarrow> string \<Rightarrow> 'doc browser_store \<Rightarrow> refusal_code + 'doc target_record" where
  "get_target s t st =
     (case kv_get (targets_of s st) t of None \<Rightarrow> Inl BrowserBindingStale | Some r \<Rightarrow> Inr r)"

definition update_target ::
    "string \<Rightarrow> string \<Rightarrow> ('doc target_record \<Rightarrow> 'doc target_record) \<Rightarrow> 'doc browser_store \<Rightarrow> 'doc browser_store" where
  "update_target s t f st =
     (case kv_get (store_sessions st) s of
        None \<Rightarrow> st
      | Some ts \<Rightarrow>
          (case kv_get ts t of
             None \<Rightarrow> st
           | Some r \<Rightarrow> st\<lparr>store_sessions := kv_put s (kv_put t (f r) ts) (store_sessions st)\<rparr>))"

definition resolve_ref ::
    "string \<Rightarrow> string \<Rightarrow> string \<Rightarrow> string \<Rightarrow> 'doc browser_store \<Rightarrow> refusal_code + ref_entry" where
  "resolve_ref s t tab external st =
     (case parse_ref external of
        None \<Rightarrow> Inl BrowserRefStale
      | Some (n, i) \<Rightarrow>
          (case get_target s t st of
             Inl e \<Rightarrow> Inl e
           | Inr r \<Rightarrow>
               (case kv_get (tabs r) tab of
                  None \<Rightarrow> Inl BrowserTabNotFound
                | Some tr \<Rightarrow>
                    (case kv_get (tab_snapshots tr) n of
                       None \<Rightarrow> Inl BrowserRefStale
                     | Some sn \<Rightarrow>
                         if snap_generation sn \<noteq> target_generation r then Inl BrowserRefStale
                         else (case kv_get (snap_refs sn) i of
                                 None \<Rightarrow> Inl BrowserRefStale
                               | Some e \<Rightarrow> Inr e)))))"

definition carries_continuation :: "nat \<Rightarrow> string \<Rightarrow> 'doc snapshot_record \<Rightarrow> bool" where
  "carries_continuation gen token sn =
     (snap_generation sn = gen \<and> snap_semantic sn \<noteq> None \<and> kv_has (snap_continuations sn) token)"

definition resolve_semantic_continuation ::
    "string \<Rightarrow> string \<Rightarrow> string \<Rightarrow> string \<Rightarrow> 'doc browser_store
       \<Rightarrow> refusal_code + 'doc snapshot_record \<times> semantic_continuation" where
  "resolve_semantic_continuation s t tab token st =
     (case get_target s t st of
        Inl e \<Rightarrow> Inl e
      | Inr r \<Rightarrow>
          (case kv_get (tabs r) tab of
             None \<Rightarrow> Inl BrowserTabNotFound
           | Some tr \<Rightarrow>
               (case find (carries_continuation (target_generation r) token) (map snd (tab_snapshots tr)) of
                  None \<Rightarrow> Inl BrowserRefStale
                | Some sn \<Rightarrow>
                    (case kv_get (snap_continuations sn) token of
                       None \<Rightarrow> Inl BrowserRefStale
                     | Some c \<Rightarrow> Inr (sn, c)))))"

definition update_tab ::
    "string \<Rightarrow> ('doc tab_record \<Rightarrow> 'doc tab_record) \<Rightarrow> 'doc target_record \<Rightarrow> 'doc target_record" where
  "update_tab tab f r =
     (case kv_get (tabs r) tab of
        None \<Rightarrow> r
      | Some tr \<Rightarrow> r\<lparr>tabs := kv_put tab (f tr) (tabs r)\<rparr>)"

definition invalidate_tab_snapshots ::
    "string \<Rightarrow> string \<Rightarrow> string \<Rightarrow> 'doc browser_store \<Rightarrow> 'doc browser_store" where
  "invalidate_tab_snapshots s t tab st =
     update_target s t (update_tab tab (\<lambda>tr. tr\<lparr>tab_snapshots := []\<rparr>)) st"

definition remove_store_session :: "string \<Rightarrow> 'doc browser_store \<Rightarrow> 'doc browser_store" where
  "remove_store_session s st = st\<lparr>store_sessions := kv_del s (store_sessions st)\<rparr>"

definition of_endpoint :: "int \<Rightarrow> nat \<Rightarrow> 'doc target_record \<Rightarrow> bool" where
  "of_endpoint pid gen r = (target_pid r = pid \<and> target_generation r = gen)"

definition invalidate_endpoint_generation ::
    "int \<Rightarrow> nat \<Rightarrow> 'doc browser_store \<Rightarrow> 'doc browser_store \<times> nat" where
  "invalidate_endpoint_generation pid gen st =
     (let prune = kv_retain (\<lambda>_ r. \<not> of_endpoint pid gen r);
          ss' = map (\<lambda>(s, ts). (s, prune ts)) (store_sessions st)
      in (st\<lparr>store_sessions := ss'\<rparr>,
          sum_list (map (\<lambda>(s, ts). length ts - length (prune ts)) (store_sessions st))))"

definition target_count :: "string \<Rightarrow> 'doc browser_store \<Rightarrow> nat" where
  "target_count s st = length (targets_of s st)"


section \<open>The engine's updates\<close>

text \<open>A new snapshot replaces the earlier ones of its tab (\<open>snapshot_tab\<close> and
  \<open>snapshot_tab_semantic\<close>); \<open>gen\<close> is the generation of the target record the engine read
  before.\<close>

record 'doc new_snapshot =
  new_generation :: nat
  new_url :: string
  new_refs :: "(nat, ref_entry) kv"
  new_semantic :: "'doc option"
  new_root_identity :: "frame_identity option"
  new_continuations :: "(string, semantic_continuation) kv"

definition page_snapshot :: "nat \<Rightarrow> 'doc new_snapshot \<Rightarrow> 'doc snapshot_record" where
  "page_snapshot n q =
     \<lparr>snap_id = n, snap_generation = new_generation q, snap_url = new_url q, snap_refs = new_refs q,
      snap_semantic = new_semantic q, snap_root_identity = new_root_identity q,
      snap_continuations = new_continuations q\<rparr>"

definition store_snapshot ::
    "string \<Rightarrow> string \<Rightarrow> string \<Rightarrow> 'doc new_snapshot \<Rightarrow> 'doc browser_store \<Rightarrow> 'doc browser_store \<times> nat" where
  "store_snapshot s t tab q st =
     (case mint_page_snapshot_id st of
        (st1, n) \<Rightarrow>
          (update_target s t (update_tab tab (\<lambda>tr. tr\<lparr>tab_snapshots := [(n, page_snapshot n q)]\<rparr>)) st1, n))"

text \<open>A continuation is used up: its page of refs joins the snapshot, and the next one, if
  there is more, takes its place.\<close>

definition continue_record ::
    "string \<Rightarrow> (nat, ref_entry) kv \<Rightarrow> (string \<times> semantic_continuation) option
       \<Rightarrow> 'doc snapshot_record \<Rightarrow> 'doc snapshot_record" where
  "continue_record token new next sn =
     (let cs = kv_del token (snap_continuations sn) in
        sn\<lparr>snap_refs := fold (\<lambda>(i, e). kv_put i e) new (snap_refs sn),
           snap_continuations := (case next of None \<Rightarrow> cs | Some (tok, c) \<Rightarrow> kv_put tok c cs)\<rparr>)"

definition store_continuation ::
    "string \<Rightarrow> string \<Rightarrow> string \<Rightarrow> nat \<Rightarrow> string \<Rightarrow> (nat, ref_entry) kv
       \<Rightarrow> (string \<times> semantic_continuation) option \<Rightarrow> 'doc browser_store \<Rightarrow> 'doc browser_store" where
  "store_continuation s t tab n token new next st =
     update_target s t
       (update_tab tab (\<lambda>tr.
          (case kv_get (tab_snapshots tr) n of
             None \<Rightarrow> tr
           | Some sn \<Rightarrow> tr\<lparr>tab_snapshots := kv_put n (continue_record token new next sn) (tab_snapshots tr)\<rparr>))) st"

datatype 'doc store_op =
    MintTarget string string "'doc target_record"
  | StoreSnapshot string string string "'doc new_snapshot"
  | StoreContinuation string string string nat string "(nat, ref_entry) kv" "(string \<times> semantic_continuation) option"
  | InvalidateTab string string string
  | RemoveStoreSession string
  | InvalidateEndpoint int nat

fun store_step :: "'doc store_op \<Rightarrow> 'doc browser_store \<Rightarrow> 'doc browser_store" where
  "store_step (MintTarget fresh s r) st = fst (mint_target fresh s r st)"
| "store_step (StoreSnapshot s t tab q) st = fst (store_snapshot s t tab q st)"
| "store_step (StoreContinuation s t tab n token new next) st = store_continuation s t tab n token new next st"
| "store_step (InvalidateTab s t tab) st = invalidate_tab_snapshots s t tab st"
| "store_step (RemoveStoreSession s) st = remove_store_session s st"
| "store_step (InvalidateEndpoint pid gen) st = fst (invalidate_endpoint_generation pid gen st)"

abbreviation store_run :: "'doc store_op list \<Rightarrow> 'doc browser_store \<Rightarrow> 'doc browser_store" where
  "store_run ops st \<equiv> fold store_step ops st"


section \<open>Lemmas\<close>

definition find_target :: "string \<Rightarrow> string \<Rightarrow> 'doc browser_store \<Rightarrow> 'doc target_record option" where
  "find_target s t st = kv_get (targets_of s st) t"

definition live_snapshot ::
    "string \<Rightarrow> string \<Rightarrow> string \<Rightarrow> nat \<Rightarrow> 'doc browser_store \<Rightarrow> 'doc snapshot_record option" where
  "live_snapshot s t tab n st =
     Option.bind (find_target s t st) (\<lambda>r. Option.bind (kv_get (tabs r) tab) (\<lambda>tr. kv_get (tab_snapshots tr) n))"

definition store_wf :: "'doc browser_store \<Rightarrow> bool" where
  "store_wf st = (kv_wf (store_sessions st) \<and> (\<forall>(s, ts) \<in> set (store_sessions st). kv_wf ts))"

lemma get_target_Inr: "get_target s t st = Inr r \<longleftrightarrow> find_target s t st = Some r"
  by (simp add: get_target_def find_target_def split: option.splits)

lemma resolve_ref_Inr:
  "resolve_ref s t tab external st = Inr e \<longleftrightarrow>
     (\<exists>n i r sn. parse_ref external = Some (n, i) \<and> find_target s t st = Some r
        \<and> live_snapshot s t tab n st = Some sn \<and> snap_generation sn = target_generation r
        \<and> kv_get (snap_refs sn) i = Some e)"
  by (auto simp: resolve_ref_def live_snapshot_def get_target_def find_target_def
           split: option.splits if_splits sum.splits)

lemma store_wf_targets: "store_wf st \<Longrightarrow> kv_wf (targets_of s st)"
  by (auto simp: store_wf_def targets_of_def split: option.splits dest: map_of_SomeD)

lemma store_wf_put: "store_wf st \<Longrightarrow> kv_wf ts \<Longrightarrow> store_wf (st\<lparr>store_sessions := kv_put s ts (store_sessions st)\<rparr>)"
  by (fastforce simp: store_wf_def dest: set_kv_put)

lemma store_wf_counter [simp]: "store_wf (st\<lparr>next_snapshot_id := n\<rparr>) = store_wf st"
  by (simp add: store_wf_def)

lemma store_wf_update: "store_wf st \<Longrightarrow> store_wf (update_target s t f st)"
  using store_wf_targets [of st s]
  by (auto simp: update_target_def targets_of_def intro!: store_wf_put split: option.splits)

lemma find_target_update:
  "find_target s' t' (update_target s t f st) =
     (if s' = s \<and> t' = t then map_option f (find_target s t st) else find_target s' t' st)"
  by (auto simp: update_target_def find_target_def targets_of_def split: option.splits)

lemma find_target_counter [simp]: "find_target s t (st\<lparr>next_snapshot_id := n\<rparr>) = find_target s t st"
  by (simp add: find_target_def targets_of_def)

lemma next_id_update [simp]: "next_snapshot_id (update_target s t f st) = next_snapshot_id st"
  by (simp add: update_target_def split: option.splits)

lemma find_target_mint:
  "find_target s' t' (fst (mint_target fresh s r st)) =
     (if s' = s \<and> t' = ''bt-'' @ fresh then Some (r\<lparr>target_id := ''bt-'' @ fresh\<rparr>)
      else find_target s' t' st)"
  by (simp add: mint_target_def find_target_def targets_of_def Let_def)

lemma find_target_remove:
  "find_target s' t' (remove_store_session s st) = (if s' = s then None else find_target s' t' st)"
  by (simp add: remove_store_session_def find_target_def targets_of_def)

lemma map_of_map_snd: "kv_get (map (\<lambda>(s, ts). (s, f ts)) m) k = map_option f (kv_get m k)"
  by (induction m) auto

lemma kv_wf_map_snd: "kv_wf (map (\<lambda>(s, ts). (s, f ts)) m) = kv_wf m"
  by (simp add: kv_wf_def comp_def split_def)

lemma find_target_endpoint:
  assumes "store_wf st"
  shows "find_target s t (fst (invalidate_endpoint_generation pid gen st)) =
     (case find_target s t st of
        None \<Rightarrow> None | Some r \<Rightarrow> if of_endpoint pid gen r then None else Some r)"
  using store_wf_targets [OF assms, of s]
  by (simp add: invalidate_endpoint_generation_def find_target_def targets_of_def Let_def
        map_of_map_snd kv_get_retain split: option.splits)

lemma store_wf_step: "store_wf st \<Longrightarrow> store_wf (store_step op st)"
proof (cases op)
  case (MintTarget fresh s r)
  assume "store_wf st"
  with MintTarget store_wf_targets [of st s] show ?thesis
    by (auto simp: mint_target_def Let_def intro!: store_wf_put)
next
  case (RemoveStoreSession s)
  assume "store_wf st"
  with RemoveStoreSession show ?thesis
    by (auto simp: store_wf_def remove_store_session_def kv_del_def)
next
  case (InvalidateEndpoint pid gen)
  assume "store_wf st"
  then have "kv_wf (store_sessions st)" "\<forall>(s, ts) \<in> set (store_sessions st). kv_wf (kv_retain P ts)" for P
    by (auto simp: store_wf_def)
  with InvalidateEndpoint show ?thesis
    by (auto simp: store_wf_def invalidate_endpoint_generation_def Let_def kv_wf_map_snd)
qed (auto simp: store_snapshot_def mint_page_snapshot_id_def store_continuation_def
       invalidate_tab_snapshots_def store_wf_update)

lemma store_wf_empty [simp]: "store_wf (empty_browser_store n)"
  by (simp add: store_wf_def empty_browser_store_def)

lemma store_wf_run: "store_wf st \<Longrightarrow> store_wf (store_run ops st)"
  by (induction ops arbitrary: st) (simp_all add: store_wf_step)

lemma tabs_update_tab:
  "kv_get (tabs (update_tab tab f r)) tab' =
     (if tab' = tab then map_option f (kv_get (tabs r) tab) else kv_get (tabs r) tab')"
  by (auto simp: update_tab_def split: option.splits)

lemma update_tab_fields [simp]:
  "target_pid (update_tab tab f r) = target_pid r"
  "target_generation (update_tab tab f r) = target_generation r"
  by (simp_all add: update_tab_def split: option.splits)

text \<open>The operations that end whatever page refs of the tab were live.\<close>

fun clears_refs :: "'doc store_op \<Rightarrow> string \<Rightarrow> string \<Rightarrow> string \<Rightarrow> 'doc browser_store \<Rightarrow> bool" where
  "clears_refs (MintTarget fresh s' r) s t tab st = (s' = s \<and> ''bt-'' @ fresh = t)"
| "clears_refs (StoreSnapshot s' t' tab' q) s t tab st = (s' = s \<and> t' = t \<and> tab' = tab)"
| "clears_refs (StoreContinuation s' t' tab' n token new next) s t tab st = False"
| "clears_refs (InvalidateTab s' t' tab') s t tab st = (s' = s \<and> t' = t \<and> tab' = tab)"
| "clears_refs (RemoveStoreSession s') s t tab st = (s' = s)"
| "clears_refs (InvalidateEndpoint pid gen) s t tab st =
     (case find_target s t st of None \<Rightarrow> False | Some r \<Rightarrow> of_endpoint pid gen r)"

text \<open>A target is bound without snapshots (\<open>bind_native\<close>).\<close>

fun binds_bare :: "'doc store_op \<Rightarrow> bool" where
  "binds_bare (MintTarget fresh s r) = (\<forall>(k, tr) \<in> set (tabs r). tab_snapshots tr = [])"
| "binds_bare _ = True"

lemma live_snapshot_step:
  assumes "store_wf st" "binds_bare op" "live_snapshot s t tab n (store_step op st) = Some sn"
  shows "(\<exists>q. op = StoreSnapshot s t tab q \<and> n = next_snapshot_id st \<and> sn = page_snapshot n q)
    \<or> (\<not> clears_refs op s t tab st \<and> (\<exists>sn0. live_snapshot s t tab n st = Some sn0
         \<and> (sn = sn0 \<or> (\<exists>token new next. op = StoreContinuation s t tab n token new next
              \<and> sn = continue_record token new next sn0))))"
proof (cases op)
  case (MintTarget fresh s' r)
  then show ?thesis
    using assms by (auto simp: live_snapshot_def find_target_mint bind_eq_Some_conv
      split: if_splits dest!: map_of_SomeD)
next
  case (StoreSnapshot s' t' tab' q)
  then show ?thesis
    using assms by (auto simp: live_snapshot_def store_snapshot_def mint_page_snapshot_id_def
      find_target_update tabs_update_tab bind_eq_Some_conv split: if_splits)
next
  case (StoreContinuation s' t' tab' n' token new nx)
  then show ?thesis
    using assms by (auto simp: live_snapshot_def store_continuation_def
      find_target_update tabs_update_tab bind_eq_Some_conv split: if_splits option.splits)
next
  case (InvalidateTab s' t' tab')
  then show ?thesis
    using assms by (auto simp: live_snapshot_def invalidate_tab_snapshots_def
      find_target_update tabs_update_tab bind_eq_Some_conv split: if_splits)
next
  case (RemoveStoreSession s')
  then show ?thesis
    using assms by (auto simp: live_snapshot_def find_target_remove bind_eq_Some_conv split: if_splits)
next
  case (InvalidateEndpoint pid gen)
  then show ?thesis
    using assms by (auto simp: live_snapshot_def find_target_endpoint bind_eq_Some_conv
      split: if_splits option.splits)
qed


text \<open>Where the refs of a live snapshot come from: one snapshot of its tab, and the
  continuations of that snapshot since; nothing since has cleared the tab.\<close>

definition minted_by ::
    "'doc store_op list \<Rightarrow> 'doc browser_store \<Rightarrow> string \<Rightarrow> string \<Rightarrow> string \<Rightarrow> nat
       \<Rightarrow> 'doc store_op list \<Rightarrow> 'doc new_snapshot \<Rightarrow> 'doc store_op list \<Rightarrow> bool" where
  "minted_by ops st s t tab n pre q post =
     (ops = pre @ StoreSnapshot s t tab q # post \<and> n = next_snapshot_id (store_run pre st)
      \<and> (\<forall>xs op ys. post = xs @ op # ys \<longrightarrow>
            \<not> clears_refs op s t tab (store_run (pre @ StoreSnapshot s t tab q # xs) st)))"

definition offered ::
    "string \<Rightarrow> string \<Rightarrow> string \<Rightarrow> nat \<Rightarrow> 'doc new_snapshot \<Rightarrow> 'doc store_op list \<Rightarrow> nat \<Rightarrow> ref_entry \<Rightarrow> bool" where
  "offered s t tab n q post i e =
     (kv_get (new_refs q) i = Some e
      \<or> (\<exists>token new nx. StoreContinuation s t tab n token new nx \<in> set post \<and> (i, e) \<in> set new))"

lemma minted_by_now:
  "n = next_snapshot_id (store_run ops st) \<Longrightarrow>
     minted_by (ops @ [StoreSnapshot s t tab q]) st s t tab n ops q []"
  by (simp add: minted_by_def)

lemma minted_by_later:
  assumes "minted_by ops st s t tab n pre q post" "\<not> clears_refs op s t tab (store_run ops st)"
  shows "minted_by (ops @ [op]) st s t tab n pre q (post @ [op])"
proof -
  have "\<not> clears_refs op' s t tab (store_run (pre @ StoreSnapshot s t tab q # xs) st)"
    if "post @ [op] = xs @ op' # ys" for xs op' ys
  proof (cases ys rule: rev_cases)
    case Nil
    with that assms show ?thesis by (simp add: minted_by_def)
  next
    case (snoc zs z)
    with that assms(1) show ?thesis by (simp add: minted_by_def)
  qed
  with assms(1) show ?thesis by (simp add: minted_by_def)
qed

lemma fold_kv_put_get:
  "kv_get (fold (\<lambda>(i, e). kv_put i e) new m) i = Some e \<Longrightarrow> kv_get m i = Some e \<or> (i, e) \<in> set new"
proof (induction new arbitrary: m)
  case (Cons p new)
  obtain j d where p: "p = (j, d)" by (cases p)
  from Cons.IH [of "kv_put j d m"] Cons.prems p show ?case by (auto split: if_splits)
qed simp

lemma offered_later:
  assumes "\<And>i e. kv_get (snap_refs sn0) i = Some e \<Longrightarrow> offered s t tab n q post i e"
    and "sn = sn0 \<or> (\<exists>token new nx. op = StoreContinuation s t tab n token new nx
        \<and> sn = continue_record token new nx sn0)"
    and "kv_get (snap_refs sn) i = Some e"
  shows "offered s t tab n q (post @ [op]) i e"
  using assms(2)
proof (elim disjE exE conjE)
  assume "sn = sn0"
  with assms(1,3) have "offered s t tab n q post i e" by simp
  then show ?thesis by (auto simp: offered_def)
next
  fix token new nx
  assume op: "op = StoreContinuation s t tab n token new nx"
    and "sn = continue_record token new nx sn0"
  with assms(3) have "kv_get (snap_refs sn0) i = Some e \<or> (i, e) \<in> set new"
    by (auto simp: continue_record_def Let_def dest: fold_kv_put_get)
  then show ?thesis
  proof
    assume "kv_get (snap_refs sn0) i = Some e"
    then have "offered s t tab n q post i e" by (rule assms(1))
    then show ?thesis by (auto simp: offered_def)
  next
    assume "(i, e) \<in> set new"
    with op show ?thesis
      unfolding offered_def by (intro disjI2 exI [of _ token] exI [of _ new] exI [of _ nx]) simp
  qed
qed

lemma live_snapshot_minted:
  assumes "list_all binds_bare ops" "live_snapshot s t tab n (store_run ops (empty_browser_store n0)) = Some sn"
  shows "\<exists>pre q post. minted_by ops (empty_browser_store n0) s t tab n pre q post
    \<and> (\<forall>i e. kv_get (snap_refs sn) i = Some e \<longrightarrow> offered s t tab n q post i e)"
  using assms
proof (induction ops arbitrary: sn rule: rev_induct)
  case Nil
  then show ?case by (simp add: live_snapshot_def find_target_def targets_of_def empty_browser_store_def)
next
  case (snoc op ops)
  let ?st = "store_run ops (empty_browser_store n0)"
  from snoc.prems have "store_wf ?st" "binds_bare op" "list_all binds_bare ops"
    "live_snapshot s t tab n (store_step op ?st) = Some sn"
    by (simp_all add: store_wf_run)
  note step = live_snapshot_step [OF this(1,2,4)]
  show ?case
  proof (cases "\<exists>q. op = StoreSnapshot s t tab q \<and> n = next_snapshot_id ?st \<and> sn = page_snapshot n q")
    case True
    then obtain q where "op = StoreSnapshot s t tab q" "n = next_snapshot_id ?st" "sn = page_snapshot n q"
      by blast
    then show ?thesis
      by (intro exI [of _ ops] exI [of _ q] exI [of _ "[]"])
         (simp add: minted_by_now offered_def page_snapshot_def)
  next
    case False
    with step obtain sn0 where quiet: "\<not> clears_refs op s t tab ?st"
      and "live_snapshot s t tab n ?st = Some sn0"
      and sn: "sn = sn0 \<or> (\<exists>token new nx. op = StoreContinuation s t tab n token new nx
        \<and> sn = continue_record token new nx sn0)"
      by (elim disjE [of "\<exists>q. P q" for P]) blast+
    with snoc.IH [OF \<open>list_all binds_bare ops\<close>] obtain pre q post
      where m: "minted_by ops (empty_browser_store n0) s t tab n pre q post"
      and refs: "\<And>i e. kv_get (snap_refs sn0) i = Some e \<Longrightarrow> offered s t tab n q post i e"
      by meson
    have "offered s t tab n q (post @ [op]) i e" if "kv_get (snap_refs sn) i = Some e" for i e
      by (rule offered_later [OF refs sn that])
    with minted_by_later [OF m quiet] show ?thesis by blast
  qed
qed

section \<open>Properties\<close>

text \<open>A page ref is a capability of one tab's latest snapshot. When a ref resolves for a
  session, a target and a tab, after any history of the store, then its number is the one under
  which that very session, target and tab was last snapshotted, no operation since has cleared
  the tab (a newer snapshot, a navigation, the end of the session, a reconnect of its endpoint,
  a target bound anew), and the element it stands for was offered by that snapshot or by one of
  its continuations.\<close>

theorem resolved_ref_is_of_latest_snapshot:
  assumes "list_all binds_bare ops"
    and "resolve_ref s t tab external (store_run ops (empty_browser_store n0)) = Inr e"
  shows "\<exists>n i pre q post. parse_ref external = Some (n, i)
    \<and> ops = pre @ StoreSnapshot s t tab q # post
    \<and> n = next_snapshot_id (store_run pre (empty_browser_store n0))
    \<and> (\<forall>xs op ys. post = xs @ op # ys \<longrightarrow>
          \<not> clears_refs op s t tab (store_run (pre @ StoreSnapshot s t tab q # xs) (empty_browser_store n0)))
    \<and> offered s t tab n q post i e"
proof -
  from assms(2) obtain n i sn where "parse_ref external = Some (n, i)"
    "live_snapshot s t tab n (store_run ops (empty_browser_store n0)) = Some sn" "kv_get (snap_refs sn) i = Some e"
    by (auto simp: resolve_ref_Inr)
  with live_snapshot_minted [OF assms(1) this(2)] show ?thesis
    unfolding minted_by_def by blast
qed

lemma all_digits_show_dec: "all_digits (show_dec n)"
  by (auto simp: all_digits_def show_dec_def list_all_iff digit_char_def byte_of_def
        dest!: to_radix_digits [rotated])

lemma show_dec_no_colon: "CHR '':'' \<notin> set (show_dec n)"
  using all_digits_show_dec [of n] by (auto simp: all_digits_def list_all_iff byte_of_def)

lemma page_ref_text:
  "n < 2 ^ 64 \<Longrightarrow> i < 2 ^ 32 \<Longrightarrow> parse_ref (format_ref n i) = Some (n, i)"
  using show_dec_no_colon [of n] all_digits_show_dec [of n] all_digits_show_dec [of i]
    show_dec_ne [of n] show_dec_ne [of i]
  by (simp add: parse_ref_def format_ref_def strip_prefix_def parse_show_dec)

text \<open>The text of page refs: what \<open>format_ref\<close> prints for a 64-bit snapshot number and a
  32-bit index is read back as that pair, so distinct refs have distinct texts.\<close>

theorem page_ref_roundtrip:
  assumes "n < 2 ^ 64" "i < 2 ^ 32"
  shows "parse_ref (format_ref n i) = Some (n, i)"
  using assms by (rule page_ref_text)


text \<open>A concrete history.\<close>

definition example_rect :: rect where
  "example_rect = \<lparr>rect_x = 0, rect_y = 0, rect_width = 800, rect_height = 600\<rparr>"

definition example_target :: "unit target_record" where
  "example_target =
     \<lparr>target_id = [], target_pid = 42, target_window = 7, ws_url = ''ws'', endpoint_owner_pid = 42,
      target_transport = DevToolsActivePort, access_class = ExistingProfileApproved,
      target_generation = 2, transport_session = Some ''t'',
      target_fingerprint = \<lparr>fp_pid = 42, fp_start_time = Some 9, fp_executable = None\<rparr>,
      native_title = ''Inbox - Chrome'', native_bounds = example_rect, target_cdp = ''c'',
      target_cdp_window = Some 3, quality = Exact,
      tabs = [(''tab-a'', \<lparr>tab_id = ''tab-a'', tab_cdp_target = ''c'', tab_title = ''Inbox'', tab_url = ''u'',
               tab_active = None, tab_generation = 2, tab_snapshots = []\<rparr>)]\<rparr>"

definition example_ref :: ref_entry where
  "example_ref = \<lparr>backend_node_id = 11, node_name = ''BUTTON'', ref_label = None, ref_actions = [Click],
     ref_visibility = None, ref_semantic = False, ref_frame = main_unproven\<rparr>"

definition example_snapshot :: "unit new_snapshot" where
  "example_snapshot = \<lparr>new_generation = 2, new_url = ''u'', new_refs = [(0, example_ref)],
     new_semantic = None, new_root_identity = None, new_continuations = []\<rparr>"

definition example_history :: "unit store_op list" where
  "example_history =
     [MintTarget ''a'' ''s'' example_target, StoreSnapshot ''s'' ''bt-a'' ''tab-a'' example_snapshot]"

lemma example_history_resolves:
  "resolve_ref ''s'' ''bt-a'' ''tab-a'' (format_ref 5 0) (store_run example_history (empty_browser_store 5)) = Inr example_ref"
  by (simp add: resolve_ref_def page_ref_text get_target_def example_history_def mint_target_def
        targets_of_def empty_browser_store_def example_target_def store_snapshot_def mint_page_snapshot_id_def
        update_target_def update_tab_def page_snapshot_def example_snapshot_def Let_def)

theorem resolved_ref_is_of_latest_snapshot_witness:
  "\<exists>n i pre q post. parse_ref (format_ref 5 0) = Some (n, i)
    \<and> example_history = pre @ StoreSnapshot ''s'' ''bt-a'' ''tab-a'' q # post
    \<and> offered ''s'' ''bt-a'' ''tab-a'' n q post i example_ref"
proof -
  have "list_all binds_bare example_history"
    by (simp add: example_history_def example_target_def)
  from resolved_ref_is_of_latest_snapshot [OF this example_history_resolves] show ?thesis by meson
qed

theorem page_ref_roundtrip_witness: "parse_ref (format_ref 12 30) = Some (12, 30)"
  using page_ref_roundtrip [of 12 30] by simp

end
