(* ===== verification/BrowserBinding.thy ===== *)
theory BrowserBinding
  imports BrowserStore
begin

text \<open>
  Model of \<open>cua-driver-core/src/browser/binding.rs\<close>: which CDP window a native window is, as
  unique-or-refuse correlation of bounds and titles, and which tab of it is selected. Coordinates
  are real numbers; the differences of the code are those of \<open>f64\<close>, which are exact for the
  whole-pixel coordinates the windowing systems report.
\<close>

section \<open>Data\<close>

record cdp_candidate =
  cand_target :: string
  cand_window :: "int option"
  cand_title :: string
  cand_url :: string
  cand_bounds :: "rect option"

datatype binding_outcome = Bound cdp_candidate binding_quality | Ambiguous nat | NoBinding

record native_window =
  native_pid :: int
  native_window_id :: nat
  native_win_title :: string
  native_win_bounds :: rect
  geometry_exact :: bool
  native_owner_pid :: int

definition approx_eq :: "rect \<Rightarrow> rect \<Rightarrow> real \<Rightarrow> bool" where
  "approx_eq a b tol =
     (\<bar>rect_x a - rect_x b\<bar> \<le> tol \<and> \<bar>rect_y a - rect_y b\<bar> \<le> tol
      \<and> \<bar>rect_width a - rect_width b\<bar> \<le> tol \<and> \<bar>rect_height a - rect_height b\<bar> \<le> tol)"


section \<open>Correlation\<close>

definition title_matches :: "string \<Rightarrow> string \<Rightarrow> bool" where
  "title_matches native cand = (cand \<noteq> [] \<and> str_contains native cand)"

definition embedded_single_page_candidate :: "cdp_candidate list \<Rightarrow> bool option \<Rightarrow> cdp_candidate option" where
  "embedded_single_page_candidate cs only =
     (case cs of
        [] \<Rightarrow> None
      | c # _ \<Rightarrow>
          if length cs = 1 \<and> cand_window c = None \<and> cand_bounds c = None \<and> only = Some True
          then Some c else None)"

text \<open>The first representative of the window takes the better title.\<close>

fun represent :: "string \<Rightarrow> int \<Rightarrow> cdp_candidate \<Rightarrow> cdp_candidate list \<Rightarrow> cdp_candidate list" where
  "represent title w c [] = [c]"
| "represent title w c (e # es) =
     (if cand_window e = Some w
      then (if \<not> title_matches title (cand_title e) \<and> title_matches title (cand_title c) then c else e) # es
      else e # represent title w c es)"

definition add_candidate :: "string \<Rightarrow> cdp_candidate \<Rightarrow> cdp_candidate list \<Rightarrow> cdp_candidate list" where
  "add_candidate title c reps =
     (case cand_window c of None \<Rightarrow> reps @ [c] | Some w \<Rightarrow> represent title w c reps)"

definition window_representatives :: "string \<Rightarrow> cdp_candidate list \<Rightarrow> cdp_candidate list" where
  "window_representatives title cs = fold (add_candidate title) cs []"

definition cardinality_exact_candidate ::
    "string \<Rightarrow> cdp_candidate list \<Rightarrow> bool option \<Rightarrow> cdp_candidate option" where
  "cardinality_exact_candidate title cs only =
     (if only \<noteq> Some True then None
      else case embedded_single_page_candidate cs (Some True) of
        Some c \<Rightarrow> Some c
      | None \<Rightarrow>
          (case window_representatives title cs of
             [r] \<Rightarrow> if cand_window r \<noteq> None then Some r else None
           | _ \<Rightarrow> None))"

definition tabs_of_window :: "cdp_candidate list \<Rightarrow> int option \<Rightarrow> cdp_candidate list" where
  "tabs_of_window cs w = filter (\<lambda>c. cand_window c = w) cs"

definition selected_tab_target_id :: "string \<Rightarrow> cdp_candidate list \<Rightarrow> int option \<Rightarrow> string option" where
  "selected_tab_target_id title cs w =
     (if w = None
      then (case tabs_of_window cs w of [c] \<Rightarrow> Some (cand_target c) | _ \<Rightarrow> None)
      else (case filter (\<lambda>c. title_matches title (cand_title c)) (tabs_of_window cs w) of
              [c] \<Rightarrow> Some (cand_target c) | _ \<Rightarrow> None))"

definition bounds_match :: "native_window \<Rightarrow> real \<Rightarrow> cdp_candidate \<Rightarrow> bool" where
  "bounds_match n tol c =
     (geometry_exact n \<and> (case cand_bounds c of None \<Rightarrow> False | Some b \<Rightarrow> approx_eq b (native_win_bounds n) tol))"

definition correlate :: "native_window \<Rightarrow> cdp_candidate list \<Rightarrow> real \<Rightarrow> binding_outcome" where
  "correlate n cs tol =
     (let reps = window_representatives (native_win_title n) cs;
          hits = filter (bounds_match n tol) reps;
          titled = filter (\<lambda>c. title_matches (native_win_title n) (cand_title c))
      in (case hits of
            [] \<Rightarrow> (case titled reps of
                     [] \<Rightarrow> NoBinding
                   | [c] \<Rightarrow> Bound c Heuristic
                   | ts \<Rightarrow> Ambiguous (length ts))
          | [c] \<Rightarrow> if cand_window c \<noteq> None then Bound c Exact else NoBinding
          | _ \<Rightarrow> (case titled hits of
                    [c] \<Rightarrow> if cand_window c \<noteq> None then Bound c Exact else Ambiguous (length hits)
                  | _ \<Rightarrow> Ambiguous (length hits))))"


section \<open>Lemmas\<close>

definition windows_of :: "cdp_candidate list \<Rightarrow> int list" where
  "windows_of cs = List.map_filter cand_window cs"

lemma windows_of_simps [simp]:
  "windows_of [] = []"
  "windows_of (c # cs) = (case cand_window c of None \<Rightarrow> windows_of cs | Some w \<Rightarrow> w # windows_of cs)"
  "windows_of (xs @ ys) = windows_of xs @ windows_of ys"
  by (auto simp: windows_of_def List.map_filter_def split: option.splits)

lemma in_windows_of: "w \<in> set (windows_of cs) \<longleftrightarrow> (\<exists>c \<in> set cs. cand_window c = Some w)"
  by (induction cs) (auto split: option.splits)

text \<open>What a list of representatives says about the candidates: they are candidates, one per
  window, and the one of a window shows its title when any tab of the window does.\<close>

definition represents :: "string \<Rightarrow> cdp_candidate list \<Rightarrow> cdp_candidate list \<Rightarrow> bool" where
  "represents title reps cs =
     (set reps \<subseteq> set cs \<and> distinct (windows_of reps)
      \<and> (\<forall>c \<in> set cs. case cand_window c of
            None \<Rightarrow> c \<in> set reps
          | Some w \<Rightarrow> \<exists>r \<in> set reps. cand_window r = Some w
               \<and> (title_matches title (cand_title c) \<longrightarrow> title_matches title (cand_title r))))"

lemma represent_new:
  "w \<notin> set (windows_of reps) \<Longrightarrow> represent title w c reps = reps @ [c]"
  by (induction reps) (auto split: option.splits)

lemma represent_known:
  assumes "w \<in> set (windows_of reps)"
  obtains xs e ys where "reps = xs @ e # ys" "cand_window e = Some w" "w \<notin> set (windows_of xs)"
    "represent title w c reps =
       xs @ (if \<not> title_matches title (cand_title e) \<and> title_matches title (cand_title c) then c else e) # ys"
proof -
  have "\<exists>xs e ys. reps = xs @ e # ys \<and> cand_window e = Some w \<and> w \<notin> set (windows_of xs)
    \<and> represent title w c reps =
       xs @ (if \<not> title_matches title (cand_title e) \<and> title_matches title (cand_title c) then c else e) # ys"
    using assms
  proof (induction reps)
    case (Cons r reps)
    show ?case
    proof (cases "cand_window r = Some w")
      case True
      then show ?thesis by (intro exI [of _ "[]"] exI [of _ r] exI [of _ reps]) simp
    next
      case False
      with Cons obtain xs e ys where "reps = xs @ e # ys" "cand_window e = Some w" "w \<notin> set (windows_of xs)"
        "represent title w c reps =
           xs @ (if \<not> title_matches title (cand_title e) \<and> title_matches title (cand_title c) then c else e) # ys"
        by (auto split: option.splits)
      with False show ?thesis
        by (intro exI [of _ "r # xs"] exI [of _ e] exI [of _ ys]) (auto split: option.splits)
    qed
  qed simp
  with that show thesis by blast
qed

lemma represents_add:
  assumes "represents title reps cs"
  shows "represents title (add_candidate title c reps) (cs @ [c])"
proof (cases "cand_window c")
  case None
  with assms show ?thesis
    by (auto simp: represents_def add_candidate_def split: option.splits)
next
  case (Some w)
  show ?thesis
  proof (cases "w \<in> set (windows_of reps)")
    case False
    with assms Some show ?thesis
      by (fastforce simp: represents_def add_candidate_def represent_new split: option.splits)
  next
    case True
    from represent_known [OF this] obtain xs e ys where reps: "reps = xs @ e # ys" "cand_window e = Some w"
      and new: "represent title w c reps =
        xs @ (if \<not> title_matches title (cand_title e) \<and> title_matches title (cand_title c) then c else e) # ys"
      by blast
    define r where "r = (if \<not> title_matches title (cand_title e) \<and> title_matches title (cand_title c) then c else e)"
    have r: "cand_window r = Some w" "r \<in> {c, e}"
      "title_matches title (cand_title e) \<or> title_matches title (cand_title c) \<Longrightarrow> title_matches title (cand_title r)"
      using Some reps by (auto simp: r_def)
    have "add_candidate title c reps = xs @ r # ys"
      using Some new by (simp add: add_candidate_def r_def)
    moreover have "represents title (xs @ r # ys) (cs @ [c])"
      unfolding represents_def
    proof (intro conjI ballI)
      show "set (xs @ r # ys) \<subseteq> set (cs @ [c])" "distinct (windows_of (xs @ r # ys))"
        using assms reps r by (auto simp: represents_def)
    next
      fix d
      assume d: "d \<in> set (cs @ [c])"
      show "case cand_window d of None \<Rightarrow> d \<in> set (xs @ r # ys)
        | Some v \<Rightarrow> \<exists>r' \<in> set (xs @ r # ys). cand_window r' = Some v
            \<and> (title_matches title (cand_title d) \<longrightarrow> title_matches title (cand_title r'))"
      proof (cases "cand_window d")
        case None
        with d Some reps assms show ?thesis by (auto simp: represents_def split: option.splits)
      next
        case (Some v)
        show ?thesis
        proof (cases "d = c")
          case True
          with Some \<open>cand_window c = Some w\<close> r show ?thesis by auto
        next
          case False
          with d Some assms obtain r' where r': "r' \<in> set reps" "cand_window r' = Some v"
            "title_matches title (cand_title d) \<longrightarrow> title_matches title (cand_title r')"
            by (force simp: represents_def)
          show ?thesis
          proof (cases "r' = e")
            case True
            with Some r' reps r show ?thesis by auto
          next
            case False
            with Some r' reps show ?thesis by auto
          qed
        qed
      qed
    qed
    ultimately show ?thesis by simp
  qed
qed

lemma represents_window_representatives: "represents title (window_representatives title cs) cs"
proof -
  have "represents title (fold (add_candidate title) cs reps) (ds @ cs)"
    if "represents title reps ds" for reps ds
    using that
  proof (induction cs arbitrary: reps ds)
    case (Cons c cs)
    from Cons.IH [OF represents_add [OF Cons.prems]] show ?case by simp
  qed simp
  from this [of "[]" "[]"] show ?thesis
    by (simp add: window_representatives_def represents_def)
qed


lemma correlate_Exact:
  assumes "correlate n cs tol = Bound c Exact"
  obtains "filter (bounds_match n tol) (window_representatives (native_win_title n) cs) = [c]"
      "cand_window c \<noteq> None"
  | "filter (\<lambda>c. title_matches (native_win_title n) (cand_title c))
       (filter (bounds_match n tol) (window_representatives (native_win_title n) cs)) = [c]"
      "cand_window c \<noteq> None"
proof -
  define hits where "hits = filter (bounds_match n tol) (window_representatives (native_win_title n) cs)"
  from assms that show ?thesis
    unfolding correlate_def Let_def hits_def [symmetric]
    by (auto split: list.splits if_splits)
qed

lemma filter_single: "filter P xs = [x] \<Longrightarrow> x \<in> set xs \<and> P x \<and> (\<forall>y \<in> set xs. P y \<longrightarrow> y = x)"
proof -
  assume "filter P xs = [x]"
  then have "set (filter P xs) = {x}" by simp
  then show ?thesis by auto
qed

lemma represented:
  assumes "represents title reps cs" "d \<in> set cs"
  shows "\<exists>r \<in> set reps. cand_window r = cand_window d
    \<and> (title_matches title (cand_title d) \<longrightarrow> title_matches title (cand_title r))
    \<and> (cand_window d = None \<longrightarrow> r = d)"
proof -
  from assms have "case cand_window d of None \<Rightarrow> d \<in> set reps
    | Some w \<Rightarrow> \<exists>r \<in> set reps. cand_window r = Some w
        \<and> (title_matches title (cand_title d) \<longrightarrow> title_matches title (cand_title r))"
    unfolding represents_def by blast
  then show ?thesis by (cases "cand_window d") auto
qed

lemma bounds_match_bounds:
  "bounds_match n tol c \<Longrightarrow>
     geometry_exact n \<and> (\<exists>b. cand_bounds c = Some b \<and> approx_eq b (native_win_bounds n) tol)"
  by (auto simp: bounds_match_def split: option.splits)

text \<open>An exact binding is unique or refused. When the CDP windows report one geometry per
  window and correlation binds a native window exactly, the platform attested the geometry, the
  bound candidate is a page of a proven CDP window within the tolerance, and every candidate of
  another window that is also within the tolerance has a title the native window does not show,
  while the bound one's is shown.\<close>

theorem exact_binding_is_unique:
  assumes "correlate n cs tol = Bound c Exact"
    and "\<forall>a \<in> set cs. \<forall>b \<in> set cs. cand_window a \<noteq> None \<and> cand_window a = cand_window b
           \<longrightarrow> cand_bounds a = cand_bounds b"
  shows "c \<in> set cs \<and> cand_window c \<noteq> None \<and> geometry_exact n
    \<and> (\<exists>b. cand_bounds c = Some b \<and> approx_eq b (native_win_bounds n) tol)
    \<and> (\<forall>d \<in> set cs. cand_window d \<noteq> cand_window c \<and> bounds_match n tol d \<longrightarrow>
          title_matches (native_win_title n) (cand_title c)
          \<and> \<not> title_matches (native_win_title n) (cand_title d))"
proof -
  let ?T = "\<lambda>c. title_matches (native_win_title n) (cand_title c)"
  let ?reps = "window_representatives (native_win_title n) cs"
  have rep: "represents (native_win_title n) ?reps cs" by (rule represents_window_representatives)
  have other: "\<exists>r \<in> set ?reps. cand_window r = cand_window d \<and> bounds_match n tol r \<and> (?T d \<longrightarrow> ?T r)"
    if d: "d \<in> set cs" "bounds_match n tol d" for d
  proof -
    obtain r where r: "r \<in> set ?reps" and same: "cand_window r = cand_window d
      \<and> (?T d \<longrightarrow> ?T r) \<and> (cand_window d = None \<longrightarrow> r = d)"
      using represented [OF rep d(1)] by (rule bexE)
    have "r \<in> set cs" using r rep by (auto simp: represents_def)
    then have "cand_bounds r = cand_bounds d"
      using assms(2) d(1) same by metis
    with d(2) have "bounds_match n tol r" by (simp add: bounds_match_def)
    with same show ?thesis by (intro bexI [OF _ r] conjI) simp_all
  qed
  have sub: "set ?reps \<subseteq> set cs" using rep by (simp add: represents_def)
  from assms(1) show ?thesis
  proof (cases rule: correlate_Exact)
    case 1
    from filter_single [OF 1(1)] have c: "c \<in> set ?reps" "bounds_match n tol c"
      and uniq: "\<And>y. y \<in> set ?reps \<Longrightarrow> bounds_match n tol y \<Longrightarrow> y = c"
      by auto
    have False if "d \<in> set cs" "cand_window d \<noteq> cand_window c" "bounds_match n tol d" for d
      using other [OF that(1,3)] uniq that(2) by metis
    moreover from c sub have "c \<in> set cs" by blast
    ultimately show ?thesis using bounds_match_bounds [OF c(2)] 1(2) by blast
  next
    case 2
    from filter_single [OF 2(1)] have c: "c \<in> set ?reps" "bounds_match n tol c" "?T c"
      and uniq: "\<And>y. y \<in> set ?reps \<Longrightarrow> bounds_match n tol y \<Longrightarrow> ?T y \<Longrightarrow> y = c"
      by auto
    have "\<not> ?T d" if "d \<in> set cs" "cand_window d \<noteq> cand_window c" "bounds_match n tol d" for d
      using other [OF that(1,3)] uniq that(2) by metis
    moreover from c sub have "c \<in> set cs" by blast
    ultimately show ?thesis using bounds_match_bounds [OF c(2)] c(3) 2(2) by blast
  qed
qed

text \<open>An ambiguous outcome counts at least two candidates, and a heuristic one has no
  geometric evidence at all.\<close>

lemma ambiguous_counts_two: "correlate n cs tol = Ambiguous k \<Longrightarrow> 2 \<le> k"
  by (auto simp: correlate_def Let_def split: list.splits if_splits)

lemma heuristic_has_no_geometry:
  "correlate n cs tol = Bound c Heuristic \<Longrightarrow>
     c \<in> set cs \<and> title_matches (native_win_title n) (cand_title c)
     \<and> (\<forall>r \<in> set (window_representatives (native_win_title n) cs). \<not> bounds_match n tol r)"
  using represents_window_representatives [of "native_win_title n" cs]
  by (auto simp: correlate_def Let_def represents_def filter_empty_conv
           split: list.splits if_splits dest!: filter_single)

lemma cardinality_exact_member:
  "cardinality_exact_candidate title cs only = Some c \<Longrightarrow> only = Some True \<and> c \<in> set cs"
  using represents_window_representatives [of title cs]
  by (auto simp: cardinality_exact_candidate_def embedded_single_page_candidate_def represents_def
           split: if_splits option.splits list.splits)

text \<open>The selected tab is proven: the only tab of its window whose title the native window
  shows, or the only page there is.\<close>

lemma selected_tab_is_proven:
  "selected_tab_target_id title cs w = Some t \<Longrightarrow>
     \<exists>c \<in> set cs. cand_target c = t \<and> cand_window c = w
       \<and> (\<forall>d \<in> set cs. cand_window d = w \<and> (w = None \<or> title_matches title (cand_title d)) \<longrightarrow> d = c)"
  by (auto simp: selected_tab_target_id_def tabs_of_window_def split: if_splits list.splits
           dest!: filter_single)

text \<open>Two windows with the same bounds, told apart by their titles.\<close>

definition example_native :: native_window where
  "example_native = \<lparr>native_pid = 42, native_window_id = 7, native_win_title = ''Inbox - Chrome'',
     native_win_bounds = example_rect, geometry_exact = True, native_owner_pid = 42\<rparr>"

definition example_candidates :: "cdp_candidate list" where
  "example_candidates =
     [\<lparr>cand_target = ''a'', cand_window = Some 3, cand_title = ''News'', cand_url = ''u'', cand_bounds = Some example_rect\<rparr>,
      \<lparr>cand_target = ''b'', cand_window = Some 4, cand_title = ''Inbox'', cand_url = ''v'', cand_bounds = Some example_rect\<rparr>]"

theorem exact_binding_is_unique_witness:
  "\<not> title_matches ''Inbox - Chrome'' (cand_title (hd example_candidates))"
proof -
  have "correlate example_native example_candidates 8 = Bound (example_candidates ! Suc 0) Exact"
    by (simp add: correlate_def window_representatives_def add_candidate_def title_matches_def
        example_native_def example_candidates_def bounds_match_def approx_eq_def Let_def)
  from exact_binding_is_unique [OF this] show ?thesis
    by (simp add: example_native_def example_candidates_def bounds_match_def approx_eq_def)
qed

end
