(* ===== verification/BrowserEngine.thy ===== *)
theory BrowserEngine
  imports BrowserBinding
begin

text \<open>
  Model of the authority decisions of \<open>cua-driver-core/src/browser/engine.rs\<close>: which endpoint a
  caller may reach, the live grant and its bounded reconnect, binding a native window to a CDP
  target, and the revalidation of the whole chain before every mutation. What the platform
  adapter and the browser answer is an argument, one answer per question an operation asks; the
  socket pool is a log of the calls made to it together with its answers.
\<close>

section \<open>Data\<close>

datatype process_role = StandaloneConsumer | EmbeddedApplication | Helper | UnknownRole

datatype engine_family = ChromiumFamily | Gecko | Webkit | UnknownFamily

record classification =
  is_browser :: bool
  family :: engine_family
  process_role :: process_role
  supports_cdp :: bool

record owned_endpoint =
  ep_ws_url :: string
  ep_transport :: endpoint_transport
  ep_owner_pid :: int

record setup_request =
  setup_pid :: int
  setup_window :: nat
  setup_browser :: browser_product

datatype pool_call = ReleaseClaimMarker string | ReleaseExisting string nat | ReconnectExisting string nat nat

record 'doc browser_engine =
  eng_store :: "'doc browser_store"
  eng_grants :: profile_grants
  eng_managed :: "(int \<times> string list) list"
  eng_pending :: "(string, setup_request list) kv"
  eng_revoked :: "nat list"
  eng_pool :: "pool_call list"

definition BOUNDS_TOLERANCE_PX :: real where
  "BOUNDS_TOLERANCE_PX = 8"

text \<open>The outcome of an operation: a value, a structured refusal, or a panic of an \<open>expect\<close>.\<close>

datatype 'a outcome = Done 'a | Refused refusal_code | Panics

fun of_sum :: "refusal_code + 'a \<Rightarrow> 'a outcome" where
  "of_sum (Inl r) = Refused r"
| "of_sum (Inr a) = Done a"

definition require :: "bool \<Rightarrow> refusal_code \<Rightarrow> unit outcome" where
  "require b r = (if b then Done () else Refused r)"

definition chain :: "'e \<times> 'a outcome \<Rightarrow> ('e \<Rightarrow> 'a \<Rightarrow> 'e \<times> 'b outcome) \<Rightarrow> 'e \<times> 'b outcome" where
  "chain m k = (case m of (e, Done a) \<Rightarrow> k e a | (e, Refused r) \<Rightarrow> (e, Refused r) | (e, Panics) \<Rightarrow> (e, Panics))"


section \<open>Grants\<close>

definition endpoint_access_class :: "bool \<Rightarrow> bool \<Rightarrow> process_role \<Rightarrow> refusal_code + endpoint_access" where
  "endpoint_access_class has_grant driver_owned role =
     (if has_grant then Inr ExistingProfileApproved
      else if driver_owned then Inr DriverOwned
      else (case role of
              EmbeddedApplication \<Rightarrow> Inr EmbeddedApplicationAccess
            | StandaloneConsumer \<Rightarrow> Inl BrowserConsentRequired
            | Helper \<Rightarrow> Inl BrowserWrongTargetRefused
            | UnknownRole \<Rightarrow> Inl BrowserRouteUnavailable))"

definition is_driver_owned_pid_for_session :: "string \<Rightarrow> int \<Rightarrow> 'doc browser_engine \<Rightarrow> bool" where
  "is_driver_owned_pid_for_session s pid eng =
     list_ex (\<lambda>(owned, owners). owned = pid \<and> list_ex (\<lambda>w. w = s) owners) (eng_managed eng)"

definition driver_owned_for :: "string \<Rightarrow> string option \<Rightarrow> int \<Rightarrow> 'doc browser_engine \<Rightarrow> bool" where
  "driver_owned_for s tr pid eng =
     (is_driver_owned_pid_for_session s pid eng
      \<or> (case tr of None \<Rightarrow> False | Some w \<Rightarrow> is_driver_owned_pid_for_session w pid eng))"

definition pending_of :: "string \<Rightarrow> 'doc browser_engine \<Rightarrow> setup_request list" where
  "pending_of s eng = (case kv_get (eng_pending eng) s of None \<Rightarrow> [] | Some rs \<Rightarrow> rs)"

text \<open>What is done with a grant that has left the table: its socket is released, remote
  debugging is switched off or the request is kept for the end of the session, and its consent
  is revoked. \<open>cleanup_ok\<close> answers for \<open>cleanup_existing_profile_setup\<close>.\<close>

definition settle_grant ::
    "(setup_request \<Rightarrow> bool) \<Rightarrow> string \<Rightarrow> profile_grant \<Rightarrow> 'doc browser_engine \<Rightarrow> 'doc browser_engine" where
  "settle_grant cleanup_ok s g eng =
     (let req = \<lparr>setup_pid = pg_pid g, setup_window = pg_window g, setup_browser = pg_product g\<rparr>
      in eng\<lparr>eng_pending :=
               (if pg_cleanup g \<and> \<not> cleanup_ok req
                then kv_put s (pending_of s eng @ [req]) (eng_pending eng) else eng_pending eng),
             eng_pool := eng_pool eng @ [ReleaseClaimMarker (pg_endpoint g),
                                         ReleaseExisting (pg_endpoint g) (pg_generation g)],
             eng_revoked :=
               (case pg_consent g of Some p \<Rightarrow> grant_id p # eng_revoked eng | None \<Rightarrow> eng_revoked eng)\<rparr>)"

definition existing_profile_grant ::
    "(setup_request \<Rightarrow> bool) \<Rightarrow> surroundings \<times> instant \<Rightarrow> string \<Rightarrow> string option \<Rightarrow> int
       \<Rightarrow> 'doc browser_engine \<Rightarrow> 'doc browser_engine \<times> profile_grant option outcome" where
  "existing_profile_grant cleanup_ok w s tr pid eng =
     (case lookup_profile ((fst w)\<lparr>revoked_now := eng_revoked eng\<rparr>) (snd w) (profile_key s tr pid) (eng_grants eng) of
        (gs, Missing) \<Rightarrow> (eng\<lparr>eng_grants := gs\<rparr>, Done None)
      | (gs, Live g) \<Rightarrow> (eng\<lparr>eng_grants := gs\<rparr>, Done (Some g))
      | (gs, ExpiredGrant g) \<Rightarrow>
          (settle_grant cleanup_ok s g (eng\<lparr>eng_grants := gs\<rparr>), Refused BrowserConsentRequired))"

definition revoke_existing_profile_grant ::
    "(setup_request \<Rightarrow> bool) \<Rightarrow> string \<Rightarrow> string option \<Rightarrow> int \<Rightarrow> 'doc browser_engine \<Rightarrow> 'doc browser_engine" where
  "revoke_existing_profile_grant cleanup_ok s tr pid eng =
     (case revoke_profile (profile_key s tr pid) (eng_grants eng) of
        (gs, None) \<Rightarrow> eng\<lparr>eng_grants := gs\<rparr>
      | (gs, Some g) \<Rightarrow> settle_grant cleanup_ok s g (eng\<lparr>eng_grants := gs\<rparr>))"


section \<open>Reconnecting\<close>

datatype redial = Redialed | RedialFailed | PromptRefused refusal_code

text \<open>What one round of the reconnect loop sees.\<close>

record reconnect_round =
  rr_in_time :: bool
  rr_classification :: "refusal_code + classification"
  rr_fingerprint :: "refusal_code + process_fingerprint"
  rr_endpoint :: "refusal_code + owned_endpoint option"
  rr_bump_at :: instant
  rr_redial :: redial
  rr_lookup :: "surroundings \<times> instant"

definition bump_refusal :: "reconnect_refusal \<Rightarrow> refusal_code" where
  "bump_refusal e = (case e of ConsentRequired \<Rightarrow> BrowserConsentRequired | ReconnectExhausted \<Rightarrow> BrowserReconnectExhausted)"

text \<open>The checks of a round before the generation is bumped. A refusal with \<open>True\<close> revokes the
  grant first.\<close>

definition reprove_round :: "int \<Rightarrow> reconnect_round \<Rightarrow> profile_grant \<Rightarrow> (refusal_code \<times> bool) option" where
  "reprove_round pid r g =
     (if pg_pid g \<noteq> pid \<or> pg_browser g \<noteq> ''chromium'' then Some (BrowserConsentRequired, True)
      else case rr_classification r of Inl e \<Rightarrow> Some (e, False) | Inr c \<Rightarrow>
        if \<not> supports_cdp c \<or> family c \<noteq> ChromiumFamily then Some (BrowserConsentRequired, True)
        else case rr_fingerprint r of Inl e \<Rightarrow> Some (e, False) | Inr f \<Rightarrow>
          if \<not> fingerprint_matches (pg_fingerprint g) f then Some (BrowserConsentRequired, True)
          else case rr_endpoint r of Inl e \<Rightarrow> Some (e, False) | Inr None \<Rightarrow> Some (BrowserRequiresSetup, False)
          | Inr (Some ep) \<Rightarrow>
              if ep_owner_pid ep \<noteq> pid then Some (BrowserEndpointOwnerMismatch, False)
              else if ep_ws_url ep \<noteq> pg_endpoint g then Some (BrowserEndpointOwnerMismatch, True)
              else None)"

text \<open>\<open>None\<close> is running out of fuel; the loop needs no more than one round per reconnect attempt
  the grant has left, and one to give up.\<close>

fun reconnect_loop ::
    "(setup_request \<Rightarrow> bool) \<Rightarrow> string \<Rightarrow> string option \<Rightarrow> int \<Rightarrow> (nat \<Rightarrow> reconnect_round) \<Rightarrow> nat \<Rightarrow> nat
       \<Rightarrow> profile_grant \<Rightarrow> 'doc browser_engine \<Rightarrow> ('doc browser_engine \<times> profile_grant outcome) option" where
  "reconnect_loop cleanup_ok s tr pid rounds i 0 g eng = None"
| "reconnect_loop cleanup_ok s tr pid rounds i (Suc fuel) g eng =
     (if \<not> rr_in_time (rounds i) \<or> pg_attempts g = 0
      then Some (revoke_existing_profile_grant cleanup_ok s tr pid eng, Refused BrowserReconnectExhausted)
      else case reprove_round pid (rounds i) g of
        Some (e, revoking) \<Rightarrow>
          Some (if revoking then revoke_existing_profile_grant cleanup_ok s tr pid eng else eng, Refused e)
      | None \<Rightarrow>
          (case bump_generation (rr_bump_at (rounds i)) (profile_key s tr pid) (eng_grants eng) of
             (gs, Inl e) \<Rightarrow> Some (eng\<lparr>eng_grants := gs\<rparr>, Refused (bump_refusal e))
           | (gs, Inr new) \<Rightarrow>
               (let eng1 = eng\<lparr>eng_grants := gs,
                               eng_store := fst (invalidate_endpoint_generation pid (pg_generation g) (eng_store eng)),
                               eng_pool := eng_pool eng @ [ReconnectExisting (pg_endpoint g) (pg_generation g) new]\<rparr>
                in case rr_redial (rounds i) of
                     PromptRefused e \<Rightarrow>
                       Some (if e = BrowserConsentRevoked
                             then revoke_existing_profile_grant cleanup_ok s tr pid eng1 else eng1, Refused e)
                   | redialed \<Rightarrow>
                       (case existing_profile_grant cleanup_ok (rr_lookup (rounds i)) s tr pid eng1 of
                          (eng2, Refused e) \<Rightarrow> Some (eng2, Refused e)
                        | (eng2, Panics) \<Rightarrow> Some (eng2, Panics)
                        | (eng2, Done None) \<Rightarrow> Some (eng2, Panics)
                        | (eng2, Done (Some g')) \<Rightarrow>
                            if redialed = Redialed then Some (eng2, Done g')
                            else reconnect_loop cleanup_ok s tr pid rounds (i + 1) fuel g' eng2))))"

text \<open>\<open>connect_existing_profile\<close>: the pool is asked before and after the reconnect gate.\<close>

record dialing =
  first_lookup :: "surroundings \<times> instant"
  first_pooled :: "string \<Rightarrow> nat \<Rightarrow> bool"
  gated_lookup :: "surroundings \<times> instant"
  gated_pooled :: "string \<Rightarrow> nat \<Rightarrow> bool"
  reconnect_rounds :: "nat \<Rightarrow> reconnect_round"

definition live_grant ::
    "(setup_request \<Rightarrow> bool) \<Rightarrow> surroundings \<times> instant \<Rightarrow> string \<Rightarrow> string option \<Rightarrow> int
       \<Rightarrow> 'doc browser_engine \<Rightarrow> 'doc browser_engine \<times> profile_grant outcome" where
  "live_grant cleanup_ok w s tr pid eng =
     chain (existing_profile_grant cleanup_ok w s tr pid eng)
       (\<lambda>eng found. (eng, case found of None \<Rightarrow> Refused BrowserConsentRequired | Some g \<Rightarrow> Done g))"

definition connect_existing_profile ::
    "(setup_request \<Rightarrow> bool) \<Rightarrow> dialing \<Rightarrow> string \<Rightarrow> string option \<Rightarrow> int
       \<Rightarrow> 'doc browser_engine \<Rightarrow> 'doc browser_engine \<times> profile_grant outcome" where
  "connect_existing_profile cleanup_ok d s tr pid eng =
     chain (live_grant cleanup_ok (first_lookup d) s tr pid eng) (\<lambda>eng g.
       if first_pooled d (pg_endpoint g) (pg_generation g) then (eng, Done g)
       else chain (live_grant cleanup_ok (gated_lookup d) s tr pid eng) (\<lambda>eng g.
         if gated_pooled d (pg_endpoint g) (pg_generation g) then (eng, Done g)
         else (case reconnect_loop cleanup_ok s tr pid (reconnect_rounds d) 0 (Suc (pg_attempts g)) g eng of
                 Some r \<Rightarrow> r
               | None \<Rightarrow> (eng, Panics))))"


section \<open>Binding a native window\<close>

text \<open>The answers to the questions of one binding or one revalidation.\<close>

record browser_answers =
  ans_classification :: "refusal_code + classification"
  ans_grant_lookup :: "surroundings \<times> instant"
  ans_native :: "refusal_code + native_window"
  ans_fingerprint :: "refusal_code + process_fingerprint"
  ans_discovered :: "refusal_code + owned_endpoint option"
  ans_reproved :: "refusal_code + owned_endpoint option"
  ans_dialing :: dialing
  ans_connected :: bool
  ans_candidates :: "refusal_code + cdp_candidate list"
  ans_only_window :: "refusal_code + bool option"
  ans_attached :: "refusal_code + string"
  ans_live_url :: "refusal_code + string"
  ans_fresh :: "nat \<Rightarrow> string"

definition native_window_checked :: "browser_answers \<Rightarrow> int \<Rightarrow> native_window outcome" where
  "native_window_checked a pid =
     (case ans_native a of
        Inl e \<Rightarrow> Refused e
      | Inr n \<Rightarrow> if native_owner_pid n \<noteq> pid then Refused BrowserWrongTargetRefused else Done n)"

definition checked_endpoint :: "refusal_code + owned_endpoint option \<Rightarrow> int \<Rightarrow> owned_endpoint outcome" where
  "checked_endpoint answer pid =
     (case answer of
        Inl e \<Rightarrow> Refused e
      | Inr None \<Rightarrow> Refused BrowserRequiresSetup
      | Inr (Some ep) \<Rightarrow> if ep_owner_pid ep \<noteq> pid then Refused BrowserEndpointOwnerMismatch else Done ep)"

definition owned_endpoint_for :: "browser_answers \<Rightarrow> int \<Rightarrow> owned_endpoint outcome" where
  "owned_endpoint_for a pid = checked_endpoint (ans_discovered a) pid"

definition existing_profile_endpoint :: "browser_answers \<Rightarrow> int \<Rightarrow> owned_endpoint outcome" where
  "existing_profile_endpoint a pid = checked_endpoint (ans_reproved a) pid"

definition choose_candidate ::
    "browser_answers \<Rightarrow> native_window \<Rightarrow> cdp_candidate list \<Rightarrow> (cdp_candidate \<times> binding_quality) outcome" where
  "choose_candidate a n cs =
     (case correlate n cs BOUNDS_TOLERANCE_PX of
        Bound c Exact \<Rightarrow> Done (c, Exact)
      | Bound c Heuristic \<Rightarrow>
          (case ans_only_window a of
             Inl e \<Rightarrow> Refused e
           | Inr only \<Rightarrow>
               (case cardinality_exact_candidate (native_win_title n) cs only of
                  Some x \<Rightarrow> Done (x, Exact)
                | None \<Rightarrow> Done (c, Heuristic)))
      | Ambiguous k \<Rightarrow> Refused BrowserBindingAmbiguous
      | NoBinding \<Rightarrow>
          (case ans_only_window a of
             Inl e \<Rightarrow> Refused e
           | Inr only \<Rightarrow>
               (case cardinality_exact_candidate (native_win_title n) cs only of
                  Some x \<Rightarrow> Done (x, Exact)
                | None \<Rightarrow> Refused BrowserWrongTargetRefused)))"

definition bound_tab :: "string \<Rightarrow> nat \<Rightarrow> string option \<Rightarrow> cdp_candidate \<Rightarrow> 'doc tab_record" where
  "bound_tab i gen selected c =
     \<lparr>tab_id = i, tab_cdp_target = cand_target c, tab_title = cand_title c, tab_url = cand_url c,
      tab_active = map_option (\<lambda>t. t = cand_target c) selected, tab_generation = gen, tab_snapshots = []\<rparr>"

fun bound_tabs ::
    "(nat \<Rightarrow> string) \<Rightarrow> nat \<Rightarrow> nat \<Rightarrow> string option \<Rightarrow> cdp_candidate list \<Rightarrow> (string, 'doc tab_record) kv" where
  "bound_tabs fresh k gen selected [] = []"
| "bound_tabs fresh k gen selected (c # cs) =
     (let i = mint_tab_id (fresh k)
      in kv_put i (bound_tab i gen selected c) (bound_tabs fresh (k + 1) gen selected cs))"

definition tabs_for :: "cdp_candidate \<Rightarrow> cdp_candidate list \<Rightarrow> cdp_candidate list" where
  "tabs_for c cs =
     (case cand_window c of
        Some w \<Rightarrow> filter (\<lambda>d. cand_window d = Some w) cs
      | None \<Rightarrow> filter (\<lambda>d. cand_target d = cand_target c) cs)"

definition grant_generation :: "profile_grant option \<Rightarrow> nat" where
  "grant_generation g = (case g of None \<Rightarrow> 0 | Some h \<Rightarrow> pg_generation h)"

definition bound_target ::
    "browser_answers \<Rightarrow> string option \<Rightarrow> int \<Rightarrow> nat \<Rightarrow> endpoint_access \<Rightarrow> profile_grant option
       \<Rightarrow> process_fingerprint \<Rightarrow> owned_endpoint \<Rightarrow> native_window \<Rightarrow> cdp_candidate list
       \<Rightarrow> cdp_candidate \<Rightarrow> binding_quality \<Rightarrow> 'doc target_record" where
  "bound_target a tr pid win acc g fp ep n cs c q =
     \<lparr>target_id = [], target_pid = pid, target_window = win, ws_url = ep_ws_url ep,
      endpoint_owner_pid = ep_owner_pid ep, target_transport = ep_transport ep, access_class = acc,
      target_generation = grant_generation g,
      transport_session = (case g of Some h \<Rightarrow> Some (pg_transport h) | None \<Rightarrow> tr),
      target_fingerprint = fp, native_title = native_win_title n, native_bounds = native_win_bounds n,
      target_cdp = cand_target c, target_cdp_window = cand_window c, quality = q,
      tabs = bound_tabs (ans_fresh a) 1 (grant_generation g)
               (selected_tab_target_id (native_win_title n) cs (cand_window c)) (tabs_for c cs)\<rparr>"

definition grant_still_describes :: "profile_grant \<Rightarrow> process_fingerprint \<Rightarrow> owned_endpoint \<Rightarrow> nat \<Rightarrow> bool" where
  "grant_still_describes g fp ep win =
     (fingerprint_matches (pg_fingerprint g) fp \<and> pg_endpoint g = ep_ws_url ep \<and> pg_window g = win)"

text \<open>The connection of a binding: through the grant, if there is one, which is then the grant as
  the connection found it.\<close>

definition connect_binding ::
    "(setup_request \<Rightarrow> bool) \<Rightarrow> browser_answers \<Rightarrow> string \<Rightarrow> string option \<Rightarrow> int \<Rightarrow> profile_grant option
       \<Rightarrow> 'doc browser_engine \<Rightarrow> 'doc browser_engine \<times> profile_grant option outcome" where
  "connect_binding cleanup_ok a s tr pid g eng =
     (case g of
        Some _ \<Rightarrow>
          chain (connect_existing_profile cleanup_ok (ans_dialing a) s tr pid eng) (\<lambda>eng h. (eng, Done (Some h)))
      | None \<Rightarrow> (eng, if ans_connected a then Done None else Refused BrowserRouteUnavailable))"

text \<open>What the first half of a binding establishes, before the browser is connected.\<close>

record bind_evidence =
  ev_grant :: "profile_grant option"
  ev_access :: endpoint_access
  ev_native :: native_window
  ev_fingerprint :: process_fingerprint
  ev_endpoint :: owned_endpoint

definition gather_evidence ::
    "(setup_request \<Rightarrow> bool) \<Rightarrow> browser_answers \<Rightarrow> string \<Rightarrow> string option \<Rightarrow> int \<Rightarrow> nat
       \<Rightarrow> 'doc browser_engine \<Rightarrow> 'doc browser_engine \<times> bind_evidence outcome" where
  "gather_evidence cleanup_ok a s tr pid win eng =
     chain (eng, of_sum (ans_classification a)) (\<lambda>eng cls.
     chain (eng, require (is_browser cls \<and> supports_cdp cls) BrowserRouteUnavailable) (\<lambda>eng _.
     chain (existing_profile_grant cleanup_ok (ans_grant_lookup a) s tr pid eng) (\<lambda>eng g.
     chain (eng, of_sum (endpoint_access_class (g \<noteq> None) (driver_owned_for s tr pid eng) (process_role cls))) (\<lambda>eng acc.
     chain (eng, native_window_checked a pid) (\<lambda>eng n.
     chain (eng, of_sum (ans_fingerprint a)) (\<lambda>eng fp.
     chain (eng, if g \<noteq> None then existing_profile_endpoint a pid else owned_endpoint_for a pid) (\<lambda>eng ep.
     chain (eng, require (case g of None \<Rightarrow> True | Some h \<Rightarrow> grant_still_describes h fp ep win) BrowserBindingStale) (\<lambda>eng _.
       (eng, Done \<lparr>ev_grant = g, ev_access = acc, ev_native = n, ev_fingerprint = fp, ev_endpoint = ep\<rparr>)))))))))"

definition bind_native ::
    "(setup_request \<Rightarrow> bool) \<Rightarrow> browser_answers \<Rightarrow> string \<Rightarrow> string option \<Rightarrow> int \<Rightarrow> nat
       \<Rightarrow> 'doc browser_engine \<Rightarrow> 'doc browser_engine \<times> string outcome" where
  "bind_native cleanup_ok a s tr pid win eng =
     chain (gather_evidence cleanup_ok a s tr pid win eng) (\<lambda>eng ev.
     chain (connect_binding cleanup_ok a s tr pid (ev_grant ev) eng) (\<lambda>eng g.
     chain (eng, of_sum (ans_candidates a)) (\<lambda>eng cs.
     chain (eng, choose_candidate a (ev_native ev) cs) (\<lambda>eng cq.
       (let m = mint_target (ans_fresh a 0) s
                  (bound_target a tr pid win (ev_access ev) g (ev_fingerprint ev) (ev_endpoint ev)
                     (ev_native ev) cs (fst cq) (snd cq)) (eng_store eng)
        in (eng\<lparr>eng_store := fst m\<rparr>, Done (snd m)))))))"


section \<open>Revalidation before a mutation\<close>

definition generation_gate ::
    "(setup_request \<Rightarrow> bool) \<Rightarrow> browser_answers \<Rightarrow> string \<Rightarrow> 'doc target_record
       \<Rightarrow> 'doc browser_engine \<Rightarrow> 'doc browser_engine \<times> unit outcome" where
  "generation_gate cleanup_ok a s r eng =
     (if target_generation r = 0 then (eng, Done ())
      else chain (live_grant cleanup_ok (ans_grant_lookup a) s (transport_session r) (target_pid r) eng) (\<lambda>eng g.
             (eng, require (pg_generation g = target_generation r) BrowserBindingStale)))"

definition access_gate :: "browser_answers \<Rightarrow> string \<Rightarrow> 'doc target_record \<Rightarrow> 'doc browser_engine \<Rightarrow> unit outcome" where
  "access_gate a s r eng =
     (case access_class r of
        DriverOwned \<Rightarrow> require (driver_owned_for s (transport_session r) (target_pid r) eng) BrowserConsentRequired
      | ExistingProfileApproved \<Rightarrow> require (target_generation r \<noteq> 0) BrowserBindingStale
      | EmbeddedApplicationAccess \<Rightarrow>
          (case ans_classification a of
             Inl e \<Rightarrow> Refused e
           | Inr cls \<Rightarrow> require (process_role cls = EmbeddedApplication) BrowserBindingStale)
      | ExternalConsumerBrowser \<Rightarrow> Refused BrowserConsentRequired)"

definition connection_for_record ::
    "(setup_request \<Rightarrow> bool) \<Rightarrow> browser_answers \<Rightarrow> string \<Rightarrow> 'doc target_record
       \<Rightarrow> 'doc browser_engine \<Rightarrow> 'doc browser_engine \<times> unit outcome" where
  "connection_for_record cleanup_ok a s r eng =
     (if target_generation r = 0 then (eng, require (ans_connected a) BrowserRouteUnavailable)
      else chain (connect_existing_profile cleanup_ok (ans_dialing a) s (transport_session r) (target_pid r) eng) (\<lambda>eng g.
             (eng, require (pg_generation g = target_generation r) BrowserBindingStale)))"

definition window_gate ::
    "browser_answers \<Rightarrow> 'doc target_record \<Rightarrow> 'doc tab_record \<Rightarrow> native_window \<Rightarrow> cdp_candidate list \<Rightarrow> unit outcome" where
  "window_gate a r tb n cs =
     (case find (\<lambda>c. cand_target c = tab_cdp_target tb) cs of
        None \<Rightarrow> Refused BrowserTabNotFound
      | Some pg \<Rightarrow>
          (case target_cdp_window r of
             Some w \<Rightarrow>
               if cand_window pg \<noteq> Some w then Refused BrowserWrongTargetRefused
               else if (case cand_bounds pg of
                          None \<Rightarrow> False
                        | Some b \<Rightarrow> approx_eq b (native_win_bounds n) BOUNDS_TOLERANCE_PX) then Done ()
               else (case ans_only_window a of
                       Inl e \<Rightarrow> Refused e
                     | Inr only \<Rightarrow>
                         require (case cardinality_exact_candidate (native_win_title n) cs only of
                                    None \<Rightarrow> False | Some c \<Rightarrow> cand_window c = Some w)
                           BrowserWrongTargetRefused)
           | None \<Rightarrow>
               if length cs \<noteq> 1 \<or> cand_window pg \<noteq> None then Refused BrowserWrongTargetRefused
               else (case ans_only_window a of
                       Inl e \<Rightarrow> Refused e
                     | Inr only \<Rightarrow> require (only = Some True) BrowserWrongTargetRefused)))"

text \<open>\<open>mani\<close> is the capability manifest of the dispatching context, if it has one.\<close>

definition origin_gate :: "url_parser \<Rightarrow> session_manifest option \<Rightarrow> browser_answers \<Rightarrow> unit outcome" where
  "origin_gate parse_url mani a =
     (case mani of
        None \<Rightarrow> Done ()
      | Some m \<Rightarrow>
          (case ans_live_url a of
             Inl e \<Rightarrow> Refused e
           | Inr url \<Rightarrow>
               require (url \<noteq> [] \<and> authorize_browser_url parse_url m url = Inr ()) BrowserOriginOutsideScope))"

record 'doc validated_tab =
  val_record :: "'doc target_record"
  val_tab :: "'doc tab_record"
  val_native :: native_window
  val_cdp_session :: string

definition explicit_tab :: "'doc target_record \<Rightarrow> string option \<Rightarrow> 'doc tab_record outcome" where
  "explicit_tab r tab =
     (case tab of
        None \<Rightarrow> Refused BrowserTabRequired
      | Some i \<Rightarrow> (case kv_get (tabs r) i of None \<Rightarrow> Refused BrowserTabNotFound | Some tb \<Rightarrow> Done tb))"

text \<open>The revalidation is the checks of the capability, then those of the live browser.\<close>

definition revalidate_capability ::
    "(setup_request \<Rightarrow> bool) \<Rightarrow> browser_answers \<Rightarrow> string \<Rightarrow> string \<Rightarrow> string option
       \<Rightarrow> 'doc browser_engine \<Rightarrow> 'doc browser_engine \<times> ('doc target_record \<times> 'doc tab_record) outcome" where
  "revalidate_capability cleanup_ok a s t tab eng =
     chain (eng, of_sum (get_target s t (eng_store eng))) (\<lambda>eng r.
     chain (eng, require (quality r = Exact) BrowserWrongTargetRefused) (\<lambda>eng _.
     chain (eng, explicit_tab r tab) (\<lambda>eng tb.
     chain (eng, require (target_generation r = tab_generation tb) BrowserBindingStale) (\<lambda>eng _.
     chain (generation_gate cleanup_ok a s r eng) (\<lambda>eng _.
     chain (eng, access_gate a s r eng) (\<lambda>eng _.
       (eng, Done (r, tb))))))))"

definition revalidate_live ::
    "(setup_request \<Rightarrow> bool) \<Rightarrow> url_parser \<Rightarrow> session_manifest option \<Rightarrow> browser_answers \<Rightarrow> string
       \<Rightarrow> 'doc target_record \<Rightarrow> 'doc tab_record
       \<Rightarrow> 'doc browser_engine \<Rightarrow> 'doc browser_engine \<times> 'doc validated_tab outcome" where
  "revalidate_live cleanup_ok parse_url mani a s r tb eng =
     chain (eng, of_sum (ans_fingerprint a)) (\<lambda>eng fp.
     chain (eng, require (fingerprint_matches (target_fingerprint r) fp) BrowserBindingStale) (\<lambda>eng _.
     chain (eng, native_window_checked a (target_pid r)) (\<lambda>eng n.
     chain (eng, if target_generation r \<noteq> 0 then existing_profile_endpoint a (target_pid r)
                 else owned_endpoint_for a (target_pid r)) (\<lambda>eng ep.
     chain (eng, require (ep_ws_url ep = ws_url r \<and> ep_transport ep = target_transport r) BrowserBindingStale) (\<lambda>eng _.
     chain (connection_for_record cleanup_ok a s r eng) (\<lambda>eng _.
     chain (eng, of_sum (ans_candidates a)) (\<lambda>eng cs.
     chain (eng, window_gate a r tb n cs) (\<lambda>eng _.
     chain (eng, of_sum (ans_attached a)) (\<lambda>eng sid.
     chain (eng, origin_gate parse_url mani a) (\<lambda>eng _.
       (eng, Done \<lparr>val_record = r, val_tab = tb, val_native = n, val_cdp_session = sid\<rparr>)))))))))))"

definition revalidate_for_mutation ::
    "(setup_request \<Rightarrow> bool) \<Rightarrow> url_parser \<Rightarrow> session_manifest option \<Rightarrow> browser_answers \<Rightarrow> string \<Rightarrow> string \<Rightarrow> string option
       \<Rightarrow> 'doc browser_engine \<Rightarrow> 'doc browser_engine \<times> 'doc validated_tab outcome" where
  "revalidate_for_mutation cleanup_ok parse_url mani a s t tab eng =
     chain (revalidate_capability cleanup_ok a s t tab eng) (\<lambda>eng p.
       revalidate_live cleanup_ok parse_url mani a s (fst p) (snd p) eng)"

end
