(* ===== verification/BrowserEngineProps.thy ===== *)
theory BrowserEngineProps
  imports BrowserEngine
begin

text \<open>
  Properties of the browser engine's authority: a connection through a grant always ends and
  kills the capabilities of the connection before it, a binding asks for authority first, and a
  mutation is let through only with the whole chain of evidence proven again.
\<close>

section \<open>Chains\<close>

lemma chain_Done:
  "chain m k = (e', Done b) \<longleftrightarrow> (\<exists>e a. m = (e, Done a) \<and> k e a = (e', Done b))"
  by (auto simp: chain_def split: prod.splits outcome.splits)

lemma chain_simps [simp]:
  "chain (e, Done a) k = k e a"
  "chain (e, Refused r) k = (e, Refused r)"
  "chain (e, Panics) k = (e, Panics)"
  by (simp_all add: chain_def)

lemma require_Done [simp]: "require b r = Done u \<longleftrightarrow> b"
  by (simp add: require_def)

lemma of_sum_Done [simp]: "of_sum x = Done a \<longleftrightarrow> x = Inr a"
  by (cases x) auto


section \<open>Reconnecting\<close>

abbreviation key_of :: "string \<Rightarrow> string option \<Rightarrow> int \<Rightarrow> profile_grant_key" where
  "key_of \<equiv> profile_key"

lemma settle_grant_parts [simp]:
  "eng_store (settle_grant f s g eng) = eng_store eng"
  "eng_grants (settle_grant f s g eng) = eng_grants eng"
  "eng_managed (settle_grant f s g eng) = eng_managed eng"
  by (simp_all add: settle_grant_def Let_def)

lemma existing_profile_grant_Done:
  "existing_profile_grant f w s tr pid eng = (eng', Done found) \<Longrightarrow>
     eng_store eng' = eng_store eng \<and> eng_managed eng' = eng_managed eng
     \<and> (case kv_get (eng_grants eng) (key_of s tr pid) of
           None \<Rightarrow> found = None \<and> eng_grants eng' = eng_grants eng
         | Some g \<Rightarrow> found = Some (g\<lparr>pg_last_used_at := snd w\<rparr>)
             \<and> eng_grants eng' = kv_put (key_of s tr pid) (g\<lparr>pg_last_used_at := snd w\<rparr>) (eng_grants eng)
             \<and> \<not> profile_grant_expired ((fst w)\<lparr>revoked_now := eng_revoked eng\<rparr>) (snd w) g
             \<and> authorization_context_matches ((fst w)\<lparr>revoked_now := eng_revoked eng\<rparr>) g)"
  by (auto simp: existing_profile_grant_def lookup_profile_def Let_def
           split: option.splits if_splits prod.splits)

lemma existing_profile_grant_Refused:
  "existing_profile_grant f w s tr pid eng = (eng', r) \<Longrightarrow> r \<noteq> Panics"
  by (auto simp: existing_profile_grant_def split: prod.splits grant_lookup.splits)

lemma bump_generation_Inr:
  "bump_generation now k gs = (gs', Inr n) \<longleftrightarrow>
     (\<exists>g. kv_get gs k = Some g \<and> pg_attempts g \<noteq> 0
        \<and> n = next_profile_generation (pg_generation g)
        \<and> gs' = kv_put k (g\<lparr>pg_attempts := pg_attempts g - 1, pg_generation := n, pg_last_used_at := now\<rparr>) gs)"
  by (auto simp: bump_generation_def Let_def split: option.splits)

text \<open>The grant the loop holds is the stored one, up to the clock of its last use.\<close>

definition holds :: "profile_grant_key \<Rightarrow> profile_grant \<Rightarrow> 'doc browser_engine \<Rightarrow> bool" where
  "holds k g eng = (\<exists>h. kv_get (eng_grants eng) k = Some h \<and> h\<lparr>pg_last_used_at := pg_last_used_at g\<rparr> = g)"

lemma holdsD:
  assumes "holds k g eng"
  obtains h where "kv_get (eng_grants eng) k = Some h" "pg_attempts h = pg_attempts g"
    "pg_generation h = pg_generation g"
proof -
  from assms obtain h where h: "kv_get (eng_grants eng) k = Some h" "h\<lparr>pg_last_used_at := pg_last_used_at g\<rparr> = g"
    by (auto simp: holds_def)
  from h(2) have "pg_attempts (h\<lparr>pg_last_used_at := pg_last_used_at g\<rparr>) = pg_attempts g"
    "pg_generation (h\<lparr>pg_last_used_at := pg_last_used_at g\<rparr>) = pg_generation g" by simp_all
  with that h(1) show thesis by simp
qed

lemma live_grant_Done:
  assumes "live_grant f w s tr pid eng = (eng', Done g)"
  shows "eng_store eng' = eng_store eng \<and> eng_managed eng' = eng_managed eng \<and> holds (key_of s tr pid) g eng'
    \<and> (\<exists>h. kv_get (eng_grants eng) (key_of s tr pid) = Some h \<and> g = h\<lparr>pg_last_used_at := snd w\<rparr>)"
  using assms
  by (auto simp: live_grant_def chain_Done holds_def split: option.splits dest!: existing_profile_grant_Done)

text \<open>A round that goes on: it has used up an attempt, dropped the targets of the old generation,
  and holds the grant of the next.\<close>

definition next_engine ::
    "string \<Rightarrow> string option \<Rightarrow> int \<Rightarrow> reconnect_round \<Rightarrow> profile_grant \<Rightarrow> profile_grant \<Rightarrow> nat
       \<Rightarrow> 'doc browser_engine \<Rightarrow> 'doc browser_engine" where
  "next_engine s tr pid r g h new eng =
     eng\<lparr>eng_grants := kv_put (key_of s tr pid) (h\<lparr>pg_attempts := pg_attempts h - 1, pg_generation := new,
            pg_last_used_at := rr_bump_at r\<rparr>) (eng_grants eng),
         eng_store := fst (invalidate_endpoint_generation pid (pg_generation g) (eng_store eng)),
         eng_pool := eng_pool eng @ [ReconnectExisting (pg_endpoint g) (pg_generation g) new]\<rparr>"

lemma reconnect_round_lookup:
  assumes "kv_get (eng_grants eng) (key_of s tr pid) = Some h"
    and "existing_profile_grant f w s tr pid (next_engine s tr pid r g h new eng) = (eng', res)"
  shows "res \<noteq> Panics \<and> res \<noteq> Done None
    \<and> (\<forall>g'. res = Done (Some g') \<longrightarrow> holds (key_of s tr pid) g' eng'
          \<and> pg_attempts g' = pg_attempts h - 1 \<and> pg_generation g' = new
          \<and> eng_store eng' = fst (invalidate_endpoint_generation pid (pg_generation g) (eng_store eng)))"
proof (cases res)
  case (Done found)
  from existing_profile_grant_Done [OF assms(2) [unfolded Done]] Done show ?thesis
    by (auto simp: next_engine_def holds_def)
next
  case Panics
  with existing_profile_grant_Refused [OF assms(2)] show ?thesis by simp
qed simp

lemma reconnect_loop_step:
  assumes "holds (key_of s tr pid) g eng"
  shows "(\<exists>eng' e. \<forall>fuel. reconnect_loop f s tr pid rounds i (Suc fuel) g eng = Some (eng', Refused e))
    \<or> (\<exists>h new. kv_get (eng_grants eng) (key_of s tr pid) = Some h \<and> pg_attempts g \<noteq> 0
        \<and> pg_attempts h = pg_attempts g \<and> pg_generation h = pg_generation g
        \<and> new = next_profile_generation (pg_generation g)
        \<and> (\<forall>fuel. reconnect_loop f s tr pid rounds i (Suc fuel) g eng =
             (case existing_profile_grant f (rr_lookup (rounds i)) s tr pid (next_engine s tr pid (rounds i) g h new eng) of
                (eng2, Refused e) \<Rightarrow> Some (eng2, Refused e)
              | (eng2, Panics) \<Rightarrow> Some (eng2, Panics)
              | (eng2, Done None) \<Rightarrow> Some (eng2, Panics)
              | (eng2, Done (Some g')) \<Rightarrow>
                  if rr_redial (rounds i) = Redialed then Some (eng2, Done g')
                  else reconnect_loop f s tr pid rounds (i + 1) fuel g' eng2)))"
proof (cases "rr_in_time (rounds i) \<and> pg_attempts g \<noteq> 0")
  case False
  then show ?thesis by (intro disjI1) auto
next
  case in_time: True
  show ?thesis
  proof (cases "reprove_round pid (rounds i) g")
    case (Some p)
    with in_time show ?thesis by (intro disjI1) (cases p, auto)
  next
    case None
    note False = in_time None
  from holdsD [OF assms] obtain h where h: "kv_get (eng_grants eng) (key_of s tr pid) = Some h"
    "pg_attempts h = pg_attempts g" "pg_generation h = pg_generation g" by blast
  then have bump: "bump_generation (rr_bump_at (rounds i)) (key_of s tr pid) (eng_grants eng) =
      (eng_grants (next_engine s tr pid (rounds i) g h (next_profile_generation (pg_generation g)) eng),
       Inr (next_profile_generation (pg_generation g)))"
    using False by (simp add: bump_generation_Inr next_engine_def)
  show ?thesis
  proof (cases "rr_redial (rounds i)")
    case (PromptRefused e)
    with False bump show ?thesis by (intro disjI1) (simp add: Let_def)
  qed (use False bump h in \<open>intro disjI2 exI [of _ h], simp add: Let_def next_engine_def\<close>)+
  qed
qed


text \<open>With more fuel than attempts the loop ends, without a panic; and when it ends with a grant,
  the targets of the generation it began with are gone and the new grant has a later one.\<close>

definition later_generation :: "nat \<Rightarrow> nat \<Rightarrow> bool" where
  "later_generation old new = (next_profile_generation old \<le> new)"

lemma next_profile_generation_later: "later_generation old (next_profile_generation old)"
  by (simp add: later_generation_def)

lemma later_generation_trans: "later_generation a b \<Longrightarrow> later_generation b c \<Longrightarrow> later_generation a c"
  by (auto simp: later_generation_def next_profile_generation_def)

definition no_target_of :: "int \<Rightarrow> nat \<Rightarrow> 'doc browser_engine \<Rightarrow> bool" where
  "no_target_of pid gen eng = (\<forall>s t r. find_target s t (eng_store eng) = Some r \<longrightarrow> \<not> of_endpoint pid gen r)"

lemma find_target_endpoint_Some:
  assumes "store_wf st"
  shows "find_target s t (fst (invalidate_endpoint_generation pid gen st)) = Some r \<longleftrightarrow>
     find_target s t st = Some r \<and> \<not> of_endpoint pid gen r"
  by (auto simp: find_target_endpoint [OF assms] split: option.splits)

lemma store_wf_invalidate: "store_wf st \<Longrightarrow> store_wf (fst (invalidate_endpoint_generation pid gen st))"
  using store_wf_step [of st "InvalidateEndpoint pid gen"] by simp

declare reconnect_loop.simps(2) [simp del]

lemma reconnect_loop_ends:
  assumes "holds (key_of s tr pid) g eng" "pg_attempts g < fuel" "store_wf (eng_store eng)"
  shows "\<exists>eng' res. reconnect_loop f s tr pid rounds i fuel g eng = Some (eng', res) \<and> res \<noteq> Panics
    \<and> (\<forall>g'. res = Done g' \<longrightarrow> holds (key_of s tr pid) g' eng' \<and> no_target_of pid (pg_generation g) eng'
          \<and> later_generation (pg_generation g) (pg_generation g') \<and> pg_attempts g' < pg_attempts g
          \<and> (\<forall>s t r. find_target s t (eng_store eng') = Some r \<longrightarrow> find_target s t (eng_store eng) = Some r))"
  using assms
proof (induction fuel arbitrary: i g eng)
  case (Suc fuel)
  from reconnect_loop_step [OF Suc.prems(1), of f rounds i] show ?case
  proof (elim disjE exE conjE)
    fix eng' e
    assume "\<forall>fuel. reconnect_loop f s tr pid rounds i (Suc fuel) g eng = Some (eng', Refused e)"
    then show ?case by simp
  next
    fix h new
    assume h: "kv_get (eng_grants eng) (key_of s tr pid) = Some h" "pg_attempts g \<noteq> 0"
      "pg_attempts h = pg_attempts g" "new = next_profile_generation (pg_generation g)"
      and run: "\<forall>fuel. reconnect_loop f s tr pid rounds i (Suc fuel) g eng =
             (case existing_profile_grant f (rr_lookup (rounds i)) s tr pid (next_engine s tr pid (rounds i) g h new eng) of
                (eng2, Refused e) \<Rightarrow> Some (eng2, Refused e)
              | (eng2, Panics) \<Rightarrow> Some (eng2, Panics)
              | (eng2, Done None) \<Rightarrow> Some (eng2, Panics)
              | (eng2, Done (Some g')) \<Rightarrow>
                  if rr_redial (rounds i) = Redialed then Some (eng2, Done g')
                  else reconnect_loop f s tr pid rounds (i + 1) fuel g' eng2)"
    obtain eng2 res where look: "existing_profile_grant f (rr_lookup (rounds i)) s tr pid
      (next_engine s tr pid (rounds i) g h new eng) = (eng2, res)" by fastforce
    note found = reconnect_round_lookup [OF h(1) look]
    show ?case
    proof (cases res)
      case (Refused e)
      with run look show ?thesis by simp
    next
      case (Done found_grant)
      with found obtain g' where res: "res = Done (Some g')" by (cases found_grant) auto
      with found h have g': "holds (key_of s tr pid) g' eng2" "pg_attempts g' = pg_attempts g - 1"
        "pg_generation g' = new"
        and store: "eng_store eng2 = fst (invalidate_endpoint_generation pid (pg_generation g) (eng_store eng))"
        by simp_all
      note gone = find_target_endpoint_Some [OF Suc.prems(3), of _ _ pid "pg_generation g", folded store]
      have later: "later_generation (pg_generation g) (pg_generation g')"
        using g'(3) h(4) next_profile_generation_later by simp
      show ?thesis
      proof (cases "rr_redial (rounds i) = Redialed")
        case True
        with run look res g' h(2) gone later show ?thesis by (auto simp: no_target_of_def)
      next
        case False
        have "pg_attempts g' < fuel" "store_wf (eng_store eng2)"
          using g'(2) h(2) Suc.prems(2,3) store store_wf_invalidate by auto
        from Suc.IH [OF g'(1) this, of "i + 1"] obtain eng' res' where
          rest: "reconnect_loop f s tr pid rounds (i + 1) fuel g' eng2 = Some (eng', res')" "res' \<noteq> Panics"
          and fin: "\<And>g''. res' = Done g'' \<Longrightarrow> holds (key_of s tr pid) g'' eng' \<and> later_generation (pg_generation g') (pg_generation g'')
            \<and> pg_attempts g'' < pg_attempts g'
            \<and> (\<forall>s t r. find_target s t (eng_store eng') = Some r \<longrightarrow> find_target s t (eng_store eng2) = Some r)"
          by blast
        have "reconnect_loop f s tr pid rounds i (Suc fuel) g eng = Some (eng', res')"
          using run look res False rest(1) by simp
        with rest(2) fin g'(2) gone later_generation_trans [OF later] show ?thesis
          by (fastforce simp: no_target_of_def)
      qed
    qed (use found in simp)
  qed
qed simp


lemma live_grant_no_panic: "live_grant f w s tr pid e = (e', r) \<Longrightarrow> r \<noteq> Panics"
  by (auto simp: live_grant_def chain_def split: outcome.splits option.splits prod.splits
           dest: existing_profile_grant_Refused)

lemma live_grant_no_panic': "snd (live_grant f w s tr pid e) \<noteq> Panics"
  using live_grant_no_panic [of f w s tr pid e] by (cases "live_grant f w s tr pid e") auto

lemma chain_result:
  assumes "chain m k = (e', res)" "snd m \<noteq> Panics"
  obtains e where "res = Refused e" | e1 a where "m = (e1, Done a)" "k e1 a = (e', res)"
  using assms by (auto simp: chain_def split: prod.splits outcome.splits)

text \<open>What a connection through a grant does to the capabilities of its browser.\<close>

definition renewed_or_same :: "int \<Rightarrow> profile_grant \<Rightarrow> profile_grant \<Rightarrow> 'doc browser_engine \<Rightarrow> 'doc browser_engine \<Rightarrow> bool" where
  "renewed_or_same pid g g' eng eng' =
     (pg_generation g' = pg_generation g \<and> eng_store eng' = eng_store eng
      \<or> later_generation (pg_generation g) (pg_generation g') \<and> no_target_of pid (pg_generation g) eng')"

definition targets_kept_from :: "'doc browser_engine \<Rightarrow> 'doc browser_engine \<Rightarrow> bool" where
  "targets_kept_from eng eng' =
     (\<forall>s t r. find_target s t (eng_store eng') = Some r \<longrightarrow> find_target s t (eng_store eng) = Some r)"

text \<open>The ways through \<open>connect_existing_profile\<close>.\<close>

lemma connect_cases:
  assumes "connect_existing_profile f d s tr pid eng = (eng', res)"
  obtains e where "res = Refused e"
  | g where "live_grant f (first_lookup d) s tr pid eng = (eng', Done g)" "res = Done g"
  | e1 g1 g where "live_grant f (first_lookup d) s tr pid eng = (e1, Done g1)"
      "live_grant f (gated_lookup d) s tr pid e1 = (eng', Done g)" "res = Done g"
  | e1 g1 e2 g2 where "live_grant f (first_lookup d) s tr pid eng = (e1, Done g1)"
      "live_grant f (gated_lookup d) s tr pid e1 = (e2, Done g2)"
      "(case reconnect_loop f s tr pid (reconnect_rounds d) 0 (Suc (pg_attempts g2)) g2 e2 of
          Some r \<Rightarrow> r | None \<Rightarrow> (e2, Panics)) = (eng', res)"
  using assms unfolding connect_existing_profile_def
proof (elim chain_result [OF _ live_grant_no_panic'])
  fix e1 g1
  assume l1: "live_grant f (first_lookup d) s tr pid eng = (e1, Done g1)"
    and rest: "(if first_pooled d (pg_endpoint g1) (pg_generation g1) then (e1, Done g1)
       else chain (live_grant f (gated_lookup d) s tr pid e1) (\<lambda>eng g.
         if gated_pooled d (pg_endpoint g) (pg_generation g) then (eng, Done g)
         else (case reconnect_loop f s tr pid (reconnect_rounds d) 0 (Suc (pg_attempts g)) g eng of
                 Some r \<Rightarrow> r | None \<Rightarrow> (eng, Panics)))) = (eng', res)"
  show thesis
  proof (cases "first_pooled d (pg_endpoint g1) (pg_generation g1)")
    case True
    with rest have eq: "e1 = eng'" "res = Done g1" by simp_all
    show thesis by (rule that(2) [OF l1 [unfolded eq(1)] eq(2)])
  next
    case False
    with rest have "chain (live_grant f (gated_lookup d) s tr pid e1) (\<lambda>eng g.
         if gated_pooled d (pg_endpoint g) (pg_generation g) then (eng, Done g)
         else (case reconnect_loop f s tr pid (reconnect_rounds d) 0 (Suc (pg_attempts g)) g eng of
                 Some r \<Rightarrow> r | None \<Rightarrow> (eng, Panics))) = (eng', res)" by simp
    then show thesis
    proof (elim chain_result [OF _ live_grant_no_panic'])
      fix e2 g2
      assume l2: "live_grant f (gated_lookup d) s tr pid e1 = (e2, Done g2)"
        and rest: "(if gated_pooled d (pg_endpoint g2) (pg_generation g2) then (e2, Done g2)
          else (case reconnect_loop f s tr pid (reconnect_rounds d) 0 (Suc (pg_attempts g2)) g2 e2 of
                  Some r \<Rightarrow> r | None \<Rightarrow> (e2, Panics))) = (eng', res)"
      show thesis
      proof (cases "gated_pooled d (pg_endpoint g2) (pg_generation g2)")
        case True
        with rest have eq: "e2 = eng'" "res = Done g2" by simp_all
        show thesis by (rule that(3) [OF l1 l2 [unfolded eq(1)] eq(2)])
      next
        case False
        with rest show thesis by (intro that(4) [OF l1 l2]) simp
      qed
    qed (rule that(1))
  qed
qed (rule that(1))

lemma live_grant_twice:
  assumes "live_grant f w s tr pid e0 = (e1, Done g1)" "live_grant f w' s tr pid e1 = (e2, Done g2)"
  shows "pg_generation g2 = pg_generation g1"
  using live_grant_Done [OF assms(2)] live_grant_Done [OF assms(1)]
  by (auto elim!: holdsD)

lemma connect_result:
  assumes "store_wf (eng_store eng)" "connect_existing_profile f d s tr pid eng = (eng', res)"
  shows "res \<noteq> Panics \<and> (\<forall>g'. res = Done g' \<longrightarrow> holds (key_of s tr pid) g' eng' \<and> targets_kept_from eng eng'
    \<and> (\<exists>g. kv_get (eng_grants eng) (key_of s tr pid) = Some g \<and> renewed_or_same pid g g' eng eng'))"
  using assms(2)
proof (cases rule: connect_cases)
  case (2 g)
  from live_grant_Done [OF 2(1)] 2(2) show ?thesis
    by (auto simp: renewed_or_same_def targets_kept_from_def)
next
  case (3 e1 g1 g)
  from live_grant_Done [OF 3(1)] live_grant_Done [OF 3(2)] live_grant_twice [OF 3(1,2)] 3(3) show ?thesis
    by (auto simp: renewed_or_same_def targets_kept_from_def)
next
  case (4 e1 g1 e2 g2)
  note g = live_grant_Done [OF 4(1)] live_grant_Done [OF 4(2)] live_grant_twice [OF 4(1,2)]
  have "holds (key_of s tr pid) g2 e2" "store_wf (eng_store e2)" using g assms(1) by simp_all
  from reconnect_loop_ends [OF this(1) _ this(2), of "Suc (pg_attempts g2)" f "reconnect_rounds d" 0] 4(3)
  have "res \<noteq> Panics"
    and fin: "\<And>g'. res = Done g' \<Longrightarrow> holds (key_of s tr pid) g' eng' \<and> no_target_of pid (pg_generation g2) eng'
      \<and> later_generation (pg_generation g2) (pg_generation g')
      \<and> (\<forall>s t r. find_target s t (eng_store eng') = Some r \<longrightarrow> find_target s t (eng_store e2) = Some r)"
    by auto
  with g show ?thesis
    by (auto simp: renewed_or_same_def targets_kept_from_def)
qed simp

section \<open>Lemmas on binding and revalidation\<close>

text \<open>A target of a connection generation needs the live grant of that generation.\<close>

definition generation_proven :: "browser_answers \<Rightarrow> string \<Rightarrow> 'doc target_record \<Rightarrow> 'doc browser_engine \<Rightarrow> bool" where
  "generation_proven a s r eng =
     (target_generation r = 0
      \<or> (\<exists>g. kv_get (eng_grants eng) (profile_key s (transport_session r) (target_pid r)) = Some g
           \<and> pg_generation g = target_generation r
           \<and> \<not> profile_grant_expired ((fst (ans_grant_lookup a))\<lparr>revoked_now := eng_revoked eng\<rparr>)
                 (snd (ans_grant_lookup a)) g
           \<and> authorization_context_matches ((fst (ans_grant_lookup a))\<lparr>revoked_now := eng_revoked eng\<rparr>) g))"

lemma generation_gate_Done:
  "generation_gate f a s r eng = (eng', Done u) \<Longrightarrow>
     eng_store eng' = eng_store eng \<and> eng_managed eng' = eng_managed eng \<and> generation_proven a s r eng"
  by (auto simp: generation_proven_def generation_gate_def chain_Done live_grant_def
           split: if_splits option.splits dest!: existing_profile_grant_Done)

lemma checked_endpoint_Done:
  "checked_endpoint x pid = Done ep \<longleftrightarrow> x = Inr (Some ep) \<and> ep_owner_pid ep = pid"
  by (auto simp: checked_endpoint_def split: sum.splits option.splits if_splits)

lemma native_window_checked_Done:
  "native_window_checked a pid = Done n \<longleftrightarrow> ans_native a = Inr n \<and> native_owner_pid n = pid"
  by (auto simp: native_window_checked_def split: sum.splits if_splits)

lemma explicit_tab_Done:
  "explicit_tab r tab = Done tb \<longleftrightarrow> (\<exists>i. tab = Some i \<and> kv_get (tabs r) i = Some tb)"
  by (auto simp: explicit_tab_def split: option.splits)

text \<open>What the window gate proves of the tab: its page is live in the window it was bound in, and
  that window is the native one, by its geometry or because there is only one of each.\<close>

definition tab_in_window ::
    "browser_answers \<Rightarrow> 'doc target_record \<Rightarrow> 'doc tab_record \<Rightarrow> native_window \<Rightarrow> cdp_candidate list \<Rightarrow> bool" where
  "tab_in_window a r tb n cs =
     (\<exists>c \<in> set cs. cand_target c = tab_cdp_target tb \<and> cand_window c = target_cdp_window r
        \<and> ((target_cdp_window r \<noteq> None
              \<and> (\<exists>b. cand_bounds c = Some b \<and> approx_eq b (native_win_bounds n) BOUNDS_TOLERANCE_PX))
           \<or> ans_only_window a = Inr (Some True)))"

lemma window_gate_Done: "window_gate a r tb n cs = Done u \<Longrightarrow> tab_in_window a r tb n cs"
  by (auto simp: window_gate_def tab_in_window_def find_Some_iff
           split: option.splits if_splits sum.splits dest!: cardinality_exact_member)

definition access_proven :: "browser_answers \<Rightarrow> string \<Rightarrow> 'doc target_record \<Rightarrow> 'doc browser_engine \<Rightarrow> bool" where
  "access_proven a s r eng =
     (case access_class r of
        DriverOwned \<Rightarrow> driver_owned_for s (transport_session r) (target_pid r) eng
      | ExistingProfileApproved \<Rightarrow> target_generation r \<noteq> 0
      | EmbeddedApplicationAccess \<Rightarrow>
          (\<exists>cls. ans_classification a = Inr cls \<and> process_role cls = EmbeddedApplication)
      | ExternalConsumerBrowser \<Rightarrow> False)"

lemma access_gate_Done: "access_gate a s r eng = Done u \<Longrightarrow> access_proven a s r eng"
  by (auto simp: access_gate_def access_proven_def split: endpoint_access.splits sum.splits)

lemma origin_gate_Done:
  "origin_gate parse_url mani a = Done u \<Longrightarrow>
     (\<forall>m. mani = Some m \<longrightarrow> (\<exists>url. ans_live_url a = Inr url \<and> authorize_browser_url parse_url m url = Inr ()))"
  by (auto simp: origin_gate_def split: sum.splits)

lemma driver_owned_managed:
  "eng_managed e' = eng_managed e \<Longrightarrow> driver_owned_for s tr pid e' = driver_owned_for s tr pid e"
  by (auto simp: driver_owned_for_def is_driver_owned_pid_for_session_def split: option.splits)


lemma revalidate_capability_Done:
  assumes "revalidate_capability f a s t tab eng = (eng', Done (r, tb))"
  shows "get_target s t (eng_store eng) = Inr r \<and> quality r = Exact
    \<and> (\<exists>i. tab = Some i \<and> kv_get (tabs r) i = Some tb) \<and> tab_generation tb = target_generation r
    \<and> generation_proven a s r eng
    \<and> access_proven a s r eng"
proof -
  from assms obtain e1 where c: "get_target s t (eng_store eng) = Inr r" "quality r = Exact"
    "explicit_tab r tab = Done tb" "target_generation r = tab_generation tb"
    and gen: "generation_gate f a s r eng = (e1, Done ())" and acc: "access_gate a s r e1 = Done ()"
    by (auto simp: revalidate_capability_def chain_Done)
  note gate = generation_gate_Done [OF gen]
  have "driver_owned_for s tr pid e1 = driver_owned_for s tr pid eng" for tr pid
    using gate by (intro driver_owned_managed) simp
  then have proven: "access_proven a s r eng"
    using access_gate_Done [OF acc] by (cases "access_class r") (simp_all add: access_proven_def)
  from c(3) have "\<exists>i. tab = Some i \<and> kv_get (tabs r) i = Some tb" by (simp add: explicit_tab_Done)
  with gate proven c show ?thesis by simp
qed

definition live_proven ::
    "url_parser \<Rightarrow> session_manifest option \<Rightarrow> browser_answers \<Rightarrow> 'doc target_record \<Rightarrow> 'doc tab_record \<Rightarrow> bool" where
  "live_proven parse_url mani a r tb =
     ((\<exists>fp. ans_fingerprint a = Inr fp \<and> fingerprint_matches (target_fingerprint r) fp)
      \<and> (\<exists>ep. (if target_generation r \<noteq> 0 then ans_reproved a else ans_discovered a) = Inr (Some ep)
            \<and> ep_owner_pid ep = target_pid r \<and> ep_ws_url ep = ws_url r \<and> ep_transport ep = target_transport r)
      \<and> (\<exists>n cs. ans_native a = Inr n \<and> native_owner_pid n = target_pid r
            \<and> ans_candidates a = Inr cs \<and> tab_in_window a r tb n cs)
      \<and> (\<forall>m. mani = Some m \<longrightarrow>
            (\<exists>url. ans_live_url a = Inr url \<and> authorize_browser_url parse_url m url = Inr ())))"

lemma revalidate_live_Done:
  assumes "revalidate_live f parse_url mani a s r tb eng = (eng', Done v)"
  shows "live_proven parse_url mani a r tb \<and> val_record v = r \<and> val_tab v = tb"
proof -
  from assms obtain fp n ep cs where
    "ans_fingerprint a = Inr fp" "fingerprint_matches (target_fingerprint r) fp"
    "native_window_checked a (target_pid r) = Done n"
    "(if target_generation r \<noteq> 0 then existing_profile_endpoint a (target_pid r)
              else owned_endpoint_for a (target_pid r)) = Done ep"
    "ep_ws_url ep = ws_url r" "ep_transport ep = target_transport r"
    "ans_candidates a = Inr cs" and w: "window_gate a r tb n cs = Done ()"
    and o: "origin_gate parse_url mani a = Done ()" and "val_record v = r" "val_tab v = tb"
    by (auto simp: revalidate_live_def chain_Done)
  with window_gate_Done [OF w] origin_gate_Done [OF o] show ?thesis
    by (auto simp: live_proven_def native_window_checked_Done existing_profile_endpoint_def
          owned_endpoint_for_def checked_endpoint_Done split: if_splits)
qed


section \<open>Properties\<close>

text \<open>Reconnecting ends. Connecting through an existing-profile grant always returns a
  connection or a refusal: the loop runs out of reconnect attempts before it runs out of rounds,
  and, as long as nothing else touches the grants meanwhile, neither of its \<open>expect\<close>s fails.\<close>

theorem reconnect_terminates:
  assumes "store_wf (eng_store eng)"
  shows "snd (connect_existing_profile f d s tr pid eng) \<noteq> Panics"
  using connect_result [OF assms, of f d s tr pid] by (cases "connect_existing_profile f d s tr pid eng") auto

text \<open>A reconnect kills the capabilities of the connection before it. When connecting through
  a grant succeeds, either the grant still has the generation it had and no capability changed,
  or its generation is a later one and no session holds a target of the old one any more; in
  either case no target appears.\<close>

theorem reconnect_kills_old_capabilities:
  assumes "store_wf (eng_store eng)"
    and "connect_existing_profile f d s tr pid eng = (eng', Done g')"
  shows "\<exists>g. kv_get (eng_grants eng) (profile_key s tr pid) = Some g
    \<and> (pg_generation g' = pg_generation g \<and> eng_store eng' = eng_store eng
       \<or> later_generation (pg_generation g) (pg_generation g')
         \<and> (\<forall>s' t r. get_target s' t (eng_store eng') = Inr r \<longrightarrow>
               target_pid r \<noteq> pid \<or> target_generation r \<noteq> pg_generation g))
    \<and> (\<forall>s' t r. get_target s' t (eng_store eng') = Inr r \<longrightarrow> get_target s' t (eng_store eng) = Inr r)"
  using connect_result [OF assms]
  by (auto simp: renewed_or_same_def targets_kept_from_def no_target_of_def of_endpoint_def get_target_Inr)



definition authority_for ::
    "browser_answers \<Rightarrow> string \<Rightarrow> string option \<Rightarrow> int \<Rightarrow> nat \<Rightarrow> 'doc browser_engine \<Rightarrow> bool" where
  "authority_for a s tr pid win eng =
     ((\<exists>g. kv_get (eng_grants eng) (profile_key s tr pid) = Some g \<and> pg_window g = win
           \<and> \<not> profile_grant_expired ((fst (ans_grant_lookup a))\<lparr>revoked_now := eng_revoked eng\<rparr>)
                 (snd (ans_grant_lookup a)) g
           \<and> authorization_context_matches ((fst (ans_grant_lookup a))\<lparr>revoked_now := eng_revoked eng\<rparr>) g)
      \<or> driver_owned_for s tr pid eng)"

lemma choose_candidate_Exact:
  "choose_candidate a n cs = Done (c, Exact) \<Longrightarrow>
     correlate n cs BOUNDS_TOLERANCE_PX = Bound c Exact
     \<or> ans_only_window a = Inr (Some True)
       \<and> cardinality_exact_candidate (native_win_title n) cs (Some True) = Some c"
  by (auto simp: choose_candidate_def dest: cardinality_exact_member
           split: binding_outcome.splits binding_quality.splits sum.splits option.splits)

lemma bound_target_fields [simp]:
  "target_pid (bound_target a tr pid win acc g fp ep n cs c q) = pid"
  "target_window (bound_target a tr pid win acc g fp ep n cs c q) = win"
  "access_class (bound_target a tr pid win acc g fp ep n cs c q) = acc"
  "quality (bound_target a tr pid win acc g fp ep n cs c q) = q"
  "target_generation (bound_target a tr pid win acc g fp ep n cs c q) = grant_generation g"
  "target_cdp (bound_target a tr pid win acc g fp ep n cs c q) = cand_target c"
  by (simp_all add: bound_target_def)

lemma gather_evidence_Done:
  assumes "gather_evidence f a s tr pid win eng = (eng', Done ev)" "ans_classification a = Inr cls"
  shows "ev_access ev \<noteq> ExternalConsumerBrowser
    \<and> (process_role cls = StandaloneConsumer \<longrightarrow> authority_for a s tr pid win eng)
    \<and> ans_native a = Inr (ev_native ev) \<and> native_owner_pid (ev_native ev) = pid"
proof -
  from assms obtain e1 where
    look: "existing_profile_grant f (ans_grant_lookup a) s tr pid eng = (e1, Done (ev_grant ev))"
    and acc: "endpoint_access_class (ev_grant ev \<noteq> None) (driver_owned_for s tr pid e1) (process_role cls) = Inr (ev_access ev)"
    and still: "case ev_grant ev of None \<Rightarrow> True | Some h \<Rightarrow> grant_still_describes h (ev_fingerprint ev) (ev_endpoint ev) win"
    and nat: "ans_native a = Inr (ev_native ev)" "native_owner_pid (ev_native ev) = pid"
    by (auto simp: gather_evidence_def chain_Done native_window_checked_Done split: option.splits)
  note found = existing_profile_grant_Done [OF look]
  have same: "driver_owned_for s tr pid e1 = driver_owned_for s tr pid eng"
    using found by (intro driver_owned_managed) simp
  have "authority_for a s tr pid win eng" if "process_role cls = StandaloneConsumer"
  proof (cases "ev_grant ev")
    case None
    with that acc same show ?thesis
      by (simp add: authority_for_def endpoint_access_class_def split: if_splits)
  next
    case (Some h)
    with found still show ?thesis
      by (auto simp: authority_for_def grant_still_describes_def split: option.splits)
  qed
  with acc nat show ?thesis by (auto simp: endpoint_access_class_def split: if_splits process_role.splits)
qed

text \<open>Binding asks for authority first. When a native window of a browser is bound, a target of
  this session is stored for exactly that process and window; a personal consumer browser is only
  ever bound through a live existing-profile grant for that window, or when the driver itself
  launched the process for this session or its transport; and the binding is exact only by a
  correlation of bounds or by the count of windows, else it is heuristic and never mutates.\<close>

theorem binding_needs_authority:
  assumes "bind_native f a s tr pid win eng = (eng', Done i)"
    and "ans_classification a = Inr cls"
  shows "(process_role cls = StandaloneConsumer \<longrightarrow> authority_for a s tr pid win eng)
    \<and> (\<exists>r. get_target s i (eng_store eng') = Inr r \<and> target_pid r = pid \<and> target_window r = win
          \<and> access_class r \<noteq> ExternalConsumerBrowser
          \<and> (quality r = Exact \<longrightarrow> (\<exists>n cs c. ans_native a = Inr n \<and> native_owner_pid n = pid
               \<and> ans_candidates a = Inr cs \<and> target_cdp r = cand_target c
               \<and> (correlate n cs BOUNDS_TOLERANCE_PX = Bound c Exact
                  \<or> ans_only_window a = Inr (Some True)
                    \<and> cardinality_exact_candidate (native_win_title n) cs (Some True) = Some c))))"
proof -
  from assms(1) obtain e1 ev e2 g cs cq where
    ev: "gather_evidence f a s tr pid win eng = (e1, Done ev)"
    and "connect_binding f a s tr pid (ev_grant ev) e1 = (e2, Done g)"
    and cs: "of_sum (ans_candidates a) = Done cs"
    and cq: "choose_candidate a (ev_native ev) cs = Done cq"
    and st: "eng' = e2\<lparr>eng_store := fst (mint_target (ans_fresh a 0) s
       (bound_target a tr pid win (ev_access ev) g (ev_fingerprint ev) (ev_endpoint ev)
          (ev_native ev) cs (fst cq) (snd cq)) (eng_store e2))\<rparr>"
    and minted: "i = snd (mint_target (ans_fresh a 0) s
       (bound_target a tr pid win (ev_access ev) g (ev_fingerprint ev) (ev_endpoint ev)
          (ev_native ev) cs (fst cq) (snd cq)) (eng_store e2))"
    unfolding bind_native_def chain_Done Let_def prod.inject outcome.inject by blast
  let ?r = "bound_target a tr pid win (ev_access ev) g (ev_fingerprint ev) (ev_endpoint ev)
          (ev_native ev) cs (fst cq) (snd cq)"
  from minted have i: "i = ''bt-'' @ ans_fresh a 0" by (simp add: mint_target_def Let_def)
  have "find_target s i (eng_store eng') = Some (?r\<lparr>target_id := i\<rparr>)"
    unfolding st by (simp add: find_target_mint i)
  moreover have "quality ?r = Exact \<Longrightarrow>
      correlate (ev_native ev) cs BOUNDS_TOLERANCE_PX = Bound (fst cq) Exact
      \<or> ans_only_window a = Inr (Some True)
        \<and> cardinality_exact_candidate (native_win_title (ev_native ev)) cs (Some True) = Some (fst cq)"
    using choose_candidate_Exact [of a "ev_native ev" cs "fst cq"] cq by (cases cq) auto
  moreover from cs have "ans_candidates a = Inr cs" by (cases "ans_candidates a") auto
  ultimately show ?thesis
    using gather_evidence_Done [OF ev assms(2)]
    by (simp add: get_target_Inr) (blast intro: refl)
qed

text \<open>An ended grant comes back to its old targets. Generations are counted per live grant: a
  grant minted where none is live begins at one again. So when the first grant of a session and
  process has ended and a new one is approved, for whichever window, a target bound under the
  ended grant passes the whole capability part of the revalidation again, without being bound
  anew and whatever window the new grant is for; only the checks of the live browser remain.\<close>

theorem renewed_grant_revives_old_targets:
  assumes "get_target s t (eng_store eng) = Inr r" "quality r = Exact"
    and "kv_get (tabs r) i = Some tb" "tab_generation tb = target_generation r"
    and "target_generation r = 1" "access_class r = ExistingProfileApproved"
    and "kv_get (eng_grants eng) (profile_key s (transport_session r) (target_pid r)) = None"
    and "mint_key q = profile_key s (transport_session r) (target_pid r)"
    and "mint env now q (eng_grants eng) = (gs, g)"
    and "\<not> profile_grant_expired ((fst (ans_grant_lookup a))\<lparr>revoked_now := eng_revoked eng\<rparr>)
           (snd (ans_grant_lookup a)) g"
    and "authorization_context_matches ((fst (ans_grant_lookup a))\<lparr>revoked_now := eng_revoked eng\<rparr>) g"
  shows "snd (revalidate_capability f a s t (Some i) (eng\<lparr>eng_grants := gs\<rparr>)) = Done (r, tb)
    \<and> pg_window g = mint_window q"
proof -
  have g: "gs = kv_put (mint_key q) g (eng_grants eng)" "pg_generation g = 1" "pg_window g = mint_window q"
    using assms(7,8,9) by (auto simp: mint_def Let_def)
  have "\<exists>e. generation_gate f a s r (eng\<lparr>eng_grants := gs\<rparr>) = (e, Done ())"
    using assms(5,8,10,11) g
    by (simp add: generation_gate_def live_grant_def existing_profile_grant_def lookup_profile_def
          Let_def require_def)
  with assms(1-6) g(3) show ?thesis
    by (auto simp: revalidate_capability_def explicit_tab_def require_def access_gate_def)
qed


section \<open>Examples\<close>

definition example_environment :: surroundings where
  "example_environment =
     \<lparr>mode_now = Inr Standard, managed_now = None, user_now = None, revoked_now = []\<rparr>"

definition example_mint_request :: mint_request where
  "example_mint_request =
     \<lparr>mint_public = ''s'', mint_transport = Some ''t'', mint_pid = 42, mint_window = 8,
      mint_fingerprint = target_fingerprint example_target, mint_browser = ''chromium'',
      mint_product = GoogleChrome, mint_endpoint = ''ws'', mint_cleanup = False, mint_consent = None\<rparr>"

definition example_grant :: profile_grant where
  "example_grant =
     \<lparr>pg_public = ''s'', pg_transport = ''t'', pg_pid = 42, pg_window = 7,
      pg_fingerprint = target_fingerprint example_target, pg_browser = ''chromium'',
      pg_product = GoogleChrome, pg_endpoint = ''ws'', pg_generation = 2, pg_cleanup = False,
      pg_attempts = 3, pg_consent = None, pg_mode = Standard, pg_managed = None, pg_user = None,
      pg_created_at = 0, pg_last_used_at = 0\<rparr>"

definition example_endpoint :: owned_endpoint where
  "example_endpoint = \<lparr>ep_ws_url = ''ws'', ep_transport = DevToolsActivePort, ep_owner_pid = 42\<rparr>"

definition example_class :: classification where
  "example_class =
     \<lparr>is_browser = True, family = ChromiumFamily, process_role = StandaloneConsumer, supports_cdp = True\<rparr>"

definition example_page :: cdp_candidate where
  "example_page = \<lparr>cand_target = ''c'', cand_window = Some 3, cand_title = ''Inbox'', cand_url = ''u'',
     cand_bounds = Some example_rect\<rparr>"

definition example_round :: reconnect_round where
  "example_round =
     \<lparr>rr_in_time = True, rr_classification = Inr example_class,
      rr_fingerprint = Inr (target_fingerprint example_target), rr_endpoint = Inr (Some example_endpoint),
      rr_bump_at = 5, rr_redial = Redialed, rr_lookup = (example_environment, 6)\<rparr>"

definition example_dialing :: "bool \<Rightarrow> dialing" where
  "example_dialing pooled =
     \<lparr>first_lookup = (example_environment, 3), first_pooled = (\<lambda>_ _. pooled),
      gated_lookup = (example_environment, 4), gated_pooled = (\<lambda>_ _. pooled),
      reconnect_rounds = (\<lambda>_. example_round)\<rparr>"

definition example_answers :: browser_answers where
  "example_answers =
     \<lparr>ans_classification = Inr example_class, ans_grant_lookup = (example_environment, 2),
      ans_native = Inr example_native, ans_fingerprint = Inr (target_fingerprint example_target),
      ans_discovered = Inr None, ans_reproved = Inr (Some example_endpoint),
      ans_dialing = example_dialing True, ans_connected = False, ans_candidates = Inr [example_page],
      ans_only_window = Inr None, ans_attached = Inr ''sid'', ans_live_url = Inr [],
      ans_fresh = (\<lambda>k. if k = 0 then ''new'' else ''tab'')\<rparr>"

definition example_bound_target :: "nat \<Rightarrow> unit target_record" where
  "example_bound_target gen = example_target\<lparr>target_id := ''bt-a'', target_generation := gen,
     tabs := [(''tab-a'', \<lparr>tab_id = ''tab-a'', tab_cdp_target = ''c'', tab_title = ''Inbox'', tab_url = ''u'',
               tab_active = None, tab_generation = gen, tab_snapshots = []\<rparr>)]\<rparr>"

definition example_engine :: "nat \<Rightarrow> profile_grant list \<Rightarrow> unit browser_engine" where
  "example_engine gen gs =
     \<lparr>eng_store = \<lparr>store_sessions = [(''s'', [(''bt-a'', example_bound_target gen)])], next_snapshot_id = 5\<rparr>,
      eng_grants = map (\<lambda>g. (profile_key ''s'' (Some ''t'') 42, g)) gs, eng_managed = [],
      eng_pending = [], eng_revoked = [], eng_pool = []\<rparr>"

lemma example_wf: "store_wf (eng_store (example_engine gen gs))"
  by (simp add: example_engine_def store_wf_def kv_wf_def)

lemma example_target_found:
  "get_target ''s'' ''bt-a'' (eng_store (example_engine gen gs)) = Inr (example_bound_target gen)"
  by (simp add: get_target_def targets_of_def example_engine_def)

lemmas engine_eval = example_environment_def example_grant_def example_endpoint_def example_class_def
  example_page_def example_round_def example_dialing_def example_answers_def example_bound_target_def
  example_target_def example_native_def profile_key_def profile_grant_expired_def
  authorization_context_matches_def GRANT_IDLE_TTL_def GRANT_ABSOLUTE_TTL_def secs_def
  lookup_profile_def existing_profile_grant_def live_grant_def connect_existing_profile_def Let_def

theorem reconnect_terminates_witness:
  "snd (connect_existing_profile (\<lambda>_. True) (example_dialing False) ''s'' (Some ''t'') 42
     (example_engine 2 [example_grant])) \<noteq> Panics"
  by (rule reconnect_terminates [OF example_wf])

theorem renewed_grant_revives_old_targets_witness:
  "target_window (example_bound_target 1) = 7 \<and> mint_window example_mint_request = 8
   \<and> snd (revalidate_capability (\<lambda>_. True) example_answers ''s'' ''bt-a'' (Some ''tab-a'')
        ((example_engine 1 [])\<lparr>eng_grants :=
           fst (mint example_environment 0 example_mint_request [])\<rparr>))
      = Done (example_bound_target 1, snd (hd (tabs (example_bound_target 1))))"
proof -
  have mint: "mint example_environment 0 example_mint_request (eng_grants (example_engine 1 [])) =
      (fst (mint example_environment 0 example_mint_request []), snd (mint example_environment 0 example_mint_request []))"
    by (simp add: example_engine_def)
  note * = renewed_grant_revives_old_targets [OF example_target_found [of 1 "[]"] _ _ _ _ _ _ _ mint,
      of "''tab-a''" "snd (hd (tabs (example_bound_target 1)))" example_answers "\<lambda>_. True"]
  show ?thesis
    by (rule conjI [OF _ conjI [OF _ conjunct1 [OF *]]])
       (simp_all add: engine_eval example_engine_def example_mint_request_def mint_key_def mint_def)
qed


text \<open>A reconnect, with the target of the old generation dropped.\<close>

lemma example_reconnects:
  "connect_existing_profile (\<lambda>_. True) (example_dialing False) ''s'' (Some ''t'') 42
     (example_engine 2 [example_grant]) =
   ((example_engine 3 [example_grant\<lparr>pg_attempts := 2, pg_generation := 3, pg_last_used_at := 6\<rparr>])
      \<lparr>eng_store := \<lparr>store_sessions = [(''s'', [])], next_snapshot_id = 5\<rparr>,
       eng_pool := [ReconnectExisting ''ws'' 2 3]\<rparr>,
    Done (example_grant\<lparr>pg_attempts := 2, pg_generation := 3, pg_last_used_at := 6\<rparr>))"
  by (simp add: engine_eval example_engine_def reconnect_loop.simps(2) reprove_round_def
        bump_generation_def next_profile_generation_def invalidate_endpoint_generation_def
        kv_retain_def of_endpoint_def fingerprint_matches_def)

theorem reconnect_kills_old_capabilities_witness:
  "\<not> (\<exists>r. get_target ''s'' ''bt-a'' \<lparr>store_sessions = [(''s'', [])], next_snapshot_id = 5\<rparr> =
        Inr (r :: unit target_record) \<and> target_pid r = 42 \<and> target_generation r = 2)"
  using reconnect_kills_old_capabilities [OF example_wf example_reconnects]
  by (simp add: example_engine_def example_grant_def)

lemma example_revalidates:
  "revalidate_for_mutation (\<lambda>_. True) (\<lambda>_. None) None example_answers ''s'' ''bt-a'' (Some ''tab-a'')
     (example_engine 2 [example_grant]) =
   (example_engine 2 [example_grant\<lparr>pg_last_used_at := 3\<rparr>],
    Done \<lparr>val_record = example_bound_target 2, val_tab = snd (hd (tabs (example_bound_target 2))),
          val_native = example_native, val_cdp_session = ''sid''\<rparr>)"
  by (simp add: engine_eval example_engine_def revalidate_for_mutation_def revalidate_capability_def
        revalidate_live_def get_target_def targets_of_def require_def explicit_tab_def generation_gate_def
        access_gate_def native_window_checked_def existing_profile_endpoint_def checked_endpoint_def
        connection_for_record_def window_gate_def origin_gate_def fingerprint_matches_def
        approx_eq_def BOUNDS_TOLERANCE_PX_def)


lemma example_binds:
  "snd (bind_native (\<lambda>_. True) example_answers ''s'' (Some ''t'') 42 7 (example_engine 2 [example_grant]))
     = Done ''bt-new''"
  by (simp add: engine_eval example_engine_def bind_native_def gather_evidence_def require_def
        endpoint_access_class_def native_window_checked_def existing_profile_endpoint_def
        checked_endpoint_def grant_still_describes_def fingerprint_matches_def connect_binding_def
        choose_candidate_def correlate_def window_representatives_def add_candidate_def
        bounds_match_def approx_eq_def BOUNDS_TOLERANCE_PX_def mint_target_def)

theorem binding_needs_authority_witness:
  "authority_for example_answers ''s'' (Some ''t'') 42 7 (example_engine 2 [example_grant])"
proof -
  have "ans_classification example_answers = Inr example_class"
    by (simp add: example_answers_def)
  moreover have "bind_native (\<lambda>_. True) example_answers ''s'' (Some ''t'') 42 7 (example_engine 2 [example_grant])
      = (fst (bind_native (\<lambda>_. True) example_answers ''s'' (Some ''t'') 42 7 (example_engine 2 [example_grant])),
         Done ''bt-new'')"
    by (simp add: prod_eq_iff example_binds)
  ultimately show ?thesis using binding_needs_authority [of "\<lambda>_. True" example_answers "''s''"]
    by (metis (no_types, lifting) example_class_def classification.select_convs(3))
qed

end
