(* ===== verification/ToolArgs.thy ===== *)
theory ToolArgs
  imports SessionAuthorization CaptureScope "HOL-Library.List_Lexorder" "HOL-Library.Char_ord"
begin

text \<open>
  The arguments of a tool call on their way to the tool, from \<open>cua-driver-core/src/tool.rs\<close> and
  \<open>action_target.rs\<close>: the spellings that are normalized before anything reads the call, the
  evidence a transport adapter hands over in reserved fields, the private names the runtime gives
  to the sessions of a call, and their removal from what the tool returns.
\<close>

section \<open>Updating an object\<close>

text \<open>\<open>Map::insert\<close> on entries in key order.\<close>

fun obj_put :: "string \<Rightarrow> json \<Rightarrow> (string \<times> json) list \<Rightarrow> (string \<times> json) list" where
  "obj_put k v [] = [(k, v)]"
| "obj_put k v ((k', v') # m) =
     (if k = k' then (k, v) # m
      else if k < k' then (k, v) # (k', v') # m
      else (k', v') # obj_put k v m)"

lemma map_of_obj_put [simp]: "map_of (obj_put k v m) = (map_of m)(k \<mapsto> v)"
  by (induction m) (auto simp: fun_eq_iff)

definition json_put :: "string \<Rightarrow> json \<Rightarrow> json \<Rightarrow> json" where
  "json_put k v w = (case w of JObj m \<Rightarrow> JObj (obj_put k v m) | _ \<Rightarrow> w)"

definition json_del :: "string \<Rightarrow> json \<Rightarrow> json" where
  "json_del k w = (case w of JObj m \<Rightarrow> JObj (kv_del k m) | _ \<Rightarrow> w)"

definition is_object :: "json \<Rightarrow> bool" where
  "is_object v = (as_object v \<noteq> None)"

lemma is_object_simps [simp]:
  "is_object (JObj m)" "\<not> is_object JNull" "\<not> is_object (JBool b)" "\<not> is_object (JNum n)"
  "\<not> is_object (JStr s)" "\<not> is_object (JArr vs)"
  by (simp_all add: is_object_def)

lemma is_object_put [simp]: "is_object (json_put k v w) = is_object w"
  by (cases w) (simp_all add: json_put_def)

lemma is_object_del [simp]: "is_object (json_del k w) = is_object w"
  by (cases w) (simp_all add: json_del_def)

lemma json_get_put [simp]:
  "json_get (json_put k v w) k' = (if k = k' \<and> is_object w then Some v else json_get w k')"
  by (cases w) (simp_all add: json_put_def)

lemma json_get_del [simp]:
  "json_get (json_del k w) k' = (if k = k' then None else json_get w k')"
  by (cases w) (simp_all add: json_del_def kv_get_del)

lemma json_get_not_object: "\<not> is_object w \<Longrightarrow> json_get w k = None"
  by (cases w) simp_all


section \<open>Spellings\<close>

definition schema_accepts_delivery_mode :: "json \<Rightarrow> bool" where
  "schema_accepts_delivery_mode schema =
     (case json_pointer schema [''properties'', ''delivery_mode''] of
        None \<Rightarrow> False | Some v \<Rightarrow> is_object v)"

definition supplied_mode :: "json \<Rightarrow> json option" where
  "supplied_mode args =
     (case json_get args ''delivery_mode'' of Some v \<Rightarrow> Some v | None \<Rightarrow> json_get args ''dispatch'')"

definition canonical_mode :: "json \<Rightarrow> string" where
  "canonical_mode supplied =
     (case as_str supplied of
        Some s \<Rightarrow> if to_ascii_lowercase s = ''foreground'' then ''foreground'' else ''background''
      | None \<Rightarrow> ''background'')"

definition normalize_delivery_mode_args :: "json \<Rightarrow> json \<Rightarrow> json" where
  "normalize_delivery_mode_args schema args =
     (if \<not> schema_accepts_delivery_mode schema then args
      else case supplied_mode args of
        None \<Rightarrow> args
      | Some v \<Rightarrow> json_put ''delivery_mode'' (JStr (canonical_mode v)) (json_del ''dispatch'' args))"

definition TARGETED_TOOLS :: "string list" where
  "TARGETED_TOOLS = [''move_cursor'', ''click'', ''drag'', ''scroll'', ''type_text'', ''press_key'', ''hotkey'']"

definition supports_typed_target :: "string \<Rightarrow> bool" where
  "supports_typed_target tool = (tool \<in> set TARGETED_TOOLS)"

definition window_target_of :: "(string \<times> json) list \<Rightarrow> string + nat \<times> nat" where
  "window_target_of m =
     (case Option.bind (map_of m ''pid'') as_u64 of
        None \<Rightarrow> Inl ''window target requires a positive 32-bit pid''
      | Some pid \<Rightarrow>
          if pid = 0 \<or> 4294967295 < pid then Inl ''window target requires a positive 32-bit pid''
          else (case Option.bind (map_of m ''window_id'') as_u64 of
                  None \<Rightarrow> Inl ''window target requires a positive window_id''
                | Some w \<Rightarrow>
                    if w = 0 then Inl ''window target requires a positive window_id''
                    else if length m \<noteq> 3 then Inl ''window target accepts only kind, pid, and window_id''
                    else Inr (pid, w)))"

definition desktop_target_of :: "(string \<times> json) list \<Rightarrow> string + unit" where
  "desktop_target_of m =
     (case Option.bind (map_of m ''display_id'') as_str of
        None \<Rightarrow> Inl ''desktop target requires display_id''
      | Some d \<Rightarrow>
          if d = [] then Inl ''desktop target requires display_id''
          else if length m \<noteq> 2 then Inl ''desktop target accepts only kind and display_id''
          else if d \<noteq> ''primary'' then Inl (''this release supports only display_id='' @ quoted ''primary'')
          else Inr ())"

definition names_legacy_target :: "json \<Rightarrow> bool" where
  "names_legacy_target args = (json_get args ''pid'' \<noteq> None \<or> json_get args ''window_id'' \<noteq> None)"

text \<open>The tagged union of a typed target becomes the flat fields.\<close>

definition flatten_target :: "(string \<times> json) list \<Rightarrow> json \<Rightarrow> string + json" where
  "flatten_target m args =
     (case Option.bind (map_of m ''kind'') as_str of
        None \<Rightarrow> Inl ''target.kind is required''
      | Some kind \<Rightarrow>
          if kind = ''window'' then
            (case window_target_of m of
               Inl e \<Rightarrow> Inl e
             | Inr (pid, w) \<Rightarrow>
                 Inr (json_put ''window_id'' (JNum (PosInt w)) (json_put ''pid'' (JNum (PosInt pid))
                        (json_put ''scope'' (JStr ''window'') args))))
          else if kind = ''desktop'' then
            (case desktop_target_of m of
               Inl e \<Rightarrow> Inl e
             | Inr _ \<Rightarrow> Inr (json_put ''scope'' (JStr ''desktop'') args))
          else Inl ''target.kind must be window or desktop'')"

definition normalize_action_target :: "string \<Rightarrow> json \<Rightarrow> string + json" where
  "normalize_action_target tool args =
     (if \<not> is_object args then Inr args
      else case json_get args ''target'' of
        None \<Rightarrow>
          if get_str args ''scope'' = Some ''desktop'' \<and> names_legacy_target args
          then Inl ''desktop scope cannot be combined with pid or window_id'' else Inr args
      | Some target \<Rightarrow>
          (let rest = json_del ''target'' args
           in if \<not> supports_typed_target tool then Inl (tool @ '' does not accept a per-call target'')
              else if json_get rest ''scope'' \<noteq> None \<or> names_legacy_target rest
              then Inl ''target cannot be combined with legacy scope, pid, or window_id fields''
              else (case as_object target of
                      None \<Rightarrow> Inl ''target must be an object''
                    | Some m \<Rightarrow> flatten_target m rest)))"


section \<open>Evidence of a transport adapter\<close>

record trusted_evidence =
  ev_session_id :: "string option"
  ev_transport_session_id :: "string option"
  ev_download_approved :: bool

definition no_evidence :: trusted_evidence where
  "no_evidence = \<lparr>ev_session_id = None, ev_transport_session_id = None, ev_download_approved = False\<rparr>"

definition MCP_HOST_DOWNLOAD_APPROVAL_ARG :: string where
  "MCP_HOST_DOWNLOAD_APPROVAL_ARG = ''_cua_browser_download_mcp_host_approved''"

definition nonempty_str :: "json \<Rightarrow> string \<Rightarrow> string option" where
  "nonempty_str args k = (case get_str args k of Some s \<Rightarrow> if s = [] then None else Some s | None \<Rightarrow> None)"

text \<open>What was removed as evidence would be dropped by the sanitizer anyway.\<close>

definition extract_from_adapter_args :: "json \<Rightarrow> trusted_evidence \<times> json" where
  "extract_from_adapter_args args =
     (\<lparr>ev_session_id = nonempty_str args ''_session_id'',
       ev_transport_session_id = nonempty_str args ''_transport_session_id'',
       ev_download_approved = (get_bool args MCP_HOST_DOWNLOAD_APPROVAL_ARG = Some True)\<rparr>,
      sanitize_reserved_args
        (json_del MCP_HOST_DOWNLOAD_APPROVAL_ARG
          (json_del ''_transport_session_id'' (json_del ''_session_id'' args))))"

definition put_some :: "string \<Rightarrow> string option \<Rightarrow> json \<Rightarrow> json" where
  "put_some k v args = (case v of None \<Rightarrow> args | Some s \<Rightarrow> json_put k (JStr s) args)"

definition apply_runtime_args :: "trusted_evidence \<Rightarrow> json \<Rightarrow> json" where
  "apply_runtime_args ev args =
     (let args = put_some ''_session_id'' (ev_session_id ev) args;
          args = put_some ''_transport_session_id'' (ev_transport_session_id ev) args
      in if ev_download_approved ev then json_put MCP_HOST_DOWNLOAD_APPROVAL_ARG (JBool True) args else args)"


section \<open>Private names of the runtime\<close>

definition runtime_prefix_of :: "auth_context \<Rightarrow> string" where
  "runtime_prefix_of c = ''__cua_runtime_'' @ daemon_generation c @ '':''"

definition process_ownership_key :: "string option \<Rightarrow> string \<Rightarrow> string" where
  "process_ownership_key session pre =
     (case session of Some s \<Rightarrow> s | None \<Rightarrow> pre @ CHR 0x00 # ''anonymous-launch'')"

definition publish_label :: "json \<Rightarrow> json" where
  "publish_label args =
     (case get_str args ''session'' of
        Some s \<Rightarrow>
          if s \<noteq> [] \<and> s \<noteq> ''default'' \<and> \<not> starts_with s ''__cua_runtime_''
          then json_put ''_public_session_label'' (JStr s) args else args
      | None \<Rightarrow> args)"

definition namespace_key :: "string \<Rightarrow> string \<Rightarrow> json \<Rightarrow> json" where
  "namespace_key pre key args =
     (case get_str args key of
        Some s \<Rightarrow>
          if s = [] \<or> s = ''default'' then args
          else json_put key (JStr (if starts_with s pre then s else pre @ s)) args
      | None \<Rightarrow> args)"

definition NAMESPACED_KEYS :: "string list" where
  "NAMESPACED_KEYS = [''session'', ''_session_id'', ''_transport_session_id'', ''cursor_id'']"

definition fill_transport :: "auth_context \<Rightarrow> json \<Rightarrow> json" where
  "fill_transport c args =
     (if json_get args ''_transport_session_id'' = None
      then put_some ''_transport_session_id'' (ctx_transport c) args else args)"

definition put_idle_ttl :: "auth_context \<Rightarrow> json \<Rightarrow> json" where
  "put_idle_ttl c args =
     (case lifecycle_idle_ttl_override c of
        None \<Rightarrow> args
      | Some d \<Rightarrow> json_put ''_session_idle_ttl_ms'' (JNum (PosInt (min (d div 1000000) (2 ^ 64 - 1)))) args)"

definition fill_session_id :: "json \<Rightarrow> json" where
  "fill_session_id args =
     (if json_get args ''_session_id'' = None
      then put_some ''_session_id'' (nonempty_str args ''session'') args else args)"

definition namespace_runtime_args :: "auth_context \<Rightarrow> trusted_evidence \<Rightarrow> json \<Rightarrow> json \<times> string" where
  "namespace_runtime_args c ev args =
     (let pre = runtime_prefix_of c
      in if \<not> is_object args then (args, pre)
         else (fold (namespace_key pre) NAMESPACED_KEYS
                 (fill_session_id (put_idle_ttl c (fill_transport c (publish_label (apply_runtime_args ev args))))),
               pre))"

definition session_requiring_tool :: "string \<Rightarrow> bool" where
  "session_requiring_tool tool =
     (tool \<notin> set [''check_permissions'', ''health_report'', ''get_session'', ''list_sessions'',
                  ''get_session_state'', ''end_session''])"

definition session_selecting_tool :: "string \<Rightarrow> bool" where
  "session_selecting_tool tool =
     (session_requiring_tool tool
      \<or> tool \<in> set [''get_session'', ''list_sessions'', ''get_session_state'', ''end_session''])"

definition is_physical_desktop_action :: "string \<Rightarrow> bool" where
  "is_physical_desktop_action tool =
     (tool \<in> set [''click'', ''double_click'', ''right_click'', ''scroll'', ''drag'', ''mouse_drag'',
        ''parallel_mouse_drag'', ''move_cursor'', ''mouse_button_down'', ''mouse_button_up'', ''type_text'',
        ''press_key'', ''hotkey'', ''set_value'', ''bring_to_front'', ''present_window'',
        ''set_window_frame'', ''end_foreground_segment'', ''prepare_dialog'', ''prepare_observation''])"

definition needs_desktop_authority :: "string \<Rightarrow> bool" where
  "needs_desktop_authority tool =
     (is_physical_desktop_action tool
      \<or> tool \<in> set [''get_desktop_state'', ''launch_app'', ''kill_app'', ''perform_secondary_action'', ''invoke_menu''])"


section \<open>What the caller sees\<close>

text \<open>\<open>str::replace\<close> with the empty string.\<close>

function strip_all :: "string \<Rightarrow> string \<Rightarrow> string" where
  "strip_all p [] = []"
| "strip_all p (c # s) =
     (if p \<noteq> [] \<and> prefix p (c # s) then strip_all p (drop (length p) (c # s))
      else c # strip_all p s)"
  by pat_completeness auto
termination
  by (relation "measure (length \<circ> snd)") (auto simp: neq_Nil_conv)

fun insert_restored :: "(string \<times> json) list \<Rightarrow> (string \<times> json) list \<Rightarrow> (string \<times> json) list \<times> bool" where
  "insert_restored [] m = (m, False)"
| "insert_restored ((k, v) # es) m =
     (let rest = insert_restored es (obj_put k v m)
      in (fst rest, map_of m k \<noteq> None \<or> snd rest))"

lemma size_entry: "e \<in> set m \<Longrightarrow> size (snd e) < size (JObj m)"
  by (induction m) auto

function restore_value :: "string \<Rightarrow> json \<Rightarrow> json \<times> bool" where
  "restore_value p (JStr s) = (JStr (strip_all p s), False)"
| "restore_value p (JArr vs) =
     (let rs = map (restore_value p) vs in (JArr (map fst rs), list_ex snd rs))"
| "restore_value p (JObj m) =
     (let rs = map (\<lambda>e. (strip_all p (fst e), restore_value p (snd e))) m;
          out = insert_restored (map (\<lambda>e. (fst e, fst (snd e))) rs) []
      in (JObj (fst out), list_ex (\<lambda>e. snd (snd e)) rs \<or> snd out))"
| "restore_value p JNull = (JNull, False)"
| "restore_value p (JBool b) = (JBool b, False)"
| "restore_value p (JNum n) = (JNum n, False)"
  by pat_completeness auto
termination
  by (relation "measure (size \<circ> snd)")
     (auto simp: less_Suc_eq_le intro: size_list_estimation' dest: size_entry)

record tool_result =
  result_texts :: "string list"
  result_structured :: "json option"
  result_error :: bool

definition collision_result :: tool_result where
  "collision_result =
     \<lparr>result_texts = [''internal runtime namespace restoration produced a duplicate output key''],
      result_structured = Some (JObj [(''code'', JStr ''runtime_output_key_collision'')]),
      result_error = True\<rparr>"

definition restore_public_runtime_result :: "string \<Rightarrow> tool_result \<Rightarrow> tool_result" where
  "restore_public_runtime_result p r =
     (let restored = map_option (restore_value p) (result_structured r)
      in if (case restored of None \<Rightarrow> False | Some v \<Rightarrow> snd v) then collision_result
         else r\<lparr>result_texts := map (strip_all p) (result_texts r),
                result_structured := map_option fst restored\<rparr>)"

end
