(* ===== verification/ToolArgsProps.thy ===== *)
theory ToolArgsProps
  imports ToolArgs
begin

text \<open>
  What the normalizations of a call's arguments guarantee: one meaning per call after the
  spellings are normalized, session names that belong to one runtime, reserved fields that only
  the runtime writes, and public names restored in what the caller sees.
\<close>

section \<open>Spellings\<close>

lemma json_put_get_str [simp]:
  "get_str (json_put k v w) k' = (if k = k' \<and> is_object w then as_str v else get_str w k')"
  by (auto simp: get_str_def)

lemma json_del_get_str [simp]: "get_str (json_del k w) k' = (if k = k' then None else get_str w k')"
  by (auto simp: get_str_def)

text \<open>A window target as the platform adapters read it.\<close>

definition names_window :: "json \<Rightarrow> nat \<Rightarrow> nat \<Rightarrow> bool" where
  "names_window args pid w =
     (get_str args ''scope'' = Some ''window'' \<and> json_get args ''pid'' = Some (JNum (PosInt pid))
      \<and> json_get args ''window_id'' = Some (JNum (PosInt w)))"

definition names_desktop :: "json \<Rightarrow> bool" where
  "names_desktop args = (get_str args ''scope'' = Some ''desktop'' \<and> \<not> names_legacy_target args)"

lemma window_target_of_Inr:
  "window_target_of m = Inr (pid, w) \<Longrightarrow> 0 < pid \<and> pid \<le> 4294967295 \<and> 0 < w"
  by (auto simp: window_target_of_def split: option.splits if_splits)

lemma flatten_target_Inr:
  assumes "flatten_target m args = Inr args'" "is_object args" "\<not> names_legacy_target args"
  shows "(\<exists>pid w. 0 < pid \<and> pid \<le> 4294967295 \<and> 0 < w \<and> names_window args' pid w) \<or> names_desktop args'"
    and "is_object args'" and "json_get args' ''target'' = json_get args ''target''"
    and "json_get args' ''delivery_mode'' = json_get args ''delivery_mode''"
    and "json_get args' ''dispatch'' = json_get args ''dispatch''"
  using assms
  by (auto simp: flatten_target_def names_window_def names_desktop_def names_legacy_target_def
           split: option.splits if_splits sum.splits prod.splits dest!: window_target_of_Inr)

lemma names_legacy_target_del [simp]:
  "names_legacy_target (json_del ''target'' args) = names_legacy_target args"
  by (simp add: names_legacy_target_def)

lemma normalized_target:
  assumes "normalize_action_target tool args = Inr args'" "is_object args"
  shows "is_object args' \<and> json_get args' ''target'' = None
    \<and> (get_str args' ''scope'' = Some ''desktop'' \<longrightarrow> \<not> names_legacy_target args')
    \<and> (json_get args ''target'' \<noteq> None \<longrightarrow> supports_typed_target tool
         \<and> ((\<exists>pid w. 0 < pid \<and> pid \<le> 4294967295 \<and> 0 < w \<and> names_window args' pid w) \<or> names_desktop args'))
    \<and> json_get args' ''delivery_mode'' = json_get args ''delivery_mode''
    \<and> json_get args' ''dispatch'' = json_get args ''dispatch''"
proof (cases "json_get args ''target''")
  case None
  with assms show ?thesis
    by (auto simp: normalize_action_target_def split: if_splits)
next
  case (Some target)
  with assms obtain m where
    m: "flatten_target m (json_del ''target'' args) = Inr args'" "\<not> names_legacy_target args" "supports_typed_target tool"
    by (auto simp: normalize_action_target_def Let_def split: if_splits option.splits)
  note f = flatten_target_Inr [OF m(1)]
  from f assms(2) m Some show ?thesis
    by (auto simp: names_window_def names_desktop_def)
qed

lemma normalized_twice:
  assumes "json_get args ''target'' = None"
    and "get_str args ''scope'' = Some ''desktop'' \<longrightarrow> \<not> names_legacy_target args"
  shows "normalize_action_target tool args = Inr args"
  using assms by (auto simp: normalize_action_target_def)

lemma canonical_mode_cases: "canonical_mode v = ''foreground'' \<or> canonical_mode v = ''background''"
  by (simp add: canonical_mode_def split: option.splits)

text \<open>What was asked for as the delivery mode, in whichever spelling.\<close>

definition asks_foreground :: "json \<Rightarrow> bool" where
  "asks_foreground args =
     (case supplied_mode args of
        None \<Rightarrow> False
      | Some v \<Rightarrow> (case as_str v of None \<Rightarrow> False | Some s \<Rightarrow> to_ascii_lowercase s = ''foreground''))"

lemma canonical_mode_foreground:
  "supplied_mode args = Some v \<Longrightarrow> (canonical_mode v = ''foreground'') = asks_foreground args"
  by (simp add: canonical_mode_def asks_foreground_def split: option.splits)

lemma asked_mode:
  "supplied_mode args = Some v \<Longrightarrow>
     canonical_mode v = (if asks_foreground args then ''foreground'' else ''background'')"
  using canonical_mode_foreground [of args v] canonical_mode_cases [of v] by (auto split: if_splits)

lemma supplied_mode_None:
  "supplied_mode args = None \<Longrightarrow> json_get args ''dispatch'' = None \<and> json_get args ''delivery_mode'' = None"
  by (simp add: supplied_mode_def split: option.splits)

lemma normalized_mode:
  assumes "schema_accepts_delivery_mode schema" "is_object args"
  shows "is_object (normalize_delivery_mode_args schema args)
    \<and> json_get (normalize_delivery_mode_args schema args) ''target'' = json_get args ''target''
    \<and> json_get (normalize_delivery_mode_args schema args) ''dispatch'' = None
    \<and> json_get (normalize_delivery_mode_args schema args) ''delivery_mode''
      = map_option (\<lambda>_. JStr (if asks_foreground args then ''foreground'' else ''background'')) (supplied_mode args)"
proof (cases "supplied_mode args")
  case None
  then show ?thesis using supplied_mode_None [OF None] assms
    by (simp add: normalize_delivery_mode_args_def)
next
  case (Some v)
  show ?thesis
    using assms asked_mode [OF Some] by (simp add: normalize_delivery_mode_args_def Some)
qed


definition example_schema :: json where
  "example_schema = JObj [(''properties'', JObj [(''delivery_mode'', JObj [])])]"

definition example_click :: json where
  "example_click = JObj [(''dispatch'', JStr ''Foreground''),
     (''target'', JObj [(''kind'', JStr ''window''), (''pid'', JNum (PosInt 42)), (''window_id'', JNum (PosInt 7))])]"

lemma lower_foreground: "to_ascii_lowercase ''Foreground'' = ''foreground''"
  by code_simp

lemma example_click_normalized:
  "normalize_action_target ''click'' (normalize_delivery_mode_args example_schema example_click)
     = Inr (JObj [(''delivery_mode'', JStr ''foreground''), (''pid'', JNum (PosInt 42)),
                  (''scope'', JStr ''window''), (''window_id'', JNum (PosInt 7))])"
  by (simp add: example_schema_def example_click_def normalize_delivery_mode_args_def
        schema_accepts_delivery_mode_def supplied_mode_def canonical_mode_def lower_foreground
        json_put_def json_del_def kv_del_def normalize_action_target_def supports_typed_target_def
        TARGETED_TOOLS_def names_legacy_target_def flatten_target_def window_target_of_def get_str_def)



section \<open>Private names\<close>

definition private_name :: "string \<Rightarrow> string \<Rightarrow> string" where
  "private_name pre s = (if s = [] \<or> s = ''default'' \<or> starts_with s pre then s else pre @ s)"

definition belongs_to :: "string \<Rightarrow> string \<Rightarrow> bool" where
  "belongs_to pre s = (s = [] \<or> s = ''default'' \<or> starts_with s pre)"

lemma private_name_belongs: "belongs_to pre (private_name pre s)"
  by (simp add: belongs_to_def private_name_def starts_with_def)

lemma get_str_object: "get_str args k = Some s \<Longrightarrow> is_object args"
  by (cases args) (simp_all add: get_str_def)

lemma namespace_key_get:
  "get_str (namespace_key pre key args) k
     = (if k = key then map_option (private_name pre) (get_str args k) else get_str args k)"
  by (auto simp: namespace_key_def private_name_def dest: get_str_object split: option.splits)

lemma namespace_key_has:
  "(json_get (namespace_key pre key args) k = None) = (json_get args k = None)"
  by (cases "json_get args key") (auto simp: namespace_key_def get_str_def split: option.splits)

lemma namespace_keys_get:
  "distinct ks \<Longrightarrow> get_str (fold (namespace_key pre) ks args) k
     = (if k \<in> set ks then map_option (private_name pre) (get_str args k) else get_str args k)"
  by (induction ks arbitrary: args) (auto simp: namespace_key_get)

lemma namespace_keys_has:
  "(json_get (fold (namespace_key pre) ks args) k = None) = (json_get args k = None)"
  by (induction ks arbitrary: args) (simp_all add: namespace_key_has)

lemma distinct_namespaced: "distinct NAMESPACED_KEYS"
  by (simp add: NAMESPACED_KEYS_def)

lemma put_some_has:
  "json_get (put_some k v args) k' = Some y \<Longrightarrow> k' = k \<or> json_get args k' = Some y"
  by (auto simp: put_some_def split: option.splits if_splits)

lemma is_object_put_some [simp]: "is_object (put_some k v args) = is_object args"
  by (simp add: put_some_def split: option.splits)

text \<open>The fields only the runtime writes.\<close>

definition RUNTIME_FIELDS :: "string list" where
  "RUNTIME_FIELDS = [''_session_id'', ''_transport_session_id'', ''_public_session_label'',
     ''_session_idle_ttl_ms'', MCP_HOST_DOWNLOAD_APPROVAL_ARG]"

lemma apply_runtime_args_has:
  "json_get (apply_runtime_args ev args) k = Some y \<Longrightarrow> k \<in> set RUNTIME_FIELDS \<or> json_get args k \<noteq> None"
  by (auto simp: apply_runtime_args_def Let_def RUNTIME_FIELDS_def split: if_splits dest!: put_some_has)

lemma publish_label_has:
  "json_get (publish_label args) k = Some y \<Longrightarrow> k = ''_public_session_label'' \<or> json_get args k = Some y"
  by (auto simp: publish_label_def split: option.splits if_splits)

lemma fill_transport_has:
  "json_get (fill_transport c args) k = Some y \<Longrightarrow> k = ''_transport_session_id'' \<or> json_get args k = Some y"
  by (auto simp: fill_transport_def split: if_splits dest!: put_some_has)

lemma put_idle_ttl_has:
  "json_get (put_idle_ttl c args) k = Some y \<Longrightarrow> k = ''_session_idle_ttl_ms'' \<or> json_get args k = Some y"
  by (auto simp: put_idle_ttl_def split: option.splits if_splits)

lemma fill_session_id_has:
  "json_get (fill_session_id args) k = Some y \<Longrightarrow> k = ''_session_id'' \<or> json_get args k = Some y"
  by (auto simp: fill_session_id_def split: if_splits dest!: put_some_has)

lemma namespace_runtime_has:
  assumes "json_get (fst (namespace_runtime_args c ev args)) k \<noteq> None"
  shows "json_get args k \<noteq> None \<or> k \<in> set RUNTIME_FIELDS"
proof (cases "is_object args")
  case False
  with assms show ?thesis by (simp add: namespace_runtime_args_def)
next
  case True
  with assms have "json_get (fill_session_id (put_idle_ttl c (fill_transport c (publish_label
        (apply_runtime_args ev args))))) k \<noteq> None"
    by (simp add: namespace_runtime_args_def Let_def namespace_keys_has)
  then show ?thesis
    by (auto simp: RUNTIME_FIELDS_def dest!: fill_session_id_has put_idle_ttl_has fill_transport_has
          publish_label_has apply_runtime_args_has)
qed

lemma namespace_runtime_str:
  assumes "get_str (fst (namespace_runtime_args c ev args)) k = Some v" "k \<in> set NAMESPACED_KEYS" "is_object args"
  shows "belongs_to (runtime_prefix_of c) v"
  using assms private_name_belongs
  by (auto simp: namespace_runtime_args_def Let_def namespace_keys_get [OF distinct_namespaced])

lemma belongs_to_one:
  assumes "belongs_to (runtime_prefix_of c1) v" "belongs_to (runtime_prefix_of c2) v"
    and "length (daemon_generation c1) = length (daemon_generation c2)"
    and "daemon_generation c1 \<noteq> daemon_generation c2"
  shows "v = [] \<or> v = ''default''"
  using assms by (auto simp: belongs_to_def starts_with_def runtime_prefix_of_def prefix_def)


definition example_runtime :: auth_context where
  "example_runtime = \<lparr>daemon_generation = ''a1'', source = Process, ctx_mode = Standard, ctx_public = None,
     ctx_transport = None, ctx_host = None, ctx_manifest = None, ctx_user_sha256 = None,
     ctx_managed_sha256 = None, ctx_expires_unix_ms = None, expires_at = None, ctx_idle_ttl = None,
     ctx_last_dispatch = None, ctx_idle_expired = None, revoked = False\<rparr>"

definition forged_call :: json where
  "forged_call = JObj [(''_session_id'', JStr ''__cua_runtime_b2:victim''), (''session'', JStr ''mine'')]"



section \<open>Public names\<close>

lemma strip_all_absent: "\<not> str_contains s p \<Longrightarrow> strip_all p s = s"
  by (induction s) auto

lemma strip_all_prefix:
  assumes "p \<noteq> []" shows "strip_all p (p @ s) = strip_all p s"
proof -
  from assms obtain c p' where "p = c # p'" by (cases p) auto
  then show ?thesis by simp
qed

lemma runtime_prefix_ne: "runtime_prefix_of c \<noteq> []"
  by (simp add: runtime_prefix_of_def)

text \<open>The caller gets its own names back. A name the caller chose, which does not itself
  contain the prefix of the runtime, is read back unchanged when the private name made of it is
  restored, in every text and in every value of a result, at any depth of a list; and a result that
  holds no private name is passed on as it is.\<close>

theorem public_names_are_restored:
  assumes "\<not> str_contains s (runtime_prefix_of c)"
  shows "strip_all (runtime_prefix_of c) (private_name (runtime_prefix_of c) s) = s
    \<and> restore_value (runtime_prefix_of c) (JArr [JStr (private_name (runtime_prefix_of c) s)]) = (JArr [JStr s], False)
    \<and> restore_public_runtime_result (runtime_prefix_of c)
        \<lparr>result_texts = [private_name (runtime_prefix_of c) s], result_structured = Some (JStr s), result_error = e\<rparr>
      = \<lparr>result_texts = [s], result_structured = Some (JStr s), result_error = e\<rparr>"
proof -
  have "strip_all (runtime_prefix_of c) (private_name (runtime_prefix_of c) s) = s"
    using strip_all_absent [OF assms] strip_all_prefix [OF runtime_prefix_ne, of c s]
    by (simp add: private_name_def)
  with strip_all_absent [OF assms] show ?thesis
    by (simp add: restore_public_runtime_result_def Let_def)
qed

theorem public_names_are_restored_witness:
  "strip_all ''__cua_runtime_a1:'' ''__cua_runtime_a1:mine'' = ''mine''"
proof -
  have "\<not> str_contains ''mine'' (runtime_prefix_of example_runtime)"
    by (simp add: runtime_prefix_of_def example_runtime_def)
  from public_names_are_restored [OF this] show ?thesis
    by (simp add: private_name_def runtime_prefix_of_def example_runtime_def starts_with_def)
qed

end
