(* ===== verification/ProtectedResources.thy ===== *)
theory ProtectedResources
  imports ToolArgs Admission ConsentProps
begin

text \<open>
  The resource adapters of \<open>cua-driver-core/src/tool.rs\<close>: how a call becomes the exact resource it
  needs, and how consent for it is asked. What the concrete tool, the platform, the filesystem and
  the consent provider answer is an argument.
\<close>

section \<open>Answers of the outside\<close>

text \<open>Paths as the file functions of the standard library see them.\<close>

record file_world =
  fw_home :: "string option"
  fw_cwd :: "string option"
  fw_lstat :: "string \<Rightarrow> lstat"
  fw_is_file :: "string \<Rightarrow> bool"
  fw_canonicalize :: "string \<Rightarrow> string + string"
  fw_tree :: filesystem

record consent_world =
  cw_ask :: "consent_request \<Rightarrow> duration \<Rightarrow> provider_outcome"
  cw_moments :: consent_moments
  cw_nonce :: string
  cw_grant_id :: nat

record platform_answers =
  pa_process_scope :: "string + json option"
  pa_scope :: "string \<Rightarrow> string + json option"
  pa_driver_owned :: "string \<Rightarrow> bool"
  pa_validate :: "string \<Rightarrow> json \<Rightarrow> string + unit"
  pa_display :: "consent_error + json"
  pa_attest :: "int \<Rightarrow> process_fingerprint option"
  pa_apps :: "json option"
  pa_pids_before :: "int list option"
  pa_recording_dir :: "string option"
  pa_files :: file_world
  pa_consent :: "string \<Rightarrow> consent_world"
  pa_sha :: "json \<Rightarrow> string"
  pa_admission_clock :: clock
  pa_commit_clock :: clock
  pa_begin_at :: instant
  pa_end_at :: instant
  pa_lease :: bool
  pa_passthrough :: bool

datatype dispatch_refusal =
    AuthorizationSuspended
  | AuthorizationRevoked
  | UnknownTool string
  | InvalidTarget string
  | NotAdmitted admission_refusal
  | SessionEndedRefusal
  | ScopeRefusal scope_violation
  | InputBusy int
  | ForeignTermination
  | UnboundedOperation
  | PromptNeedsTrustedHost
  | ConsentRefusal consent_error
  | ScopeInvalid string
  | ScopeStale string
  | ConfigKeyRetired
  | CommitRefused dispatch_error
  | SessionUnavailable
  | LifecycleRefused session_error
  | CleanupUnconfirmed
  | PreviewHoldsInput
  | DispatchPanics

fun refusal_code_of :: "dispatch_refusal \<Rightarrow> string option" where
  "refusal_code_of AuthorizationSuspended = Some ''authorization_suspended''"
| "refusal_code_of AuthorizationRevoked = Some ''authorization_revoked''"
| "refusal_code_of (NotAdmitted _) = Some ''permission_denied''"
| "refusal_code_of SessionEndedRefusal = Some ''session_ended''"
| "refusal_code_of (ScopeRefusal v) = Some (violation_code_str (v_code v))"
| "refusal_code_of (InvalidTarget _) = Some ''invalid_action_target''"
| "refusal_code_of (InputBusy _) = Some ''input_busy''"
| "refusal_code_of ForeignTermination = Some ''foreign_process_termination_denied''"
| "refusal_code_of UnboundedOperation = Some ''unbounded_operation_requires_unrestricted''"
| "refusal_code_of PromptNeedsTrustedHost = Some ''os_permission_prompt_requires_trusted_host''"
| "refusal_code_of (ConsentRefusal e) =
     Some (case e of
       Unavailable \<Rightarrow> ''authorization_required''
     | Declined \<Rightarrow> ''authorization_declined''
     | Canceled \<Rightarrow> ''authorization_canceled''
     | DigestMismatch \<Rightarrow> ''authorization_scope_mismatch''
     | ConsentExpired \<Rightarrow> ''authorization_expired''
     | ProviderError _ \<Rightarrow> ''authorization_host_failed''
     | AdapterNotRegistered _ \<Rightarrow> ''authorization_host_failed''
     | AdapterDenied _ _ \<Rightarrow> ''authorization_host_failed''
     | NoBoundedManifest \<Rightarrow> ''bounded_resource_outside_manifest''
     | BoundedResource _ \<Rightarrow> ''bounded_resource_outside_manifest'')"
| "refusal_code_of (ScopeInvalid _) = Some ''protected_resource_scope_invalid''"
| "refusal_code_of (ScopeStale _) = Some ''protected_resource_scope_stale''"
| "refusal_code_of ConfigKeyRetired = Some ''config_key_retired''"
| "refusal_code_of (CommitRefused _) = Some ''permission_denied''"
| "refusal_code_of SessionUnavailable = Some ''session_unavailable''"
| "refusal_code_of (LifecycleRefused _) = Some ''session_ended''"
| "refusal_code_of CleanupUnconfirmed = Some ''native_cleanup_unconfirmed''"
| "refusal_code_of (UnknownTool _) = None"
| "refusal_code_of PreviewHoldsInput = None"
| "refusal_code_of DispatchPanics = None"


section \<open>Sequencing with early return\<close>

definition and_then ::
    "'s \<times> ('e + 'a) \<Rightarrow> ('s \<Rightarrow> 'a \<Rightarrow> 's \<times> ('e + 'b)) \<Rightarrow> 's \<times> ('e + 'b)" where
  "and_then m k = (case m of (s, Inl e) \<Rightarrow> (s, Inl e) | (s, Inr a) \<Rightarrow> k s a)"

lemma and_then_Inr:
  "and_then m k = (s, Inr b) \<longleftrightarrow> (\<exists>s1 a. m = (s1, Inr a) \<and> k s1 a = (s, Inr b))"
  by (auto simp: and_then_def split: prod.splits sum.splits)

lemma and_then_simps [simp]:
  "and_then (s, Inl e) k = (s, Inl e)" "and_then (s, Inr a) k = k s a"
  by (simp_all add: and_then_def)

definition demand :: "bool \<Rightarrow> 'e \<Rightarrow> 'e + unit" where
  "demand b e = (if b then Inr () else Inl e)"

lemma demand_Inr [simp]: "demand b e = Inr u \<longleftrightarrow> b"
  by (simp add: demand_def)


section \<open>Documents\<close>

definition show_int :: "int \<Rightarrow> string" where
  "show_int i = (if 0 \<le> i then show_dec (nat i) else ''-'' @ show_dec (nat (- i)))"

definition json_of_int :: "int \<Rightarrow> json" where
  "json_of_int i = JNum (if 0 \<le> i then PosInt (nat i) else NegInt i)"

definition or_null :: "('a \<Rightarrow> json) \<Rightarrow> 'a option \<Rightarrow> json" where
  "or_null f v = (case v of None \<Rightarrow> JNull | Some x \<Rightarrow> f x)"

definition json_of_f64 :: "f64 \<Rightarrow> json" where
  "json_of_f64 x = (case x of Fin r \<Rightarrow> JNum (JFloat r) | _ \<Rightarrow> JNull)"

definition json_of_fingerprint :: "process_fingerprint \<Rightarrow> json" where
  "json_of_fingerprint f =
     JObj [(''executable'', or_null JStr (fp_executable f)), (''pid'', json_of_int (fp_pid f)),
           (''start_time'', or_null (\<lambda>n. JNum (PosInt n)) (fp_start_time f))]"

text \<open>\<open>serde_json::from_value\<close> for a struct with two optional fields.\<close>

definition optional_field :: "json \<Rightarrow> string \<Rightarrow> (json \<Rightarrow> 'a option) \<Rightarrow> 'a option option" where
  "optional_field v k get =
     (case json_get v k of
        None \<Rightarrow> Some None
      | Some w \<Rightarrow> if is_null w then Some None else map_option Some (get w))"

definition fingerprint_of_json :: "json \<Rightarrow> process_fingerprint option" where
  "fingerprint_of_json v =
     (case (get_i64 v ''pid'', optional_field v ''start_time'' as_u64, optional_field v ''executable'' as_str) of
        (Some pid, Some st, Some ex) \<Rightarrow> Some \<lparr>fp_pid = pid, fp_start_time = st, fp_executable = ex\<rparr>
      | _ \<Rightarrow> None)"

text \<open>\<open>value[key] = w\<close>: it makes an object of \<open>null\<close> and panics on any other value.\<close>

definition index_put :: "string \<Rightarrow> json \<Rightarrow> json \<Rightarrow> json option" where
  "index_put k w v =
     (case v of JObj m \<Rightarrow> Some (JObj (obj_put k w m)) | JNull \<Rightarrow> Some (JObj [(k, w)]) | _ \<Rightarrow> None)"


section \<open>Exact paths\<close>

definition required_path_arg :: "json \<Rightarrow> string \<Rightarrow> string + string" where
  "required_path_arg args k =
     (case nonempty_str args k of
        None \<Rightarrow> Inl (''missing exact path field `'' @ k @ ''`'') | Some s \<Rightarrow> Inr s)"

definition join_path :: "string \<Rightarrow> string \<Rightarrow> string" where
  "join_path p q =
     (if is_absolute q then q else if p = [] \<or> ends_with p ''/'' then p @ q else p @ ''/'' @ q)"

definition expanded_path :: "file_world \<Rightarrow> string \<Rightarrow> string + string" where
  "expanded_path fw raw =
     bind_err
       (if raw = ''~'' then (case fw_home fw of None \<Rightarrow> Inl ''the home directory is unavailable'' | Some h \<Rightarrow> Inr h)
        else (case strip_prefix ''~/'' raw of
                Some rel \<Rightarrow>
                  (case fw_home fw of
                     None \<Rightarrow> Inl ''the home directory is unavailable'' | Some h \<Rightarrow> Inr (join_path h rel))
              | None \<Rightarrow> Inr raw))
       (\<lambda>p. if is_absolute p then Inr p
            else (case fw_cwd fw of
                    None \<Rightarrow> Inl ''the current directory is unavailable'' | Some d \<Rightarrow> Inr (join_path d p)))"

definition canonical_existing_directory :: "file_world \<Rightarrow> string \<Rightarrow> string + string" where
  "canonical_existing_directory fw raw =
     bind_err (expanded_path fw raw) (\<lambda>p.
       (case fw_lstat fw p of
          LNotFound \<Rightarrow> Inl ''the exact directory does not exist''
        | LError e \<Rightarrow> Inl ''the exact directory does not exist''
        | LDirectory \<Rightarrow> map_sum (\<lambda>_. ''the exact directory could not be canonicalized'') id (fw_canonicalize fw p)
        | _ \<Rightarrow> Inl ''the exact path must name a directory directly, not a link or file''))"

definition canonical_file ::
    "string \<Rightarrow> string \<Rightarrow> string \<Rightarrow> string \<Rightarrow> file_world \<Rightarrow> string \<Rightarrow> string + string" where
  "canonical_file relative missing wrong failed fw raw =
     (if \<not> is_absolute raw then Inl relative
      else case fw_lstat fw raw of
        LNotFound \<Rightarrow> Inl missing
      | LError e \<Rightarrow> Inl missing
      | LOther \<Rightarrow>
          if fw_is_file fw raw then map_sum (\<lambda>_. failed) id (fw_canonicalize fw raw) else Inl wrong
      | _ \<Rightarrow> Inl wrong)"

definition canonical_existing_file :: "file_world \<Rightarrow> string \<Rightarrow> string + string" where
  "canonical_existing_file =
     canonical_file ''clipboard file paths must be absolute'' ''the exact clipboard path does not exist''
       ''clipboard paths must name regular files directly, not links or directories''
       ''the clipboard path could not be canonicalized''"

fun canonical_files :: "file_world \<Rightarrow> json list \<Rightarrow> string + string list" where
  "canonical_files fw [] = Inr []"
| "canonical_files fw (v # vs) =
     (case as_str v of
        None \<Rightarrow> Inl ''every upload path must be a string''
      | Some raw \<Rightarrow>
          bind_err (canonical_file ''every upload path must be absolute'' ''an exact upload path does not exist''
                      ''upload paths must name regular files directly, not links or directories''
                      ''an upload path could not be canonicalized'' fw raw)
            (\<lambda>p. bind_err (canonical_files fw vs) (\<lambda>ps. Inr (p # ps))))"

definition canonical_upload_files :: "file_world \<Rightarrow> json \<Rightarrow> string + string list" where
  "canonical_upload_files fw args =
     (case Option.bind (json_get args ''files'') as_array of
        None \<Rightarrow> Inl ''files must contain between 1 and 32 paths''
      | Some vs \<Rightarrow>
          if vs = [] \<or> 32 < length vs then Inl ''files must contain between 1 and 32 paths''
          else canonical_files fw vs)"

text \<open>A path that need not exist is resolved as a manifest's path resource is.\<close>

definition canonical_proposed_path :: "file_world \<Rightarrow> string \<Rightarrow> string + string" where
  "canonical_proposed_path fw raw =
     bind_err (expanded_path fw raw) (\<lambda>p. canonical_manifest_path (fw_tree fw) (path_components p))"


section \<open>Asking for a resource\<close>

definition minutes :: "nat \<Rightarrow> duration" where
  "minutes n = secs (60 * n)"

text \<open>A context with the manifest it carries, and the lifecycle session of the call.\<close>

type_synonym dispatch_context = "auth_context \<times> session_manifest option"

definition ask_consent ::
    "platform_answers \<Rightarrow> dispatch_context \<Rightarrow> consent_call \<Rightarrow> consent_store
       \<Rightarrow> consent_store \<times> (dispatch_refusal + unit)" where
  "ask_consent pa cm q st =
     (let cw = pa_consent pa (call_adapter q)
      in case authorize_protected (pa_sha pa) (cw_ask cw) (cw_moments cw) (cw_nonce cw) (cw_grant_id cw)
                (fst cm) (snd cm) q st of
           (st', Consent.Refused e) \<Rightarrow> (st', Inl (ConsentRefusal e))
         | (st', Panicked) \<Rightarrow> (st', Inl DispatchPanics)
         | (st', _) \<Rightarrow> (st', Inr ()))"

definition unrestricted_without_manifest :: "dispatch_context \<Rightarrow> bool" where
  "unrestricted_without_manifest cm = (ctx_mode (fst cm) = Unrestricted \<and> snd cm = None)"

definition copy_app_key :: "json \<Rightarrow> string \<Rightarrow> json \<Rightarrow> json" where
  "copy_app_key app k resource =
     (case json_get app k of
        None \<Rightarrow> resource | Some v \<Rightarrow> if is_null v then resource else json_put k v resource)"

definition enrich_application_resource :: "platform_answers \<Rightarrow> int \<Rightarrow> json \<Rightarrow> json" where
  "enrich_application_resource pa pid resource =
     (let r1 = (case pa_attest pa pid of
                  None \<Rightarrow> resource | Some f \<Rightarrow> json_put ''fingerprint'' (json_of_fingerprint f) resource)
      in case Option.bind (pa_apps pa) (\<lambda>v. Option.bind (json_get v ''apps'') as_array) of
           None \<Rightarrow> r1
         | Some apps \<Rightarrow>
             (case find (\<lambda>app. get_i64 app ''pid'' = Some pid) apps of
                None \<Rightarrow> r1
              | Some app \<Rightarrow> copy_app_key app ''launch_path'' (copy_app_key app ''bundle_id'' r1)))"

text \<open>Under a manifest, a resource of a process is enriched before it is compared.\<close>

definition enriched :: "platform_answers \<Rightarrow> dispatch_context \<Rightarrow> json \<Rightarrow> json" where
  "enriched pa cm resource =
     (case (snd cm, get_i64 resource ''pid'') of
        (Some m, Some pid) \<Rightarrow> enrich_application_resource pa pid resource | _ \<Rightarrow> resource)"

definition using_tool :: "string \<Rightarrow> string \<Rightarrow> string" where
  "using_tool summary tool = summary @ '' using '' @ tool"


subsection \<open>Observation\<close>

definition history_observation_resource :: "string \<Rightarrow> (json \<times> string) option" where
  "history_observation_resource tool =
     (if tool = ''history_status'' then
        Some (JObj [(''kind'', JStr ''computer_history''), (''operation'', JStr ''status'')],
              ''Allow Cua to inspect Computer History status'')
      else if tool = ''history_query'' then
        Some (JObj [(''kind'', JStr ''computer_history''), (''operation'', JStr ''query'')],
              ''Allow Cua to read encrypted Computer History metadata'')
      else None)"

text \<open>The entries of a display resource, between its delivery mode and its height.\<close>

definition display_fields :: "json \<Rightarrow> string \<Rightarrow> (string \<times> json) list \<Rightarrow> json" where
  "display_fields d kind extra =
     JObj (extra @ [(''height'', or_null (\<lambda>n. JNum (PosInt n)) (get_u64 d ''height'')),
       (''kind'', JStr kind),
       (''scale_factor'', or_null json_of_f64 (Option.bind (json_get d ''scale_factor'') as_f64)),
       (''width'', or_null (\<lambda>n. JNum (PosInt n)) (get_u64 d ''width''))])"

definition not_attested :: consent_error where
  "not_attested = ProviderError ''browser observation did not attest a live top-level origin''"

definition of_process :: "json \<Rightarrow> string" where
  "of_process args = (case get_i64 args ''pid'' of Some pid \<Rightarrow> '' of process '' @ show_int pid | None \<Rightarrow> [])"

text \<open>The resource of an observation that no tool attests.\<close>

definition plain_observation :: "platform_answers \<Rightarrow> string \<Rightarrow> json \<Rightarrow> consent_error + json \<times> string" where
  "plain_observation pa tool args =
     (if tool = ''escalate_session'' then
        Inr (JObj [(''capture_scope'', JStr ''desktop''), (''kind'', JStr ''session_capture_scope'')],
             ''Allow Cua to expand this session'' @ CHR 0x27 # ''s observation scope'')
      else case get_u64 args ''window_id'' of
        Some w \<Rightarrow>
          Inr (JObj [(''kind'', JStr ''window''), (''pid'', or_null json_of_int (get_i64 args ''pid'')),
                     (''window_id'', JNum (PosInt w))],
               ''Allow Cua to observe window '' @ show_dec w @ of_process args)
      | None \<Rightarrow>
          (case get_i64 args ''pid'' of
             Some pid \<Rightarrow>
               Inr (JObj [(''kind'', JStr ''application''), (''pid'', json_of_int pid)],
                    ''Allow Cua to observe process '' @ show_int pid)
           | None \<Rightarrow>
               if tool = ''start_recording'' \<and> get_bool args ''record_video'' \<noteq> Some True then
                 Inr (JObj [(''kind'', JStr ''session_trajectory_recording''), (''record_video'', JBool False)],
                      ''Allow Cua to record separately authorized actions in this session'')
               else (case pa_display pa of
                       Inl e \<Rightarrow> Inl e
                     | Inr d \<Rightarrow> Inr (display_fields d ''display'' [], ''Allow Cua to observe the current desktop''))))"

definition observation_resource :: "platform_answers \<Rightarrow> string \<Rightarrow> json \<Rightarrow> consent_error + json \<times> string" where
  "observation_resource pa tool args =
     (case history_observation_resource tool of
        Some r \<Rightarrow> Inr r
      | None \<Rightarrow>
          (case pa_scope pa ''private_observation'' of
             Inl e \<Rightarrow> Inl (ProviderError e)
           | Inr (Some resource) \<Rightarrow>
               Inr (resource,
                    ''Allow Cua to observe browser target ''
                    @ (case get_str args ''target_id'' of Some t \<Rightarrow> t | None \<Rightarrow> ''unknown'')
                    @ (case get_str args ''tab_id'' of Some i \<Rightarrow> '', tab '' @ i | None \<Rightarrow> []))
           | Inr None \<Rightarrow>
               if get_str args ''target_id'' \<noteq> None then Inl not_attested
               else plain_observation pa tool args))"

definition authorize_private_observation ::
    "platform_answers \<Rightarrow> string \<Rightarrow> json \<Rightarrow> dispatch_context \<Rightarrow> string option \<Rightarrow> string
       \<Rightarrow> consent_store \<Rightarrow> consent_store \<times> (dispatch_refusal + unit)" where
  "authorize_private_observation pa tool args cm lifecycle ad st =
     (if unrestricted_without_manifest cm then (st, Inr ())
      else if ad = ''private_observation'' \<and> ctx_mode (fst cm) = Standard \<and> snd cm = None then
        (st, if get_str args ''target_id'' = None then Inr ()
             else (case pa_scope pa ''private_observation'' of
                     Inl e \<Rightarrow> Inl (ConsentRefusal (ProviderError e))
                   | Inr None \<Rightarrow> Inl (ConsentRefusal not_attested)
                   | Inr (Some _) \<Rightarrow> Inr ()))
      else (case observation_resource pa tool args of
              Inl e \<Rightarrow> (st, Inl (ConsentRefusal e))
            | Inr (resource, summary) \<Rightarrow>
                ask_consent pa cm
                  \<lparr>call_adapter = ad, call_risk = R2, call_lifecycle = lifecycle,
                   call_resource = enriched pa cm resource, call_summary = using_tool summary tool,
                   call_idle_ttl = minutes 30, call_absolute_ttl = minutes 480\<rparr> st))"


subsection \<open>Input and clipboard\<close>

definition input_delivery :: "string \<Rightarrow> json \<Rightarrow> string" where
  "input_delivery tool args =
     (if tool \<in> set [''bring_to_front'', ''present_window'', ''begin_foreground_segment'',
                      ''end_foreground_segment'', ''prepare_dialog'', ''prepare_observation'']
      then ''foreground''
      else case get_str args ''delivery_mode'' of Some m \<Rightarrow> m | None \<Rightarrow> ''background'')"

definition input_resource :: "platform_answers \<Rightarrow> string \<Rightarrow> json \<Rightarrow> consent_error + json \<times> string" where
  "input_resource pa tool args =
     (let mode = input_delivery tool args; how = '' in '' @ mode @ '' mode''
      in case get_u64 args ''window_id'' of
        Some w \<Rightarrow>
          Inr (JObj [(''delivery_mode_ceiling'', JStr mode), (''kind'', JStr ''window_input''),
                     (''pid'', or_null json_of_int (get_i64 args ''pid'')), (''window_id'', JNum (PosInt w))],
               ''Allow Cua to control window '' @ show_dec w @ of_process args @ how)
      | None \<Rightarrow>
          (case get_i64 args ''pid'' of
             Some pid \<Rightarrow>
               Inr (JObj [(''delivery_mode_ceiling'', JStr mode), (''kind'', JStr ''application_input''),
                          (''pid'', json_of_int pid)],
                    ''Allow Cua to control process '' @ show_int pid @ how)
           | None \<Rightarrow>
               (case pa_display pa of
                  Inl e \<Rightarrow> Inl e
                | Inr d \<Rightarrow>
                    Inr (display_fields d ''display_input'' [(''delivery_mode_ceiling'', JStr mode)],
                         ''Allow Cua to control the current desktop'' @ how))))"

definition promptless :: "dispatch_context \<Rightarrow> bool" where
  "promptless cm = (ctx_mode (fst cm) \<noteq> Bounded \<and> snd cm = None)"

definition authorize_desktop_input ::
    "platform_answers \<Rightarrow> string \<Rightarrow> json \<Rightarrow> dispatch_context \<Rightarrow> string option
       \<Rightarrow> consent_store \<Rightarrow> consent_store \<times> (dispatch_refusal + unit)" where
  "authorize_desktop_input pa tool args cm lifecycle st =
     (if promptless cm then (st, Inr ())
      else (case input_resource pa tool args of
              Inl e \<Rightarrow> (st, Inl (ConsentRefusal e))
            | Inr (resource, summary) \<Rightarrow>
                ask_consent pa cm
                  \<lparr>call_adapter = ''desktop_input'', call_risk = R1, call_lifecycle = lifecycle,
                   call_resource = enriched pa cm resource, call_summary = using_tool summary tool,
                   call_idle_ttl = minutes 30, call_absolute_ttl = minutes 480\<rparr> st))"

definition clipboard_resource :: "string \<Rightarrow> json \<Rightarrow> json \<times> string" where
  "clipboard_resource tool args =
     (let (op, kind, summary) =
        (if tool = ''clipboard_read'' then
           (''read'', if get_bool args ''include_text'' = Some True then ''text_and_types'' else ''types'',
            ''Allow Cua to read the current system clipboard'')
         else
           (''write'', if get_str args ''text'' \<noteq> None then ''text''
                     else if get_str args ''image_path'' \<noteq> None then ''image'' else ''file_url'',
            ''Allow Cua to replace the current system clipboard''))
      in (JObj [(''content_kind'', JStr kind), (''kind'', JStr ''system_clipboard''), (''operation'', JStr op)],
          summary))"

definition authorize_clipboard ::
    "platform_answers \<Rightarrow> string \<Rightarrow> json \<Rightarrow> dispatch_context \<Rightarrow> string option
       \<Rightarrow> consent_store \<Rightarrow> consent_store \<times> (dispatch_refusal + unit)" where
  "authorize_clipboard pa tool args cm lifecycle st =
     (if promptless cm then (st, Inr ())
      else ask_consent pa cm
             \<lparr>call_adapter = ''clipboard'', call_risk = R2, call_lifecycle = lifecycle,
              call_resource = fst (clipboard_resource tool args),
              call_summary = using_tool (snd (clipboard_resource tool args)) tool,
              call_idle_ttl = minutes 30, call_absolute_ttl = minutes 480\<rparr> st)"


subsection \<open>Files\<close>

text \<open>What a file operation needs: nothing, or a resource with its summary and the arguments
  rewritten to the canonical paths that were approved.\<close>

datatype file_request = NoFile | FileNeed json string json

definition str_or_null :: "json \<Rightarrow> string \<Rightarrow> json" where
  "str_or_null args k = or_null JStr (get_str args k)"

definition upload_need :: "file_world \<Rightarrow> json \<Rightarrow> string + file_request" where
  "upload_need fw args =
     bind_err (canonical_upload_files fw args) (\<lambda>files.
       Inr (FileNeed
         (JObj [(''canonical_paths'', JArr (map JStr files)), (''direction'', JStr ''local_to_browser''),
                (''kind'', JStr ''browser_upload''), (''ref'', str_or_null args ''ref''),
                (''tab_id'', str_or_null args ''tab_id''), (''target_id'', str_or_null args ''target_id'')])
         (''Allow Cua to upload '' @ show_dec (length files) @ '' exact local file(s) to this browser tab'')
         (json_put ''files'' (JArr (map JStr files)) args)))"

definition download_need :: "file_world \<Rightarrow> json \<Rightarrow> string + file_request" where
  "download_need fw args =
     bind_err (required_path_arg args ''destination_root'') (\<lambda>raw.
     bind_err (canonical_existing_directory fw raw) (\<lambda>dest.
       Inr (FileNeed
         (JObj [(''canonical_destination_root'', JStr dest), (''direction'', JStr ''browser_to_local''),
                (''kind'', JStr ''browser_download''), (''ref'', str_or_null args ''ref''),
                (''tab_id'', str_or_null args ''tab_id''), (''target_id'', str_or_null args ''target_id'')])
         ''Allow Cua to download one file from this browser tab to the exact destination directory''
         (json_put ''destination_root'' (JStr dest) args))))"

definition clipboard_file_need :: "file_world \<Rightarrow> json \<Rightarrow> string + file_request" where
  "clipboard_file_need fw args =
     (let (field, kind) = (if get_str args ''image_path'' \<noteq> None then (''image_path'', ''image'')
                           else (''file_path'', ''file_url''))
      in bind_err (required_path_arg args field) (\<lambda>raw.
         bind_err (canonical_existing_file fw raw) (\<lambda>src.
           Inr (FileNeed
             (JObj [(''canonical_source_path'', JStr src), (''content_kind'', JStr kind),
                    (''direction'', JStr ''local_to_clipboard''), (''kind'', JStr ''clipboard_local_file'')])
             (''Allow Cua to read this exact local '' @ kind @ '' into the clipboard'')
             (json_put field (JStr src) args)))))"

definition screenshot_need :: "file_world \<Rightarrow> string \<Rightarrow> json \<Rightarrow> string + file_request" where
  "screenshot_need fw tool args =
     bind_err (required_path_arg args ''screenshot_out_file'') (\<lambda>raw.
     bind_err (canonical_proposed_path fw raw) (\<lambda>out.
       Inr (FileNeed
         (JObj [(''canonical_output_path'', JStr out), (''direction'', JStr ''driver_to_local''),
                (''kind'', JStr ''screenshot_output''), (''pid'', or_null json_of_int (get_i64 args ''pid'')),
                (''tool'', JStr tool),
                (''window_id'', or_null (\<lambda>n. JNum (PosInt n)) (get_u64 args ''window_id''))])
         ''Allow Cua to write this screenshot to the exact local path''
         (json_put ''screenshot_out_file'' (JStr out) args))))"

definition recording_need :: "file_world \<Rightarrow> json \<Rightarrow> string + file_request" where
  "recording_need fw args =
     bind_err (required_path_arg args ''output_dir'') (\<lambda>raw.
     bind_err (canonical_proposed_path fw raw) (\<lambda>out.
       Inr (FileNeed
         (JObj [(''canonical_output_directory'', JStr out), (''direction'', JStr ''driver_to_local''),
                (''kind'', JStr ''recording_output''),
                (''record_video'', JBool (get_bool args ''record_video'' = Some True))])
         ''Allow Cua to write trajectory evidence to the exact local directory''
         (json_put ''output_dir'' (JStr out) args))))"

definition finalize_need :: "file_world \<Rightarrow> string option \<Rightarrow> json \<Rightarrow> string + file_request" where
  "finalize_need fw dir args =
     (case dir of
        None \<Rightarrow> Inr NoFile
      | Some d \<Rightarrow>
          bind_err (canonical_proposed_path fw d) (\<lambda>out.
            Inr (FileNeed
              (JObj [(''canonical_output_directory'', JStr out), (''direction'', JStr ''driver_to_local''),
                     (''kind'', JStr ''recording_finalize'')])
              ''Allow Cua to finalize the active recording in its exact local directory'' args)))"

definition replay_need :: "file_world \<Rightarrow> json \<Rightarrow> string + file_request" where
  "replay_need fw args =
     bind_err (required_path_arg args ''dir'') (\<lambda>raw.
     bind_err (canonical_existing_directory fw raw) (\<lambda>src.
       Inr (FileNeed
         (JObj [(''canonical_source_directory'', JStr src), (''direction'', JStr ''local_to_driver''),
                (''kind'', JStr ''trajectory_replay'')])
         ''Allow Cua to read and replay actions from the exact trajectory directory''
         (json_put ''dir'' (JStr src) args))))"

definition file_need :: "platform_answers \<Rightarrow> string \<Rightarrow> json \<Rightarrow> string + file_request" where
  "file_need pa tool args =
     (let fw = pa_files pa in
      if tool = ''browser_set_input_files'' then upload_need fw args
      else if tool = ''browser_download'' then download_need fw args
      else if tool = ''clipboard_write'' then clipboard_file_need fw args
      else if tool = ''get_desktop_state'' \<or> tool = ''get_window_state'' then screenshot_need fw tool args
      else if tool = ''start_recording'' then recording_need fw args
      else if tool = ''stop_recording'' then finalize_need fw (pa_recording_dir pa) args
      else if tool = ''replay_trajectory'' then replay_need fw args
      else if tool = ''install_ffmpeg'' \<and> get_bool args ''confirm'' = Some True then
        Inr (FileNeed
          (JObj [(''dependency'', JStr ''ffmpeg''), (''direction'', JStr ''network_to_system''),
                 (''kind'', JStr ''dependency_install'')])
          ''Allow Cua to install ffmpeg using the detected system package manager'' args)
      else Inl ''the file-transfer operation has no reviewed exact scope'')"

definition authorize_file_transfer ::
    "platform_answers \<Rightarrow> string \<Rightarrow> json \<Rightarrow> dispatch_context \<Rightarrow> string option
       \<Rightarrow> consent_store \<Rightarrow> consent_store \<times> (dispatch_refusal + json)" where
  "authorize_file_transfer pa tool args cm lifecycle st =
     (if unrestricted_without_manifest cm then (st, Inr args)
      else (case file_need pa tool args of
              Inl e \<Rightarrow> (st, Inl (ScopeInvalid e))
            | Inr NoFile \<Rightarrow> (st, Inr args)
            | Inr (FileNeed resource summary args') \<Rightarrow>
                and_then
                  (ask_consent pa cm
                    \<lparr>call_adapter = ''file_transfer_and_output'', call_risk = R3, call_lifecycle = lifecycle,
                     call_resource = resource, call_summary = using_tool summary tool,
                     call_idle_ttl = minutes 30, call_absolute_ttl = minutes 480\<rparr> st)
                  (\<lambda>st _. (st, Inr args'))))"


subsection \<open>Attested resources\<close>

record attested_call =
  at_adapter :: string
  at_risk :: risk_class
  at_summary :: string
  at_idle :: duration
  at_absolute :: duration

definition with_ownership :: "ownership \<Rightarrow> string option \<Rightarrow> json \<Rightarrow> json option" where
  "with_ownership own lifecycle resource =
     index_put ''driver_owned''
       (JBool (case (lifecycle, Option.bind (json_pointer resource [''fingerprint'', ''pid'']) as_i64) of
                 (Some s, Some pid) \<Rightarrow> is_driver_owned_pid s pid own | _ \<Rightarrow> False))
       resource"

definition authorize_attested_resource ::
    "platform_answers \<Rightarrow> ownership \<Rightarrow> attested_call \<Rightarrow> dispatch_context \<Rightarrow> string option
       \<Rightarrow> consent_store \<Rightarrow> consent_store \<times> (dispatch_refusal + json)" where
  "authorize_attested_resource pa own q cm lifecycle st =
     (if unrestricted_without_manifest cm then (st, Inr JNull)
      else (case pa_scope pa (at_adapter q) of
              Inl e \<Rightarrow> (st, Inl (ScopeInvalid e))
            | Inr None \<Rightarrow>
                (st, Inl (ScopeInvalid ''the concrete tool cannot attest an exact protected resource scope''))
            | Inr (Some scope) \<Rightarrow>
                (case (if at_adapter q = ''process_control'' then with_ownership own lifecycle scope
                       else Some scope) of
                   None \<Rightarrow> (st, Inl DispatchPanics)
                 | Some resource \<Rightarrow>
                     and_then
                       (ask_consent pa cm
                         \<lparr>call_adapter = at_adapter q, call_risk = at_risk q, call_lifecycle = lifecycle,
                          call_resource = resource, call_summary = at_summary q,
                          call_idle_ttl = at_idle q, call_absolute_ttl = at_absolute q\<rparr> st)
                       (\<lambda>st _. (st, Inr resource)))))"

text \<open>The resource is attested again right before the call goes on; if that fails the grant is
  revoked.\<close>

definition validate_attested_resource ::
    "platform_answers \<Rightarrow> string \<Rightarrow> dispatch_context \<Rightarrow> string option \<Rightarrow> json
       \<Rightarrow> consent_store \<Rightarrow> consent_store \<times> (dispatch_refusal + unit)" where
  "validate_attested_resource pa ad cm lifecycle approved st =
     (if unrestricted_without_manifest cm then (st, Inr ())
      else (case pa_validate pa ad (if ad = ''process_control'' then json_del ''driver_owned'' approved else approved) of
              Inr _ \<Rightarrow> (st, Inr ())
            | Inl e \<Rightarrow> (fst (revoke_resource (pa_sha pa) (fst cm) lifecycle ad approved st), Inl (ScopeStale e))))"

definition attested_gate ::
    "platform_answers \<Rightarrow> ownership \<Rightarrow> attested_call \<Rightarrow> dispatch_context \<Rightarrow> string option
       \<Rightarrow> consent_store \<Rightarrow> consent_store \<times> (dispatch_refusal + json)" where
  "attested_gate pa own q cm lifecycle st =
     and_then (authorize_attested_resource pa own q cm lifecycle st) (\<lambda>st approved.
     and_then (validate_attested_resource pa (at_adapter q) cm lifecycle approved st) (\<lambda>st _.
       (st, Inr approved)))"

definition dialog_call :: attested_call where
  "dialog_call = \<lparr>at_adapter = ''browser_consequential_action'', at_risk = R3,
     at_summary = ''Allow Cua to resolve this exact page-owned browser dialog'',
     at_idle = minutes 5, at_absolute = minutes 30\<rparr>"

definition bound_input_call :: attested_call where
  "bound_input_call = \<lparr>at_adapter = ''browser_bound_input'', at_risk = R2,
     at_summary = ''Allow Cua to control this exact authenticated browser tab'',
     at_idle = minutes 30, at_absolute = minutes 480\<rparr>"

definition termination_call :: attested_call where
  "termination_call = \<lparr>at_adapter = ''process_control'', at_risk = R3,
     at_summary = ''Allow Cua to force-terminate this exact process instance'',
     at_idle = minutes 2, at_absolute = minutes 10\<rparr>"


subsection \<open>Driver configuration\<close>

definition retired_config_key :: "json \<Rightarrow> bool" where
  "retired_config_key args =
     (json_get args ''capture_scope'' \<noteq> None \<or> get_str args ''key'' = Some ''capture_scope'')"

definition unreviewed_field :: "(string \<times> json) list \<Rightarrow> string \<Rightarrow> bool" where
  "unreviewed_field props k = (k \<noteq> ''session'' \<and> \<not> starts_with k ''_'' \<and> \<not> kv_has props k)"

definition not_in_schema :: "string \<Rightarrow> string \<Rightarrow> string" where
  "not_in_schema what k = what @ quoted k @ '' is not present in the concrete tool schema''"

text \<open>The key and value form contributes one entry.\<close>

definition keyed_change ::
    "(string \<times> json) list \<Rightarrow> json \<Rightarrow> string + (string \<times> json) list" where
  "keyed_change props args =
     (case get_str args ''key'' of
        Some k \<Rightarrow>
          if k \<in> set [''key'', ''value'', ''session'', ''_session_id''] \<or> \<not> kv_has props k
          then Inl (not_in_schema ''set_config key '' k)
          else (case json_get args ''value'' of
                  None \<Rightarrow> Inl ''set_config key requires an exact value''
                | Some v \<Rightarrow> Inr [(k, v)])
      | None \<Rightarrow>
          if json_get args ''value'' \<noteq> None then Inl ''set_config value requires an exact key'' else Inr [])"

definition exact_changes ::
    "(string \<times> json) list \<Rightarrow> json \<Rightarrow> (string \<times> json) list \<Rightarrow> string + (string \<times> json) list" where
  "exact_changes props args m =
     bind_err (keyed_change props args) (\<lambda>start.
       let exact = fold (\<lambda>(k, v). obj_put k v)
             (filter (\<lambda>e. \<not> (fst e \<in> set [''session'', ''key'', ''value''] \<or> starts_with (fst e) ''_'')) m) start
       in if exact = [] then Inl ''set_config did not contain a reviewed configuration field'' else Inr exact)"

definition exact_config_changes :: "json \<Rightarrow> json \<Rightarrow> string + (string \<times> json) list" where
  "exact_config_changes schema args =
     (case Option.bind (json_get schema ''properties'') as_object of
        None \<Rightarrow> Inl ''set_config has no reviewable input schema''
      | Some props \<Rightarrow>
          (case as_object args of
             None \<Rightarrow> Inl ''set_config arguments must be an object''
           | Some m \<Rightarrow>
               (case find (\<lambda>e. unreviewed_field props (fst e)) m of
                  Some e \<Rightarrow> Inl (not_in_schema ''set_config field '' (fst e))
                | None \<Rightarrow> exact_changes props args m)))"

fun join_comma :: "string list \<Rightarrow> string" where
  "join_comma [] = []"
| "join_comma [k] = k"
| "join_comma (k # ks) = k @ '', '' @ join_comma ks"

definition authorize_driver_configuration ::
    "platform_answers \<Rightarrow> json \<Rightarrow> json \<Rightarrow> dispatch_context \<Rightarrow> string option
       \<Rightarrow> consent_store \<Rightarrow> consent_store \<times> (dispatch_refusal + unit)" where
  "authorize_driver_configuration pa schema args cm lifecycle st =
     (if retired_config_key args then (st, Inl ConfigKeyRetired)
      else if unrestricted_without_manifest cm then (st, Inr ())
      else (case exact_config_changes schema args of
              Inl e \<Rightarrow> (st, Inl (ScopeInvalid e))
            | Inr exact \<Rightarrow>
                ask_consent pa cm
                  \<lparr>call_adapter = ''driver_configuration'', call_risk = R2, call_lifecycle = lifecycle,
                   call_resource = JObj [(''exact_changes'', JObj exact), (''kind'', JStr ''driver_configuration'')],
                   call_summary = ''Allow Cua to change exact driver configuration field(s): ''
                                  @ join_comma (map fst exact),
                   call_idle_ttl = minutes 5, call_absolute_ttl = minutes 30\<rparr> st))"

end
