(* ===== verification/Dispatch.thy ===== *)
theory Dispatch
  imports ProtectedResources SessionProps
begin

text \<open>
  The canonical dispatch boundary, \<open>ToolRegistry::invoke_authorized\<close> of
  \<open>cua-driver-core/src/tool.rs\<close>: every gate a call passes before its tool runs, in the order of
  the code. The cursor, the history, the recorder, the preview and the projection of the action
  record only watch a call and are left out; a concrete tool is a function of its arguments and
  of the tables a session tool may change.
\<close>

section \<open>State\<close>

record dispatch_state =
  ds_sessions :: session_state
  ds_scopes :: scope_registry
  ds_context :: dispatch_context
  ds_consent :: consent_store
  ds_owned :: ownership
  ds_typing :: "int list"

record registered_tool =
  rt_schema :: json
  rt_run :: "json \<Rightarrow> session_state \<times> scope_registry \<Rightarrow> (session_state \<times> scope_registry) \<times> tool_result"

text \<open>What a dispatch is configured with: the policy, the parser of addresses, the driver's own
  process, the tools.\<close>

record ('re, 'rego) dispatch_config =
  dc_engines :: "('re, 'rego) engines"
  dc_managed :: "('re, 'rego) layer"
  dc_user :: "('re, 'rego) layer"
  dc_parse_url :: url_parser
  dc_own_pid :: int
  dc_tools :: "string \<Rightarrow> registered_tool option"
  dc_host :: host
  dc_owner :: "transport_owner option"

record tool_call =
  tc_name :: string
  tc_args :: json
  tc_evidence :: trusted_evidence


section \<open>Reading the call\<close>

definition resolved_name :: "string \<Rightarrow> string" where
  "resolved_name name = (if name = ''type_text_chars'' then ''type_text'' else name)"

text \<open>The checks and normalizations before the authorization.\<close>

definition read_call ::
    "(string \<Rightarrow> registered_tool option) \<Rightarrow> auth_context \<Rightarrow> session_state \<Rightarrow> string \<Rightarrow> json
       \<Rightarrow> dispatch_refusal + registered_tool \<times> json" where
  "read_call tools c sessions name raw =
     (let args = sanitize_reserved_args raw
      in if is_runtime_scope_suspended (daemon_generation c) sessions then Inl AuthorizationSuspended
         else if revoked c then Inl AuthorizationRevoked
         else (case tools (resolved_name name) of
                 None \<Rightarrow> Inl (UnknownTool name)
               | Some t \<Rightarrow>
                   (case normalize_action_target (resolved_name name)
                           (normalize_delivery_mode_args (rt_schema t) args) of
                      Inl e \<Rightarrow> Inl (InvalidTarget e)
                    | Inr args' \<Rightarrow> Inr (t, args'))))"

text \<open>The private arguments: the runtime's names, and an identity for a call that has none.\<close>

definition implicit_identity :: "string \<Rightarrow> string \<Rightarrow> json \<Rightarrow> json option" where
  "implicit_identity pre tool args =
     (if \<not> session_selecting_tool tool \<or> get_str args ''_session_id'' \<noteq> None then Some args
      else (let i = (case get_str args ''_transport_session_id'' of
                       Some s \<Rightarrow> s | None \<Rightarrow> pre @ ''implicit-direct'')
            in Option.bind (index_put ''_session_id'' (JStr i) args) (index_put ''_transport_session_id'' (JStr i))))"

definition private_args ::
    "auth_context \<Rightarrow> trusted_evidence \<Rightarrow> string \<Rightarrow> json \<Rightarrow> dispatch_refusal + json" where
  "private_args c ev tool args =
     (case implicit_identity (runtime_prefix_of c) tool (fst (namespace_runtime_args c ev args)) of
        None \<Rightarrow> Inl DispatchPanics | Some a \<Rightarrow> Inr a)"

definition session_still_open :: "session_state \<Rightarrow> string \<Rightarrow> string option \<Rightarrow> bool" where
  "session_still_open sessions tool session =
     (case session of
        None \<Rightarrow> True
      | Some s \<Rightarrow> tool \<in> set [''start_session'', ''end_session''] \<or> \<not> is_session_ended sessions s)"


section \<open>Text input\<close>

definition text_lane :: "string \<Rightarrow> json \<Rightarrow> int option" where
  "text_lane tool args =
     (if tool \<noteq> ''type_text'' then None
      else (case get_i64 args ''pid'' of Some pid \<Rightarrow> if 0 < pid then Some pid else None | None \<Rightarrow> None))"

definition try_admit_text_input :: "string \<Rightarrow> json \<Rightarrow> int list \<Rightarrow> dispatch_refusal + int list" where
  "try_admit_text_input tool args typing =
     (case text_lane tool args of
        None \<Rightarrow> Inr typing
      | Some pid \<Rightarrow> if pid \<in> set typing then Inl (InputBusy pid) else Inr (pid # typing))"

text \<open>The admission is a guard: it is dropped on whichever way the rest of the call ends.\<close>

definition with_text_lane ::
    "string \<Rightarrow> json \<Rightarrow> (dispatch_state \<Rightarrow> dispatch_state \<times> (dispatch_refusal + 'a))
       \<Rightarrow> dispatch_state \<Rightarrow> dispatch_state \<times> (dispatch_refusal + 'a)" where
  "with_text_lane tool args body s =
     (case try_admit_text_input tool args (ds_typing s) of
        Inl e \<Rightarrow> (s, Inl e)
      | Inr typing \<Rightarrow>
          (case body (s\<lparr>ds_typing := typing\<rparr>) of
             (s', r) \<Rightarrow>
               (s'\<lparr>ds_typing := (case text_lane tool args of
                                  None \<Rightarrow> ds_typing s' | Some pid \<Rightarrow> removeAll pid (ds_typing s'))\<rparr>, r)))"


section \<open>Resource gates\<close>

text \<open>The facts the gates share.\<close>

record call_facts =
  cf_tool :: string
  cf_schema :: json
  cf_session :: "string option"
  cf_adapters :: "string list"
  cf_owned :: bool

definition has_adapter :: "call_facts \<Rightarrow> string \<Rightarrow> bool" where
  "has_adapter f i = (i \<in> set (cf_adapters f))"

text \<open>Whether the runtime proves that it launched the process the call is about.\<close>

definition current_process :: "platform_answers \<Rightarrow> string list \<Rightarrow> process_fingerprint option" where
  "current_process pa adapters =
     (if ''process_control'' \<in> set adapters
      then (case pa_process_scope pa of
              Inr (Some scope) \<Rightarrow> fingerprint_of_json (json_index scope ''fingerprint'')
            | _ \<Rightarrow> None)
      else None)"

definition prove_ownership ::
    "platform_answers \<Rightarrow> string list \<Rightarrow> string \<Rightarrow> ownership \<Rightarrow> ownership \<times> bool" where
  "prove_ownership pa adapters key own =
     (case current_process pa adapters of
        None \<Rightarrow> (own, False) | Some f \<Rightarrow> reprove_driver_owned_process key f own)"

definition carry_fingerprint :: "bool \<Rightarrow> process_fingerprint option \<Rightarrow> json \<Rightarrow> json option" where
  "carry_fingerprint owned f args =
     (case f of
        Some p \<Rightarrow> if owned then index_put ''_protected_process_fingerprint'' (json_of_fingerprint p) args
                  else Some args
      | None \<Rightarrow> Some args)"

text \<open>The gates no consent opens.\<close>

definition hard_gates :: "platform_answers \<Rightarrow> permission_mode \<Rightarrow> call_facts \<Rightarrow> dispatch_refusal + unit" where
  "hard_gates pa mode f =
     (if has_adapter f ''browser_unbounded_script'' \<and> mode \<noteq> Unrestricted then Inl UnboundedOperation
      else if has_adapter f ''os_permission_prompt'' \<and> \<not> pa_driver_owned pa ''os_permission_prompt''
      then Inl PromptNeedsTrustedHost else Inr ())"

definition observation_gate ::
    "platform_answers \<Rightarrow> call_facts \<Rightarrow> json \<Rightarrow> dispatch_context
       \<Rightarrow> consent_store \<Rightarrow> consent_store \<times> (dispatch_refusal + unit)" where
  "observation_gate pa f args cm st =
     (let history = has_adapter f ''computer_history''
      in if (has_adapter f ''private_observation'' \<or> history)
            \<and> (history \<or> \<not> cf_owned f \<and> \<not> pa_driver_owned pa ''private_observation'' \<or> snd cm \<noteq> None)
         then authorize_private_observation pa (cf_tool f) args cm (cf_session f)
                (if history then ''computer_history'' else ''private_observation'') st
         else (st, Inr ()))"

definition clipboard_gate ::
    "platform_answers \<Rightarrow> call_facts \<Rightarrow> json \<Rightarrow> dispatch_context
       \<Rightarrow> consent_store \<Rightarrow> consent_store \<times> (dispatch_refusal + unit)" where
  "clipboard_gate pa f args cm st =
     (if has_adapter f ''clipboard'' then authorize_clipboard pa (cf_tool f) args cm (cf_session f) st
      else (st, Inr ()))"

text \<open>The public arguments, rewritten to the approved paths, and the private arguments made of
  them anew.\<close>

definition file_gate ::
    "platform_answers \<Rightarrow> call_facts \<Rightarrow> trusted_evidence \<Rightarrow> json \<times> json \<Rightarrow> dispatch_context
       \<Rightarrow> consent_store \<Rightarrow> consent_store \<times> (dispatch_refusal + json \<times> json)" where
  "file_gate pa f ev args cm st =
     (if has_adapter f ''file_transfer_and_output''
      then and_then (authorize_file_transfer pa (cf_tool f) (fst args) cm (cf_session f) st)
             (\<lambda>st pub. (st, Inr (pub, fst (namespace_runtime_args (fst cm) ev pub))))
      else (st, Inr args))"

definition input_gate ::
    "platform_answers \<Rightarrow> call_facts \<Rightarrow> json \<Rightarrow> dispatch_context
       \<Rightarrow> consent_store \<Rightarrow> consent_store \<times> (dispatch_refusal + unit)" where
  "input_gate pa f args cm st =
     (if has_adapter f ''desktop_input'' \<and> (\<not> cf_owned f \<or> snd cm \<noteq> None)
      then authorize_desktop_input pa (cf_tool f) args cm (cf_session f) st else (st, Inr ()))"

definition browser_gate ::
    "platform_answers \<Rightarrow> ownership \<Rightarrow> attested_call \<Rightarrow> call_facts \<Rightarrow> dispatch_context
       \<Rightarrow> consent_store \<Rightarrow> consent_store \<times> (dispatch_refusal + unit)" where
  "browser_gate pa own q f cm st =
     (if has_adapter f (at_adapter q) \<and> (\<not> pa_driver_owned pa (at_adapter q) \<or> snd cm \<noteq> None)
      then and_then (attested_gate pa own q cm (cf_session f) st) (\<lambda>st _. (st, Inr ()))
      else (st, Inr ()))"

definition termination_gate ::
    "platform_answers \<Rightarrow> ownership \<Rightarrow> call_facts \<Rightarrow> json \<Rightarrow> dispatch_context
       \<Rightarrow> consent_store \<Rightarrow> consent_store \<times> (dispatch_refusal + json)" where
  "termination_gate pa own f priv cm st =
     (if has_adapter f ''process_control'' \<and> (\<not> cf_owned f \<or> snd cm \<noteq> None)
      then and_then (attested_gate pa own termination_call cm (cf_session f) st) (\<lambda>st approved.
             (st, if ctx_mode (fst cm) = Unrestricted then Inr priv
                  else (case index_put ''_protected_process_fingerprint'' (json_index approved ''fingerprint'') priv of
                          None \<Rightarrow> Inl DispatchPanics | Some a \<Rightarrow> Inr a)))
      else (st, Inr priv))"

definition configuration_gate ::
    "platform_answers \<Rightarrow> call_facts \<Rightarrow> json \<Rightarrow> dispatch_context
       \<Rightarrow> consent_store \<Rightarrow> consent_store \<times> (dispatch_refusal + unit)" where
  "configuration_gate pa f args cm st =
     (if has_adapter f ''driver_configuration''
      then authorize_driver_configuration pa (cf_schema f) args cm (cf_session f) st else (st, Inr ()))"

text \<open>All of them, on the public and the private arguments; the result is the private ones.\<close>

definition resource_gates ::
    "platform_answers \<Rightarrow> ownership \<Rightarrow> call_facts \<Rightarrow> trusted_evidence \<Rightarrow> json \<times> json \<Rightarrow> dispatch_context
       \<Rightarrow> consent_store \<Rightarrow> consent_store \<times> (dispatch_refusal + json)" where
  "resource_gates pa own f ev args cm st =
     and_then (observation_gate pa f (fst args) cm st) (\<lambda>st _.
     and_then (clipboard_gate pa f (fst args) cm st) (\<lambda>st _.
     and_then (file_gate pa f ev args cm st) (\<lambda>st args.
     and_then (input_gate pa f (fst args) cm st) (\<lambda>st _.
     and_then (browser_gate pa own dialog_call f cm st) (\<lambda>st _.
     and_then (browser_gate pa own bound_input_call f cm st) (\<lambda>st _.
     and_then (termination_gate pa own f (snd args) cm st) (\<lambda>st priv.
     and_then (configuration_gate pa f (fst args) cm st) (\<lambda>st _.
       (st, Inr priv)))))))))"


section \<open>Admission to the lifecycle, and the tool\<close>

text \<open>\<open>Some (Some id)\<close> is a guard that has to be dropped at the end.\<close>

definition lifecycle_gate ::
    "transport_owner option \<Rightarrow> instant \<Rightarrow> duration option \<Rightarrow> string \<Rightarrow> string option \<Rightarrow> json
       \<Rightarrow> session_state \<Rightarrow> session_state \<times> (dispatch_refusal + string option)" where
  "lifecycle_gate cur now ttl tool session priv sessions =
     (if \<not> session_requiring_tool tool \<or> tool = ''start_session'' then (sessions, Inr None)
      else (case session of
              None \<Rightarrow> (sessions, Inl SessionUnavailable)
            | Some sid \<Rightarrow>
                (let owner = (case get_str priv ''_transport_session_id'' of Some o' \<Rightarrow> o' | None \<Rightarrow> sid);
                     label = get_str priv ''_public_session_label'';
                     meta = infer_transport_metadata owner
                 in case begin_session_dispatch cur sid label owner (label = None) (fst meta) (snd meta) ttl now sessions of
                      Inl e \<Rightarrow> (sessions, Inl (LifecycleRefused e))
                    | Inr sessions' \<Rightarrow> (sessions', Inr (Some sid)))))"

definition leave_lifecycle :: "host \<Rightarrow> instant \<Rightarrow> string option \<Rightarrow> session_state \<Rightarrow> session_state" where
  "leave_lifecycle h now guard sessions =
     (case guard of None \<Rightarrow> sessions | Some sid \<Rightarrow> guard_drop h sid now sessions)"

text \<open>A process that a launch started and the platform attests is the driver's.\<close>

definition claim_launched ::
    "platform_answers \<Rightarrow> string \<Rightarrow> string \<Rightarrow> tool_result \<Rightarrow> ownership \<Rightarrow> ownership" where
  "claim_launched pa key tool res own =
     (if tool \<noteq> ''launch_app'' \<or> result_error res then own
      else (case (pa_pids_before pa, Option.bind (result_structured res) (\<lambda>v. get_i64 v ''pid'')) of
              (Some before, Some pid) \<Rightarrow>
                if 0 < pid \<and> pid \<notin> set before
                then (case pa_attest pa pid of None \<Rightarrow> own | Some f \<Rightarrow> mark_driver_owned_process key f own)
                else own
            | _ \<Rightarrow> own))"

text \<open>The lease of the desktop and the pass-through of the preview, then the tool.\<close>

definition run_tool ::
    "platform_answers \<Rightarrow> registered_tool \<Rightarrow> string \<Rightarrow> string \<Rightarrow> string \<Rightarrow> json \<Rightarrow> dispatch_state
       \<Rightarrow> dispatch_state \<times> (dispatch_refusal + json \<times> tool_result)" where
  "run_tool pa t tool key pre priv s =
     (if needs_desktop_authority tool \<and> \<not> pa_lease pa then (s, Inl CleanupUnconfirmed)
      else if is_physical_desktop_action tool \<and> \<not> pa_passthrough pa then (s, Inl PreviewHoldsInput)
      else (let ran = rt_run t priv (ds_sessions s, ds_scopes s)
            in (s\<lparr>ds_sessions := fst (fst ran), ds_scopes := snd (fst ran),
                  ds_owned := claim_launched pa key tool (snd ran) (ds_owned s)\<rparr>,
                Inr (priv, restore_public_runtime_result pre (snd ran)))))"

definition admitted_run ::
    "('re, 'rego) dispatch_config \<Rightarrow> platform_answers \<Rightarrow> registered_tool \<Rightarrow> string \<Rightarrow> string option \<Rightarrow> string
       \<Rightarrow> string \<Rightarrow> json \<Rightarrow> dispatch_state \<Rightarrow> dispatch_state \<times> (dispatch_refusal + json \<times> tool_result)" where
  "admitted_run dc pa t tool session key pre priv s =
     (case lifecycle_gate (dc_owner dc) (pa_begin_at pa) (lifecycle_idle_ttl_override (fst (ds_context s)))
             tool session priv (ds_sessions s) of
        (sessions, Inl e) \<Rightarrow> (s\<lparr>ds_sessions := sessions\<rparr>, Inl e)
      | (sessions, Inr guard) \<Rightarrow>
          (case run_tool pa t tool key pre priv (s\<lparr>ds_sessions := sessions\<rparr>) of
             (s', r) \<Rightarrow>
               (s'\<lparr>ds_sessions := leave_lifecycle (dc_host dc) (pa_end_at pa) guard (ds_sessions s')\<rparr>, r)))"


section \<open>The whole call\<close>

text \<open>From the ownership proof to the end, inside the text lane.\<close>

definition protected_call ::
    "('re, 'rego) dispatch_config \<Rightarrow> platform_answers \<Rightarrow> registered_tool \<Rightarrow> string \<Rightarrow> trusted_evidence
       \<Rightarrow> json \<Rightarrow> json \<Rightarrow> dispatch_state \<Rightarrow> dispatch_state \<times> (dispatch_refusal + json \<times> tool_result)" where
  "protected_call dc pa t tool ev pub priv s =
     (let pre = runtime_prefix_of (fst (ds_context s));
          session = get_str priv ''_session_id'';
          key = process_ownership_key session pre;
          adapters = adapter_ids_for_call tool pub;
          mode = ctx_mode (fst (ds_context s));
          (own, owned) = prove_ownership pa adapters key (ds_owned s);
          f = \<lparr>cf_tool = tool, cf_schema = rt_schema t, cf_session = session, cf_adapters = adapters, cf_owned = owned\<rparr>;
          s = s\<lparr>ds_owned := own\<rparr>
      in if mode = Standard \<and> has_adapter f ''process_control'' \<and> \<not> owned then (s, Inl ForeignTermination)
         else (case carry_fingerprint owned (current_process pa adapters) priv of
           None \<Rightarrow> (s, Inl DispatchPanics)
         | Some priv \<Rightarrow>
             (case hard_gates pa mode f of
                Inl e \<Rightarrow> (s, Inl e)
              | Inr _ \<Rightarrow>
                  (case resource_gates pa own f ev (pub, priv) (ds_context s) (ds_consent s) of
                     (st, Inl e) \<Rightarrow> (s\<lparr>ds_consent := st\<rparr>, Inl e)
                   | (st, Inr priv) \<Rightarrow>
                       (case commit_dispatch (pa_commit_clock pa) (ds_context s) of
                          (cm, Inl e) \<Rightarrow> (s\<lparr>ds_consent := st, ds_context := cm\<rparr>, Inl (CommitRefused e))
                        | (cm, Inr _) \<Rightarrow>
                            admitted_run dc pa t tool session key pre priv
                              (s\<lparr>ds_consent := st, ds_context := cm\<rparr>))))))"

text \<open>A refusal of a session or a capture scope has its private names removed; it carries none in
  this model.\<close>

definition invoke_authorized ::
    "('re, 'rego) dispatch_config \<Rightarrow> platform_answers \<Rightarrow> tool_call \<Rightarrow> dispatch_state
       \<Rightarrow> dispatch_state \<times> (dispatch_refusal + json \<times> tool_result)" where
  "invoke_authorized dc pa q s =
     (let tool = resolved_name (tc_name q)
      in case read_call (dc_tools dc) (fst (ds_context s)) (ds_sessions s) (tc_name q) (tc_args q) of
           Inl e \<Rightarrow> (s, Inl e)
         | Inr (t, pub) \<Rightarrow>
             (case authorize_tool_call (dc_own_pid dc) (dc_engines dc) (dc_managed dc) (dc_user dc) (dc_parse_url dc)
                     (pa_admission_clock pa) tool pub (ds_context s) of
                (cm, Inl e) \<Rightarrow> (s\<lparr>ds_context := cm\<rparr>, Inl (NotAdmitted e))
              | (cm, Inr assessed) \<Rightarrow>
                  (case private_args (fst cm) (tc_evidence q) tool pub of
                     Inl e \<Rightarrow> (s\<lparr>ds_context := cm\<rparr>, Inl e)
                   | Inr priv \<Rightarrow>
                       if \<not> session_still_open (ds_sessions s) tool (get_str priv ''_session_id'')
                       then (s\<lparr>ds_context := cm\<rparr>, Inl SessionEndedRefusal)
                       else (case enforce_tool tool priv (ds_scopes s) of
                               Inl v \<Rightarrow> (s\<lparr>ds_context := cm\<rparr>, Inl (ScopeRefusal v))
                             | Inr _ \<Rightarrow>
                                 with_text_lane tool pub (protected_call dc pa t tool (tc_evidence q) pub priv)
                                   (s\<lparr>ds_context := cm\<rparr>)))))"

end
