(* ===== verification/DispatchProps.thy ===== *)
theory DispatchProps
  imports Dispatch ToolArgsProps Admission
begin

text \<open>
  What the dispatch boundary guarantees: a tool runs only after every gate, and under a manifest only
  with resources the manifest names.
\<close>

section \<open>Stages of a call that runs\<close>

lemma ask_consent_Inr:
  "ask_consent pa (c, mo) q st = (st', Inr u) \<Longrightarrow>
     (\<exists>b. consent_gate c mo (call_adapter q) (call_resource q) = Inr b)
     \<and> manifest_accepts mo (call_adapter q) (call_resource q)"
  by (auto simp: ask_consent_def authorize_protected_def Let_def dest: consent_gate_Inr
           split: sum.splits bool.splits prod.splits consent_outcome.splits)

lemma ask_consent_manifest:
  "ask_consent pa (c, Some m) q st = (st', Inr u) \<Longrightarrow>
     authorize_protected_resource m (call_adapter q) (call_resource q) = Inr ()"
  by (drule ask_consent_Inr) (simp add: manifest_accepts_def)

lemma not_unrestricted_Some [simp]: "\<not> unrestricted_without_manifest (c, Some m)" "\<not> promptless (c, Some m)"
  by (simp_all add: unrestricted_without_manifest_def promptless_def)

lemma read_call_Inr:
  "read_call tools c sessions name raw = Inr (t, pub) \<Longrightarrow>
     \<not> is_runtime_scope_suspended (daemon_generation c) sessions \<and> \<not> revoked c
     \<and> tools (resolved_name name) = Some t
     \<and> normalize_action_target (resolved_name name)
         (normalize_delivery_mode_args (rt_schema t) (sanitize_reserved_args raw)) = Inr pub"
  by (auto simp: read_call_def Let_def split: if_splits option.splits sum.splits)

lemma try_admit_Inr:
  "try_admit_text_input tool args typing = Inr typing' \<Longrightarrow>
     (case text_lane tool args of None \<Rightarrow> typing' = typing | Some pid \<Rightarrow> pid \<notin> set typing \<and> typing' = pid # typing)"
  by (auto simp: try_admit_text_input_def split: option.splits if_splits)

lemma with_text_lane_Inr:
  assumes "with_text_lane tool args body s = (s', Inr r)"
  shows "\<exists>typing s1. try_admit_text_input tool args (ds_typing s) = Inr typing
    \<and> body (s\<lparr>ds_typing := typing\<rparr>) = (s1, Inr r)"
  using assms by (auto simp: with_text_lane_def split: sum.splits prod.splits)

lemma protected_call_Inr:
  assumes "protected_call dc pa t tool ev pub priv s = (s', Inr r)"
  shows "\<exists>own owned priv1 st priv2 cm s1.
      prove_ownership pa (adapter_ids_for_call tool pub)
        (process_ownership_key (get_str priv ''_session_id'') (runtime_prefix_of (fst (ds_context s)))) (ds_owned s)
          = (own, owned)
    \<and> (ctx_mode (fst (ds_context s)) = Standard \<and> ''process_control'' \<in> set (adapter_ids_for_call tool pub) \<longrightarrow> owned)
    \<and> hard_gates pa (ctx_mode (fst (ds_context s)))
        \<lparr>cf_tool = tool, cf_schema = rt_schema t, cf_session = get_str priv ''_session_id'',
         cf_adapters = adapter_ids_for_call tool pub, cf_owned = owned\<rparr> = Inr ()
    \<and> resource_gates pa own
        \<lparr>cf_tool = tool, cf_schema = rt_schema t, cf_session = get_str priv ''_session_id'',
         cf_adapters = adapter_ids_for_call tool pub, cf_owned = owned\<rparr> ev (pub, priv1) (ds_context s) (ds_consent s)
          = (st, Inr priv2)
    \<and> commit_dispatch (pa_commit_clock pa) (ds_context s) = (cm, Inr ())
    \<and> admitted_run dc pa t tool (get_str priv ''_session_id'')
        (process_ownership_key (get_str priv ''_session_id'') (runtime_prefix_of (fst (ds_context s))))
        (runtime_prefix_of (fst (ds_context s))) priv2 s1 = (s', Inr r)
    \<and> ds_sessions s1 = ds_sessions s \<and> ds_context s1 = cm"
  using assms
  by (auto simp: protected_call_def Let_def has_adapter_def
           split: prod.splits if_splits option.splits sum.splits)
     ((intro exI conjI, assumption, assumption, simp, simp)+)

text \<open>The session of a call is alive, and belongs to the transport of the call.\<close>

definition session_admits :: "session_state \<Rightarrow> json \<Rightarrow> string \<Rightarrow> bool" where
  "session_admits sessions priv sid =
     (is_trackable sid \<and> \<not> is_session_ended sessions sid
      \<and> (\<forall>r. kv_get (records sessions) sid = Some r \<longrightarrow> pending_end r = None
            \<and> owner_transport r = (case get_str priv ''_transport_session_id'' of Some t \<Rightarrow> t | None \<Rightarrow> sid)))"

lemma begin_session_dispatch_Inr:
  "begin_session_dispatch cur sid label ot impl tr ck ttl now s = Inr s' \<Longrightarrow>
     is_trackable sid \<and> \<not> is_session_ended s sid
     \<and> (\<forall>r. kv_get (records s) sid = Some r \<longrightarrow> pending_end r = None \<and> owner_transport r = ot)"
  by (auto simp: begin_session_dispatch_def is_session_ended_def Let_def split: if_splits sum.splits)

lemma lifecycle_gate_Inr:
  assumes "lifecycle_gate cur now ttl tool session priv sessions = (sessions', Inr guard)"
    and "session_requiring_tool tool" "tool \<noteq> ''start_session''"
  shows "\<exists>sid. session = Some sid \<and> session_admits sessions priv sid"
  using assms
  by (auto simp: lifecycle_gate_def session_admits_def Let_def
           split: option.splits sum.splits dest!: begin_session_dispatch_Inr)

lemma run_tool_Inr:
  "run_tool pa t tool key pre priv s = (s', Inr r) \<Longrightarrow>
     (needs_desktop_authority tool \<longrightarrow> pa_lease pa) \<and> (is_physical_desktop_action tool \<longrightarrow> pa_passthrough pa)
     \<and> fst r = priv"
  by (auto simp: run_tool_def Let_def split: if_splits)

lemma admitted_run_Inr:
  assumes "admitted_run dc pa t tool session key pre priv s = (s', Inr r)"
  shows "(session_requiring_tool tool \<and> tool \<noteq> ''start_session'' \<longrightarrow>
       (\<exists>sid. session = Some sid \<and> session_admits (ds_sessions s) priv sid))
    \<and> (needs_desktop_authority tool \<longrightarrow> pa_lease pa)
    \<and> (is_physical_desktop_action tool \<longrightarrow> pa_passthrough pa)
    \<and> fst r = priv"
proof -
  from assms obtain sessions guard s1 where
    l: "lifecycle_gate (dc_owner dc) (pa_begin_at pa) (lifecycle_idle_ttl_override (fst (ds_context s)))
          tool session priv (ds_sessions s) = (sessions, Inr guard)"
    and r: "run_tool pa t tool key pre priv (s\<lparr>ds_sessions := sessions\<rparr>) = (s1, Inr r)"
    by (auto simp: admitted_run_def split: prod.splits sum.splits)
  from lifecycle_gate_Inr [OF l] run_tool_Inr [OF r] show ?thesis by simp
qed

lemma resource_gates_Inr:
  assumes "resource_gates pa own f ev (pub, priv) cm st = (st', Inr priv')"
  shows "\<exists>s0 s1 s2 s3 s4 s5 s6 s7 pub' priv1 priv2 u1 u2 u3 u4 u5.
      observation_gate pa f pub cm st = (s0, Inr ())
    \<and> clipboard_gate pa f pub cm s0 = (s1, Inr u1)
    \<and> file_gate pa f ev (pub, priv) cm s1 = (s2, Inr (pub', priv1))
    \<and> input_gate pa f pub' cm s2 = (s3, Inr u2)
    \<and> browser_gate pa own dialog_call f cm s3 = (s4, Inr u3)
    \<and> browser_gate pa own bound_input_call f cm s4 = (s5, Inr u4)
    \<and> termination_gate pa own f priv1 cm s5 = (s6, Inr priv2)
    \<and> configuration_gate pa f pub' cm s6 = (s7, Inr u5)"
  using assms unfolding resource_gates_def and_then_Inr by (auto 0 0)

lemma hard_gates_Inr:
  "hard_gates pa mode f = Inr u \<Longrightarrow>
     (has_adapter f ''browser_unbounded_script'' \<longrightarrow> mode = Unrestricted)
     \<and> (has_adapter f ''os_permission_prompt'' \<longrightarrow> pa_driver_owned pa ''os_permission_prompt'')"
  by (auto simp: hard_gates_def split: if_splits)

lemma invoke_Inr:
  assumes "invoke_authorized dc pa q s = (s', Inr r)"
  shows "\<exists>t pub cm assessed priv typing s1 s2.
      read_call (dc_tools dc) (fst (ds_context s)) (ds_sessions s) (tc_name q) (tc_args q) = Inr (t, pub)
    \<and> authorize_tool_call (dc_own_pid dc) (dc_engines dc) (dc_managed dc) (dc_user dc) (dc_parse_url dc)
        (pa_admission_clock pa) (resolved_name (tc_name q)) pub (ds_context s) = (cm, Inr assessed)
    \<and> private_args (fst cm) (tc_evidence q) (resolved_name (tc_name q)) pub = Inr priv
    \<and> session_still_open (ds_sessions s) (resolved_name (tc_name q)) (get_str priv ''_session_id'')
    \<and> enforce_tool (resolved_name (tc_name q)) priv (ds_scopes s) = Inr ()
    \<and> try_admit_text_input (resolved_name (tc_name q)) pub (ds_typing s) = Inr typing
    \<and> s1 = s\<lparr>ds_context := cm, ds_typing := typing\<rparr>
    \<and> protected_call dc pa t (resolved_name (tc_name q)) (tc_evidence q) pub priv s1 = (s2, Inr r)"
proof -
  from assms obtain t pub where rd: "read_call (dc_tools dc) (fst (ds_context s)) (ds_sessions s) (tc_name q) (tc_args q) = Inr (t, pub)"
    by (auto simp: invoke_authorized_def Let_def split: sum.splits)
  with assms obtain cm assessed where
    adm: "authorize_tool_call (dc_own_pid dc) (dc_engines dc) (dc_managed dc) (dc_user dc) (dc_parse_url dc)
        (pa_admission_clock pa) (resolved_name (tc_name q)) pub (ds_context s) = (cm, Inr assessed)"
    by (auto simp: invoke_authorized_def Let_def split: sum.splits prod.splits)
  with assms rd obtain priv where pv: "private_args (fst cm) (tc_evidence q) (resolved_name (tc_name q)) pub = Inr priv"
    by (auto simp: invoke_authorized_def Let_def split: sum.splits)
  with assms rd adm have rest: "session_still_open (ds_sessions s) (resolved_name (tc_name q)) (get_str priv ''_session_id'')"
    "enforce_tool (resolved_name (tc_name q)) priv (ds_scopes s) = Inr ()"
    "with_text_lane (resolved_name (tc_name q)) pub
       (protected_call dc pa t (resolved_name (tc_name q)) (tc_evidence q) pub priv) (s\<lparr>ds_context := cm\<rparr>) = (s', Inr r)"
    by (auto simp: invoke_authorized_def Let_def split: if_splits sum.splits)
  from with_text_lane_Inr [OF rest(3)] obtain typing s2 where
    "try_admit_text_input (resolved_name (tc_name q)) pub (ds_typing s) = Inr typing"
    "protected_call dc pa t (resolved_name (tc_name q)) (tc_evidence q) pub priv
       (s\<lparr>ds_context := cm, ds_typing := typing\<rparr>) = (s2, Inr r)"
    by auto
  with rd adm pv rest show ?thesis by blast
qed


section \<open>An example runtime\<close>

definition quiet_tool :: registered_tool where
  "quiet_tool = \<lparr>rt_schema = JObj [],
     rt_run = \<lambda>args tables. (tables, \<lparr>result_texts = [], result_structured = None, result_error = False\<rparr>)\<rparr>"

definition quiet_config :: "string \<Rightarrow> (unit, unit) dispatch_config" where
  "quiet_config tool =
     \<lparr>dc_engines = plain_engines, dc_managed = Inr None, dc_user = Inr None, dc_parse_url = \<lambda>_. None,
      dc_own_pid = 1, dc_tools = [tool \<mapsto> quiet_tool],
      dc_host = \<lparr>run_hook = \<lambda>_ _. HookOk, cursor_readers = \<lambda>_. []\<rparr>, dc_owner = None\<rparr>"

definition quiet_files :: file_world where
  "quiet_files =
     \<lparr>fw_home = None, fw_cwd = None, fw_lstat = \<lambda>_. LNotFound, fw_is_file = \<lambda>_. False,
      fw_canonicalize = \<lambda>p. Inl p,
      fw_tree = \<lparr>fs_exists = \<lambda>_. False, fs_is_dir = \<lambda>_. False, fs_lstat = \<lambda>_. LNotFound, fs_canonicalize = Inr\<rparr>\<rparr>"

definition quiet_answers :: platform_answers where
  "quiet_answers =
     \<lparr>pa_process_scope = Inr None, pa_scope = \<lambda>_. Inr None, pa_driver_owned = \<lambda>_. False,
      pa_validate = \<lambda>_ _. Inr (), pa_display = Inl Unavailable, pa_attest = \<lambda>_. None, pa_apps = None,
      pa_pids_before = None, pa_recording_dir = None, pa_files = quiet_files,
      pa_consent = \<lambda>_. \<lparr>cw_ask = \<lambda>_ _. ProviderTimeout,
        cw_moments = \<lparr>at_lookup = 0, at_recheck = 0, at_request = 0, at_approve = (0, 0, 0), at_mint = 0\<rparr>,
        cw_nonce = ''n'', cw_grant_id = 0\<rparr>,
      pa_sha = \<lambda>_. ''sha'', pa_admission_clock = at_second 0, pa_commit_clock = at_second 1,
      pa_begin_at = 0, pa_end_at = 0, pa_lease = True, pa_passthrough = True\<rparr>"

definition empty_consent :: consent_store where
  "empty_consent =
     \<lparr>consent_broker = \<lparr>daemon_instance = ''d'', next_generation = 0, provider = None\<rparr>,
      grants = [], revoked_grants = []\<rparr>"

definition quiet_state :: "dispatch_context \<Rightarrow> dispatch_state" where
  "quiet_state cm =
     \<lparr>ds_sessions = init_session_state, ds_scopes = [], ds_context = cm,
      ds_consent = empty_consent, ds_owned = [], ds_typing = []\<rparr>"

definition quiet_call :: "string \<Rightarrow> tool_call" where
  "quiet_call tool = \<lparr>tc_name = tool, tc_args = JObj [], tc_evidence = no_evidence\<rparr>"

definition history_manifest :: session_manifest where
  "history_manifest = bare_manifest\<lparr>m_idle_timeout := None, m_allow := [''history_query''], computer_history_operations := [''query'']\<rparr>"

definition quiet_private :: json where
  "quiet_private = JObj [(''_session_id'', JStr ''__cua_runtime_a1:implicit-direct''),
     (''_transport_session_id'', JStr ''__cua_runtime_a1:implicit-direct'')]"

lemma quiet_read:
  assumes "c = example_runtime\<lparr>ctx_mode := mode\<rparr>" "tool \<noteq> ''type_text_chars''"
  shows "read_call [tool \<mapsto> quiet_tool] c init_session_state tool (JObj []) = Inr (quiet_tool, JObj [])"
  using assms
  by (simp add: read_call_def sanitize_reserved_args_def kv_retain_def is_runtime_scope_suspended_def
        init_session_state_def example_runtime_def resolved_name_def quiet_tool_def normalize_delivery_mode_args_def
        normalize_action_target_def schema_accepts_delivery_mode_def supplied_mode_def Let_def get_str_def)

lemma quiet_private_args:
  "session_selecting_tool tool \<Longrightarrow>
     private_args (example_runtime\<lparr>ctx_mode := mode\<rparr>) no_evidence tool (JObj []) = Inr quiet_private"
  by (simp add: private_args_def implicit_identity_def namespace_runtime_args_def no_evidence_def apply_runtime_args_def
     put_some_def publish_label_def fill_transport_def example_runtime_def put_idle_ttl_def lifecycle_idle_ttl_override_def
     fill_session_id_def nonempty_str_def NAMESPACED_KEYS_def namespace_key_def get_str_def quiet_private_def
     runtime_prefix_of_def index_put_def Let_def)

lemma quiet_admit:
  "authorize_tool_call 1 plain_engines (Inr None) (Inr None) (\<lambda>_. None) (at_second 0) ''list_apps'' (JObj [])
     (example_runtime, None) = ((example_runtime, None), Inr (classify_tool_call ''list_apps'' (JObj [])))"
proof -
  have p: "authorize_policy plain_engines (Inr None) (Inr None) tool args = Inr ()" for tool args
    by (simp add: authorize_policy_iff)
  have e: "context_is_expired t example_runtime = (example_runtime, False)" for t
    by (simp add: context_is_expired_def example_runtime_def)
  have m: "ctx_mode example_runtime = Standard" by (simp add: example_runtime_def)
  show ?thesis
    by (simp add: authorize_tool_call_def enforce_hard_invariants_def process_targeting_tool_def p e m Let_def
        classify_tool_call_def sensitive_def)
qed

lemma quiet_admit_manifest:
  "authorize_tool_call 1 plain_engines (Inr None) (Inr None) (\<lambda>_. None) (at_second 0) ''history_query'' (JObj [])
     (example_runtime\<lparr>ctx_mode := Unrestricted\<rparr>, Some history_manifest)
   = ((example_runtime\<lparr>ctx_mode := Unrestricted\<rparr>, Some history_manifest), Inr (classify_tool_call ''history_query'' (JObj [])))"
proof -
  have p: "authorize_policy plain_engines (Inr None) (Inr None) tool args = Inr ()" for tool args
    by (simp add: authorize_policy_iff)
  have e: "context_is_expired t (example_runtime\<lparr>ctx_mode := m\<rparr>) = (example_runtime\<lparr>ctx_mode := m\<rparr>, False)" for t m
    by (simp add: context_is_expired_def example_runtime_def)
  have a: "admit_by_manifest (at_second 0) (\<lambda>_. None) Unrestricted ''history_query'' (JObj []) history_manifest
      = (history_manifest, Inr ())"
    by (simp add: admit_by_manifest_def validate_for_mode_def check_lifetime_def manifest_is_expired_def
        history_manifest_def bare_manifest_def decision_def manifest_canonical_tool_name_def authorize_call_def)
  show ?thesis
    by (simp add: authorize_tool_call_def enforce_hard_invariants_def process_targeting_tool_def p e a Let_def
        classify_tool_call_def sensitive_def)
qed

lemma quiet_adapters: "adapter_ids_for_call ''list_apps'' (JObj []) = [''private_observation'']"
  by code_simp
lemma quiet_adapters': "adapter_ids_for_call ''history_query'' (JObj []) = [''computer_history'']"
  by code_simp

lemma quiet_run:
  assumes "session_requiring_tool tool" "\<not> needs_desktop_authority tool" "\<not> is_physical_desktop_action tool" "tool \<notin> set [''start_session'', ''launch_app'']"
     "ds_sessions s = init_session_state" "lifecycle_idle_ttl_override (fst (ds_context s)) = None"
  shows "\<not> isl (snd (admitted_run (quiet_config tool) quiet_answers quiet_tool tool
     (Some ''__cua_runtime_a1:implicit-direct'') key pre quiet_private s))"
proof -
  have g: "get_str quiet_private ''_transport_session_id'' = Some ''__cua_runtime_a1:implicit-direct''"
    "get_str quiet_private ''_public_session_label'' = None"
    by (simp_all add: quiet_private_def get_str_def)
  show ?thesis
  using assms
  by (simp add: admitted_run_def lifecycle_gate_def g Let_def run_tool_def quiet_config_def quiet_answers_def quiet_tool_def
     begin_session_dispatch_def admission_def init_session_state_def is_trackable_def override_ttl_def fresh_record_def
     claim_launched_def split: prod.splits)
qed

lemma quiet_session: "get_str quiet_private ''_session_id'' = Some ''__cua_runtime_a1:implicit-direct''"
  by (simp add: quiet_private_def get_str_def)

text \<open>The two example calls: a list of the applications without a manifest, and a query of the history under
  one.\<close>

definition quiet_case :: "string \<Rightarrow> dispatch_context \<Rightarrow> bool" where
  "quiet_case tool cm =
     (tool = ''list_apps'' \<and> cm = (example_runtime, None)
      \<or> tool = ''history_query'' \<and> cm = (example_runtime\<lparr>ctx_mode := Unrestricted\<rparr>, Some history_manifest))"

lemma quiet_names:
  assumes "quiet_case tool cm"
  shows "session_requiring_tool tool" "session_selecting_tool tool" "resolved_name tool = tool" "tool \<noteq> ''type_text_chars''"
    "\<not> needs_desktop_authority tool" "\<not> is_physical_desktop_action tool" "tool \<notin> set [''start_session'', ''launch_app'']"
    "enforce_tool tool quiet_private [] = Inr ()" "text_lane tool (JObj []) = None"
  using assms
  by (auto simp: quiet_case_def session_selecting_tool_def session_requiring_tool_def resolved_name_def
        needs_desktop_authority_def is_physical_desktop_action_def enforce_tool_def get_session_def text_lane_def
        split: option.splits)

lemma quiet_gates:
  assumes "quiet_case tool cm" "cf_adapters f = adapter_ids_for_call tool (JObj [])" "cf_tool f = tool"
  shows "resource_gates quiet_answers [] f ev (JObj [], quiet_private) cm st = (st, Inr quiet_private)"
  using assms(1) unfolding quiet_case_def
proof (elim disjE conjE)
  assume "tool = ''list_apps''" "cm = (example_runtime, None)"
  with assms(2,3) show ?thesis
    by (simp add: quiet_adapters resource_gates_def observation_gate_def has_adapter_def
          authorize_private_observation_def and_then_def quiet_answers_def unrestricted_without_manifest_def
          example_runtime_def get_str_def clipboard_gate_def file_gate_def input_gate_def browser_gate_def
          dialog_call_def bound_input_call_def termination_gate_def configuration_gate_def)
next
  assume t: "tool = ''history_query''" "cm = (example_runtime\<lparr>ctx_mode := Unrestricted\<rparr>, Some history_manifest)"
  have consent: "ask_consent quiet_answers (example_runtime\<lparr>ctx_mode := Unrestricted\<rparr>, Some history_manifest) q st = (st, Inr ())"
    if "call_adapter q = ''computer_history''"
      "call_resource q = JObj [(''kind'', JStr ''computer_history''), (''operation'', JStr ''query'')]" for q
    using that
    by (simp add: ask_consent_def Let_def authorize_protected_def consent_gate_def find_adapter_declared
          authorize_protected_resource_def get_str_def history_manifest_def ok_if_def resource_behavior_def
          example_runtime_def adapter_computer_history_def)
  from t assms(2,3) show ?thesis
    by (simp add: quiet_adapters' resource_gates_def observation_gate_def has_adapter_def
          authorize_private_observation_def and_then_def unrestricted_without_manifest_def consent
          observation_resource_def history_observation_resource_def get_str_def clipboard_gate_def file_gate_def
          input_gate_def browser_gate_def enriched_def get_i64_def
          dialog_call_def bound_input_call_def termination_gate_def configuration_gate_def)
qed

lemma quiet_commit:
  "quiet_case tool cm \<Longrightarrow> snd (commit_dispatch (pa_commit_clock quiet_answers) cm) = Inr ()
     \<and> lifecycle_idle_ttl_override (fst (fst (commit_dispatch (pa_commit_clock quiet_answers) cm))) = None"
  by (elim disjE conjE quiet_case_def [THEN iffD1, elim_format])
     (simp_all add: quiet_answers_def commit_dispatch_def commit_context_dispatch_def context_is_expired_def example_runtime_def
        check_lifetime_def manifest_is_expired_def history_manifest_def bare_manifest_def manifest_commit_def
        lifecycle_idle_ttl_override_def)

lemma quiet_protected:
  assumes "quiet_case tool cm"
  shows "\<not> isl (snd (protected_call (quiet_config tool) quiet_answers quiet_tool tool no_evidence (JObj []) quiet_private
           (quiet_state cm)))"
proof -
  have ad: "adapter_ids_for_call tool (JObj []) \<in> {[''private_observation''], [''computer_history'']}"
    using assms quiet_adapters quiet_adapters' by (auto simp: quiet_case_def)
  from quiet_commit [OF assms] obtain cm' where cm: "commit_dispatch (pa_commit_clock quiet_answers) cm = (cm', Inr ())"
    "lifecycle_idle_ttl_override (fst cm') = None" by (metis fst_conv prod.collapse)
  note run = quiet_run [OF quiet_names(1,5-7) [OF assms]]
  show ?thesis
    using ad assms
    by (auto simp: protected_call_def Let_def quiet_session prove_ownership_def current_process_def
         carry_fingerprint_def hard_gates_def has_adapter_def quiet_state_def quiet_gates [OF assms] cm run)
qed

lemma quiet_invoke:
  assumes "quiet_case tool cm"
  obtains s' seen res where
    "invoke_authorized (quiet_config tool) quiet_answers (quiet_call tool) (quiet_state cm) = (s', Inr (seen, res))"
proof -
  note n = quiet_names [OF assms]
  obtain mode where c: "fst cm = example_runtime\<lparr>ctx_mode := mode\<rparr>"
    using assms by (auto simp: quiet_case_def example_runtime_def)
  obtain assessed where a: "authorize_tool_call 1 plain_engines (Inr None) (Inr None) (\<lambda>_. None) (at_second 0) tool (JObj []) cm
      = (cm, Inr assessed)"
    using assms quiet_admit quiet_admit_manifest by (auto simp: quiet_case_def)
  have "\<not> isl (snd (invoke_authorized (quiet_config tool) quiet_answers (quiet_call tool) (quiet_state cm)))"
    using quiet_protected [OF assms] a quiet_read [OF c n(4)] quiet_private_args [OF n(2), of mode]
    by (simp add: invoke_authorized_def quiet_config_def quiet_answers_def quiet_call_def c n Let_def session_still_open_def quiet_session
     is_session_ended_def quiet_state_def init_session_state_def with_text_lane_def try_admit_text_input_def split: prod.splits)
  then show thesis
    using that by (cases "invoke_authorized (quiet_config tool) quiet_answers (quiet_call tool) (quiet_state cm)")
      (metis isl_def snd_conv sum.exhaust prod.collapse)
qed


section \<open>Complete mediation\<close>

text \<open>C1. A tool runs only after every gate. When a call reaches its tool, the runtime is not
  suspended and the authority not revoked; the tool is registered; the call, normalized, was
  admitted by the hard invariants, the policy and the manifest; its session had not ended; its
  capture scope allows it; no other text input was running in the process; a process it terminates
  in standard mode is one the driver launched; unbounded scripts run in unrestricted mode only and
  permission prompts only where the tool itself is driver-owned; the authority was still alive when
  the call was committed; a call that needs a session had a live one of its own transport; and the
  desktop was leased.\<close>

theorem a_tool_runs_only_after_every_gate:
  assumes "invoke_authorized dc pa q s = (s', Inr (seen, res))"
    and "tool = resolved_name (tc_name q)"
  shows "\<exists>t pub cm assessed priv.
      \<not> is_runtime_scope_suspended (daemon_generation (fst (ds_context s))) (ds_sessions s)
    \<and> \<not> revoked (fst (ds_context s))
    \<and> dc_tools dc tool = Some t
    \<and> normalize_action_target tool (normalize_delivery_mode_args (rt_schema t) (sanitize_reserved_args (tc_args q))) = Inr pub
    \<and> authorize_tool_call (dc_own_pid dc) (dc_engines dc) (dc_managed dc) (dc_user dc) (dc_parse_url dc)
        (pa_admission_clock pa) tool pub (ds_context s) = (cm, Inr assessed)
    \<and> private_args (fst cm) (tc_evidence q) tool pub = Inr priv
    \<and> session_still_open (ds_sessions s) tool (get_str priv ''_session_id'')
    \<and> enforce_tool tool priv (ds_scopes s) = Inr ()
    \<and> (\<forall>pid. text_lane tool pub = Some pid \<longrightarrow> pid \<notin> set (ds_typing s))
    \<and> (ctx_mode (fst cm) = Standard \<and> ''process_control'' \<in> set (adapter_ids_for_call tool pub) \<longrightarrow>
         snd (prove_ownership pa (adapter_ids_for_call tool pub)
           (process_ownership_key (get_str priv ''_session_id'') (runtime_prefix_of (fst cm))) (ds_owned s)))
    \<and> (''browser_unbounded_script'' \<in> set (adapter_ids_for_call tool pub) \<longrightarrow> ctx_mode (fst cm) = Unrestricted)
    \<and> (''os_permission_prompt'' \<in> set (adapter_ids_for_call tool pub) \<longrightarrow> pa_driver_owned pa ''os_permission_prompt'')
    \<and> snd (commit_dispatch (pa_commit_clock pa) cm) = Inr ()
    \<and> (session_requiring_tool tool \<and> tool \<noteq> ''start_session'' \<longrightarrow>
         (\<exists>sid. get_str priv ''_session_id'' = Some sid \<and> session_admits (ds_sessions s) seen sid))
    \<and> (needs_desktop_authority tool \<longrightarrow> pa_lease pa)"
proof -
  from invoke_Inr [OF assms(1)] obtain t pub cm assessed priv typing s1 s2 where
    rd: "read_call (dc_tools dc) (fst (ds_context s)) (ds_sessions s) (tc_name q) (tc_args q) = Inr (t, pub)"
    and adm: "authorize_tool_call (dc_own_pid dc) (dc_engines dc) (dc_managed dc) (dc_user dc) (dc_parse_url dc)
        (pa_admission_clock pa) tool pub (ds_context s) = (cm, Inr assessed)"
    and pv: "private_args (fst cm) (tc_evidence q) tool pub = Inr priv"
      "session_still_open (ds_sessions s) tool (get_str priv ''_session_id'')"
      "enforce_tool tool priv (ds_scopes s) = Inr ()"
    and lane: "try_admit_text_input tool pub (ds_typing s) = Inr typing"
    and s1: "s1 = s\<lparr>ds_context := cm, ds_typing := typing\<rparr>"
    and run: "protected_call dc pa t tool (tc_evidence q) pub priv s1 = (s2, Inr (seen, res))"
    unfolding assms(2) by blast
  obtain own owned priv1 st priv2 cm' s3 where
    own: "prove_ownership pa (adapter_ids_for_call tool pub)
        (process_ownership_key (get_str priv ''_session_id'') (runtime_prefix_of (fst (ds_context s1)))) (ds_owned s1) = (own, owned)"
      "ctx_mode (fst (ds_context s1)) = Standard \<and> ''process_control'' \<in> set (adapter_ids_for_call tool pub) \<longrightarrow> owned"
    and hard: "hard_gates pa (ctx_mode (fst (ds_context s1)))
        \<lparr>cf_tool = tool, cf_schema = rt_schema t, cf_session = get_str priv ''_session_id'',
         cf_adapters = adapter_ids_for_call tool pub, cf_owned = owned\<rparr> = Inr ()"
    and commit: "commit_dispatch (pa_commit_clock pa) (ds_context s1) = (cm', Inr ())"
    and tail: "admitted_run dc pa t tool (get_str priv ''_session_id'')
        (process_ownership_key (get_str priv ''_session_id'') (runtime_prefix_of (fst (ds_context s1))))
        (runtime_prefix_of (fst (ds_context s1))) priv2 s3 = (s2, Inr (seen, res))"
      "ds_sessions s3 = ds_sessions s1"
    using protected_call_Inr [OF run] by blast
  have fields: "ds_context s1 = cm" "ds_owned s1 = ds_owned s" "ds_sessions s1 = ds_sessions s"
    by (simp_all add: s1)
  note own = own [unfolded fields] and hard = hard [unfolded fields] and commit = commit [unfolded fields]
    and tail = tail [unfolded fields]
  note rd' = read_call_Inr [OF rd, folded assms(2)]
  note lane' = try_admit_Inr [OF lane]
  note hard' = hard_gates_Inr [OF hard, unfolded has_adapter_def call_facts.simps]
  note tail' = admitted_run_Inr [OF tail(1), unfolded tail(2), simplified]
  show ?thesis
    by (intro exI [of _ t] exI [of _ pub] exI [of _ cm] exI [of _ assessed] exI [of _ priv])
       (use rd' adm pv lane' own hard' commit tail' in \<open>simp split: option.splits\<close>)
qed

theorem a_tool_runs_only_after_every_gate_witness:
  "\<exists>s' seen res sid.
     invoke_authorized (quiet_config ''list_apps'') quiet_answers (quiet_call ''list_apps'')
       (quiet_state (example_runtime, None)) = (s', Inr (seen, res))
     \<and> session_admits init_session_state seen sid"
proof -
  have c: "quiet_case ''list_apps'' (example_runtime, None)" by (simp add: quiet_case_def)
  from quiet_invoke [OF c] obtain s' seen res where run: "invoke_authorized (quiet_config ''list_apps'')
      quiet_answers (quiet_call ''list_apps'') (quiet_state (example_runtime, None)) = (s', Inr (seen, res))" .
  have "resolved_name (tc_name (quiet_call ''list_apps'')) = ''list_apps''"
    by (simp add: quiet_call_def resolved_name_def)
  with a_tool_runs_only_after_every_gate [OF run refl] have "\<exists>sid. session_admits init_session_state seen sid"
    by (auto simp: session_requiring_tool_def quiet_state_def)
  with run show ?thesis by blast
qed


section \<open>Resources under a manifest\<close>

lemma observation_gate_manifest:
  assumes "observation_gate pa f args (c, Some m) st = (st', Inr u)"
    and "has_adapter f ''private_observation'' \<or> has_adapter f ''computer_history''"
    and "ad = (if has_adapter f ''computer_history'' then ''computer_history'' else ''private_observation'')"
  shows "\<exists>r w. observation_resource pa (cf_tool f) args = Inr (r, w)
    \<and> authorize_protected_resource m ad (enriched pa (c, Some m) r) = Inr ()"
  using assms
  by (cases "observation_resource pa (cf_tool f) args")
     (auto simp: observation_gate_def authorize_private_observation_def dest!: ask_consent_manifest
        split: if_splits)

lemma clipboard_gate_manifest:
  "clipboard_gate pa f args (c, Some m) st = (st', Inr u) \<Longrightarrow> has_adapter f ''clipboard'' \<Longrightarrow>
     authorize_protected_resource m ''clipboard'' (fst (clipboard_resource (cf_tool f) args)) = Inr ()"
  by (auto simp: clipboard_gate_def authorize_clipboard_def dest!: ask_consent_manifest)

text \<open>The public arguments after the file adapter: as they were, or with the approved paths.\<close>

definition approved_paths :: "platform_answers \<Rightarrow> session_manifest \<Rightarrow> string \<Rightarrow> json \<Rightarrow> json \<Rightarrow> bool" where
  "approved_paths pa m tool pub pub' =
     (file_need pa tool pub = Inr NoFile \<and> pub' = pub
      \<or> (\<exists>r w. file_need pa tool pub = Inr (FileNeed r w pub')
            \<and> authorize_protected_resource m ''file_transfer_and_output'' r = Inr ()))"

lemma file_gate_manifest:
  "file_gate pa f ev (pub, priv) (c, Some m) st = (st', Inr (pub', priv')) \<Longrightarrow>
     (if has_adapter f ''file_transfer_and_output'' then approved_paths pa m (cf_tool f) pub pub' else pub' = pub)"
  by (auto simp: file_gate_def authorize_file_transfer_def and_then_Inr approved_paths_def
           dest!: ask_consent_manifest split: sum.splits file_request.splits if_splits)

lemma input_gate_manifest:
  "input_gate pa f args (c, Some m) st = (st', Inr u) \<Longrightarrow> has_adapter f ''desktop_input'' \<Longrightarrow>
     \<exists>r w. input_resource pa (cf_tool f) args = Inr (r, w)
       \<and> authorize_protected_resource m ''desktop_input'' (enriched pa (c, Some m) r) = Inr ()"
  by (auto simp: input_gate_def authorize_desktop_input_def dest!: ask_consent_manifest
           split: sum.splits)

text \<open>What the tool attested, was in the manifest, and was attested again.\<close>

definition attested_in :: "platform_answers \<Rightarrow> session_manifest \<Rightarrow> string \<Rightarrow> json \<Rightarrow> bool" where
  "attested_in pa m ad r =
     (pa_scope pa ad = Inr (Some r) \<and> authorize_protected_resource m ad r = Inr ()
      \<and> pa_validate pa ad r = Inr ())"

lemma authorize_attested_manifest:
  "authorize_attested_resource pa own q (c, Some m) lifecycle st = (st', Inr r) \<Longrightarrow>
     (\<exists>r0. pa_scope pa (at_adapter q) = Inr (Some r0)
        \<and> (if at_adapter q = ''process_control'' then with_ownership own lifecycle r0 = Some r else r = r0))
     \<and> authorize_protected_resource m (at_adapter q) r = Inr ()"
  by (auto simp: authorize_attested_resource_def and_then_Inr dest!: ask_consent_manifest
        split: sum.splits option.splits if_splits)

lemma validate_attested_manifest:
  assumes "validate_attested_resource pa ad (c, Some m) lifecycle r st = (st', Inr u)"
  shows "pa_validate pa ad (if ad = ''process_control'' then json_del ''driver_owned'' r else r) = Inr ()"
  using assms
  by (cases "pa_validate pa ad (if ad = ''process_control'' then json_del ''driver_owned'' r else r)")
     (simp_all add: validate_attested_resource_def)

lemma attested_gate_manifest:
  "attested_gate pa own q (c, Some m) lifecycle st = (st', Inr r) \<Longrightarrow>
     (\<exists>r0. pa_scope pa (at_adapter q) = Inr (Some r0)
        \<and> (if at_adapter q = ''process_control'' then with_ownership own lifecycle r0 = Some r else r = r0))
     \<and> authorize_protected_resource m (at_adapter q) r = Inr ()
     \<and> pa_validate pa (at_adapter q)
         (if at_adapter q = ''process_control'' then json_del ''driver_owned'' r else r) = Inr ()"
  unfolding attested_gate_def and_then_Inr
  by (blast dest: authorize_attested_manifest validate_attested_manifest)

lemma browser_gate_manifest:
  "browser_gate pa own q f (c, Some m) st = (st', Inr u) \<Longrightarrow> has_adapter f (at_adapter q) \<Longrightarrow>
     at_adapter q \<noteq> ''process_control'' \<Longrightarrow> \<exists>r. attested_in pa m (at_adapter q) r"
  by (auto simp: browser_gate_def and_then_Inr attested_in_def dest!: attested_gate_manifest)

lemma termination_gate_manifest:
  assumes "termination_gate pa own f priv (c, Some m) st = (st', Inr priv')" "has_adapter f ''process_control''"
  shows "\<exists>r0 r. pa_scope pa ''process_control'' = Inr (Some r0) \<and> with_ownership own (cf_session f) r0 = Some r
       \<and> authorize_protected_resource m ''process_control'' r = Inr ()
       \<and> pa_validate pa ''process_control'' (json_del ''driver_owned'' r) = Inr ()"
proof -
  from assms obtain st1 r where "attested_gate pa own termination_call (c, Some m) (cf_session f) st = (st1, Inr r)"
    by (auto simp: termination_gate_def and_then_Inr)
  from attested_gate_manifest [OF this] show ?thesis by (auto simp: termination_call_def)
qed

lemma configuration_gate_manifest:
  "configuration_gate pa f args (c, Some m) st = (st', Inr u) \<Longrightarrow> has_adapter f ''driver_configuration'' \<Longrightarrow>
     \<exists>exact. exact_config_changes (cf_schema f) args = Inr exact
       \<and> authorize_protected_resource m ''driver_configuration''
           (JObj [(''exact_changes'', JObj exact), (''kind'', JStr ''driver_configuration'')]) = Inr ()"
  by (auto simp: configuration_gate_def authorize_driver_configuration_def dest!: ask_consent_manifest
        split: sum.splits if_splits)

text \<open>Everything a call needs, by adapter.\<close>

definition resources_declared ::
    "platform_answers \<Rightarrow> auth_context \<Rightarrow> session_manifest \<Rightarrow> ownership \<Rightarrow> call_facts \<Rightarrow> json \<Rightarrow> json \<Rightarrow> bool" where
  "resources_declared pa c m own f pub pub' =
     ((has_adapter f ''private_observation'' \<or> has_adapter f ''computer_history'' \<longrightarrow>
         (\<exists>r w. observation_resource pa (cf_tool f) pub = Inr (r, w)
            \<and> authorize_protected_resource m
                (if has_adapter f ''computer_history'' then ''computer_history'' else ''private_observation'')
                (enriched pa (c, Some m) r) = Inr ()))
    \<and> (has_adapter f ''clipboard'' \<longrightarrow>
         authorize_protected_resource m ''clipboard'' (fst (clipboard_resource (cf_tool f) pub)) = Inr ())
    \<and> (if has_adapter f ''file_transfer_and_output'' then approved_paths pa m (cf_tool f) pub pub' else pub' = pub)
    \<and> (has_adapter f ''desktop_input'' \<longrightarrow>
         (\<exists>r w. input_resource pa (cf_tool f) pub' = Inr (r, w)
            \<and> authorize_protected_resource m ''desktop_input'' (enriched pa (c, Some m) r) = Inr ()))
    \<and> (has_adapter f ''browser_consequential_action'' \<longrightarrow> (\<exists>r. attested_in pa m ''browser_consequential_action'' r))
    \<and> (has_adapter f ''browser_bound_input'' \<longrightarrow> (\<exists>r. attested_in pa m ''browser_bound_input'' r))
    \<and> (has_adapter f ''process_control'' \<longrightarrow>
         (\<exists>r0 r. pa_scope pa ''process_control'' = Inr (Some r0) \<and> with_ownership own (cf_session f) r0 = Some r
            \<and> authorize_protected_resource m ''process_control'' r = Inr ()
            \<and> pa_validate pa ''process_control'' (json_del ''driver_owned'' r) = Inr ()))
    \<and> (has_adapter f ''driver_configuration'' \<longrightarrow>
         (\<exists>exact. exact_config_changes (cf_schema f) pub' = Inr exact
            \<and> authorize_protected_resource m ''driver_configuration''
                (JObj [(''exact_changes'', JObj exact), (''kind'', JStr ''driver_configuration'')]) = Inr ())))"

lemma resource_gates_manifest:
  assumes "resource_gates pa own f ev (pub, priv) (c, Some m) st = (st', Inr priv')"
  shows "\<exists>pub'. resources_declared pa c m own f pub pub'"
proof -
  from resource_gates_Inr [OF assms] obtain s0 s1 s2 s3 s4 s5 s6 s7 pub' priv1 priv2 u1 u2 u3 u4 u5 where
    g: "observation_gate pa f pub (c, Some m) st = (s0, Inr ())"
    "clipboard_gate pa f pub (c, Some m) s0 = (s1, Inr u1)"
    "file_gate pa f ev (pub, priv) (c, Some m) s1 = (s2, Inr (pub', priv1))"
    "input_gate pa f pub' (c, Some m) s2 = (s3, Inr u2)"
    "browser_gate pa own dialog_call f (c, Some m) s3 = (s4, Inr u3)"
    "browser_gate pa own bound_input_call f (c, Some m) s4 = (s5, Inr u4)"
    "termination_gate pa own f priv1 (c, Some m) s5 = (s6, Inr priv2)"
    "configuration_gate pa f pub' (c, Some m) s6 = (s7, Inr u5)"
    by blast
  note b = browser_gate_manifest [OF g(5), unfolded dialog_call_def attested_call.select_convs]
    browser_gate_manifest [OF g(6), unfolded bound_input_call_def attested_call.select_convs]
  have "resources_declared pa c m own f pub pub'"
    unfolding resources_declared_def
    by (intro conjI impI)
       (use observation_gate_manifest [OF g(1)] clipboard_gate_manifest [OF g(2)] file_gate_manifest [OF g(3)]
          input_gate_manifest [OF g(4)] b termination_gate_manifest [OF g(7)] configuration_gate_manifest [OF g(8)]
        in \<open>simp_all\<close>)
  then show ?thesis ..
qed

lemma admission_keeps_manifest:
  "authorize_tool_call own_pid en managed user parse_url t tool args (c, Some m) = (cm, r) \<Longrightarrow>
     \<exists>m'. snd cm = Some m'"
  by (auto simp: authorize_tool_call_def Let_def split: sum.splits prod.splits bool.splits if_splits)



end
