(* ===== verification/DispatchRefusals.thy ===== *)
theory DispatchRefusals
  imports DispatchProps
begin

text \<open>
  What a call leaves as it was: the text lane whichever way it ends, everything but the clocks of an
  authority when it is refused; and two places where the code does not do what it means to.
\<close>

section \<open>What no call changes\<close>

lemma ask_consent_refusal: "ask_consent pa cm q st = (st', Inl e) \<Longrightarrow> \<exists>x. e = ConsentRefusal x \<or> e = DispatchPanics"
  by (auto simp: ask_consent_def Let_def split: prod.splits consent_outcome.splits)

lemma and_then_Inl:
  "and_then x f = (st, Inl e) \<Longrightarrow> x = (st, Inl e) \<or> (\<exists>s a. x = (s, Inr a) \<and> f s a = (st, Inl e))"
  by (auto simp: and_then_def split: prod.splits sum.splits)

text \<open>The refusals of the gates.\<close>

definition gate_refusal :: "dispatch_refusal \<Rightarrow> bool" where
  "gate_refusal e = ((\<exists>x. e = ConsentRefusal x) \<or> (\<exists>x. e = ScopeInvalid x) \<or> (\<exists>x. e = ScopeStale x)
     \<or> e = ConfigKeyRetired \<or> e = DispatchPanics)"

lemma ask_consent_gate: "ask_consent pa cm q st = (st', Inl e) \<Longrightarrow> gate_refusal e"
  by (drule ask_consent_refusal) (auto simp: gate_refusal_def)

lemma validate_attested_gate: "validate_attested_resource pa ad cm lifecycle r st = (st', Inl e) \<Longrightarrow> gate_refusal e"
  by (auto simp: validate_attested_resource_def gate_refusal_def Let_def split: sum.splits prod.splits if_splits)

lemma authorize_attested_gate: "authorize_attested_resource pa own q cm lifecycle st = (st', Inl e) \<Longrightarrow> gate_refusal e"
  by (auto simp: authorize_attested_resource_def dest!: and_then_Inl ask_consent_gate
      split: sum.splits option.splits if_splits) (auto simp: gate_refusal_def)

lemma attested_gate_gate: "attested_gate pa own q cm lifecycle st = (st', Inl e) \<Longrightarrow> gate_refusal e"
  by (auto simp: attested_gate_def dest!: and_then_Inl authorize_attested_gate validate_attested_gate)

lemma resource_gates_Inl:
  assumes "resource_gates pa own f ev args cm st = (st', Inl e)"
  shows "gate_refusal e"
proof -
  have g1: "gate_refusal e" if "observation_gate pa f a cm s = (s', Inl e)" for a s s'
    using that by (auto simp: observation_gate_def authorize_private_observation_def Let_def dest!: ask_consent_gate
        split: if_splits sum.splits option.splits) (auto simp: gate_refusal_def)
  have g2: "gate_refusal e" if "clipboard_gate pa f a cm s = (s', Inl e)" for a s s'
    using that by (auto simp: clipboard_gate_def authorize_clipboard_def dest!: ask_consent_gate split: if_splits)
  have g3: "gate_refusal e" if "file_gate pa f ev a cm s = (s', Inl e)" for a s s'
    using that by (auto simp: file_gate_def authorize_file_transfer_def dest!: and_then_Inl ask_consent_gate
        split: if_splits sum.splits file_request.splits) (auto simp: gate_refusal_def)
  have g4: "gate_refusal e" if "input_gate pa f a cm s = (s', Inl e)" for a s s'
    using that by (auto simp: input_gate_def authorize_desktop_input_def dest!: ask_consent_gate
        split: if_splits sum.splits) (auto simp: gate_refusal_def)
  have g5: "gate_refusal e" if "browser_gate pa own q f cm s = (s', Inl e)" for q s s'
    using that by (auto simp: browser_gate_def dest!: and_then_Inl attested_gate_gate split: if_splits)
  have g6: "gate_refusal e" if "termination_gate pa own f a cm s = (s', Inl e)" for a s s'
    using that by (auto simp: termination_gate_def dest!: and_then_Inl attested_gate_gate
        split: if_splits option.splits) (auto simp: gate_refusal_def)
  have g7: "gate_refusal e" if "configuration_gate pa f a cm s = (s', Inl e)" for a s s'
    using that by (auto simp: configuration_gate_def authorize_driver_configuration_def dest!: ask_consent_gate
        split: if_splits sum.splits) (auto simp: gate_refusal_def)
  show ?thesis
    using assms unfolding resource_gates_def
    by (auto dest!: and_then_Inl intro: g1 g2 g3 g4 g5 g6 g7)
qed

text \<open>What the parts of a call leave as it was.\<close>

lemma leave_lifecycle_run_tool:
  "run_tool pa t tool key pre priv s = (s', r) \<Longrightarrow> ds_typing s' = ds_typing s \<and> ds_context s' = ds_context s
     \<and> (\<forall>e. r = Inl e \<longrightarrow> s' = s \<and> e \<in> {CleanupUnconfirmed, PreviewHoldsInput})"
  by (auto simp: run_tool_def Let_def split: if_splits)

lemma lifecycle_gate_Inl:
  "lifecycle_gate cur now ttl tool session priv sessions = (sessions', Inl e) \<Longrightarrow>
     sessions' = sessions \<and> (e = SessionUnavailable \<or> (\<exists>x. e = LifecycleRefused x))"
  by (auto simp: lifecycle_gate_def Let_def split: if_splits option.splits sum.splits)

text \<open>The refusals after the commit.\<close>

definition late_refusal :: "dispatch_refusal \<Rightarrow> bool" where
  "late_refusal e = (e \<in> {SessionUnavailable, CleanupUnconfirmed, PreviewHoldsInput} \<or> (\<exists>x. e = LifecycleRefused x))"

lemma admitted_run_frame:
  assumes "admitted_run dc pa t tool session key pre priv s = (s', r)"
  shows "ds_typing s' = ds_typing s \<and> ds_context s' = ds_context s \<and> ds_consent s' = ds_consent s
    \<and> (\<forall>e. r = Inl e \<longrightarrow> late_refusal e \<and> ds_scopes s' = ds_scopes s \<and> ds_owned s' = ds_owned s
         \<and> (e \<notin> {CleanupUnconfirmed, PreviewHoldsInput} \<longrightarrow> ds_sessions s' = ds_sessions s))"
  using assms
  by (auto simp: admitted_run_def late_refusal_def run_tool_def Let_def dest!: lifecycle_gate_Inl
      split: prod.splits sum.splits if_splits)

lemma hard_gates_Inl: "hard_gates pa mode f = Inl e \<Longrightarrow> e \<in> {UnboundedOperation, PromptNeedsTrustedHost}"
  by (auto simp: hard_gates_def split: if_splits)

definition own_step :: "ownership \<Rightarrow> ownership \<Rightarrow> bool" where
  "own_step own own' =
     (\<forall>key ps' pid p. kv_get own' key = Some ps' \<and> kv_get ps' pid = Some p \<longrightarrow>
        (\<exists>ps. kv_get own key = Some ps \<and> kv_get ps pid = Some p))"

lemma own_step_refl: "own_step own own" by (simp add: own_step_def)

lemma reprove_shrinks: "own_step own (fst (reprove_driver_owned_process key f own))"
  by (auto simp: own_step_def reprove_driver_owned_process_def Let_def kv_get_put kv_get_del
      split: option.splits if_splits)

lemma prove_ownership_shrinks: "prove_ownership pa adapters key own = (own', b) \<Longrightarrow> own_step own own'"
  using reprove_shrinks [of own key]
  by (auto simp: prove_ownership_def own_step_refl split: option.splits) (metis fst_conv)

lemma protected_call_frame:
  assumes "protected_call dc pa t tool ev pub priv s = (s', r)"
  shows "ds_typing s' = ds_typing s \<and> (\<forall>e. r = Inl e \<longrightarrow>
      ds_scopes s' = ds_scopes s \<and> own_step (ds_owned s) (ds_owned s')
      \<and> (e \<notin> {CleanupUnconfirmed, PreviewHoldsInput} \<longrightarrow> ds_sessions s' = ds_sessions s)
      \<and> (late_refusal e \<or> (\<exists>x. e = CommitRefused x) \<or> ds_context s' = ds_context s)
      \<and> (\<forall>pid. e \<noteq> InputBusy pid))"
proof -
  obtain own owned where o: "prove_ownership pa (adapter_ids_for_call tool pub)
     (process_ownership_key (get_str priv ''_session_id'') (runtime_prefix_of (fst (ds_context s)))) (ds_owned s) = (own, owned)"
    by (cases "prove_ownership pa (adapter_ids_for_call tool pub)
     (process_ownership_key (get_str priv ''_session_id'') (runtime_prefix_of (fst (ds_context s)))) (ds_owned s)") auto
  note sh = prove_ownership_shrinks [OF o]
  show ?thesis
    using assms sh
    by (auto simp: protected_call_def Let_def o late_refusal_def gate_refusal_def own_step_refl
          dest!: hard_gates_Inl resource_gates_Inl admitted_run_frame split: if_splits option.splits sum.splits prod.splits)
qed

lemma with_text_lane_frame:
  assumes "with_text_lane tool args body s = (s', r)"
    and "\<And>s1 s2 r. body s1 = (s2, r) \<Longrightarrow> ds_typing s2 = ds_typing s1"
  shows "ds_typing s' = ds_typing s"
  using assms(1)
  by (auto simp: with_text_lane_def dest!: assms(2) try_admit_Inr split: sum.splits prod.splits option.splits)

lemma with_text_lane_Inl:
  assumes "with_text_lane tool args body s = (s', Inl e)"
  shows "(\<exists>pid. e = InputBusy pid \<and> pid \<in> set (ds_typing s) \<and> s' = s)
     \<or> (\<exists>typing typing' s1. body (s\<lparr>ds_typing := typing\<rparr>) = (s1, Inl e) \<and> s' = s1\<lparr>ds_typing := typing'\<rparr>)"
proof (cases "try_admit_text_input tool args (ds_typing s)")
  case (Inl x)
  with assms show ?thesis
    by (auto simp: with_text_lane_def try_admit_text_input_def split: option.splits if_splits)
next
  case (Inr typing)
  obtain s1 r where b: "body (s\<lparr>ds_typing := typing\<rparr>) = (s1, r)" by fastforce
  with assms Inr show ?thesis
    by (intro disjI2 exI [of _ typing] exI [of _ "ds_typing s'"] exI [of _ s1])
       (auto simp: with_text_lane_def)
qed

lemma read_call_Inl: "read_call tools c ss name raw = Inl e \<Longrightarrow> e \<in> {AuthorizationSuspended, AuthorizationRevoked} \<or> (\<exists>x. e = UnknownTool x \<or> e = InvalidTarget x)"
  by (auto simp: read_call_def Let_def split: if_splits option.splits sum.splits)

lemma private_args_Inl: "private_args c ev tool args = Inl e \<Longrightarrow> e = DispatchPanics"
  by (auto simp: private_args_def split: option.splits)

text \<open>How a refused call ends: before the text lane, with nothing changed but what the admission
  notes in the authority; busy; or inside.\<close>

lemma invoke_Inl:
  assumes "invoke_authorized dc pa q s = (s', Inl e)"
  shows "s' = s \<and> (\<forall>pid. e \<noteq> InputBusy pid)
    \<or> (\<exists>cm r pub. authorize_tool_call (dc_own_pid dc) (dc_engines dc) (dc_managed dc) (dc_user dc) (dc_parse_url dc)
          (pa_admission_clock pa) (resolved_name (tc_name q)) pub (ds_context s) = (cm, r)
        \<and> (s' = s\<lparr>ds_context := cm\<rparr> \<and> (\<forall>pid. e = InputBusy pid \<longrightarrow> pid \<in> set (ds_typing s))
           \<or> (\<exists>t priv typing typing' s1. protected_call dc pa t (resolved_name (tc_name q)) (tc_evidence q) pub priv
                  (s\<lparr>ds_context := cm, ds_typing := typing\<rparr>) = (s1, Inl e) \<and> s' = s1\<lparr>ds_typing := typing'\<rparr>)))"
proof (cases "read_call (dc_tools dc) (fst (ds_context s)) (ds_sessions s) (tc_name q) (tc_args q)")
  case (Inl x)
  with assms read_call_Inl [OF Inl] show ?thesis by (auto simp: invoke_authorized_def Let_def)
next
  case (Inr tp)
  obtain t pub where tp: "tp = (t, pub)" by (cases tp)
  obtain cm r where adm: "authorize_tool_call (dc_own_pid dc) (dc_engines dc) (dc_managed dc) (dc_user dc) (dc_parse_url dc)
          (pa_admission_clock pa) (resolved_name (tc_name q)) pub (ds_context s) = (cm, r)" by fastforce
  from assms Inr tp adm have
    "s' = s\<lparr>ds_context := cm\<rparr> \<and> (\<forall>pid. e \<noteq> InputBusy pid)
     \<or> (\<exists>priv. with_text_lane (resolved_name (tc_name q)) pub
          (protected_call dc pa t (resolved_name (tc_name q)) (tc_evidence q) pub priv) (s\<lparr>ds_context := cm\<rparr>) = (s', Inl e))"
    by (auto simp: invoke_authorized_def Let_def split: sum.splits if_splits dest!: private_args_Inl)
  then show ?thesis
  proof (elim disjE exE)
    assume "s' = s\<lparr>ds_context := cm\<rparr> \<and> (\<forall>pid. e \<noteq> InputBusy pid)"
    with adm show ?thesis by blast
  next
    fix priv
    assume "with_text_lane (resolved_name (tc_name q)) pub
          (protected_call dc pa t (resolved_name (tc_name q)) (tc_evidence q) pub priv) (s\<lparr>ds_context := cm\<rparr>) = (s', Inl e)"
    from with_text_lane_Inl [OF this] adm show ?thesis by fastforce
  qed
qed

lemma invoke_typing: "ds_typing (fst (invoke_authorized dc pa q s)) = ds_typing s"
proof -
  have w: "ds_typing (fst (with_text_lane tool args (protected_call dc pa t n ev pub priv) s)) = ds_typing s"
    for tool args t n ev pub priv and s
    using with_text_lane_frame [of tool args "protected_call dc pa t n ev pub priv" s] protected_call_frame
    by (metis prod.collapse)
  show ?thesis
    by (auto simp: invoke_authorized_def Let_def w split: sum.splits prod.splits)
qed

text \<open>A sequence of calls, each answered by its own platform.\<close>

fun run_calls ::
    "('re, 'rego) dispatch_config \<Rightarrow> (platform_answers \<times> tool_call) list \<Rightarrow> dispatch_state
       \<Rightarrow> dispatch_state \<times> (dispatch_refusal + json \<times> tool_result) list" where
  "run_calls dc [] s = (s, [])"
| "run_calls dc ((pa, q) # calls) s =
     (case invoke_authorized dc pa q s of
        (s1, r) \<Rightarrow> (case run_calls dc calls s1 of (s2, rs) \<Rightarrow> (s2, r # rs)))"


text \<open>C13. A refused call leaves no trace. It changes no capture scope and no text lane, gives no process
  to the driver, and no session, unless the desktop's lease or the preview stopped it after it was
  admitted to its session; and unless it was refused at the commit or after it, it has not renewed
  the idle lease of the authority or of the manifest.\<close>

theorem refused_call_leaves_no_trace:
  assumes "invoke_authorized dc pa q s = (s', Inl e)"
  shows "ds_scopes s' = ds_scopes s \<and> ds_typing s' = ds_typing s \<and> own_step (ds_owned s) (ds_owned s')
    \<and> (e \<notin> {CleanupUnconfirmed, PreviewHoldsInput} \<longrightarrow> ds_sessions s' = ds_sessions s)
    \<and> (late_refusal e \<or> (\<exists>x. e = CommitRefused x)
       \<or> ctx_last_dispatch (fst (ds_context s')) = ctx_last_dispatch (fst (ds_context s))
         \<and> map_option m_last_dispatch (snd (ds_context s')) = map_option m_last_dispatch (snd (ds_context s)))"
proof -
  have ctx: "ctx_last_dispatch (fst cm) = ctx_last_dispatch (fst (ds_context s))
      \<and> map_option m_last_dispatch (snd cm) = map_option m_last_dispatch (snd (ds_context s))"
    if "authorize_tool_call own en ma us u t tool pub (ds_context s) = (cm, r)" for own en ma us u t tool pub cm r
    using authorize_tool_call_renews_nothing [of own en ma us u t tool pub "fst (ds_context s)" "snd (ds_context s)"] that
    by simp
  have ty: "ds_typing s' = ds_typing s" using invoke_typing [of dc pa q s] assms by simp
  from invoke_Inl [OF assms] consider "s' = s"
    | cm r pub where "authorize_tool_call (dc_own_pid dc) (dc_engines dc) (dc_managed dc) (dc_user dc) (dc_parse_url dc)
          (pa_admission_clock pa) (resolved_name (tc_name q)) pub (ds_context s) = (cm, r)" "s' = s\<lparr>ds_context := cm\<rparr>"
    | cm r pub t priv typing typing' s1 where
        "authorize_tool_call (dc_own_pid dc) (dc_engines dc) (dc_managed dc) (dc_user dc) (dc_parse_url dc)
          (pa_admission_clock pa) (resolved_name (tc_name q)) pub (ds_context s) = (cm, r)"
        "protected_call dc pa t (resolved_name (tc_name q)) (tc_evidence q) pub priv
                  (s\<lparr>ds_context := cm, ds_typing := typing\<rparr>) = (s1, Inl e)" "s' = s1\<lparr>ds_typing := typing'\<rparr>"
    by blast
  then show ?thesis
  proof cases
    case 1 with ty show ?thesis by (simp add: own_step_refl)
  next
    case 2 with ty ctx [OF 2(1)] show ?thesis by (simp add: own_step_refl)
  next
    case 3
    from protected_call_frame [OF 3(2)] ctx [OF 3(1)] ty 3(3) show ?thesis by auto
  qed
qed

theorem refused_call_leaves_no_trace_witness:
  "\<exists>s'. invoke_authorized (quiet_config ''list_apps'') quiet_answers (quiet_call ''nothing'')
       (quiet_state (example_runtime, None)) = (s', Inl (UnknownTool ''nothing''))
     \<and> ds_scopes s' = [] \<and> ds_sessions s' = init_session_state"
proof -
  define s where "s = quiet_state (example_runtime, None)"
  have run: "invoke_authorized (quiet_config ''list_apps'') quiet_answers (quiet_call ''nothing'') s
      = (s, Inl (UnknownTool ''nothing''))"
    by (simp add: s_def invoke_authorized_def read_call_def quiet_config_def quiet_call_def resolved_name_def
        quiet_state_def example_runtime_def is_runtime_scope_suspended_def init_session_state_def)
  from refused_call_leaves_no_trace [OF run] run show ?thesis by (simp add: s_def quiet_state_def)
qed

section \<open>Two defects\<close>

text \<open>Arguments that are neither an object nor null stop the runtime. A call of a tool that selects a
  session, admitted with a string, a number, a boolean or an array for its arguments, panics when
  the implicit identity is stored in them; the tool does not run.\<close>

theorem non_object_arguments_panic:
  assumes "read_call (dc_tools dc) (fst (ds_context s)) (ds_sessions s) (tc_name q) (tc_args q) = Inr (t, pub)"
    and "authorize_tool_call (dc_own_pid dc) (dc_engines dc) (dc_managed dc) (dc_user dc) (dc_parse_url dc)
        (pa_admission_clock pa) (resolved_name (tc_name q)) pub (ds_context s) = (cm, Inr a)"
    and "session_selecting_tool (resolved_name (tc_name q))" "\<not> is_object pub" "pub \<noteq> JNull"
  shows "invoke_authorized dc pa q s = (s\<lparr>ds_context := cm\<rparr>, Inl DispatchPanics)"
proof -
  have "index_put k v pub = None" for k v using assms(4,5) by (cases pub) (auto simp: index_put_def)
  moreover have "get_str pub k = None" for k using assms(4) by (cases pub) (auto simp: get_str_def)
  ultimately have "private_args (fst cm) (tc_evidence q) (resolved_name (tc_name q)) pub = Inl DispatchPanics"
    using assms(3,4) by (simp add: private_args_def implicit_identity_def namespace_runtime_args_def Let_def)
  with assms(1,2) show ?thesis by (simp add: invoke_authorized_def Let_def)
qed

theorem non_object_arguments_panic_witness:
  "\<exists>s'. invoke_authorized (quiet_config ''list_apps'') quiet_answers
       \<lparr>tc_name = ''list_apps'', tc_args = JStr ''x'', tc_evidence = no_evidence\<rparr>
       (quiet_state (example_runtime, None)) = (s', Inl DispatchPanics)"
proof -
  define q where "q = \<lparr>tc_name = ''list_apps'', tc_args = JStr ''x'', tc_evidence = no_evidence\<rparr>"
  have name: "resolved_name (tc_name q) = ''list_apps''" by (simp add: q_def resolved_name_def)
  have rd: "read_call (dc_tools (quiet_config ''list_apps'')) (fst (ds_context (quiet_state (example_runtime, None))))
      (ds_sessions (quiet_state (example_runtime, None))) (tc_name q) (tc_args q) = Inr (quiet_tool, JStr ''x'')"
    by (simp add: q_def read_call_def quiet_config_def quiet_state_def sanitize_reserved_args_def
        is_runtime_scope_suspended_def init_session_state_def example_runtime_def resolved_name_def
        quiet_tool_def normalize_delivery_mode_args_def normalize_action_target_def schema_accepts_delivery_mode_def
        supplied_mode_def Let_def get_str_def)
  have p: "authorize_policy plain_engines (Inr None) (Inr None) tool args = Inr ()" for tool args
    by (simp add: authorize_policy_iff)
  have e: "context_is_expired t example_runtime = (example_runtime, False)" for t
    by (simp add: context_is_expired_def example_runtime_def)
  have m: "ctx_mode example_runtime = Standard" by (simp add: example_runtime_def)
  obtain cm a where adm: "authorize_tool_call (dc_own_pid (quiet_config ''list_apps'')) (dc_engines (quiet_config ''list_apps''))
      (dc_managed (quiet_config ''list_apps'')) (dc_user (quiet_config ''list_apps''))
      (dc_parse_url (quiet_config ''list_apps'')) (pa_admission_clock quiet_answers) (resolved_name (tc_name q))
      (JStr ''x'') (ds_context (quiet_state (example_runtime, None))) = (cm, Inr a)"
    by (simp add: name quiet_config_def quiet_answers_def quiet_state_def authorize_tool_call_def p e m Let_def
        enforce_hard_invariants_def process_targeting_tool_def classify_tool_call_def sensitive_def)
  have "session_selecting_tool (resolved_name (tc_name q))"
    by (simp add: name session_selecting_tool_def session_requiring_tool_def)
  from non_object_arguments_panic [OF rd adm this] show ?thesis unfolding q_def by auto
qed

definition PATH_KEYS :: "string list" where
  "PATH_KEYS = [''files'', ''destination_root'', ''image_path'', ''file_path'', ''screenshot_out_file'', ''output_dir'', ''dir'']"

lemma needs_keep:
  assumes "k \<notin> set PATH_KEYS"
  shows "upload_need fw args = Inr (FileNeed r w args') \<Longrightarrow> json_get args' k = json_get args k"
    "download_need fw args = Inr (FileNeed r w args') \<Longrightarrow> json_get args' k = json_get args k"
    "clipboard_file_need fw args = Inr (FileNeed r w args') \<Longrightarrow> json_get args' k = json_get args k"
    "screenshot_need fw tool args = Inr (FileNeed r w args') \<Longrightarrow> json_get args' k = json_get args k"
    "recording_need fw args = Inr (FileNeed r w args') \<Longrightarrow> json_get args' k = json_get args k"
    "finalize_need fw dir args = Inr (FileNeed r w args') \<Longrightarrow> json_get args' k = json_get args k"
    "replay_need fw args = Inr (FileNeed r w args') \<Longrightarrow> json_get args' k = json_get args k"
  supply keys = assms [unfolded PATH_KEYS_def]
  subgoal using keys by (auto simp: upload_need_def split: sum.splits)
  subgoal using keys by (auto simp: download_need_def split: sum.splits)
  subgoal using keys by (auto simp: clipboard_file_need_def split: sum.splits if_splits)
  subgoal using keys by (auto simp: screenshot_need_def split: sum.splits)
  subgoal using keys by (auto simp: recording_need_def split: sum.splits)
  subgoal using keys by (auto simp: finalize_need_def split: sum.splits option.splits)
  subgoal using keys by (auto simp: replay_need_def split: sum.splits)
  done

lemma file_need_keeps:
  "file_need pa tool args = Inr (FileNeed r w args') \<Longrightarrow> k \<notin> set PATH_KEYS \<Longrightarrow> json_get args' k = json_get args k"
  unfolding file_need_def Let_def by (split if_split_asm, erule (1) needs_keep [rotated])+ (simp split: if_splits)

lemma anonymous_namespace:
  assumes "get_str args ''session'' = None" "json_get args ''_session_id'' = None"
    "json_get args ''_transport_session_id'' = None" "ctx_transport c = None"
  shows "json_get (fst (namespace_runtime_args c no_evidence args)) ''_session_id'' = None"
    and "json_get (fst (namespace_runtime_args c no_evidence args)) ''_transport_session_id'' = None"
    and "is_object (fst (namespace_runtime_args c no_evidence args)) = is_object args"
proof -
  define a where "a = put_idle_ttl c args"
  have a: "json_get a ''session'' = json_get args ''session''" "json_get a ''_session_id'' = None"
    "json_get a ''_transport_session_id'' = None" "is_object a = is_object args"
    using assms(2,3) by (auto simp: a_def put_idle_ttl_def split: option.splits)
  have "fill_session_id a = a" "fill_transport c (publish_label (apply_runtime_args no_evidence args)) = args"
    using assms a by (simp_all add: fill_session_id_def nonempty_str_def get_str_def no_evidence_def put_some_def
        apply_runtime_args_def publish_label_def fill_transport_def)
  then have n: "fst (namespace_runtime_args c no_evidence args) =
      (if is_object args then fold (namespace_key (runtime_prefix_of c)) NAMESPACED_KEYS a else args)"
    by (simp add: namespace_runtime_args_def Let_def a_def)
  have f: "fold (namespace_key p) NAMESPACED_KEYS a = namespace_key p ''cursor_id'' a" for p
    using assms(1) a by (simp add: NAMESPACED_KEYS_def namespace_key_def get_str_def)
  have "json_get (namespace_key p ''cursor_id'' a) k = json_get a k" if "k \<noteq> ''cursor_id''" for p k
    using that by (auto simp: namespace_key_def split: option.splits)
  moreover have "is_object (namespace_key p ''cursor_id'' a) = is_object a" for p
    by (auto simp: namespace_key_def split: option.splits)
  ultimately show "json_get (fst (namespace_runtime_args c no_evidence args)) ''_session_id'' = None"
    "json_get (fst (namespace_runtime_args c no_evidence args)) ''_transport_session_id'' = None"
    "is_object (fst (namespace_runtime_args c no_evidence args)) = is_object args"
    unfolding n f using a assms(2,3) by auto
qed

text \<open>A file operation of an anonymous call is not its session's. Before the gates such a call has the
  implicit identity of the runtime, which admits it to a session; the gate of a file adapter makes
  the private arguments anew, without the identity, so that the tool - the start of a recording,
  say - sees a call of no session.\<close>

theorem file_calls_lose_the_implicit_identity:
  assumes "is_object pub" "get_str pub ''session'' = None" "json_get pub ''_session_id'' = None"
    "json_get pub ''_transport_session_id'' = None" "ctx_transport c = None" "session_selecting_tool tool"
    and "private_args c no_evidence tool pub = Inr priv"
    and "has_adapter f ''file_transfer_and_output''" "cf_tool f = tool"
    and "file_gate pa f no_evidence (pub, priv) (c, mo) st = (st', Inr (pub', priv'))"
  shows "get_str priv ''_session_id'' = Some (runtime_prefix_of c @ ''implicit-direct'')
    \<and> json_get priv' ''_session_id'' = None"
proof
  note ns = anonymous_namespace [OF assms(2-5)]
  have "get_str (fst (namespace_runtime_args c no_evidence pub)) ''_session_id'' = None"
    "get_str (fst (namespace_runtime_args c no_evidence pub)) ''_transport_session_id'' = None"
    using ns by (simp_all add: get_str_def)
  with assms(1,6,7) ns(3) show "get_str priv ''_session_id'' = Some (runtime_prefix_of c @ ''implicit-direct'')"
    by (cases "fst (namespace_runtime_args c no_evidence pub)")
       (auto simp: private_args_def implicit_identity_def index_put_def get_str_def Let_def split: option.splits)
  have "json_get pub' k = json_get pub k" if "k \<notin> set PATH_KEYS" for k
    using assms(8-10) file_need_keeps that
    by (auto simp: file_gate_def authorize_file_transfer_def and_then_Inr split: if_splits sum.splits file_request.splits)
  then have "json_get (fst (namespace_runtime_args c no_evidence pub')) ''_session_id'' = None"
    using assms(2-5) by (intro anonymous_namespace(1)) (simp_all add: get_str_def PATH_KEYS_def)
  with assms(8-10) show "json_get priv' ''_session_id'' = None"
    by (auto simp: file_gate_def and_then_Inr)
qed
theorem file_calls_lose_the_implicit_identity_witness:
  "\<exists>pub priv st pub' priv'.
     file_gate quiet_answers \<lparr>cf_tool = ''start_recording'', cf_schema = JObj [], cf_session = None,
        cf_adapters = [''file_transfer_and_output''], cf_owned = False\<rparr> no_evidence (pub, priv)
        (example_runtime\<lparr>ctx_mode := Unrestricted\<rparr>, None) empty_consent = (st, Inr (pub', priv'))
     \<and> get_str priv ''_session_id'' \<noteq> None \<and> json_get priv' ''_session_id'' = None"
proof -
  define c where "c = example_runtime\<lparr>ctx_mode := Unrestricted\<rparr>"
  define f where "f = \<lparr>cf_tool = ''start_recording'', cf_schema = JObj [], cf_session = None,
      cf_adapters = [''file_transfer_and_output''], cf_owned = False\<rparr>"
  define pub where "pub = JObj [(''output_dir'', JStr ''/tmp/a'')]"
  have s: "session_selecting_tool ''start_recording''"
    by (simp add: session_selecting_tool_def session_requiring_tool_def)
  have "is_object pub" by (simp add: pub_def)
  moreover have n: "get_str pub ''session'' = None" "json_get pub ''_session_id'' = None"
    "json_get pub ''_transport_session_id'' = None" "ctx_transport c = None"
    by (simp_all add: pub_def get_str_def c_def example_runtime_def)
  moreover have "\<exists>priv. private_args c no_evidence ''start_recording'' pub = Inr priv"
    using \<open>is_object pub\<close> anonymous_namespace(3) [OF n]
    by (cases "fst (namespace_runtime_args c no_evidence pub)")
       (simp_all add: private_args_def implicit_identity_def index_put_def Let_def)
  then obtain priv where p: "private_args c no_evidence ''start_recording'' pub = Inr priv" ..
  moreover have f: "has_adapter f ''file_transfer_and_output''" "cf_tool f = ''start_recording''"
    by (simp_all add: f_def has_adapter_def)
  moreover have g: "file_gate quiet_answers f no_evidence (pub, priv) (c, None) empty_consent
      = (empty_consent, Inr (pub, fst (namespace_runtime_args c no_evidence pub)))"
    by (simp add: file_gate_def f(1) authorize_file_transfer_def unrestricted_without_manifest_def c_def and_then_def)
  ultimately have "get_str priv ''_session_id'' \<noteq> None
      \<and> json_get (fst (namespace_runtime_args c no_evidence pub)) ''_session_id'' = None"
    using file_calls_lose_the_implicit_identity [OF _ n s p f g] by simp
  with g show ?thesis unfolding f_def c_def by blast
qed

end
