(* ===== verification/Expectation.thy ===== *)
theory Expectation
  imports Policy ToolArgs
begin

text \<open>
  \<open>cua-driver-core/src/expectation.rs\<close>: the deterministic verification of window and element
  predicates (\<open>verify_state\<close>), with the predicate types of
  \<open>cua-driver-contract/src/verification.rs\<close>. A predicate is satisfied, unsatisfied or unknown, and
  unknown never implies success. Coordinates are rationals instead of IEEE doubles. The Unicode
  tables of \<open>str::to_lowercase\<close> and the serializer of \<open>serde_json\<close> are parameters; the screenshot
  that may accompany a result is left out.
\<close>

section \<open>Predicates and observations\<close>

datatype verification_status = Satisfied | Unsatisfied | StatusUnknown

datatype unknown_reason =
    InvalidPredicate
  | UnsupportedPredicate
  | UntrustedSource
  | MultiMatch
  | TargetMissing
  | ObservationUnavailable
  | StabilityUnproven

record bounds_expectation =
  be_x :: rat
  be_y :: rat
  be_width :: rat
  be_height :: rat
  be_tolerance_px :: "rat option"

record window_predicate =
  wp_exists :: "bool option"
  wp_bounds :: "bounds_expectation option"

record element_selector =
  sel_role :: "string option"
  sel_label_contains :: "string option"

record element_predicate =
  ep_selector :: element_selector
  ep_exists :: "bool option"
  ep_value_equals :: "string option"
  ep_enabled :: "bool option"
  ep_selected :: "bool option"

record state_predicate =
  sp_window :: "window_predicate option"
  sp_element :: "element_predicate option"

record observation_snapshot =
  os_window :: "json option"
  os_elements :: "json list option"
  os_trusted :: bool
  os_complete :: bool

record predicate_outcome =
  po_index :: nat
  po_status :: verification_status
  po_reason :: "unknown_reason option"
  po_observed :: "string option"

type_synonym verdict = "verification_status \<times> unknown_reason option \<times> json option"

text \<open>What the model does not compute: lower-casing beyond ASCII, and the text of a JSON value.\<close>

record text_services =
  ts_lower :: "string \<Rightarrow> string"
  ts_encode :: "json \<Rightarrow> string"


section \<open>The observed text\<close>

text \<open>The last character boundary at or before an offset; the offset 0 is one.\<close>

fun boundary_before :: "string \<Rightarrow> nat \<Rightarrow> nat" where
  "boundary_before s 0 = 0"
| "boundary_before s (Suc n) = (if is_char_boundary s (Suc n) then Suc n else boundary_before s n)"

definition bounded_json :: "text_services \<Rightarrow> json \<Rightarrow> string" where
  "bounded_json ts v =
     (let encoded = ts_encode ts v
      in if 2000 < length encoded then take (boundary_before encoded 1997) encoded @ ''...''
         else encoded)"


section \<open>Windows\<close>

definition exists_fact :: "bool \<Rightarrow> json" where
  "exists_fact b = JObj [(''exists'', JBool b)]"

definition bounds_fact :: "json option \<Rightarrow> json" where
  "bounds_fact b = JObj [(''bounds'', case b of None \<Rightarrow> JNull | Some v \<Rightarrow> v), (''exists'', JBool True)]"

definition coordinate :: "json \<Rightarrow> string \<Rightarrow> rat option" where
  "coordinate v k =
     (case Option.bind (json_get v k) as_f64 of Some (Fin r) \<Rightarrow> Some r | _ \<Rightarrow> None)"

definition observed_bounds :: "json \<Rightarrow> rat list option" where
  "observed_bounds b = those (map (coordinate b) [''x'', ''y'', ''width'', ''height''])"

definition outside :: "bounds_expectation \<Rightarrow> rat list \<Rightarrow> bool" where
  "outside e values =
     list_ex (\<lambda>(actual, expected). (case be_tolerance_px e of Some t \<Rightarrow> t | None \<Rightarrow> 1) < \<bar>actual - expected\<bar>)
       (zip values [be_x e, be_y e, be_width e, be_height e])"

definition evaluate_bounds :: "bounds_expectation option \<Rightarrow> json \<Rightarrow> verdict" where
  "evaluate_bounds expected window =
     (let ok = (Satisfied, None, Some (bounds_fact (json_get window ''bounds'')))
      in case expected of
           None \<Rightarrow> ok
         | Some e \<Rightarrow>
             (case json_get window ''bounds'' of
                None \<Rightarrow> (StatusUnknown, Some UnsupportedPredicate, Some (exists_fact True))
              | Some b \<Rightarrow>
                  (case observed_bounds b of
                     None \<Rightarrow> (StatusUnknown, Some UnsupportedPredicate, Some (bounds_fact (Some b)))
                   | Some values \<Rightarrow>
                       if outside e values then (Unsatisfied, None, Some (bounds_fact (Some b))) else ok)))"

definition evaluate_window :: "window_predicate \<Rightarrow> json option \<Rightarrow> verdict" where
  "evaluate_window p window =
     (if wp_exists p = None \<and> wp_bounds p = None then (StatusUnknown, Some InvalidPredicate, None)
      else if (case wp_exists p of None \<Rightarrow> False | Some e \<Rightarrow> (window \<noteq> None) \<noteq> e)
      then (Unsatisfied, None, Some (exists_fact (window \<noteq> None)))
      else case window of
        None \<Rightarrow>
          if wp_exists p = Some False \<and> wp_bounds p = None
          then (Satisfied, None, Some (exists_fact False))
          else (StatusUnknown, Some TargetMissing, Some (exists_fact False))
      | Some w \<Rightarrow> evaluate_bounds (wp_bounds p) w)"


section \<open>Elements\<close>

definition is_ascii_alphanumeric :: "char \<Rightarrow> bool" where
  "is_ascii_alphanumeric c =
     (48 \<le> byte_of c \<and> byte_of c \<le> 57 \<or> 65 \<le> byte_of c \<and> byte_of c \<le> 90 \<or> 97 \<le> byte_of c \<and> byte_of c \<le> 122)"

definition normalized_role :: "string \<Rightarrow> string" where
  "normalized_role role =
     (let n = to_ascii_lowercase (filter is_ascii_alphanumeric role);
          n = (case strip_prefix ''ax'' n of Some r \<Rightarrow> r | None \<Rightarrow> n)
      in if n = ''pushbutton'' then ''button''
         else if n \<in> set [''pagetab'', ''tabitem''] then ''tab'' else n)"

definition role_matches :: "string \<Rightarrow> json \<Rightarrow> bool" where
  "role_matches role e =
     (case get_str e ''role'' of None \<Rightarrow> False | Some actual \<Rightarrow> normalized_role actual = normalized_role role)"

definition label_matches :: "text_services \<Rightarrow> string \<Rightarrow> json \<Rightarrow> bool" where
  "label_matches ts label e =
     (case get_str e ''label'' of
        None \<Rightarrow> False | Some actual \<Rightarrow> str_contains (ts_lower ts actual) (ts_lower ts label))"

definition element_selected :: "text_services \<Rightarrow> element_selector \<Rightarrow> json \<Rightarrow> bool" where
  "element_selected ts sel e =
     ((case sel_role sel of None \<Rightarrow> True | Some r \<Rightarrow> role_matches r e)
      \<and> (case sel_label_contains sel of None \<Rightarrow> True | Some l \<Rightarrow> label_matches ts l e))"

text \<open>The element with an index; the last one, when several have it.\<close>

definition element_at :: "json list \<Rightarrow> nat \<Rightarrow> json option" where
  "element_at elements i = find (\<lambda>e. get_u64 e ''element_index'' = Some i) (rev elements)"

definition is_web_root :: "json \<Rightarrow> bool" where
  "is_web_root e =
     (get_bool e ''in_web_content'' = Some True
      \<or> (case get_str e ''role'' of
           None \<Rightarrow> False
         | Some role \<Rightarrow>
             (let n = filter (\<lambda>c. c \<notin> set ''_ '') (to_ascii_lowercase role)
              in str_contains n ''webarea'' \<or> str_contains n ''document'' \<or> n = ''embedded'')))"

definition parent_of :: "json list \<Rightarrow> json \<Rightarrow> json option" where
  "parent_of elements e = Option.bind (get_u64 e ''parent_index'') (element_at elements)"

fun web_root_within :: "nat \<Rightarrow> json list \<Rightarrow> json option \<Rightarrow> bool" where
  "web_root_within 0 elements current = False"
| "web_root_within (Suc n) elements None = False"
| "web_root_within (Suc n) elements (Some e) =
     (is_web_root e \<or> web_root_within n elements (parent_of elements e))"

definition target_is_in_web_area :: "json \<Rightarrow> json list \<Rightarrow> bool" where
  "target_is_in_web_area target elements = web_root_within 32 elements (Some target)"

definition project_element :: "json \<Rightarrow> json" where
  "project_element e =
     JObj (fold (\<lambda>k m. case json_get e k of None \<Rightarrow> m | Some v \<Rightarrow> obj_put k v m)
       [''element_index'', ''role'', ''label'', ''value'', ''enabled'', ''selected'', ''frame''] [])"

text \<open>The fields a predicate constrains, with the value each has to have.\<close>

definition constraints :: "element_predicate \<Rightarrow> (string \<times> json) list" where
  "constraints p =
     concat (map (\<lambda>(k, v). case v of None \<Rightarrow> [] | Some w \<Rightarrow> [(k, w)])
       [(''value'', map_option JStr (ep_value_equals p)), (''enabled'', map_option JBool (ep_enabled p)),
        (''selected'', map_option JBool (ep_selected p))])"

fun check_fields :: "json \<Rightarrow> (string \<times> json) list \<Rightarrow> verdict" where
  "check_fields e [] = (Satisfied, None, Some (project_element e))"
| "check_fields e ((k, expected) # cs) =
     (case json_get e k of
        None \<Rightarrow> (StatusUnknown, Some UnsupportedPredicate, Some (project_element e))
      | Some actual \<Rightarrow>
          if actual \<noteq> expected then (Unsatisfied, None, Some (project_element e)) else check_fields e cs)"

definition matches_fact :: "nat \<Rightarrow> json" where
  "matches_fact n = JObj [(''matches'', JNum (PosInt n))]"

definition blank :: "string option \<Rightarrow> bool" where
  "blank s = (case s of None \<Rightarrow> False | Some t \<Rightarrow> trim t = [])"

definition invalid_selector :: "element_selector \<Rightarrow> bool" where
  "invalid_selector sel =
     (sel_role sel = None \<and> sel_label_contains sel = None
      \<or> blank (sel_role sel) \<or> blank (sel_label_contains sel))"

definition untrusted_region :: "json list \<Rightarrow> bool" where
  "untrusted_region elements =
     list_ex (\<lambda>e. get_bool e ''in_web_content'' = Some True \<or> target_is_in_web_area e elements) elements"

text \<open>No element matches.\<close>

definition evaluate_absent :: "element_predicate \<Rightarrow> json list \<Rightarrow> bool \<Rightarrow> verdict" where
  "evaluate_absent p elements whole =
     (if \<not> whole \<or> untrusted_region elements
      then (StatusUnknown, Some (if untrusted_region elements then UntrustedSource else ObservationUnavailable),
            Some (JObj [(''contains_untrusted_region'', JBool (untrusted_region elements)),
                        (''elements_complete'', JBool whole), (''matches'', JNum (PosInt 0))]))
      else if ep_exists p = Some True then (Unsatisfied, None, Some (matches_fact 0))
      else (StatusUnknown, Some TargetMissing, Some (matches_fact 0)))"

text \<open>Some do.\<close>

definition evaluate_matches :: "element_predicate \<Rightarrow> json list \<Rightarrow> json list \<Rightarrow> verdict" where
  "evaluate_matches p elements found =
     (let trusted = filter (\<lambda>e. \<not> target_is_in_web_area e elements) found
      in case trusted of
           [] \<Rightarrow> (StatusUnknown, Some UntrustedSource, Some (matches_fact (length found)))
         | [e] \<Rightarrow> check_fields e (constraints p)
         | _ \<Rightarrow>
             if constraints p \<noteq> [] then (StatusUnknown, Some MultiMatch, Some (matches_fact (length trusted)))
             else (Satisfied, None, Some (matches_fact (length trusted))))"

definition evaluate_element :: "text_services \<Rightarrow> element_predicate \<Rightarrow> observation_snapshot \<Rightarrow> verdict" where
  "evaluate_element ts p s =
     (if ep_exists p = Some False then (StatusUnknown, Some InvalidPredicate, None)
      else if invalid_selector (ep_selector p) then (StatusUnknown, Some InvalidPredicate, None)
      else if os_window s = None
      then (StatusUnknown, Some TargetMissing, Some (JObj [(''window_exists'', JBool False)]))
      else if \<not> os_trusted s then (StatusUnknown, Some UntrustedSource, None)
      else case os_elements s of
        None \<Rightarrow> (StatusUnknown, Some ObservationUnavailable, None)
      | Some elements \<Rightarrow>
          (let found = filter (element_selected ts (ep_selector p)) elements
           in if found = [] then evaluate_absent p elements (os_complete s)
              else evaluate_matches p elements found))"


section \<open>All predicates of a call\<close>

definition evaluate_predicate :: "text_services \<Rightarrow> observation_snapshot \<Rightarrow> state_predicate \<Rightarrow> verdict" where
  "evaluate_predicate ts s p =
     (case (sp_window p, sp_element p) of
        (Some w, None) \<Rightarrow> evaluate_window w (os_window s)
      | (None, Some e) \<Rightarrow> evaluate_element ts e s
      | _ \<Rightarrow> (StatusUnknown, Some InvalidPredicate, None))"

definition outcome_of :: "text_services \<Rightarrow> nat \<Rightarrow> verdict \<Rightarrow> predicate_outcome" where
  "outcome_of ts i v =
     \<lparr>po_index = i, po_status = fst v, po_reason = fst (snd v),
      po_observed = map_option (bounded_json ts) (snd (snd v))\<rparr>"

definition evaluate_predicates ::
    "text_services \<Rightarrow> state_predicate list \<Rightarrow> observation_snapshot \<Rightarrow> predicate_outcome list" where
  "evaluate_predicates ts expect s =
     map (\<lambda>(i, p). outcome_of ts i (evaluate_predicate ts s p)) (enumerate 0 expect)"

definition unavailable_outcomes ::
    "text_services \<Rightarrow> state_predicate list \<Rightarrow> string \<Rightarrow> predicate_outcome list" where
  "unavailable_outcomes ts expect error =
     map (\<lambda>(i, p). outcome_of ts i
           (StatusUnknown, Some ObservationUnavailable, Some (JObj [(''error'', JStr error)])))
       (enumerate 0 expect)"

definition aggregate_status :: "predicate_outcome list \<Rightarrow> verification_status" where
  "aggregate_status os =
     (if list_ex (\<lambda>o'. po_status o' = Unsatisfied) os then Unsatisfied
      else if list_ex (\<lambda>o'. po_status o' = StatusUnknown) os then StatusUnknown else Satisfied)"


section \<open>Observing\<close>

definition tool_error_text :: "tool_result \<Rightarrow> string \<Rightarrow> string" where
  "tool_error_text r fallback = (case result_texts r of [] \<Rightarrow> fallback | t # _ \<Rightarrow> t)"

definition listed_windows :: "tool_result \<Rightarrow> json list" where
  "listed_windows r =
     (case Option.bind (Option.bind (result_structured r) (\<lambda>v. json_get v ''windows'')) as_array of
        None \<Rightarrow> [] | Some ws \<Rightarrow> ws)"

definition ownerless :: "nat \<Rightarrow> json \<Rightarrow> bool" where
  "ownerless w c = (get_u64 c ''window_id'' = Some w \<and> json_get c ''pid'' \<in> set [None, Some JNull])"

definition snapshot_of_state :: "json option \<Rightarrow> tool_result \<Rightarrow> observation_snapshot" where
  "snapshot_of_state window state =
     \<lparr>os_window = window,
      os_elements = Option.bind (Option.bind (result_structured state) (\<lambda>v. json_get v ''elements'')) as_array,
      os_trusted = (Option.bind (result_structured state) (\<lambda>v. get_bool v ''degraded'') \<noteq> Some True),
      os_complete = (Option.bind (result_structured state) (\<lambda>v. get_bool v ''elements_complete'') = Some True)\<rparr>"

text \<open>\<open>ToolObservationProvider::observe\<close>, on the results of the two tools it invokes.\<close>

definition observe ::
    "tool_result \<Rightarrow> tool_result \<Rightarrow> int \<Rightarrow> nat \<Rightarrow> bool \<Rightarrow> bool \<Rightarrow> string + observation_snapshot" where
  "observe listed state pid w elements screenshot =
     (if result_error listed then Inl (tool_error_text listed ''list_windows failed'')
      else (let window = find (\<lambda>c. get_u64 c ''window_id'' = Some w \<and> get_i64 c ''pid'' = Some pid)
                           (listed_windows listed)
            in if window = None \<and> list_ex (ownerless w) (listed_windows listed)
               then Inl (''window '' @ show_dec w @ '' was listed without a trustworthy owning pid'')
               else if window = None \<or> \<not> elements \<and> \<not> screenshot
               then Inr \<lparr>os_window = window, os_elements = None, os_trusted = False, os_complete = False\<rparr>
               else if result_error state then Inl (tool_error_text state ''get_window_state failed'')
               else Inr (snapshot_of_state window state)))"


section \<open>The polling loop\<close>

definition MAX_TIMEOUT_MS :: nat where "MAX_TIMEOUT_MS = 10000"
definition DEFAULT_STABLE_SAMPLES :: nat where "DEFAULT_STABLE_SAMPLES = 2"
definition MAX_STABLE_SAMPLES :: nat where "MAX_STABLE_SAMPLES = 5"
definition MAX_PREDICATES :: nat where "MAX_PREDICATES = 8"
definition POLL_INTERVAL_MS :: nat where "POLL_INTERVAL_MS = 100"
definition VERIFY_STATE_DEFAULT_TIMEOUT_MS :: nat where "VERIFY_STATE_DEFAULT_TIMEOUT_MS = 5000"

record verify_input =
  vi_pid :: int
  vi_window_id :: nat
  vi_expect :: "state_predicate list"
  vi_timeout_ms :: "nat option"
  vi_stable_samples :: "nat option"

record verify_output =
  vo_status :: verification_status
  vo_stable :: bool
  vo_elapsed_ms :: nat
  vo_samples :: nat
  vo_predicates :: "predicate_outcome list"

text \<open>What the platform and the clock answer: the results of the tools for each sample, the two clock
  readings after it, in milliseconds - whether the deadline has passed, and what is left to sleep -
  and the reading at the end.\<close>

record observed_world =
  ow_start :: nat
  ow_listed :: "nat \<Rightarrow> tool_result"
  ow_state :: "nat \<Rightarrow> tool_result"
  ow_checked :: "nat \<Rightarrow> nat"
  ow_resting :: "nat \<Rightarrow> nat"
  ow_end :: nat

definition invalid_predicate :: "nat \<Rightarrow> state_predicate \<Rightarrow> string option" where
  "invalid_predicate i p =
     (case sp_element p of
        None \<Rightarrow> None
      | Some e \<Rightarrow>
          (let pre = ''verify_state predicate '' @ show_dec i
           in if ep_exists e = Some False
              then Some (pre @ '' element.exists=false is unsupported because element snapshots are not exhaustive'')
              else if blank (sel_role (ep_selector e)) then Some (pre @ '' selector role must not be empty'')
              else if blank (sel_label_contains (ep_selector e))
              then Some (pre @ '' selector label_contains must not be empty'')
              else None))"

definition invalid_predicate_message :: "state_predicate list \<Rightarrow> string option" where
  "invalid_predicate_message expect =
     (case List.map_filter (\<lambda>(i, p). invalid_predicate i p) (enumerate 0 expect) of [] \<Rightarrow> None | m # _ \<Rightarrow> Some m)"

text \<open>The limits of a call: its timeout and the samples that make it stable.\<close>

definition verify_limits :: "verify_input \<Rightarrow> string + nat \<times> nat" where
  "verify_limits v =
     (if vi_pid v \<le> 0 then Inl ''verify_state requires pid > 0''
      else if vi_expect v = [] \<or> MAX_PREDICATES < length (vi_expect v)
      then Inl ''verify_state requires between 1 and 8 predicates''
      else if (case vi_timeout_ms v of None \<Rightarrow> False | Some t \<Rightarrow> MAX_TIMEOUT_MS < t)
      then Inl ''verify_state timeout_ms must be between 0 and 10000''
      else if (case vi_stable_samples v of None \<Rightarrow> False | Some n \<Rightarrow> n < 1 \<or> MAX_STABLE_SAMPLES < n)
      then Inl ''verify_state stable_samples must be between 1 and 5''
      else (let timeout = (case vi_timeout_ms v of Some t \<Rightarrow> t | None \<Rightarrow> VERIFY_STATE_DEFAULT_TIMEOUT_MS)
            in if timeout = 0 \<and> (case vi_stable_samples v of None \<Rightarrow> False | Some n \<Rightarrow> 1 < n)
               then Inl ''verify_state timeout_ms=0 requires stable_samples=1 because only one sample is possible''
               else (case invalid_predicate_message (vi_expect v) of
                       Some m \<Rightarrow> Inl m
                     | None \<Rightarrow>
                         Inr (timeout,
                              if timeout = 0 then 1
                              else case vi_stable_samples v of Some n \<Rightarrow> n | None \<Rightarrow> DEFAULT_STABLE_SAMPLES))))"

definition needs_elements :: "verify_input \<Rightarrow> bool" where
  "needs_elements v = list_ex (\<lambda>p. sp_element p \<noteq> None) (vi_expect v)"

definition sample :: "text_services \<Rightarrow> verify_input \<Rightarrow> observed_world \<Rightarrow> nat \<Rightarrow> predicate_outcome list" where
  "sample ts v ow i =
     (case observe (ow_listed ow i) (ow_state ow i) (vi_pid v) (vi_window_id v) (needs_elements v) False of
        Inl e \<Rightarrow> unavailable_outcomes ts (vi_expect v) e
      | Inr s \<Rightarrow> evaluate_predicates ts (vi_expect v) s)"

text \<open>The number of samples, whether the last ones were stably satisfied, and the last outcomes.\<close>

partial_function (option) poll ::
    "text_services \<Rightarrow> verify_input \<Rightarrow> observed_world \<Rightarrow> nat \<Rightarrow> nat \<Rightarrow> nat \<Rightarrow> nat
       \<Rightarrow> (nat \<times> bool \<times> predicate_outcome list) option" where
  "poll ts v ow timeout needed i consecutive =
     (let outcomes = sample ts v ow i;
          satisfied = (aggregate_status outcomes = Satisfied);
          c = (if satisfied then Suc consecutive else 0)
      in if satisfied \<and> needed \<le> c then Some (Suc i, True, outcomes)
         else if timeout = 0 \<or> ow_start ow + timeout \<le> ow_checked ow i then Some (Suc i, False, outcomes)
         else poll ts v ow timeout needed (Suc i) c)"

definition unstable :: "predicate_outcome \<Rightarrow> predicate_outcome" where
  "unstable o' =
     (if po_status o' = Satisfied then o'\<lparr>po_status := StatusUnknown, po_reason := Some StabilityUnproven\<rparr> else o')"

definition verify_state ::
    "text_services \<Rightarrow> verify_input \<Rightarrow> observed_world \<Rightarrow> (string + verify_output) option" where
  "verify_state ts v ow =
     (case verify_limits v of
        Inl e \<Rightarrow> Some (Inl e)
      | Inr (timeout, stable_samples) \<Rightarrow>
          map_option (\<lambda>(samples, held, last_outcomes).
            let outcomes = (if aggregate_status last_outcomes = Satisfied \<and> \<not> held
                            then map unstable last_outcomes else last_outcomes)
            in Inr \<lparr>vo_status = aggregate_status outcomes, vo_stable = held,
                    vo_elapsed_ms = min (ow_end ow - ow_start ow) (2 ^ 64 - 1),
                    vo_samples = samples, vo_predicates = outcomes\<rparr>)
            (poll ts v ow timeout stable_samples 0 0))"

end
