(* ===== verification/ExpectationProps.thy ===== *)
theory ExpectationProps
  imports Expectation ManifestLoad
begin

text \<open>
  What \<open>verify_state\<close> promises: it returns within its timeout, it reports success only for a state
  that held in every one of the last samples, an element predicate holds exactly for a trusted
  element with the asked fields, and the observed text it returns is bounded.
\<close>

section \<open>The loop ends\<close>

text \<open>The clock does not run backwards, and a sleep takes at least as long as asked.\<close>

definition keeps_time :: "observed_world \<Rightarrow> nat \<Rightarrow> bool" where
  "keeps_time ow timeout =
     (ow_start ow \<le> ow_checked ow 0
      \<and> (\<forall>i. ow_checked ow i \<le> ow_resting ow i
             \<and> ow_resting ow i + min (ow_start ow + timeout - ow_resting ow i) POLL_INTERVAL_MS
                 \<le> ow_checked ow (Suc i)))"

lemma time_passes:
  assumes "keeps_time ow timeout"
  shows "ow_start ow + min timeout (i * POLL_INTERVAL_MS) \<le> ow_checked ow i"
proof (induction i)
  case 0
  with assms show ?case by (simp add: keeps_time_def)
next
  case (Suc i)
  from assms have "ow_checked ow i \<le> ow_resting ow i"
    "ow_resting ow i + min (ow_start ow + timeout - ow_resting ow i) POLL_INTERVAL_MS \<le> ow_checked ow (Suc i)"
    by (auto simp: keeps_time_def)
  with Suc show ?case by (auto simp: min_def split: if_splits)
qed

definition most_samples :: "nat \<Rightarrow> nat" where
  "most_samples timeout = (timeout + 99) div POLL_INTERVAL_MS"

lemma poll_returns:
  assumes "keeps_time ow timeout" "i \<le> most_samples timeout"
  shows "\<exists>k held os. poll ts v ow timeout needed i c = Some (k, held, os) \<and> i < k \<and> k \<le> Suc (most_samples timeout)"
  using assms(2)
proof (induction "most_samples timeout - i" arbitrary: i c rule: less_induct)
  case less
  show ?case
  proof (cases "i < most_samples timeout")
    case True
    define c' where "c' = (if aggregate_status (sample ts v ow i) = Satisfied then Suc c else 0)"
    from True have "most_samples timeout - Suc i < most_samples timeout - i" "Suc i \<le> most_samples timeout" by auto
    from less.hyps [OF this, of c'] obtain k held os where
      go: "poll ts v ow timeout needed (Suc i) c' = Some (k, held, os)" "Suc i < k" "k \<le> Suc (most_samples timeout)"
      by auto
    have "poll ts v ow timeout needed i c \<in> {Some (Suc i, True, sample ts v ow i), Some (Suc i, False, sample ts v ow i),
        poll ts v ow timeout needed (Suc i) c'}"
      by (subst poll.simps) (simp add: Let_def c'_def)
    with go True show ?thesis by auto
  next
    case False
    with less.prems have i: "i = most_samples timeout" by simp
    have "timeout \<le> i * POLL_INTERVAL_MS"
      using div_mult_mod_eq [of "timeout + 99" 100] mod_less_divisor [of 100 "timeout + 99"]
      unfolding i most_samples_def POLL_INTERVAL_MS_def by linarith
    with time_passes [OF assms(1), of i] have "ow_start ow + timeout \<le> ow_checked ow i" by simp
    then show ?thesis using i by (subst poll.simps) (auto simp: Let_def)
  qed
qed

text \<open>Verification ends within its timeout. As long as the clock does not run backwards and a sleep
  takes at least as long as asked, \<open>verify_state\<close> returns, and it has taken at least one sample and
  at most one more than the poll intervals its timeout spans, however the platform answers.\<close>

theorem verification_terminates:
  assumes "\<And>timeout needed. verify_limits v = Inr (timeout, needed) \<Longrightarrow> keeps_time ow timeout"
  shows "\<exists>r. verify_state ts v ow = Some r
    \<and> (\<forall>out timeout needed. r = Inr out \<and> verify_limits v = Inr (timeout, needed) \<longrightarrow>
         0 < vo_samples out \<and> vo_samples out \<le> (timeout + 99) div 100 + 1)"
proof (cases "verify_limits v")
  case (Inr l)
  then obtain timeout needed where l: "verify_limits v = Inr (timeout, needed)" by (cases l) auto
  from poll_returns [OF assms [OF l], of 0 ts v needed 0] obtain k held os where
    "poll ts v ow timeout needed 0 0 = Some (k, held, os)" "0 < k" "k \<le> Suc (most_samples timeout)" by auto
  with l show ?thesis by (simp add: verify_state_def most_samples_def POLL_INTERVAL_MS_def Let_def)
qed (simp add: verify_state_def)


section \<open>Success is stable\<close>

definition holds_at :: "text_services \<Rightarrow> verify_input \<Rightarrow> observed_world \<Rightarrow> nat \<Rightarrow> bool" where
  "holds_at ts v ow i =
     (\<exists>s. observe (ow_listed ow i) (ow_state ow i) (vi_pid v) (vi_window_id v) (needs_elements v) False = Inr s
        \<and> (\<forall>p \<in> set (vi_expect v). fst (evaluate_predicate ts s p) = Satisfied))"

lemma aggregate_Satisfied: "aggregate_status os = Satisfied \<longleftrightarrow> (\<forall>o' \<in> set os. po_status o' = Satisfied)"
proof -
  have "x = Satisfied \<longleftrightarrow> x \<noteq> Unsatisfied \<and> x \<noteq> StatusUnknown" for x by (cases x) simp_all
  then show ?thesis by (auto simp: aggregate_status_def list_ex_iff)
qed

lemma map_enumerate_snd: "map (\<lambda>(i, p). f p) (enumerate n xs) = map f xs"
  by (induction xs arbitrary: n) auto

lemma evaluate_statuses:
  "map po_status (evaluate_predicates ts ps s) = map (\<lambda>p. fst (evaluate_predicate ts s p)) ps"
  "map po_status (unavailable_outcomes ts ps e) = map (\<lambda>_. StatusUnknown) ps"
  using map_enumerate_snd [of "\<lambda>p. fst (evaluate_predicate ts s p)" 0 ps] map_enumerate_snd [of "\<lambda>_. StatusUnknown" 0 ps]
  by (simp_all add: evaluate_predicates_def unavailable_outcomes_def outcome_of_def o_def case_prod_unfold)

lemma sample_holds:
  assumes "vi_expect v \<noteq> []"
  shows "aggregate_status (sample ts v ow i) = Satisfied \<longleftrightarrow> holds_at ts v ow i" and "sample ts v ow i \<noteq> []"
proof -
  have all: "(\<forall>o' \<in> set os. po_status o' = Satisfied) \<longleftrightarrow> (\<forall>x \<in> set (map po_status os). x = Satisfied)" for os
    by simp
  show "aggregate_status (sample ts v ow i) = Satisfied \<longleftrightarrow> holds_at ts v ow i"
    using assms unfolding aggregate_Satisfied all
    by (auto simp: sample_def holds_at_def evaluate_statuses simp del: set_map split: sum.splits)
      (auto simp: neq_Nil_conv)
  have "length (sample ts v ow i) = length (vi_expect v)"
    by (simp add: sample_def evaluate_predicates_def unavailable_outcomes_def split: sum.splits)
  with assms show "sample ts v ow i \<noteq> []" by auto
qed

definition trailing :: "(nat \<Rightarrow> bool) \<Rightarrow> nat \<Rightarrow> nat \<Rightarrow> bool" where
  "trailing good i c = (c \<le> i \<and> (\<forall>j. i - c \<le> j \<and> j < i \<longrightarrow> good j) \<and> (c = i \<or> \<not> good (i - c - 1)))"

lemma trailing_step:
  "trailing good i c \<Longrightarrow> trailing good (Suc i) (if good i then Suc c else 0)"
  by (auto simp: trailing_def less_Suc_eq)

lemma trailing_count:
  assumes "trailing good k c"
  shows "n \<le> c \<longleftrightarrow> n \<le> k \<and> (\<forall>j. k - n \<le> j \<and> j < k \<longrightarrow> good j)"
proof (cases "n \<le> c")
  case True
  then have "k - c \<le> j" if "k - n \<le> j" for j using that by arith
  with assms True show ?thesis by (auto simp: trailing_def)
next
  case False
  have "\<not> good (k - c - 1) \<and> k - n \<le> k - c - 1 \<and> k - c - 1 < k" if "n \<le> k"
    using assms False that by (auto simp: trailing_def)
  with False show ?thesis by blast
qed

definition polled ::
    "(nat \<Rightarrow> bool) \<Rightarrow> nat \<Rightarrow> nat \<Rightarrow> observed_world \<Rightarrow> (nat \<Rightarrow> predicate_outcome list) \<Rightarrow> nat \<times> bool \<times> predicate_outcome list \<Rightarrow> bool" where
  "polled good timeout needed ow smp r =
     (case r of (k, held, os) \<Rightarrow>
        0 < k \<and> os = smp (k - 1)
        \<and> (held \<longleftrightarrow> good (k - 1) \<and> needed \<le> k \<and> (\<forall>j. k - needed \<le> j \<and> j < k \<longrightarrow> good j))
        \<and> (held \<or> timeout = 0 \<or> ow_start ow + timeout \<le> ow_checked ow (k - 1)))"

lemma poll_result:
  assumes "poll ts v ow timeout needed i c = Some r"
    and "trailing (\<lambda>j. aggregate_status (sample ts v ow j) = Satisfied) i c"
  shows "polled (\<lambda>j. aggregate_status (sample ts v ow j) = Satisfied) timeout needed ow (sample ts v ow) r"
  using assms(2)
proof (induction rule: poll.raw_induct [OF _ assms(1)])
  case (1 poll' ts v ow timeout needed i c r)
  let ?good = "\<lambda>j. aggregate_status (sample ts v ow j) = Satisfied"
  let ?c = "if ?good i then Suc c else 0"
  from trailing_step [OF 1(3)] have t: "trailing ?good (Suc i) ?c" .
  note n = trailing_count [OF t, of needed]
  show ?case
  proof (cases "?good i \<and> needed \<le> ?c")
    case True
    with 1(2) n show ?thesis by (auto simp: Let_def polled_def)
  next
    case False
    show ?thesis
    proof (cases "timeout = 0 \<or> ow_start ow + timeout \<le> ow_checked ow i")
      case True
      with False 1(2) n show ?thesis by (auto simp: Let_def polled_def split: if_splits)
    next
      case go: False
      with False 1(2) have "poll' ts v ow timeout needed (Suc i) ?c = Some r"
        by (auto simp: Let_def split: if_splits)
      from 1(1) [OF this t] show ?thesis .
    qed
  qed
qed

text \<open>C18. Success is stable. A verification reports success exactly when it reports stability, and
  it reports stability exactly when, in each of the last samples it needed to be stable, every
  predicate held in an observation that succeeded; one unknown, unsatisfied or failed sample among
  them is enough to withhold success. It stops earlier than its deadline only on success, or when
  it was given no time at all.\<close>

theorem success_is_stable:
  assumes "verify_state ts v ow = Some (Inr out)"
  shows "\<exists>timeout needed. verify_limits v = Inr (timeout, needed) \<and> 0 < needed \<and> 0 < vo_samples out
    \<and> (vo_status out = Satisfied \<longleftrightarrow> vo_stable out)
    \<and> (vo_stable out \<longleftrightarrow> needed \<le> vo_samples out
         \<and> (\<forall>i. vo_samples out - needed \<le> i \<and> i < vo_samples out \<longrightarrow> holds_at ts v ow i))
    \<and> (vo_stable out \<or> timeout = 0 \<or> ow_start ow + timeout \<le> ow_checked ow (vo_samples out - 1))"
proof -
  from assms obtain timeout needed where l: "verify_limits v = Inr (timeout, needed)"
    by (auto simp: verify_state_def split: sum.splits prod.splits)
  then have e: "vi_expect v \<noteq> []" and needed: "0 < needed"
    by (auto simp: verify_limits_def Let_def DEFAULT_STABLE_SAMPLES_def split: if_splits option.splits)
  from assms l obtain k held os where p: "poll ts v ow timeout needed 0 0 = Some (k, held, os)"
    by (auto simp: verify_state_def)
  from poll_result [OF p] have r: "polled (holds_at ts v ow) timeout needed ow (sample ts v ow) (k, held, os)"
    unfolding sample_holds(1) [OF e] by (simp add: trailing_def)
  then have k: "0 < k" and os: "os = sample ts v ow (k - 1)" by (auto simp: polled_def)
  have st: "aggregate_status os = Satisfied \<longleftrightarrow> holds_at ts v ow (k - 1)" "os \<noteq> []"
    using sample_holds [OF e] os by auto
  have unst: "aggregate_status (map unstable os) \<noteq> Satisfied" if "aggregate_status os = Satisfied"
    using that st(2) unfolding aggregate_Satisfied by (cases os) (auto simp: unstable_def)
  have out: "vo_samples out = k" "vo_stable out = held"
    "vo_status out = aggregate_status (if aggregate_status os = Satisfied \<and> \<not> held then map unstable os else os)"
    using assms l p by (auto simp: verify_state_def Let_def)
  have status: "vo_status out = Satisfied \<longleftrightarrow> held"
    using out(3) unst st(1) r by (auto simp: polled_def)
  from r needed k have "held \<longleftrightarrow> needed \<le> k \<and> (\<forall>i. k - needed \<le> i \<and> i < k \<longrightarrow> holds_at ts v ow i)"
    by (auto simp: polled_def)
  with l needed k status out(1,2) r show ?thesis by (auto simp: polled_def)
qed

section \<open>What an element predicate decides\<close>

definition trusted_matches :: "text_services \<Rightarrow> element_selector \<Rightarrow> json list \<Rightarrow> json list" where
  "trusted_matches ts sel elements =
     filter (\<lambda>e. element_selected ts sel e \<and> \<not> target_is_in_web_area e elements) elements"

definition decidable_in :: "element_predicate \<Rightarrow> observation_snapshot \<Rightarrow> json list \<Rightarrow> bool" where
  "decidable_in p s elements =
     (ep_exists p \<noteq> Some False \<and> \<not> invalid_selector (ep_selector p) \<and> os_window s \<noteq> None
      \<and> os_trusted s \<and> os_elements s = Some elements)"

lemma check_fields_Satisfied:
  "fst (check_fields e cs) = Satisfied \<longleftrightarrow> (\<forall>(k, x) \<in> set cs. json_get e k = Some x)"
  by (induction e cs rule: check_fields.induct) (auto split: option.splits)

lemma check_fields_Unsatisfied:
  "fst (check_fields e cs) = Unsatisfied \<longleftrightarrow>
     (\<exists>xs k x ys a. cs = xs @ (k, x) # ys \<and> (\<forall>(k', x') \<in> set xs. json_get e k' = Some x')
        \<and> json_get e k = Some a \<and> a \<noteq> x)"
proof (induction cs)
  case (Cons c cs)
  obtain k x where c: "c = (k, x)" by (cases c)
  let ?at = "\<lambda>cs. \<exists>xs k x ys a. cs = xs @ (k, x) # ys \<and> (\<forall>(k', x') \<in> set xs. json_get e k' = Some x')
        \<and> json_get e k = Some a \<and> a \<noteq> x"
  show ?case
  proof (cases "json_get e k = Some x")
    case True
    have "?at (c # cs) \<longleftrightarrow> ?at cs"
    proof
      assume "?at (c # cs)"
      then obtain xs k' x' ys a where at: "c # cs = xs @ (k', x') # ys"
        "\<forall>(k', x') \<in> set xs. json_get e k' = Some x'" "json_get e k' = Some a" "a \<noteq> x'" by blast
      with True c obtain zs where "xs = c # zs" by (cases xs) auto
      with at show "?at cs" by auto
    next
      assume "?at cs"
      then obtain xs k' x' ys a where "cs = xs @ (k', x') # ys"
        "\<forall>(k', x') \<in> set xs. json_get e k' = Some x'" "json_get e k' = Some a" "a \<noteq> x'" by blast
      with True c show "?at (c # cs)" by (intro exI [of _ "c # xs"]) auto
    qed
    with True c Cons.IH show ?thesis by simp
  next
    case False
    then show ?thesis by (cases "json_get e k") (auto simp: c Cons_eq_append_conv intro: exI [of _ "[]"])
  qed
qed simp

text \<open>An element predicate is decided by trusted elements only. It is satisfied exactly when the
  predicate is well-formed, the window and its trusted elements were observed, an element matches
  outside any web area, and, if the predicate asks for a value or a state, that element is the only
  one and has all of them. It is unsatisfied exactly when a complete snapshot without web content
  has no match for an element asked to exist, or when the only trusted match has another value in
  the first field that differs, all asked fields before it being equal. Everything else is
  unknown.\<close>

theorem element_predicates_decide_trusted_facts:
  "(fst (evaluate_element ts p s) = Satisfied \<longleftrightarrow>
      (\<exists>elements. decidable_in p s elements
         \<and> trusted_matches ts (ep_selector p) elements \<noteq> []
         \<and> (\<forall>(k, x) \<in> set (constraints p).
              \<exists>e. trusted_matches ts (ep_selector p) elements = [e] \<and> json_get e k = Some x)))
   \<and> (fst (evaluate_element ts p s) = Unsatisfied \<longleftrightarrow>
      (\<exists>elements. decidable_in p s elements
         \<and> (ep_exists p = Some True \<and> os_complete s \<and> \<not> untrusted_region elements
              \<and> filter (element_selected ts (ep_selector p)) elements = []
            \<or> (\<exists>e xs k x ys a. trusted_matches ts (ep_selector p) elements = [e]
                 \<and> constraints p = xs @ (k, x) # ys
                 \<and> (\<forall>(k', x') \<in> set xs. json_get e k' = Some x')
                 \<and> json_get e k = Some a \<and> a \<noteq> x))))"
proof (cases "\<exists>elements. decidable_in p s elements")
  case False
  then show ?thesis
    by (auto simp: evaluate_element_def decidable_in_def split: option.splits)
next
  case True
  then obtain elements where d: "decidable_in p s elements" by blast
  have only: "elements' = elements" if "decidable_in p s elements'" for elements'
    using that d by (simp add: decidable_in_def)
  define found where "found = filter (element_selected ts (ep_selector p)) elements"
  have t: "trusted_matches ts (ep_selector p) elements = filter (\<lambda>e. \<not> target_is_in_web_area e elements) found"
    by (simp add: trusted_matches_def found_def conj_commute)
  have ev: "evaluate_element ts p s = (if found = [] then evaluate_absent p elements (os_complete s)
      else evaluate_matches p elements found)"
    using d by (auto simp: evaluate_element_def decidable_in_def found_def Let_def)
  have ab: "fst (evaluate_absent p elements w) = Unsatisfied \<longleftrightarrow>
        ep_exists p = Some True \<and> w \<and> \<not> untrusted_region elements"
    "fst (evaluate_absent p elements w) \<noteq> Satisfied" for w
    by (auto simp: evaluate_absent_def)
  have m: "fst (evaluate_matches p elements found) = Satisfied \<longleftrightarrow>
       trusted_matches ts (ep_selector p) elements \<noteq> []
       \<and> (\<forall>(k, x) \<in> set (constraints p). \<exists>e. trusted_matches ts (ep_selector p) elements = [e] \<and> json_get e k = Some x)"
    "fst (evaluate_matches p elements found) = Unsatisfied \<longleftrightarrow>
       (\<exists>e xs k x ys a. trusted_matches ts (ep_selector p) elements = [e]
                 \<and> constraints p = xs @ (k, x) # ys
                 \<and> (\<forall>(k', x') \<in> set xs. json_get e k' = Some x')
                 \<and> json_get e k = Some a \<and> a \<noteq> x)"
    unfolding t
    by (auto simp: evaluate_matches_def Let_def check_fields_Satisfied check_fields_Unsatisfied split: list.splits)
       (metis surj_pair ex_in_conv set_empty)+
  have nt: "found = [] \<Longrightarrow> trusted_matches ts (ep_selector p) elements = []" unfolding t by simp
  have ex: "(\<exists>elements'. decidable_in p s elements' \<and> Q elements') \<longleftrightarrow> Q elements" for Q
    using d only by blast
  note parts = ex found_def [symmetric] ev
  show ?thesis
  proof (cases "found = []")
    case True
    then show ?thesis unfolding parts using ab nt by simp
  next
    case False
    then show ?thesis unfolding parts using m by simp
  qed
qed

section \<open>The observed text\<close>

lemma boundary_before_le: "boundary_before s n \<le> n"
  by (induction n) auto

lemma boundary_before_boundary: "boundary_before s n \<noteq> 0 \<Longrightarrow> is_char_boundary s (boundary_before s n)"
  by (induction n) auto

text \<open>The text returned for an observation has at most 2000 bytes.\<close>

theorem observed_text_is_bounded:
  "length (bounded_json ts v) \<le> 2000"
  using boundary_before_le [of "ts_encode ts v" 1997]
  by (simp add: bounded_json_def Let_def)

section \<open>Examples\<close>

definition plain_text :: text_services where
  "plain_text = \<lparr>ts_lower = id, ts_encode = (\<lambda>_. [])\<rparr>"

definition a_button :: element_predicate where
  "a_button = \<lparr>ep_selector = \<lparr>sel_role = Some ''button'', sel_label_contains = None\<rparr>, ep_exists = Some True,
     ep_value_equals = None, ep_enabled = None, ep_selected = None\<rparr>"

text \<open>A web page: a web area, and buttons nested below each other in it.\<close>

definition web_node :: "nat \<Rightarrow> json" where
  "web_node i =
     (if i = 0 then JObj [(''element_index'', JNum (PosInt 0)), (''role'', JStr ''AXWebArea'')]
      else JObj [(''element_index'', JNum (PosInt i)), (''parent_index'', JNum (PosInt (i - 1))),
                 (''role'', JStr ''AXButton'')])"

definition web_page :: "nat \<Rightarrow> observation_snapshot" where
  "web_page n =
     \<lparr>os_window = Some JNull, os_elements = Some (map web_node [0..<n]), os_trusted = True, os_complete = True\<rparr>"

lemma lowered: "to_ascii_lowercase ''AXWebArea'' = ''axwebarea''" "to_ascii_lowercase ''AXButton'' = ''axbutton''"
  by (simp_all add: to_ascii_lowercase_def byte_of_def char_of_def bit_0)

lemma roles:
  "normalized_role ''AXButton'' = ''button''" "normalized_role ''button'' = ''button''"
  "normalized_role ''AXWebArea'' = ''webarea''"
  by (simp_all add: normalized_role_def to_ascii_lowercase_def is_ascii_alphanumeric_def byte_of_def
      strip_prefix_def Let_def char_of_def bit_0)

lemma trim_button: "trim ''button'' = ''button''"
  by (rule trim_graphic) (simp_all add: graphic_def byte_of_def)

lemma web_node_fields:
  "get_u64 (web_node i) ''element_index'' = Some i"
  "get_u64 (web_node i) ''parent_index'' = (if i = 0 then None else Some (i - 1))"
  "get_str (web_node i) ''role'' = Some (if i = 0 then ''AXWebArea'' else ''AXButton'')"
  "get_bool (web_node i) ''in_web_content'' = None"
  by (simp_all add: web_node_def get_u64_def get_str_def get_bool_def)

lemma find_web_node:
  "i < n \<Longrightarrow> element_at (map web_node [0..<n]) i = Some (web_node i)"
  by (induction n) (auto simp: element_at_def web_node_fields less_Suc_eq)

lemma web_root_node: "is_web_root (web_node i) \<longleftrightarrow> i = 0"
  by (simp add: is_web_root_def web_node_fields lowered)

lemma web_root_above: "i < n \<Longrightarrow> web_root_within k (map web_node [0..<n]) (Some (web_node i)) \<longleftrightarrow> i < k"
proof (induction k arbitrary: i)
  case (Suc k)
  have parent: "parent_of (map web_node [0..<n]) (web_node i) = (if i = 0 then None else Some (web_node (i - 1)))"
    using Suc.prems by (simp add: parent_of_def web_node_fields find_web_node)
  show ?case
  proof (cases i)
    case 0
    then show ?thesis by (simp add: web_root_node)
  next
    case (Suc j)
    with Suc.prems Suc.IH [of j] parent show ?thesis by (simp add: web_root_node)
  qed
qed simp

text \<open>Web content is recognized within 32 steps up the tree only: where the platform does not mark
  its elements, a button nested 32 levels below its web area counts as trusted.\<close>

theorem deep_web_content_is_trusted:
  "fst (evaluate_element ts a_button (web_page n)) = Satisfied \<longleftrightarrow> 32 < n"
proof -
  have sel: "element_selected ts (ep_selector a_button) (web_node i) \<longleftrightarrow> i \<noteq> 0" for i
    by (simp add: element_selected_def a_button_def role_matches_def web_node_fields roles)
  have ok: "\<not> invalid_selector (ep_selector a_button)"
    by (simp add: invalid_selector_def blank_def a_button_def roles trim_button)
  have trusted: "filter (\<lambda>e. \<not> target_is_in_web_area e (map web_node [0..<n]))
      (filter (element_selected ts (ep_selector a_button)) (map web_node [0..<n]))
    = map web_node (filter (\<lambda>i. 32 \<le> i) [0..<n])"
    unfolding filter_map filter_filter o_def sel target_is_in_web_area_def
    by (intro arg_cong [of _ _ "map web_node"] filter_cong) (auto simp: web_root_above)
  have free: "fst (evaluate_matches a_button els found) = Satisfied \<longleftrightarrow>
      filter (\<lambda>e. \<not> target_is_in_web_area e els) found \<noteq> []" for els found
    by (simp add: evaluate_matches_def Let_def constraints_def a_button_def split: list.splits)
  have "fst (evaluate_absent a_button els w) \<noteq> Satisfied" for els w
    by (simp add: evaluate_absent_def)
  moreover have "filter (\<lambda>i. 32 \<le> i) [0..<n] \<noteq> [] \<longleftrightarrow> 32 < n"
    by (auto simp: filter_empty_conv)
  moreover have "ep_exists a_button \<noteq> Some False" by (simp add: a_button_def)
  ultimately show ?thesis
    using ok trusted
    by (auto simp: evaluate_element_def web_page_def Let_def free simp del: filter_filter)
qed


text \<open>A window that is asked to exist, in a list without it, polled every 100 ms for 200 ms.\<close>

definition a_window :: state_predicate where
  "a_window = \<lparr>sp_window = Some \<lparr>wp_exists = Some True, wp_bounds = None\<rparr>, sp_element = None\<rparr>"

definition window_call :: "nat \<Rightarrow> verify_input" where
  "window_call timeout =
     \<lparr>vi_pid = 7, vi_window_id = 3, vi_expect = [a_window], vi_timeout_ms = Some timeout, vi_stable_samples = None\<rparr>"

definition windows_listed :: "json list \<Rightarrow> observed_world" where
  "windows_listed ws =
     (let listed = \<lparr>result_texts = [], result_structured = Some (JObj [(''windows'', JArr ws)]), result_error = False\<rparr>
      in \<lparr>ow_start = 0, ow_listed = \<lambda>_. listed, ow_state = \<lambda>_. listed, ow_checked = \<lambda>i. 100 * i,
          ow_resting = \<lambda>i. 100 * i, ow_end = 0\<rparr>)"

lemma window_call_limits:
  "verify_limits (window_call timeout) = (if 10000 < timeout then Inl ''verify_state timeout_ms must be between 0 and 10000''
     else Inr (timeout, if timeout = 0 then 1 else 2))"
  by (simp add: verify_limits_def window_call_def MAX_PREDICATES_def MAX_TIMEOUT_MS_def Let_def a_window_def
      invalid_predicate_message_def invalid_predicate_def map_filter_simps DEFAULT_STABLE_SAMPLES_def)

theorem verification_terminates_witness:
  "\<exists>r. verify_state plain_text (window_call 200) (windows_listed []) = Some r
     \<and> (\<forall>out. r = Inr out \<longrightarrow> vo_samples out \<le> 3)"
proof -
  have "keeps_time (windows_listed []) timeout" for timeout
    by (simp add: keeps_time_def windows_listed_def POLL_INTERVAL_MS_def Let_def)
  from verification_terminates [of "window_call 200", OF this] window_call_limits [of 200] show ?thesis by fastforce
qed

theorem success_is_stable_witness:
  "\<exists>out. verify_state plain_text (window_call 0)
       (windows_listed [JObj [(''pid'', JNum (PosInt 7)), (''window_id'', JNum (PosInt 3))]]) = Some (Inr out)
     \<and> vo_status out = Satisfied \<and> vo_stable out"
proof -
  let ?ow = "windows_listed [JObj [(''pid'', JNum (PosInt 7)), (''window_id'', JNum (PosInt 3))]]"
  have "aggregate_status (sample plain_text (window_call 0) ?ow 0) = Satisfied"
    by (simp add: sample_def observe_def windows_listed_def listed_windows_def window_call_def needs_elements_def
        a_window_def get_u64_def get_i64_def Let_def evaluate_predicates_def evaluate_predicate_def evaluate_window_def
        evaluate_bounds_def outcome_of_def aggregate_status_def)
  then have "poll plain_text (window_call 0) ?ow 0 (Suc 0) 0 0 =
      Some (Suc 0, True, sample plain_text (window_call 0) ?ow 0)"
    by (subst poll.simps) (simp add: Let_def)
  then obtain out where out: "verify_state plain_text (window_call 0) ?ow = Some (Inr out)" "vo_stable out"
    by (simp add: verify_state_def window_call_limits Let_def)
  from success_is_stable [OF out(1)] out show ?thesis by blast
qed

theorem element_predicates_decide_trusted_facts_witness:
  "fst (evaluate_element plain_text a_button (web_page 1)) = Unsatisfied
     \<longleftrightarrow> \<not> untrusted_region [web_node 0]"
proof -
  have "decidable_in a_button (web_page 1) els \<longleftrightarrow> els = [web_node 0]" for els
    by (auto simp: decidable_in_def web_page_def a_button_def invalid_selector_def blank_def roles trim_button)
  moreover have "\<not> element_selected plain_text (ep_selector a_button) (web_node 0)"
    by (simp add: element_selected_def a_button_def role_matches_def web_node_fields roles)
  moreover have "os_complete (web_page 1)" "ep_exists a_button = Some True" by (simp_all add: web_page_def a_button_def)
  ultimately show ?thesis
    using element_predicates_decide_trusted_facts [of plain_text a_button "web_page 1"]
    by (simp add: trusted_matches_def)
qed

end
