(* ===== verification/ActionRecord.thy ===== *)
theory ActionRecord
  imports ToolArgs
begin

text \<open>
  \<open>cua-driver-core/src/action_record.rs\<close>: the internal record of what an action did, its
  validation, its projection to the public action result of
  \<open>cua-driver-contract/src/outputs.rs\<close>, and the adapter that reads a record off a legacy payload;
  and the part of \<open>invoke_authorized\<close> in \<open>tool.rs\<close> that publishes it. The operating system the
  driver was compiled for (\<open>cfg!\<close>) is an argument.
\<close>

section \<open>The record\<close>

datatype action_effect = Confirmed | Partial | Unverifiable | SuspectedNoop | RefusedEffect

text \<open>An idempotent native mutation, judged by an independent readback of the value.\<close>

definition effect_from_value_readback :: "bool \<Rightarrow> bool \<Rightarrow> bool \<Rightarrow> action_effect" where
  "effect_from_value_readback confirmed changed readback_available =
     (if confirmed \<and> readback_available then Confirmed
      else if changed \<or> \<not> readback_available then Unverifiable
      else SuspectedNoop)"

datatype requested_delivery = RequestBackground | RequestForeground | RequestNotApplicable

datatype actual_delivery = ActualBackground | ActualForeground | ActualNotApplicable | ActualUnknown

datatype action_route = Accessibility | SyntheticEvents | GlobalInput | SystemApi | Dom | TrustedInput

datatype action_transport =
    AgentCursorOverlay | MacosAxAction | MacosAxValue | MacosAxWindowFrame | MacosCgEventPid
    | MacosCgEventHid | WindowsUiaInvoke | WindowsUiaToggle | WindowsUiaSelection
    | WindowsUiaExpandCollapse | WindowsUiaValue | WindowsUiaRangeValue | WindowsUiaScroll
    | WindowsMsaaAction | WindowsPostMessage | WindowsTargetedInjection | WindowsSendInput
    | WindowsSetCursorPos | WindowsShellExecute | WindowsSetWindowPos | LinuxAtSpiAction
    | LinuxAtSpiValue | LinuxPty | LinuxXSendEvent | LinuxXTest | LinuxLibei
    | LinuxWaylandVirtualPointer | LinuxCuaCompositorInject | LinuxX11ConfigureWindow
    | BrowserCdpInputMouse | BrowserCdpInputKey | BrowserCdpRuntimeFunction

definition ALL_TRANSPORTS :: "action_transport list" where
  "ALL_TRANSPORTS =
     [AgentCursorOverlay, MacosAxAction, MacosAxValue, MacosAxWindowFrame, MacosCgEventPid
      , MacosCgEventHid, WindowsUiaInvoke, WindowsUiaToggle, WindowsUiaSelection
      , WindowsUiaExpandCollapse, WindowsUiaValue, WindowsUiaRangeValue, WindowsUiaScroll
      , WindowsMsaaAction, WindowsPostMessage, WindowsTargetedInjection, WindowsSendInput
      , WindowsSetCursorPos, WindowsShellExecute, WindowsSetWindowPos, LinuxAtSpiAction
      , LinuxAtSpiValue, LinuxPty, LinuxXSendEvent, LinuxXTest, LinuxLibei
      , LinuxWaylandVirtualPointer, LinuxCuaCompositorInject, LinuxX11ConfigureWindow
      , BrowserCdpInputMouse, BrowserCdpInputKey, BrowserCdpRuntimeFunction]"

primrec route :: "action_transport \<Rightarrow> action_route" where
  "route AgentCursorOverlay = SyntheticEvents"
| "route MacosAxAction = Accessibility"
| "route MacosAxValue = Accessibility"
| "route MacosAxWindowFrame = Accessibility"
| "route MacosCgEventPid = SyntheticEvents"
| "route MacosCgEventHid = GlobalInput"
| "route WindowsUiaInvoke = Accessibility"
| "route WindowsUiaToggle = Accessibility"
| "route WindowsUiaSelection = Accessibility"
| "route WindowsUiaExpandCollapse = Accessibility"
| "route WindowsUiaValue = Accessibility"
| "route WindowsUiaRangeValue = Accessibility"
| "route WindowsUiaScroll = Accessibility"
| "route WindowsMsaaAction = Accessibility"
| "route WindowsPostMessage = SyntheticEvents"
| "route WindowsTargetedInjection = GlobalInput"
| "route WindowsSendInput = GlobalInput"
| "route WindowsSetCursorPos = GlobalInput"
| "route WindowsShellExecute = GlobalInput"
| "route WindowsSetWindowPos = SystemApi"
| "route LinuxAtSpiAction = Accessibility"
| "route LinuxAtSpiValue = Accessibility"
| "route LinuxPty = SyntheticEvents"
| "route LinuxXSendEvent = SyntheticEvents"
| "route LinuxXTest = GlobalInput"
| "route LinuxLibei = GlobalInput"
| "route LinuxWaylandVirtualPointer = GlobalInput"
| "route LinuxCuaCompositorInject = GlobalInput"
| "route LinuxX11ConfigureWindow = SystemApi"
| "route BrowserCdpInputMouse = TrustedInput"
| "route BrowserCdpInputKey = TrustedInput"
| "route BrowserCdpRuntimeFunction = Dom"

datatype evidence_kind =
    AccessibilityReadback | BrowserReadback | ValueReadback | WindowChange | NativeApiResult
    | ScreenshotComparison | EventReceipt | OperatorObservation

record action_evidence =
  ev_kind :: evidence_kind
  ev_detail :: string

record action_attempt =
  at_transport :: action_transport
  at_delivery :: actual_delivery
  at_detail :: "string option"

record action_fallback =
  fb_from :: action_transport
  fb_to :: action_transport
  fb_reason :: string

datatype escalation_kind =
    ActivateTarget | RetryWithPixelTarget | RetryWithPageAction | RefreshPageState | RequestPermission
    | ElevateAccess | ExpandCaptureScope | PrepareSession | RetryWithForegroundDelivery

record action_escalation =
  es_kind :: escalation_kind
  es_detail :: "string option"

record execution_record =
  ar_effect :: action_effect
  ar_transport :: action_transport
  ar_requested :: requested_delivery
  ar_actual :: "actual_delivery option"
  ar_attempts :: "action_attempt list"
  ar_fallbacks :: "action_fallback list"
  ar_evidence :: "action_evidence list"
  ar_escalation :: "action_escalation option"
  ar_delivered_count :: "nat option"
  ar_detail :: "string option"

definition new_record ::
    "action_effect \<Rightarrow> action_transport \<Rightarrow> requested_delivery \<Rightarrow> execution_record" where
  "new_record e t d =
     \<lparr>ar_effect = e, ar_transport = t, ar_requested = d, ar_actual = None, ar_attempts = [],
      ar_fallbacks = [], ar_evidence = [], ar_escalation = None, ar_delivered_count = None,
      ar_detail = None\<rparr>"


section \<open>Validation and projection\<close>

datatype projected_kind =
    ProjectedAccessibility | ProjectedBrowser | ProjectedValue | ProjectedWindowChange

record evidence_projection =
  ep_kind :: projected_kind
  ep_detail :: string

primrec projected_kind_of :: "evidence_kind \<Rightarrow> projected_kind option" where
  "projected_kind_of AccessibilityReadback = Some ProjectedAccessibility"
| "projected_kind_of BrowserReadback = Some ProjectedBrowser"
| "projected_kind_of ValueReadback = Some ProjectedValue"
| "projected_kind_of WindowChange = Some ProjectedWindowChange"
| "projected_kind_of NativeApiResult = None"
| "projected_kind_of ScreenshotComparison = None"
| "projected_kind_of EventReceipt = None"
| "projected_kind_of OperatorObservation = None"

definition project_evidence_item :: "action_evidence \<Rightarrow> evidence_projection option" where
  "project_evidence_item e =
     map_option (\<lambda>k. \<lparr>ep_kind = k, ep_detail = ev_detail e\<rparr>) (projected_kind_of (ev_kind e))"

definition projected_evidence :: "action_evidence list \<Rightarrow> evidence_projection list option" where
  "projected_evidence es =
     (let ps = List.map_filter project_evidence_item es in if ps = [] then None else Some ps)"

datatype record_error =
    ConfirmedRequiresEvidence | PartialRequiresDeliveredCount | RefusedCannotHaveDelivery
    | RefusedCannotHaveEvidence

definition validate_record :: "execution_record \<Rightarrow> record_error + unit" where
  "validate_record r =
     (if ar_effect r = Confirmed \<and> projected_evidence (ar_evidence r) = None
      then Inl ConfirmedRequiresEvidence
      else if ar_effect r = Partial \<and> (ar_actual r = None \<or> ar_delivered_count r = None)
      then Inl PartialRequiresDeliveredCount
      else if ar_effect r = RefusedEffect \<and> ar_actual r \<noteq> None then Inl RefusedCannotHaveDelivery
      else if ar_effect r = RefusedEffect \<and> ar_evidence r \<noteq> [] then Inl RefusedCannotHaveEvidence
      else Inr ())"

record delivery_projection =
  dp_actual :: actual_delivery
  dp_delivered_count :: "nat option"

record outcome_projection =
  op_effect :: action_effect
  op_route :: action_route
  op_delivery :: "delivery_projection option"
  op_evidence :: "evidence_projection list option"
  op_escalation :: "action_escalation option"

definition stable_projection :: "execution_record \<Rightarrow> record_error + outcome_projection" where
  "stable_projection r =
     map_sum id (\<lambda>_.
       \<lparr>op_effect = ar_effect r, op_route = route (ar_transport r),
        op_delivery =
          map_option (\<lambda>d. \<lparr>dp_actual = d, dp_delivered_count = ar_delivered_count r\<rparr>) (ar_actual r),
        op_evidence = projected_evidence (ar_evidence r), op_escalation = ar_escalation r\<rparr>)
       (validate_record r)"


section \<open>The public result\<close>

datatype public_effect = PubConfirmed | PubPartial | PubUnverifiable | PubSuspectedNoop | PubRefused

datatype public_route =
  PubAccessibility | PubSyntheticEvents | PubGlobalInput | PubSystemApi | PubDom | PubTrustedInput

datatype delivery_mode = ModeBackground | ModeForeground | ModeNotApplicable | ModeUnknown

record public_delivery =
  pd_mode :: delivery_mode
  pd_delivered_count :: "nat option"

datatype public_evidence = PubValueReadback | PubWindowChange

datatype escalation_target = TargetPixel | TargetForeground | TargetPage | TargetSession

datatype action_escalation_reason =
  RouteUnavailable | DeliveryFailed | EffectUnconfirmed | ReasonSuspectedNoop | PermissionRequired

record public_escalation =
  pe_target :: escalation_target
  pe_reason :: action_escalation_reason

record action_result =
  res_effect :: public_effect
  res_route :: public_route
  res_delivery :: "public_delivery option"
  res_evidence :: "public_evidence list option"
  res_escalation :: "public_escalation option"

datatype result_error =
    ConfirmedWithoutEvidence | PartialWithoutCount | RefusedWithDelivery | RefusedWithEvidence

definition validate_invariants :: "action_result \<Rightarrow> result_error + unit" where
  "validate_invariants a =
     (if res_effect a = PubConfirmed \<and> res_evidence a \<in> set [None, Some []]
      then Inl ConfirmedWithoutEvidence
      else if res_effect a = PubPartial \<and> Option.bind (res_delivery a) pd_delivered_count = None
      then Inl PartialWithoutCount
      else if res_effect a = PubRefused \<and> res_delivery a \<noteq> None then Inl RefusedWithDelivery
      else if res_effect a = PubRefused \<and> res_evidence a \<noteq> None then Inl RefusedWithEvidence
      else Inr ())"

primrec public_effect_of :: "action_effect \<Rightarrow> public_effect" where
  "public_effect_of Confirmed = PubConfirmed"
| "public_effect_of Partial = PubPartial"
| "public_effect_of Unverifiable = PubUnverifiable"
| "public_effect_of SuspectedNoop = PubSuspectedNoop"
| "public_effect_of RefusedEffect = PubRefused"

primrec public_route_of :: "action_route \<Rightarrow> public_route" where
  "public_route_of Accessibility = PubAccessibility"
| "public_route_of SyntheticEvents = PubSyntheticEvents"
| "public_route_of GlobalInput = PubGlobalInput"
| "public_route_of SystemApi = PubSystemApi"
| "public_route_of Dom = PubDom"
| "public_route_of TrustedInput = PubTrustedInput"

primrec public_mode_of :: "actual_delivery \<Rightarrow> delivery_mode" where
  "public_mode_of ActualBackground = ModeBackground"
| "public_mode_of ActualForeground = ModeForeground"
| "public_mode_of ActualNotApplicable = ModeNotApplicable"
| "public_mode_of ActualUnknown = ModeUnknown"

primrec public_kind_of :: "projected_kind \<Rightarrow> public_evidence" where
  "public_kind_of ProjectedAccessibility = PubValueReadback"
| "public_kind_of ProjectedBrowser = PubValueReadback"
| "public_kind_of ProjectedValue = PubValueReadback"
| "public_kind_of ProjectedWindowChange = PubWindowChange"

primrec advice_of :: "escalation_kind \<Rightarrow> escalation_target \<times> action_escalation_reason" where
  "advice_of ActivateTarget = (TargetForeground, DeliveryFailed)"
| "advice_of RetryWithForegroundDelivery = (TargetForeground, DeliveryFailed)"
| "advice_of RetryWithPixelTarget = (TargetPixel, EffectUnconfirmed)"
| "advice_of RetryWithPageAction = (TargetPage, EffectUnconfirmed)"
| "advice_of RefreshPageState = (TargetPage, RouteUnavailable)"
| "advice_of RequestPermission = (TargetSession, PermissionRequired)"
| "advice_of ElevateAccess = (TargetSession, PermissionRequired)"
| "advice_of ExpandCaptureScope = (TargetSession, RouteUnavailable)"
| "advice_of PrepareSession = (TargetSession, RouteUnavailable)"

definition public_escalation_of :: "action_effect \<Rightarrow> action_escalation \<Rightarrow> public_escalation" where
  "public_escalation_of effect e =
     (case advice_of (es_kind e) of (target, reason) \<Rightarrow>
        \<lparr>pe_target = target,
         pe_reason = (if effect = SuspectedNoop \<and> reason \<noteq> PermissionRequired
                      then ReasonSuspectedNoop else reason)\<rparr>)"

definition public_result :: "execution_record \<Rightarrow> record_error + action_result" where
  "public_result r =
     map_sum id (\<lambda>p.
       \<lparr>res_effect = public_effect_of (op_effect p), res_route = public_route_of (op_route p),
        res_delivery =
          map_option (\<lambda>d. \<lparr>pd_mode = public_mode_of (dp_actual d),
                           pd_delivered_count = dp_delivered_count d\<rparr>) (op_delivery p),
        res_evidence = map_option (map (\<lambda>e. public_kind_of (ep_kind e))) (op_evidence p),
        res_escalation = map_option (public_escalation_of (op_effect p)) (op_escalation p)\<rparr>)
       (stable_projection r)"


section \<open>Building a record\<close>

definition with_actual_delivery :: "actual_delivery \<Rightarrow> execution_record \<Rightarrow> execution_record" where
  "with_actual_delivery d b = b\<lparr>ar_actual := Some d\<rparr>"

definition with_attempt :: "action_attempt \<Rightarrow> execution_record \<Rightarrow> execution_record" where
  "with_attempt a b = b\<lparr>ar_attempts := ar_attempts b @ [a]\<rparr>"

definition with_fallback :: "action_fallback \<Rightarrow> execution_record \<Rightarrow> execution_record" where
  "with_fallback f b = b\<lparr>ar_fallbacks := ar_fallbacks b @ [f]\<rparr>"

definition with_evidence :: "action_evidence \<Rightarrow> execution_record \<Rightarrow> execution_record" where
  "with_evidence e b = b\<lparr>ar_evidence := ar_evidence b @ [e]\<rparr>"

definition with_escalation :: "action_escalation \<Rightarrow> execution_record \<Rightarrow> execution_record" where
  "with_escalation e b = b\<lparr>ar_escalation := Some e\<rparr>"

definition with_delivered_count :: "nat \<Rightarrow> execution_record \<Rightarrow> execution_record" where
  "with_delivered_count n b = b\<lparr>ar_delivered_count := Some n\<rparr>"

definition with_detail :: "string \<Rightarrow> execution_record \<Rightarrow> execution_record" where
  "with_detail d b = b\<lparr>ar_detail := Some d\<rparr>"

definition build :: "execution_record \<Rightarrow> record_error + execution_record" where
  "build b = map_sum id (\<lambda>_. b) (validate_record b)"


section \<open>Reading a legacy payload\<close>

definition ACTION_RESULT_TOOLS :: "string list" where
  "ACTION_RESULT_TOOLS =
     [''click'', ''double_click'', ''right_click'', ''scroll'', ''drag'', ''mouse_drag'',
      ''parallel_mouse_drag'', ''move_cursor'', ''mouse_button_down'', ''mouse_button_up'',
      ''type_text'', ''type_text_chars'', ''press_key'', ''hotkey'', ''set_value'',
      ''set_window_frame'', ''invoke_menu'', ''browser_click'', ''browser_pointer'', ''browser_type'']"

definition is_action_tool :: "string \<Rightarrow> bool" where
  "is_action_tool tool = (tool \<in> set ACTION_RESULT_TOOLS)"

definition BROWSER_INPUT :: "string list" where
  "BROWSER_INPUT = [''browser_click'', ''browser_pointer'', ''browser_type'']"

definition VALUE_TOOLS :: "string list" where
  "VALUE_TOOLS = [''type_text'', ''type_text_chars'', ''set_value'']"

definition wants_foreground :: "json \<Rightarrow> bool" where
  "wants_foreground args = (get_str args ''delivery_mode'' = Some ''foreground'')"

definition on_desktop :: "json \<Rightarrow> bool" where
  "on_desktop args = (get_str args ''scope'' = Some ''desktop'')"

definition requested_delivery_of :: "string \<Rightarrow> json \<Rightarrow> requested_delivery" where
  "requested_delivery_of tool args =
     (if wants_foreground args then RequestForeground
      else if get_str args ''delivery_mode'' = Some ''background'' then RequestBackground
      else if on_desktop args then RequestNotApplicable
      else if tool \<in> set BROWSER_INPUT then RequestNotApplicable
      else RequestBackground)"

definition delivered_prefix :: "json \<Rightarrow> bool" where
  "delivered_prefix s =
     (pointer_str s [''refusal'', ''code''] = Some ''browser_input_incomplete''
      \<and> (case Option.bind (json_pointer s [''refusal'', ''detail'', ''delivered_chars'']) as_u64 of
           None \<Rightarrow> False | Some n \<Rightarrow> 0 < n))"

definition effect_named :: "string option \<Rightarrow> action_effect" where
  "effect_named s =
     (if s = Some ''confirmed'' then Confirmed
      else if s = Some ''partial'' then Partial
      else if s = Some ''suspected_noop'' then SuspectedNoop
      else if s = Some ''refused'' then RefusedEffect
      else Unverifiable)"

definition legacy_effect :: "json \<Rightarrow> action_effect" where
  "legacy_effect s =
     (if get_str s ''status'' = Some ''refused''
      then if delivered_prefix s then Partial else RefusedEffect
      else effect_named (get_str s ''effect''))"

definition refusal_escalation_kind :: "string \<Rightarrow> escalation_kind option" where
  "refusal_escalation_kind code =
     (if code \<in> set [''browser_consent_required'', ''browser_consent_revoked'',
                       ''browser_origin_outside_scope'']
      then Some RequestPermission
      else if code \<in> set [''browser_requires_setup'', ''browser_route_unavailable'',
                            ''browser_endpoint_owner_mismatch'', ''browser_reconnect_exhausted'']
      then Some PrepareSession
      else if code \<in> set [''browser_binding_ambiguous'', ''browser_binding_stale'',
                            ''browser_wrong_target_refused'', ''browser_tab_required'',
                            ''browser_tab_not_found'', ''browser_ref_stale'',
                            ''browser_input_trust_unavailable'', ''browser_action_unavailable'']
      then Some RefreshPageState
      else None)"

definition browser_refusal_escalation :: "string \<Rightarrow> action_escalation option" where
  "browser_refusal_escalation code =
     map_option (\<lambda>k. \<lparr>es_kind = k, es_detail = None\<rparr>) (refusal_escalation_kind code)"

definition declares_readback :: "json \<Rightarrow> bool" where
  "declares_readback s =
     (case Option.bind (json_get s ''evidence'') as_array of
        None \<Rightarrow> False
      | Some items \<Rightarrow> list_ex (\<lambda>i. get_str i ''kind'' = Some ''accessibility_readback'') items)"

definition legacy_has_publishable_readback :: "string \<Rightarrow> json \<Rightarrow> bool" where
  "legacy_has_publishable_readback tool s =
     ((tool \<in> set VALUE_TOOLS \<or> tool = ''click'' \<and> declares_readback s)
      \<and> get_bool s ''verified'' = Some True
      \<and> get_str s ''effect'' = Some ''confirmed'')"

datatype target_os = Macos | Windows | OtherOs

definition by_os :: "target_os \<Rightarrow> 'a \<Rightarrow> 'a \<Rightarrow> 'a \<Rightarrow> 'a" where
  "by_os os mac win other = (case os of Macos \<Rightarrow> mac | Windows \<Rightarrow> win | OtherOs \<Rightarrow> other)"

text \<open>The paths that name a kind of transport only; what each is depends on the system.\<close>

definition semantic_transport :: "target_os \<Rightarrow> string \<Rightarrow> action_transport" where
  "semantic_transport os tool =
     (if tool \<in> set VALUE_TOOLS then by_os os MacosAxValue WindowsUiaValue LinuxAtSpiValue
      else by_os os MacosAxAction WindowsUiaInvoke LinuxAtSpiAction)"

definition key_transport :: "target_os \<Rightarrow> bool \<Rightarrow> action_transport" where
  "key_transport os fg =
     (if fg then by_os os MacosCgEventHid WindowsSendInput LinuxXTest
      else by_os os MacosCgEventPid WindowsPostMessage LinuxXSendEvent)"

definition pixel_transport :: "target_os \<Rightarrow> json \<Rightarrow> action_transport" where
  "pixel_transport os args =
     (if wants_foreground args then by_os os MacosCgEventHid WindowsSendInput LinuxXTest
      else by_os os MacosCgEventPid WindowsTargetedInjection LinuxXTest)"

text \<open>No path: what the tool uses by default.\<close>

definition default_transport :: "target_os \<Rightarrow> string \<Rightarrow> json \<Rightarrow> action_transport option" where
  "default_transport os tool args =
     (if tool \<in> set [''browser_click'', ''browser_pointer'']
      then Some (if get_str args ''input_route'' = Some ''dom_event'' then BrowserCdpRuntimeFunction
                 else BrowserCdpInputMouse)
      else if tool = ''browser_type'' then Some BrowserCdpInputKey
      else if tool = ''move_cursor'' \<and> \<not> on_desktop args then Some AgentCursorOverlay
      else if on_desktop args then Some (by_os os MacosCgEventHid WindowsSendInput LinuxXTest)
      else if tool \<in> set [''type_text'', ''type_text_chars'', ''press_key'', ''hotkey'']
      then Some (by_os os MacosCgEventPid
                   (if wants_foreground args then WindowsSendInput else WindowsPostMessage)
                   LinuxXSendEvent)
      else if tool = ''set_value'' then Some (by_os os MacosAxValue WindowsUiaValue LinuxAtSpiValue)
      else if tool \<in> set [''click'', ''double_click'', ''right_click'', ''scroll'', ''drag'', ''mouse_drag'',
                            ''parallel_mouse_drag'', ''mouse_button_down'', ''mouse_button_up'']
      then Some (pixel_transport os args)
      else None)"

definition transport_from_legacy ::
    "target_os \<Rightarrow> string \<Rightarrow> json \<Rightarrow> string option \<Rightarrow> action_transport option" where
  "transport_from_legacy os tool args raw_path =
     (let path = (case raw_path of None \<Rightarrow> [] | Some p \<Rightarrow> p)
      in if path \<in> set [''ax'', ''ax_fg''] then Some (semantic_transport os tool)
         else if path = ''uia'' \<and> tool = ''scroll'' then Some WindowsUiaScroll
         else if path = ''uia'' then Some WindowsUiaInvoke
         else if path = ''uia_expand_collapse'' then Some WindowsUiaExpandCollapse
         else if path = ''msaa'' then Some WindowsMsaaAction
         else if path \<in> set [''post_message'', ''PostMessage''] then Some WindowsPostMessage
         else if path = ''SendInput'' then Some WindowsSendInput
         else if path = ''SetCursorPos'' then Some WindowsSetCursorPos
         else if path \<in> set [''atspi'', ''wayland_atspi'', ''x11_atspi''] then Some LinuxAtSpiAction
         else if path = ''pty'' then Some LinuxPty
         else if path \<in> set [''x11_pixel'', ''x11_pixel_fg'', ''x11_xtest_fg'', ''xtest'', ''xtest_desktop'']
         then Some LinuxXTest
         else if path \<in> set [''wayland_activate'', ''wayland_focused''] then Some LinuxLibei
         else if path = ''wayland_desktop'' then Some LinuxWaylandVirtualPointer
         else if path \<in> set [''cua_compositor_inject'', ''wayland_cua_compositor'']
         then Some LinuxCuaCompositorInject
         else if path \<in> set [''hid'', ''cgevent_hid'', ''cgevent_fg''] then Some MacosCgEventHid
         else if path = ''cgevent''
         then Some (if wants_foreground args then MacosCgEventHid else MacosCgEventPid)
         else if path = ''dom_event'' then Some BrowserCdpRuntimeFunction
         else if path = ''trusted'' then Some BrowserCdpInputMouse
         else if path \<in> set [''key_events'', ''key_events_fg'']
         then Some (key_transport os (ends_with path ''_fg'' \<or> wants_foreground args))
         else if path = ''pixel'' then Some (pixel_transport os args)
         else if path = [] then default_transport os tool args
         else None)"

definition structured_delivery_mode :: "json \<Rightarrow> json \<Rightarrow> actual_delivery option" where
  "structured_delivery_mode args s =
     (let mode = Option.bind (case json_get s ''delivery_mode'' of
                                Some v \<Rightarrow> Some v | None \<Rightarrow> json_get args ''delivery_mode'') as_str
      in if mode = Some ''foreground'' then Some ActualForeground
         else if mode = Some ''background'' \<and> json_get s ''delivery_mode'' \<noteq> None
         then Some ActualBackground
         else None)"

definition delivery_of_path :: "string option \<Rightarrow> actual_delivery" where
  "delivery_of_path raw_path =
     (case raw_path of
        None \<Rightarrow> ActualUnknown
      | Some path \<Rightarrow>
          if ends_with path ''_fg'' then ActualForeground
          else if path \<in> set [''hid'', ''cgevent_hid'', ''SendInput'', ''wayland_activate'', ''wayland_focused'']
          then ActualForeground
          else ActualBackground)"

definition actual_delivery_from_legacy ::
    "string \<Rightarrow> json \<Rightarrow> json \<Rightarrow> string option \<Rightarrow> action_transport \<Rightarrow> action_effect \<Rightarrow> actual_delivery option" where
  "actual_delivery_from_legacy tool args s raw_path via effect =
     (if effect = RefusedEffect then None
      else if tool \<in> set BROWSER_INPUT then Some ActualBackground
      else if via = AgentCursorOverlay \<or> on_desktop args then Some ActualNotApplicable
      else case structured_delivery_mode args s of
             Some d \<Rightarrow> Some d
           | None \<Rightarrow> Some (delivery_of_path raw_path))"

definition legacy_path :: "json \<Rightarrow> string option" where
  "legacy_path s =
     Option.bind (case json_get s ''path'' of Some v \<Rightarrow> Some v | None \<Rightarrow> json_get s ''route'') as_str"

definition legacy_count :: "json \<Rightarrow> nat option" where
  "legacy_count s =
     Option.bind (Option.bind
       (case json_get s ''delivered_chars'' of
          Some v \<Rightarrow> Some v
        | None \<Rightarrow> json_pointer s [''refusal'', ''detail'', ''delivered_chars'']) as_u64)
       (\<lambda>n. if n < 2 ^ 32 then Some n else None)"

definition legacy_evidence :: "string \<Rightarrow> json \<Rightarrow> action_transport \<Rightarrow> action_evidence list" where
  "legacy_evidence tool s via =
     (if legacy_has_publishable_readback tool s
      then [\<lparr>ev_kind = (if via \<in> set [BrowserCdpInputMouse, BrowserCdpInputKey, BrowserCdpRuntimeFunction]
                         then BrowserReadback else AccessibilityReadback),
             ev_detail = (case get_str s ''verify'' of Some v \<Rightarrow> v | None \<Rightarrow> ''confirmed'')\<rparr>]
      else [])"

definition recommended_kind :: "string option \<Rightarrow> escalation_kind option" where
  "recommended_kind r =
     (if r = Some ''foreground'' then Some RetryWithForegroundDelivery
      else if r \<in> set [Some ''px'', Some ''pixel''] then Some RetryWithPixelTarget
      else if r = Some ''page'' then Some RetryWithPageAction
      else if r = Some ''session'' then Some ExpandCaptureScope
      else None)"

definition legacy_escalation :: "json \<Rightarrow> action_escalation option" where
  "legacy_escalation s =
     (case json_get s ''escalation'' of
        Some e \<Rightarrow>
          map_option (\<lambda>k. \<lparr>es_kind = k, es_detail = get_str e ''reason''\<rparr>)
            (recommended_kind (get_str e ''recommended''))
      | None \<Rightarrow> Option.bind (pointer_str s [''refusal'', ''code'']) browser_refusal_escalation)"

definition from_legacy ::
    "target_os \<Rightarrow> string \<Rightarrow> json \<Rightarrow> json \<Rightarrow> execution_record option" where
  "from_legacy os tool args s =
     (if \<not> is_action_tool tool then None
      else case transport_from_legacy os tool args (legacy_path s) of
        None \<Rightarrow> None
      | Some via \<Rightarrow>
          (let effect = legacy_effect s;
               r = (new_record effect via (requested_delivery_of tool args))
                     \<lparr>ar_actual := actual_delivery_from_legacy tool args s (legacy_path s) via effect,
                      ar_delivered_count := legacy_count s,
                      ar_evidence := legacy_evidence tool s via,
                      ar_escalation := legacy_escalation s\<rparr>;
               r' = (if effect = Confirmed \<and> projected_evidence (ar_evidence r) = None
                     then r\<lparr>ar_effect := Unverifiable\<rparr> else r)
           in if effect = Partial \<and> ar_delivered_count r = None then None
              else (case validate_record r' of Inl _ \<Rightarrow> None | Inr _ \<Rightarrow> Some r')))"


section \<open>Names\<close>

primrec effect_name :: "action_effect \<Rightarrow> string" where
  "effect_name Confirmed = ''confirmed''"
| "effect_name Partial = ''partial''"
| "effect_name Unverifiable = ''unverifiable''"
| "effect_name SuspectedNoop = ''suspected_noop''"
| "effect_name RefusedEffect = ''refused''"

primrec route_name :: "action_route \<Rightarrow> string" where
  "route_name Accessibility = ''accessibility''"
| "route_name SyntheticEvents = ''synthetic_events''"
| "route_name GlobalInput = ''global_input''"
| "route_name SystemApi = ''system_api''"
| "route_name Dom = ''dom''"
| "route_name TrustedInput = ''trusted_input''"

primrec requested_delivery_name :: "requested_delivery \<Rightarrow> string" where
  "requested_delivery_name RequestBackground = ''background''"
| "requested_delivery_name RequestForeground = ''foreground''"
| "requested_delivery_name RequestNotApplicable = ''not_applicable''"

primrec actual_delivery_name :: "actual_delivery \<Rightarrow> string" where
  "actual_delivery_name ActualBackground = ''background''"
| "actual_delivery_name ActualForeground = ''foreground''"
| "actual_delivery_name ActualNotApplicable = ''not_applicable''"
| "actual_delivery_name ActualUnknown = ''unknown''"

primrec evidence_kind_name :: "evidence_kind \<Rightarrow> string" where
  "evidence_kind_name AccessibilityReadback = ''accessibility_readback''"
| "evidence_kind_name BrowserReadback = ''browser_readback''"
| "evidence_kind_name ValueReadback = ''value_readback''"
| "evidence_kind_name WindowChange = ''window_change''"
| "evidence_kind_name NativeApiResult = ''native_api_result''"
| "evidence_kind_name ScreenshotComparison = ''screenshot_comparison''"
| "evidence_kind_name EventReceipt = ''event_receipt''"
| "evidence_kind_name OperatorObservation = ''operator_observation''"

primrec escalation_kind_name :: "escalation_kind \<Rightarrow> string" where
  "escalation_kind_name ActivateTarget = ''activate_target''"
| "escalation_kind_name RetryWithPixelTarget = ''retry_with_pixel_target''"
| "escalation_kind_name RetryWithPageAction = ''retry_with_page_action''"
| "escalation_kind_name RefreshPageState = ''refresh_page_state''"
| "escalation_kind_name RequestPermission = ''request_permission''"
| "escalation_kind_name ElevateAccess = ''elevate_access''"
| "escalation_kind_name ExpandCaptureScope = ''expand_capture_scope''"
| "escalation_kind_name PrepareSession = ''prepare_session''"
| "escalation_kind_name RetryWithForegroundDelivery = ''retry_with_foreground_delivery''"

primrec transport_name :: "action_transport \<Rightarrow> string" where
  "transport_name AgentCursorOverlay = ''agent_cursor_overlay''"
| "transport_name MacosAxAction = ''macos_ax_action''"
| "transport_name MacosAxValue = ''macos_ax_value''"
| "transport_name MacosAxWindowFrame = ''macos_ax_window_frame''"
| "transport_name MacosCgEventPid = ''macos_cg_event_pid''"
| "transport_name MacosCgEventHid = ''macos_cg_event_hid''"
| "transport_name WindowsUiaInvoke = ''windows_uia_invoke''"
| "transport_name WindowsUiaToggle = ''windows_uia_toggle''"
| "transport_name WindowsUiaSelection = ''windows_uia_selection''"
| "transport_name WindowsUiaExpandCollapse = ''windows_uia_expand_collapse''"
| "transport_name WindowsUiaValue = ''windows_uia_value''"
| "transport_name WindowsUiaRangeValue = ''windows_uia_range_value''"
| "transport_name WindowsUiaScroll = ''windows_uia_scroll''"
| "transport_name WindowsMsaaAction = ''windows_msaa_action''"
| "transport_name WindowsPostMessage = ''windows_post_message''"
| "transport_name WindowsTargetedInjection = ''windows_targeted_injection''"
| "transport_name WindowsSendInput = ''windows_send_input''"
| "transport_name WindowsSetCursorPos = ''windows_set_cursor_pos''"
| "transport_name WindowsShellExecute = ''windows_shell_execute''"
| "transport_name WindowsSetWindowPos = ''windows_set_window_pos''"
| "transport_name LinuxAtSpiAction = ''linux_at_spi_action''"
| "transport_name LinuxAtSpiValue = ''linux_at_spi_value''"
| "transport_name LinuxPty = ''linux_pty''"
| "transport_name LinuxXSendEvent = ''linux_x_send_event''"
| "transport_name LinuxXTest = ''linux_x_test''"
| "transport_name LinuxLibei = ''linux_libei''"
| "transport_name LinuxWaylandVirtualPointer = ''linux_wayland_virtual_pointer''"
| "transport_name LinuxCuaCompositorInject = ''linux_cua_compositor_inject''"
| "transport_name LinuxX11ConfigureWindow = ''linux_x11_configure_window''"
| "transport_name BrowserCdpInputMouse = ''browser_cdp_input_mouse''"
| "transport_name BrowserCdpInputKey = ''browser_cdp_input_key''"
| "transport_name BrowserCdpRuntimeFunction = ''browser_cdp_runtime_function''"

definition json_or_null :: "('a \<Rightarrow> json) \<Rightarrow> 'a option \<Rightarrow> json" where
  "json_or_null f x = (case x of None \<Rightarrow> JNull | Some y \<Rightarrow> f y)"

definition debug_json :: "execution_record \<Rightarrow> json" where
  "debug_json r =
     JObj [(''actual_delivery'', json_or_null (\<lambda>d. JStr (actual_delivery_name d)) (ar_actual r)),
       (''attempts'', JArr (map (\<lambda>a. JObj [(''delivery'', JStr (actual_delivery_name (at_delivery a))),
          (''detail'', json_or_null JStr (at_detail a)),
          (''transport'', JStr (transport_name (at_transport a)))]) (ar_attempts r))),
       (''delivered_count'', json_or_null (\<lambda>n. JNum (PosInt n)) (ar_delivered_count r)),
       (''detail'', json_or_null JStr (ar_detail r)),
       (''effect'', JStr (effect_name (ar_effect r))),
       (''escalation'', json_or_null (\<lambda>e. JObj [(''detail'', json_or_null JStr (es_detail e)),
          (''kind'', JStr (escalation_kind_name (es_kind e)))]) (ar_escalation r)),
       (''evidence'', JArr (map (\<lambda>e. JObj [(''detail'', JStr (ev_detail e)),
          (''kind'', JStr (evidence_kind_name (ev_kind e)))]) (ar_evidence r))),
       (''fallbacks'', JArr (map (\<lambda>f. JObj [(''from'', JStr (transport_name (fb_from f))),
          (''reason'', JStr (fb_reason f)), (''to'', JStr (transport_name (fb_to f)))]) (ar_fallbacks r))),
       (''requested_delivery'', JStr (requested_delivery_name (ar_requested r))),
       (''route'', JStr (route_name (route (ar_transport r)))),
       (''transport'', JStr (transport_name (ar_transport r)))]"

text \<open>The derived serializer of the public types: snake-case names, absent options left out.\<close>

primrec public_effect_text :: "public_effect \<Rightarrow> string" where
  "public_effect_text PubConfirmed = ''confirmed''"
| "public_effect_text PubPartial = ''partial''"
| "public_effect_text PubUnverifiable = ''unverifiable''"
| "public_effect_text PubSuspectedNoop = ''suspected_noop''"
| "public_effect_text PubRefused = ''refused''"

primrec public_route_text :: "public_route \<Rightarrow> string" where
  "public_route_text PubAccessibility = ''accessibility''"
| "public_route_text PubSyntheticEvents = ''synthetic_events''"
| "public_route_text PubGlobalInput = ''global_input''"
| "public_route_text PubSystemApi = ''system_api''"
| "public_route_text PubDom = ''dom''"
| "public_route_text PubTrustedInput = ''trusted_input''"

primrec delivery_mode_text :: "delivery_mode \<Rightarrow> string" where
  "delivery_mode_text ModeBackground = ''background''"
| "delivery_mode_text ModeForeground = ''foreground''"
| "delivery_mode_text ModeNotApplicable = ''not_applicable''"
| "delivery_mode_text ModeUnknown = ''unknown''"

primrec public_evidence_text :: "public_evidence \<Rightarrow> string" where
  "public_evidence_text PubValueReadback = ''value_readback''"
| "public_evidence_text PubWindowChange = ''window_change''"

primrec escalation_target_text :: "escalation_target \<Rightarrow> string" where
  "escalation_target_text TargetPixel = ''pixel''"
| "escalation_target_text TargetForeground = ''foreground''"
| "escalation_target_text TargetPage = ''page''"
| "escalation_target_text TargetSession = ''session''"

primrec escalation_reason_text :: "action_escalation_reason \<Rightarrow> string" where
  "escalation_reason_text RouteUnavailable = ''route_unavailable''"
| "escalation_reason_text DeliveryFailed = ''delivery_failed''"
| "escalation_reason_text EffectUnconfirmed = ''effect_unconfirmed''"
| "escalation_reason_text ReasonSuspectedNoop = ''suspected_noop''"
| "escalation_reason_text PermissionRequired = ''permission_required''"

definition opt_field :: "string \<Rightarrow> ('a \<Rightarrow> json) \<Rightarrow> 'a option \<Rightarrow> (string \<times> json) list" where
  "opt_field k f x = (case x of None \<Rightarrow> [] | Some y \<Rightarrow> [(k, f y)])"

definition delivery_json :: "public_delivery \<Rightarrow> json" where
  "delivery_json d =
     JObj (opt_field ''delivered_count'' (\<lambda>n. JNum (PosInt n)) (pd_delivered_count d)
           @ [(''mode'', JStr (delivery_mode_text (pd_mode d)))])"

definition evidence_json :: "public_evidence list \<Rightarrow> json" where
  "evidence_json es = JArr (map (\<lambda>e. JObj [(''kind'', JStr (public_evidence_text e))]) es)"

definition escalation_json :: "public_escalation \<Rightarrow> json" where
  "escalation_json e =
     JObj [(''reason'', JStr (escalation_reason_text (pe_reason e))),
           (''target'', JStr (escalation_target_text (pe_target e)))]"

definition action_result_json :: "action_result \<Rightarrow> json" where
  "action_result_json a =
     JObj (opt_field ''delivery'' delivery_json (res_delivery a)
           @ [(''effect'', JStr (public_effect_text (res_effect a)))]
           @ opt_field ''escalation'' escalation_json (res_escalation a)
           @ opt_field ''evidence'' evidence_json (res_evidence a)
           @ [(''route'', JStr (public_route_text (res_route a)))])"


section \<open>Publishing\<close>

primrec record_error_text :: "record_error \<Rightarrow> string" where
  "record_error_text ConfirmedRequiresEvidence = ''ConfirmedRequiresEvidence''"
| "record_error_text PartialRequiresDeliveredCount = ''PartialRequiresDeliveredCount''"
| "record_error_text RefusedCannotHaveDelivery = ''RefusedCannotHaveDelivery''"
| "record_error_text RefusedCannotHaveEvidence = ''RefusedCannotHaveEvidence''"

primrec result_error_text :: "result_error \<Rightarrow> string" where
  "result_error_text ConfirmedWithoutEvidence = ''confirmed effect requires evidence''"
| "result_error_text PartialWithoutCount = ''partial effect requires delivered_count''"
| "result_error_text RefusedWithDelivery = ''refused effect cannot include delivery''"
| "result_error_text RefusedWithEvidence = ''refused effect cannot include evidence''"

definition publish_action_result ::
    "execution_record option \<Rightarrow> tool_result \<Rightarrow> string + tool_result" where
  "publish_action_result action result =
     (case action of
        None \<Rightarrow> Inl ''successful action omitted its internal execution record''
      | Some r \<Rightarrow>
          (case public_result r of
             Inl e \<Rightarrow> Inl (''invalid internal execution record: '' @ record_error_text e)
           | Inr a \<Rightarrow>
               (case validate_invariants a of
                  Inl e \<Rightarrow> Inl (''invalid public projection: '' @ result_error_text e)
                | Inr _ \<Rightarrow> Inr (result\<lparr>result_structured := Some (action_result_json a)\<rparr>))))"

text \<open>The record of a result: the producer's own, or the one its payload shows.\<close>

definition record_of_result ::
    "target_os \<Rightarrow> string \<Rightarrow> json \<Rightarrow> tool_result \<Rightarrow> execution_record option \<Rightarrow> execution_record option" where
  "record_of_result os tool args result action =
     (case action of
        Some r \<Rightarrow> Some r
      | None \<Rightarrow>
          (case result_structured result of
             Some s \<Rightarrow> from_legacy os tool args s
           | None \<Rightarrow> if result_error result then None else from_legacy os tool args JNull))"

definition outcome_mismatch :: "string \<Rightarrow> string \<Rightarrow> tool_result" where
  "outcome_mismatch tool error =
     \<lparr>result_texts = [''internal action outcome mismatch for '' @ tool @ '': '' @ error],
      result_structured =
        Some (JObj [(''code'', JStr ''action_outcome_mismatch''), (''detail'', JStr error), (''tool'', JStr tool)]),
      result_error = True\<rparr>"

text \<open>What \<open>invoke_authorized\<close> makes of the result of an action: its record, the public names, the
  published result. A result that replaces the tool's has no record.\<close>

definition names_collide :: "string \<Rightarrow> tool_result \<Rightarrow> bool" where
  "names_collide p result =
     (case result_structured result of None \<Rightarrow> False | Some s \<Rightarrow> snd (restore_value p s))"

definition restored_action ::
    "string \<Rightarrow> tool_result \<times> execution_record option \<Rightarrow> tool_result \<times> execution_record option" where
  "restored_action p ra =
     (case ra of (result, action) \<Rightarrow>
        (restore_public_runtime_result p result, if names_collide p result then None else action))"

definition finish_action ::
    "target_os \<Rightarrow> string \<Rightarrow> string \<Rightarrow> json \<Rightarrow> tool_result \<Rightarrow> execution_record option
       \<Rightarrow> tool_result \<times> execution_record option" where
  "finish_action os p tool args result action =
     (case restored_action p (result, record_of_result os tool args result action) of
        (result', action') \<Rightarrow>
          if \<not> result_error result' \<and> is_action_tool tool
          then (case publish_action_result action' result' of
                  Inl e \<Rightarrow> (outcome_mismatch tool e, None)
                | Inr published \<Rightarrow> (published, action'))
          else (result', action'))"

end
