(* ===== verification/ActionRecordProps.thy ===== *)
theory ActionRecordProps
  imports ActionRecord
begin

text \<open>
  What the truth layer promises: a published result says no more than its record proves, and
  nothing of the record but its public facts; a record read off a legacy payload claims success
  only for a readback, and its delivery only where the payload shows it.
\<close>

section \<open>Names\<close>

lemma set_ALL_TRANSPORTS: "set ALL_TRANSPORTS = UNIV"
proof -
  have "t \<in> set ALL_TRANSPORTS" for t by (cases t) (simp_all add: ALL_TRANSPORTS_def)
  then show ?thesis by blast
qed

lemma transport_names_distinct: "distinct (map transport_name ALL_TRANSPORTS)"
  by code_simp

lemma inj_transport_name: "inj transport_name"
  using transport_names_distinct unfolding distinct_map set_ALL_TRANSPORTS by simp

lemma inj_evidence_kind_name: "inj evidence_kind_name"
  by (rule injI, rename_tac x y, case_tac x; case_tac y) simp_all

lemma inj_public_effect_text: "inj public_effect_text"
  by (rule injI, rename_tac x y, case_tac x; case_tac y) simp_all

lemma inj_public_route_text: "inj public_route_text"
  by (rule injI, rename_tac x y, case_tac x; case_tac y) simp_all

lemma inj_delivery_mode_text: "inj delivery_mode_text"
  by (rule injI, rename_tac x y, case_tac x; case_tac y) simp_all

lemma inj_public_evidence_text: "inj public_evidence_text"
  by (rule injI, rename_tac x y, case_tac x; case_tac y) simp_all

lemma inj_escalation_target_text: "inj escalation_target_text"
  by (rule injI, rename_tac x y, case_tac x; case_tac y) simp_all

lemma inj_escalation_reason_text: "inj escalation_reason_text"
  by (rule injI, rename_tac x y, case_tac x; case_tac y) simp_all

lemma inj_public_effect_of: "inj public_effect_of"
  by (rule injI, rename_tac x y, case_tac x; case_tac y) simp_all

lemma inj_public_route_of: "inj public_route_of"
  by (rule injI, rename_tac x y, case_tac x; case_tac y) simp_all

lemma inj_public_mode_of: "inj public_mode_of"
  by (rule injI, rename_tac x y, case_tac x; case_tac y) simp_all

lemmas text_eq = inj_eq [OF inj_public_effect_text] inj_eq [OF inj_public_route_text]
  inj_eq [OF inj_delivery_mode_text] inj_eq [OF inj_public_evidence_text]
  inj_eq [OF inj_escalation_target_text] inj_eq [OF inj_escalation_reason_text]
  inj_eq [OF inj_public_effect_of] inj_eq [OF inj_public_route_of] inj_eq [OF inj_public_mode_of]


section \<open>The text of a result\<close>

lemma map_of_opt_field:
  "map_of (opt_field k f x) k' = (if k' = k then map_option f x else None)"
  by (simp add: opt_field_def split: option.splits)

lemma result_fields:
  "json_get (action_result_json a) ''delivery'' = map_option delivery_json (res_delivery a)"
  "json_get (action_result_json a) ''evidence'' = map_option evidence_json (res_evidence a)"
  "json_get (action_result_json a) ''escalation'' = map_option escalation_json (res_escalation a)"
  "json_get (action_result_json a) ''effect'' = Some (JStr (public_effect_text (res_effect a)))"
  "json_get (action_result_json a) ''route'' = Some (JStr (public_route_text (res_route a)))"
  by (simp_all add: action_result_json_def map_of_opt_field map_add_def split: option.splits)

lemma inj_delivery_json: "inj delivery_json"
  by (rule injI) (auto simp: delivery_json_def opt_field_def text_eq split: option.splits)

lemma inj_escalation_json: "inj escalation_json"
  by (rule injI) (auto simp: escalation_json_def text_eq)

lemma inj_evidence_json: "inj evidence_json"
proof (rule injI)
  fix es fs assume "evidence_json es = evidence_json fs"
  moreover have "inj (\<lambda>e. JObj [(''kind'', JStr (public_evidence_text e))])"
    by (rule injI) (simp add: text_eq)
  ultimately show "es = fs" by (simp add: evidence_json_def inj_map_eq_map)
qed

lemma map_option_inj: "inj f \<Longrightarrow> map_option f x = map_option f y \<longleftrightarrow> x = y"
  by (metis injD option.inj_map)

text \<open>The text of an action result loses nothing: two results with the same JSON are the same.\<close>

theorem action_result_text_is_lossless:
  "action_result_json a = action_result_json b \<longleftrightarrow> a = b"
proof
  assume "action_result_json a = action_result_json b"
  then have "json_get (action_result_json a) k = json_get (action_result_json b) k" for k by simp
  from this [of "''delivery''"] this [of "''evidence''"] this [of "''escalation''"]
    this [of "''effect''"] this [of "''route''"]
  show "a = b"
    unfolding result_fields map_option_inj [OF inj_delivery_json] map_option_inj [OF inj_evidence_json]
      map_option_inj [OF inj_escalation_json]
    by (simp add: text_eq)
qed simp


section \<open>What a result reveals\<close>

definition publishable :: "execution_record \<Rightarrow> public_evidence list" where
  "publishable r =
     map public_kind_of (List.map_filter (\<lambda>e. projected_kind_of (ev_kind e)) (ar_evidence r))"

lemma public_items:
  "map (\<lambda>e. public_kind_of (ep_kind e)) (List.map_filter project_evidence_item es)
     = map public_kind_of (List.map_filter (\<lambda>e. projected_kind_of (ev_kind e)) es)"
proof (induction es)
  case (Cons e es)
  then show ?case
    by (cases "projected_kind_of (ev_kind e)") (simp_all add: map_filter_simps(1) project_evidence_item_def)
qed (simp add: map_filter_simps)

lemma projected_evidence_kinds:
  "map_option (map (\<lambda>e. public_kind_of (ep_kind e))) (projected_evidence (ar_evidence r))
     = (if publishable r = [] then None else Some (publishable r))"
proof -
  note items = public_items [of "ar_evidence r", folded publishable_def]
  from items have "List.map_filter project_evidence_item (ar_evidence r) = [] \<longleftrightarrow> publishable r = []"
    by (metis map_is_Nil_conv)
  with items show ?thesis by (simp add: projected_evidence_def Let_def)
qed

lemma projected_evidence_None: "projected_evidence (ar_evidence r) = None \<longleftrightarrow> publishable r = []"
  using projected_evidence_kinds [of r] by (metis map_option_is_None option.distinct(1))

lemma public_result_eq:
  "public_result r = map_sum id (\<lambda>_.
     \<lparr>res_effect = public_effect_of (ar_effect r), res_route = public_route_of (route (ar_transport r)),
      res_delivery = map_option (\<lambda>d. \<lparr>pd_mode = public_mode_of d, pd_delivered_count = ar_delivered_count r\<rparr>)
                       (ar_actual r),
      res_evidence = (if publishable r = [] then None else Some (publishable r)),
      res_escalation = map_option (public_escalation_of (ar_effect r)) (ar_escalation r)\<rparr>) (validate_record r)"
proof (cases "validate_record r")
  case (Inr u)
  then show ?thesis
    using projected_evidence_kinds [of r]
    by (simp add: public_result_def stable_projection_def option.map_comp o_def)
qed (simp add: public_result_def stable_projection_def)


lemma result_of_record:
  assumes "public_result r = Inr a"
  shows "validate_record r = Inr ()"
    "res_effect a = public_effect_of (ar_effect r)"
    "res_route a = public_route_of (route (ar_transport r))"
    "res_delivery a = map_option (\<lambda>d. \<lparr>pd_mode = public_mode_of d, pd_delivered_count = ar_delivered_count r\<rparr>)
                        (ar_actual r)"
    "res_evidence a = (if publishable r = [] then None else Some (publishable r))"
    "res_escalation a = map_option (public_escalation_of (ar_effect r)) (ar_escalation r)"
  using assms by (cases "validate_record r"; simp add: public_result_eq; fastforce)+

lemma validate_ok:
  "validate_record r = Inr u \<longleftrightarrow>
     (ar_effect r = Confirmed \<longrightarrow> publishable r \<noteq> [])
     \<and> (ar_effect r = Partial \<longrightarrow> ar_actual r \<noteq> None \<and> ar_delivered_count r \<noteq> None)
     \<and> (ar_effect r = RefusedEffect \<longrightarrow> ar_actual r = None \<and> ar_evidence r = [])"
  by (auto simp: validate_record_def projected_evidence_None)

lemma publishable_subset: "x \<in> set (publishable r) \<Longrightarrow>
    \<exists>e k. e \<in> set (ar_evidence r) \<and> projected_kind_of (ev_kind e) = Some k \<and> public_kind_of k = x"
  by (force simp: publishable_def map_filter_def)

lemma public_effect_simps [simp]:
  "public_effect_of e = PubConfirmed \<longleftrightarrow> e = Confirmed"
  "public_effect_of e = PubPartial \<longleftrightarrow> e = Partial"
  "public_effect_of e = PubRefused \<longleftrightarrow> e = RefusedEffect"
  by (cases e; simp)+

lemma valid_record_valid_result:
  assumes "public_result r = Inr a"
  shows "validate_invariants a = Inr ()"
  using assms by (cases "validate_record r")
    (auto simp: public_result_eq validate_ok validate_invariants_def publishable_def)

text \<open>What two records have to share to be published alike: the effect, the route, the delivery and
  its count, the publishable evidence, and the advice.\<close>

definition same_public_facts :: "execution_record \<Rightarrow> execution_record \<Rightarrow> bool" where
  "same_public_facts r r' =
     (ar_effect r = ar_effect r' \<and> route (ar_transport r) = route (ar_transport r')
      \<and> ar_actual r = ar_actual r' \<and> (ar_actual r \<noteq> None \<longrightarrow> ar_delivered_count r = ar_delivered_count r')
      \<and> publishable r = publishable r'
      \<and> map_option (public_escalation_of (ar_effect r)) (ar_escalation r)
        = map_option (public_escalation_of (ar_effect r)) (ar_escalation r'))"

text \<open>A published result reveals exactly the public facts. Two valid records are published alike if
  and only if they agree on the effect, the route, the delivery that happened and its count, the
  publishable evidence and the advice: the request, the transport, the attempts, the fallbacks, the
  details and the other evidence never show.\<close>

theorem result_reveals_public_facts_only:
  assumes "public_result r = Inr a" "public_result r' = Inr a'"
  shows "a = a' \<longleftrightarrow> same_public_facts r r'"
proof -
  have "map_option public_mode_of x = map_option public_mode_of y \<longleftrightarrow> x = y" for x y
    by (rule map_option_inj [OF inj_public_mode_of])
  then have delivery: "map_option (\<lambda>d. \<lparr>pd_mode = public_mode_of d, pd_delivered_count = n\<rparr>) x
      = map_option (\<lambda>d. \<lparr>pd_mode = public_mode_of d, pd_delivered_count = m\<rparr>) y
      \<longleftrightarrow> x = y \<and> (x \<noteq> None \<longrightarrow> n = m)" for n m x y
    by (cases x; cases y) (auto simp: text_eq)
  have evidence: "(if xs = [] then None else Some xs) = (if ys = [] then None else Some ys) \<longleftrightarrow> xs = ys"
    for xs ys :: "public_evidence list" by auto
  have "a = a' \<longleftrightarrow> res_effect a = res_effect a' \<and> res_route a = res_route a' \<and> res_delivery a = res_delivery a'
      \<and> res_evidence a = res_evidence a' \<and> res_escalation a = res_escalation a'"
    by (cases a; cases a') simp
  then show ?thesis
    unfolding result_of_record [OF assms(1)] result_of_record [OF assms(2)] delivery evidence text_eq
      same_public_facts_def by auto
qed


section \<open>What is published\<close>

text \<open>C17. A published action is backed by its record. When the result of an action tool leaves the
  dispatcher as a success, its structured content is the projection of a valid record, whatever the
  platform tool wrote there; it satisfies the contract of the public result; it says confirmed only
  if the record holds readback or window evidence, partial only with the count that was delivered,
  and refused only if nothing was delivered. The text of the tool is kept but for the private names.\<close>

theorem published_action_is_backed_by_its_record:
  assumes "finish_action os p tool args result action = (out, action')"
    and "is_action_tool tool" and "\<not> result_error out"
  shows "\<exists>r a. action' = Some r \<and> record_of_result os tool args result action = Some r
    \<and> public_result r = Inr a \<and> result_structured out = Some (action_result_json a)
    \<and> validate_invariants a = Inr ()
    \<and> result_texts out = map (strip_all p) (result_texts result)
    \<and> (res_effect a = PubConfirmed \<longrightarrow> (\<exists>e \<in> set (ar_evidence r). projected_kind_of (ev_kind e) \<noteq> None))
    \<and> (res_effect a = PubPartial \<longrightarrow> ar_actual r \<noteq> None \<and> ar_delivered_count r \<noteq> None)
    \<and> (res_effect a = PubRefused \<longrightarrow> ar_actual r = None \<and> ar_evidence r = [])"
proof -
  let ?r = "restore_public_runtime_result p result"
  have pub: "\<not> result_error ?r" "\<not> names_collide p result"
    "publish_action_result (record_of_result os tool args result action) ?r = Inr out"
    "action' = record_of_result os tool args result action"
    using assms by (auto simp: finish_action_def restored_action_def outcome_mismatch_def
      publish_action_result_def split: if_splits sum.splits prod.splits option.splits)
  then obtain r a where r: "record_of_result os tool args result action = Some r" "public_result r = Inr a"
    "out = ?r\<lparr>result_structured := Some (action_result_json a)\<rparr>"
    by (auto simp: publish_action_result_def split: option.splits sum.splits)
  from pub(2) have texts: "result_texts ?r = map (strip_all p) (result_texts result)"
    by (auto simp: names_collide_def restore_public_runtime_result_def Let_def split: option.splits)
  note v = result_of_record [OF r(2)]
  have "\<exists>e \<in> set (ar_evidence r). projected_kind_of (ev_kind e) \<noteq> None" if "publishable r \<noteq> []"
    using that publishable_subset [of "hd (publishable r)" r] by fastforce
  with v(1) have facts: "(res_effect a = PubConfirmed \<longrightarrow> (\<exists>e \<in> set (ar_evidence r). projected_kind_of (ev_kind e) \<noteq> None))
    \<and> (res_effect a = PubPartial \<longrightarrow> ar_actual r \<noteq> None \<and> ar_delivered_count r \<noteq> None)
    \<and> (res_effect a = PubRefused \<longrightarrow> ar_actual r = None \<and> ar_evidence r = [])"
    unfolding v(2) by (simp add: validate_ok)
  with r texts pub(4) valid_record_valid_result [OF r(2)] show ?thesis by auto
qed


section \<open>Legacy payloads\<close>

lemma legacy_record:
  assumes "from_legacy os tool args s = Some r"
  shows "is_action_tool tool" "validate_record r = Inr ()"
    "transport_from_legacy os tool args (legacy_path s) = Some (ar_transport r)"
    "ar_requested r = requested_delivery_of tool args"
    "ar_actual r = actual_delivery_from_legacy tool args s (legacy_path s) (ar_transport r) (legacy_effect s)"
    "ar_evidence r = legacy_evidence tool s (ar_transport r)"
    "ar_delivered_count r = legacy_count s"
    "ar_effect r = (if legacy_effect s = Confirmed \<and> publishable r = [] then Unverifiable else legacy_effect s)"
proof -
  from assms obtain t where t: "is_action_tool tool" "transport_from_legacy os tool args (legacy_path s) = Some t"
    by (auto simp: from_legacy_def split: if_splits option.splits)
  note r = assms [unfolded from_legacy_def, simplified t, simplified, unfolded Let_def]
  have facts: "validate_record r = Inr () \<and> ar_transport r = t \<and> ar_requested r = requested_delivery_of tool args
      \<and> ar_actual r = actual_delivery_from_legacy tool args s (legacy_path s) t (legacy_effect s)
      \<and> ar_evidence r = legacy_evidence tool s t \<and> ar_delivered_count r = legacy_count s
      \<and> ar_effect r = (if legacy_effect s = Confirmed \<and> projected_evidence (ar_evidence r) = None
           then Unverifiable else legacy_effect s)"
    using r by (auto simp: new_record_def split: if_splits sum.splits)
  with t show "is_action_tool tool" "validate_record r = Inr ()"
    "transport_from_legacy os tool args (legacy_path s) = Some (ar_transport r)"
    "ar_requested r = requested_delivery_of tool args"
    "ar_actual r = actual_delivery_from_legacy tool args s (legacy_path s) (ar_transport r) (legacy_effect s)"
    "ar_evidence r = legacy_evidence tool s (ar_transport r)"
    "ar_delivered_count r = legacy_count s"
    "ar_effect r = (if legacy_effect s = Confirmed \<and> publishable r = [] then Unverifiable else legacy_effect s)"
    by (simp_all add: projected_evidence_None)
qed


lemma legacy_publishable:
  assumes "ar_evidence r = legacy_evidence tool s t"
  shows "publishable r = (if legacy_has_publishable_readback tool s then [PubValueReadback] else [])"
  using assms by (simp add: publishable_def legacy_evidence_def map_filter_simps)

lemma legacy_effect_simps [simp]:
  "legacy_effect s = Confirmed \<longleftrightarrow> get_str s ''status'' \<noteq> Some ''refused'' \<and> get_str s ''effect'' = Some ''confirmed''"
  "legacy_effect s = RefusedEffect \<longleftrightarrow>
     (if get_str s ''status'' = Some ''refused'' then \<not> delivered_prefix s else get_str s ''effect'' = Some ''refused'')"
  by (simp_all add: legacy_effect_def effect_named_def)

lemma readback_confirmed: "legacy_has_publishable_readback tool s \<Longrightarrow> get_str s ''effect'' = Some ''confirmed''"
  by (simp add: legacy_has_publishable_readback_def)

text \<open>The payload itself says that the action was delivered in the foreground, or in the background.\<close>

definition shows_foreground :: "json \<Rightarrow> bool" where
  "shows_foreground s =
     (get_str s ''delivery_mode'' = Some ''foreground''
      \<or> (\<exists>path. legacy_path s = Some path \<and> delivery_of_path (Some path) = ActualForeground))"

definition shows_background :: "json \<Rightarrow> bool" where
  "shows_background s =
     (get_str s ''delivery_mode'' = Some ''background''
      \<or> (\<exists>path. legacy_path s = Some path \<and> delivery_of_path (Some path) = ActualBackground))"

lemma mode_shown:
  assumes "structured_delivery_mode args s = Some d"
  shows "d = ActualForeground \<and> (get_str s ''delivery_mode'' = Some ''foreground''
           \<or> json_get s ''delivery_mode'' = None \<and> wants_foreground args)
       \<or> d = ActualBackground \<and> get_str s ''delivery_mode'' = Some ''background''"
proof (cases "json_get s ''delivery_mode''")
  case None
  then have "structured_delivery_mode args s = (if wants_foreground args then Some ActualForeground else None)"
    by (simp add: structured_delivery_mode_def wants_foreground_def get_str_def)
  with assms None show ?thesis by (simp split: if_splits)
next
  case (Some v)
  then have "structured_delivery_mode args s =
      (if get_str s ''delivery_mode'' = Some ''foreground'' then Some ActualForeground
       else if get_str s ''delivery_mode'' = Some ''background'' then Some ActualBackground else None)"
    by (simp add: structured_delivery_mode_def get_str_def)
  with assms show ?thesis
    by (cases "get_str s ''delivery_mode'' = Some ''foreground''";
        cases "get_str s ''delivery_mode'' = Some ''background''") simp_all
qed

lemma delivery_of_path_None: "delivery_of_path None = ActualUnknown"
  by (simp add: delivery_of_path_def)

lemma delivery_shown:
  assumes "actual_delivery_from_legacy tool args s (legacy_path s) t e = Some d"
  shows "d = ActualBackground \<Longrightarrow> tool \<in> set BROWSER_INPUT \<or> shows_background s"
    and "d = ActualForeground \<Longrightarrow> shows_foreground s \<or> json_get s ''delivery_mode'' = None \<and> wants_foreground args"
proof -
  from assms consider "tool \<in> set BROWSER_INPUT" "d = ActualBackground" | "d = ActualNotApplicable"
    | "structured_delivery_mode args s = Some d" | "delivery_of_path (legacy_path s) = d"
    unfolding actual_delivery_from_legacy_def by (cases "structured_delivery_mode args s") (simp_all split: if_splits)
  then have "(d = ActualBackground \<longrightarrow> tool \<in> set BROWSER_INPUT \<or> shows_background s)
      \<and> (d = ActualForeground \<longrightarrow>
           shows_foreground s \<or> json_get s ''delivery_mode'' = None \<and> wants_foreground args)"
  proof cases
    case 3
    from mode_shown [OF this] show ?thesis by (auto simp: shows_background_def shows_foreground_def)
  next
    case 4
    then show ?thesis
      by (cases "legacy_path s") (simp_all add: shows_background_def shows_foreground_def delivery_of_path_None)
  qed simp_all
  then show "d = ActualBackground \<Longrightarrow> tool \<in> set BROWSER_INPUT \<or> shows_background s"
    "d = ActualForeground \<Longrightarrow> shows_foreground s \<or> json_get s ''delivery_mode'' = None \<and> wants_foreground args"
    by blast+
qed

text \<open>A legacy payload is not believed further than its readback. A record read off a legacy payload
  is valid; it is confirmed exactly when the call was not refused and the payload of a value tool, or
  of a click that declares an accessibility readback, was verified and says confirmed; it is refused
  exactly when the payload says so and no prefix of the input was delivered; it is partial only with
  the number that was delivered; it has no delivery exactly when it is refused; and it says that
  delivery stayed in the background only for browser input or when the payload itself shows it,
  never because the caller asked for it.\<close>

theorem legacy_record_never_overclaims:
  assumes "from_legacy os tool args s = Some r"
  shows "validate_record r = Inr ()
    \<and> (ar_effect r = Confirmed \<longleftrightarrow>
         get_str s ''status'' \<noteq> Some ''refused'' \<and> legacy_has_publishable_readback tool s)
    \<and> (ar_effect r = RefusedEffect \<longleftrightarrow>
         (if get_str s ''status'' = Some ''refused'' then \<not> delivered_prefix s
          else get_str s ''effect'' = Some ''refused''))
    \<and> (ar_effect r = Partial \<longrightarrow> (\<exists>n < 2 ^ 32. ar_delivered_count r = Some n))
    \<and> (ar_actual r = None \<longleftrightarrow> ar_effect r = RefusedEffect)
    \<and> (ar_actual r = Some ActualBackground \<longrightarrow> tool \<in> set BROWSER_INPUT \<or> shows_background s)"
proof -
  note l = legacy_record [OF assms]
  note p = legacy_publishable [OF l(6)]
  have confirmed: "ar_effect r = Confirmed \<longleftrightarrow>
      get_str s ''status'' \<noteq> Some ''refused'' \<and> legacy_has_publishable_readback tool s"
    using l(8) p readback_confirmed [of tool s] by auto
  have refused: "ar_effect r = RefusedEffect \<longleftrightarrow>
      (if get_str s ''status'' = Some ''refused'' then \<not> delivered_prefix s
       else get_str s ''effect'' = Some ''refused'')"
    using l(8) by (auto split: if_splits)
  have partial: "\<exists>n < 2 ^ 32. ar_delivered_count r = Some n" if "ar_effect r = Partial"
    using that l(2,7) by (auto simp: validate_ok legacy_count_def split: if_splits option.splits bind_splits)
  have none: "ar_actual r = None \<longleftrightarrow> ar_effect r = RefusedEffect"
    using l(5) refused by (auto simp: actual_delivery_from_legacy_def split: option.splits)
  have background: "tool \<in> set BROWSER_INPUT \<or> shows_background s" if "ar_actual r = Some ActualBackground"
    using delivery_shown(1) [OF l(5) [symmetric, unfolded that]] by simp
  from l(2) confirmed refused partial none background show ?thesis by blast
qed

text \<open>A success without a payload is published. When an action tool returns text only, a record is
  made for every action tool but \<open>set_window_frame\<close> and \<open>invoke_menu\<close> outside the desktop scope, on
  every system and whatever the arguments are.\<close>

theorem text_only_success_has_a_record:
  "from_legacy os tool args JNull \<noteq> None \<longleftrightarrow>
     is_action_tool tool \<and> (tool \<in> set [''set_window_frame'', ''invoke_menu''] \<longrightarrow> on_desktop args)"
proof -
  have path: "legacy_path JNull = None" "legacy_effect JNull = Unverifiable" "legacy_evidence tool JNull t = []" for t
    by (simp_all add: legacy_path_def legacy_effect_def effect_named_def get_str_def legacy_evidence_def
        legacy_has_publishable_readback_def get_bool_def)
  have "from_legacy os tool args JNull \<noteq> None \<longleftrightarrow> is_action_tool tool \<and> default_transport os tool args \<noteq> None"
    by (simp add: from_legacy_def path transport_from_legacy_def Let_def new_record_def validate_record_def
        split: option.splits)
  also have "\<dots> \<longleftrightarrow> is_action_tool tool \<and> (tool \<in> set [''set_window_frame'', ''invoke_menu''] \<longrightarrow> on_desktop args)"
    by (simp add: default_transport_def is_action_tool_def ACTION_RESULT_TOOLS_def) blast
  finally show ?thesis .
qed


section \<open>A foreground that did not happen\<close>

text \<open>What the macOS click reports when the caller asked for the foreground and the target could not be
  activated: the background path, so that the path reflects what ran.\<close>

definition clicked_without_activation :: json where
  "clicked_without_activation =
     JObj [(''effect'', JStr ''unverifiable''), (''path'', JStr ''cgevent''), (''verified'', JBool False)]"

text \<open>The record of such a click says foreground all the same, on the transport of the foreground.\<close>

theorem unactivated_click_counts_as_foreground:
  assumes "wants_foreground args" "\<not> on_desktop args"
  shows "\<exists>r. from_legacy Macos ''click'' args clicked_without_activation = Some r
    \<and> ar_actual r = Some ActualForeground \<and> ar_transport r = MacosCgEventHid
    \<and> \<not> shows_foreground clicked_without_activation \<and> shows_background clicked_without_activation"
proof -
  have path: "legacy_path clicked_without_activation = Some ''cgevent''"
    "delivery_of_path (Some ''cgevent'') = ActualBackground"
    by (simp_all add: legacy_path_def clicked_without_activation_def delivery_of_path_def ends_with_def suffix_def)
  have "legacy_effect clicked_without_activation = Unverifiable"
    "legacy_evidence ''click'' clicked_without_activation t = []" for t
    by (simp_all add: legacy_effect_def effect_named_def get_str_def legacy_evidence_def clicked_without_activation_def
        legacy_has_publishable_readback_def get_bool_def)
  with assms path show ?thesis
    by (simp add: from_legacy_def transport_from_legacy_def Let_def new_record_def validate_record_def
        actual_delivery_from_legacy_def structured_delivery_mode_def BROWSER_INPUT_def is_action_tool_def
        ACTION_RESULT_TOOLS_def wants_foreground_def get_str_def shows_foreground_def shows_background_def)
      (simp add: clicked_without_activation_def)
qed



section \<open>The properties at concrete calls\<close>

text \<open>A value that was typed and read back, and a plain success without a payload.\<close>

definition typed_and_read :: json where
  "typed_and_read =
     JObj [(''effect'', JStr ''confirmed''), (''path'', JStr ''ax''), (''verified'', JBool True)]"

definition typed_record :: execution_record where
  "typed_record =
     with_evidence \<lparr>ev_kind = AccessibilityReadback, ev_detail = ''confirmed''\<rparr>
       (with_actual_delivery ActualBackground (new_record Confirmed MacosAxValue RequestBackground))"

lemma typed_legacy: "from_legacy Macos ''type_text'' (JObj []) typed_and_read = Some typed_record"
  by (simp add: from_legacy_def typed_and_read_def typed_record_def is_action_tool_def ACTION_RESULT_TOOLS_def
      legacy_path_def transport_from_legacy_def semantic_transport_def VALUE_TOOLS_def by_os_def legacy_effect_def
      effect_named_def get_str_def get_bool_def new_record_def requested_delivery_of_def wants_foreground_def
      on_desktop_def BROWSER_INPUT_def actual_delivery_from_legacy_def structured_delivery_mode_def
      delivery_of_path_def ends_with_def suffix_def legacy_count_def legacy_evidence_def
      legacy_has_publishable_readback_def legacy_escalation_def pointer_str_def projected_evidence_def
      map_filter_simps project_evidence_item_def validate_record_def with_evidence_def with_actual_delivery_def Let_def)

theorem legacy_record_never_overclaims_witness:
  "get_str typed_and_read ''status'' \<noteq> Some ''refused'' \<and> legacy_has_publishable_readback ''type_text'' typed_and_read
     \<and> shows_background typed_and_read"
  using legacy_record_never_overclaims [OF typed_legacy]
  by (simp add: typed_record_def with_evidence_def with_actual_delivery_def new_record_def BROWSER_INPUT_def)

theorem result_reveals_public_facts_only_witness:
  "\<exists>a. public_result typed_record = Inr a
     \<and> public_result (with_detail ''secret'' (typed_record\<lparr>ar_transport := WindowsUiaValue\<rparr>)) = Inr a"
proof -
  have facts: "same_public_facts typed_record (with_detail ''secret'' (typed_record\<lparr>ar_transport := WindowsUiaValue\<rparr>))"
    by (simp add: same_public_facts_def typed_record_def with_detail_def with_evidence_def with_actual_delivery_def
        new_record_def publishable_def)
  have "validate_record typed_record = Inr ()"
    "validate_record (with_detail ''secret'' (typed_record\<lparr>ar_transport := WindowsUiaValue\<rparr>)) = Inr ()"
    using legacy_record(2) [OF typed_legacy] by (auto simp: validate_ok with_detail_def publishable_def)
  then obtain a a' where r: "public_result typed_record = Inr a"
    "public_result (with_detail ''secret'' (typed_record\<lparr>ar_transport := WindowsUiaValue\<rparr>)) = Inr a'"
    by (simp add: public_result_eq)
  from result_reveals_public_facts_only [OF r] facts have "a = a'" by simp
  with r show ?thesis by blast
qed

theorem published_action_is_backed_by_its_record_witness:
  "\<exists>a. result_structured (fst (finish_action Macos ''cua/'' ''type_text'' (JObj [])
       \<lparr>result_texts = [''typed''], result_structured = Some typed_and_read, result_error = False\<rparr> None))
     = Some (action_result_json a) \<and> validate_invariants a = Inr ()"
proof -
  let ?result = "\<lparr>result_texts = [''typed''], result_structured = Some typed_and_read, result_error = False\<rparr>"
  obtain out action where out: "finish_action Macos ''cua/'' ''type_text'' (JObj []) ?result None = (out, action)"
    by (rule prod.exhaust)
  have tool: "is_action_tool ''type_text''" by (simp add: is_action_tool_def ACTION_RESULT_TOOLS_def)
  from legacy_record(2) [OF typed_legacy] obtain a where a: "public_result typed_record = Inr a"
    by (simp add: public_result_eq)
  have "\<not> names_collide ''cua/'' ?result"
    by (simp add: names_collide_def typed_and_read_def)
  then have "\<not> result_error out"
    using out tool a valid_record_valid_result [OF a]
    by (auto simp: finish_action_def restored_action_def record_of_result_def typed_legacy publish_action_result_def
        names_collide_def restore_public_runtime_result_def Let_def)
  from published_action_is_backed_by_its_record [OF out tool this] out show ?thesis by auto
qed

end
