(* ===== verification/SemanticDom.thy ===== *)
theory SemanticDom
  imports BrowserStore Policy ToolArgs
begin

text \<open>
  The collecting half of \<open>cua-driver-core/src/browser/semantic.rs\<close>: the indices of the pierced DOM
  and of the layout snapshot, the visibility and the actions of a node, and their composition with
  Chrome's accessibility tree. Lengths are rationals instead of IEEE doubles. The text of a JSON
  value, the parsing of a float, the Unicode tables of a word split and the iteration order of a hash
  set are parameters.
\<close>

section \<open>Rectangles\<close>

record layout_rect =
  lr_x :: rat
  lr_y :: rat
  lr_width :: rat
  lr_height :: rat

definition number_at :: "json list \<Rightarrow> nat \<Rightarrow> rat option" where
  "number_at vs i =
     (if i < length vs then (case as_f64 (vs ! i) of Some (Fin r) \<Rightarrow> Some r | _ \<Rightarrow> None) else None)"

definition rect_from_value :: "json \<Rightarrow> layout_rect option" where
  "rect_from_value v =
     (case as_array v of
        None \<Rightarrow> None
      | Some vs \<Rightarrow>
          (case (number_at vs 0, number_at vs 1, number_at vs 2, number_at vs 3) of
             (Some x, Some y, Some w, Some h) \<Rightarrow> Some \<lparr>lr_x = x, lr_y = y, lr_width = w, lr_height = h\<rparr>
           | _ \<Rightarrow> None))"

definition has_area :: "layout_rect \<Rightarrow> bool" where
  "has_area r = (0 < lr_width r \<and> 0 < lr_height r)"

definition intersects :: "layout_rect \<Rightarrow> layout_rect \<Rightarrow> bool" where
  "intersects a b =
     (lr_x a < lr_x b + lr_width b \<and> lr_x b < lr_x a + lr_width a
      \<and> lr_y a < lr_y b + lr_height b \<and> lr_y b < lr_y a + lr_height a)"

definition expanded :: "rat \<Rightarrow> layout_rect \<Rightarrow> layout_rect" where
  "expanded margin r =
     \<lparr>lr_x = lr_x r - margin, lr_y = lr_y r - margin,
      lr_width = lr_width r + margin * 2, lr_height = lr_height r + margin * 2\<rparr>"

definition covers :: "layout_rect \<Rightarrow> layout_rect \<Rightarrow> bool" where
  "covers a b =
     (lr_x a \<le> lr_x b \<and> lr_y a \<le> lr_y b
      \<and> lr_x b + lr_width b \<le> lr_x a + lr_width a \<and> lr_y b + lr_height b \<le> lr_y a + lr_height a)"


section \<open>What the model does not compute\<close>

record page_text =
  pt_json :: "json \<Rightarrow> string"
  pt_parse_f64 :: "string \<Rightarrow> f64 option"
  pt_terms :: "string \<Rightarrow> string list"
  pt_hash_order :: "nat set \<Rightarrow> nat list"


section \<open>The DOM index\<close>

record dom_meta =
  dm_tag :: string
  dm_attrs :: "(string, string) kv"
  dm_order :: nat
  dm_css_hidden :: bool
  dm_parent :: "int option"
  dm_frame_id :: "string option"

record dom_index =
  di_nodes :: "(int, dom_meta) kv"
  di_css_hidden_count :: nat

definition attr :: "string \<Rightarrow> dom_meta \<Rightarrow> string option" where
  "attr k m = kv_get (dm_attrs m) k"

fun attribute_pairs :: "json list \<Rightarrow> (string \<times> string) list" where
  "attribute_pairs (k # v # rest) =
     (case (as_str k, as_str v) of
        (Some k', Some v') \<Rightarrow> (to_ascii_lowercase k', v') # attribute_pairs rest
      | _ \<Rightarrow> attribute_pairs rest)"
| "attribute_pairs _ = []"

definition attributes :: "json \<Rightarrow> (string, string) kv" where
  "attributes node =
     (case Option.bind (json_get node ''attributes'') as_array of
        None \<Rightarrow> []
      | Some vs \<Rightarrow> fold (\<lambda>(k, v). kv_put k v) (attribute_pairs vs) [])"

definition statically_hidden :: "(string, string) kv \<Rightarrow> bool" where
  "statically_hidden attrs =
     (kv_has attrs ''hidden'' \<or> kv_get attrs ''aria-hidden'' = Some ''true''
      \<or> (let style = to_ascii_lowercase (case kv_get attrs ''style'' of None \<Rightarrow> [] | Some s \<Rightarrow> s)
         in list_ex (str_contains style)
              [''display:none'', ''display: none'', ''visibility:hidden'', ''visibility: hidden'',
               ''opacity:0'', ''opacity: 0'']))"

definition json_list :: "json \<Rightarrow> string \<Rightarrow> json list" where
  "json_list v k = (case Option.bind (json_get v k) as_array of None \<Rightarrow> [] | Some vs \<Rightarrow> vs)"

lemma size_json_get: "json_get v k = Some w \<Longrightarrow> size w < size v"
  by (cases v) (auto dest!: map_of_SomeD size_entry)

lemma size_json_list [termination_simp]: "c \<in> set (json_list v k) \<Longrightarrow> size c < size v"
proof -
  assume c: "c \<in> set (json_list v k)"
  show ?thesis
  proof (cases "json_get v k")
    case (Some w)
    with c obtain vs where w: "w = JArr vs" "c \<in> set vs"
      by (cases w) (auto simp: json_list_def)
    then have "size c < size w" by (induction vs arbitrary: w) auto
    with size_json_get [OF Some] show ?thesis by simp
  qed (use c in \<open>simp add: json_list_def\<close>)
qed

definition or_else :: "'a option \<Rightarrow> 'a option \<Rightarrow> 'a option" where
  "or_else x y = (case x of None \<Rightarrow> y | Some _ \<Rightarrow> x)"

text \<open>What a node inherits: whether an ancestor is hidden, its parent's id, its frame.\<close>

definition enter_node ::
    "json \<Rightarrow> bool \<Rightarrow> int option \<Rightarrow> string option \<Rightarrow> nat \<times> dom_index \<Rightarrow> nat \<times> dom_index" where
  "enter_node node inherited_hidden parent frame st =
     (case get_i64 node ''backendNodeId'' of
        None \<Rightarrow> st
      | Some backend \<Rightarrow>
          (let attrs = attributes node;
               hidden = (inherited_hidden \<or> statically_hidden attrs);
               counted = (get_i64 node ''nodeType'' = Some 1 \<and> hidden \<and> \<not> inherited_hidden);
               index = snd st
           in (Suc (fst st),
               \<lparr>di_nodes = kv_put backend
                  \<lparr>dm_tag = to_ascii_lowercase (case get_str node ''nodeName'' of None \<Rightarrow> [] | Some n \<Rightarrow> n),
                   dm_attrs = attrs, dm_order = fst st, dm_css_hidden = hidden, dm_parent = parent,
                   dm_frame_id = frame\<rparr> (di_nodes index),
                di_css_hidden_count = di_css_hidden_count index + (if counted then 1 else 0)\<rparr>)))"

function walk_dom ::
    "json \<Rightarrow> bool \<Rightarrow> int option \<Rightarrow> string option \<Rightarrow> nat \<times> dom_index \<Rightarrow> nat \<times> dom_index" where
  "walk_dom node inherited_hidden parent inherited_frame st =
     (let hidden = (inherited_hidden \<or> statically_hidden (attributes node));
          frame = (if get_i64 node ''nodeType'' = Some 9 then get_str node ''frameId'' else inherited_frame);
          parent' = or_else (get_i64 node ''backendNodeId'') parent;
          st1 = enter_node node inherited_hidden parent frame st;
          st2 = fold (\<lambda>c. walk_dom c hidden parent' frame) (json_list node ''children'') st1;
          st3 = fold (\<lambda>r s. if get_str r ''shadowRootType'' = Some ''user-agent'' then s
                             else walk_dom r hidden parent' frame s) (json_list node ''shadowRoots'') st2
      in case json_get node ''contentDocument'' of
           None \<Rightarrow> st3
         | Some d \<Rightarrow> walk_dom d hidden parent' (get_str d ''frameId'') st3)"
  by pat_completeness auto
termination
  by (relation "measure (size \<circ> fst)") (auto dest: size_json_list size_json_get)

declare walk_dom.simps [simp del]

definition build_dom_index :: "json \<Rightarrow> dom_index" where
  "build_dom_index doc =
     snd (walk_dom doc False None (get_str doc ''frameId'') (0, \<lparr>di_nodes = [], di_css_hidden_count = 0\<rparr>))"

function climbs_to :: "dom_index \<Rightarrow> int \<Rightarrow> int set \<Rightarrow> int \<Rightarrow> bool" where
  "climbs_to pg ancestor visited descendant =
     (if descendant \<in> visited then False
      else case Option.bind (kv_get (di_nodes pg) descendant) dm_parent of
        None \<Rightarrow> False
      | Some parent \<Rightarrow> parent = ancestor \<or> climbs_to pg ancestor (insert descendant visited) parent)"
  by pat_completeness auto
termination
proof (relation "measure (\<lambda>(pg, a, visited, d). card (set (kv_keys (di_nodes pg)) - visited))", goal_cases)
  case (2 pg a visited d p)
  then have "d \<in> set (kv_keys (di_nodes pg)) - visited"
    by (auto simp: bind_eq_Some_conv kv_keys_def dest: map_of_SomeD intro: rev_image_eqI)
  then have "set (kv_keys (di_nodes pg)) - insert d visited \<subset> set (kv_keys (di_nodes pg)) - visited" by blast
  then show ?case by (simp add: psubset_card_mono)
qed simp

declare climbs_to.simps [simp del]

definition is_ancestor_of :: "dom_index \<Rightarrow> int \<Rightarrow> int \<Rightarrow> bool" where
  "is_ancestor_of pg ancestor descendant = climbs_to pg ancestor {} descendant"

definition shares_dom_branch :: "dom_index \<Rightarrow> int \<Rightarrow> int \<Rightarrow> bool" where
  "shares_dom_branch pg l r = (is_ancestor_of pg l r \<or> is_ancestor_of pg r l)"


section \<open>The layout index\<close>

definition SEMANTIC_COMPUTED_STYLES :: "string list" where
  "SEMANTIC_COMPUTED_STYLES =
     [''display'', ''visibility'', ''opacity'', ''pointer-events'', ''cursor'', ''position'', ''z-index'',
      ''overflow-x'', ''overflow-y'']"

definition NEAR_VIEWPORT_MARGIN :: rat where "NEAR_VIEWPORT_MARGIN = 1000"
definition MAX_SEMANTIC_TEXT_CHARS :: nat where "MAX_SEMANTIC_TEXT_CHARS = 1000"

record layout_meta =
  lm_bounds :: "layout_rect option"
  lm_client_rect :: "layout_rect option"
  lm_scroll_rect :: "layout_rect option"
  lm_styles :: "(string, string) kv"
  lm_paint_order :: "int option"

type_synonym layout_index = "(int, layout_meta) kv"

definition style :: "string \<Rightarrow> layout_meta \<Rightarrow> string option" where
  "style k m = kv_get (lm_styles m) k"

definition nth_opt :: "'a list \<Rightarrow> nat \<Rightarrow> 'a option" where
  "nth_opt xs i = (if i < length xs then Some (xs ! i) else None)"

definition string_at :: "json list \<Rightarrow> int \<Rightarrow> string option" where
  "string_at strings i = (if i < 0 then None else Option.bind (nth_opt strings (nat i)) as_str)"

definition computed_styles :: "json list \<Rightarrow> json option \<Rightarrow> (string, string) kv" where
  "computed_styles strings styles =
     (case Option.bind styles as_array of
        None \<Rightarrow> []
      | Some vs \<Rightarrow>
          fold (\<lambda>(name, i) m. case string_at strings i of None \<Rightarrow> m | Some v \<Rightarrow> kv_put name v m)
            (zip SEMANTIC_COMPUTED_STYLES (List.map_filter as_i64 vs)) [])"

definition layout_entry :: "json list \<Rightarrow> json \<Rightarrow> nat \<Rightarrow> layout_meta" where
  "layout_entry strings layout i =
     \<lparr>lm_bounds = Option.bind (nth_opt (json_list layout ''bounds'') i) rect_from_value,
      lm_client_rect = Option.bind (nth_opt (json_list layout ''clientRects'') i) rect_from_value,
      lm_scroll_rect = Option.bind (nth_opt (json_list layout ''scrollRects'') i) rect_from_value,
      lm_styles = computed_styles strings (nth_opt (json_list layout ''styles'') i),
      lm_paint_order = Option.bind (nth_opt (json_list layout ''paintOrders'') i) as_i64\<rparr>"

definition index_document :: "json list \<Rightarrow> json \<Rightarrow> layout_index \<Rightarrow> layout_index" where
  "index_document strings doc out =
     (case Option.bind (json_pointer doc [''nodes'', ''backendNodeId'']) as_array of
        None \<Rightarrow> out
      | Some backend_ids \<Rightarrow>
          (let layout = json_index doc ''layout''
           in fold (\<lambda>(i, node_index) m.
                case Option.bind (Option.bind (as_u64 node_index) (nth_opt backend_ids)) as_i64 of
                  None \<Rightarrow> m
                | Some backend \<Rightarrow> kv_put backend (layout_entry strings layout i) m)
                (enumerate 0 (json_list layout ''nodeIndex'')) out))"

definition build_layout_index :: "json \<Rightarrow> layout_index" where
  "build_layout_index snapshot =
     (case (Option.bind (json_get snapshot ''strings'') as_array,
            Option.bind (json_get snapshot ''documents'') as_array) of
        (Some strings, Some documents) \<Rightarrow> fold (index_document strings) documents []
      | _ \<Rightarrow> [])"

definition number_of :: "json option \<Rightarrow> rat option" where
  "number_of v = (case Option.bind v as_f64 of Some (Fin r) \<Rightarrow> Some r | _ \<Rightarrow> None)"

definition or_zero :: "rat option \<Rightarrow> rat" where
  "or_zero x = (case x of None \<Rightarrow> 0 | Some r \<Rightarrow> r)"

text \<open>The viewport, if its width and height are known.\<close>

definition parse_viewport :: "json \<Rightarrow> layout_rect option" where
  "parse_viewport metrics =
     (case or_else (json_get metrics ''cssVisualViewport'') (json_get metrics ''visualViewport'') of
        None \<Rightarrow> None
      | Some v \<Rightarrow>
          (case (number_of (json_get v ''clientWidth''), number_of (json_get v ''clientHeight'')) of
             (Some w, Some h) \<Rightarrow>
               Some \<lparr>lr_x = or_zero (number_of (or_else (json_get v ''pageX'') (json_get v ''offsetX''))),
                     lr_y = or_zero (number_of (or_else (json_get v ''pageY'') (json_get v ''offsetY''))),
                     lr_width = w, lr_height = h\<rparr>
           | _ \<Rightarrow> None))"


section \<open>Visibility and actions\<close>

definition at_most_zero :: "f64 \<Rightarrow> bool" where
  "at_most_zero f = (f64_less f (Fin 0) \<or> f = Fin 0)"

definition eq_ignore_case :: "string \<Rightarrow> string \<Rightarrow> bool" where
  "eq_ignore_case a b = (to_ascii_lowercase a = to_ascii_lowercase b)"

definition is_style :: "string \<Rightarrow> string \<Rightarrow> layout_meta \<Rightarrow> bool" where
  "is_style k v m = (case style k m of None \<Rightarrow> False | Some s \<Rightarrow> eq_ignore_case s v)"

definition layout_hidden :: "page_text \<Rightarrow> layout_meta \<Rightarrow> bool" where
  "layout_hidden pt m =
     (is_style ''display'' ''none'' m \<or> is_style ''visibility'' ''hidden'' m
      \<or> (case Option.bind (style ''opacity'' m) (pt_parse_f64 pt) of
           None \<Rightarrow> False | Some opacity \<Rightarrow> at_most_zero opacity))"

definition classify_visibility ::
    "page_text \<Rightarrow> dom_meta option \<Rightarrow> layout_meta option \<Rightarrow> layout_rect option \<Rightarrow> browser_visibility" where
  "classify_visibility pt pg layout viewport =
     (if (case pg of None \<Rightarrow> False | Some m \<Rightarrow> dm_css_hidden m)
         \<or> (case layout of None \<Rightarrow> False | Some l \<Rightarrow> layout_hidden pt l)
      then CssHidden
      else case layout of
        None \<Rightarrow> UnknownVisibility
      | Some l \<Rightarrow>
          (case lm_bounds l of
             None \<Rightarrow> NoLayout
           | Some bounds \<Rightarrow>
               if \<not> has_area bounds then NoLayout
               else (case viewport of
                       None \<Rightarrow> UnknownVisibility
                     | Some v \<Rightarrow>
                         if intersects bounds v then InViewport
                         else if intersects bounds (expanded NEAR_VIEWPORT_MARGIN v) then NearViewport
                         else Offscreen)))"

definition CLICK_ROLES :: "string list" where
  "CLICK_ROLES =
     [''button'', ''link'', ''checkbox'', ''radio'', ''switch'', ''tab'', ''menuitem'', ''menuitemcheckbox'',
      ''menuitemradio'', ''option'', ''treeitem'', ''slider'', ''spinbutton'', ''combobox'', ''listbox'',
      ''summary'']"

definition scrollable_axis :: "string option \<Rightarrow> rat \<Rightarrow> rat \<Rightarrow> bool" where
  "scrollable_axis overflow scroll_extent client_extent =
     ((case overflow of
         None \<Rightarrow> False
       | Some v \<Rightarrow> to_ascii_lowercase v \<in> set [''auto'', ''scroll'', ''overlay''])
      \<and> client_extent + 1 / 2 < scroll_extent)"

definition layout_is_scrollable :: "layout_meta \<Rightarrow> bool" where
  "layout_is_scrollable m =
     (case (lm_client_rect m, lm_scroll_rect m) of
        (Some client, Some scroll) \<Rightarrow>
          scrollable_axis (style ''overflow-x'' m) (lr_width scroll) (lr_width client)
          \<or> scrollable_axis (style ''overflow-y'' m) (lr_height scroll) (lr_height client)
      | _ \<Rightarrow> False)"

definition laid_out :: "layout_meta \<Rightarrow> bool" where
  "laid_out m = (case lm_bounds m of None \<Rightarrow> False | Some b \<Rightarrow> has_area b)"

definition editable :: "dom_meta option \<Rightarrow> (string \<times> json) list \<Rightarrow> bool" where
  "editable pg states =
     ((case map_of states ''editable'' of
         None \<Rightarrow> False
       | Some v \<Rightarrow> as_bool v = Some True \<or> (case as_str v of None \<Rightarrow> False | Some s \<Rightarrow> s \<noteq> ''false''))
      \<or> (case Option.bind pg (attr ''contenteditable'') of
           None \<Rightarrow> False | Some v \<Rightarrow> v = [] \<or> eq_ignore_case v ''true''))"

definition tag_of :: "dom_meta option \<Rightarrow> string" where
  "tag_of pg = (case pg of None \<Rightarrow> [] | Some m \<Rightarrow> dm_tag m)"

definition file_input :: "dom_meta option \<Rightarrow> bool" where
  "file_input pg =
     (tag_of pg = ''input''
      \<and> (case Option.bind pg (attr ''type'') of None \<Rightarrow> False | Some v \<Rightarrow> eq_ignore_case v ''file''))"

text \<open>What makes a node without a semantic role clickable.\<close>

definition reacts_to_clicks :: "dom_meta \<Rightarrow> layout_meta option \<Rightarrow> bool" where
  "reacts_to_clicks m layout =
     (kv_has (dm_attrs m) ''onclick''
      \<or> (case attr ''tabindex'' m of None \<Rightarrow> False | Some v \<Rightarrow> v \<noteq> ''-1'')
      \<or> dm_tag m \<notin> set [''html'', ''body'']
         \<and> (case layout of
              None \<Rightarrow> False
            | Some l \<Rightarrow> is_style ''cursor'' ''pointer'' l \<and> \<not> is_style ''pointer-events'' ''none'' l))"

definition role_actions ::
    "string \<Rightarrow> dom_meta option \<Rightarrow> (string \<times> json) list \<Rightarrow> layout_meta option \<Rightarrow> browser_action_kind list" where
  "role_actions role pg states layout =
     (let clicks = (if role \<in> set CLICK_ROLES then [Click] else []);
          typed = (if file_input pg then clicks @ [Upload]
                   else if role \<in> set [''textbox'', ''searchbox''] \<or> tag_of pg \<in> set [''input'', ''textarea'']
                        \<or> editable pg states
                   then clicks @ [Type] else clicks)
      in if typed = [] \<and> (case pg of None \<Rightarrow> False | Some m \<Rightarrow> reacts_to_clicks m layout)
            \<and> (case layout of None \<Rightarrow> False | Some l \<Rightarrow> laid_out l)
         then [Click] else typed)"

definition action_kinds ::
    "string \<Rightarrow> dom_meta option \<Rightarrow> (string \<times> json) list \<Rightarrow> layout_meta option \<Rightarrow> browser_action_kind list" where
  "action_kinds role pg states layout =
     (if Option.bind (map_of states ''disabled'') as_bool = Some True then []
      else (let actions = role_actions role pg states layout
            in case layout of
                 None \<Rightarrow> actions
               | Some l \<Rightarrow>
                   if laid_out l \<and> \<not> is_style ''pointer-events'' ''none'' l
                   then actions @ (if actions \<noteq> [] then [Pointer] else [])
                          @ (if layout_is_scrollable l then [Scroll] else [])
                   else actions))"



section \<open>Semantic nodes\<close>

record semantic_node =
  sn_ax_id :: string
  sn_parent_ax_id :: "string option"
  sn_child_ax_ids :: "string list"
  sn_backend :: "int option"
  sn_role :: string
  sn_name :: "string option"
  sn_value :: "string option"
  sn_states :: "(string \<times> json) list"
  sn_frame :: frame_ref
  sn_visibility :: browser_visibility
  sn_actions :: "browser_action_kind list"
  sn_order :: nat

definition to_ref_entry :: "semantic_node \<Rightarrow> ref_entry option" where
  "to_ref_entry n =
     map_option (\<lambda>backend.
       \<lparr>backend_node_id = backend, node_name = sn_role n, ref_label = sn_name n, ref_actions = sn_actions n,
        ref_visibility = Some (sn_visibility n), ref_semantic = True, ref_frame = sn_frame n\<rparr>)
       (sn_backend n)"

text \<open>The characters that a text loses to single blanks: zero-width and no-break spaces, the private use
  area, and white space.\<close>

definition BLANKED :: "string list" where
  "BLANKED =
     [bytes [239, 187, 191], bytes [226, 128, 139], bytes [226, 128, 140], bytes [226, 128, 141],
      bytes [226, 129, 160], bytes [194, 160], bytes [226, 128, 135], bytes [226, 128, 175]]"

definition private_use :: "string \<Rightarrow> bool" where
  "private_use s =
     (3 \<le> length s \<and> (let a = byte_of (s ! 0); b = byte_of (s ! 1)
                        in a = 238 \<and> 128 \<le> b \<or> a = 239 \<and> b < 164))"

definition blank_length :: "string \<Rightarrow> nat" where
  "blank_length s =
     (case find (\<lambda>w. w \<noteq> [] \<and> prefix w s) (white_space @ BLANKED) of
        Some w \<Rightarrow> length w
      | None \<Rightarrow> if private_use s then 3 else 0)"

text \<open>The words of a text, the first one begun.\<close>

function split_words :: "string \<Rightarrow> string \<Rightarrow> string list" where
  "split_words cur [] = (if cur = [] then [] else [cur])"
| "split_words cur (c # s) =
     (if blank_length (c # s) = 0 then split_words (cur @ [c]) s
      else (if cur = [] then [] else [cur]) @ split_words [] (drop (blank_length (c # s)) (c # s)))"
  by pat_completeness auto
termination
  by (relation "measure (length \<circ> snd)") auto

fun join_with :: "string \<Rightarrow> string list \<Rightarrow> string" where
  "join_with sep [] = []"
| "join_with sep [w] = w"
| "join_with sep (w # ws) = w @ sep @ join_with sep ws"

definition clean_semantic_text :: "string \<Rightarrow> string option" where
  "clean_semantic_text v =
     (let normalized = join_with '' '' (split_words [] v)
      in if normalized = [] then None else Some (chars_take MAX_SEMANTIC_TEXT_CHARS normalized))"

definition ax_value_string :: "page_text \<Rightarrow> json option \<Rightarrow> string option" where
  "ax_value_string pt v =
     (case Option.bind v (\<lambda>w. json_get w ''value'') of
        Some (JStr s) \<Rightarrow> Some s
      | Some (JBool b) \<Rightarrow> Some (if b then ''true'' else ''false'')
      | Some (JNum n) \<Rightarrow> Some (pt_json pt (JNum n))
      | _ \<Rightarrow> None)"

definition KEPT :: "string list" where
  "KEPT = [''checked'', ''disabled'', ''editable'', ''expanded'', ''focused'', ''focusable'', ''pressed'',
     ''required'', ''selected'']"

definition ax_states :: "json \<Rightarrow> (string \<times> json) list" where
  "ax_states node =
     fold (\<lambda>p m. case get_str p ''name'' of
                   None \<Rightarrow> m
                 | Some name \<Rightarrow>
                     if name \<in> set KEPT
                     then obj_put name (case json_pointer p [''value'', ''value''] of None \<Rightarrow> JNull | Some v \<Rightarrow> v) m
                     else m)
       (json_list node ''properties'') []"

text \<open>A node of the accessibility tree, unless it is ignored, nameless to the protocol, or the text box
  of a line.\<close>

definition compose_node ::
    "page_text \<Rightarrow> dom_index \<Rightarrow> layout_index \<Rightarrow> layout_rect option \<Rightarrow> frame_ref \<Rightarrow> nat \<times> json \<Rightarrow> semantic_node option" where
  "compose_node pt pg layout viewport frame e =
     (case e of (fallback, ax) \<Rightarrow>
        (let ax_id = (case get_str ax ''nodeId'' of None \<Rightarrow> [] | Some i \<Rightarrow> i);
             role = to_ascii_lowercase (case ax_value_string pt (json_get ax ''role'') of
                                          None \<Rightarrow> ''unknown'' | Some r \<Rightarrow> r);
             backend = get_i64 ax ''backendDOMNodeId'';
             dom_meta = Option.bind backend (kv_get (di_nodes pg));
             layout_meta = Option.bind backend (kv_get layout);
             states = ax_states ax
         in if get_bool ax ''ignored'' = Some True \<or> ax_id = [] \<or> role = ''inlinetextbox'' then None
            else Some
              \<lparr>sn_ax_id = ax_id, sn_parent_ax_id = get_str ax ''parentId'',
               sn_child_ax_ids = List.map_filter as_str (json_list ax ''childIds''), sn_backend = backend,
               sn_role = role,
               sn_name = Option.bind (ax_value_string pt (json_get ax ''name'')) clean_semantic_text,
               sn_value = Option.bind (ax_value_string pt (json_get ax ''value'')) clean_semantic_text,
               sn_states = states, sn_frame = frame,
               sn_visibility = classify_visibility pt dom_meta layout_meta viewport,
               sn_actions = action_kinds role dom_meta states layout_meta,
               sn_order = (case dom_meta of None \<Rightarrow> fallback | Some m \<Rightarrow> dm_order m)\<rparr>))"

text \<open>Actionable DOM nodes the accessibility tree leaves out.\<close>

definition role_of_dom :: "dom_meta \<Rightarrow> string" where
  "role_of_dom m =
     (case attr ''role'' m of
        Some r \<Rightarrow> to_ascii_lowercase r
      | None \<Rightarrow>
          if dm_tag m = ''a'' then ''link''
          else if dm_tag m = ''button'' then ''button''
          else if dm_tag m = ''input'' then
            (if attr ''type'' m = Some ''checkbox'' then ''checkbox''
             else if attr ''type'' m = Some ''radio'' then ''radio''
             else if attr ''type'' m \<in> Some ` set [''button'', ''submit'', ''reset'', ''image''] then ''button''
             else if attr ''type'' m = Some ''range'' then ''slider''
             else ''textbox'')
          else if dm_tag m = ''textarea'' then ''textbox''
          else if dm_tag m = ''select'' then ''combobox''
          else if dm_tag m = ''option'' then ''option''
          else if dm_tag m = ''summary'' then ''summary''
          else ''generic'')"

definition first_attr :: "string list \<Rightarrow> dom_meta \<Rightarrow> string option" where
  "first_attr ks m = (case List.map_filter (\<lambda>k. attr k m) ks of [] \<Rightarrow> None | v # _ \<Rightarrow> Some v)"

definition dom_node ::
    "page_text \<Rightarrow> layout_index \<Rightarrow> layout_rect option \<Rightarrow> frame_ref \<Rightarrow> (int, string) kv \<Rightarrow> int \<times> dom_meta
       \<Rightarrow> semantic_node option" where
  "dom_node pt layout viewport frame by_backend e =
     (case e of (backend, m) \<Rightarrow>
        (let layout_meta = kv_get layout backend;
             visibility = classify_visibility pt (Some m) layout_meta viewport;
             role = role_of_dom m;
             states = (if kv_has (dm_attrs m) ''disabled'' then [(''disabled'', JBool True)] else []);
             actions = action_kinds role (Some m) states layout_meta
         in if visibility \<in> set [CssHidden, PageOccluded] \<or> actions = [] then None
            else Some
              \<lparr>sn_ax_id = ''dom-'' @ (if backend < 0 then CHR ''-'' # show_dec (nat (- backend)) else show_dec (nat backend)),
               sn_parent_ax_id = Option.bind (dm_parent m) (kv_get by_backend), sn_child_ax_ids = [],
               sn_backend = Some backend, sn_role = role,
               sn_name = Option.bind (first_attr [''aria-label'', ''placeholder'', ''title'', ''name'', ''id''] m)
                           clean_semantic_text,
               sn_value = Option.bind (attr ''value'' m) clean_semantic_text,
               sn_states = states, sn_frame = frame, sn_visibility = visibility, sn_actions = actions,
               sn_order = dm_order m\<rparr>))"

definition supplement_dom_actions ::
    "page_text \<Rightarrow> dom_index \<Rightarrow> layout_index \<Rightarrow> layout_rect option \<Rightarrow> frame_ref \<Rightarrow> semantic_node list \<Rightarrow> semantic_node list" where
  "supplement_dom_actions pt pg layout viewport frame nodes =
     (let by_backend = fold (\<lambda>n m. case sn_backend n of None \<Rightarrow> m | Some b \<Rightarrow> kv_put b (sn_ax_id n) m) nodes [];
          expected = map_option frame_id (fr_identity frame);
          candidates = filter (\<lambda>(b, m). \<not> kv_has by_backend b \<and> (expected = None \<or> dm_frame_id m = expected))
            (sort_key (\<lambda>(b, m). dm_order m) (di_nodes pg))
      in nodes @ List.map_filter (dom_node pt layout viewport frame by_backend) candidates)"

text \<open>A node is occluded if another branch of the page paints a positioned, interactive, visible box over
  all of it.\<close>

definition occludes :: "page_text \<Rightarrow> dom_index \<Rightarrow> int \<Rightarrow> layout_rect \<Rightarrow> int \<Rightarrow> int \<times> layout_meta \<Rightarrow> bool" where
  "occludes pt pg target bounds paint e =
     (case e of (backend, overlay) \<Rightarrow>
        backend \<noteq> target \<and> \<not> shares_dom_branch pg backend target
        \<and> (case lm_paint_order overlay of None \<Rightarrow> False | Some p \<Rightarrow> paint < p)
        \<and> (case style ''position'' overlay of None \<Rightarrow> False | Some v \<Rightarrow> v \<in> set [''fixed'', ''absolute''])
        \<and> style ''pointer-events'' overlay \<noteq> Some ''none''
        \<and> \<not> layout_hidden pt overlay
        \<and> (case lm_bounds overlay of None \<Rightarrow> False | Some b \<Rightarrow> has_area b \<and> covers b bounds))"

definition occlude :: "page_text \<Rightarrow> dom_index \<Rightarrow> layout_index \<Rightarrow> semantic_node \<Rightarrow> semantic_node" where
  "occlude pt pg layout n =
     (if sn_visibility n \<noteq> InViewport then n
      else case sn_backend n of
        None \<Rightarrow> n
      | Some backend \<Rightarrow>
          (case kv_get layout backend of
             None \<Rightarrow> n
           | Some target \<Rightarrow>
               (case (lm_bounds target, lm_paint_order target) of
                  (Some bounds, Some paint) \<Rightarrow>
                    if list_ex (occludes pt pg backend bounds paint) layout
                    then n\<lparr>sn_visibility := PageOccluded\<rparr> else n
                | _ \<Rightarrow> n)))"

definition apply_page_occlusion ::
    "page_text \<Rightarrow> dom_index \<Rightarrow> layout_index \<Rightarrow> semantic_node list \<Rightarrow> semantic_node list" where
  "apply_page_occlusion pt pg layout nodes = map (occlude pt pg layout) nodes"

text \<open>The name of a node id; the last named node with the id counts.\<close>

definition name_of_id :: "semantic_node list \<Rightarrow> string \<Rightarrow> string option" where
  "name_of_id nodes i =
     Option.bind (find (\<lambda>n. sn_ax_id n = i \<and> sn_name n \<noteq> None) (rev nodes)) sn_name"

definition remove_redundant_static_text :: "semantic_node list \<Rightarrow> semantic_node list" where
  "remove_redundant_static_text nodes =
     filter (\<lambda>n. sn_role n \<notin> set [''statictext'', ''text'']
                 \<or> sn_name n \<noteq> None \<and> Option.bind (sn_parent_ax_id n) (name_of_id nodes) \<noteq> sn_name n) nodes"

record semantic_document =
  sd_nodes :: "semantic_node list"
  sd_css_hidden_dom_count :: nat
  sd_unprovable_frame_count :: nat
  sd_complete :: bool

definition empty_document :: semantic_document where
  "empty_document =
     \<lparr>sd_nodes = [], sd_css_hidden_dom_count = 0, sd_unprovable_frame_count = 0, sd_complete = False\<rparr>"

definition compose_accessibility_tree ::
    "page_text \<Rightarrow> json \<Rightarrow> dom_index \<Rightarrow> layout_index \<Rightarrow> layout_rect option \<Rightarrow> frame_ref \<Rightarrow> semantic_document" where
  "compose_accessibility_tree pt ax_tree pg layout viewport frame =
     (case Option.bind (json_get ax_tree ''nodes'') as_array of
        None \<Rightarrow> empty_document\<lparr>sd_css_hidden_dom_count := di_css_hidden_count pg\<rparr>
      | Some ax_nodes \<Rightarrow>
          (let nodes = List.map_filter (compose_node pt pg layout viewport frame) (enumerate 0 ax_nodes)
           in \<lparr>sd_nodes = remove_redundant_static_text (apply_page_occlusion pt pg layout
                 (supplement_dom_actions pt pg layout viewport frame nodes)),
               sd_css_hidden_dom_count = di_css_hidden_count pg, sd_unprovable_frame_count = 0,
               sd_complete = True\<rparr>))"

end
