(* ===== verification/SemanticPage.thy ===== *)
theory SemanticPage
  imports SemanticDom "HOL-Library.Product_Lexorder"
begin

text \<open>
  The selecting half of \<open>browser/semantic.rs\<close>: a semantic document, the nodes a scope and a query
  select, the pages of a snapshot in order of rank, and the outline of a page. The two loops over
  parents that the code bounds with a set of visited nodes are total functions; the one in
  \<open>render_outline\<close> that it does not bound is a partial function, whose \<open>None\<close> is not returning.
\<close>

section \<open>Documents\<close>

definition extend_document :: "semantic_document \<Rightarrow> semantic_document \<Rightarrow> semantic_document" where
  "extend_document d other =
     (let offset = length (sd_nodes d)
      in \<lparr>sd_nodes = sd_nodes d @ map (\<lambda>n. n\<lparr>sn_order := sn_order n + offset\<rparr>) (sd_nodes other),
          sd_css_hidden_dom_count = sd_css_hidden_dom_count d + sd_css_hidden_dom_count other,
          sd_unprovable_frame_count = sd_unprovable_frame_count d + sd_unprovable_frame_count other,
          sd_complete = (if sd_nodes d = [] then sd_complete other else sd_complete d \<and> sd_complete other)\<rparr>)"

text \<open>The index of a node id; the last node with the id counts.\<close>

definition index_of_id :: "semantic_node list \<Rightarrow> string \<Rightarrow> nat option" where
  "index_of_id nodes i = find (\<lambda>k. sn_ax_id (nodes ! k) = i) (rev [0..<length nodes])"


section \<open>Scope and query\<close>

definition child_ids :: "semantic_node list \<Rightarrow> string \<Rightarrow> string list" where
  "child_ids nodes i =
     (case index_of_id nodes i of None \<Rightarrow> [] | Some k \<Rightarrow> sn_child_ax_ids (nodes ! k))"

definition known_ids :: "semantic_node list \<Rightarrow> string set" where
  "known_ids nodes = (\<Union>n \<in> set nodes. set (sn_child_ax_ids n))"

lemma index_of_id_less: "index_of_id nodes i = Some k \<Longrightarrow> k < length nodes"
  by (auto simp: index_of_id_def find_Some_iff rev_nth)

lemma child_ids_known: "set (child_ids nodes i) \<subseteq> known_ids nodes"
  by (cases "index_of_id nodes i") (auto simp: child_ids_def known_ids_def dest: index_of_id_less intro!: bexI [OF _ nth_mem])

lemma finite_known_ids [simp]: "finite (known_ids nodes)"
  by (simp add: known_ids_def)

text \<open>The ids below the ones on the stack; the top of the stack is its first element.\<close>

function collect_scope :: "semantic_node list \<Rightarrow> string set \<Rightarrow> string list \<Rightarrow> string set" where
  "collect_scope nodes allowed [] = allowed"
| "collect_scope nodes allowed (i # stack) =
     (if i \<in> allowed then collect_scope nodes allowed stack
      else collect_scope nodes (insert i allowed) (rev (child_ids nodes i) @ stack))"
  by pat_completeness auto
termination
proof (relation "inv_image (finite_psubset <*lex*> measure length)
    (\<lambda>(nodes, allowed, stack). ((known_ids nodes \<union> set stack) - allowed, stack))", goal_cases)
  case (2 nodes allowed i stack)
  have "(known_ids nodes \<union> set stack) - allowed = (known_ids nodes \<union> set (i # stack)) - allowed"
    using 2 by auto
  then show ?case by simp
next
  case (3 nodes allowed i stack)
  have "(known_ids nodes \<union> set (rev (child_ids nodes i) @ stack)) - insert i allowed
      \<subset> (known_ids nodes \<union> set (i # stack)) - allowed"
    using 3 child_ids_known [of nodes i] by auto
  then show ?case by simp
qed auto

definition scope_ids :: "semantic_node list \<Rightarrow> int \<Rightarrow> string set" where
  "scope_ids nodes backend =
     (case find (\<lambda>n. sn_backend n = Some backend) nodes of
        None \<Rightarrow> {} | Some n \<Rightarrow> collect_scope nodes {} [sn_ax_id n])"

definition contains_text :: "string \<Rightarrow> string option \<Rightarrow> bool" where
  "contains_text q t = (case t of None \<Rightarrow> False | Some s \<Rightarrow> str_contains (to_ascii_lowercase s) q)"

definition node_contains_query :: "string \<Rightarrow> semantic_node \<Rightarrow> bool" where
  "node_contains_query q n =
     (contains_text q (Some (sn_role n)) \<or> contains_text q (sn_name n) \<or> contains_text q (sn_value n))"

definition query_score :: "page_text \<Rightarrow> string \<Rightarrow> semantic_node \<Rightarrow> nat" where
  "query_score pt query n =
     (let q = to_ascii_lowercase (trim query)
      in if q = [] then 0
         else if node_contains_query q n then 2 ^ 64 - 1
         else length (filter (\<lambda>t. t \<noteq> [] \<and> node_contains_query t n) (pt_terms pt q)))"

definition in_scope :: "semantic_node list \<Rightarrow> int option \<Rightarrow> semantic_node \<Rightarrow> bool" where
  "in_scope nodes scope n =
     (case scope of None \<Rightarrow> True | Some backend \<Rightarrow> sn_ax_id n \<in> scope_ids nodes backend)"

definition answers_query :: "page_text \<Rightarrow> semantic_node list \<Rightarrow> int option \<Rightarrow> string option \<Rightarrow> semantic_node \<Rightarrow> bool" where
  "answers_query pt nodes scope query n =
     (case map_option (\<lambda>q. to_ascii_lowercase (trim q)) query of
        None \<Rightarrow> True
      | Some q \<Rightarrow>
          q = []
          \<or> (if list_ex (\<lambda>m. in_scope nodes scope m \<and> node_contains_query q m) nodes
             then node_contains_query q n else 0 < query_score pt q n))"

definition scoped_indices :: "page_text \<Rightarrow> semantic_node list \<Rightarrow> string option \<Rightarrow> int option \<Rightarrow> nat list" where
  "scoped_indices pt nodes query scope =
     filter (\<lambda>k. in_scope nodes scope (nodes ! k) \<and> answers_query pt nodes scope query (nodes ! k))
       [0..<length nodes]"


section \<open>Rank\<close>

definition priority_context :: "semantic_node \<Rightarrow> bool" where
  "priority_context n =
     (Option.bind (map_of (sn_states n) ''focused'') as_bool = Some True
      \<or> sn_role n \<in> set [''dialog'', ''alertdialog''])"

definition rank :: "semantic_node \<Rightarrow> nat" where
  "rank n =
     (if priority_context n then 0
      else case sn_visibility n of
             InViewport \<Rightarrow> if sn_actions n = [] then 2 else 1
           | NearViewport \<Rightarrow> if sn_actions n = [] then 4 else 3
           | UnknownVisibility \<Rightarrow> if sn_actions n = [] then 6 else 5
           | NoLayout \<Rightarrow> if sn_actions n = [] then 6 else 5
           | Offscreen \<Rightarrow> if sn_actions n = [] then 8 else 7
           | CssHidden \<Rightarrow> 9
           | PageOccluded \<Rightarrow> 9)"

definition sort_position :: "page_text \<Rightarrow> string option \<Rightarrow> semantic_node \<Rightarrow> int \<times> nat \<times> nat" where
  "sort_position pt query n =
     (- int (case query of None \<Rightarrow> 0 | Some q \<Rightarrow> query_score pt q n), rank n, sn_order n)"

definition candidates :: "page_text \<Rightarrow> semantic_node list \<Rightarrow> string option \<Rightarrow> int option \<Rightarrow> nat list" where
  "candidates pt nodes query scope =
     sort_key (\<lambda>k. sort_position pt query (nodes ! k))
       (filter (\<lambda>k. sn_visibility (nodes ! k) \<notin> set [CssHidden, PageOccluded])
          (scoped_indices pt nodes query scope))"


section \<open>The outline\<close>

text \<open>The nodes kept for a selection: the ancestors of each, up to one that is kept already.\<close>

definition parent_index :: "semantic_node list \<Rightarrow> nat \<Rightarrow> nat option" where
  "parent_index nodes k = Option.bind (sn_parent_ax_id (nodes ! k)) (index_of_id nodes)"

lemma parent_index_less: "parent_index nodes k = Some j \<Longrightarrow> j < length nodes"
  by (auto simp: parent_index_def bind_eq_Some_conv dest: index_of_id_less)

function keep_ancestors :: "semantic_node list \<Rightarrow> nat \<Rightarrow> nat set \<Rightarrow> nat set" where
  "keep_ancestors nodes k keep =
     (case parent_index nodes k of
        None \<Rightarrow> keep
      | Some j \<Rightarrow> if j \<in> keep then keep else keep_ancestors nodes j (insert j keep))"
  by pat_completeness auto
termination
proof (relation "measure (\<lambda>(nodes, k, keep). card ({..<length nodes} - keep))", goal_cases)
  case (2 nodes k keep j)
  then have "{..<length nodes} - insert j keep \<subset> {..<length nodes} - keep"
    using parent_index_less by auto
  then show ?case by (simp add: psubset_card_mono)
qed simp

declare keep_ancestors.simps [simp del]

definition with_ancestors :: "semantic_node list \<Rightarrow> nat list \<Rightarrow> nat set" where
  "with_ancestors nodes selected = fold (keep_ancestors nodes) selected (set selected)"

definition is_page_root :: "semantic_node \<Rightarrow> bool" where
  "is_page_root n = (sn_role n \<in> set [''rootwebarea'', ''webarea''])"

text \<open>The selected ancestors above a parent, counted up the tree without a bound.\<close>

partial_function (option) depth_above :: "semantic_node list \<Rightarrow> nat set \<Rightarrow> nat option \<Rightarrow> nat \<Rightarrow> nat option" where
  "depth_above nodes selected parent depth =
     (case parent of
        None \<Rightarrow> Some depth
      | Some j \<Rightarrow>
          depth_above nodes selected (parent_index nodes j)
            (if j \<in> selected \<and> \<not> is_page_root (nodes ! j) then Suc depth else depth))"

definition outline_line :: "page_text \<Rightarrow> semantic_node \<Rightarrow> nat \<Rightarrow> string" where
  "outline_line pt n depth =
     concat (replicate depth ''  '') @ ''- '' @ sn_role n
     @ (case sn_name n of None \<Rightarrow> [] | Some name \<Rightarrow> CHR '' '' # pt_json pt (JStr name))
     @ (case sn_value n of None \<Rightarrow> [] | Some v \<Rightarrow> if sn_name n = Some v then [] else '': '' @ v)
     @ (if sn_states n = [] then []
        else '' ['' @ join_with '','' (map (\<lambda>(k, v). k @ ''='' @ pt_json pt v) (sn_states n)) @ '']'')"

text \<open>The lines of the selected nodes in document order, if the loop over their parents returns.\<close>

fun outline_lines :: "page_text \<Rightarrow> semantic_node list \<Rightarrow> nat set \<Rightarrow> nat list \<Rightarrow> string list option" where
  "outline_lines pt nodes selected [] = Some []"
| "outline_lines pt nodes selected (k # ks) =
     (if is_page_root (nodes ! k) then outline_lines pt nodes selected ks
      else case depth_above nodes selected (parent_index nodes k) 0 of
        None \<Rightarrow> None
      | Some depth \<Rightarrow>
          map_option (Cons (outline_line pt (nodes ! k) depth)) (outline_lines pt nodes selected ks))"

text \<open>The selection is a hash set; its elements come in an order of its own before they are sorted.\<close>

definition ordered_indices :: "page_text \<Rightarrow> semantic_node list \<Rightarrow> nat set \<Rightarrow> nat list" where
  "ordered_indices pt nodes selected = sort_key (\<lambda>k. sn_order (nodes ! k)) (pt_hash_order pt selected)"

definition render_outline :: "page_text \<Rightarrow> semantic_node list \<Rightarrow> nat set \<Rightarrow> string option" where
  "render_outline pt nodes selected =
     map_option (join_with [CHR 0x0A]) (outline_lines pt nodes selected (ordered_indices pt nodes selected))"


section \<open>Pages\<close>

definition DEFAULT_SEMANTIC_NODE_BUDGET :: nat where "DEFAULT_SEMANTIC_NODE_BUDGET = 300"

record omission_counts =
  om_css_hidden :: nat
  om_offscreen :: nat
  om_page_occluded :: nat
  om_no_layout :: nat
  om_unknown :: nat
  om_budget :: nat
  om_unprovable_frame :: nat

record semantic_page =
  pg_outline :: string
  pg_selected :: "semantic_node list"
  pg_selected_nodes :: nat
  pg_total_nodes :: nat
  pg_next_offset :: "nat option"
  pg_omissions :: omission_counts

definition count_visibility :: "browser_visibility \<Rightarrow> semantic_node list \<Rightarrow> nat" where
  "count_visibility v nodes = length (filter (\<lambda>n. sn_visibility n = v) nodes)"

definition omissions_of :: "semantic_document \<Rightarrow> nat \<Rightarrow> omission_counts" where
  "omissions_of d budget_left =
     \<lparr>om_css_hidden = max (sd_css_hidden_dom_count d) (count_visibility CssHidden (sd_nodes d)),
      om_offscreen = count_visibility Offscreen (sd_nodes d),
      om_page_occluded = count_visibility PageOccluded (sd_nodes d),
      om_no_layout = count_visibility NoLayout (sd_nodes d),
      om_unknown = count_visibility UnknownVisibility (sd_nodes d),
      om_budget = budget_left, om_unprovable_frame = sd_unprovable_frame_count d\<rparr>"

definition page_slice :: "nat list \<Rightarrow> nat \<Rightarrow> nat \<Rightarrow> nat list" where
  "page_slice cs offset budget = take (max budget 1) (drop offset cs)"

definition page_end :: "nat list \<Rightarrow> nat \<Rightarrow> nat \<Rightarrow> nat" where
  "page_end cs offset budget = min (min offset (length cs) + max budget 1) (length cs)"

definition page ::
    "page_text \<Rightarrow> semantic_document \<Rightarrow> nat \<Rightarrow> nat \<Rightarrow> string option \<Rightarrow> int option \<Rightarrow> semantic_page option" where
  "page pt d offset budget query scope =
     (let nodes = sd_nodes d;
          cs = candidates pt nodes query scope;
          slice = page_slice cs offset budget;
          finish = page_end cs offset budget
      in map_option (\<lambda>outline.
           \<lparr>pg_outline = outline, pg_selected = map ((!) nodes) slice, pg_selected_nodes = length slice,
            pg_total_nodes = length cs, pg_next_offset = (if finish < length cs then Some finish else None),
            pg_omissions = omissions_of d (length cs - finish)\<rparr>)
           (render_outline pt nodes (with_ancestors nodes slice)))"

end
