(* ===== verification/SemanticProps.thy ===== *)
theory SemanticProps
  imports SemanticPage
begin

text \<open>
  What a semantic snapshot promises: a scope is the subtree of its node, the pages show every
  visible match once and in order of rank, an action is offered only where the node allows it, and a
  node counts as occluded only under a box of another branch. The outline returns exactly when the
  parents above the shown nodes end, which merged frames need not do.
\<close>

section \<open>Scope\<close>

definition child_edges :: "semantic_node list \<Rightarrow> (string \<times> string) set" where
  "child_edges nodes = {(i, j). j \<in> set (child_ids nodes i)}"

lemma reachable_closed:
  assumes "\<forall>x \<in> A. E `` {x} \<subseteq> A \<union> S"
  shows "E\<^sup>* `` A \<subseteq> A \<union> E\<^sup>* `` S"
proof
  fix y assume "y \<in> E\<^sup>* `` A"
  then obtain x where "x \<in> A" "(x, y) \<in> E\<^sup>*" by blast
  from this(2,1) show "y \<in> A \<union> E\<^sup>* `` S"
  proof (induction rule: rtrancl_induct)
    case (step y z)
    with assms show ?case by (blast intro: rtrancl_into_rtrancl)
  qed simp
qed

lemma collect_scope_reachable:
  assumes "\<forall>x \<in> A. child_edges nodes `` {x} \<subseteq> A \<union> set S"
  shows "collect_scope nodes A S = A \<union> (child_edges nodes)\<^sup>* `` set S"
  using assms
proof (induction nodes A S rule: collect_scope.induct)
  case (2 nodes allowed i stack)
  let ?E = "child_edges nodes"
  show ?case
  proof (cases "i \<in> allowed")
    case True
    with 2(3) have inv: "\<forall>x \<in> allowed. ?E `` {x} \<subseteq> allowed \<union> set stack" by auto
    with True reachable_closed [OF inv] have "?E\<^sup>* `` {i} \<subseteq> allowed \<union> ?E\<^sup>* `` set stack" by blast
    with True 2(1) inv show ?thesis by auto
  next
    case False
    have kids: "?E `` {i} = set (child_ids nodes i)" by (auto simp: child_edges_def)
    with 2(3) have inv: "\<forall>x \<in> insert i allowed. ?E `` {x} \<subseteq> insert i allowed \<union> set (rev (child_ids nodes i) @ stack)"
      by auto
    have "?E\<^sup>* `` {i} = insert i (?E\<^sup>* `` set (child_ids nodes i))"
      unfolding kids [symmetric] by (auto elim: converse_rtranclE intro: converse_rtrancl_into_rtrancl)
    with False 2(2) inv show ?thesis by auto
  qed
qed simp

text \<open>A scope is the subtree of its node: the nodes in scope are exactly the ones whose id is reached
  from the scope's node along the child ids, whatever cycles or unknown ids the tree has.\<close>

theorem scope_is_the_subtree:
  "in_scope nodes (Some backend) n \<longleftrightarrow>
     (\<exists>s. find (\<lambda>m. sn_backend m = Some backend) nodes = Some s
        \<and> (sn_ax_id s, sn_ax_id n) \<in> (child_edges nodes)\<^sup>*)"
  by (cases "find (\<lambda>m. sn_backend m = Some backend) nodes")
    (simp_all add: in_scope_def scope_ids_def collect_scope_reachable del: collect_scope.simps)


section \<open>The outline returns when the parents end\<close>

definition up :: "semantic_node list \<Rightarrow> nat option \<Rightarrow> nat option" where
  "up nodes j = Option.bind j (parent_index nodes)"

definition parents_end :: "semantic_node list \<Rightarrow> nat \<Rightarrow> bool" where
  "parents_end nodes k = (\<exists>m. (up nodes ^^ m) (parent_index nodes k) = None)"

lemma up_Suc: "(up nodes ^^ Suc m) (Some j) = (up nodes ^^ m) (parent_index nodes j)"
  by (simp only: funpow_Suc_right o_apply) (simp add: up_def)

lemma depth_above_returns:
  "depth_above nodes sel j n \<noteq> None \<longleftrightarrow> (\<exists>m. (up nodes ^^ m) j = None)"
proof
  assume "depth_above nodes sel j n \<noteq> None"
  then obtain r where "depth_above nodes sel j n = Some r" by blast
  then show "\<exists>m. (up nodes ^^ m) j = None"
  proof (induction rule: depth_above.raw_induct [rotated, consumes 1])
    case (1 f nodes sel parent depth r)
    show ?case
    proof (cases parent)
      case None
      then show ?thesis by (intro exI [of _ 0]) simp
    next
      case (Some j)
      with 1 obtain m where "(up nodes ^^ m) (parent_index nodes j) = None" by fastforce
      with Some show ?thesis using up_Suc by metis
    qed
  qed
next
  assume "\<exists>m. (up nodes ^^ m) j = None"
  then obtain m where "(up nodes ^^ m) j = None" by blast
  then show "depth_above nodes sel j n \<noteq> None"
  proof (induction m arbitrary: j n)
    case 0
    then show ?case by (simp add: depth_above.simps)
  next
    case (Suc m)
    show ?case
    proof (cases j)
      case None
      then show ?thesis by (simp add: depth_above.simps)
    next
      case (Some k)
      with Suc.prems have "(up nodes ^^ m) (parent_index nodes k) = None"
        using up_Suc by metis
      from Suc.IH [OF this] show ?thesis by (subst depth_above.simps) (simp add: Some)
    qed
  qed
qed

lemma outline_lines_return:
  "outline_lines pt nodes sel ks \<noteq> None \<longleftrightarrow>
     (\<forall>k \<in> set ks. is_page_root (nodes ! k) \<or> parents_end nodes k)"
proof (induction ks)
  case (Cons k ks)
  have "depth_above nodes sel (parent_index nodes k) 0 \<noteq> None \<longleftrightarrow> parents_end nodes k"
    unfolding depth_above_returns parents_end_def ..
  with Cons show ?case by (auto split: option.splits)
qed simp

text \<open>An enumeration of every finite set, without repetition.\<close>

definition enumerates :: "page_text \<Rightarrow> bool" where
  "enumerates pt = (\<forall>s. finite s \<longrightarrow> set (pt_hash_order pt s) = s \<and> distinct (pt_hash_order pt s))"

lemma finite_keep_ancestors: "finite keep \<Longrightarrow> finite (keep_ancestors nodes k keep)"
  by (induction nodes k keep rule: keep_ancestors.induct) (subst keep_ancestors.simps, auto split: option.splits)

lemma finite_with_ancestors [simp]: "finite (with_ancestors nodes ks)"
proof -
  have "finite s \<Longrightarrow> finite (fold (keep_ancestors nodes) ks s)" for s
    by (induction ks arbitrary: s) (auto intro: finite_keep_ancestors)
  then show ?thesis by (simp add: with_ancestors_def)
qed

lemma keep_ancestors_within:
  "keep \<subseteq> {..<length nodes} \<Longrightarrow> keep_ancestors nodes k keep \<subseteq> {..<length nodes}"
  by (induction nodes k keep rule: keep_ancestors.induct)
    (subst keep_ancestors.simps, auto split: option.splits dest: parent_index_less)

lemma keep_ancestors_subset: "keep \<subseteq> keep_ancestors nodes k keep"
  by (induction nodes k keep rule: keep_ancestors.induct) (subst keep_ancestors.simps, auto split: option.splits)


lemma with_ancestors_within:
  assumes "set ks \<subseteq> {..<length nodes}"
  shows "with_ancestors nodes ks \<subseteq> {..<length nodes}"
proof -
  have "s \<subseteq> {..<length nodes} \<Longrightarrow> fold (keep_ancestors nodes) ks s \<subseteq> {..<length nodes}" for s
    by (induction ks arbitrary: s) (auto intro: keep_ancestors_within)
  with assms show ?thesis by (simp add: with_ancestors_def)
qed

lemma with_ancestors_selected: "set ks \<subseteq> with_ancestors nodes ks"
proof -
  have "s \<subseteq> fold (keep_ancestors nodes) ks s" for s
    by (induction ks arbitrary: s) (auto dest: set_mp [OF keep_ancestors_subset])
  then show ?thesis by (simp add: with_ancestors_def)
qed

definition shown_slice ::
    "page_text \<Rightarrow> semantic_document \<Rightarrow> nat \<Rightarrow> nat \<Rightarrow> string option \<Rightarrow> int option \<Rightarrow> nat list" where
  "shown_slice pt d offset budget query scope =
     page_slice (candidates pt (sd_nodes d) query scope) offset budget"

lemma render_outline_returns:
  assumes "enumerates pt" "finite sel"
  shows "render_outline pt nodes sel \<noteq> None \<longleftrightarrow> (\<forall>k \<in> sel. is_page_root (nodes ! k) \<or> parents_end nodes k)"
  using assms outline_lines_return [of pt nodes sel "ordered_indices pt nodes sel"]
  by (auto simp: render_outline_def ordered_indices_def enumerates_def)

lemma page_returns:
  assumes "enumerates pt"
  shows "page pt d offset budget query scope \<noteq> None \<longleftrightarrow>
    (\<forall>k \<in> with_ancestors (sd_nodes d) (shown_slice pt d offset budget query scope).
       is_page_root (sd_nodes d ! k) \<or> parents_end (sd_nodes d) k)"
  using render_outline_returns [OF assms finite_with_ancestors]
  by (simp add: page_def Let_def shown_slice_def)

text \<open>C20. A page is computed exactly when the parents of what it shows end. Taking a page returns if and
  only if, for every node of the page and every ancestor kept for it, the page root apart, following
  the parents leaves the tree after finitely many steps; an empty page always returns. The loop that
  keeps the ancestors always ends; it is the one that measures their depth that need not.\<close>

theorem page_returns_iff_parents_end:
  assumes "enumerates pt"
  shows "page pt d offset budget query scope \<noteq> None \<longleftrightarrow>
    (\<forall>k \<in> with_ancestors (sd_nodes d) (shown_slice pt d offset budget query scope).
       is_page_root (sd_nodes d ! k) \<or> parents_end (sd_nodes d) k)"
  using page_returns [OF assms] .


section \<open>The pages of a snapshot\<close>

text \<open>Whether a node is shown at all.\<close>

definition viewable :: "page_text \<Rightarrow> semantic_document \<Rightarrow> string option \<Rightarrow> int option \<Rightarrow> nat \<Rightarrow> bool" where
  "viewable pt d query scope k =
     (k < length (sd_nodes d)
      \<and> in_scope (sd_nodes d) scope (sd_nodes d ! k)
      \<and> answers_query pt (sd_nodes d) scope query (sd_nodes d ! k)
      \<and> sn_visibility (sd_nodes d ! k) \<notin> {CssHidden, PageOccluded})"

lemma set_candidates: "set (candidates pt (sd_nodes d) query scope) = {k. viewable pt d query scope k}"
  by (auto simp: candidates_def scoped_indices_def viewable_def)

lemma distinct_candidates: "distinct (candidates pt nodes query scope)"
  by (simp add: candidates_def scoped_indices_def)

lemma sorted_candidates:
  "sorted (map (\<lambda>k. sort_position pt query (nodes ! k)) (candidates pt nodes query scope))"
  by (simp add: candidates_def)

text \<open>A client reads on from an offset: it takes the page there and goes on at its next offset, until a
  page has none.\<close>

inductive reads_on ::
    "page_text \<Rightarrow> semantic_document \<Rightarrow> nat \<Rightarrow> string option \<Rightarrow> int option \<Rightarrow> nat \<Rightarrow> semantic_page list \<Rightarrow> bool"
  for pt d budget query scope where
  last_page: "page pt d offset budget query scope = Some p \<Longrightarrow> pg_next_offset p = None \<Longrightarrow>
    reads_on pt d budget query scope offset [p]"
| next_page: "page pt d offset budget query scope = Some p \<Longrightarrow> pg_next_offset p = Some offset' \<Longrightarrow>
    reads_on pt d budget query scope offset' ps \<Longrightarrow> reads_on pt d budget query scope offset (p # ps)"

lemma page_parts:
  assumes "page pt d offset budget query scope = Some p"
  shows "pg_selected p = map ((!) (sd_nodes d)) (shown_slice pt d offset budget query scope)"
    and "pg_next_offset p =
      (let cs = candidates pt (sd_nodes d) query scope; e = page_end cs offset budget
       in if e < length cs then Some e else None)"
  using assms by (auto simp: page_def Let_def shown_slice_def)

lemma slice_then_rest:
  assumes "offset \<le> length cs"
  shows "drop offset cs = page_slice cs offset budget @ drop (page_end cs offset budget) cs"
proof -
  have "page_end cs offset budget = min (offset + max budget 1) (length cs)"
    using assms by (simp add: page_end_def)
  moreover have "drop (min (offset + max budget 1) (length cs)) cs = drop (max budget 1) (drop offset cs)"
    by (simp add: min_def add.commute)
  ultimately show ?thesis unfolding page_slice_def by (metis append_take_drop_id)
qed

lemma reading_on:
  assumes pages: "\<And>offset. page pt d offset budget query scope \<noteq> None"
    and "offset \<le> length (candidates pt (sd_nodes d) query scope)"
  shows "\<exists>ps. reads_on pt d budget query scope offset ps
    \<and> concat (map pg_selected ps) = map ((!) (sd_nodes d)) (drop offset (candidates pt (sd_nodes d) query scope))
    \<and> length ps \<le> Suc (length (candidates pt (sd_nodes d) query scope) - offset)
    \<and> (\<forall>p \<in> set ps. length (pg_selected p) \<le> max budget 1)"
  using assms(2)
proof (induction "length (candidates pt (sd_nodes d) query scope) - offset" arbitrary: offset rule: less_induct)
  case less
  let ?cs = "candidates pt (sd_nodes d) query scope" and ?e = "page_end (candidates pt (sd_nodes d) query scope) offset budget"
  obtain p where p: "page pt d offset budget query scope = Some p" using pages by blast
  note rest = slice_then_rest [OF less.prems, of budget]
  have size: "length (pg_selected p) \<le> max budget 1"
    by (simp add: page_parts(1) [OF p] shown_slice_def page_slice_def)
  show ?case
  proof (cases "?e < length ?cs")
    case False
    then have none: "pg_next_offset p = None" "drop ?e ?cs = []" by (simp_all add: page_parts(2) [OF p] Let_def)
    with rest have "concat (map pg_selected [p]) = map ((!) (sd_nodes d)) (drop offset ?cs)"
      by (simp add: page_parts(1) [OF p] shown_slice_def)
    with last_page [OF p none(1)] size show ?thesis by (intro exI [of _ "[p]"]) simp
  next
    case True
    then have more: "pg_next_offset p = Some ?e" by (simp add: page_parts(2) [OF p] Let_def)
    from True less.prems have go: "offset < ?e" by (auto simp: page_end_def min_def split: if_splits)
    from True go have "length ?cs - ?e < length ?cs - offset" "?e \<le> length ?cs" by auto
    from less.hyps [OF this] obtain ps where ps:
      "reads_on pt d budget query scope ?e ps"
      "concat (map pg_selected ps) = map ((!) (sd_nodes d)) (drop ?e ?cs)"
      "length ps \<le> Suc (length ?cs - ?e)" "\<forall>p \<in> set ps. length (pg_selected p) \<le> max budget 1"
      by blast
    have "concat (map pg_selected (p # ps)) = map ((!) (sd_nodes d)) (drop offset ?cs)"
      unfolding rest by (simp add: ps(2) page_parts(1) [OF p] shown_slice_def)
    moreover have "length (p # ps) \<le> Suc (length ?cs - offset)" using ps(3) go True by simp
    ultimately show ?thesis using next_page [OF p more ps(1)] ps(4) size by (intro exI [of _ "p # ps"]) simp
  qed
qed

text \<open>C19. The pages show everything once. If every page returns, a client that starts at the front and
  follows the next offsets comes to an end; the pages it has read, in their order, list every node
  that is in scope, answers the query and is neither hidden nor occluded, each exactly once, by
  descending score, then by rank, then in document order; and no page is longer than the budget.\<close>

theorem pages_show_everything_once:
  assumes "\<And>offset. page pt d offset budget query scope \<noteq> None"
  shows "\<exists>ps ks. reads_on pt d budget query scope 0 ps
    \<and> concat (map pg_selected ps) = map ((!) (sd_nodes d)) ks
    \<and> distinct ks \<and> set ks = {k. viewable pt d query scope k}
    \<and> sorted (map (\<lambda>k. sort_position pt query (sd_nodes d ! k)) ks)
    \<and> (\<forall>p \<in> set ps. length (pg_selected p) \<le> max budget 1)"
proof -
  from reading_on [OF assms, of 0] obtain ps where "reads_on pt d budget query scope 0 ps"
    "concat (map pg_selected ps) = map ((!) (sd_nodes d)) (candidates pt (sd_nodes d) query scope)"
    "\<forall>p \<in> set ps. length (pg_selected p) \<le> max budget 1" by auto
  with set_candidates distinct_candidates sorted_candidates show ?thesis by blast
qed



section \<open>Actions\<close>

definition disabled :: "(string \<times> json) list \<Rightarrow> bool" where
  "disabled states = (Option.bind (map_of states ''disabled'') as_bool = Some True)"

definition typable :: "string \<Rightarrow> dom_meta option \<Rightarrow> (string \<times> json) list \<Rightarrow> bool" where
  "typable role pg states =
     (\<not> file_input pg
      \<and> (role \<in> {''textbox'', ''searchbox''} \<or> tag_of pg \<in> {''input'', ''textarea''} \<or> editable pg states))"

definition takes_pointer :: "layout_meta option \<Rightarrow> bool" where
  "takes_pointer layout = (\<exists>l. layout = Some l \<and> laid_out l \<and> \<not> is_style ''pointer-events'' ''none'' l)"

lemma role_actions_eq:
  "role_actions role pg states layout =
     (let typed = (if role \<in> set CLICK_ROLES then [Click] else [])
                  @ (if file_input pg then [Upload] else if typable role pg states then [Type] else [])
      in if typed = [] \<and> (\<exists>m l. pg = Some m \<and> reacts_to_clicks m layout \<and> layout = Some l \<and> laid_out l)
         then [Click] else typed)"
  by (cases pg; cases layout) (simp_all add: role_actions_def typable_def Let_def)

lemma action_kinds_eq:
  "action_kinds role pg states layout =
     (if disabled states then []
      else let actions = role_actions role pg states layout
           in actions @ (if takes_pointer layout \<and> actions \<noteq> [] then [Pointer] else [])
              @ (if takes_pointer layout \<and> (\<exists>l. layout = Some l \<and> layout_is_scrollable l) then [Scroll] else []))"
  by (cases layout) (simp_all add: action_kinds_def disabled_def takes_pointer_def Let_def)

text \<open>An action is offered exactly where the node allows it. A disabled node offers none. Otherwise
  uploading is offered exactly by file inputs, typing exactly by text fields and editable nodes that
  are not file inputs, so never both; a click by the roles that take one, or, where nothing else is
  offered, by a laid-out node that reacts to clicks; the pointer where another action is offered on
  a laid-out box that takes pointer events; scrolling on such a box whose content overflows.\<close>

theorem actions_are_exact:
  shows "(Upload \<in> set (action_kinds role pg states layout) \<longleftrightarrow> \<not> disabled states \<and> file_input pg)
    \<and> (Type \<in> set (action_kinds role pg states layout) \<longleftrightarrow> \<not> disabled states \<and> typable role pg states)
    \<and> (Click \<in> set (action_kinds role pg states layout) \<longleftrightarrow> \<not> disabled states
         \<and> (role \<in> set CLICK_ROLES
            \<or> \<not> file_input pg \<and> \<not> typable role pg states
              \<and> (\<exists>m l. pg = Some m \<and> reacts_to_clicks m layout \<and> layout = Some l \<and> laid_out l)))
    \<and> (Pointer \<in> set (action_kinds role pg states layout) \<longleftrightarrow>
         takes_pointer layout \<and> {Click, Type, Upload} \<inter> set (action_kinds role pg states layout) \<noteq> {})
    \<and> (Scroll \<in> set (action_kinds role pg states layout) \<longleftrightarrow> \<not> disabled states
         \<and> takes_pointer layout \<and> (\<exists>l. layout = Some l \<and> layout_is_scrollable l))"
proof -
  have "set (role_actions role pg states layout) \<subseteq> {Click, Type, Upload}"
    by (auto simp: role_actions_eq Let_def split: if_splits)
  moreover have "role_actions role pg states layout \<noteq> [] \<longleftrightarrow>
      {Click, Type, Upload} \<inter> set (role_actions role pg states layout) \<noteq> {}"
    using calculation by (cases "role_actions role pg states layout") auto
  ultimately show ?thesis
    unfolding action_kinds_eq Let_def
    by (cases "disabled states"; cases "file_input pg"; cases "typable role pg states"; cases "role \<in> set CLICK_ROLES")
      (auto simp: role_actions_eq Let_def typable_def)
qed


section \<open>Occlusion\<close>

definition dom_parent :: "dom_index \<Rightarrow> (int \<times> int) set" where
  "dom_parent pg = {(d, p). Option.bind (kv_get (di_nodes pg) d) dm_parent = Some p}"

lemma climbs_to_iff:
  assumes "\<forall>v \<in> V. \<forall>p. (v, p) \<in> dom_parent pg \<longrightarrow> p \<in> insert d V \<and> p \<noteq> a"
  shows "climbs_to pg a V d \<longleftrightarrow> (d, a) \<in> (dom_parent pg)\<^sup>+"
  using assms
proof (induction pg a V d rule: climbs_to.induct)
  case (1 pg a V d)
  show ?case
  proof (cases "d \<in> V")
    case True
    have "p \<in> V \<and> p \<noteq> a" if "(d, p) \<in> (dom_parent pg)\<^sup>+" for p
      using that by (induction rule: trancl_induct) (use True 1(2) in auto)
    with True show ?thesis by (subst climbs_to.simps) auto
  next
    case False
    show ?thesis
    proof (cases "Option.bind (kv_get (di_nodes pg) d) dm_parent")
      case None
      then have "(d, p) \<notin> (dom_parent pg)\<^sup>+" for p by (auto simp: dom_parent_def dest: tranclD)
      with False None show ?thesis by (subst climbs_to.simps) simp
    next
      case (Some p)
      then have only: "(d, q) \<in> dom_parent pg \<longleftrightarrow> q = p" for q by (auto simp: dom_parent_def)
      then have step: "(d, a) \<in> (dom_parent pg)\<^sup>+ \<longleftrightarrow> p = a \<or> (p, a) \<in> (dom_parent pg)\<^sup>+"
        by (metis r_into_trancl trancl_into_trancl2 tranclE converse_tranclE)
      show ?thesis
      proof (cases "p = a")
        case True
        with False Some step show ?thesis by (subst climbs_to.simps) simp
      next
        case ne: False
        have "\<forall>v \<in> insert d V. \<forall>q. (v, q) \<in> dom_parent pg \<longrightarrow> q \<in> insert p (insert d V) \<and> q \<noteq> a"
          using 1(2) only ne by auto
        from 1(1) [OF False Some this] False Some ne step show ?thesis by (subst climbs_to.simps) simp
      qed
    qed
  qed
qed

lemma shares_dom_branch_iff:
  "shares_dom_branch pg l r \<longleftrightarrow> (l, r) \<in> (dom_parent pg)\<^sup>+ \<or> (r, l) \<in> (dom_parent pg)\<^sup>+"
  by (auto simp: shares_dom_branch_def is_ancestor_of_def climbs_to_iff)

text \<open>Only another branch can hide a node. The composition changes the visibility of a node only from
  in the viewport to occluded, and it does so exactly when the layout has another box, of a node
  that is neither above nor below it in the DOM, that is positioned, takes pointer events, is not
  hidden, is painted later, and covers all of the node's box.\<close>

theorem occluded_only_by_another_branch:
  "sn_visibility (occlude pt pg layout n) =
     (if sn_visibility n = InViewport
         \<and> (\<exists>backend target bounds paint other overlay box later.
              sn_backend n = Some backend \<and> kv_get layout backend = Some target
              \<and> lm_bounds target = Some bounds \<and> lm_paint_order target = Some paint
              \<and> (other, overlay) \<in> set layout \<and> other \<noteq> backend
              \<and> (other, backend) \<notin> (dom_parent pg)\<^sup>+ \<and> (backend, other) \<notin> (dom_parent pg)\<^sup>+
              \<and> style ''position'' overlay \<in> {Some ''fixed'', Some ''absolute''}
              \<and> style ''pointer-events'' overlay \<noteq> Some ''none'' \<and> \<not> layout_hidden pt overlay
              \<and> lm_paint_order overlay = Some later \<and> paint < later
              \<and> lm_bounds overlay = Some box \<and> has_area box \<and> covers box bounds)
      then PageOccluded else sn_visibility n)"
proof -
  have position: "(case x of None \<Rightarrow> False | Some v \<Rightarrow> v \<in> set [''fixed'', ''absolute''])
      \<longleftrightarrow> x \<in> {Some ''fixed'', Some ''absolute''}" for x
    by (cases x) auto
  have occ: "occludes pt pg backend bounds paint (other, overlay) \<longleftrightarrow>
      other \<noteq> backend \<and> (other, backend) \<notin> (dom_parent pg)\<^sup>+ \<and> (backend, other) \<notin> (dom_parent pg)\<^sup>+
      \<and> style ''position'' overlay \<in> {Some ''fixed'', Some ''absolute''}
      \<and> style ''pointer-events'' overlay \<noteq> Some ''none'' \<and> \<not> layout_hidden pt overlay
      \<and> (\<exists>later box. lm_paint_order overlay = Some later \<and> paint < later
           \<and> lm_bounds overlay = Some box \<and> has_area box \<and> covers box bounds)"
    for backend bounds paint other overlay
    unfolding occludes_def prod.case position shares_dom_branch_iff
    by (cases "lm_paint_order overlay"; cases "lm_bounds overlay") auto
  show ?thesis
  proof (cases "sn_backend n")
    case (Some backend)
    show ?thesis
    proof (cases "kv_get layout backend")
      case target: (Some target)
      show ?thesis
      proof (cases "lm_bounds target"; cases "lm_paint_order target")
        fix bounds paint assume tb: "lm_bounds target = Some bounds" "lm_paint_order target = Some paint"
        have "list_ex (occludes pt pg backend bounds paint) layout \<longleftrightarrow>
            (\<exists>other overlay. (other, overlay) \<in> set layout \<and> occludes pt pg backend bounds paint (other, overlay))"
          by (auto simp: list_ex_iff)
        with Some target tb show ?thesis unfolding occ by (simp add: occlude_def) blast
      qed (use Some target in \<open>simp_all add: occlude_def\<close>)
    qed (use Some in \<open>simp add: occlude_def\<close>)
  qed (simp add: occlude_def)
qed

end
