(* ===== verification/SemanticLoop.thy ===== *)
theory SemanticLoop
  imports SemanticProps
begin

text \<open>
  A page that is never computed: two frames whose accessibility trees are harmless on their own,
  merged into one document, where a node id of one frame names a parent in the other.
\<close>

section \<open>Two frames\<close>

text \<open>Node ids are numbered per frame. The second tree lists an ignored node, as Chrome does, which the
  composition leaves out.\<close>

definition ax_node :: "string \<Rightarrow> string option \<Rightarrow> bool \<Rightarrow> json" where
  "ax_node i parent hidden =
     JObj ((case parent of None \<Rightarrow> [] | Some p \<Rightarrow> [(''parentId'', JStr p)])
           @ [(''ignored'', JBool hidden), (''nodeId'', JStr i)])"

definition main_tree :: json where
  "main_tree = JObj [(''nodes'', JArr [ax_node ''1'' None False, ax_node ''2'' (Some ''1'') False,
     ax_node ''3'' (Some ''2'') False])]"

definition frame_tree :: json where
  "frame_tree = JObj [(''nodes'', JArr [ax_node ''1'' None False, ax_node ''3'' (Some ''1'') True,
     ax_node ''2'' (Some ''3'') False])]"

definition composed :: "page_text \<Rightarrow> json \<Rightarrow> semantic_document" where
  "composed pt tree =
     compose_accessibility_tree pt tree \<lparr>di_nodes = [], di_css_hidden_count = 0\<rparr> [] None main_unproven"

definition plain_node :: "string \<Rightarrow> string option \<Rightarrow> nat \<Rightarrow> semantic_node" where
  "plain_node i parent order =
     \<lparr>sn_ax_id = i, sn_parent_ax_id = parent, sn_child_ax_ids = [], sn_backend = None, sn_role = ''unknown'',
      sn_name = None, sn_value = None, sn_states = [], sn_frame = main_unproven,
      sn_visibility = UnknownVisibility, sn_actions = [], sn_order = order\<rparr>"

lemma unknown_lower: "to_ascii_lowercase ''unknown'' = ''unknown''"
  by (simp add: to_ascii_lowercase_def byte_of_def)

lemma compose_plain:
  "compose_node pt \<lparr>di_nodes = [], di_css_hidden_count = 0\<rparr> [] None main_unproven (k, ax_node i parent hidden)
     = (if hidden \<or> i = [] then None else Some (plain_node i parent k))"
  by (cases parent)
    (simp_all add: compose_node_def ax_node_def plain_node_def get_str_def get_bool_def get_i64_def
      ax_value_string_def unknown_lower ax_states_def json_list_def classify_visibility_def action_kinds_def
      role_actions_def CLICK_ROLES_def file_input_def tag_of_def editable_def Let_def map_filter_simps)

lemma compose_rest:
  assumes "\<forall>n \<in> set nodes. sn_role n = ''unknown'' \<and> sn_visibility n = UnknownVisibility"
  shows "remove_redundant_static_text (apply_page_occlusion pt pg layout
      (supplement_dom_actions pt \<lparr>di_nodes = [], di_css_hidden_count = 0\<rparr> layout v f nodes)) = nodes"
proof -
  have "map (occlude pt pg layout) nodes = nodes"
    using assms by (intro map_idI) (simp add: occlude_def)
  moreover have "filter (\<lambda>n. sn_role n \<notin> set [''statictext'', ''text''] \<or> P n) nodes = nodes" for P
    using assms by (intro filter_True) simp
  ultimately show ?thesis
    by (simp add: remove_redundant_static_text_def apply_page_occlusion_def supplement_dom_actions_def Let_def
        map_filter_simps del: set_simps)
qed

lemma composed_trees:
  "sd_nodes (composed pt main_tree) = [plain_node ''1'' None 0, plain_node ''2'' (Some ''1'') 1, plain_node ''3'' (Some ''2'') 2]"
  "sd_nodes (composed pt frame_tree) = [plain_node ''1'' None 0, plain_node ''2'' (Some ''3'') 2]"
  by (simp_all add: composed_def compose_accessibility_tree_def main_tree_def frame_tree_def compose_plain
      map_filter_simps compose_rest plain_node_def)


section \<open>The pages\<close>

definition merged :: "page_text \<Rightarrow> semantic_document" where
  "merged pt = extend_document (composed pt main_tree) (composed pt frame_tree)"

lemma merged_nodes:
  "sd_nodes (merged pt) = [plain_node ''1'' None 0, plain_node ''2'' (Some ''1'') 1, plain_node ''3'' (Some ''2'') 2,
     plain_node ''1'' None 3, plain_node ''2'' (Some ''3'') 5]"
  by (simp add: merged_def extend_document_def composed_trees Let_def) (simp add: plain_node_def)

lemma plain_simps [simp]:
  "sn_ax_id (plain_node i p k) = i" "sn_parent_ax_id (plain_node i p k) = p"
  "sn_visibility (plain_node i p k) = UnknownVisibility" "sn_role (plain_node i p k) = ''unknown''"
  by (simp_all add: plain_node_def)

lemma all_viewable:
  fixes d :: semantic_document
  assumes "\<forall>n \<in> set (sd_nodes d). sn_visibility n = UnknownVisibility"
  shows "{k. viewable pt d None None k} = {..<length (sd_nodes d)}"
  using assms by (auto simp: viewable_def in_scope_def answers_query_def)

lemma parents_end_unroll:
  "parents_end nodes k \<longleftrightarrow> (case parent_index nodes k of None \<Rightarrow> True | Some j \<Rightarrow> parents_end nodes j)"
proof (cases "parent_index nodes k")
  case None
  then show ?thesis by (auto simp: parents_end_def intro: exI [of _ 0])
next
  case (Some j)
  have "(\<exists>m. (up nodes ^^ m) (Some j) = None) \<longleftrightarrow> (\<exists>m. (up nodes ^^ Suc m) (Some j) = None)"
    by (metis funpow_0 not0_implies_Suc option.distinct(1))
  with Some show ?thesis by (simp add: parents_end_def up_Suc del: funpow.simps(2))
qed

lemma parents_never_end:
  assumes "parent_index nodes i = Some j" "parent_index nodes j = Some i"
  shows "\<not> parents_end nodes i"
proof -
  have "(up nodes ^^ m) (Some j) \<in> {Some i, Some j}" for m
    by (induction m) (use assms in \<open>auto simp: up_def\<close>)
  then have "(up nodes ^^ m) (Some j) \<noteq> None" for m by (metis empty_iff insert_iff option.distinct(1))
  with assms(1) show ?thesis by (simp add: parents_end_def)
qed

lemma page_returns_if_all_end:
  fixes d :: semantic_document
  assumes "enumerates pt" "\<And>k. k < length (sd_nodes d) \<Longrightarrow> parents_end (sd_nodes d) k"
  shows "page pt d offset budget query scope \<noteq> None"
proof -
  have "set (shown_slice pt d offset budget query scope) \<subseteq> set (candidates pt (sd_nodes d) query scope)"
    by (auto simp: shown_slice_def page_slice_def dest!: in_set_takeD in_set_dropD)
  also have "\<dots> \<subseteq> {..<length (sd_nodes d)}" by (auto simp: set_candidates viewable_def)
  finally have "with_ancestors (sd_nodes d) (shown_slice pt d offset budget query scope) \<subseteq> {..<length (sd_nodes d)}"
    by (rule with_ancestors_within)
  with assms(2) show ?thesis unfolding page_returns [OF assms(1)] by blast
qed

lemmas index_simps = parent_index_def index_of_id_def upt_rec nth_Cons'

text \<open>Each frame's page is computed; the page of the merged document is not: measuring the depth of its
  last node goes around between the two frames. The loop in \<open>render_outline\<close> has no bound.\<close>

theorem merged_frames_never_return:
  assumes "enumerates pt"
  shows "page pt (composed pt main_tree) 0 DEFAULT_SEMANTIC_NODE_BUDGET None None \<noteq> None"
    and "page pt (composed pt frame_tree) 0 DEFAULT_SEMANTIC_NODE_BUDGET None None \<noteq> None"
    and "page pt (extend_document (composed pt main_tree) (composed pt frame_tree))
           0 DEFAULT_SEMANTIC_NODE_BUDGET None None = None"
proof -
  show "page pt (composed pt main_tree) 0 DEFAULT_SEMANTIC_NODE_BUDGET None None \<noteq> None"
    by (rule page_returns_if_all_end [OF assms]) (auto simp: composed_trees less_Suc_eq parents_end_unroll index_simps)
  show "page pt (composed pt frame_tree) 0 DEFAULT_SEMANTIC_NODE_BUDGET None None \<noteq> None"
    by (rule page_returns_if_all_end [OF assms]) (auto simp: composed_trees less_Suc_eq parents_end_unroll index_simps)
  have cycle: "\<not> parents_end (sd_nodes (merged pt)) 4"
    by (rule parents_never_end [of _ _ 2]) (simp_all add: merged_nodes index_simps)
  have all: "set (candidates pt (sd_nodes (merged pt)) None None) = {..<5}"
    unfolding set_candidates by (subst all_viewable) (auto simp: merged_nodes)
  then have "length (candidates pt (sd_nodes (merged pt)) None None) = 5"
    using distinct_card [OF distinct_candidates, of pt "sd_nodes (merged pt)" None None] by simp
  with all have "4 \<in> set (shown_slice pt (merged pt) 0 DEFAULT_SEMANTIC_NODE_BUDGET None None)"
    by (simp add: shown_slice_def page_slice_def DEFAULT_SEMANTIC_NODE_BUDGET_def)
  then have "4 \<in> with_ancestors (sd_nodes (merged pt))
      (shown_slice pt (merged pt) 0 DEFAULT_SEMANTIC_NODE_BUDGET None None)"
    using with_ancestors_selected by blast
  moreover have "\<not> is_page_root (sd_nodes (merged pt) ! 4)"
    by (simp add: merged_nodes is_page_root_def)
  ultimately have "\<not> page pt (merged pt) 0 DEFAULT_SEMANTIC_NODE_BUDGET None None \<noteq> None"
    unfolding page_returns [OF assms] using cycle by blast
  then show "page pt (extend_document (composed pt main_tree) (composed pt frame_tree))
      0 DEFAULT_SEMANTIC_NODE_BUDGET None None = None"
    by (simp add: merged_def)
qed


section \<open>An order that is not fixed\<close>

definition tied_nodes :: "semantic_node list" where
  "tied_nodes = [plain_node ''1'' None 0, (plain_node ''2'' None 0)\<lparr>sn_role := ''link''\<rparr>]"

text \<open>Nodes with the same place in the document come in the order the hash set has that day, so one
  snapshot has two outlines.\<close>

theorem outline_follows_the_hash_set:
  assumes "pt_hash_order pt {0, 1} = [0, 1]" "pt_hash_order pt' {0, 1} = [1, 0]"
  shows "render_outline pt tied_nodes {0, 1} = Some (''- unknown'' @ CHR 0x0A # ''- link'')"
    and "render_outline pt' tied_nodes {0, 1} = Some (''- link'' @ CHR 0x0A # ''- unknown'')"
  using assms
  by (simp_all add: render_outline_def ordered_indices_def tied_nodes_def plain_node_def is_page_root_def
      parent_index_def depth_above.simps outline_line_def)


section \<open>The properties at a concrete document\<close>

text \<open>The page text of the examples: sets in ascending order.\<close>

definition sample_text :: page_text where
  "sample_text = \<lparr>pt_json = \<lambda>_. [], pt_parse_f64 = \<lambda>_. None, pt_terms = \<lambda>_. [], pt_hash_order = sorted_list_of_set\<rparr>"

lemma sample_enumerates: "enumerates sample_text"
  by (simp add: enumerates_def sample_text_def)

theorem page_returns_iff_parents_end_witness:
  "page sample_text (composed sample_text main_tree) 0 2 None None \<noteq> None \<longleftrightarrow>
     (\<forall>k \<in> with_ancestors (sd_nodes (composed sample_text main_tree))
             (shown_slice sample_text (composed sample_text main_tree) 0 2 None None).
        is_page_root (sd_nodes (composed sample_text main_tree) ! k)
        \<or> parents_end (sd_nodes (composed sample_text main_tree)) k)"
  by (rule page_returns_iff_parents_end [OF sample_enumerates])

theorem pages_show_everything_once_witness:
  "\<exists>ps. reads_on sample_text (composed sample_text main_tree) 2 None None 0 ps
     \<and> length (concat (map pg_selected ps)) = 3"
proof -
  let ?d = "composed sample_text main_tree"
  have ends: "parents_end (sd_nodes ?d) k" if "k < 3" for k
    using that by (auto simp: composed_trees less_Suc_eq parents_end_unroll index_simps numeral_3_eq_3)
  have returns: "page sample_text ?d offset 2 None None \<noteq> None" for offset
    by (rule page_returns_if_all_end [OF sample_enumerates]) (simp add: ends composed_trees(1) [THEN arg_cong [of _ _ length]])
  from pages_show_everything_once [of sample_text ?d 2 None None, OF returns] obtain ps ks where
    r: "reads_on sample_text ?d 2 None None 0 ps" "concat (map pg_selected ps) = map ((!) (sd_nodes ?d)) ks"
    "distinct ks" "set ks = {k. viewable sample_text ?d None None k}" by blast
  have "{k. viewable sample_text ?d None None k} = {..<3}"
    by (subst all_viewable) (auto simp: composed_trees)
  with r(3,4) distinct_card [of ks] have "length ks = 3" by simp
  with r(1,2) show ?thesis by auto
qed

end
