(* ===== verification/SessionTools.thy ===== *)
theory SessionTools
  imports SessionProps CaptureScope
begin

text \<open>
  \<open>session_tools.rs\<close>: the six tools by which a caller starts, reads, lists, escalates and ends its
  sessions, over the lifecycle of \<open>session.rs\<close> and the capture scopes. The tools run inside a call
  that a registry has admitted; their arguments carry the private names the registry put there. Of
  a result its structured content is modelled and its text left out.
\<close>

section \<open>Arguments\<close>

definition usable_label :: "json \<Rightarrow> string \<Rightarrow> string option" where
  "usable_label args k =
     (case get_str args k of
        None \<Rightarrow> None
      | Some v \<Rightarrow> if v \<noteq> [] \<and> v \<noteq> ''default'' then Some v else None)"

definition session_id_of :: "json \<Rightarrow> string option" where
  "session_id_of args =
     (if as_object args = None then None
      else case usable_label args ''session'' of Some v \<Rightarrow> Some v | None \<Rightarrow> usable_label args ''_session_id'')"

definition filled_str :: "json \<Rightarrow> string \<Rightarrow> string option" where
  "filled_str args k =
     (case get_str args k of None \<Rightarrow> None | Some v \<Rightarrow> if v \<noteq> [] then Some v else None)"

definition public_label_of :: "json \<Rightarrow> string option" where
  "public_label_of args = filled_str args ''_public_session_label''"

definition response_session_label :: "json \<Rightarrow> string \<Rightarrow> string" where
  "response_session_label args sid =
     (case public_label_of args of
        Some l \<Rightarrow> l
      | None \<Rightarrow> if usable_label args ''session'' \<noteq> None then public_session_label sid else ''implicit'')"

definition owner_transport_of :: "json \<Rightarrow> string \<Rightarrow> string" where
  "owner_transport_of args sid =
     (case filled_str args ''_transport_session_id'' of Some t \<Rightarrow> t | None \<Rightarrow> sid)"

text \<open>The idle lifetime is given in milliseconds.\<close>

definition lifecycle_idle_ttl_of :: "json \<Rightarrow> duration option" where
  "lifecycle_idle_ttl_of args =
     (case get_u64 args ''_session_idle_ttl_ms'' of
        None \<Rightarrow> None | Some ms \<Rightarrow> if 0 < ms then Some (ms * 1000000) else None)"


section \<open>Typed inputs\<close>

text \<open>What the derived parsers accept: an object, whose unknown fields are ignored, or an array of the
  fields in order. A field that may be left out may also be null.\<close>

definition optional_arg :: "(json \<Rightarrow> bool) \<Rightarrow> json option \<Rightarrow> bool" where
  "optional_arg ok v = (case v of None \<Rightarrow> True | Some w \<Rightarrow> w = JNull \<or> ok w)"

definition is_text :: "json \<Rightarrow> bool" where
  "is_text v = (as_str v \<noteq> None)"

fun fields_in_order :: "(json \<Rightarrow> bool) list \<Rightarrow> json list \<Rightarrow> bool" where
  "fields_in_order oks [] = True"
| "fields_in_order [] (v # vs) = False"
| "fields_in_order (ok # oks) (v # vs) = ((v = JNull \<or> ok v) \<and> fields_in_order oks vs)"

definition optional_input :: "(string \<times> (json \<Rightarrow> bool)) list \<Rightarrow> json \<Rightarrow> bool" where
  "optional_input shape args =
     (case args of
        JObj _ \<Rightarrow> list_all (\<lambda>(k, ok). optional_arg ok (json_get args k)) shape
      | JArr vs \<Rightarrow> fields_in_order (map snd shape) vs
      | _ \<Rightarrow> False)"

definition label_input :: "json \<Rightarrow> bool" where
  "label_input = optional_input [(''session'', is_text)]"

definition motion_ok :: "json \<Rightarrow> bool" where
  "motion_ok v = (case as_str v of None \<Rightarrow> False | Some s \<Rightarrow> s \<in> set [''auto'', ''on'', ''off''])"

definition theme_ok :: "json \<Rightarrow> bool" where
  "theme_ok v =
     (case v of
        JObj _ \<Rightarrow> get_str v ''theme_id'' \<noteq> None
                 \<and> (case json_get v ''reduced_motion'' of None \<Rightarrow> True | Some m \<Rightarrow> motion_ok m)
      | JArr [t] \<Rightarrow> is_text t
      | JArr [t, m] \<Rightarrow> is_text t \<and> motion_ok m
      | _ \<Rightarrow> False)"

definition scope_ok_json :: "json \<Rightarrow> bool" where
  "scope_ok_json v = (Option.bind (as_str v) capture_scope_parse \<noteq> None)"

definition start_input :: "json \<Rightarrow> bool" where
  "start_input = optional_input [(''session'', is_text), (''capture_scope'', scope_ok_json), (''cursor_theme'', theme_ok)]"

definition escalate_input :: "json \<Rightarrow> bool" where
  "escalate_input args =
     (get_str args ''session'' \<noteq> None
      \<and> Option.bind (get_str args ''reason'') escalation_reason_parse \<noteq> None
      \<and> optional_arg is_text (json_get args ''detail''))"

definition is_u32 :: "json \<Rightarrow> bool" where
  "is_u32 v = (case as_u64 v of None \<Rightarrow> False | Some n \<Rightarrow> n < 2 ^ 32)"

definition list_input :: "json \<Rightarrow> bool" where
  "list_input = optional_input [(''limit'', is_u32), (''cursor'', is_text)]"


section \<open>Replies\<close>

datatype session_refusal =
    SessionRequired
  | InvalidCaptureScope
  | InvalidArguments
  | SessionPolicyConflict capture_policy capture_policy
  | SessionUnavailable
  | CouldNotBeRevived
  | InvalidEscalationReason
  | InvalidEscalationDetail
  | SessionNotStarted
  | EscalationRefused escalate_error
  | TransportLeaseRequired
  | InvalidLimit
  | InvalidCursor
  | CleanupPending string "string list"
  | CleanupPartial string "string list"

record session_info =
  si_session :: "string option"
  si_implicit :: bool
  si_ending :: bool
  si_client :: session_client_kind
  si_transport :: session_transport
  si_cursor_visible :: bool
  si_recording_active :: bool
  si_idle_seconds :: nat
  si_expires_in_seconds :: nat

datatype session_reply =
    Refuse session_refusal
  | Started session_state_output bool
  | ScopeState session_state_output
  | SessionIs session_info
  | Sessions "session_info list" "string option"
  | EndedAs string

text \<open>The readers that the cursor and the recorder register: what they say of a session.\<close>

record session_readers =
  rd_cursor_visible :: "string \<Rightarrow> bool"
  rd_recording_active :: "string \<Rightarrow> bool"

definition lifecycle_output :: "session_readers \<Rightarrow> session_snapshot \<Rightarrow> session_info" where
  "lifecycle_output rd n =
     \<lparr>si_session = snap_label n, si_implicit = snap_implicit n, si_ending = snap_ending n,
      si_client = snap_client n, si_transport = snap_transport n,
      si_cursor_visible = rd_cursor_visible rd (runtime_id n),
      si_recording_active = rd_recording_active rd (runtime_id n),
      si_idle_seconds = idle n div 1000000000, si_expires_in_seconds = expires_in n div 1000000000\<rparr>"


section \<open>The tools\<close>

definition requested_scope :: "json \<Rightarrow> capture_policy option" where
  "requested_scope args = Option.bind (get_str args ''capture_scope'') capture_scope_parse"

text \<open>The scope after the session is active: bound if the caller asked for one, else read.\<close>

definition settle_scope ::
    "string \<Rightarrow> capture_policy option \<Rightarrow> session_state \<Rightarrow> session_state \<times> (session_refusal + session_capture_scope)" where
  "settle_scope sid asked s =
     (case asked of
        None \<Rightarrow>
          (s, Inr (case get_session sid (scopes s) of Some sc \<Rightarrow> sc | None \<Rightarrow> new_capture_scope Auto))
      | Some p \<Rightarrow>
          (case bind_session (is_session_ended s sid) sid (Some p) (scopes s) of
             (reg, Inr (bound, _)) \<Rightarrow> (s\<lparr>scopes := reg\<rparr>, Inr bound)
           | (reg, Inl (Conflict known wanted)) \<Rightarrow> (s\<lparr>scopes := reg\<rparr>, Inl (SessionPolicyConflict known wanted))
           | (reg, Inl BindEnded) \<Rightarrow> (s\<lparr>scopes := reg\<rparr>, Inl CouldNotBeRevived)))"

text \<open>Activation or revival, then the scope. The result names the hooks that learn of a revival.\<close>

definition activate_started ::
    "host \<Rightarrow> transport_owner option \<Rightarrow> instant \<Rightarrow> json \<Rightarrow> string \<Rightarrow> session_state \<Rightarrow> session_state \<times> session_reply \<times> nat list" where
  "activate_started h cur now args sid s =
     (let owner = owner_transport_of args sid;
          label = public_label_of args;
          kind = infer_transport_metadata owner
      in case activate_or_revive_session_for_owner h cur sid label owner (label = None) (fst kind) (snd kind)
                (lifecycle_idle_ttl_of args) now s of
           (s1, Inl _) \<Rightarrow> (s1, Refuse SessionUnavailable, [])
         | (s1, Inr revived) \<Rightarrow>
             (case settle_scope sid (requested_scope args) s1 of
                (s2, Inl e) \<Rightarrow> (s2, Refuse e, [])
              | (s2, Inr sc) \<Rightarrow>
                  (s2, Started (scope_output sc (response_session_label args sid)) revived,
                   if revived then snd (fire_session_revive_for_owner sid owner s2) else [])))"

definition start_session_tool ::
    "host \<Rightarrow> transport_owner option \<Rightarrow> instant \<Rightarrow> json \<Rightarrow> session_state \<Rightarrow> session_state \<times> session_reply \<times> nat list" where
  "start_session_tool h cur now args s =
     (case session_id_of args of
        None \<Rightarrow> (s, Refuse SessionRequired, [])
      | Some sid \<Rightarrow>
          if \<not> (case json_get args ''capture_scope'' of None \<Rightarrow> True | Some v \<Rightarrow> scope_ok_json v)
          then (s, Refuse InvalidCaptureScope, [])
          else if \<not> start_input (sanitize_reserved_args args) then (s, Refuse InvalidArguments, [])
          else (case (requested_scope args, get_session sid (scopes s)) of
                  (Some p, Some known) \<Rightarrow>
                    if policy known \<noteq> p then (s, Refuse (SessionPolicyConflict (policy known) p), [])
                    else activate_started h cur now args sid s
                | _ \<Rightarrow> activate_started h cur now args sid s))"

definition visible_to_caller :: "json \<Rightarrow> string \<Rightarrow> instant \<Rightarrow> session_state \<Rightarrow> bool" where
  "visible_to_caller args sid now s =
     (snapshot_session sid (owner_transport_of args sid) DEFAULT_SESSION_IDLE_TTL now s \<noteq> None)"

definition escalate_session_tool :: "instant \<Rightarrow> json \<Rightarrow> session_state \<Rightarrow> session_state \<times> session_reply" where
  "escalate_session_tool now args s =
     (case session_id_of args of
        None \<Rightarrow> (s, Refuse SessionRequired)
      | Some sid \<Rightarrow>
          (case Option.bind (get_str args ''reason'') escalation_reason_parse of
             None \<Rightarrow> (s, Refuse InvalidEscalationReason)
           | Some reason \<Rightarrow>
               if \<not> escalate_input (sanitize_reserved_args args) then (s, Refuse InvalidArguments)
               else if (case get_str args ''detail'' of None \<Rightarrow> False | Some d \<Rightarrow> 200 < chars_count d)
               then (s, Refuse InvalidEscalationDetail)
               else if \<not> visible_to_caller args sid now s then (s, Refuse SessionNotStarted)
               else (case escalate_session (is_session_ended s sid) sid reason (get_str args ''detail'') (scopes s) of
                       (reg, Inr st) \<Rightarrow> (s\<lparr>scopes := reg\<rparr>, ScopeState (scope_output st (response_session_label args sid)))
                     | (reg, Inl e) \<Rightarrow> (s\<lparr>scopes := reg\<rparr>, Refuse (EscalationRefused e)))))"

definition get_session_state_tool :: "instant \<Rightarrow> json \<Rightarrow> session_state \<Rightarrow> session_reply" where
  "get_session_state_tool now args s =
     (case session_id_of args of
        None \<Rightarrow> Refuse SessionRequired
      | Some sid \<Rightarrow>
          if \<not> label_input (sanitize_reserved_args args) then Refuse InvalidArguments
          else if \<not> visible_to_caller args sid now s then Refuse SessionNotStarted
          else ScopeState (scope_output
                 (case get_session sid (scopes s) of Some sc \<Rightarrow> sc | None \<Rightarrow> new_capture_scope Auto)
                 (response_session_label args sid)))"

definition get_session_tool :: "session_readers \<Rightarrow> instant \<Rightarrow> json \<Rightarrow> session_state \<Rightarrow> session_reply" where
  "get_session_tool rd now args s =
     (if \<not> label_input (sanitize_reserved_args args) then Refuse InvalidArguments
      else case session_id_of args of
             None \<Rightarrow> Refuse SessionNotStarted
           | Some sid \<Rightarrow>
               (case snapshot_session sid (owner_transport_of args sid) DEFAULT_SESSION_IDLE_TTL now s of
                  None \<Rightarrow> Refuse SessionNotStarted
                | Some n \<Rightarrow> SessionIs (lifecycle_output rd n)))"

definition cursor_offset :: "string \<Rightarrow> nat option" where
  "cursor_offset c = Option.bind (strip_prefix ''o:'' c) (parse_unsigned 10 (2 ^ 64))"

text \<open>The page of a list; the offset of a cursor and the limit are added as machine integers.\<close>

definition list_page :: "'a list \<Rightarrow> nat \<Rightarrow> nat \<Rightarrow> 'a list \<times> nat option" where
  "list_page xs offset limit =
     (let finish = min ((offset + limit) mod 2 ^ 64) (length xs)
      in (if offset \<le> finish then take (finish - offset) (drop offset xs) else [],
          if finish < length xs then Some finish else None))"

definition list_sessions_tool :: "session_readers \<Rightarrow> instant \<Rightarrow> json \<Rightarrow> session_state \<Rightarrow> session_reply" where
  "list_sessions_tool rd now args s =
     (if \<not> list_input (sanitize_reserved_args args) then Refuse InvalidArguments
      else case filled_str args ''_transport_session_id'' of
             None \<Rightarrow> Refuse TransportLeaseRequired
           | Some owner \<Rightarrow>
               (let limit = (case get_u64 args ''limit'' of None \<Rightarrow> 50 | Some n \<Rightarrow> n)
                in if limit = 0 \<or> 100 < limit then Refuse InvalidLimit
                   else case (case get_str args ''cursor'' of None \<Rightarrow> Some 0 | Some c \<Rightarrow> cursor_offset c) of
                          None \<Rightarrow> Refuse InvalidCursor
                        | Some offset \<Rightarrow>
                            (case list_page (list_session_snapshots owner DEFAULT_SESSION_IDLE_TTL now s) offset limit of
                               (page, rest) \<Rightarrow>
                                 Sessions (map (lifecycle_output rd) page)
                                   (map_option (\<lambda>k. ''o:'' @ show_dec k) rest))))"

definition cleanup_after_end :: "string \<Rightarrow> session_state \<Rightarrow> cleanup_report" where
  "cleanup_after_end sid s =
     (if is_session_ended s sid then session_cleanup_status sid s
      else \<lparr>complete = False, in_progress = True, failures = []\<rparr>)"

definition cleanup_label :: "json \<Rightarrow> string \<Rightarrow> string" where
  "cleanup_label args sid = (case public_label_of args of Some l \<Rightarrow> l | None \<Rightarrow> public_session_label sid)"

definition end_session_tool :: "host \<Rightarrow> json \<Rightarrow> session_state \<Rightarrow> session_state \<times> session_reply" where
  "end_session_tool h args s =
     (case session_id_of args of
        None \<Rightarrow> (s, Refuse SessionRequired)
      | Some sid \<Rightarrow>
          if \<not> label_input (sanitize_reserved_args args) then (s, Refuse InvalidArguments)
          else (case end_session_for_owner h sid (owner_transport_of args sid) s of
                  (s1, owned) \<Rightarrow>
                    (let report = cleanup_after_end sid s1;
                         failed = map failed_hook (failures report)
                     in if owned \<and> \<not> complete report
                        then (s1, Refuse (if in_progress report then CleanupPending (cleanup_label args sid) failed
                                          else CleanupPartial (cleanup_label args sid) failed))
                        else (s1, EndedAs (response_session_label args sid)))))"

end
