(* ===== verification/SessionToolsProps.thy ===== *)
theory SessionToolsProps
  imports SessionTools
begin

text \<open>
  What the session tools promise: a session that was started is live and belongs to its caller, a
  stranger can neither see nor end the session of another transport, and the pages of a list show
  every session once.
\<close>

section \<open>Starting\<close>

text \<open>What an activation that succeeded leaves behind.\<close>

lemma activated_session:
  assumes "activate_or_revive_session_for_owner h cur sid label ot impl tr ck ttl now s = (s', Inr revived)"
  shows "(\<exists>r. kv_get (records s') sid = Some r \<and> owner_transport r = ot \<and> pending_end r = None)
    \<and> \<not> is_session_ended s' sid \<and> kv_get (activity s') sid = Some now
    \<and> revived = is_session_ended s sid \<and> scopes s' = scopes s"
proof -
  let ?b = "\<lparr>b_capability = cur, b_label = label, b_owner = ot, b_implicit = impl, b_transport = tr, b_client = ck,
    b_ttl = ttl, b_now = now\<rparr>"
  have "activate_or_revive_op h sid ?b s = (s', Inr revived)"
    using assms by (simp add: activate_or_revive_op_def)
  from activate_or_revive_shape [OF this]
  have "bind_or_revive cur sid label ot impl tr ck ttl now (ready_state h sid s) = Inr (s', revived)" by auto
  note b = bind_or_revive_Inr [OF this]
  then have "revived = kv_has (ended s) sid"
    using tombstone_check_Inr [of "ready_state h sid s" sid ot revived] by simp
  moreover have "scopes (ready_state h sid s) = scopes s" by (simp add: ready_state_def)
  ultimately show ?thesis using b by (auto simp: is_session_ended_def)
qed

lemma settle_scope_read: "settle_scope sid None s =
    (s, Inr (case get_session sid (scopes s) of Some sc \<Rightarrow> sc | None \<Rightarrow> new_capture_scope Auto))"
  by (simp add: settle_scope_def)

lemma settle_scope_bound:
  assumes "\<not> is_session_ended s sid" "\<forall>known. get_session sid (scopes s) = Some known \<longrightarrow> policy known = p"
  shows "\<exists>reg sc. settle_scope sid (Some p) s = (s\<lparr>scopes := reg\<rparr>, Inr sc) \<and> get_session sid reg = Some sc \<and> policy sc = p"
proof (cases "kv_get (scopes s) sid")
  case None
  with assms(1) show ?thesis
    by (intro exI [of _ "kv_put sid (new_capture_scope p) (scopes s)"] exI [of _ "new_capture_scope p"])
      (simp add: settle_scope_def bind_session_def get_session_def Let_def new_capture_scope_def)
next
  case (Some known)
  with assms have "policy known = p" by (simp add: get_session_def)
  with assms(1) Some show ?thesis
    by (intro exI [of _ "scopes s"] exI [of _ known]) (simp add: settle_scope_def bind_session_def get_session_def)
qed

lemma scope_output_fields [simp]:
  "out_session (scope_output sc l) = l" "out_capture_scope (scope_output sc l) = policy sc"
  by (simp_all add: scope_output_def)

lemma activate_started_cases:
  assumes "activate_started h cur now args sid s = (s', reply, notified)"
    and "\<forall>p known. requested_scope args = Some p \<and> get_session sid (scopes s) = Some known \<longrightarrow> policy known = p"
  shows "reply = Refuse SessionUnavailable \<and> notified = []
    \<or> (\<exists>sc r. reply = Started (scope_output sc (response_session_label args sid)) (is_session_ended s sid)
        \<and> kv_get (records s') sid = Some r \<and> owner_transport r = owner_transport_of args sid \<and> pending_end r = None
        \<and> \<not> is_session_ended s' sid \<and> kv_get (activity s') sid = Some now
        \<and> (\<forall>p. requested_scope args = Some p \<longrightarrow> policy sc = p \<and> get_session sid (scopes s') = Some sc)
        \<and> (notified \<noteq> [] \<longrightarrow> is_session_ended s sid))"
proof -
  let ?owner = "owner_transport_of args sid"
  obtain s1 res where a: "activate_or_revive_session_for_owner h cur sid (public_label_of args) ?owner
      (public_label_of args = None) (fst (infer_transport_metadata ?owner)) (snd (infer_transport_metadata ?owner))
      (lifecycle_idle_ttl_of args) now s = (s1, res)" by (metis surj_pair)
  show ?thesis
  proof (cases res)
    case (Inl e)
    with a assms(1) show ?thesis by (simp add: activate_started_def Let_def)
  next
    case (Inr revived)
    note act = activated_session [OF a [unfolded Inr]]
    show ?thesis
    proof (cases "requested_scope args")
      case None
      with a Inr act assms(1) show ?thesis
        by (auto simp: activate_started_def Let_def settle_scope_read split: if_splits)
    next
      case (Some p)
      with assms(2) act have "\<forall>known. get_session sid (scopes s1) = Some known \<longrightarrow> policy known = p" by simp
      from settle_scope_bound [OF _ this] act obtain reg sc where
        bound: "settle_scope sid (Some p) s1 = (s1\<lparr>scopes := reg\<rparr>, Inr sc)" "get_session sid reg = Some sc" "policy sc = p"
        by blast
      have result: "s' = s1\<lparr>scopes := reg\<rparr>" "reply = Started (scope_output sc (response_session_label args sid)) revived"
        "notified \<noteq> [] \<longrightarrow> revived"
        using a Inr Some bound(1) assms(1) by (auto simp: activate_started_def Let_def split: if_splits)
      then show ?thesis
        using act bound Some by (intro disjI2 exI [of _ sc]) (auto simp: is_session_ended_def)
    qed
  qed
qed

lemma start_session_tool_cases:
  obtains (refused) r where "start_session_tool h cur now args s = (s, Refuse r, [])"
      "r \<in> {SessionRequired, InvalidCaptureScope, InvalidArguments} \<or> (\<exists>p q. r = SessionPolicyConflict p q)"
  | (activated) sid where "session_id_of args = Some sid"
      "start_session_tool h cur now args s = activate_started h cur now args sid s"
      "\<forall>p known. requested_scope args = Some p \<and> get_session sid (scopes s) = Some known \<longrightarrow> policy known = p"
proof (cases "session_id_of args")
  case None then show ?thesis by (intro refused [of SessionRequired]) (simp_all add: start_session_tool_def)
next
  case (Some sid)
  let ?valid = "case json_get args ''capture_scope'' of None \<Rightarrow> True | Some v \<Rightarrow> scope_ok_json v"
  let ?typed = "start_input (sanitize_reserved_args args)"
  consider "\<not> ?valid" | "?valid" "\<not> ?typed"
    | p known where "?valid" "?typed" "requested_scope args = Some p" "get_session sid (scopes s) = Some known" "policy known \<noteq> p"
    | "?valid" "?typed" "\<forall>p known. requested_scope args = Some p \<and> get_session sid (scopes s) = Some known \<longrightarrow> policy known = p"
    by blast
  then show ?thesis
  proof cases
    case 1 with Some show ?thesis by (intro refused [of InvalidCaptureScope]) (simp_all add: start_session_tool_def)
  next
    case 2 with Some show ?thesis by (intro refused [of InvalidArguments]) (simp_all add: start_session_tool_def)
  next
    case (3 p known)
    with Some show ?thesis
      by (intro refused [of "SessionPolicyConflict (policy known) p"]) (simp_all add: start_session_tool_def)
  next
    case 4
    with Some show ?thesis
      by (intro activated [of sid])
        (auto simp: start_session_tool_def split: option.splits)
  qed
qed


lemma late_refusals_never_given:
  assumes "start_session_tool h cur now args s = (s', Refuse r, notified)"
  shows "r \<noteq> CouldNotBeRevived" "notified = []"
proof -
  have "r \<noteq> CouldNotBeRevived \<and> notified = []"
  proof (cases h cur now args s rule: start_session_tool_cases)
    case (refused r') with assms show ?thesis by auto
  next
    case (activated sid)
    from assms activated(2) have "activate_started h cur now args sid s = (s', Refuse r, notified)" by simp
    from activate_started_cases [OF this activated(3)] show ?thesis by auto
  qed
  then show "r \<noteq> CouldNotBeRevived" "notified = []" by simp_all
qed


section \<open>Strangers\<close>

text \<open>A live session of another transport, and the state in which it does not exist.\<close>

definition foreign :: "string \<Rightarrow> string \<Rightarrow> session_state \<Rightarrow> bool" where
  "foreign sid ot s =
     ((\<exists>r. kv_get (records s) sid = Some r \<and> owner_transport r \<noteq> ot) \<and> \<not> is_session_ended s sid)"

definition without_session :: "string \<Rightarrow> session_state \<Rightarrow> session_state" where
  "without_session sid s =
     s\<lparr>records := kv_del sid (records s), activity := kv_del sid (activity s), scopes := kv_del sid (scopes s)\<rparr>"

lemma without_session_simps [simp]:
  "records (without_session sid s) = kv_del sid (records s)"
  "activity (without_session sid s) = kv_del sid (activity s)"
  "scopes (without_session sid s) = kv_del sid (scopes s)"
  "ended (without_session sid s) = ended s"
  by (simp_all add: without_session_def)

lemma foreign_not_visible:
  "foreign sid ot s \<Longrightarrow> snapshot_session sid ot ttl now s = None"
  "snapshot_session sid ot ttl now (without_session sid s) = None"
  by (auto simp: foreign_def snapshot_session_def)

lemma snapshot_other: "sid' \<noteq> sid \<Longrightarrow>
    snapshot_session sid' ot ttl now (without_session sid s) = snapshot_session sid' ot ttl now s"
  by (auto simp: snapshot_session_def snapshot_of_def session_idle_duration_def Let_def split: option.split)

lemma foreign_not_listed:
  assumes "session_ok s" "foreign sid ot s"
  shows "list_session_snapshots ot ttl now (without_session sid s) = list_session_snapshots ot ttl now s"
proof -
  let ?own = "\<lambda>e. owner_transport (snd e) = ot"
  from assms(1) have wf: "kv_wf (records s)" by (simp add: session_ok_def tables_ok_def)
  from assms(2) obtain r where r: "kv_get (records s) sid = Some r" "owner_transport r \<noteq> ot" by (auto simp: foreign_def)
  have other: "fst e \<noteq> sid" if "e \<in> set (records s)" "?own e" for e
  proof
    assume "fst e = sid"
    with that(1) have "(sid, snd e) \<in> set (records s)" by (metis prod.collapse)
    with wf have "kv_get (records s) sid = Some (snd e)" by (simp add: kv_wf_def map_of_is_SomeI)
    with r that(2) show False by simp
  qed
  have own: "filter ?own (kv_del sid (records s)) = filter ?own (records s)"
    unfolding kv_del_def filter_filter by (rule filter_cong [OF refl]) (use other in auto)
  have "List.map_filter (\<lambda>e. snapshot_session (snd e) ot ttl now (without_session sid s)) es
      = List.map_filter (\<lambda>e. snapshot_session (snd e) ot ttl now s) es"
    if "\<forall>e \<in> set es. snd e \<noteq> sid" for es :: "(nat \<times> string) list"
    using that by (induction es) (auto simp: map_filter_simps snapshot_other split: option.split)
  with other show ?thesis
    by (auto simp: list_session_snapshots_def Let_def own)
qed

lemma foreign_not_owned:
  "foreign sid ot s \<Longrightarrow> \<not> session_owner_matches sid ot s"
  "\<not> is_session_ended s sid \<Longrightarrow> \<not> session_owner_matches sid ot (without_session sid s)"
  by (auto simp: foreign_def session_owner_matches_def is_session_ended_def kv_has_get)

text \<open>C21. A stranger sees no session. For a live session of another transport, whatever reads, lists, escalates
  or ends it on behalf of a caller answers as it would if the session did not exist, and changes
  nothing; and starting it, no scope being asked for, is refused and changes nothing.\<close>

theorem strangers_see_no_session:
  assumes "session_ok s" "session_id_of args = Some sid" "foreign sid (owner_transport_of args sid) s"
  shows "get_session_tool rd now args s = get_session_tool rd now args (without_session sid s)
    \<and> get_session_state_tool now args s = get_session_state_tool now args (without_session sid s)
    \<and> list_sessions_tool rd now args s = list_sessions_tool rd now args (without_session sid s)
    \<and> escalate_session_tool now args s = (s, snd (escalate_session_tool now args (without_session sid s)))
    \<and> end_session_tool h args s = (s, snd (end_session_tool h args (without_session sid s)))
    \<and> (json_get args ''capture_scope'' = None \<longrightarrow>
         (\<exists>r. start_session_tool h cur now args s = (s, Refuse r, [])))"
proof (intro conjI impI)
  let ?ot = "owner_transport_of args sid"
  note hidden = foreign_not_visible(1) [OF assms(3)] foreign_not_visible(2)
  show "get_session_tool rd now args s = get_session_tool rd now args (without_session sid s)"
    by (simp add: get_session_tool_def assms(2) hidden)
  show "get_session_state_tool now args s = get_session_state_tool now args (without_session sid s)"
    by (simp add: get_session_state_tool_def assms(2) visible_to_caller_def hidden)
  show "escalate_session_tool now args s = (s, snd (escalate_session_tool now args (without_session sid s)))"
    by (simp add: escalate_session_tool_def assms(2) visible_to_caller_def hidden split: option.split)
  have "?ot = owner" if "filled_str args ''_transport_session_id'' = Some owner" for owner
    using that by (simp add: owner_transport_of_def)
  then show "list_sessions_tool rd now args s = list_sessions_tool rd now args (without_session sid s)"
    using foreign_not_listed [OF assms(1,3)] by (auto simp: list_sessions_tool_def Let_def split: option.split)
  have live: "\<not> is_session_ended s sid" using assms(3) by (simp add: foreign_def)
  have "end_session_for_owner h sid ?ot s = (s, False)"
    "end_session_for_owner h sid ?ot (without_session sid s) = (without_session sid s, False)"
    using foreign_not_owned(1) [OF assms(3)] foreign_not_owned(2) [OF live] by (simp_all add: end_session_for_owner_def)
  then show "end_session_tool h args s = (s, snd (end_session_tool h args (without_session sid s)))"
    by (simp add: end_session_tool_def assms(2))
  assume scope: "json_get args ''capture_scope'' = None"
  show "\<exists>r. start_session_tool h cur now args s = (s, Refuse r, [])"
  proof (cases h cur now args s rule: start_session_tool_cases)
    case (refused r) then show ?thesis by blast
  next
    case (activated sid')
    with assms(2) have "sid' = sid" by simp
    moreover have "activate_started h cur now args sid s = (s, Refuse SessionUnavailable, [])"
      using assms(3) live
      by (auto simp: activate_started_def activate_or_revive_session_for_owner_def tombstone_check_def bind_or_revive_def
          foreign_def is_session_ended_def kv_has_get Let_def split: sum.split option.split)
    ultimately show ?thesis using activated(2) by simp
  qed
qed

text \<open>Asking for a scope looks at the session before its owner is checked: the refusal tells a stranger that
  the session exists and which policy it has.\<close>

theorem start_reveals_a_foreign_policy:
  assumes "session_id_of args = Some sid" "foreign sid (owner_transport_of args sid) s"
    and "get_session sid (scopes s) = Some sc" "get_str args ''capture_scope'' = Some v" "capture_scope_parse v = Some p"
    and "start_input (sanitize_reserved_args args)" "policy sc \<noteq> p"
  shows "start_session_tool h cur now args s = (s, Refuse (SessionPolicyConflict (policy sc) p), [])"
proof -
  obtain w where "json_get args ''capture_scope'' = Some w" "as_str w = Some v"
    using assms(4) by (auto simp: get_str_def bind_eq_Some_conv)
  with assms show ?thesis
    by (simp add: start_session_tool_def scope_ok_json_def requested_scope_def)
qed


section \<open>Listing\<close>

definition list_args :: "string \<Rightarrow> nat \<Rightarrow> string option \<Rightarrow> json" where
  "list_args owner limit c =
     JObj ([(''_transport_session_id'', JStr owner), (''limit'', JNum (PosInt limit))]
           @ (case c of None \<Rightarrow> [] | Some t \<Rightarrow> [(''cursor'', JStr t)]))"

text \<open>A caller that follows the cursors.\<close>

inductive lists_on ::
    "session_readers \<Rightarrow> instant \<Rightarrow> session_state \<Rightarrow> string \<Rightarrow> nat \<Rightarrow> string option \<Rightarrow> session_info list list \<Rightarrow> bool"
  for rd now s owner limit where
  last: "list_sessions_tool rd now (list_args owner limit c) s = Sessions page None \<Longrightarrow>
    lists_on rd now s owner limit c [page]"
| more: "list_sessions_tool rd now (list_args owner limit c) s = Sessions page (Some c') \<Longrightarrow>
    lists_on rd now s owner limit (Some c') pages \<Longrightarrow> lists_on rd now s owner limit c (page # pages)"

lemma list_args_typed: "limit \<le> 100 \<Longrightarrow> list_input (sanitize_reserved_args (list_args owner limit c))"
  by (cases c)
    (simp_all add: list_input_def optional_input_def list_args_def sanitize_reserved_args_def kv_retain_def starts_with_def
      optional_arg_def is_u32_def is_text_def)

lemma list_args_call:
  assumes "owner \<noteq> []" "0 < limit" "limit \<le> 100" "k + limit < 2 ^ 64"
    "case c of None \<Rightarrow> k = 0 | Some t \<Rightarrow> t = ''o:'' @ show_dec k"
  shows "list_sessions_tool rd now (list_args owner limit c) s =
    (let xs = list_session_snapshots owner DEFAULT_SESSION_IDLE_TTL now s
     in Sessions (map (lifecycle_output rd) (take limit (drop k xs)))
          (if k + limit < length xs then Some (''o:'' @ show_dec (k + limit)) else None))"
proof -
  let ?xs = "list_session_snapshots owner DEFAULT_SESSION_IDLE_TTL now s"
  have cursor: "cursor_offset (''o:'' @ show_dec k) = Some k"
    using assms(4) by (simp add: cursor_offset_def strip_prefix_def parse_show_dec)
  have page: "list_page ?xs k limit = (take limit (drop k ?xs), if k + limit < length ?xs then Some (k + limit) else None)"
    using assms(4) by (auto simp: list_page_def Let_def min_def)
  note typed = list_args_typed [OF assms(3), of owner c]
  show ?thesis
    using assms typed cursor page
    by (cases c) (simp_all add: list_sessions_tool_def list_args_def filled_str_def json_access Let_def)
qed

text \<open>The pages of a list show every session once. A caller that follows the cursors from the front comes
  to an end, whatever its limit, and has then read exactly the sessions of its own transport, each
  once and in their order.\<close>

theorem list_pages_show_every_session:
  assumes "owner \<noteq> []" "0 < limit" "limit \<le> 100"
    and "length (list_session_snapshots owner DEFAULT_SESSION_IDLE_TTL now s) < 2 ^ 63"
  shows "\<exists>pages. lists_on rd now s owner limit None pages
    \<and> concat pages = map (lifecycle_output rd) (list_session_snapshots owner DEFAULT_SESSION_IDLE_TTL now s)"
proof -
  let ?xs = "list_session_snapshots owner DEFAULT_SESSION_IDLE_TTL now s"
  have "\<exists>pages. lists_on rd now s owner limit c pages \<and> concat pages = map (lifecycle_output rd) (drop k ?xs)"
    if "k \<le> length ?xs" "case c of None \<Rightarrow> k = 0 | Some t \<Rightarrow> t = ''o:'' @ show_dec k" for k c
    using that
  proof (induction "length ?xs - k" arbitrary: k c rule: less_induct)
    case less
    have small: "k + limit < 2 ^ 64" using less.prems(1) assms(3,4) by simp
    note call = list_args_call [OF assms(1-3) small less.prems(2), of rd now s]
    show ?case
    proof (cases "k + limit < length ?xs")
      case False
      with call have "list_sessions_tool rd now (list_args owner limit c) s =
          Sessions (map (lifecycle_output rd) (drop k ?xs)) None" by (simp add: Let_def)
      then show ?thesis by (intro exI conjI, rule last) simp_all
    next
      case True
      with call have page: "list_sessions_tool rd now (list_args owner limit c) s =
          Sessions (map (lifecycle_output rd) (take limit (drop k ?xs))) (Some (''o:'' @ show_dec (k + limit)))"
        by (simp add: Let_def)
      have "length ?xs - (k + limit) < length ?xs - k" using True assms(2) by linarith
      from less.hyps [OF this, of "Some (''o:'' @ show_dec (k + limit))"] True obtain pages where
        rest: "lists_on rd now s owner limit (Some (''o:'' @ show_dec (k + limit))) pages"
        "concat pages = map (lifecycle_output rd) (drop (k + limit) ?xs)" by (auto simp del: append.simps)
      have "drop k ?xs = take limit (drop k ?xs) @ drop (k + limit) ?xs"
        by (metis add.commute append_take_drop_id drop_drop)
      then have "concat (map (lifecycle_output rd) (take limit (drop k ?xs)) # pages) = map (lifecycle_output rd) (drop k ?xs)"
        using rest(2) by (metis concat.simps(2) map_append)
      with more [OF page rest(1)] show ?thesis by blast
    qed
  qed
  from this [of 0 None] show ?thesis by simp
qed

text \<open>An offset near the top of the machine integers wraps around: the page is empty and its cursor leads back
  to the front.\<close>

theorem wrapped_cursor_leads_back:
  assumes "owner \<noteq> []" "50 \<le> length (list_session_snapshots owner DEFAULT_SESSION_IDLE_TTL now s)"
  shows "list_sessions_tool rd now (list_args owner 50 (Some (''o:'' @ show_dec (2 ^ 64 - 1)))) s
    = Sessions [] (Some (''o:'' @ show_dec 49))"
proof -
  have offset: "cursor_offset (''o:'' @ show_dec (2 ^ 64 - 1)) = Some (2 ^ 64 - 1)"
    by (simp add: cursor_offset_def strip_prefix_def parse_show_dec)
  have "list_page (list_session_snapshots owner DEFAULT_SESSION_IDLE_TTL now s) (2 ^ 64 - 1) 50 = ([], Some 49)"
    using assms(2) by (simp add: list_page_def Let_def min_def)
  with assms offset list_args_typed [of 50 owner "Some (''o:'' @ show_dec (2 ^ 64 - 1))"] show ?thesis
    by (simp add: list_sessions_tool_def list_args_def filled_str_def json_access Let_def del: append.simps)
qed


section \<open>Two transports\<close>

definition sample_start :: json where
  "sample_start = JObj [(''session'', JStr ''run''), (''_transport_session_id'', JStr ''mine'')]"

definition sample_state :: session_state where
  "sample_state = fst (start_session_tool quiet_host None 5 sample_start init_session_state)"

lemmas sample_simps = sample_state_def sample_start_def start_session_tool_def session_id_of_def usable_label_def json_access
  start_input_def optional_input_def sanitize_reserved_args_def kv_retain_def starts_with_def optional_arg_def
  is_text_def requested_scope_def activate_started_def owner_transport_of_def filled_str_def public_label_of_def
  activate_or_revive_session_for_owner_def is_trackable_def tombstone_check_def bind_or_revive_def admission_def
  fresh_record_def init_session_state_def settle_scope_def get_session_def Let_def lifecycle_idle_ttl_of_def


definition stranger_args :: json where
  "stranger_args = JObj [(''session'', JStr ''run''), (''_transport_session_id'', JStr ''other'')]"

theorem strangers_see_no_session_witness:
  "end_session_tool quiet_host stranger_args sample_state = (sample_state, EndedAs ''run'')"
proof -
  have "session_ok sample_state"
    by (simp add: sample_simps session_ok_defs kv_wf_def record_ok_def kv_has_def)
  moreover have "session_id_of stranger_args = Some ''run''" "owner_transport_of stranger_args ''run'' = ''other''"
    by (simp_all add: stranger_args_def session_id_of_def usable_label_def json_access owner_transport_of_def filled_str_def)
  moreover have "foreign ''run'' ''other'' sample_state"
    by (simp add: foreign_def sample_simps is_session_ended_def kv_has_def)
  moreover have "snd (end_session_tool quiet_host stranger_args (without_session ''run'' sample_state)) = EndedAs ''run''"
    by (simp add: end_session_tool_def stranger_args_def session_id_of_def usable_label_def json_access owner_transport_of_def
        filled_str_def label_input_def optional_input_def sanitize_reserved_args_def kv_retain_def starts_with_def
        optional_arg_def is_text_def end_session_for_owner_def session_owner_matches_def sample_state_def sample_simps
        response_session_label_def public_label_of_def public_session_label_def strip_prefix_def)
  ultimately show ?thesis
    using strangers_see_no_session [of sample_state stranger_args "''run''" undefined 0 quiet_host None] by simp
qed

theorem list_pages_show_every_session_witness:
  "\<exists>pages. lists_on \<lparr>rd_cursor_visible = \<lambda>_. False, rd_recording_active = \<lambda>_. False\<rparr> 9 sample_state ''mine'' 1 None pages
     \<and> length (concat pages) = 1"
proof -
  have one: "length (list_session_snapshots ''mine'' DEFAULT_SESSION_IDLE_TTL 9 sample_state) = 1"
    by (simp add: list_session_snapshots_def sample_simps snapshot_session_def map_filter_simps)
  from list_pages_show_every_session [of "''mine''" 1 9 sample_state] one obtain pages where
    "lists_on \<lparr>rd_cursor_visible = \<lambda>_. False, rd_recording_active = \<lambda>_. False\<rparr> 9 sample_state ''mine'' 1 None pages"
    "concat pages = map (lifecycle_output \<lparr>rd_cursor_visible = \<lambda>_. False, rd_recording_active = \<lambda>_. False\<rparr>)
       (list_session_snapshots ''mine'' DEFAULT_SESSION_IDLE_TTL 9 sample_state)" by force
  with one show ?thesis by (metis length_map)
qed

end
