(* ===== verification/DesktopAuthority.thy ===== *)
theory DesktopAuthority
  imports Prelude "HOL-Library.Word"
begin

text \<open>
  \<open>desktop_authority.rs\<close>: the one lease under which calls touch the physical desktop. A mutation
  advances an epoch, an observation remembers it, and the mutation that follows may consume it. A
  cleanup that could not be confirmed closes the desktop for good. \<open>acquire\<close> is an async function
  over a fair mutex; its critical sections are the operations below, and a run interleaves them.
\<close>

section \<open>Leases\<close>

record desktop_lease =
  dl_before :: "64 word"
  dl_epoch :: "64 word"
  dl_mutation :: bool

text \<open>The mutex: free, handed to a caller that has not looked at the epoch yet, or kept by a lease,
  which is named by its place among the granted ones.\<close>

datatype desktop_lock = Unlocked | Entering nat bool | HeldBy nat

text \<open>The callers that wait for the mutex are in the order they came; \<open>da_notified\<close> are the ones a
  notification has reached.\<close>

record desktop_authority =
  da_epoch :: "64 word"
  da_cleanup_unknown :: bool
  da_lock :: desktop_lock
  da_waiting :: "(nat \<times> bool) list"
  da_notified :: "nat set"
  da_granted :: "desktop_lease list"
  da_refused :: "nat list"

definition new_authority :: desktop_authority where
  "new_authority = \<lparr>da_epoch = 0, da_cleanup_unknown = False, da_lock = Unlocked, da_waiting = [],
     da_notified = {}, da_granted = [], da_refused = []\<rparr>"

definition is_current :: "desktop_authority \<Rightarrow> desktop_lease \<Rightarrow> bool" where
  "is_current s l = (\<not> da_cleanup_unknown s \<and> da_epoch s = dl_epoch l)"

definition observation_epoch :: "desktop_authority \<Rightarrow> desktop_lease \<Rightarrow> 64 word option" where
  "observation_epoch s l = (if \<not> dl_mutation l \<and> is_current s l then Some (dl_epoch l) else None)"

definition admits_observation :: "desktop_authority \<Rightarrow> desktop_lease \<Rightarrow> 64 word \<Rightarrow> bool" where
  "admits_observation s l observed = (dl_mutation l \<and> is_current s l \<and> dl_before l = observed)"

definition mark_cleanup_unknown :: "desktop_authority \<Rightarrow> desktop_authority" where
  "mark_cleanup_unknown s =
     s\<lparr>da_cleanup_unknown := True, da_notified := da_notified s \<union> fst ` set (da_waiting s)\<rparr>"


section \<open>Acquiring\<close>

definition refuse_caller :: "nat \<Rightarrow> desktop_authority \<Rightarrow> desktop_authority" where
  "refuse_caller t s = s\<lparr>da_refused := da_refused s @ [t]\<rparr>"

text \<open>Up to the mutex: the flag is read, then the mutex is taken if it is free.\<close>

definition call_acquire :: "nat \<Rightarrow> bool \<Rightarrow> desktop_authority \<Rightarrow> desktop_authority" where
  "call_acquire t mutation s =
     (if da_cleanup_unknown s then refuse_caller t s
      else if da_lock s = Unlocked then s\<lparr>da_lock := Entering t mutation\<rparr>
      else s\<lparr>da_waiting := da_waiting s @ [(t, mutation)], da_notified := da_notified s - {t}\<rparr>)"

text \<open>The mutex is given to the caller that waits longest.\<close>

definition unlock :: "desktop_authority \<Rightarrow> desktop_authority" where
  "unlock s =
     (case da_waiting s of
        [] \<Rightarrow> s\<lparr>da_lock := Unlocked\<rparr>
      | (t, mutation) # rest \<Rightarrow> s\<lparr>da_lock := Entering t mutation, da_waiting := rest\<rparr>)"

definition checked_next :: "64 word \<Rightarrow> 64 word option" where
  "checked_next e = (if e = - 1 then None else Some (e + 1))"

definition grant_lease :: "64 word \<Rightarrow> bool \<Rightarrow> desktop_authority \<Rightarrow> desktop_authority" where
  "grant_lease e mutation s =
     s\<lparr>da_epoch := e, da_lock := HeldBy (length (da_granted s)),
       da_granted := da_granted s @ [\<lparr>dl_before = da_epoch s, dl_epoch = e, dl_mutation = mutation\<rparr>]\<rparr>"

text \<open>Below the mutex.\<close>

definition enter :: "nat \<Rightarrow> bool \<Rightarrow> desktop_authority \<Rightarrow> desktop_authority" where
  "enter t mutation s =
     (if da_cleanup_unknown s then refuse_caller t (unlock s)
      else if \<not> mutation then grant_lease (da_epoch s) False s
      else case checked_next (da_epoch s) of
             None \<Rightarrow> refuse_caller t (unlock (mark_cleanup_unknown s))
           | Some e \<Rightarrow> grant_lease e True s)"

text \<open>A waiting caller leaves the queue: it was notified, or its call was cancelled.\<close>

definition leave_queue :: "nat \<Rightarrow> desktop_authority \<Rightarrow> desktop_authority" where
  "leave_queue t s = s\<lparr>da_waiting := filter (\<lambda>w. fst w \<noteq> t) (da_waiting s)\<rparr>"

inductive desktop_step :: "desktop_authority \<Rightarrow> desktop_authority \<Rightarrow> bool" where
  called: "t \<notin> fst ` set (da_waiting s) \<Longrightarrow> desktop_step s (call_acquire t mutation s)"
| entered: "da_lock s = Entering t mutation \<Longrightarrow> desktop_step s (enter t mutation s)"
| notified: "t \<in> fst ` set (da_waiting s) \<Longrightarrow> t \<in> da_notified s \<Longrightarrow>
    desktop_step s (refuse_caller t (leave_queue t s))"
| cancelled: "desktop_step s (leave_queue t s)"
| abandoned: "da_lock s = Entering t mutation \<Longrightarrow> desktop_step s (unlock s)"
| dropped: "da_lock s = HeldBy k \<Longrightarrow> desktop_step s (unlock s)"
| unconfirmed: "l \<in> set (da_granted s) \<Longrightarrow> desktop_step s (mark_cleanup_unknown s)"

inductive desktop_run :: "desktop_authority \<Rightarrow> desktop_authority \<Rightarrow> bool" where
  stay: "desktop_run s s"
| further: "desktop_run s s' \<Longrightarrow> desktop_step s' s'' \<Longrightarrow> desktop_run s s''"

lemmas critical_sections = call_acquire_def enter_def unlock_def leave_queue_def refuse_caller_def
  mark_cleanup_unknown_def grant_lease_def


section \<open>Epochs count mutations\<close>

definition mutations_in :: "desktop_lease list \<Rightarrow> nat \<Rightarrow> nat" where
  "mutations_in ls k = length (filter dl_mutation (take k ls))"

lemma mutations_in_append: "k \<le> length ls \<Longrightarrow> mutations_in (ls @ later) k = mutations_in ls k"
  by (simp add: mutations_in_def)

lemma mutations_in_Suc: "k < length ls \<Longrightarrow> mutations_in ls (Suc k) = mutations_in ls k + (if dl_mutation (ls ! k) then 1 else 0)"
  by (simp add: mutations_in_def take_Suc_conv_app_nth)

lemma mutations_in_mono: "a \<le> b \<Longrightarrow> mutations_in ls a \<le> mutations_in ls b"
proof -
  assume "a \<le> b"
  then obtain d where b: "b = a + d" by (metis le_add_diff_inverse)
  show ?thesis unfolding b mutations_in_def take_add by simp
qed

lemma mutations_in_eq:
  assumes "a \<le> b" "b \<le> length ls"
  shows "mutations_in ls a = mutations_in ls b \<longleftrightarrow> (\<forall>k. a \<le> k \<and> k < b \<longrightarrow> \<not> dl_mutation (ls ! k))"
  using assms
proof (induction b)
  case (Suc b)
  show ?case
  proof (cases "a = Suc b")
    case False
    with Suc have ab: "a \<le> b" "b < length ls" by simp_all
    have "mutations_in ls a \<le> mutations_in ls b" using ab by (simp add: mutations_in_mono)
    with Suc.IH ab show ?thesis
      by (auto simp: mutations_in_Suc less_Suc_eq)
  qed auto
qed simp

definition lease_counts :: "desktop_lease list \<Rightarrow> bool" where
  "lease_counts ls = (\<forall>k < length ls. unat (dl_before (ls ! k)) = mutations_in ls k
     \<and> unat (dl_epoch (ls ! k)) = mutations_in ls (Suc k))"

definition desktop_ok :: "desktop_authority \<Rightarrow> bool" where
  "desktop_ok s =
     (lease_counts (da_granted s)
      \<and> unat (da_epoch s) = mutations_in (da_granted s) (length (da_granted s))
      \<and> (\<forall>k. da_lock s = HeldBy k \<longrightarrow> Suc k = length (da_granted s))
      \<and> (da_cleanup_unknown s \<longrightarrow> (\<forall>w \<in> set (da_waiting s). fst w \<in> da_notified s)))"

lemma checked_next_Some: "checked_next e = Some e' \<longleftrightarrow> e \<noteq> - 1 \<and> e' = e + 1"
  by (auto simp: checked_next_def)

lemma unat_checked_next: "checked_next e = Some e' \<Longrightarrow> unat e' = Suc (unat e)"
  using unatSuc [of e] by (auto simp: checked_next_Some add.commute eq_neg_iff_add_eq_0)

lemma lease_counts_snoc:
  "lease_counts (ls @ [l]) \<longleftrightarrow> lease_counts ls \<and> unat (dl_before l) = mutations_in ls (length ls)
     \<and> unat (dl_epoch l) = mutations_in (ls @ [l]) (Suc (length ls))"
  unfolding lease_counts_def
  by (simp add: All_less_Suc nth_append mutations_in_append conj_ac Suc_le_eq cong: conj_cong)

lemma grant_lease_ok:
  assumes "desktop_ok s" "\<not> da_cleanup_unknown s"
    "unat e = unat (da_epoch s) + (if mutation then 1 else 0)"
  shows "desktop_ok (grant_lease e mutation s)"
proof -
  let ?new = "\<lparr>dl_before = da_epoch s, dl_epoch = e, dl_mutation = mutation\<rparr>"
  have "mutations_in (da_granted s @ [?new]) (Suc (length (da_granted s))) = unat e"
    using assms by (simp add: mutations_in_Suc mutations_in_append desktop_ok_def)
  with assms(1,2) show ?thesis
    by (simp add: desktop_ok_def grant_lease_def lease_counts_snoc)
qed

lemma unlock_ok: "desktop_ok s \<Longrightarrow> desktop_ok (unlock s)"
  by (auto simp: desktop_ok_def unlock_def split: list.splits)

lemma mark_ok: "desktop_ok s \<Longrightarrow> desktop_ok (mark_cleanup_unknown s)"
  by (auto simp: desktop_ok_def mark_cleanup_unknown_def)

lemma refuse_ok: "desktop_ok (refuse_caller t s) = desktop_ok s"
  by (simp add: desktop_ok_def refuse_caller_def)

lemma leave_ok: "desktop_ok s \<Longrightarrow> desktop_ok (leave_queue t s)"
  by (auto simp: desktop_ok_def leave_queue_def)

lemma enter_ok: "desktop_ok s \<Longrightarrow> desktop_ok (enter t mutation s)"
  by (auto simp: enter_def refuse_ok unlock_ok mark_ok unat_checked_next intro!: grant_lease_ok split: option.splits)

lemma call_ok: "desktop_ok s \<Longrightarrow> desktop_ok (call_acquire t mutation s)"
  by (auto simp: call_acquire_def refuse_ok) (auto simp: desktop_ok_def)

lemma desktop_step_ok: "desktop_step s s' \<Longrightarrow> desktop_ok s \<Longrightarrow> desktop_ok s'"
  by (cases rule: desktop_step.cases) (auto simp: enter_ok call_ok unlock_ok mark_ok leave_ok refuse_ok)

lemma desktop_run_ok: "desktop_run s s' \<Longrightarrow> desktop_ok s \<Longrightarrow> desktop_ok s'"
  by (induction rule: desktop_run.induct) (auto intro: desktop_step_ok)

lemma new_authority_ok [simp]: "desktop_ok new_authority"
  by (simp add: desktop_ok_def new_authority_def lease_counts_def mutations_in_def)


section \<open>What a lease may do\<close>

lemma only_one_between:
  fixes i j n :: nat
  assumes "i < j" "j < n"
  shows "(\<forall>k < n. i < k \<and> k \<noteq> j \<longrightarrow> \<not> P k)
    \<longleftrightarrow> (\<forall>k < n. j < k \<longrightarrow> \<not> P k) \<and> (\<forall>k. i < k \<and> k < j \<longrightarrow> \<not> P k)"
proof -
  have "k < n \<and> i < k \<and> k \<noteq> j \<longleftrightarrow> k < n \<and> j < k \<or> i < k \<and> k < j" for k
    using assms by auto
  then show ?thesis by blast
qed

text \<open>C31. An observation is consumed only by the next mutation. After any run, a lease may act on what an
  earlier observation saw exactly if it is a mutation, no cleanup is in doubt, and it is the only
  mutation granted since that observation: whatever else touched the desktop in between, or has
  touched it since, takes the observation away. The epochs never wrap around.\<close>

theorem observation_consumed_by_next_mutation:
  assumes "desktop_run new_authority s" "i < length (da_granted s)" "j < length (da_granted s)"
    and "\<not> dl_mutation (da_granted s ! i)"
  shows "admits_observation s (da_granted s ! j) (dl_epoch (da_granted s ! i)) \<longleftrightarrow>
    \<not> da_cleanup_unknown s \<and> i < j \<and> dl_mutation (da_granted s ! j)
    \<and> (\<forall>k < length (da_granted s). i < k \<and> k \<noteq> j \<longrightarrow> \<not> dl_mutation (da_granted s ! k))"
proof -
  let ?g = "da_granted s" and ?m = "mutations_in (da_granted s)"
  from assms(1) have ok: "desktop_ok s" by (rule desktop_run_ok) simp
  with assms(2,3) have counts: "unat (dl_before (?g ! j)) = ?m j" "unat (dl_epoch (?g ! j)) = ?m (Suc j)"
    "unat (dl_epoch (?g ! i)) = ?m (Suc i)" "unat (da_epoch s) = ?m (length ?g)"
    by (simp_all add: desktop_ok_def lease_counts_def)
  have "dl_before (?g ! j) = dl_epoch (?g ! i) \<longleftrightarrow> ?m (Suc i) = ?m j"
    "da_epoch s = dl_epoch (?g ! j) \<longleftrightarrow> ?m (Suc j) = ?m (length ?g)"
    unfolding word_unat_eq_iff counts by (rule eq_commute)+
  then have admits: "admits_observation s (?g ! j) (dl_epoch (?g ! i)) \<longleftrightarrow>
      \<not> da_cleanup_unknown s \<and> dl_mutation (?g ! j) \<and> ?m (Suc j) = ?m (length ?g) \<and> ?m (Suc i) = ?m j"
    by (simp only: admits_observation_def is_current_def) blast
  have late: "?m (Suc j) = ?m (length ?g) \<longleftrightarrow> (\<forall>k < length ?g. j < k \<longrightarrow> \<not> dl_mutation (?g ! k))"
    using assms(3) by (subst mutations_in_eq) (simp_all add: Suc_le_eq conj_commute imp_conjL, blast)
  have early: "?m (Suc i) = ?m j \<longleftrightarrow> (\<forall>k. i < k \<and> k < j \<longrightarrow> \<not> dl_mutation (?g ! k))" if "i < j"
    using assms(3) that by (subst mutations_in_eq) (auto simp: Suc_le_eq)
  have "?m (Suc i) \<noteq> ?m j" if "\<not> i < j" "dl_mutation (?g ! j)"
    using that assms(3) mutations_in_mono [of "Suc j" "Suc i" ?g] by (simp add: mutations_in_Suc)
  with admits have "admits_observation s (?g ! j) (dl_epoch (?g ! i)) \<longleftrightarrow>
      \<not> da_cleanup_unknown s \<and> i < j \<and> dl_mutation (?g ! j) \<and> ?m (Suc j) = ?m (length ?g) \<and> ?m (Suc i) = ?m j"
    by blast
  with late early only_one_between [OF _ assms(3), of i "\<lambda>k. dl_mutation (?g ! k)"] show ?thesis
    by (cases "i < j") simp_all
qed

text \<open>A cleanup in doubt closes the desktop for good. Once one is marked, no run grants another
  lease, no lease is current, so none may act or observe, and every caller that waits for the
  mutex has been notified, so it can be refused without the lease being returned.\<close>

theorem unconfirmed_cleanup_is_final:
  assumes "desktop_run new_authority s" "da_cleanup_unknown s" "desktop_run s s'"
  shows "da_granted s' = da_granted s \<and> da_cleanup_unknown s'
    \<and> (\<forall>l. \<not> is_current s' l) \<and> (\<forall>w \<in> set (da_waiting s'). fst w \<in> da_notified s')"
proof -
  from assms(3,2) have *: "da_granted s' = da_granted s \<and> da_cleanup_unknown s'"
  proof (induction rule: desktop_run.induct)
    case (further s s' s'')
    from further(2) further.IH [OF further.prems] show ?case
      by (cases rule: desktop_step.cases) (auto simp: critical_sections split: list.splits option.splits)
  qed simp
  have "desktop_ok s'" using desktop_run_ok [OF assms(3)] desktop_run_ok [OF assms(1)] by simp
  with * show ?thesis by (auto simp: is_current_def desktop_ok_def)
qed


section \<open>An observation and the mutation that consumes it\<close>

definition sample_desktop :: desktop_authority where
  "sample_desktop =
     enter 2 True (call_acquire 2 True (unlock (enter 1 False (call_acquire 1 False new_authority))))"

lemma sample_granted:
  "sample_desktop = \<lparr>da_epoch = 1, da_cleanup_unknown = False, da_lock = HeldBy 1, da_waiting = [], da_notified = {},
     da_granted = [\<lparr>dl_before = 0, dl_epoch = 0, dl_mutation = False\<rparr>, \<lparr>dl_before = 0, dl_epoch = 1, dl_mutation = True\<rparr>],
     da_refused = []\<rparr>"
  by (simp add: sample_desktop_def new_authority_def critical_sections checked_next_def)

lemma sample_run: "desktop_run new_authority sample_desktop"
proof -
  let ?a = "call_acquire 1 False new_authority"
  let ?b = "enter 1 False ?a"
  let ?c = "unlock ?b"
  let ?d = "call_acquire 2 True ?c"
  have "desktop_step new_authority ?a" by (rule called) (simp add: new_authority_def)
  moreover have "desktop_step ?a ?b" by (rule entered) (simp add: new_authority_def call_acquire_def)
  moreover have "desktop_step ?b ?c" by (rule dropped [of _ 0]) (simp add: new_authority_def critical_sections)
  moreover have "desktop_step ?c ?d" by (rule called) (simp add: new_authority_def critical_sections)
  moreover have "desktop_step ?d sample_desktop" unfolding sample_desktop_def
    by (rule entered) (simp add: new_authority_def critical_sections)
  ultimately show ?thesis by (meson stay further)
qed

theorem observation_consumed_by_next_mutation_witness:
  "admits_observation sample_desktop (da_granted sample_desktop ! 1) (dl_epoch (da_granted sample_desktop ! 0))"
  using observation_consumed_by_next_mutation [OF sample_run, of 0 1]
  by (simp add: sample_granted less_Suc_eq)

end
