(* ===== verification/RecordingTimeline.thy ===== *)
theory RecordingTimeline
  imports Prelude Complex_Main
begin

text \<open>
  \<open>recording_zoom.rs\<close>: the arithmetic of a rendered recording. Clicks become zoom regions, actions
  become spans, a curve gives the zoom and the focus at every moment, and the time of the input is
  mapped to the time of the output. Times and lengths are rationals instead of doubles, so nothing
  rounds and there is no NaN: every comparison decides.
\<close>

section \<open>Arithmetic\<close>

definition clamp01 :: "rat \<Rightarrow> rat" where
  "clamp01 v = max 0 (min 1 v)"

definition lerp :: "rat \<Rightarrow> rat \<Rightarrow> rat \<Rightarrow> rat" where
  "lerp a b amount = a + (b - a) * amount"

definition sample_bezier_1d :: "rat \<Rightarrow> rat \<Rightarrow> rat \<Rightarrow> rat" where
  "sample_bezier_1d a1 a2 t = (let u = 1 - t in 3 * a1 * u * u * t + 3 * a2 * u * t * t + t * t * t)"

definition sample_bezier_1d_derivative :: "rat \<Rightarrow> rat \<Rightarrow> rat \<Rightarrow> rat" where
  "sample_bezier_1d_derivative a1 a2 t =
     (let u = 1 - t in 3 * a1 * u * u + 6 * (a2 - a1) * u * t + 3 * (1 - a2) * t * t)"

definition TOLERANCE :: rat where "TOLERANCE = 1 / 1000000"

text \<open>The rounds of the two loops that are left; a \<open>break\<close> ends the recursion.\<close>

fun newton_rounds :: "nat \<Rightarrow> rat \<Rightarrow> rat \<Rightarrow> rat \<Rightarrow> rat \<Rightarrow> rat" where
  "newton_rounds 0 x1 x2 target s = s"
| "newton_rounds (Suc n) x1 x2 target s =
     (let residual = sample_bezier_1d x1 x2 s - target;
          slope = sample_bezier_1d_derivative x1 x2 s
      in if \<bar>residual\<bar> < TOLERANCE then s
         else if \<bar>slope\<bar> < TOLERANCE then s
         else newton_rounds n x1 x2 target (s - residual / slope))"

fun bisect_rounds :: "nat \<Rightarrow> rat \<Rightarrow> rat \<Rightarrow> rat \<Rightarrow> rat \<Rightarrow> rat \<Rightarrow> rat \<Rightarrow> rat" where
  "bisect_rounds 0 x1 x2 target lower upper s = s"
| "bisect_rounds (Suc n) x1 x2 target lower upper s =
     (let x = sample_bezier_1d x1 x2 s
      in if \<bar>x - target\<bar> < TOLERANCE then s
         else if x < target then bisect_rounds n x1 x2 target s upper ((s + upper) / 2)
         else bisect_rounds n x1 x2 target lower s ((lower + s) / 2))"

definition cubic_bezier :: "rat \<Rightarrow> rat \<Rightarrow> rat \<Rightarrow> rat \<Rightarrow> rat \<Rightarrow> rat" where
  "cubic_bezier x1 y1 x2 y2 t =
     (let target = clamp01 t;
          s = clamp01 (newton_rounds 8 x1 x2 target target)
      in sample_bezier_1d y1 y2 (bisect_rounds 10 x1 x2 target 0 1 s))"


section \<open>Data\<close>

definition TRANSITION_WINDOW_MS :: rat where "TRANSITION_WINDOW_MS = 101505 / 100"
definition ZOOM_IN_WINDOW_MS :: rat where "ZOOM_IN_WINDOW_MS = 1522575 / 1000"
definition CHAINED_ZOOM_PAN_GAP_MS :: rat where "CHAINED_ZOOM_PAN_GAP_MS = 1500"
definition PRE_CLICK_LEAD_IN_MS :: rat where "PRE_CLICK_LEAD_IN_MS = 600"
definition POST_CLICK_HOLD_MS :: rat where "POST_CLICK_HOLD_MS = 1500"
definition ACTION_PAD_MS :: rat where "ACTION_PAD_MS = 500"
definition ACTION_FAST_SPEED :: rat where "ACTION_FAST_SPEED = 8"
definition ACTION_MERGE_GAP_MS :: rat where "ACTION_MERGE_GAP_MS = 5000"

text \<open>A click, a cursor sample and a waypoint of the focus have the same three fields.\<close>

record timed_point =
  tp_ms :: rat
  tp_x :: rat
  tp_y :: rat

record zoom_region =
  zr_start :: rat
  zr_end :: rat
  zr_focus_x :: rat
  zr_focus_y :: rat
  zr_scale :: rat
  zr_zoom_in :: rat
  zr_zoom_out :: rat
  zr_waypoints :: "timed_point list option"

record window_bounds =
  wb_x :: rat
  wb_y :: rat
  wb_width :: rat
  wb_height :: rat

record action_span =
  as_start :: rat
  as_end :: rat
  as_window_bounds :: "window_bounds option"
  as_click_point :: "(rat \<times> rat) option"
  as_focus_waypoints :: "timed_point list option"

definition effective_durations :: "zoom_region \<Rightarrow> rat \<times> rat" where
  "effective_durations r =
     (let duration = max (zr_end r - zr_start r) 0;
          combined = zr_zoom_in r + zr_zoom_out r
      in if duration < combined \<and> 0 < combined
         then (zr_zoom_in r * (duration / combined), zr_zoom_out r * (duration / combined))
         else (zr_zoom_in r, zr_zoom_out r))"


section \<open>Zoom regions\<close>

definition region_of_click :: "rat \<Rightarrow> timed_point \<Rightarrow> zoom_region" where
  "region_of_click scale c =
     \<lparr>zr_start = tp_ms c - PRE_CLICK_LEAD_IN_MS, zr_end = tp_ms c + POST_CLICK_HOLD_MS,
      zr_focus_x = tp_x c, zr_focus_y = tp_y c, zr_scale = scale,
      zr_zoom_in = ZOOM_IN_WINDOW_MS, zr_zoom_out = TRANSITION_WINDOW_MS, zr_waypoints = None\<rparr>"

text \<open>The waypoints of a region, its own click when it has no list yet.\<close>

definition waypoints_or_click :: "zoom_region \<Rightarrow> timed_point list" where
  "waypoints_or_click r =
     (case zr_waypoints r of
        Some ws \<Rightarrow> ws
      | None \<Rightarrow> [\<lparr>tp_ms = zr_start r + PRE_CLICK_LEAD_IN_MS, tp_x = zr_focus_x r, tp_y = zr_focus_y r\<rparr>])"

definition chain_click :: "rat \<Rightarrow> timed_point \<Rightarrow> zoom_region \<Rightarrow> zoom_region" where
  "chain_click scale c r =
     r\<lparr>zr_end := tp_ms c + POST_CLICK_HOLD_MS, zr_zoom_out := TRANSITION_WINDOW_MS,
       zr_scale := max (zr_scale r) scale, zr_waypoints := Some (waypoints_or_click r @ [c])\<rparr>"

definition add_click :: "rat \<Rightarrow> zoom_region list \<Rightarrow> timed_point \<Rightarrow> zoom_region list" where
  "add_click scale out c =
     (if out \<noteq> [] \<and> tp_ms c - PRE_CLICK_LEAD_IN_MS - zr_end (last out) < CHAINED_ZOOM_PAN_GAP_MS
      then butlast out @ [chain_click scale c (last out)]
      else out @ [region_of_click scale c])"

definition generate_zoom_regions :: "timed_point list \<Rightarrow> rat \<Rightarrow> zoom_region list" where
  "generate_zoom_regions clicks scale = foldl (add_click scale) [] (sort_key tp_ms clicks)"


section \<open>The cursor\<close>

text \<open>The binary search: the last sample that is not after the time, if the search starts around it.\<close>

function bracket :: "rat \<Rightarrow> timed_point list \<Rightarrow> nat \<Rightarrow> nat \<Rightarrow> nat \<times> nat" where
  "bracket t samples lo hi =
     (if 1 < hi - lo
      then (let mid = (lo + hi) div 2
            in if tp_ms (samples ! mid) \<le> t then bracket t samples mid hi else bracket t samples lo mid)
      else (lo, hi))"
  by pat_completeness auto
termination
  by (relation "measure (\<lambda>(t, samples, lo, hi). hi - lo)") auto

declare bracket.simps [simp del]

definition between_samples :: "rat \<Rightarrow> timed_point \<Rightarrow> timed_point \<Rightarrow> rat \<times> rat" where
  "between_samples t before after =
     (let span = tp_ms after - tp_ms before;
          u = (if 0 < span then (t - tp_ms before) / span else 0)
      in (lerp (tp_x before) (tp_x after) u, lerp (tp_y before) (tp_y after) u))"

definition position_at :: "rat \<Rightarrow> timed_point list \<Rightarrow> (rat \<times> rat) option" where
  "position_at t samples =
     (if samples = [] then None
      else if t \<le> tp_ms (hd samples) then Some (tp_x (hd samples), tp_y (hd samples))
      else if tp_ms (last samples) \<le> t then Some (tp_x (last samples), tp_y (last samples))
      else (case bracket t samples 0 (length samples - 1) of
              (lo, hi) \<Rightarrow> Some (between_samples t (samples ! lo) (samples ! hi))))"


section \<open>The curve\<close>

definition pan_between :: "rat \<Rightarrow> timed_point \<Rightarrow> timed_point \<Rightarrow> rat \<times> rat" where
  "pan_between t a b =
     (let span = max (tp_ms b - tp_ms a) TOLERANCE;
          local = clamp01 ((t - tp_ms a) / span);
          eased = cubic_bezier (1 / 10) 0 (2 / 10) 1 local
      in (lerp (tp_x a) (tp_x b) eased, lerp (tp_y a) (tp_y b) eased))"

text \<open>The walk over adjacent waypoints.\<close>

fun pan_along :: "rat \<Rightarrow> timed_point list \<Rightarrow> (rat \<times> rat) option" where
  "pan_along t (a # b # rest) =
     (if t < tp_ms a \<or> tp_ms b < t then pan_along t (b # rest) else Some (pan_between t a b))"
| "pan_along t _ = None"

definition resolve_focus :: "rat \<Rightarrow> zoom_region \<Rightarrow> rat \<times> rat" where
  "resolve_focus t r =
     (case zr_waypoints r of
        None \<Rightarrow> (zr_focus_x r, zr_focus_y r)
      | Some ws \<Rightarrow>
          if ws = [] then (zr_focus_x r, zr_focus_y r)
          else if length ws = 1 \<or> t \<le> tp_ms (hd ws) then (tp_x (hd ws), tp_y (hd ws))
          else if tp_ms (last ws) \<le> t then (tp_x (last ws), tp_y (last ws))
          else (case pan_along t ws of None \<Rightarrow> (zr_focus_x r, zr_focus_y r) | Some p \<Rightarrow> p))"

definition phase_progress :: "rat \<Rightarrow> zoom_region \<Rightarrow> rat" where
  "phase_progress t r =
     (case effective_durations r of
        (zoom_in, zoom_out) \<Rightarrow>
          if t < zr_start r + zoom_in
          then cubic_bezier (16 / 100) 1 (3 / 10) 1 (clamp01 ((t - zr_start r) / max zoom_in TOLERANCE))
          else if zr_end r - zoom_out < t
          then cubic_bezier (16 / 100) 1 (3 / 10) 1 (clamp01 ((zr_end r - t) / max zoom_out TOLERANCE))
          else 1)"

definition sample_curve :: "rat \<Rightarrow> zoom_region list \<Rightarrow> timed_point list \<Rightarrow> rat \<times> rat \<times> rat" where
  "sample_curve t regions cursor =
     (case find (\<lambda>r. zr_start r \<le> t \<and> t \<le> zr_end r) regions of
        None \<Rightarrow> (case position_at t cursor of Some (x, y) \<Rightarrow> (1, x, y) | None \<Rightarrow> (1, 0, 0))
      | Some r \<Rightarrow>
          (case resolve_focus t r of (x, y) \<Rightarrow> (lerp 1 (zr_scale r) (phase_progress t r), x, y)))"


section \<open>Action spans\<close>

definition pad_span :: "action_span \<Rightarrow> action_span" where
  "pad_span s = s\<lparr>as_start := max (as_start s - ACTION_PAD_MS) 0, as_end := as_end s + ACTION_PAD_MS,
     as_focus_waypoints := None\<rparr>"

definition focus_for_span :: "action_span \<Rightarrow> (rat \<times> rat) option" where
  "focus_for_span s =
     (case as_click_point s of
        Some p \<Rightarrow> Some p
      | None \<Rightarrow>
          map_option (\<lambda>b. (wb_x b + wb_width b / 2, wb_y b + wb_height b / 2)) (as_window_bounds s))"

definition span_waypoint :: "action_span \<Rightarrow> timed_point list" where
  "span_waypoint s =
     (case focus_for_span s of
        None \<Rightarrow> []
      | Some (x, y) \<Rightarrow> [\<lparr>tp_ms = (as_start s + as_end s) / 2, tp_x = x, tp_y = y\<rparr>])"

definition absorb_span :: "action_span \<Rightarrow> action_span \<Rightarrow> action_span" where
  "absorb_span s l =
     (let known = (case as_focus_waypoints l of None \<Rightarrow> [] | Some ws \<Rightarrow> ws);
          waypoints = (if known = [] then span_waypoint l else known) @ span_waypoint s
      in l\<lparr>as_end := max (as_end l) (as_end s),
           as_window_bounds := (if as_window_bounds l = None then as_window_bounds s else as_window_bounds l),
           as_click_point := (if as_click_point l = None then as_click_point s else as_click_point l),
           as_focus_waypoints := (if waypoints = [] then None else Some waypoints)\<rparr>)"

definition add_span :: "action_span list \<Rightarrow> action_span \<Rightarrow> action_span list" where
  "add_span out s =
     (if out \<noteq> [] \<and> as_start s \<le> as_end (last out) + ACTION_MERGE_GAP_MS
      then butlast out @ [absorb_span s (last out)] else out @ [s])"

definition generate_action_spans :: "action_span list \<Rightarrow> action_span list" where
  "generate_action_spans raw = foldl add_span [] (sort_key as_start (map pad_span raw))"


section \<open>Presentation times\<close>

fun map_rest :: "rat \<Rightarrow> rat \<Rightarrow> rat \<Rightarrow> action_span list \<Rightarrow> rat" where
  "map_rest t out prev [] = (if prev < t then out + (t - prev) / ACTION_FAST_SPEED else out)"
| "map_rest t out prev (s # spans) =
     (let out1 = (if prev < as_start s
                  then out + (min (as_start s) t - prev) / ACTION_FAST_SPEED else out)
      in if prev < as_start s \<and> t \<le> as_start s then out1
         else (let start = max (as_start s) prev;
                   finish = min (as_end s) t;
                   out2 = (if start < finish then out1 + (finish - start) else out1)
               in if t \<le> as_end s then out2 else map_rest t out2 (as_end s) spans))"

definition map_pts :: "rat \<Rightarrow> action_span list \<Rightarrow> rat" where
  "map_pts t spans = map_rest t 0 0 spans"

end
