(* ===== verification/RecordingProps.thy ===== *)
theory RecordingProps
  imports RecordingTimeline
begin

text \<open>
  What a rendered recording shows: the zoom regions are the clicks grouped by their gaps, the curve
  never overshoots and is on each click when it happens, the cursor is the one a linear scan finds,
  and the output time plays the actions at speed one and the rest at eight.
\<close>

section \<open>The curve stays between its ends\<close>

lemma clamp01_range: "0 \<le> clamp01 v" "clamp01 v \<le> 1"
  by (auto simp: clamp01_def)

lemma clamp01_id: "0 \<le> v \<Longrightarrow> v \<le> 1 \<Longrightarrow> clamp01 v = v"
  by (simp add: clamp01_def)

lemma bezier_range:
  assumes "0 \<le> a1" "a1 \<le> 1" "0 \<le> a2" "a2 \<le> 1" "0 \<le> t" "t \<le> 1"
  shows "0 \<le> sample_bezier_1d a1 a2 t" "sample_bezier_1d a1 a2 t \<le> 1"
proof -
  let ?u = "1 - t"
  have nonneg: "0 \<le> ?u * ?u * t" "0 \<le> ?u * t * t" "0 \<le> t * t * t" using assms by simp_all
  have "a1 * (?u * ?u * t) \<le> ?u * ?u * t" "a2 * (?u * t * t) \<le> ?u * t * t"
    using nonneg assms by (simp_all only: mult_left_le_one_le)
  moreover have "3 * (?u * ?u * t) + 3 * (?u * t * t) + t * t * t = 1 - ?u * ?u * ?u" by algebra
  moreover have "0 \<le> ?u * ?u * ?u" using assms by simp
  moreover have "sample_bezier_1d a1 a2 t = 3 * (a1 * (?u * ?u * t)) + 3 * (a2 * (?u * t * t)) + t * t * t"
    by (simp add: sample_bezier_1d_def Let_def algebra_simps)
  ultimately show "sample_bezier_1d a1 a2 t \<le> 1" by linarith
  show "0 \<le> sample_bezier_1d a1 a2 t"
    using nonneg assms by (simp add: sample_bezier_1d_def Let_def)
qed

lemma bisect_range:
  "0 \<le> lower \<Longrightarrow> lower \<le> 1 \<Longrightarrow> 0 \<le> upper \<Longrightarrow> upper \<le> 1 \<Longrightarrow> 0 \<le> s \<Longrightarrow> s \<le> 1 \<Longrightarrow>
    0 \<le> bisect_rounds n x1 x2 target lower upper s \<and> bisect_rounds n x1 x2 target lower upper s \<le> 1"
  by (induction n arbitrary: lower upper s) (simp_all add: Let_def)

lemma cubic_bezier_range:
  assumes "0 \<le> y1" "y1 \<le> 1" "0 \<le> y2" "y2 \<le> 1"
  shows "0 \<le> cubic_bezier x1 y1 x2 y2 t" "cubic_bezier x1 y1 x2 y2 t \<le> 1"
  using bisect_range [of 0 1 "clamp01 (newton_rounds 8 x1 x2 (clamp01 t) (clamp01 t))" 10 x1 x2 "clamp01 t"]
    clamp01_range assms
  by (simp_all add: cubic_bezier_def Let_def bezier_range)

lemma bezier_ends: "sample_bezier_1d a1 a2 0 = 0" "sample_bezier_1d a1 a2 1 = 1"
  by (simp_all add: sample_bezier_1d_def)

lemma cubic_bezier_1: "cubic_bezier x1 y1 x2 y2 1 = 1"
proof -
  have n: "newton_rounds (Suc n) x1 x2 1 1 = 1" "bisect_rounds (Suc n) x1 x2 1 0 1 1 = 1" for n
    by (simp_all add: bezier_ends TOLERANCE_def)
  show ?thesis
    using n [of 7] n [of 9] by (simp add: cubic_bezier_def clamp01_def bezier_ends numeral_eq_Suc)
qed

definition spanned :: "rat \<Rightarrow> rat \<Rightarrow> rat \<Rightarrow> bool" where
  "spanned a b v = (min a b \<le> v \<and> v \<le> max a b)"

lemma lerp_spanned: "0 \<le> u \<Longrightarrow> u \<le> 1 \<Longrightarrow> spanned a b (lerp a b u)"
proof -
  assume u: "0 \<le> u" "u \<le> 1"
  show ?thesis
  proof (cases "a \<le> b")
    case True
    with u have "0 \<le> (b - a) * u" "(b - a) * u \<le> b - a" by (simp_all add: mult_left_le)
    with True show ?thesis by (simp add: spanned_def lerp_def)
  next
    case False
    with u have "0 \<le> (a - b) * u" "(a - b) * u \<le> a - b" by (simp_all add: mult_left_le)
    with False show ?thesis by (simp add: spanned_def lerp_def algebra_simps)
  qed
qed

lemma phase_progress_range: "0 \<le> phase_progress t r" "phase_progress t r \<le> 1"
  by (simp_all add: phase_progress_def cubic_bezier_range split: prod.split)


section \<open>Regions are groups of clicks\<close>

text \<open>The clicks a region was made of, and what it is for them.\<close>

definition region_of_group :: "rat \<Rightarrow> zoom_region \<Rightarrow> bool" where
  "region_of_group scale r =
     (let ws = waypoints_or_click r
      in ws \<noteq> [] \<and> zr_start r = tp_ms (hd ws) - PRE_CLICK_LEAD_IN_MS
         \<and> zr_end r = tp_ms (last ws) + POST_CLICK_HOLD_MS
         \<and> zr_focus_x r = tp_x (hd ws) \<and> zr_focus_y r = tp_y (hd ws) \<and> zr_scale r = scale
         \<and> sorted (map tp_ms ws)
         \<and> (\<forall>k. Suc k < length ws \<longrightarrow>
              tp_ms (ws ! Suc k) - tp_ms (ws ! k) < PRE_CLICK_LEAD_IN_MS + POST_CLICK_HOLD_MS + CHAINED_ZOOM_PAN_GAP_MS))"

definition regions_of_clicks :: "rat \<Rightarrow> timed_point list \<Rightarrow> zoom_region list \<Rightarrow> bool" where
  "regions_of_clicks scale clicks out =
     (concat (map waypoints_or_click out) = clicks
      \<and> (\<forall>r \<in> set out. region_of_group scale r)
      \<and> sorted_wrt (\<lambda>r r'. zr_end r + CHAINED_ZOOM_PAN_GAP_MS \<le> zr_start r') out)"

lemmas recording_constants = PRE_CLICK_LEAD_IN_MS_def POST_CLICK_HOLD_MS_def CHAINED_ZOOM_PAN_GAP_MS_def

lemma region_of_click_group: "waypoints_or_click (region_of_click scale c) = [c]"
  "region_of_group scale (region_of_click scale c)"
  by (simp_all add: region_of_group_def region_of_click_def waypoints_or_click_def)

lemma sorted_up_to_last: "sorted (map f ws) \<Longrightarrow> w \<in> set ws \<Longrightarrow> f w \<le> f (last ws)"
  by (induction ws) auto

lemma chain_click_group:
  assumes "region_of_group scale r" "zr_end r - POST_CLICK_HOLD_MS \<le> tp_ms c"
    "tp_ms c - PRE_CLICK_LEAD_IN_MS - zr_end r < CHAINED_ZOOM_PAN_GAP_MS"
  shows "region_of_group scale (chain_click scale c r)"
proof -
  let ?ws = "waypoints_or_click r"
  from assms(1) have ws: "?ws \<noteq> []" "zr_end r = tp_ms (last ?ws) + POST_CLICK_HOLD_MS" "sorted (map tp_ms ?ws)"
    and gaps: "\<And>k. Suc k < length ?ws \<Longrightarrow>
      tp_ms (?ws ! Suc k) - tp_ms (?ws ! k) < PRE_CLICK_LEAD_IN_MS + POST_CLICK_HOLD_MS + CHAINED_ZOOM_PAN_GAP_MS"
    by (simp_all add: region_of_group_def Let_def)
  have le: "tp_ms w \<le> tp_ms c" if "w \<in> set ?ws" for w
    using sorted_up_to_last [OF ws(3) that] ws(2) assms(2) by simp
  have "tp_ms ((?ws @ [c]) ! Suc k) - tp_ms ((?ws @ [c]) ! k)
      < PRE_CLICK_LEAD_IN_MS + POST_CLICK_HOLD_MS + CHAINED_ZOOM_PAN_GAP_MS" if "Suc k < length (?ws @ [c])" for k
  proof (cases "Suc k < length ?ws")
    case True with gaps show ?thesis by (simp add: nth_append)
  next
    case False
    with that have k: "Suc k = length ?ws" by simp
    with ws(1) have "?ws ! k = last ?ws" by (metis diff_Suc_1 last_conv_nth)
    with k ws(2) assms(3) show ?thesis by (simp add: nth_append)
  qed
  with assms(1) ws le show ?thesis
    by (simp add: region_of_group_def Let_def chain_click_def waypoints_or_click_def sorted_append)
qed

lemma group_facts:
  assumes "region_of_group scale r"
  shows "zr_end r = tp_ms (last (waypoints_or_click r)) + POST_CLICK_HOLD_MS" "waypoints_or_click r \<noteq> []"
    "zr_start r \<le> zr_end r" "zr_scale r = scale"
  using assms sorted_up_to_last [of tp_ms "waypoints_or_click r" "hd (waypoints_or_click r)"]
  by (auto simp: region_of_group_def Let_def recording_constants)

lemma chain_click_fields: "waypoints_or_click (chain_click scale c r) = waypoints_or_click r @ [c]"
  "zr_start (chain_click scale c r) = zr_start r"
  by (simp_all add: chain_click_def waypoints_or_click_def)

lemma add_click_regions:
  assumes "sorted (map tp_ms (clicks @ [c]))" "regions_of_clicks scale clicks out"
  shows "regions_of_clicks scale (clicks @ [c]) (add_click scale out c)"
proof (cases out rule: rev_cases)
  case Nil
  with assms(2) show ?thesis
    by (simp add: regions_of_clicks_def add_click_def region_of_click_group)
next
  case (snoc init l)
  with assms(2) have l: "region_of_group scale l" by (simp add: regions_of_clicks_def)
  from snoc assms(2) group_facts(2) [OF l] have "last (waypoints_or_click l) \<in> set clicks"
    by (auto simp: regions_of_clicks_def)
  with assms(1) group_facts(1) [OF l] have before: "zr_end l - POST_CLICK_HOLD_MS \<le> tp_ms c"
    by (auto simp: sorted_append)
  show ?thesis
  proof (cases "tp_ms c - PRE_CLICK_LEAD_IN_MS - zr_end l < CHAINED_ZOOM_PAN_GAP_MS")
    case True
    with assms(2) snoc chain_click_group [OF l before] show ?thesis
      by (auto simp: regions_of_clicks_def add_click_def chain_click_fields sorted_wrt_append)
  next
    case False
    have "zr_end r + CHAINED_ZOOM_PAN_GAP_MS \<le> tp_ms c - PRE_CLICK_LEAD_IN_MS" if "r \<in> set out" for r
    proof (cases "r = l")
      case True with False show ?thesis by simp
    next
      case other: False
      with that snoc assms(2) have "zr_end r + CHAINED_ZOOM_PAN_GAP_MS \<le> zr_start l"
        by (auto simp: regions_of_clicks_def sorted_wrt_append)
      with False group_facts(3) [OF l] show ?thesis by (simp add: recording_constants)
    qed
    with False assms(2) snoc region_of_click_group show ?thesis
      by (auto simp: regions_of_clicks_def add_click_def sorted_wrt_append region_of_click_def)
  qed
qed

lemma foldl_add_click:
  "sorted (map tp_ms (before @ clicks)) \<Longrightarrow> regions_of_clicks scale before out \<Longrightarrow>
     regions_of_clicks scale (before @ clicks) (foldl (add_click scale) out clicks)"
proof (induction clicks arbitrary: before out)
  case (Cons c clicks)
  from Cons.prems(1) have "sorted (map tp_ms (before @ [c]))" by (auto simp: sorted_append)
  from add_click_regions [OF this Cons.prems(2)] Cons.IH [of "before @ [c]"] Cons.prems(1)
  show ?case by simp
qed simp

lemma generated_regions: "regions_of_clicks scale (sort_key tp_ms clicks) (generate_zoom_regions clicks scale)"
  unfolding generate_zoom_regions_def
  using foldl_add_click [of "[]" "sort_key tp_ms clicks" scale "[]"] by (simp add: regions_of_clicks_def)

text \<open>Zoom regions are the clicks grouped by their gaps. Read in order, the regions' clicks are the
  recorded clicks sorted by time, none lost and none twice; a region starts a lead-in before its
  first click, ends a hold after its last, looks at its first click first and has the scale asked for;
  clicks within a region follow one another closely, and between two regions there is at least
  the gap that would have chained them.\<close>

theorem regions_group_the_clicks:
  "concat (map waypoints_or_click (generate_zoom_regions clicks scale)) = sort_key tp_ms clicks
    \<and> list_all (region_of_group scale) (generate_zoom_regions clicks scale)
    \<and> sorted_wrt (\<lambda>r r'. zr_end r + CHAINED_ZOOM_PAN_GAP_MS \<le> zr_start r') (generate_zoom_regions clicks scale)"
  using generated_regions [of scale clicks] by (simp_all add: regions_of_clicks_def list_all_iff)


section \<open>The curve\<close>

lemma clicked_region:
  assumes "c \<in> set clicks"
  shows "\<exists>r. find (\<lambda>r. zr_start r \<le> tp_ms c \<and> tp_ms c \<le> zr_end r) (generate_zoom_regions clicks scale) = Some r
    \<and> c \<in> set (waypoints_or_click r) \<and> region_of_group scale r"
proof -
  let ?rs = "generate_zoom_regions clicks scale"
  let ?holds = "\<lambda>r. zr_start r \<le> tp_ms c \<and> tp_ms c \<le> zr_end r"
  note g = generated_regions [of scale clicks, unfolded regions_of_clicks_def]
  have "c \<in> set (concat (map waypoints_or_click ?rs))" using g assms by simp
  then obtain r where r: "r \<in> set ?rs" "c \<in> set (waypoints_or_click r)" by auto
  with g have group: "region_of_group scale r" by blast
  have "tp_ms (hd (waypoints_or_click r)) \<le> tp_ms c" "tp_ms c \<le> tp_ms (last (waypoints_or_click r))"
    using group r(2) sorted_up_to_last [of tp_ms "waypoints_or_click r" c]
    by (cases "waypoints_or_click r"; auto simp: region_of_group_def Let_def)+
  then have holds: "?holds r"
    using group by (simp add: region_of_group_def Let_def recording_constants)
  then obtain r' where r': "find ?holds ?rs = Some r'"
    using r(1) by (metis find_None_iff not_None_eq)
  then obtain i where i: "i < length ?rs" "?rs ! i = r'" "?holds r'" by (auto simp: find_Some_iff)
  obtain j where j: "j < length ?rs" "?rs ! j = r" using r(1) by (auto simp: in_set_conv_nth)
  have "i = j"
  proof (rule ccontr)
    have apart: "zr_end (?rs ! a) + CHAINED_ZOOM_PAN_GAP_MS \<le> zr_start (?rs ! b)" if "a < b" "b < length ?rs" for a b
      using g that by (simp add: sorted_wrt_iff_nth_less)
    assume "i \<noteq> j"
    then show False
      using apart [of i j] apart [of j i] i j holds by (cases "i < j") (auto simp: recording_constants)
  qed
  with r' i j r(2) group show ?thesis by auto
qed

definition in_box :: "timed_point list \<Rightarrow> rat \<times> rat \<Rightarrow> bool" where
  "in_box ws p = (\<exists>a \<in> set ws. \<exists>b \<in> set ws. spanned (tp_x a) (tp_x b) (fst p) \<and> spanned (tp_y a) (tp_y b) (snd p))"

lemma in_box_point: "a \<in> set ws \<Longrightarrow> in_box ws (tp_x a, tp_y a)"
  unfolding in_box_def by (intro bexI [of _ a]) (simp_all add: spanned_def)

lemma pan_between_in_box: "a \<in> set ws \<Longrightarrow> b \<in> set ws \<Longrightarrow> in_box ws (pan_between t a b)"
  unfolding in_box_def pan_between_def Let_def fst_conv snd_conv
  by (intro bexI [of _ a] bexI [of _ b] conjI lerp_spanned cubic_bezier_range) simp_all

lemma pan_along_in_box: "pan_along t ws = Some p \<Longrightarrow> set ws \<subseteq> set all \<Longrightarrow> in_box all p"
  by (induction t ws rule: pan_along.induct) (auto simp: pan_between_in_box split: if_splits)

lemma resolve_focus_group:
  assumes "region_of_group scale r"
  shows "resolve_focus t r =
     (let ws = waypoints_or_click r
      in if length ws = 1 \<or> t \<le> tp_ms (hd ws) then (tp_x (hd ws), tp_y (hd ws))
         else if tp_ms (last ws) \<le> t then (tp_x (last ws), tp_y (last ws))
         else (case pan_along t ws of None \<Rightarrow> (tp_x (hd ws), tp_y (hd ws)) | Some p \<Rightarrow> p))"
  using assms
  by (cases "zr_waypoints r") (auto simp: resolve_focus_def region_of_group_def Let_def waypoints_or_click_def split: option.split)

lemma resolve_focus_in_box:
  assumes "region_of_group scale r"
  shows "in_box (waypoints_or_click r) (resolve_focus t r)"
proof -
  have "hd (waypoints_or_click r) \<in> set (waypoints_or_click r)" "last (waypoints_or_click r) \<in> set (waypoints_or_click r)"
    using group_facts(2) [OF assms] by simp_all
  then show ?thesis
    by (auto simp: resolve_focus_group [OF assms] Let_def in_box_point split: option.split intro: pan_along_in_box)
qed

text \<open>Clicks that differ are at least the tolerance apart in time.\<close>

definition apart_from :: "timed_point \<Rightarrow> timed_point list \<Rightarrow> bool" where
  "apart_from c ws = (\<forall>a \<in> set ws. a = c \<or> TOLERANCE \<le> \<bar>tp_ms a - tp_ms c\<bar>)"

lemma apart_from_same: "apart_from c ws \<Longrightarrow> a \<in> set ws \<Longrightarrow> tp_ms a = tp_ms c \<Longrightarrow> a = c"
  by (auto simp: apart_from_def TOLERANCE_def)

lemma pan_between_at_end:
  assumes "TOLERANCE \<le> tp_ms c - tp_ms a"
  shows "pan_between (tp_ms c) a c = (tp_x c, tp_y c)"
proof -
  have "0 < tp_ms c - tp_ms a" using assms by (simp add: TOLERANCE_def)
  with assms show ?thesis
    by (simp add: pan_between_def max_absorb1 clamp01_def cubic_bezier_1 lerp_def)
qed

lemma pan_along_at_click:
  "sorted (map tp_ms ws) \<Longrightarrow> c \<in> set ws \<Longrightarrow> tp_ms (hd ws) < tp_ms c \<Longrightarrow> apart_from c ws \<Longrightarrow>
     pan_along (tp_ms c) ws = Some (tp_x c, tp_y c)"
proof (induction "tp_ms c" ws rule: pan_along.induct)
  case (1 a b rest)
  show ?case
  proof (cases "tp_ms b < tp_ms c")
    case True
    with 1 show ?thesis by (auto simp: apart_from_def)
  next
    case False
    with 1(2-4) have "tp_ms b = tp_ms c" by auto
    with 1(5) have b: "b = c" by (auto intro: apart_from_same)
    from 1(4,5) have "TOLERANCE \<le> tp_ms c - tp_ms a" by (auto simp: apart_from_def)
    with b 1(4) show ?thesis by (simp add: pan_between_at_end)
  qed
qed auto

lemma focus_at_click:
  assumes "region_of_group scale r" "c \<in> set (waypoints_or_click r)" "apart_from c (waypoints_or_click r)"
  shows "resolve_focus (tp_ms c) r = (tp_x c, tp_y c)"
proof -
  let ?ws = "waypoints_or_click r"
  have ws: "?ws \<noteq> []" "sorted (map tp_ms ?ws)" using assms(1) by (simp_all add: region_of_group_def Let_def)
  have hd_le: "tp_ms (hd ?ws) \<le> tp_ms c" using ws assms(2) by (cases ?ws) auto
  have last_ge: "tp_ms c \<le> tp_ms (last ?ws)" using sorted_up_to_last [OF ws(2) assms(2)] .
  show ?thesis
  proof (cases "length ?ws = 1 \<or> tp_ms c \<le> tp_ms (hd ?ws)")
    case True
    have "hd ?ws = c"
    proof (cases "length ?ws = 1")
      case True with assms(2) show ?thesis by (auto simp: length_Suc_conv)
    next
      case False with True hd_le ws(1) show ?thesis by (intro apart_from_same [OF assms(3)]) simp_all
    qed
    with True show ?thesis by (auto simp: resolve_focus_group [OF assms(1)] Let_def)
  next
    case False
    show ?thesis
    proof (cases "tp_ms (last ?ws) \<le> tp_ms c")
      case True
      with last_ge ws(1) have "last ?ws = c" by (intro apart_from_same [OF assms(3)]) simp_all
      with True False show ?thesis by (auto simp: resolve_focus_group [OF assms(1)] Let_def)
    next
      case inner: False
      from False have "pan_along (tp_ms c) ?ws = Some (tp_x c, tp_y c)"
        by (intro pan_along_at_click ws assms(2,3)) simp
      with False inner show ?thesis by (auto simp: resolve_focus_group [OF assms(1)] Let_def)
    qed
  qed
qed

lemma generated_group:
  assumes "r \<in> set (generate_zoom_regions clicks scale)"
  shows "region_of_group scale r" "set (waypoints_or_click r) \<subseteq> set clicks"
proof -
  note g = generated_regions [of scale clicks, unfolded regions_of_clicks_def]
  from g assms show "region_of_group scale r" by blast
  have "set (concat (map waypoints_or_click (generate_zoom_regions clicks scale))) = set clicks" using g by simp
  with assms show "set (waypoints_or_click r) \<subseteq> set clicks" by auto
qed

lemma in_box_mono: "in_box ws p \<Longrightarrow> set ws \<subseteq> set vs \<Longrightarrow> in_box vs p"
  by (auto simp: in_box_def)


section \<open>The cursor of a linear scan\<close>

fun scan_samples :: "rat \<Rightarrow> timed_point list \<Rightarrow> (rat \<times> rat) option" where
  "scan_samples t (a # b # rest) = (if tp_ms b \<le> t then scan_samples t (b # rest) else Some (between_samples t a b))"
| "scan_samples t _ = None"

lemma scan_samples_at:
  "sorted (map tp_ms samples) \<Longrightarrow> Suc k < length samples \<Longrightarrow> tp_ms (samples ! k) \<le> t \<Longrightarrow> t < tp_ms (samples ! Suc k) \<Longrightarrow>
     scan_samples t samples = Some (between_samples t (samples ! k) (samples ! Suc k))"
proof (induction t samples arbitrary: k rule: scan_samples.induct)
  case (1 t a b rest)
  show ?case
  proof (cases k)
    case 0 with "1.prems" show ?thesis by simp
  next
    case (Suc j)
    with "1.prems" have "tp_ms b \<le> tp_ms ((b # rest) ! j)"
      by (cases j) auto
    with Suc "1.prems" "1.IH" [of j] show ?thesis by simp
  qed
qed auto

lemma bracket_at:
  "lo < hi \<Longrightarrow> tp_ms (samples ! lo) \<le> t \<Longrightarrow> t < tp_ms (samples ! hi) \<Longrightarrow>
     \<exists>k. bracket t samples lo hi = (k, Suc k) \<and> lo \<le> k \<and> k < hi \<and> tp_ms (samples ! k) \<le> t \<and> t < tp_ms (samples ! Suc k)"
proof (induction t samples lo hi rule: bracket.induct)
  case (1 t samples lo hi)
  show ?case
  proof (cases "1 < hi - lo")
    case True
    let ?mid = "(lo + hi) div 2"
    have "lo < ?mid" "?mid < hi" using True by linarith+
    with True "1.IH" "1.prems" show ?thesis
      by (cases "tp_ms (samples ! ?mid) \<le> t") (force simp: bracket.simps [of t samples lo hi] Let_def)+
  next
    case False
    with "1.prems" have "hi = Suc lo" by simp
    with "1.prems" show ?thesis by (simp add: bracket.simps)
  qed
qed

text \<open>The binary search finds what a scan from the front finds.\<close>

theorem cursor_is_the_scanned_one:
  assumes "sorted (map tp_ms samples)"
  shows "position_at t samples =
    (if samples = [] then None
     else if t \<le> tp_ms (hd samples) then Some (tp_x (hd samples), tp_y (hd samples))
     else if tp_ms (last samples) \<le> t then Some (tp_x (last samples), tp_y (last samples))
     else scan_samples t samples)"
proof (cases "samples = [] \<or> t \<le> tp_ms (hd samples) \<or> tp_ms (last samples) \<le> t")
  case False
  then have "samples \<noteq> []" by simp
  with False have s: "tp_ms (samples ! 0) < t" "t < tp_ms (samples ! (length samples - 1))"
    using hd_conv_nth [of samples] last_conv_nth [of samples] by auto
  then have "0 < length samples - 1" by (cases "length samples - 1") auto
  from bracket_at [OF this, of samples t] s obtain k where
    "bracket t samples 0 (length samples - 1) = (k, Suc k)" "k < length samples - 1"
    "tp_ms (samples ! k) \<le> t" "t < tp_ms (samples ! Suc k)" by auto
  with scan_samples_at [OF assms, of k t] False show ?thesis
    by (simp add: position_at_def)
qed (auto simp: position_at_def)


section \<open>Output times\<close>

text \<open>How long the spans have played at a time.\<close>

definition played :: "rat \<Rightarrow> action_span list \<Rightarrow> rat" where
  "played t spans = sum_list (map (\<lambda>s. max 0 (min t (as_end s) - as_start s)) spans)"

fun spans_from :: "rat \<Rightarrow> action_span list \<Rightarrow> bool" where
  "spans_from prev [] = True"
| "spans_from prev (s # spans) = (prev \<le> as_start s \<and> as_start s \<le> as_end s \<and> spans_from (as_end s) spans)"

lemma played_simps [simp]: "played t [] = 0"
  "played t (s # spans) = max 0 (min t (as_end s) - as_start s) + played t spans"
  by (simp_all add: played_def)

lemma not_played_yet: "spans_from prev spans \<Longrightarrow> t \<le> prev \<Longrightarrow> played t spans = 0"
  by (induction spans arbitrary: prev) force+

lemma map_rest_played:
  "spans_from prev spans \<Longrightarrow> prev \<le> t \<Longrightarrow>
     map_rest t out prev spans = out + played t spans + (t - prev - played t spans) / ACTION_FAST_SPEED"
proof (induction spans arbitrary: out prev)
  case (Cons s spans)
  show ?case
  proof (cases "t \<le> as_start s")
    case True
    with Cons.prems not_played_yet [of "as_end s" spans t] show ?thesis
      by (cases "prev < as_start s") (auto simp: Let_def)
  next
    case False
    define out1 where "out1 = out + (as_start s - prev) / ACTION_FAST_SPEED"
    have m: "map_rest t out prev (s # spans) =
        (if t \<le> as_end s then out1 + (t - as_start s)
         else map_rest t (out1 + (as_end s - as_start s)) (as_end s) spans)"
      using False Cons.prems by (auto simp: out1_def Let_def min_def max_def)
    show ?thesis
    proof (cases "t \<le> as_end s")
      case True
      with False Cons.prems not_played_yet [of "as_end s" spans t] show ?thesis
        unfolding m by (simp add: out1_def add_divide_distrib diff_divide_distrib)
    next
      case after: False
      with Cons.IH [of "as_end s" "out1 + (as_end s - as_start s)"] Cons.prems show ?thesis
        unfolding m by (simp add: out1_def add_divide_distrib diff_divide_distrib)
    qed
  qed
qed simp

lemma played_between:
  "spans_from prev spans \<Longrightarrow> x \<le> y \<Longrightarrow>
     0 \<le> played y spans - played x spans \<and> played y spans - played x spans \<le> max 0 (y - max x prev)"
proof (induction spans arbitrary: prev)
  case (Cons s spans)
  from Cons.IH [of "as_end s"] Cons.prems
  have "0 \<le> played y spans - played x spans \<and> played y spans - played x spans \<le> max 0 (y - max x (as_end s))"
    by simp
  with Cons.prems show ?case by (simp add: max_def min_def split: if_splits)
qed simp

lemma played_inside:
  "s \<in> set spans \<Longrightarrow> as_start s \<le> x \<Longrightarrow> x \<le> y \<Longrightarrow> y \<le> as_end s \<Longrightarrow> y - x \<le> played y spans - played x spans"
proof (induction spans)
  case (Cons s' spans)
  have rest: "played x spans \<le> played y spans"
    using Cons.prems(3) unfolding played_def by (intro sum_list_mono) (auto simp: max_def min_def)
  show ?case
  proof (cases "s' = s")
    case True with rest Cons.prems show ?thesis by (simp add: max_def min_def)
  next
    case False
    with Cons have "y - x \<le> played y spans - played x spans" by simp
    moreover have "max 0 (min x (as_end s') - as_start s') \<le> max 0 (min y (as_end s') - as_start s')"
      using Cons.prems(3) by (auto simp: max_def min_def)
    ultimately show ?thesis by simp
  qed
qed simp

text \<open>The spans an output is made of: apart from one another, and each padded action within one.\<close>

definition action_windows :: "action_span list \<Rightarrow> action_span list \<Rightarrow> bool" where
  "action_windows padded out =
     ((\<forall>s \<in> set out. 0 \<le> as_start s \<and> as_start s \<le> as_end s)
      \<and> sorted_wrt (\<lambda>s s'. as_end s + ACTION_MERGE_GAP_MS < as_start s') out
      \<and> (\<forall>p \<in> set padded. \<exists>s \<in> set out. as_start s \<le> as_start p \<and> as_end p \<le> as_end s)
      \<and> (\<forall>s \<in> set out. as_start s \<in> as_start ` set padded))"

lemma absorb_span_fields [simp]:
  "as_start (absorb_span s l) = as_start l" "as_end (absorb_span s l) = max (as_end l) (as_end s)"
  by (simp_all add: absorb_span_def Let_def)

lemma add_span_windows:
  assumes "action_windows padded out" "sorted (map as_start (padded @ [p]))" "0 \<le> as_start p" "as_start p \<le> as_end p"
  shows "action_windows (padded @ [p]) (add_span out p)"
proof (cases out rule: rev_cases)
  case Nil with assms show ?thesis by (auto simp: action_windows_def add_span_def)
next
  case (snoc init l)
  with assms(1) have "as_start l \<in> as_start ` set padded" by (simp add: action_windows_def)
  with assms(2) have l: "as_start l \<le> as_start p" by (auto simp: sorted_append)
  show ?thesis
  proof (cases "as_start p \<le> as_end l + ACTION_MERGE_GAP_MS")
    case True
    with assms(1) snoc l show ?thesis
      by (auto simp: action_windows_def add_span_def sorted_wrt_append le_max_iff_disj)
  next
    case False
    have "as_end s + ACTION_MERGE_GAP_MS < as_start p" if "s \<in> set out" for s
      using that False assms(1) snoc
      by (cases "s = l") (fastforce simp: action_windows_def sorted_wrt_append ACTION_MERGE_GAP_MS_def)+
    with False assms snoc show ?thesis
      by (auto simp: action_windows_def add_span_def sorted_wrt_append)
  qed
qed

lemma foldl_add_span:
  "action_windows before out \<Longrightarrow> sorted (map as_start (before @ spans)) \<Longrightarrow>
     \<forall>p \<in> set spans. 0 \<le> as_start p \<and> as_start p \<le> as_end p \<Longrightarrow>
     action_windows (before @ spans) (foldl add_span out spans)"
proof (induction spans arbitrary: before out)
  case (Cons p spans)
  have "action_windows (before @ [p]) (add_span out p)"
    using Cons.prems by (intro add_span_windows) (auto simp: sorted_append)
  from Cons.IH [OF this] Cons.prems show ?case by simp
qed simp

lemma generated_windows:
  assumes "\<forall>s \<in> set raw. 0 \<le> as_start s \<and> as_start s \<le> as_end s"
  shows "action_windows (sort_key as_start (map pad_span raw)) (generate_action_spans raw)"
  unfolding generate_action_spans_def
proof -
  have "\<forall>p \<in> set (sort_key as_start (map pad_span raw)). 0 \<le> as_start p \<and> as_start p \<le> as_end p"
    using assms by (auto simp: pad_span_def ACTION_PAD_MS_def)
  from foldl_add_span [OF _ _ this, of "[]" "[]"]
  show "action_windows (sort_key as_start (map pad_span raw)) (foldl add_span [] (sort_key as_start (map pad_span raw)))"
    by (simp add: action_windows_def del: set_sort)
qed

lemma windows_spans_from:
  assumes "\<forall>s \<in> set out. prev \<le> as_start s \<and> as_start s \<le> as_end s"
    "sorted_wrt (\<lambda>s s'. as_end s + ACTION_MERGE_GAP_MS < as_start s') out"
  shows "spans_from prev out"
  using assms
proof (induction out arbitrary: prev)
  case (Cons s out)
  then have "as_end s + ACTION_MERGE_GAP_MS < as_start s'" if "s' \<in> set out" for s' using that by simp
  then have "\<forall>s' \<in> set out. as_end s \<le> as_start s' \<and> as_start s' \<le> as_end s'"
    using Cons.prems(1) by (force simp: ACTION_MERGE_GAP_MS_def)
  with Cons show ?case by simp
qed simp

text \<open>The output plays actions in real time and skips through the rest at eight times the speed. The
  output time of a moment is the time the spans have played, plus an eighth of the time they have
  not; so later moments come later, never faster than eight times and never slower than real
  time; and within an action, with the padding around it, one second stays one second.\<close>

theorem output_plays_actions_in_real_time:
  assumes "\<forall>s \<in> set raw. 0 \<le> as_start s \<and> as_start s \<le> as_end s" "0 \<le> x" "x \<le> y"
  shows "map_pts x (generate_action_spans raw) =
      played x (generate_action_spans raw) + (x - played x (generate_action_spans raw)) / 8
    \<and> (y - x) / 8 \<le> map_pts y (generate_action_spans raw) - map_pts x (generate_action_spans raw)
    \<and> map_pts y (generate_action_spans raw) - map_pts x (generate_action_spans raw) \<le> y - x
    \<and> (\<forall>s \<in> set raw. as_start s - ACTION_PAD_MS \<le> x \<and> y \<le> as_end s + ACTION_PAD_MS \<longrightarrow>
         map_pts y (generate_action_spans raw) - map_pts x (generate_action_spans raw) = y - x)"
proof -
  let ?S = "generate_action_spans raw"
  note w = generated_windows [OF assms(1), unfolded action_windows_def]
  then have from0: "spans_from 0 ?S" by (intro windows_spans_from) auto
  have m: "map_pts t ?S = played t ?S + (t - played t ?S) / 8" if "0 \<le> t" for t
    using map_rest_played [OF from0 that, of 0] by (simp add: map_pts_def ACTION_FAST_SPEED_def)
  have p: "0 \<le> played y ?S - played x ?S" "played y ?S - played x ?S \<le> y - x"
    using played_between [OF from0 assms(3)] assms(2,3) by (auto simp: max_def split: if_splits)
  have inside: "y - x \<le> played y ?S - played x ?S"
    if s: "s \<in> set raw" "as_start s - ACTION_PAD_MS \<le> x" "y \<le> as_end s + ACTION_PAD_MS" for s
  proof -
    from s(1) have "pad_span s \<in> set (sort_key as_start (map pad_span raw))" by simp
    with w obtain s' where "s' \<in> set ?S" "as_start s' \<le> as_start (pad_span s)" "as_end (pad_span s) \<le> as_end s'"
      by blast
    with s(2,3) assms(2,3) show ?thesis by (intro played_inside) (auto simp: pad_span_def)
  qed
  show ?thesis
    using m [OF assms(2)] m [of y] p inside assms(2,3) by (fastforce simp: field_simps)
qed


section \<open>A short recording\<close>

definition sample_clicks :: "timed_point list" where
  "sample_clicks = [\<lparr>tp_ms = 9000, tp_x = 40, tp_y = 10\<rparr>, \<lparr>tp_ms = 2000, tp_x = 10, tp_y = 20\<rparr>]"

definition sample_action :: action_span where
  "sample_action = \<lparr>as_start = 1000, as_end = 2000, as_window_bounds = None, as_click_point = None, as_focus_waypoints = None\<rparr>"


theorem output_plays_actions_in_real_time_witness:
  "map_pts 2000 (generate_action_spans [sample_action]) - map_pts 600 (generate_action_spans [sample_action]) = 1400"
  using output_plays_actions_in_real_time [of "[sample_action]" 600 2000]
  by (simp add: sample_action_def ACTION_PAD_MS_def)

end
