(* ===== verification/RecordingLoader.thy ===== *)
theory RecordingLoader
  imports RecordingProps Policy
begin

text \<open>
  \<open>recording_loader.rs\<close>: the clicks, cursor samples and action spans of a recording directory. The
  file system answers with what it holds: for each entry of the directory the parsed
  \<open>action.json\<close> in it, if it is a directory with one that parses; for the cursor file its lines, each
  parsed if it can be. Texts that spell infinity or not-a-number are left out, as everywhere in the
  timeline.
\<close>

definition double_value :: "(string \<Rightarrow> rat option) \<Rightarrow> json option \<Rightarrow> rat option" where
  "double_value parse v =
     (case v of
        None \<Rightarrow> None
      | Some w \<Rightarrow>
          (case as_f64 w of
             Some (Fin r) \<Rightarrow> Some r
           | _ \<Rightarrow> Option.bind (as_str w) parse))"

definition field_value :: "(string \<Rightarrow> rat option) \<Rightarrow> json \<Rightarrow> string \<Rightarrow> rat option" where
  "field_value parse v k = double_value parse (json_get v k)"

text \<open>What stands before and after the first place of a needle.\<close>

fun split_at :: "string \<Rightarrow> string \<Rightarrow> (string \<times> string) option" where
  "split_at needle [] = (if needle = [] then Some ([], []) else None)"
| "split_at needle (c # cs) =
     (case strip_prefix needle (c # cs) of
        Some after \<Rightarrow> Some ([], after)
      | None \<Rightarrow> map_option (\<lambda>(before, after). (c # before, after)) (split_at needle cs))"

definition point_of :: "rat option \<Rightarrow> rat option \<Rightarrow> (rat \<times> rat) option" where
  "point_of x y = (case (x, y) of (Some a, Some b) \<Rightarrow> Some (a, b) | _ \<Rightarrow> None)"

definition point_at :: "(string \<Rightarrow> rat option) \<Rightarrow> json \<Rightarrow> (rat \<times> rat) option" where
  "point_at parse v = point_of (field_value parse v ''x'') (field_value parse v ''y'')"

definition parse_screen_from_summary :: "(string \<Rightarrow> rat option) \<Rightarrow> string \<Rightarrow> (rat \<times> rat) option" where
  "parse_screen_from_summary parse summary =
     (case split_at ''(screen ('' summary of
        None \<Rightarrow> None
      | Some (_, rest) \<Rightarrow>
          (case split_at ''))'' rest of
             None \<Rightarrow> None
           | Some (pair, _) \<Rightarrow>
               (case split_at '','' pair of
                  None \<Rightarrow> None
                | Some (x, y) \<Rightarrow> point_of (parse (trim x)) (parse (trim y)))))"

definition CLICK_TOOLS :: "string list" where
  "CLICK_TOOLS = [''click'', ''double_click'', ''right_click'']"

definition CLICK_OR_TYPE_TOOLS :: "string list" where
  "CLICK_OR_TYPE_TOOLS = [''click'', ''double_click'', ''right_click'', ''type_text'', ''type_text_chars'']"

text \<open>Where a turn clicked: its arguments, the recorded point, the summary of its result.\<close>

definition click_position :: "(string \<Rightarrow> rat option) \<Rightarrow> json \<Rightarrow> (rat \<times> rat) option" where
  "click_position parse v =
     (case json_get v ''arguments'' of
        Some args \<Rightarrow>
          (case point_at parse args of
             Some p \<Rightarrow> Some p
           | None \<Rightarrow>
               (case json_get v ''click_point'' of
                  Some cp \<Rightarrow> point_at parse cp
                | None \<Rightarrow>
                    parse_screen_from_summary parse
                      (case get_str v ''result_summary'' of None \<Rightarrow> [] | Some s \<Rightarrow> s)))
      | None \<Rightarrow> Option.bind (json_get v ''click_point'') (point_at parse))"

definition parse_click_turn :: "(string \<Rightarrow> rat option) \<Rightarrow> json \<Rightarrow> timed_point option" where
  "parse_click_turn parse v =
     (case get_str v ''tool'' of
        None \<Rightarrow> None
      | Some tool \<Rightarrow>
          if tool \<notin> set CLICK_TOOLS then None
          else (case (click_position parse v, field_value parse v ''t_ms_from_session_start'') of
                  (Some (x, y), Some t) \<Rightarrow> Some \<lparr>tp_ms = t, tp_x = x, tp_y = y\<rparr>
                | _ \<Rightarrow> None))"

definition bounds_at :: "(string \<Rightarrow> rat option) \<Rightarrow> json \<Rightarrow> window_bounds option" where
  "bounds_at parse v =
     (case (point_at parse v, point_of (field_value parse v ''width'') (field_value parse v ''height'')) of
        (Some (x, y), Some (w, h)) \<Rightarrow>
          if 0 < w \<and> 0 < h then Some \<lparr>wb_x = x, wb_y = y, wb_width = w, wb_height = h\<rparr> else None
      | _ \<Rightarrow> None)"

definition parse_action_span :: "(string \<Rightarrow> rat option) \<Rightarrow> json \<Rightarrow> action_span option" where
  "parse_action_span parse v =
     (case get_str v ''tool'' of
        None \<Rightarrow> None
      | Some tool \<Rightarrow>
          if tool \<notin> set CLICK_OR_TYPE_TOOLS then None
          else (case field_value parse v ''t_ms_from_session_start'' of
                  None \<Rightarrow> None
                | Some finish \<Rightarrow>
                    Some \<lparr>as_start = (case field_value parse v ''t_start_ms_from_session_start'' of
                                        None \<Rightarrow> finish | Some start \<Rightarrow> start),
                          as_end = finish,
                          as_window_bounds = Option.bind (json_get v ''window_bounds'') (bounds_at parse),
                          as_click_point = Option.bind (json_get v ''click_point'') (point_at parse),
                          as_focus_waypoints = None\<rparr>))"

text \<open>The entries of the directory: their names and what their \<open>action.json\<close> holds.\<close>

definition turns_of :: "(string \<times> json option) list \<Rightarrow> json list" where
  "turns_of entries = List.map_filter snd (filter (\<lambda>e. starts_with (fst e) ''turn-'') entries)"

definition load_clicks :: "(string \<Rightarrow> rat option) \<Rightarrow> (string \<times> json option) list \<Rightarrow> timed_point list" where
  "load_clicks parse entries = sort_key tp_ms (List.map_filter (parse_click_turn parse) (turns_of entries))"

definition load_action_spans :: "(string \<Rightarrow> rat option) \<Rightarrow> (string \<times> json option) list \<Rightarrow> action_span list" where
  "load_action_spans parse entries = sort_key as_start (List.map_filter (parse_action_span parse) (turns_of entries))"

definition cursor_sample_of :: "(string \<Rightarrow> rat option) \<Rightarrow> json \<Rightarrow> timed_point option" where
  "cursor_sample_of parse v =
     map_option (\<lambda>(x, y). \<lparr>tp_ms = (case field_value parse v ''t_ms'' of None \<Rightarrow> 0 | Some t \<Rightarrow> t), tp_x = x, tp_y = y\<rparr>)
       (point_at parse v)"

definition load_cursor_samples :: "(string \<Rightarrow> rat option) \<Rightarrow> json option list \<Rightarrow> timed_point list" where
  "load_cursor_samples parse lines =
     sort_key tp_ms (List.map_filter (\<lambda>l. Option.bind l (cursor_sample_of parse)) lines)"

lemma sort_by_sorted_key: "sort_key f (sort_key f xs) = sort_key f xs"
  by (simp add: sort_key_id_if_sorted)

text \<open>A rendered recording shows what was recorded. Whatever a directory holds, the zoom regions made from
  it list, in order of time, the clicks of its turns, and the cursor at any moment is the one a
  scan of the samples in order of time finds.\<close>

theorem rendering_shows_the_recording:
  "concat (map waypoints_or_click (generate_zoom_regions (load_clicks parse entries) scale))
     = sort_key tp_ms (List.map_filter (parse_click_turn parse) (turns_of entries))
   \<and> position_at t (load_cursor_samples parse lines) =
      (let samples = sort_key tp_ms (List.map_filter (\<lambda>l. Option.bind l (cursor_sample_of parse)) lines)
       in if samples = [] then None
          else if t \<le> tp_ms (hd samples) then Some (tp_x (hd samples), tp_y (hd samples))
          else if tp_ms (last samples) \<le> t then Some (tp_x (last samples), tp_y (last samples))
          else scan_samples t samples)"
  using generated_regions [of scale "load_clicks parse entries"] cursor_is_the_scanned_one [of "load_cursor_samples parse lines" t]
  by (simp add: regions_of_clicks_def load_clicks_def load_cursor_samples_def sort_by_sorted_key Let_def)

end
