(* ===== verification/TextSanitize.thy ===== *)
theory TextSanitize
  imports Prelude Text_Format
begin

text \<open>
  \<open>text_sanitize.rs\<close>: a text that is about to be typed loses the closing tags of the agent's own
  protocol that stand at its end and close nothing. Texts are UTF-8 byte lists.
\<close>

section \<open>The sanitizer\<close>

definition PROTOCOL_TAG_NAMES :: "string list" where
  "PROTOCOL_TAG_NAMES =
     [''text'', ''parameter'', ''invoke'', ''function_calls'', ''function_call'', ''tool_use'', ''tool_call'',
      ''antml:parameter'', ''antml:invoke'', ''antml:function_calls'']"

definition first_at :: "string \<Rightarrow> string \<Rightarrow> nat option" where
  "first_at needle s = find (\<lambda>i. prefix needle (drop i s)) [0..<length s]"

definition last_at :: "string \<Rightarrow> string \<Rightarrow> nat option" where
  "last_at needle s = find (\<lambda>i. prefix needle (drop i s)) (rev [0..<length s])"

definition has_white :: "string \<Rightarrow> bool" where
  "has_white s = list_ex (\<lambda>w. str_contains s w) white_space"

definition protocol_name :: "string \<Rightarrow> bool" where
  "protocol_name name = list_ex (\<lambda>k. to_ascii_lowercase name = to_ascii_lowercase k) PROTOCOL_TAG_NAMES"

text \<open>A byte that is white space when read as a character.\<close>

definition latin_white :: "char \<Rightarrow> bool" where
  "latin_white c = (byte_of c \<in> {9, 10, 11, 12, 13, 32, 133, 160})"

lemma first_at_Some:
  "first_at needle s = Some i \<longleftrightarrow>
     i < length s \<and> prefix needle (drop i s) \<and> (\<forall>j < i. \<not> prefix needle (drop j s))"
  by (auto simp: first_at_def find_Some_iff)

function opener_in :: "string \<Rightarrow> string \<Rightarrow> bool" where
  "opener_in name s =
     (case first_at (CHR ''<'' # name) s of
        None \<Rightarrow> False
      | Some i \<Rightarrow>
          (case drop (i + Suc (length name)) s of
             [] \<Rightarrow> True
           | c # rest \<Rightarrow> c = CHR ''>'' \<or> latin_white c \<or> opener_in name (c # rest)))"
  by pat_completeness auto
termination
proof (relation "measure (length \<circ> snd)", goal_cases)
  case (2 name s i c rest)
  have "i < length s" using 2(1) unfolding first_at_Some by blast
  then have "length (c # rest) < length s" unfolding 2(2) [symmetric] by simp
  then show ?case by simp
qed simp

declare opener_in.simps [simp del]

definition has_matching_opener :: "string \<Rightarrow> string \<Rightarrow> bool" where
  "has_matching_opener prelude name = opener_in (to_ascii_lowercase name) (to_ascii_lowercase prelude)"

text \<open>One round of the walk: the text before the tag that stands at the end, if it is to go. The head has
  no white space at its end.\<close>

definition drop_tag :: "string \<Rightarrow> string option" where
  "drop_tag head =
     (if \<not> suffix ''>'' head then None
      else case last_at ''</'' head of
             None \<Rightarrow> None
           | Some at \<Rightarrow>
               (let inner = butlast (drop (at + 2) head)
                in if inner = [] \<or> has_white inner then None
                   else if \<not> protocol_name inner then None
                   else if has_matching_opener (take at head) inner then None
                   else Some (take at head)))"

lemma strip_white_end_length: "length (strip_white_end s) \<le> length s"
proof (induction s rule: strip_white_end.induct)
  case (1 s)
  then show ?case by (auto simp: strip_white_end.simps [of s] split: option.split intro: order_trans)
qed

lemma last_at_Some:
  "last_at needle s = Some i \<longleftrightarrow>
     i < length s \<and> prefix needle (drop i s) \<and> (\<forall>j < length s. i < j \<longrightarrow> \<not> prefix needle (drop j s))"
proof
  assume "last_at needle s = Some i"
  then obtain k where k: "k < length s" "rev [0..<length s] ! k = i" "prefix needle (drop i s)"
    "\<forall>m < k. \<not> prefix needle (drop (rev [0..<length s] ! m) s)" by (auto simp: last_at_def find_Some_iff)
  then have i: "i = length s - Suc k" by (simp add: rev_nth)
  have "\<not> prefix needle (drop j s)" if "j < length s" "i < j" for j
    using k(4) [rule_format, of "length s - Suc j"] that i k(1) by (simp add: rev_nth)
  with i k show "i < length s \<and> prefix needle (drop i s) \<and> (\<forall>j < length s. i < j \<longrightarrow> \<not> prefix needle (drop j s))"
    by auto
next
  assume r: "i < length s \<and> prefix needle (drop i s) \<and> (\<forall>j < length s. i < j \<longrightarrow> \<not> prefix needle (drop j s))"
  then show "last_at needle s = Some i"
    unfolding last_at_def find_Some_iff
    by (intro exI [of _ "length s - Suc i"]) (auto simp: rev_nth)
qed

lemma drop_tag_shorter: "drop_tag head = Some before \<Longrightarrow> length before < length head"
  by (auto simp: drop_tag_def last_at_Some Let_def split: if_splits option.splits)

function walk_tags :: "string \<Rightarrow> string" where
  "walk_tags cursor =
     (let head = strip_white_end cursor
      in if head = [] then head
         else case drop_tag head of None \<Rightarrow> head | Some before \<Rightarrow> walk_tags before)"
  by pat_completeness auto
termination
proof (relation "measure length", goal_cases)
  case (2 cursor head before)
  with drop_tag_shorter [of head before] strip_white_end_length [of cursor] show ?case by simp
qed simp

declare walk_tags.simps [simp del]

text \<open>The text is returned as it is unless a tag was dropped.\<close>

definition strip_trailing_agent_protocol_tags :: "string \<Rightarrow> string" where
  "strip_trailing_agent_protocol_tags text =
     (let trimmed = strip_white_end text
      in if trimmed = [] \<or> drop_tag trimmed = None then text else strip_white_end (walk_tags trimmed))"


section \<open>Openers\<close>

text \<open>An opening tag: the name after its bracket, then the end of the text, a bracket or white space.\<close>

definition opens_tag :: "string \<Rightarrow> string \<Rightarrow> bool" where
  "opens_tag name s =
     (\<exists>before after. s = before @ CHR ''<'' # name @ after
        \<and> (after = [] \<or> hd after = CHR ''>'' \<or> latin_white (hd after)))"

lemma opens_tag_at:
  "opens_tag name s \<longleftrightarrow> (\<exists>j. prefix (CHR ''<'' # name) (drop j s)
     \<and> (let after = drop (j + Suc (length name)) s in after = [] \<or> hd after = CHR ''>'' \<or> latin_white (hd after)))"
proof
  assume "opens_tag name s"
  then obtain before after where "s = before @ CHR ''<'' # name @ after"
    "after = [] \<or> hd after = CHR ''>'' \<or> latin_white (hd after)" by (auto simp: opens_tag_def)
  then show "\<exists>j. prefix (CHR ''<'' # name) (drop j s)
     \<and> (let after = drop (j + Suc (length name)) s in after = [] \<or> hd after = CHR ''>'' \<or> latin_white (hd after))"
    by (intro exI [of _ "length before"]) (simp add: Let_def)
next
  assume "\<exists>j. prefix (CHR ''<'' # name) (drop j s)
     \<and> (let after = drop (j + Suc (length name)) s in after = [] \<or> hd after = CHR ''>'' \<or> latin_white (hd after))"
  then obtain j after where j: "drop j s = (CHR ''<'' # name) @ after"
    "let after = drop (j + Suc (length name)) s in after = [] \<or> hd after = CHR ''>'' \<or> latin_white (hd after)"
    by (auto simp: prefix_def)
  from j(1) have "drop (Suc (length name)) (drop j s) = after" by simp
  then have "drop (j + Suc (length name)) s = after" by (simp add: add.commute)
  with j(2) have "after = [] \<or> hd after = CHR ''>'' \<or> latin_white (hd after)" by (simp only: Let_def)
  moreover have "s = take j s @ CHR ''<'' # name @ after" using j(1) by (metis append_Cons append_take_drop_id)
  ultimately show "opens_tag name s" unfolding opens_tag_def by blast
qed

lemma no_overlap:
  assumes "CHR ''<'' \<notin> set name" "prefix (CHR ''<'' # name) (drop i s)" "prefix (CHR ''<'' # name) (drop j s)" "i < j"
  shows "i + Suc (length name) \<le> j"
proof (rule ccontr)
  assume "\<not> i + Suc (length name) \<le> j"
  then have k: "j - i - 1 < length name" "0 < j - i" using assms(4) by linarith+
  from assms(2) obtain r where "drop i s = CHR ''<'' # name @ r" by (auto simp: prefix_def)
  moreover have "drop j s = drop (j - i) (drop i s)" using assms(4) by simp
  ultimately have "drop j s = drop (j - i - 1) (name @ r)" using k(2) by (cases "j - i") auto
  with k(1) have "hd (drop j s) = name ! (j - i - 1)" by (simp add: hd_drop_conv_nth nth_append)
  moreover from assms(3) have "hd (drop j s) = CHR ''<''" by (auto simp: prefix_def)
  ultimately show False using assms(1) k(1) nth_mem by metis
qed

lemma opener_in_opens:
  assumes "CHR ''<'' \<notin> set name"
  shows "opener_in name s \<longleftrightarrow> opens_tag name s"
proof (induction "length s" arbitrary: s rule: less_induct)
  case less
  show ?case
  proof (cases "first_at (CHR ''<'' # name) s")
    case None
    then have "\<not> prefix (CHR ''<'' # name) (drop j s)" for j
      by (cases "j < length s") (auto simp: first_at_def find_None_iff)
    with None show ?thesis by (simp add: opener_in.simps [of name s] opens_tag_at)
  next
    case (Some i)
    then have i: "i < length s" "prefix (CHR ''<'' # name) (drop i s)" "\<forall>j < i. \<not> prefix (CHR ''<'' # name) (drop j s)"
      unfolding first_at_Some by blast+
    let ?n = "i + Suc (length name)"
    show ?thesis
    proof (cases "let after = drop ?n s in after = [] \<or> hd after = CHR ''>'' \<or> latin_white (hd after)")
      case True
      with i(2) have "opens_tag name s" by (auto simp: opens_tag_at)
      moreover from True Some have "opener_in name s"
        by (auto simp: opener_in.simps [of name s] Let_def split: list.split)
      ultimately show ?thesis by simp
    next
      case False
      then have step: "opener_in name s = opener_in name (drop ?n s)"
        using Some by (auto simp: opener_in.simps [of name s] Let_def split: list.split)
      have "opens_tag name s \<longleftrightarrow> opens_tag name (drop ?n s)"
      proof
        assume "opens_tag name s"
        then obtain j where j: "prefix (CHR ''<'' # name) (drop j s)"
          "let after = drop (j + Suc (length name)) s in after = [] \<or> hd after = CHR ''>'' \<or> latin_white (hd after)"
          by (auto simp: opens_tag_at)
        with False have "j \<noteq> i" by auto
        with i(3) j(1) have "i < j" by (metis linorder_neqE_nat)
        from no_overlap [OF assms i(2) j(1) this] obtain k where "j = ?n + k" using le_Suc_ex by blast
        with j show "opens_tag name (drop ?n s)"
          unfolding opens_tag_at by (intro exI [of _ k]) (simp add: add.commute add.left_commute)
      next
        assume "opens_tag name (drop ?n s)"
        then obtain before after where "drop ?n s = before @ CHR ''<'' # name @ after"
          "after = [] \<or> hd after = CHR ''>'' \<or> latin_white (hd after)" by (auto simp: opens_tag_def)
        moreover from this(1) have "s = (take ?n s @ before) @ CHR ''<'' # name @ after"
          by (metis append_assoc append_take_drop_id)
        ultimately show "opens_tag name s" unfolding opens_tag_def by blast
      qed
      moreover have "length (drop ?n s) < length s" using i(1) by simp
      ultimately show ?thesis using less step by blast
    qed
  qed
qed


section \<open>What is stripped\<close>

lemma protocol_name_chars:
  assumes "protocol_name name"
  shows "name \<noteq> []" "c \<in> set name \<Longrightarrow> 33 \<le> byte_of c \<and> byte_of c < 128 \<and> c \<noteq> CHR ''<''"
proof -
  from assms obtain k where k: "k \<in> set PROTOCOL_TAG_NAMES" "to_ascii_lowercase name = to_ascii_lowercase k"
    by (auto simp: protocol_name_def list_ex_iff)
  have "list_all (\<lambda>k. k \<noteq> [] \<and> list_all (\<lambda>c. 33 \<le> byte_of c \<and> byte_of c < 128 \<and> byte_of c \<noteq> 60) (to_ascii_lowercase k))
      PROTOCOL_TAG_NAMES" by code_simp
  with k(1) have known: "k \<noteq> []" "\<forall>c \<in> set (to_ascii_lowercase k). 33 \<le> byte_of c \<and> byte_of c < 128 \<and> byte_of c \<noteq> 60"
    by (auto simp: list_all_iff)
  from known(1) show "name \<noteq> []" using k(2) by (auto simp: to_ascii_lowercase_def)
  assume "c \<in> set name"
  then have "(if 65 \<le> byte_of c \<and> byte_of c \<le> 90 then char_of (byte_of c + 32) else c) \<in> set (to_ascii_lowercase name)"
    by (auto simp: to_ascii_lowercase_def)
  with known(2) k(2) have "33 \<le> byte_of c \<and> byte_of c < 128 \<and> byte_of c \<noteq> 60"
    by (cases "65 \<le> byte_of c \<and> byte_of c \<le> 90") auto
  moreover have "byte_of (CHR ''<'') = 60" by (simp add: byte_of_def)
  ultimately show "33 \<le> byte_of c \<and> byte_of c < 128 \<and> c \<noteq> CHR ''<''" by auto
qed

lemma str_contains_set: "str_contains s w \<Longrightarrow> set w \<subseteq> set s"
proof (induction s)
  case (Cons a s)
  then show ?case using set_mono_prefix [of w "a # s"] by auto
qed simp

lemma protocol_name_not_white: "protocol_name name \<Longrightarrow> \<not> has_white name"
proof
  assume name: "protocol_name name" and "has_white name"
  then obtain w where w: "w \<in> set white_space" "set w \<subseteq> set name"
    by (auto simp: has_white_def list_ex_iff dest: str_contains_set)
  have "\<forall>w \<in> set white_space. \<exists>c \<in> set w. byte_of c < 33 \<or> 128 \<le> byte_of c"
    by (simp add: white_space_def bytes_def byte_of_def)
  with w obtain c where "c \<in> set name" "byte_of c < 33 \<or> 128 \<le> byte_of c" by blast
  with protocol_name_chars(2) [OF name] show False by fastforce
qed

text \<open>The tag at the end of a text that closes nothing, and what stands before it.\<close>

definition dangling :: "string \<Rightarrow> string \<Rightarrow> bool" where
  "dangling head before =
     (\<exists>name. head = before @ ''</'' @ name @ ''>'' \<and> protocol_name name
        \<and> \<not> opens_tag (to_ascii_lowercase name) (to_ascii_lowercase before))"

lemma lower_plain: "protocol_name name \<Longrightarrow> CHR ''<'' \<notin> set (to_ascii_lowercase name)"
proof
  assume n: "protocol_name name" and "CHR ''<'' \<in> set (to_ascii_lowercase name)"
  then obtain c where c: "c \<in> set name" "CHR ''<'' = (if 65 \<le> byte_of c \<and> byte_of c \<le> 90 then char_of (byte_of c + 32) else c)"
    by (auto simp: to_ascii_lowercase_def)
  have "byte_of (CHR ''<'') = 60" by (simp add: byte_of_def)
  with c protocol_name_chars(2) [OF n c(1)] show False
    by (cases "65 \<le> byte_of c \<and> byte_of c \<le> 90") (auto simp: byte_of_def)
qed

lemma last_close_at:
  assumes "protocol_name name"
  shows "last_at ''</'' (before @ ''</'' @ name @ ''>'') = Some (length before)"
proof -
  let ?s = "before @ ''</'' @ name @ ''>''"
  have "\<not> prefix ''</'' (drop j ?s)" if "length before < j" for j
  proof
    assume p: "prefix ''</'' (drop j ?s)"
    have "drop j ?s = drop (j - length before - 1) (CHR ''/'' # name @ ''>'')"
      using that by (cases "j - length before") (simp_all add: drop_append)
    with p have "CHR ''<'' \<in> set (CHR ''/'' # name @ ''>'')"
      by (metis set_drop_subset set_mono_prefix list.set_intros(1) subset_iff)
    with protocol_name_chars(2) [OF assms] show False by auto
  qed
  then show ?thesis unfolding last_at_Some by simp
qed

lemma drop_tag_dangling: "drop_tag head = Some before \<longleftrightarrow> dangling head before"
proof
  assume "drop_tag head = Some before"
  then obtain at where d: "suffix ''>'' head" "last_at ''</'' head = Some at" "before = take at head"
    "protocol_name (butlast (drop (at + 2) head))" "\<not> has_matching_opener before (butlast (drop (at + 2) head))"
    by (auto simp: drop_tag_def Let_def split: if_splits option.splits)
  let ?name = "butlast (drop (at + 2) head)"
  from d(2) obtain r where r: "drop at head = ''</'' @ r" unfolding last_at_Some by (auto simp: prefix_def)
  then have "drop 2 (drop at head) = r" by simp
  then have rest: "drop (at + 2) head = r" by (simp add: add.commute)
  with protocol_name_chars(1) [OF d(4)] have "r \<noteq> []" by auto
  with d(1) r have "last r = CHR ''>''"
    by (metis append_is_Nil_conv append_take_drop_id last.simps last_append list.distinct(1) suffix_def)
  with \<open>r \<noteq> []\<close> have "r = ?name @ ''>''" by (metis append_butlast_last_id rest)
  with r d(3) have "head = before @ ''</'' @ ?name @ ''>''" by (metis append_take_drop_id)
  moreover have "\<not> opens_tag (to_ascii_lowercase ?name) (to_ascii_lowercase before)"
    using d(5) opener_in_opens [OF lower_plain [OF d(4)]] by (simp add: has_matching_opener_def)
  ultimately show "dangling head before" using d(4) unfolding dangling_def by blast
next
  assume "dangling head before"
  then obtain name where n: "head = before @ ''</'' @ name @ ''>''" "protocol_name name"
    "\<not> opens_tag (to_ascii_lowercase name) (to_ascii_lowercase before)" by (auto simp: dangling_def)
  have "suffix ''>'' head" unfolding n(1) by (simp add: suffix_def)
  moreover have "last_at ''</'' head = Some (length before)" unfolding n(1) by (rule last_close_at [OF n(2)])
  moreover have "butlast (drop (length before + 2) head) = name" unfolding n(1) by (simp add: butlast_append)
  moreover have "take (length before) head = before" unfolding n(1) by simp
  moreover have "\<not> has_matching_opener before name"
    using n(3) opener_in_opens [OF lower_plain [OF n(2)]] by (simp add: has_matching_opener_def)
  ultimately show "drop_tag head = Some before"
    using protocol_name_chars(1) [OF n(2)] protocol_name_not_white [OF n(2)] n(2) by (simp add: drop_tag_def Let_def)
qed

text \<open>A text loses its last tag, the white space behind it included.\<close>

definition loses_tag :: "string \<Rightarrow> string \<Rightarrow> bool" where
  "loses_tag text before = dangling (strip_white_end text) before"

lemma strip_white_end_idem [simp]: "strip_white_end (strip_white_end s) = strip_white_end s"
proof (induction s rule: strip_white_end.induct)
  case (1 s)
  show ?case
  proof (cases "find (\<lambda>w. w \<noteq> [] \<and> suffix w s) white_space")
    case None then show ?thesis by (simp add: strip_white_end.simps [of s])
  next
    case (Some w) with 1 show ?thesis by (simp add: strip_white_end.simps [of s])
  qed
qed

lemma strip_white_end_prefix: "prefix (strip_white_end s) s"
proof (induction s rule: strip_white_end.induct)
  case (1 s)
  show ?case
  proof (cases "find (\<lambda>w. w \<noteq> [] \<and> suffix w s) white_space")
    case None then show ?thesis by (simp add: strip_white_end.simps [of s])
  next
    case (Some w)
    with 1 have "prefix (strip_white_end (take (length s - length w) s)) s"
      by (meson prefix_order.trans take_is_prefix)
    with Some show ?thesis by (simp add: strip_white_end.simps [of s])
  qed
qed

lemma walk_tags_loses: "\<exists>k. loses_tag\<^sup>*\<^sup>* t k \<and> (\<nexists>b. loses_tag k b) \<and> walk_tags t = strip_white_end k"
proof (induction t rule: walk_tags.induct)
  case (1 t)
  let ?head = "strip_white_end t"
  show ?case
  proof (cases "drop_tag ?head")
    case None
    then have "\<nexists>b. loses_tag t b" by (simp add: loses_tag_def flip: drop_tag_dangling)
    moreover from None have "walk_tags t = ?head" by (simp add: walk_tags.simps [of t] Let_def)
    ultimately show ?thesis by blast
  next
    case (Some before)
    then have "loses_tag t before" by (simp add: loses_tag_def drop_tag_dangling)
    moreover have ne: "?head \<noteq> []" using Some by (auto simp: drop_tag_def)
    moreover from 1 [OF refl ne Some] obtain k where
      "loses_tag\<^sup>*\<^sup>* before k" "\<nexists>b. loses_tag k b" "walk_tags before = strip_white_end k" by blast
    moreover have "walk_tags t = walk_tags before" using Some ne by (simp add: walk_tags.simps [of t] Let_def)
    ultimately have "loses_tag\<^sup>*\<^sup>* t k" "walk_tags t = strip_white_end k"
      by (simp_all add: converse_rtranclp_into_rtranclp)
    with \<open>\<nexists>b. loses_tag k b\<close> show ?thesis by blast
  qed
qed

lemma loses_tag_trimmed: "loses_tag (strip_white_end text) = loses_tag text"
  by (simp add: fun_eq_iff loses_tag_def)

lemma loses_prefix: "loses_tag\<^sup>*\<^sup>* text k \<Longrightarrow> prefix k text"
proof (induction rule: rtranclp_induct)
  case (step y z)
  then have "prefix z (strip_white_end y)" by (auto simp: loses_tag_def dangling_def prefix_def)
  with step strip_white_end_prefix [of y] show ?case by (meson prefix_order.trans)
qed simp

text \<open>C33. The text typed is the text given, less the dangling tags at its end. If no closing tag of the
  protocol without an opener before it stands at the end, nothing changes, white space included;
  else the result is what is left when all of them, one after the other, and the white space
  around them are gone, and no more: it is a beginning of the text, its end is not such a tag,
  and sanitizing it again changes nothing.\<close>

theorem sanitizer_strips_dangling_tags_only:
  "((\<nexists>b. loses_tag text b) \<and> strip_trailing_agent_protocol_tags text = text
     \<or> (\<exists>k. loses_tag\<^sup>+\<^sup>+ text k \<and> (\<nexists>b. loses_tag k b)
          \<and> strip_trailing_agent_protocol_tags text = strip_white_end k))
   \<and> prefix (strip_trailing_agent_protocol_tags text) text
   \<and> strip_trailing_agent_protocol_tags (strip_trailing_agent_protocol_tags text) = strip_trailing_agent_protocol_tags text"
proof -
  let ?r = "strip_trailing_agent_protocol_tags text"
  have same: "strip_trailing_agent_protocol_tags t = t" if "\<nexists>b. loses_tag t b" for t
    using that unfolding loses_tag_def drop_tag_dangling [symmetric]
    by (auto simp: strip_trailing_agent_protocol_tags_def Let_def)
  show ?thesis
  proof (cases "\<exists>b. loses_tag text b")
    case False with same [of "text"] show ?thesis by simp
  next
    case True
    then have "drop_tag (strip_white_end text) \<noteq> None" by (auto simp: loses_tag_def drop_tag_dangling [symmetric])
    moreover from this have "strip_white_end text \<noteq> []" by (auto simp: drop_tag_def)
    ultimately have r: "?r = strip_white_end (walk_tags (strip_white_end text))"
      by (auto simp: strip_trailing_agent_protocol_tags_def Let_def)
    from walk_tags_loses [of "strip_white_end text"] obtain k where
      k: "loses_tag\<^sup>*\<^sup>* (strip_white_end text) k" "\<nexists>b. loses_tag k b" "walk_tags (strip_white_end text) = strip_white_end k"
      by blast
    have "k \<noteq> strip_white_end text" using True k(2) by (metis loses_tag_trimmed)
    then obtain y where "loses_tag (strip_white_end text) y" "loses_tag\<^sup>*\<^sup>* y k"
      using k(1) by (metis converse_rtranclpE)
    then have plus: "loses_tag\<^sup>+\<^sup>+ text k" by (simp add: loses_tag_trimmed rtranclp_into_tranclp2)
    have rk: "?r = strip_white_end k" using r k(3) by simp
    have "prefix ?r text" unfolding rk
      using strip_white_end_prefix [of k] loses_prefix [OF tranclp_into_rtranclp [OF plus]] by (rule prefix_order.trans)
    moreover have "\<nexists>b. loses_tag ?r b" unfolding rk loses_tag_trimmed by (rule k(2))
    ultimately show ?thesis using plus k(2) rk same by blast
  qed
qed

end
