(* ===== verification/WindowTarget.thy ===== *)
theory WindowTarget
  imports Json "HOL-Library.Product_Lexorder"
begin

text \<open>
  \<open>window_target.rs\<close> and \<open>element_cache.rs\<close>: what an action is aimed at. A call that names a process
  only is sent on with the process's one window, or refused; an element of a snapshot is looked up
  only in the cache that this snapshot filled.
\<close>

section \<open>The window of a process\<close>

record window_candidate =
  wc_window_id :: nat
  wc_title :: string
  wc_app_name :: "string option"
  wc_on_screen :: bool

datatype pid_resolution = NotFound | Resolved window_candidate | Ambiguous "window_candidate list"

text \<open>The first candidate with an id is kept.\<close>

fun distinct_windows :: "nat set \<Rightarrow> window_candidate list \<Rightarrow> window_candidate list" where
  "distinct_windows seen [] = []"
| "distinct_windows seen (c # cs) =
     (if wc_window_id c \<in> seen then distinct_windows seen cs
      else c # distinct_windows (insert (wc_window_id c) seen) cs)"

definition resolve_pid_window_target :: "window_candidate list \<Rightarrow> pid_resolution" where
  "resolve_pid_window_target cs =
     (case distinct_windows {} cs of [] \<Rightarrow> NotFound | [c] \<Rightarrow> Resolved c | c # d # rest \<Rightarrow> Ambiguous (c # d # rest))"

text \<open>What the guard does with a call: send it to the tool it wraps, or refuse it. The windows of a process
  come from the platform, or its worker fails.\<close>

datatype guarded_call =
    SentOn json
  | ResolutionFailed int
  | NoWindow int
  | AmbiguousWindow int "window_candidate list"

definition names_target :: "json \<Rightarrow> string \<Rightarrow> bool" where
  "names_target args k = (case json_get args k of None \<Rightarrow> False | Some v \<Rightarrow> v \<noteq> JNull)"

definition with_window_id :: "nat \<Rightarrow> json \<Rightarrow> json" where
  "with_window_id w args =
     (case args of JObj m \<Rightarrow> JObj (kv_put ''window_id'' (JNum (PosInt w)) m) | v \<Rightarrow> v)"

definition pid_only_guard :: "(int \<Rightarrow> window_candidate list option) \<Rightarrow> json \<Rightarrow> guarded_call" where
  "pid_only_guard windows args =
     (if get_str args ''scope'' = Some ''desktop'' \<or> names_target args ''window_id'' \<or> names_target args ''element_token''
      then SentOn args
      else case get_i64 args ''pid'' of
             None \<Rightarrow> SentOn args
           | Some pid \<Rightarrow>
               (case windows pid of
                  None \<Rightarrow> ResolutionFailed pid
                | Some cs \<Rightarrow>
                    (case resolve_pid_window_target cs of
                       NotFound \<Rightarrow> NoWindow pid
                     | Resolved c \<Rightarrow> SentOn (with_window_id (wc_window_id c) args)
                     | Ambiguous ds \<Rightarrow> AmbiguousWindow pid ds)))"

lemma distinct_windows_ids: "set (map wc_window_id (distinct_windows seen cs)) = set (map wc_window_id cs) - seen"
  by (induction seen cs rule: distinct_windows.induct) auto

lemma distinct_windows_distinct: "distinct (map wc_window_id (distinct_windows seen cs))"
  by (induction seen cs rule: distinct_windows.induct) (use distinct_windows_ids in force)+

lemma resolve_cases:
  "resolve_pid_window_target cs = NotFound \<longleftrightarrow> cs = []"
  "resolve_pid_window_target cs = Resolved c \<Longrightarrow> set (map wc_window_id cs) = {wc_window_id c}"
proof -
  have "distinct_windows {} cs = [] \<longleftrightarrow> cs = []"
    using distinct_windows_ids [of "{}" cs] by auto
  then show "resolve_pid_window_target cs = NotFound \<longleftrightarrow> cs = []"
    by (auto simp: resolve_pid_window_target_def split: list.splits)
  assume "resolve_pid_window_target cs = Resolved c"
  then have "distinct_windows {} cs = [c]" by (auto simp: resolve_pid_window_target_def split: list.splits)
  with distinct_windows_ids [of "{}" cs] show "set (map wc_window_id cs) = {wc_window_id c}" by simp
qed

text \<open>C32. An action never picks a window by guessing. A call that the guard sends on either named its
  target - the desktop, a window, an element, or no process at all - and is unchanged, or it named
  a process all of whose windows are one, and then it carries that window and is otherwise
  unchanged; a process with no window or with several is refused.\<close>

theorem no_window_is_guessed:
  assumes "pid_only_guard windows (JObj m) = SentOn args'"
  shows "args' = JObj m \<and> (get_str (JObj m) ''scope'' = Some ''desktop'' \<or> names_target (JObj m) ''window_id''
        \<or> names_target (JObj m) ''element_token'' \<or> get_i64 (JObj m) ''pid'' = None)
    \<or> (\<exists>pid cs w. get_i64 (JObj m) ''pid'' = Some pid \<and> windows pid = Some cs \<and> set (map wc_window_id cs) = {w}
        \<and> get_u64 args' ''window_id'' = Some w \<and> (\<forall>k. k \<noteq> ''window_id'' \<longrightarrow> json_get args' k = json_get (JObj m) k))"
proof (cases "get_str (JObj m) ''scope'' = Some ''desktop'' \<or> names_target (JObj m) ''window_id''
    \<or> names_target (JObj m) ''element_token'' \<or> get_i64 (JObj m) ''pid'' = None")
  case True
  with assms show ?thesis by (auto simp: pid_only_guard_def split: option.splits)
next
  case False
  then obtain pid where pid: "get_i64 (JObj m) ''pid'' = Some pid" by auto
  with False assms obtain cs c where c: "windows pid = Some cs" "resolve_pid_window_target cs = Resolved c"
    "args' = with_window_id (wc_window_id c) (JObj m)"
    by (auto simp: pid_only_guard_def split: option.splits pid_resolution.splits)
  from resolve_cases(2) [OF c(2)] pid c show ?thesis
    by (intro disjI2 exI [of _ pid] exI [of _ cs] exI [of _ "wc_window_id c"])
      (auto simp: with_window_id_def get_u64_def)
qed

theorem no_window_is_guessed_witness:
  "\<exists>w. get_u64 (JObj [(''pid'', JNum (PosInt 7)), (''window_id'', JNum (PosInt 3))]) ''window_id'' = Some w"
proof -
  let ?c = "\<lparr>wc_window_id = 3, wc_title = ''Notes'', wc_app_name = None, wc_on_screen = True\<rparr>"
  have "pid_only_guard (\<lambda>_. Some [?c, ?c]) (JObj [(''pid'', JNum (PosInt 7))])
      = SentOn (JObj [(''pid'', JNum (PosInt 7)), (''window_id'', JNum (PosInt 3))])"
    by (simp add: pid_only_guard_def json_access names_target_def resolve_pid_window_target_def with_window_id_def)
  from no_window_is_guessed [OF this] show ?thesis by auto
qed


section \<open>The cache of elements\<close>

text \<open>One snapshot per window; a snapshot may say which observation produced it.\<close>

record 's versioned_snapshot =
  vs_snapshot_id :: "nat option"
  vs_value :: 's

definition cache_insert_for_snapshot ::
    "'k \<Rightarrow> nat option \<Rightarrow> 's \<Rightarrow> ('k, 's versioned_snapshot) kv \<Rightarrow> ('k, 's versioned_snapshot) kv" where
  "cache_insert_for_snapshot key sid snap c = kv_put key \<lparr>vs_snapshot_id = sid, vs_value = snap\<rparr> c"

definition cache_insert :: "'k \<Rightarrow> 's \<Rightarrow> ('k, 's versioned_snapshot) kv \<Rightarrow> ('k, 's versioned_snapshot) kv" where
  "cache_insert key snap c = cache_insert_for_snapshot key None snap c"

definition with_snapshot :: "'k \<Rightarrow> ('s \<Rightarrow> 'r) \<Rightarrow> ('k, 's versioned_snapshot) kv \<Rightarrow> 'r option" where
  "with_snapshot key f c = map_option (f \<circ> vs_value) (kv_get c key)"

definition with_snapshot_id :: "'k \<Rightarrow> nat \<Rightarrow> ('s \<Rightarrow> 'r) \<Rightarrow> ('k, 's versioned_snapshot) kv \<Rightarrow> 'r option" where
  "with_snapshot_id key sid f c =
     (case kv_get c key of
        None \<Rightarrow> None | Some e \<Rightarrow> if vs_snapshot_id e = Some sid then Some (f (vs_value e)) else None)"

definition cache_remove :: "'k \<Rightarrow> ('k, 's versioned_snapshot) kv \<Rightarrow> ('k, 's versioned_snapshot) kv" where
  "cache_remove key c = kv_del key c"

text \<open>The inserts and removals of a history, the newest last.\<close>

datatype ('k, 's) cache_op = CacheInsert 'k "nat option" 's | CacheRemove 'k

fun cache_step :: "('k, 's) cache_op \<Rightarrow> ('k, 's versioned_snapshot) kv \<Rightarrow> ('k, 's versioned_snapshot) kv" where
  "cache_step (CacheInsert key sid snap) c = cache_insert_for_snapshot key sid snap c"
| "cache_step (CacheRemove key) c = cache_remove key c"

fun op_key :: "('k, 's) cache_op \<Rightarrow> 'k" where
  "op_key (CacheInsert key _ _) = key"
| "op_key (CacheRemove key) = key"

lemma cache_step_get: "kv_get (cache_step p c) key =
    (if op_key p = key then (case p of CacheInsert _ sid snap \<Rightarrow> Some \<lparr>vs_snapshot_id = sid, vs_value = snap\<rparr> | _ \<Rightarrow> None)
     else kv_get c key)"
  by (cases p) (auto simp: cache_insert_for_snapshot_def cache_remove_def)

declare cache_step.simps [simp del]

text \<open>A look-up under an observation's id reads the snapshot that this observation put in last, and
  nothing has touched its window since.\<close>

theorem looked_up_elements_are_of_the_observation:
  assumes "with_snapshot_id key sid f (fold cache_step ops []) = Some r"
  shows "\<exists>before after snap. ops = before @ CacheInsert key (Some sid) snap # after \<and> r = f snap
    \<and> (\<forall>p \<in> set after. op_key p \<noteq> key)"
  using assms
proof (induction ops rule: rev_induct)
  case (snoc p ops)
  show ?case
  proof (cases "op_key p = key")
    case True
    with snoc.prems obtain snap where "p = CacheInsert key (Some sid) snap" "r = f snap"
      by (cases p) (auto simp: with_snapshot_id_def cache_step_get split: if_splits)
    then show ?thesis by (intro exI [of _ ops] exI [of _ "[]"] exI [of _ snap]) simp
  next
    case False
    with snoc.prems have "with_snapshot_id key sid f (fold cache_step ops []) = Some r"
      by (simp add: with_snapshot_id_def cache_step_get)
    from snoc.IH [OF this] obtain before after snap where
      "ops = before @ CacheInsert key (Some sid) snap # after" "r = f snap" "\<forall>q \<in> set after. op_key q \<noteq> key" by blast
    with False show ?thesis by (intro exI [of _ before] exI [of _ "after @ [p]"] exI [of _ snap]) simp
  qed
qed (simp add: with_snapshot_id_def)

end
