(* ===== verification/HistoryEvents.thy ===== *)
theory HistoryEvents
  imports ActionRecord
begin

text \<open>
  The events of the computer history, \<open>history.rs\<close>: the closed set of event types and payloads,
  the validation every event passes before it is encrypted and after it is decrypted, and the
  identifiers. The JSON rendering is that of serde. An event is metadata only: what its fields may
  hold is bounded by \<open>validate_event\<close>.
\<close>

section \<open>Health, payloads and events\<close>

datatype history_health =
    Ready | HistoryOff | HistoryPaused | NotAdmitted | KeyUnavailable | KeyLocked | KeyCorrupt
  | KeyDestroyFailed | StorageUnavailable | StorageCorrupt | QuotaReached | EventsDropped
  | WriterStopped

primrec history_code :: "history_health \<Rightarrow> string" where
  "history_code Ready = ''ready''"
| "history_code HistoryOff = ''history_disabled''"
| "history_code HistoryPaused = ''history_paused''"
| "history_code NotAdmitted = ''history_preview_not_admitted''"
| "history_code KeyUnavailable = ''history_key_unavailable''"
| "history_code KeyLocked = ''history_key_locked''"
| "history_code KeyCorrupt = ''history_key_corrupt''"
| "history_code KeyDestroyFailed = ''history_key_destroy_failed''"
| "history_code StorageUnavailable = ''history_storage_unavailable''"
| "history_code StorageCorrupt = ''history_storage_corrupt''"
| "history_code QuotaReached = ''history_quota_reached''"
| "history_code EventsDropped = ''history_events_dropped''"
| "history_code WriterStopped = ''history_writer_stopped''"

primrec health_name :: "history_health \<Rightarrow> string" where
  "health_name Ready = ''ready''"
| "health_name HistoryOff = ''disabled''"
| "health_name HistoryPaused = ''paused''"
| "health_name NotAdmitted = ''not_admitted''"
| "health_name KeyUnavailable = ''key_unavailable''"
| "health_name KeyLocked = ''key_locked''"
| "health_name KeyCorrupt = ''key_corrupt''"
| "health_name KeyDestroyFailed = ''key_destroy_failed''"
| "health_name StorageUnavailable = ''storage_unavailable''"
| "health_name StorageCorrupt = ''storage_corrupt''"
| "health_name QuotaReached = ''quota_reached''"
| "health_name EventsDropped = ''events_dropped''"
| "health_name WriterStopped = ''writer_stopped''"

datatype control_operation =
  EnableHistory | DisableHistory | PauseHistory | ResumeHistory | FlushHistory | DeleteHistory

primrec control_name :: "control_operation \<Rightarrow> string" where
  "control_name EnableHistory = ''enable''"
| "control_name DisableHistory = ''disable''"
| "control_name PauseHistory = ''pause''"
| "control_name ResumeHistory = ''resume''"
| "control_name FlushHistory = ''flush''"
| "control_name DeleteHistory = ''delete''"

datatype access_operation = AgentQuery | LocalCli

primrec access_name :: "access_operation \<Rightarrow> string" where
  "access_name AgentQuery = ''agent_query''"
| "access_name LocalCli = ''local_cli''"

record completed_action =
  ca_effect :: string
  ca_route :: string
  ca_delivery :: "string option"
  ca_delivered_count :: "nat option"
  ca_evidence_kinds :: "string list"
  ca_escalation_kind :: "string option"

datatype history_payload =
    ControlPayload control_operation
  | ActionStarted
  | ActionCompleted completed_action
  | SessionPayload string
  | AccessPayload string u32
  | HealthPayload history_health u64

record application_identity =
  ai_bundle_id :: "string option"
  ai_display_name :: "string option"

record history_event_data =
  hd_session_id :: "string option"
  hd_action_id :: "string option"
  hd_sequence :: u64
  hd_platform :: string
  hd_process_model :: string
  hd_capability :: "string option"
  hd_caller_category :: string
  hd_application :: "application_identity option"
  hd_payload :: history_payload

record history_event =
  he_specversion :: string
  he_id :: string
  he_source :: string
  he_type :: string
  he_subject :: string
  he_time :: string
  he_datacontenttype :: string
  he_dataschema :: string
  he_data :: history_event_data

abbreviation he_sequence :: "history_event \<Rightarrow> u64" where
  "he_sequence e \<equiv> hd_sequence (he_data e)"

definition set_sequence :: "u64 \<Rightarrow> history_event \<Rightarrow> history_event" where
  "set_sequence n e = e\<lparr>he_data := (he_data e)\<lparr>hd_sequence := n\<rparr>\<rparr>"

definition HISTORY_SCHEMA_URN :: string where
  "HISTORY_SCHEMA_URN = ''urn:cua-driver:schema:history-event:v0''"

definition SOURCE_PREFIX :: string where
  "SOURCE_PREFIX = ''urn:cua-driver:history:''"


section \<open>Identifiers\<close>

text \<open>A byte in \<open>{byte:02x}\<close>; a digest is a list of bytes below 256.\<close>

definition hex_byte :: "nat \<Rightarrow> string" where
  "hex_byte b = [digit_char (b div 16), digit_char (b mod 16)]"

definition hex_128 :: "nat list \<Rightarrow> string" where
  "hex_128 v = concat (map hex_byte v)"

definition opaque_id :: "(string \<Rightarrow> nat list) \<Rightarrow> string \<Rightarrow> string" where
  "opaque_id sha256 v = hex_128 (take 16 (sha256 v))"

definition is_ascii :: "string \<Rightarrow> bool" where
  "is_ascii s = list_all (\<lambda>c. byte_of c < 128) s"

text \<open>The loop over the sixteen pairs, ended by the first that is not a number.\<close>

fun decode_pairs :: "string \<Rightarrow> nat list option" where
  "decode_pairs (a # b # s) =
     (case parse_unsigned 16 256 [a, b] of
        None \<Rightarrow> None
      | Some n \<Rightarrow> map_option ((#) n) (decode_pairs s))"
| "decode_pairs _ = Some []"

definition decode_hex_128 :: "string \<Rightarrow> nat list option" where
  "decode_hex_128 s = (if length s \<noteq> 32 \<or> \<not> is_ascii s then None else decode_pairs s)"

abbreviation hex_id :: "string \<Rightarrow> bool" where
  "hex_id s \<equiv> decode_hex_128 s \<noteq> None"


section \<open>Bounded values\<close>

definition one_line :: "string \<Rightarrow> bool" where
  "one_line s = (CHR 0x0A \<notin> set s \<and> CHR 0x0D \<notin> set s)"

definition is_bounded_scalar :: "string \<Rightarrow> nat \<Rightarrow> bool" where
  "is_bounded_scalar s n = (s \<noteq> [] \<and> length s \<le> n \<and> one_line s)"

definition bounded_string :: "string \<Rightarrow> nat \<Rightarrow> string option" where
  "bounded_string s n =
     (let v = trim s in if v \<noteq> [] \<and> length v \<le> n \<and> one_line v then Some v else None)"

definition sanitize_application_identity ::
    "application_identity \<Rightarrow> application_identity option" where
  "sanitize_application_identity a =
     (let b = Option.bind (ai_bundle_id a) (\<lambda>v. bounded_string v 160);
          d = Option.bind (ai_display_name a) (\<lambda>v. bounded_string v 120)
      in if b \<noteq> None \<or> d \<noteq> None
         then Some (a\<lparr>ai_bundle_id := b, ai_display_name := d\<rparr>) else None)"


section \<open>The JSON of an event\<close>

definition text_entry :: "string \<Rightarrow> string option \<Rightarrow> (string \<times> json) list" where
  "text_entry k v = (case v of None \<Rightarrow> [] | Some s \<Rightarrow> [(k, JStr s)])"

primrec payload_json :: "history_payload \<Rightarrow> json" where
  "payload_json (ControlPayload c) =
     JObj [(''kind'', JStr ''control''), (''operation'', JStr (control_name c))]"
| "payload_json ActionStarted = JObj [(''kind'', JStr ''action_started'')]"
| "payload_json (ActionCompleted a) =
     JObj ((case ca_delivered_count a of None \<Rightarrow> [] | Some n \<Rightarrow> [(''delivered_count'', JNum (PosInt n))])
       @ text_entry ''delivery'' (ca_delivery a)
       @ [(''effect'', JStr (ca_effect a))]
       @ text_entry ''escalation_kind'' (ca_escalation_kind a)
       @ [(''evidence_kinds'', JArr (map JStr (ca_evidence_kinds a))),
          (''kind'', JStr ''action_completed''), (''route'', JStr (ca_route a))])"
| "payload_json (SessionPayload p) = JObj [(''kind'', JStr ''session''), (''phase'', JStr p)]"
| "payload_json (AccessPayload p n) =
     JObj [(''kind'', JStr ''access''), (''operation'', JStr p),
       (''returned_events'', JNum (PosInt (unat n)))]"
| "payload_json (HealthPayload h n) =
     JObj [(''category'', JStr (health_name h)), (''count'', JNum (PosInt (unat n))),
       (''kind'', JStr ''health'')]"

definition identity_json :: "application_identity \<Rightarrow> json" where
  "identity_json a =
     JObj (text_entry ''bundle_id'' (ai_bundle_id a) @ text_entry ''display_name'' (ai_display_name a))"

definition event_data_json :: "history_event_data \<Rightarrow> json" where
  "event_data_json d =
     JObj (text_entry ''action_id'' (hd_action_id d)
       @ (case hd_application d of None \<Rightarrow> [] | Some a \<Rightarrow> [(''application'', identity_json a)])
       @ [(''caller_category'', JStr (hd_caller_category d))]
       @ text_entry ''capability'' (hd_capability d)
       @ [(''payload'', payload_json (hd_payload d)), (''platform'', JStr (hd_platform d)),
          (''process_model'', JStr (hd_process_model d)),
          (''sequence'', JNum (PosInt (unat (hd_sequence d))))]
       @ text_entry ''session_id'' (hd_session_id d))"

definition event_json :: "history_event \<Rightarrow> json" where
  "event_json e =
     JObj [(''data'', event_data_json (he_data e)),
       (''datacontenttype'', JStr (he_datacontenttype e)), (''dataschema'', JStr (he_dataschema e)),
       (''id'', JStr (he_id e)), (''source'', JStr (he_source e)),
       (''specversion'', JStr (he_specversion e)), (''subject'', JStr (he_subject e)),
       (''time'', JStr (he_time e)), (''type'', JStr (he_type e))]"


section \<open>Validation\<close>

definition FORBIDDEN_FIELDS :: "string list" where
  "FORBIDDEN_FIELDS =
     [''args'', ''arguments'', ''result'', ''content'', ''text'', ''clipboard'', ''path'', ''url'',
      ''title'', ''screenshot'', ''image'', ''tree'', ''selector'', ''detail'', ''keystroke'',
      ''password'', ''credential'', ''token'']"

definition forbidden_key :: "string \<Rightarrow> bool" where
  "forbidden_key k =
     (let l = to_ascii_lowercase k
      in list_ex (\<lambda>f. l = f \<or> ends_with l (CHR ''_'' # f)) FORBIDDEN_FIELDS)"

text \<open>Whether the walk of \<open>reject_forbidden_fields\<close> ends in its only error.\<close>

function holds_forbidden :: "json \<Rightarrow> bool" where
  "holds_forbidden (JObj m) = list_ex (\<lambda>e. forbidden_key (fst e) \<or> holds_forbidden (snd e)) m"
| "holds_forbidden (JArr vs) = list_ex holds_forbidden vs"
| "holds_forbidden (JStr s) = (256 < length s)"
| "holds_forbidden (JNum n) = False"
| "holds_forbidden (JBool b) = False"
| "holds_forbidden JNull = False"
  by pat_completeness auto
termination
proof (relation "measure size")
  fix m :: "(string \<times> json) list" and e
  assume "e \<in> set m"
  then show "(snd e, JObj m) \<in> measure size"
    by (induction m) (auto simp: less_Suc_eq_le)
next
  fix vs :: "json list" and v
  assume "v \<in> set vs"
  then show "(v, JArr vs) \<in> measure size" by (induction vs) auto
qed simp

definition reject_forbidden_fields :: "json \<Rightarrow> history_health + unit" where
  "reject_forbidden_fields v = (if holds_forbidden v then Inl StorageCorrupt else Inr ())"

definition CONTROL_EVENT :: string where "CONTROL_EVENT = ''cua-driver.history.control.v0''"
definition STARTED_EVENT :: string where "STARTED_EVENT = ''cua-driver.history.action_started.v0''"
definition COMPLETED_EVENT :: string where
  "COMPLETED_EVENT = ''cua-driver.history.action_completed.v0''"
definition SESSION_STARTED_EVENT :: string where
  "SESSION_STARTED_EVENT = ''cua-driver.history.session_started.v0''"
definition SESSION_ENDED_EVENT :: string where
  "SESSION_ENDED_EVENT = ''cua-driver.history.session_ended.v0''"
definition ACCESS_EVENT :: string where "ACCESS_EVENT = ''cua-driver.history.access.v0''"
definition HEALTH_EVENT :: string where "HEALTH_EVENT = ''cua-driver.history.health.v0''"

lemmas event_types =
  CONTROL_EVENT_def STARTED_EVENT_def COMPLETED_EVENT_def SESSION_STARTED_EVENT_def
  SESSION_ENDED_EVENT_def ACCESS_EVENT_def HEALTH_EVENT_def

definition ALLOWED_TYPES :: "string list" where
  "ALLOWED_TYPES =
     [CONTROL_EVENT, STARTED_EVENT, COMPLETED_EVENT, SESSION_STARTED_EVENT, SESSION_ENDED_EVENT,
      ACCESS_EVENT, HEALTH_EVENT]"

definition EFFECT_NAMES :: "string list" where
  "EFFECT_NAMES =
     [''confirmed'', ''partial'', ''unverifiable'', ''suspected_noop'', ''refused'', ''failed'']"

definition ROUTE_NAMES :: "string list" where
  "ROUTE_NAMES =
     [''accessibility'', ''synthetic_events'', ''global_input'', ''system_api'', ''dom'',
      ''trusted_input'', ''unknown'']"

definition DELIVERY_NAMES :: "string list" where
  "DELIVERY_NAMES = [''background'', ''foreground'', ''not_applicable'', ''unknown'']"

definition EVIDENCE_NAMES :: "string list" where
  "EVIDENCE_NAMES =
     [''accessibility_readback'', ''browser_readback'', ''value_readback'', ''window_change'']"

definition ESCALATION_NAMES :: "string list" where
  "ESCALATION_NAMES =
     [''activate_target'', ''retry_with_pixel_target'', ''retry_with_page_action'',
      ''refresh_page_state'', ''request_permission'', ''elevate_access'', ''expand_capture_scope'',
      ''prepare_session'', ''retry_with_foreground_delivery'']"

definition is_none_or :: "('a \<Rightarrow> bool) \<Rightarrow> 'a option \<Rightarrow> bool" where
  "is_none_or P v = (case v of None \<Rightarrow> True | Some x \<Rightarrow> P x)"

definition completed_payload_ok :: "completed_action \<Rightarrow> bool" where
  "completed_payload_ok a =
     (ca_effect a \<in> set EFFECT_NAMES \<and> ca_route a \<in> set ROUTE_NAMES
      \<and> is_none_or (\<lambda>v. v \<in> set DELIVERY_NAMES) (ca_delivery a)
      \<and> length (ca_evidence_kinds a) \<le> 16
      \<and> list_all (\<lambda>v. v \<in> set EVIDENCE_NAMES) (ca_evidence_kinds a)
      \<and> is_none_or (\<lambda>v. v \<in> set ESCALATION_NAMES) (ca_escalation_kind a))"

definition valid_payload_for_event :: "string \<Rightarrow> history_payload \<Rightarrow> bool" where
  "valid_payload_for_event t p =
     (case p of
        ControlPayload _ \<Rightarrow> t = CONTROL_EVENT
      | ActionStarted \<Rightarrow> t = STARTED_EVENT
      | ActionCompleted a \<Rightarrow> t = COMPLETED_EVENT \<and> completed_payload_ok a
      | SessionPayload ph \<Rightarrow>
          t = SESSION_STARTED_EVENT \<and> ph = ''started'' \<or> t = SESSION_ENDED_EVENT \<and> ph = ''ended''
      | AccessPayload op _ \<Rightarrow> t = ACCESS_EVENT \<and> op \<in> {''agent_query'', ''local_cli''}
      | HealthPayload _ _ \<Rightarrow> t = HEALTH_EVENT)"

definition identity_bounded :: "application_identity \<Rightarrow> bool" where
  "identity_bounded a =
     (is_none_or (\<lambda>v. is_bounded_scalar v 160) (ai_bundle_id a)
      \<and> is_none_or (\<lambda>v. is_bounded_scalar v 120) (ai_display_name a))"

definition envelope_ok :: "history_event \<Rightarrow> bool" where
  "envelope_ok e =
     (he_specversion e = ''1.0'' \<and> he_datacontenttype e = ''application/json''
      \<and> he_dataschema e = HISTORY_SCHEMA_URN
      \<and> Option.bind (strip_prefix SOURCE_PREFIX (he_source e)) decode_hex_128 \<noteq> None
      \<and> he_type e \<in> set ALLOWED_TYPES \<and> hex_id (he_id e) \<and> length (he_subject e) \<le> 160)"

definition event_data_ok :: "history_event_data \<Rightarrow> bool" where
  "event_data_ok d =
     (hd_sequence d \<noteq> 0 \<and> hd_platform d \<in> {''macos'', ''windows'', ''linux''}
      \<and> hd_process_model d = ''in_daemon'' \<and> hd_caller_category d = ''cua_runtime''
      \<and> is_none_or hex_id (hd_session_id d) \<and> is_none_or hex_id (hd_action_id d)
      \<and> is_none_or (\<lambda>v. is_bounded_scalar v 128) (hd_capability d)
      \<and> is_none_or identity_bounded (hd_application d))"

definition validate_event :: "history_event \<Rightarrow> history_health + unit" where
  "validate_event e =
     (if envelope_ok e \<and> event_data_ok (he_data e)
         \<and> valid_payload_for_event (he_type e) (hd_payload (he_data e))
      then reject_forbidden_fields (event_json e) else Inl StorageCorrupt)"

abbreviation valid_event :: "history_event \<Rightarrow> bool" where
  "valid_event e \<equiv> validate_event e = Inr ()"


section \<open>Names of an outcome\<close>

primrec effect_name_of :: "action_effect \<Rightarrow> string" where
  "effect_name_of Confirmed = ''confirmed''"
| "effect_name_of Partial = ''partial''"
| "effect_name_of Unverifiable = ''unverifiable''"
| "effect_name_of SuspectedNoop = ''suspected_noop''"
| "effect_name_of RefusedEffect = ''refused''"

primrec route_name_of :: "action_route \<Rightarrow> string" where
  "route_name_of Accessibility = ''accessibility''"
| "route_name_of SyntheticEvents = ''synthetic_events''"
| "route_name_of GlobalInput = ''global_input''"
| "route_name_of SystemApi = ''system_api''"
| "route_name_of Dom = ''dom''"
| "route_name_of TrustedInput = ''trusted_input''"

primrec delivery_name :: "actual_delivery \<Rightarrow> string" where
  "delivery_name ActualBackground = ''background''"
| "delivery_name ActualForeground = ''foreground''"
| "delivery_name ActualNotApplicable = ''not_applicable''"
| "delivery_name ActualUnknown = ''unknown''"

primrec evidence_name :: "projected_kind \<Rightarrow> string" where
  "evidence_name ProjectedAccessibility = ''accessibility_readback''"
| "evidence_name ProjectedBrowser = ''browser_readback''"
| "evidence_name ProjectedValue = ''value_readback''"
| "evidence_name ProjectedWindowChange = ''window_change''"

primrec escalation_name :: "escalation_kind \<Rightarrow> string" where
  "escalation_name ActivateTarget = ''activate_target''"
| "escalation_name RetryWithPixelTarget = ''retry_with_pixel_target''"
| "escalation_name RetryWithPageAction = ''retry_with_page_action''"
| "escalation_name RefreshPageState = ''refresh_page_state''"
| "escalation_name RequestPermission = ''request_permission''"
| "escalation_name ElevateAccess = ''elevate_access''"
| "escalation_name ExpandCaptureScope = ''expand_capture_scope''"
| "escalation_name PrepareSession = ''prepare_session''"
| "escalation_name RetryWithForegroundDelivery = ''retry_with_foreground_delivery''"

text \<open>The payload \<open>finish_action\<close> makes of a record, or of its absence.\<close>

definition completed_payload :: "execution_record option \<Rightarrow> bool \<Rightarrow> history_payload" where
  "completed_payload r failed =
     (case Option.bind r (\<lambda>x. case stable_projection x of Inl _ \<Rightarrow> None | Inr p \<Rightarrow> Some p) of
        Some p \<Rightarrow> ActionCompleted
          \<lparr>ca_effect = effect_name_of (op_effect p), ca_route = route_name_of (op_route p),
           ca_delivery = map_option (\<lambda>d. delivery_name (dp_actual d)) (op_delivery p),
           ca_delivered_count = Option.bind (op_delivery p) dp_delivered_count,
           ca_evidence_kinds =
             map (\<lambda>e. evidence_name (ep_kind e)) (case op_evidence p of None \<Rightarrow> [] | Some es \<Rightarrow> es),
           ca_escalation_kind = map_option (\<lambda>e. escalation_name (es_kind e)) (op_escalation p)\<rparr>
      | None \<Rightarrow> ActionCompleted
          \<lparr>ca_effect = (if failed then ''failed'' else ''unverifiable''), ca_route = ''unknown'',
           ca_delivery = None, ca_delivered_count = None, ca_evidence_kinds = [],
           ca_escalation_kind = None\<rparr>)"


text \<open>The event \<open>event\<close> builds; the sequence number is a placeholder until it is queued.\<close>

definition new_history_event ::
    "(string \<Rightarrow> nat list) \<Rightarrow> string \<Rightarrow> string \<Rightarrow> string \<Rightarrow> string \<Rightarrow> string \<Rightarrow> string
       \<Rightarrow> string option \<Rightarrow> string option \<Rightarrow> string option \<Rightarrow> history_payload \<Rightarrow> history_event" where
  "new_history_event sha256 stream platform uuid now t subject sid aid cap p =
     \<lparr>he_specversion = ''1.0'', he_id = opaque_id sha256 uuid, he_source = SOURCE_PREFIX @ stream,
      he_type = t, he_subject = subject, he_time = now, he_datacontenttype = ''application/json'',
      he_dataschema = HISTORY_SCHEMA_URN,
      he_data = \<lparr>hd_session_id = sid, hd_action_id = aid, hd_sequence = 1, hd_platform = platform,
        hd_process_model = ''in_daemon'', hd_capability = cap, hd_caller_category = ''cua_runtime'',
        hd_application = None, hd_payload = p\<rparr>\<rparr>"


section \<open>Identifiers decode\<close>

lemma pair_decodes:
  assumes "b < 256" shows "parse_unsigned 16 256 (hex_byte b) = Some b"
proof -
  have h: "b div 16 < 16" using assms by simp
  have d: "char_digit 16 (digit_char n) = Some n \<and> digit_char n \<noteq> CHR ''+''" if "n < 16" for n
  proof -
    from that have "n \<in> set [0..<16]" by simp
    then show ?thesis by (simp add: upt_rec digit_char_def char_digit_def del: set_upt) (elim disjE; simp add: char_of_def)
  qed
  show ?thesis using d [OF h] d [of "b mod 16"] assms
    by (simp add: parse_unsigned_def hex_byte_def Let_def)
qed

lemma hex_byte_ascii: "b < 256 \<Longrightarrow> is_ascii (hex_byte b)"
proof -
  have d: "byte_of (digit_char n) < 128" if "n < 16" for n
    using that by (auto simp: digit_char_def byte_of_def)
  show "b < 256 \<Longrightarrow> is_ascii (hex_byte b)" by (simp add: is_ascii_def hex_byte_def d)
qed

lemma decode_pairs_hex: "list_all (\<lambda>b. b < 256) v \<Longrightarrow> decode_pairs (hex_128 v) = Some v"
  unfolding hex_128_def by (induction v) (use pair_decodes in \<open>auto simp: hex_byte_def\<close>)

lemma hex_128_ascii: "list_all (\<lambda>b. b < 256) v \<Longrightarrow> is_ascii (hex_128 v)"
  unfolding hex_128_def using hex_byte_ascii by (induction v) (auto simp: is_ascii_def)

lemma hex_128_length: "length (hex_128 v) = 2 * length v"
  unfolding hex_128_def by (induction v) (simp_all add: hex_byte_def)

lemma hex_128_decodes:
  assumes "length v = 16" "list_all (\<lambda>b. b < 256) v" shows "decode_hex_128 (hex_128 v) = Some v"
  using assms by (simp add: decode_hex_128_def hex_128_length hex_128_ascii decode_pairs_hex)

definition is_digest :: "nat list \<Rightarrow> bool" where
  "is_digest v = (length v = 32 \<and> list_all (\<lambda>b. b < 256) v)"

lemma opaque_id_hex: "is_digest (sha v) \<Longrightarrow> hex_id (opaque_id sha v)"
  using hex_128_decodes [of "take 16 (sha v)"]
  by (auto simp: opaque_id_def is_digest_def list_all_iff dest: in_set_takeD)

lemma hex_id_length: "hex_id s \<Longrightarrow> length s = 32"
  by (simp add: decode_hex_128_def split: if_splits)

text \<open>A pair may also be a plus sign and a digit, which \<open>from_str_radix\<close> reads as a number: an
  identifier that is not hexadecimal is accepted.\<close>

lemma signed_pairs_accepted: "hex_id (concat (replicate 16 ''+f''))"
  by code_simp


section \<open>What a valid event is\<close>

text \<open>No field name of an event is forbidden, so the walk over its JSON only bounds its strings;
  all but the time are bounded by the other checks.\<close>

definition EVENT_KEYS :: "string list" where
  "EVENT_KEYS =
     [''data'', ''datacontenttype'', ''dataschema'', ''id'', ''source'', ''specversion'', ''subject'', ''time'',
      ''type'', ''action_id'', ''application'', ''caller_category'', ''capability'', ''payload'',
      ''platform'', ''process_model'', ''sequence'', ''session_id'', ''bundle_id'', ''display_name'',
      ''kind'', ''operation'', ''delivered_count'', ''delivery'', ''effect'', ''escalation_kind'',
      ''evidence_kinds'', ''route'', ''phase'', ''returned_events'', ''category'', ''count'']"

lemma lower_id:
  "list_all (\<lambda>c. \<not> (65 \<le> byte_of c \<and> byte_of c \<le> 90)) s \<Longrightarrow> to_ascii_lowercase s = s"
  unfolding to_ascii_lowercase_def by (induction s) auto

lemma keys_lower:
  "list_all (list_all (\<lambda>c. \<not> (65 \<le> byte_of c \<and> byte_of c \<le> 90))) EVENT_KEYS"
  by (simp add: EVENT_KEYS_def byte_of_def)

lemma keys_end_well:
  "list_all (\<lambda>l. \<not> list_ex (\<lambda>f. l = f \<or> ends_with l (CHR ''_'' # f)) FORBIDDEN_FIELDS) EVENT_KEYS"
  by (simp add: EVENT_KEYS_def FORBIDDEN_FIELDS_def ends_with_def suffix_to_prefix)

lemma event_keys_allowed: "list_all (\<lambda>k. \<not> forbidden_key k) EVENT_KEYS"
  unfolding list_all_iff
proof
  fix k assume "k \<in> set EVENT_KEYS"
  then have "to_ascii_lowercase k = k"
    and "\<not> list_ex (\<lambda>f. k = f \<or> ends_with k (CHR ''_'' # f)) FORBIDDEN_FIELDS"
    using keys_lower keys_end_well by (simp_all add: list_all_iff lower_id)
  then show "\<not> forbidden_key k" by (simp add: forbidden_key_def)
qed

lemmas allowed_keys [simp] = event_keys_allowed [unfolded EVENT_KEYS_def list.pred_inject, simplified]

lemma text_entry_clean:
  assumes "\<not> forbidden_key k"
  shows "list_ex (\<lambda>e. forbidden_key (fst e) \<or> holds_forbidden (snd e)) (text_entry k v) \<longleftrightarrow>
           (\<exists>s. v = Some s \<and> 256 < length s)"
  using assms by (simp add: text_entry_def split: option.split)

lemma names_short:
  "x \<in> set EFFECT_NAMES \<Longrightarrow> length x \<le> 256" "x \<in> set ROUTE_NAMES \<Longrightarrow> length x \<le> 256"
  "x \<in> set DELIVERY_NAMES \<Longrightarrow> length x \<le> 256" "x \<in> set EVIDENCE_NAMES \<Longrightarrow> length x \<le> 256"
  "x \<in> set ESCALATION_NAMES \<Longrightarrow> length x \<le> 256" "x \<in> set ALLOWED_TYPES \<Longrightarrow> length x \<le> 256"
  by (auto simp: EFFECT_NAMES_def ROUTE_NAMES_def DELIVERY_NAMES_def EVIDENCE_NAMES_def
      ESCALATION_NAMES_def ALLOWED_TYPES_def event_types)

lemma completed_clean:
  assumes "completed_payload_ok a" shows "\<not> holds_forbidden (payload_json (ActionCompleted a))"
proof -
  have e: "\<not> 256 < length (ca_effect a)" "\<not> 256 < length (ca_route a)"
    using assms names_short(1,2) [of "ca_effect a"] names_short(2) [of "ca_route a"]
    by (simp_all add: completed_payload_ok_def not_less)
  have d: "\<not> (\<exists>s. ca_delivery a = Some s \<and> 256 < length s)"
    using assms names_short(3) by (fastforce simp: completed_payload_ok_def is_none_or_def)
  have k: "\<not> (\<exists>s. ca_escalation_kind a = Some s \<and> 256 < length s)"
    using assms names_short(5) by (fastforce simp: completed_payload_ok_def is_none_or_def)
  have v: "\<not> list_ex holds_forbidden (map JStr (ca_evidence_kinds a))"
    using assms names_short(4) by (fastforce simp: completed_payload_ok_def list_all_iff list_ex_iff)
  from e d k v show ?thesis
    by (simp add: text_entry_clean split: option.split)
qed

lemma payload_clean:
  assumes "valid_payload_for_event t p" shows "\<not> holds_forbidden (payload_json p)"
proof (cases p)
  case (ControlPayload c)
  then show ?thesis by (cases c) simp_all
next
  case (ActionCompleted a)
  with assms show ?thesis by (simp add: completed_clean valid_payload_for_event_def
        del: payload_json.simps)
next
  case (SessionPayload ph)
  with assms show ?thesis by (auto simp: valid_payload_for_event_def)
next
  case (AccessPayload op n)
  with assms show ?thesis by (auto simp: valid_payload_for_event_def)
next
  case (HealthPayload h n)
  then show ?thesis by (cases h) simp_all
qed simp

lemma identity_clean:
  assumes "identity_bounded a" shows "\<not> holds_forbidden (identity_json a)"
  using assms
  by (auto simp: identity_json_def text_entry_clean identity_bounded_def is_none_or_def
      is_bounded_scalar_def)

lemma event_data_clean:
  assumes d: "event_data_ok d" and p: "\<not> holds_forbidden (payload_json (hd_payload d))"
  shows "\<not> holds_forbidden (event_data_json d)"
proof -
  have "\<not> (\<exists>s. hd_session_id d = Some s \<and> 256 < length s)"
    "\<not> (\<exists>s. hd_action_id d = Some s \<and> 256 < length s)"
    using d hex_id_length by (fastforce simp: event_data_ok_def is_none_or_def)+
  moreover have "\<not> (\<exists>s. hd_capability d = Some s \<and> 256 < length s)"
    using d by (fastforce simp: event_data_ok_def is_none_or_def is_bounded_scalar_def)
  moreover have "\<not> (\<exists>a. hd_application d = Some a \<and> holds_forbidden (identity_json a))"
    using d identity_clean by (fastforce simp: event_data_ok_def is_none_or_def)
  moreover have "\<not> 256 < length (hd_platform d)"
    using d by (auto simp: event_data_ok_def)
  ultimately show ?thesis using d p
    by (auto simp: event_data_json_def text_entry_clean event_data_ok_def split: option.split)
qed

lemma source_length:
  assumes "Option.bind (strip_prefix SOURCE_PREFIX v) decode_hex_128 \<noteq> None"
  shows "length v = 55" and "\<exists>i. hex_id i \<and> v = SOURCE_PREFIX @ i"
proof -
  from assms obtain i where "strip_prefix SOURCE_PREFIX v = Some i" "hex_id i"
    by (cases "strip_prefix SOURCE_PREFIX v") auto
  then have "v = SOURCE_PREFIX @ i"
    by (auto simp: strip_prefix_def prefix_def split: if_splits)
  with \<open>hex_id i\<close> show "length v = 55" and "\<exists>i. hex_id i \<and> v = SOURCE_PREFIX @ i"
    using hex_id_length [of i] by (simp_all add: SOURCE_PREFIX_def)
qed

lemma valid_event_iff:
  "valid_event e \<longleftrightarrow>
     envelope_ok e \<and> event_data_ok (he_data e)
     \<and> valid_payload_for_event (he_type e) (hd_payload (he_data e)) \<and> length (he_time e) \<le> 256"
proof (cases "envelope_ok e \<and> event_data_ok (he_data e)
    \<and> valid_payload_for_event (he_type e) (hd_payload (he_data e))")
  case True
  then have "\<not> holds_forbidden (event_data_json (he_data e))"
    using event_data_clean payload_clean by blast
  moreover have "length (he_source e) = 55" "length (he_id e) = 32" "length (he_type e) \<le> 256"
    "length (he_subject e) \<le> 160"
    using True names_short(6) by (auto simp: envelope_ok_def source_length hex_id_length)
  moreover have "length (he_specversion e) \<le> 256" "length (he_datacontenttype e) \<le> 256"
    "length (he_dataschema e) \<le> 256"
    using True by (simp_all add: envelope_ok_def HISTORY_SCHEMA_URN_def)
  ultimately have "holds_forbidden (event_json e) \<longleftrightarrow> 256 < length (he_time e)"
    by (simp add: event_json_def)
  with True show ?thesis by (auto simp: validate_event_def reject_forbidden_fields_def)
qed (auto simp: validate_event_def)


text \<open>The payload of a completed action uses the names validation knows.\<close>

lemma completed_payload_valid:
  assumes "is_none_or (\<lambda>r. length (ar_evidence r) \<le> 16) r"
  shows "valid_payload_for_event COMPLETED_EVENT (completed_payload r failed)"
proof (cases "Option.bind r (\<lambda>x. case stable_projection x of Inl _ \<Rightarrow> None | Inr p \<Rightarrow> Some p)")
  case None
  then show ?thesis
    by (simp add: completed_payload_def valid_payload_for_event_def completed_payload_ok_def
        is_none_or_def EFFECT_NAMES_def ROUTE_NAMES_def)
next
  case (Some p)
  then obtain x where r: "r = Some x" by (cases r) auto
  with Some have x: "r = Some x" "stable_projection x = Inr p"
    by (cases "stable_projection x"; simp)+
  then have ev: "op_evidence p = projected_evidence (ar_evidence x)"
    by (cases "validate_record x") (auto simp: stable_projection_def)
  have "length (case op_evidence p of None \<Rightarrow> [] | Some es \<Rightarrow> es) \<le> 16"
  proof -
    have "length (List.map_filter project_evidence_item es) \<le> length es" for es
      by (induction es) (auto simp: List.map_filter_simps split: option.split)
    from this [of "ar_evidence x"] assms x show ?thesis
      by (auto simp: ev projected_evidence_def is_none_or_def Let_def)
  qed
  moreover have "effect_name_of a \<in> set EFFECT_NAMES" for a by (cases a) (simp_all add: EFFECT_NAMES_def)
  moreover have "route_name_of a \<in> set ROUTE_NAMES" for a by (cases a) (simp_all add: ROUTE_NAMES_def)
  moreover have "delivery_name a \<in> set DELIVERY_NAMES" for a
    by (cases a) (simp_all add: DELIVERY_NAMES_def)
  moreover have "evidence_name a \<in> set EVIDENCE_NAMES" for a
    by (cases a) (simp_all add: EVIDENCE_NAMES_def)
  moreover have "escalation_name a \<in> set ESCALATION_NAMES" for a
    by (cases a) (simp_all add: ESCALATION_NAMES_def)
  ultimately show ?thesis
    by (simp add: completed_payload_def Some valid_payload_for_event_def completed_payload_ok_def
        is_none_or_def list_all_iff split: option.split)
qed

lemma new_event_valid:
  assumes "\<And>v. is_digest (sha v)" and "hex_id stream" and "platform \<in> {''macos'', ''windows'', ''linux''}"
    and "length now \<le> 256" and "t \<in> set ALLOWED_TYPES" and "length subject \<le> 160"
    and "is_none_or hex_id sid" and "is_none_or hex_id aid"
    and "is_none_or (\<lambda>v. is_bounded_scalar v 128) cap" and "valid_payload_for_event t p"
  shows "valid_event (new_history_event sha stream platform uuid now t subject sid aid cap p)"
  using assms opaque_id_hex [of sha uuid]
  by (simp add: valid_event_iff new_history_event_def envelope_ok_def event_data_ok_def
      strip_prefix_def is_none_or_def)

lemma valid_set_sequence: "valid_event e \<Longrightarrow> n \<noteq> 0 \<Longrightarrow> valid_event (set_sequence n e)"
  by (simp add: valid_event_iff set_sequence_def envelope_ok_def event_data_ok_def)

lemma sanitized_identity_bounded:
  "sanitize_application_identity a = Some b \<Longrightarrow> identity_bounded b"
  by (auto simp: sanitize_application_identity_def identity_bounded_def is_none_or_def Let_def
      bounded_string_def is_bounded_scalar_def Option.bind_eq_Some_conv split: if_splits option.splits)

end
