(* ===== verification/HistoryDisk.thy ===== *)
theory HistoryDisk
  imports HistoryEvents
begin

text \<open>
  What the computer history stands on: its directory with the files in it, the writer lock and the
  key provider (\<open>history_disk\<close>), and everything the code asks of the world (\<open>history_world\<close>). Every
  call into the operating system that can fail, and every reading of a clock or of randomness, is
  one question; the questions of a run are numbered, and \<open>hk_tick\<close> is the number of the next one.
  A theorem that holds for every world holds for every pattern of failures. The platform is Unix;
  file names are valid UTF-8.
\<close>

section \<open>The disk\<close>

text \<open>\<open>FsDirectory\<close> is a directory; of the root's directories only \<open>chunks\<close> is ever entered, and
  its entries are \<open>hk_chunks\<close>. A file has its contents and the time it was last written.\<close>

datatype fs_node = FsFile string nat | FsDirectory | FsLink | FsSpecial

record history_key =
  key_reference :: string
  key_epoch :: u64
  key_bytes :: string

record 'k history_disk =
  hk_root :: "fs_node option"
  hk_entries :: "(string, fs_node) kv"
  hk_chunks :: "(string, fs_node) kv"
  hk_locked :: bool
  hk_keys :: 'k
  hk_tick :: nat

text \<open>An ancestor of the root: absent, unreadable, a link with its owner, or anything else.\<close>

datatype ancestor = AncestorMissing | AncestorUnreadable | AncestorLink nat | AncestorPlain

record cose_header =
  ch_alg :: "int option"
  ch_crit :: nat
  ch_content_type :: bool
  ch_key_id :: string
  ch_iv :: string
  ch_partial_iv :: string
  ch_counter_signatures :: nat
  ch_rest :: nat

record cose_encrypt0 =
  ce_protected :: cose_header
  ce_unprotected :: cose_header
  ce_ciphertext :: "string option"

record chunk_header =
  hdr_version :: nat
  hdr_algorithm :: int
  hdr_epoch :: u64
  hdr_key_reference :: string
  hdr_stream :: string
  hdr_chunk :: string
  hdr_prefix :: string

text \<open>A CBOR value: a tag with the encoding of what it holds, or anything else.\<close>

datatype cbor_value = CborTag nat string | CborOther

record 'k history_world =
  hw_absolute :: bool
  hw_ancestors :: "nat \<Rightarrow> ancestor list"
  hw_io_ok :: "nat \<Rightarrow> bool"
  hw_torn :: "nat \<Rightarrow> nat"
  hw_wall :: "nat \<Rightarrow> nat"
  hw_mono :: "nat \<Rightarrow> instant"
  hw_uuid :: "nat \<Rightarrow> string"
  hw_random :: "nat \<Rightarrow> string option"
  hw_late :: "nat \<Rightarrow> nat option"
  hw_sha256 :: "string \<Rightarrow> nat list"
  hw_hmac :: "string \<Rightarrow> string \<Rightarrow> nat list"
  hw_hkdf :: "string \<Rightarrow> string \<Rightarrow> string \<Rightarrow> string option"
  hw_seal :: "string \<Rightarrow> string \<Rightarrow> string \<Rightarrow> string \<Rightarrow> string option"
  hw_open :: "string \<Rightarrow> string \<Rightarrow> string \<Rightarrow> string \<Rightarrow> string option"
  hw_aad :: "cose_header \<Rightarrow> string \<Rightarrow> string"
  hw_header_bytes :: "chunk_header \<Rightarrow> string"
  hw_read_header :: "string \<Rightarrow> (chunk_header \<times> nat) option"
  hw_read_value :: "string \<Rightarrow> (cbor_value \<times> nat) option"
  hw_cose_bytes :: "cose_encrypt0 \<Rightarrow> string"
  hw_read_cose :: "string \<Rightarrow> cose_encrypt0 option"
  hw_event_bytes :: "history_event \<Rightarrow> string"
  hw_read_event :: "string \<Rightarrow> history_event option"
  hw_state_bytes :: "bool \<times> bool \<Rightarrow> string"
  hw_read_state :: "string \<Rightarrow> (bool \<times> bool) option"
  hw_rfc3339 :: "nat \<Rightarrow> string"
  hw_parse_time :: "string \<Rightarrow> int option"
  hw_create_key :: "'k \<Rightarrow> (history_health + history_key) \<times> 'k"
  hw_load_key :: "'k \<Rightarrow> string \<Rightarrow> history_health + history_key"
  hw_references :: "'k \<Rightarrow> history_health + string list"
  hw_destroy_key :: "'k \<Rightarrow> string \<Rightarrow> (history_health + unit) \<times> 'k"
  hw_resolve :: "(int \<Rightarrow> nat option \<Rightarrow> application_identity option) option"


section \<open>Fallible steps\<close>

text \<open>The \<open>?\<close> of the code: go on with the value, or stop with the error.\<close>

definition attempt ::
    "('e + 'a) \<times> 's \<Rightarrow> ('a \<Rightarrow> 's \<Rightarrow> ('e + 'b) \<times> 's) \<Rightarrow> ('e + 'b) \<times> 's" where
  "attempt r k = (case r of (Inl e, s) \<Rightarrow> (Inl e, s) | (Inr x, s) \<Rightarrow> k x s)"

lemma attempt_simps [simp]:
  "attempt (Inl e, s) k = (Inl e, s)" "attempt (Inr x, s) k = k x s"
  by (simp_all add: attempt_def)

lemma attempt_ok:
  "attempt r k = (Inr y, s') \<longleftrightarrow> (\<exists>x s. r = (Inr x, s) \<and> k x s = (Inr y, s'))"
  by (cases r; cases "fst r") (auto simp: attempt_def)

lemma attempt_split:
  "P (attempt r k) \<longleftrightarrow>
     (\<forall>e s. r = (Inl e, s) \<longrightarrow> P (Inl e, s)) \<and> (\<forall>x s. r = (Inr x, s) \<longrightarrow> P (k x s))"
  by (cases r; cases "fst r") (auto simp: attempt_def)

lemma attempt_cong [fundef_cong]:
  "r = r' \<Longrightarrow> (\<And>x s. r' = (Inr x, s) \<Longrightarrow> k x s = k' x s) \<Longrightarrow> attempt r k = attempt r' k'"
  by (cases r'; cases "fst r'") (auto simp: attempt_def)

definition tick :: "'k history_disk \<Rightarrow> 'k history_disk" where
  "tick d = d\<lparr>hk_tick := Suc (hk_tick d)\<rparr>"

text \<open>A call that may fail with \<open>StorageUnavailable\<close>, or whose failure is looked at.\<close>

definition io_step :: "'k history_world \<Rightarrow> 'k history_disk \<Rightarrow> (history_health + unit) \<times> 'k history_disk" where
  "io_step w d = (if hw_io_ok w (hk_tick d) then Inr () else Inl StorageUnavailable, tick d)"

definition fail_unless ::
    "bool \<Rightarrow> history_health \<Rightarrow> 'k history_disk \<Rightarrow> (history_health + unit) \<times> 'k history_disk" where
  "fail_unless b e d = (if b then Inr () else Inl e, d)"

abbreviation unavailable_unless ::
    "bool \<Rightarrow> 'k history_disk \<Rightarrow> (history_health + unit) \<times> 'k history_disk" where
  "unavailable_unless b d \<equiv> fail_unless b StorageUnavailable d"

lemma fail_unless_ok [simp]: "fail_unless b e d = (Inr u, d') \<longleftrightarrow> b \<and> d' = d"
  by (auto simp: fail_unless_def)

definition wall_now :: "'k history_world \<Rightarrow> 'k history_disk \<Rightarrow> nat \<times> 'k history_disk" where
  "wall_now w d = (hw_wall w (hk_tick d), tick d)"

definition mono_now :: "'k history_world \<Rightarrow> 'k history_disk \<Rightarrow> instant \<times> 'k history_disk" where
  "mono_now w d = (hw_mono w (hk_tick d), tick d)"

definition fresh_opaque_id :: "'k history_world \<Rightarrow> 'k history_disk \<Rightarrow> string \<times> 'k history_disk" where
  "fresh_opaque_id w d = (opaque_id (hw_sha256 w) (hw_uuid w (hk_tick d)), tick d)"

definition random_prefix ::
    "'k history_world \<Rightarrow> 'k history_disk \<Rightarrow> (history_health + string) \<times> 'k history_disk" where
  "random_prefix w d =
     (case hw_random w (hk_tick d) of None \<Rightarrow> Inl KeyUnavailable | Some p \<Rightarrow> Inr p, tick d)"


section \<open>Files of the root\<close>

definition ROOT_MARKER_NAME :: string where "ROOT_MARKER_NAME = ''.cua-history-root-v1''"
definition ROOT_MARKER_CONTENT :: string where
  "ROOT_MARKER_CONTENT = ''cua-history-root-v1'' @ [CHR 0x0A]"
definition PURGED_ROOT_MARKER_NAME :: string where
  "PURGED_ROOT_MARKER_NAME = ''.cua-history-purged-v1''"
definition PURGED_ROOT_MARKER_CONTENT :: string where
  "PURGED_ROOT_MARKER_CONTENT = ''cua-history-purged-v1'' @ [CHR 0x0A]"
definition PURGED_ROOT_MARKER_TEMP_NAME :: string where
  "PURGED_ROOT_MARKER_TEMP_NAME = ''.cua-history-purged-v1.tmp''"

lemmas marker_defs =
  ROOT_MARKER_NAME_def ROOT_MARKER_CONTENT_def PURGED_ROOT_MARKER_NAME_def
  PURGED_ROOT_MARKER_CONTENT_def PURGED_ROOT_MARKER_TEMP_NAME_def

text \<open>\<open>fs::read(path).ok() == Some(content)\<close>.\<close>

definition reads_as :: "fs_node \<Rightarrow> string \<Rightarrow> 'k history_world \<Rightarrow> 'k history_disk \<Rightarrow> bool \<times> 'k history_disk" where
  "reads_as n content w d =
     (hw_io_ok w (hk_tick d) \<and> (case n of FsFile b _ \<Rightarrow> b = content | _ \<Rightarrow> False), tick d)"

definition remove_root_file ::
    "'k history_world \<Rightarrow> string \<Rightarrow> 'k history_disk \<Rightarrow> (history_health + unit) \<times> 'k history_disk" where
  "remove_root_file w name d =
     attempt (io_step w d) (\<lambda>_ d. (Inr (), d\<lparr>hk_entries := kv_del name (hk_entries d)\<rparr>))"

text \<open>\<open>secure_create_new_file\<close>: create the file, unless the name is taken.\<close>

definition create_root_file ::
    "'k history_world \<Rightarrow> string \<Rightarrow> 'k history_disk \<Rightarrow> (history_health + unit) \<times> 'k history_disk" where
  "create_root_file w name d =
     attempt (io_step w d) (\<lambda>_ d.
     attempt (unavailable_unless (\<not> kv_has (hk_entries d) name) d) (\<lambda>_ d.
       let (now, d) = wall_now w d
       in (Inr (), d\<lparr>hk_entries := kv_put name (FsFile [] now) (hk_entries d)\<rparr>)))"

text \<open>\<open>write_all\<close>: on failure a prefix may have been written.\<close>

definition write_root_file ::
    "'k history_world \<Rightarrow> string \<Rightarrow> string \<Rightarrow> 'k history_disk \<Rightarrow> (history_health + unit) \<times> 'k history_disk" where
  "write_root_file w name bs d =
     (let ok = hw_io_ok w (hk_tick d); part = take (hw_torn w (hk_tick d)) bs;
          (now, d) = wall_now w d;
          old = (case kv_get (hk_entries d) name of Some (FsFile b _) \<Rightarrow> b | _ \<Rightarrow> [])
      in if ok
         then (Inr (), d\<lparr>hk_entries := kv_put name (FsFile (old @ bs) now) (hk_entries d)\<rparr>)
         else (Inl StorageUnavailable,
               d\<lparr>hk_entries := kv_put name (FsFile (old @ part) now) (hk_entries d)\<rparr>))"

text \<open>\<open>secure_create_dir\<close>: create the directory and set its permissions.\<close>

definition create_root :: "'k history_world \<Rightarrow> 'k history_disk \<Rightarrow> (history_health + unit) \<times> 'k history_disk" where
  "create_root w d =
     attempt (io_step w d) (\<lambda>_ d.
     attempt (unavailable_unless (hk_root d \<in> {None, Some FsDirectory}) d) (\<lambda>_ d.
       io_step w (if hk_root d = None then d\<lparr>hk_root := Some FsDirectory, hk_entries := [], hk_chunks := []\<rparr>
                  else d)))"

definition create_chunks_dir ::
    "'k history_world \<Rightarrow> 'k history_disk \<Rightarrow> (history_health + unit) \<times> 'k history_disk" where
  "create_chunks_dir w d =
     attempt (io_step w d) (\<lambda>_ d.
     attempt (unavailable_unless (kv_get (hk_entries d) ''chunks'' \<in> {None, Some FsDirectory}) d) (\<lambda>_ d.
       io_step w (if kv_has (hk_entries d) ''chunks'' then d
                  else d\<lparr>hk_entries := kv_put ''chunks'' FsDirectory (hk_entries d), hk_chunks := []\<rparr>)))"

end
