(* ===== verification/HistoryRoot.thy ===== *)
theory HistoryRoot
  imports HistoryDisk
begin

text \<open>
  The directory of the computer history, \<open>history.rs\<close>: claiming it (\<open>prepare_history_root\<close>), the
  layout it must have, the writer lease, and the offline purge, which destroys the keys of the
  namespace before it removes what they encrypt and can be resumed when it was interrupted.
\<close>

section \<open>Layout\<close>

primrec is_file :: "fs_node \<Rightarrow> bool" where
  "is_file (FsFile b t) = True"
| "is_file FsDirectory = False"
| "is_file FsLink = False"
| "is_file FsSpecial = False"

definition is_chunk_name :: "string \<Rightarrow> bool" where
  "is_chunk_name n = (ends_with n ''.cborseq'' \<and> 8 < length n)"

text \<open>The loop over the entries of a directory: an entry and its file type may fail to be read.\<close>

fun check_entries ::
    "'k history_world \<Rightarrow> (string \<Rightarrow> fs_node \<Rightarrow> 'k history_disk \<Rightarrow> (history_health + unit) \<times> 'k history_disk)
       \<Rightarrow> (string \<times> fs_node) list \<Rightarrow> 'k history_disk \<Rightarrow> (history_health + unit) \<times> 'k history_disk" where
  "check_entries w f [] d = (Inr (), d)"
| "check_entries w f (e # es) d =
     attempt (io_step w d) (\<lambda>_ d.
     attempt (io_step w d) (\<lambda>_ d.
     attempt (f (fst e) (snd e) d) (\<lambda>_ d. check_entries w f es d)))"

definition must_read ::
    "'k history_world \<Rightarrow> fs_node \<Rightarrow> string \<Rightarrow> 'k history_disk \<Rightarrow> (history_health + unit) \<times> 'k history_disk" where
  "must_read w n content d = (let (ok, d) = reads_as n content w d in unavailable_unless ok d)"

definition validate_chunks_layout ::
    "'k history_world \<Rightarrow> fs_node \<Rightarrow> 'k history_disk \<Rightarrow> (history_health + unit) \<times> 'k history_disk" where
  "validate_chunks_layout w n d =
     attempt (unavailable_unless (n = FsDirectory) d) (\<lambda>_ d.
     attempt (io_step w d) (\<lambda>_ d.
       check_entries w (\<lambda>name n. unavailable_unless (is_file n \<and> is_chunk_name name)) (hk_chunks d) d))"

definition MANAGED_FILES :: "string list" where
  "MANAGED_FILES =
     [''admission.json'', ''admission.json.tmp'', ''state.json'', ''state.json.tmp'', ''writer.lock'']"

definition root_entry_ok ::
    "'k history_world \<Rightarrow> string \<Rightarrow> fs_node \<Rightarrow> 'k history_disk \<Rightarrow> (history_health + unit) \<times> 'k history_disk" where
  "root_entry_ok w name n d =
     (if name = ROOT_MARKER_NAME
      then attempt (unavailable_unless (is_file n) d) (\<lambda>_ d. must_read w n ROOT_MARKER_CONTENT d)
      else if name \<in> set MANAGED_FILES then unavailable_unless (is_file n) d
      else if name = ''chunks'' then validate_chunks_layout w n d
      else (Inl StorageUnavailable, d))"

definition validate_history_root_layout ::
    "'k history_world \<Rightarrow> 'k history_disk \<Rightarrow> (history_health + unit) \<times> 'k history_disk" where
  "validate_history_root_layout w d =
     attempt (io_step w d) (\<lambda>_ d.
     attempt (check_entries w (root_entry_ok w) (hk_entries d) d) (\<lambda>_ d.
       unavailable_unless (kv_has (hk_entries d) ROOT_MARKER_NAME) d))"

definition ancestor_safe :: "ancestor \<Rightarrow> bool" where
  "ancestor_safe a =
     (case a of AncestorLink uid \<Rightarrow> uid = 0 | AncestorUnreadable \<Rightarrow> False | _ \<Rightarrow> True)"

definition reject_unsafe_root_components ::
    "'k history_world \<Rightarrow> 'k history_disk \<Rightarrow> (history_health + unit) \<times> 'k history_disk" where
  "reject_unsafe_root_components w d =
     (if list_all ancestor_safe (hw_ancestors w (hk_tick d)) then Inr () else Inl StorageUnavailable,
      tick d)"

text \<open>An unmarked root is claimed only when it is empty.\<close>

definition claim_root ::
    "'k history_world \<Rightarrow> 'k history_disk \<Rightarrow> (history_health + unit) \<times> 'k history_disk" where
  "claim_root w d =
     attempt (io_step w d) (\<lambda>_ d.
     attempt (unavailable_unless (hk_entries d = []) d) (\<lambda>_ d.
     attempt (create_root_file w ROOT_MARKER_NAME d) (\<lambda>_ d.
     attempt (write_root_file w ROOT_MARKER_NAME ROOT_MARKER_CONTENT d) (\<lambda>_ d. io_step w d))))"

definition root_is_directory ::
    "'k history_world \<Rightarrow> 'k history_disk \<Rightarrow> (history_health + unit) \<times> 'k history_disk" where
  "root_is_directory w d =
     attempt (io_step w d) (\<lambda>_ d. unavailable_unless (hk_root d = Some FsDirectory) d)"

definition prepare_history_root ::
    "'k history_world \<Rightarrow> 'k history_disk \<Rightarrow> (history_health + unit) \<times> 'k history_disk" where
  "prepare_history_root w d =
     attempt (unavailable_unless (hw_absolute w) d) (\<lambda>_ d.
     attempt (reject_unsafe_root_components w d) (\<lambda>_ d.
     attempt (io_step w d) (\<lambda>_ d.
     attempt (case hk_root d of
                None \<Rightarrow> create_root w d
              | Some n \<Rightarrow> unavailable_unless (n = FsDirectory) d) (\<lambda>_ d.
     attempt (root_is_directory w d) (\<lambda>_ d.
     attempt (reject_unsafe_root_components w d) (\<lambda>_ d.
     attempt (io_step w d) (\<lambda>_ d.
     attempt (case kv_get (hk_entries d) ROOT_MARKER_NAME of
                Some n \<Rightarrow> attempt (unavailable_unless (is_file n) d) (\<lambda>_ d. must_read w n ROOT_MARKER_CONTENT d)
              | None \<Rightarrow> claim_root w d) (\<lambda>_ d.
       validate_history_root_layout w d))))))))"


section \<open>The writer lease\<close>

definition open_lock_file ::
    "'k history_world \<Rightarrow> 'k history_disk \<Rightarrow> (history_health + unit) \<times> 'k history_disk" where
  "open_lock_file w d =
     attempt (io_step w d) (\<lambda>_ d.
       case kv_get (hk_entries d) ''writer.lock'' of
         None \<Rightarrow> (let (now, d) = wall_now w d
                  in (Inr (), d\<lparr>hk_entries := kv_put ''writer.lock'' (FsFile [] now) (hk_entries d)\<rparr>))
       | Some n \<Rightarrow> unavailable_unless (is_file n) d)"

definition try_lock ::
    "'k history_world \<Rightarrow> 'k history_disk \<Rightarrow> (history_health + unit) \<times> 'k history_disk" where
  "try_lock w d =
     (if hw_io_ok w (hk_tick d) \<and> \<not> hk_locked d then (Inr (), (tick d)\<lparr>hk_locked := True\<rparr>)
      else (Inl WriterStopped, tick d))"

definition acquire_lease ::
    "'k history_world \<Rightarrow> 'k history_disk \<Rightarrow> (history_health + unit) \<times> 'k history_disk" where
  "acquire_lease w d =
     attempt (prepare_history_root w d) (\<lambda>_ d.
     attempt (open_lock_file w d) (\<lambda>_ d. try_lock w d))"

definition release_lease :: "'k history_disk \<Rightarrow> 'k history_disk" where
  "release_lease d = d\<lparr>hk_locked := False\<rparr>"

text \<open>A lease held in a local variable is dropped however its scope ends.\<close>

definition drop_lease :: "'r \<times> 'k history_disk \<Rightarrow> 'r \<times> 'k history_disk" where
  "drop_lease r = (fst r, release_lease (snd r))"

text \<open>A lease handed on when its scope succeeds is dropped only when it fails.\<close>

definition drop_on_error :: "('e + 'a) \<times> 'k history_disk \<Rightarrow> ('e + 'a) \<times> 'k history_disk" where
  "drop_on_error r = (case fst r of Inl e \<Rightarrow> (Inl e, release_lease (snd r)) | Inr x \<Rightarrow> r)"


section \<open>Chunk files and keys\<close>

fun collect_chunks ::
    "'k history_world \<Rightarrow> (string \<times> fs_node) list \<Rightarrow> 'k history_disk
       \<Rightarrow> (history_health + string list) \<times> 'k history_disk" where
  "collect_chunks w [] d = (Inr [], d)"
| "collect_chunks w (e # es) d =
     attempt (io_step w d) (\<lambda>_ d.
       let (is_chunk, d) =
         (if is_chunk_name (fst e) then (hw_io_ok w (hk_tick d) \<and> is_file (snd e), tick d) else (False, d))
       in attempt (collect_chunks w es d) (\<lambda>ns d. (Inr (if is_chunk then fst e # ns else ns), d)))"

text \<open>\<open>exists\<close> is false as well when the question fails.\<close>

definition root_has :: "'k history_world \<Rightarrow> string \<Rightarrow> 'k history_disk \<Rightarrow> bool \<times> 'k history_disk" where
  "root_has w name d =
     (hw_io_ok w (hk_tick d) \<and> hk_root d = Some FsDirectory \<and> kv_has (hk_entries d) name, tick d)"

definition history_chunk_paths ::
    "'k history_world \<Rightarrow> 'k history_disk \<Rightarrow> (history_health + string list) \<times> 'k history_disk" where
  "history_chunk_paths w d =
     (let (there, d) = root_has w ''chunks'' d
      in if \<not> there then (Inr [], d)
         else attempt (io_step w d) (\<lambda>_ d. collect_chunks w (hk_chunks d) d))"

definition remove_chunk ::
    "'k history_world \<Rightarrow> string \<Rightarrow> 'k history_disk \<Rightarrow> (history_health + unit) \<times> 'k history_disk" where
  "remove_chunk w name d =
     attempt (io_step w d) (\<lambda>_ d. (Inr (), d\<lparr>hk_chunks := kv_del name (hk_chunks d)\<rparr>))"

fun remove_chunks ::
    "'k history_world \<Rightarrow> string list \<Rightarrow> 'k history_disk \<Rightarrow> (history_health + unit) \<times> 'k history_disk" where
  "remove_chunks w [] d = (Inr (), d)"
| "remove_chunks w (n # ns) d = attempt (remove_chunk w n d) (\<lambda>_ d. remove_chunks w ns d)"

definition remove_history_files ::
    "'k history_world \<Rightarrow> 'k history_disk \<Rightarrow> (history_health + unit) \<times> 'k history_disk" where
  "remove_history_files w d = attempt (history_chunk_paths w d) (\<lambda>ns d. remove_chunks w ns d)"

fun destroy_keys ::
    "'k history_world \<Rightarrow> string list \<Rightarrow> 'k history_disk \<Rightarrow> (history_health + unit) \<times> 'k history_disk" where
  "destroy_keys w [] d = (Inr (), d)"
| "destroy_keys w (r # rs) d =
     (let (a, k) = hw_destroy_key w (hk_keys d) r; d = d\<lparr>hk_keys := k\<rparr>
      in case a of Inl e \<Rightarrow> (Inl e, d) | Inr _ \<Rightarrow> destroy_keys w rs d)"

text \<open>Destroy every key the provider lists, and see that none is listed any more.\<close>

definition destroy_namespace ::
    "'k history_world \<Rightarrow> 'k history_disk \<Rightarrow> (history_health + nat) \<times> 'k history_disk" where
  "destroy_namespace w d =
     attempt (hw_references w (hk_keys d), d) (\<lambda>rs d.
     attempt (destroy_keys w rs d) (\<lambda>_ d.
     attempt (hw_references w (hk_keys d), d) (\<lambda>left d.
       if left = [] then (Inr (length rs), d) else (Inl KeyDestroyFailed, d))))"


section \<open>The offline purge\<close>

definition transitional_entry_ok ::
    "'k history_world \<Rightarrow> string \<Rightarrow> bool \<Rightarrow> string \<Rightarrow> fs_node \<Rightarrow> 'k history_disk
       \<Rightarrow> (history_health + unit) \<times> 'k history_disk" where
  "transitional_entry_ok w marker content name n d =
     attempt (unavailable_unless (is_file n) d) (\<lambda>_ d.
       if name = marker
       then if content then must_read w n PURGED_ROOT_MARKER_CONTENT d else (Inr (), d)
       else if name = ROOT_MARKER_NAME then must_read w n ROOT_MARKER_CONTENT d
       else unavailable_unless (name = ''writer.lock'') d)"

definition validate_transitional_purge_layout ::
    "'k history_world \<Rightarrow> string \<Rightarrow> bool \<Rightarrow> 'k history_disk \<Rightarrow> (history_health + unit) \<times> 'k history_disk" where
  "validate_transitional_purge_layout w marker content d =
     attempt (unavailable_unless (hw_absolute w) d) (\<lambda>_ d.
     attempt (reject_unsafe_root_components w d) (\<lambda>_ d.
     attempt (root_is_directory w d) (\<lambda>_ d.
     attempt (io_step w d) (\<lambda>_ d.
     attempt (check_entries w (transitional_entry_ok w marker content) (hk_entries d) d) (\<lambda>_ d.
       unavailable_unless (kv_has (hk_entries d) marker) d)))))"

definition validate_purge_staging_layout ::
    "'k history_world \<Rightarrow> 'k history_disk \<Rightarrow> (history_health + unit) \<times> 'k history_disk" where
  "validate_purge_staging_layout w =
     validate_transitional_purge_layout w PURGED_ROOT_MARKER_TEMP_NAME False"

definition validate_purged_root_layout ::
    "'k history_world \<Rightarrow> 'k history_disk \<Rightarrow> (history_health + unit) \<times> 'k history_disk" where
  "validate_purged_root_layout w =
     validate_transitional_purge_layout w PURGED_ROOT_MARKER_NAME True"

text \<open>Remove a file of the root when it is there; the number of files removed.\<close>

definition remove_if_there ::
    "'k history_world \<Rightarrow> string \<Rightarrow> 'k history_disk \<Rightarrow> (history_health + nat) \<times> 'k history_disk" where
  "remove_if_there w name d =
     (let (there, d) = root_has w name d
      in if there then attempt (remove_root_file w name d) (\<lambda>_ d. (Inr 1, d)) else (Inr 0, d))"

fun remove_all_there ::
    "'k history_world \<Rightarrow> string list \<Rightarrow> 'k history_disk \<Rightarrow> (history_health + nat) \<times> 'k history_disk" where
  "remove_all_there w [] d = (Inr 0, d)"
| "remove_all_there w (n # ns) d =
     attempt (remove_if_there w n d) (\<lambda>i d.
     attempt (remove_all_there w ns d) (\<lambda>j d. (Inr (i + j), d)))"

definition remove_root_dir ::
    "'k history_world \<Rightarrow> 'k history_disk \<Rightarrow> (history_health + unit) \<times> 'k history_disk" where
  "remove_root_dir w d =
     attempt (io_step w d) (\<lambda>_ d.
     attempt (unavailable_unless (hk_entries d = []) d) (\<lambda>_ d. (Inr (), d\<lparr>hk_root := None\<rparr>)))"

definition finalize_completed_offline_purge ::
    "'k history_world \<Rightarrow> 'k history_disk \<Rightarrow> (history_health + nat) \<times> 'k history_disk" where
  "finalize_completed_offline_purge w d =
     attempt (drop_lease
       (attempt (validate_purged_root_layout w d) (\<lambda>_ d. remove_if_there w ROOT_MARKER_NAME d))) (\<lambda>i d.
     attempt (remove_if_there w ''writer.lock'' d) (\<lambda>j d.
     attempt (remove_root_file w PURGED_ROOT_MARKER_NAME d) (\<lambda>_ d.
     attempt (remove_root_dir w d) (\<lambda>_ d. (Inr (i + j + 1), d)))))"

definition publish_purged_root_marker ::
    "'k history_world \<Rightarrow> 'k history_disk \<Rightarrow> (history_health + unit) \<times> 'k history_disk" where
  "publish_purged_root_marker w d =
     attempt (create_root_file w PURGED_ROOT_MARKER_TEMP_NAME d) (\<lambda>_ d.
       case attempt (write_root_file w PURGED_ROOT_MARKER_TEMP_NAME PURGED_ROOT_MARKER_CONTENT d)
              (\<lambda>_ d. io_step w d) of
         (Inl _, d) \<Rightarrow> (Inl StorageUnavailable, snd (remove_root_file w PURGED_ROOT_MARKER_TEMP_NAME d))
       | (Inr _, d) \<Rightarrow>
           attempt (io_step w d) (\<lambda>_ d.
             let n = (case kv_get (hk_entries d) PURGED_ROOT_MARKER_TEMP_NAME of
                        Some n \<Rightarrow> n | None \<Rightarrow> FsFile [] 0);
                 d = d\<lparr>hk_entries := kv_put PURGED_ROOT_MARKER_NAME n
                         (kv_del PURGED_ROOT_MARKER_TEMP_NAME (hk_entries d))\<rparr>
             in attempt (io_step w d) (\<lambda>_ d. io_step w d)))"

definition recover_interrupted_purge_marker ::
    "'k history_world \<Rightarrow> 'k history_disk \<Rightarrow> (history_health + unit) \<times> 'k history_disk" where
  "recover_interrupted_purge_marker w d =
     (let (there, d) = root_has w PURGED_ROOT_MARKER_TEMP_NAME d
      in if \<not> there then (Inr (), d)
         else attempt (validate_purge_staging_layout w d) (\<lambda>_ d.
              attempt (open_lock_file w d) (\<lambda>_ d.
              attempt (try_lock w d) (\<lambda>_ d.
                drop_lease (attempt (validate_purge_staging_layout w d) (\<lambda>_ d.
                  remove_root_file w PURGED_ROOT_MARKER_TEMP_NAME d))))))"

text \<open>The result is the number of destroyed keys and the number of removed files.\<close>

definition resume_completed_offline_purge ::
    "'k history_world \<Rightarrow> 'k history_disk \<Rightarrow> (history_health + (nat \<times> nat) option) \<times> 'k history_disk" where
  "resume_completed_offline_purge w d =
     (let (there, d) = root_has w PURGED_ROOT_MARKER_NAME d
      in if \<not> there then (Inr None, d)
         else attempt (validate_purged_root_layout w d) (\<lambda>_ d.
              attempt (open_lock_file w d) (\<lambda>_ d.
              attempt (try_lock w d) (\<lambda>_ d.
              attempt (drop_on_error (validate_purged_root_layout w d)) (\<lambda>_ d.
              attempt (finalize_completed_offline_purge w d) (\<lambda>n d. (Inr (Some (0, n)), d)))))))"

fun count_removed_chunks ::
    "'k history_world \<Rightarrow> string list \<Rightarrow> 'k history_disk \<Rightarrow> (history_health + nat) \<times> 'k history_disk" where
  "count_removed_chunks w ns d = attempt (remove_chunks w ns d) (\<lambda>_ d. (Inr (length ns), d))"

definition remove_chunks_dir ::
    "'k history_world \<Rightarrow> 'k history_disk \<Rightarrow> (history_health + unit) \<times> 'k history_disk" where
  "remove_chunks_dir w d =
     (let (there, d) = root_has w ''chunks'' d
      in if \<not> there then (Inr (), d)
         else attempt (io_step w d) (\<lambda>_ d.
              attempt (unavailable_unless (hk_chunks d = []) d) (\<lambda>_ d.
                (Inr (), d\<lparr>hk_entries := kv_del ''chunks'' (hk_entries d)\<rparr>))))"

text \<open>What is done under the lease, up to the terminal marker.\<close>

definition purge_under_lease ::
    "'k history_world \<Rightarrow> 'k history_disk \<Rightarrow> (history_health + nat \<times> nat) \<times> 'k history_disk" where
  "purge_under_lease w d =
     attempt (destroy_namespace w d) (\<lambda>keys d.
     attempt (history_chunk_paths w d) (\<lambda>ns d.
     attempt (count_removed_chunks w ns d) (\<lambda>i d.
     attempt (remove_all_there w
       [''state.json'', ''state.json.tmp'', ''admission.json'', ''admission.json.tmp''] d) (\<lambda>j d.
     attempt (remove_chunks_dir w d) (\<lambda>_ d.
     attempt (publish_purged_root_marker w d) (\<lambda>_ d. (Inr (keys, i + j), d)))))))"

definition purge_offline ::
    "'k history_world \<Rightarrow> 'k history_disk \<Rightarrow> (history_health + nat \<times> nat) \<times> 'k history_disk" where
  "purge_offline w d =
     attempt (resume_completed_offline_purge w d) (\<lambda>r d.
       case r of
         Some result \<Rightarrow> (Inr result, d)
       | None \<Rightarrow>
           attempt (recover_interrupted_purge_marker w d) (\<lambda>_ d.
           attempt (prepare_history_root w d) (\<lambda>_ d.
           attempt (acquire_lease w d) (\<lambda>_ d.
           attempt (drop_on_error (purge_under_lease w d)) (\<lambda>kf d.
           attempt (finalize_completed_offline_purge w d) (\<lambda>n d.
             (Inr (fst kf, snd kf + n), d)))))))"

end
