(* ===== verification/HistoryStore.thy ===== *)
theory HistoryStore
  imports HistoryRoot "HOL-Library.List_Lexorder" "HOL-Library.Product_Lexorder" "HOL-Library.Char_ord"
begin

text \<open>
  The encrypted store of the computer history, \<open>HistoryStore\<close> in \<open>history.rs\<close>: chunks of sealed
  events with a nonce counter each, the quota, reading everything back, rotation and retention.
  CBOR, COSE, the cipher and the key derivation are the functions of \<open>history_world\<close>.
\<close>

section \<open>Constants and the store\<close>

definition CHUNK_KEY_INFO :: string where
  "CHUNK_KEY_INFO = ''cua-driver/history-profile/v1/chunk-key''"

definition SESSION_ID_KEY_INFO :: string where
  "SESSION_ID_KEY_INFO = ''cua-driver/history-profile/v1/session-id-key''"

definition CHACHA20_POLY1305 :: int where "CHACHA20_POLY1305 = 24"
definition COSE_ENCRYPT0_TAG :: nat where "COSE_ENCRYPT0_TAG = 16"
definition CHUNK_ROTATION_INTERVAL :: duration where "CHUNK_ROTATION_INTERVAL = secs (55 * 60)"
definition WRITER_MAINTENANCE_INTERVAL :: duration where "WRITER_MAINTENANCE_INTERVAL = secs 30"

definition max_u64 :: nat where "max_u64 = 18446744073709551615"

record history_store =
  st_path :: string
  st_file :: string
  st_header :: chunk_header
  st_header_bytes :: string
  st_key :: string
  st_next_nonce :: nat
  st_quota :: nat
  st_created :: instant

definition chunk_file_name :: "string \<Rightarrow> string" where
  "chunk_file_name chunk = chunk @ ''.cborseq''"

definition chunk_bytes :: "'k history_disk \<Rightarrow> string \<Rightarrow> string" where
  "chunk_bytes d name = (case kv_get (hk_chunks d) name of Some (FsFile b _) \<Rightarrow> b | _ \<Rightarrow> [])"


section \<open>Chunk files\<close>

definition create_chunk_file ::
    "'k history_world \<Rightarrow> string \<Rightarrow> 'k history_disk \<Rightarrow> (history_health + unit) \<times> 'k history_disk" where
  "create_chunk_file w name d =
     attempt (io_step w d) (\<lambda>_ d.
     attempt (unavailable_unless (\<not> kv_has (hk_chunks d) name) d) (\<lambda>_ d.
       let (now, d) = wall_now w d
       in (Inr (), d\<lparr>hk_chunks := kv_put name (FsFile [] now) (hk_chunks d)\<rparr>)))"

text \<open>\<open>write_all\<close> at the end of an open chunk; a failing write may leave a torn item.\<close>

definition write_chunk ::
    "'k history_world \<Rightarrow> string \<Rightarrow> string \<Rightarrow> 'k history_disk \<Rightarrow> (history_health + unit) \<times> 'k history_disk" where
  "write_chunk w name bs d =
     (let ok = hw_io_ok w (hk_tick d); part = take (hw_torn w (hk_tick d)) bs;
          old = chunk_bytes d name; (now, d) = wall_now w d
      in if ok then (Inr (), d\<lparr>hk_chunks := kv_put name (FsFile (old @ bs) now) (hk_chunks d)\<rparr>)
         else (Inl StorageUnavailable,
               d\<lparr>hk_chunks := kv_put name (FsFile (old @ part) now) (hk_chunks d)\<rparr>))"

text \<open>The sum over the chunks whose size can be read; a directory that cannot be read has none.\<close>

fun sum_sizes :: "'k history_world \<Rightarrow> string list \<Rightarrow> 'k history_disk \<Rightarrow> nat \<times> 'k history_disk" where
  "sum_sizes w [] d = (0, d)"
| "sum_sizes w (n # ns) d =
     (let known = hw_io_ok w (hk_tick d); (rest, d') = sum_sizes w ns (tick d)
      in (if known then length (chunk_bytes d n) + rest else rest, d'))"

definition directory_bytes :: "'k history_world \<Rightarrow> 'k history_disk \<Rightarrow> nat \<times> 'k history_disk" where
  "directory_bytes w d =
     (case history_chunk_paths w d of
        (Inl _, d) \<Rightarrow> (0, d)
      | (Inr ns, d) \<Rightarrow> sum_sizes w ns d)"

definition read_bounded ::
    "'k history_world \<Rightarrow> string \<Rightarrow> nat \<Rightarrow> 'k history_disk \<Rightarrow> (history_health + string) \<times> 'k history_disk" where
  "read_bounded w name bound d =
     attempt (io_step w d) (\<lambda>_ d.
     attempt (fail_unless (length (chunk_bytes d name) \<le> max bound 1) QuotaReached d) (\<lambda>_ d.
     attempt (io_step w d) (\<lambda>_ d.
     attempt (io_step w d) (\<lambda>_ d. (Inr (chunk_bytes d name), d)))))"

definition saturating_add :: "nat \<Rightarrow> nat \<Rightarrow> nat" where
  "saturating_add a b = min (a + b) max_u64"

definition within_quota ::
    "'k history_world \<Rightarrow> nat \<Rightarrow> nat \<Rightarrow> 'k history_disk \<Rightarrow> (history_health + unit) \<times> 'k history_disk" where
  "within_quota w extra quota d =
     (let (used, d) = directory_bytes w d
      in fail_unless (saturating_add used extra \<le> quota) QuotaReached d)"

definition create_with_lease ::
    "'k history_world \<Rightarrow> string \<Rightarrow> nat \<Rightarrow> 'k history_disk
       \<Rightarrow> (history_health + history_store) \<times> 'k history_disk" where
  "create_with_lease w stream quota d =
     drop_on_error (
     attempt (create_root w d) (\<lambda>_ d.
     attempt (create_chunks_dir w d) (\<lambda>_ d.
     attempt (let (a, k) = hw_create_key w (hk_keys d) in (a, d\<lparr>hk_keys := k\<rparr>)) (\<lambda>key d.
     attempt (fail_unless (length (key_bytes key) = 32) KeyCorrupt d) (\<lambda>_ d.
       let (chunk, d) = fresh_opaque_id w d
       in attempt (random_prefix w d) (\<lambda>prefix4 d.
       let header = \<lparr>hdr_version = 1, hdr_algorithm = CHACHA20_POLY1305, hdr_epoch = key_epoch key,
             hdr_key_reference = key_reference key, hdr_stream = stream, hdr_chunk = chunk,
             hdr_prefix = prefix4\<rparr>;
           hb = hw_header_bytes w header;
           name = chunk_file_name chunk
       in attempt (within_quota w (length hb) quota d) (\<lambda>_ d.
          attempt (create_chunk_file w name d) (\<lambda>_ d.
          attempt (write_chunk w name hb d) (\<lambda>_ d.
          attempt (io_step w d) (\<lambda>_ d.
          let (now, d) = mono_now w d
          in (Inr \<lparr>st_path = name, st_file = name, st_header = header, st_header_bytes = hb, st_key = key_bytes key,
                st_next_nonce = 0, st_quota = quota, st_created = now\<rparr>, d)))))))))))"


section \<open>Sealing and opening events\<close>

text \<open>\<open>to_be_bytes\<close> and \<open>from_be_bytes\<close> of a 64-bit integer.\<close>

definition be_bytes :: "nat \<Rightarrow> string" where
  "be_bytes n = map (\<lambda>i. char_of (n div 256 ^ i mod 256)) (rev [0..<8])"

definition from_be_bytes :: "string \<Rightarrow> nat" where
  "from_be_bytes s = foldl (\<lambda>a c. a * 256 + byte_of c) 0 s"

definition derive_chunk_key ::
    "'k history_world \<Rightarrow> string \<Rightarrow> chunk_header \<Rightarrow> history_health + string" where
  "derive_chunk_key w key h =
     (if length key \<noteq> 32 then Inl KeyCorrupt
      else case decode_hex_128 (hdr_chunk h) of
             None \<Rightarrow> Inl StorageCorrupt
           | Some salt \<Rightarrow>
               (case hw_hkdf w (bytes salt) key
                       (CHUNK_KEY_INFO @ hdr_stream h @ be_bytes (unat (hdr_epoch h))) of
                  None \<Rightarrow> Inl KeyCorrupt | Some k \<Rightarrow> Inr k))"

definition empty_cose_header :: cose_header where
  "empty_cose_header =
     \<lparr>ch_alg = None, ch_crit = 0, ch_content_type = False, ch_key_id = [], ch_iv = [],
      ch_partial_iv = [], ch_counter_signatures = 0, ch_rest = 0\<rparr>"

definition protected_header :: cose_header where
  "protected_header = empty_cose_header\<lparr>ch_alg := Some CHACHA20_POLY1305\<rparr>"

text \<open>An event becomes one item of the chunk.\<close>

definition seal_event ::
    "'k history_world \<Rightarrow> history_store \<Rightarrow> string \<Rightarrow> history_event \<Rightarrow> history_health + string" where
  "seal_event w st chunk_key e =
     (let nonce = hdr_prefix (st_header st) @ be_bytes (st_next_nonce st)
      in case hw_seal w chunk_key nonce (hw_aad w protected_header (st_header_bytes st))
                (hw_event_bytes w e) of
           None \<Rightarrow> Inl StorageUnavailable
         | Some c \<Rightarrow> Inr (hw_cose_bytes w
             \<lparr>ce_protected = protected_header, ce_unprotected = empty_cose_header\<lparr>ch_iv := nonce\<rparr>,
              ce_ciphertext = Some c\<rparr>))"

definition store_append ::
    "'k history_world \<Rightarrow> history_event \<Rightarrow> history_store \<Rightarrow> 'k history_disk
       \<Rightarrow> (history_health + unit) \<times> history_store \<times> 'k history_disk" where
  "store_append w e st d =
     (case validate_event e of
        Inl err \<Rightarrow> (Inl err, st, d)
      | Inr _ \<Rightarrow>
          (let (used, d) = directory_bytes w d
           in if st_quota st \<le> used then (Inl QuotaReached, st, d)
              else case derive_chunk_key w (st_key st) (st_header st) of
                     Inl err \<Rightarrow> (Inl err, st, d)
                   | Inr chunk_key \<Rightarrow>
                       if st_next_nonce st = max_u64 then (Inl StorageCorrupt, st, d)
                       else
                         (let st' = st\<lparr>st_next_nonce := Suc (st_next_nonce st)\<rparr>
                          in case seal_event w st chunk_key e of
                               Inl err \<Rightarrow> (Inl err, st', d)
                             | Inr item \<Rightarrow>
                                 (let (r, d) = attempt (within_quota w (length item) (st_quota st) d)
                                                 (\<lambda>_ d. write_chunk w (st_file st) item d)
                                  in (r, st', d)))))"

definition validate_header :: "chunk_header \<Rightarrow> history_health + unit" where
  "validate_header h =
     (if hdr_version h \<noteq> 1 \<or> hdr_algorithm h \<noteq> CHACHA20_POLY1305 \<or> hdr_epoch h = 0
         \<or> hdr_key_reference h = [] \<or> 128 < length (hdr_key_reference h)
         \<or> hdr_stream h = [] \<or> 128 < length (hdr_stream h)
         \<or> hdr_chunk h = [] \<or> 128 < length (hdr_chunk h)
      then Inl StorageCorrupt else Inr ())"

definition bare :: "cose_header \<Rightarrow> bool" where
  "bare h =
     (ch_crit h = 0 \<and> \<not> ch_content_type h \<and> ch_key_id h = [] \<and> ch_partial_iv h = []
      \<and> ch_counter_signatures h = 0 \<and> ch_rest h = 0)"

definition cose_headers_ok :: "cose_encrypt0 \<Rightarrow> bool" where
  "cose_headers_ok c =
     (ch_alg (ce_protected c) = Some CHACHA20_POLY1305 \<and> bare (ce_protected c)
      \<and> ch_iv (ce_protected c) = []
      \<and> ch_alg (ce_unprotected c) = None \<and> bare (ce_unprotected c)
      \<and> length (ch_iv (ce_unprotected c)) = 12)"

text \<open>One item of a chunk: the tag, the headers, the nonce in turn, the ciphertext, the event.\<close>

definition open_item ::
    "'k history_world \<Rightarrow> chunk_header \<Rightarrow> string \<Rightarrow> string \<Rightarrow> nat \<Rightarrow> cbor_value
       \<Rightarrow> history_event option" where
  "open_item w h hb chunk_key counter v =
     (case v of
        CborOther \<Rightarrow> None
      | CborTag t body \<Rightarrow>
          if t \<noteq> COSE_ENCRYPT0_TAG then None
          else Option.bind (hw_read_cose w body) (\<lambda>c.
            let nonce = ch_iv (ce_unprotected c)
            in if \<not> cose_headers_ok c \<or> length nonce \<noteq> 12 \<or> take 4 nonce \<noteq> hdr_prefix h
                  \<or> from_be_bytes (drop 4 nonce) \<noteq> counter \<or> counter = max_u64 then None
               else Option.bind (ce_ciphertext c) (\<lambda>ct.
                 Option.bind (hw_open w chunk_key nonce (hw_aad w (ce_protected c) hb) ct) (\<lambda>plain.
                 Option.bind (hw_read_event w plain) (\<lambda>e.
                   if valid_event e then Some e else None)))))"

text \<open>The loop over the items; every error of it is \<open>StorageCorrupt\<close>. A CBOR value takes at least
  one byte.\<close>

function decode_items ::
    "'k history_world \<Rightarrow> chunk_header \<Rightarrow> string \<Rightarrow> string \<Rightarrow> nat \<Rightarrow> string \<Rightarrow> history_event list option" where
  "decode_items w h hb chunk_key counter bs =
     (if bs = [] then Some []
      else case hw_read_value w bs of
             None \<Rightarrow> None
           | Some (v, n) \<Rightarrow>
               (case open_item w h hb chunk_key counter v of
                  None \<Rightarrow> None
                | Some e \<Rightarrow>
                    map_option ((#) e)
                      (decode_items w h hb chunk_key (Suc counter) (drop (max 1 n) bs))))"
  by pat_completeness auto
termination
  by (relation "measure (\<lambda>(w, h, hb, k, c, bs). length bs)") auto

declare decode_items.simps [simp del]

text \<open>\<open>start\<close> is the position after the header that was read.\<close>

definition decode_chunk_bytes ::
    "'k history_world \<Rightarrow> string \<Rightarrow> chunk_header \<Rightarrow> string \<Rightarrow> string \<Rightarrow> history_health + history_event list" where
  "decode_chunk_bytes w bs h hb key =
     (case hw_read_header w bs of
        None \<Rightarrow> Inl StorageCorrupt
      | Some (_, start) \<Rightarrow>
          (case derive_chunk_key w key h of
             Inl e \<Rightarrow> Inl e
           | Inr chunk_key \<Rightarrow>
               (case decode_items w h hb chunk_key 0 (drop start bs) of
                  None \<Rightarrow> Inl StorageCorrupt | Some es \<Rightarrow> Inr es)))"

definition decode_chunk ::
    "'k history_world \<Rightarrow> 'k \<Rightarrow> string \<Rightarrow> history_health + history_event list" where
  "decode_chunk w keys bs =
     (case hw_read_header w bs of
        None \<Rightarrow> Inl StorageCorrupt
      | Some (h, start) \<Rightarrow>
          (case validate_header h of
             Inl e \<Rightarrow> Inl e
           | Inr _ \<Rightarrow>
               (case hw_load_key w keys (hdr_key_reference h) of
                  Inl e \<Rightarrow> Inl e
                | Inr key \<Rightarrow> decode_chunk_bytes w bs h (take start bs) (key_bytes key))))"


section \<open>Reading everything\<close>

fun read_chunks ::
    "'k history_world \<Rightarrow> nat \<Rightarrow> string list \<Rightarrow> 'k history_disk
       \<Rightarrow> (history_health + history_event list) \<times> 'k history_disk" where
  "read_chunks w quota [] d = (Inr [], d)"
| "read_chunks w quota (n # ns) d =
     attempt (read_bounded w n quota d) (\<lambda>bs d.
     attempt (decode_chunk w (hk_keys d) bs, d) (\<lambda>es d.
     attempt (read_chunks w quota ns d) (\<lambda>rest d. (Inr (es @ rest), d))))"

definition event_key :: "history_event \<Rightarrow> nat \<times> string \<times> string" where
  "event_key e = (unat (he_sequence e), he_source e, he_id e)"

text \<open>\<open>retain\<close> with the set of the identities seen so far.\<close>

fun first_of_each :: "(string \<times> string) set \<Rightarrow> history_event list \<Rightarrow> history_event list" where
  "first_of_each seen [] = []"
| "first_of_each seen (e # es) =
     (if (he_source e, he_id e) \<in> seen then first_of_each seen es
      else e # first_of_each (insert (he_source e, he_id e) seen) es)"

fun sequences_increase :: "history_event list \<Rightarrow> bool" where
  "sequences_increase (a # b # es) = (he_sequence a < he_sequence b \<and> sequences_increase (b # es))"
| "sequences_increase _ = True"

definition ordered_events :: "history_event list \<Rightarrow> history_health + history_event list" where
  "ordered_events es =
     (let es = first_of_each {} (sort_key event_key es)
      in if list_ex (\<lambda>e. he_sequence e = 0) es \<or> \<not> sequences_increase es
         then Inl StorageCorrupt else Inr es)"

definition read_all ::
    "'k history_world \<Rightarrow> nat \<Rightarrow> 'k history_disk
       \<Rightarrow> (history_health + history_event list) \<times> 'k history_disk" where
  "read_all w quota d =
     (let (used, d) = directory_bytes w d
      in attempt (fail_unless (used \<le> quota) QuotaReached d) (\<lambda>_ d.
         attempt (history_chunk_paths w d) (\<lambda>ns d.
         attempt (read_chunks w quota (sort ns) d) (\<lambda>es d. (ordered_events es, d)))))"


section \<open>Flushing, rotation and retention\<close>

text \<open>\<open>flush\<close> and \<open>sync_data\<close> of the open chunk.\<close>

definition store_flush ::
    "'k history_world \<Rightarrow> 'k history_disk \<Rightarrow> (history_health + unit) \<times> 'k history_disk" where
  "store_flush w d = attempt (io_step w d) (\<lambda>_ d. io_step w d)"

definition retention_nanos :: "nat \<Rightarrow> nat" where
  "retention_nanos days = secs (min (days * 86400) max_u64)"

fun prune_chunks ::
    "'k history_world \<Rightarrow> nat \<Rightarrow> nat \<Rightarrow> string option \<Rightarrow> string list \<Rightarrow> 'k history_disk
       \<Rightarrow> (history_health + unit) \<times> 'k history_disk" where
  "prune_chunks w retention now keep [] d = (Inr (), d)"
| "prune_chunks w retention now keep (n # ns) d =
     (if keep = Some n then prune_chunks w retention now keep ns d
      else attempt (io_step w d) (\<lambda>_ d.
           attempt (io_step w d) (\<lambda>_ d.
             let modified = (case kv_get (hk_chunks d) n of Some (FsFile _ t) \<Rightarrow> t | _ \<Rightarrow> 0)
             in if modified \<le> now \<and> retention \<le> now - modified
                then attempt (remove_chunk w n d) (\<lambda>_ d. prune_chunks w retention now keep ns d)
                else prune_chunks w retention now keep ns d)))"

definition prune_expired_chunks_except ::
    "'k history_world \<Rightarrow> nat \<Rightarrow> string option \<Rightarrow> 'k history_disk
       \<Rightarrow> (history_health + unit) \<times> 'k history_disk" where
  "prune_expired_chunks_except w days keep d =
     (let (now, d) = wall_now w d
      in attempt (history_chunk_paths w d) (\<lambda>ns d.
           prune_chunks w (retention_nanos days) now keep ns d))"

definition prune_expired_chunks ::
    "'k history_world \<Rightarrow> nat \<Rightarrow> 'k history_disk \<Rightarrow> (history_health + unit) \<times> 'k history_disk" where
  "prune_expired_chunks w days d = prune_expired_chunks_except w days None d"

text \<open>A rotation that fails leaves the store with what it had already replaced: \<open>st_path\<close> is the path,
  \<open>st_file\<close> the file that is open.\<close>

definition rotate_chunk ::
    "'k history_world \<Rightarrow> history_store \<Rightarrow> 'k history_disk
       \<Rightarrow> (history_health + unit) \<times> history_store \<times> 'k history_disk" where
  "rotate_chunk w st d =
     (let (chunk, d) = fresh_opaque_id w d
      in case random_prefix w d of
           (Inl e, d) \<Rightarrow> (Inl e, st, d)
         | (Inr prefix4, d) \<Rightarrow>
             (let h = (st_header st)\<lparr>hdr_prefix := prefix4, hdr_chunk := chunk\<rparr>;
                  hb = hw_header_bytes w h;
                  st = st\<lparr>st_header := h, st_header_bytes := hb, st_path := chunk_file_name chunk\<rparr>
              in case create_chunk_file w (st_path st) d of
                   (Inl e, d) \<Rightarrow> (Inl e, st, d)
                 | (Inr _, d) \<Rightarrow>
                     (let st = st\<lparr>st_file := st_path st\<rparr>
                      in case attempt (write_chunk w (st_file st) hb d) (\<lambda>_ d. io_step w d) of
                           (Inl e, d) \<Rightarrow> (Inl e, st, d)
                         | (Inr _, d) \<Rightarrow>
                             (let (now, d) = mono_now w d
                              in (Inr (), st\<lparr>st_next_nonce := 0, st_created := now\<rparr>, d)))))"

definition checkpoint_retention ::
    "'k history_world \<Rightarrow> nat \<Rightarrow> history_store \<Rightarrow> 'k history_disk
       \<Rightarrow> (history_health + unit) \<times> history_store \<times> 'k history_disk" where
  "checkpoint_retention w days st d =
     (case store_flush w d of
        (Inl e, d) \<Rightarrow> (Inl e, st, d)
      | (Inr _, d) \<Rightarrow>
          (let (now, d) = mono_now w d;
               due = 0 < st_next_nonce st \<and> (days = 0 \<or> CHUNK_ROTATION_INTERVAL \<le> now - st_created st);
               (r, st, d) = (if due then rotate_chunk w st d else (Inr (), st, d))
           in case r of
                Inl e \<Rightarrow> (Inl e, st, d)
              | Inr _ \<Rightarrow>
                  (let (r, d) = prune_expired_chunks_except w days (Some (st_path st)) d in (r, st, d))))"

definition read_events ::
    "'k history_world \<Rightarrow> history_store \<Rightarrow> 'k history_disk
       \<Rightarrow> (history_health + history_event list) \<times> 'k history_disk" where
  "read_events w st d =
     attempt (store_flush w d) (\<lambda>_ d.
     attempt (read_bounded w (st_path st) (st_quota st) d) (\<lambda>bs d.
       (decode_chunk_bytes w bs (st_header st) (st_header_bytes st) (st_key st), d)))"

end
