(* ===== verification/ToolCapabilities.thy ===== *)
theory ToolCapabilities
  imports Prelude
begin

text \<open>
  The capability tokens of every tool: those of the portable contracts (\<open>cua-driver-contract\<close>), and
  for the tools that have none the table of \<open>tool.rs\<close>. The first token of a tool is what the
  computer history calls its action.
\<close>

definition SESSION_CONTRACTS :: "(string \<times> string list) list" where
  "SESSION_CONTRACTS =
     [(''start_session'', [''session.lifecycle.start'', ''session.capture_scope'']),
      (''escalate_session'', [''session.capture_scope.escalate'']),
      (''get_session_state'', [''session.capture_scope.read'']),
      (''get_session'', [''session.lifecycle.read'']),
      (''list_sessions'', [''session.lifecycle.list'']),
      (''end_session'', [''session.lifecycle.end''])]"

definition DESKTOP_CONTRACTS :: "(string \<times> string list) list" where
  "DESKTOP_CONTRACTS =
     [(''clipboard_read'', [''clipboard.read'', ''clipboard.types'']),
      (''clipboard_write'', [''clipboard.write'', ''clipboard.write.text'',
         ''clipboard.write.image'', ''clipboard.write.file_url'', ''clipboard.types'']),
      (''get_desktop_state'', [''screen.capture'', ''screen.dimensions'']),
      (''get_screen_size'', [''screen.dimensions'']),
      (''get_cursor_position'', [''screen.cursor.position'']),
      (''move_cursor'', [''agent_cursor.move'', ''input.pointer.move'']),
      (''set_window_frame'', [''window.frame.set'']),
      (''invoke_menu'', [''menu.path.invoke'', ''accessibility.menu.native'']),
      (''click'', [''input.pointer.click'', ''input.pointer.click.left'',
         ''accessibility.element_tokens'']),
      (''drag'', [''input.pointer.drag'']),
      (''scroll'', [''input.pointer.scroll'', ''accessibility.element_tokens'']),
      (''type_text'', [''input.keyboard.type'', ''input.keyboard.type.terminal_safe'',
         ''accessibility.element_tokens'']),
      (''press_key'', [''input.keyboard.press'', ''accessibility.element_tokens'']),
      (''hotkey'', [''input.keyboard.hotkey''])]"

definition CURSOR_CONTRACTS :: "(string \<times> string list) list" where
  "CURSOR_CONTRACTS =
     [(''set_agent_cursor_enabled'', [''agent_cursor.set_enabled'']),
      (''set_agent_cursor_motion'', [''agent_cursor.set_motion'']),
      (''set_agent_cursor_theme'', [''agent_cursor.set_theme'']),
      (''get_agent_cursor_state'', [''agent_cursor.state''])]"

definition VERIFICATION_CONTRACTS :: "(string \<times> string list) list" where
  "VERIFICATION_CONTRACTS =
     [(''verify_state'', [''state.verify'', ''state.verify.window'', ''state.verify.element'',
         ''state.observe.visual_evidence''])]"

definition tool_capabilities :: "string \<Rightarrow> string list option" where
  "tool_capabilities tool =
     map_of (SESSION_CONTRACTS @ DESKTOP_CONTRACTS @ CURSOR_CONTRACTS @ VERIFICATION_CONTRACTS) tool"

definition RUNTIME_CAPABILITIES :: "(string \<times> string list) list" where
  "RUNTIME_CAPABILITIES =
     [(''double_click'', [''input.pointer.click'', ''input.pointer.click.left'',
         ''input.pointer.click.double'', ''accessibility.element_tokens'']),
      (''right_click'', [''input.pointer.click'', ''input.pointer.click.right'',
         ''accessibility.element_tokens'']),
      (''mouse_drag'', [''input.pointer.drag'']),
      (''parallel_mouse_drag'', [''input.pointer.drag'']),
      (''mouse_button_down'', [''input.pointer.button'']),
      (''mouse_button_up'', [''input.pointer.button'']),
      (''type_text_chars'', [''input.keyboard.type'', ''accessibility.element_tokens'']),
      (''set_value'', [''input.keyboard.type'', ''accessibility.element_tokens'']),
      (''zoom'', [''screen.capture'', ''screen.capture.window'', ''screen.capture.region'']),
      (''get_accessibility_tree'', [''accessibility.tree'', ''accessibility.tree.structured'']),
      (''get_window_state'', [''accessibility.window_state'', ''accessibility.tree'',
         ''accessibility.tree.structured'', ''accessibility.tree.bounded'',
         ''accessibility.element_tokens'', ''screen.capture'', ''screen.capture.window'']),
      (''launch_app'', [''app.launch'']),
      (''list_apps'', [''app.list'']),
      (''kill_app'', [''app.kill'']),
      (''list_windows'', [''window.list'']),
      (''bring_to_front'', [''window.activate'']),
      (''present_window'', [''window.activate'']),
      (''begin_foreground_segment'', [''window.activate'']),
      (''end_foreground_segment'', [''window.activate'']),
      (''prepare_dialog'', [''window.activate'']),
      (''prepare_observation'', [''window.activate'']),
      (''set_window_frame'', [''window.frame.set'']),
      (''debug_window_info'', [''window.debug_info'']),
      (''check_permissions'', [''system.permissions.tcc'',
         ''system.permissions.tcc.accessibility'',
         ''system.permissions.tcc.screen_recording'']),
      (''get_config'', [''system.config.read'']),
      (''set_config'', [''system.config.write'']),
      (''set_agent_cursor_enabled'', [''agent_cursor.set_enabled'']),
      (''set_agent_cursor_motion'', [''agent_cursor.set_motion'']),
      (''set_agent_cursor_theme'', [''agent_cursor.set_theme'']),
      (''get_agent_cursor_state'', [''agent_cursor.state'']),
      (''start_recording'', [''recording.start'']),
      (''stop_recording'', [''recording.stop'']),
      (''get_recording_state'', [''recording.state'']),
      (''replay_trajectory'', [''recording.replay'']),
      (''install_ffmpeg'', [''recording.install_dependency'']),
      (''page'', [''page.action'']),
      (''get_browser_state'', [''browser.state'']),
      (''browser_prepare'', [''browser.prepare'']),
      (''browser_navigate'', [''browser.navigate'']),
      (''browser_click'', [''browser.input.click'']),
      (''browser_type'', [''browser.input.type'']),
      (''browser_dialog'', [''browser.dialog'']),
      (''browser_set_input_files'', [''browser.input.files'']),
      (''browser_download'', [''browser.download'']),
      (''browser_pointer'', [''browser.input.pointer'']),
      (''check_for_update'', [''driver.update_check'']),
      (''probe'', [''driver.probe'']),
      (''health_report'', [''driver.probe'']),
      (''history_status'', [''history.status'']),
      (''history_query'', [''history.query''])]"

definition default_capabilities_for :: "string \<Rightarrow> string list" where
  "default_capabilities_for tool =
     (case tool_capabilities tool of
        Some cs \<Rightarrow> cs
      | None \<Rightarrow> (case map_of RUNTIME_CAPABILITIES tool of Some cs \<Rightarrow> cs | None \<Rightarrow> []))"

end
