(* ===== verification/HistoryManager.thy ===== *)
theory HistoryManager
  imports HistoryStore ToolCapabilities
begin

text \<open>
  The manager of the computer history, \<open>HistoryManager\<close> in \<open>history.rs\<close>, and its writer thread. The
  writer is a queue of messages with the function that handles the first one; a producer only adds to
  the queue, a control operation that waits for a reply lets the writer run to the end of the queue, or
  only part of the way when the five seconds pass first. A control operation runs under the control lock
  and is one function; the producers run beside it and find the writer lock free or not.
\<close>

section \<open>State\<close>

definition WRITER_QUEUE_CAPACITY :: nat where "WRITER_QUEUE_CAPACITY = 512"
definition MAX_QUERY_LIMIT :: nat where "MAX_QUERY_LIMIT = 200"

record history_config =
  hc_admitted :: bool
  hc_platform :: string
  hc_stream :: string
  hc_retention_days :: nat
  hc_quota_bytes :: nat

datatype writer_message =
    EventMessage history_event "int option" "nat option"
  | FlushMessage
  | ReadMessage nat
  | ShutdownMessage

datatype writer_reply =
    FlushReply "history_health + unit"
  | ReadReply "history_health + history_event list"
  | ShutdownReply

record history_writer =
  wr_store :: history_store
  wr_queue :: "writer_message list"
  wr_terminal :: "history_health option"
  wr_maintained :: instant

record 'k history_manager =
  hm_disk :: "'k history_disk"
  hm_enabled :: bool
  hm_paused :: bool
  hm_dropped :: u64
  hm_pending :: u64
  hm_next :: u64
  hm_health :: history_health
  hm_session_key :: "string option"
  hm_writer :: "history_writer option"

type_synonym ('k, 'a) hm_result = "(history_health + 'a) \<times> 'k history_manager"

text \<open>A function of the disk as one of the manager.\<close>

definition on_disk ::
    "('k history_disk \<Rightarrow> 'r \<times> 'k history_disk) \<Rightarrow> 'k history_manager \<Rightarrow> 'r \<times> 'k history_manager" where
  "on_disk f m = (let (r, d) = f (hm_disk m) in (r, m\<lparr>hm_disk := d\<rparr>))"

definition record_drop :: "'k history_manager \<Rightarrow> 'k history_manager" where
  "record_drop m = m\<lparr>hm_dropped := hm_dropped m + 1, hm_pending := hm_pending m + 1\<rparr>"


section \<open>The writer\<close>

definition put_application :: "application_identity option \<Rightarrow> history_event \<Rightarrow> history_event" where
  "put_application a e = e\<lparr>he_data := (he_data e)\<lparr>hd_application := a\<rparr>\<rparr>"

definition resolved_identity ::
    "'k history_world \<Rightarrow> int \<Rightarrow> nat option \<Rightarrow> application_identity option" where
  "resolved_identity w pid win =
     Option.bind (Option.bind (hw_resolve w) (\<lambda>f. f pid win)) sanitize_application_identity"

definition identified ::
    "'k history_world \<Rightarrow> int option \<Rightarrow> nat option \<Rightarrow> history_event \<Rightarrow> history_event" where
  "identified w pid win e =
     (case pid of None \<Rightarrow> e | Some p \<Rightarrow> put_application (resolved_identity w p win) e)"

definition writer_poisoned ::
    "history_health \<Rightarrow> history_writer \<Rightarrow> 'k history_manager \<Rightarrow> 'k history_manager" where
  "writer_poisoned err wr m =
     record_drop (m\<lparr>hm_health := err, hm_writer := Some (wr\<lparr>wr_terminal := Some err\<rparr>)\<rparr>)"

definition handle_event ::
    "'k history_world \<Rightarrow> history_config \<Rightarrow> history_event \<Rightarrow> int option \<Rightarrow> nat option
       \<Rightarrow> history_writer \<Rightarrow> 'k history_manager \<Rightarrow> 'k history_manager" where
  "handle_event w cfg e pid win wr m =
     (if wr_terminal wr \<noteq> None then record_drop (m\<lparr>hm_writer := Some wr\<rparr>)
      else
        (let (now, d) = mono_now w (hm_disk m);
             due = (hc_retention_days cfg = 0
                    \<or> CHUNK_ROTATION_INTERVAL \<le> now - st_created (wr_store wr)
                    \<or> WRITER_MAINTENANCE_INTERVAL \<le> now - wr_maintained wr);
             (r, st, d) = (if due then checkpoint_retention w (hc_retention_days cfg) (wr_store wr) d
                           else (Inr (), wr_store wr, d));
             wr = wr\<lparr>wr_store := st\<rparr>
         in case r of
              Inl err \<Rightarrow> writer_poisoned err wr (m\<lparr>hm_disk := d\<rparr>)
            | Inr _ \<Rightarrow>
                (let (now, d) = mono_now w d;
                     wr = (if due then wr\<lparr>wr_maintained := now\<rparr> else wr);
                     (r, st, d) = store_append w (identified w pid win e) (wr_store wr) d;
                     wr = wr\<lparr>wr_store := st\<rparr>
                 in case r of
                      Inl err \<Rightarrow> writer_poisoned err wr (m\<lparr>hm_disk := d\<rparr>)
                    | Inr _ \<Rightarrow> m\<lparr>hm_disk := d, hm_writer := Some wr\<rparr>)))"

definition handle_flush ::
    "'k history_world \<Rightarrow> history_writer \<Rightarrow> 'k history_manager \<Rightarrow> ('k, unit) hm_result" where
  "handle_flush w wr m =
     (let m = m\<lparr>hm_writer := Some wr\<rparr>
      in case wr_terminal wr of
           Some err \<Rightarrow> (Inl err, m)
         | None \<Rightarrow> on_disk (store_flush w) m)"

definition handle_read ::
    "'k history_world \<Rightarrow> history_config \<Rightarrow> nat \<Rightarrow> history_writer \<Rightarrow> 'k history_manager
       \<Rightarrow> ('k, history_event list) hm_result" where
  "handle_read w cfg days wr m =
     (case wr_terminal wr of
        Some err \<Rightarrow> (Inl err, m\<lparr>hm_writer := Some wr\<rparr>)
      | None \<Rightarrow>
          (let (r, st, d) = checkpoint_retention w days (wr_store wr) (hm_disk m);
               m = m\<lparr>hm_disk := d, hm_writer := Some (wr\<lparr>wr_store := st\<rparr>)\<rparr>
           in attempt (r, m) (\<lambda>_ m. on_disk (read_all w (hc_quota_bytes cfg)) m)))"

text \<open>One turn of \<open>writer_loop\<close> with a message; \<open>ShutdownMessage\<close> ends the loop.\<close>

definition writer_step ::
    "'k history_world \<Rightarrow> history_config \<Rightarrow> 'k history_manager \<Rightarrow> writer_reply option \<times> 'k history_manager" where
  "writer_step w cfg m =
     (case hm_writer m of
        None \<Rightarrow> (None, m)
      | Some wr \<Rightarrow>
          (case wr_queue wr of
             [] \<Rightarrow> (None, m)
           | msg # rest \<Rightarrow>
               (let wr = wr\<lparr>wr_queue := rest\<rparr>
                in case msg of
                     EventMessage e pid win \<Rightarrow> (None, handle_event w cfg e pid win wr m)
                   | FlushMessage \<Rightarrow> map_prod (\<lambda>r. Some (FlushReply r)) id (handle_flush w wr m)
                   | ReadMessage days \<Rightarrow> map_prod (\<lambda>r. Some (ReadReply r)) id (handle_read w cfg days wr m)
                   | ShutdownMessage \<Rightarrow>
                       (Some ShutdownReply,
                        snd (on_disk (store_flush w) (m\<lparr>hm_writer := Some wr\<rparr>))))))"

text \<open>A turn in which thirty seconds passed without a message.\<close>

definition writer_idle :: "'k history_world \<Rightarrow> history_config \<Rightarrow> 'k history_manager \<Rightarrow> 'k history_manager" where
  "writer_idle w cfg m =
     (case hm_writer m of
        None \<Rightarrow> m
      | Some wr \<Rightarrow>
          if wr_terminal wr \<noteq> None then m
          else (let (r, st, d) = checkpoint_retention w (hc_retention_days cfg) (wr_store wr) (hm_disk m);
                    (now, d) = mono_now w d;
                    wr = wr\<lparr>wr_store := st, wr_maintained := now\<rparr>
                in case r of
                     Inl err \<Rightarrow> m\<lparr>hm_disk := d, hm_health := err,
                                  hm_writer := Some (wr\<lparr>wr_terminal := Some err\<rparr>)\<rparr>
                   | Inr _ \<Rightarrow> m\<lparr>hm_disk := d, hm_writer := Some wr\<rparr>))"

definition queue_length :: "'k history_manager \<Rightarrow> nat" where
  "queue_length m = (case hm_writer m of None \<Rightarrow> 0 | Some wr \<Rightarrow> length (wr_queue wr))"

definition enqueue :: "writer_message \<Rightarrow> 'k history_manager \<Rightarrow> 'k history_manager" where
  "enqueue msg m =
     (case hm_writer m of
        None \<Rightarrow> m | Some wr \<Rightarrow> m\<lparr>hm_writer := Some (wr\<lparr>wr_queue := wr_queue wr @ [msg]\<rparr>)\<rparr>)"

text \<open>\<open>send\<close> waits for a free place; \<open>try_send\<close> does not.\<close>

definition blocking_send ::
    "'k history_world \<Rightarrow> history_config \<Rightarrow> writer_message \<Rightarrow> 'k history_manager \<Rightarrow> 'k history_manager" where
  "blocking_send w cfg msg m =
     enqueue msg (if WRITER_QUEUE_CAPACITY \<le> queue_length m then snd (writer_step w cfg m) else m)"

definition try_enqueue :: "writer_message \<Rightarrow> 'k history_manager \<Rightarrow> bool \<times> 'k history_manager" where
  "try_enqueue msg m =
     (if hm_writer m = None \<or> WRITER_QUEUE_CAPACITY \<le> queue_length m then (False, m)
      else (True, enqueue msg m))"

fun writer_runs ::
    "'k history_world \<Rightarrow> history_config \<Rightarrow> nat \<Rightarrow> writer_reply option \<Rightarrow> 'k history_manager
       \<Rightarrow> writer_reply option \<times> 'k history_manager" where
  "writer_runs w cfg 0 r m = (r, m)"
| "writer_runs w cfg (Suc n) r m =
     (let (r', m') = writer_step w cfg m in writer_runs w cfg n r' m')"

text \<open>\<open>recv_timeout\<close>: the reply to the last message, or none when the writer is late.\<close>

definition await_reply ::
    "'k history_world \<Rightarrow> history_config \<Rightarrow> 'k history_manager \<Rightarrow> writer_reply option \<times> 'k history_manager" where
  "await_reply w cfg m =
     (let late = hw_late w (hk_tick (hm_disk m)); m = m\<lparr>hm_disk := tick (hm_disk m)\<rparr>
      in case late of
           None \<Rightarrow> writer_runs w cfg (queue_length m) None m
         | Some k \<Rightarrow> (None, snd (writer_runs w cfg (min k (queue_length m - 1)) None m)))"

definition flush_writer :: "'k history_world \<Rightarrow> history_config \<Rightarrow> 'k history_manager \<Rightarrow> ('k, unit) hm_result" where
  "flush_writer w cfg m =
     (if hm_writer m = None then (Inl WriterStopped, m)
      else case await_reply w cfg (blocking_send w cfg FlushMessage m) of
             (Some (FlushReply r), m) \<Rightarrow> (r, m)
           | (_, m) \<Rightarrow> (Inl WriterStopped, m))"

definition read_snapshot ::
    "'k history_world \<Rightarrow> history_config \<Rightarrow> 'k history_manager \<Rightarrow> ('k, history_event list) hm_result" where
  "read_snapshot w cfg m =
     (case await_reply w cfg (blocking_send w cfg (ReadMessage (hc_retention_days cfg)) m) of
        (Some (ReadReply r), m) \<Rightarrow> (r, m)
      | (_, m) \<Rightarrow> (Inl WriterStopped, m))"

definition send_lossless ::
    "'k history_world \<Rightarrow> history_config \<Rightarrow> history_event \<Rightarrow> 'k history_manager \<Rightarrow> ('k, unit) hm_result" where
  "send_lossless w cfg e m =
     (case validate_event e of
        Inl err \<Rightarrow> (Inl err, m)
      | Inr _ \<Rightarrow>
          if hm_writer m = None then (Inl WriterStopped, m)
          else (Inr (), blocking_send w cfg (EventMessage (set_sequence (hm_next m) e) None None)
                          (m\<lparr>hm_next := hm_next m + 1\<rparr>)))"

definition send_and_flush ::
    "'k history_world \<Rightarrow> history_config \<Rightarrow> history_event \<Rightarrow> 'k history_manager \<Rightarrow> ('k, unit) hm_result" where
  "send_and_flush w cfg e m = attempt (send_lossless w cfg e m) (\<lambda>_ m. flush_writer w cfg m)"

text \<open>Shutting down waits for the thread, which drops the store and its lease.\<close>

definition stop_writer :: "'k history_world \<Rightarrow> history_config \<Rightarrow> 'k history_manager \<Rightarrow> 'k history_manager" where
  "stop_writer w cfg m =
     (if hm_writer m = None then m
      else (let m = blocking_send w cfg ShutdownMessage m;
                m = snd (writer_runs w cfg (queue_length m) None m)
            in m\<lparr>hm_writer := None, hm_disk := release_lease (hm_disk m)\<rparr>))"

text \<open>Dropping the manager shuts its writer down.\<close>

definition drop_history :: "'k history_world \<Rightarrow> history_config \<Rightarrow> 'k history_manager \<Rightarrow> 'k history_manager" where
  "drop_history w cfg m = stop_writer w cfg m"


section \<open>Events, keys and the persisted state\<close>

definition build_event ::
    "'k history_world \<Rightarrow> history_config \<Rightarrow> string \<Rightarrow> string \<Rightarrow> string option \<Rightarrow> string option
       \<Rightarrow> string option \<Rightarrow> history_payload \<Rightarrow> 'k history_manager \<Rightarrow> history_event \<times> 'k history_manager" where
  "build_event w cfg t subject sid aid cap p m =
     (let n = hk_tick (hm_disk m)
      in (new_history_event (hw_sha256 w) (hc_stream cfg) (hc_platform cfg) (hw_uuid w n)
            (hw_rfc3339 w (hw_wall w n)) t subject sid aid cap p,
          m\<lparr>hm_disk := tick (hm_disk m)\<rparr>))"

definition control_event ::
    "'k history_world \<Rightarrow> history_config \<Rightarrow> control_operation \<Rightarrow> 'k history_manager
       \<Rightarrow> history_event \<times> 'k history_manager" where
  "control_event w cfg c = build_event w cfg CONTROL_EVENT ''control'' None None None (ControlPayload c)"

definition ensure_session_id_key :: "'k history_world \<Rightarrow> 'k history_manager \<Rightarrow> ('k, unit) hm_result" where
  "ensure_session_id_key w m =
     (if hm_session_key m \<noteq> None then (Inr (), m)
      else
        (let (a, k) = hw_create_key w (hk_keys (hm_disk m));
             m = m\<lparr>hm_disk := (hm_disk m)\<lparr>hk_keys := k\<rparr>\<rparr>
         in case a of
              Inl e \<Rightarrow> (Inl e, m)
            | Inr key \<Rightarrow>
                if length (key_bytes key) \<noteq> 32 then (Inl KeyCorrupt, m)
                else (case hw_hkdf w [] (key_bytes key) SESSION_ID_KEY_INFO of
                        None \<Rightarrow> (Inl KeyCorrupt, m)
                      | Some derived \<Rightarrow> (Inr (), m\<lparr>hm_session_key := Some derived\<rparr>))))"

definition history_session_id :: "'k history_world \<Rightarrow> string \<Rightarrow> 'k history_manager \<Rightarrow> ('k, string) hm_result" where
  "history_session_id w v m =
     attempt (ensure_session_id_key w m) (\<lambda>_ m.
       case hm_session_key m of
         None \<Rightarrow> (Inl KeyUnavailable, m)
       | Some key \<Rightarrow> (Inr (hex_128 (take 16 (hw_hmac w key v))), m))"

definition write_state ::
    "'k history_world \<Rightarrow> bool \<times> bool \<Rightarrow> 'k history_disk \<Rightarrow> (history_health + unit) \<times> 'k history_disk" where
  "write_state w v d =
     attempt (prepare_history_root w d) (\<lambda>_ d.
     attempt (remove_if_there w ''state.json.tmp'' d) (\<lambda>_ d.
     attempt (create_root_file w ''state.json.tmp'' d) (\<lambda>_ d.
     attempt (write_root_file w ''state.json.tmp'' (hw_state_bytes w v) d) (\<lambda>_ d.
     attempt (io_step w d) (\<lambda>_ d.
     attempt (io_step w d) (\<lambda>_ d.
       let (now, d) = wall_now w d
       in (Inr (), d\<lparr>hk_entries := kv_put ''state.json'' (FsFile (hw_state_bytes w v) now)
                                   (kv_del ''state.json.tmp'' (hk_entries d))\<rparr>)))))))"

definition read_state ::
    "'k history_world \<Rightarrow> 'k history_disk \<Rightarrow> (bool \<times> bool) option \<times> 'k history_disk" where
  "read_state w d =
     (if \<not> hw_io_ok w (hk_tick d) \<or> hk_root d \<noteq> Some FsDirectory then None
      else (case kv_get (hk_entries d) ''state.json'' of
              Some (FsFile b _) \<Rightarrow> if length b \<le> 4096 then hw_read_state w b else None
            | _ \<Rightarrow> None),
      tick d)"

definition persist_state :: "'k history_world \<Rightarrow> bool \<Rightarrow> bool \<Rightarrow> 'k history_manager \<Rightarrow> ('k, unit) hm_result" where
  "persist_state w en pa = on_disk (write_state w (en, pa))"

definition max_sequence :: "history_event list \<Rightarrow> u64" where
  "max_sequence es = foldl max 0 (map he_sequence es)"

definition saturating_succ :: "u64 \<Rightarrow> u64" where
  "saturating_succ n = (if n = - 1 then n else n + 1)"


section \<open>Starting the writer\<close>

definition store_on_error ::
    "('k, 'a) hm_result \<Rightarrow> ('k, 'a) hm_result" where
  "store_on_error r =
     (case fst r of
        Inl e \<Rightarrow> (Inl e, (snd r)\<lparr>hm_disk := release_lease (hm_disk (snd r))\<rparr>) | Inr x \<Rightarrow> r)"

definition append_first ::
    "'k history_world \<Rightarrow> history_event option \<Rightarrow> history_store \<Rightarrow> 'k history_manager
       \<Rightarrow> ('k, history_store) hm_result" where
  "append_first w first st m =
     (case first of
        None \<Rightarrow> (Inr st, m)
      | Some e \<Rightarrow>
          (let e = set_sequence (hm_next m) e; m = m\<lparr>hm_next := hm_next m + 1\<rparr>
           in attempt (validate_event e, m) (\<lambda>_ m.
              let (r, st, d) = store_append w e st (hm_disk m)
              in attempt (r, m\<lparr>hm_disk := d\<rparr>) (\<lambda>_ m.
                 attempt (on_disk (read_events w st) m) (\<lambda>es m.
                   if es \<noteq> [] \<and> he_id (last es) = he_id e then (Inr st, m)
                   else (Inl StorageCorrupt, m))))))"

definition open_store ::
    "'k history_world \<Rightarrow> history_config \<Rightarrow> history_event option \<Rightarrow> 'k history_manager
       \<Rightarrow> ('k, history_store) hm_result" where
  "open_store w cfg first m =
     attempt (on_disk (read_all w (hc_quota_bytes cfg)) m) (\<lambda>es m.
     attempt (ensure_session_id_key w m) (\<lambda>_ m.
     attempt (on_disk (prune_expired_chunks w (hc_retention_days cfg)) m) (\<lambda>_ m.
     attempt (on_disk (create_with_lease w (hc_stream cfg) (hc_quota_bytes cfg)) m) (\<lambda>st m.
       append_first w first st (m\<lparr>hm_next := saturating_succ (max_sequence es)\<rparr>)))))"

definition start_writer ::
    "'k history_world \<Rightarrow> history_config \<Rightarrow> history_event option \<Rightarrow> 'k history_manager \<Rightarrow> ('k, unit) hm_result" where
  "start_writer w cfg first m =
     (if hm_writer m \<noteq> None then (Inr (), m)
      else attempt (on_disk (acquire_lease w) m) (\<lambda>_ m.
           attempt (store_on_error (open_store w cfg first m)) (\<lambda>st m.
             let (now, d) = mono_now w (hm_disk m); m = m\<lparr>hm_disk := tick d\<rparr>
             in if hw_io_ok w (hk_tick d)
                then (Inr (), m\<lparr>hm_writer := Some \<lparr>wr_store = st, wr_queue = [], wr_terminal = None,
                                 wr_maintained = now\<rparr>\<rparr>)
                else (Inl WriterStopped, m\<lparr>hm_disk := release_lease (hm_disk m)\<rparr>))))"

definition new_history ::
    "'k history_world \<Rightarrow> history_config \<Rightarrow> 'k history_disk \<Rightarrow> 'k history_manager" where
  "new_history w cfg d =
     (let (persisted, d) = read_state w d;
          (en, pa) = (case persisted of None \<Rightarrow> (False, False) | Some p \<Rightarrow> p);
          m = \<lparr>hm_disk = d, hm_enabled = en \<and> hc_admitted cfg, hm_paused = pa, hm_dropped = 0,
               hm_pending = 0, hm_next = 1, hm_health = (if en then WriterStopped else HistoryOff),
               hm_session_key = None, hm_writer = None\<rparr>
      in if hm_enabled m
         then (case start_writer w cfg None m of
                 (Inr _, m) \<Rightarrow> m\<lparr>hm_health := if hm_paused m then HistoryPaused else Ready\<rparr>
               | (Inl e, m) \<Rightarrow> m\<lparr>hm_health := e, hm_enabled := False\<rparr>)
         else if \<not> hc_admitted cfg \<and> en then m\<lparr>hm_health := NotAdmitted\<rparr> else m)"

end
