(* ===== verification/HistoryControl.thy ===== *)
theory HistoryControl
  imports HistoryManager
begin

text \<open>
  The operations of the computer history: the control operations a user performs, the audited query,
  the producers a tool call runs into, and the two tools. A control operation answers the status of the
  manager, which is read at its end.
\<close>

section \<open>Status and control\<close>

record history_status =
  hs_supported :: bool
  hs_admitted :: bool
  hs_enabled :: bool
  hs_paused :: bool
  hs_retention_days :: nat
  hs_quota_bytes :: nat
  hs_bytes_used :: nat
  hs_dropped_events :: u64
  hs_health :: history_health

definition status ::
    "'k history_world \<Rightarrow> history_config \<Rightarrow> 'k history_manager \<Rightarrow> history_status \<times> 'k history_manager" where
  "status w cfg m =
     (let (used, m) = on_disk (directory_bytes w) m
      in (\<lparr>hs_supported = hc_platform cfg \<in> {''macos'', ''windows'', ''linux''},
           hs_admitted = hc_admitted cfg, hs_enabled = hm_enabled m, hs_paused = hm_paused m,
           hs_retention_days = hc_retention_days cfg, hs_quota_bytes = hc_quota_bytes cfg,
           hs_bytes_used = used, hs_dropped_events = hm_dropped m, hs_health = hm_health m\<rparr>, m))"

definition status_json :: "history_status \<Rightarrow> json" where
  "status_json s =
     JObj [(''admitted'', JBool (hs_admitted s)), (''bytes_used'', JNum (PosInt (hs_bytes_used s))),
       (''dropped_events'', JNum (PosInt (unat (hs_dropped_events s)))), (''enabled'', JBool (hs_enabled s)),
       (''encrypted'', JBool True), (''health'', JStr (health_name (hs_health s))),
       (''paused'', JBool (hs_paused s)),
       (''profile'', JStr ''cua-history-profile-v1/cbor-sequence+cose-encrypt0+cloudevents-json''),
       (''quota_bytes'', JNum (PosInt (hs_quota_bytes s))),
       (''retention_days'', JNum (PosInt (hs_retention_days s))), (''supported'', JBool (hs_supported s))]"

definition answer_status ::
    "'k history_world \<Rightarrow> history_config \<Rightarrow> 'k history_manager \<Rightarrow> ('k, history_status) hm_result" where
  "answer_status w cfg m = (let (s, m) = status w cfg m in (Inr s, m))"

definition require_admitted :: "history_config \<Rightarrow> 'k history_manager \<Rightarrow> ('k, unit) hm_result" where
  "require_admitted cfg m = (if hc_admitted cfg then Inr () else Inl NotAdmitted, m)"

definition require_enabled :: "history_config \<Rightarrow> 'k history_manager \<Rightarrow> ('k, unit) hm_result" where
  "require_enabled cfg m =
     attempt (require_admitted cfg m) (\<lambda>_ m. (if hm_enabled m then Inr () else Inl HistoryOff, m))"

definition send_control ::
    "'k history_world \<Rightarrow> history_config \<Rightarrow> control_operation \<Rightarrow> 'k history_manager \<Rightarrow> ('k, unit) hm_result" where
  "send_control w cfg c m = (let (e, m) = control_event w cfg c m in send_and_flush w cfg e m)"

definition enable ::
    "'k history_world \<Rightarrow> history_config \<Rightarrow> 'k history_manager \<Rightarrow> ('k, history_status) hm_result" where
  "enable w cfg m =
     (if \<not> hc_admitted cfg then (Inl NotAdmitted, m)
      else if hm_enabled m then answer_status w cfg m
      else
        (let m = m\<lparr>hm_paused := False\<rparr>; (e, m) = control_event w cfg EnableHistory m
         in attempt (start_writer w cfg (Some e) m) (\<lambda>_ m.
            case persist_state w True False m of
              (Inl err, m) \<Rightarrow> (Inl err, (stop_writer w cfg m)\<lparr>hm_health := err\<rparr>)
            | (Inr _, m) \<Rightarrow> answer_status w cfg (m\<lparr>hm_enabled := True, hm_health := Ready\<rparr>))))"

definition disable ::
    "'k history_world \<Rightarrow> history_config \<Rightarrow> 'k history_manager \<Rightarrow> ('k, history_status) hm_result" where
  "disable w cfg m =
     attempt
       (if hm_enabled m
        then case persist_state w False False (m\<lparr>hm_enabled := False\<rparr>) of
               (Inl err, m) \<Rightarrow> (Inl err, m\<lparr>hm_enabled := True\<rparr>)
             | (Inr _, m) \<Rightarrow> (Inr (), stop_writer w cfg (snd (send_control w cfg DisableHistory m)))
        else persist_state w False False m) (\<lambda>_ m.
       answer_status w cfg (m\<lparr>hm_enabled := False, hm_paused := False, hm_health := HistoryOff\<rparr>))"

definition pause ::
    "'k history_world \<Rightarrow> history_config \<Rightarrow> 'k history_manager \<Rightarrow> ('k, history_status) hm_result" where
  "pause w cfg m =
     attempt (require_enabled cfg m) (\<lambda>_ m.
     attempt (persist_state w True True m) (\<lambda>_ m.
       case send_control w cfg PauseHistory (m\<lparr>hm_paused := True\<rparr>) of
         (Inl err, m) \<Rightarrow> (Inl err, snd (persist_state w True False (m\<lparr>hm_paused := False\<rparr>)))
       | (Inr _, m) \<Rightarrow> answer_status w cfg (m\<lparr>hm_health := HistoryPaused\<rparr>)))"

definition resume ::
    "'k history_world \<Rightarrow> history_config \<Rightarrow> 'k history_manager \<Rightarrow> ('k, history_status) hm_result" where
  "resume w cfg m =
     attempt (require_enabled cfg m) (\<lambda>_ m.
     attempt (persist_state w True False m) (\<lambda>_ m.
       case send_control w cfg ResumeHistory m of
         (Inl err, m) \<Rightarrow> (Inl err, snd (persist_state w True True m))
       | (Inr _, m) \<Rightarrow> answer_status w cfg (m\<lparr>hm_paused := False, hm_health := Ready\<rparr>)))"

definition flush_history ::
    "'k history_world \<Rightarrow> history_config \<Rightarrow> 'k history_manager \<Rightarrow> ('k, history_status) hm_result" where
  "flush_history w cfg m =
     attempt (require_enabled cfg m) (\<lambda>_ m.
     attempt (send_control w cfg FlushHistory m) (\<lambda>_ m. answer_status w cfg m))"

text \<open>The health follows the error of these steps only.\<close>

definition health_on_error :: "('k, 'a) hm_result \<Rightarrow> ('k, 'a) hm_result" where
  "health_on_error r =
     (case fst r of Inl e \<Rightarrow> (Inl e, (snd r)\<lparr>hm_health := e\<rparr>) | Inr x \<Rightarrow> r)"

text \<open>The keys of the namespace and then its files, under the writer lease.\<close>

definition delete_under_lease ::
    "'k history_world \<Rightarrow> 'k history_manager \<Rightarrow> ('k, unit) hm_result" where
  "delete_under_lease w m =
     attempt (hw_references w (hk_keys (hm_disk m)), m) (\<lambda>rs m.
     attempt (health_on_error (on_disk (destroy_keys w rs) m)) (\<lambda>_ m.
     attempt (hw_references w (hk_keys (hm_disk m)), m) (\<lambda>left m.
       if left \<noteq> [] then (Inl KeyDestroyFailed, m\<lparr>hm_health := KeyDestroyFailed\<rparr>)
       else attempt (health_on_error (on_disk (remove_history_files w) (m\<lparr>hm_session_key := None\<rparr>)))
              (\<lambda>_ m. (Inr (), m\<lparr>hm_next := 1, hm_health := HistoryOff\<rparr>)))))"

definition delete_all ::
    "'k history_world \<Rightarrow> history_config \<Rightarrow> 'k history_manager \<Rightarrow> ('k, history_status) hm_result" where
  "delete_all w cfg m =
     (let m = (if hm_enabled m
               then stop_writer w cfg (snd (send_control w cfg DeleteHistory
                      (m\<lparr>hm_enabled := False, hm_paused := False\<rparr>)))
               else m);
          m = m\<lparr>hm_enabled := False, hm_paused := False\<rparr>
      in attempt (persist_state w False False m) (\<lambda>_ m.
         attempt (on_disk (acquire_lease w) m) (\<lambda>_ m.
         attempt (let (r, m) = delete_under_lease w m
                  in (r, m\<lparr>hm_disk := release_lease (hm_disk m)\<rparr>)) (\<lambda>_ m.
           answer_status w cfg m))))"


section \<open>The query\<close>

record history_query =
  hq_limit :: "nat option"
  hq_session :: "string option"
  hq_since :: "u64 option"
  hq_until :: "u64 option"

definition retention_seconds :: "nat \<Rightarrow> int" where
  "retention_seconds days = int (min (min (days * 86400) max_u64) 9223372036854775807)"

definition query_limit :: "history_query \<Rightarrow> nat" where
  "query_limit q = max 1 (min MAX_QUERY_LIMIT (case hq_limit q of None \<Rightarrow> 50 | Some n \<Rightarrow> n))"

text \<open>Whether an event is within the retention and matches the query; \<open>now\<close> is in nanoseconds.\<close>

definition event_matches ::
    "'k history_world \<Rightarrow> nat \<Rightarrow> nat \<Rightarrow> string option \<Rightarrow> history_query \<Rightarrow> history_event \<Rightarrow> bool" where
  "event_matches w days now sid q e =
     (0 < days
      \<and> (case hw_parse_time w (he_time e) of
           None \<Rightarrow> False | Some t \<Rightarrow> int now - retention_seconds days * int nanos_per_sec \<le> t)
      \<and> is_none_or (\<lambda>s. hd_session_id (he_data e) = Some s
                        \<or> hd_session_id (he_data e) = hq_session q) sid
      \<and> is_none_or (\<lambda>n. n \<le> he_sequence e) (hq_since q)
      \<and> is_none_or (\<lambda>n. he_sequence e \<le> n) (hq_until q))"

definition newest_events :: "nat \<Rightarrow> 'a list \<Rightarrow> 'a list" where
  "newest_events n es = drop (length es - n) es"

definition session_filter ::
    "'k history_world \<Rightarrow> history_query \<Rightarrow> 'k history_manager \<Rightarrow> ('k, string option) hm_result" where
  "session_filter w q m =
     (case hq_session q of
        None \<Rightarrow> (Inr None, m)
      | Some v \<Rightarrow> attempt (history_session_id w v m) (\<lambda>s m. (Inr (Some s), m)))"

text \<open>From the events that were read to those that are answered.\<close>

definition select_events ::
    "'k history_world \<Rightarrow> history_config \<Rightarrow> history_query \<Rightarrow> history_event list \<Rightarrow> 'k history_manager
       \<Rightarrow> ('k, history_event list) hm_result" where
  "select_events w cfg q es m =
     (let m = m\<lparr>hm_next := max (hm_next m) (saturating_succ (max_sequence es))\<rparr>
      in attempt (session_filter w q m) (\<lambda>sid m.
         let (now, m) = on_disk (wall_now w) m
         in (Inr (newest_events (query_limit q)
                    (filter (event_matches w (hc_retention_days cfg) now sid q) es)), m)))"

definition access_event ::
    "'k history_world \<Rightarrow> history_config \<Rightarrow> access_operation \<Rightarrow> history_event list \<Rightarrow> 'k history_manager
       \<Rightarrow> history_event \<times> 'k history_manager" where
  "access_event w cfg op es =
     build_event w cfg ACCESS_EVENT ''access'' None None None
       (AccessPayload (access_name op) (of_nat (length es)))"

text \<open>The audit of a query without a writer: a store of its own, dropped at the end.\<close>

definition one_shot_audit ::
    "'k history_world \<Rightarrow> history_config \<Rightarrow> history_event \<Rightarrow> 'k history_manager \<Rightarrow> ('k, unit) hm_result" where
  "one_shot_audit w cfg e m =
     attempt (on_disk (create_with_lease w (hc_stream cfg) (hc_quota_bytes cfg)) m) (\<lambda>st m.
       let e = set_sequence (hm_next m) e; m = m\<lparr>hm_next := hm_next m + 1\<rparr>;
           (r, st, d) = store_append w e st (hm_disk m)
       in attempt (r, m\<lparr>hm_disk := d\<rparr>) (\<lambda>_ m. on_disk (store_flush w) m))"

definition query_with_writer ::
    "'k history_world \<Rightarrow> history_config \<Rightarrow> history_query \<Rightarrow> access_operation \<Rightarrow> 'k history_manager
       \<Rightarrow> ('k, history_event list) hm_result" where
  "query_with_writer w cfg q op m =
     attempt (read_snapshot w cfg m) (\<lambda>es m.
     attempt (select_events w cfg q es m) (\<lambda>es m.
       if es = [] then (Inr [], m)
       else (let (e, m) = access_event w cfg op es m
             in attempt (send_and_flush w cfg e m) (\<lambda>_ m. (Inr es, m)))))"

definition query_under_lease ::
    "'k history_world \<Rightarrow> history_config \<Rightarrow> history_query \<Rightarrow> access_operation \<Rightarrow> 'k history_manager
       \<Rightarrow> ('k, history_event list) hm_result" where
  "query_under_lease w cfg q op m =
     attempt (on_disk (read_all w (hc_quota_bytes cfg)) m) (\<lambda>es m.
     attempt (on_disk (prune_expired_chunks w (hc_retention_days cfg)) m) (\<lambda>_ m.
     attempt (select_events w cfg q es m) (\<lambda>es m.
       if es = [] then (Inr [], m)
       else (let (e, m) = access_event w cfg op es m
             in attempt (one_shot_audit w cfg e m) (\<lambda>_ m. (Inr es, m))))))"

definition query_without_writer ::
    "'k history_world \<Rightarrow> history_config \<Rightarrow> history_query \<Rightarrow> access_operation \<Rightarrow> 'k history_manager
       \<Rightarrow> ('k, history_event list) hm_result" where
  "query_without_writer w cfg q op m =
     attempt (on_disk (acquire_lease w) m) (\<lambda>_ m.
       let (r, m) = query_under_lease w cfg q op m
       in (r, m\<lparr>hm_disk := release_lease (hm_disk m)\<rparr>))"

definition query_history ::
    "'k history_world \<Rightarrow> history_config \<Rightarrow> history_query \<Rightarrow> access_operation \<Rightarrow> 'k history_manager
       \<Rightarrow> ('k, history_event list) hm_result" where
  "query_history w cfg q op m =
     attempt (require_admitted cfg m) (\<lambda>_ m.
       if hm_writer m \<noteq> None then query_with_writer w cfg q op m
       else query_without_writer w cfg q op m)"


section \<open>Producers\<close>

definition is_capturing :: "history_config \<Rightarrow> 'k history_manager \<Rightarrow> bool" where
  "is_capturing cfg m = (hc_admitted cfg \<and> hm_enabled m \<and> \<not> hm_paused m)"

text \<open>The health event that reports the drops since the last one, when it finds a place.\<close>

definition report_drops ::
    "'k history_world \<Rightarrow> history_config \<Rightarrow> 'k history_manager \<Rightarrow> 'k history_manager" where
  "report_drops w cfg m =
     (let pending = hm_pending m; m = m\<lparr>hm_pending := 0\<rparr>
      in if pending = 0 then m
         else (let (e, m) = build_event w cfg HEALTH_EVENT ''writer'' None None None
                      (HealthPayload EventsDropped pending) m;
                   e = set_sequence (hm_next m) e; m = m\<lparr>hm_next := hm_next m + 1\<rparr>;
                   (sent, m) = try_enqueue (EventMessage e None None) m
               in if sent then m else m\<lparr>hm_pending := hm_pending m + pending\<rparr>))"

definition try_send ::
    "'k history_world \<Rightarrow> history_config \<Rightarrow> bool \<Rightarrow> history_event \<Rightarrow> int option \<Rightarrow> nat option
       \<Rightarrow> 'k history_manager \<Rightarrow> 'k history_manager" where
  "try_send w cfg lock_free e pid win m =
     (if \<not> valid_event e \<or> \<not> lock_free \<or> hm_writer m = None then record_drop m
      else (let m = report_drops w cfg m;
                e = set_sequence (hm_next m) e; m = m\<lparr>hm_next := hm_next m + 1\<rparr>;
                (sent, m) = try_enqueue (EventMessage e pid win) m
            in if sent then m else record_drop m))"

record pending_action =
  pa_action_id :: string
  pa_session_id :: "string option"
  pa_capability :: string
  pa_pid :: "int option"
  pa_window :: "nat option"

definition nonempty :: "string option \<Rightarrow> string option" where
  "nonempty v = (case v of None \<Rightarrow> None | Some s \<Rightarrow> if s = [] then None else Some s)"

definition pseudonym ::
    "'k history_world \<Rightarrow> string option \<Rightarrow> 'k history_manager \<Rightarrow> string option \<times> 'k history_manager" where
  "pseudonym w v m =
     (case nonempty v of
        None \<Rightarrow> (None, m)
      | Some s \<Rightarrow>
          (case history_session_id w s m of
             (Inl _, m) \<Rightarrow> (None, m) | (Inr x, m) \<Rightarrow> (Some x, m)))"

definition capability_of :: "string \<Rightarrow> string" where
  "capability_of tool =
     (case default_capabilities_for tool of [] \<Rightarrow> ''tool.'' @ tool | c # _ \<Rightarrow> c)"

definition action_pid :: "json \<Rightarrow> int option" where
  "action_pid args = (case get_i64 args ''pid'' of None \<Rightarrow> None | Some p \<Rightarrow> if 0 < p then Some p else None)"

definition begin_action ::
    "'k history_world \<Rightarrow> history_config \<Rightarrow> bool \<Rightarrow> string \<Rightarrow> json \<Rightarrow> string option \<Rightarrow> 'k history_manager
       \<Rightarrow> pending_action option \<times> 'k history_manager" where
  "begin_action w cfg lock_free tool args runtime_label m =
     (if \<not> is_capturing cfg m \<or> \<not> is_action_tool tool then (None, m)
      else
        (let (aid, m) = on_disk (fresh_opaque_id w) m;
             (sid, m) = pseudonym w (case get_str args ''session'' of None \<Rightarrow> runtime_label | Some s \<Rightarrow> Some s) m;
             p = \<lparr>pa_action_id = aid, pa_session_id = sid, pa_capability = capability_of tool,
                  pa_pid = action_pid args, pa_window = get_u64 args ''window_id''\<rparr>;
             (e, m) = build_event w cfg STARTED_EVENT (''action/'' @ aid) sid (Some aid)
                        (Some (capability_of tool)) ActionStarted m
         in (Some p, try_send w cfg lock_free e (pa_pid p) (pa_window p) m)))"

definition finish_history_action ::
    "'k history_world \<Rightarrow> history_config \<Rightarrow> bool \<Rightarrow> pending_action \<Rightarrow> execution_record option \<Rightarrow> bool
       \<Rightarrow> 'k history_manager \<Rightarrow> 'k history_manager" where
  "finish_history_action w cfg lock_free p r failed m =
     (if \<not> hm_enabled m then m
      else (let (e, m) = build_event w cfg COMPLETED_EVENT (''action/'' @ pa_action_id p)
                   (pa_session_id p) (Some (pa_action_id p)) (Some (pa_capability p))
                   (completed_payload r failed) m
            in try_send w cfg lock_free e (pa_pid p) (pa_window p) m))"

definition session_event ::
    "'k history_world \<Rightarrow> history_config \<Rightarrow> bool \<Rightarrow> string option \<Rightarrow> bool \<Rightarrow> 'k history_manager
       \<Rightarrow> 'k history_manager" where
  "session_event w cfg lock_free session started m =
     (if \<not> is_capturing cfg m then m
      else (let (sid, m) = pseudonym w session m;
                (e, m) = build_event w cfg (if started then SESSION_STARTED_EVENT else SESSION_ENDED_EVENT)
                  ''session'' sid None None (SessionPayload (if started then ''started'' else ''ended'')) m
            in try_send w cfg lock_free e None None m))"


section \<open>The tools\<close>

definition history_status_tool ::
    "'k history_world \<Rightarrow> history_config \<Rightarrow> 'k history_manager \<Rightarrow> json \<times> 'k history_manager" where
  "history_status_tool w cfg m = (let (s, m) = status w cfg m in (status_json s, m))"

text \<open>The closed input of \<open>history_query\<close>: an object without unknown fields, or its fields in
  order; a field that is null is left out.\<close>

definition optional_value :: "(json \<Rightarrow> 'a option) \<Rightarrow> json option \<Rightarrow> 'a option option" where
  "optional_value read v =
     (case v of
        None \<Rightarrow> Some None
      | Some x \<Rightarrow> if x = JNull then Some None else map_option Some (read x))"

definition query_of_fields ::
    "json option \<Rightarrow> json option \<Rightarrow> json option \<Rightarrow> json option \<Rightarrow> history_query option" where
  "query_of_fields a b c d =
     (case (optional_value as_u64 a, optional_value as_str b, optional_value as_u64 c, optional_value as_u64 d) of
        (Some limit, Some session, Some since, Some till) \<Rightarrow>
          Some \<lparr>hq_limit = limit, hq_session = session, hq_since = map_option of_nat since,
                hq_until = map_option of_nat till\<rparr>
      | _ \<Rightarrow> None)"

definition nth_value :: "'a list \<Rightarrow> nat \<Rightarrow> 'a option" where
  "nth_value xs i = (if i < length xs then Some (xs ! i) else None)"

definition parse_history_query :: "json \<Rightarrow> history_query option" where
  "parse_history_query args =
     (case args of
        JObj m \<Rightarrow>
          if list_all (\<lambda>e. fst e \<in> {''limit'', ''session_id'', ''since_sequence'', ''until_sequence''}) m
          then query_of_fields (json_get args ''limit'') (json_get args ''session_id'')
                 (json_get args ''since_sequence'') (json_get args ''until_sequence'')
          else None
      | JArr vs \<Rightarrow>
          if length vs \<le> 4
          then query_of_fields (nth_value vs 0) (nth_value vs 1) (nth_value vs 2) (nth_value vs 3) else None
      | _ \<Rightarrow> None)"

datatype history_reply =
    InvalidHistoryQuery
  | InvalidHistoryRange
  | HistoryEvents "history_event list"
  | HistoryRefused string

definition history_query_tool ::
    "'k history_world \<Rightarrow> history_config \<Rightarrow> json \<Rightarrow> 'k history_manager \<Rightarrow> history_reply \<times> 'k history_manager" where
  "history_query_tool w cfg args m =
     (case parse_history_query (sanitize_reserved_args args) of
        None \<Rightarrow> (InvalidHistoryQuery, m)
      | Some q \<Rightarrow>
          if (case (hq_since q, hq_until q) of (Some a, Some b) \<Rightarrow> b < a | _ \<Rightarrow> False)
          then (InvalidHistoryRange, m)
          else (case query_history w cfg q AgentQuery m of
                  (Inr es, m) \<Rightarrow> (HistoryEvents es, m)
                | (Inl e, m) \<Rightarrow> (HistoryRefused (history_code e), m)))"

end
