(* ===== verification/HistoryFrames.thy ===== *)
theory HistoryFrames
  imports HistoryControl
begin

text \<open>
  What the steps of the store leave alone. Every function of \<open>HistoryStore\<close> works on the chunks and
  asks the world questions; the root's files, the keys and the lease are the same afterwards
  (\<open>same_root\<close>), but for creating a store, which may create a key and the directories.
\<close>

named_theorems frame \<open>what a step leaves alone\<close>

definition same_root :: "'k history_disk \<Rightarrow> 'k history_disk \<Rightarrow> bool" where
  "same_root d d' =
     (hk_root d' = hk_root d \<and> hk_entries d' = hk_entries d \<and> hk_keys d' = hk_keys d
      \<and> hk_locked d' = hk_locked d)"

definition same_files :: "'k history_disk \<Rightarrow> 'k history_disk \<Rightarrow> bool" where
  "same_files d d' = (same_root d d' \<and> hk_chunks d' = hk_chunks d)"

lemma same_root_refl [simp]: "same_root d d"
  by (simp add: same_root_def)

lemma same_root_trans [trans]: "same_root a b \<Longrightarrow> same_root b c \<Longrightarrow> same_root a c"
  by (simp add: same_root_def)

lemma same_files_refl [simp]: "same_files d d"
  by (simp add: same_files_def)

lemma same_files_trans [trans]: "same_files a b \<Longrightarrow> same_files b c \<Longrightarrow> same_files a c"
  by (auto simp: same_files_def intro: same_root_trans)

lemma same_files_root: "same_files a b \<Longrightarrow> same_root a b"
  by (simp add: same_files_def)

lemma tick_fields [simp]:
  "hk_root (tick d) = hk_root d" "hk_entries (tick d) = hk_entries d" "hk_chunks (tick d) = hk_chunks d"
  "hk_keys (tick d) = hk_keys d" "hk_locked (tick d) = hk_locked d"
  by (simp_all add: tick_def)

lemma same_files_tick [simp, frame]: "same_files d s \<Longrightarrow> same_files d (tick s)"
  by (simp add: same_files_def same_root_def)

lemma same_root_tick [simp, frame]: "same_root d s \<Longrightarrow> same_root d (tick s)"
  by (simp add: same_root_def)

lemma same_root_chunks [simp, frame]: "same_root d s \<Longrightarrow> same_root d (s\<lparr>hk_chunks := c\<rparr>)"
  by (simp add: same_root_def)

lemma files_attempt [frame]:
  "same_files d (snd r) \<Longrightarrow> (\<And>x s. same_files d s \<Longrightarrow> same_files d (snd (k x s)))
     \<Longrightarrow> same_files d (snd (attempt r k))"
  by (cases r; cases "fst r") auto

lemma root_attempt [frame]:
  "same_root d (snd r) \<Longrightarrow> (\<And>x s. same_root d s \<Longrightarrow> same_root d (snd (k x s)))
     \<Longrightarrow> same_root d (snd (attempt r k))"
  by (cases r; cases "fst r") auto

lemma fail_unless_snd [simp]: "snd (fail_unless b e d) = d"
  by (simp add: fail_unless_def)

lemma io_step_snd [simp]: "snd (io_step w d) = tick d"
  by (simp add: io_step_def)

lemmas unfold_steps =
  Let_def split_beta wall_now_def mono_now_def fresh_opaque_id_def random_prefix_def root_has_def

lemma collect_chunks_files [frame]: "same_files d s \<Longrightarrow> same_files d (snd (collect_chunks w es s))"
proof (induction es arbitrary: s)
  case (Cons e es)
  show ?case
    unfolding collect_chunks.simps Let_def split_beta
    by (intro files_attempt Cons.IH) (simp_all add: Cons.prems split: if_split)
qed simp

lemma history_chunk_paths_files [frame]:
  "same_files d s \<Longrightarrow> same_files d (snd (history_chunk_paths w s))"
  by (auto simp: history_chunk_paths_def unfold_steps intro!: frame)

lemma sum_sizes_files [frame]: "same_files d s \<Longrightarrow> same_files d (snd (sum_sizes w ns s))"
  by (induction ns arbitrary: s) (auto simp: unfold_steps)

lemma directory_bytes_files [frame]: "same_files d s \<Longrightarrow> same_files d (snd (directory_bytes w s))"
  using history_chunk_paths_files [of d s w] sum_sizes_files [of d _ w]
  by (auto simp: directory_bytes_def split: prod.split sum.split)

lemma read_bounded_files [frame]: "same_files d s \<Longrightarrow> same_files d (snd (read_bounded w n b s))"
  by (auto simp: read_bounded_def intro!: frame)

lemma within_quota_files [frame]: "same_files d s \<Longrightarrow> same_files d (snd (within_quota w n q s))"
  by (auto simp: within_quota_def unfold_steps intro!: frame)

lemma store_flush_files [frame]: "same_files d s \<Longrightarrow> same_files d (snd (store_flush w s))"
  by (auto simp: store_flush_def intro!: frame)

lemma read_chunks_files [frame]: "same_files d s \<Longrightarrow> same_files d (snd (read_chunks w q ns s))"
proof (induction ns arbitrary: s)
  case (Cons n ns)
  show ?case
    unfolding read_chunks.simps
    by (intro files_attempt Cons.IH read_bounded_files) (simp_all add: Cons.prems)
qed simp

lemma read_all_files [frame]: "same_files d s \<Longrightarrow> same_files d (snd (read_all w q s))"
  by (auto simp: read_all_def unfold_steps intro!: frame)

lemma read_events_files [frame]: "same_files d s \<Longrightarrow> same_files d (snd (read_events w st s))"
  by (auto simp: read_events_def intro!: frame)


section \<open>Steps that change chunks\<close>

lemma via_files: "same_files s s' \<Longrightarrow> same_root d s \<Longrightarrow> same_root d s'"
  by (meson same_files_root same_root_trans)

lemmas root_of_files [frame] =
  via_files [OF history_chunk_paths_files [OF same_files_refl]]
  via_files [OF directory_bytes_files [OF same_files_refl]]
  via_files [OF within_quota_files [OF same_files_refl]]
  via_files [OF store_flush_files [OF same_files_refl]]
  via_files [OF read_all_files [OF same_files_refl]]
  via_files [OF read_events_files [OF same_files_refl]]
  via_files [OF read_bounded_files [OF same_files_refl]]

lemma create_chunk_file_root [frame]: "same_root d s \<Longrightarrow> same_root d (snd (create_chunk_file w n s))"
  by (auto simp: create_chunk_file_def unfold_steps intro!: frame)

lemma write_chunk_root [frame]: "same_root d s \<Longrightarrow> same_root d (snd (write_chunk w n b s))"
  by (auto simp: write_chunk_def unfold_steps)

lemma remove_chunk_root [frame]: "same_root d s \<Longrightarrow> same_root d (snd (remove_chunk w n s))"
  by (auto simp: remove_chunk_def intro!: frame)

lemma remove_chunks_root [frame]: "same_root d s \<Longrightarrow> same_root d (snd (remove_chunks w ns s))"
  by (induction ns arbitrary: s) (auto intro!: frame)

lemma remove_history_files_root [frame]: "same_root d s \<Longrightarrow> same_root d (snd (remove_history_files w s))"
  by (auto simp: remove_history_files_def intro!: frame)

lemma prune_chunks_root [frame]: "same_root d s \<Longrightarrow> same_root d (snd (prune_chunks w r now k ns s))"
proof (induction ns arbitrary: s)
  case (Cons n ns)
  show ?case
  proof (cases "k = Some n")
    case True
    with Cons show ?thesis by simp
  next
    case False
    show ?thesis
      unfolding prune_chunks.simps if_not_P [OF False] Let_def
      using Cons.prems by (intro root_attempt) (auto intro: root_attempt Cons.IH remove_chunk_root)
  qed
qed simp

lemma prune_root [frame]: "same_root d s \<Longrightarrow> same_root d (snd (prune_expired_chunks_except w days k s))"
  by (auto simp: prune_expired_chunks_except_def unfold_steps intro!: frame)

lemma prune_all_root [frame]: "same_root d s \<Longrightarrow> same_root d (snd (prune_expired_chunks w days s))"
  by (simp add: prune_expired_chunks_def prune_root)

lemma store_append_root [frame]: "same_root d s \<Longrightarrow> same_root d (snd (snd (store_append w e st s)))"
  by (auto simp: store_append_def unfold_steps split: sum.split intro!: frame)

lemma rotate_chunk_root [frame]: "same_root d s \<Longrightarrow> same_root d (snd (snd (rotate_chunk w st s)))"
proof -
  assume s: "same_root d s"
  have a: "same_root d (snd (create_chunk_file w n (tick (tick s))))" for n
    using s by (auto intro!: frame)
  have b: "same_root d (snd (attempt (write_chunk w n bs x) (\<lambda>_. io_step w)))"
    if "same_root d x" for n bs x
    using that by (auto intro!: frame)
  show ?thesis
    using a b s by (auto simp: rotate_chunk_def unfold_steps split: sum.split prod.split; metis snd_conv same_root_tick)
qed

lemma checkpoint_root [frame]: "same_root d s \<Longrightarrow> same_root d (snd (snd (checkpoint_retention w days st s)))"
  by (auto simp: checkpoint_retention_def unfold_steps split: sum.split prod.split intro!: frame)

end
