(* ===== verification/HistoryStoreProps.thy ===== *)
theory HistoryStoreProps
  imports HistoryFrames
begin

text \<open>
  What the store guarantees: what is read back is ordered, valid and without repetition, whatever the
  files hold; and what is appended to a chunk is read back from it, in order.
\<close>

section \<open>Reading back\<close>

lemma open_item_valid: "open_item w h hb k n v = Some e \<Longrightarrow> valid_event e"
  by (cases v) (auto simp: open_item_def Let_def bind_eq_Some_conv split: if_splits)

lemma decode_items_valid: "decode_items w h hb k n bs = Some es \<Longrightarrow> e \<in> set es \<Longrightarrow> valid_event e"
proof (induction w h hb k n bs arbitrary: es rule: decode_items.induct)
  case (1 w h hb k n bs)
  show ?case
  proof (cases "bs = []")
    case True
    with 1 show ?thesis by (simp add: decode_items.simps)
  next
    case False
    with 1(2) obtain v j a rest where v: "hw_read_value w bs = Some (v, j)"
      "open_item w h hb k n v = Some a"
      "decode_items w h hb k (Suc n) (drop (max 1 j) bs) = Some rest" "es = a # rest"
      by (subst (asm) decode_items.simps) (auto split: option.splits)
    from 1(1) [OF False v(1) refl v(2) v(3)] open_item_valid [OF v(2)] v(4) 1(3)
    show ?thesis by auto
  qed
qed

lemma decode_chunk_valid: "decode_chunk w keys bs = Inr es \<Longrightarrow> e \<in> set es \<Longrightarrow> valid_event e"
  by (auto simp: decode_chunk_def decode_chunk_bytes_def dest: decode_items_valid
      split: option.splits sum.splits)

lemma read_chunks_valid: "read_chunks w q ns d = (Inr es, d') \<Longrightarrow> e \<in> set es \<Longrightarrow> valid_event e"
proof (induction ns arbitrary: d es)
  case (Cons n ns)
  then show ?case by (auto simp: attempt_ok dest: decode_chunk_valid)
qed simp

lemma first_of_each_subset: "set (first_of_each seen es) \<subseteq> set es"
  by (induction seen es rule: first_of_each.induct) auto

lemma sequences_increase_sorted:
  "sequences_increase es \<longleftrightarrow> sorted_wrt (<) (map he_sequence es)"
proof (induction es rule: sequences_increase.induct)
  case (1 a b es)
  then show ?case by (auto simp: order.strict_trans)
qed auto

lemma ordered_events_ok:
  assumes "ordered_events es = Inr out"
  shows "set out \<subseteq> set es" "sorted_wrt (<) (map he_sequence out)" "\<forall>e\<in>set out. he_sequence e \<noteq> 0"
  using assms first_of_each_subset [of "{}" "sort_key event_key es"]
  by (auto simp: ordered_events_def Let_def sequences_increase_sorted list_ex_iff split: if_splits)

lemma read_all_sound:
  assumes "read_all w quota d = (Inr es, d')"
  shows "(\<forall>e\<in>set es. valid_event e) \<and> sorted_wrt (<) (map he_sequence es) \<and> distinct es
    \<and> (\<forall>e\<in>set es. 0 < he_sequence e)"
proof -
  from assms obtain ns read where r: "read_chunks w quota ns (snd (history_chunk_paths w (snd (directory_bytes w d)))) = (Inr read, d')"
    and o: "ordered_events read = Inr es"
    by (fastforce simp: read_all_def split_beta attempt_ok)
  have v: "\<forall>e\<in>set es. valid_event e"
    using ordered_events_ok(1) [OF o] read_chunks_valid [OF r] by blast
  have s: "sorted_wrt (<) (map he_sequence es)" by (rule ordered_events_ok(2) [OF o])
  then have "distinct (map he_sequence es)" by (simp add: strict_sorted_iff)
  with v s ordered_events_ok(3) [OF o] show ?thesis
    by (auto simp: distinct_map word_gt_0)
qed

text \<open>What \<open>read_all\<close> answers, whatever bytes the chunks hold: every event passed validation,
  the sequence numbers increase strictly and start above zero, and so no event occurs twice.\<close>

theorem reading_is_ordered_and_valid:
  assumes "read_all w quota d = (Inr es, d')"
  shows "(\<forall>e\<in>set es. valid_event e) \<and> sorted_wrt (<) (map he_sequence es) \<and> distinct es
    \<and> (\<forall>e\<in>set es. 0 < he_sequence e)"
  by (rule read_all_sound [OF assms])

section \<open>Appending\<close>

lemma be_digits:
  "foldl (\<lambda>a i. a * 256 + n div 256 ^ i mod 256) a0 (rev [0..<k]) = a0 * 256 ^ k + n mod (256 ^ k :: nat)"
proof (induction k arbitrary: a0)
  case (Suc k)
  have "n mod (256 ^ k * 256) = 256 ^ k * (n div 256 ^ k mod 256) + n mod 256 ^ k"
    by (rule mod_mult2_eq)
  with Suc show ?case by (simp add: algebra_simps)
qed simp

lemma from_be_bytes_of_be_bytes:
  assumes "n \<le> max_u64" shows "from_be_bytes (be_bytes n) = n"
proof -
  have "from_be_bytes (be_bytes n) = foldl (\<lambda>a i. a * 256 + n div 256 ^ i mod 256) 0 (rev [0..<8])"
    by (simp add: from_be_bytes_def be_bytes_def foldl_map byte_of_def)
  also have "\<dots> = n mod 256 ^ 8" by (simp add: be_digits)
  also have "\<dots> = n" using assms by (simp add: max_u64_def)
  finally show ?thesis .
qed

lemma be_bytes_length [simp]: "length (be_bytes n) = 8"
  by (simp add: be_bytes_def)

lemma chunk_bytes_same: "same_files d d' \<Longrightarrow> chunk_bytes d' n = chunk_bytes d n"
  by (simp add: same_files_def chunk_bytes_def)

lemma write_chunk_ok:
  assumes "write_chunk w f bs d = (Inr u, d')"
  shows "chunk_bytes d' n = (if n = f then chunk_bytes d f @ bs else chunk_bytes d n)"
  using assms by (auto simp: write_chunk_def wall_now_def Let_def chunk_bytes_def split: if_splits)

lemma within_quota_chunks: "within_quota w x q d = (r, d') \<Longrightarrow> chunk_bytes d' n = chunk_bytes d n"
  using within_quota_files [of d d w x q] chunk_bytes_same [of d d'] by simp

lemma store_append_ok:
  assumes "store_append w e st d = (Inr u, st', d')"
  obtains k item where "valid_event e" "derive_chunk_key w (st_key st) (st_header st) = Inr k"
    "st_next_nonce st \<noteq> max_u64" "seal_event w st k e = Inr item"
    "st' = st\<lparr>st_next_nonce := Suc (st_next_nonce st)\<rparr>"
    "\<And>n. chunk_bytes d' n = (if n = st_file st then chunk_bytes d n @ item else chunk_bytes d n)"
proof -
  obtain used d1 where b: "directory_bytes w d = (used, d1)" by fastforce
  then have f: "\<And>n. chunk_bytes d1 n = chunk_bytes d n"
    using directory_bytes_files [of d d w] chunk_bytes_same by auto
  from assms b obtain k item r where a: "valid_event e" "derive_chunk_key w (st_key st) (st_header st) = Inr k"
    "st_next_nonce st \<noteq> max_u64" "seal_event w st k e = Inr item"
    and st: "st' = st\<lparr>st_next_nonce := Suc (st_next_nonce st)\<rparr>"
    and r: "attempt (within_quota w (length item) (st_quota st) d1) (\<lambda>_ d. write_chunk w (st_file st) item d)
            = (Inr u, d')"
    by (auto simp: store_append_def Let_def split_beta split: sum.splits if_splits)
       (metis prod.collapse)
  from r obtain d2 where q: "within_quota w (length item) (st_quota st) d1 = (Inr (), d2)"
    and wr: "write_chunk w (st_file st) item d2 = (Inr u, d')"
    by (auto simp: attempt_ok)
  have "chunk_bytes d' n = (if n = st_file st then chunk_bytes d n @ item else chunk_bytes d n)" for n
    using write_chunk_ok [OF wr, of n] within_quota_chunks [OF q] f by simp
  from that [OF a st this] show ?thesis by blast
qed

text \<open>The items of a chunk that holds some events, sealed with counters from \<open>n\<close> on.\<close>

fun sealed_items ::
    "'k history_world \<Rightarrow> history_store \<Rightarrow> string \<Rightarrow> nat \<Rightarrow> history_event list \<Rightarrow> string option" where
  "sealed_items w st k n [] = Some []"
| "sealed_items w st k n (e # es) =
     (case (seal_event w (st\<lparr>st_next_nonce := n\<rparr>) k e, sealed_items w st k (Suc n) es) of
        (Inr item, Some rest) \<Rightarrow> Some (item @ rest)
      | _ \<Rightarrow> None)"

definition chunk_holds ::
    "'k history_world \<Rightarrow> history_store \<Rightarrow> history_event list \<Rightarrow> string \<Rightarrow> bool" where
  "chunk_holds w st es bs =
     (\<exists>k body. (es \<noteq> [] \<longrightarrow> derive_chunk_key w (st_key st) (st_header st) = Inr k)
        \<and> sealed_items w st k 0 es = Some body
        \<and> bs = st_header_bytes st @ body \<and> st_next_nonce st = length es \<and> length es \<le> max_u64
        \<and> (\<forall>e\<in>set es. valid_event e))"

lemma sealed_items_append:
  "sealed_items w st k n (es @ [e]) =
     (case (sealed_items w st k n es, seal_event w (st\<lparr>st_next_nonce := n + length es\<rparr>) k e) of
        (Some body, Inr item) \<Rightarrow> Some (body @ item)
      | _ \<Rightarrow> None)"
  by (induction es arbitrary: n) (auto split: option.splits sum.splits)

lemma sealed_items_counter [simp]:
  "sealed_items w (st\<lparr>st_next_nonce := m\<rparr>) k n es = sealed_items w st k n es"
  by (induction es arbitrary: n) auto

lemma append_keeps_chunk:
  assumes "store_append w e st d = (Inr u, st', d')" and "chunk_holds w st es (chunk_bytes d (st_file st))"
  shows "chunk_holds w st' (es @ [e]) (chunk_bytes d' (st_file st'))" and "st_file st' = st_file st"
    and "st_header st' = st_header st" and "st_header_bytes st' = st_header_bytes st" and "st_key st' = st_key st"
proof -
  from assms(1) obtain k item where a: "valid_event e" "derive_chunk_key w (st_key st) (st_header st) = Inr k"
    "st_next_nonce st \<noteq> max_u64" "seal_event w st k e = Inr item"
    and st: "st' = st\<lparr>st_next_nonce := Suc (st_next_nonce st)\<rparr>"
    and bs: "\<And>n. chunk_bytes d' n = (if n = st_file st then chunk_bytes d n @ item else chunk_bytes d n)"
    by (rule store_append_ok) blast
  from assms(2) a(2) obtain body where h: "sealed_items w st k 0 es = Some body"
    "chunk_bytes d (st_file st) = st_header_bytes st @ body" "st_next_nonce st = length es"
    "length es \<le> max_u64" "\<forall>e\<in>set es. valid_event e"
    by (cases "es = []") (auto simp: chunk_holds_def)
  have "sealed_items w st k 0 (es @ [e]) = Some (body @ item)"
    using h a(4) by (simp add: sealed_items_append h(3) [symmetric])
  then show "chunk_holds w st' (es @ [e]) (chunk_bytes d' (st_file st'))"
    using h a bs st by (auto simp: chunk_holds_def)
qed (use assms(1) in \<open>auto elim!: store_append_ok\<close>)



section \<open>What is appended is read back\<close>

text \<open>What the code relies on of the libraries, for the header of one chunk and the events in it: an
  encoding reads back and says where it ends, and an opened seal is what was sealed.\<close>

definition sealed_cose :: "string \<Rightarrow> string \<Rightarrow> cose_encrypt0" where
  "sealed_cose nonce c =
     \<lparr>ce_protected = protected_header, ce_unprotected = empty_cose_header\<lparr>ch_iv := nonce\<rparr>,
      ce_ciphertext = Some c\<rparr>"

definition codec_laws :: "'k history_world \<Rightarrow> chunk_header \<Rightarrow> history_event list \<Rightarrow> bool" where
  "codec_laws w h es =
     ((\<forall>rest. hw_read_header w (hw_header_bytes w h @ rest) = Some (h, length (hw_header_bytes w h)))
      \<and> (\<forall>e\<in>set es. hw_read_event w (hw_event_bytes w e) = Some e
          \<and> (\<forall>k nonce aad c. length nonce = 12 \<and> hw_seal w k nonce aad (hw_event_bytes w e) = Some c \<longrightarrow>
               hw_open w k nonce aad c = Some (hw_event_bytes w e)
               \<and> hw_cose_bytes w (sealed_cose nonce c) \<noteq> []
               \<and> (\<forall>rest. \<exists>body.
                    hw_read_value w (hw_cose_bytes w (sealed_cose nonce c) @ rest)
                      = Some (CborTag COSE_ENCRYPT0_TAG body, length (hw_cose_bytes w (sealed_cose nonce c)))
                    \<and> hw_read_cose w body = Some (sealed_cose nonce c)))))"

lemma sealed_headers_ok: "length nonce = 12 \<Longrightarrow> cose_headers_ok (sealed_cose nonce c)"
  by (simp add: cose_headers_ok_def sealed_cose_def protected_header_def empty_cose_header_def bare_def)

lemma open_sealed:
  assumes l: "codec_laws w (st_header st) es" and e: "e \<in> set es" "valid_event e"
    and s: "seal_event w (st\<lparr>st_next_nonce := n\<rparr>) k e = Inr item"
    and p: "length (hdr_prefix (st_header st)) = 4" and n: "n < max_u64"
  obtains v where "item \<noteq> []" "\<And>rest. \<exists>v. hw_read_value w (item @ rest) = Some (v, length item)
      \<and> open_item w (st_header st) (st_header_bytes st) k n v = Some e"
proof -
  define nonce where "nonce = hdr_prefix (st_header st) @ be_bytes n"
  have nl: "length nonce = 12" using p by (simp add: nonce_def)
  from s obtain c where c: "hw_seal w k nonce (hw_aad w protected_header (st_header_bytes st))
      (hw_event_bytes w e) = Some c" and item: "item = hw_cose_bytes w (sealed_cose nonce c)"
    by (auto simp: seal_event_def nonce_def sealed_cose_def Let_def split: option.splits)
  have fields: "ch_iv (ce_unprotected (sealed_cose nonce c)) = nonce"
    "ce_ciphertext (sealed_cose nonce c) = Some c" "ce_protected (sealed_cose nonce c) = protected_header"
    by (simp_all add: sealed_cose_def)
  have law: "hw_read_event w (hw_event_bytes w e) = Some e"
    "hw_open w k nonce (hw_aad w protected_header (st_header_bytes st)) c = Some (hw_event_bytes w e)"
    "item \<noteq> []"
    "\<And>rest. \<exists>body. hw_read_value w (item @ rest) = Some (CborTag COSE_ENCRYPT0_TAG body, length item)
                    \<and> hw_read_cose w body = Some (sealed_cose nonce c)"
    using l e(1) c nl unfolding codec_laws_def item by blast+
  have counter: "take 4 nonce = hdr_prefix (st_header st)" "from_be_bytes (drop 4 nonce) = n"
    using p n by (simp_all add: nonce_def from_be_bytes_of_be_bytes)
  have "open_item w (st_header st) (st_header_bytes st) k n (CborTag COSE_ENCRYPT0_TAG body) = Some e"
    if "hw_read_cose w body = Some (sealed_cose nonce c)" for body
    using that law(1,2) counter n e(2) nl
    by (simp add: open_item_def Let_def fields sealed_headers_ok)
  with law(3,4) show ?thesis using that by blast
qed

lemma decode_sealed:
  assumes "codec_laws w (st_header st) all" and "set es \<subseteq> set all" and "\<forall>e\<in>set es. valid_event e"
    and "length (hdr_prefix (st_header st)) = 4" and "n + length es \<le> max_u64"
    and "sealed_items w st k n es = Some body"
  shows "decode_items w (st_header st) (st_header_bytes st) k n body = Some es"
  using assms(2,3,5,6)
proof (induction es arbitrary: n body)
  case Nil
  then show ?case by (simp add: decode_items.simps)
next
  case (Cons e es)
  then obtain item rest where i: "seal_event w (st\<lparr>st_next_nonce := n\<rparr>) k e = Inr item"
    "sealed_items w st k (Suc n) es = Some rest" "body = item @ rest"
    by (auto split: sum.splits option.splits)
  have "n < max_u64" using Cons.prems(3) by simp
  with open_sealed [OF assms(1) _ _ i(1) assms(4)] Cons.prems
  have ne: "item \<noteq> []" and "\<exists>v. hw_read_value w (item @ rest) = Some (v, length item)
      \<and> open_item w (st_header st) (st_header_bytes st) k n v = Some e"
    by (metis list.set_intros(1) subsetD)+
  then obtain v where v: "hw_read_value w (item @ rest) = Some (v, length item)"
    "open_item w (st_header st) (st_header_bytes st) k n v = Some e" by blast
  have "max 1 (length item) = length item" using ne by (cases item) auto
  moreover have "decode_items w (st_header st) (st_header_bytes st) k (Suc n) rest = Some es"
    using Cons.IH [OF _ _ _ i(2)] Cons.prems by simp
  ultimately show ?case
    using v ne i(3) by (subst decode_items.simps) simp
qed

fun append_events ::
    "'k history_world \<Rightarrow> history_event list \<Rightarrow> history_store \<Rightarrow> 'k history_disk
       \<Rightarrow> (history_health + unit) \<times> history_store \<times> 'k history_disk" where
  "append_events w [] st d = (Inr (), st, d)"
| "append_events w (e # es) st d =
     (case store_append w e st d of
        (Inl err, st, d) \<Rightarrow> (Inl err, st, d)
      | (Inr _, st, d) \<Rightarrow> append_events w es st d)"

lemma append_events_keep:
  assumes "append_events w es st d = (Inr u, st', d')" and "chunk_holds w st done (chunk_bytes d (st_file st))"
  shows "chunk_holds w st' (done @ es) (chunk_bytes d' (st_file st))
    \<and> st_header st' = st_header st \<and> st_header_bytes st' = st_header_bytes st \<and> st_key st' = st_key st"
  using assms
proof (induction es arbitrary: st d "done")
  case (Cons e es)
  then obtain st1 d1 v where a: "store_append w e st d = (Inr v, st1, d1)"
    and r: "append_events w es st1 d1 = (Inr u, st', d')"
    by (auto split: prod.splits sum.splits)
  from Cons.IH [OF r append_keeps_chunk(1) [OF a Cons.prems(2)]] append_keeps_chunk(2-5) [OF a Cons.prems(2)]
  show ?case by simp
qed simp

lemma create_chunk_empty:
  assumes "create_with_lease w stream quota d = (Inr st, d')"
  shows "chunk_holds w st [] (chunk_bytes d' (st_file st))"
    and "st_header_bytes st = hw_header_bytes w (st_header st)"
    and "\<exists>n. hw_random w n = Some (hdr_prefix (st_header st))"
proof -
  from assms obtain hb d1 d2 d3 u where
    f: "create_chunk_file w (st_file st) d1 = (Inr u, d2)"
    and wr: "write_chunk w (st_file st) hb d2 = (Inr (), d3)"
    and d': "d' = tick (tick d3)" and hb: "st_header_bytes st = hb" "st_next_nonce st = 0"
    "hb = hw_header_bytes w (st_header st)" and r: "\<exists>n. hw_random w n = Some (hdr_prefix (st_header st))"
    by (auto simp: create_with_lease_def drop_on_error_def attempt_ok Let_def split_beta unfold_steps
        split: sum.splits option.splits) (use io_step_snd in \<open>metis snd_conv\<close>)
  have "chunk_bytes d2 (st_file st) = []"
    using f by (auto simp: create_chunk_file_def attempt_ok wall_now_def Let_def chunk_bytes_def)
  with write_chunk_ok [OF wr, of "st_file st"] d' have "chunk_bytes d' (st_file st) = hb"
    by (simp add: chunk_bytes_def)
  with hb show "chunk_holds w st [] (chunk_bytes d' (st_file st))"
    by (auto simp: chunk_holds_def)
  show "st_header_bytes st = hw_header_bytes w (st_header st)" using hb by simp
  show "\<exists>n. hw_random w n = Some (hdr_prefix (st_header st))" by (rule r)
qed




section \<open>A concrete world\<close>

text \<open>A world in which nothing fails and clocks stand still: a sealed event is its sequence number in
  one byte, an item is its nonce and that byte. The witnesses of the history run in it.\<close>

definition demo_id :: string where "demo_id = replicate 32 (CHR ''0'')"

definition demo_event_id :: "u64 \<Rightarrow> string" where
  "demo_event_id n = hex_128 (replicate 15 0 @ [unat n mod 256])"

definition demo_event :: "u64 \<Rightarrow> history_event" where
  "demo_event n = set_sequence n
     \<lparr>he_specversion = ''1.0'', he_id = demo_event_id n, he_source = SOURCE_PREFIX @ demo_id,
      he_type = STARTED_EVENT, he_subject = ''action'', he_time = ''now'',
      he_datacontenttype = ''application/json'', he_dataschema = HISTORY_SCHEMA_URN,
      he_data = \<lparr>hd_session_id = None, hd_action_id = Some demo_id, hd_sequence = 1,
        hd_platform = ''linux'', hd_process_model = ''in_daemon'', hd_capability = None,
        hd_caller_category = ''cua_runtime'', hd_application = None, hd_payload = ActionStarted\<rparr>\<rparr>"

definition demo_header :: chunk_header where
  "demo_header =
     \<lparr>hdr_version = 1, hdr_algorithm = CHACHA20_POLY1305, hdr_epoch = 1, hdr_key_reference = ''key'',
      hdr_stream = ''stream'', hdr_chunk = demo_id, hdr_prefix = ''pppp''\<rparr>"

definition demo_key :: history_key where
  "demo_key = \<lparr>key_reference = ''key'', key_epoch = 1, key_bytes = replicate 32 (CHR ''k'')\<rparr>"

text \<open>The state of the key provider is whether the key exists.\<close>

definition demo_world :: "bool history_world" where
  "demo_world =
     \<lparr>hw_absolute = True, hw_ancestors = (\<lambda>_. []), hw_io_ok = (\<lambda>_. True), hw_torn = (\<lambda>_. 0),
      hw_wall = (\<lambda>_. 0), hw_mono = (\<lambda>_. 0), hw_uuid = (\<lambda>_. []), hw_random = (\<lambda>_. Some ''pppp''),
      hw_late = (\<lambda>_. None), hw_sha256 = (\<lambda>_. replicate 32 0), hw_hmac = (\<lambda>_ _. replicate 32 0),
      hw_hkdf = (\<lambda>_ k _. Some k), hw_seal = (\<lambda>_ _ _ p. Some p), hw_open = (\<lambda>_ _ _ c. Some c),
      hw_aad = (\<lambda>_ a. a), hw_header_bytes = (\<lambda>_. ''H''), hw_read_header = (\<lambda>_. Some (demo_header, 1)),
      hw_read_value = (\<lambda>b. Some (CborTag COSE_ENCRYPT0_TAG (take 13 b), 13)),
      hw_cose_bytes = (\<lambda>c. ch_iv (ce_unprotected c) @ (case ce_ciphertext c of None \<Rightarrow> [] | Some b \<Rightarrow> b)),
      hw_read_cose = (\<lambda>b. Some (sealed_cose (take 12 b) (drop 12 b))),
      hw_event_bytes = (\<lambda>e. [char_of (unat (he_sequence e))]),
      hw_read_event = (\<lambda>b. Some (demo_event (of_nat (byte_of (hd b))))),
      hw_state_bytes = (\<lambda>v. [if fst v then CHR ''e'' else CHR ''d'', if snd v then CHR ''p'' else CHR ''r'']),
      hw_read_state = (\<lambda>b. Some (hd b = CHR ''e'', hd (tl b) = CHR ''p'')), hw_rfc3339 = (\<lambda>_. ''now''), hw_parse_time = (\<lambda>_. Some 0),
      hw_create_key = (\<lambda>_. (Inr demo_key, True)),
      hw_load_key = (\<lambda>k _. if k then Inr demo_key else Inl KeyUnavailable),
      hw_references = (\<lambda>k. Inr (if k then [''key''] else [])), hw_destroy_key = (\<lambda>_ _. (Inr (), False)),
      hw_resolve = None\<rparr>"

definition demo_disk :: "bool history_disk" where
  "demo_disk =
     \<lparr>hk_root = None, hk_entries = [], hk_chunks = [], hk_locked = False, hk_keys = False, hk_tick = 0\<rparr>"

lemma demo_fields [simp]:
  "hw_absolute demo_world" "hw_ancestors demo_world n = []" "hw_io_ok demo_world n"
  "hw_wall demo_world n = 0" "hw_mono demo_world n = 0" "hw_uuid demo_world n = []"
  "hw_random demo_world n = Some ''pppp''" "hw_late demo_world n = None"
  "hw_sha256 demo_world s = replicate 32 0" "hw_hmac demo_world s v = replicate 32 0"
  "hw_hkdf demo_world s k i = Some k" "hw_seal demo_world k i a p = Some p"
  "hw_open demo_world k i a p = Some p" "hw_aad demo_world h a = a"
  "hw_header_bytes demo_world ch = ''H''" "hw_read_header demo_world b = Some (demo_header, 1)"
  "hw_rfc3339 demo_world n = ''now''" "hw_parse_time demo_world s = Some 0"
  "hw_create_key demo_world b0 = (Inr demo_key, True)"
  "hw_load_key demo_world True s = Inr demo_key"
  "hw_references demo_world b0 = Inr (if b0 then [''key''] else [])"
  "hw_destroy_key demo_world b0 s = (Inr (), False)" "hw_resolve demo_world = None"
  "hw_cose_bytes demo_world (sealed_cose i c) = i @ c"
  "hw_event_bytes demo_world e = [char_of (unat (he_sequence e))]"
  by (simp_all add: demo_world_def sealed_cose_def)

lemma demo_io [simp]: "io_step demo_world d = (Inr (), tick d)"
  by (simp add: io_step_def)

lemma demo_id_hex: "hex_id demo_id"
  unfolding demo_id_def by code_simp

lemma demo_event_id_hex: "decode_hex_128 (demo_event_id n) = Some (replicate 15 0 @ [unat n mod 256])"
  unfolding demo_event_id_def by (rule hex_128_decodes) (simp_all add: list_all_iff)

lemma demo_event_valid: "n \<noteq> 0 \<Longrightarrow> valid_event (demo_event n)"
  using demo_id_hex demo_event_id_hex [of n]
  by (simp add: demo_event_def valid_event_iff set_sequence_def envelope_ok_def event_data_ok_def
      strip_prefix_def is_none_or_def ALLOWED_TYPES_def valid_payload_for_event_def)

lemma demo_sequence [simp]: "he_sequence (demo_event n) = n"
  by (simp add: demo_event_def set_sequence_def)

lemma demo_laws: "codec_laws demo_world demo_header [demo_event 1, demo_event 2]"
  by (auto simp: codec_laws_def demo_world_def sealed_cose_def byte_of_def)


definition demo_store :: history_store where
  "demo_store =
     \<lparr>st_path = demo_id @ ''.cborseq'', st_file = demo_id @ ''.cborseq'', st_header = demo_header,
      st_header_bytes = ''H'', st_key = replicate 32 (CHR ''k''), st_next_nonce = 0, st_quota = 1000,
      st_created = 0\<rparr>"

lemma demo_opaque [simp]: "opaque_id (hw_sha256 demo_world) v = demo_id"
proof -
  have z: "digit_char 0 = CHR ''0''" by code_simp
  have "hex_128 (replicate n 0) = replicate (2 * n) (CHR ''0'')" for n
    by (induction n) (simp_all add: hex_128_def hex_byte_def z)
  from this [of 16] show ?thesis by (simp add: opaque_id_def demo_id_def)
qed

lemmas disk_steps =
  fail_unless_def fresh_opaque_id_def random_prefix_def Let_def split_beta within_quota_def
  directory_bytes_def history_chunk_paths_def root_has_def create_chunk_file_def write_chunk_def
  wall_now_def mono_now_def tick_def kv_has_def chunk_bytes_def saturating_add_def max_u64_def
  drop_on_error_def

lemma demo_chunk_name: "is_chunk_name (demo_id @ ''.cborseq'')" "is_chunk_name (chunk_file_name demo_id)"
  by (simp_all add: is_chunk_name_def ends_with_def demo_id_def chunk_file_name_def suffix_def)

lemma demo_derive: "derive_chunk_key demo_world (st_key demo_store) demo_header = Inr (st_key demo_store)"
  using demo_id_hex by (auto simp: derive_chunk_key_def demo_store_def demo_header_def)

text \<open>The disk with one chunk.\<close>

definition demo_chunk_disk :: "string \<Rightarrow> nat \<Rightarrow> bool history_disk" where
  "demo_chunk_disk b n =
     demo_disk\<lparr>hk_root := Some FsDirectory, hk_entries := [(''chunks'', FsDirectory)],
       hk_chunks := [(demo_id @ ''.cborseq'', FsFile b 0)], hk_keys := True, hk_tick := n\<rparr>"

lemma demo_create:
  "\<exists>n. create_with_lease demo_world ''stream'' 1000 demo_disk = (Inr demo_store, demo_chunk_disk ''H'' n)"
  by (simp add: create_with_lease_def create_root_def create_chunks_dir_def disk_steps demo_key_def
      demo_disk_def demo_chunk_disk_def demo_store_def demo_header_def chunk_file_name_def)

definition demo_item :: "nat \<Rightarrow> u64 \<Rightarrow> string" where
  "demo_item n k = ''pppp'' @ be_bytes n @ [char_of (unat k)]"

lemma demo_append:
  assumes "k \<noteq> 0" "length b \<le> 100" "n < 10"
  shows "\<exists>j. store_append demo_world (demo_event k) (demo_store\<lparr>st_next_nonce := n\<rparr>) (demo_chunk_disk b t) =
     (Inr (), demo_store\<lparr>st_next_nonce := Suc n\<rparr>, demo_chunk_disk (b @ demo_item n k) j)"
  using demo_event_valid [OF assms(1)] assms(2,3) demo_derive
  by (simp add: store_append_def disk_steps seal_event_def sealed_cose_def [symmetric] demo_store_def
      demo_chunk_disk_def demo_disk_def demo_header_def demo_chunk_name demo_item_def)

definition demo_bytes :: string where
  "demo_bytes = (''H'' @ demo_item 0 1) @ demo_item 1 2"

lemma demo_appends:
  "\<exists>j. append_events demo_world [demo_event 1, demo_event 2] demo_store (demo_chunk_disk ''H'' n) =
     (Inr (), demo_store\<lparr>st_next_nonce := 2\<rparr>, demo_chunk_disk demo_bytes j)"
proof -
  have s: "demo_store = demo_store\<lparr>st_next_nonce := 0\<rparr>" by (simp add: demo_store_def)
  obtain i where 1: "store_append demo_world (demo_event 1) demo_store (demo_chunk_disk ''H'' n) =
      (Inr (), demo_store\<lparr>st_next_nonce := Suc 0\<rparr>, demo_chunk_disk (''H'' @ demo_item 0 1) i)"
    using demo_append [of 1 "''H''" 0 n] s by auto
  obtain j where 2: "store_append demo_world (demo_event 2) (demo_store\<lparr>st_next_nonce := Suc 0\<rparr>)
      (demo_chunk_disk (''H'' @ demo_item 0 1) i) =
      (Inr (), demo_store\<lparr>st_next_nonce := Suc (Suc 0)\<rparr>, demo_chunk_disk demo_bytes j)"
    using demo_append [of 2 "''H'' @ demo_item 0 1" 1 i] by (auto simp: demo_bytes_def demo_item_def)
  have "append_events demo_world [demo_event 1, demo_event 2] demo_store (demo_chunk_disk ''H'' n) =
     (Inr (), demo_store\<lparr>st_next_nonce := 2\<rparr>, demo_chunk_disk demo_bytes j)"
    unfolding append_events.simps 1 prod.case sum.case 2 by (simp add: numeral_2_eq_2)
  then show ?thesis by blast
qed

lemma demo_chunk_bytes: "chunk_bytes (demo_chunk_disk b n) (st_file demo_store) = b"
  by (simp add: chunk_bytes_def demo_chunk_disk_def demo_store_def)

lemma demo_keys: "hk_keys (demo_chunk_disk b n) = True"
  by (simp add: demo_chunk_disk_def)

lemma demo_header_ok: "st_header demo_store = demo_header" "validate_header demo_header = Inr ()"
  by (simp_all add: demo_store_def validate_header_def demo_header_def demo_id_def)

lemma demo_prefix: "length (hdr_prefix demo_header) = 4"
  by (simp add: demo_header_def)


lemma demo_decodes: "decode_chunk demo_world True demo_bytes = Inr [demo_event 1, demo_event 2]"
proof -
  have i: "seal_event demo_world (demo_store\<lparr>st_next_nonce := n\<rparr>) k (demo_event e) = Inr (demo_item n e)" for n k e
    by (simp add: seal_event_def sealed_cose_def [symmetric] demo_store_def demo_header_def demo_item_def)
  have "sealed_items demo_world demo_store (st_key demo_store) 0 [demo_event 1, demo_event 2] =
      Some (demo_item 0 1 @ demo_item 1 2)"
    by (simp add: i)
  then have "decode_items demo_world (st_header demo_store) (st_header_bytes demo_store) (st_key demo_store) 0
      (demo_item 0 1 @ demo_item 1 2) = Some [demo_event 1, demo_event 2]"
    by (intro decode_sealed [where all = "[demo_event 1, demo_event 2]"])
       (auto simp: demo_header_ok demo_laws demo_event_valid max_u64_def demo_prefix)
  then have "decode_items demo_world demo_header ''H'' (st_key demo_store) 0 (demo_item 0 1 @ demo_item 1 2) =
      Some [demo_event 1, demo_event 2]"
    by (simp only: demo_header_ok) (simp add: demo_store_def)
  then show ?thesis
    using demo_derive by (simp add: decode_chunk_def decode_chunk_bytes_def demo_header_ok demo_bytes_def
        demo_key_def demo_store_def)
qed

lemma demo_ordered: "ordered_events [demo_event 1, demo_event 2] = Inr [demo_event 1, demo_event 2]"
proof -
  have "demo_event_id 1 \<noteq> demo_event_id 2"
    using demo_event_id_hex [of 1] demo_event_id_hex [of 2] by auto
  then have "he_id (demo_event 1) \<noteq> he_id (demo_event 2)"
    by (simp add: demo_event_def set_sequence_def)
  moreover have "event_key (demo_event 1) \<le> event_key (demo_event 2)"
    by (simp add: event_key_def less_eq_prod_def)
  ultimately show ?thesis by (simp add: ordered_events_def Let_def)
qed

lemma reading_is_ordered_and_valid_witness:
  "\<exists>d. read_all demo_world 1000 (demo_chunk_disk demo_bytes 0) = (Inr [demo_event 1, demo_event 2], d)
     \<and> distinct [demo_event 1, demo_event 2]"
proof -
  obtain d where r: "read_all demo_world 1000 (demo_chunk_disk demo_bytes 0) = (Inr [demo_event 1, demo_event 2], d)"
    using demo_decodes demo_ordered
    by (simp add: read_all_def disk_steps demo_chunk_disk_def demo_disk_def demo_chunk_name read_bounded_def demo_bytes_def demo_item_def)
  from reading_is_ordered_and_valid [OF r] r show ?thesis by blast
qed

end
