(* ===== verification/HistoryWriter.thy ===== *)
theory HistoryWriter
  imports HistoryStoreProps
begin

text \<open>
  What a turn of the writer changes: it takes the first message off the queue, works on the chunks and
  never on the files of the root, the keys, the lease or the flags of the manager (\<open>same_base\<close>).
  A reply \<open>Ok\<close> to a flush means the event queued before it was appended.
\<close>

definition same_base :: "'k history_manager \<Rightarrow> 'k history_manager \<Rightarrow> bool" where
  "same_base m m' =
     (same_root (hm_disk m) (hm_disk m') \<and> hm_enabled m' = hm_enabled m \<and> hm_paused m' = hm_paused m
      \<and> hm_session_key m' = hm_session_key m \<and> hm_next m' = hm_next m)"

lemma same_base_refl [simp]: "same_base m m"
  by (simp add: same_base_def)

lemma same_base_trans [trans]: "same_base a b \<Longrightarrow> same_base b c \<Longrightarrow> same_base a c"
  by (auto simp: same_base_def intro: same_root_trans)

definition wqueue :: "'k history_manager \<Rightarrow> writer_message list" where
  "wqueue m = (case hm_writer m of None \<Rightarrow> [] | Some wr \<Rightarrow> wr_queue wr)"

lemma queue_length_wqueue: "queue_length m = length (wqueue m)"
  by (simp add: queue_length_def wqueue_def split: option.split)

lemma record_drop_fields [simp]:
  "hm_disk (record_drop m) = hm_disk m" "hm_enabled (record_drop m) = hm_enabled m"
  "hm_paused (record_drop m) = hm_paused m" "hm_session_key (record_drop m) = hm_session_key m"
  "hm_next (record_drop m) = hm_next m" "hm_writer (record_drop m) = hm_writer m"
  "hm_health (record_drop m) = hm_health m"
  by (simp_all add: record_drop_def)

lemma writer_poisoned_fields [simp]:
  "hm_disk (writer_poisoned err wr m) = hm_disk m" "hm_enabled (writer_poisoned err wr m) = hm_enabled m"
  "hm_paused (writer_poisoned err wr m) = hm_paused m"
  "hm_session_key (writer_poisoned err wr m) = hm_session_key m"
  "hm_next (writer_poisoned err wr m) = hm_next m"
  "hm_writer (writer_poisoned err wr m) = Some (wr\<lparr>wr_terminal := Some err\<rparr>)"
  by (simp_all add: writer_poisoned_def)

text \<open>A turn with an event, read as: maintenance, then the append, each ending in success or in a
  poisoned writer.\<close>

lemma handle_event_cases:
  obtains (dropped) "wr_terminal wr \<noteq> None" "handle_event w cfg e pid win wr m = record_drop (m\<lparr>hm_writer := Some wr\<rparr>)"
  | (poisoned) err wr' d where "wr_terminal wr = None" "same_root (hm_disk m) d" "wr_queue wr' = wr_queue wr"
      "handle_event w cfg e pid win wr m = writer_poisoned err wr' (m\<lparr>hm_disk := d\<rparr>)"
  | (appended) st d st' d' wr' where "wr_terminal wr = None" "same_root (hm_disk m) d'"
      "store_append w (identified w pid win e) st d = (Inr (), st', d')"
      "wr_queue wr' = wr_queue wr" "wr_store wr' = st'" "wr_terminal wr' = None"
      "handle_event w cfg e pid win wr m = m\<lparr>hm_disk := d', hm_writer := Some wr'\<rparr>"
proof (cases "wr_terminal wr")
  case (Some x)
  then show ?thesis using dropped by (simp add: handle_event_def)
next
  case None
  define now where "now = hw_mono w (hk_tick (hm_disk m))"
  define due where "due = (hc_retention_days cfg = 0
                    \<or> CHUNK_ROTATION_INTERVAL \<le> now - st_created (wr_store wr)
                    \<or> WRITER_MAINTENANCE_INTERVAL \<le> now - wr_maintained wr)"
  obtain r st d where c: "(if due then checkpoint_retention w (hc_retention_days cfg) (wr_store wr) (tick (hm_disk m))
                           else (Inr (), wr_store wr, tick (hm_disk m))) = (r, st, d)"
    using prod_cases3 by blast
  have sd: "same_root (hm_disk m) d"
    using c checkpoint_root [of "hm_disk m" "tick (hm_disk m)" w "hc_retention_days cfg" "wr_store wr"]
    by (auto split: if_splits)
  show ?thesis
  proof (cases r)
    case (Inl err)
    have "handle_event w cfg e pid win wr m = writer_poisoned err (wr\<lparr>wr_store := st\<rparr>) (m\<lparr>hm_disk := d\<rparr>)"
      using None c Inl by (simp add: handle_event_def mono_now_def now_def [symmetric] due_def [symmetric])
    from poisoned [OF None sd _ this] show ?thesis by simp
  next
    case (Inr u)
    define wr1 where "wr1 = (if due then wr\<lparr>wr_store := st, wr_maintained := hw_mono w (hk_tick d)\<rparr>
                             else wr\<lparr>wr_store := st\<rparr>)"
    obtain r2 st2 d2 where a: "store_append w (identified w pid win e) st (tick d) = (r2, st2, d2)"
      using prod_cases3 by blast
    have sd2: "same_root (hm_disk m) d2"
      using store_append_root [of "hm_disk m" "tick d" w "identified w pid win e" st] a sd by simp
    have h: "handle_event w cfg e pid win wr m =
       (case r2 of Inl err \<Rightarrow> writer_poisoned err (wr1\<lparr>wr_store := st2\<rparr>) (m\<lparr>hm_disk := d2\<rparr>)
        | Inr _ \<Rightarrow> m\<lparr>hm_disk := d2, hm_writer := Some (wr1\<lparr>wr_store := st2\<rparr>)\<rparr>)"
      using None c Inr a
      by (simp add: handle_event_def mono_now_def now_def [symmetric] due_def [symmetric])
         (cases due; cases r2; simp add: wr1_def Let_def)
    have q: "wr_queue wr1 = wr_queue wr" "wr_terminal wr1 = None" using None by (simp_all add: wr1_def)
    show ?thesis
    proof (cases r2)
      case Inl
      with h q poisoned [OF None sd2, of "wr1\<lparr>wr_store := st2\<rparr>"] show ?thesis by simp
    next
      case (Inr v)
      with h q sd2 None a show ?thesis by (intro appended [of d2 st "tick d" st2 "wr1\<lparr>wr_store := st2\<rparr>"]) auto
    qed
  qed
qed

lemma handle_event_base: "same_base m (handle_event w cfg e pid win wr m)"
  by (cases rule: handle_event_cases [of wr w cfg e pid win m]) (simp_all add: same_base_def)

lemma handle_event_queue:
  "\<exists>wr'. hm_writer (handle_event w cfg e pid win wr m) = Some wr' \<and> wr_queue wr' = wr_queue wr"
  by (cases rule: handle_event_cases [of wr w cfg e pid win m]) simp_all

lemma handle_flush_base: "same_base m (snd (handle_flush w wr m))"
  by (auto simp: handle_flush_def on_disk_def same_base_def Let_def split_beta split: option.split
      intro!: root_of_files)

lemma handle_flush_queue: "hm_writer (snd (handle_flush w wr m)) = Some wr"
  by (auto simp: handle_flush_def on_disk_def Let_def split_beta split: option.split)

lemma handle_read_base: "same_base m (snd (handle_read w cfg days wr m))"
proof -
  have a: "same_root (hm_disk m) (snd (snd (checkpoint_retention w days (wr_store wr) (hm_disk m))))"
    by (rule checkpoint_root) simp
  then show ?thesis
    by (auto simp: handle_read_def on_disk_def same_base_def Let_def split_beta attempt_def
        split: option.split sum.split prod.split) (metis read_all_files same_files_refl same_files_root same_root_trans snd_conv)+
qed

lemma handle_read_queue:
  "\<exists>wr'. hm_writer (snd (handle_read w cfg days wr m)) = Some wr' \<and> wr_queue wr' = wr_queue wr"
  by (auto simp: handle_read_def on_disk_def Let_def split_beta attempt_def
      split: option.split sum.split prod.split)

lemma writer_step_base: "same_base m (snd (writer_step w cfg m))"
proof (cases "hm_writer m")
  case (Some wr)
  show ?thesis
  proof (cases "wr_queue wr")
    case (Cons msg rest)
    have "same_base m (snd (on_disk (store_flush w) (m\<lparr>hm_writer := Some wr'\<rparr>)))" for wr'
      by (auto simp: on_disk_def same_base_def split_beta intro!: root_of_files)
    with Some Cons handle_event_base handle_flush_base handle_read_base show ?thesis
      by (cases msg) (simp_all add: writer_step_def Let_def)
  qed (simp add: writer_step_def Some)
qed (simp add: writer_step_def)

lemma writer_step_writer:
  assumes "hm_writer m = Some wr" "wr_queue wr = msg # rest"
  shows "\<exists>wr'. hm_writer (snd (writer_step w cfg m)) = Some wr' \<and> wr_queue wr' = rest"
proof (cases msg)
  case (EventMessage e pid win)
  with assms handle_event_queue [of w cfg e pid win "wr\<lparr>wr_queue := rest\<rparr>" m] show ?thesis
    by (simp add: writer_step_def Let_def)
next
  case FlushMessage
  with assms handle_flush_queue [of w "wr\<lparr>wr_queue := rest\<rparr>" m] show ?thesis
    by (simp add: writer_step_def Let_def)
next
  case (ReadMessage days)
  with assms handle_read_queue [of w cfg days "wr\<lparr>wr_queue := rest\<rparr>" m] show ?thesis
    by (simp add: writer_step_def Let_def)
next
  case ShutdownMessage
  with assms show ?thesis by (simp add: writer_step_def Let_def on_disk_def split_beta)
qed

lemma writer_step_queue: "wqueue (snd (writer_step w cfg m)) = tl (wqueue m)"
proof (cases "hm_writer m")
  case (Some wr)
  show ?thesis
  proof (cases "wr_queue wr")
    case (Cons msg rest)
    from writer_step_writer [OF Some Cons, of w cfg] Some Cons show ?thesis by (auto simp: wqueue_def)
  qed (simp add: writer_step_def wqueue_def Some)
qed (simp add: writer_step_def wqueue_def)

lemma writer_step_present: "hm_writer (snd (writer_step w cfg m)) = None \<longleftrightarrow> hm_writer m = None"
proof (cases "hm_writer m")
  case (Some wr)
  show ?thesis
  proof (cases "wr_queue wr")
    case (Cons msg rest)
    from writer_step_writer [OF Some Cons, of w cfg] Some show ?thesis by auto
  qed (simp add: writer_step_def Some)
qed (simp add: writer_step_def)

lemma writer_runs_keeps:
  "same_base m (snd (writer_runs w cfg n r m)) \<and> wqueue (snd (writer_runs w cfg n r m)) = drop n (wqueue m)
   \<and> (hm_writer (snd (writer_runs w cfg n r m)) = None \<longleftrightarrow> hm_writer m = None)"
proof (induction n arbitrary: r m)
  case (Suc n)
  show ?case
    using Suc [where r = "fst (writer_step w cfg m)" and m = "snd (writer_step w cfg m)"]
      same_base_trans [OF writer_step_base [of m w cfg]]
    by (simp add: Let_def split_beta writer_step_queue writer_step_present drop_Suc)
qed simp

lemma writer_runs_add:
  "writer_runs w cfg (a + b) r m =
     writer_runs w cfg b (fst (writer_runs w cfg a r m)) (snd (writer_runs w cfg a r m))"
  by (induction a arbitrary: r m) (simp_all add: Let_def split_beta)

lemma enqueue_keeps:
  "same_base m (enqueue msg m)" "hm_writer (enqueue msg m) = None \<longleftrightarrow> hm_writer m = None"
  "hm_writer m \<noteq> None \<Longrightarrow> wqueue (enqueue msg m) = wqueue m @ [msg]"
  by (auto simp: enqueue_def same_base_def wqueue_def split: option.split)

lemma blocking_send_keeps:
  "same_base m (blocking_send w cfg msg m)"
  "hm_writer (blocking_send w cfg msg m) = None \<longleftrightarrow> hm_writer m = None"
  "hm_writer m \<noteq> None \<Longrightarrow> wqueue (blocking_send w cfg msg m) =
     (if WRITER_QUEUE_CAPACITY \<le> queue_length m then tl (wqueue m) else wqueue m) @ [msg]"
proof -
  let ?m = "if WRITER_QUEUE_CAPACITY \<le> queue_length m then snd (writer_step w cfg m) else m"
  have b: "same_base m ?m" and p: "hm_writer ?m = None \<longleftrightarrow> hm_writer m = None"
    using writer_step_base [of m w cfg] writer_step_present [of w cfg m] by simp_all
  show "same_base m (blocking_send w cfg msg m)"
    unfolding blocking_send_def by (rule same_base_trans [OF b enqueue_keeps(1)])
  show "hm_writer (blocking_send w cfg msg m) = None \<longleftrightarrow> hm_writer m = None"
    unfolding blocking_send_def enqueue_keeps(2) by (rule p)
  assume "hm_writer m \<noteq> None"
  with p have "hm_writer ?m \<noteq> None" by blast
  then show "wqueue (blocking_send w cfg msg m) =
     (if WRITER_QUEUE_CAPACITY \<le> queue_length m then tl (wqueue m) else wqueue m) @ [msg]"
    unfolding blocking_send_def using enqueue_keeps(3) [of ?m msg] by (simp add: writer_step_queue)
qed

lemma await_reply_runs:
  "\<exists>n. snd (await_reply w cfg m) = snd (writer_runs w cfg n None (m\<lparr>hm_disk := tick (hm_disk m)\<rparr>))"
  by (auto simp: await_reply_def Let_def split: option.split)

lemma await_reply_keeps:
  "same_base m (snd (await_reply w cfg m))"
  "hm_writer (snd (await_reply w cfg m)) = None \<longleftrightarrow> hm_writer m = None"
proof -
  obtain n where n: "snd (await_reply w cfg m) = snd (writer_runs w cfg n None (m\<lparr>hm_disk := tick (hm_disk m)\<rparr>))"
    using await_reply_runs by blast
  have t: "same_base m (m\<lparr>hm_disk := tick (hm_disk m)\<rparr>)" by (simp add: same_base_def)
  note k = writer_runs_keeps [of "m\<lparr>hm_disk := tick (hm_disk m)\<rparr>" w cfg n None]
  show "same_base m (snd (await_reply w cfg m))" unfolding n using t k same_base_trans by blast
  show "hm_writer (snd (await_reply w cfg m)) = None \<longleftrightarrow> hm_writer m = None" unfolding n using k by simp
qed

lemma flush_writer_keeps:
  "same_base m (snd (flush_writer w cfg m))"
  "hm_writer (snd (flush_writer w cfg m)) = None \<longleftrightarrow> hm_writer m = None"
proof -
  let ?a = "await_reply w cfg (blocking_send w cfg FlushMessage m)"
  have s: "snd (flush_writer w cfg m) = (if hm_writer m = None then m else snd ?a)"
    by (auto simp: flush_writer_def split: prod.split option.split writer_reply.split)
  have "same_base m (snd ?a)"
    by (rule same_base_trans [OF blocking_send_keeps(1) await_reply_keeps(1)])
  then show "same_base m (snd (flush_writer w cfg m))" unfolding s by simp
  show "hm_writer (snd (flush_writer w cfg m)) = None \<longleftrightarrow> hm_writer m = None"
    unfolding s by (simp add: await_reply_keeps(2) blocking_send_keeps(2))
qed

end
