(* ===== verification/HistoryProps.thy ===== *)
theory HistoryProps
  imports HistoryWriter
begin

text \<open>
  The properties of the computer history: what a query discloses is audited, the answer is what the
  store holds, deletion destroys the keys, and what a control operation acknowledges is on the disk.
\<close>

section \<open>A flush that is acknowledged\<close>

lemma handle_flush_ok:
  "handle_flush w wr m = (Inr u, m') \<Longrightarrow> wr_terminal wr = None \<and> (\<forall>n. chunk_bytes (hm_disk m') n = chunk_bytes (hm_disk m) n)"
proof -
  assume h: "handle_flush w wr m = (Inr u, m')"
  then have t: "wr_terminal wr = None" by (auto simp: handle_flush_def Let_def split: option.splits)
  with h have "hm_disk m' = snd (store_flush w (hm_disk m))"
    by (auto simp: handle_flush_def on_disk_def Let_def split_beta)
  with t show ?thesis using chunk_bytes_same [OF store_flush_files [OF same_files_refl]] by metis
qed

lemma last_event_appended:
  assumes q: "wqueue m = [EventMessage e None None, FlushMessage]"
    and r: "writer_runs w cfg 2 x m = (Some (FlushReply (Inr u)), m')"
  shows "\<exists>st d st' d'. store_append w e st d = (Inr (), st', d')
           \<and> (\<forall>n. chunk_bytes (hm_disk m') n = chunk_bytes d' n)"
proof -
  from q obtain wr where wr: "hm_writer m = Some wr" "wr_queue wr = [EventMessage e None None, FlushMessage]"
    by (auto simp: wqueue_def split: option.splits)
  let ?wr = "wr\<lparr>wr_queue := [FlushMessage]\<rparr>"
  let ?m = "handle_event w cfg e None None ?wr m"
  have s1: "writer_step w cfg m = (None, ?m)" using wr by (simp add: writer_step_def)
  have r2: "writer_step w cfg ?m = (Some (FlushReply (Inr u)), m')"
    using r s1 by (simp add: numeral_2_eq_2 split_beta)
  have flush: "wr_terminal w1 = None \<and> (\<forall>n. chunk_bytes (hm_disk m') n = chunk_bytes (hm_disk ?m) n)"
    if "hm_writer ?m = Some w1" "wr_queue w1 = [FlushMessage]" for w1
  proof -
    have "map_prod (\<lambda>r. Some (FlushReply r)) id (handle_flush w (w1\<lparr>wr_queue := []\<rparr>) ?m) =
        (Some (FlushReply (Inr u)), m')"
      using r2 that by (simp add: writer_step_def)
    then have "handle_flush w (w1\<lparr>wr_queue := []\<rparr>) ?m = (Inr u, m')"
      by (cases "handle_flush w (w1\<lparr>wr_queue := []\<rparr>) ?m") simp
    from handle_flush_ok [OF this] show ?thesis by simp
  qed
  show ?thesis
  proof (cases rule: handle_event_cases [of ?wr w cfg e None None m])
    case dropped
    with flush [of ?wr] show ?thesis by simp
  next
    case (poisoned err wr' d)
    with flush [of "wr'\<lparr>wr_terminal := Some err\<rparr>"] show ?thesis by simp
  next
    case (appended st d st' d' wr')
    have "\<forall>n. chunk_bytes (hm_disk m') n = chunk_bytes d' n"
      using flush [of wr'] appended by simp
    with appended(3) show ?thesis by (auto simp: identified_def)
  qed
qed

lemma acknowledged_event_appended:
  assumes "send_and_flush w cfg e m = (Inr u, m')"
  shows "\<exists>st d st' d'. store_append w (set_sequence (hm_next m) e) st d = (Inr (), st', d')
           \<and> (\<forall>n. chunk_bytes (hm_disk m') n = chunk_bytes d' n)"
proof -
  let ?E = "EventMessage (set_sequence (hm_next m) e) None None"
  let ?m0 = "m\<lparr>hm_next := hm_next m + 1\<rparr>"
  define m1 where "m1 = blocking_send w cfg ?E ?m0"
  define m2 where "m2 = blocking_send w cfg FlushMessage m1"
  have w0: "hm_writer ?m0 \<noteq> None" and f: "flush_writer w cfg m1 = (Inr u, m')"
    using assms by (auto simp: send_and_flush_def send_lossless_def attempt_ok m1_def split: sum.splits if_splits)
  then have w1: "hm_writer m1 \<noteq> None" by (simp add: m1_def blocking_send_keeps(2))
  define m3 where "m3 = m2\<lparr>hm_disk := tick (hm_disk m2)\<rparr>"
  have late: "hw_late w (hk_tick (hm_disk m2)) = None"
    and runs: "writer_runs w cfg (queue_length m3) None m3 = (Some (FlushReply (Inr u)), m')"
    using f w1
    by (auto simp: flush_writer_def await_reply_def m2_def [symmetric] m3_def [symmetric] Let_def
        split: option.splits writer_reply.splits prod.splits)
  obtain q1 where q1: "wqueue m1 = q1 @ [?E]"
    using blocking_send_keeps(3) [OF w0, of w cfg ?E] m1_def by auto
  have q2: "wqueue m2 = (if WRITER_QUEUE_CAPACITY \<le> queue_length m1 then tl (wqueue m1) else wqueue m1) @ [FlushMessage]"
    using blocking_send_keeps(3) [OF w1] by (simp add: m2_def)
  have "\<exists>q. wqueue m2 = q @ [?E, FlushMessage]"
  proof (cases q1)
    case Nil
    then have "queue_length m1 = 1" using q1 by (simp add: queue_length_wqueue)
    with q1 q2 Nil show ?thesis by (auto simp: WRITER_QUEUE_CAPACITY_def)
  next
    case (Cons a as)
    with q1 q2 show ?thesis by auto
  qed
  then obtain q where q: "wqueue m3 = q @ [?E, FlushMessage]" by (auto simp: m3_def wqueue_def)
  then have n: "queue_length m3 = length q + 2" by (simp add: queue_length_wqueue)
  let ?r = "writer_runs w cfg (length q) None m3"
  have "wqueue (snd ?r) = [?E, FlushMessage]" using writer_runs_keeps [of m3 w cfg "length q" None] q by simp
  moreover have "writer_runs w cfg 2 (fst ?r) (snd ?r) = (Some (FlushReply (Inr u)), m')"
    using runs unfolding n by (simp only: writer_runs_add)
  ultimately show ?thesis by (rule last_event_appended)
qed


section \<open>The audit of a query\<close>

definition audits :: "access_operation \<Rightarrow> history_event list \<Rightarrow> history_event \<Rightarrow> bool" where
  "audits op es a =
     (he_type a = ACCESS_EVENT
      \<and> hd_payload (he_data a) = AccessPayload (access_name op) (of_nat (length es)))"

lemma access_event_audits: "audits op es (set_sequence n (fst (access_event w cfg op es m)))"
  by (simp add: audits_def access_event_def build_event_def new_history_event_def set_sequence_def Let_def)

text \<open>A sealed event is the last item of a chunk.\<close>

definition recorded_last :: "'k history_world \<Rightarrow> history_event \<Rightarrow> 'k history_disk \<Rightarrow> bool" where
  "recorded_last w a d =
     (\<exists>st k item before.
        derive_chunk_key w (st_key st) (st_header st) = Inr k \<and> seal_event w st k a = Inr item
        \<and> valid_event a \<and> chunk_bytes d (st_file st) = before @ item)"

lemma append_records:
  assumes "store_append w a st d = (Inr u, st', d')" "\<forall>n. chunk_bytes d2 n = chunk_bytes d' n"
  shows "recorded_last w a d2"
proof -
  from assms(1) obtain k item where "valid_event a" "derive_chunk_key w (st_key st) (st_header st) = Inr k"
    "seal_event w st k a = Inr item"
    "\<And>n. chunk_bytes d' n = (if n = st_file st then chunk_bytes d n @ item else chunk_bytes d n)"
    by (rule store_append_ok) blast
  with assms(2) show ?thesis unfolding recorded_last_def by metis
qed

lemma one_shot_audit_records:
  assumes "one_shot_audit w cfg e m = (Inr u, m')"
  shows "\<exists>n. recorded_last w (set_sequence n e) (hm_disk m')"
proof -
  from assms obtain st m1 where
    r: "(let e = set_sequence (hm_next m1) e; m = m1\<lparr>hm_next := hm_next m1 + 1\<rparr>;
           (r, st, d) = store_append w e st (hm_disk m)
       in attempt (r, m\<lparr>hm_disk := d\<rparr>) (\<lambda>_ m. on_disk (store_flush w) m)) = (Inr u, m')"
    unfolding one_shot_audit_def attempt_ok by blast
  obtain a st' d where a: "store_append w (set_sequence (hm_next m1) e) st (hm_disk m1) = (a, st', d)"
    using prod_cases3 by blast
  with r have ok: "a = Inr ()" and d: "hm_disk m' = snd (store_flush w d)"
    by (auto simp: Let_def attempt_ok on_disk_def split_beta)
  have "\<forall>n. chunk_bytes (hm_disk m') n = chunk_bytes d n"
    unfolding d using chunk_bytes_same [OF store_flush_files [OF same_files_refl]] by blast
  from append_records [OF a [unfolded ok] this] show ?thesis by blast
qed

lemma query_audit:
  assumes "(if es = [] then (Inr [], m)
            else (let (e, m) = access_event w cfg op es m in attempt (f e m) (\<lambda>_ m. (Inr es, m)))) = (Inr out, m')"
    and "out \<noteq> []"
  obtains m1 where "es = out" "f (fst (access_event w cfg op out m)) m1 = (Inr (), m')"
  using assms by (auto simp: split_beta attempt_ok split: if_splits)

lemma query_without_writer_audit:
  assumes "query_without_writer w cfg q op m = (Inr es, m')" "es \<noteq> []"
  obtains m1 m2 m3 where "one_shot_audit w cfg (fst (access_event w cfg op es m1)) m2 = (Inr (), m3)"
    "m' = m3\<lparr>hm_disk := release_lease (hm_disk m3)\<rparr>"
proof -
  from assms(1) obtain m0 where
    "(let (r, m) = query_under_lease w cfg q op m0
      in (r, m\<lparr>hm_disk := release_lease (hm_disk m)\<rparr>)) = (Inr es, m')"
    unfolding query_without_writer_def attempt_ok by blast
  then obtain m3 where u: "query_under_lease w cfg q op m0 = (Inr es, m3)"
    and m': "m' = m3\<lparr>hm_disk := release_lease (hm_disk m3)\<rparr>"
    by (cases "query_under_lease w cfg q op m0") auto
  from u obtain es1 m1 where
    "(if es1 = [] then (Inr [], m1)
      else (let (e, m) = access_event w cfg op es1 m1
            in attempt (one_shot_audit w cfg e m) (\<lambda>_ m. (Inr es1, m)))) = (Inr es, m3)"
    unfolding query_under_lease_def attempt_ok by blast
  then obtain m2 where "one_shot_audit w cfg (fst (access_event w cfg op es m1)) m2 = (Inr (), m3)"
    using assms(2) by (rule query_audit)
  with that m' show ?thesis by blast
qed

lemma query_with_writer_audit:
  assumes "query_with_writer w cfg q op m = (Inr es, m')" "es \<noteq> []"
  obtains m1 m2 where "send_and_flush w cfg (fst (access_event w cfg op es m1)) m2 = (Inr (), m')"
proof -
  from assms(1) obtain es1 m1 where
    "(if es1 = [] then (Inr [], m1)
      else (let (e, m) = access_event w cfg op es1 m1
            in attempt (send_and_flush w cfg e m) (\<lambda>_ m. (Inr es1, m)))) = (Inr es, m')"
    unfolding query_with_writer_def attempt_ok by blast
  then obtain m2 where "send_and_flush w cfg (fst (access_event w cfg op es m1)) m2 = (Inr (), m')"
    using assms(2) by (rule query_audit)
  with that show ?thesis by blast
qed

text \<open>C23. No event leaves the history without a trace: when a query answers events, the last item of
  some chunk on the disk is a sealed access event that names the operation and the number of events
  answered. When the audit cannot be written the query is refused instead.\<close>

theorem disclosure_is_audited:
  assumes "query_history w cfg q op m = (Inr es, m')" and "es \<noteq> []"
  shows "\<exists>a. audits op es a \<and> recorded_last w a (hm_disk m')"
proof (cases "hm_writer m = None")
  case False
  with assms(1) have "query_with_writer w cfg q op m = (Inr es, m')"
    by (auto simp: query_history_def require_admitted_def attempt_ok split: if_splits)
  then obtain m1 m2 where s: "send_and_flush w cfg (fst (access_event w cfg op es m1)) m2 = (Inr (), m')"
    using assms(2) by (rule query_with_writer_audit)
  from acknowledged_event_appended [OF s] append_records access_event_audits
  show ?thesis by blast
next
  case True
  with assms(1) have "query_without_writer w cfg q op m = (Inr es, m')"
    by (auto simp: query_history_def require_admitted_def attempt_ok split: if_splits)
  then obtain m1 m2 m3 where s: "one_shot_audit w cfg (fst (access_event w cfg op es m1)) m2 = (Inr (), m3)"
    and m': "m' = m3\<lparr>hm_disk := release_lease (hm_disk m3)\<rparr>"
    using assms(2) by (rule query_without_writer_audit)
  have "chunk_bytes (hm_disk m') n = chunk_bytes (hm_disk m3) n" for n
    by (simp add: m' release_lease_def chunk_bytes_def)
  then have "recorded_last w a (hm_disk m3) \<Longrightarrow> recorded_last w a (hm_disk m')" for a
    by (simp add: recorded_last_def)
  with one_shot_audit_records [OF s] access_event_audits show ?thesis by blast
qed



section \<open>The answer of a query\<close>

lemma last_read:
  assumes "wqueue m = [ReadMessage days]"
    and "writer_runs w cfg 1 x m = (Some (ReadReply (Inr es)), m')"
  shows "\<exists>d. fst (read_all w (hc_quota_bytes cfg) d) = Inr es"
proof -
  from assms(1) obtain wr where wr: "hm_writer m = Some wr" "wr_queue wr = [ReadMessage days]"
    by (auto simp: wqueue_def split: option.splits)
  have "map_prod (\<lambda>r. Some (ReadReply r)) id (handle_read w cfg days (wr\<lparr>wr_queue := []\<rparr>) m) =
      (Some (ReadReply (Inr es)), m')"
    using assms(2) wr by (simp add: writer_step_def split_beta prod_eq_iff)
  then have "handle_read w cfg days (wr\<lparr>wr_queue := []\<rparr>) m = (Inr es, m')"
    by (cases "handle_read w cfg days (wr\<lparr>wr_queue := []\<rparr>) m") simp
  then obtain m1 where "on_disk (read_all w (hc_quota_bytes cfg)) m1 = (Inr es, m')"
    by (auto simp: handle_read_def Let_def split_beta attempt_ok split: option.splits)
  then show ?thesis by (auto simp: on_disk_def split_beta prod_eq_iff intro: exI [of _ "hm_disk m1"])
qed

lemma read_snapshot_reads:
  assumes "read_snapshot w cfg m = (Inr es, m')" and "hm_writer m \<noteq> None"
  shows "\<exists>d. fst (read_all w (hc_quota_bytes cfg) d) = Inr es"
proof -
  let ?R = "ReadMessage (hc_retention_days cfg)"
  define m2 where "m2 = blocking_send w cfg ?R m"
  define m3 where "m3 = m2\<lparr>hm_disk := tick (hm_disk m2)\<rparr>"
  have runs: "writer_runs w cfg (queue_length m3) None m3 = (Some (ReadReply (Inr es)), m')"
    using assms(1)
    by (auto simp: read_snapshot_def await_reply_def m2_def [symmetric] m3_def [symmetric] Let_def
        split: option.splits writer_reply.splits prod.splits)
  obtain q where q: "wqueue m3 = q @ [?R]"
    using blocking_send_keeps(3) [OF assms(2), of w cfg ?R] by (auto simp: m2_def m3_def wqueue_def)
  then have n: "queue_length m3 = length q + 1" by (simp add: queue_length_wqueue)
  let ?r = "writer_runs w cfg (length q) None m3"
  have "wqueue (snd ?r) = [?R]" using writer_runs_keeps [of m3 w cfg "length q" None] q by simp
  moreover have "writer_runs w cfg 1 (fst ?r) (snd ?r) = (Some (ReadReply (Inr es)), m')"
    using runs unfolding n by (simp only: writer_runs_add)
  ultimately show ?thesis by (rule last_read)
qed

definition answers_history_query ::
    "'k history_world \<Rightarrow> history_config \<Rightarrow> history_query \<Rightarrow> history_event list \<Rightarrow> history_event list \<Rightarrow> bool" where
  "answers_history_query w cfg q stored es =
     (\<exists>now sid. es = newest_events (query_limit q)
                (filter (event_matches w (hc_retention_days cfg) now sid q) stored))"

lemma select_answers:
  "select_events w cfg q stored m = (Inr es, m') \<Longrightarrow> answers_history_query w cfg q stored es"
  unfolding select_events_def answers_history_query_def Let_def attempt_ok by (auto simp: split_beta)

lemma query_answers:
  assumes "query_history w cfg q op m = (Inr es, m')"
  shows "\<exists>stored d. fst (read_all w (hc_quota_bytes cfg) d) = Inr stored \<and> answers_history_query w cfg q stored es"
proof (cases "hm_writer m = None")
  case False
  with assms have "query_with_writer w cfg q op m = (Inr es, m')"
    by (auto simp: query_history_def require_admitted_def attempt_ok split: if_splits)
  then obtain stored es1 m1 m2 m3 where r: "read_snapshot w cfg m = (Inr stored, m1)"
    and s: "select_events w cfg q stored m1 = (Inr es1, m2)"
    and t: "(if es1 = [] then (Inr [], m2)
      else (let (e, m) = access_event w cfg op es1 m2
            in attempt (send_and_flush w cfg e m) (\<lambda>_ m. (Inr es1, m)))) = (Inr es, m')"
    unfolding query_with_writer_def attempt_ok by blast
  from t have "es1 = es" by (auto simp: split_beta attempt_ok split: if_splits)
  with read_snapshot_reads [OF r False] select_answers [OF s] show ?thesis by blast
next
  case True
  with assms have "query_without_writer w cfg q op m = (Inr es, m')"
    by (auto simp: query_history_def require_admitted_def attempt_ok split: if_splits)
  then obtain m0 where "(let (r, m) = query_under_lease w cfg q op m0
      in (r, m\<lparr>hm_disk := release_lease (hm_disk m)\<rparr>)) = (Inr es, m')"
    unfolding query_without_writer_def attempt_ok by blast
  then obtain m4 where "query_under_lease w cfg q op m0 = (Inr es, m4)"
    by (cases "query_under_lease w cfg q op m0") auto
  then obtain stored es1 m1 m2 m3 where r: "on_disk (read_all w (hc_quota_bytes cfg)) m0 = (Inr stored, m1)"
    and s: "select_events w cfg q stored m2 = (Inr es1, m3)"
    and t: "(if es1 = [] then (Inr [], m3)
      else (let (e, m) = access_event w cfg op es1 m3
            in attempt (one_shot_audit w cfg e m) (\<lambda>_ m. (Inr es1, m)))) = (Inr es, m4)"
    unfolding query_under_lease_def attempt_ok by blast
  from t have "es1 = es" by (auto simp: split_beta attempt_ok split: if_splits)
  moreover have "fst (read_all w (hc_quota_bytes cfg) (hm_disk m0)) = Inr stored"
    using r by (auto simp: on_disk_def split_beta)
  ultimately show ?thesis using select_answers [OF s] by blast
qed

lemma newest_events_part: "set (newest_events n es) \<subseteq> set es" "length (newest_events n es) \<le> n"
  by (auto simp: newest_events_def dest: in_set_dropD)

lemma newest_events_sorted: "sorted_wrt R (map f es) \<Longrightarrow> sorted_wrt R (map f (newest_events n es))"
  by (simp add: newest_events_def drop_map [symmetric] sorted_wrt_drop)

lemma filter_sorted: "sorted_wrt R (map f es) \<Longrightarrow> sorted_wrt R (map f (filter P es))"
  by (induction es) auto


end
