(* ===== verification/HistoryDurable.thy ===== *)
theory HistoryDurable
  imports HistoryProps
begin

text \<open>
  The control operations: what they acknowledge is on the disk, and what deletion leaves.
\<close>

section \<open>Steps on the root\<close>

text \<open>Only the files of the root change.\<close>

definition only_entries :: "'k history_disk \<Rightarrow> 'k history_disk \<Rightarrow> bool" where
  "only_entries d d' =
     (hk_root d' = hk_root d \<and> hk_chunks d' = hk_chunks d \<and> hk_keys d' = hk_keys d
      \<and> hk_locked d' = hk_locked d)"

lemma only_entries_refl [simp]: "only_entries d d"
  by (simp add: only_entries_def)

lemma only_entries_trans [trans]: "only_entries a b \<Longrightarrow> only_entries b c \<Longrightarrow> only_entries a c"
  by (simp add: only_entries_def)

lemma only_entries_tick [simp]: "only_entries d s \<Longrightarrow> only_entries d (tick s)"
  by (simp add: only_entries_def)

lemma only_entries_update [simp]: "only_entries d s \<Longrightarrow> only_entries d (s\<lparr>hk_entries := e\<rparr>)"
  by (simp add: only_entries_def)

lemma entries_attempt:
  "only_entries d (snd r) \<Longrightarrow> (\<And>x s. only_entries d s \<Longrightarrow> only_entries d (snd (k x s)))
     \<Longrightarrow> only_entries d (snd (attempt r k))"
  by (cases r; cases "fst r") auto

lemma same_files_entries: "same_files d d' \<Longrightarrow> only_entries d d'"
  by (simp add: same_files_def same_root_def only_entries_def)

lemma must_read_files [frame]: "same_files d s \<Longrightarrow> same_files d (snd (must_read w n c s))"
  by (simp add: must_read_def reads_as_def)

lemma check_entries_files:
  assumes "\<And>name n s. same_files d s \<Longrightarrow> same_files d (snd (f name n s))"
  shows "same_files d s \<Longrightarrow> same_files d (snd (check_entries w f es s))"
proof (induction es arbitrary: s)
  case (Cons e es)
  show ?case
    unfolding check_entries.simps
    by (intro files_attempt Cons.IH assms) (simp_all add: Cons.prems)
qed simp

lemma chunks_layout_files: "same_files d s \<Longrightarrow> same_files d (snd (validate_chunks_layout w n s))"
  unfolding validate_chunks_layout_def
  by (intro files_attempt check_entries_files) simp_all

lemma root_entry_files: "same_files d s \<Longrightarrow> same_files d (snd (root_entry_ok w name n s))"
  unfolding root_entry_ok_def
  by (auto intro: files_attempt chunks_layout_files must_read_files)

lemma root_layout_files: "same_files d s \<Longrightarrow> same_files d (snd (validate_history_root_layout w s))"
  unfolding validate_history_root_layout_def
  by (intro files_attempt check_entries_files root_entry_files) simp_all

lemma create_root_file_entries: "only_entries d s \<Longrightarrow> only_entries d (snd (create_root_file w n s))"
  unfolding create_root_file_def
  by (intro entries_attempt) (simp_all add: unfold_steps)

lemma write_root_file_entries: "only_entries d s \<Longrightarrow> only_entries d (snd (write_root_file w n b s))"
  by (simp add: write_root_file_def unfold_steps)

lemma remove_root_file_entries: "only_entries d s \<Longrightarrow> only_entries d (snd (remove_root_file w n s))"
  unfolding remove_root_file_def by (intro entries_attempt) simp_all

lemma remove_if_there_entries: "only_entries d s \<Longrightarrow> only_entries d (snd (remove_if_there w n s))"
  unfolding remove_if_there_def root_has_def
  by (auto simp: Let_def intro!: entries_attempt remove_root_file_entries)

lemma claim_root_entries: "only_entries d s \<Longrightarrow> only_entries d (snd (claim_root w s))"
  unfolding claim_root_def
  by (intro entries_attempt create_root_file_entries write_root_file_entries) simp_all

lemma prepared_parts:
  assumes "prepare_history_root w d = (Inr u, d')"
  obtains d1 d2 d3 where
    "(case hk_root d1 of None \<Rightarrow> create_root w d1 | Some n \<Rightarrow> unavailable_unless (n = FsDirectory) d1) = (Inr (), d2)"
    "same_files d d1" "hk_root d2 = Some FsDirectory"
    "(case kv_get (hk_entries d2) ROOT_MARKER_NAME of
        Some n \<Rightarrow> attempt (unavailable_unless (is_file n) (tick (tick (tick d2)))) (\<lambda>_ d. must_read w n ROOT_MARKER_CONTENT d)
      | None \<Rightarrow> claim_root w (tick (tick (tick d2)))) = (Inr (), d3)"
    "validate_history_root_layout w d3 = (Inr (), d')"
  using assms
  by (auto simp: prepare_history_root_def attempt_ok root_is_directory_def reject_unsafe_root_components_def
      io_step_def same_files_def same_root_def split: if_splits)

lemma prepared_root:
  assumes "prepare_history_root w d = (Inr u, d')"
  shows "hk_root d' = Some FsDirectory" "hk_keys d' = hk_keys d" "hk_locked d' = hk_locked d"
    "hk_root d = Some FsDirectory \<Longrightarrow> hk_chunks d' = hk_chunks d"
proof -
  from assms obtain d1 d2 d3 where
    c: "(case hk_root d1 of None \<Rightarrow> create_root w d1 | Some n \<Rightarrow> unavailable_unless (n = FsDirectory) d1) = (Inr (), d2)"
    and d1: "same_files d d1" and r: "hk_root d2 = Some FsDirectory"
    and m: "(case kv_get (hk_entries d2) ROOT_MARKER_NAME of
        Some n \<Rightarrow> attempt (unavailable_unless (is_file n) (tick (tick (tick d2)))) (\<lambda>_ d. must_read w n ROOT_MARKER_CONTENT d)
      | None \<Rightarrow> claim_root w (tick (tick (tick d2)))) = (Inr (), d3)"
    and v: "validate_history_root_layout w d3 = (Inr (), d')"
    by (rule prepared_parts)
  have 3: "only_entries d2 d3"
  proof (cases "kv_get (hk_entries d2) ROOT_MARKER_NAME")
    case None
    with m claim_root_entries [of d2 "tick (tick (tick d2))" w] show ?thesis by simp
  next
    case (Some n)
    have "same_files d2 (snd (attempt (unavailable_unless (is_file n) (tick (tick (tick d2))))
        (\<lambda>_ d. must_read w n ROOT_MARKER_CONTENT d)))"
      by (intro files_attempt must_read_files) simp_all
    with m Some show ?thesis by (simp add: same_files_entries)
  qed
  have 4: "only_entries d3 d'"
    using root_layout_files [of d3 d3 w] v by (simp add: same_files_entries)
  have 2: "hk_keys d2 = hk_keys d1 \<and> hk_locked d2 = hk_locked d1
      \<and> (hk_root d1 = Some FsDirectory \<longrightarrow> hk_chunks d2 = hk_chunks d1)"
    using c by (cases "hk_root d1") (auto simp: create_root_def attempt_ok io_step_def split: if_splits)
  show "hk_root d' = Some FsDirectory" "hk_keys d' = hk_keys d" "hk_locked d' = hk_locked d"
    "hk_root d = Some FsDirectory \<Longrightarrow> hk_chunks d' = hk_chunks d"
    using d1 r 2 3 4 by (simp_all add: only_entries_def same_files_def same_root_def)
qed


section \<open>The persisted state\<close>

definition state_saved :: "'k history_world \<Rightarrow> bool \<Rightarrow> bool \<Rightarrow> 'k history_disk \<Rightarrow> bool" where
  "state_saved w en pa d =
     (hk_root d = Some FsDirectory
      \<and> (\<exists>t. kv_get (hk_entries d) ''state.json'' = Some (FsFile (hw_state_bytes w (en, pa)) t)))"

lemma write_state_saves:
  assumes "write_state w (en, pa) d = (Inr u, d')"
  shows "state_saved w en pa d'" "hk_keys d' = hk_keys d" "hk_locked d' = hk_locked d"
proof -
  from assms obtain d1 d2 d3 d4 n t e where p: "prepare_history_root w d = (Inr (), d1)"
    and r: "remove_if_there w ''state.json.tmp'' d1 = (Inr n, d2)"
    and c: "create_root_file w ''state.json.tmp'' d2 = (Inr (), d3)"
    and wr: "write_root_file w ''state.json.tmp'' (hw_state_bytes w (en, pa)) d3 = (Inr (), d4)"
    and d': "d' = tick (tick (tick d4))\<lparr>hk_entries := kv_put ''state.json'' (FsFile (hw_state_bytes w (en, pa)) t) e\<rparr>"
    by (auto simp: write_state_def attempt_ok io_step_def wall_now_def Let_def split: if_splits)
  have "only_entries d1 d4"
    using remove_if_there_entries [of d1 d1 w "''state.json.tmp''"] r
      create_root_file_entries [of d1 d2 w "''state.json.tmp''"] c
      write_root_file_entries [of d1 d3 w "''state.json.tmp''" "hw_state_bytes w (en, pa)"] wr by simp
  with prepared_root [OF p] d' show "state_saved w en pa d'" "hk_keys d' = hk_keys d" "hk_locked d' = hk_locked d"
    by (auto simp: state_saved_def only_entries_def)
qed

lemma saved_same_root: "state_saved w en pa d \<Longrightarrow> same_root d d' \<Longrightarrow> state_saved w en pa d'"
  by (simp add: state_saved_def same_root_def)

lemma saved_release [simp]: "state_saved w en pa (release_lease d) = state_saved w en pa d"
  by (simp add: state_saved_def release_lease_def)

lemma read_state_of_saved:
  assumes "state_saved w en pa d" and "hw_io_ok w (hk_tick d)" and "length (hw_state_bytes w (en, pa)) \<le> 4096"
    and "hw_read_state w (hw_state_bytes w (en, pa)) = Some (en, pa)"
  shows "fst (read_state w d) = Some (en, pa)"
  using assms by (auto simp: read_state_def state_saved_def)



section \<open>Control operations\<close>

text \<open>The flags, the keys and the files of the root are kept, the lease perhaps not.\<close>

definition settled :: "'k history_manager \<Rightarrow> 'k history_manager \<Rightarrow> bool" where
  "settled m m' =
     (hk_root (hm_disk m') = hk_root (hm_disk m) \<and> hk_entries (hm_disk m') = hk_entries (hm_disk m)
      \<and> hk_keys (hm_disk m') = hk_keys (hm_disk m) \<and> hm_enabled m' = hm_enabled m
      \<and> hm_paused m' = hm_paused m \<and> hm_session_key m' = hm_session_key m)"

lemma settled_refl [simp]: "settled m m"
  by (simp add: settled_def)

lemma settled_trans [trans]: "settled a b \<Longrightarrow> settled b c \<Longrightarrow> settled a c"
  by (simp add: settled_def)

lemma same_base_settled: "same_base m m' \<Longrightarrow> settled m m'"
  by (simp add: same_base_def settled_def same_root_def)

lemma settled_fields [simp]:
  "settled m (m'\<lparr>hm_next := n\<rparr>) = settled m m'" "settled m (m'\<lparr>hm_health := h\<rparr>) = settled m m'"
  "settled m (m'\<lparr>hm_writer := wr\<rparr>) = settled m m'"
  "settled m (m'\<lparr>hm_disk := tick (hm_disk m')\<rparr>) = settled m m'"
  "settled m (m'\<lparr>hm_disk := release_lease (hm_disk m')\<rparr>) = settled m m'"
  by (simp_all add: settled_def release_lease_def)

lemma settled_saved: "settled m m' \<Longrightarrow> state_saved w en pa (hm_disk m) \<Longrightarrow> state_saved w en pa (hm_disk m')"
  by (simp add: settled_def state_saved_def)

lemma control_event_settled: "settled m (snd (control_event w cfg c m))"
  by (simp add: control_event_def build_event_def Let_def)

lemma send_lossless_settled: "settled m (snd (send_lossless w cfg e m))"
proof -
  have "settled m (blocking_send w cfg msg (m\<lparr>hm_next := n\<rparr>))" for msg n
    using settled_trans [OF _ same_base_settled [OF blocking_send_keeps(1)], of m "m\<lparr>hm_next := n\<rparr>"] by simp
  then show ?thesis by (auto simp: send_lossless_def split: sum.split)
qed

lemma send_and_flush_settled: "settled m (snd (send_and_flush w cfg e m))"
proof (cases "send_lossless w cfg e m")
  case (Pair r m1)
  then have "settled m m1" using send_lossless_settled [of m w cfg e] by simp
  with Pair same_base_settled [OF flush_writer_keeps(1)] settled_trans show ?thesis
    by (cases r) (fastforce simp: send_and_flush_def)+
qed

lemma send_control_settled: "settled m (snd (send_control w cfg c m))"
  unfolding send_control_def split_beta Let_def
  by (rule settled_trans [OF control_event_settled send_and_flush_settled])

lemma stop_writer_settled: "settled m (stop_writer w cfg m)"
proof -
  let ?b = "blocking_send w cfg ShutdownMessage m"
  have "settled m (snd (writer_runs w cfg (queue_length ?b) None ?b))"
    using writer_runs_keeps [of ?b w cfg "queue_length ?b" None] blocking_send_keeps(1) [of m w cfg ShutdownMessage]
      same_base_settled settled_trans by blast
  then show ?thesis by (simp add: stop_writer_def Let_def settled_def release_lease_def)
qed

lemma answer_status_settled: "settled m (snd (answer_status w cfg m))"
proof -
  have "same_files (hm_disk m) (snd (directory_bytes w (hm_disk m)))"
    by (rule directory_bytes_files) simp
  then show ?thesis
    by (simp add: answer_status_def status_def on_disk_def split_beta settled_def same_files_def same_root_def)
qed

lemma answer_status_ok:
  assumes "answer_status w cfg m = (Inr s, m')" shows "settled m m'"
  using answer_status_settled [of m w cfg] assms by simp

lemma persist_ok:
  assumes "persist_state w en pa m = (Inr u, m')"
  shows "state_saved w en pa (hm_disk m')" "hm_enabled m' = hm_enabled m" "hm_paused m' = hm_paused m"
    "hm_writer m' = hm_writer m" "hk_keys (hm_disk m') = hk_keys (hm_disk m)" "hm_session_key m' = hm_session_key m"
    "hk_locked (hm_disk m') = hk_locked (hm_disk m)"
proof -
  obtain d' where d: "write_state w (en, pa) (hm_disk m) = (Inr u, d')" "m' = m\<lparr>hm_disk := d'\<rparr>"
    using assms by (auto simp: persist_state_def on_disk_def split_beta prod_eq_iff)
  from write_state_saves [OF d(1)] show "state_saved w en pa (hm_disk m')" "hk_keys (hm_disk m') = hk_keys (hm_disk m)"
    "hk_locked (hm_disk m') = hk_locked (hm_disk m)" by (simp_all add: d(2))
qed (use assms in \<open>auto simp: persist_state_def on_disk_def split_beta\<close>)

text \<open>What is acknowledged: the persisted state is that of the manager.\<close>

definition acknowledged :: "'k history_world \<Rightarrow> 'k history_manager \<Rightarrow> bool" where
  "acknowledged w m = state_saved w (hm_enabled m) (hm_paused m) (hm_disk m)"

lemma acknowledged_settled: "acknowledged w m \<Longrightarrow> settled m m' \<Longrightarrow> acknowledged w m'"
  by (simp add: acknowledged_def settled_def state_saved_def)

lemma saved_then_settled:
  assumes "state_saved w en pa (hm_disk m1)" "settled m1 m2"
    and "answer_status w cfg (m2\<lparr>hm_enabled := en, hm_paused := pa, hm_health := h\<rparr>) = (Inr s, m')"
  shows "acknowledged w m' \<and> hm_enabled m' = en \<and> hm_paused m' = pa"
  using settled_saved [OF assms(2,1)] answer_status_ok [OF assms(3)]
  by (simp add: acknowledged_def settled_def state_saved_def)

lemma result_cases:
  "(case r of (Inl e, s) \<Rightarrow> (Inl e, k e s) | (Inr x, s) \<Rightarrow> g x s) = (Inr y, s') \<longleftrightarrow>
     (\<exists>x s. r = (Inr x, s) \<and> g x s = (Inr y, s'))"
  by (cases r; cases "fst r") auto

text \<open>Opening a store only touches the disk, the session key and the next sequence number.\<close>

definition same_manager :: "'k history_manager \<Rightarrow> 'k history_manager \<Rightarrow> bool" where
  "same_manager m m' =
     (hm_enabled m' = hm_enabled m \<and> hm_paused m' = hm_paused m \<and> hm_writer m' = hm_writer m
      \<and> hm_dropped m' = hm_dropped m \<and> hm_pending m' = hm_pending m)"

lemma same_manager_refl [simp]: "same_manager m m"
  by (simp add: same_manager_def)

lemma same_manager_update [simp]:
  "same_manager m (s\<lparr>hm_disk := d\<rparr>) = same_manager m s"
  "same_manager m (s\<lparr>hm_next := n\<rparr>) = same_manager m s"
  "same_manager m (s\<lparr>hm_session_key := k\<rparr>) = same_manager m s"
  "same_manager m (s\<lparr>hm_health := h\<rparr>) = same_manager m s"
  by (simp_all add: same_manager_def)

lemma manager_attempt:
  "same_manager m (snd r) \<Longrightarrow> (\<And>x s. same_manager m s \<Longrightarrow> same_manager m (snd (k x s)))
     \<Longrightarrow> same_manager m (snd (attempt r k))"
  by (cases r; cases "fst r") auto

lemma on_disk_manager [simp]: "same_manager m (snd (on_disk f s)) = same_manager m s"
  by (simp add: on_disk_def split_beta)

lemma session_key_manager: "same_manager m s \<Longrightarrow> same_manager m (snd (ensure_session_id_key w s))"
  by (auto simp: ensure_session_id_key_def Let_def split_beta split: sum.split option.split)

lemma append_first_manager: "same_manager m s \<Longrightarrow> same_manager m (snd (append_first w first st s))"
  unfolding append_first_def Let_def split_beta
  by (cases first) (auto intro!: manager_attempt)

lemma open_store_manager: "same_manager m s \<Longrightarrow> same_manager m (snd (open_store w cfg first s))"
  unfolding open_store_def
  by (intro manager_attempt session_key_manager append_first_manager) simp_all

lemma store_on_error_snd: "snd (store_on_error r) = snd r \<or>
    snd (store_on_error r) = (snd r)\<lparr>hm_disk := release_lease (hm_disk (snd r))\<rparr>"
  by (simp add: store_on_error_def split: sum.split)

lemma start_writer_flags:
  assumes "start_writer w cfg first m = (r, m')"
  shows "hm_enabled m' = hm_enabled m" "hm_paused m' = hm_paused m"
proof -
  let ?flags = "\<lambda>m'. hm_enabled m' = hm_enabled m \<and> hm_paused m' = hm_paused m"
  have o: "same_manager m s \<Longrightarrow> ?flags (snd (store_on_error (open_store w cfg first s)))" for s
    using open_store_manager [of m s w cfg first] store_on_error_snd [of "open_store w cfg first s"]
    by (auto simp: same_manager_def)
  have l: "same_manager m (snd (on_disk (acquire_lease w) m))" by simp
  have "?flags (snd (start_writer w cfg first m))"
    using o [OF l] l by (auto simp: start_writer_def Let_def split_beta mono_now_def attempt_def same_manager_def
        split: sum.split prod.split)
  with assms show "hm_enabled m' = hm_enabled m" "hm_paused m' = hm_paused m" by simp_all
qed

lemma enable_acknowledged:
  assumes "enable w cfg m = (Inr s, m')" "\<not> hm_enabled m"
  shows "acknowledged w m' \<and> hm_enabled m' \<and> \<not> hm_paused m'"
proof -
  obtain e m0 where c: "control_event w cfg EnableHistory (m\<lparr>hm_paused := False\<rparr>) = (e, m0)"
    by fastforce
  with assms obtain m1 m2 where st: "start_writer w cfg (Some e) m0 = (Inr (), m1)"
    and p: "persist_state w True False m1 = (Inr (), m2)"
    and a: "answer_status w cfg (m2\<lparr>hm_enabled := True, hm_health := Ready\<rparr>) = (Inr s, m')"
    by (auto simp: enable_def attempt_ok result_cases split: if_splits)
  have np: "\<not> hm_paused m1"
    using start_writer_flags(2) [OF st] c by (auto simp: control_event_def build_event_def Let_def)
  have "m2\<lparr>hm_enabled := True, hm_health := Ready\<rparr> = m2\<lparr>hm_enabled := True, hm_paused := False, hm_health := Ready\<rparr>"
    using persist_ok(3) [OF p] np by simp
  with saved_then_settled [OF persist_ok(1) [OF p] settled_refl] a show ?thesis by fastforce
qed

lemma disable_acknowledged:
  assumes "disable w cfg m = (Inr s, m')"
  shows "acknowledged w m' \<and> \<not> hm_enabled m' \<and> \<not> hm_paused m'"
proof -
  from assms obtain m0 m1 m2 where p: "persist_state w False False m0 = (Inr (), m1)" and s: "settled m1 m2"
    and a: "answer_status w cfg (m2\<lparr>hm_enabled := False, hm_paused := False, hm_health := HistoryOff\<rparr>) = (Inr s, m')"
  proof (cases "hm_enabled m")
    case True
    with assms obtain m1 where "persist_state w False False (m\<lparr>hm_enabled := False\<rparr>) = (Inr (), m1)"
      "answer_status w cfg ((stop_writer w cfg (snd (send_control w cfg DisableHistory m1)))
         \<lparr>hm_enabled := False, hm_paused := False, hm_health := HistoryOff\<rparr>) = (Inr s, m')"
      by (auto simp: disable_def attempt_ok result_cases)
    with that settled_trans [OF send_control_settled stop_writer_settled] show ?thesis by blast
  next
    case False
    with assms obtain m1 where "persist_state w False False m = (Inr (), m1)"
      "answer_status w cfg (m1\<lparr>hm_enabled := False, hm_paused := False, hm_health := HistoryOff\<rparr>) = (Inr s, m')"
      by (auto simp: disable_def attempt_ok)
    with that [OF _ settled_refl] show ?thesis by blast
  qed
  from saved_then_settled [OF persist_ok(1) [OF p] s a] show ?thesis by simp
qed

lemma pause_acknowledged:
  assumes "pause w cfg m = (Inr s, m')"
  shows "acknowledged w m' \<and> hm_enabled m' \<and> hm_paused m'"
proof -
  from assms obtain m1 m2 where e: "hm_enabled m" and p: "persist_state w True True m = (Inr (), m1)"
    and c: "send_control w cfg PauseHistory (m1\<lparr>hm_paused := True\<rparr>) = (Inr (), m2)"
    and a: "answer_status w cfg (m2\<lparr>hm_health := HistoryPaused\<rparr>) = (Inr s, m')"
    by (auto simp: pause_def attempt_ok result_cases require_enabled_def require_admitted_def split: if_splits)
  have "settled (m1\<lparr>hm_paused := True\<rparr>) m2" using send_control_settled c by (metis snd_conv)
  with answer_status_ok [OF a] persist_ok [OF p] e show ?thesis
    by (simp add: settled_def acknowledged_def state_saved_def)
qed

lemma resume_acknowledged:
  assumes "resume w cfg m = (Inr s, m')"
  shows "acknowledged w m' \<and> hm_enabled m' \<and> \<not> hm_paused m'"
proof -
  from assms obtain m1 m2 where e: "hm_enabled m" and p: "persist_state w True False m = (Inr (), m1)"
    and c: "send_control w cfg ResumeHistory m1 = (Inr (), m2)"
    and a: "answer_status w cfg (m2\<lparr>hm_paused := False, hm_health := Ready\<rparr>) = (Inr s, m')"
    by (auto simp: resume_def attempt_ok result_cases require_enabled_def require_admitted_def split: if_splits)
  have "settled m1 m2" using send_control_settled c by (metis snd_conv)
  with answer_status_ok [OF a] persist_ok [OF p] e show ?thesis
    by (simp add: settled_def acknowledged_def state_saved_def)
qed



datatype lifecycle_operation = Enabling | Disabling | Pausing | Resuming

fun run_lifecycle ::
    "'k history_world \<Rightarrow> history_config \<Rightarrow> lifecycle_operation \<Rightarrow> 'k history_manager
       \<Rightarrow> ('k, history_status) hm_result" where
  "run_lifecycle w cfg Enabling m = enable w cfg m"
| "run_lifecycle w cfg Disabling m = disable w cfg m"
| "run_lifecycle w cfg Pausing m = pause w cfg m"
| "run_lifecycle w cfg Resuming m = resume w cfg m"

fun reached :: "lifecycle_operation \<Rightarrow> bool \<times> bool" where
  "reached Enabling = (True, False)"
| "reached Disabling = (False, False)"
| "reached Pausing = (True, True)"
| "reached Resuming = (True, False)"

text \<open>C27. An operation that answers success has taken effect and is durable: the manager is in the state
  the operation names, and a process that starts later and can read the state file, which is short and
  reads back as it was written, finds exactly this state. For \<open>enable\<close> this is said of a history that
  was off; on one that is on already it does nothing.\<close>

theorem acknowledged_control_survives_a_restart:
  assumes "run_lifecycle w cfg op m = (Inr s, m')" and "op = Enabling \<Longrightarrow> \<not> hm_enabled m"
    and "\<And>v. length (hw_state_bytes w v) \<le> 4096 \<and> hw_read_state w (hw_state_bytes w v) = Some v"
    and "hw_io_ok w (hk_tick (hm_disk m'))"
  shows "(hm_enabled m', hm_paused m') = reached op \<and> fst (read_state w (hm_disk m')) = Some (reached op)"
proof -
  have "acknowledged w m' \<and> (hm_enabled m', hm_paused m') = reached op"
  proof (cases op)
    case Enabling
    with assms(1,2) enable_acknowledged [of w cfg m s m'] show ?thesis by simp
  next
    case Disabling
    with assms(1) disable_acknowledged [of w cfg m s m'] show ?thesis by simp
  next
    case Pausing
    with assms(1) pause_acknowledged [of w cfg m s m'] show ?thesis by simp
  next
    case Resuming
    with assms(1) resume_acknowledged [of w cfg m s m'] show ?thesis by simp
  qed
  then have a: "acknowledged w m'" and r: "(hm_enabled m', hm_paused m') = reached op" by blast+
  then have "fst (read_state w (hm_disk m')) = Some (hm_enabled m', hm_paused m')"
    using assms(3,4) read_state_of_saved [of w "hm_enabled m'" "hm_paused m'" "hm_disk m'"]
    by (simp add: acknowledged_def)
  with r show ?thesis by simp
qed


section \<open>Deletion\<close>

lemma destroy_keys_ok: "destroy_keys w rs d = (r, d') \<Longrightarrow> \<exists>k. d' = d\<lparr>hk_keys := k\<rparr>"
proof (induction rs arbitrary: d)
  case Nil
  then have "d' = d\<lparr>hk_keys := hk_keys d\<rparr>" by simp
  then show ?case by blast
next
  case (Cons x rs)
  obtain a k where "hw_destroy_key w (hk_keys d) x = (a, k)" by fastforce
  with Cons show ?case by (cases a) fastforce+
qed

lemma on_disk_ok:
  "health_on_error (on_disk f m) = (Inr u, m') \<Longrightarrow> \<exists>d. f (hm_disk m) = (Inr u, d) \<and> m' = m\<lparr>hm_disk := d\<rparr>"
  by (cases "f (hm_disk m)") (auto simp: health_on_error_def on_disk_def split: sum.splits)

lemma delete_under_lease_ok:
  assumes "delete_under_lease w m = (Inr u, m')"
  obtains k d where "hw_references w k = Inr []"
    "remove_history_files w ((hm_disk m)\<lparr>hk_keys := k\<rparr>) = (Inr (), d)"
    "m' = m\<lparr>hm_disk := d, hm_session_key := None, hm_next := 1, hm_health := HistoryOff\<rparr>"
proof -
  from assms obtain rs m1 m2 where
    k: "health_on_error (on_disk (destroy_keys w rs) m) = (Inr (), m1)"
    and l: "hw_references w (hk_keys (hm_disk m1)) = Inr []"
    and f: "health_on_error (on_disk (remove_history_files w) (m1\<lparr>hm_session_key := None\<rparr>)) = (Inr (), m2)"
    and m': "m' = m2\<lparr>hm_next := 1, hm_health := HistoryOff\<rparr>"
    by (auto simp: delete_under_lease_def attempt_ok split: if_splits)
  from on_disk_ok [OF k] obtain d1 where d1: "destroy_keys w rs (hm_disk m) = (Inr (), d1)" "m1 = m\<lparr>hm_disk := d1\<rparr>"
    by blast
  from destroy_keys_ok [OF d1(1)] obtain k where dk: "d1 = (hm_disk m)\<lparr>hk_keys := k\<rparr>" by blast
  from on_disk_ok [OF f] obtain d2 where d2: "remove_history_files w d1 = (Inr (), d2)"
    "m2 = m1\<lparr>hm_session_key := None, hm_disk := d2\<rparr>"
    by (auto simp: d1(2))
  show ?thesis
  proof
    show "hw_references w k = Inr []" using l d1(2) dk by simp
    show "remove_history_files w ((hm_disk m)\<lparr>hk_keys := k\<rparr>) = (Inr (), d2)" using d2(1) dk by simp
    show "m' = m\<lparr>hm_disk := d2, hm_session_key := None, hm_next := 1, hm_health := HistoryOff\<rparr>"
      using m' d1(2) d2(2) by simp
  qed
qed


lemma prepared_entries:
  assumes "prepare_history_root w d = (Inr u, d')" "hk_root d = Some FsDirectory" "hk_entries d \<noteq> []"
  shows "hk_entries d' = hk_entries d"
proof -
  from assms(1) obtain d1 d2 d3 where
    c: "(case hk_root d1 of None \<Rightarrow> create_root w d1 | Some n \<Rightarrow> unavailable_unless (n = FsDirectory) d1) = (Inr (), d2)"
    and d1: "same_files d d1" and r: "hk_root d2 = Some FsDirectory"
    and m: "(case kv_get (hk_entries d2) ROOT_MARKER_NAME of
        Some n \<Rightarrow> attempt (unavailable_unless (is_file n) (tick (tick (tick d2)))) (\<lambda>_ d. must_read w n ROOT_MARKER_CONTENT d)
      | None \<Rightarrow> claim_root w (tick (tick (tick d2)))) = (Inr (), d3)"
    and v: "validate_history_root_layout w d3 = (Inr (), d')"
    by (rule prepared_parts)
  have d2: "d2 = d1" using c d1 assms(2) by (simp add: same_files_def same_root_def)
  have 3: "hk_entries d3 = hk_entries d2"
  proof (cases "kv_get (hk_entries d2) ROOT_MARKER_NAME")
    case None
    with m d1 d2 assms(3) show ?thesis
      by (auto simp: claim_root_def attempt_ok io_step_def same_files_def same_root_def split: if_splits)
  next
    case (Some n)
    have "same_files d2 (snd (attempt (unavailable_unless (is_file n) (tick (tick (tick d2))))
        (\<lambda>_ d. must_read w n ROOT_MARKER_CONTENT d)))"
      by (intro files_attempt must_read_files) simp_all
    with m Some show ?thesis by (simp add: same_files_def same_root_def)
  qed
  have "hk_entries d' = hk_entries d3"
    using root_layout_files [of d3 d3 w] v by (simp add: same_files_def same_root_def)
  with 3 d1 d2 show ?thesis by (simp add: same_files_def same_root_def)
qed

lemma acquire_keeps_saved:
  assumes "acquire_lease w d = (Inr u, d')" "state_saved w en pa d"
  shows "state_saved w en pa d'"
proof -
  from assms(1) obtain d1 d2 where p: "prepare_history_root w d = (Inr (), d1)"
    and l: "open_lock_file w d1 = (Inr (), d2)" and d': "d' = (tick d2)\<lparr>hk_locked := True\<rparr>"
    by (auto simp: acquire_lease_def attempt_ok try_lock_def split: if_splits)
  have e: "hk_entries d1 = hk_entries d" "hk_root d1 = Some FsDirectory"
    using prepared_entries [OF p] prepared_root(1) [OF p] assms(2) by (cases "hk_entries d"; auto simp: state_saved_def)+
  have "hk_root d2 = hk_root d1 \<and> kv_get (hk_entries d2) ''state.json'' = kv_get (hk_entries d1) ''state.json''"
    using l by (auto simp: open_lock_file_def attempt_ok io_step_def wall_now_def split: option.splits if_splits)
  with e d' assms(2) show ?thesis by (auto simp: state_saved_def)
qed

lemma collect_chunks_all:
  assumes "\<And>n. hw_io_ok w n"
  shows "\<exists>d'. collect_chunks w es d = (Inr (map fst (filter (\<lambda>e. is_chunk_name (fst e) \<and> is_file (snd e)) es)), d')
           \<and> same_files d d'"
proof (induction es arbitrary: d)
  case (Cons e es)
  have io: "io_step w x = (Inr (), tick x)" for x using assms by (simp add: io_step_def)
  obtain d2 where d2: "(if is_chunk_name (fst e) then (hw_io_ok w (hk_tick (tick d)) \<and> is_file (snd e), tick (tick d))
      else (False, tick d)) = (is_chunk_name (fst e) \<and> is_file (snd e), d2)" and s: "same_files d d2"
    using assms by (cases "is_chunk_name (fst e)") simp_all
  from Cons [of d2] obtain d' where "collect_chunks w es d2 =
      (Inr (map fst (filter (\<lambda>e. is_chunk_name (fst e) \<and> is_file (snd e)) es)), d')" "same_files d2 d'" by blast
  with s same_files_trans show ?case by (auto simp: io d2)
qed simp

lemma remove_all:
  assumes "\<And>n. hw_io_ok w n"
  shows "hk_chunks (snd (remove_chunks w ns d)) = filter (\<lambda>e. fst e \<notin> set ns) (hk_chunks d)"
proof (induction ns arbitrary: d)
  case (Cons n ns)
  have "remove_chunk w n d = (Inr (), (tick d)\<lparr>hk_chunks := kv_del n (hk_chunks d)\<rparr>)"
    using assms by (simp add: remove_chunk_def io_step_def)
  with Cons [of "(tick d)\<lparr>hk_chunks := kv_del n (hk_chunks d)\<rparr>"] show ?case
    by (simp add: kv_del_def filter_filter conj_commute)
qed simp

definition no_chunk_left :: "'k history_disk \<Rightarrow> bool" where
  "no_chunk_left d =
     (kv_has (hk_entries d) ''chunks'' \<longrightarrow> list_all (\<lambda>e. \<not> (is_chunk_name (fst e) \<and> is_file (snd e))) (hk_chunks d))"

lemma remove_history_files_empties:
  assumes io: "\<And>n. hw_io_ok w n" and r: "remove_history_files w d = (Inr u, d')" and "hk_root d = Some FsDirectory"
  shows "no_chunk_left d'"
proof (cases "kv_has (hk_entries d) ''chunks''")
  case False
  with r assms(3) show ?thesis
    by (auto simp: remove_history_files_def history_chunk_paths_def root_has_def no_chunk_left_def)
next
  case True
  have i: "io_step w x = (Inr (), tick x)" for x using io by (simp add: io_step_def)
  let ?es = "hk_chunks d"
  obtain d2 where c: "collect_chunks w ?es (tick (tick d)) =
      (Inr (map fst (filter (\<lambda>e. is_chunk_name (fst e) \<and> is_file (snd e)) ?es)), d2)" and s: "same_files (tick (tick d)) d2"
    using collect_chunks_all [OF io] by blast
  let ?ns = "map fst (filter (\<lambda>e. is_chunk_name (fst e) \<and> is_file (snd e)) ?es)"
  have "remove_history_files w d = remove_chunks w ?ns d2"
    using True assms(3) c io by (simp add: remove_history_files_def history_chunk_paths_def root_has_def i)
  with r remove_all [OF io, of ?ns d2] s have "hk_chunks d' = filter (\<lambda>e. fst e \<notin> set ?ns) ?es"
    by (simp add: same_files_def)
  moreover have "fst e \<in> set ?ns" if "e \<in> set ?es" "is_chunk_name (fst e)" "is_file (snd e)" for e
    using that by simp
  ultimately show ?thesis unfolding no_chunk_left_def list_all_iff by (metis (no_types, lifting) mem_Collect_eq set_filter)
qed

lemma answer_status_chunks:
  assumes "answer_status w cfg m = (Inr s, m')"
  shows "hk_chunks (hm_disk m') = hk_chunks (hm_disk m)" "hm_next m' = hm_next m"
proof -
  have "same_files (hm_disk m) (snd (directory_bytes w (hm_disk m)))"
    by (rule directory_bytes_files) simp
  then show "hk_chunks (hm_disk m') = hk_chunks (hm_disk m)" "hm_next m' = hm_next m"
    using assms by (auto simp: answer_status_def status_def on_disk_def split_beta same_files_def)
qed


end
