(* ===== verification/HistoryLease.thy ===== *)
theory HistoryLease
  imports HistoryDurable
begin

text \<open>
  The histories of a manager: any sequence of its operations and of the turns of its writer. The writer
  lease is held exactly while a writer runs, and a writer runs exactly while the history is on, however
  the operations end; the queue never exceeds its capacity.
\<close>

section \<open>Steps that keep the lease\<close>

definition same_lock :: "'k history_disk \<Rightarrow> 'k history_disk \<Rightarrow> bool" where
  "same_lock d d' = (hk_locked d' = hk_locked d)"

lemma same_lock_refl [simp]: "same_lock d d"
  by (simp add: same_lock_def)

lemma same_lock_trans [trans]: "same_lock a b \<Longrightarrow> same_lock b c \<Longrightarrow> same_lock a c"
  by (simp add: same_lock_def)

lemma same_lock_updates [simp]:
  "same_lock d (tick s) = same_lock d s" "same_lock d (s\<lparr>hk_entries := e\<rparr>) = same_lock d s"
  "same_lock d (s\<lparr>hk_chunks := c\<rparr>) = same_lock d s" "same_lock d (s\<lparr>hk_root := r\<rparr>) = same_lock d s"
  "same_lock d (s\<lparr>hk_keys := k\<rparr>) = same_lock d s"
  by (simp_all add: same_lock_def)

lemma lock_attempt:
  "same_lock d (snd r) \<Longrightarrow> (\<And>x s. same_lock d s \<Longrightarrow> same_lock d (snd (k x s)))
     \<Longrightarrow> same_lock d (snd (attempt r k))"
  by (cases r; cases "fst r") auto

lemma root_lock: "same_root d d' \<Longrightarrow> same_lock d d'"
  by (simp add: same_root_def same_lock_def)

lemma entries_lock: "only_entries d d' \<Longrightarrow> same_lock d d'"
  by (simp add: only_entries_def same_lock_def)

lemma via_root: "same_root s s' \<Longrightarrow> same_lock d s \<Longrightarrow> same_lock d s'"
  using root_lock same_lock_trans by blast

lemma via_entries: "only_entries s s' \<Longrightarrow> same_lock d s \<Longrightarrow> same_lock d s'"
  using entries_lock same_lock_trans by blast

lemma create_root_lock: "same_lock d s \<Longrightarrow> same_lock d (snd (create_root w s))"
  unfolding create_root_def by (intro lock_attempt) (simp_all split: if_split)

lemma create_chunks_dir_lock: "same_lock d s \<Longrightarrow> same_lock d (snd (create_chunks_dir w s))"
  unfolding create_chunks_dir_def by (intro lock_attempt) (simp_all split: if_split)

lemma must_read_lock: "same_lock d s \<Longrightarrow> same_lock d (snd (must_read w n c s))"
  using via_root [OF same_files_root [OF must_read_files [OF same_files_refl]]] .

lemma claim_root_lock: "same_lock d s \<Longrightarrow> same_lock d (snd (claim_root w s))"
  using via_entries [OF claim_root_entries [OF only_entries_refl]] .

lemma root_layout_lock: "same_lock d s \<Longrightarrow> same_lock d (snd (validate_history_root_layout w s))"
  using via_root [OF same_files_root [OF root_layout_files [OF same_files_refl]]] .

lemma prepare_lock: "same_lock d s \<Longrightarrow> same_lock d (snd (prepare_history_root w s))"
  unfolding prepare_history_root_def root_is_directory_def reject_unsafe_root_components_def
  by (intro lock_attempt root_layout_lock)
    (auto simp: create_root_lock split: option.split intro!: lock_attempt must_read_lock claim_root_lock)

lemma open_lock_file_lock: "same_lock d s \<Longrightarrow> same_lock d (snd (open_lock_file w s))"
  unfolding open_lock_file_def
  by (auto simp: wall_now_def split: option.split intro!: lock_attempt)

lemma write_state_lock: "same_lock d s \<Longrightarrow> same_lock d (snd (write_state w v s))"
  unfolding write_state_def
  by (intro lock_attempt prepare_lock via_entries [OF remove_if_there_entries [OF only_entries_refl]]
      via_entries [OF create_root_file_entries [OF only_entries_refl]]
      via_entries [OF write_root_file_entries [OF only_entries_refl]])
    (simp_all add: wall_now_def)

lemma destroy_keys_lock: "same_lock d s \<Longrightarrow> same_lock d (snd (destroy_keys w rs s))"
  by (induction rs arbitrary: s) (auto simp: Let_def split_beta split: sum.split)

text \<open>What acquiring answers, and whether a new store keeps the lease.\<close>

lemma acquire_lock:
  "fst (acquire_lease w d) = Inr u \<Longrightarrow> \<not> hk_locked d \<and> hk_locked (snd (acquire_lease w d))"
  "fst (acquire_lease w d) = Inl e \<Longrightarrow> hk_locked (snd (acquire_lease w d)) = hk_locked d"
proof -
  have p: "hk_locked (snd (prepare_history_root w d)) = hk_locked d"
    using prepare_lock [of d d w] by (simp add: same_lock_def)
  have o: "hk_locked (snd (open_lock_file w s)) = hk_locked s" for s
    using open_lock_file_lock [of s s w] by (simp add: same_lock_def)
  show "fst (acquire_lease w d) = Inr u \<Longrightarrow> \<not> hk_locked d \<and> hk_locked (snd (acquire_lease w d))"
    and "fst (acquire_lease w d) = Inl e \<Longrightarrow> hk_locked (snd (acquire_lease w d)) = hk_locked d"
    using p o [of "snd (prepare_history_root w d)"]
    by (cases "prepare_history_root w d"; cases "open_lock_file w (snd (prepare_history_root w d))";
        cases "fst (prepare_history_root w d)"; cases "fst (open_lock_file w (snd (prepare_history_root w d)))";
        auto simp: acquire_lease_def try_lock_def split: if_splits)+
qed

lemma create_store_lock:
  "hk_locked (snd (create_with_lease w stream q d)) \<longleftrightarrow>
     hk_locked d \<and> (\<exists>st. fst (create_with_lease w stream q d) = Inr st)"
proof -
  let ?inner = "attempt (create_root w d) (\<lambda>_ d.
     attempt (create_chunks_dir w d) (\<lambda>_ d.
     attempt (let (a, k) = hw_create_key w (hk_keys d) in (a, d\<lparr>hk_keys := k\<rparr>)) (\<lambda>key d.
     attempt (fail_unless (length (key_bytes key) = 32) KeyCorrupt d) (\<lambda>_ d.
       let (chunk, d) = fresh_opaque_id w d
       in attempt (random_prefix w d) (\<lambda>prefix4 d.
       let header = \<lparr>hdr_version = 1, hdr_algorithm = CHACHA20_POLY1305, hdr_epoch = key_epoch key,
             hdr_key_reference = key_reference key, hdr_stream = stream, hdr_chunk = chunk,
             hdr_prefix = prefix4\<rparr>;
           hb = hw_header_bytes w header;
           name = chunk_file_name chunk
       in attempt (within_quota w (length hb) q d) (\<lambda>_ d.
          attempt (create_chunk_file w name d) (\<lambda>_ d.
          attempt (write_chunk w name hb d) (\<lambda>_ d.
          attempt (io_step w d) (\<lambda>_ d.
          let (now, d) = mono_now w d
          in (Inr \<lparr>st_path = name, st_file = name, st_header = header, st_header_bytes = hb, st_key = key_bytes key,
                st_next_nonce = 0, st_quota = q, st_created = now\<rparr>, d))))))))))"
  have "same_lock d (snd ?inner)"
    unfolding Let_def split_beta fresh_opaque_id_def random_prefix_def mono_now_def
    by (intro lock_attempt create_root_lock create_chunks_dir_lock
        via_root [OF same_files_root [OF within_quota_files [OF same_files_refl]]]
        via_root [OF create_chunk_file_root [OF same_root_refl]]
        via_root [OF write_chunk_root [OF same_root_refl]]) simp_all
  moreover have "create_with_lease w stream q d = drop_on_error ?inner"
    by (simp only: create_with_lease_def)
  ultimately show ?thesis
    by (cases ?inner; cases "fst ?inner") (auto simp: drop_on_error_def same_lock_def release_lease_def)
qed


section \<open>The manager\<close>

text \<open>The flag, whether there is a writer, and the lease.\<close>

definition posture :: "'k history_manager \<Rightarrow> bool \<times> bool \<times> bool" where
  "posture m = (hm_enabled m, hm_writer m \<noteq> None, hk_locked (hm_disk m))"

definition bounded :: "'k history_manager \<Rightarrow> bool" where
  "bounded m = (queue_length m \<le> WRITER_QUEUE_CAPACITY)"

definition keeps :: "'k history_manager \<Rightarrow> 'k history_manager \<Rightarrow> bool" where
  "keeps m m' = (posture m' = posture m \<and> (bounded m \<longrightarrow> bounded m'))"

lemma keeps_refl [simp]: "keeps m m"
  by (simp add: keeps_def)

lemma keeps_trans [trans]: "keeps a b \<Longrightarrow> keeps b c \<Longrightarrow> keeps a c"
  by (simp add: keeps_def)

lemma keeps_fields [simp]:
  "keeps m (m'\<lparr>hm_paused := b\<rparr>) = keeps m m'" "keeps m (m'\<lparr>hm_dropped := n\<rparr>) = keeps m m'"
  "keeps m (m'\<lparr>hm_pending := n\<rparr>) = keeps m m'" "keeps m (m'\<lparr>hm_next := n\<rparr>) = keeps m m'"
  "keeps m (m'\<lparr>hm_health := h\<rparr>) = keeps m m'" "keeps m (m'\<lparr>hm_session_key := k\<rparr>) = keeps m m'"
  by (simp_all add: keeps_def posture_def bounded_def queue_length_def)

lemma keeps_disk: "same_lock (hm_disk m') d \<Longrightarrow> keeps m m' \<Longrightarrow> keeps m (m'\<lparr>hm_disk := d\<rparr>)"
  by (simp add: keeps_def posture_def bounded_def queue_length_def same_lock_def)

lemma keeps_attempt:
  "keeps m (snd r) \<Longrightarrow> (\<And>x s. keeps m s \<Longrightarrow> keeps m (snd (k x s))) \<Longrightarrow> keeps m (snd (attempt r k))"
  by (cases r; cases "fst r") auto

lemma keeps_on_disk:
  assumes "\<And>d. same_lock d (snd (f d))" "keeps m s" shows "keeps m (snd (on_disk f s))"
  using keeps_disk [OF assms(1) assms(2)] by (simp add: on_disk_def split_beta)

lemma keeps_via: "keeps s s' \<Longrightarrow> keeps m s \<Longrightarrow> keeps m s'"
  using keeps_trans by blast

lemma keeps_writer:
  assumes "same_base m m'" "hm_writer m' = None \<longleftrightarrow> hm_writer m = None" "bounded m \<Longrightarrow> bounded m'"
  shows "keeps m m'"
  using assms by (simp add: keeps_def posture_def same_base_def same_root_def)

lemma bounded_wqueue: "bounded m \<longleftrightarrow> length (wqueue m) \<le> WRITER_QUEUE_CAPACITY"
  by (simp add: bounded_def queue_length_wqueue)

lemma writer_step_keeps: "keeps m (snd (writer_step w cfg m))"
  by (rule keeps_writer [OF writer_step_base writer_step_present])
    (simp add: bounded_wqueue writer_step_queue)

lemma writer_runs_keeps_lease: "keeps m (snd (writer_runs w cfg n r m))"
  using writer_runs_keeps [of m w cfg n r] by (intro keeps_writer) (simp_all add: bounded_wqueue)

lemma blocking_send_keeps_lease: "keeps m (blocking_send w cfg msg m)"
proof (rule keeps_writer [OF blocking_send_keeps(1,2)])
  assume b: "bounded m"
  show "bounded (blocking_send w cfg msg m)"
  proof (cases "hm_writer m = None")
    case True
    then have "hm_writer (blocking_send w cfg msg m) = None" by (simp add: blocking_send_keeps(2))
    then show ?thesis by (simp add: bounded_def queue_length_def)
  next
    case False
    with b blocking_send_keeps(3) [OF False, of w cfg msg] show ?thesis
      by (auto simp: bounded_wqueue queue_length_wqueue WRITER_QUEUE_CAPACITY_def)
  qed
qed

lemma await_reply_keeps_lease: "keeps m (snd (await_reply w cfg m))"
proof -
  obtain n where n: "snd (await_reply w cfg m) = snd (writer_runs w cfg n None (m\<lparr>hm_disk := tick (hm_disk m)\<rparr>))"
    using await_reply_runs by blast
  show ?thesis unfolding n
    by (rule keeps_via [OF writer_runs_keeps_lease keeps_disk]) simp_all
qed

lemma send_await_keeps: "keeps m s \<Longrightarrow> keeps m (snd (await_reply w cfg (blocking_send w cfg msg s)))"
  by (rule keeps_via [OF await_reply_keeps_lease keeps_via [OF blocking_send_keeps_lease]])

lemma flush_writer_keeps_lease:
  assumes "keeps m s" shows "keeps m (snd (flush_writer w cfg s))"
proof -
  have "snd (flush_writer w cfg s) = (if hm_writer s = None then s
      else snd (await_reply w cfg (blocking_send w cfg FlushMessage s)))"
    by (auto simp: flush_writer_def split: prod.split option.split writer_reply.split)
  with assms send_await_keeps [OF assms] show ?thesis by simp
qed

lemma read_snapshot_keeps:
  assumes "keeps m s" shows "keeps m (snd (read_snapshot w cfg s))"
proof -
  have "snd (read_snapshot w cfg s) = snd (await_reply w cfg (blocking_send w cfg (ReadMessage (hc_retention_days cfg)) s))"
    by (auto simp: read_snapshot_def split: prod.split option.split writer_reply.split)
  with send_await_keeps [OF assms] show ?thesis by simp
qed

lemma send_and_flush_keeps: "keeps m s \<Longrightarrow> keeps m (snd (send_and_flush w cfg e s))"
  unfolding send_and_flush_def send_lossless_def
  by (intro keeps_attempt flush_writer_keeps_lease)
    (auto split: sum.split intro: keeps_via [OF blocking_send_keeps_lease])

lemma build_event_keeps: "keeps m s \<Longrightarrow> keeps m (snd (build_event w cfg t subj sid aid cap p s))"
  by (simp add: build_event_def Let_def keeps_disk)

lemma send_control_keeps: "keeps m s \<Longrightarrow> keeps m (snd (send_control w cfg c s))"
  by (simp add: send_control_def control_event_def split_beta send_and_flush_keeps build_event_keeps)

lemma directory_bytes_lock: "same_lock d (snd (directory_bytes w d))"
  by (rule root_lock [OF same_files_root [OF directory_bytes_files [OF same_files_refl]]])

lemma answer_status_keeps: "keeps m s \<Longrightarrow> keeps m (snd (answer_status w cfg s))"
  using keeps_on_disk [OF directory_bytes_lock] by (simp add: answer_status_def status_def split_beta)

lemma persist_keeps: "keeps m s \<Longrightarrow> keeps m (snd (persist_state w en pa s))"
  unfolding persist_state_def by (rule keeps_on_disk [OF write_state_lock [OF same_lock_refl]])

lemma session_key_keeps: "keeps m s \<Longrightarrow> keeps m (snd (ensure_session_id_key w s))"
  by (auto simp: ensure_session_id_key_def split_beta keeps_disk Let_def split: sum.split option.split)

lemma history_session_id_keeps: "keeps m s \<Longrightarrow> keeps m (snd (history_session_id w v s))"
  unfolding history_session_id_def
  by (intro keeps_attempt session_key_keeps) (auto split: option.split)


lemma select_events_keeps: "keeps m s \<Longrightarrow> keeps m (snd (select_events w cfg q es s))"
  unfolding select_events_def session_filter_def Let_def
  by (intro keeps_attempt)
    (auto simp: split_beta wall_now_def split: option.split
      intro!: keeps_attempt history_session_id_keeps keeps_on_disk)

lemma query_with_writer_keeps: "keeps m s \<Longrightarrow> keeps m (snd (query_with_writer w cfg q op s))"
  unfolding query_with_writer_def access_event_def split_beta Let_def
  by (intro keeps_attempt read_snapshot_keeps select_events_keeps)
    (auto intro!: keeps_attempt send_and_flush_keeps build_event_keeps)


section \<open>Taking and giving back the lease\<close>

text \<open>The flag and the writer stay, whatever happens to the disk.\<close>

definition same_hold :: "'k history_manager \<Rightarrow> 'k history_manager \<Rightarrow> bool" where
  "same_hold m m' = (hm_enabled m' = hm_enabled m \<and> hm_writer m' = hm_writer m)"

lemma same_hold_simps [simp]:
  "same_hold m m" "same_hold m (s\<lparr>hm_disk := d\<rparr>) = same_hold m s" "same_hold m (s\<lparr>hm_next := n\<rparr>) = same_hold m s"
  "same_hold m (s\<lparr>hm_session_key := k\<rparr>) = same_hold m s" "same_hold m (s\<lparr>hm_health := h\<rparr>) = same_hold m s"
  by (simp_all add: same_hold_def)

lemma hold_attempt:
  "same_hold m (snd r) \<Longrightarrow> (\<And>x s. same_hold m s \<Longrightarrow> same_hold m (snd (k x s))) \<Longrightarrow> same_hold m (snd (attempt r k))"
  by (cases r; cases "fst r") auto

lemma hold_on_disk: "same_hold m s \<Longrightarrow> same_hold m (snd (on_disk f s))"
  by (simp add: on_disk_def split_beta)

lemma hold_session_key: "same_hold m s \<Longrightarrow> same_hold m (snd (ensure_session_id_key w s))"
  by (auto simp: ensure_session_id_key_def split_beta Let_def split: sum.split option.split)

lemma hold_select: "same_hold m s \<Longrightarrow> same_hold m (snd (select_events w cfg q es s))"
  unfolding select_events_def session_filter_def history_session_id_def Let_def
  by (intro hold_attempt)
    (auto simp: split_beta split: option.split intro!: hold_attempt hold_session_key hold_on_disk)

lemma hold_one_shot: "same_hold m s \<Longrightarrow> same_hold m (snd (one_shot_audit w cfg e s))"
  unfolding one_shot_audit_def Let_def split_beta
  by (intro hold_attempt hold_on_disk) simp_all

lemma hold_query: "same_hold m s \<Longrightarrow> same_hold m (snd (query_under_lease w cfg q op s))"
  unfolding query_under_lease_def access_event_def build_event_def split_beta Let_def
  by (intro hold_attempt hold_on_disk hold_select) (auto intro!: hold_attempt hold_one_shot)

lemma query_without_writer_keeps:
  assumes "\<not> hk_locked (hm_disk m)"
  shows "keeps m (snd (query_without_writer w cfg q op m))"
proof (cases "acquire_lease w (hm_disk m)")
  case (Pair r d)
  show ?thesis
  proof (cases r)
    case (Inl e)
    with Pair acquire_lock(2) [of w "hm_disk m" e] show ?thesis
      by (simp add: query_without_writer_def on_disk_def keeps_disk same_lock_def)
  next
    case (Inr u)
    have "same_hold m (snd (query_under_lease w cfg q op (m\<lparr>hm_disk := d\<rparr>)))"
      by (rule hold_query) simp
    with Inr Pair assms show ?thesis
      by (simp add: query_without_writer_def on_disk_def split_beta keeps_def posture_def bounded_def
          queue_length_def same_hold_def release_lease_def)
  qed
qed

lemma hold_append_first: "same_hold m s \<Longrightarrow> same_hold m (snd (append_first w first st s))"
  unfolding append_first_def Let_def split_beta
  by (auto split: option.split intro!: hold_attempt hold_on_disk)

lemma hold_open_store: "same_hold m s \<Longrightarrow> same_hold m (snd (open_store w cfg first s))"
  unfolding open_store_def
  by (intro hold_attempt hold_on_disk hold_session_key hold_append_first) simp_all


lemma store_append_lock: "same_lock d (snd (snd (store_append w e st d)))"
  by (rule root_lock [OF store_append_root [OF same_root_refl]])

lemma read_all_lock: "same_lock d (snd (read_all w q d))"
  by (rule root_lock [OF same_files_root [OF read_all_files [OF same_files_refl]]])

lemma read_events_lock: "same_lock d (snd (read_events w st d))"
  by (rule root_lock [OF same_files_root [OF read_events_files [OF same_files_refl]]])

lemma prune_lock: "same_lock d (snd (prune_expired_chunks w days d))"
  by (rule root_lock [OF prune_all_root [OF same_root_refl]])

lemma append_first_keeps:
  assumes "keeps m s" shows "keeps m (snd (append_first w first st s))"
proof (cases first)
  case None
  with assms show ?thesis by (simp add: append_first_def)
next
  case (Some e)
  have a: "keeps m (s1\<lparr>hm_disk := snd (snd (store_append w e1 st (hm_disk s1)))\<rparr>)" if "keeps m s1" for s1 e1
    by (rule keeps_disk [OF store_append_lock that])
  show ?thesis
    unfolding append_first_def Some option.case Let_def split_beta
    by (intro keeps_attempt keeps_on_disk [OF read_events_lock])
      (use assms a in \<open>auto intro!: keeps_attempt keeps_on_disk [OF read_events_lock] split: if_splits\<close>)
qed

lemma open_store_lock:
  assumes "open_store w cfg first m = (Inr st, m')" "hk_locked (hm_disk m)"
  shows "hk_locked (hm_disk m')"
proof -
  from assms(1) obtain es m1 u2 m2 u3 m3 st0 m4 where
    1: "on_disk (read_all w (hc_quota_bytes cfg)) m = (Inr es, m1)"
    and 2: "ensure_session_id_key w m1 = (Inr u2, m2)"
    and 3: "on_disk (prune_expired_chunks w (hc_retention_days cfg)) m2 = (Inr u3, m3)"
    and 4: "on_disk (create_with_lease w (hc_stream cfg) (hc_quota_bytes cfg)) m3 = (Inr st0, m4)"
    and 5: "append_first w first st0 (m4\<lparr>hm_next := saturating_succ (max_sequence es)\<rparr>) = (Inr st, m')"
    unfolding open_store_def attempt_ok by blast
  have k1: "keeps m m1" using keeps_on_disk [of "read_all w (hc_quota_bytes cfg)", OF read_all_lock keeps_refl [of m]] 1 by simp
  have k2: "keeps m m2" using session_key_keeps [OF k1, of w] 2 by simp
  have k3: "keeps m m3" using keeps_on_disk [of "prune_expired_chunks w (hc_retention_days cfg)", OF prune_lock k2] 3 by simp
  have l3: "hk_locked (hm_disk m3)" using k3 assms(2) by (simp add: keeps_def posture_def)
  obtain d where d: "create_with_lease w (hc_stream cfg) (hc_quota_bytes cfg) (hm_disk m3) = (Inr st0, d)"
    "m4 = m3\<lparr>hm_disk := d\<rparr>" using 4 by (auto simp: on_disk_def split_beta prod_eq_iff)
  have "hk_locked d"
    using create_store_lock [of w "hc_stream cfg" "hc_quota_bytes cfg" "hm_disk m3"] d(1) l3 by simp
  moreover have "keeps m4 m'"
    using append_first_keeps [of m4 "m4\<lparr>hm_next := saturating_succ (max_sequence es)\<rparr>" w first st0] 5 by simp
  ultimately show ?thesis by (simp add: d(2) keeps_def posture_def)
qed

text \<open>Starting either ends with a writer and the lease, or with neither.\<close>

lemma start_writer_posture:
  assumes "hm_writer m = None" "\<not> hk_locked (hm_disk m)"
    and that: "start_ok = (\<exists>u. fst (start_writer w cfg first m) = Inr u)"
  shows "posture (snd (start_writer w cfg first m)) = (hm_enabled m, start_ok, start_ok)
    \<and> bounded (snd (start_writer w cfg first m))"
proof (cases "acquire_lease w (hm_disk m)")
  case (Pair r d)
  show ?thesis
  proof (cases r)
    case (Inl e)
    with Pair acquire_lock(2) [of w "hm_disk m" e] assms that show ?thesis
      by (simp add: start_writer_def on_disk_def posture_def bounded_def queue_length_def)
  next
    case (Inr u)
    let ?o = "open_store w cfg first (m\<lparr>hm_disk := d\<rparr>)"
    have l: "hk_locked d" using acquire_lock(1) [of w "hm_disk m"] Pair Inr by simp
    have h: "hm_enabled (snd ?o) = hm_enabled m" "hm_writer (snd ?o) = None"
      using hold_open_store [of m "m\<lparr>hm_disk := d\<rparr>" w cfg first] assms(1) by (simp_all add: same_hold_def)
    have lo: "fst ?o = Inr st \<Longrightarrow> hk_locked (hm_disk (snd ?o))" for st
      using open_store_lock [of w cfg first "m\<lparr>hm_disk := d\<rparr>" st "snd ?o"] l by (simp add: prod_eq_iff)
    show ?thesis
      using that Pair Inr assms(1) h lo
      by (cases ?o; cases "fst ?o")
        (auto simp: start_writer_def on_disk_def store_on_error_def posture_def bounded_def queue_length_def
          release_lease_def mono_now_def WRITER_QUEUE_CAPACITY_def Let_def)
  qed
qed

lemma stop_writer_posture:
  assumes "hk_locked (hm_disk m) \<Longrightarrow> hm_writer m \<noteq> None"
  shows "posture (stop_writer w cfg m) = (hm_enabled m, False, False) \<and> bounded (stop_writer w cfg m)"
proof (cases "hm_writer m = None")
  case True
  with assms show ?thesis by (auto simp: stop_writer_def posture_def bounded_def queue_length_def)
next
  case False
  have "hm_enabled (stop_writer w cfg m) = hm_enabled m"
    using stop_writer_settled [of m w cfg] by (simp add: settled_def)
  moreover from False obtain wr where "hm_writer m = Some wr" by blast
  ultimately show ?thesis
    by (simp add: stop_writer_def Let_def posture_def bounded_def queue_length_def release_lease_def)
qed



section \<open>The operations\<close>

definition history_ok :: "'k history_manager \<Rightarrow> bool" where
  "history_ok m =
     ((hm_writer m \<noteq> None) = hm_enabled m \<and> hk_locked (hm_disk m) = hm_enabled m \<and> bounded m)"

lemma history_ok_posture: "history_ok m \<longleftrightarrow> posture m = (hm_enabled m, hm_enabled m, hm_enabled m) \<and> bounded m"
  by (auto simp: history_ok_def posture_def)

lemma keeps_ok: "keeps m m' \<Longrightarrow> history_ok m \<Longrightarrow> history_ok m'"
  by (auto simp: keeps_def history_ok_def posture_def)

lemma keeps_attempt_ok:
  assumes "keeps m (snd r)" "history_ok m"
    and "\<And>x s. r = (Inr x, s) \<Longrightarrow> keeps m s \<Longrightarrow> history_ok (snd (k x s))"
  shows "history_ok (snd (attempt r k))"
  using assms keeps_ok by (cases r; cases "fst r") auto

lemma enable_ok:
  assumes "history_ok m" shows "history_ok (snd (enable w cfg m))"
proof -
  let ?c = "control_event w cfg EnableHistory (m\<lparr>hm_paused := False\<rparr>)"
  let ?s = "start_writer w cfg (Some (fst ?c)) (snd ?c)"
  have k: "keeps m (snd ?c)" unfolding control_event_def by (rule build_event_keeps) simp
  show ?thesis
  proof (cases "hc_admitted cfg \<and> \<not> hm_enabled m")
    case False
    with assms keeps_ok [OF answer_status_keeps [OF keeps_refl] assms] show ?thesis by (auto simp: enable_def)
  next
    case True
    with k assms have idle: "hm_writer (snd ?c) = None" "\<not> hk_locked (hm_disk (snd ?c))" "\<not> hm_enabled (snd ?c)"
      by (auto simp: keeps_def posture_def history_ok_def)
    note start = start_writer_posture [OF idle(1,2) refl, of w cfg "Some (fst ?c)"]
    show ?thesis
    proof (cases "fst ?s")
      case (Inl e)
      with start idle True show ?thesis
        by (cases ?s) (auto simp: enable_def split_beta posture_def history_ok_def)
    next
      case (Inr u)
      then obtain m1 where m1: "?s = (Inr (), m1)" by (cases ?s) auto
      with start idle have p1: "posture m1 = (False, True, True)" "bounded m1" by simp_all
      have p: "keeps m1 (snd (persist_state w True False m1))" by (rule persist_keeps) simp
      show ?thesis
      proof (cases "persist_state w True False m1")
        case (Pair r m2)
        with p p1 have p2: "posture m2 = (False, True, True)" "bounded m2" by (simp_all add: keeps_def)
        show ?thesis
        proof (cases r)
          case (Inl e)
          have "posture (stop_writer w cfg m2) = (False, False, False) \<and> bounded (stop_writer w cfg m2)"
            using stop_writer_posture [of m2 w cfg] p2 by (simp add: posture_def)
          with True m1 Pair Inl show ?thesis
            by (simp add: enable_def split_beta history_ok_def posture_def bounded_def queue_length_def)
        next
          case (Inr u)
          have "history_ok (m2\<lparr>hm_enabled := True, hm_health := Ready\<rparr>)"
            using p2 by (simp add: history_ok_def posture_def bounded_def queue_length_def)
          with keeps_ok [OF answer_status_keeps [OF keeps_refl]] True m1 Pair Inr show ?thesis
            by (simp add: enable_def split_beta)
        qed
      qed
    qed
  qed
qed

lemma off_ok:
  "posture m = (False, False, False) \<Longrightarrow> bounded m \<Longrightarrow>
     history_ok (snd (answer_status w cfg (m\<lparr>hm_enabled := False, hm_paused := p, hm_health := h\<rparr>)))"
  by (rule keeps_ok [OF answer_status_keeps [OF keeps_refl]])
    (simp add: history_ok_def posture_def bounded_def queue_length_def)

lemma stopped_after:
  assumes "keeps m s" "history_ok m"
  shows "posture (stop_writer w cfg (snd (send_control w cfg c (s\<lparr>hm_enabled := False\<rparr>)))) = (False, False, False)
    \<and> bounded (stop_writer w cfg (snd (send_control w cfg c (s\<lparr>hm_enabled := False\<rparr>))))"
proof -
  let ?s = "s\<lparr>hm_enabled := False\<rparr>"
  have "keeps ?s (snd (send_control w cfg c ?s))" by (rule send_control_keeps) simp
  moreover have "posture ?s = (False, hm_enabled m, hm_enabled m)"
    using assms by (simp add: keeps_def posture_def history_ok_def)
  ultimately have "posture (snd (send_control w cfg c ?s)) = (False, hm_enabled m, hm_enabled m)"
    by (simp add: keeps_def)
  with stop_writer_posture [of "snd (send_control w cfg c ?s)" w cfg] show ?thesis
    by (auto simp: posture_def)
qed

lemma disable_ok:
  assumes "history_ok m" shows "history_ok (snd (disable w cfg m))"
proof (cases "hm_enabled m")
  case False
  have k: "keeps m (snd (persist_state w False False m))" by (rule persist_keeps) simp
  show ?thesis
  proof (cases "persist_state w False False m")
    case (Pair r s)
    with k False assms have s: "posture s = (False, False, False)" "bounded s" "history_ok s"
      by (auto simp: keeps_def posture_def history_ok_def)
    with False Pair show ?thesis by (cases r) (simp_all add: disable_def off_ok)
  qed
next
  case True
  let ?m = "m\<lparr>hm_enabled := False\<rparr>"
  have k: "keeps ?m (snd (persist_state w False False ?m))" by (rule persist_keeps) simp
  show ?thesis
  proof (cases "persist_state w False False ?m")
    case (Pair r m1)
    then have e: "hm_enabled m1 = False" and k1: "keeps m (m1\<lparr>hm_enabled := True\<rparr>)"
      using k True by (simp_all add: keeps_def posture_def bounded_def queue_length_def)
    show ?thesis
    proof (cases r)
      case (Inl x)
      with True Pair keeps_ok [OF k1 assms] show ?thesis by (simp add: disable_def)
    next
      case (Inr u)
      have "m1\<lparr>hm_enabled := True\<rparr>\<lparr>hm_enabled := False\<rparr> = m1" using e by simp
      with stopped_after [OF k1 assms, of w cfg DisableHistory] True Pair Inr show ?thesis
        by (simp add: disable_def off_ok)
    qed
  qed
qed

lemma keeps_case:
  "keeps m (snd r) \<Longrightarrow> (\<And>e s. keeps m s \<Longrightarrow> keeps m (snd (f e s))) \<Longrightarrow> (\<And>x s. keeps m s \<Longrightarrow> keeps m (snd (g x s)))
     \<Longrightarrow> keeps m (snd (case r of (Inl e, s) \<Rightarrow> f e s | (Inr x, s) \<Rightarrow> g x s))"
  by (cases r; cases "fst r") auto

lemma pause_keeps: "keeps m (snd (pause w cfg m))"
  unfolding pause_def require_enabled_def require_admitted_def
  by (intro keeps_attempt persist_keeps keeps_case send_control_keeps answer_status_keeps)
    (simp_all add: persist_keeps)

lemma resume_keeps: "keeps m (snd (resume w cfg m))"
  unfolding resume_def require_enabled_def require_admitted_def
  by (intro keeps_attempt persist_keeps keeps_case send_control_keeps answer_status_keeps)
    (simp_all add: persist_keeps)

lemma flush_history_keeps: "keeps m (snd (flush_history w cfg m))"
  unfolding flush_history_def require_enabled_def require_admitted_def
  by (intro keeps_attempt send_control_keeps answer_status_keeps) simp_all

lemma delete_under_lease_keeps:
  assumes "keeps m s" shows "keeps m (snd (delete_under_lease w s))"
proof -
  have d: "same_lock d (snd (destroy_keys w rs d))" for d rs by (rule destroy_keys_lock) simp
  have r: "same_lock d (snd (remove_history_files w d))" for d
    by (rule root_lock [OF remove_history_files_root [OF same_root_refl]])
  have h: "keeps m (snd (health_on_error x))" if "keeps m (snd x)" for x :: "('a, 'b) hm_result"
    using that by (simp add: health_on_error_def split: sum.split)
  show ?thesis
    unfolding delete_under_lease_def
    by (intro keeps_attempt h keeps_on_disk [OF d]) (auto simp: assms intro!: keeps_attempt h keeps_on_disk [OF r])
qed

lemma delete_all_ok:
  assumes "history_ok m" shows "history_ok (snd (delete_all w cfg m))"
proof -
  define m0 where "m0 = (if hm_enabled m
     then stop_writer w cfg (snd (send_control w cfg DeleteHistory (m\<lparr>hm_enabled := False, hm_paused := False\<rparr>)))
     else m)\<lparr>hm_enabled := False, hm_paused := False\<rparr>"
  have "m\<lparr>hm_paused := False\<rparr>\<lparr>hm_enabled := False\<rparr> = m\<lparr>hm_enabled := False, hm_paused := False\<rparr>" by simp
  note st = stopped_after [of m "m\<lparr>hm_paused := False\<rparr>" w cfg DeleteHistory, unfolded this]
  have p0: "posture m0 = (False, False, False)" "bounded m0"
    using st assms
    by (auto simp: m0_def history_ok_def posture_def bounded_def queue_length_def)
  have ok0: "history_ok m0" using p0 by (simp add: history_ok_posture posture_def)
  have "history_ok (snd (attempt (persist_state w False False m0) (\<lambda>_ m.
      attempt (on_disk (acquire_lease w) m) (\<lambda>_ m.
      attempt (let (r, m) = delete_under_lease w m in (r, m\<lparr>hm_disk := release_lease (hm_disk m)\<rparr>)) (\<lambda>_ m.
        answer_status w cfg m)))))"
  proof (rule keeps_attempt_ok [OF persist_keeps [OF keeps_refl] ok0])
    fix x s assume k: "keeps m0 s"
    with p0 have s: "posture s = (False, False, False)" "bounded s" by (simp_all add: keeps_def)
    obtain r d where a: "acquire_lease w (hm_disk s) = (r, d)" by fastforce
    show "history_ok (snd (attempt (on_disk (acquire_lease w) s) (\<lambda>_ m.
      attempt (let (r, m) = delete_under_lease w m in (r, m\<lparr>hm_disk := release_lease (hm_disk m)\<rparr>)) (\<lambda>_ m.
        answer_status w cfg m))))"
    proof (cases r)
      case (Inl e)
      with a acquire_lock(2) [of w "hm_disk s" e] s show ?thesis
        by (simp add: on_disk_def history_ok_def posture_def bounded_def queue_length_def)
    next
      case (Inr u)
      let ?s = "s\<lparr>hm_disk := d\<rparr>"
      have "keeps ?s (snd (delete_under_lease w ?s))" by (rule delete_under_lease_keeps) simp
      then have "history_ok ((snd (delete_under_lease w ?s))\<lparr>hm_disk := release_lease (hm_disk (snd (delete_under_lease w ?s)))\<rparr>)"
        using s by (simp add: history_ok_def keeps_def posture_def bounded_def queue_length_def release_lease_def)
      then show ?thesis
        using a Inr keeps_ok [OF answer_status_keeps [OF keeps_refl]]
        by (cases "delete_under_lease w ?s"; cases "fst (delete_under_lease w ?s)") (simp_all add: on_disk_def)
    qed
  qed
  then show ?thesis by (simp add: delete_all_def m0_def [symmetric] Let_def)
qed

lemma query_ok:
  assumes "history_ok m" shows "history_ok (snd (query_history w cfg q op m))"
proof -
  have "keeps m (snd (query_history w cfg q op m))"
  proof (cases "hm_writer m = None")
    case True
    with assms have "\<not> hk_locked (hm_disk m)" by (auto simp: history_ok_def)
    with True query_without_writer_keeps show ?thesis
      by (auto simp: query_history_def require_admitted_def attempt_def split: sum.split)
  next
    case False
    with query_with_writer_keeps [OF keeps_refl] show ?thesis
      by (auto simp: query_history_def require_admitted_def attempt_def split: sum.split)
  qed
  then show ?thesis using assms by (rule keeps_ok)
qed



section \<open>Producers and the writer's turns\<close>

lemma record_drop_keeps: "keeps m s \<Longrightarrow> keeps m (record_drop s)"
  by (simp add: record_drop_def)

lemma try_enqueue_keeps: "keeps m s \<Longrightarrow> keeps m (snd (try_enqueue msg s))"
  by (auto simp: try_enqueue_def enqueue_def keeps_def posture_def bounded_def queue_length_def
      WRITER_QUEUE_CAPACITY_def split: option.split)

lemma report_drops_keeps: "keeps m s \<Longrightarrow> keeps m (report_drops w cfg s)"
  unfolding report_drops_def Let_def split_beta
  by (simp add: build_event_keeps try_enqueue_keeps)

lemma try_send_keeps: "keeps m s \<Longrightarrow> keeps m (try_send w cfg free e pid win s)"
  unfolding try_send_def Let_def split_beta
  by (simp add: record_drop_keeps try_enqueue_keeps report_drops_keeps)

lemma pseudonym_keeps:
  assumes "keeps m s" shows "keeps m (snd (pseudonym w v s))"
proof (cases "nonempty v")
  case (Some x)
  have "keeps m (snd (history_session_id w x s))" by (rule history_session_id_keeps [OF assms])
  with Some show ?thesis by (auto simp: pseudonym_def split: prod.split sum.split)
qed (simp add: pseudonym_def assms)

lemma begin_action_keeps: "keeps m (snd (begin_action w cfg free tool args label m))"
proof -
  have "keeps m (snd (on_disk (fresh_opaque_id w) m))" by (rule keeps_on_disk) (simp_all add: fresh_opaque_id_def)
  then show ?thesis
    unfolding begin_action_def Let_def split_beta
    by (simp add: try_send_keeps build_event_keeps pseudonym_keeps)
qed

lemma finish_action_keeps: "keeps m (finish_history_action w cfg free p r failed m)"
  unfolding finish_history_action_def Let_def split_beta
  by (simp add: try_send_keeps build_event_keeps)

lemma session_event_keeps: "keeps m (session_event w cfg free session started m)"
  unfolding session_event_def Let_def split_beta
  by (simp add: try_send_keeps build_event_keeps pseudonym_keeps)

lemma writer_idle_keeps: "keeps m (writer_idle w cfg m)"
proof (cases "hm_writer m")
  case (Some wr)
  have "hk_locked (snd (snd (checkpoint_retention w (hc_retention_days cfg) (wr_store wr) (hm_disk m)))) = hk_locked (hm_disk m)"
    using root_lock [OF checkpoint_root [OF same_root_refl]] by (simp add: same_lock_def)
  with Some show ?thesis
    by (auto simp: writer_idle_def Let_def split_beta mono_now_def keeps_def posture_def bounded_def
        queue_length_def split: sum.split)
qed (simp add: writer_idle_def)


section \<open>Histories\<close>

datatype history_operation =
    Enable | Disable | Pause | Resume | Flush | Delete
  | Query history_query access_operation
  | Begin bool string json "string option"
  | Finish bool pending_action "execution_record option" bool
  | SessionBoundary bool "string option" bool
  | WriterTurn | WriterIdles

fun history_step ::
    "'k history_world \<Rightarrow> history_config \<Rightarrow> history_operation \<Rightarrow> 'k history_manager \<Rightarrow> 'k history_manager" where
  "history_step w cfg Enable m = snd (enable w cfg m)"
| "history_step w cfg Disable m = snd (disable w cfg m)"
| "history_step w cfg Pause m = snd (pause w cfg m)"
| "history_step w cfg Resume m = snd (resume w cfg m)"
| "history_step w cfg Flush m = snd (flush_history w cfg m)"
| "history_step w cfg Delete m = snd (delete_all w cfg m)"
| "history_step w cfg (Query q op) m = snd (query_history w cfg q op m)"
| "history_step w cfg (Begin free tool args label) m = snd (begin_action w cfg free tool args label m)"
| "history_step w cfg (Finish free p r failed) m = finish_history_action w cfg free p r failed m"
| "history_step w cfg (SessionBoundary free session started) m = session_event w cfg free session started m"
| "history_step w cfg WriterTurn m = snd (writer_step w cfg m)"
| "history_step w cfg WriterIdles m = writer_idle w cfg m"

definition history_run ::
    "'k history_world \<Rightarrow> history_config \<Rightarrow> history_operation list \<Rightarrow> 'k history_manager \<Rightarrow> 'k history_manager" where
  "history_run w cfg ops m = fold (history_step w cfg) ops m"

lemma history_step_ok: "history_ok m \<Longrightarrow> history_ok (history_step w cfg op m)"
  by (cases op)
    (simp_all add: enable_ok disable_ok delete_all_ok query_ok keeps_ok [OF pause_keeps] keeps_ok [OF resume_keeps]
      keeps_ok [OF flush_history_keeps] keeps_ok [OF begin_action_keeps] keeps_ok [OF finish_action_keeps]
      keeps_ok [OF session_event_keeps] keeps_ok [OF writer_step_keeps] keeps_ok [OF writer_idle_keeps])

lemma history_run_ok: "history_ok m \<Longrightarrow> history_ok (history_run w cfg ops m)"
  unfolding history_run_def by (induction ops arbitrary: m) (simp_all add: history_step_ok)

lemma new_history_ok:
  assumes "\<not> hk_locked d" shows "history_ok (new_history w cfg d)"
proof -
  obtain p d1 where r: "read_state w d = (p, d1)" and l: "\<not> hk_locked d1"
    using assms by (cases "read_state w d") (auto simp: read_state_def)
  define en where "en = (case p of None \<Rightarrow> False | Some v \<Rightarrow> fst v)"
  define m where "m = \<lparr>hm_disk = d1, hm_enabled = en \<and> hc_admitted cfg,
     hm_paused = (case p of None \<Rightarrow> False | Some v \<Rightarrow> snd v), hm_dropped = 0, hm_pending = 0, hm_next = 1,
     hm_health = (if en then WriterStopped else HistoryOff), hm_session_key = None, hm_writer = None\<rparr>"
  have n: "new_history w cfg d = (if hm_enabled m
         then (case start_writer w cfg None m of
                 (Inr _, m) \<Rightarrow> m\<lparr>hm_health := if hm_paused m then HistoryPaused else Ready\<rparr>
               | (Inl e, m) \<Rightarrow> m\<lparr>hm_health := e, hm_enabled := False\<rparr>)
         else if \<not> hc_admitted cfg \<and> en then m\<lparr>hm_health := NotAdmitted\<rparr> else m)"
    by (cases p) (simp_all add: new_history_def r m_def en_def split_beta Let_def)
  have idle: "hm_writer m = None" "\<not> hk_locked (hm_disk m)" using l by (simp_all add: m_def)
  note start = start_writer_posture [OF idle refl, of w cfg None]
  show ?thesis
  proof (cases "hm_enabled m")
    case False
    with idle n show ?thesis by (simp add: history_ok_def bounded_def queue_length_def)
  next
    case True
    with n start show ?thesis
      by (cases "start_writer w cfg None m"; cases "fst (start_writer w cfg None m)")
        (auto simp: history_ok_def posture_def bounded_def queue_length_def)
  qed
qed

text \<open>C26. The lease never leaks and never lapses. In every history of a manager that was built while
  nobody held the lease, whichever system calls fail and wherever the operations stop: the writer runs
  and holds the lease exactly while the history is on, and at most 512 messages wait for it.\<close>

theorem lease_is_held_exactly_while_on:
  assumes "\<not> hk_locked d" and "m = history_run w cfg ops (new_history w cfg d)"
  shows "(hm_writer m \<noteq> None \<longleftrightarrow> hm_enabled m) \<and> (hk_locked (hm_disk m) \<longleftrightarrow> hm_enabled m)
    \<and> queue_length m \<le> 512"
  using history_run_ok [OF new_history_ok [OF assms(1), of w cfg], of w cfg ops] assms(2)
  by (auto simp: history_ok_def bounded_def WRITER_QUEUE_CAPACITY_def)

end
