(* ===== verification/HistoryPurge.thy ===== *)
theory HistoryPurge
  imports HistoryDurable
begin

text \<open>
  The offline purge, interrupted anywhere: the keys go before the ciphertext, and the marker that lets a
  later purge skip the keys is published only when they are gone.
\<close>

section \<open>Before the keys are destroyed\<close>

text \<open>The chunks are there, the marker of a completed purge did not appear, and the root is the same.\<close>

definition purge_marked :: "'k history_disk \<Rightarrow> bool" where
  "purge_marked d = kv_has (hk_entries d) PURGED_ROOT_MARKER_NAME"

definition untouched :: "'k history_disk \<Rightarrow> 'k history_disk \<Rightarrow> bool" where
  "untouched d d' =
     (hk_root d' = hk_root d \<and> hk_chunks d' = hk_chunks d \<and> (purge_marked d' \<longrightarrow> purge_marked d))"

lemma untouched_refl [simp]: "untouched d d"
  by (simp add: untouched_def)

lemma untouched_trans [trans]: "untouched a b \<Longrightarrow> untouched b c \<Longrightarrow> untouched a c"
  by (auto simp: untouched_def)

lemma untouched_updates [simp]:
  "untouched d (tick s) = untouched d s" "untouched d (s\<lparr>hk_keys := k\<rparr>) = untouched d s"
  "untouched d (s\<lparr>hk_locked := l\<rparr>) = untouched d s"
  by (simp_all add: untouched_def purge_marked_def)

lemma untouched_put:
  assumes "n \<noteq> PURGED_ROOT_MARKER_NAME"
  shows "untouched d (s\<lparr>hk_entries := kv_put n v (hk_entries s)\<rparr>) = untouched d s"
    "untouched d (tick s\<lparr>hk_entries := kv_put n v (hk_entries s)\<rparr>) = untouched d s"
  using assms by (simp_all add: untouched_def purge_marked_def)

lemma untouched_del: "untouched d s \<Longrightarrow> untouched d (s\<lparr>hk_entries := kv_del n (hk_entries s)\<rparr>)"
  by (auto simp: untouched_def purge_marked_def)

lemma untouched_attempt:
  "untouched d (snd r) \<Longrightarrow> (\<And>x s. untouched d s \<Longrightarrow> untouched d (snd (k x s)))
     \<Longrightarrow> untouched d (snd (attempt r k))"
  by (cases r; cases "fst r") auto

lemma files_untouched: "same_files s s' \<Longrightarrow> untouched d s \<Longrightarrow> untouched d s'"
  by (simp add: same_files_def same_root_def untouched_def purge_marked_def)

lemma remove_root_file_untouched: "untouched d s \<Longrightarrow> untouched d (snd (remove_root_file w n s))"
  unfolding remove_root_file_def by (intro untouched_attempt) (simp_all add: untouched_del)

lemma open_lock_file_untouched: "untouched d s \<Longrightarrow> untouched d (snd (open_lock_file w s))"
  unfolding open_lock_file_def
  by (auto simp: wall_now_def untouched_put marker_defs split: option.split intro!: untouched_attempt)

lemma try_lock_untouched: "untouched d s \<Longrightarrow> untouched d (snd (try_lock w s))"
  by (simp add: try_lock_def)

lemma transitional_files: "same_files d s \<Longrightarrow> same_files d (snd (transitional_entry_ok w m c name n s))"
  unfolding transitional_entry_ok_def
  by (intro files_attempt) (auto intro: must_read_files)

lemma transitional_layout_files: "same_files d s \<Longrightarrow> same_files d (snd (validate_transitional_purge_layout w m c s))"
  unfolding validate_transitional_purge_layout_def root_is_directory_def reject_unsafe_root_components_def
  by (intro files_attempt check_entries_files transitional_files) simp_all

lemma layout_untouched:
  "untouched d s \<Longrightarrow> untouched d (snd (validate_transitional_purge_layout w m c s))"
  by (rule files_untouched [OF transitional_layout_files [OF same_files_refl]])

lemma recover_untouched: "untouched d s \<Longrightarrow> untouched d (snd (recover_interrupted_purge_marker w s))"
  unfolding recover_interrupted_purge_marker_def root_has_def validate_purge_staging_layout_def drop_lease_def
    release_lease_def Let_def split_beta
  by (auto intro!: untouched_attempt layout_untouched open_lock_file_untouched try_lock_untouched
      remove_root_file_untouched)

lemma claim_untouched: "untouched d s \<Longrightarrow> untouched d (snd (claim_root w s))"
  unfolding claim_root_def create_root_file_def write_root_file_def Let_def wall_now_def split_beta
  by (intro untouched_attempt) (simp_all add: untouched_put marker_defs split: if_split)

lemma prepare_untouched:
  assumes "hk_root s = Some FsDirectory" "untouched d s"
  shows "untouched d (snd (prepare_history_root w s))"
proof -
  have l: "untouched d (snd (validate_history_root_layout w x))" if "untouched d x" for x
    by (rule files_untouched [OF root_layout_files [OF same_files_refl] that])
  have m: "untouched d (snd (must_read w n c x))" if "untouched d x" for x n c
    by (rule files_untouched [OF must_read_files [OF same_files_refl] that])
  have "hk_root d = Some FsDirectory" using assms by (simp add: untouched_def)
  then have root: "untouched d (snd (case hk_root x of None \<Rightarrow> create_root w x
      | Some n \<Rightarrow> unavailable_unless (n = FsDirectory) x))" if "untouched d x" for x
    using that by (simp add: untouched_def)
  show ?thesis
    unfolding prepare_history_root_def root_is_directory_def reject_unsafe_root_components_def
    by (intro untouched_attempt l root)
      (auto simp: assms split: option.split intro!: untouched_attempt m claim_untouched)
qed

lemma acquire_untouched:
  assumes "hk_root s = Some FsDirectory" "untouched d s"
  shows "untouched d (snd (acquire_lease w s))"
  unfolding acquire_lease_def
  by (intro untouched_attempt prepare_untouched open_lock_file_untouched try_lock_untouched assms)

lemma destroy_keys_untouched: "untouched d s \<Longrightarrow> untouched d (snd (destroy_keys w rs s))"
  by (induction rs arbitrary: s) (auto simp: Let_def split_beta split: sum.split)

lemma destroy_namespace_untouched: "untouched d s \<Longrightarrow> untouched d (snd (destroy_namespace w s))"
  unfolding destroy_namespace_def by (auto intro!: untouched_attempt destroy_keys_untouched)


section \<open>After the keys were destroyed\<close>

definition keyless :: "'k history_world \<Rightarrow> 'k history_disk \<Rightarrow> bool" where
  "keyless w d = (hw_references w (hk_keys d) = Inr [])"

lemma keyless_updates [simp]:
  "keyless w (tick s) = keyless w s" "keyless w (s\<lparr>hk_locked := l\<rparr>) = keyless w s"
  "keyless w (s\<lparr>hk_entries := e\<rparr>) = keyless w s" "keyless w (s\<lparr>hk_chunks := c\<rparr>) = keyless w s"
  "keyless w (s\<lparr>hk_root := r\<rparr>) = keyless w s"
  by (simp_all add: keyless_def)

lemma keyless_attempt:
  "keyless w (snd r) \<Longrightarrow> (\<And>x s. keyless w s \<Longrightarrow> keyless w (snd (k x s))) \<Longrightarrow> keyless w (snd (attempt r k))"
  by (cases r; cases "fst r") auto

lemma root_keyless: "same_root s s' \<Longrightarrow> keyless w s \<Longrightarrow> keyless w s'"
  by (simp add: same_root_def keyless_def)

lemma entries_keyless: "only_entries s s' \<Longrightarrow> keyless w s \<Longrightarrow> keyless w s'"
  by (simp add: only_entries_def keyless_def)

lemma destroyed_keyless: "destroy_namespace w d = (Inr n, d') \<Longrightarrow> keyless w d'"
  by (auto simp: destroy_namespace_def attempt_ok keyless_def split: if_splits)

lemmas keyless_entries =
  entries_keyless [OF remove_if_there_entries [OF only_entries_refl]]
  entries_keyless [OF remove_root_file_entries [OF only_entries_refl]]
  entries_keyless [OF create_root_file_entries [OF only_entries_refl]]
  entries_keyless [OF write_root_file_entries [OF only_entries_refl]]

lemma chunks_keyless:
  "keyless w s \<Longrightarrow> keyless w (snd (history_chunk_paths w s))"
  "keyless w s \<Longrightarrow> keyless w (snd (remove_chunks w ns s))"
  by (rule root_keyless [OF same_files_root [OF history_chunk_paths_files [OF same_files_refl]]], assumption)
    (rule root_keyless [OF remove_chunks_root [OF same_root_refl]], assumption)

lemma remove_all_there_keyless: "keyless w s \<Longrightarrow> keyless w (snd (remove_all_there w ns s))"
proof (induction ns arbitrary: s)
  case (Cons n ns)
  show ?case unfolding remove_all_there.simps
    by (intro keyless_attempt keyless_entries Cons) simp_all
qed simp

lemma keyless_case:
  "keyless w (snd r) \<Longrightarrow> (\<And>e s. keyless w s \<Longrightarrow> keyless w (snd (f e s))) \<Longrightarrow> (\<And>x s. keyless w s \<Longrightarrow> keyless w (snd (g x s)))
     \<Longrightarrow> keyless w (snd (case r of (Inl e, s) \<Rightarrow> f e s | (Inr x, s) \<Rightarrow> g x s))"
  by (cases r; cases "fst r") auto

lemma publish_keyless: "keyless w s \<Longrightarrow> keyless w (snd (publish_purged_root_marker w s))"
  unfolding publish_purged_root_marker_def Let_def
  by (intro keyless_attempt keyless_case keyless_entries) (simp_all add: keyless_entries)

lemma layout_keyless: "keyless w s \<Longrightarrow> keyless w (snd (validate_purged_root_layout w s))"
  unfolding validate_purged_root_layout_def
  by (rule root_keyless [OF same_files_root [OF transitional_layout_files [OF same_files_refl]]])

lemma finalize_keyless: "keyless w s \<Longrightarrow> keyless w (snd (finalize_completed_offline_purge w s))"
  unfolding finalize_completed_offline_purge_def remove_root_dir_def drop_lease_def release_lease_def
  by (intro keyless_attempt keyless_entries)
    (auto intro!: keyless_attempt layout_keyless keyless_entries)

lemma remove_chunks_dir_keyless: "keyless w s \<Longrightarrow> keyless w (snd (remove_chunks_dir w s))"
  unfolding remove_chunks_dir_def root_has_def Let_def
  by (auto intro!: keyless_attempt)

lemma count_removed_keyless: "keyless w s \<Longrightarrow> keyless w (snd (count_removed_chunks w ns s))"
  unfolding count_removed_chunks.simps by (intro keyless_attempt chunks_keyless) simp_all



section \<open>The purge\<close>

lemma purge_under_lease_cases:
  assumes "purge_under_lease w s = (r, s')" "untouched d s"
  shows "keyless w s' \<or> untouched d s' \<and> (\<exists>e. r = Inl e)"
proof (cases "destroy_namespace w s")
  case (Pair a s1)
  show ?thesis
  proof (cases a)
    case (Inl e)
    with Pair assms destroy_namespace_untouched [OF assms(2), of w] show ?thesis by (auto simp: purge_under_lease_def)
  next
    case (Inr n)
    then have k: "keyless w s1" using destroyed_keyless Pair by blast
    have "keyless w (snd (purge_under_lease w s))"
      unfolding purge_under_lease_def Pair Inr attempt_simps
      by (intro keyless_attempt chunks_keyless count_removed_keyless remove_all_there_keyless
          remove_chunks_dir_keyless publish_keyless) (simp_all add: k)
    with assms(1) show ?thesis by simp
  qed
qed

lemma drop_on_error_same:
  "keyless w (snd (drop_on_error r)) = keyless w (snd r)" "untouched d (snd (drop_on_error r)) = untouched d (snd r)"
  "fst (drop_on_error r) = fst r"
  by (auto simp: drop_on_error_def release_lease_def split: sum.split)

text \<open>The same without the root, which the end of a purge removes.\<close>

definition unexposed :: "'k history_disk \<Rightarrow> 'k history_disk \<Rightarrow> bool" where
  "unexposed d d' = (hk_chunks d' = hk_chunks d \<and> (purge_marked d' \<longrightarrow> purge_marked d))"

lemma unexposed_updates [simp]:
  "unexposed d (tick s) = unexposed d s" "unexposed d (s\<lparr>hk_locked := l\<rparr>) = unexposed d s"
  "unexposed d (s\<lparr>hk_root := r\<rparr>) = unexposed d s"
  by (simp_all add: unexposed_def purge_marked_def)

lemma unexposed_attempt:
  "unexposed d (snd r) \<Longrightarrow> (\<And>x s. unexposed d s \<Longrightarrow> unexposed d (snd (k x s)))
     \<Longrightarrow> unexposed d (snd (attempt r k))"
  by (cases r; cases "fst r") auto

lemma untouched_unexposed: "untouched d s \<Longrightarrow> unexposed d s"
  by (simp add: untouched_def unexposed_def)

lemma unexposed_via: "untouched s s' \<Longrightarrow> unexposed d s \<Longrightarrow> unexposed d s'"
  by (auto simp: untouched_def unexposed_def)

lemma remove_if_there_untouched: "untouched d s \<Longrightarrow> untouched d (snd (remove_if_there w n s))"
  unfolding remove_if_there_def root_has_def Let_def
  by (auto intro!: untouched_attempt remove_root_file_untouched)

lemma finalize_unexposed:
  assumes "unexposed d s" shows "unexposed d (snd (finalize_completed_offline_purge w s))"
proof -
  have "untouched s (snd (attempt (validate_purged_root_layout w s) (\<lambda>_ d. remove_if_there w ROOT_MARKER_NAME d)))"
    unfolding validate_purged_root_layout_def
    by (intro untouched_attempt layout_untouched remove_if_there_untouched) simp_all
  then have 1: "unexposed d (snd (drop_lease
      (attempt (validate_purged_root_layout w s) (\<lambda>_ d. remove_if_there w ROOT_MARKER_NAME d))))"
    using assms unexposed_via by (simp add: drop_lease_def release_lease_def)
  have 2: "unexposed d (snd (remove_root_dir w x))" if "unexposed d x" for x
    unfolding remove_root_dir_def by (intro unexposed_attempt) (simp_all add: that)
  show ?thesis
    unfolding finalize_completed_offline_purge_def
    by (intro unexposed_attempt 1 2 unexposed_via [OF remove_if_there_untouched [OF untouched_refl]]
        unexposed_via [OF remove_root_file_untouched [OF untouched_refl]]) simp_all
qed

lemma finalize_root:
  "finalize_completed_offline_purge w d = (Inr n, d') \<Longrightarrow> hk_root d' = None"
  by (auto simp: finalize_completed_offline_purge_def remove_root_dir_def attempt_ok)

lemma resume_files:
  assumes "resume_completed_offline_purge w d = (r, d')"
  shows "unexposed d d'" "r = Inr None \<Longrightarrow> untouched d d'"
    "r = Inr (Some x) \<Longrightarrow> purge_marked d \<and> hk_root d' = None"
proof -
  let ?there = "fst (root_has w PURGED_ROOT_MARKER_NAME d)"
  let ?rest = "attempt (validate_purged_root_layout w (tick d)) (\<lambda>_ d.
              attempt (open_lock_file w d) (\<lambda>_ d.
              attempt (try_lock w d) (\<lambda>_ d.
              attempt (drop_on_error (validate_purged_root_layout w d)) (\<lambda>_ d.
              attempt (finalize_completed_offline_purge w d) (\<lambda>n d. (Inr (Some (0, n)), d))))))"
  have r: "(r, d') = (if ?there then ?rest else (Inr None, tick d))"
    using assms by (auto simp: resume_completed_offline_purge_def root_has_def)
  have v: "unexposed d (snd (validate_purged_root_layout w s))" if "unexposed d s" for s
    unfolding validate_purged_root_layout_def
    by (rule unexposed_via [OF layout_untouched [OF untouched_refl] that])
  have de: "unexposed d (snd (drop_on_error (validate_purged_root_layout w s)))" if "unexposed d s" for s
    using v [OF that] by (auto simp: drop_on_error_def release_lease_def split: sum.split)
  have "unexposed d (snd ?rest)"
    by (intro unexposed_attempt v de finalize_unexposed
        unexposed_via [OF open_lock_file_untouched [OF untouched_refl]]
        unexposed_via [OF try_lock_untouched [OF untouched_refl]])
      (simp_all add: untouched_unexposed)
  with r show "unexposed d d'" by (simp add: prod_eq_iff untouched_unexposed split: if_splits)
  show "r = Inr None \<Longrightarrow> untouched d d'"
    using r by (auto simp: attempt_ok split: if_splits dest!: sym [of "(_, _)"])
  show "r = Inr (Some x) \<Longrightarrow> purge_marked d \<and> hk_root d' = None"
    using r finalize_root
    by (auto simp: attempt_ok root_has_def purge_marked_def split: if_splits dest!: sym [of "(_, _)"])
qed

text \<open>The result of a purge, or of a part of it, that started at \<open>d\<close>.\<close>

definition keys_first :: "'k history_world \<Rightarrow> 'k history_disk \<Rightarrow> ('e + 'a) \<times> 'k history_disk \<Rightarrow> bool" where
  "keys_first w d res =
     ((keyless w (snd res) \<or> unexposed d (snd res) \<and> ((\<exists>x. fst res = Inr x) \<longrightarrow> purge_marked d))
      \<and> ((\<exists>x. fst res = Inr x) \<longrightarrow> hk_root (snd res) = None))"

lemma keys_first_attempt:
  "untouched d (snd r) \<Longrightarrow> (\<And>x s. untouched d s \<Longrightarrow> keys_first w d (k x s)) \<Longrightarrow> keys_first w d (attempt r k)"
  by (cases r; cases "fst r") (auto simp: keys_first_def untouched_unexposed)

lemma leased_purge_keys_first:
  assumes "untouched d s"
  shows "keys_first w d (attempt (drop_on_error (purge_under_lease w s)) (\<lambda>kf d.
     attempt (finalize_completed_offline_purge w d) (\<lambda>n d. (Inr (fst kf, snd kf + n), d))))"
proof (cases "purge_under_lease w s")
  case (Pair r s')
  show ?thesis
  proof (cases r)
    case (Inl e)
    with purge_under_lease_cases [OF Pair assms] Pair show ?thesis
      by (auto simp: keys_first_def drop_on_error_def release_lease_def untouched_unexposed)
  next
    case (Inr kf)
    with purge_under_lease_cases [OF Pair assms] have "keyless w s'" by simp
    from finalize_keyless [OF this] finalize_root Pair Inr show ?thesis
      by (cases "finalize_completed_offline_purge w s'"; cases "fst (finalize_completed_offline_purge w s')")
        (auto simp: keys_first_def drop_on_error_def)
  qed
qed

text \<open>C25. The keys go before the ciphertext. Wherever a purge of an existing root stops and whatever it
  answers: unless the provider lists no key of the namespace any more, every chunk is still there, the
  marker that lets a later purge skip the keys has not appeared, and success is answered only where that
  marker was found. A purge that succeeds removes the root.\<close>

theorem purge_destroys_keys_first:
  assumes "purge_offline w d = (r, d')" and "hk_root d = Some FsDirectory"
  shows "(hw_references w (hk_keys d') = Inr []
      \<or> hk_chunks d' = hk_chunks d \<and> (purge_marked d' \<longrightarrow> purge_marked d) \<and> ((\<exists>x. r = Inr x) \<longrightarrow> purge_marked d))
    \<and> ((\<exists>x. r = Inr x) \<longrightarrow> hk_root d' = None)"
proof -
  have root: "untouched d s \<Longrightarrow> hk_root s = Some FsDirectory" for s using assms(2) by (simp add: untouched_def)
  have fresh: "keys_first w d (attempt (recover_interrupted_purge_marker w s) (\<lambda>_ d.
      attempt (prepare_history_root w d) (\<lambda>_ d. attempt (acquire_lease w d) (\<lambda>_ d.
      attempt (drop_on_error (purge_under_lease w d)) (\<lambda>kf d.
      attempt (finalize_completed_offline_purge w d) (\<lambda>n d. (Inr (fst kf, snd kf + n), d)))))))"
    if "untouched d s" for s
    by (intro keys_first_attempt [where d = d] recover_untouched prepare_untouched acquire_untouched
        leased_purge_keys_first root that)
  obtain a d1 where resumed: "resume_completed_offline_purge w d = (a, d1)" by fastforce
  have "keys_first w d (purge_offline w d)"
  proof (cases "a = Inr None")
    case True
    with resume_files(2) [OF resumed] fresh [of d1] show ?thesis by (simp add: purge_offline_def resumed)
  next
    case False
    with resume_files(1,3) [OF resumed] show ?thesis
      by (cases a) (auto simp: purge_offline_def resumed keys_first_def split: option.splits)
  qed
  then show ?thesis using assms(1) by (simp add: keys_first_def keyless_def unexposed_def)
qed

end
