(* ===== verification/HistoryDrops.thy ===== *)
theory HistoryDrops
  imports HistoryDurable
begin

text \<open>
  The producers never wait: an event that finds no place is dropped, counted, and reported by the next
  event that finds one.
\<close>

text \<open>The drops a queued message reports.\<close>

fun reported_drops :: "writer_message \<Rightarrow> u64" where
  "reported_drops (EventMessage e _ _) = (case hd_payload (he_data e) of HealthPayload EventsDropped n \<Rightarrow> n | _ \<Rightarrow> 0)"
| "reported_drops _ = 0"

lemma try_enqueue_cases:
  obtains (queued) "try_enqueue msg m = (True, enqueue msg m)" "wqueue (enqueue msg m) = wqueue m @ [msg]"
    "length (wqueue m) < WRITER_QUEUE_CAPACITY"
  | (full) "try_enqueue msg m = (False, m)"
proof (cases "hm_writer m = None \<or> WRITER_QUEUE_CAPACITY \<le> queue_length m")
  case True
  then show ?thesis using full by (simp add: try_enqueue_def)
next
  case False
  then show ?thesis using queued enqueue_keeps(3) [of m msg]
    by (simp add: try_enqueue_def queue_length_wqueue)
qed

lemma enqueue_counts [simp]:
  "hm_dropped (enqueue msg m) = hm_dropped m" "hm_pending (enqueue msg m) = hm_pending m"
  by (simp_all add: enqueue_def split: option.split)

lemma wqueue_fields [simp]:
  "wqueue (m\<lparr>hm_next := n\<rparr>) = wqueue m" "wqueue (m\<lparr>hm_pending := p\<rparr>) = wqueue m"
  "wqueue (m\<lparr>hm_disk := d\<rparr>) = wqueue m" "wqueue (record_drop m) = wqueue m"
  by (simp_all add: wqueue_def record_drop_def)

lemma report_drops_accounts:
  obtains reports where "wqueue (report_drops w cfg m) = wqueue m @ reports"
    "hm_pending (report_drops w cfg m) + sum_list (map reported_drops reports) = hm_pending m"
    "hm_dropped (report_drops w cfg m) = hm_dropped m" "length reports \<le> 1"
    "length (wqueue (report_drops w cfg m)) \<le> max (length (wqueue m)) WRITER_QUEUE_CAPACITY"
proof (cases "hm_pending m = 0")
  case True
  then show ?thesis using that [of "[]"] by (simp add: report_drops_def)
next
  case False
  define m1 where "m1 = m\<lparr>hm_pending := 0\<rparr>"
  let ?b = "build_event w cfg HEALTH_EVENT ''writer'' None None None (HealthPayload EventsDropped (hm_pending m)) m1"
  let ?m = "(snd ?b)\<lparr>hm_next := hm_next (snd ?b) + 1\<rparr>"
  let ?e = "EventMessage (set_sequence (hm_next (snd ?b)) (fst ?b)) None None"
  have b: "wqueue ?m = wqueue m" "hm_pending ?m = 0" "hm_dropped ?m = hm_dropped m" "reported_drops ?e = hm_pending m"
    by (simp_all add: build_event_def m1_def Let_def set_sequence_def new_history_event_def)
  have r: "report_drops w cfg m = (if fst (try_enqueue ?e ?m) then snd (try_enqueue ?e ?m)
      else (snd (try_enqueue ?e ?m))\<lparr>hm_pending := hm_pending (snd (try_enqueue ?e ?m)) + hm_pending m\<rparr>)"
    using False by (simp add: report_drops_def Let_def split_beta m1_def)
  show ?thesis
  proof (cases rule: try_enqueue_cases [of ?e ?m])
    case queued
    then show ?thesis using that [of "[?e]"] b unfolding r queued(1) by simp
  next
    case full
    then show ?thesis using that [of "[]"] b unfolding r full by simp
  qed
qed

text \<open>C30. No drop goes unnoticed. Sending an event appends to the queue at most a report and then the
  event, or it counts the event as dropped; the drops that were waiting for a report and those just
  counted are in the report or still waiting. The queue is only appended to below its capacity: a
  producer never waits for the writer.\<close>

theorem every_drop_is_accounted:
  assumes "m' = try_send w cfg free e pid win m"
  shows "\<exists>reports sent.
    wqueue m' = wqueue m @ reports @ (if sent then [EventMessage (set_sequence (hm_next m' - 1) e) pid win] else [])
    \<and> length reports \<le> 1
    \<and> hm_dropped m' = hm_dropped m + (if sent then 0 else 1)
    \<and> hm_pending m' + sum_list (map reported_drops reports) = hm_pending m + (if sent then 0 else 1)
    \<and> length (wqueue m') \<le> max (length (wqueue m)) 512"
proof (cases "\<not> valid_event e \<or> \<not> free \<or> hm_writer m = None")
  case True
  with assms show ?thesis
    by (intro exI [of _ "[]"] exI [of _ False]) (simp add: try_send_def record_drop_def wqueue_def)
next
  case False
  let ?r = "report_drops w cfg m"
  obtain reports where r: "wqueue ?r = wqueue m @ reports"
    "hm_pending ?r + sum_list (map reported_drops reports) = hm_pending m"
    "hm_dropped ?r = hm_dropped m" "length reports \<le> 1" "length (wqueue ?r) \<le> max (length (wqueue m)) WRITER_QUEUE_CAPACITY"
    by (rule report_drops_accounts)
  let ?e = "EventMessage (set_sequence (hm_next ?r) e) pid win"
  let ?m = "?r\<lparr>hm_next := hm_next ?r + 1\<rparr>"
  have t: "m' = (if fst (try_enqueue ?e ?m) then snd (try_enqueue ?e ?m) else record_drop (snd (try_enqueue ?e ?m)))"
    using assms False by (auto simp: try_send_def Let_def split_beta)
  have n: "hm_next (enqueue ?e ?m) = hm_next ?r + 1" using enqueue_keeps(1) [of ?m ?e] by (simp add: same_base_def)
  show ?thesis
  proof (cases rule: try_enqueue_cases [of ?e ?m])
    case queued
    with r n show ?thesis unfolding t queued(1)
      by (intro exI [of _ reports] exI [of _ True]) (auto simp: WRITER_QUEUE_CAPACITY_def)
  next
    case full
    with r show ?thesis unfolding t full
      by (intro exI [of _ reports] exI [of _ False]) (auto simp: record_drop_def wqueue_def WRITER_QUEUE_CAPACITY_def algebra_simps)
  qed
qed

end
