(* ===== verification/HistoryWitness.thy ===== *)
theory HistoryWitness
  imports HistoryLease HistoryPurge HistoryDrops
begin

text \<open>
  The properties of the computer history applied in the concrete world: a query answered from one chunk,
  a pause, a deletion, a history, a purge and a drop.
\<close>

section \<open>A history in the concrete world\<close>

definition demo_files :: "string \<Rightarrow> (string, fs_node) kv" where
  "demo_files b =
     [(ROOT_MARKER_NAME, FsFile ROOT_MARKER_CONTENT 0), (''chunks'', FsDirectory),
      (''writer.lock'', FsFile [] 0), (''state.json'', FsFile b 0)]"

definition demo_home :: "string \<Rightarrow> (string, fs_node) kv \<Rightarrow> bool \<Rightarrow> bool \<Rightarrow> nat \<Rightarrow> bool history_disk" where
  "demo_home b cs locked keys n =
     \<lparr>hk_root = Some FsDirectory, hk_entries = demo_files b, hk_chunks = cs, hk_locked = locked,
      hk_keys = keys, hk_tick = n\<rparr>"

definition demo_chunks :: "(string, fs_node) kv" where
  "demo_chunks = [(''a.cborseq'', FsFile demo_bytes 0)]"

definition demo_config :: history_config where
  "demo_config =
     \<lparr>hc_admitted = True, hc_platform = ''linux'', hc_stream = demo_id, hc_retention_days = 30,
      hc_quota_bytes = 1000\<rparr>"

definition demo_manager :: "bool history_disk \<Rightarrow> bool \<Rightarrow> bool history_manager" where
  "demo_manager d en =
     \<lparr>hm_disk = d, hm_enabled = en, hm_paused = False, hm_dropped = 0, hm_pending = 0, hm_next = 1,
      hm_health = Ready, hm_session_key = None, hm_writer = None\<rparr>"

lemma demo_more [simp]:
  "hw_state_bytes demo_world v = [if fst v then CHR ''e'' else CHR ''d'', if snd v then CHR ''p'' else CHR ''r'']"
  "hw_read_state demo_world s = Some (hd s = CHR ''e'', hd (tl s) = CHR ''p'')"
  by (simp_all add: demo_world_def)

lemma demo_config_fields [simp]:
  "hc_admitted demo_config" "hc_platform demo_config = ''linux''" "hc_stream demo_config = demo_id"
  "hc_retention_days demo_config = 30" "hc_quota_bytes demo_config = 1000"
  by (simp_all add: demo_config_def)

lemma demo_name: "is_chunk_name ''a.cborseq''"
  by (simp add: is_chunk_name_def ends_with_def suffix_def)

abbreviation proper_chunks :: "(string, fs_node) kv \<Rightarrow> bool" where
  "proper_chunks cs \<equiv> list_all (\<lambda>e. is_chunk_name (fst e) \<and> is_file (snd e)) cs"

lemma demo_check:
  "proper_chunks es \<Longrightarrow>
     \<exists>k. check_entries demo_world (\<lambda>name n. unavailable_unless (is_file n \<and> is_chunk_name name)) es (demo_home b cs l keys n)
        = (Inr (), demo_home b cs l keys k)"
proof (induction es arbitrary: n)
  case (Cons e es)
  have "tick (tick (demo_home b cs l keys n)) = demo_home b cs l keys (Suc (Suc n))"
    by (simp add: tick_def demo_home_def)
  with Cons show ?case by (simp add: fail_unless_def)
qed (simp, rule exI, rule refl)

lemma demo_tick [simp]: "tick (demo_home b cs l keys n) = demo_home b cs l keys (Suc n)"
  by (simp add: tick_def demo_home_def)

lemma demo_locked [simp]: "demo_home b cs l keys n\<lparr>hk_locked := l'\<rparr> = demo_home b cs l' keys n"
  by (simp add: demo_home_def)

lemma demo_home_fields [simp]:
  "hk_root (demo_home b cs l keys n) = Some FsDirectory" "hk_entries (demo_home b cs l keys n) = demo_files b"
  "hk_chunks (demo_home b cs l keys n) = cs" "hk_locked (demo_home b cs l keys n) = l"
  "hk_keys (demo_home b cs l keys n) = keys" "hk_tick (demo_home b cs l keys n) = n"
  by (simp_all add: demo_home_def)

lemma demo_prepare:
  assumes "proper_chunks cs"
  shows "\<exists>k. prepare_history_root demo_world (demo_home b cs l keys n) = (Inr (), demo_home b cs l keys k)"
proof -
  have "\<exists>k. validate_chunks_layout demo_world FsDirectory (demo_home b cs l keys n) = (Inr (), demo_home b cs l keys k)" for n
    using demo_check [OF assms] by (simp add: validate_chunks_layout_def fail_unless_def)
  then obtain f where f: "\<And>n. validate_chunks_layout demo_world FsDirectory (demo_home b cs l keys n) =
      (Inr (), demo_home b cs l keys (f n))" by metis
  then show ?thesis
    by (simp add: prepare_history_root_def reject_unsafe_root_components_def root_is_directory_def
        must_read_def reads_as_def root_entry_ok_def validate_history_root_layout_def MANAGED_FILES_def
        fail_unless_def kv_has_def demo_files_def marker_defs) (rule exI, rule refl)
qed

lemma demo_acquire:
  assumes "proper_chunks cs"
  shows "\<exists>k. acquire_lease demo_world (demo_home b cs False keys n) = (Inr (), demo_home b cs True keys k)"
proof -
  obtain k where "prepare_history_root demo_world (demo_home b cs False keys n) =
      (Inr (), demo_home b cs False keys k)" using demo_prepare [OF assms] by blast
  then show ?thesis
    by (simp add: acquire_lease_def open_lock_file_def try_lock_def fail_unless_def demo_files_def marker_defs)
      (rule exI, rule refl)
qed

lemma demo_write_state:
  assumes "proper_chunks cs"
  shows "\<exists>k. write_state demo_world v (demo_home b cs l keys n) =
     (Inr (), demo_home (hw_state_bytes demo_world v) cs l keys k)"
proof -
  obtain k where "prepare_history_root demo_world (demo_home b cs l keys n) =
      (Inr (), demo_home b cs l keys k)" using demo_prepare [OF assms] by blast
  then show ?thesis
    by (simp add: write_state_def remove_if_there_def create_root_file_def write_root_file_def disk_steps
        demo_home_def demo_files_def marker_defs kv_del_def)
qed

lemma demo_persist:
  assumes "hm_disk m = demo_home b cs l keys n" "proper_chunks cs"
  shows "\<exists>k. persist_state demo_world en pa m =
     (Inr (), m\<lparr>hm_disk := demo_home (hw_state_bytes demo_world (en, pa)) cs l keys k\<rparr>)"
proof -
  obtain k where "write_state demo_world (en, pa) (demo_home b cs l keys n) =
     (Inr (), demo_home (hw_state_bytes demo_world (en, pa)) cs l keys k)"
    using demo_write_state [OF assms(2)] by blast
  then show ?thesis by (auto simp: persist_state_def on_disk_def assms(1))
qed

lemma demo_chunks_proper [simp]: "proper_chunks demo_chunks"
  by (simp add: demo_chunks_def demo_name)


section \<open>Deletion\<close>

lemma demo_delete:
  "\<exists>s m. delete_all demo_world demo_config (demo_manager (demo_home ''dr'' demo_chunks False True 0) False) = (Inr s, m)"
proof -
  let ?m = "demo_manager (demo_home ''dr'' demo_chunks False True 0) False"
  obtain k where p: "persist_state demo_world False False ?m = (Inr (), ?m\<lparr>hm_disk := demo_home ''dr'' demo_chunks False True k\<rparr>)"
    using demo_persist [of ?m "''dr''" demo_chunks False True 0 False False] by (auto simp: demo_manager_def)
  obtain j where a: "acquire_lease demo_world (demo_home ''dr'' demo_chunks False True k) =
      (Inr (), demo_home ''dr'' demo_chunks True True j)" using demo_acquire [OF demo_chunks_proper] by blast
  have off: "\<not> hm_enabled ?m" "?m\<lparr>hm_enabled := False, hm_paused := False\<rparr> = ?m"
    by (simp_all add: demo_manager_def)
  have "\<exists>m'. delete_under_lease demo_world (?m\<lparr>hm_disk := demo_home ''dr'' demo_chunks True True j\<rparr>) = (Inr (), m')"
    by (simp add: delete_under_lease_def on_disk_def health_on_error_def remove_history_files_def
        remove_chunk_def disk_steps demo_home_def demo_files_def demo_chunks_def demo_name marker_defs)
  then obtain m' where "delete_under_lease demo_world (?m\<lparr>hm_disk := demo_home ''dr'' demo_chunks True True j\<rparr>) = (Inr (), m')"
    by blast
  with p a off show ?thesis
    by (simp add: delete_all_def on_disk_def answer_status_def split_beta)
qed




section \<open>A query\<close>

definition demo_query :: history_query where
  "demo_query = \<lparr>hq_limit = Some 10, hq_session = None, hq_since = Some 1, hq_until = None\<rparr>"

lemma demo_built_event_valid:
  assumes "t \<in> set ALLOWED_TYPES" "length subject \<le> 160" "valid_payload_for_event t p"
  shows "valid_event (fst (build_event demo_world demo_config t subject None None None p m))"
  using assms demo_id_hex
  by (auto simp: build_event_def is_digest_def is_none_or_def list_all_iff intro!: new_event_valid)

lemma demo_bytes_length: "length demo_bytes = 27"
  by (simp add: demo_bytes_def demo_item_def)

lemma demo_read_all:
  "\<exists>k. read_all demo_world 1000 (demo_home b demo_chunks l True n) =
     (Inr [demo_event 1, demo_event 2], demo_home b demo_chunks l True k)"
  using demo_decodes demo_ordered
  by (simp add: read_all_def disk_steps read_bounded_def demo_home_def demo_files_def demo_chunks_def
      demo_name marker_defs demo_bytes_length)

lemma demo_prune:
  "\<exists>k. prune_expired_chunks demo_world 30 (demo_home b demo_chunks l True n) =
     (Inr (), demo_home b demo_chunks l True k)"
  by (simp add: prune_expired_chunks_def prune_expired_chunks_except_def disk_steps retention_nanos_def
      secs_def demo_home_def demo_files_def demo_chunks_def demo_name marker_defs)

definition with_chunk :: "string \<Rightarrow> (string, fs_node) kv" where
  "with_chunk b = demo_chunks @ [(demo_id @ ''.cborseq'', FsFile b 0)]"

lemma demo_other_name: "demo_id @ ''.cborseq'' \<noteq> ''a.cborseq''"
  by (simp add: demo_id_def numeral_eq_Suc)

lemma demo_create_home:
  "\<exists>k. create_with_lease demo_world demo_id 1000 (demo_home b demo_chunks l True n) =
     (Inr (demo_store\<lparr>st_header := demo_header\<lparr>hdr_stream := demo_id\<rparr>\<rparr>), demo_home b (with_chunk ''H'') l True k)"
  using demo_other_name
  by (simp add: create_with_lease_def create_root_def create_chunks_dir_def disk_steps demo_key_def
      demo_home_def demo_files_def demo_chunks_def with_chunk_def demo_store_def demo_header_def
      chunk_file_name_def demo_name marker_defs demo_bytes_length)

lemma demo_home_append:
  assumes "valid_event e"
  shows "\<exists>k. store_append demo_world e (demo_store\<lparr>st_header := demo_header\<lparr>hdr_stream := demo_id\<rparr>\<rparr>)
      (demo_home b (with_chunk ''H'') l True n) =
    (Inr (), demo_store\<lparr>st_header := demo_header\<lparr>hdr_stream := demo_id\<rparr>, st_next_nonce := 1\<rparr>,
     demo_home b (with_chunk (''H'' @ demo_item 0 (he_sequence e))) l True k)"
proof -
  have "derive_chunk_key demo_world (st_key demo_store) (demo_header\<lparr>hdr_stream := demo_id\<rparr>) = Inr (st_key demo_store)"
    using demo_id_hex by (auto simp: derive_chunk_key_def demo_store_def demo_header_def)
  then show ?thesis
    using assms demo_other_name
    by (simp add: store_append_def disk_steps seal_event_def sealed_cose_def [symmetric] demo_store_def
        demo_home_def demo_files_def with_chunk_def demo_chunks_def demo_header_def demo_name demo_chunk_name
        demo_item_def marker_defs demo_bytes_length)
qed

lemma demo_audit:
  assumes "hm_disk m = demo_home b demo_chunks l True n" "valid_event e" "hm_next m \<noteq> 0"
  shows "\<exists>m'. one_shot_audit demo_world demo_config e m = (Inr (), m')"
proof -
  let ?st = "demo_store\<lparr>st_header := demo_header\<lparr>hdr_stream := demo_id\<rparr>\<rparr>"
  obtain k where c: "create_with_lease demo_world demo_id 1000 (hm_disk m) =
      (Inr ?st, demo_home b (with_chunk ''H'') l True k)"
    using demo_create_home assms(1) by metis
  obtain st d where a: "store_append demo_world (set_sequence (hm_next m) e) ?st
      (demo_home b (with_chunk ''H'') l True k) = (Inr (), st, d)"
    using demo_home_append [OF valid_set_sequence [OF assms(2,3)]] by blast
  show ?thesis by (simp add: one_shot_audit_def on_disk_def c a store_flush_def split_beta)
qed

lemma demo_query_answered:
  "\<exists>m. query_history demo_world demo_config demo_query AgentQuery
         (demo_manager (demo_home ''dr'' demo_chunks False True 0) False) = (Inr [demo_event 1, demo_event 2], m)"
proof -
  let ?m = "demo_manager (demo_home ''dr'' demo_chunks False True 0) False"
  obtain k where a: "acquire_lease demo_world (hm_disk ?m) = (Inr (), demo_home ''dr'' demo_chunks True True k)"
    using demo_acquire [OF demo_chunks_proper, of "''dr''" True 0] by (auto simp: demo_manager_def)
  obtain i where r: "read_all demo_world 1000 (demo_home ''dr'' demo_chunks True True k) =
     (Inr [demo_event 1, demo_event 2], demo_home ''dr'' demo_chunks True True i)" using demo_read_all by blast
  obtain j where p: "prune_expired_chunks demo_world 30 (demo_home ''dr'' demo_chunks True True i) =
     (Inr (), demo_home ''dr'' demo_chunks True True j)" using demo_prune by blast
  let ?m1 = "?m\<lparr>hm_disk := demo_home ''dr'' demo_chunks True True j\<rparr>"
  let ?m2 = "?m\<lparr>hm_disk := tick (demo_home ''dr'' demo_chunks True True j), hm_next := 3\<rparr>"
  have s: "select_events demo_world demo_config demo_query [demo_event 1, demo_event 2] ?m1 =
      (Inr [demo_event 1, demo_event 2], ?m2)"
    by (simp add: select_events_def session_filter_def demo_query_def on_disk_def wall_now_def newest_events_def
        query_limit_def MAX_QUERY_LIMIT_def event_matches_def retention_seconds_def is_none_or_def
        max_sequence_def saturating_succ_def demo_manager_def Let_def)
  let ?e = "access_event demo_world demo_config AgentQuery [demo_event 1, demo_event 2] ?m2"
  have v: "valid_event (fst ?e)"
    unfolding access_event_def
    by (rule demo_built_event_valid) (simp_all add: ALLOWED_TYPES_def valid_payload_for_event_def)
  have "hm_disk (snd ?e) = demo_home ''dr'' demo_chunks True True (Suc (Suc j))" "hm_next (snd ?e) \<noteq> 0"
    by (simp_all add: access_event_def build_event_def demo_home_def tick_def Let_def)
  from demo_audit [OF this(1) v this(2)] obtain m' where o:
    "one_shot_audit demo_world demo_config (fst ?e) (snd ?e) = (Inr (), m')" by blast
  have "query_under_lease demo_world demo_config demo_query AgentQuery
      (?m\<lparr>hm_disk := demo_home ''dr'' demo_chunks True True k\<rparr>) = (Inr [demo_event 1, demo_event 2], m')"
    unfolding query_under_lease_def using r p s o by (simp add: on_disk_def split_beta)
  with a show ?thesis
    by (simp add: query_history_def require_admitted_def query_without_writer_def on_disk_def split_beta demo_manager_def)
qed

lemma disclosure_is_audited_witness:
  "\<exists>m. query_history demo_world demo_config demo_query AgentQuery
         (demo_manager (demo_home ''dr'' demo_chunks False True 0) False) = (Inr [demo_event 1, demo_event 2], m)
     \<and> (\<exists>a. audits AgentQuery [demo_event 1, demo_event 2] a \<and> recorded_last demo_world a (hm_disk m))"
proof -
  obtain m where q: "query_history demo_world demo_config demo_query AgentQuery
      (demo_manager (demo_home ''dr'' demo_chunks False True 0) False) = (Inr [demo_event 1, demo_event 2], m)"
    using demo_query_answered by blast
  from disclosure_is_audited [OF q] q show ?thesis by auto
qed




section \<open>A pause\<close>

abbreviation demo_open_store :: history_store where
  "demo_open_store \<equiv> demo_store\<lparr>st_header := demo_header\<lparr>hdr_stream := demo_id\<rparr>\<rparr>"

definition demo_writer :: history_writer where
  "demo_writer = \<lparr>wr_store = demo_open_store, wr_queue = [], wr_terminal = None, wr_maintained = 0\<rparr>"

definition demo_running :: "bool history_manager" where
  "demo_running = demo_manager (demo_home ''er'' (with_chunk ''H'') True True 0) True\<lparr>hm_writer := Some demo_writer\<rparr>"

lemma with_chunk_proper [simp]: "proper_chunks (with_chunk b)"
  by (simp add: with_chunk_def demo_chunk_name)

lemma demo_flush:
  assumes "hm_disk m = demo_home b (with_chunk ''H'') True True n" "hm_writer m = Some demo_writer"
    "hm_next m = 1" "valid_event e"
  shows "\<exists>m'. send_and_flush demo_world demo_config e m = (Inr (), m')"
proof -
  obtain f where f: "\<And>n. store_append demo_world (set_sequence 1 e) demo_open_store (demo_home b (with_chunk ''H'') True True n) =
    (Inr (), demo_open_store\<lparr>st_next_nonce := 1\<rparr>,
     demo_home b (with_chunk (''H'' @ demo_item 0 (he_sequence (set_sequence 1 e)))) True True (f n))"
    using demo_home_append [OF valid_set_sequence [OF assms(4), of 1], of b True] by (simp add: choice_iff) metis
  show ?thesis
    using assms f
    by (simp add: send_and_flush_def send_lossless_def blocking_send_def queue_length_def
        WRITER_QUEUE_CAPACITY_def enqueue_def flush_writer_def await_reply_def writer_step_def
        handle_event_def handle_flush_def mono_now_def identified_def demo_writer_def numeral_2_eq_2
        on_disk_def store_flush_def CHUNK_ROTATION_INTERVAL_def WRITER_MAINTENANCE_INTERVAL_def secs_def
        demo_store_def)
qed

lemma demo_pause: "\<exists>s m. pause demo_world demo_config demo_running = (Inr s, m)"
proof -
  obtain k where p: "persist_state demo_world True True demo_running =
      (Inr (), demo_running\<lparr>hm_disk := demo_home ''ep'' (with_chunk ''H'') True True k\<rparr>)"
    using demo_persist [of demo_running "''er''" "with_chunk ''H''" True True 0 True True]
    by (auto simp: demo_running_def demo_manager_def)
  let ?m = "demo_running\<lparr>hm_disk := demo_home ''ep'' (with_chunk ''H'') True True k, hm_paused := True\<rparr>"
  let ?e = "control_event demo_world demo_config PauseHistory ?m"
  have v: "valid_event (fst ?e)"
    unfolding control_event_def
    by (rule demo_built_event_valid) (simp_all add: ALLOWED_TYPES_def valid_payload_for_event_def)
  have "hm_disk (snd ?e) = demo_home ''ep'' (with_chunk ''H'') True True (Suc k)"
    "hm_writer (snd ?e) = Some demo_writer" "hm_next (snd ?e) = 1"
    by (simp_all add: control_event_def build_event_def demo_running_def demo_manager_def)
  from demo_flush [OF this v] obtain m' where "send_and_flush demo_world demo_config (fst ?e) (snd ?e) = (Inr (), m')"
    by blast
  moreover have "require_enabled demo_config demo_running = (Inr (), demo_running)"
    by (simp add: require_enabled_def require_admitted_def demo_running_def demo_manager_def)
  ultimately show ?thesis
    using p by (simp add: pause_def send_control_def split_beta answer_status_def)
qed

lemma acknowledged_control_survives_a_restart_witness:
  "\<exists>s m. run_lifecycle demo_world demo_config Pausing demo_running = (Inr s, m)
     \<and> fst (read_state demo_world (hm_disk m)) = Some (True, True)"
proof -
  obtain s m where p: "run_lifecycle demo_world demo_config Pausing demo_running = (Inr s, m)"
    using demo_pause by auto
  have "(hm_enabled m, hm_paused m) = reached Pausing \<and> fst (read_state demo_world (hm_disk m)) = Some (reached Pausing)"
    by (rule acknowledged_control_survives_a_restart [OF p]) auto
  with p show ?thesis by auto
qed


section \<open>A history and a purge\<close>

lemma lease_is_held_exactly_while_on_witness:
  "let m = history_run demo_world demo_config [Enable, Query demo_query AgentQuery, Pause, Delete]
       (new_history demo_world demo_config demo_disk)
   in \<not> hk_locked demo_disk \<and> (hk_locked (hm_disk m) \<longleftrightarrow> hm_enabled m) \<and> queue_length m \<le> 512"
proof -
  have "\<not> hk_locked demo_disk" by (simp add: demo_disk_def)
  with lease_is_held_exactly_while_on [OF this refl] show ?thesis by (simp add: Let_def)
qed

lemma demo_purge:
  "\<exists>d. purge_offline demo_world (demo_home ''dr'' demo_chunks False True 0) = (Inr (1, 5), d)"
proof -
  let ?d = "demo_home ''dr'' demo_chunks False True 0"
  have r: "resume_completed_offline_purge demo_world ?d = (Inr None, tick ?d)"
    "recover_interrupted_purge_marker demo_world (tick ?d) = (Inr (), tick (tick ?d))"
    by (simp_all add: resume_completed_offline_purge_def recover_interrupted_purge_marker_def root_has_def
        demo_files_def kv_has_def marker_defs del: demo_tick)
  obtain i where p: "prepare_history_root demo_world (tick (tick ?d)) = (Inr (), demo_home ''dr'' demo_chunks False True i)"
    using demo_prepare [OF demo_chunks_proper, of "''dr''" False True "Suc (Suc 0)"] by auto
  obtain j where a: "acquire_lease demo_world (demo_home ''dr'' demo_chunks False True i) = (Inr (), demo_home ''dr'' demo_chunks True True j)"
    using demo_acquire [OF demo_chunks_proper] by blast
  obtain k where u: "purge_under_lease demo_world (demo_home ''dr'' demo_chunks True True j) =
      (Inr (1, 2), \<lparr>hk_root = Some FsDirectory,
        hk_entries = [(ROOT_MARKER_NAME, FsFile ROOT_MARKER_CONTENT 0), (''writer.lock'', FsFile [] 0),
          (PURGED_ROOT_MARKER_NAME, FsFile PURGED_ROOT_MARKER_CONTENT 0)],
        hk_chunks = [], hk_locked = True, hk_keys = False, hk_tick = k\<rparr>)"
    by (simp add: purge_under_lease_def destroy_namespace_def remove_chunk_def remove_if_there_def remove_root_file_def
        remove_chunks_dir_def publish_purged_root_marker_def create_root_file_def write_root_file_def disk_steps
        demo_home_def demo_files_def demo_chunks_def demo_name marker_defs kv_del_def)
  show ?thesis
    unfolding purge_offline_def r p a u attempt_simps option.case drop_on_error_def
    by (simp add: finalize_completed_offline_purge_def validate_purged_root_layout_def
        validate_transitional_purge_layout_def transitional_entry_ok_def root_is_directory_def
        reject_unsafe_root_components_def must_read_def reads_as_def remove_if_there_def remove_root_file_def
        remove_root_dir_def drop_lease_def release_lease_def disk_steps marker_defs kv_del_def)
qed

lemma purge_destroys_keys_first_witness:
  "\<exists>d. purge_offline demo_world (demo_home ''dr'' demo_chunks False True 0) = (Inr (1, 5), d)
     \<and> hw_references demo_world (hk_keys d) = Inr [] \<and> hk_root d = None"
proof -
  obtain d where p: "purge_offline demo_world (demo_home ''dr'' demo_chunks False True 0) = (Inr (1, 5), d)"
    using demo_purge by blast
  have "\<not> purge_marked (demo_home ''dr'' demo_chunks False True 0)"
    by (simp add: purge_marked_def demo_files_def kv_has_def marker_defs)
  with purge_destroys_keys_first [OF p] p show ?thesis by auto
qed


section \<open>A drop\<close>

lemma every_drop_is_accounted_witness:
  "\<exists>m'. m' = try_send demo_world demo_config False (demo_event 1) None None demo_running
     \<and> wqueue m' = [] \<and> hm_dropped m' = 1 \<and> hm_pending m' = 1
     \<and> (\<exists>reports sent. wqueue m' = wqueue demo_running @ reports
          @ (if sent then [EventMessage (set_sequence (hm_next m' - 1) (demo_event 1)) None None] else []))"
proof -
  let ?m = "try_send demo_world demo_config False (demo_event 1) None None demo_running"
  have "wqueue ?m = []" "hm_dropped ?m = 1" "hm_pending ?m = 1"
    by (simp_all add: try_send_def record_drop_def wqueue_def demo_running_def demo_manager_def demo_writer_def)
  with every_drop_is_accounted [OF refl, of demo_world demo_config False "demo_event 1" None None demo_running]
  show ?thesis by metis
qed

end
