(* ===== verification/Spec2Isabelle.thy ===== *)
theory Spec2Isabelle
  imports ElementToken CaptureScope SessionProps SessionRaces Policy SessionManifest ManifestLoad
    Admission ConsentProps ForegroundSegment BrowserEngineProps ToolArgsProps DispatchRefusals
    ExpectationProps ActionRecordProps SemanticLoop SessionToolsProps DesktopAuthority RecordingLoader
    TextSanitize WindowTarget HistoryWitness
begin

text \<open>
  A verification development for the authority core of the cua driver, the Rust crate
  \<open>src/libs/cua-driver/rust/crates/cua-driver-core\<close>. The driver lets agents operate desktop
  applications; its core decides which call of which session may touch which resource. This
  development models that core as pure functions over explicit states and proves what makes it
  safe.

  \<^bold>\<open>Parts of the program and how they meet.\<close> A tool call arrives on a transport with a public
  session label. \<open>session.rs\<close> admits it to the session (a dispatch guard), or refuses it when
  the session has ended, is ending, or belongs to another transport. \<open>capture_scope.rs\<close> checks
  that the call's scope is one the session may act in. \<open>authorization.rs\<close> classifies its risk
  and applies the invariants of the permission mode, \<open>policy.rs\<close> applies the managed and the
  user policy, and \<open>session_manifest.rs\<close> the capability manifest of the authority context that
  \<open>session_authorization.rs\<close> bound to the connection. A call that names an element is then
  resolved by \<open>element_token.rs\<close> against the snapshot the caller saw. A call that touches a
  protected resource asks \<open>consent.rs\<close> for a grant, and attaching to a user's browser profile
  keeps one in \<open>browser/grant.rs\<close>. \<open>tool.rs\<close> puts these together: \<open>invoke_authorized\<close> normalizes
  the arguments, gives the session its private name, passes every gate in order, commits the
  authority, admits the call to its session and only then runs the tool. Input that reaches a
  window goes through the decision of \<open>background_input.rs\<close> or a segment of
  \<open>foreground_segment.rs\<close>, which \<open>foreground_activity.rs\<close> lets run only while the user is idle;
  a browser mutation goes through \<open>browser/engine.rs\<close>, which proves again, before each one, the
  binding that \<open>browser/binding.rs\<close> chose and \<open>browser/store.rs\<close> keeps.

  \<^bold>\<open>Theories.\<close>
  \<^item> \<open>Prelude\<close>: clock instants and durations in nanoseconds, association lists for the hash maps
    of the code, string tests. \<open>Text_Format\<close>: the standard library's number formatting and
    parsing, UTF-8 lengths, trimming. \<open>Json\<close>: JSON values and the accessors the code uses, and
    \<open>tool_args.rs\<close>'s sanitiser of the reserved arguments.
  \<^item> \<open>ElementToken\<close>: \<open>TokenRegistry\<close>, its LRU lanes and the element arguments of a tool.
  \<^item> \<open>CaptureScope\<close>: \<open>SessionCaptureScope\<close>, escalation, \<open>enforce_tool\<close>; the locale
    \<open>session_tombstones\<close> is what it relies on from the session component.
  \<^item> \<open>SessionState\<close>, \<open>SessionLifecycle\<close>: the tables of \<open>session.rs\<close>, one definition per critical
    section and one per public function. \<open>SessionHistory\<close>: the operations as one step function,
    the invariant of the state and its preservation. \<open>SessionProps\<close>: the properties over all
    histories. \<open>SessionRaces\<close>: the critical sections as an interleaved step relation.
  \<^item> \<open>Authorization\<close>: modes, risk classes, enforcement adapters and classification.
  \<^item> \<open>Policy\<close>: YAML policies, the two layers, the policy digest.
  \<^item> \<open>Leases\<close>: the interface of an idle lease as a locale, interpreted on manifests.
  \<^item> \<open>SessionManifest\<close>, \<open>ManifestLoad\<close>: decisions, protected resources and lifetimes of a
    capability manifest; loading and validating its document.
  \<^item> \<open>SessionAuthorization\<close>, \<open>ContextHistory\<close>, \<open>ContextProps\<close>: the delegated authority contexts
    and their registry, its histories and invariant, its properties.
  \<^item> \<open>Admission\<close>: the gates a call passes, in order, and the checks at startup; the properties
    that span policies, contexts and manifests.
  \<^item> \<open>Consent\<close>, \<open>ConsentProps\<close>: \<open>consent.rs\<close>, the approval broker and the resource grants.
  \<^item> \<open>BrowserGrants\<close>: \<open>browser/grant.rs\<close>, the existing-profile grants of the browser engine.
  \<^item> \<open>BrowserStore\<close>, \<open>BrowserBinding\<close>: targets, tabs, snapshots and refs per session; the choice of
    the page a native window shows. \<open>BrowserEngine\<close>, \<open>BrowserEngineProps\<close>: endpoint access, the
    bounded reconnect, binding and the revalidation before a mutation.
  \<^item> \<open>ForegroundActivity\<close>, \<open>ForegroundSegment\<close>: the activity monitor and the segment with its
    reservations and cleanup, and the lifecycle it refines. \<open>BackgroundInput\<close>: the routing decision.
  \<^item> \<open>ToolArgs\<close>, \<open>ToolArgsProps\<close>: the spellings of a call's arguments, the private names of the
    runtime and their removal from results. \<open>ProtectedResources\<close>: the exact resource of a call and
    the consent it asks for. \<open>Dispatch\<close>, \<open>DispatchProps\<close>, \<open>DispatchRefusals\<close>: \<open>invoke_authorized\<close> and
    what it guarantees.
  \<^item> \<open>ActionRecord\<close>, \<open>ActionRecordProps\<close>: \<open>action_record.rs\<close>, the record of what an action did, its
    projection to the public result, the adapter for legacy payloads and the end of a call.
  \<^item> \<open>Expectation\<close>, \<open>ExpectationProps\<close>: \<open>expectation.rs\<close>, the predicates of \<open>verify_state\<close> and its
    polling loop.
  \<^item> \<open>SemanticDom\<close>, \<open>SemanticPage\<close>, \<open>SemanticProps\<close>, \<open>SemanticLoop\<close>: \<open>browser/semantic.rs\<close>, the
    indices of a page, its composed nodes, what a page of a snapshot shows and its outline; a
    document whose page is never computed.
  \<^item> \<open>SessionTools\<close>, \<open>SessionToolsProps\<close>: \<open>session_tools.rs\<close>, the six tools a client manages its
    sessions with, over the session and the scope component. \<open>DesktopAuthority\<close>:
    \<open>desktop_authority.rs\<close>, the one lease a call on the whole desktop holds.
  \<^item> \<open>RecordingTimeline\<close>, \<open>RecordingProps\<close>, \<open>RecordingLoader\<close>: \<open>recording_zoom.rs\<close> and
    \<open>recording_loader.rs\<close>, where the camera of a replay looks at each instant.
  \<^item> \<open>TextSanitize\<close>: \<open>text_sanitize.rs\<close>, the markup a model left around its text. \<open>WindowTarget\<close>:
    \<open>window_target.rs\<close> and \<open>element_cache.rs\<close>, the window of a process and its cached elements.
  \<^item> \<open>HistoryEvents\<close>, \<open>HistoryDisk\<close>, \<open>HistoryRoot\<close>, \<open>HistoryStore\<close>, \<open>ToolCapabilities\<close>, \<open>HistoryManager\<close>,
    \<open>HistoryControl\<close>: \<open>history.rs\<close>, the encrypted record of what the driver did: its events and their
    validation, the directory it owns and the offline purge, the chunks of sealed events, the writer
    behind a bounded queue, the control operations, the query and the producers. \<open>HistoryFrames\<close>,
    \<open>HistoryWriter\<close>: what a step leaves alone. \<open>HistoryStoreProps\<close>, \<open>HistoryProps\<close>, \<open>HistoryDurable\<close>,
    \<open>HistoryLease\<close>, \<open>HistoryPurge\<close>, \<open>HistoryDrops\<close>: its properties, applied in a concrete world by \<open>HistoryWitness\<close>.

  \<^bold>\<open>Correspondence.\<close> A mutex-protected global is a component of an explicit state record; a
  function under one lock is one state function, a function that takes several locks is the
  composition of one function per critical section. Hash maps are association lists with
  distinct keys. Rust integers that wrap are words; \<open>Instant\<close> and \<open>Duration\<close> are counts of
  nanoseconds, clock readings are arguments. Errors are sums. Strings are byte lists in UTF-8.
  What is not in the crate is a parameter: session hooks and readers (\<open>host\<close>), the Rego engine
  and the regular expressions (\<open>engines\<close>), the URL parser, the filesystem, the SHA-256 digest
  and the environment variables. What the platform answers during one call - the attestations of
  the tool, the process table, the consent of the host, the clocks - is the record
  \<open>platform_answers\<close>, and a concrete tool is the function \<open>rt_run\<close>; a browser's CDP answers are
  \<open>browser_answers\<close>. The disk of the history is explicit, and its \<open>history_world\<close> answers every system
  call, which may fail, by the number of the call; the writer thread is the function of its first
  message, run when a caller waits for it. A guard that Rust drops at the end of a scope is released in the wrapper
  that took it (\<open>with_text_lane\<close>, \<open>leave_lifecycle\<close>). A panic is the refusal \<open>DispatchPanics\<close>.

  \<^bold>\<open>What the lemmas show.\<close> Reachability: histories of registry, scope and session operations
  keep their invariants, so the properties hold in every reachable state. Sessions: ownership
  and tombstones, exact guard accounting, deferred ends, exact idle eviction, cleanup that runs
  every hook to its first success, and the race that the critical sections leave open. Scopes:
  escalation is one-way and needs authority. Tokens: exactly which tokens resolve, what a new
  snapshot invalidates and keeps. Authorization: classification covers the adapters a call
  reaches, layers intersect, a loaded manifest only narrows, an undeclared resource is refused,
  a lapsed lease stays lapsed. Delegation: contexts stay within the ceiling, binding and
  resolving agree, revocation is terminal and reaches held handles. Admission: a call passes
  exactly when it passes every gate. Consent: no protected use without a grant or a declared
  behaviour, revoked grants are dead under every interleaving, reconnects are bounded and the
  duty to switch remote debugging off is conserved. Dispatch: a tool runs only after every gate, a
  manifest bounds every resource a call touches, a refused call leaves no trace, and the text lane
  is given back however a call ends. Browser: a mutation needs the whole proof of its target, and
  a binding needs authority over the profile. Foreground: a segment refines its lifecycle, and
  a granted call was undisturbed by the user. Action records: what is published is backed by a
  record, a legacy record never claims more than its payload, and the result reveals public
  facts only. Expectations: the loop ends, success needs consecutive satisfied samples, and a
  predicate is decided by trusted elements. Snapshots: the pages show every node once, a scope is
  a subtree, actions and occlusion are exactly characterised, and a page returns exactly when the
  parents of what it shows end. Session tools: a stranger is answered as for an unknown session, a
  started session is live, and the pages of the list show every session. Desktop: an observation
  is used up by the next mutation, and a doubt about cleanup is final. Replay: the camera follows
  the clicks and idle time is skipped in order. Text: only dangling tags are stripped. Windows: no
  window is guessed. History: no event is disclosed without an audit on the disk, a deletion destroys
  the keys, an acknowledged operation survives a restart, what was appended is read back, and a query
  answers the newest valid matches, whichever system calls fail; a purge destroys the keys before any
  ciphertext, the lease is held exactly while the history is on, and every dropped event is counted.

  \<^bold>\<open>Bounds.\<close> All recursions are structural or have a termination proof, but two: \<open>poll\<close> and
  \<open>depth_above\<close> are partial functions, whose \<open>None\<close> is not returning; the first is proved to
  return, of the second it is proved when it does. The only fuel is that of the
  reconnect loop: the attempts left of the grant plus one, which is enough, since every round
  uses up an attempt. The
  snapshot counter wraps at 32 bits, and the freshness of a minted id is stated for fewer than
  \<open>2 ^ 32\<close> registrations. Durations saturate at 64 bits of seconds as in the code.

  \<^bold>\<open>Not modelled.\<close> The platform back ends and the command line (operating-system services), the
  browser engine's CDP traffic, what only observes a call (cursor, recorder, preview), the writer
  and the renderer of recordings, the transports, the telemetry observations
  of a session, and the status documents for display. YAML and JSON grammars are those of their
  crates.
\<close>

end
